(* ===== verification/GoFloat.thy ===== *)
theory GoFloat
  imports Complex_Main "HOL-Library.Log_Nat"
begin

text \<open>
  Go's \<open>float64\<close>: IEEE 754 binary64 with round-to-nearest-even, as the Go specification
  requires. A value is a finite rational, an infinity or NaN; every arithmetic operation is the
  exact rational operation followed by \<open>rnd\<close>, the executable rounding to 53 significant
  bits with gradual underflow, and by the overflow test of \<open>f64_of_rat\<close>. The sign of zero
  is not kept: the code modelled in this development never divides by a computed zero and never
  asks for the sign bit. The lemmas show what the components rest on: rounding is monotone,
  odd, and leaves every representable number as it is.
\<close>

subsection \<open>Binary exponent and rounding\<close>

definition binexp :: "rat \<Rightarrow> int" where
  "binexp x = (case quotient_of \<bar>x\<bar> of (n, d) \<Rightarrow>
     (let k = bitlen n - bitlen d in if 2 powi k \<le> \<bar>x\<bar> then k else k - 1))"

definition ulp_exp :: "rat \<Rightarrow> int" where
  "ulp_exp x = max (binexp x - 52) (- 1074)"

definition round_half_even :: "rat \<Rightarrow> int" where
  "round_half_even r =
     (let f = \<lfloor>r\<rfloor>; d = r - of_int f
      in if d < 1 / 2 then f else if d > 1 / 2 then f + 1 else if even f then f else f + 1)"

definition rnd :: "rat \<Rightarrow> rat" where
  "rnd x = (if x = 0 then 0
            else of_int (round_half_even (x / 2 powi ulp_exp x)) * 2 powi ulp_exp x)"

lemma powi2_pos [simp]: "(0 :: rat) < 2 powi e"
  by (simp add: zero_less_power_int)

lemma powi2_neq0 [simp]: "2 powi e \<noteq> (0 :: rat)"
  by simp

lemma powi2_mono: "a \<le> b \<Longrightarrow> (2 :: rat) powi a \<le> 2 powi b"
  by (simp add: power_int_increasing)

lemma powi2_le_iff [simp]: "(2 :: rat) powi a \<le> 2 powi b \<longleftrightarrow> a \<le> b"
  by (metis linorder_not_le one_less_numeral_iff power_int_strict_increasing powi2_mono semiring_norm(76))

lemma powi2_less_iff [simp]: "(2 :: rat) powi a < 2 powi b \<longleftrightarrow> a < b"
  by (meson linorder_not_le powi2_le_iff)

lemma powi2_add: "(2 :: rat) powi (a + b) = 2 powi a * 2 powi b"
  by (simp add: power_int_add)

lemma powi2_Suc: "(2 :: rat) powi (a + 1) = 2 * 2 powi a"
  by (simp add: power_int_add)

lemma powi2_is_int: "0 \<le> e \<Longrightarrow> (2 :: rat) powi e = of_int (2 ^ nat e)"
  by (simp add: power_int_def)

lemma rat_eq_quotient_of: "quotient_of x = (n, d) \<Longrightarrow> x = of_int n / of_int d"
  by (rule quotient_of_div)

lemma of_int_bounds_powi2:
  assumes "0 < m"
  shows "(2 :: rat) powi (bitlen m - 1) \<le> of_int m" and "of_int m < (2 :: rat) powi bitlen m"
proof -
  from assms have b: "1 \<le> bitlen m"
    using bitlen_eq_zero_iff [of m] bitlen_nonneg [of m] by linarith
  have "(2 ^ nat (bitlen m - 1) :: int) \<le> m" and u: "m < 2 ^ nat (bitlen m)"
    using bitlen_bounds [OF assms] by auto
  then have "(of_int (2 ^ nat (bitlen m - 1)) :: rat) \<le> of_int m"
    by (simp only: of_int_le_iff)
  with b show "(2 :: rat) powi (bitlen m - 1) \<le> of_int m"
    by (simp add: powi2_is_int)
  from u have "(of_int m :: rat) < of_int (2 ^ nat (bitlen m))"
    by (simp only: of_int_less_iff)
  with b show "of_int m < (2 :: rat) powi bitlen m"
    by (simp add: powi2_is_int)
qed

text \<open>The binary exponent is the one: \<open>2\<^sup>e \<le> |x| < 2\<^sup>e\<^sup>+\<^sup>1\<close>.\<close>

lemma binexp_bounds:
  assumes "x \<noteq> 0"
  shows "2 powi binexp x \<le> \<bar>x\<bar>" and "\<bar>x\<bar> < 2 powi (binexp x + 1)"
proof -
  obtain n d where q: "quotient_of \<bar>x\<bar> = (n, d)" by fastforce
  then have x: "\<bar>x\<bar> = of_int n / of_int d" by (rule quotient_of_div)
  from q have d: "0 < d" by (rule quotient_of_denom_pos)
  with x assms have n: "0 < n"
    by (metis abs_ge_zero abs_zero antisym_conv3 divide_less_0_iff leD of_int_0 of_int_0_less_iff of_int_less_0_iff
        zero_less_abs_iff divide_eq_0_iff abs_eq_0)
  define k where "k = bitlen n - bitlen d"
  note nb = of_int_bounds_powi2 [OF n] and db = of_int_bounds_powi2 [OF d]
  have "\<bar>x\<bar> < 2 powi bitlen n / 2 powi (bitlen d - 1)"
    unfolding x using nb db d n by (intro frac_less) (auto simp: less_imp_le)
  also have "\<dots> = 2 powi (k + 1)"
    unfolding k_def by (subst power_int_diff [symmetric]) (auto simp: algebra_simps)
  finally have up: "\<bar>x\<bar> < 2 powi (k + 1)" .
  have "2 powi (k - 1) = (2 powi (bitlen n - 1) / 2 powi bitlen d :: rat)"
    unfolding k_def by (subst power_int_diff [symmetric]) (auto simp: algebra_simps)
  also have "\<dots> \<le> \<bar>x\<bar>"
    unfolding x using nb db d n by (intro frac_le) (auto simp: less_imp_le)
  finally have lo: "2 powi (k - 1) \<le> \<bar>x\<bar>" .
  have e: "binexp x = (if 2 powi k \<le> \<bar>x\<bar> then k else k - 1)"
    by (simp add: binexp_def q k_def Let_def)
  show "2 powi binexp x \<le> \<bar>x\<bar>" and "\<bar>x\<bar> < 2 powi (binexp x + 1)"
    unfolding e using up lo by auto
qed

lemma binexp_le_iff: "x \<noteq> 0 \<Longrightarrow> \<bar>x\<bar> < 2 powi (e + 1) \<longleftrightarrow> binexp x \<le> e"
proof
  assume "x \<noteq> 0" and "\<bar>x\<bar> < 2 powi (e + 1)"
  then have "(2 :: rat) powi binexp x < 2 powi (e + 1)"
    using binexp_bounds(1) [of x] by linarith
  then show "binexp x \<le> e" by simp
next
  assume "x \<noteq> 0" and "binexp x \<le> e"
  then show "\<bar>x\<bar> < 2 powi (e + 1)"
    using binexp_bounds(2) [of x] powi2_mono [of "binexp x + 1" "e + 1"] by linarith
qed

lemma binexp_minus [simp]: "binexp (- x) = binexp x"
  by (simp add: binexp_def)

lemma ulp_exp_minus [simp]: "ulp_exp (- x) = ulp_exp x"
  by (simp add: ulp_exp_def)

subsection \<open>Rounding to an integer\<close>

lemma round_half_even_of_int [simp]: "round_half_even (of_int n) = n"
  by (simp add: round_half_even_def)

lemma round_half_even_near: "\<bar>of_int (round_half_even r) - r\<bar> \<le> 1 / 2"
proof -
  have "of_int \<lfloor>r\<rfloor> \<le> r" and "r < of_int \<lfloor>r\<rfloor> + 1"
    using floor_correct [of r] by simp_all
  then show ?thesis by (auto simp: round_half_even_def Let_def abs_le_iff field_simps)
qed

lemma round_half_even_mono: "r \<le> s \<Longrightarrow> round_half_even r \<le> round_half_even s"
proof -
  assume rs: "r \<le> s"
  then have f: "\<lfloor>r\<rfloor> \<le> \<lfloor>s\<rfloor>" by (rule floor_mono)
  have hi: "round_half_even r \<le> \<lfloor>r\<rfloor> + 1" and lo: "\<lfloor>s\<rfloor> \<le> round_half_even s"
    by (simp_all add: round_half_even_def Let_def)
  show ?thesis
  proof (cases "\<lfloor>r\<rfloor> = \<lfloor>s\<rfloor>")
    case True
    with rs show ?thesis by (simp add: round_half_even_def Let_def)
  next
    case False
    with f hi lo show ?thesis by linarith
  qed
qed

lemma round_half_even_minus: "round_half_even (- r) = - round_half_even r"
proof (cases "r \<in> \<int>")
  case True
  then obtain k where "r = of_int k" by (rule Ints_cases)
  then show ?thesis
    by (metis of_int_minus round_half_even_of_int)
next
  case False
  then have "\<lfloor>- r\<rfloor> = - \<lfloor>r\<rfloor> - 1"
    by (metis Ints_of_int add_diff_cancel_right' ceiling_altdef ceiling_def minus_minus diff_minus_eq_add
        minus_add_distrib of_int_floor uminus_add_conv_diff)
  then show ?thesis
    by (auto simp: round_half_even_def Let_def)
qed

subsection \<open>Rounding to binary64: odd, monotone, exact on representable numbers\<close>

lemma rnd_0 [simp]: "rnd 0 = 0"
  by (simp add: rnd_def)

lemma rnd_minus: "rnd (- x) = - rnd x"
  by (simp add: rnd_def round_half_even_minus)

lemma rnd_le_of_int:
  assumes "x \<noteq> 0" "x \<le> of_int m * 2 powi ulp_exp x"
  shows "rnd x \<le> of_int m * 2 powi ulp_exp x"
proof -
  from assms have "x / 2 powi ulp_exp x \<le> of_int m"
    by (simp add: divide_le_eq)
  then have "round_half_even (x / 2 powi ulp_exp x) \<le> m"
    using round_half_even_mono round_half_even_of_int by metis
  with assms show ?thesis by (simp add: rnd_def)
qed

lemma rnd_ge_of_int:
  assumes "x \<noteq> 0" "of_int m * 2 powi ulp_exp x \<le> x"
  shows "of_int m * 2 powi ulp_exp x \<le> rnd x"
proof -
  from assms have "of_int m \<le> x / 2 powi ulp_exp x"
    by (simp add: le_divide_eq)
  then have "m \<le> round_half_even (x / 2 powi ulp_exp x)"
    using round_half_even_mono round_half_even_of_int by metis
  with assms show ?thesis by (simp add: rnd_def)
qed

lemma rnd_nonneg: "0 \<le> x \<Longrightarrow> 0 \<le> rnd x"
  using rnd_ge_of_int [of x 0] by (cases "x = 0") auto

lemma powi2_as_grid:
  assumes "u \<le> e" shows "(2 :: rat) powi e = of_int (2 ^ nat (e - u)) * 2 powi u"
proof -
  have "(2 :: rat) powi e = 2 powi (e - u) * 2 powi u"
    by (subst powi2_add [symmetric]) simp
  with assms show ?thesis by (simp add: powi2_is_int)
qed

lemma rnd_mono_pos:
  assumes "0 < x" "x \<le> y" shows "rnd x \<le> rnd y"
proof -
  from assms have nz: "x \<noteq> 0" "y \<noteq> 0" by auto
  have be: "binexp x \<le> binexp y"
    using binexp_le_iff [OF nz(1), of "binexp y"] binexp_bounds(2) [OF nz(2)] assms by simp
  show ?thesis
  proof (cases "ulp_exp x = ulp_exp y")
    case True
    have "x / 2 powi ulp_exp y \<le> y / 2 powi ulp_exp y"
      using assms by (simp add: divide_right_mono)
    with True nz show ?thesis
      by (simp add: rnd_def round_half_even_mono)
  next
    case False
    with be have less: "binexp x < binexp y" and uy: "ulp_exp y = binexp y - 52"
      by (auto simp: ulp_exp_def max_def split: if_splits)
    with be have ux: "ulp_exp x \<le> binexp y"
      by (auto simp: ulp_exp_def max_def split: if_splits)
    from less have "x \<le> 2 powi binexp y"
      using binexp_bounds(2) [OF nz(1)] powi2_mono [of "binexp x + 1" "binexp y"] assms by linarith
    then have "rnd x \<le> 2 powi binexp y"
      using rnd_le_of_int [OF nz(1), of "2 ^ nat (binexp y - ulp_exp x)"] powi2_as_grid [OF ux] by simp
    also have "\<dots> \<le> rnd y"
      using rnd_ge_of_int [OF nz(2), of "2 ^ nat (binexp y - ulp_exp y)"] binexp_bounds(1) [OF nz(2)]
        powi2_as_grid [of "ulp_exp y" "binexp y"] uy assms by simp
    finally show ?thesis .
  qed
qed

lemma rnd_mono:
  assumes "x \<le> y" shows "rnd x \<le> rnd y"
proof -
  consider "0 < x" | "x \<le> 0" "0 \<le> y" | "y < 0" by linarith
  then show ?thesis
  proof cases
    case 1
    then show ?thesis using assms by (rule rnd_mono_pos)
  next
    case 2
    then show ?thesis
      using rnd_nonneg [of y] rnd_nonneg [of "- x"] by (simp add: rnd_minus)
  next
    case 3
    then show ?thesis
      using rnd_mono_pos [of "- y" "- x"] assms by (simp add: rnd_minus)
  qed
qed

text \<open>The numbers \<open>m \<sqdot> 2\<^sup>e\<close> with at most 53 significant bits are representable.\<close>

definition representable :: "rat \<Rightarrow> bool" where
  "representable x \<longleftrightarrow> (\<exists>m e. x = of_int m * 2 powi e \<and> \<bar>m\<bar> \<le> 2 ^ 53 \<and> - 1074 \<le> e)"

lemma rnd_on_grid:
  assumes "x \<noteq> 0" "x = of_int m * 2 powi u" "u = ulp_exp x"
  shows "rnd x = x"
proof -
  from assms have "x / 2 powi ulp_exp x = of_int m"
    by (metis nonzero_mult_div_cancel_right powi2_neq0)
  with assms show ?thesis
    by (metis rnd_def round_half_even_of_int)
qed

lemma rnd_representable:
  assumes "representable x" shows "rnd x = x"
proof (cases "x = 0")
  case False
  obtain m e where x: "x = of_int m * 2 powi e" and m: "\<bar>m\<bar> \<le> 2 ^ 53" and e: "- 1074 \<le> e"
    using assms by (auto simp: representable_def)
  show ?thesis
  proof (cases "ulp_exp x \<le> e")
    case True
    define k where "k = m * 2 ^ nat (e - ulp_exp x)"
    have "x = of_int k * 2 powi ulp_exp x"
      by (subst x, subst powi2_as_grid [OF True]) (simp add: k_def mult.assoc)
    with False show ?thesis by (intro rnd_on_grid) auto
  next
    case gt: False
    have m': "(of_int \<bar>m\<bar> :: rat) \<le> of_int (2 ^ 53)" using m by (simp only: of_int_le_iff)
    have "\<bar>x\<bar> = of_int \<bar>m\<bar> * 2 powi e" by (simp add: x abs_mult)
    also have "\<dots> \<le> of_int (2 ^ 53) * 2 powi e" using m' by (intro mult_right_mono) auto
    also have "\<dots> = 2 powi (e + 53)" using powi2_as_grid [of e "e + 53"] by simp
    finally have le: "\<bar>x\<bar> \<le> 2 powi (e + 53)" .
    from gt e have "e < binexp x - 52" by (auto simp: ulp_exp_def)
    then have ge: "2 powi (e + 53) \<le> \<bar>x\<bar>"
      using binexp_bounds(1) [OF False] powi2_mono [of "e + 53" "binexp x"] by linarith
    have be: "binexp x = e + 53"
    proof -
      have "(0 :: rat) < 2 powi (e + 53)" by simp
      then have "\<bar>x\<bar> < 2 powi (e + 53 + 1)" using le powi2_Suc [of "e + 53"] by linarith
      then have "binexp x \<le> e + 53" using binexp_le_iff [OF False] by blast
      with \<open>e < binexp x - 52\<close> show ?thesis by linarith
    qed
    with e have u: "ulp_exp x = e + 1" by (simp add: ulp_exp_def)
    have "\<bar>x\<bar> = 2 powi (e + 53)" using le ge by simp
    also have "\<dots> = of_int (2 ^ 52) * 2 powi ulp_exp x"
      unfolding u using powi2_as_grid [of "e + 1" "e + 53"] by simp
    finally have "x = of_int (if 0 \<le> x then 2 ^ 52 else - (2 ^ 52)) * 2 powi ulp_exp x"
      by (auto simp: abs_if split: if_splits)
    with False show ?thesis by (intro rnd_on_grid) auto
  qed
qed simp

lemma representable_of_int: "\<bar>n\<bar> \<le> 2 ^ 53 \<Longrightarrow> representable (of_int n)"
  unfolding representable_def by (rule exI [of _ n], rule exI [of _ 0]) simp

lemma rnd_of_int: "\<bar>n\<bar> \<le> 2 ^ 53 \<Longrightarrow> rnd (of_int n) = of_int n"
  by (rule rnd_representable [OF representable_of_int])

lemma representable_rnd: "representable (rnd x)"
proof (cases "x = 0")
  case True
  then show ?thesis using representable_of_int [of 0] by simp
next
  case False
  define u where "u = ulp_exp x"
  define k where "k = round_half_even (x / 2 powi u)"
  have "binexp x \<le> u + 52" by (simp add: u_def ulp_exp_def)
  then have "\<bar>x\<bar> < 2 powi (u + 53)"
    using binexp_le_iff [OF False, of "u + 52"] by (simp add: add.assoc)
  also have "\<dots> = of_int (2 ^ 53) * 2 powi u" using powi2_as_grid [of u "u + 53"] by simp
  finally have "x \<le> of_int (2 ^ 53) * 2 powi u" and "- (of_int (2 ^ 53) * 2 powi u) \<le> x"
    by (auto simp: abs_less_iff)
  then have "x / 2 powi u \<le> of_int (2 ^ 53)" and "- of_int (2 ^ 53) \<le> x / 2 powi u"
    by (simp_all only: divide_le_eq le_divide_eq powi2_pos if_True mult_minus_left)
  then have "k \<le> 2 ^ 53" and "- (2 ^ 53) \<le> k"
    unfolding k_def using round_half_even_mono [of "x / 2 powi u" "of_int (2 ^ 53)"]
      round_half_even_mono [of "of_int (- (2 ^ 53))" "x / 2 powi u"]
    by (simp_all only: round_half_even_of_int of_int_minus round_half_even_minus)
  moreover have "rnd x = of_int k * 2 powi u" by (simp add: rnd_def False k_def u_def)
  moreover have "- 1074 \<le> u" by (simp add: u_def ulp_exp_def)
  ultimately show ?thesis
    unfolding representable_def by (intro exI [of _ k] exI [of _ u]) (auto simp: abs_le_iff)
qed

lemma rnd_idem [simp]: "rnd (rnd x) = rnd x"
  by (rule rnd_representable [OF representable_rnd])

subsection \<open>Values and operations\<close>

datatype f64 = Fin rat | PInf | NInf | NaN

definition f64_of_rat :: "rat \<Rightarrow> f64" where
  "f64_of_rat x = (let r = rnd x in
     if 2 powi 1024 \<le> r then PInf else if r \<le> - (2 powi 1024) then NInf else Fin r)"

definition f64_of_int :: "int \<Rightarrow> f64" where
  "f64_of_int n = f64_of_rat (of_int n)"

fun f64_sgn :: "f64 \<Rightarrow> rat" where
  "f64_sgn (Fin a) = sgn a"
| "f64_sgn PInf = 1"
| "f64_sgn NInf = - 1"
| "f64_sgn NaN = 0"

fun fneg :: "f64 \<Rightarrow> f64" where
  "fneg (Fin a) = Fin (- a)"
| "fneg PInf = NInf"
| "fneg NInf = PInf"
| "fneg NaN = NaN"

fun fabs :: "f64 \<Rightarrow> f64" where
  "fabs (Fin a) = Fin \<bar>a\<bar>"
| "fabs NaN = NaN"
| "fabs _ = PInf"

fun fadd :: "f64 \<Rightarrow> f64 \<Rightarrow> f64" where
  "fadd (Fin a) (Fin b) = f64_of_rat (a + b)"
| "fadd NaN _ = NaN"
| "fadd _ NaN = NaN"
| "fadd PInf NInf = NaN"
| "fadd NInf PInf = NaN"
| "fadd PInf _ = PInf"
| "fadd _ PInf = PInf"
| "fadd NInf _ = NInf"
| "fadd _ NInf = NInf"

definition fsub :: "f64 \<Rightarrow> f64 \<Rightarrow> f64" where
  "fsub x y = fadd x (fneg y)"

definition f64_inf :: "rat \<Rightarrow> f64" where
  "f64_inf s = (if s = 0 then NaN else if 0 < s then PInf else NInf)"

fun fmul :: "f64 \<Rightarrow> f64 \<Rightarrow> f64" where
  "fmul (Fin a) (Fin b) = f64_of_rat (a * b)"
| "fmul NaN _ = NaN"
| "fmul _ NaN = NaN"
| "fmul x y = f64_inf (f64_sgn x * f64_sgn y)"

fun fdiv :: "f64 \<Rightarrow> f64 \<Rightarrow> f64" where
  "fdiv (Fin a) (Fin b) = (if b = 0 then f64_inf a else f64_of_rat (a / b))"
| "fdiv NaN _ = NaN"
| "fdiv _ NaN = NaN"
| "fdiv (Fin _) _ = Fin 0"
| "fdiv x (Fin b) = (if b < 0 then fneg x else x)"
| "fdiv _ _ = NaN"

fun flt :: "f64 \<Rightarrow> f64 \<Rightarrow> bool" where
  "flt (Fin a) (Fin b) = (a < b)"
| "flt NaN _ = False"
| "flt _ NaN = False"
| "flt PInf _ = False"
| "flt _ NInf = False"
| "flt _ _ = True"

fun feq :: "f64 \<Rightarrow> f64 \<Rightarrow> bool" where
  "feq NaN _ = False"
| "feq x y = (x = y)"

definition fle :: "f64 \<Rightarrow> f64 \<Rightarrow> bool" where
  "fle x y \<longleftrightarrow> flt x y \<or> feq x y"

fun is_nan :: "f64 \<Rightarrow> bool" where
  "is_nan NaN = True"
| "is_nan _ = False"

fun is_inf :: "f64 \<Rightarrow> bool" where
  "is_inf PInf = True"
| "is_inf NInf = True"
| "is_inf _ = False"

definition fmin :: "f64 \<Rightarrow> f64 \<Rightarrow> f64" where
  "fmin x y = (if x = NInf \<or> y = NInf then NInf else if is_nan x \<or> is_nan y then NaN
               else if flt x y then x else y)"

subsection \<open>Well-formed values and the order\<close>

fun f64_ok :: "f64 \<Rightarrow> bool" where
  "f64_ok (Fin r) = (rnd r = r \<and> \<bar>r\<bar> < 2 powi 1024)"
| "f64_ok _ = True"

lemma f64_of_rat_ok [simp]: "f64_ok (f64_of_rat x)"
  by (auto simp: f64_of_rat_def Let_def)

lemma f64_of_rat_not_nan [simp]: "\<not> is_nan (f64_of_rat x)" "f64_of_rat x \<noteq> NaN"
  by (auto simp: f64_of_rat_def Let_def)

lemma f64_of_rat_fin: "f64_ok (Fin r) \<Longrightarrow> f64_of_rat r = Fin r"
  by (auto simp: f64_of_rat_def Let_def)

lemma fneg_ok [simp]: "f64_ok (fneg x) = f64_ok x"
  by (cases x) (auto simp: rnd_minus)

lemma f64_inf_ok [simp]: "f64_ok (f64_inf s)"
  by (simp add: f64_inf_def)

lemma fadd_ok [simp]: "f64_ok (fadd x y)"
  by (cases x; cases y) simp_all

lemma fsub_ok [simp]: "f64_ok (fsub x y)"
  by (simp add: fsub_def)

lemma fmul_ok [simp]: "f64_ok (fmul x y)"
  by (cases x; cases y) simp_all

lemma fdiv_ok: "f64_ok x \<Longrightarrow> f64_ok (fdiv x y)"
  by (cases x; cases y) auto

lemma f64_of_int_ok [simp]: "f64_ok (f64_of_int n)"
  by (simp add: f64_of_int_def)

lemma fle_Fin [simp]: "fle (Fin a) (Fin b) \<longleftrightarrow> a \<le> b"
  by (auto simp: fle_def)

lemma fle_inf [simp]:
  "fle x PInf \<longleftrightarrow> x \<noteq> NaN" "fle NInf x \<longleftrightarrow> x \<noteq> NaN" "\<not> fle NaN x" "\<not> fle x NaN"
  "fle PInf x \<longleftrightarrow> x = PInf" "fle x NInf \<longleftrightarrow> x = NInf"
  by (cases x; simp add: fle_def)+

lemma fle_refl: "x \<noteq> NaN \<Longrightarrow> fle x x"
  by (cases x) auto

lemma fle_trans: "fle x y \<Longrightarrow> fle y z \<Longrightarrow> fle x z"
  by (cases x; cases y; cases z) auto

lemma fle_antisym: "fle x y \<Longrightarrow> fle y x \<Longrightarrow> x = y"
  by (cases x; cases y) auto

lemma not_flt: "x \<noteq> NaN \<Longrightarrow> y \<noteq> NaN \<Longrightarrow> \<not> flt x y \<longleftrightarrow> fle y x"
  by (cases x; cases y) auto

lemma flt_fle: "flt x y \<Longrightarrow> fle x y"
  by (simp add: fle_def)

lemma flt_irrefl [simp]: "\<not> flt x x"
  by (cases x) auto

text \<open>A rounded operation is monotone: rounding keeps the order, overflow included.\<close>

lemma f64_of_rat_mono: "a \<le> b \<Longrightarrow> fle (f64_of_rat a) (f64_of_rat b)"
  using rnd_mono [of a b] by (auto simp: f64_of_rat_def Let_def)

lemma fadd_mono:
  "fle a b \<Longrightarrow> fle c d \<Longrightarrow> fadd a c \<noteq> NaN \<Longrightarrow> fadd b d \<noteq> NaN \<Longrightarrow> fle (fadd a c) (fadd b d)"
  by (cases a; cases b; cases c; cases d) (auto intro!: f64_of_rat_mono)

lemma f64_of_rat_0 [simp]: "f64_of_rat 0 = Fin 0"
  by (simp add: f64_of_rat_def Let_def)

lemma f64_of_rat_nonneg: "0 \<le> a \<Longrightarrow> fle (Fin 0) (f64_of_rat a)"
  using f64_of_rat_mono [of 0 a] by simp

lemma fadd_nonneg: "fle (Fin 0) x \<Longrightarrow> fle (Fin 0) y \<Longrightarrow> fle (Fin 0) (fadd x y)"
  by (cases x; cases y) (auto intro!: f64_of_rat_nonneg)

lemma fsub_nonneg: "fle y x \<Longrightarrow> fsub x y \<noteq> NaN \<Longrightarrow> fle (Fin 0) (fsub x y)"
  by (cases x; cases y) (auto simp: fsub_def intro!: f64_of_rat_nonneg)

lemma fadd_0 [simp]: "f64_ok x \<Longrightarrow> fadd x (Fin 0) = x" "f64_ok x \<Longrightarrow> fadd (Fin 0) x = x"
  by (cases x; simp add: f64_of_rat_fin)+

lemma fmul_Fin_nonneg: "0 \<le> a \<Longrightarrow> 0 \<le> b \<Longrightarrow> fle (Fin 0) (fmul (Fin a) (Fin b))"
  by (simp add: f64_of_rat_nonneg)

lemma fmin_le2: "x \<noteq> NaN \<Longrightarrow> y \<noteq> NaN \<Longrightarrow> fle (fmin x y) y"
  by (cases x; cases y) (auto simp: fmin_def)

lemma fmin_le1: "x \<noteq> NaN \<Longrightarrow> y \<noteq> NaN \<Longrightarrow> fle (fmin x y) x"
  by (cases x; cases y) (auto simp: fmin_def)

lemma f64_of_int_small: "\<bar>n\<bar> \<le> 2 ^ 53 \<Longrightarrow> f64_of_int n = Fin (of_int n)"
proof -
  assume n: "\<bar>n\<bar> \<le> 2 ^ 53"
  have "(of_int \<bar>n\<bar> :: rat) \<le> of_int (2 ^ 53)" using n by (simp only: of_int_le_iff)
  also have "(of_int (2 ^ 53) :: rat) < 2 powi 1024"
    using powi2_less_iff [of 53 1024] powi2_is_int [of 53] by simp
  finally have "\<bar>of_int n :: rat\<bar> < 2 powi 1024" by simp
  with rnd_of_int [OF n] show ?thesis
    by (auto simp: f64_of_int_def intro: f64_of_rat_fin)
qed

end
