(* ===== verification/GoPrelude.thy ===== *)
theory GoPrelude
  imports Main "HOL-Library.Word" "HOL-Library.Sublist"
begin

text \<open>
  Shared vocabulary of the development: Go strings and the parts of packages \<open>strings\<close> and
  \<open>strconv\<close> the modelled code calls, and the generic lemmas on lists and options the
  components share. A Go string is its list of bytes, one \<open>char\<close> each, so \<open>length\<close> is
  Go's \<open>len\<close> and slicing is \<open>take\<close> and \<open>drop\<close>.
\<close>

named_theorems guard_defs \<open>definitions of the boolean guards of the modelled operations\<close>
named_theorems store_simps \<open>what a store operation leaves behind, one fact per field or row\<close>

type_synonym gostring = string
type_synonym int64 = int

definition min_int64 :: int where "min_int64 = - (2 ^ 63)"
definition max_int64 :: int where "max_int64 = 2 ^ 63 - 1"

definition in_int64 :: "int \<Rightarrow> bool" where
  "in_int64 n \<longleftrightarrow> min_int64 \<le> n \<and> n \<le> max_int64"

definition wrap64 :: "int \<Rightarrow> int" where "wrap64 n = (n + 2 ^ 63) mod 2 ^ 64 - 2 ^ 63"

lemma in_int64_wrap64 [simp]: "in_int64 (wrap64 n)"
  using pos_mod_bound [of "2 ^ 64" "n + 2 ^ 63"] pos_mod_sign [of "2 ^ 64" "n + 2 ^ 63"]
  by (simp add: in_int64_def min_int64_def max_int64_def wrap64_def)

lemma wrap64_id: "in_int64 n \<Longrightarrow> wrap64 n = n"
  by (simp add: in_int64_def min_int64_def max_int64_def wrap64_def)

text \<open>The first value that is there.\<close>

fun first_some :: "'a option list \<Rightarrow> 'a option" where
  "first_some [] = None"
| "first_some (x # xs) = (case x of Some e \<Rightarrow> Some e | None \<Rightarrow> first_some xs)"

subsection \<open>Association-list rows: the tables the SQL statements work on\<close>

text \<open>A table is the list of its rows; an \<open>UPDATE ... WHERE\<close> maps over the matching ones.\<close>

definition update_where :: "('r \<Rightarrow> bool) \<Rightarrow> ('r \<Rightarrow> 'r) \<Rightarrow> 'r list \<Rightarrow> 'r list" where
  "update_where P f rows = map (\<lambda>r. if P r then f r else r) rows"

definition affected :: "('r \<Rightarrow> bool) \<Rightarrow> 'r list \<Rightarrow> nat" where
  "affected P rows = length (filter P rows)"

lemma length_update_where [simp]: "length (update_where P f rows) = length rows"
  by (simp add: update_where_def)

lemma update_where_Nil [simp]: "update_where P f [] = []"
  by (simp add: update_where_def)

lemma update_where_Cons [simp]:
  "update_where P f (r # rows) = (if P r then f r else r) # update_where P f rows"
  by (simp add: update_where_def)

lemma affected_simps [simp]:
  "affected P [] = 0" "affected P (r # rows) = (if P r then Suc (affected P rows) else affected P rows)"
  by (simp_all add: affected_def)

lemma set_update_where:
  "set (update_where P f rows) = {r \<in> set rows. \<not> P r} \<union> f ` {r \<in> set rows. P r}"
  by (auto simp: update_where_def)

lemma affected_0_iff: "affected P rows = 0 \<longleftrightarrow> (\<forall>r \<in> set rows. \<not> P r)"
  by (auto simp: affected_def filter_empty_conv)

lemma update_where_id: "affected P rows = 0 \<Longrightarrow> update_where P f rows = rows"
  by (auto simp: affected_0_iff update_where_def intro: map_idI)

lemma map_update_where:
  "(\<And>r. P r \<Longrightarrow> g (f r) = g r) \<Longrightarrow> map g (update_where P f rows) = map g rows"
  by (simp add: update_where_def)

lemma find_update_where_other:
  assumes "\<And>r. P r \<Longrightarrow> \<not> Q r" "\<And>r. P r \<Longrightarrow> \<not> Q (f r)"
  shows "find Q (update_where P f rows) = find Q rows"
  using assms by (induction rows) auto

lemma find_update_where_same:
  assumes "\<And>r. P r \<Longrightarrow> Q (f r) = Q r"
  shows "find Q (update_where P f rows) = map_option (\<lambda>r. if P r then f r else r) (find Q rows)"
  using assms by (induction rows) auto

lemma find_append:
  "find P (xs @ ys) = (case find P xs of None \<Rightarrow> find P ys | Some x \<Rightarrow> Some x)"
  by (induction xs) auto

lemma find_SomeD: "find P xs = Some x \<Longrightarrow> x \<in> set xs \<and> P x"
  by (auto simp: find_Some_iff)

lemma find_distinct_key:
  "distinct (map k rows) \<Longrightarrow> r \<in> set rows \<Longrightarrow> find (\<lambda>r'. k r' = k r) rows = Some r"
  by (induction rows) (auto simp: image_iff)

subsection \<open>strings.TrimSpace\<close>

text \<open>
  The byte sequences of the code points for which \<open>unicode.IsSpace\<close> holds: the ASCII ones
  and the UTF-8 encodings of U+0085, U+00A0, U+1680, U+2000 to U+200A, U+2028, U+2029, U+202F,
  U+205F and U+3000. No sequence is a suffix or a prefix of another, so stripping them from
  either end is what decoding rune by rune does.
\<close>

definition space_seqs :: "gostring list" where
  "space_seqs =
     [[CHR 0x20], [CHR 0x09], [CHR 0x0A], [CHR 0x0B], [CHR 0x0C], [CHR 0x0D],
      [CHR 0xC2, CHR 0x85], [CHR 0xC2, CHR 0xA0], [CHR 0xE1, CHR 0x9A, CHR 0x80],
      [CHR 0xE2, CHR 0x80, CHR 0x80], [CHR 0xE2, CHR 0x80, CHR 0x81], [CHR 0xE2, CHR 0x80, CHR 0x82],
      [CHR 0xE2, CHR 0x80, CHR 0x83], [CHR 0xE2, CHR 0x80, CHR 0x84], [CHR 0xE2, CHR 0x80, CHR 0x85],
      [CHR 0xE2, CHR 0x80, CHR 0x86], [CHR 0xE2, CHR 0x80, CHR 0x87], [CHR 0xE2, CHR 0x80, CHR 0x88],
      [CHR 0xE2, CHR 0x80, CHR 0x89], [CHR 0xE2, CHR 0x80, CHR 0x8A], [CHR 0xE2, CHR 0x80, CHR 0xA8],
      [CHR 0xE2, CHR 0x80, CHR 0xA9], [CHR 0xE2, CHR 0x80, CHR 0xAF], [CHR 0xE2, CHR 0x81, CHR 0x9F],
      [CHR 0xE3, CHR 0x80, CHR 0x80]]"

fun strip_one :: "gostring list \<Rightarrow> gostring \<Rightarrow> gostring option" where
  "strip_one [] s = None"
| "strip_one (p # ps) s = (if prefix p s then Some (drop (length p) s) else strip_one ps s)"

function trim_left_with :: "gostring list \<Rightarrow> gostring \<Rightarrow> gostring" where
  "trim_left_with ps s =
     (case strip_one ps s of
        Some r \<Rightarrow> if length r < length s then trim_left_with ps r else s
      | None \<Rightarrow> s)"
  by pat_completeness auto
termination by (relation "measure (\<lambda>(ps, s). length s)") auto

declare trim_left_with.simps [simp del]

definition trim_left :: "gostring \<Rightarrow> gostring" where
  "trim_left s = trim_left_with space_seqs s"

definition trim_right :: "gostring \<Rightarrow> gostring" where
  "trim_right s = rev (trim_left_with (map rev space_seqs) (rev s))"

definition trim_space :: "gostring \<Rightarrow> gostring" where
  "trim_space s = trim_right (trim_left s)"

lemma strip_one_None: "strip_one ps s = None \<longleftrightarrow> (\<forall>p \<in> set ps. \<not> prefix p s)"
  by (induction ps) auto

lemma strip_one_Some: "strip_one ps s = Some r \<Longrightarrow> \<exists>p \<in> set ps. s = p @ r"
  by (induction ps) (auto split: if_splits elim: prefixE)

lemma suffix_trim_left_with: "suffix (trim_left_with ps s) s"
proof (induction ps s rule: trim_left_with.induct)
  case (1 ps s)
  show ?case
  proof (cases "strip_one ps s")
    case None
    then show ?thesis by (simp add: trim_left_with.simps [of ps s])
  next
    case (Some r)
    with strip_one_Some have "suffix r s" by (fastforce simp: suffix_def)
    with Some "1.IH" [OF Some] show ?thesis
      by (auto simp: trim_left_with.simps [of ps s] intro: suffix_order.trans)
  qed
qed

lemma strip_one_trim_left_with: "[] \<notin> set ps \<Longrightarrow> strip_one ps (trim_left_with ps s) = None"
proof (induction ps s rule: trim_left_with.induct)
  case (1 ps s)
  show ?case
  proof (cases "strip_one ps s")
    case None
    then show ?thesis by (simp add: trim_left_with.simps [of ps s])
  next
    case (Some r)
    then obtain p where "p \<in> set ps" "s = p @ r" using strip_one_Some by blast
    with "1.prems" have "length r < length s" by (cases p) auto
    with Some "1.IH" [OF Some] "1.prems" show ?thesis
      by (simp add: trim_left_with.simps [of ps s])
  qed
qed

lemma trim_left_with_fixed: "strip_one ps s = None \<Longrightarrow> trim_left_with ps s = s"
  by (simp add: trim_left_with.simps [of ps s])

lemma Nil_notin_space_seqs [simp]: "[] \<notin> set space_seqs" "[] \<notin> set (map rev space_seqs)"
  by (auto simp: space_seqs_def)

lemma prefix_trim_right: "prefix (trim_right s) s"
  using suffix_trim_left_with [of "map rev space_seqs" "rev s"]
  by (metis rev_rev_ident suffix_to_prefix trim_right_def)

lemma trim_space_Nil [simp]: "trim_space [] = []"
  using suffix_trim_left_with [of space_seqs "[]"] prefix_trim_right [of "[]"]
  by (simp add: trim_space_def trim_left_def)

text \<open>Trimming twice is trimming once, and the result is a contiguous part of the input.\<close>

lemma trim_left_trim_space: "trim_left (trim_space s) = trim_space s"
proof -
  let ?l = "trim_left s"
  have "\<forall>p \<in> set space_seqs. \<not> prefix p ?l"
    using strip_one_trim_left_with [of space_seqs s] by (simp add: strip_one_None trim_left_def)
  then have "\<forall>p \<in> set space_seqs. \<not> prefix p (trim_right ?l)"
    using prefix_trim_right [of ?l] prefix_order.trans by blast
  then show ?thesis
    by (simp add: trim_space_def trim_left_def [of "trim_right ?l" for s]
        trim_left_with_fixed strip_one_None trim_left_def)
qed

lemma trim_right_idem: "trim_right (trim_right s) = trim_right s"
  using strip_one_trim_left_with [OF Nil_notin_space_seqs(2), of "rev s"]
  by (simp add: trim_right_def trim_left_with_fixed)

lemma trim_space_idem [simp]: "trim_space (trim_space s) = trim_space s"
  by (metis trim_left_trim_space trim_right_idem trim_space_def)

lemma sublist_trim_space: "sublist (trim_space s) s"
  using prefix_trim_right [of "trim_left s"] suffix_trim_left_with [of space_seqs s]
  unfolding trim_space_def trim_left_def
  by (meson prefix_imp_sublist sublist_order.order_trans suffix_imp_sublist)

lemma length_trim_space: "length (trim_space s) \<le> length s"
  by (rule sublist_length_le [OF sublist_trim_space])

lemma set_trim_space: "set (trim_space s) \<subseteq> set s"
  by (rule set_mono_sublist [OF sublist_trim_space])


text \<open>A string of printable non-blank ASCII bytes is left as it is.\<close>

definition printable :: "char \<Rightarrow> bool" where
  "printable c \<longleftrightarrow> 33 \<le> (of_char c :: nat) \<and> (of_char c :: nat) \<le> 126"

lemma space_seqs_not_printable: "p \<in> set (space_seqs @ map rev space_seqs) \<Longrightarrow> \<exists>c \<in> set p. \<not> printable c"
proof -
  have "list_all (\<lambda>p. list_ex (\<lambda>c. \<not> printable c) p) (space_seqs @ map rev space_seqs)"
    by code_simp
  then show "p \<in> set (space_seqs @ map rev space_seqs) \<Longrightarrow> \<exists>c \<in> set p. \<not> printable c"
    by (auto simp: list_all_iff list_ex_iff)
qed

lemma strip_one_printable:
  assumes "\<forall>c \<in> set s. printable c" "set ps \<subseteq> set (space_seqs @ map rev space_seqs)"
  shows "strip_one ps s = None"
  unfolding strip_one_None using assms space_seqs_not_printable set_mono_prefix by (metis in_mono)

lemma trim_left_with_keeps:
  "c \<in> set s \<Longrightarrow> \<forall>p \<in> set ps. c \<notin> set p \<Longrightarrow> c \<in> set (trim_left_with ps s)"
proof (induction ps s rule: trim_left_with.induct)
  case (1 ps s)
  show ?case
  proof (cases "strip_one ps s")
    case None
    then show ?thesis using "1.prems" by (simp add: trim_left_with_fixed)
  next
    case (Some r)
    then obtain p where p: "p \<in> set ps" "s = p @ r" using strip_one_Some by blast
    with "1.prems" have "c \<in> set r" by auto
    with Some "1.IH" [OF Some] "1.prems" show ?thesis
      by (simp add: trim_left_with.simps [of ps s])
  qed
qed

lemma trim_space_keeps: "c \<in> set s \<Longrightarrow> printable c \<Longrightarrow> c \<in> set (trim_space s)"
proof -
  assume "c \<in> set s" "printable c"
  have "\<forall>p \<in> set space_seqs. c \<notin> set p"
    using \<open>printable c\<close> by (auto simp: space_seqs_def printable_def)
  with \<open>c \<in> set s\<close> show ?thesis
    by (simp add: trim_space_def trim_left_def trim_right_def trim_left_with_keeps)
qed

lemma trim_space_printable:
  assumes "\<forall>c \<in> set s. printable c" shows "trim_space s = s"
proof -
  have "trim_left s = s"
    using strip_one_printable [OF assms, of space_seqs] by (simp add: trim_left_def trim_left_with_fixed)
  moreover have "trim_right s = s"
    using strip_one_printable [of "rev s" "map rev space_seqs"] assms
    by (simp add: trim_right_def trim_left_with_fixed)
  ultimately show ?thesis by (simp add: trim_space_def)
qed

subsection \<open>strconv: decimal integers\<close>

definition digit_char :: "nat \<Rightarrow> char" where
  "digit_char d = char_of (48 + d)"

fun dec_of_nat :: "nat \<Rightarrow> gostring" where
  "dec_of_nat n = (if n < 10 then [digit_char n] else dec_of_nat (n div 10) @ [digit_char (n mod 10)])"

declare dec_of_nat.simps [simp del]

text \<open>\<open>strconv.Itoa\<close> and \<open>strconv.FormatInt(n, 10)\<close>.\<close>

definition itoa :: "int \<Rightarrow> gostring" where
  "itoa n = (if n < 0 then CHR 0x2D # dec_of_nat (nat (- n)) else dec_of_nat (nat n))"

definition is_digit :: "char \<Rightarrow> bool" where
  "is_digit c \<longleftrightarrow> 48 \<le> (of_char c :: nat) \<and> (of_char c :: nat) \<le> 57"

definition digit_val :: "char \<Rightarrow> nat" where
  "digit_val c = of_char c - 48"

fun nat_of_dec :: "nat \<Rightarrow> gostring \<Rightarrow> nat option" where
  "nat_of_dec acc [] = Some acc"
| "nat_of_dec acc (c # cs) = (if is_digit c then nat_of_dec (10 * acc + digit_val c) cs else None)"

text \<open>
  \<open>strconv.ParseInt(s, 10, 64)\<close> and \<open>strconv.Atoi\<close> on a 64-bit platform: an optional sign,
  at least one digit, nothing else, and the value within \<open>int64\<close>; otherwise an error.
\<close>

definition parse_int64 :: "gostring \<Rightarrow> int option" where
  "parse_int64 s =
     (let (neg, ds) = (case s of [] \<Rightarrow> (False, [])
                       | c # cs \<Rightarrow> if c = CHR 0x2D then (True, cs)
                                   else if c = CHR 0x2B then (False, cs) else (False, s))
      in if ds = [] then None
         else case nat_of_dec 0 ds of
                None \<Rightarrow> None
              | Some n \<Rightarrow> let v = (if neg then - int n else int n)
                          in if in_int64 v then Some v else None)"

lemma is_digit_digit_char: "d < 10 \<Longrightarrow> is_digit (digit_char d) \<and> digit_val (digit_char d) = d"
  by (simp add: is_digit_def digit_val_def digit_char_def)

lemma nat_of_dec_append:
  "nat_of_dec acc (xs @ ys) = (case nat_of_dec acc xs of None \<Rightarrow> None | Some a \<Rightarrow> nat_of_dec a ys)"
  by (induction xs arbitrary: acc) auto

lemma nat_of_dec_dec_of_nat: "nat_of_dec 0 (dec_of_nat n) = Some n"
proof (induction n rule: dec_of_nat.induct)
  case (1 n)
  show ?case
  proof (cases "n < 10")
    case True
    then show ?thesis by (simp add: dec_of_nat.simps [of n] is_digit_digit_char)
  next
    case False
    have "10 * (n div 10) + n mod 10 = n" by (rule mult_div_mod_eq)
    with "1.IH" [OF False] False show ?thesis
      by (simp add: dec_of_nat.simps [of n] nat_of_dec_append is_digit_digit_char)
  qed
qed

lemma dec_of_nat_digits: "\<forall>c \<in> set (dec_of_nat n). is_digit c"
proof (induction n rule: dec_of_nat.induct)
  case (1 n)
  then show ?case
    by (cases "n < 10") (auto simp: dec_of_nat.simps [of n] is_digit_digit_char)
qed

lemma dec_of_nat_not_Nil [simp]: "dec_of_nat n \<noteq> []"
  by (simp add: dec_of_nat.simps [of n])

lemma hd_dec_of_nat: "dec_of_nat n = c # cs \<Longrightarrow> c \<noteq> CHR 0x2D \<and> c \<noteq> CHR 0x2B"
  using dec_of_nat_digits [of n] by (auto simp: is_digit_def)

text \<open>Printing and parsing an \<open>int64\<close> is a round trip.\<close>

lemma parse_int64_itoa: "in_int64 n \<Longrightarrow> parse_int64 (itoa n) = Some n"
proof (cases "n < 0")
  case True
  then show "in_int64 n \<Longrightarrow> parse_int64 (itoa n) = Some n"
    by (simp add: itoa_def parse_int64_def nat_of_dec_dec_of_nat Let_def)
next
  case False
  obtain c cs where d: "dec_of_nat (nat n) = c # cs" using dec_of_nat_not_Nil by (metis list.exhaust)
  from False d hd_dec_of_nat [OF d] nat_of_dec_dec_of_nat [of "nat n"]
  show "in_int64 n \<Longrightarrow> parse_int64 (itoa n) = Some n"
    by (simp add: itoa_def parse_int64_def Let_def)
qed

lemma itoa_inj: "in_int64 m \<Longrightarrow> in_int64 n \<Longrightarrow> itoa m = itoa n \<Longrightarrow> m = n"
  by (metis option.inject parse_int64_itoa)

lemma itoa_not_Nil [simp]: "itoa n \<noteq> []"
  by (simp add: itoa_def)

lemma trim_space_itoa [simp]: "trim_space (itoa n) = itoa n"
  using dec_of_nat_digits
  by (intro trim_space_printable) (fastforce simp: itoa_def is_digit_def printable_def split: if_splits)

end
