(* ===== verification/GoTime.thy ===== *)
theory GoTime
  imports GoFloat GoPrelude
begin

text \<open>
  Package \<open>time\<close> as the services use it. An instant is its number of nanoseconds since the
  Unix epoch, a duration a number of nanoseconds; \<open>Sub\<close> saturates at the \<open>int64\<close> range as
  the library's does, and \<open>Seconds\<close> goes through \<open>float64\<close> as the library's does. A
  \<open>Location\<close> is its zone lookup: for a Unix second the offset in force there and the bounds
  of its validity. \<open>startOfDay\<close> and \<open>AddDate\<close> go to local time and back exactly as
  \<open>time.Date\<close> does.
\<close>

type_synonym time = int
type_synonym duration = int

abbreviation (input) Nanosecond :: duration where "Nanosecond \<equiv> 1"
definition Second :: duration where "Second = 1000000000"
definition Minute :: duration where "Minute = 60 * Second"
definition Hour :: duration where "Hour = 60 * Minute"

lemmas duration_defs = Second_def Minute_def Hour_def

definition After :: "time \<Rightarrow> time \<Rightarrow> bool" where [simp]: "After t u \<longleftrightarrow> u < t"
definition Before :: "time \<Rightarrow> time \<Rightarrow> bool" where [simp]: "Before t u \<longleftrightarrow> t < u"
definition Add :: "time \<Rightarrow> duration \<Rightarrow> time" where [simp]: "Add t d = t + d"

definition Sub :: "time \<Rightarrow> time \<Rightarrow> duration" where
  "Sub t u = max min_int64 (min max_int64 (t - u))"

lemma Sub_exact: "in_int64 (t - u) \<Longrightarrow> Sub t u = t - u"
  by (simp add: Sub_def in_int64_def)

text \<open>Go's integer division and remainder truncate towards zero.\<close>

definition quot :: "int \<Rightarrow> int \<Rightarrow> int" where
  "quot a b = sgn a * sgn b * (\<bar>a\<bar> div \<bar>b\<bar>)"

definition rem :: "int \<Rightarrow> int \<Rightarrow> int" where
  "rem a b = a - b * quot a b"

lemma quot_nonneg: "0 \<le> a \<Longrightarrow> 0 < b \<Longrightarrow> quot a b = a div b"
  by (auto simp: quot_def sgn_if)

lemma rem_nonneg: "0 \<le> a \<Longrightarrow> 0 < b \<Longrightarrow> rem a b = a mod b"
  by (simp add: rem_def quot_nonneg minus_mult_div_eq_mod)

text \<open>\<open>Duration.Seconds\<close> and \<open>Duration.Hours\<close>.\<close>

definition Seconds :: "duration \<Rightarrow> f64" where
  "Seconds d = fadd (f64_of_int (quot d Second)) (fdiv (f64_of_int (rem d Second)) (f64_of_int 1000000000))"

definition Hours :: "duration \<Rightarrow> f64" where
  "Hours d = fadd (f64_of_int (quot d Hour)) (fdiv (f64_of_int (rem d Hour)) (f64_of_int 3600000000000))"

text \<open>
  Conversion of a \<open>float64\<close> to \<open>int\<close> discards the fraction. The specification leaves the
  result open when it does not fit; \<open>toobig\<close> stands for what the platform gives then.
\<close>

definition f64_to_int :: "int \<Rightarrow> f64 \<Rightarrow> int" where
  "f64_to_int toobig x = (case x of
     Fin r \<Rightarrow> let n = (if 0 \<le> r then \<lfloor>r\<rfloor> else \<lceil>r\<rceil>) in if in_int64 n then n else toobig
   | _ \<Rightarrow> toobig)"

text \<open>A \<open>Location\<close>: zone lookup of a Unix second, \<open>(offset, start, end)\<close>.\<close>

type_synonym location = "int \<Rightarrow> int \<times> int \<times> int"

definition zone_offset :: "location \<Rightarrow> int \<Rightarrow> int" where
  "zone_offset loc sec = fst (loc sec)"

text \<open>\<open>time.Date\<close>: the Unix second of a local second.\<close>

definition date_unix :: "location \<Rightarrow> int \<Rightarrow> int" where
  "date_unix loc lsec =
     (case loc lsec of (off, st, en) \<Rightarrow>
        if off = 0 then lsec
        else let utc = lsec - off
             in if utc < st \<or> en \<le> utc then lsec - zone_offset loc utc else utc)"

definition local_sec :: "location \<Rightarrow> time \<Rightarrow> int" where
  "local_sec loc t = t div Second + zone_offset loc (t div Second)"

text \<open>\<open>t.AddDate(0, 0, n)\<close>: the same clock reading \<open>n\<close> days later in the location.\<close>

definition AddDays :: "location \<Rightarrow> time \<Rightarrow> int \<Rightarrow> time" where
  "AddDays loc t n = date_unix loc (local_sec loc t + n * 86400) * Second + t mod Second"

definition startOfDay_in :: "location \<Rightarrow> time \<Rightarrow> time" where
  "startOfDay_in loc t = (let l = local_sec loc t in date_unix loc (l - l mod 86400) * Second)"

text \<open>A location with one fixed offset, \<open>time.UTC\<close> among them.\<close>

definition fixed_zone :: "int \<Rightarrow> location" where
  "fixed_zone off = (\<lambda>_. (off, - (2 ^ 63), 2 ^ 63))"

definition UTC :: location where "UTC = fixed_zone 0"

lemma zone_offset_fixed [simp]: "zone_offset (fixed_zone off) s = off"
  by (simp add: zone_offset_def fixed_zone_def)

lemma date_unix_fixed [simp]: "date_unix (fixed_zone off) l = l - off"
  by (simp add: date_unix_def fixed_zone_def zone_offset_def Let_def)

lemma AddDays_fixed: "AddDays (fixed_zone off) t n = t + n * (24 * Hour)"
proof -
  have "t = t div Second * Second + t mod Second" by simp
  then show ?thesis
    by (simp add: AddDays_def local_sec_def duration_defs algebra_simps)
qed

lemma AddDays_UTC: "AddDays UTC t n = t + n * (24 * Hour)"
  by (simp add: UTC_def AddDays_fixed)

lemma startOfDay_fixed:
  "startOfDay_in (fixed_zone off) t \<le> t \<and> t < startOfDay_in (fixed_zone off) t + 24 * Hour"
proof -
  define s where "s = t div Second"
  have t: "s * Second \<le> t" "t < (s + 1) * Second"
    by (auto simp: s_def duration_defs)
  define l where "l = s + off"
  have m: "0 \<le> l mod 86400" "l mod 86400 < 86400" by auto
  have "startOfDay_in (fixed_zone off) t = (l - l mod 86400 - off) * Second"
    by (simp add: startOfDay_in_def local_sec_def l_def s_def Let_def)
  with t m show ?thesis by (auto simp: l_def duration_defs)
qed

end
