(* ===== verification/AppErrors.thy ===== *)
theory AppErrors
  imports GoPrelude
begin

text \<open>
  Package \<open>internal/pkg/errors\<close> (files \<open>errors.go\<close>, \<open>http.go\<close>, \<open>types.go\<close>): the
  application error carried by every service, how it wraps a cause, and how it is found again in
  a chain of wrapped errors and turned into an HTTP answer. A Go \<open>error\<close> is an application
  error, a plain error, or a message wrapped around another error with \<open>%w\<close>; a nil error or
  pointer is \<open>None\<close>. Maps are copied when an error is cloned, which in a pure model is the
  identity on the map's contents.
\<close>

datatype app_error = AppError
    (ae_code: "32 word") (ae_reason: gostring) (ae_message: gostring)
    (ae_metadata: "(gostring \<rightharpoonup> gostring) option") (ae_cause: "go_error option")
  and go_error = EApp app_error | EPlain gostring | EWrap gostring go_error

type_synonym 'a result = "go_error + 'a"

record http_status =
  hs_code :: "32 word"
  hs_reason :: gostring
  hs_message :: gostring
  hs_metadata :: "(gostring \<rightharpoonup> gostring) option"

definition UnknownCode :: int where "UnknownCode = 500"
definition UnknownReason :: gostring where "UnknownReason = ''''"
definition UnknownMessage :: gostring where "UnknownMessage = ''internal error''"

definition New :: "int \<Rightarrow> gostring \<Rightarrow> gostring \<Rightarrow> app_error" where
  "New code reason message = AppError (word_of_int code) reason message None None"

definition Clone :: "app_error option \<Rightarrow> app_error option" where
  "Clone err = (case err of None \<Rightarrow> None
     | Some e \<Rightarrow> Some (AppError (ae_code e) (ae_reason e) (ae_message e) (ae_metadata e) (ae_cause e)))"

text \<open>The receivers of \<open>WithCause\<close> and \<open>WithMetadata\<close> are never nil in the program.\<close>

definition WithCause :: "app_error \<Rightarrow> go_error option \<Rightarrow> app_error" where
  "WithCause e cause = (case the (Clone (Some e)) of
     AppError c r m md _ \<Rightarrow> AppError c r m md cause)"

definition WithMetadata :: "app_error \<Rightarrow> (gostring \<rightharpoonup> gostring) option \<Rightarrow> app_error" where
  "WithMetadata e md = (case the (Clone (Some e)) of
     AppError c r m _ cause \<Rightarrow> AppError c r m md cause)"

text \<open>\<open>errors.As\<close> with an \<open>*ApplicationError\<close> target: the first one along the \<open>Unwrap\<close> chain.\<close>

fun errors_as :: "go_error \<Rightarrow> app_error option" where
  "errors_as (EApp a) = Some a"
| "errors_as (EPlain m) = None"
| "errors_as (EWrap m e) = errors_as e"

definition app_is :: "app_error \<Rightarrow> go_error \<Rightarrow> bool" where
  "app_is e err = (case errors_as err of
     Some se \<Rightarrow> ae_code se = ae_code e \<and> ae_reason se = ae_reason e | None \<Rightarrow> False)"

text \<open>\<open>errors.Is\<close>: equality or the \<open>Is\<close> method, at each error of the chain.\<close>

fun errors_is :: "go_error \<Rightarrow> go_error \<Rightarrow> bool" where
  "errors_is (EApp (AppError c r m md cause)) t =
     (app_is (AppError c r m md cause) t \<or>
      (case cause of None \<Rightarrow> False | Some e \<Rightarrow> errors_is e t))"
| "errors_is (EPlain m) t = (t = EPlain m)"
| "errors_is (EWrap m e) t = (t = EWrap m e \<or> errors_is e t)"

definition FromError :: "go_error option \<Rightarrow> app_error option" where
  "FromError err = (case err of None \<Rightarrow> None
     | Some e \<Rightarrow> (case errors_as e of Some se \<Rightarrow> Some se
                 | None \<Rightarrow> Some (WithCause (New UnknownCode UnknownReason UnknownMessage) (Some e))))"

definition Code :: "go_error option \<Rightarrow> int" where
  "Code err = (case err of None \<Rightarrow> 200 | Some _ \<Rightarrow> sint (ae_code (the (FromError err))))"

definition Reason :: "go_error option \<Rightarrow> gostring" where
  "Reason err = (case err of None \<Rightarrow> UnknownReason | Some _ \<Rightarrow> ae_reason (the (FromError err)))"

definition Message :: "go_error option \<Rightarrow> gostring" where
  "Message err = (case err of None \<Rightarrow> '''' | Some _ \<Rightarrow> ae_message (the (FromError err)))"

definition ToHTTP :: "go_error option \<Rightarrow> int \<times> http_status" where
  "ToHTTP err = (case FromError err of
     None \<Rightarrow> (200, \<lparr>hs_code = 200, hs_reason = '''', hs_message = '''', hs_metadata = None\<rparr>)
   | Some a \<Rightarrow> (sint (ae_code a),
       \<lparr>hs_code = ae_code a, hs_reason = ae_reason a, hs_message = ae_message a,
        hs_metadata = ae_metadata a\<rparr>))"

definition BadRequest :: "gostring \<Rightarrow> gostring \<Rightarrow> app_error" where
  "BadRequest reason message = New 400 reason message"
definition TooManyRequests :: "gostring \<Rightarrow> gostring \<Rightarrow> app_error" where
  "TooManyRequests reason message = New 429 reason message"
definition Unauthorized :: "gostring \<Rightarrow> gostring \<Rightarrow> app_error" where
  "Unauthorized reason message = New 401 reason message"
definition Forbidden :: "gostring \<Rightarrow> gostring \<Rightarrow> app_error" where
  "Forbidden reason message = New 403 reason message"
definition NotFound :: "gostring \<Rightarrow> gostring \<Rightarrow> app_error" where
  "NotFound reason message = New 404 reason message"
definition Conflict :: "gostring \<Rightarrow> gostring \<Rightarrow> app_error" where
  "Conflict reason message = New 409 reason message"
definition InternalServer :: "gostring \<Rightarrow> gostring \<Rightarrow> app_error" where
  "InternalServer reason message = New 500 reason message"
definition ServiceUnavailable :: "gostring \<Rightarrow> gostring \<Rightarrow> app_error" where
  "ServiceUnavailable reason message = New 503 reason message"
definition GatewayTimeout :: "gostring \<Rightarrow> gostring \<Rightarrow> app_error" where
  "GatewayTimeout reason message = New 504 reason message"
definition ClientClosed :: "gostring \<Rightarrow> gostring \<Rightarrow> app_error" where
  "ClientClosed reason message = New 499 reason message"

definition IsBadRequest :: "go_error option \<Rightarrow> bool" where "IsBadRequest err \<longleftrightarrow> Code err = 400"
definition IsTooManyRequests :: "go_error option \<Rightarrow> bool" where "IsTooManyRequests err \<longleftrightarrow> Code err = 429"
definition IsUnauthorized :: "go_error option \<Rightarrow> bool" where "IsUnauthorized err \<longleftrightarrow> Code err = 401"
definition IsForbidden :: "go_error option \<Rightarrow> bool" where "IsForbidden err \<longleftrightarrow> Code err = 403"
definition IsNotFound :: "go_error option \<Rightarrow> bool" where "IsNotFound err \<longleftrightarrow> Code err = 404"
definition IsConflict :: "go_error option \<Rightarrow> bool" where "IsConflict err \<longleftrightarrow> Code err = 409"
definition IsInternalServer :: "go_error option \<Rightarrow> bool" where "IsInternalServer err \<longleftrightarrow> Code err = 500"
definition IsServiceUnavailable :: "go_error option \<Rightarrow> bool" where
  "IsServiceUnavailable err \<longleftrightarrow> Code err = 503"
definition IsGatewayTimeout :: "go_error option \<Rightarrow> bool" where "IsGatewayTimeout err \<longleftrightarrow> Code err = 504"
definition IsClientClosed :: "go_error option \<Rightarrow> bool" where "IsClientClosed err \<longleftrightarrow> Code err = 499"

lemmas err_constructors = BadRequest_def TooManyRequests_def Unauthorized_def Forbidden_def NotFound_def
  Conflict_def InternalServer_def ServiceUnavailable_def GatewayTimeout_def ClientClosed_def

lemma New_sel [simp]:
  "ae_code (New c r m) = word_of_int c" "ae_reason (New c r m) = r" "ae_message (New c r m) = m"
  "ae_metadata (New c r m) = None" "ae_cause (New c r m) = None"
  by (simp_all add: New_def)

lemma Clone_id [simp]: "Clone e = e"
  by (simp add: Clone_def split: option.split)

lemma WithCause_sel [simp]:
  "ae_code (WithCause e c) = ae_code e" "ae_reason (WithCause e c) = ae_reason e"
  "ae_message (WithCause e c) = ae_message e" "ae_metadata (WithCause e c) = ae_metadata e"
  "ae_cause (WithCause e c) = c"
  by (cases e; simp add: WithCause_def)+

lemma WithMetadata_sel [simp]:
  "ae_code (WithMetadata e m) = ae_code e" "ae_reason (WithMetadata e m) = ae_reason e"
  "ae_message (WithMetadata e m) = ae_message e" "ae_metadata (WithMetadata e m) = m"
  "ae_cause (WithMetadata e m) = ae_cause e"
  by (cases e; simp add: WithMetadata_def)+

lemma Reason_App [simp]: "Reason (Some (EApp a)) = ae_reason a"
  by (simp add: Reason_def FromError_def)

lemma Code_App [simp]: "Code (Some (EApp a)) = sint (ae_code a)"
  by (simp add: Code_def FromError_def)

lemma errors_as_wraps [simp]: "errors_as (foldr EWrap ms e) = errors_as e"
  by (induction ms) auto

lemma errors_is_wraps: "errors_is e t \<Longrightarrow> errors_is (foldr EWrap ms e) t"
  by (induction ms) auto

lemma errors_is_App: "app_is a t \<Longrightarrow> errors_is (EApp a) t"
  by (cases a) auto

lemma app_is_App [simp]: "app_is a (EApp b) \<longleftrightarrow> ae_code b = ae_code a \<and> ae_reason b = ae_reason a"
  by (simp add: app_is_def)

text \<open>
  An error answered over HTTP is the nearest application error of its chain, however often
  it was wrapped with \<open>%w\<close>: the same status, reason, message and metadata. An error with no
  application error in its chain is answered as a 500 with the fixed message, so its own text is
  not disclosed.
\<close>

theorem ToHTTP_of_chain:
  "ToHTTP (Some (foldr EWrap ms (EApp a))) =
     (sint (ae_code a), \<lparr>hs_code = ae_code a, hs_reason = ae_reason a, hs_message = ae_message a,
        hs_metadata = ae_metadata a\<rparr>) \<and>
   ToHTTP (Some (foldr EWrap ms (EPlain txt))) =
     (500, \<lparr>hs_code = 500, hs_reason = '''', hs_message = ''internal error'', hs_metadata = None\<rparr>)"
  by (simp add: ToHTTP_def FromError_def UnknownCode_def UnknownReason_def UnknownMessage_def)

text \<open>
  A sentinel error is still recognised by \<open>errors.Is\<close> after it was given a cause or
  metadata and was wrapped any number of times: \<open>WithCause\<close> and \<open>WithMetadata\<close> keep the
  code and the reason \<open>Is\<close> compares.
\<close>

theorem sentinel_survives_wrapping:
  "errors_is (foldr EWrap ms (EApp (WithMetadata (WithCause e c) md))) (EApp e)"
  by (intro errors_is_wraps errors_is_App) simp

end
