(* ===== verification/GoDB.thy ===== *)
theory GoDB
  imports GoTime AppErrors
begin

text \<open>
  Calls to the database, shared by every store of the development. A statement is a function on the
  table; a call runs it under a fault. \<open>Lost\<close>: the statement did not run. \<open>Unacked\<close>: it ran, but
  the caller saw an error (a lost acknowledgement). \<open>sql_update_one\<close> is ent's \<open>UpdateOneID\<close>, which
  fails when there is no such row; \<open>sql_update\<close> is \<open>Update().Where(...)\<close>, which returns the number
  of rows. \<open>translatePersistenceError\<close> of \<open>internal/repository/error_translate.go\<close> gives
  the error of a missing row.
\<close>

datatype fault = NoFault | Lost go_error | Unacked go_error

definition with_fault :: "fault \<Rightarrow> ('s \<Rightarrow> 'a \<times> 's) \<Rightarrow> 's \<Rightarrow> 'a result \<times> 's" where
  "with_fault f stmt s = (case f of
     NoFault \<Rightarrow> (case stmt s of (a, s') \<Rightarrow> (Inr a, s'))
   | Lost e \<Rightarrow> (Inl e, s)
   | Unacked e \<Rightarrow> (Inl e, snd (stmt s)))"

lemma with_fault_NoFault [simp]: "with_fault NoFault stmt s = (case stmt s of (a, s') \<Rightarrow> (Inr a, s'))"
  by (simp add: with_fault_def)

text \<open>A call whose statement keeps a property keeps it under every fault.\<close>

lemma with_fault_keeps:
  "P s \<Longrightarrow> (\<And>s. P s \<Longrightarrow> P (snd (stmt s))) \<Longrightarrow> P (snd (with_fault f stmt s))"
  by (auto simp: with_fault_def split: fault.split prod.split) (metis snd_conv)

text \<open>A statement that can itself fail: its error is the caller's.\<close>

definition with_fault_err :: "fault \<Rightarrow> ('s \<Rightarrow> 'a result \<times> 's) \<Rightarrow> 's \<Rightarrow> 'a result \<times> 's" where
  "with_fault_err f stmt s = (case f of
     NoFault \<Rightarrow> stmt s
   | Lost e \<Rightarrow> (Inl e, s)
   | Unacked e \<Rightarrow> (Inl e, snd (stmt s)))"

lemma with_fault_err_NoFault [simp]: "with_fault_err NoFault stmt s = stmt s"
  by (simp add: with_fault_err_def)

lemma with_fault_err_keeps:
  "P s \<Longrightarrow> (\<And>s. P s \<Longrightarrow> P (snd (stmt s))) \<Longrightarrow> P (snd (with_fault_err f stmt s))"
  by (auto simp: with_fault_err_def split: fault.split)

definition read_fault :: "fault \<Rightarrow> 'a result \<Rightarrow> 'a result" where
  "read_fault f res = (case f of NoFault \<Rightarrow> res | Lost e \<Rightarrow> Inl e | Unacked e \<Rightarrow> Inl e)"

lemma read_fault_NoFault [simp]: "read_fault NoFault res = res"
  by (simp add: read_fault_def)

lemma read_fault_Inr: "read_fault f res = Inr x \<Longrightarrow> res = Inr x"
  by (simp add: read_fault_def split: fault.splits)

definition ent_not_found :: go_error where "ent_not_found = EPlain ''ent: not found''"
definition sql_no_rows :: go_error where "sql_no_rows = EPlain ''sql: no rows in result set''"
definition unique_violation :: go_error where "unique_violation = EPlain ''duplicate key value''"

text \<open>
  Whether an error is a violated unique index is decided from the driver's error code and text:
  \<open>is_unique\<close>. A nil error or a nil translation is \<open>None\<close>.
\<close>

definition translatePersistenceError ::
    "(go_error \<Rightarrow> bool) \<Rightarrow> go_error option \<Rightarrow> app_error option \<Rightarrow> app_error option \<Rightarrow> go_error option" where
  "translatePersistenceError is_unique err notFound conflict = (case err of
     None \<Rightarrow> None
   | Some e \<Rightarrow>
       if notFound \<noteq> None \<and> (errors_is e sql_no_rows \<or> errors_is e ent_not_found)
       then Some (EApp (WithCause (the notFound) (Some e)))
       else if conflict \<noteq> None \<and> is_unique e then Some (EApp (WithCause (the conflict) (Some e)))
       else Some e)"

text \<open>What the stores below see of it: the service's error for a missing row, or for a duplicate one.\<close>

definition translate_not_found :: "app_error \<Rightarrow> go_error" where
  "translate_not_found notFound = EApp (WithCause notFound (Some ent_not_found))"

definition translate_conflict :: "app_error \<Rightarrow> go_error" where
  "translate_conflict conflict = EApp (WithCause conflict (Some unique_violation))"

lemma translatePersistenceError_cases:
  "translatePersistenceError u (Some ent_not_found) (Some nf) c = Some (translate_not_found nf)"
  "u unique_violation \<Longrightarrow>
   translatePersistenceError u (Some unique_violation) nf' (Some cf) = Some (translate_conflict cf)"
  by (simp_all add: translatePersistenceError_def translate_not_found_def translate_conflict_def
      ent_not_found_def sql_no_rows_def unique_violation_def)

definition sql_update_one :: "go_error \<Rightarrow> ('r \<Rightarrow> bool) \<Rightarrow> ('r \<Rightarrow> 'r) \<Rightarrow> 'r list \<Rightarrow> unit result \<times> 'r list" where
  "sql_update_one missing P f rows =
     (if affected P rows = 0 then (Inl missing, rows) else (Inr (), update_where P f rows))"

text \<open>Sequencing of calls that can fail, with \<open>fmt.Errorf\<close> around the error; an early return on error.\<close>

definition and_then :: "'a result \<times> 's \<Rightarrow> ('a \<Rightarrow> 's \<Rightarrow> 'b result \<times> 's) \<Rightarrow> 'b result \<times> 's" where
  "and_then r k = (case r of (Inl e, s) \<Rightarrow> (Inl e, s) | (Inr x, s) \<Rightarrow> k x s)"

definition wrap_err :: "gostring \<Rightarrow> 'a result \<times> 's \<Rightarrow> 'a result \<times> 's" where
  "wrap_err msg r = (case r of (Inl e, s) \<Rightarrow> (Inl (EWrap msg e), s) | (Inr x, s) \<Rightarrow> (Inr x, s))"

lemma and_then_simps [simp]:
  "and_then (Inl e, s) k = (Inl e, s)" "and_then (Inr x, s) k = k x s"
  by (simp_all add: and_then_def)

lemma wrap_err_simps [simp]:
  "wrap_err m (Inl e, s) = (Inl (EWrap m e), s)" "wrap_err m (Inr x, s) = (Inr x, s)"
  "snd (wrap_err m r) = snd r" "fst (wrap_err m r) = Inr y \<longleftrightarrow> fst r = Inr y"
  by (auto simp: wrap_err_def split: sum.split prod.split)

lemma and_then_keeps:
  "P (snd r) \<Longrightarrow> (\<And>x s. P s \<Longrightarrow> P (snd (k x s))) \<Longrightarrow> P (snd (and_then r k))"
  by (auto simp: and_then_def split: sum.split prod.split)

lemma and_then_Inr:
  "and_then r k = (Inr y, s') \<longleftrightarrow> (\<exists>x s. r = (Inr x, s) \<and> k x s = (Inr y, s'))"
  by (auto simp: and_then_def split: sum.split prod.split)

text \<open>
  A transaction: the body works on the state at its begin; an error in the body or at commit rolls
  it back, except that a commit may have happened although its acknowledgement was lost.
\<close>

definition run_tx :: "fault \<Rightarrow> fault \<Rightarrow> ('s \<Rightarrow> 'a result \<times> 's) \<Rightarrow> 's \<Rightarrow> 'a result \<times> 's" where
  "run_tx f_begin f_commit body s = (case f_begin of
     NoFault \<Rightarrow>
       (case body s of
          (Inl e, _) \<Rightarrow> (Inl e, s)
        | (Inr x, s') \<Rightarrow>
            (case f_commit of
               NoFault \<Rightarrow> (Inr x, s')
             | Lost e \<Rightarrow> (Inl (EWrap ''commit transaction'' e), s)
             | Unacked e \<Rightarrow> (Inl (EWrap ''commit transaction'' e), s')))
   | Lost e \<Rightarrow> (Inl (EWrap ''begin transaction'' e), s)
   | Unacked e \<Rightarrow> (Inl (EWrap ''begin transaction'' e), s))"

lemma run_tx_keeps:
  "P s \<Longrightarrow> P (snd (body s)) \<Longrightarrow> P (snd (run_tx fb fc body s))"
  by (auto simp: run_tx_def split: fault.split sum.split prod.split)

text \<open>All or nothing: the state after is the state before, or the body's whole effect.\<close>

lemma run_tx_atomic:
  "snd (run_tx fb fc body s) = s \<or> (\<exists>x. body s = (Inr x, snd (run_tx fb fc body s)))"
  by (auto simp: run_tx_def split: fault.split sum.split prod.split)

lemma run_tx_Inr: "fst (run_tx fb fc body s) = Inr x \<Longrightarrow> body s = (Inr x, snd (run_tx fb fc body s))"
  by (auto simp: run_tx_def split: fault.splits sum.splits prod.splits)

end
