(* ===== verification/IdempotencyStore.thy ===== *)
theory IdempotencyStore
  imports GoDB
begin

text \<open>
  The idempotency store: \<open>IdempotencyRecord\<close> and the interface \<open>IdempotencyRepository\<close> of
  \<open>internal/service/idempotency.go\<close>, and its SQL implementation in
  \<open>internal/repository/idempotency_repo.go\<close>. A table is the list of its rows with the id
  sequence; each statement is one atomic step on it. Every call can fail in the two ways a
  database call can (\<open>fault\<close> of the theory \<open>GoDB\<close>). Stored timestamps are exact. The locale \<open>claim_store\<close> is the contract
  the coordinator and the system operation lock rely on.
\<close>

definition IdempotencyStatusProcessing :: gostring where
  "IdempotencyStatusProcessing = ''processing''"
definition IdempotencyStatusSucceeded :: gostring where
  "IdempotencyStatusSucceeded = ''succeeded''"
definition IdempotencyStatusFailedRetryable :: gostring where
  "IdempotencyStatusFailedRetryable = ''failed_retryable''"

lemmas idem_status_defs = IdempotencyStatusProcessing_def IdempotencyStatusSucceeded_def
  IdempotencyStatusFailedRetryable_def

record idem_record =
  ir_id :: int64
  ir_scope :: gostring
  ir_key_hash :: gostring
  ir_fingerprint :: gostring
  ir_status :: gostring
  ir_response_status :: "int option"
  ir_response_body :: "gostring option"
  ir_error_reason :: "gostring option"
  ir_locked_until :: "time option"
  ir_expires_at :: time
  ir_created_at :: time
  ir_updated_at :: time

record idem_db =
  db_rows :: "idem_record list"
  db_next_id :: int64

definition same_key :: "gostring \<Rightarrow> gostring \<Rightarrow> idem_record \<Rightarrow> bool" where
  "same_key scope hash r \<longleftrightarrow> ir_scope r = scope \<and> ir_key_hash r = hash"

definition lock_free :: "time \<Rightarrow> idem_record \<Rightarrow> bool" where
  "lock_free now r \<longleftrightarrow> (case ir_locked_until r of None \<Rightarrow> True | Some t \<Rightarrow> t \<le> now)"

subsection \<open>The SQL statements\<close>

text \<open>
  \<open>INSERT ... ON CONFLICT DO NOTHING RETURNING\<close>: the sequence moves in either case; columns not
  named in the statement are NULL or \<open>NOW()\<close>. The result is whether a row came back and the
  caller's record with the returned columns scanned into it.
\<close>

definition sql_create :: "time \<Rightarrow> idem_record \<Rightarrow> idem_db \<Rightarrow> (bool \<times> idem_record) \<times> idem_db" where
  "sql_create dbnow rec db =
     (let rid = db_next_id db;
          rec' = rec\<lparr>ir_id := rid, ir_created_at := dbnow, ir_updated_at := dbnow\<rparr>;
          row = rec'\<lparr>ir_response_status := None, ir_response_body := None, ir_error_reason := None\<rparr>
      in if list_ex (same_key (ir_scope rec) (ir_key_hash rec)) (db_rows db)
         then ((False, rec), db\<lparr>db_next_id := rid + 1\<rparr>)
         else ((True, rec'), db\<lparr>db_rows := db_rows db @ [row], db_next_id := rid + 1\<rparr>))"

definition sql_get :: "gostring \<Rightarrow> gostring \<Rightarrow> idem_db \<Rightarrow> idem_record option" where
  "sql_get scope hash db = find (same_key scope hash) (db_rows db)"

definition reclaimable :: "int64 \<Rightarrow> gostring \<Rightarrow> time \<Rightarrow> idem_record \<Rightarrow> bool" where
  "reclaimable rid fromStatus now r \<longleftrightarrow> ir_id r = rid \<and> ir_status r = fromStatus \<and> lock_free now r"

definition reclaim_row :: "time \<Rightarrow> time \<Rightarrow> time \<Rightarrow> idem_record \<Rightarrow> idem_record" where
  "reclaim_row dbnow lockedUntil expiresAt r =
     r\<lparr>ir_status := IdempotencyStatusProcessing, ir_locked_until := Some lockedUntil,
       ir_error_reason := None, ir_updated_at := dbnow, ir_expires_at := expiresAt\<rparr>"

definition sql_reclaim ::
    "time \<Rightarrow> int64 \<Rightarrow> gostring \<Rightarrow> time \<Rightarrow> time \<Rightarrow> time \<Rightarrow> idem_db \<Rightarrow> bool \<times> idem_db" where
  "sql_reclaim dbnow rid fromStatus now newLockedUntil newExpiresAt db =
     (let P = reclaimable rid fromStatus now
      in (0 < affected P (db_rows db),
          db\<lparr>db_rows := update_where P (reclaim_row dbnow newLockedUntil newExpiresAt) (db_rows db)\<rparr>))"

definition extendable :: "int64 \<Rightarrow> gostring \<Rightarrow> idem_record \<Rightarrow> bool" where
  "extendable rid fingerprint r \<longleftrightarrow> ir_id r = rid \<and> ir_status r = IdempotencyStatusProcessing
     \<and> ir_fingerprint r = fingerprint"

definition sql_extend ::
    "time \<Rightarrow> int64 \<Rightarrow> gostring \<Rightarrow> time \<Rightarrow> time \<Rightarrow> idem_db \<Rightarrow> bool \<times> idem_db" where
  "sql_extend dbnow rid fingerprint newLockedUntil newExpiresAt db =
     (let P = extendable rid fingerprint
      in (0 < affected P (db_rows db),
          db\<lparr>db_rows := update_where P
               (\<lambda>r. r\<lparr>ir_locked_until := Some newLockedUntil, ir_expires_at := newExpiresAt,
                      ir_updated_at := dbnow\<rparr>) (db_rows db)\<rparr>))"

definition sql_mark_succeeded :: "time \<Rightarrow> int64 \<Rightarrow> int \<Rightarrow> gostring \<Rightarrow> time \<Rightarrow> idem_db \<Rightarrow> unit \<times> idem_db" where
  "sql_mark_succeeded dbnow rid responseStatus responseBody expiresAt db =
     ((), db\<lparr>db_rows := update_where (\<lambda>r. ir_id r = rid)
        (\<lambda>r. r\<lparr>ir_status := IdempotencyStatusSucceeded, ir_response_status := Some responseStatus,
               ir_response_body := Some responseBody, ir_error_reason := None,
               ir_locked_until := None, ir_expires_at := expiresAt, ir_updated_at := dbnow\<rparr>)
        (db_rows db)\<rparr>)"

definition sql_mark_failed :: "time \<Rightarrow> int64 \<Rightarrow> gostring \<Rightarrow> time \<Rightarrow> time \<Rightarrow> idem_db \<Rightarrow> unit \<times> idem_db" where
  "sql_mark_failed dbnow rid errorReason lockedUntil expiresAt db =
     ((), db\<lparr>db_rows := update_where (\<lambda>r. ir_id r = rid)
        (\<lambda>r. r\<lparr>ir_status := IdempotencyStatusFailedRetryable, ir_error_reason := Some errorReason,
               ir_locked_until := Some lockedUntil, ir_expires_at := expiresAt,
               ir_updated_at := dbnow\<rparr>)
        (db_rows db)\<rparr>)"

text \<open>
  \<open>DELETE\<close> of at most \<open>limit\<close> expired rows, the ones that expired first; rows with equal
  expiry are taken in table order.
\<close>

definition expired_victims :: "time \<Rightarrow> nat \<Rightarrow> idem_record list \<Rightarrow> int64 list" where
  "expired_victims now limit rows =
     map ir_id (take limit (sort_key ir_expires_at (filter (\<lambda>r. ir_expires_at r \<le> now) rows)))"

definition sql_delete_expired :: "time \<Rightarrow> nat \<Rightarrow> idem_db \<Rightarrow> int \<times> idem_db" where
  "sql_delete_expired now limit db =
     (let V = expired_victims now limit (db_rows db);
          keep = filter (\<lambda>r. \<not> List.member V (ir_id r)) (db_rows db)
      in (int (length (db_rows db)) - int (length keep), db\<lparr>db_rows := keep\<rparr>))"

subsection \<open>The repository methods: a statement under a fault\<close>

definition CreateProcessing ::
    "fault \<Rightarrow> time \<Rightarrow> idem_record option \<Rightarrow> idem_db \<Rightarrow> (bool \<times> idem_record option) result \<times> idem_db" where
  "CreateProcessing f dbnow rec db = (case rec of
     None \<Rightarrow> (Inr (False, None), db)
   | Some r \<Rightarrow> with_fault f (\<lambda>db. case sql_create dbnow r db of ((b, r'), db') \<Rightarrow> ((b, Some r'), db')) db)"

definition GetByScopeAndKeyHash ::
    "fault \<Rightarrow> gostring \<Rightarrow> gostring \<Rightarrow> idem_db \<Rightarrow> idem_record option result" where
  "GetByScopeAndKeyHash f scope hash db = (case f of
     NoFault \<Rightarrow> Inr (sql_get scope hash db) | Lost e \<Rightarrow> Inl e | Unacked e \<Rightarrow> Inl e)"

definition TryReclaim ::
    "fault \<Rightarrow> time \<Rightarrow> int64 \<Rightarrow> gostring \<Rightarrow> time \<Rightarrow> time \<Rightarrow> time \<Rightarrow> idem_db \<Rightarrow> bool result \<times> idem_db" where
  "TryReclaim f dbnow rid fromStatus now newLockedUntil newExpiresAt db =
     with_fault f (sql_reclaim dbnow rid fromStatus now newLockedUntil newExpiresAt) db"

definition ExtendProcessingLock ::
    "fault \<Rightarrow> time \<Rightarrow> int64 \<Rightarrow> gostring \<Rightarrow> time \<Rightarrow> time \<Rightarrow> idem_db \<Rightarrow> bool result \<times> idem_db" where
  "ExtendProcessingLock f dbnow rid fingerprint newLockedUntil newExpiresAt db =
     with_fault f (sql_extend dbnow rid fingerprint newLockedUntil newExpiresAt) db"

definition MarkSucceeded ::
    "fault \<Rightarrow> time \<Rightarrow> int64 \<Rightarrow> int \<Rightarrow> gostring \<Rightarrow> time \<Rightarrow> idem_db \<Rightarrow> unit result \<times> idem_db" where
  "MarkSucceeded f dbnow rid responseStatus responseBody expiresAt db =
     with_fault f (sql_mark_succeeded dbnow rid responseStatus responseBody expiresAt) db"

definition MarkFailedRetryable ::
    "fault \<Rightarrow> time \<Rightarrow> int64 \<Rightarrow> gostring \<Rightarrow> time \<Rightarrow> time \<Rightarrow> idem_db \<Rightarrow> unit result \<times> idem_db" where
  "MarkFailedRetryable f dbnow rid errorReason lockedUntil expiresAt db =
     with_fault f (sql_mark_failed dbnow rid errorReason lockedUntil expiresAt) db"

definition DeleteExpired :: "fault \<Rightarrow> time \<Rightarrow> int \<Rightarrow> idem_db \<Rightarrow> int result \<times> idem_db" where
  "DeleteExpired f now limit db =
     with_fault f (sql_delete_expired now (nat (if limit \<le> 0 then 500 else limit))) db"

subsection \<open>The table invariant: unique keys, unique ids below the sequence\<close>

definition db_inv :: "idem_db \<Rightarrow> bool" where
  "db_inv db \<longleftrightarrow> distinct (map (\<lambda>r. (ir_scope r, ir_key_hash r)) (db_rows db))
     \<and> distinct (map ir_id (db_rows db))
     \<and> (\<forall>r \<in> set (db_rows db). 0 < ir_id r \<and> ir_id r < db_next_id db)
     \<and> 0 < db_next_id db"

definition empty_db :: idem_db where
  "empty_db = \<lparr>db_rows = [], db_next_id = 1\<rparr>"

lemma empty_db_inv [simp]: "db_inv empty_db"
  by (simp add: db_inv_def empty_db_def)

text \<open>An update that keeps the key and the id of every row keeps the invariant.\<close>

lemma db_inv_update_where:
  assumes "db_inv db" and "\<And>r. P r \<Longrightarrow> ir_scope (f r) = ir_scope r"
    "\<And>r. P r \<Longrightarrow> ir_key_hash (f r) = ir_key_hash r" "\<And>r. P r \<Longrightarrow> ir_id (f r) = ir_id r"
  shows "db_inv (db\<lparr>db_rows := update_where P f (db_rows db)\<rparr>)"
proof -
  have "map (\<lambda>r. (ir_scope r, ir_key_hash r)) (update_where P f (db_rows db))
      = map (\<lambda>r. (ir_scope r, ir_key_hash r)) (db_rows db)"
    using assms by (intro map_update_where) auto
  moreover have "map ir_id (update_where P f (db_rows db)) = map ir_id (db_rows db)"
    using assms by (intro map_update_where) auto
  moreover have "\<forall>r \<in> set (update_where P f (db_rows db)). 0 < ir_id r \<and> ir_id r < db_next_id db"
    using assms by (auto simp: set_update_where db_inv_def)
  ultimately show ?thesis using assms(1) by (auto simp: db_inv_def)
qed

lemma list_ex_find: "list_ex P xs \<longleftrightarrow> find P xs \<noteq> None"
  by (auto simp: find_None_iff list_ex_iff)

lemma sql_create_inv: "db_inv db \<Longrightarrow> db_inv (snd (sql_create dbnow rec db))"
  by (force simp: db_inv_def sql_create_def Let_def list_ex_iff same_key_def)

lemma sql_reclaim_inv: "db_inv db \<Longrightarrow> db_inv (snd (sql_reclaim dbnow i from now lu ex db))"
  by (simp add: sql_reclaim_def Let_def reclaim_row_def db_inv_update_where)

lemma sql_extend_inv: "db_inv db \<Longrightarrow> db_inv (snd (sql_extend dbnow i fp lu ex db))"
  by (simp add: sql_extend_def Let_def db_inv_update_where)

lemma sql_mark_succeeded_inv: "db_inv db \<Longrightarrow> db_inv (snd (sql_mark_succeeded dbnow i st body ex db))"
  by (simp add: sql_mark_succeeded_def db_inv_update_where)

lemma sql_mark_failed_inv: "db_inv db \<Longrightarrow> db_inv (snd (sql_mark_failed dbnow i reason lu ex db))"
  by (simp add: sql_mark_failed_def db_inv_update_where)

lemma sql_delete_expired_inv: "db_inv db \<Longrightarrow> db_inv (snd (sql_delete_expired now n db))"
  by (auto simp: db_inv_def sql_delete_expired_def Let_def intro: distinct_map_filter)

lemmas sql_inv = sql_create_inv sql_reclaim_inv sql_extend_inv sql_mark_succeeded_inv
  sql_mark_failed_inv sql_delete_expired_inv

lemma with_fault_inv:
  "db_inv db \<Longrightarrow> (\<And>db. db_inv db \<Longrightarrow> db_inv (snd (stmt db))) \<Longrightarrow> db_inv (snd (with_fault f stmt db))"
  by (auto simp: with_fault_def split: fault.split prod.split) (metis snd_conv)

subsection \<open>What each statement does to the row of a key\<close>

lemma sql_create_fst [store_simps]:
  "fst (fst (sql_create dbnow rec db)) \<longleftrightarrow> sql_get (ir_scope rec) (ir_key_hash rec) db = None"
  by (simp add: sql_create_def sql_get_def list_ex_find Let_def)

lemma sql_get_create_new:
  assumes "sql_get (ir_scope rec) (ir_key_hash rec) db = None"
  shows "sql_get (ir_scope rec) (ir_key_hash rec) (snd (sql_create dbnow rec db)) =
    Some (rec\<lparr>ir_id := db_next_id db, ir_created_at := dbnow, ir_updated_at := dbnow,
      ir_response_status := None, ir_response_body := None, ir_error_reason := None\<rparr>)"
  using assms
  by (simp add: sql_get_def sql_create_def Let_def list_ex_find find_append same_key_def)

lemma sql_get_create_other:
  assumes "sc \<noteq> ir_scope rec \<or> kh \<noteq> ir_key_hash rec \<or> sql_get (ir_scope rec) (ir_key_hash rec) db \<noteq> None"
  shows "sql_get sc kh (snd (sql_create dbnow rec db)) = sql_get sc kh db"
  using assms
  by (auto simp: sql_get_def sql_create_def Let_def list_ex_find find_append same_key_def
      split: option.split)

lemma sql_get_key: "sql_get sc kh db = Some r \<Longrightarrow> ir_scope r = sc \<and> ir_key_hash r = kh"
  by (auto simp: sql_get_def same_key_def dest: find_SomeD)

lemma sql_get_mem: "sql_get sc kh db = Some r \<Longrightarrow> r \<in> set (db_rows db)"
  by (auto simp: sql_get_def dest: find_SomeD)

lemma sql_get_id_pos: "db_inv db \<Longrightarrow> sql_get sc kh db = Some r \<Longrightarrow> 0 < ir_id r"
  using sql_get_mem by (auto simp: db_inv_def)

text \<open>The id of a row identifies it: no other row matches a statement's \<open>WHERE id = ...\<close>.\<close>

lemma db_inv_id_unique:
  "db_inv db \<Longrightarrow> r \<in> set (db_rows db) \<Longrightarrow> r' \<in> set (db_rows db) \<Longrightarrow> ir_id r' = ir_id r \<Longrightarrow> r' = r"
  by (auto simp: db_inv_def distinct_map inj_on_def)

lemma affected_id:
  assumes "db_inv db" "r \<in> set (db_rows db)" "\<And>r'. P r' \<Longrightarrow> ir_id r' = ir_id r"
  shows "0 < affected P (db_rows db) \<longleftrightarrow> P r"
proof -
  have "0 < affected P (db_rows db) \<longleftrightarrow> (\<exists>r' \<in> set (db_rows db). P r')"
    using affected_0_iff [of P "db_rows db"] by auto
  then show ?thesis using assms db_inv_id_unique by blast
qed

lemma sql_reclaim_taken [store_simps]:
  assumes "db_inv db" "sql_get sc kh db = Some r"
  shows "fst (sql_reclaim dbnow (ir_id r) from now lu ex db) \<longleftrightarrow> ir_status r = from \<and> lock_free now r"
  using affected_id [OF assms(1) sql_get_mem [OF assms(2)], of "reclaimable (ir_id r) from now"]
  by (auto simp: sql_reclaim_def Let_def reclaimable_def)

lemma sql_get_update_where:
  assumes "\<And>r. P r \<Longrightarrow> ir_scope (f r) = ir_scope r" "\<And>r. P r \<Longrightarrow> ir_key_hash (f r) = ir_key_hash r"
  shows "sql_get sc kh (db\<lparr>db_rows := update_where P f (db_rows db)\<rparr>) =
    map_option (\<lambda>r. if P r then f r else r) (sql_get sc kh db)"
  unfolding sql_get_def by (simp, rule find_update_where_same) (auto simp: same_key_def assms)

lemma sql_get_reclaim:
  "sql_get sc kh (snd (sql_reclaim dbnow i from now lu ex db)) =
    map_option (\<lambda>r. if reclaimable i from now r then reclaim_row dbnow lu ex r else r) (sql_get sc kh db)"
  by (simp add: sql_reclaim_def Let_def reclaim_row_def sql_get_update_where)

lemma sql_get_mark_succeeded:
  "sql_get sc kh (snd (sql_mark_succeeded dbnow i st body ex db)) =
    map_option (\<lambda>r. if ir_id r = i then r\<lparr>ir_status := IdempotencyStatusSucceeded,
        ir_response_status := Some st, ir_response_body := Some body, ir_error_reason := None,
        ir_locked_until := None, ir_expires_at := ex, ir_updated_at := dbnow\<rparr> else r) (sql_get sc kh db)"
  by (simp add: sql_mark_succeeded_def sql_get_update_where)

lemma sql_get_mark_failed:
  "sql_get sc kh (snd (sql_mark_failed dbnow i reason lu ex db)) =
    map_option (\<lambda>r. if ir_id r = i then r\<lparr>ir_status := IdempotencyStatusFailedRetryable,
        ir_error_reason := Some reason, ir_locked_until := Some lu, ir_expires_at := ex,
        ir_updated_at := dbnow\<rparr> else r) (sql_get sc kh db)"
  by (simp add: sql_mark_failed_def sql_get_update_where)

lemma sql_get_extend:
  "sql_get sc kh (snd (sql_extend dbnow i fp lu ex db)) =
    map_option (\<lambda>r. if extendable i fp r then r\<lparr>ir_locked_until := Some lu, ir_expires_at := ex,
        ir_updated_at := dbnow\<rparr> else r) (sql_get sc kh db)"
  by (simp add: sql_extend_def Let_def sql_get_update_where)

lemma sql_extend_ok [store_simps]:
  assumes "db_inv db" "sql_get sc kh db = Some r"
  shows "fst (sql_extend dbnow (ir_id r) fp lu ex db) \<longleftrightarrow>
    ir_status r = IdempotencyStatusProcessing \<and> ir_fingerprint r = fp"
  using affected_id [OF assms(1) sql_get_mem [OF assms(2)], of "extendable (ir_id r) fp"]
  by (auto simp: sql_extend_def Let_def extendable_def)

subsection \<open>The contract the lock users rely on\<close>

text \<open>
  \<open>row\<close> is the row of a key. Creating succeeds exactly when there is none; reclaiming
  succeeds exactly when the row has the expected status and its lock has run out, and then leaves a
  processing row locked until the new time; no operation touches the row of another key.
\<close>

locale claim_store =
  fixes inv :: "'s \<Rightarrow> bool"
    and row :: "gostring \<Rightarrow> gostring \<Rightarrow> 's \<Rightarrow> idem_record option"
    and create :: "idem_record \<Rightarrow> 's \<Rightarrow> (bool \<times> idem_record) \<times> 's"
    and reclaim :: "int64 \<Rightarrow> gostring \<Rightarrow> time \<Rightarrow> time \<Rightarrow> time \<Rightarrow> 's \<Rightarrow> bool \<times> 's"
  assumes create_inv: "inv s \<Longrightarrow> inv (snd (create r s))"
    and reclaim_inv: "inv s \<Longrightarrow> inv (snd (reclaim i from now lu ex s))"
    and row_key: "row sc kh s = Some r \<Longrightarrow> ir_scope r = sc \<and> ir_key_hash r = kh"
    and row_id_inj: "inv s \<Longrightarrow> row sc kh s = Some r \<Longrightarrow> row sc' kh' s = Some r' \<Longrightarrow> ir_id r' = ir_id r
      \<Longrightarrow> r' = r"
    and create_owner: "fst (fst (create r s)) \<longleftrightarrow> row (ir_scope r) (ir_key_hash r) s = None"
    and create_row: "row (ir_scope r) (ir_key_hash r) s = None \<Longrightarrow>
      \<exists>r'. row (ir_scope r) (ir_key_hash r) (snd (create r s)) = Some r' \<and> ir_status r' = ir_status r
         \<and> ir_locked_until r' = ir_locked_until r \<and> ir_fingerprint r' = ir_fingerprint r
         \<and> ir_expires_at r' = ir_expires_at r \<and> ir_id r' = ir_id (snd (fst (create r s)))"
    and create_frame: "sc \<noteq> ir_scope r \<or> kh \<noteq> ir_key_hash r \<or> row (ir_scope r) (ir_key_hash r) s \<noteq> None
      \<Longrightarrow> row sc kh (snd (create r s)) = row sc kh s"
    and reclaim_taken: "inv s \<Longrightarrow> row sc kh s = Some r \<Longrightarrow>
      fst (reclaim (ir_id r) from now lu ex s) \<longleftrightarrow> ir_status r = from \<and> lock_free now r"
    and reclaim_row: "inv s \<Longrightarrow> row sc kh s = Some r \<Longrightarrow> ir_status r = from \<Longrightarrow> lock_free now r \<Longrightarrow>
      \<exists>r'. row sc kh (snd (reclaim (ir_id r) from now lu ex s)) = Some r'
         \<and> ir_status r' = IdempotencyStatusProcessing \<and> ir_locked_until r' = Some lu
         \<and> ir_expires_at r' = ex \<and> ir_fingerprint r' = ir_fingerprint r \<and> ir_id r' = ir_id r"
begin

text \<open>Of two attempts to create the record of one key, the second is never the owner.\<close>

lemma create_once:
  assumes "ir_scope r' = ir_scope r" "ir_key_hash r' = ir_key_hash r"
  shows "\<not> fst (fst (create r' (snd (create r s))))"
proof (cases "row (ir_scope r) (ir_key_hash r) s = None")
  case True
  then obtain q where "row (ir_scope r) (ir_key_hash r) (snd (create r s)) = Some q"
    using create_row by blast
  with assms show ?thesis by (simp add: create_owner)
next
  case False
  then show ?thesis using create_frame assms by (simp add: create_owner)
qed

text \<open>After a successful reclaim no other reclaim of that record succeeds while the lock holds.\<close>

lemma reclaim_once:
  assumes "inv s" "row sc kh s = Some r" "fst (reclaim (ir_id r) from now lu ex s)" "now' < lu"
  shows "\<not> fst (reclaim (ir_id r) from' now' lu' ex' (snd (reclaim (ir_id r) from now lu ex s)))"
proof -
  from assms have "ir_status r = from" "lock_free now r" by (simp_all add: reclaim_taken)
  then obtain q where q: "row sc kh (snd (reclaim (ir_id r) from now lu ex s)) = Some q"
      "ir_locked_until q = Some lu" "ir_id q = ir_id r"
    using reclaim_row [OF assms(1,2)] by blast
  have "\<not> lock_free now' q" using q(2) assms(4) by (simp add: lock_free_def)
  then show ?thesis
    using reclaim_taken [OF reclaim_inv [OF assms(1)] q(1)] q(3) by auto
qed

text \<open>Nor does it after a successful create: the fresh record is locked too.\<close>

lemma no_reclaim_after_create:
  assumes "inv s" "fst (fst (create r s))" "ir_locked_until r = Some lu" "now < lu"
  shows "\<not> fst (reclaim (ir_id (snd (fst (create r s)))) from now lu' ex' (snd (create r s)))"
proof -
  from assms(2) obtain q where q: "row (ir_scope r) (ir_key_hash r) (snd (create r s)) = Some q"
      "ir_locked_until q = Some lu" "ir_id q = ir_id (snd (fst (create r s)))"
    using create_row [of r s] assms(3) by (auto simp: create_owner)
  have "\<not> lock_free now q" using q(2) assms(4) by (simp add: lock_free_def)
  then show ?thesis
    using reclaim_taken [OF create_inv [OF assms(1)] q(1)] q(3) by auto
qed

end

text \<open>The SQL statements satisfy the contract, whatever the database clock reads.\<close>

lemma sql_get_id_inj:
  "db_inv db \<Longrightarrow> sql_get sc kh db = Some r \<Longrightarrow> sql_get sc' kh' db = Some r' \<Longrightarrow> ir_id r' = ir_id r \<Longrightarrow> r' = r"
  using db_inv_id_unique sql_get_mem by blast

lemma sql_create_row:
  "sql_get (ir_scope r) (ir_key_hash r) db = None \<Longrightarrow>
     \<exists>r'. sql_get (ir_scope r) (ir_key_hash r) (snd (sql_create t r db)) = Some r' \<and> ir_status r' = ir_status r
       \<and> ir_locked_until r' = ir_locked_until r \<and> ir_fingerprint r' = ir_fingerprint r
       \<and> ir_expires_at r' = ir_expires_at r \<and> ir_id r' = ir_id (snd (fst (sql_create t r db)))"
  by (simp add: sql_get_create_new) (simp add: sql_create_def Let_def sql_get_def list_ex_find)

lemma sql_reclaim_row:
  "db_inv db \<Longrightarrow> sql_get sc kh db = Some r \<Longrightarrow> ir_status r = from \<Longrightarrow> lock_free now r \<Longrightarrow>
     \<exists>r'. sql_get sc kh (snd (sql_reclaim t (ir_id r) from now lu ex db)) = Some r'
       \<and> ir_status r' = IdempotencyStatusProcessing \<and> ir_locked_until r' = Some lu
       \<and> ir_expires_at r' = ex \<and> ir_fingerprint r' = ir_fingerprint r \<and> ir_id r' = ir_id r"
  by (simp add: sql_get_reclaim reclaimable_def reclaim_row_def)

interpretation sqlst: claim_store db_inv sql_get "sql_create t" "sql_reclaim t" for t
  by unfold_locales
    (fact sql_create_inv sql_reclaim_inv sql_get_key sql_get_id_inj sql_create_fst sql_create_row
      sql_get_create_other sql_reclaim_taken sql_reclaim_row)+

end
