(* ===== verification/Idempotency.thy ===== *)
theory Idempotency
  imports IdempotencyStore
begin

text \<open>
  The idempotency coordinator, \<open>internal/service/idempotency.go\<close>: key normalisation, request
  fingerprints, and \<open>Execute\<close>, which claims the record of a key, runs the caller's function
  when it owns the claim and otherwise replays, refuses or backs off. \<open>go_lib\<close> holds what
  comes from outside the file (JSON, SHA-256, upper-casing, the log redactor); \<open>exec_env\<close> holds
  one run's surroundings: the clock, the fault of every store call, what other processes do to the
  table before each store call, and the outcome of the caller's function. The outcome of a run
  carries whether the caller's function was run and the metric and audit events in order.
\<close>

definition ErrIdempotencyKeyRequired :: app_error where
  "ErrIdempotencyKeyRequired = BadRequest ''IDEMPOTENCY_KEY_REQUIRED'' ''idempotency key is required''"
definition ErrIdempotencyKeyInvalid :: app_error where
  "ErrIdempotencyKeyInvalid = BadRequest ''IDEMPOTENCY_KEY_INVALID'' ''idempotency key is invalid''"
definition ErrIdempotencyKeyConflict :: app_error where
  "ErrIdempotencyKeyConflict =
     Conflict ''IDEMPOTENCY_KEY_CONFLICT'' ''idempotency key reused with different payload''"
definition ErrIdempotencyInProgress :: app_error where
  "ErrIdempotencyInProgress =
     Conflict ''IDEMPOTENCY_IN_PROGRESS'' ''idempotent request is still processing''"
definition ErrIdempotencyRetryBackoff :: app_error where
  "ErrIdempotencyRetryBackoff =
     Conflict ''IDEMPOTENCY_RETRY_BACKOFF'' ''idempotent request is in retry backoff window''"
definition ErrIdempotencyStoreUnavail :: app_error where
  "ErrIdempotencyStoreUnavail =
     ServiceUnavailable ''IDEMPOTENCY_STORE_UNAVAILABLE'' ''idempotency store unavailable''"
definition ErrIdempotencyInvalidPayload :: app_error where
  "ErrIdempotencyInvalidPayload =
     BadRequest ''IDEMPOTENCY_PAYLOAD_INVALID'' ''failed to normalize request payload''"

lemmas idem_err_defs = ErrIdempotencyKeyRequired_def ErrIdempotencyKeyInvalid_def
  ErrIdempotencyKeyConflict_def ErrIdempotencyInProgress_def ErrIdempotencyRetryBackoff_def
  ErrIdempotencyStoreUnavail_def ErrIdempotencyInvalidPayload_def

record idem_config =
  cfg_DefaultTTL :: duration
  cfg_SystemOperationTTL :: duration
  cfg_ProcessingTimeout :: duration
  cfg_FailedRetryBackoff :: duration
  cfg_MaxStoredResponseLen :: int
  cfg_ObserveOnly :: bool

definition DefaultIdempotencyConfig :: idem_config where
  "DefaultIdempotencyConfig =
     \<lparr>cfg_DefaultTTL = 24 * Hour, cfg_SystemOperationTTL = 1 * Hour,
      cfg_ProcessingTimeout = 30 * Second, cfg_FailedRetryBackoff = 5 * Second,
      cfg_MaxStoredResponseLen = 64 * 1024, cfg_ObserveOnly = True\<rparr>"

text \<open>The process-wide default coordinator is its configuration, or \<open>None\<close> before it is set.\<close>

definition DefaultWriteIdempotencyTTL :: "idem_config option \<Rightarrow> duration" where
  "DefaultWriteIdempotencyTTL svc = (case svc of
     Some cfg \<Rightarrow> if 0 < cfg_DefaultTTL cfg then cfg_DefaultTTL cfg
                 else cfg_DefaultTTL DefaultIdempotencyConfig
   | None \<Rightarrow> cfg_DefaultTTL DefaultIdempotencyConfig)"

definition DefaultSystemOperationIdempotencyTTL :: "idem_config option \<Rightarrow> duration" where
  "DefaultSystemOperationIdempotencyTTL svc = (case svc of
     Some cfg \<Rightarrow> if 0 < cfg_SystemOperationTTL cfg then cfg_SystemOperationTTL cfg
                 else cfg_SystemOperationTTL DefaultIdempotencyConfig
   | None \<Rightarrow> cfg_SystemOperationTTL DefaultIdempotencyConfig)"

text \<open>Values of Go type \<open>any\<close> are a type parameter \<open>'d\<close>; the functions are what the code calls on them.\<close>

record 'd go_lib =
  json_marshal :: "'d \<Rightarrow> gostring result"
  json_unmarshal :: "gostring \<Rightarrow> 'd result"
  empty_object :: 'd
  sha256_hex :: "gostring \<Rightarrow> gostring"
  to_upper :: "gostring \<Rightarrow> gostring"
  redact_text :: "gostring \<Rightarrow> gostring"
  int_overflow :: int

record 'd exec_options =
  opt_Scope :: gostring
  opt_ActorScope :: gostring
  opt_Method :: gostring
  opt_Route :: gostring
  opt_IdempotencyKey :: gostring
  opt_Payload :: 'd
  opt_TTL :: duration
  opt_RequireKey :: bool

datatype store_call = CCreate | CGet | CReclaimExpired | CGetLatest | CReclaimFailed | CMark

record 'd exec_env =
  env_now :: time
  env_now_failed :: time
  env_dbnow :: "store_call \<Rightarrow> time"
  env_fault :: "store_call \<Rightarrow> fault"
  env_others :: "store_call \<Rightarrow> idem_db \<Rightarrow> idem_db"
  env_execute :: "'d result option"

datatype idem_event =
    StoreUnavailable gostring
  | Claim gostring
  | ConflictSeen gostring
  | RetryBackoffSeen
  | ReplaySeen
  | Audit gostring bool

definition NormalizeIdempotencyKey :: "gostring \<Rightarrow> gostring result" where
  "NormalizeIdempotencyKey raw =
     (let key = trim_space raw
      in if key = [] then Inr []
         else if 128 < length key then Inl (EApp ErrIdempotencyKeyInvalid)
         else if list_ex (\<lambda>c. \<not> printable c) key then Inl (EApp ErrIdempotencyKeyInvalid)
         else Inr key)"

definition HashIdempotencyKey :: "'d go_lib \<Rightarrow> gostring \<Rightarrow> gostring" where
  "HashIdempotencyKey lib key = sha256_hex lib key"

definition nl :: gostring where "nl = [CHR 0x0A]"

definition BuildIdempotencyFingerprint ::
    "'d go_lib \<Rightarrow> gostring \<Rightarrow> gostring \<Rightarrow> gostring \<Rightarrow> 'd \<Rightarrow> gostring result" where
  "BuildIdempotencyFingerprint lib method route actorScope payload =
     (let method = (if method = [] then ''POST'' else method);
          route = (if route = [] then ''/'' else route);
          actorScope = (if actorScope = [] then ''anonymous'' else actorScope)
      in case json_marshal lib payload of
           Inl err \<Rightarrow> Inl (EApp (WithCause ErrIdempotencyInvalidPayload (Some err)))
         | Inr raw \<Rightarrow> Inr (sha256_hex lib
             (to_upper lib method @ nl @ route @ nl @ actorScope @ nl @ raw)))"

definition RetryAfterSecondsFromError :: "go_error option \<Rightarrow> int" where
  "RetryAfterSecondsFromError err = (case err of None \<Rightarrow> 0 | Some e \<Rightarrow>
     (case errors_as e of None \<Rightarrow> 0 | Some a \<Rightarrow>
       (case ae_metadata a of None \<Rightarrow> 0 | Some md \<Rightarrow>
         (let v = trim_space (case md ''retry_after'' of None \<Rightarrow> [] | Some x \<Rightarrow> x)
          in if v = [] then 0
             else case parse_int64 v of None \<Rightarrow> 0
                  | Some seconds \<Rightarrow> if seconds \<le> 0 then 0 else seconds))))"

definition conflictWithRetryAfter ::
    "'d go_lib \<Rightarrow> app_error \<Rightarrow> time option \<Rightarrow> time \<Rightarrow> app_error" where
  "conflictWithRetryAfter lib base lockedUntil now = (case lockedUntil of
     None \<Rightarrow> base
   | Some lu \<Rightarrow>
       (let sec = f64_to_int (int_overflow lib) (Seconds (Sub lu now));
            sec = (if sec \<le> 0 then 1 else sec)
        in WithMetadata base (Some [''retry_after'' \<mapsto> itoa sec])))"

definition truncated_mark :: gostring where "truncated_mark = ''...(truncated)''"

definition marshalStoredResponse :: "'d go_lib \<Rightarrow> idem_config \<Rightarrow> 'd \<Rightarrow> gostring result" where
  "marshalStoredResponse lib cfg data = (case json_marshal lib data of
     Inl err \<Rightarrow> Inl err
   | Inr raw \<Rightarrow>
       (let redacted = redact_text lib raw; n = cfg_MaxStoredResponseLen cfg
        in if 0 < n \<and> n < int (length redacted) then Inr (take (nat n) redacted @ truncated_mark)
           else Inr redacted))"

definition decodeStoredResponse :: "'d go_lib \<Rightarrow> gostring option \<Rightarrow> 'd result" where
  "decodeStoredResponse lib stored = (case stored of
     None \<Rightarrow> Inr (empty_object lib)
   | Some s \<Rightarrow> if trim_space s = [] then Inr (empty_object lib)
               else case json_unmarshal lib s of
                      Inl err \<Rightarrow> Inl (EWrap ''decode stored response'' err)
                    | Inr out \<Rightarrow> Inr out)"

subsection \<open>Claiming the record\<close>

text \<open>What the claiming part of \<open>Execute\<close> decides: the caller owns the record, replays, or is refused.\<close>

datatype 'd claim_outcome = Owned int64 | Replay 'd | Refused go_error

type_synonym 'd claimed = "'d claim_outcome \<times> idem_event list \<times> idem_db"

definition unavail :: "go_error option \<Rightarrow> go_error" where
  "unavail cause = (case cause of None \<Rightarrow> EApp ErrIdempotencyStoreUnavail
     | Some e \<Rightarrow> EApp (WithCause ErrIdempotencyStoreUnavail (Some e)))"

definition dispatch_existing ::
    "'d go_lib \<Rightarrow> 'd exec_env \<Rightarrow> time \<Rightarrow> time \<Rightarrow> idem_record \<Rightarrow> idem_db \<Rightarrow> 'd claimed" where
  "dispatch_existing lib env lockedUntil expiresAt existing db =
     (let now = env_now env in
      if ir_status existing = IdempotencyStatusSucceeded then
        (case decodeStoredResponse lib (ir_response_body existing) of
           Inl parseErr \<Rightarrow> (Refused (unavail (Some parseErr)),
             [StoreUnavailable ''decode_stored_response_error'', Audit ''succeeded->store_unavailable'' False], db)
         | Inr data \<Rightarrow> (Replay data, [ReplaySeen, Audit ''succeeded->replayed'' True], db))
      else if ir_status existing = IdempotencyStatusProcessing then
        (Refused (EApp (conflictWithRetryAfter lib ErrIdempotencyInProgress (ir_locked_until existing) now)),
         [ConflictSeen ''in_progress'', Audit ''processing->conflict'' False], db)
      else if ir_status existing = IdempotencyStatusFailedRetryable then
        (if (case ir_locked_until existing of None \<Rightarrow> False | Some lu \<Rightarrow> After lu now) then
           (Refused (EApp (conflictWithRetryAfter lib ErrIdempotencyRetryBackoff (ir_locked_until existing) now)),
            [ConflictSeen ''retry_backoff'', RetryBackoffSeen,
             Audit ''failed_retryable->retry_backoff_conflict'' False], db)
         else
           (case TryReclaim (env_fault env CReclaimFailed) (env_dbnow env CReclaimFailed) (ir_id existing)
                   IdempotencyStatusFailedRetryable now lockedUntil expiresAt
                   (env_others env CReclaimFailed db) of
              (Inl reclaimErr, db') \<Rightarrow> (Refused (unavail (Some reclaimErr)),
                [StoreUnavailable ''try_reclaim_error'', Audit ''failed_retryable->store_unavailable'' False], db')
            | (Inr False, db') \<Rightarrow>
                (Refused (EApp (conflictWithRetryAfter lib ErrIdempotencyInProgress (ir_locked_until existing) now)),
                 [ConflictSeen ''reclaim_race'', Audit ''failed_retryable->conflict'' False], db')
            | (Inr True, db') \<Rightarrow> (Owned (ir_id existing),
                [Claim ''reclaim'', Audit ''failed_retryable->processing'' False], db')))
      else
        (Refused (EApp ErrIdempotencyKeyConflict),
         [ConflictSeen ''unexpected_status'', Audit ''existing->conflict'' False], db))"

definition reclaim_expired ::
    "'d go_lib \<Rightarrow> 'd exec_env \<Rightarrow> gostring \<Rightarrow> gostring \<Rightarrow> gostring \<Rightarrow> time \<Rightarrow> time \<Rightarrow> idem_record \<Rightarrow> idem_db \<Rightarrow>
     'd claimed" where
  "reclaim_expired lib env scope keyHash fingerprint lockedUntil expiresAt existing db =
     (case TryReclaim (env_fault env CReclaimExpired) (env_dbnow env CReclaimExpired) (ir_id existing)
             (ir_status existing) (env_now env) lockedUntil expiresAt (env_others env CReclaimExpired db) of
        (Inl reclaimErr, db') \<Rightarrow> (Refused (unavail (Some reclaimErr)),
          [StoreUnavailable ''try_reclaim_expired_error'',
           Audit (ir_status existing @ ''->store_unavailable'') False], db')
      | (Inr True, db') \<Rightarrow> (Owned (ir_id existing),
          [Claim ''expired_reclaim'', Audit (ir_status existing @ ''->processing'') False], db')
      | (Inr False, db') \<Rightarrow>
          (let db2 = env_others env CGetLatest db' in
           case GetByScopeAndKeyHash (env_fault env CGetLatest) scope keyHash db2 of
             Inl latestErr \<Rightarrow> (Refused (unavail (Some latestErr)),
               [StoreUnavailable ''get_existing_after_expired_reclaim_error'',
                Audit ''unknown->store_unavailable'' False], db2)
           | Inr None \<Rightarrow> (Refused (unavail None),
               [StoreUnavailable ''missing_existing_after_expired_reclaim'',
                Audit ''unknown->store_unavailable'' False], db2)
           | Inr (Some latest) \<Rightarrow>
               if ir_fingerprint latest \<noteq> fingerprint then
                 (Refused (EApp ErrIdempotencyKeyConflict),
                  [ConflictSeen ''fingerprint_mismatch'', Audit ''existing->fingerprint_mismatch'' False], db2)
               else dispatch_existing lib env lockedUntil expiresAt latest db2))"

definition claim_existing ::
    "'d go_lib \<Rightarrow> 'd exec_env \<Rightarrow> gostring \<Rightarrow> gostring \<Rightarrow> gostring \<Rightarrow> time \<Rightarrow> time \<Rightarrow> idem_db \<Rightarrow> 'd claimed" where
  "claim_existing lib env scope keyHash fingerprint lockedUntil expiresAt db =
     (let db1 = env_others env CGet db in
      case GetByScopeAndKeyHash (env_fault env CGet) scope keyHash db1 of
        Inl getErr \<Rightarrow> (Refused (unavail (Some getErr)),
          [StoreUnavailable ''get_existing_error'', Audit ''unknown->store_unavailable'' False], db1)
      | Inr None \<Rightarrow> (Refused (unavail None),
          [StoreUnavailable ''missing_existing'', Audit ''unknown->store_unavailable'' False], db1)
      | Inr (Some existing) \<Rightarrow>
          if ir_fingerprint existing \<noteq> fingerprint then
            (Refused (EApp ErrIdempotencyKeyConflict),
             [ConflictSeen ''fingerprint_mismatch'', Audit ''existing->fingerprint_mismatch'' False], db1)
          else if \<not> After (ir_expires_at existing) (env_now env) then
            reclaim_expired lib env scope keyHash fingerprint lockedUntil expiresAt existing db1
          else dispatch_existing lib env lockedUntil expiresAt existing db1)"

definition new_record :: "gostring \<Rightarrow> gostring \<Rightarrow> gostring \<Rightarrow> time \<Rightarrow> time \<Rightarrow> idem_record" where
  "new_record scope keyHash fingerprint lockedUntil expiresAt =
     \<lparr>ir_id = 0, ir_scope = scope, ir_key_hash = keyHash, ir_fingerprint = fingerprint,
      ir_status = IdempotencyStatusProcessing, ir_response_status = None, ir_response_body = None,
      ir_error_reason = None, ir_locked_until = Some lockedUntil, ir_expires_at = expiresAt,
      ir_created_at = 0, ir_updated_at = 0\<rparr>"

definition claim_record ::
    "'d go_lib \<Rightarrow> 'd exec_env \<Rightarrow> gostring \<Rightarrow> gostring \<Rightarrow> gostring \<Rightarrow> time \<Rightarrow> time \<Rightarrow> idem_db \<Rightarrow> 'd claimed" where
  "claim_record lib env scope keyHash fingerprint lockedUntil expiresAt db =
     (case CreateProcessing (env_fault env CCreate) (env_dbnow env CCreate)
             (Some (new_record scope keyHash fingerprint lockedUntil expiresAt))
             (env_others env CCreate db) of
        (Inl err, db') \<Rightarrow> (Refused (unavail (Some err)),
          [StoreUnavailable ''create_processing_error'', Audit ''unknown->store_unavailable'' False], db')
      | (Inr (owner, rec'), db') \<Rightarrow>
          if owner then (Owned (case rec' of None \<Rightarrow> 0 | Some r \<Rightarrow> ir_id r),
            [Claim ''new_claim'', Audit ''none->processing'' False], db')
          else claim_existing lib env scope keyHash fingerprint lockedUntil expiresAt db')"

subsection \<open>Running the caller's function and recording the outcome\<close>

record 'd exec_outcome =
  out_result :: "('d \<times> bool) result"
  out_ran :: bool
  out_events :: "idem_event list"
  out_db :: idem_db

definition run_owned ::
    "'d go_lib \<Rightarrow> idem_config \<Rightarrow> 'd exec_env \<Rightarrow> 'd result \<Rightarrow> int64 \<Rightarrow> time \<Rightarrow> idem_event list \<Rightarrow> idem_db \<Rightarrow>
     'd exec_outcome" where
  "run_owned lib cfg env exec recordID expiresAt evs db =
     (let done = (\<lambda>res new db'. \<lparr>out_result = res, out_ran = True, out_events = evs @ new, out_db = db'\<rparr>);
          db1 = env_others env CMark db
      in case exec of
        Inl execErr \<Rightarrow>
          (let backoffUntil = Add (env_now_failed env) (cfg_FailedRetryBackoff cfg);
               reason = Reason (Some execErr);
               reason = (if reason = [] then ''EXECUTION_FAILED'' else reason);
               new = [RetryBackoffSeen, Audit ''processing->failed_retryable'' False]
           in case MarkFailedRetryable (env_fault env CMark) (env_dbnow env CMark) recordID reason
                     backoffUntil expiresAt db1 of
                (Inl _, db') \<Rightarrow> done (Inl execErr)
                   (new @ [StoreUnavailable ''mark_failed_retryable_error'',
                           Audit ''processing->store_unavailable'' False]) db'
              | (Inr _, db') \<Rightarrow> done (Inl execErr) new db')
      | Inr data \<Rightarrow>
          (case marshalStoredResponse lib cfg data of
             Inl marshalErr \<Rightarrow> done (Inl (unavail (Some marshalErr)))
               [StoreUnavailable ''marshal_response_error'', Audit ''processing->store_unavailable'' False] db1
           | Inr storedBody \<Rightarrow>
               (case MarkSucceeded (env_fault env CMark) (env_dbnow env CMark) recordID 200 storedBody
                       expiresAt db1 of
                  (Inl markErr, db') \<Rightarrow> done (Inl (unavail (Some markErr)))
                    [StoreUnavailable ''mark_succeeded_error'', Audit ''processing->store_unavailable'' False] db'
                | (Inr _, db') \<Rightarrow> done (Inr (data, False)) [Audit ''processing->succeeded'' False] db')))"

definition not_run :: "('d \<times> bool) result \<Rightarrow> idem_event list \<Rightarrow> idem_db \<Rightarrow> 'd exec_outcome" where
  "not_run res evs db = \<lparr>out_result = res, out_ran = False, out_events = evs, out_db = db\<rparr>"

definition Execute ::
    "'d go_lib \<Rightarrow> bool \<Rightarrow> idem_config \<Rightarrow> 'd exec_env \<Rightarrow> 'd exec_options \<Rightarrow> idem_db \<Rightarrow> 'd exec_outcome" where
  "Execute lib has_repo cfg env opts db =
     (case env_execute env of
        None \<Rightarrow> not_run (Inl (EApp (InternalServer ''IDEMPOTENCY_EXECUTOR_NIL'' ''idempotency executor is nil''))) [] db
      | Some exec \<Rightarrow>
        (case NormalizeIdempotencyKey (opt_IdempotencyKey opts) of
           Inl err \<Rightarrow> not_run (Inl err) [] db
         | Inr key \<Rightarrow>
           if key = [] then
             (if opt_RequireKey opts \<and> \<not> cfg_ObserveOnly cfg
              then not_run (Inl (EApp ErrIdempotencyKeyRequired)) [] db
              else \<lparr>out_result = (case exec of Inl e \<Rightarrow> Inl e | Inr data \<Rightarrow> Inr (data, False)),
                    out_ran = True, out_events = [], out_db = db\<rparr>)
           else if \<not> has_repo then not_run (Inl (unavail None)) [StoreUnavailable ''repo_nil''] db
           else if opt_Scope opts = [] then
             not_run (Inl (EApp (BadRequest ''IDEMPOTENCY_SCOPE_REQUIRED'' ''idempotency scope is required''))) [] db
           else
             (case BuildIdempotencyFingerprint lib (opt_Method opts) (opt_Route opts)
                     (opt_ActorScope opts) (opt_Payload opts) of
                Inl err \<Rightarrow> not_run (Inl err) [] db
              | Inr fingerprint \<Rightarrow>
                  (let ttl = (if opt_TTL opts \<le> 0 then cfg_DefaultTTL cfg else opt_TTL opts);
                       expiresAt = Add (env_now env) ttl;
                       lockedUntil = Add (env_now env) (cfg_ProcessingTimeout cfg);
                       keyHash = HashIdempotencyKey lib key
                   in case claim_record lib env (opt_Scope opts) keyHash fingerprint lockedUntil expiresAt db of
                        (Refused err, evs, db') \<Rightarrow> not_run (Inl err) evs db'
                      | (Replay data, evs, db') \<Rightarrow> not_run (Inr (data, True)) evs db'
                      | (Owned recordID, evs, db') \<Rightarrow>
                          if recordID = 0 then not_run (Inl (unavail None))
                            (evs @ [StoreUnavailable ''record_id_missing'',
                                    Audit ''processing->store_unavailable'' False]) db'
                          else run_owned lib cfg env exec recordID expiresAt evs db'))))"

subsection \<open>Reductions shared by the proofs\<close>

text \<open>A request that carries a usable key, scope and payload.\<close>

definition keyed_request :: "'d go_lib \<Rightarrow> 'd exec_options \<Rightarrow> gostring \<Rightarrow> gostring \<Rightarrow> bool" where
  [guard_defs]: "keyed_request lib opts key fp \<longleftrightarrow>
     NormalizeIdempotencyKey (opt_IdempotencyKey opts) = Inr key \<and> key \<noteq> [] \<and> opt_Scope opts \<noteq> []
     \<and> BuildIdempotencyFingerprint lib (opt_Method opts) (opt_Route opts) (opt_ActorScope opts)
         (opt_Payload opts) = Inr fp"

definition effective_ttl :: "idem_config \<Rightarrow> 'd exec_options \<Rightarrow> duration" where
  "effective_ttl cfg opts = (if opt_TTL opts \<le> 0 then cfg_DefaultTTL cfg else opt_TTL opts)"

definition quiet :: "'d exec_env \<Rightarrow> bool" where
  [guard_defs]: "quiet env \<longleftrightarrow> env_fault env = (\<lambda>_. NoFault) \<and> env_others env = (\<lambda>_ db. db)"

definition key_row :: "'d go_lib \<Rightarrow> 'd exec_options \<Rightarrow> gostring \<Rightarrow> idem_db \<Rightarrow> idem_record option" where
  "key_row lib opts key db = sql_get (opt_Scope opts) (HashIdempotencyKey lib key) db"

lemma Execute_keyed:
  assumes "keyed_request lib opts key fp" "env_execute env = Some exec"
  shows "Execute lib True cfg env opts db =
    (case claim_record lib env (opt_Scope opts) (HashIdempotencyKey lib key) fp
            (env_now env + cfg_ProcessingTimeout cfg) (env_now env + effective_ttl cfg opts) db of
       (Refused err, evs, db') \<Rightarrow> not_run (Inl err) evs db'
     | (Replay data, evs, db') \<Rightarrow> not_run (Inr (data, True)) evs db'
     | (Owned recordID, evs, db') \<Rightarrow>
         if recordID = 0 then not_run (Inl (unavail None))
           (evs @ [StoreUnavailable ''record_id_missing'', Audit ''processing->store_unavailable'' False]) db'
         else run_owned lib cfg env exec recordID (env_now env + effective_ttl cfg opts) evs db')"
  using assms by (simp add: Execute_def keyed_request_def Let_def flip: effective_ttl_def)

lemma not_run_sel [simp]:
  "out_ran (not_run r e db) = False" "out_result (not_run r e db) = r" "out_db (not_run r e db) = db"
  by (simp_all add: not_run_def)

lemma out_ran_run_owned [simp]: "out_ran (run_owned lib cfg env exec i ex evs db)"
  by (simp add: run_owned_def Let_def split: sum.split prod.split)

text \<open>Without faults and interference the claim is decided by the row of the key.\<close>

lemma claim_record_new:
  assumes "quiet env" "sql_get scope kh db = None"
  shows "claim_record lib env scope kh fp lu ex db =
    (Owned (db_next_id db), [Claim ''new_claim'', Audit ''none->processing'' False],
     snd (sql_create (env_dbnow env CCreate) (new_record scope kh fp lu ex) db))"
  using assms
  by (simp add: claim_record_def CreateProcessing_def quiet_def sql_create_def Let_def new_record_def
      list_ex_find sql_get_def)

lemma claim_record_existing:
  assumes "quiet env" "sql_get scope kh db = Some r"
  shows "claim_record lib env scope kh fp lu ex db =
    claim_existing lib env scope kh fp lu ex (db\<lparr>db_next_id := db_next_id db + 1\<rparr>)"
  using assms
  by (simp add: claim_record_def CreateProcessing_def quiet_def sql_create_def Let_def new_record_def
      list_ex_find sql_get_def)

lemma sql_get_next_id [simp]: "sql_get sc kh (db\<lparr>db_next_id := n\<rparr>) = sql_get sc kh db"
  by (simp add: sql_get_def)

lemma db_inv_next_id: "db_inv db \<Longrightarrow> db_inv (db\<lparr>db_next_id := db_next_id db + 1\<rparr>)"
  by (force simp: db_inv_def)

lemma claim_existing_quiet:
  assumes "quiet env" "sql_get scope kh db = Some r"
  shows "claim_existing lib env scope kh fp lu ex db =
    (if ir_fingerprint r \<noteq> fp then (Refused (EApp ErrIdempotencyKeyConflict),
       [ConflictSeen ''fingerprint_mismatch'', Audit ''existing->fingerprint_mismatch'' False], db)
     else if ir_expires_at r \<le> env_now env then reclaim_expired lib env scope kh fp lu ex r db
     else dispatch_existing lib env lu ex r db)"
  using assms by (auto simp: claim_existing_def GetByScopeAndKeyHash_def quiet_def Let_def)

lemma run_owned_success:
  assumes "quiet env" "marshalStoredResponse lib cfg data = Inr body"
  shows "run_owned lib cfg env (Inr data) i ex evs db =
    \<lparr>out_result = Inr (data, False), out_ran = True,
     out_events = evs @ [Audit ''processing->succeeded'' False],
     out_db = snd (sql_mark_succeeded (env_dbnow env CMark) i 200 body ex db)\<rparr>"
  using assms by (simp add: run_owned_def quiet_def MarkSucceeded_def Let_def split: prod.split)

lemma run_owned_failure:
  assumes "quiet env"
  shows "out_result (run_owned lib cfg env (Inl e) i ex evs db) = Inl e"
    "out_db (run_owned lib cfg env (Inl e) i ex evs db) =
       snd (sql_mark_failed (env_dbnow env CMark) i
         (if Reason (Some e) = [] then ''EXECUTION_FAILED'' else Reason (Some e))
         (env_now_failed env + cfg_FailedRetryBackoff cfg) ex db)"
  using assms by (simp_all add: run_owned_def quiet_def MarkFailedRetryable_def Let_def split: prod.split)

text \<open>A succeeded record whose life has not run out is replayed.\<close>

definition replay_result :: "'d go_lib \<Rightarrow> gostring option \<Rightarrow> ('d \<times> bool) result" where
  "replay_result lib body = (case decodeStoredResponse lib body of
     Inl e \<Rightarrow> Inl (unavail (Some e)) | Inr d \<Rightarrow> Inr (d, True))"

lemma Execute_replays:
  assumes "keyed_request lib opts key fp" "quiet env" "env_execute env = Some exec"
    "key_row lib opts key db = Some r" "ir_status r = IdempotencyStatusSucceeded"
    "ir_fingerprint r = fp" "env_now env < ir_expires_at r"
  shows "\<not> out_ran (Execute lib True cfg env opts db)"
    "out_result (Execute lib True cfg env opts db) = replay_result lib (ir_response_body r)"
    "key_row lib opts key (out_db (Execute lib True cfg env opts db)) = Some r"
  using assms
  by (simp_all add: Execute_keyed key_row_def claim_record_existing claim_existing_quiet
      dispatch_existing_def replay_result_def Let_def split: sum.split)

subsection \<open>Executed once, then replayed\<close>

primrec Execute_seq ::
    "'d go_lib \<Rightarrow> idem_config \<Rightarrow> 'd exec_options \<Rightarrow> 'd exec_env list \<Rightarrow> idem_db \<Rightarrow> 'd exec_outcome list" where
  "Execute_seq lib cfg opts [] db = []"
| "Execute_seq lib cfg opts (e # es) db =
     (let out = Execute lib True cfg e opts db in out # Execute_seq lib cfg opts es (out_db out))"

lemma Execute_seq_replays:
  assumes "keyed_request lib opts key fp" "key_row lib opts key db = Some r"
    "ir_status r = IdempotencyStatusSucceeded" "ir_fingerprint r = fp"
    "\<forall>e \<in> set es. quiet e \<and> env_execute e \<noteq> None \<and> env_now e < ir_expires_at r"
  shows "\<forall>out \<in> set (Execute_seq lib cfg opts es db).
    \<not> out_ran out \<and> out_result out = replay_result lib (ir_response_body r)"
  using assms(2,5)
proof (induction es arbitrary: db)
  case (Cons e es)
  then obtain exec where e: "quiet e" "env_execute e = Some exec" "env_now e < ir_expires_at r" by auto
  note rep = Execute_replays [OF assms(1) e(1,2) Cons.prems(1) assms(3,4) e(3), of cfg]
  from Cons.IH [OF rep(3)] Cons.prems(2) rep(1,2) show ?case by (simp add: Let_def)
qed simp

lemma Execute_fresh_success:
  assumes "db_inv db" "keyed_request lib opts key fp" "key_row lib opts key db = None" "quiet env"
    "env_execute env = Some (Inr data)" "marshalStoredResponse lib cfg data = Inr body"
  shows "out_ran (Execute lib True cfg env opts db)"
    "out_result (Execute lib True cfg env opts db) = Inr (data, False)"
    "\<exists>r. key_row lib opts key (out_db (Execute lib True cfg env opts db)) = Some r
       \<and> ir_status r = IdempotencyStatusSucceeded \<and> ir_fingerprint r = fp
       \<and> ir_response_body r = Some body \<and> ir_locked_until r = None
       \<and> ir_expires_at r = env_now env + effective_ttl cfg opts"
proof -
  let ?sc = "opt_Scope opts" and ?kh = "HashIdempotencyKey lib key"
  let ?rec = "new_record ?sc ?kh fp (env_now env + cfg_ProcessingTimeout cfg)
    (env_now env + effective_ttl cfg opts)"
  have nz: "db_next_id db \<noteq> 0" using assms(1) by (simp add: db_inv_def)
  have ex: "Execute lib True cfg env opts db =
      run_owned lib cfg env (Inr data) (db_next_id db) (env_now env + effective_ttl cfg opts)
        [Claim ''new_claim'', Audit ''none->processing'' False]
        (snd (sql_create (env_dbnow env CCreate) ?rec db))"
    using assms nz by (simp add: Execute_keyed key_row_def claim_record_new)
  show "out_ran (Execute lib True cfg env opts db)"
    "out_result (Execute lib True cfg env opts db) = Inr (data, False)"
    using assms by (simp_all add: ex run_owned_success)
  have "sql_get ?sc ?kh (snd (sql_create t ?rec db)) = Some (?rec\<lparr>ir_id := db_next_id db,
      ir_created_at := t, ir_updated_at := t, ir_response_status := None, ir_response_body := None,
      ir_error_reason := None\<rparr>)" for t
    using sql_get_create_new [of ?rec db t] assms(3) by (simp add: new_record_def key_row_def)
  then show "\<exists>r. key_row lib opts key (out_db (Execute lib True cfg env opts db)) = Some r
       \<and> ir_status r = IdempotencyStatusSucceeded \<and> ir_fingerprint r = fp
       \<and> ir_response_body r = Some body \<and> ir_locked_until r = None
       \<and> ir_expires_at r = env_now env + effective_ttl cfg opts"
    using assms by (simp add: ex run_owned_success key_row_def sql_get_mark_succeeded new_record_def)
qed


text \<open>A concrete library and request, at which the theorems of this component are applied.\<close>

definition demo_lib :: "gostring go_lib" where
  "demo_lib = \<lparr>json_marshal = Inr, json_unmarshal = (\<lambda>s. if s \<noteq> [] \<and> last s = CHR '')''
      then Inl (EPlain ''invalid character'') else Inr s),
     empty_object = ''{}'', sha256_hex = (\<lambda>s. s), to_upper = (\<lambda>s. s), redact_text = (\<lambda>s. s),
     int_overflow = 0\<rparr>"

definition demo_opts :: "gostring exec_options" where
  "demo_opts = \<lparr>opt_Scope = ''pay'', opt_ActorScope = [], opt_Method = [], opt_Route = [],
     opt_IdempotencyKey = ''k1'', opt_Payload = ''p'', opt_TTL = 0, opt_RequireKey = True\<rparr>"

definition demo_env :: "time \<Rightarrow> gostring result \<Rightarrow> gostring exec_env" where
  "demo_env t exec = \<lparr>env_now = t, env_now_failed = t, env_dbnow = (\<lambda>_. t), env_fault = (\<lambda>_. NoFault),
     env_others = (\<lambda>_ db. db), env_execute = Some exec\<rparr>"

definition demo_fp :: gostring where
  "demo_fp = ''POST'' @ nl @ ''/'' @ nl @ ''anonymous'' @ nl @ ''p''"

lemma trim_k1: "trim_space ''k1'' = ''k1''"
  by (rule trim_space_printable) (simp add: printable_def)

lemma demo_keyed: "keyed_request demo_lib demo_opts ''k1'' demo_fp"
  by (simp add: keyed_request_def demo_lib_def demo_opts_def NormalizeIdempotencyKey_def trim_k1
      printable_def BuildIdempotencyFingerprint_def demo_fp_def Let_def)

lemma demo_env_sel [simp]:
  "quiet (demo_env t x)" "env_execute (demo_env t x) = Some x" "env_now (demo_env t x) = t"
  "env_now_failed (demo_env t x) = t"
  by (simp_all add: quiet_def demo_env_def)

lemma demo_marshal:
  "marshalStoredResponse demo_lib DefaultIdempotencyConfig ''ok'' = Inr ''ok''"
  by (simp add: marshalStoredResponse_def demo_lib_def DefaultIdempotencyConfig_def Let_def)

lemma demo_ttl: "effective_ttl DefaultIdempotencyConfig demo_opts = 24 * Hour"
  by (simp add: effective_ttl_def demo_opts_def DefaultIdempotencyConfig_def)

lemma demo_row_empty: "key_row demo_lib demo_opts ''k1'' empty_db = None"
  by (simp add: key_row_def sql_get_def empty_db_def)


subsection \<open>No second run while the lock is held\<close>

text \<open>
  The record of the key is processing and locked beyond \<open>now\<close> by someone else: what a caller
  sees whenever the owner has not finished yet.
\<close>

definition held_by_other :: "gostring \<Rightarrow> gostring \<Rightarrow> int64 \<Rightarrow> time \<Rightarrow> idem_db \<Rightarrow> bool" where
  "held_by_other scope kh i now db \<longleftrightarrow> db_inv db \<and> (\<exists>r lu. sql_get scope kh db = Some r \<and> ir_id r = i
     \<and> ir_status r = IdempotencyStatusProcessing \<and> ir_locked_until r = Some lu \<and> now < lu)"

lemma held_create:
  assumes "held_by_other scope kh i now db"
  shows "fst (CreateProcessing f t (Some (new_record scope kh fp lu ex)) db) \<noteq> Inr (True, x)"
  using assms
  by (auto simp: held_by_other_def CreateProcessing_def with_fault_def sql_create_def new_record_def
      list_ex_find sql_get_def Let_def split: fault.split)

lemma held_get:
  assumes "held_by_other scope kh i now db" "GetByScopeAndKeyHash f scope kh db = Inr x"
  shows "\<exists>r. x = Some r \<and> ir_id r = i \<and> ir_status r = IdempotencyStatusProcessing"
proof -
  from assms(1) obtain r where r: "sql_get scope kh db = Some r" "ir_id r = i"
      "ir_status r = IdempotencyStatusProcessing" by (auto simp: held_by_other_def)
  from assms(2) r(1) have "x = Some r" by (auto simp: GetByScopeAndKeyHash_def split: fault.splits)
  with r show ?thesis by blast
qed

lemma held_reclaim:
  assumes "held_by_other scope kh i now db"
  shows "fst (TryReclaim f t i from now lu ex db) \<noteq> Inr True"
proof -
  obtain r lu' where r: "db_inv db" "sql_get scope kh db = Some r" "ir_id r = i"
      "ir_locked_until r = Some lu'" "now < lu'"
    using assms by (auto simp: held_by_other_def)
  then have "\<not> fst (sql_reclaim t i from now lu ex db)"
    using sql_reclaim_taken [OF r(1,2)] by (auto simp: lock_free_def)
  then show ?thesis
    by (auto simp: TryReclaim_def with_fault_def split: fault.split prod.split)
qed

lemma dispatch_processing_refused:
  "ir_status r = IdempotencyStatusProcessing \<Longrightarrow> \<exists>err. fst (dispatch_existing lib env lu ex r db) = Refused err"
  by (simp add: dispatch_existing_def Let_def idem_status_defs)

lemma held_reclaim_expired_refused:
  assumes "\<forall>c db. held_by_other scope kh i (env_now env) (env_others env c db)" "ir_id r = i"
  shows "\<exists>err. fst (reclaim_expired lib env scope kh fp lu ex r db) = Refused err"
proof -
  obtain res db' where t: "TryReclaim (env_fault env CReclaimExpired) (env_dbnow env CReclaimExpired) (ir_id r)
      (ir_status r) (env_now env) lu ex (env_others env CReclaimExpired db) = (res, db')" by fastforce
  have nt: "res \<noteq> Inr True"
    using held_reclaim assms t by (metis fst_conv)
  show ?thesis
  proof (cases res)
    case (Inl e)
    with t show ?thesis by (simp add: reclaim_expired_def)
  next
    case (Inr b)
    with nt have "res = Inr False" by simp
    let ?g = "GetByScopeAndKeyHash (env_fault env CGetLatest) scope kh (env_others env CGetLatest db')"
    show ?thesis
    proof (cases ?g)
      case (Inl e)
      with t \<open>res = Inr False\<close> show ?thesis by (simp add: reclaim_expired_def Let_def)
    next
      case (Inr x)
      with held_get assms(1) obtain q where "x = Some q" "ir_status q = IdempotencyStatusProcessing"
        by blast
      with Inr t \<open>res = Inr False\<close> dispatch_processing_refused show ?thesis
        by (auto simp: reclaim_expired_def Let_def)
    qed
  qed
qed

lemma held_claim_refused:
  assumes held: "\<forall>c db. held_by_other scope kh i (env_now env) (env_others env c db)"
  shows "\<exists>err. fst (claim_record lib env scope kh fp lu ex db) = Refused err"
proof -
  let ?rec = "Some (new_record scope kh fp lu ex)"
  obtain res db' where c: "CreateProcessing (env_fault env CCreate) (env_dbnow env CCreate) ?rec
      (env_others env CCreate db) = (res, db')" by fastforce
  have "\<exists>err. fst (claim_existing lib env scope kh fp lu ex db') = Refused err"
  proof (cases "GetByScopeAndKeyHash (env_fault env CGet) scope kh (env_others env CGet db')")
    case (Inl e)
    then show ?thesis by (simp add: claim_existing_def Let_def)
  next
    case (Inr x)
    with held_get held obtain q where q: "x = Some q" "ir_id q = i" "ir_status q = IdempotencyStatusProcessing"
      by blast
    with Inr show ?thesis
      using held_reclaim_expired_refused [OF held q(2)] dispatch_processing_refused [OF q(3)]
      by (auto simp: claim_existing_def Let_def)
  qed
  moreover have "res \<noteq> Inr (True, x)" for x
    using held_create held c by (metis fst_conv)
  ultimately show ?thesis using c by (auto simp: claim_record_def split: sum.split prod.split)
qed

text \<open>
  While another caller holds the processing lock of a key, a request with that key does not
  run its function, whatever its payload, whichever of its store calls fail, and however the
  other processes interleave with its calls, as long as the lock stays held when it reads or
  writes the table. It is refused with an error.
\<close>

theorem no_second_run_while_locked:
  assumes "keyed_request lib opts key fp" "env_execute env = Some exec"
    "\<forall>c db. held_by_other (opt_Scope opts) (HashIdempotencyKey lib key) i (env_now env) (env_others env c db)"
  shows "\<not> out_ran (Execute lib True cfg env opts db) \<and> isl (out_result (Execute lib True cfg env opts db))"
proof -
  obtain err where "fst (claim_record lib env (opt_Scope opts) (HashIdempotencyKey lib key) fp
      (env_now env + cfg_ProcessingTimeout cfg) (env_now env + effective_ttl cfg opts) db) = Refused err"
    using held_claim_refused [OF assms(3)] by blast
  then show ?thesis
    using assms by (auto simp: Execute_keyed split: prod.split claim_outcome.split)
qed

definition demo_held :: idem_db where
  "demo_held = \<lparr>db_rows = [(new_record ''pay'' ''k1'' ''someone else'' 100 900)\<lparr>ir_id := 7\<rparr>], db_next_id = 8\<rparr>"

lemma demo_held_held: "held_by_other ''pay'' ''k1'' 7 50 demo_held"
  by (simp add: held_by_other_def demo_held_def db_inv_def sql_get_def same_key_def new_record_def)

theorem no_second_run_while_locked_witness:
  "let env = (demo_env 50 (Inr ''ok''))\<lparr>env_others := (\<lambda>_ _. demo_held),
        env_fault := (\<lambda>c. if c = CReclaimExpired then Lost (EPlain ''timeout'') else NoFault)\<rparr>;
       out = Execute demo_lib True DefaultIdempotencyConfig env demo_opts empty_db
   in \<not> out_ran out \<and> isl (out_result out)"
proof -
  have "opt_Scope demo_opts = ''pay''" "HashIdempotencyKey demo_lib ''k1'' = ''k1''"
    by (simp_all add: demo_opts_def HashIdempotencyKey_def demo_lib_def)
  then show ?thesis
    unfolding Let_def
    by (intro no_second_run_while_locked [OF demo_keyed, of _ "Inr ''ok''" 7])
      (simp_all add: demo_held_held)
qed

subsection \<open>An owner holds the lock it claimed\<close>

lemma reclaim_row_locked:
  assumes "fst (sql_reclaim t i from now lu ex db)"
  shows "\<exists>r \<in> set (db_rows (snd (sql_reclaim t i from now lu ex db))). ir_id r = i
    \<and> ir_status r = IdempotencyStatusProcessing \<and> ir_locked_until r = Some lu \<and> ir_expires_at r = ex"
proof -
  from assms have "affected (reclaimable i from now) (db_rows db) \<noteq> 0"
    by (simp add: sql_reclaim_def Let_def)
  then obtain r where r: "r \<in> set (db_rows db)" "reclaimable i from now r"
    by (auto simp: affected_0_iff)
  then have "reclaim_row t lu ex r \<in> set (db_rows (snd (sql_reclaim t i from now lu ex db)))"
    by (auto simp: sql_reclaim_def Let_def set_update_where)
  then show ?thesis
    using r(2) by (intro bexI [of _ "reclaim_row t lu ex r"]) (auto simp: reclaim_row_def reclaimable_def)
qed

lemma TryReclaim_True:
  assumes "TryReclaim f t i from now lu ex db = (Inr True, db')"
  shows "\<exists>r \<in> set (db_rows db'). ir_id r = i \<and> ir_status r = IdempotencyStatusProcessing
    \<and> ir_locked_until r = Some lu \<and> ir_expires_at r = ex"
  using assms reclaim_row_locked [of t i "from" now lu ex db]
  by (auto simp: TryReclaim_def with_fault_def split: fault.splits prod.splits)

lemma dispatch_owned:
  assumes "dispatch_existing lib env lu ex r db = (Owned i, evs, db')"
  shows "\<exists>r \<in> set (db_rows db'). ir_id r = i \<and> ir_status r = IdempotencyStatusProcessing
    \<and> ir_locked_until r = Some lu \<and> ir_expires_at r = ex"
  using assms TryReclaim_True
  by (fastforce simp: dispatch_existing_def Let_def split: if_splits sum.splits prod.splits bool.splits option.splits)

text \<open>
  A claim that succeeds leaves, in the table, the record it names in status processing, locked
  until the claimed time and with the claimed expiry, under every fault and every interference
  before its calls.
\<close>

theorem owner_holds_record:
  assumes "claim_record lib env scope kh fp lu ex db = (Owned i, evs, db')"
  shows "\<exists>r \<in> set (db_rows db'). ir_id r = i \<and> ir_status r = IdempotencyStatusProcessing
    \<and> ir_locked_until r = Some lu \<and> ir_expires_at r = ex"
proof -
  have re: "\<exists>r \<in> set (db_rows d'). ir_id r = i \<and> ir_status r = IdempotencyStatusProcessing
      \<and> ir_locked_until r = Some lu \<and> ir_expires_at r = ex"
    if "reclaim_expired lib env scope kh fp lu ex r d = (Owned i, evs', d')" for r d d' evs'
    using that TryReclaim_True dispatch_owned
    by (fastforce simp: reclaim_expired_def Let_def split: sum.splits prod.splits bool.splits option.splits if_splits)
  have ce: "\<exists>r \<in> set (db_rows d'). ir_id r = i \<and> ir_status r = IdempotencyStatusProcessing
      \<and> ir_locked_until r = Some lu \<and> ir_expires_at r = ex"
    if "claim_existing lib env scope kh fp lu ex d = (Owned i, evs', d')" for d d' evs'
    using that re dispatch_owned
    by (fastforce simp: claim_existing_def Let_def split: sum.splits option.splits if_splits)
  show ?thesis
    using assms ce
    by (force simp: claim_record_def CreateProcessing_def with_fault_def sql_create_def new_record_def Let_def
        split: fault.splits if_splits)
qed

theorem owner_holds_record_witness:
  "\<exists>r \<in> set (db_rows (snd (sql_create 0 (new_record ''pay'' ''k1'' ''f'' 30 90) empty_db))). ir_id r = 1
     \<and> ir_status r = IdempotencyStatusProcessing \<and> ir_locked_until r = Some 30 \<and> ir_expires_at r = 90"
proof (rule owner_holds_record [of demo_lib "demo_env 0 (Inr ''ok'')" "''pay''" "''k1''" "''f''" 30 90 empty_db 1
      "[Claim ''new_claim'', Audit ''none->processing'' False]"])
  show "claim_record demo_lib (demo_env 0 (Inr ''ok'')) ''pay'' ''k1'' ''f'' 30 90 empty_db =
    (Owned 1, [Claim ''new_claim'', Audit ''none->processing'' False],
     snd (sql_create 0 (new_record ''pay'' ''k1'' ''f'' 30 90) empty_db))"
    by (subst claim_record_new) (simp_all add: empty_db_def sql_get_def demo_env_def quiet_def)
qed

subsection \<open>Failure, backoff and retry\<close>

lemma Execute_fresh_failure:
  assumes "db_inv db" "keyed_request lib opts key fp" "key_row lib opts key db = None" "quiet env"
    "env_execute env = Some (Inl e)"
  shows "out_result (Execute lib True cfg env opts db) = Inl e"
    "db_inv (out_db (Execute lib True cfg env opts db))"
    "\<exists>r. key_row lib opts key (out_db (Execute lib True cfg env opts db)) = Some r
       \<and> ir_status r = IdempotencyStatusFailedRetryable \<and> ir_fingerprint r = fp \<and> 0 < ir_id r
       \<and> ir_locked_until r = Some (env_now_failed env + cfg_FailedRetryBackoff cfg)
       \<and> ir_expires_at r = env_now env + effective_ttl cfg opts"
proof -
  let ?sc = "opt_Scope opts" and ?kh = "HashIdempotencyKey lib key"
  let ?rec = "new_record ?sc ?kh fp (env_now env + cfg_ProcessingTimeout cfg)
    (env_now env + effective_ttl cfg opts)"
  have nz: "0 < db_next_id db" using assms(1) by (simp add: db_inv_def)
  then have ex: "Execute lib True cfg env opts db =
      run_owned lib cfg env (Inl e) (db_next_id db) (env_now env + effective_ttl cfg opts)
        [Claim ''new_claim'', Audit ''none->processing'' False]
        (snd (sql_create (env_dbnow env CCreate) ?rec db))"
    using assms by (simp add: Execute_keyed key_row_def claim_record_new)
  show "out_result (Execute lib True cfg env opts db) = Inl e"
    using assms by (simp add: ex run_owned_failure)
  show "db_inv (out_db (Execute lib True cfg env opts db))"
    using assms by (simp add: ex run_owned_failure sql_mark_failed_inv sql_create_inv)
  have "sql_get ?sc ?kh (snd (sql_create t ?rec db)) = Some (?rec\<lparr>ir_id := db_next_id db,
      ir_created_at := t, ir_updated_at := t, ir_response_status := None, ir_response_body := None,
      ir_error_reason := None\<rparr>)" for t
    using sql_get_create_new [of ?rec db t] assms(3) by (simp add: new_record_def key_row_def)
  then show "\<exists>r. key_row lib opts key (out_db (Execute lib True cfg env opts db)) = Some r
       \<and> ir_status r = IdempotencyStatusFailedRetryable \<and> ir_fingerprint r = fp \<and> 0 < ir_id r
       \<and> ir_locked_until r = Some (env_now_failed env + cfg_FailedRetryBackoff cfg)
       \<and> ir_expires_at r = env_now env + effective_ttl cfg opts"
    using assms nz by (simp add: ex run_owned_failure key_row_def sql_get_mark_failed new_record_def)
qed

lemma Execute_failed_row:
  assumes "db_inv db" "keyed_request lib opts key fp" "quiet env" "env_execute env = Some exec"
    "key_row lib opts key db = Some r" "ir_status r = IdempotencyStatusFailedRetryable" "0 < ir_id r"
    "ir_fingerprint r = fp" "ir_locked_until r = Some lu" "env_now env < ir_expires_at r"
  shows "env_now env < lu \<Longrightarrow> \<not> out_ran (Execute lib True cfg env opts db) \<and>
      out_result (Execute lib True cfg env opts db) =
        Inl (EApp (conflictWithRetryAfter lib ErrIdempotencyRetryBackoff (Some lu) (env_now env)))"
    and "lu \<le> env_now env \<Longrightarrow> out_ran (Execute lib True cfg env opts db)"
proof -
  let ?db = "db\<lparr>db_next_id := db_next_id db + 1\<rparr>"
  have g: "sql_get (opt_Scope opts) (HashIdempotencyKey lib key) ?db = Some r"
    using assms(5) by (simp add: key_row_def)
  have nexp: "\<not> ir_expires_at r \<le> env_now env" using assms(10) by simp
  have nz: "ir_id r \<noteq> 0" using assms(7) by simp
  have nst: "IdempotencyStatusFailedRetryable \<noteq> IdempotencyStatusSucceeded"
    "IdempotencyStatusFailedRetryable \<noteq> IdempotencyStatusProcessing"
    by (simp_all add: idem_status_defs)
  note base = Execute_keyed [OF assms(2,4)] claim_record_existing claim_existing_quiet assms
    key_row_def dispatch_existing_def Let_def nst nexp
  show "env_now env < lu \<Longrightarrow> \<not> out_ran (Execute lib True cfg env opts db) \<and>
      out_result (Execute lib True cfg env opts db) =
        Inl (EApp (conflictWithRetryAfter lib ErrIdempotencyRetryBackoff (Some lu) (env_now env)))"
    using g by (simp add: base)
  assume "lu \<le> env_now env"
  then have t: "fst (sql_reclaim t (ir_id r) IdempotencyStatusFailedRetryable (env_now env) lu' ex ?db)" for t lu' ex
    using sql_reclaim_taken [OF db_inv_next_id [OF assms(1)] g] assms by (simp add: lock_free_def)
  obtain d where "sql_reclaim (env_dbnow env CReclaimFailed) (ir_id r) IdempotencyStatusFailedRetryable (env_now env)
      (env_now env + cfg_ProcessingTimeout cfg) (env_now env + effective_ttl cfg opts) ?db = (True, d)"
    using t by (metis prod.collapse)
  then show "out_ran (Execute lib True cfg env opts db)"
    using g \<open>lu \<le> env_now env\<close> assms(3)
    by (auto simp: base TryReclaim_def quiet_def nz)
qed

text \<open>
  A failed execution backs off and can be retried. The failure is returned as it is; a retry
  inside the backoff window does not run the function and is refused with the backoff error and
  its retry-after hint; a retry after the window, before the record expires, runs it again.
\<close>

theorem failure_backs_off_then_retries:
  assumes "db_inv db" "keyed_request lib opts key fp" "key_row lib opts key db = None" "quiet env"
    "env_execute env = Some (Inl e)" "quiet env2" "env_execute env2 = Some exec2"
    "env_now env2 < env_now env + effective_ttl cfg opts"
    "until = env_now_failed env + cfg_FailedRetryBackoff cfg"
    "out1 = Execute lib True cfg env opts db" "out2 = Execute lib True cfg env2 opts (out_db out1)"
  shows "out_result out1 = Inl e \<and> (out_ran out2 \<longleftrightarrow> until \<le> env_now env2) \<and>
    (env_now env2 < until \<longrightarrow> out_result out2 =
       Inl (EApp (conflictWithRetryAfter lib ErrIdempotencyRetryBackoff (Some until) (env_now env2))))"
proof -
  note f = Execute_fresh_failure [OF assms(1-5), of cfg, folded assms(10)]
  from f(3) obtain r where r: "key_row lib opts key (out_db out1) = Some r"
      "ir_status r = IdempotencyStatusFailedRetryable" "ir_fingerprint r = fp" "0 < ir_id r"
      "ir_locked_until r = Some until" "env_now env2 < ir_expires_at r"
    using assms(8,9) by auto
  note g = Execute_failed_row [OF f(2) assms(2,6,7) r(1,2,4,3,5,6), of cfg, folded assms(11)]
  from f(1) g show ?thesis by force
qed

theorem failure_backs_off_then_retries_witness:
  "let out1 = Execute demo_lib True DefaultIdempotencyConfig (demo_env 0 (Inl (EPlain ''boom''))) demo_opts empty_db;
       again = (\<lambda>t. Execute demo_lib True DefaultIdempotencyConfig (demo_env t (Inr ''ok'')) demo_opts (out_db out1))
   in out_result out1 = Inl (EPlain ''boom'') \<and> \<not> out_ran (again (1 * Second)) \<and> out_ran (again (6 * Second))"
proof -
  let ?until = "0 + cfg_FailedRetryBackoff DefaultIdempotencyConfig"
  have u: "?until = 5 * Second" by (simp add: DefaultIdempotencyConfig_def)
  note w = failure_backs_off_then_retries [OF empty_db_inv demo_keyed demo_row_empty demo_env_sel(1,2)
      demo_env_sel(1,2) _ _ refl refl, where cfg = DefaultIdempotencyConfig, unfolded demo_env_sel demo_ttl]
  have "t < 24 * Hour \<Longrightarrow> out_result (Execute demo_lib True DefaultIdempotencyConfig
          (demo_env 0 (Inl (EPlain ''boom''))) demo_opts empty_db) = Inl (EPlain ''boom'') \<and>
      (out_ran (Execute demo_lib True DefaultIdempotencyConfig (demo_env t (Inr ''ok'')) demo_opts
        (out_db (Execute demo_lib True DefaultIdempotencyConfig (demo_env 0 (Inl (EPlain ''boom''))) demo_opts empty_db)))
       \<longleftrightarrow> 5 * Second \<le> t)" for t
    using w [of t 0 ?until "EPlain ''boom''" "Inr ''ok''"] u by simp
  from this [of "1 * Second"] this [of "6 * Second"] show ?thesis
    by (simp add: Let_def duration_defs)
qed

subsection \<open>Keys, payload conflicts, retry hints\<close>

text \<open>
  An accepted key is empty or consists of 1 to 128 printable ASCII characters, is a piece of
  what the client sent, and normalising it again changes nothing; anything else is rejected with
  the invalid-key error.
\<close>

theorem normalize_key_spec:
  "case NormalizeIdempotencyKey raw of
     Inr key \<Rightarrow> length key \<le> 128 \<and> (\<forall>c \<in> set key. printable c) \<and> sublist key raw
        \<and> NormalizeIdempotencyKey key = Inr key
   | Inl e \<Rightarrow> e = EApp ErrIdempotencyKeyInvalid \<and>
       (128 < length (trim_space raw) \<or> (\<exists>c \<in> set (trim_space raw). \<not> printable c))"
  by (auto simp: NormalizeIdempotencyKey_def Let_def list_ex_iff sublist_trim_space)

theorem normalize_key_spec_witness:
  "NormalizeIdempotencyKey '' order-1 '' = Inr ''order-1'' \<and> NormalizeIdempotencyKey ''order-1'' = Inr ''order-1''
     \<and> sublist ''order-1'' '' order-1 ''"
proof -
  have "trim_space '' order-1 '' = ''order-1''" by code_simp
  moreover have "\<not> list_ex (\<lambda>c. \<not> printable c) ''order-1''" by code_simp
  ultimately have "NormalizeIdempotencyKey '' order-1 '' = Inr ''order-1''"
    by (simp add: NormalizeIdempotencyKey_def Let_def printable_def)
  with normalize_key_spec [of "'' order-1 ''"] show ?thesis by simp
qed

text \<open>
  A key reused with another payload is refused with the key-conflict error and does not run the
  function, whatever the state of the record; the record of the key stays as it is.
\<close>

theorem payload_conflict_refused:
  assumes "keyed_request lib opts key fp" "quiet env" "env_execute env = Some exec"
    "key_row lib opts key db = Some r" "ir_fingerprint r \<noteq> fp"
  shows "\<not> out_ran (Execute lib True cfg env opts db)
    \<and> out_result (Execute lib True cfg env opts db) = Inl (EApp ErrIdempotencyKeyConflict)
    \<and> key_row lib opts key (out_db (Execute lib True cfg env opts db)) = Some r"
  using assms
  by (simp add: Execute_keyed key_row_def claim_record_existing claim_existing_quiet)

theorem payload_conflict_refused_witness:
  "\<not> out_ran (Execute demo_lib True DefaultIdempotencyConfig (demo_env 50 (Inr ''ok'')) demo_opts demo_held)"
proof -
  have "key_row demo_lib demo_opts ''k1'' demo_held =
      Some ((new_record ''pay'' ''k1'' ''someone else'' 100 900)\<lparr>ir_id := 7\<rparr>)"
    by (simp add: key_row_def demo_opts_def demo_lib_def HashIdempotencyKey_def sql_get_def demo_held_def
        same_key_def new_record_def)
  moreover have "''someone else'' \<noteq> demo_fp" by (simp add: demo_fp_def nl_def)
  ultimately show ?thesis
    using payload_conflict_refused [OF demo_keyed demo_env_sel(1,2)] by (simp add: new_record_def)
qed

lemma f64_to_int_range: "in_int64 big \<Longrightarrow> in_int64 (f64_to_int big x)"
  by (simp add: f64_to_int_def Let_def split: f64.split)

text \<open>
  C27: the retry hint of a refusal can be read back. For a refusal about a lock that is held until a
  known time, \<open>RetryAfterSecondsFromError\<close> of the error, however often wrapped, is the number of
  whole seconds left, and at least one.
\<close>

theorem retry_after_readable:
  assumes "in_int64 (int_overflow lib)" "errors_as err = Some (conflictWithRetryAfter lib base (Some lu) now)"
  shows "RetryAfterSecondsFromError (Some err) =
      max 1 (f64_to_int (int_overflow lib) (Seconds (Sub lu now)))
    \<and> 1 \<le> RetryAfterSecondsFromError (Some err)"
proof -
  let ?sec = "f64_to_int (int_overflow lib) (Seconds (Sub lu now))"
  have "in_int64 ?sec" using assms(1) by (rule f64_to_int_range)
  moreover have "in_int64 1" by (simp add: in_int64_def min_int64_def max_int64_def)
  ultimately show ?thesis
    using assms(2)
    by (cases base) (auto simp: RetryAfterSecondsFromError_def conflictWithRetryAfter_def Let_def
        WithMetadata_def Clone_def parse_int64_itoa max_def)
qed

theorem retry_after_readable_witness:
  "RetryAfterSecondsFromError (Some (EWrap ''create order''
     (EApp (conflictWithRetryAfter demo_lib ErrIdempotencyInProgress (Some (30 * Second)) 0)))) \<ge> 1"
proof -
  have "in_int64 (int_overflow demo_lib)"
    by (simp add: demo_lib_def in_int64_def min_int64_def max_int64_def)
  from retry_after_readable [OF this, of "EWrap ''create order''
     (EApp (conflictWithRetryAfter demo_lib ErrIdempotencyInProgress (Some (30 * Second)) 0))"]
  show ?thesis by simp
qed

subsection \<open>The table invariant across a run\<close>

lemma CreateProcessing_inv: "db_inv db \<Longrightarrow> db_inv (snd (CreateProcessing f t r db))"
  unfolding CreateProcessing_def
  by (cases r) (auto intro!: with_fault_inv split: prod.split, metis snd_conv sql_create_inv)

lemma TryReclaim_inv: "db_inv db \<Longrightarrow> db_inv (snd (TryReclaim f t i from now lu ex db))"
  by (simp add: TryReclaim_def with_fault_inv sql_inv)

lemma MarkSucceeded_inv: "db_inv db \<Longrightarrow> db_inv (snd (MarkSucceeded f t i st body ex db))"
  by (simp add: MarkSucceeded_def with_fault_inv sql_inv)

lemma MarkFailedRetryable_inv: "db_inv db \<Longrightarrow> db_inv (snd (MarkFailedRetryable f t i reason lu ex db))"
  by (simp add: MarkFailedRetryable_def with_fault_inv sql_inv)

lemmas repo_inv = CreateProcessing_inv TryReclaim_inv MarkSucceeded_inv MarkFailedRetryable_inv

lemma dispatch_existing_inv:
  assumes "\<And>c db. db_inv db \<Longrightarrow> db_inv (env_others env c db)" "db_inv db"
  shows "db_inv (snd (snd (dispatch_existing lib env lu ex r db)))"
  using TryReclaim_inv [OF assms(1) [OF assms(2)],
      of "env_fault env CReclaimFailed" "env_dbnow env CReclaimFailed" _ _ _ _ _ CReclaimFailed] assms(2)
  by (auto simp: dispatch_existing_def Let_def split: sum.split prod.split bool.split option.split) (metis snd_conv)+

lemma reclaim_expired_inv:
  assumes "\<And>c db. db_inv db \<Longrightarrow> db_inv (env_others env c db)" "db_inv db"
  shows "db_inv (snd (snd (reclaim_expired lib env scope kh fp lu ex r db)))"
proof -
  obtain res db' where t: "TryReclaim (env_fault env CReclaimExpired) (env_dbnow env CReclaimExpired) (ir_id r)
      (ir_status r) (env_now env) lu ex (env_others env CReclaimExpired db) = (res, db')" by fastforce
  then have "db_inv db'" using TryReclaim_inv [OF assms(1) [OF assms(2)]] by (metis snd_conv)
  then show ?thesis
    using t assms(1) dispatch_existing_inv [OF assms(1)]
    by (auto simp: reclaim_expired_def Let_def split: sum.split bool.split option.split)
qed

lemma claim_record_inv:
  assumes "\<And>c db. db_inv db \<Longrightarrow> db_inv (env_others env c db)" "db_inv db"
  shows "db_inv (snd (snd (claim_record lib env scope kh fp lu ex db)))"
proof -
  have ce: "db_inv (snd (snd (claim_existing lib env scope kh fp lu ex d)))" if "db_inv d" for d
    using that assms(1) dispatch_existing_inv [OF assms(1)] reclaim_expired_inv [OF assms(1)]
    by (auto simp: claim_existing_def Let_def split: sum.split option.split)
  obtain res db' where t: "CreateProcessing (env_fault env CCreate) (env_dbnow env CCreate)
      (Some (new_record scope kh fp lu ex)) (env_others env CCreate db) = (res, db')" by fastforce
  then have "db_inv db'" using CreateProcessing_inv [OF assms(1) [OF assms(2)]] by (metis snd_conv)
  then show ?thesis using t ce by (auto simp: claim_record_def split: sum.split prod.split)
qed

lemma run_owned_inv:
  assumes "\<And>c db. db_inv db \<Longrightarrow> db_inv (env_others env c db)" "db_inv db"
  shows "db_inv (out_db (run_owned lib cfg env exec i ex evs db))"
  using repo_inv(3,4) [OF assms(1) [OF assms(2)]] assms
  by (auto simp: run_owned_def Let_def split: sum.split prod.split) (metis snd_conv)+

lemma Execute_inv:
  assumes "\<forall>c db. db_inv db \<longrightarrow> db_inv (env_others env c db)" "db_inv db"
  shows "db_inv (out_db (Execute lib has_repo cfg env opts db))"
proof -
  have o: "\<And>c db. db_inv db \<Longrightarrow> db_inv (env_others env c db)" using assms(1) by blast
  have "db_inv db'" if "claim_record lib env scope kh fp lu ex db = (x, evs, db')"
    for scope kh fp lu ex x evs db'
    using claim_record_inv [OF o assms(2)] that by (metis snd_conv)
  then show ?thesis
    using assms(2) run_owned_inv [OF o]
    by (auto simp: Execute_def Let_def split: option.split sum.split prod.split claim_outcome.split)
qed

text \<open>
  Every run keeps the table sound: one record per scope and key, ids unique and below the
  sequence, whatever the request, the faults of its calls and the (sound) steps of other processes.
\<close>

theorem Execute_keeps_table_sound:
  assumes "\<forall>c db. db_inv db \<longrightarrow> db_inv (env_others env c db)" "db_inv db"
  shows "db_inv (out_db (Execute lib has_repo cfg env opts db))"
  by (rule Execute_inv [OF assms])

theorem Execute_keeps_table_sound_witness:
  "db_inv (out_db (Execute demo_lib True DefaultIdempotencyConfig
     ((demo_env 0 (Inr ''ok''))\<lparr>env_fault := (\<lambda>_. Unacked (EPlain ''timeout''))\<rparr>) demo_opts empty_db))"
  by (rule Execute_keeps_table_sound) (simp_all add: demo_env_def)

subsection \<open>Two flaws of the coordinator\<close>

text \<open>
  A response longer than the configured maximum cannot be replayed. \<open>marshalStoredResponse\<close>
  cuts it and appends a marker, and since no JSON text ends in that marker the retry gets a
  store-unavailable error, although the request succeeded and its first caller got the data.
\<close>

theorem long_response_not_replayable:
  assumes "db_inv db" "keyed_request lib opts key fp" "key_row lib opts key db = None" "quiet env"
    "env_execute env = Some (Inr data)" "json_marshal lib data = Inr raw" "0 < cfg_MaxStoredResponseLen cfg"
    "cfg_MaxStoredResponseLen cfg < int (length (redact_text lib raw))"
    "\<forall>s. isl (json_unmarshal lib (s @ truncated_mark))"
    "quiet env2" "env_execute env2 = Some exec2" "env_now env2 < env_now env + effective_ttl cfg opts"
  shows "out_result (Execute lib True cfg env opts db) = Inr (data, False)
    \<and> (\<exists>cause. out_result (Execute lib True cfg env2 opts (out_db (Execute lib True cfg env opts db))) =
         Inl (EApp (WithCause ErrIdempotencyStoreUnavail (Some cause))))"
proof -
  let ?body = "take (nat (cfg_MaxStoredResponseLen cfg)) (redact_text lib raw) @ truncated_mark"
  have m: "marshalStoredResponse lib cfg data = Inr ?body"
    using assms(6-8) by (simp add: marshalStoredResponse_def Let_def)
  note f = Execute_fresh_success [OF assms(1-5) m]
  from f(3) obtain r where r: "key_row lib opts key (out_db (Execute lib True cfg env opts db)) = Some r"
      "ir_status r = IdempotencyStatusSucceeded" "ir_fingerprint r = fp" "ir_response_body r = Some ?body"
      "env_now env2 < ir_expires_at r" using assms(12) by auto
  obtain e where "json_unmarshal lib ?body = Inl e" using assms(9) by (metis isl_def)
  moreover have "trim_space ?body \<noteq> []"
    using trim_space_keeps [of "CHR ''t''" ?body] by (auto simp: truncated_mark_def printable_def)
  ultimately have "decodeStoredResponse lib (Some ?body) = Inl (EWrap ''decode stored response'' e)"
    by (simp add: decodeStoredResponse_def)
  then show ?thesis
    using f(2) Execute_replays(2) [OF assms(2,10,11) r(1-3,5), of cfg] r(4)
    by (auto simp: replay_result_def unavail_def)
qed

lemma demo_unmarshal_marked: "isl (json_unmarshal demo_lib (s @ truncated_mark))"
  by (simp add: demo_lib_def truncated_mark_def)

theorem long_response_not_replayable_witness:
  "let cfg = DefaultIdempotencyConfig\<lparr>cfg_MaxStoredResponseLen := 1\<rparr>;
       out = Execute demo_lib True cfg (demo_env 0 (Inr ''ok'')) demo_opts empty_db
   in out_result out = Inr (''ok'', False)
    \<and> (\<exists>cause. out_result (Execute demo_lib True cfg (demo_env 5 (Inr ''ok'')) demo_opts (out_db out)) =
         Inl (EApp (WithCause ErrIdempotencyStoreUnavail (Some cause))))"
proof -
  let ?cfg = "DefaultIdempotencyConfig\<lparr>cfg_MaxStoredResponseLen := 1\<rparr>"
  have "effective_ttl ?cfg demo_opts = 24 * Hour"
    by (simp add: effective_ttl_def demo_opts_def DefaultIdempotencyConfig_def)
  moreover have "json_marshal demo_lib ''ok'' = Inr ''ok''" "redact_text demo_lib ''ok'' = ''ok''"
    by (simp_all add: demo_lib_def)
  ultimately show ?thesis
    using long_response_not_replayable [OF empty_db_inv demo_keyed demo_row_empty demo_env_sel(1,2), of "''ok''" "''ok''"
        ?cfg "demo_env 5 (Inr ''ok'')" "Inr ''ok''" 0] demo_unmarshal_marked
    by (simp add: Let_def duration_defs)
qed

lemma reclaim_succeeded_row:
  assumes "db_inv db" "sql_get sc kh db = Some r" "ir_status r = IdempotencyStatusSucceeded"
    "ir_locked_until r = None"
  shows "\<exists>db'. sql_reclaim t (ir_id r) IdempotencyStatusSucceeded now lu ex db = (True, db')"
  using sql_reclaim_taken [OF assms(1,2), of t IdempotencyStatusSucceeded now lu ex] assms(3,4)
  by (metis lock_free_def option.simps(4) prod.collapse)

text \<open>
  The claim of a caller that read an expired succeeded record, when at the moment of its reclaim
  the record is succeeded and unlocked, whoever wrote it: it owns the record.
\<close>

lemma Execute_reclaims_expired:
  assumes "db_inv db" "keyed_request lib opts key fp" "env_execute env = Some exec"
    "key_row lib opts key db = Some r" "ir_status r = IdempotencyStatusSucceeded" "ir_fingerprint r = fp"
    "ir_expires_at r \<le> env_now env" "env_fault env = (\<lambda>_. NoFault)"
    "\<And>c d. c \<noteq> CReclaimExpired \<Longrightarrow> env_others env c d = d"
    "db_inv (env_others env CReclaimExpired (db\<lparr>db_next_id := db_next_id db + 1\<rparr>))"
    "key_row lib opts key (env_others env CReclaimExpired (db\<lparr>db_next_id := db_next_id db + 1\<rparr>)) = Some q"
    "ir_status q = IdempotencyStatusSucceeded" "ir_locked_until q = None" "ir_id q = ir_id r"
  shows "\<exists>evs. Execute lib True cfg env opts db =
    run_owned lib cfg env exec (ir_id r) (env_now env + effective_ttl cfg opts) evs
      (snd (sql_reclaim (env_dbnow env CReclaimExpired) (ir_id r) IdempotencyStatusSucceeded (env_now env)
        (env_now env + cfg_ProcessingTimeout cfg) (env_now env + effective_ttl cfg opts)
        (env_others env CReclaimExpired (db\<lparr>db_next_id := db_next_id db + 1\<rparr>))))"
proof -
  let ?lu = "env_now env + cfg_ProcessingTimeout cfg" and ?ex = "env_now env + effective_ttl cfg opts"
  let ?sc = "opt_Scope opts" and ?kh = "HashIdempotencyKey lib key"
  obtain d where d: "sql_reclaim (env_dbnow env CReclaimExpired) (ir_id r) IdempotencyStatusSucceeded (env_now env)
      ?lu ?ex (env_others env CReclaimExpired (db\<lparr>db_next_id := db_next_id db + 1\<rparr>)) = (True, d)"
    using reclaim_succeeded_row [OF assms(10) _ assms(12,13)] assms(11,14) by (metis key_row_def)
  have nz: "ir_id r \<noteq> 0" using sql_get_id_pos [OF assms(1)] assms(4) by (force simp: key_row_def)
  have g: "sql_get ?sc ?kh db = Some r" using assms(4) by (simp add: key_row_def)
  have "claim_record lib env ?sc ?kh fp ?lu ?ex db =
      claim_existing lib env ?sc ?kh fp ?lu ?ex (db\<lparr>db_next_id := db_next_id db + 1\<rparr>)"
    using assms(8,9) g
    by (simp add: claim_record_def CreateProcessing_def sql_create_def Let_def new_record_def list_ex_find sql_get_def)
  also have "\<dots> = (Owned (ir_id r), [Claim ''expired_reclaim'', Audit (ir_status r @ ''->processing'') False], d)"
    using assms(5-9) g d
    by (simp add: claim_existing_def GetByScopeAndKeyHash_def Let_def reclaim_expired_def TryReclaim_def)
  finally show ?thesis using nz d by (auto simp: Execute_keyed [OF assms(2,3)])
qed

lemma Execute_reclaims_quiet:
  assumes "db_inv db" "key_row lib opts key db = Some r" "keyed_request lib opts key fp" "quiet env"
    "env_execute env = Some (Inr data)" "marshalStoredResponse lib cfg data = Inr body"
    "ir_status r = IdempotencyStatusSucceeded" "ir_fingerprint r = fp" "ir_locked_until r = None"
    "ir_expires_at r \<le> env_now env"
  shows "out_ran (Execute lib True cfg env opts db)"
    "\<exists>q. key_row lib opts key (out_db (Execute lib True cfg env opts db)) = Some q \<and> ir_id q = ir_id r
       \<and> ir_status q = IdempotencyStatusSucceeded \<and> ir_locked_until q = None"
proof -
  have g: "sql_get (opt_Scope opts) (HashIdempotencyKey lib key) db = Some r"
    using assms(2) by (simp add: key_row_def)
  have o: "env_others env c d = d" "env_fault env = (\<lambda>_. NoFault)" for c d
    using assms(4) by (simp_all add: quiet_def)
  obtain evs where ex: "Execute lib True cfg env opts db =
      run_owned lib cfg env (Inr data) (ir_id r) (env_now env + effective_ttl cfg opts) evs
        (snd (sql_reclaim (env_dbnow env CReclaimExpired) (ir_id r) IdempotencyStatusSucceeded (env_now env)
          (env_now env + cfg_ProcessingTimeout cfg) (env_now env + effective_ttl cfg opts)
          (db\<lparr>db_next_id := db_next_id db + 1\<rparr>)))"
    using Execute_reclaims_expired [OF assms(1,3,5,2,7,8,10) o(2), of r cfg] o(1) db_inv_next_id [OF assms(1)]
      assms(2,7,9) by (auto simp: key_row_def)
  then show "out_ran (Execute lib True cfg env opts db)" by simp
  show "\<exists>q. key_row lib opts key (out_db (Execute lib True cfg env opts db)) = Some q \<and> ir_id q = ir_id r
       \<and> ir_status q = IdempotencyStatusSucceeded \<and> ir_locked_until q = None"
    using assms(4,6,7,9) g
    by (simp add: ex run_owned_success key_row_def sql_get_mark_succeeded sql_get_reclaim reclaimable_def
        lock_free_def reclaim_row_def)
qed

text \<open>
  The reclaim of an expired record can run the function twice. Two callers with the same key
  and payload read the record just after it expired; the first one reclaims it, runs the function
  and stores its success before the second one reclaims. The reclaim only compares the status,
  which is succeeded again, and not the expiry, so the second caller runs the function as well,
  although the first caller's success was already stored and is not expired.
\<close>

theorem expired_reclaim_runs_twice:
  assumes "db_inv db" "keyed_request lib opts key fp" "key_row lib opts key db = Some r"
    "ir_status r = IdempotencyStatusSucceeded" "ir_fingerprint r = fp" "ir_locked_until r = None"
    "ir_expires_at r \<le> env_now env1" "ir_expires_at r \<le> env_now env2"
    "quiet env1" "env_execute env1 = Some (Inr data)" "marshalStoredResponse lib cfg data = Inr body"
    "env_execute env2 = Some exec2" "env_fault env2 = (\<lambda>_. NoFault)"
    "env_others env2 = (\<lambda>c d. if c = CReclaimExpired then out_db (Execute lib True cfg env1 opts d) else d)"
  shows "out_ran (Execute lib True cfg env1 opts db) \<and> out_ran (Execute lib True cfg env2 opts db)"
proof -
  let ?db = "db\<lparr>db_next_id := db_next_id db + 1\<rparr>"
  have b: "db_inv ?db" "key_row lib opts key ?db = Some r"
    using assms(1,3) db_inv_next_id by (simp_all add: key_row_def)
  have inv: "db_inv (out_db (Execute lib True cfg env1 opts ?db))"
    using Execute_inv [of env1, OF _ b(1)] assms(9) by (simp add: quiet_def)
  obtain q where q: "key_row lib opts key (out_db (Execute lib True cfg env1 opts ?db)) = Some q"
      "ir_status q = IdempotencyStatusSucceeded" "ir_locked_until q = None" "ir_id q = ir_id r"
    using Execute_reclaims_quiet(2) [OF b assms(2,9-11,4-7)] by blast
  have "out_ran (Execute lib True cfg env2 opts db)"
    using Execute_reclaims_expired [OF assms(1,2,12,3,4,5,8,13), of q cfg] assms(14) inv q by auto
  then show ?thesis using Execute_reclaims_quiet(1) [OF assms(1,3,2,9-11,4-7)] by auto
qed

definition demo_expired :: idem_db where
  "demo_expired = \<lparr>db_rows = [(new_record ''pay'' ''k1'' demo_fp 0 100)\<lparr>ir_id := 7,
     ir_status := IdempotencyStatusSucceeded, ir_locked_until := None, ir_response_body := Some ''ok''\<rparr>],
     db_next_id = 8\<rparr>"

theorem expired_reclaim_runs_twice_witness:
  "let env1 = demo_env 100 (Inr ''ok'');
       env2 = (demo_env 100 (Inr ''ok''))\<lparr>env_others := (\<lambda>c d. if c = CReclaimExpired
          then out_db (Execute demo_lib True DefaultIdempotencyConfig env1 demo_opts d) else d)\<rparr>
   in out_ran (Execute demo_lib True DefaultIdempotencyConfig env1 demo_opts demo_expired) \<and>
      out_ran (Execute demo_lib True DefaultIdempotencyConfig env2 demo_opts demo_expired)"
proof -
  let ?env1 = "demo_env 100 (Inr ''ok'')"
  let ?o = "\<lambda>c d. if c = CReclaimExpired
          then out_db (Execute demo_lib True DefaultIdempotencyConfig ?env1 demo_opts d) else d"
  let ?r = "(new_record ''pay'' ''k1'' demo_fp 0 100)\<lparr>ir_id := 7,
     ir_status := IdempotencyStatusSucceeded, ir_locked_until := None, ir_response_body := Some ''ok''\<rparr>"
  have inv: "db_inv demo_expired" by (simp add: demo_expired_def db_inv_def)
  have row: "key_row demo_lib demo_opts ''k1'' demo_expired = Some ?r"
    by (simp add: key_row_def demo_opts_def demo_lib_def HashIdempotencyKey_def sql_get_def demo_expired_def
        same_key_def new_record_def)
  show ?thesis
    unfolding Let_def
    by (rule expired_reclaim_runs_twice [OF inv demo_keyed row, of _ _ "''ok''" _ "''ok''" "Inr ''ok''"])
      (simp_all add: new_record_def demo_marshal, simp_all add: demo_env_def)
qed

end
