(* ===== verification/SystemOpLock.thy ===== *)
theory SystemOpLock
  imports Idempotency
begin

text \<open>
  The global lock for system operations, \<open>internal/service/system_operation_lock_service.go\<close>,
  built on the idempotency store: one record of a fixed key, claimed by \<open>Acquire\<close>, renewed by
  the goroutine \<open>renewLoop\<close> and given back by \<open>Release\<close>; and the periodic cleanup of expired
  records, \<open>internal/service/idempotency_cleanup_service.go\<close>. The two goroutines are modelled by
  one tick each; the system is the transition system whose steps are the calls and the ticks.
\<close>

definition systemOperationLockScope :: gostring where
  "systemOperationLockScope = ''admin.system.operations.global_lock''"
definition systemOperationLockKey :: gostring where
  "systemOperationLockKey = ''global-system-operation-lock''"
definition ErrSystemOperationBusy :: app_error where
  "ErrSystemOperationBusy = Conflict ''SYSTEM_OPERATION_BUSY'' ''another system operation is in progress''"

record sys_lock =
  sl_recordID :: int64
  sl_operationID :: gostring
  sl_stopped :: bool

record sys_lock_service =
  sv_lease :: duration
  sv_renewInterval :: duration
  sv_ttl :: duration

definition OperationID :: "sys_lock option \<Rightarrow> gostring" where
  "OperationID l = (case l of None \<Rightarrow> [] | Some lock \<Rightarrow> sl_operationID lock)"

definition NewSystemOperationLockService :: "idem_config \<Rightarrow> sys_lock_service" where
  "NewSystemOperationLockService cfg =
     (let lease = (if cfg_ProcessingTimeout cfg \<le> 0 then 30 * Second else cfg_ProcessingTimeout cfg);
          renewInterval = quot lease 3;
          renewInterval = (if renewInterval < Second then Second else renewInterval);
          ttl = (if cfg_SystemOperationTTL cfg \<le> 0 then Hour else cfg_SystemOperationTTL cfg)
      in \<lparr>sv_lease = lease, sv_renewInterval = renewInterval, sv_ttl = ttl\<rparr>)"

definition busyError :: "'d go_lib \<Rightarrow> gostring \<Rightarrow> time option \<Rightarrow> time \<Rightarrow> go_error" where
  "busyError lib operationID lockedUntil now =
     (let md = (if operationID \<noteq> [] then [''operation_id'' \<mapsto> operationID] else Map.empty);
          md = (case lockedUntil of None \<Rightarrow> md
                | Some lu \<Rightarrow>
                    (let sec = f64_to_int (int_overflow lib) (Seconds (Sub lu now));
                         sec = (if sec \<le> 0 then 1 else sec)
                     in md(''retry_after'' \<mapsto> itoa sec)))
      in if operationID = [] \<and> lockedUntil = None then EApp ErrSystemOperationBusy
         else EApp (WithMetadata ErrSystemOperationBusy (Some md)))"

text \<open>The service is its settings, or \<open>None\<close> when it or its repository is nil.\<close>

definition Acquire ::
    "'d go_lib \<Rightarrow> sys_lock_service option \<Rightarrow> 'd exec_env \<Rightarrow> gostring \<Rightarrow> idem_db \<Rightarrow> sys_lock result \<times> idem_db" where
  "Acquire lib svc env operationID db = (case svc of
     None \<Rightarrow> (Inl (EApp ErrIdempotencyStoreUnavail), db)
   | Some s \<Rightarrow>
     if operationID = [] then
       (Inl (EApp (BadRequest ''SYSTEM_OPERATION_ID_REQUIRED'' ''operation id is required'')), db)
     else
       (let now = env_now env;
            expiresAt = Add now (sv_ttl s);
            lockedUntil = Add now (sv_lease s);
            keyHash = HashIdempotencyKey lib systemOperationLockKey;
            got = (\<lambda>rid db'. if rid = 0 then (Inl (EApp ErrIdempotencyStoreUnavail), db')
                     else (Inr \<lparr>sl_recordID = rid, sl_operationID = operationID, sl_stopped = False\<rparr>, db'))
        in case CreateProcessing (env_fault env CCreate) (env_dbnow env CCreate)
                  (Some (new_record systemOperationLockScope keyHash operationID lockedUntil expiresAt))
                  (env_others env CCreate db) of
             (Inl err, db1) \<Rightarrow> (Inl (unavail (Some err)), db1)
           | (Inr (owner, rec'), db1) \<Rightarrow>
             if owner then got (case rec' of None \<Rightarrow> 0 | Some r \<Rightarrow> ir_id r) db1
             else
               (let db2 = env_others env CGet db1 in
                case GetByScopeAndKeyHash (env_fault env CGet) systemOperationLockScope keyHash db2 of
                  Inl getErr \<Rightarrow> (Inl (unavail (Some getErr)), db2)
                | Inr None \<Rightarrow> (Inl (unavail None), db2)
                | Inr (Some existing) \<Rightarrow>
                    if ir_status existing = IdempotencyStatusProcessing
                       \<and> (case ir_locked_until existing of None \<Rightarrow> False | Some lu \<Rightarrow> After lu now) then
                      (Inl (busyError lib (ir_fingerprint existing) (ir_locked_until existing) now), db2)
                    else
                      (case TryReclaim (env_fault env CReclaimExpired) (env_dbnow env CReclaimExpired)
                              (ir_id existing) (ir_status existing) now lockedUntil expiresAt
                              (env_others env CReclaimExpired db2) of
                         (Inl reclaimErr, db3) \<Rightarrow> (Inl (unavail (Some reclaimErr)), db3)
                       | (Inr True, db3) \<Rightarrow> got (ir_id existing) db3
                       | (Inr False, db3) \<Rightarrow>
                           (let db4 = env_others env CGetLatest db3 in
                            case GetByScopeAndKeyHash (env_fault env CGetLatest) systemOperationLockScope keyHash db4 of
                              Inr (Some latest) \<Rightarrow>
                                (Inl (busyError lib (ir_fingerprint latest) (ir_locked_until latest) now), db4)
                            | _ \<Rightarrow> (Inl (EApp ErrSystemOperationBusy), db4))))))"

definition released_body :: "gostring \<Rightarrow> gostring" where
  "released_body operationID =
     [CHR 0x7B, CHR 0x22] @ ''operation_id'' @ [CHR 0x22, CHR 0x3A, CHR 0x22] @ operationID
       @ [CHR 0x22, CHR 0x2C, CHR 0x22] @ ''released'' @ [CHR 0x22, CHR 0x3A] @ ''true'' @ [CHR 0x7D]"

text \<open>\<open>Release\<close> closes the stop channel first; the result is the store's, or nothing to do.\<close>

definition Release ::
    "sys_lock_service option \<Rightarrow> fault \<Rightarrow> time \<Rightarrow> time \<Rightarrow> sys_lock option \<Rightarrow> bool \<Rightarrow> gostring \<Rightarrow> idem_db \<Rightarrow>
     unit result \<times> sys_lock option \<times> idem_db" where
  "Release svc f now dbnow lock succeeded failureReason db = (case (svc, lock) of
     (Some s, Some l) \<Rightarrow>
       (let l' = l\<lparr>sl_stopped := True\<rparr>;
            expiresAt = Add now (sv_ttl s);
            reason = (if failureReason = [] then ''SYSTEM_OPERATION_FAILED'' else failureReason);
            (res, db') = (if succeeded
              then MarkSucceeded f dbnow (sl_recordID l) 200 (released_body (sl_operationID l)) expiresAt db
              else MarkFailedRetryable f dbnow (sl_recordID l) reason now expiresAt db)
        in (res, Some l', db'))
   | _ \<Rightarrow> (Inr (), lock, db))"

text \<open>
  One tick of \<open>renewLoop\<close>: whether the loop goes on, and the table. When the stop channel is
  closed the loop returns (a tick that is ready at the same time may still be taken once:
  \<open>stop_seen\<close> says which of the two the select chose).
\<close>

definition renew_tick ::
    "sys_lock_service \<Rightarrow> fault \<Rightarrow> time \<Rightarrow> time \<Rightarrow> bool \<Rightarrow> sys_lock \<Rightarrow> idem_db \<Rightarrow> bool \<times> idem_db" where
  "renew_tick s f now dbnow stop_seen lock db =
     (if sl_stopped lock \<and> stop_seen then (False, db)
      else case ExtendProcessingLock f dbnow (sl_recordID lock) (sl_operationID lock)
                  (Add now (sv_lease s)) (Add now (sv_ttl s)) db of
             (Inl err, db') \<Rightarrow> (True, db')
           | (Inr ok, db') \<Rightarrow> (ok, db'))"

subsection \<open>Cleanup\<close>

record cleanup_service =
  cs_interval :: duration
  cs_batch :: int
  cs_started :: bool
  cs_stopped :: bool

text \<open>\<open>cfg\<close> is the pair of \<open>CleanupIntervalSeconds\<close> and \<open>CleanupBatchSize\<close>.\<close>

definition NewIdempotencyCleanupService :: "(int \<times> int) option \<Rightarrow> cleanup_service" where
  "NewIdempotencyCleanupService cfg =
     \<lparr>cs_interval = (case cfg of Some (i, _) \<Rightarrow> if 0 < i then i * Second else 60 * Second | None \<Rightarrow> 60 * Second),
      cs_batch = (case cfg of Some (_, b) \<Rightarrow> if 0 < b then b else 500 | None \<Rightarrow> 500),
      cs_started = False, cs_stopped = False\<rparr>"

text \<open>\<open>Start\<close> and \<open>Stop\<close> act once each; \<open>Start\<close> says whether it launches the loop.\<close>

definition Start :: "bool \<Rightarrow> cleanup_service \<Rightarrow> bool \<times> cleanup_service" where
  "Start has_repo s = (if \<not> has_repo \<or> cs_started s then (False, s) else (True, s\<lparr>cs_started := True\<rparr>))"

definition Stop :: "cleanup_service \<Rightarrow> cleanup_service" where
  "Stop s = s\<lparr>cs_stopped := True\<rparr>"

definition cleanupOnce :: "cleanup_service \<Rightarrow> fault \<Rightarrow> time \<Rightarrow> idem_db \<Rightarrow> idem_db" where
  "cleanupOnce s f now db = snd (DeleteExpired f now (cs_batch s) db)"

text \<open>\<open>runLoop\<close>: one cleanup at once, then one per tick until the stop channel closes.\<close>

primrec runLoop :: "cleanup_service \<Rightarrow> (fault \<times> time) list \<Rightarrow> idem_db \<Rightarrow> idem_db" where
  "runLoop s [] db = db"
| "runLoop s (tick # ticks) db = runLoop s ticks (cleanupOnce s (fst tick) (snd tick) db)"

subsection \<open>Acquiring\<close>

definition lock_row :: "'d go_lib \<Rightarrow> idem_db \<Rightarrow> idem_record option" where
  "lock_row lib db = sql_get systemOperationLockScope (HashIdempotencyKey lib systemOperationLockKey) db"

definition lock_held :: "'d go_lib \<Rightarrow> int64 \<Rightarrow> time \<Rightarrow> idem_db \<Rightarrow> bool" where
  "lock_held lib i now db \<longleftrightarrow>
     held_by_other systemOperationLockScope (HashIdempotencyKey lib systemOperationLockKey) i now db"

lemma Acquire_new:
  assumes "quiet env" "op \<noteq> []" "lock_row lib db = None" "db_inv db"
  shows "Acquire lib (Some s) env op db =
    (Inr \<lparr>sl_recordID = db_next_id db, sl_operationID = op, sl_stopped = False\<rparr>,
     snd (sql_create (env_dbnow env CCreate) (new_record systemOperationLockScope
       (HashIdempotencyKey lib systemOperationLockKey) op (env_now env + sv_lease s) (env_now env + sv_ttl s)) db))"
  using assms
  by (auto simp: Acquire_def CreateProcessing_def quiet_def sql_create_def Let_def new_record_def
      list_ex_find sql_get_def lock_row_def db_inv_def)

lemma Acquire_free:
  assumes "quiet env" "op \<noteq> []" "lock_row lib db = Some r" "db_inv db" "lock_free (env_now env) r"
  shows "Acquire lib (Some s) env op db =
    (Inr \<lparr>sl_recordID = ir_id r, sl_operationID = op, sl_stopped = False\<rparr>,
     snd (sql_reclaim (env_dbnow env CReclaimExpired) (ir_id r) (ir_status r) (env_now env)
       (env_now env + sv_lease s) (env_now env + sv_ttl s) (db\<lparr>db_next_id := db_next_id db + 1\<rparr>)))"
proof -
  let ?db = "db\<lparr>db_next_id := db_next_id db + 1\<rparr>"
  have g: "sql_get systemOperationLockScope (HashIdempotencyKey lib systemOperationLockKey) ?db = Some r"
    using assms(3) by (simp add: lock_row_def)
  have t: "fst (sql_reclaim t (ir_id r) (ir_status r) (env_now env) lu ex ?db)" for t lu ex
    using sql_reclaim_taken [OF db_inv_next_id [OF assms(4)] g] assms(5) by simp
  obtain d where d: "sql_reclaim (env_dbnow env CReclaimExpired) (ir_id r) (ir_status r) (env_now env)
       (env_now env + sv_lease s) (env_now env + sv_ttl s) ?db = (True, d)"
    using t by (metis prod.collapse)
  have "ir_id r \<noteq> 0" using sql_get_id_pos [OF db_inv_next_id [OF assms(4)] g] by simp
  moreover have "\<not> (case ir_locked_until r of None \<Rightarrow> False | Some lu \<Rightarrow> After lu (env_now env))"
    using assms(5) by (auto simp: lock_free_def split: option.splits)
  ultimately show ?thesis
    using assms(1-3) d g
    by (auto simp: Acquire_def CreateProcessing_def TryReclaim_def GetByScopeAndKeyHash_def quiet_def
        sql_create_def Let_def new_record_def list_ex_find lock_row_def simp flip: sql_get_def)
qed

lemma acquire_refused_held:
  assumes "\<forall>c db. lock_held lib i (env_now env) (env_others env c db)"
  shows "isl (fst (Acquire lib svc env op db))"
proof -
  let ?kh = "HashIdempotencyKey lib systemOperationLockKey"
  have h: "held_by_other systemOperationLockScope ?kh i (env_now env) (env_others env c db)" for c db
    using assms by (simp add: lock_held_def)
  have no_create: "CreateProcessing f t (Some (new_record systemOperationLockScope ?kh fp lu ex))
      (env_others env CCreate db) \<noteq> (Inr (True, x), d)" for f t fp lu ex x d
    using held_create [OF h] by (metis fst_conv)
  have busy: "ir_id r = i \<and> (case ir_locked_until r of None \<Rightarrow> False | Some lu \<Rightarrow> After lu (env_now env))
      \<and> ir_status r = IdempotencyStatusProcessing"
    if "GetByScopeAndKeyHash f systemOperationLockScope ?kh (env_others env CGet d) = Inr (Some r)" for f d r
    using h [of CGet d] that by (auto simp: held_by_other_def GetByScopeAndKeyHash_def split: fault.splits)
  show ?thesis
    using no_create
    by (auto simp: Acquire_def Let_def split: option.split sum.split prod.split dest: busy)
qed

text \<open>
  Mutual exclusion of the system operation lock. While some operation's lock on the record runs,
  \<open>Acquire\<close> gives no lock to anybody, whichever of its store calls fail and however other processes
  interleave, as long as the lock is still running at each of its calls.
\<close>

theorem acquire_refused_while_held:
  assumes "\<forall>c db. lock_held lib i (env_now env) (env_others env c db)"
  shows "isl (fst (Acquire lib svc env op db))"
  by (rule acquire_refused_held [OF assms])

lemma new_lock_held:
  assumes "lock_row lib db = None" "db_inv db" "now < lu"
  shows "lock_held lib (db_next_id db) now
    (snd (sql_create t (new_record systemOperationLockScope (HashIdempotencyKey lib systemOperationLockKey) op lu ex) db))"
proof -
  let ?rec = "new_record systemOperationLockScope (HashIdempotencyKey lib systemOperationLockKey) op lu ex"
  have "sql_get systemOperationLockScope (HashIdempotencyKey lib systemOperationLockKey) (snd (sql_create t ?rec db)) =
      Some (?rec\<lparr>ir_id := db_next_id db, ir_created_at := t, ir_updated_at := t, ir_response_status := None,
        ir_response_body := None, ir_error_reason := None\<rparr>)"
    using sql_get_create_new [of ?rec db t] assms(1) by (simp add: new_record_def lock_row_def)
  then show ?thesis
    using sql_create_inv [OF assms(2)] assms(3) by (simp add: lock_held_def held_by_other_def new_record_def)
qed

theorem acquire_refused_while_held_witness:
  "isl (fst (Acquire demo_lib (Some (NewSystemOperationLockService DefaultIdempotencyConfig))
     ((demo_env 5 (Inr []))\<lparr>env_others := \<lambda>_ _. snd (sql_create 0 (new_record systemOperationLockScope
        (HashIdempotencyKey demo_lib systemOperationLockKey) ''upgrade'' 30 90) empty_db)\<rparr>) ''restart'' empty_db))"
proof (rule acquire_refused_while_held [of _ 1])
  have "lock_row demo_lib empty_db = None" by (simp add: lock_row_def sql_get_def empty_db_def)
  from new_lock_held [OF this empty_db_inv, of 5 30 0 "''upgrade''" 90]
  show "\<forall>c db. lock_held demo_lib 1 (env_now ((demo_env 5 (Inr []))\<lparr>env_others := \<lambda>_ _. snd (sql_create 0
        (new_record systemOperationLockScope (HashIdempotencyKey demo_lib systemOperationLockKey) ''upgrade'' 30 90)
        empty_db)\<rparr>)) (env_others ((demo_env 5 (Inr []))\<lparr>env_others := \<lambda>_ _. snd (sql_create 0
        (new_record systemOperationLockScope (HashIdempotencyKey demo_lib systemOperationLockKey) ''upgrade'' 30 90)
        empty_db)\<rparr>) c db)"
    by (simp add: empty_db_def demo_env_def)
qed

subsection \<open>Renewing\<close>

definition renew_all :: "sys_lock_service \<Rightarrow> sys_lock \<Rightarrow> (time \<times> time) list \<Rightarrow> idem_db \<Rightarrow> idem_db" where
  "renew_all s l ticks db = fold (\<lambda>(now, dbnow) d. snd (renew_tick s NoFault now dbnow False l d)) ticks db"

text \<open>A tick by the operation whose id the record carries goes on and moves the lock to a lease from now.\<close>

lemma renew_tick_own:
  assumes "db_inv db" "lock_row lib db = Some r" "ir_id r = sl_recordID l" "ir_fingerprint r = sl_operationID l"
    "ir_status r = IdempotencyStatusProcessing" "\<not> sl_stopped l \<or> \<not> stop_seen"
  shows "fst (renew_tick s NoFault now dbnow stop_seen l db)"
    "db_inv (snd (renew_tick s NoFault now dbnow stop_seen l db))"
    "lock_row lib (snd (renew_tick s NoFault now dbnow stop_seen l db)) =
       Some (r\<lparr>ir_locked_until := Some (now + sv_lease s), ir_expires_at := now + sv_ttl s, ir_updated_at := dbnow\<rparr>)"
proof -
  have g: "sql_get systemOperationLockScope (HashIdempotencyKey lib systemOperationLockKey) db = Some r"
    using assms(2) by (simp add: lock_row_def)
  have ok: "fst (sql_extend t (sl_recordID l) (sl_operationID l) lu ex db)" for t lu ex
    using sql_extend_ok [OF assms(1) g] assms(3-5) by simp
  have e: "renew_tick s NoFault now dbnow stop_seen l db = (case sql_extend dbnow (sl_recordID l) (sl_operationID l)
      (now + sv_lease s) (now + sv_ttl s) db of (b, d) \<Rightarrow> (b, d))"
    using assms(6) by (auto simp: renew_tick_def ExtendProcessingLock_def split: prod.split)
  show "fst (renew_tick s NoFault now dbnow stop_seen l db)" using ok e by simp
  show "db_inv (snd (renew_tick s NoFault now dbnow stop_seen l db))" using e sql_extend_inv [OF assms(1)] by simp
  show "lock_row lib (snd (renew_tick s NoFault now dbnow stop_seen l db)) =
       Some (r\<lparr>ir_locked_until := Some (now + sv_lease s), ir_expires_at := now + sv_ttl s, ir_updated_at := dbnow\<rparr>)"
    using g assms(3-5) by (simp add: e lock_row_def sql_get_extend extendable_def)
qed

lemma renew_all_held:
  assumes "db_inv db" "lock_row lib db = Some r" "ir_id r = sl_recordID l" "ir_fingerprint r = sl_operationID l"
    "ir_status r = IdempotencyStatusProcessing" "\<not> sl_stopped l" "ir_locked_until r = Some (t0 + sv_lease s)"
    "now < last (t0 # map fst ticks) + sv_lease s"
  shows "lock_held lib (sl_recordID l) now (renew_all s l ticks db)"
  using assms
proof (induction ticks arbitrary: db r t0)
  case Nil
  then show ?case by (auto simp: renew_all_def lock_held_def held_by_other_def lock_row_def)
next
  case (Cons tick ticks)
  let ?db = "snd (renew_tick s NoFault (fst tick) (snd tick) False l db)"
  note st = renew_tick_own(2,3) [OF Cons.prems(1-5), of False s "fst tick" "snd tick"]
  have "lock_held lib (sl_recordID l) now (renew_all s l ticks ?db)"
    using Cons.prems st by (intro Cons.IH [OF st(1) st(2)]) auto
  then show ?case by (simp add: renew_all_def case_prod_unfold)
qed


lemma demo_lock_row: "lock_row demo_lib empty_db = None"
  by (simp add: lock_row_def sql_get_def empty_db_def)

definition demo_sv :: sys_lock_service where
  "demo_sv = \<lparr>sv_lease = 30, sv_renewInterval = 10, sv_ttl = 90\<rparr>"


subsection \<open>Releasing\<close>

text \<open>
  Releasing gives the lock back: after a \<open>Release\<close> whose store call works, with success or
  failure, any later \<open>Acquire\<close> without store faults gets the lock.
\<close>

theorem released_lock_can_be_acquired:
  assumes "db_inv db" "lock_row lib db = Some r" "ir_id r = sl_recordID l"
    "Release (Some s) NoFault now dbnow (Some l) succeeded reason db = (res, l', db')"
    "quiet env" "op \<noteq> []" "now \<le> env_now env"
  shows "res = Inr () \<and> \<not> isl (fst (Acquire lib (Some s2) env op db'))"
proof -
  define rs where "rs = (if reason = [] then ''SYSTEM_OPERATION_FAILED'' else reason)"
  have d: "res = Inr ()" "db' = (if succeeded
      then snd (sql_mark_succeeded dbnow (sl_recordID l) 200 (released_body (sl_operationID l)) (now + sv_ttl s) db)
      else snd (sql_mark_failed dbnow (sl_recordID l) rs now (now + sv_ttl s) db))"
    using assms(4)
    by (auto simp: Release_def MarkSucceeded_def MarkFailedRetryable_def rs_def Let_def split: prod.splits if_splits)
  have inv: "db_inv db'" using d(2) assms(1) by (simp add: sql_inv)
  obtain q where "lock_row lib db' = Some q" "lock_free (env_now env) q"
    using assms(2,3,7)
    by (cases succeeded) (auto simp: d(2) lock_row_def sql_get_mark_succeeded sql_get_mark_failed lock_free_def)
  from Acquire_free [OF assms(5,6) this(1) inv this(2)] d(1) show ?thesis by simp
qed

definition demo_locked :: idem_db where
  "demo_locked = snd (sql_create 0 (new_record systemOperationLockScope
     (HashIdempotencyKey demo_lib systemOperationLockKey) ''upgrade'' 30 90) empty_db)"

lemma demo_locked_row:
  "lock_row demo_lib demo_locked = Some ((new_record systemOperationLockScope
     (HashIdempotencyKey demo_lib systemOperationLockKey) ''upgrade'' 30 90)\<lparr>ir_id := 1\<rparr>)"
  by (simp add: lock_row_def demo_locked_def sql_create_def empty_db_def sql_get_def same_key_def new_record_def Let_def)

lemma demo_locked_inv: "db_inv demo_locked"
  by (simp add: demo_locked_def sql_create_inv)

theorem released_lock_can_be_acquired_witness:
  "let l = \<lparr>sl_recordID = 1, sl_operationID = ''upgrade'', sl_stopped = False\<rparr>;
       (res, l', db') = Release (Some demo_sv) NoFault 8 8 (Some l) False [] demo_locked
   in res = Inr () \<and> \<not> isl (fst (Acquire demo_lib (Some demo_sv) (demo_env 9 (Inr [])) ''restart'' db'))"
proof -
  let ?l = "\<lparr>sl_recordID = 1, sl_operationID = ''upgrade'', sl_stopped = False\<rparr>"
  obtain res l' db' where "Release (Some demo_sv) NoFault 8 8 (Some ?l) False [] demo_locked = (res, l', db')"
    by (cases "Release (Some demo_sv) NoFault 8 8 (Some ?l) False [] demo_locked") blast
  then show ?thesis
    using released_lock_can_be_acquired [OF demo_locked_inv demo_locked_row _ _ demo_env_sel(1), of ?l demo_sv 8 8 False
        "[]" res l' db' "''restart''" 9 "Inr []" demo_sv] by simp
qed

subsection \<open>A reclaimed lock is not renewed\<close>

lemma Acquire_existing_row:
  assumes "db_inv db" "lock_row lib db = Some r" "lock_free (env_now env) r" "quiet env" "op \<noteq> []"
    "Acquire lib (Some s) env op db = (Inr l, db1)"
  shows "l = \<lparr>sl_recordID = ir_id r, sl_operationID = op, sl_stopped = False\<rparr>" "db_inv db1"
    "\<exists>q. lock_row lib db1 = Some q \<and> ir_id q = ir_id r \<and> ir_fingerprint q = ir_fingerprint r
       \<and> ir_status q = IdempotencyStatusProcessing \<and> ir_locked_until q = Some (env_now env + sv_lease s)"
proof -
  let ?db = "db\<lparr>db_next_id := db_next_id db + 1\<rparr>"
  have e: "l = \<lparr>sl_recordID = ir_id r, sl_operationID = op, sl_stopped = False\<rparr>"
    "db1 = snd (sql_reclaim (env_dbnow env CReclaimExpired) (ir_id r) (ir_status r) (env_now env)
       (env_now env + sv_lease s) (env_now env + sv_ttl s) ?db)"
    using Acquire_free [OF assms(4,5,2,1,3)] assms(6) by simp_all
  show "l = \<lparr>sl_recordID = ir_id r, sl_operationID = op, sl_stopped = False\<rparr>" by (rule e(1))
  show "db_inv db1" using e(2) sql_reclaim_inv [OF db_inv_next_id [OF assms(1)]] by simp
  show "\<exists>q. lock_row lib db1 = Some q \<and> ir_id q = ir_id r \<and> ir_fingerprint q = ir_fingerprint r
       \<and> ir_status q = IdempotencyStatusProcessing \<and> ir_locked_until q = Some (env_now env + sv_lease s)"
    using assms(2,3) by (simp add: e(2) lock_row_def sql_get_reclaim reclaimable_def reclaim_row_def)
qed

lemma renew_tick_other:
  assumes "db_inv db" "lock_row lib db = Some r" "ir_id r = sl_recordID l" "ir_fingerprint r \<noteq> sl_operationID l"
    "\<not> sl_stopped l"
  shows "renew_tick s NoFault now dbnow stop_seen l db = (False, db)"
proof -
  have g: "sql_get systemOperationLockScope (HashIdempotencyKey lib systemOperationLockKey) db = Some r"
    using assms(2) by (simp add: lock_row_def)
  have "\<not> fst (sql_extend dbnow (sl_recordID l) (sl_operationID l) lu ex db)" for lu ex
    using sql_extend_ok [OF assms(1) g] assms(3,4) by auto
  then have "affected (extendable (sl_recordID l) (sl_operationID l)) (db_rows db) = 0"
    by (simp add: sql_extend_def Let_def)
  then show ?thesis
    using assms(5)
    by (simp add: renew_tick_def ExtendProcessingLock_def sql_extend_def Let_def update_where_id)
qed

text \<open>
  A lock taken over from an earlier operation is never renewed. Once the record of the lock
  exists (after the very first operation), \<open>Acquire\<close> takes it over by \<open>TryReclaim\<close>, which leaves
  the fingerprint of the earlier operation in the record, while \<open>renewLoop\<close> renews only a record
  with its own operation id. So the first renewal reports the ownership as lost and stops, the
  lock is not extended, and one lease after acquiring another operation gets the lock although the
  first one is still running.
\<close>

theorem reclaimed_lock_is_not_renewed:
  assumes "db_inv db" "lock_row lib db = Some r" "lock_free (env_now env) r" "ir_fingerprint r \<noteq> op"
    "quiet env" "op \<noteq> []" "Acquire lib (Some s) env op db = (Inr l, db1)"
    "quiet env2" "op2 \<noteq> []" "env_now env + sv_lease s \<le> env_now env2"
  shows "renew_tick s NoFault t t' stop_seen l db1 = (False, db1)
    \<and> \<not> isl (fst (Acquire lib (Some s) env2 op2 db1))"
proof -
  note a = Acquire_existing_row [OF assms(1-3,5-7)]
  from a(3) obtain q where q: "lock_row lib db1 = Some q" "ir_id q = ir_id r"
      "ir_fingerprint q = ir_fingerprint r" "ir_locked_until q = Some (env_now env + sv_lease s)" by blast
  have "renew_tick s NoFault t t' stop_seen l db1 = (False, db1)"
    using renew_tick_other [OF a(2) q(1)] q assms(4) a(1) by simp
  moreover have "lock_free (env_now env2) q" using q(4) assms(10) by (simp add: lock_free_def)
  ultimately show ?thesis using Acquire_free [OF assms(8,9) q(1) a(2)] by simp
qed

definition demo_released :: idem_db where
  "demo_released = snd (snd (Release (Some demo_sv) NoFault 8 8
     (Some \<lparr>sl_recordID = 1, sl_operationID = ''upgrade'', sl_stopped = False\<rparr>) True [] demo_locked))"

theorem reclaimed_lock_is_not_renewed_witness:
  "case Acquire demo_lib (Some demo_sv) (demo_env 9 (Inr [])) ''restart'' demo_released of (x, db1) \<Rightarrow>
     renew_tick demo_sv NoFault 19 19 True (projr x) db1 = (False, db1) \<and>
     \<not> isl (fst (Acquire demo_lib (Some demo_sv) (demo_env 39 (Inr [])) ''backup'' db1))"
proof -
  have e: "demo_released = snd (sql_mark_succeeded 8 1 200 (released_body ''upgrade'') 98 demo_locked)"
    by (simp add: demo_released_def Release_def MarkSucceeded_def demo_sv_def split: prod.split)
  have inv: "db_inv demo_released" by (simp add: e sql_inv demo_locked_inv)
  obtain r where r: "lock_row demo_lib demo_released = Some r" "lock_free 9 r" "ir_fingerprint r = ''upgrade''"
    using demo_locked_row
    by (simp add: e lock_row_def sql_get_mark_succeeded lock_free_def new_record_def)
  note acq = Acquire_free [OF demo_env_sel(1) _ r(1) inv, of "''restart''" 9 "Inr []" demo_sv]
  have acq': "Acquire demo_lib (Some demo_sv) (demo_env 9 (Inr [])) ''restart'' demo_released =
      (Inr \<lparr>sl_recordID = ir_id r, sl_operationID = ''restart'', sl_stopped = False\<rparr>,
       snd (Acquire demo_lib (Some demo_sv) (demo_env 9 (Inr [])) ''restart'' demo_released))"
    using acq r(2) by simp
  show ?thesis
    using reclaimed_lock_is_not_renewed [OF inv r(1) _ _ demo_env_sel(1) _ acq' demo_env_sel(1),
        of "''backup''" 39 "Inr []" 19 19 True] r(2,3) by (subst acq') (simp add: demo_sv_def)
qed

subsection \<open>Cleanup\<close>

lemma cleanup_rows:
  "db_rows (cleanupOnce s NoFault now db) =
     filter (\<lambda>r. ir_id r \<notin> set (expired_victims now (nat (if cs_batch s \<le> 0 then 500 else cs_batch s)) (db_rows db)))
       (db_rows db)"
  by (simp add: cleanupOnce_def DeleteExpired_def sql_delete_expired_def Let_def split: prod.split)

lemma cleanup_kept:
  assumes "db_inv db" "E = sort_key ir_expires_at (filter (\<lambda>r. ir_expires_at r \<le> now) (db_rows db))"
    "n = nat (if cs_batch s \<le> 0 then 500 else cs_batch s)"
  shows "db_rows (cleanupOnce s NoFault now db) = filter (\<lambda>r. r \<notin> set (take n E)) (db_rows db)"
    "set (take n E) \<subseteq> {r \<in> set (db_rows db). ir_expires_at r \<le> now}" "distinct E"
proof -
  have sub: "set (take n E) \<subseteq> {r \<in> set (db_rows db). ir_expires_at r \<le> now}"
    using set_take_subset [of n E] by (auto simp: assms(2))
  have v: "set (expired_victims now n (db_rows db)) = ir_id ` set (take n E)"
    by (simp add: expired_victims_def assms(2))
  have "ir_id r \<in> set (expired_victims now n (db_rows db)) \<longleftrightarrow> r \<in> set (take n E)"
    if "r \<in> set (db_rows db)" for r
  proof
    assume "ir_id r \<in> set (expired_victims now n (db_rows db))"
    then obtain q where q: "ir_id q = ir_id r" "q \<in> set (take n E)" unfolding v by (metis imageE)
    then have "q \<in> set (db_rows db)" using sub by auto
    with q db_inv_id_unique [OF assms(1) that this q(1)] show "r \<in> set (take n E)" by simp
  qed (simp add: v)
  then show "db_rows (cleanupOnce s NoFault now db) = filter (\<lambda>r. r \<notin> set (take n E)) (db_rows db)"
    unfolding cleanup_rows assms(3) [symmetric] by (intro filter_cong) auto
  show "set (take n E) \<subseteq> {r \<in> set (db_rows db). ir_expires_at r \<le> now}" by (rule sub)
  have "distinct (db_rows db)" using assms(1) by (auto simp: db_inv_def distinct_map)
  then show "distinct E" by (simp add: assms(2))
qed

lemma filter_notin_length:
  assumes "distinct xs" "distinct ys" "set ys \<subseteq> set xs"
  shows "length (filter (\<lambda>x. x \<notin> set ys) xs) + length ys = length xs"
proof -
  have "length (filter (\<lambda>x. x \<in> set ys) xs) = length ys"
    using assms by (metis distinct_card distinct_filter inf.absorb_iff2 set_filter Int_def inf.commute)
  then show ?thesis using sum_length_filter_compl [of "\<lambda>x. x \<in> set ys" xs] by linarith
qed

text \<open>
  A cleanup removes exactly as many expired records as the batch allows, the ones that expired
  first, and keeps every record that has not expired.
\<close>

theorem cleanup_removes_oldest_expired:
  assumes "db_inv db" "0 < cs_batch s" "rows' = db_rows (cleanupOnce s NoFault now db)"
  shows "length rows' + min (nat (cs_batch s)) (length (filter (\<lambda>r. ir_expires_at r \<le> now) (db_rows db))) =
      length (db_rows db)
    \<and> (\<forall>r \<in> set (db_rows db). now < ir_expires_at r \<longrightarrow> r \<in> set rows')
    \<and> (\<forall>r \<in> set (db_rows db) - set rows'. \<forall>q \<in> set rows'.
         ir_expires_at q \<le> now \<longrightarrow> ir_expires_at r \<le> ir_expires_at q)"
proof -
  define E where "E = sort_key ir_expires_at (filter (\<lambda>r. ir_expires_at r \<le> now) (db_rows db))"
  let ?n = "nat (cs_batch s)"
  note k = cleanup_kept [OF assms(1) E_def, of ?n s] 
  have n: "?n = nat (if cs_batch s \<le> 0 then 500 else cs_batch s)" using assms(2) by simp
  have rows': "rows' = filter (\<lambda>r. r \<notin> set (take ?n E)) (db_rows db)"
    and sub: "set (take ?n E) \<subseteq> {r \<in> set (db_rows db). ir_expires_at r \<le> now}"
    and dE: "distinct E" using k n assms(3) by blast+
  have "distinct (db_rows db)" using assms(1) by (auto simp: db_inv_def distinct_map)
  then have "length rows' + length (take ?n E) = length (db_rows db)"
    unfolding rows' using dE sub by (intro filter_notin_length) auto
  moreover have "length E = length (filter (\<lambda>r. ir_expires_at r \<le> now) (db_rows db))"
    by (simp add: E_def)
  moreover have "ir_expires_at r \<le> ir_expires_at q"
    if "r \<in> set (db_rows db) - set rows'" "q \<in> set rows'" "ir_expires_at q \<le> now" for r q
  proof -
    have r: "r \<in> set (take ?n E)" using that(1) by (auto simp: rows')
    have "q \<in> set E" using that(2,3) by (auto simp: rows' E_def)
    then have "q \<in> set (take ?n E) \<union> set (drop ?n E)" by (metis append_take_drop_id set_append)
    then have q: "q \<in> set (drop ?n E)" using that(2) by (auto simp: rows')
    have "sorted (map ir_expires_at (take ?n E @ drop ?n E))" by (simp add: E_def)
    then show ?thesis using r q by (auto simp del: append_take_drop_id simp: sorted_append)
  qed
  ultimately show ?thesis using sub by (auto simp: rows' min.commute)
qed

theorem cleanup_removes_oldest_expired_witness:
  "let s = NewIdempotencyCleanupService (Some (60, 1));
       rows' = db_rows (cleanupOnce s NoFault 200 demo_held)
   in length rows' = 1"
proof -
  let ?s = "NewIdempotencyCleanupService (Some (60, 1))"
  have "db_inv demo_held" "0 < cs_batch ?s" "cs_batch ?s = 1"
    using demo_held_held by (simp_all add: held_by_other_def NewIdempotencyCleanupService_def)
  with cleanup_removes_oldest_expired [of demo_held ?s _ 200] show ?thesis
    by (simp add: demo_held_def new_record_def)
qed

end
