(* ===== verification/GatewayGroup.thy ===== *)
theory GatewayGroup
  imports GoDB
begin

text \<open>
  API key groups, \<open>internal/service/group.go\<close>: the subscription type and spending limits, image
  prices, the validity of a group taken from the request context, and model routing. The routing map
  is the list of its entries in the order in which Go's \<open>range\<close> visits them, which differs from run
  to run, so that what is proved of the routing holds for every order. The nested message-dispatch
  configuration and the account bindings and counters filled in for the admin pages are left out of
  the record.
\<close>

definition StatusActive :: gostring where "StatusActive = ''active''"
definition SubscriptionTypeSubscription :: gostring where "SubscriptionTypeSubscription = ''subscription''"

record gw_group =
  g_ID :: int64
  g_Name :: gostring
  g_Description :: gostring
  g_Platform :: gostring
  g_RateMultiplier :: f64
  g_IsExclusive :: bool
  g_Status :: gostring
  g_Hydrated :: bool
  g_SubscriptionType :: gostring
  g_DailyLimitUSD :: "f64 option"
  g_WeeklyLimitUSD :: "f64 option"
  g_MonthlyLimitUSD :: "f64 option"
  g_DefaultValidityDays :: int
  g_AllowImageGeneration :: bool
  g_ImageRateIndependent :: bool
  g_ImageRateMultiplier :: f64
  g_ImagePrice1K :: "f64 option"
  g_ImagePrice2K :: "f64 option"
  g_ImagePrice4K :: "f64 option"
  g_ClaudeCodeOnly :: bool
  g_FallbackGroupID :: "int64 option"
  g_FallbackGroupIDOnInvalidRequest :: "int64 option"
  g_ModelRouting :: "(gostring \<times> int64 list) list"
  g_ModelRoutingEnabled :: bool
  g_MCPXMLInject :: bool
  g_SupportedModelScopes :: "gostring list"
  g_SortOrder :: int
  g_AllowMessagesDispatch :: bool
  g_RequireOAuthOnly :: bool
  g_RequirePrivacySet :: bool
  g_DefaultMappedModel :: gostring
  g_RPMLimit :: int
  g_CreatedAt :: time
  g_UpdatedAt :: time

definition group_IsActive :: "gw_group \<Rightarrow> bool" where
  "group_IsActive g \<longleftrightarrow> g_Status g = StatusActive"

definition IsSubscriptionType :: "gw_group \<Rightarrow> bool" where
  "IsSubscriptionType g \<longleftrightarrow> g_SubscriptionType g = SubscriptionTypeSubscription"

definition HasDailyLimit :: "gw_group \<Rightarrow> bool" where
  "HasDailyLimit g \<longleftrightarrow> (case g_DailyLimitUSD g of None \<Rightarrow> False | Some l \<Rightarrow> flt (Fin 0) l)"
definition HasWeeklyLimit :: "gw_group \<Rightarrow> bool" where
  "HasWeeklyLimit g \<longleftrightarrow> (case g_WeeklyLimitUSD g of None \<Rightarrow> False | Some l \<Rightarrow> flt (Fin 0) l)"
definition HasMonthlyLimit :: "gw_group \<Rightarrow> bool" where
  "HasMonthlyLimit g \<longleftrightarrow> (case g_MonthlyLimitUSD g of None \<Rightarrow> False | Some l \<Rightarrow> flt (Fin 0) l)"

lemmas has_limit_defs = HasDailyLimit_def HasWeeklyLimit_def HasMonthlyLimit_def

definition GetImagePrice :: "gw_group \<Rightarrow> gostring \<Rightarrow> f64 option" where
  "GetImagePrice g imageSize =
     (if imageSize = ''1K'' then g_ImagePrice1K g
      else if imageSize = ''2K'' then g_ImagePrice2K g
      else if imageSize = ''4K'' then g_ImagePrice4K g
      else g_ImagePrice2K g)"

definition IsGroupContextValid :: "gw_group option \<Rightarrow> bool" where
  "IsGroupContextValid grp = (case grp of
     None \<Rightarrow> False
   | Some g \<Rightarrow> if g_ID g \<le> 0 then False
               else if \<not> g_Hydrated g then False
               else if g_Platform g = [] \<or> g_Status g = [] then False
               else True)"

definition matchModelPattern :: "gostring \<Rightarrow> gostring \<Rightarrow> bool" where
  "matchModelPattern pattern model =
     (if pattern = model then True
      else if suffix ''*'' pattern then prefix (take (length pattern - 1) pattern) model
      else False)"

definition GetRoutingAccountIDs :: "gw_group \<Rightarrow> gostring \<Rightarrow> int64 list option" where
  "GetRoutingAccountIDs g requestedModel =
     (if \<not> g_ModelRoutingEnabled g \<or> g_ModelRouting g = [] \<or> requestedModel = [] then None
      else case map_of (g_ModelRouting g) requestedModel of
             Some (x # xs) \<Rightarrow> Some (x # xs)
           | _ \<Rightarrow> map_option snd (find (\<lambda>(pattern, accountIDs).
                    matchModelPattern pattern requestedModel \<and> accountIDs \<noteq> []) (g_ModelRouting g)))"

lemma matchModelPattern_iff:
  "matchModelPattern pattern model \<longleftrightarrow> pattern = model \<or> (\<exists>p. pattern = p @ ''*'' \<and> prefix p model)"
proof -
  have "suffix ''*'' pattern \<longleftrightarrow> (\<exists>p. pattern = p @ ''*'')" by (auto simp: suffix_def)
  then show ?thesis by (auto simp: matchModelPattern_def)
qed

text \<open>
  Model routing, for every order in which the routing map is visited. An answer is the non-empty
  list of a rule whose pattern matches the model; a rule for exactly this model wins; there is no
  answer only when routing is off or no rule with accounts matches.
\<close>

theorem routing_sound_and_complete:
  assumes "distinct (map fst (g_ModelRouting g))" "g_ModelRoutingEnabled g" "requestedModel \<noteq> []"
  shows "case GetRoutingAccountIDs g requestedModel of
     Some ids \<Rightarrow> ids \<noteq> [] \<and> (\<exists>pattern. (pattern, ids) \<in> set (g_ModelRouting g) \<and> matchModelPattern pattern requestedModel)
       \<and> (\<forall>exact. (requestedModel, exact) \<in> set (g_ModelRouting g) \<and> exact \<noteq> [] \<longrightarrow> ids = exact)
   | None \<Rightarrow> \<forall>(pattern, ids) \<in> set (g_ModelRouting g). matchModelPattern pattern requestedModel \<longrightarrow> ids = []"
proof (cases "\<exists>x xs. map_of (g_ModelRouting g) requestedModel = Some (x # xs)")
  case True
  then obtain x xs where m: "map_of (g_ModelRouting g) requestedModel = Some (x # xs)" by blast
  moreover from m have "(requestedModel, x # xs) \<in> set (g_ModelRouting g)" by (rule map_of_SomeD)
  moreover have "matchModelPattern requestedModel requestedModel" by (simp add: matchModelPattern_def)
  ultimately show ?thesis
    using assms by (auto simp: GetRoutingAccountIDs_def dest: eq_key_imp_eq_value)
next
  case False
  let ?P = "\<lambda>(pattern, accountIDs). matchModelPattern pattern requestedModel \<and> accountIDs \<noteq> ([] :: int64 list)"
  have e: "GetRoutingAccountIDs g requestedModel = map_option snd (find ?P (g_ModelRouting g))"
    using False assms by (auto simp: GetRoutingAccountIDs_def split: option.split list.split)
  have nx: "exact = []" if "(requestedModel, exact) \<in> set (g_ModelRouting g)" for exact
    using map_of_is_SomeI [OF assms(1) that] False by (cases exact) auto
  show ?thesis
  proof (cases "find ?P (g_ModelRouting g)")
    case None
    then have "\<forall>r \<in> set (g_ModelRouting g). \<not> ?P r" by (auto simp: find_None_iff)
    with None show ?thesis by (auto simp: e)
  next
    case (Some r)
    then have "r \<in> set (g_ModelRouting g)" "?P r" using find_SomeD [OF Some] by auto
    then show ?thesis using Some nx by (cases r) (auto simp: e)
  qed
qed

definition demo_group :: gw_group where
  "demo_group = \<lparr>g_ID = 3, g_Name = ''pro'', g_Description = [], g_Platform = ''openai'',
     g_RateMultiplier = Fin 1, g_IsExclusive = False, g_Status = StatusActive, g_Hydrated = True,
     g_SubscriptionType = SubscriptionTypeSubscription, g_DailyLimitUSD = Some (Fin 10),
     g_WeeklyLimitUSD = None, g_MonthlyLimitUSD = Some (Fin 100), g_DefaultValidityDays = 30,
     g_AllowImageGeneration = False, g_ImageRateIndependent = False, g_ImageRateMultiplier = Fin 1,
     g_ImagePrice1K = None, g_ImagePrice2K = None, g_ImagePrice4K = None, g_ClaudeCodeOnly = False,
     g_FallbackGroupID = None, g_FallbackGroupIDOnInvalidRequest = None,
     g_ModelRouting = [(''claude-*'', [7]), (''claude-opus'', [8, 9])], g_ModelRoutingEnabled = True,
     g_MCPXMLInject = False, g_SupportedModelScopes = [], g_SortOrder = 0, g_AllowMessagesDispatch = False,
     g_RequireOAuthOnly = False, g_RequirePrivacySet = False, g_DefaultMappedModel = [], g_RPMLimit = 0,
     g_CreatedAt = 0, g_UpdatedAt = 0\<rparr>"

theorem routing_sound_and_complete_witness:
  "GetRoutingAccountIDs demo_group ''claude-opus'' = Some [8, 9]"
proof -
  have "GetRoutingAccountIDs demo_group ''claude-opus'' \<noteq> None"
    by (simp add: GetRoutingAccountIDs_def demo_group_def)
  with routing_sound_and_complete [of demo_group "''claude-opus''"] show ?thesis
    by (auto simp: demo_group_def)
qed

end
