(* ===== verification/SubscriptionStore.thy ===== *)
theory SubscriptionStore
  imports GatewayGroup
begin

text \<open>
  User subscriptions: the record of \<open>internal/service/user_subscription.go\<close> with its time windows
  and spending limits, and the table behind \<open>internal/repository/user_subscription_repo.go\<close>. A
  soft-deleted row is no longer in the list, since every query of the repository filters it out; the
  unique index on user and group covers the live rows. Sums in a numeric column are a parameter,
  \<open>num_add\<close>: what the column reads after \<open>column + x\<close>.
\<close>

definition SubscriptionStatusActive :: gostring where "SubscriptionStatusActive = ''active''"
definition SubscriptionStatusExpired :: gostring where "SubscriptionStatusExpired = ''expired''"
definition SubscriptionStatusSuspended :: gostring where "SubscriptionStatusSuspended = ''suspended''"

lemmas sub_status_defs = SubscriptionStatusActive_def SubscriptionStatusExpired_def
  SubscriptionStatusSuspended_def

definition ErrSubscriptionNotFound :: app_error where
  "ErrSubscriptionNotFound = NotFound ''SUBSCRIPTION_NOT_FOUND'' ''subscription not found''"
definition ErrSubscriptionExpired :: app_error where
  "ErrSubscriptionExpired = Forbidden ''SUBSCRIPTION_EXPIRED'' ''subscription has expired''"
definition ErrSubscriptionSuspended :: app_error where
  "ErrSubscriptionSuspended = Forbidden ''SUBSCRIPTION_SUSPENDED'' ''subscription is suspended''"
definition ErrSubscriptionAlreadyExists :: app_error where
  "ErrSubscriptionAlreadyExists =
     Conflict ''SUBSCRIPTION_ALREADY_EXISTS'' ''subscription already exists for this user and group''"

record user_sub =
  us_ID :: int64
  us_UserID :: int64
  us_GroupID :: int64
  us_StartsAt :: time
  us_ExpiresAt :: time
  us_Status :: gostring
  us_DailyWindowStart :: "time option"
  us_WeeklyWindowStart :: "time option"
  us_MonthlyWindowStart :: "time option"
  us_DailyUsageUSD :: f64
  us_WeeklyUsageUSD :: f64
  us_MonthlyUsageUSD :: f64
  us_AssignedBy :: "int64 option"
  us_AssignedAt :: time
  us_Notes :: gostring
  us_CreatedAt :: time
  us_UpdatedAt :: time

subsection \<open>Windows and limits of one subscription\<close>

definition IsActive :: "time \<Rightarrow> user_sub \<Rightarrow> bool" where
  "IsActive now s \<longleftrightarrow> us_Status s = SubscriptionStatusActive \<and> Before now (us_ExpiresAt s)"

definition IsExpired :: "time \<Rightarrow> user_sub \<Rightarrow> bool" where
  "IsExpired now s \<longleftrightarrow> After now (us_ExpiresAt s)"

text \<open>\<open>int(d.Hours() / 24)\<close>; the quotient always fits an \<open>int\<close>, so the overflow value is not reached.\<close>

definition days_of :: "duration \<Rightarrow> int" where
  "days_of d = f64_to_int 0 (fdiv (Hours d) (Fin 24))"

definition DaysRemaining :: "time \<Rightarrow> user_sub \<Rightarrow> int" where
  "DaysRemaining now s = (if IsExpired now s then 0 else days_of (Sub (us_ExpiresAt s) now))"

definition IsWindowActivated :: "user_sub \<Rightarrow> bool" where
  "IsWindowActivated s \<longleftrightarrow> us_DailyWindowStart s \<noteq> None \<or> us_WeeklyWindowStart s \<noteq> None
     \<or> us_MonthlyWindowStart s \<noteq> None"

definition window_over :: "duration \<Rightarrow> time \<Rightarrow> time option \<Rightarrow> bool" where
  "window_over len now start \<longleftrightarrow> (case start of None \<Rightarrow> False | Some t \<Rightarrow> len \<le> Sub now t)"

definition NeedsDailyReset :: "time \<Rightarrow> user_sub \<Rightarrow> bool" where
  "NeedsDailyReset now s = window_over (24 * Hour) now (us_DailyWindowStart s)"
definition NeedsWeeklyReset :: "time \<Rightarrow> user_sub \<Rightarrow> bool" where
  "NeedsWeeklyReset now s = window_over (7 * 24 * Hour) now (us_WeeklyWindowStart s)"
definition NeedsMonthlyReset :: "time \<Rightarrow> user_sub \<Rightarrow> bool" where
  "NeedsMonthlyReset now s = window_over (30 * 24 * Hour) now (us_MonthlyWindowStart s)"

definition DailyResetTime :: "user_sub \<Rightarrow> time option" where
  "DailyResetTime s = map_option (\<lambda>t. Add t (24 * Hour)) (us_DailyWindowStart s)"
definition WeeklyResetTime :: "user_sub \<Rightarrow> time option" where
  "WeeklyResetTime s = map_option (\<lambda>t. Add t (7 * 24 * Hour)) (us_WeeklyWindowStart s)"
definition MonthlyResetTime :: "user_sub \<Rightarrow> time option" where
  "MonthlyResetTime s = map_option (\<lambda>t. Add t (30 * 24 * Hour)) (us_MonthlyWindowStart s)"

lemmas reset_defs = NeedsDailyReset_def NeedsWeeklyReset_def NeedsMonthlyReset_def window_over_def

definition CheckDailyLimit :: "user_sub \<Rightarrow> gw_group \<Rightarrow> f64 \<Rightarrow> bool" where
  "CheckDailyLimit s g additionalCost =
     (if \<not> HasDailyLimit g then True else fle (fadd (us_DailyUsageUSD s) additionalCost) (the (g_DailyLimitUSD g)))"
definition CheckWeeklyLimit :: "user_sub \<Rightarrow> gw_group \<Rightarrow> f64 \<Rightarrow> bool" where
  "CheckWeeklyLimit s g additionalCost =
     (if \<not> HasWeeklyLimit g then True else fle (fadd (us_WeeklyUsageUSD s) additionalCost) (the (g_WeeklyLimitUSD g)))"
definition CheckMonthlyLimit :: "user_sub \<Rightarrow> gw_group \<Rightarrow> f64 \<Rightarrow> bool" where
  "CheckMonthlyLimit s g additionalCost =
     (if \<not> HasMonthlyLimit g then True else fle (fadd (us_MonthlyUsageUSD s) additionalCost) (the (g_MonthlyLimitUSD g)))"

definition CheckAllLimits :: "user_sub \<Rightarrow> gw_group \<Rightarrow> f64 \<Rightarrow> bool \<times> bool \<times> bool" where
  "CheckAllLimits s g additionalCost =
     (CheckDailyLimit s g additionalCost, CheckWeeklyLimit s g additionalCost, CheckMonthlyLimit s g additionalCost)"

lemmas check_limit_defs = CheckDailyLimit_def CheckWeeklyLimit_def CheckMonthlyLimit_def

subsection \<open>The table\<close>

record sub_db =
  sd_rows :: "user_sub list"
  sd_next_id :: int64
  sd_groups :: "gw_group list"

definition zero_time :: time where "zero_time = -62135596800 * Second"

definition sub_of :: "int64 \<Rightarrow> int64 \<Rightarrow> user_sub \<Rightarrow> bool" where
  "sub_of userID groupID s \<longleftrightarrow> us_UserID s = userID \<and> us_GroupID s = groupID"

definition sub_missing :: go_error where
  "sub_missing = translate_not_found ErrSubscriptionNotFound"

definition sub_row :: "int64 \<Rightarrow> int64 \<Rightarrow> sub_db \<Rightarrow> user_sub option" where
  "sub_row userID groupID db = find (sub_of userID groupID) (sd_rows db)"

definition sub_by_id :: "int64 \<Rightarrow> sub_db \<Rightarrow> user_sub option" where
  "sub_by_id sid db = find (\<lambda>s. us_ID s = sid) (sd_rows db)"

definition found :: "app_error \<Rightarrow> 'a option \<Rightarrow> 'a result" where
  "found notFound x = (case x of None \<Rightarrow> Inl (translate_not_found notFound) | Some r \<Rightarrow> Inr r)"

lemma found_Some [simp]: "found e (Some r) = Inr r"
  by (simp add: found_def)

text \<open>
  \<open>Create\<close>: a second live row for the user and group violates the unique index. The result is the
  caller's record with the columns the database filled in.
\<close>

definition sql_sub_create :: "time \<Rightarrow> user_sub \<Rightarrow> sub_db \<Rightarrow> user_sub result \<times> sub_db" where
  "sql_sub_create now sub db =
     (if sub_row (us_UserID sub) (us_GroupID sub) db \<noteq> None
      then (Inl (translate_conflict ErrSubscriptionAlreadyExists), db)
      else let rid = sd_next_id db;
               row = sub\<lparr>us_ID := rid,
                        us_StartsAt := (if us_StartsAt sub = zero_time then now else us_StartsAt sub),
                        us_Status := (if us_Status sub = [] then SubscriptionStatusActive else us_Status sub),
                        us_AssignedAt := (if us_AssignedAt sub = zero_time then now else us_AssignedAt sub),
                        us_CreatedAt := now, us_UpdatedAt := now\<rparr>
           in (Inr (sub\<lparr>us_ID := rid, us_CreatedAt := now, us_UpdatedAt := now\<rparr>),
               db\<lparr>sd_rows := sd_rows db @ [row], sd_next_id := rid + 1\<rparr>))"

definition sub_Create :: "fault \<Rightarrow> time \<Rightarrow> user_sub option \<Rightarrow> sub_db \<Rightarrow> user_sub result \<times> sub_db" where
  "sub_Create f now sub db = (case sub of
     None \<Rightarrow> (Inl (EApp (BadRequest ''SUBSCRIPTION_NIL_INPUT'' ''subscription input cannot be nil'')), db)
   | Some s \<Rightarrow> with_fault_err f (sql_sub_create now s) db)"

definition sub_GetByID :: "fault \<Rightarrow> int64 \<Rightarrow> sub_db \<Rightarrow> user_sub result" where
  "sub_GetByID f sid db = read_fault f (found ErrSubscriptionNotFound (sub_by_id sid db))"

definition GetByUserIDAndGroupID :: "fault \<Rightarrow> int64 \<Rightarrow> int64 \<Rightarrow> sub_db \<Rightarrow> user_sub result" where
  "GetByUserIDAndGroupID f userID groupID db =
     read_fault f (found ErrSubscriptionNotFound (sub_row userID groupID db))"

definition GetActiveByUserIDAndGroupID :: "fault \<Rightarrow> time \<Rightarrow> int64 \<Rightarrow> int64 \<Rightarrow> sub_db \<Rightarrow> user_sub result" where
  "GetActiveByUserIDAndGroupID f now userID groupID db =
     read_fault f (found ErrSubscriptionNotFound
       (find (\<lambda>s. sub_of userID groupID s \<and> us_Status s = SubscriptionStatusActive \<and> After (us_ExpiresAt s) now)
         (sd_rows db)))"

definition ExistsByUserIDAndGroupID :: "fault \<Rightarrow> int64 \<Rightarrow> int64 \<Rightarrow> sub_db \<Rightarrow> bool result" where
  "ExistsByUserIDAndGroupID f userID groupID db =
     read_fault f (Inr (list_ex (sub_of userID groupID) (sd_rows db)))"

definition group_GetByID :: "fault \<Rightarrow> int64 \<Rightarrow> sub_db \<Rightarrow> gw_group result" where
  "group_GetByID f gid db = read_fault f
     (found (NotFound ''GROUP_NOT_FOUND'' ''group not found'') (find (\<lambda>g. g_ID g = gid) (sd_groups db)))"

text \<open>\<open>UpdateOneID(...)\<close>: one row by id, with ent's automatic \<open>updated_at\<close>.\<close>

definition sub_update :: "time \<Rightarrow> int64 \<Rightarrow> (user_sub \<Rightarrow> user_sub) \<Rightarrow> sub_db \<Rightarrow> unit result \<times> sub_db" where
  "sub_update now sid upd db =
     (case sql_update_one sub_missing (\<lambda>s. us_ID s = sid) (\<lambda>s. (upd s)\<lparr>us_UpdatedAt := now\<rparr>) (sd_rows db) of
        (res, rows) \<Rightarrow> (res, db\<lparr>sd_rows := rows\<rparr>))"

definition ExtendExpiry :: "fault \<Rightarrow> time \<Rightarrow> int64 \<Rightarrow> time \<Rightarrow> sub_db \<Rightarrow> unit result \<times> sub_db" where
  "ExtendExpiry f now sid newExpiresAt =
     with_fault_err f (sub_update now sid (\<lambda>s. s\<lparr>us_ExpiresAt := newExpiresAt\<rparr>))"
definition UpdateStatus :: "fault \<Rightarrow> time \<Rightarrow> int64 \<Rightarrow> gostring \<Rightarrow> sub_db \<Rightarrow> unit result \<times> sub_db" where
  "UpdateStatus f now sid status = with_fault_err f (sub_update now sid (\<lambda>s. s\<lparr>us_Status := status\<rparr>))"
definition UpdateNotes :: "fault \<Rightarrow> time \<Rightarrow> int64 \<Rightarrow> gostring \<Rightarrow> sub_db \<Rightarrow> unit result \<times> sub_db" where
  "UpdateNotes f now sid notes = with_fault_err f (sub_update now sid (\<lambda>s. s\<lparr>us_Notes := notes\<rparr>))"
definition ActivateWindows :: "fault \<Rightarrow> time \<Rightarrow> int64 \<Rightarrow> time \<Rightarrow> sub_db \<Rightarrow> unit result \<times> sub_db" where
  "ActivateWindows f now sid start = with_fault_err f (sub_update now sid
     (\<lambda>s. s\<lparr>us_DailyWindowStart := Some start, us_WeeklyWindowStart := Some start, us_MonthlyWindowStart := Some start\<rparr>))"
definition ResetDailyUsage :: "fault \<Rightarrow> time \<Rightarrow> int64 \<Rightarrow> time \<Rightarrow> sub_db \<Rightarrow> unit result \<times> sub_db" where
  "ResetDailyUsage f now sid start = with_fault_err f (sub_update now sid
     (\<lambda>s. s\<lparr>us_DailyUsageUSD := Fin 0, us_DailyWindowStart := Some start\<rparr>))"
definition ResetWeeklyUsage :: "fault \<Rightarrow> time \<Rightarrow> int64 \<Rightarrow> time \<Rightarrow> sub_db \<Rightarrow> unit result \<times> sub_db" where
  "ResetWeeklyUsage f now sid start = with_fault_err f (sub_update now sid
     (\<lambda>s. s\<lparr>us_WeeklyUsageUSD := Fin 0, us_WeeklyWindowStart := Some start\<rparr>))"
definition ResetMonthlyUsage :: "fault \<Rightarrow> time \<Rightarrow> int64 \<Rightarrow> time \<Rightarrow> sub_db \<Rightarrow> unit result \<times> sub_db" where
  "ResetMonthlyUsage f now sid start = with_fault_err f (sub_update now sid
     (\<lambda>s. s\<lparr>us_MonthlyUsageUSD := Fin 0, us_MonthlyWindowStart := Some start\<rparr>))"

lemmas repo_update_defs = ExtendExpiry_def UpdateStatus_def UpdateNotes_def ActivateWindows_def
  ResetDailyUsage_def ResetWeeklyUsage_def ResetMonthlyUsage_def

definition IncrementUsage ::
    "fault \<Rightarrow> (f64 \<Rightarrow> f64 \<Rightarrow> f64) \<Rightarrow> time \<Rightarrow> int64 \<Rightarrow> f64 \<Rightarrow> sub_db \<Rightarrow> unit result \<times> sub_db" where
  "IncrementUsage f num_add now sid costUSD = with_fault_err f (\<lambda>db.
     let P = (\<lambda>s. us_ID s = sid \<and> list_ex (\<lambda>g. g_ID g = us_GroupID s) (sd_groups db))
     in if affected P (sd_rows db) = 0 then (Inl (EApp ErrSubscriptionNotFound), db)
        else (Inr (), db\<lparr>sd_rows := update_where P
               (\<lambda>s. s\<lparr>us_DailyUsageUSD := num_add (us_DailyUsageUSD s) costUSD,
                      us_WeeklyUsageUSD := num_add (us_WeeklyUsageUSD s) costUSD,
                      us_MonthlyUsageUSD := num_add (us_MonthlyUsageUSD s) costUSD, us_UpdatedAt := now\<rparr>)
               (sd_rows db)\<rparr>))"

definition sub_Delete :: "fault \<Rightarrow> int64 \<Rightarrow> sub_db \<Rightarrow> unit result \<times> sub_db" where
  "sub_Delete f sid = with_fault f (\<lambda>db. ((), db\<lparr>sd_rows := filter (\<lambda>s. us_ID s \<noteq> sid) (sd_rows db)\<rparr>))"

definition BatchUpdateExpiredStatus :: "fault \<Rightarrow> time \<Rightarrow> sub_db \<Rightarrow> int result \<times> sub_db" where
  "BatchUpdateExpiredStatus f now = with_fault f (\<lambda>db.
     let P = (\<lambda>s. us_Status s = SubscriptionStatusActive \<and> us_ExpiresAt s \<le> now)
     in (int (affected P (sd_rows db)),
         db\<lparr>sd_rows := update_where P (\<lambda>s. s\<lparr>us_Status := SubscriptionStatusExpired, us_UpdatedAt := now\<rparr>) (sd_rows db)\<rparr>))"

subsection \<open>The table invariant\<close>

definition sub_inv :: "sub_db \<Rightarrow> bool" where
  "sub_inv db \<longleftrightarrow> distinct (map us_ID (sd_rows db))
     \<and> distinct (map (\<lambda>s. (us_UserID s, us_GroupID s)) (sd_rows db))
     \<and> (\<forall>s \<in> set (sd_rows db). 0 < us_ID s \<and> us_ID s < sd_next_id db) \<and> 0 < sd_next_id db"

text \<open>An update of non-key columns: what it may not touch.\<close>

definition keeps_key :: "(user_sub \<Rightarrow> user_sub) \<Rightarrow> bool" where
  "keeps_key upd \<longleftrightarrow> (\<forall>s. us_ID (upd s) = us_ID s \<and> us_UserID (upd s) = us_UserID s \<and> us_GroupID (upd s) = us_GroupID s)"

lemma sub_inv_update_where:
  assumes "sub_inv db" "keeps_key upd"
  shows "sub_inv (db\<lparr>sd_rows := update_where P upd (sd_rows db)\<rparr>)"
proof -
  have "map us_ID (update_where P upd (sd_rows db)) = map us_ID (sd_rows db)"
    "map (\<lambda>s. (us_UserID s, us_GroupID s)) (update_where P upd (sd_rows db)) =
       map (\<lambda>s. (us_UserID s, us_GroupID s)) (sd_rows db)"
    using assms(2) by (auto intro!: map_update_where simp: keeps_key_def)
  then show ?thesis
    using assms by (auto simp: sub_inv_def set_update_where keeps_key_def)
qed

lemma sub_update_inv: "sub_inv db \<Longrightarrow> keeps_key upd \<Longrightarrow> sub_inv (snd (sub_update now sid upd db))"
  using sub_inv_update_where [of db "\<lambda>s. (upd s)\<lparr>us_UpdatedAt := now\<rparr>"]
  by (simp add: sub_update_def sql_update_one_def keeps_key_def)

lemma sql_sub_create_inv: "sub_inv db \<Longrightarrow> sub_inv (snd (sql_sub_create now sub db))"
  by (force simp: sql_sub_create_def sub_inv_def Let_def sub_row_def find_None_iff sub_of_def)

lemma sub_Create_inv: "sub_inv db \<Longrightarrow> sub_inv (snd (sub_Create f now sub db))"
  by (auto simp: sub_Create_def intro: with_fault_err_keeps sql_sub_create_inv split: option.split)

lemma repo_update_inv:
  assumes "sub_inv db"
  shows "sub_inv (snd (ExtendExpiry f now sid t db))" "sub_inv (snd (UpdateStatus f now sid st db))"
    "sub_inv (snd (UpdateNotes f now sid n db))" "sub_inv (snd (ActivateWindows f now sid t db))"
    "sub_inv (snd (ResetDailyUsage f now sid t db))" "sub_inv (snd (ResetWeeklyUsage f now sid t db))"
    "sub_inv (snd (ResetMonthlyUsage f now sid t db))"
  unfolding repo_update_defs
  by (rule with_fault_err_keeps [where P = sub_inv, OF assms], erule sub_update_inv, simp add: keeps_key_def)+

lemma sub_Delete_inv: "sub_inv db \<Longrightarrow> sub_inv (snd (sub_Delete f sid db))"
  unfolding sub_Delete_def
  by (rule with_fault_keeps [where P = sub_inv]) (auto simp: sub_inv_def distinct_map_filter)

lemma IncrementUsage_inv: "sub_inv db \<Longrightarrow> sub_inv (snd (IncrementUsage f na now sid c db))"
  unfolding IncrementUsage_def
  by (rule with_fault_err_keeps [where P = sub_inv])
    (auto simp: Let_def intro!: sub_inv_update_where simp: keeps_key_def)

lemma BatchUpdateExpiredStatus_inv: "sub_inv db \<Longrightarrow> sub_inv (snd (BatchUpdateExpiredStatus f now db))"
  unfolding BatchUpdateExpiredStatus_def
  by (rule with_fault_keeps [where P = sub_inv])
    (auto simp: Let_def intro!: sub_inv_update_where simp: keeps_key_def)

lemmas sub_repo_inv = sub_Create_inv repo_update_inv sub_Delete_inv IncrementUsage_inv BatchUpdateExpiredStatus_inv

subsection \<open>Reading back\<close>

lemma sub_row_key: "sub_row u g db = Some s \<Longrightarrow> us_UserID s = u \<and> us_GroupID s = g \<and> s \<in> set (sd_rows db)"
  by (auto simp: sub_row_def sub_of_def dest: find_SomeD)

lemma sub_by_id_key: "sub_by_id i db = Some s \<Longrightarrow> us_ID s = i \<and> s \<in> set (sd_rows db)"
  by (auto simp: sub_by_id_def dest: find_SomeD)

lemma sub_id_unique:
  "sub_inv db \<Longrightarrow> s \<in> set (sd_rows db) \<Longrightarrow> s' \<in> set (sd_rows db) \<Longrightarrow> us_ID s' = us_ID s \<Longrightarrow> s' = s"
  by (auto simp: sub_inv_def distinct_map inj_on_def)

lemma sub_row_by_id:
  assumes "sub_inv db" "sub_row u g db = Some s" shows "sub_by_id (us_ID s) db = Some s"
proof -
  have m: "s \<in> set (sd_rows db)" using sub_row_key [OF assms(2)] by simp
  then have "sub_by_id (us_ID s) db \<noteq> None" by (auto simp: sub_by_id_def find_None_iff)
  then obtain s' where s': "sub_by_id (us_ID s) db = Some s'" by blast
  then show ?thesis using sub_by_id_key [OF s'] sub_id_unique [OF assms(1) m] by simp
qed

lemma sub_row_update_where:
  "keeps_key upd \<Longrightarrow> sub_row u g (db\<lparr>sd_rows := update_where P upd (sd_rows db)\<rparr>) =
    map_option (\<lambda>s. if P s then upd s else s) (sub_row u g db)"
  unfolding sub_row_def by (simp, rule find_update_where_same) (auto simp: sub_of_def keeps_key_def)

lemma sub_by_id_update_where:
  "keeps_key upd \<Longrightarrow> sub_by_id i (db\<lparr>sd_rows := update_where P upd (sd_rows db)\<rparr>) =
    map_option (\<lambda>s. if P s then upd s else s) (sub_by_id i db)"
  unfolding sub_by_id_def by (simp, rule find_update_where_same) (auto simp: keeps_key_def)

text \<open>An update by id of a live row succeeds and rewrites that row.\<close>

lemma sub_update_ok:
  assumes "sub_inv db" "s \<in> set (sd_rows db)" "keeps_key upd"
  shows "fst (sub_update now (us_ID s) upd db) = Inr ()"
    "snd (sub_update now (us_ID s) upd db) =
       db\<lparr>sd_rows := update_where (\<lambda>r. us_ID r = us_ID s) (\<lambda>s. (upd s)\<lparr>us_UpdatedAt := now\<rparr>) (sd_rows db)\<rparr>"
  using assms by (auto simp: sub_update_def sql_update_one_def affected_0_iff)

end
