(* ===== verification/Subscription.thy ===== *)
theory Subscription
  imports SubscriptionStore
begin

text \<open>
  The subscription service, \<open>internal/service/subscription_service.go\<close>: assigning, extending,
  shortening and revoking subscriptions, the usage windows, limit checks on the request path, window
  maintenance, the first-level cache in front of the table, and the progress view. \<open>sub_env\<close> is
  what one call sees of its surroundings: the clock, the time zones of \<open>time.Now()\<close> and of
  timestamps read from the database, the fault of each database call, what other processes do before
  it, and whether the lossy cache keeps an entry. The invalidation of the billing cache, which the code
  starts in the background, is outside the model.
\<close>

definition MaxExpiresAt :: time where "MaxExpiresAt = 4102444799 * Second"
definition MaxValidityDays :: int where "MaxValidityDays = 36500"

definition ErrSubscriptionAssignConflict :: app_error where
  "ErrSubscriptionAssignConflict = Conflict ''SUBSCRIPTION_ASSIGN_CONFLICT''
     ''subscription exists but request conflicts with existing assignment semantics''"
definition ErrGroupNotSubscriptionType :: app_error where
  "ErrGroupNotSubscriptionType = BadRequest ''GROUP_NOT_SUBSCRIPTION_TYPE'' ''group is not a subscription type''"
definition ErrInvalidInput :: app_error where
  "ErrInvalidInput = BadRequest ''INVALID_INPUT''
     ''at least one of resetDaily, resetWeekly, or resetMonthly must be true''"
definition ErrDailyLimitExceeded :: app_error where
  "ErrDailyLimitExceeded = TooManyRequests ''DAILY_LIMIT_EXCEEDED'' ''daily usage limit exceeded''"
definition ErrWeeklyLimitExceeded :: app_error where
  "ErrWeeklyLimitExceeded = TooManyRequests ''WEEKLY_LIMIT_EXCEEDED'' ''weekly usage limit exceeded''"
definition ErrMonthlyLimitExceeded :: app_error where
  "ErrMonthlyLimitExceeded = TooManyRequests ''MONTHLY_LIMIT_EXCEEDED'' ''monthly usage limit exceeded''"
definition ErrAdjustWouldExpire :: app_error where
  "ErrAdjustWouldExpire = BadRequest ''ADJUST_WOULD_EXPIRE''
     ''adjustment would result in expired subscription (remaining days must be > 0)''"

lemmas sub_err_defs = ErrSubscriptionNotFound_def ErrSubscriptionExpired_def ErrSubscriptionSuspended_def
  ErrSubscriptionAlreadyExists_def ErrSubscriptionAssignConflict_def ErrGroupNotSubscriptionType_def
  ErrInvalidInput_def ErrDailyLimitExceeded_def ErrWeeklyLimitExceeded_def ErrMonthlyLimitExceeded_def
  ErrAdjustWouldExpire_def

datatype sub_call = SGroup | SExists | SGet | SBegin | SExpiry | SStatus | SNotes | SCommit | SReload
  | SCreate | SDelete | SDaily | SWeekly | SMonthly | SActivate | SIncr

record sub_env =
  se_now :: time
  se_loc :: location
  se_dbloc :: location
  se_fault :: "sub_call \<Rightarrow> fault"
  se_others :: "sub_call \<Rightarrow> sub_db \<Rightarrow> sub_db"
  se_l1 :: bool
  se_admit :: bool
  se_num_add :: "f64 \<Rightarrow> f64 \<Rightarrow> f64"

record sub_state =
  ss_db :: sub_db
  ss_l1 :: "gostring \<rightharpoonup> user_sub"

record assign_input =
  ai_UserID :: int64
  ai_GroupID :: int64
  ai_ValidityDays :: int
  ai_AssignedBy :: int64
  ai_Notes :: gostring

subsection \<open>The first-level cache\<close>

definition subCacheKey :: "int64 \<Rightarrow> int64 \<Rightarrow> gostring" where
  "subCacheKey userID groupID = ''sub:'' @ itoa userID @ '':'' @ itoa groupID"

definition InvalidateSubCache :: "bool \<Rightarrow> int64 \<Rightarrow> int64 \<Rightarrow> sub_state \<Rightarrow> sub_state" where
  "InvalidateSubCache has_l1 userID groupID st =
     (if has_l1 then st\<lparr>ss_l1 := (ss_l1 st)(subCacheKey userID groupID := None)\<rparr> else st)"

text \<open>A cached entry that outlived its time to live is absent from \<open>ss_l1\<close> when the call reads it.\<close>

definition GetActiveSubscription ::
    "sub_env \<Rightarrow> int64 \<Rightarrow> int64 \<Rightarrow> sub_state \<Rightarrow> user_sub result \<times> sub_state" where
  "GetActiveSubscription env userID groupID st =
     (let key = subCacheKey userID groupID in
      case (if se_l1 env then ss_l1 st key else None) of
        Some sub \<Rightarrow> (Inr sub, st)
      | None \<Rightarrow>
          (case GetActiveByUserIDAndGroupID (se_fault env SGet) (se_now env) userID groupID (ss_db st) of
             Inl err \<Rightarrow> (Inl err, st)
           | Inr sub \<Rightarrow> (Inr sub,
               if se_l1 env \<and> se_admit env then st\<lparr>ss_l1 := (ss_l1 st)(key \<mapsto> sub)\<rparr> else st)))"

subsection \<open>Assigning and extending\<close>

definition normalizeAssignValidityDays :: "int \<Rightarrow> int" where
  "normalizeAssignValidityDays days =
     (let days = (if days \<le> 0 then 30 else days)
      in if MaxValidityDays < days then MaxValidityDays else days)"

definition cap_expiry :: "time \<Rightarrow> time" where
  "cap_expiry t = (if After t MaxExpiresAt then MaxExpiresAt else t)"

definition new_sub :: "sub_env \<Rightarrow> assign_input \<Rightarrow> user_sub" where
  "new_sub env input =
     (let validityDays = normalizeAssignValidityDays (ai_ValidityDays input);
          now = se_now env;
          expiresAt = cap_expiry (AddDays (se_loc env) now validityDays)
      in \<lparr>us_ID = 0, us_UserID = ai_UserID input, us_GroupID = ai_GroupID input, us_StartsAt = now,
          us_ExpiresAt = expiresAt, us_Status = SubscriptionStatusActive, us_DailyWindowStart = None,
          us_WeeklyWindowStart = None, us_MonthlyWindowStart = None, us_DailyUsageUSD = Fin 0,
          us_WeeklyUsageUSD = Fin 0, us_MonthlyUsageUSD = Fin 0,
          us_AssignedBy = (if 0 < ai_AssignedBy input then Some (ai_AssignedBy input) else None),
          us_AssignedAt = now, us_Notes = ai_Notes input, us_CreatedAt = now, us_UpdatedAt = now\<rparr>)"

definition createSubscription ::
    "sub_env \<Rightarrow> assign_input \<Rightarrow> sub_db \<Rightarrow> user_sub result \<times> sub_db" where
  "createSubscription env input db =
     and_then (sub_Create (se_fault env SCreate) (se_now env) (Some (new_sub env input)) (se_others env SCreate db))
       (\<lambda>created db1. (sub_GetByID (se_fault env SReload) (us_ID created) db1, db1))"

definition append_notes :: "gostring \<Rightarrow> gostring \<Rightarrow> gostring" where
  "append_notes old new = (if old \<noteq> [] then old @ [CHR 0x0A] @ new else old @ new)"

definition extend_tx_body ::
    "sub_env \<Rightarrow> assign_input \<Rightarrow> user_sub \<Rightarrow> time \<Rightarrow> sub_db \<Rightarrow> unit result \<times> sub_db" where
  "extend_tx_body env input existingSub newExpiresAt db =
     (let now = se_now env; sid = us_ID existingSub in
      and_then (wrap_err ''extend subscription'' (ExtendExpiry (se_fault env SExpiry) now sid newExpiresAt db)) (\<lambda>_ db1.
      and_then (if us_Status existingSub \<noteq> SubscriptionStatusActive
                then wrap_err ''update subscription status''
                       (UpdateStatus (se_fault env SStatus) now sid SubscriptionStatusActive db1)
                else (Inr (), db1)) (\<lambda>_ db2.
      if ai_Notes input \<noteq> []
      then wrap_err ''update subscription notes''
             (UpdateNotes (se_fault env SNotes) now sid (append_notes (us_Notes existingSub) (ai_Notes input)) db2)
      else (Inr (), db2))))"

definition AssignOrExtendSubscription ::
    "sub_env \<Rightarrow> assign_input \<Rightarrow> sub_state \<Rightarrow> (user_sub \<times> bool) result \<times> sub_state" where
  "AssignOrExtendSubscription env input st =
     (case group_GetByID (se_fault env SGroup) (ai_GroupID input) (ss_db st) of
        Inl err \<Rightarrow> (Inl (EWrap ''group not found'' err), st)
      | Inr grp \<Rightarrow>
        if \<not> IsSubscriptionType grp then (Inl (EApp ErrGroupNotSubscriptionType), st)
        else
          (let validityDays = normalizeAssignValidityDays (ai_ValidityDays input) in
           case GetByUserIDAndGroupID (se_fault env SGet) (ai_UserID input) (ai_GroupID input) (ss_db st) of
             Inr existingSub \<Rightarrow>
               (let now = se_now env;
                    newExpiresAt = cap_expiry
                      (if After (us_ExpiresAt existingSub) now
                       then AddDays (se_dbloc env) (us_ExpiresAt existingSub) validityDays
                       else AddDays (se_loc env) now validityDays)
                in case run_tx (se_fault env SBegin) (se_fault env SCommit)
                          (extend_tx_body env input existingSub newExpiresAt) (se_others env SBegin (ss_db st)) of
                     (Inl err, db') \<Rightarrow> (Inl err, st\<lparr>ss_db := db'\<rparr>)
                   | (Inr _, db') \<Rightarrow>
                       (let st' = InvalidateSubCache (se_l1 env) (ai_UserID input) (ai_GroupID input) (st\<lparr>ss_db := db'\<rparr>)
                        in case sub_GetByID (se_fault env SReload) (us_ID existingSub) db' of
                             Inl err \<Rightarrow> (Inl err, st')
                           | Inr sub \<Rightarrow> (Inr (sub, True), st')))
           | Inl _ \<Rightarrow>
               (case createSubscription env input (ss_db st) of
                  (Inl err, db') \<Rightarrow> (Inl err, st\<lparr>ss_db := db'\<rparr>)
                | (Inr sub, db') \<Rightarrow>
                    (Inr (sub, False),
                     InvalidateSubCache (se_l1 env) (ai_UserID input) (ai_GroupID input) (st\<lparr>ss_db := db'\<rparr>)))))"

definition detectAssignSemanticConflict ::
    "sub_env \<Rightarrow> user_sub option \<Rightarrow> assign_input option \<Rightarrow> gostring \<times> bool" where
  "detectAssignSemanticConflict env existing input = (case (existing, input) of
     (Some ex, Some inp) \<Rightarrow>
       (let normalizedDays = normalizeAssignValidityDays (ai_ValidityDays inp);
            expected = cap_expiry (AddDays (se_dbloc env) (us_StartsAt ex) normalizedDays)
        in if us_StartsAt ex \<noteq> zero_time \<and> us_ExpiresAt ex \<noteq> expected then (''validity_days_mismatch'', True)
           else if trim_space (us_Notes ex) \<noteq> trim_space (ai_Notes inp) then (''notes_mismatch'', True)
           else ([], False))
   | _ \<Rightarrow> ([], False))"

definition assignSubscriptionWithReuse ::
    "sub_env \<Rightarrow> assign_input \<Rightarrow> sub_state \<Rightarrow> (user_sub \<times> bool) result \<times> sub_state" where
  "assignSubscriptionWithReuse env input st =
     (case group_GetByID (se_fault env SGroup) (ai_GroupID input) (ss_db st) of
        Inl err \<Rightarrow> (Inl (EWrap ''group not found'' err), st)
      | Inr grp \<Rightarrow>
        if \<not> IsSubscriptionType grp then (Inl (EApp ErrGroupNotSubscriptionType), st)
        else
          (case ExistsByUserIDAndGroupID (se_fault env SExists) (ai_UserID input) (ai_GroupID input) (ss_db st) of
             Inl err \<Rightarrow> (Inl err, st)
           | Inr True \<Rightarrow>
               (case GetByUserIDAndGroupID (se_fault env SGet) (ai_UserID input) (ai_GroupID input) (ss_db st) of
                  Inl getErr \<Rightarrow> (Inl getErr, st)
                | Inr sub \<Rightarrow>
                    (case detectAssignSemanticConflict env (Some sub) (Some input) of
                       (reason, True) \<Rightarrow>
                         (Inl (EApp (WithMetadata ErrSubscriptionAssignConflict
                            (Some [''conflict_reason'' \<mapsto> reason]))), st)
                     | (_, False) \<Rightarrow> (Inr (sub, True), st)))
           | Inr False \<Rightarrow>
               (case createSubscription env input (ss_db st) of
                  (Inl err, db') \<Rightarrow> (Inl err, st\<lparr>ss_db := db'\<rparr>)
                | (Inr sub, db') \<Rightarrow>
                    (Inr (sub, False),
                     InvalidateSubCache (se_l1 env) (ai_UserID input) (ai_GroupID input) (st\<lparr>ss_db := db'\<rparr>)))))"

definition AssignSubscription :: "sub_env \<Rightarrow> assign_input \<Rightarrow> sub_state \<Rightarrow> user_sub result \<times> sub_state" where
  "AssignSubscription env input st = and_then (assignSubscriptionWithReuse env input st) (\<lambda>(sub, _) st'. (Inr sub, st'))"

record bulk_result =
  br_SuccessCount :: nat
  br_CreatedCount :: nat
  br_ReusedCount :: nat
  br_FailedCount :: nat
  br_Subscriptions :: "user_sub list"
  br_Errors :: "(int64 \<times> go_error) list"
  br_Statuses :: "int64 \<rightharpoonup> gostring"

definition bulk_empty :: bulk_result where
  "bulk_empty = \<lparr>br_SuccessCount = 0, br_CreatedCount = 0, br_ReusedCount = 0, br_FailedCount = 0,
     br_Subscriptions = [], br_Errors = [], br_Statuses = Map.empty\<rparr>"

text \<open>\<open>env\<close> gives the surroundings of the call for each user.\<close>

primrec BulkAssignSubscription ::
    "(int64 \<Rightarrow> sub_env) \<Rightarrow> int64 list \<Rightarrow> assign_input \<Rightarrow> bulk_result \<Rightarrow> sub_state \<Rightarrow> bulk_result \<times> sub_state" where
  "BulkAssignSubscription env [] input res st = (res, st)"
| "BulkAssignSubscription env (userID # userIDs) input res st =
     (case assignSubscriptionWithReuse (env userID) (input\<lparr>ai_UserID := userID\<rparr>) st of
        (Inl err, st') \<Rightarrow> BulkAssignSubscription env userIDs input
          (res\<lparr>br_FailedCount := br_FailedCount res + 1, br_Errors := br_Errors res @ [(userID, err)],
               br_Statuses := (br_Statuses res)(userID \<mapsto> ''failed'')\<rparr>) st'
      | (Inr (sub, reused), st') \<Rightarrow> BulkAssignSubscription env userIDs input
          (let res' = res\<lparr>br_SuccessCount := br_SuccessCount res + 1,
                          br_Subscriptions := br_Subscriptions res @ [sub]\<rparr>
           in if reused
              then res'\<lparr>br_ReusedCount := br_ReusedCount res + 1,
                        br_Statuses := (br_Statuses res)(userID \<mapsto> ''reused'')\<rparr>
              else res'\<lparr>br_CreatedCount := br_CreatedCount res + 1,
                        br_Statuses := (br_Statuses res)(userID \<mapsto> ''created'')\<rparr>) st')"

subsection \<open>Revoking and adjusting\<close>

definition RevokeSubscription :: "sub_env \<Rightarrow> int64 \<Rightarrow> sub_state \<Rightarrow> unit result \<times> sub_state" where
  "RevokeSubscription env subscriptionID st =
     (case sub_GetByID (se_fault env SGet) subscriptionID (ss_db st) of
        Inl err \<Rightarrow> (Inl err, st)
      | Inr sub \<Rightarrow>
          (case sub_Delete (se_fault env SDelete) subscriptionID (se_others env SDelete (ss_db st)) of
             (Inl err, db') \<Rightarrow> (Inl err, st\<lparr>ss_db := db'\<rparr>)
           | (Inr _, db') \<Rightarrow> (Inr (), InvalidateSubCache (se_l1 env) (us_UserID sub) (us_GroupID sub) (st\<lparr>ss_db := db'\<rparr>))))"

definition clamp_days :: "int \<Rightarrow> int" where
  "clamp_days days =
     (let days = (if MaxValidityDays < days then MaxValidityDays else days)
      in if days < - MaxValidityDays then - MaxValidityDays else days)"

definition adjusted_expiry :: "sub_env \<Rightarrow> user_sub \<Rightarrow> int \<Rightarrow> time" where
  "adjusted_expiry env sub days = cap_expiry
     (if \<not> After (us_ExpiresAt sub) (se_now env) then AddDays (se_loc env) (se_now env) days
      else AddDays (se_dbloc env) (us_ExpiresAt sub) days)"

definition ExtendSubscription :: "sub_env \<Rightarrow> int64 \<Rightarrow> int \<Rightarrow> sub_state \<Rightarrow> user_sub result \<times> sub_state" where
  "ExtendSubscription env subscriptionID days st =
     (case sub_GetByID (se_fault env SGet) subscriptionID (ss_db st) of
        Inl _ \<Rightarrow> (Inl (EApp ErrSubscriptionNotFound), st)
      | Inr sub \<Rightarrow>
          if \<not> After (us_ExpiresAt sub) (se_now env) \<and> clamp_days days < 0 then
            (Inl (EApp (BadRequest ''CANNOT_SHORTEN_EXPIRED'' ''cannot shorten an expired subscription'')), st)
          else if \<not> After (adjusted_expiry env sub (clamp_days days)) (se_now env) then
            (Inl (EApp ErrAdjustWouldExpire), st)
          else
            (case and_then (ExtendExpiry (se_fault env SExpiry) (se_now env) subscriptionID
                             (adjusted_expiry env sub (clamp_days days)) (se_others env SExpiry (ss_db st)))
                    (\<lambda>_ db1. if us_Status sub = SubscriptionStatusExpired
                       then UpdateStatus (se_fault env SStatus) (se_now env) subscriptionID SubscriptionStatusActive db1
                       else (Inr (), db1)) of
               (Inl err, db') \<Rightarrow> (Inl err, st\<lparr>ss_db := db'\<rparr>)
             | (Inr _, db') \<Rightarrow>
                 (sub_GetByID (se_fault env SReload) subscriptionID db',
                  InvalidateSubCache (se_l1 env) (us_UserID sub) (us_GroupID sub) (st\<lparr>ss_db := db'\<rparr>))))"

subsection \<open>Windows\<close>

text \<open>The view of a list of subscriptions: finished windows are shown empty, and a run-out status as expired.\<close>

definition normalize_window :: "time \<Rightarrow> user_sub \<Rightarrow> user_sub" where
  "normalize_window now sub =
     (let s1 = (if NeedsDailyReset now sub then sub\<lparr>us_DailyWindowStart := None, us_DailyUsageUSD := Fin 0\<rparr> else sub);
          s2 = (if NeedsWeeklyReset now s1 then s1\<lparr>us_WeeklyWindowStart := None, us_WeeklyUsageUSD := Fin 0\<rparr> else s1)
      in if NeedsMonthlyReset now s2 then s2\<lparr>us_MonthlyWindowStart := None, us_MonthlyUsageUSD := Fin 0\<rparr> else s2)"

definition normalizeExpiredWindows :: "time \<Rightarrow> user_sub list \<Rightarrow> user_sub list" where
  "normalizeExpiredWindows now subs = map (normalize_window now) subs"

definition normalizeSubscriptionStatus :: "time \<Rightarrow> user_sub list \<Rightarrow> user_sub list" where
  "normalizeSubscriptionStatus now subs = map (\<lambda>sub.
     if us_Status sub = SubscriptionStatusActive \<and> \<not> After (us_ExpiresAt sub) now
     then sub\<lparr>us_Status := SubscriptionStatusExpired\<rparr> else sub) subs"

definition startOfDay :: "sub_env \<Rightarrow> time" where
  "startOfDay env = startOfDay_in (se_loc env) (se_now env)"

definition CheckAndActivateWindow :: "sub_env \<Rightarrow> user_sub \<Rightarrow> sub_db \<Rightarrow> unit result \<times> sub_db" where
  "CheckAndActivateWindow env sub db =
     (if IsWindowActivated sub then (Inr (), db)
      else ActivateWindows (se_fault env SActivate) (se_now env) (us_ID sub) (startOfDay env) (se_others env SActivate db))"

definition AdminResetQuota ::
    "sub_env \<Rightarrow> int64 \<Rightarrow> bool \<Rightarrow> bool \<Rightarrow> bool \<Rightarrow> sub_state \<Rightarrow> user_sub result \<times> sub_state" where
  "AdminResetQuota env subscriptionID resetDaily resetWeekly resetMonthly st =
     (if \<not> resetDaily \<and> \<not> resetWeekly \<and> \<not> resetMonthly then (Inl (EApp ErrInvalidInput), st)
      else case sub_GetByID (se_fault env SGet) subscriptionID (ss_db st) of
        Inl err \<Rightarrow> (Inl err, st)
      | Inr sub \<Rightarrow>
          (let windowStart = startOfDay env; now = se_now env in
           case and_then (if resetDaily then ResetDailyUsage (se_fault env SDaily) now (us_ID sub) windowStart
                                             (se_others env SDaily (ss_db st)) else (Inr (), ss_db st)) (\<lambda>_ db1.
                and_then (if resetWeekly then ResetWeeklyUsage (se_fault env SWeekly) now (us_ID sub) windowStart db1
                          else (Inr (), db1)) (\<lambda>_ db2.
                if resetMonthly then ResetMonthlyUsage (se_fault env SMonthly) now (us_ID sub) windowStart db2
                else (Inr (), db2))) of
             (Inl err, db') \<Rightarrow> (Inl err, st\<lparr>ss_db := db'\<rparr>)
           | (Inr _, db') \<Rightarrow>
               (sub_GetByID (se_fault env SReload) subscriptionID db',
                InvalidateSubCache (se_l1 env) (us_UserID sub) (us_GroupID sub) (st\<lparr>ss_db := db'\<rparr>))))"

text \<open>\<open>CheckAndResetWindows\<close> also updates the caller's copy, the second component of the result.\<close>

type_synonym reset_state = "user_sub \<times> bool \<times> sub_db"

definition reset_step ::
    "bool \<Rightarrow> (sub_db \<Rightarrow> unit result \<times> sub_db) \<Rightarrow> (user_sub \<Rightarrow> user_sub) \<Rightarrow> reset_state \<Rightarrow> unit result \<times> reset_state" where
  "reset_step needed reset upd = (\<lambda>(s, n, db).
     if needed then (case reset db of (Inl e, db') \<Rightarrow> (Inl e, (s, n, db')) | (Inr _, db') \<Rightarrow> (Inr (), (upd s, True, db')))
     else (Inr (), (s, n, db)))"

definition CheckAndResetWindows :: "sub_env \<Rightarrow> user_sub \<Rightarrow> sub_state \<Rightarrow> (unit result \<times> user_sub) \<times> sub_state" where
  "CheckAndResetWindows env sub st =
     (let windowStart = startOfDay env; now = se_now env; sid = us_ID sub in
      case and_then (reset_step (NeedsDailyReset now sub) (ResetDailyUsage (se_fault env SDaily) now sid windowStart)
               (\<lambda>s. s\<lparr>us_DailyWindowStart := Some windowStart, us_DailyUsageUSD := Fin 0\<rparr>) (sub, False, ss_db st)) (\<lambda>_ x1.
           and_then (reset_step (NeedsWeeklyReset now sub) (ResetWeeklyUsage (se_fault env SWeekly) now sid windowStart)
               (\<lambda>s. s\<lparr>us_WeeklyWindowStart := Some windowStart, us_WeeklyUsageUSD := Fin 0\<rparr>) x1) (\<lambda>_ x2.
           reset_step (NeedsMonthlyReset now sub) (ResetMonthlyUsage (se_fault env SMonthly) now sid windowStart)
               (\<lambda>s. s\<lparr>us_MonthlyWindowStart := Some windowStart, us_MonthlyUsageUSD := Fin 0\<rparr>) x2)) of
        (Inl e, (s, n, db)) \<Rightarrow> ((Inl e, s), st\<lparr>ss_db := db\<rparr>)
      | (Inr _, (s, n, db)) \<Rightarrow> ((Inr (), s),
          if n then InvalidateSubCache (se_l1 env) (us_UserID sub) (us_GroupID sub) (st\<lparr>ss_db := db\<rparr>)
          else st\<lparr>ss_db := db\<rparr>))"

definition CheckUsageLimits :: "user_sub \<Rightarrow> gw_group \<Rightarrow> f64 \<Rightarrow> unit result" where
  "CheckUsageLimits sub g additionalCost =
     (if \<not> CheckDailyLimit sub g additionalCost then Inl (EApp ErrDailyLimitExceeded)
      else if \<not> CheckWeeklyLimit sub g additionalCost then Inl (EApp ErrWeeklyLimitExceeded)
      else if \<not> CheckMonthlyLimit sub g additionalCost then Inl (EApp ErrMonthlyLimitExceeded)
      else Inr ())"

text \<open>The result: whether maintenance is needed, the error, and the caller's corrected copy.\<close>

definition ValidateAndCheckLimits :: "time \<Rightarrow> user_sub \<Rightarrow> gw_group \<Rightarrow> bool \<times> unit result \<times> user_sub" where
  "ValidateAndCheckLimits now sub g =
     (if us_Status sub = SubscriptionStatusExpired then (False, Inl (EApp ErrSubscriptionExpired), sub)
      else if us_Status sub = SubscriptionStatusSuspended then (False, Inl (EApp ErrSubscriptionSuspended), sub)
      else if IsExpired now sub then (False, Inl (EApp ErrSubscriptionExpired), sub)
      else
        (let d = NeedsDailyReset now sub; w = NeedsWeeklyReset now sub; m = NeedsMonthlyReset now sub;
             s1 = (if d then sub\<lparr>us_DailyUsageUSD := Fin 0\<rparr> else sub);
             s2 = (if w then s1\<lparr>us_WeeklyUsageUSD := Fin 0\<rparr> else s1);
             s3 = (if m then s2\<lparr>us_MonthlyUsageUSD := Fin 0\<rparr> else s2);
             needsMaintenance = (d \<or> w \<or> m \<or> \<not> IsWindowActivated sub)
         in if \<not> CheckDailyLimit s3 g (Fin 0) then (needsMaintenance, Inl (EApp ErrDailyLimitExceeded), s3)
            else if \<not> CheckWeeklyLimit s3 g (Fin 0) then (needsMaintenance, Inl (EApp ErrWeeklyLimitExceeded), s3)
            else if \<not> CheckMonthlyLimit s3 g (Fin 0) then (needsMaintenance, Inl (EApp ErrMonthlyLimitExceeded), s3)
            else (needsMaintenance, Inr (), s3)))"

text \<open>
  One run of the maintenance job for the caller's copy: errors are only logged. (The queue in front
  of it may drop the job; then it is as if the call had not been made.)
\<close>

definition doWindowMaintenance :: "sub_env \<Rightarrow> user_sub \<Rightarrow> sub_state \<Rightarrow> sub_state" where
  "doWindowMaintenance env sub st =
     (let st1 = (if \<not> IsWindowActivated sub
                 then st\<lparr>ss_db := snd (CheckAndActivateWindow env sub (ss_db st))\<rparr> else st);
          st2 = snd (CheckAndResetWindows env sub st1)
      in InvalidateSubCache (se_l1 env) (us_UserID sub) (us_GroupID sub) st2)"

definition RecordUsage :: "sub_env \<Rightarrow> int64 \<Rightarrow> f64 \<Rightarrow> sub_db \<Rightarrow> unit result \<times> sub_db" where
  "RecordUsage env subscriptionID costUSD db =
     IncrementUsage (se_fault env SIncr) (se_num_add env) (se_now env) subscriptionID costUSD db"

text \<open>The check of a subscription; a run-out one is marked expired, and a failure to do so is ignored.\<close>

definition ValidateSubscription :: "sub_env \<Rightarrow> user_sub \<Rightarrow> sub_db \<Rightarrow> unit result \<times> sub_db" where
  "ValidateSubscription env sub db =
     (if us_Status sub = SubscriptionStatusExpired then (Inl (EApp ErrSubscriptionExpired), db)
      else if us_Status sub = SubscriptionStatusSuspended then (Inl (EApp ErrSubscriptionSuspended), db)
      else if IsExpired (se_now env) sub then
        (Inl (EApp ErrSubscriptionExpired),
         snd (UpdateStatus (se_fault env SStatus) (se_now env) (us_ID sub) SubscriptionStatusExpired db))
      else (Inr (), db))"

subsection \<open>The progress view\<close>

record window_progress =
  wp_LimitUSD :: f64
  wp_UsedUSD :: f64
  wp_RemainingUSD :: f64
  wp_Percentage :: f64
  wp_WindowStart :: time
  wp_ResetsAt :: time
  wp_ResetsInSeconds :: int

record sub_progress =
  sp_ID :: int64
  sp_GroupName :: gostring
  sp_ExpiresAt :: time
  sp_ExpiresInDays :: int
  sp_Daily :: "window_progress option"
  sp_Weekly :: "window_progress option"
  sp_Monthly :: "window_progress option"

definition window_view :: "time \<Rightarrow> f64 \<Rightarrow> f64 \<Rightarrow> time \<Rightarrow> duration \<Rightarrow> window_progress" where
  "window_view now limit used start len =
     (let resetsAt = Add start len;
          remaining = fsub limit used;
          pct = fmul (fdiv used limit) (Fin 100);
          secs = f64_to_int 0 (Seconds (Sub resetsAt now))
      in \<lparr>wp_LimitUSD = limit, wp_UsedUSD = used,
          wp_RemainingUSD = (if flt remaining (Fin 0) then Fin 0 else remaining),
          wp_Percentage = (if flt (Fin 100) pct then Fin 100 else pct),
          wp_WindowStart = start, wp_ResetsAt = resetsAt,
          wp_ResetsInSeconds = (if secs < 0 then 0 else secs)\<rparr>)"

definition calculateProgress :: "time \<Rightarrow> user_sub \<Rightarrow> gw_group \<Rightarrow> sub_progress" where
  "calculateProgress now sub g =
     \<lparr>sp_ID = us_ID sub, sp_GroupName = g_Name g, sp_ExpiresAt = us_ExpiresAt sub,
      sp_ExpiresInDays = DaysRemaining now sub,
      sp_Daily = (case us_DailyWindowStart sub of
         Some start \<Rightarrow> if HasDailyLimit g
           then Some (window_view now (the (g_DailyLimitUSD g)) (us_DailyUsageUSD sub) start (24 * Hour)) else None
       | None \<Rightarrow> None),
      sp_Weekly = (case us_WeeklyWindowStart sub of
         Some start \<Rightarrow> if HasWeeklyLimit g
           then Some (window_view now (the (g_WeeklyLimitUSD g)) (us_WeeklyUsageUSD sub) start (7 * 24 * Hour)) else None
       | None \<Rightarrow> None),
      sp_Monthly = (case us_MonthlyWindowStart sub of
         Some start \<Rightarrow> if HasMonthlyLimit g
           then Some (window_view now (the (g_MonthlyLimitUSD g)) (us_MonthlyUsageUSD sub) start (30 * 24 * Hour)) else None
       | None \<Rightarrow> None)\<rparr>"

definition GetSubscriptionProgress :: "sub_env \<Rightarrow> int64 \<Rightarrow> sub_db \<Rightarrow> sub_progress result" where
  "GetSubscriptionProgress env subscriptionID db =
     (case sub_GetByID (se_fault env SGet) subscriptionID db of
        Inl _ \<Rightarrow> Inl (EApp ErrSubscriptionNotFound)
      | Inr sub \<Rightarrow>
          (case find (\<lambda>g. g_ID g = us_GroupID sub) (sd_groups db) of
             Some g \<Rightarrow> Inr (calculateProgress (se_now env) sub g)
           | None \<Rightarrow> (case group_GetByID (se_fault env SGroup) (us_GroupID sub) db of
                Inl err \<Rightarrow> Inl err | Inr g \<Rightarrow> Inr (calculateProgress (se_now env) sub g))))"

subsection \<open>The table invariant, kept by every operation\<close>

definition row_ok :: "user_sub \<Rightarrow> bool" where
  "row_ok s \<longleftrightarrow> us_ExpiresAt s \<le> MaxExpiresAt \<and>
     us_Status s \<in> {SubscriptionStatusActive, SubscriptionStatusExpired, SubscriptionStatusSuspended}"

definition sub_ok :: "sub_db \<Rightarrow> bool" where
  "sub_ok db \<longleftrightarrow> sub_inv db \<and> (\<forall>s \<in> set (sd_rows db). row_ok s)"

lemma cap_expiry_le [simp]: "cap_expiry t \<le> MaxExpiresAt"
  by (simp add: cap_expiry_def)

lemma sub_ok_update_where:
  "sub_ok db \<Longrightarrow> keeps_key upd \<Longrightarrow> (\<And>s. row_ok s \<Longrightarrow> row_ok (upd s)) \<Longrightarrow>
    sub_ok (db\<lparr>sd_rows := update_where P upd (sd_rows db)\<rparr>)"
  using sub_inv_update_where by (auto simp: sub_ok_def set_update_where)

lemma sub_update_sub_ok:
  "sub_ok db \<Longrightarrow> keeps_key upd \<Longrightarrow> (\<And>s. row_ok s \<Longrightarrow> row_ok (upd s)) \<Longrightarrow> sub_ok (snd (sub_update now sid upd db))"
  using sub_ok_update_where [of db "\<lambda>s. (upd s)\<lparr>us_UpdatedAt := now\<rparr>"]
  by (simp add: sub_update_def sql_update_one_def keeps_key_def row_ok_def)

lemma repo_update_sub_ok:
  assumes "sub_ok db"
  shows "t \<le> MaxExpiresAt \<Longrightarrow> sub_ok (snd (ExtendExpiry f now sid t db))"
    "st \<in> {SubscriptionStatusActive, SubscriptionStatusExpired, SubscriptionStatusSuspended} \<Longrightarrow>
      sub_ok (snd (UpdateStatus f now sid st db))"
    "sub_ok (snd (UpdateNotes f now sid n db))" "sub_ok (snd (ActivateWindows f now sid t db))"
    "sub_ok (snd (ResetDailyUsage f now sid t db))" "sub_ok (snd (ResetWeeklyUsage f now sid t db))"
    "sub_ok (snd (ResetMonthlyUsage f now sid t db))"
  unfolding repo_update_defs
  by (rule with_fault_err_keeps [where P = sub_ok, OF assms],
      erule sub_update_sub_ok; auto simp: keeps_key_def row_ok_def)+

lemma sub_Create_sub_ok:
  assumes "sub_ok db" "row_ok sub"
  shows "sub_ok (snd (sub_Create f now (Some sub) db))"
proof -
  have "sub_ok (snd (sql_sub_create now sub d))" if "sub_ok d" for d
    using that assms(2) sql_sub_create_inv [of d now sub]
    by (auto simp: sub_ok_def sql_sub_create_def Let_def row_ok_def)
  with assms(1) show ?thesis by (simp add: sub_Create_def with_fault_err_keeps)
qed

lemma sub_Delete_sub_ok: "sub_ok db \<Longrightarrow> sub_ok (snd (sub_Delete f sid db))"
  unfolding sub_Delete_def
  by (rule with_fault_keeps [where P = sub_ok]) (auto simp: sub_ok_def sub_inv_def distinct_map_filter)

lemma IncrementUsage_sub_ok: "sub_ok db \<Longrightarrow> sub_ok (snd (IncrementUsage f na now sid c db))"
  unfolding IncrementUsage_def
  by (rule with_fault_err_keeps [where P = sub_ok])
    (auto simp: Let_def keeps_key_def row_ok_def intro!: sub_ok_update_where)

lemma BatchUpdate_sub_ok: "sub_ok db \<Longrightarrow> sub_ok (snd (BatchUpdateExpiredStatus f now db))"
  unfolding BatchUpdateExpiredStatus_def
  by (rule with_fault_keeps [where P = sub_ok])
    (auto simp: Let_def keeps_key_def row_ok_def intro!: sub_ok_update_where)

definition sound_env :: "sub_env \<Rightarrow> bool" where
  "sound_env env \<longleftrightarrow> (\<forall>c db. sub_ok db \<longrightarrow> sub_ok (se_others env c db))"

lemma InvalidateSubCache_db [simp]: "ss_db (InvalidateSubCache b u g st) = ss_db st"
  by (simp add: InvalidateSubCache_def)

lemma createSubscription_ok:
  assumes "sound_env env" "sub_ok db" shows "sub_ok (snd (createSubscription env input db))"
  unfolding createSubscription_def
  by (rule and_then_keeps [where P = sub_ok], rule sub_Create_sub_ok)
    (use assms in \<open>auto simp: sound_env_def row_ok_def new_sub_def Let_def\<close>)

lemma extend_tx_body_ok:
  assumes "sub_ok db" "t \<le> MaxExpiresAt" shows "sub_ok (snd (extend_tx_body env input s t db))"
  unfolding extend_tx_body_def Let_def
  by (intro and_then_keeps [where P = sub_ok]) (use assms in \<open>auto intro: repo_update_sub_ok\<close>)

lemma AssignOrExtend_ok:
  assumes "sound_env env" "sub_ok (ss_db st)"
  shows "sub_ok (ss_db (snd (AssignOrExtendSubscription env input st)))"
proof -
  have tx: "sub_ok d'" if "run_tx fb fc (extend_tx_body env input s (cap_expiry t)) (se_others env SBegin (ss_db st)) = (r, d')"
    for fb fc s t r d'
  proof -
    have o: "sub_ok (se_others env SBegin (ss_db st))" using assms by (auto simp: sound_env_def)
    have "sub_ok (snd (run_tx fb fc (extend_tx_body env input s (cap_expiry t)) (se_others env SBegin (ss_db st))))"
      by (rule run_tx_keeps [where P = sub_ok]) (use o in \<open>auto intro: extend_tx_body_ok\<close>)
    with that show ?thesis by simp
  qed
  have cr: "sub_ok d'" if "createSubscription env input (ss_db st) = (r, d')" for r d'
    using createSubscription_ok [OF assms] that by (metis snd_conv)
  show ?thesis
    using assms(2) by (auto simp: AssignOrExtendSubscription_def Let_def split: sum.split prod.split dest: tx cr)
qed

lemma assignWithReuse_ok:
  assumes "sound_env env" "sub_ok (ss_db st)"
  shows "sub_ok (ss_db (snd (assignSubscriptionWithReuse env input st)))"
proof -
  have cr: "sub_ok d'" if "createSubscription env input (ss_db st) = (r, d')" for r d'
    using createSubscription_ok [OF assms] that by (metis snd_conv)
  show ?thesis
    using assms(2)
    by (auto simp: assignSubscriptionWithReuse_def split: sum.split prod.split bool.split dest: cr)
qed

lemma Bulk_ok:
  assumes "\<And>u. sound_env (env u)" "sub_ok (ss_db st)"
  shows "sub_ok (ss_db (snd (BulkAssignSubscription env us input res st)))"
  using assms(2)
proof (induction us arbitrary: res st)
  case (Cons u us)
  have "sub_ok (ss_db (snd (assignSubscriptionWithReuse (env u) (input\<lparr>ai_UserID := u\<rparr>) st)))"
    using assignWithReuse_ok [OF assms(1) Cons.prems] .
  then show ?case by (auto simp: Cons.IH split: sum.split prod.split)
qed simp

lemma Revoke_ok:
  assumes "sound_env env" "sub_ok (ss_db st)" shows "sub_ok (ss_db (snd (RevokeSubscription env sid st)))"
proof -
  have o: "sub_ok (se_others env SDelete (ss_db st))" using assms by (auto simp: sound_env_def)
  have "sub_ok d'" if "sub_Delete f sid (se_others env SDelete (ss_db st)) = (r, d')" for f r d'
    using sub_Delete_sub_ok [OF o] that by (metis snd_conv)
  then show ?thesis using assms(2) by (auto simp: RevokeSubscription_def split: sum.split prod.split)
qed

lemma Extend_ok:
  assumes "sound_env env" "sub_ok (ss_db st)" shows "sub_ok (ss_db (snd (ExtendSubscription env sid days st)))"
proof -
  have o: "sub_ok (se_others env SExpiry (ss_db st))" using assms by (auto simp: sound_env_def)
  have "sub_ok d'" if "and_then (ExtendExpiry f now sid (adjusted_expiry env s n) (se_others env SExpiry (ss_db st)))
      (\<lambda>_ db1. if b then UpdateStatus f' now sid SubscriptionStatusActive db1 else (Inr (), db1)) = (r, d')"
    for f f' s n r d' now b
  proof -
    have "sub_ok (snd (and_then (ExtendExpiry f now sid (adjusted_expiry env s n) (se_others env SExpiry (ss_db st)))
        (\<lambda>_ db1. if b then UpdateStatus f' now sid SubscriptionStatusActive db1 else (Inr (), db1))))"
      by (intro and_then_keeps [where P = sub_ok])
        (use o in \<open>auto intro: repo_update_sub_ok simp: adjusted_expiry_def\<close>)
    with that show ?thesis by simp
  qed
  then show ?thesis
    using assms(2)
    by (auto simp: ExtendSubscription_def simp del: and_then_simps split: sum.split prod.split)
qed

lemma AdminReset_ok:
  assumes "sound_env env" "sub_ok (ss_db st)" shows "sub_ok (ss_db (snd (AdminResetQuota env sid d w m st)))"
proof -
  have o: "sub_ok (se_others env SDaily (ss_db st))" using assms by (auto simp: sound_env_def)
  have "sub_ok d'" if "and_then (if d then ResetDailyUsage f1 now i t (se_others env SDaily (ss_db st)) else (Inr (), ss_db st))
      (\<lambda>_ db1. and_then (if w then ResetWeeklyUsage f2 now i t db1 else (Inr (), db1))
      (\<lambda>_ db2. if m then ResetMonthlyUsage f3 now i t db2 else (Inr (), db2))) = (r, d')"
    for f1 f2 f3 now i t r d'
  proof -
    have "sub_ok (snd (and_then (if d then ResetDailyUsage f1 now i t (se_others env SDaily (ss_db st)) else (Inr (), ss_db st))
      (\<lambda>_ db1. and_then (if w then ResetWeeklyUsage f2 now i t db1 else (Inr (), db1))
      (\<lambda>_ db2. if m then ResetMonthlyUsage f3 now i t db2 else (Inr (), db2)))))"
      by (intro and_then_keeps [where P = sub_ok]) (use o assms(2) in \<open>auto intro: repo_update_sub_ok\<close>)
    with that show ?thesis by simp
  qed
  then show ?thesis
    using assms(2)
    by (auto simp: AdminResetQuota_def Let_def simp del: and_then_simps split: sum.split prod.split)
qed

lemma reset_step_ok:
  assumes "\<And>db. sub_ok db \<Longrightarrow> sub_ok (snd (reset db))" "sub_ok (snd (snd x))"
  shows "sub_ok (snd (snd (snd (reset_step needed reset upd x))))"
  using assms by (auto simp: reset_step_def split: prod.split sum.split) (metis snd_conv)+

lemma CheckAndResetWindows_ok:
  assumes "sub_ok (ss_db st)" shows "sub_ok (ss_db (snd (CheckAndResetWindows env sub st)))"
proof -
  define P :: "reset_state \<Rightarrow> bool" where "P = (\<lambda>x. sub_ok (snd (snd x)))"
  have r: "P (snd (reset_step needed reset upd x))" if "\<And>db. sub_ok db \<Longrightarrow> sub_ok (snd (reset db))" "P x"
    for needed reset upd x using reset_step_ok that by (simp add: P_def)
  have "P (snd (and_then (reset_step b1 (ResetDailyUsage f1 now i t) u1 (sub, False, ss_db st)) (\<lambda>_ x1.
      and_then (reset_step b2 (ResetWeeklyUsage f2 now i t) u2 x1) (\<lambda>_ x2.
      reset_step b3 (ResetMonthlyUsage f3 now i t) u3 x2))))" for b1 b2 b3 f1 f2 f3 now i t u1 u2 u3
    by (intro and_then_keeps [where P = P] r) (use assms in \<open>auto simp: P_def intro: repo_update_sub_ok\<close>)
  then show ?thesis
    unfolding CheckAndResetWindows_def Let_def P_def
    by (auto split: prod.split sum.split) (metis snd_conv)+
qed

lemma doWindowMaintenance_ok:
  assumes "sound_env env" "sub_ok (ss_db st)" shows "sub_ok (ss_db (doWindowMaintenance env sub st))"
proof -
  have "sub_ok (se_others env SActivate (ss_db st))" using assms by (auto simp: sound_env_def)
  then have "sub_ok (snd (CheckAndActivateWindow env sub (ss_db st)))"
    using assms(2) by (simp add: CheckAndActivateWindow_def repo_update_sub_ok)
  then show ?thesis
    using assms(2) by (simp add: doWindowMaintenance_def Let_def CheckAndResetWindows_ok)
qed

text \<open>
  The service as a transition system: any of its operations, with any input, faults, clock and
  zones, and any sound interference; the sweep of run-out subscriptions; and the loss of cache entries.
\<close>

inductive sub_step :: "sub_state \<Rightarrow> sub_state \<Rightarrow> bool" where
  assign_or_extend: "sound_env env \<Longrightarrow> sub_step st (snd (AssignOrExtendSubscription env input st))"
| assign: "sound_env env \<Longrightarrow> sub_step st (snd (assignSubscriptionWithReuse env input st))"
| bulk: "(\<And>u. sound_env (env u)) \<Longrightarrow> sub_step st (snd (BulkAssignSubscription env us input bulk_empty st))"
| revoke: "sound_env env \<Longrightarrow> sub_step st (snd (RevokeSubscription env sid st))"
| extend: "sound_env env \<Longrightarrow> sub_step st (snd (ExtendSubscription env sid days st))"
| get_active: "sub_step st (snd (GetActiveSubscription env u g st))"
| reset_quota: "sound_env env \<Longrightarrow> sub_step st (snd (AdminResetQuota env sid d w m st))"
| maintain: "sound_env env \<Longrightarrow> sub_step st (doWindowMaintenance env sub st)"
| record_usage: "sub_step st (st\<lparr>ss_db := snd (RecordUsage env sid cost (ss_db st))\<rparr>)"
| validate: "sub_step st (st\<lparr>ss_db := snd (ValidateSubscription env sub (ss_db st))\<rparr>)"
| sweep: "sub_step st (st\<lparr>ss_db := snd (BatchUpdateExpiredStatus f now (ss_db st))\<rparr>)"
| evict: "sub_step st (st\<lparr>ss_l1 := (ss_l1 st)(key := None)\<rparr>)"

lemma sub_step_ok: "sub_step st st' \<Longrightarrow> sub_ok (ss_db st) \<Longrightarrow> sub_ok (ss_db st')"
proof (induction rule: sub_step.induct)
  case (get_active st env u g)
  then show ?case
    by (auto simp: GetActiveSubscription_def Let_def split: option.split sum.split)
next
  case (validate st env sub)
  then show ?case by (auto simp: ValidateSubscription_def intro: repo_update_sub_ok)
qed (auto simp: RecordUsage_def intro: AssignOrExtend_ok assignWithReuse_ok Bulk_ok Revoke_ok Extend_ok AdminReset_ok
      doWindowMaintenance_ok IncrementUsage_sub_ok BatchUpdate_sub_ok)

inductive sub_reachable :: "sub_state \<Rightarrow> sub_state \<Rightarrow> bool" for st0 where
  init: "sub_reachable st0 st0"
| step: "sub_reachable st0 st \<Longrightarrow> sub_step st st' \<Longrightarrow> sub_reachable st0 st'"

text \<open>
  C21: whatever sequence of operations runs, with whatever faults and interference, the table stays
  sound: at most one live subscription per user and group, unique ids, a known status, and no
  expiry after the end of 2099.
\<close>

theorem subscription_table_sound:
  assumes "sub_reachable st0 st" "sub_ok (ss_db st0)"
  shows "distinct (map (\<lambda>s. (us_UserID s, us_GroupID s)) (sd_rows (ss_db st)))
    \<and> distinct (map us_ID (sd_rows (ss_db st)))
    \<and> (\<forall>s \<in> set (sd_rows (ss_db st)). us_ExpiresAt s \<le> MaxExpiresAt \<and>
         us_Status s \<in> {SubscriptionStatusActive, SubscriptionStatusExpired, SubscriptionStatusSuspended})"
proof -
  have "sub_ok (ss_db st)" using assms by (induction rule: sub_reachable.induct) (auto intro: sub_step_ok)
  then show ?thesis by (auto simp: sub_ok_def sub_inv_def row_ok_def)
qed

definition calm_env :: "time \<Rightarrow> sub_env" where
  "calm_env now = \<lparr>se_now = now, se_loc = UTC, se_dbloc = UTC, se_fault = (\<lambda>_. NoFault),
     se_others = (\<lambda>_ db. db), se_l1 = True, se_admit = True, se_num_add = fadd\<rparr>"

definition demo_subs :: sub_state where
  "demo_subs = \<lparr>ss_db = \<lparr>sd_rows = [], sd_next_id = 1, sd_groups = [demo_group]\<rparr>, ss_l1 = Map.empty\<rparr>"

definition demo_input :: assign_input where
  "demo_input = \<lparr>ai_UserID = 5, ai_GroupID = 3, ai_ValidityDays = 30, ai_AssignedBy = 0, ai_Notes = ''gift''\<rparr>"

lemma demo_subs_ok: "sub_ok (ss_db demo_subs)"
  by (simp add: demo_subs_def sub_ok_def sub_inv_def)

theorem subscription_table_sound_witness:
  "let st = snd (AssignOrExtendSubscription (calm_env 0) demo_input
        (snd (AssignOrExtendSubscription (calm_env 0) demo_input demo_subs)))
   in distinct (map (\<lambda>s. (us_UserID s, us_GroupID s)) (sd_rows (ss_db st)))"
proof -
  have e: "sound_env (calm_env 0)" by (simp add: sound_env_def calm_env_def)
  show ?thesis
    unfolding Let_def
    by (rule conjunct1 [OF subscription_table_sound [OF _ demo_subs_ok]])
      (rule sub_reachable.step [OF sub_reachable.step [OF sub_reachable.init assign_or_extend [OF e]] assign_or_extend [OF e]])
qed

end
