(* ===== verification/SubscriptionLaws.thy ===== *)
theory SubscriptionLaws
  imports Subscription
begin

text \<open>
  What the operations of the subscription service do, on top of the model and its invariant in
  \<open>Subscription\<close>: extension, its lost update under concurrency, repeated assignment, bulk counts,
  the limit check against the table after maintenance, and the first-level cache.
\<close>

subsection \<open>Reduction of the operations without faults\<close>

definition calm :: "sub_env \<Rightarrow> bool" where
  "calm env \<longleftrightarrow> se_fault env = (\<lambda>_. NoFault) \<and> se_others env = (\<lambda>_ db. db)
     \<and> (\<exists>z. se_loc env = fixed_zone z) \<and> (\<exists>z. se_dbloc env = fixed_zone z)"

lemma calm_sel:
  assumes "calm env"
  shows "se_fault env c = NoFault" "se_others env c db = db"
    "AddDays (se_loc env) t n = t + n * (24 * Hour)" "AddDays (se_dbloc env) t n = t + n * (24 * Hour)"
    "startOfDay env \<le> se_now env" "se_now env < startOfDay env + 24 * Hour"
  using assms startOfDay_fixed by (auto simp: calm_def AddDays_fixed startOfDay_def)

lemma calm_env_calm [simp]: "calm (calm_env t)"
  by (auto simp: calm_def calm_env_def UTC_def)

lemma calm_env_sel [simp]: "se_now (calm_env t) = t" "se_l1 (calm_env t)" "se_admit (calm_env t)"
  by (simp_all add: calm_env_def)

text \<open>One update by id, seen at the row of a user and group.\<close>

lemma sub_update_row:
  assumes "sub_inv db" "sub_row u g db = Some s" "keeps_key upd"
  shows "\<exists>db'. sub_update now (us_ID s) upd db = (Inr (), db') \<and> sub_inv db' \<and> sd_groups db' = sd_groups db
    \<and> sub_row u g db' = Some ((upd s)\<lparr>us_UpdatedAt := now\<rparr>)"
proof -
  have m: "s \<in> set (sd_rows db)" using sub_row_key [OF assms(2)] by simp
  have k: "keeps_key (\<lambda>s. (upd s)\<lparr>us_UpdatedAt := now\<rparr>)" using assms(3) by (simp add: keeps_key_def)
  note o = sub_update_ok [OF assms(1) m assms(3), of now]
  show ?thesis
    using o sub_update_inv [OF assms(1,3), of now "us_ID s"] assms(2)
    by (cases "sub_update now (us_ID s) upd db") (auto simp: sub_row_update_where [OF k])
qed

text \<open>
  The renewal transaction for a subscription read earlier as \<open>s\<close>, on a table in which the row is now \<open>r\<close>.
\<close>

lemma extend_tx_body_row:
  assumes "\<And>c. se_fault env c = NoFault" "sub_inv db" "sub_row u g db = Some r" "us_ID r = us_ID s"
  shows "\<exists>db'. extend_tx_body env input s t db = (Inr (), db') \<and> sub_inv db' \<and> sd_groups db' = sd_groups db
    \<and> sub_row u g db' = Some (r\<lparr>us_ExpiresAt := t,
         us_Status := (if us_Status s = SubscriptionStatusActive then us_Status r else SubscriptionStatusActive),
         us_Notes := (if ai_Notes input = [] then us_Notes r else append_notes (us_Notes s) (ai_Notes input)),
         us_UpdatedAt := se_now env\<rparr>)"
proof -
  let ?now = "se_now env"
  note f = assms(1)
  obtain d1 where d1: "sub_update ?now (us_ID s) (\<lambda>s. s\<lparr>us_ExpiresAt := t\<rparr>) db = (Inr (), d1)" "sub_inv d1"
      "sd_groups d1 = sd_groups db" "sub_row u g d1 = Some (r\<lparr>us_ExpiresAt := t, us_UpdatedAt := ?now\<rparr>)"
    using sub_update_row [OF assms(2,3), of "\<lambda>s. s\<lparr>us_ExpiresAt := t\<rparr>"] assms(4) by (auto simp: keeps_key_def)
  obtain d2 where d2: "(if us_Status s \<noteq> SubscriptionStatusActive
        then sub_update ?now (us_ID s) (\<lambda>s. s\<lparr>us_Status := SubscriptionStatusActive\<rparr>) d1 else (Inr (), d1)) = (Inr (), d2)"
      "sub_inv d2" "sd_groups d2 = sd_groups db"
      "sub_row u g d2 = Some (r\<lparr>us_ExpiresAt := t, us_Status := (if us_Status s = SubscriptionStatusActive
         then us_Status r else SubscriptionStatusActive), us_UpdatedAt := ?now\<rparr>)"
    using sub_update_row [OF d1(2,4), of "\<lambda>s. s\<lparr>us_Status := SubscriptionStatusActive\<rparr>" ?now] d1(2-4) assms(4)
    by (cases "us_Status s = SubscriptionStatusActive") (auto simp: keeps_key_def)
  obtain d3 where d3: "(if ai_Notes input \<noteq> []
        then sub_update ?now (us_ID s) (\<lambda>s'. s'\<lparr>us_Notes := append_notes (us_Notes s) (ai_Notes input)\<rparr>) d2
        else (Inr (), d2)) = (Inr (), d3)" "sub_inv d3" "sd_groups d3 = sd_groups db"
      "sub_row u g d3 = Some (r\<lparr>us_ExpiresAt := t,
         us_Status := (if us_Status s = SubscriptionStatusActive then us_Status r else SubscriptionStatusActive),
         us_Notes := (if ai_Notes input = [] then us_Notes r else append_notes (us_Notes s) (ai_Notes input)),
         us_UpdatedAt := ?now\<rparr>)"
    using sub_update_row [OF d2(2,4), of "\<lambda>s'. s'\<lparr>us_Notes := append_notes (us_Notes s) (ai_Notes input)\<rparr>" ?now] d2(2-4)
      assms(4) by (cases "ai_Notes input = []") (auto simp: keeps_key_def)
  have "extend_tx_body env input s t db = (Inr (), d3)"
    using d1(1) d2(1) d3(1) by (auto simp: extend_tx_body_def repo_update_defs Let_def f split: if_splits)
  with d3 show ?thesis by blast
qed

text \<open>The subscription an extension by \<open>days\<close> days leaves.\<close>

definition extended :: "time \<Rightarrow> assign_input \<Rightarrow> user_sub \<Rightarrow> user_sub" where
  "extended now input s =
     (let d = normalizeAssignValidityDays (ai_ValidityDays input) * (24 * Hour)
      in s\<lparr>us_ExpiresAt := min MaxExpiresAt (max now (us_ExpiresAt s) + d), us_Status := SubscriptionStatusActive,
           us_Notes := (if ai_Notes input = [] then us_Notes s else append_notes (us_Notes s) (ai_Notes input)),
           us_UpdatedAt := now\<rparr>)"

definition sub_group :: "assign_input \<Rightarrow> sub_db \<Rightarrow> bool" where
  "sub_group input db \<longleftrightarrow> (\<exists>grp. find (\<lambda>g. g_ID g = ai_GroupID input) (sd_groups db) = Some grp \<and> IsSubscriptionType grp)"

lemma cap_expiry_min: "cap_expiry t = min MaxExpiresAt t"
  by (auto simp: cap_expiry_def)

lemma AssignOrExtend_existing:
  assumes "calm env" "sub_inv (ss_db st)" "sub_group input (ss_db st)"
    "sub_row (ai_UserID input) (ai_GroupID input) (ss_db st) = Some s"
  shows "\<exists>st'. AssignOrExtendSubscription env input st = (Inr (extended (se_now env) input s, True), st')
    \<and> sub_inv (ss_db st') \<and> sd_groups (ss_db st') = sd_groups (ss_db st)
    \<and> sub_row (ai_UserID input) (ai_GroupID input) (ss_db st') = Some (extended (se_now env) input s)"
proof -
  note f = calm_sel [OF assms(1)]
  let ?d = "normalizeAssignValidityDays (ai_ValidityDays input) * (24 * Hour)"
  let ?t = "min MaxExpiresAt (max (se_now env) (us_ExpiresAt s) + ?d)"
  have t: "cap_expiry (if After (us_ExpiresAt s) (se_now env)
      then AddDays (se_dbloc env) (us_ExpiresAt s) (normalizeAssignValidityDays (ai_ValidityDays input))
      else AddDays (se_loc env) (se_now env) (normalizeAssignValidityDays (ai_ValidityDays input))) = ?t"
    by (auto simp: f cap_expiry_min)
  obtain db' where b: "extend_tx_body env input s ?t (ss_db st) = (Inr (), db')" "sub_inv db'"
      "sd_groups db' = sd_groups (ss_db st)"
      "sub_row (ai_UserID input) (ai_GroupID input) db' = Some (extended (se_now env) input s)"
    using extend_tx_body_row [OF f(1) assms(2,4) refl, of input ?t]
    by (cases "us_Status s = SubscriptionStatusActive") (auto simp: extended_def Let_def)
  have "us_ID (extended (se_now env) input s) = us_ID s" by (simp add: extended_def Let_def)
  then have r: "sub_by_id (us_ID s) db' = Some (extended (se_now env) input s)"
    using sub_row_by_id [OF b(2,4)] by simp
  obtain grp where g: "find (\<lambda>g. g_ID g = ai_GroupID input) (sd_groups (ss_db st)) = Some grp" "IsSubscriptionType grp"
    using assms(3) by (auto simp: sub_group_def)
  show ?thesis
    using g assms(4) b r
    by (auto simp: AssignOrExtendSubscription_def group_GetByID_def GetByUserIDAndGroupID_def sub_GetByID_def
        Let_def f run_tx_def t simp del: After_def)
qed

text \<open>
  C26: renewing a subscription adds exactly the paid days. For a user with a subscription of the group,
  \<open>AssignOrExtendSubscription\<close> moves the expiry by the requested days (30 when not positive, at most
  36500) from the later of now and the old expiry, cut at the end of 2099, makes the subscription
  active, appends the note, keeps everything else, and returns the stored subscription.
\<close>

theorem renewal_adds_days:
  assumes "calm env" "sub_inv (ss_db st)" "sub_group input (ss_db st)"
    "sub_row (ai_UserID input) (ai_GroupID input) (ss_db st) = Some s"
  shows "fst (AssignOrExtendSubscription env input st) = Inr (extended (se_now env) input s, True)
    \<and> sub_row (ai_UserID input) (ai_GroupID input) (ss_db (snd (AssignOrExtendSubscription env input st))) =
        Some (extended (se_now env) input s)"
  using AssignOrExtend_existing [OF assms] by auto

definition demo_sub :: user_sub where
  "demo_sub = \<lparr>us_ID = 1, us_UserID = 5, us_GroupID = 3, us_StartsAt = 0, us_ExpiresAt = 10 * (24 * Hour),
     us_Status = SubscriptionStatusActive, us_DailyWindowStart = Some 0, us_WeeklyWindowStart = Some 0,
     us_MonthlyWindowStart = Some 0, us_DailyUsageUSD = Fin 12, us_WeeklyUsageUSD = Fin 12, us_MonthlyUsageUSD = Fin 12,
     us_AssignedBy = None, us_AssignedAt = 0, us_Notes = [], us_CreatedAt = 0, us_UpdatedAt = 0\<rparr>"

definition demo_subs1 :: sub_state where
  "demo_subs1 = \<lparr>ss_db = \<lparr>sd_rows = [demo_sub], sd_next_id = 2, sd_groups = [demo_group]\<rparr>, ss_l1 = Map.empty\<rparr>"

lemma demo_subs1_facts:
  "sub_inv (ss_db demo_subs1)" "sub_group demo_input (ss_db demo_subs1)"
  "sub_row 5 3 (ss_db demo_subs1) = Some demo_sub" "ai_UserID demo_input = 5" "ai_GroupID demo_input = 3"
  by (simp_all add: demo_subs1_def sub_inv_def demo_sub_def sub_group_def demo_input_def demo_group_def
      IsSubscriptionType_def sub_row_def sub_of_def)

lemma demo_extended: "us_ExpiresAt (extended 0 demo_input demo_sub) = 40 * (24 * Hour)"
  by (simp add: extended_def demo_input_def demo_sub_def normalizeAssignValidityDays_def MaxValidityDays_def
      MaxExpiresAt_def duration_defs Let_def)

theorem renewal_adds_days_witness:
  "map_option us_ExpiresAt (sub_row 5 3 (ss_db (snd (AssignOrExtendSubscription (calm_env 0) demo_input demo_subs1)))) =
     Some (40 * (24 * Hour))"
  using renewal_adds_days [OF calm_env_calm demo_subs1_facts(1,2), of demo_sub 0] demo_subs1_facts(3-5) demo_extended
  by simp

subsection \<open>Two renewals at once\<close>

text \<open>
  Concurrent renewals lose days. \<open>AssignOrExtendSubscription\<close> reads the expiry before its
  transaction and writes an absolute new expiry in it. If another renewal of the same
  subscription commits in between, both calls succeed, but the expiry ends up extended by the days
  of the second writer only.
\<close>

theorem concurrent_renewals_lose_days:
  assumes "calm env1" "sub_inv (ss_db st)" "sub_group input1 (ss_db st)"
    "ai_UserID input2 = ai_UserID input1" "ai_GroupID input2 = ai_GroupID input1"
    "sub_row (ai_UserID input1) (ai_GroupID input1) (ss_db st) = Some s"
    "calm (env2\<lparr>se_others := \<lambda>_ db. db\<rparr>)"
    "se_others env2 = (\<lambda>c db. if c = SBegin then ss_db (snd (AssignOrExtendSubscription env1 input1 (st\<lparr>ss_db := db\<rparr>))) else db)"
  shows "\<not> isl (fst (AssignOrExtendSubscription env1 input1 st)) \<and> \<not> isl (fst (AssignOrExtendSubscription env2 input2 st))
    \<and> map_option us_ExpiresAt (sub_row (ai_UserID input1) (ai_GroupID input1)
         (ss_db (snd (AssignOrExtendSubscription env2 input2 st)))) =
       Some (us_ExpiresAt (extended (se_now env2) input2 s))"
proof -
  let ?u = "ai_UserID input1" and ?g = "ai_GroupID input1"
  obtain st1 where a: "AssignOrExtendSubscription env1 input1 st = (Inr (extended (se_now env1) input1 s, True), st1)"
      "sub_inv (ss_db st1)" "sub_row ?u ?g (ss_db st1) = Some (extended (se_now env1) input1 s)"
    using AssignOrExtend_existing [OF assms(1-3,6)] by auto
  let ?s1 = "extended (se_now env1) input1 s" and ?e2 = "env2\<lparr>se_others := \<lambda>_ db. db\<rparr>"
  have f: "se_fault env2 c = NoFault" "AddDays (se_loc env2) t n = t + n * (24 * Hour)"
    "AddDays (se_dbloc env2) t n = t + n * (24 * Hour)" for c t n
    using calm_sel [OF assms(7)] by simp_all
  have o: "se_others env2 SBegin (ss_db st) = ss_db st1" using a(1) assms(8) by simp
  let ?d = "normalizeAssignValidityDays (ai_ValidityDays input2) * (24 * Hour)"
  let ?t = "min MaxExpiresAt (max (se_now env2) (us_ExpiresAt s) + ?d)"
  have t: "cap_expiry (if After (us_ExpiresAt s) (se_now env2)
      then AddDays (se_dbloc env2) (us_ExpiresAt s) (normalizeAssignValidityDays (ai_ValidityDays input2))
      else AddDays (se_loc env2) (se_now env2) (normalizeAssignValidityDays (ai_ValidityDays input2))) = ?t"
    by (auto simp: f cap_expiry_min)
  have id: "us_ID ?s1 = us_ID s" by (simp add: extended_def Let_def)
  obtain db' q where b: "extend_tx_body env2 input2 s ?t (ss_db st1) = (Inr (), db')" "sub_inv db'"
      "sub_row ?u ?g db' = Some q" "us_ExpiresAt q = ?t" "us_ID q = us_ID s"
    using extend_tx_body_row [OF f(1) a(2,3) id, of input2 ?t] id by auto
  obtain grp where g: "find (\<lambda>g. g_ID g = ai_GroupID input2) (sd_groups (ss_db st)) = Some grp" "IsSubscriptionType grp"
    using assms(3,5) by (auto simp: sub_group_def)
  have "sub_by_id (us_ID s) db' = Some q" using sub_row_by_id [OF b(2,3)] b(5) by simp
  then show ?thesis
    using g assms(4-6) b a(1)
    by (auto simp: AssignOrExtendSubscription_def group_GetByID_def GetByUserIDAndGroupID_def sub_GetByID_def
        Let_def f(1) run_tx_def t o extended_def simp del: After_def)
qed

definition demo_race :: sub_env where
  "demo_race = (calm_env 0)\<lparr>se_others := (\<lambda>c db. if c = SBegin
     then ss_db (snd (AssignOrExtendSubscription (calm_env 0) demo_input (demo_subs1\<lparr>ss_db := db\<rparr>))) else db)\<rparr>"

theorem concurrent_renewals_lose_days_witness:
  "\<not> isl (fst (AssignOrExtendSubscription (calm_env 0) demo_input demo_subs1))
    \<and> \<not> isl (fst (AssignOrExtendSubscription demo_race demo_input demo_subs1))
    \<and> map_option us_ExpiresAt (sub_row 5 3 (ss_db (snd (AssignOrExtendSubscription demo_race demo_input demo_subs1)))) =
       Some (40 * (24 * Hour))"
proof -
  have "demo_race\<lparr>se_others := \<lambda>_ db. db\<rparr> = calm_env 0" by (simp add: demo_race_def calm_env_def)
  then have c: "calm (demo_race\<lparr>se_others := \<lambda>_ db. db\<rparr>)" by simp
  have "se_now demo_race = 0" by (simp add: demo_race_def)
  then show ?thesis
    using concurrent_renewals_lose_days [OF calm_env_calm demo_subs1_facts(1,2) refl refl _ c, of demo_sub 0]
      demo_subs1_facts(3-5) demo_extended by (simp add: demo_race_def)
qed

subsection \<open>Assigning twice\<close>

lemma sub_row_create:
  assumes "sub_row (us_UserID sub) (us_GroupID sub) db = None"
  shows "sub_row (us_UserID sub) (us_GroupID sub) (snd (sql_sub_create now sub db)) =
    Some (sub\<lparr>us_ID := sd_next_id db,
      us_StartsAt := (if us_StartsAt sub = zero_time then now else us_StartsAt sub),
      us_Status := (if us_Status sub = [] then SubscriptionStatusActive else us_Status sub),
      us_AssignedAt := (if us_AssignedAt sub = zero_time then now else us_AssignedAt sub),
      us_CreatedAt := now, us_UpdatedAt := now\<rparr>)"
  using assms by (simp add: sql_sub_create_def sub_row_def Let_def find_append sub_of_def)

lemma assign_new:
  assumes "calm env" "sub_inv (ss_db st)" "sub_group input (ss_db st)"
    "sub_row (ai_UserID input) (ai_GroupID input) (ss_db st) = None"
  shows "\<exists>s st'. assignSubscriptionWithReuse env input st = (Inr (s, False), st') \<and> sub_inv (ss_db st')
    \<and> sd_groups (ss_db st') = sd_groups (ss_db st)
    \<and> sub_row (ai_UserID input) (ai_GroupID input) (ss_db st') = Some s \<and> us_StartsAt s = se_now env
    \<and> us_Status s = SubscriptionStatusActive \<and> us_Notes s = ai_Notes input
    \<and> us_ExpiresAt s = min MaxExpiresAt (se_now env + normalizeAssignValidityDays (ai_ValidityDays input) * (24 * Hour))"
proof -
  note f = calm_sel [OF assms(1)]
  obtain grp where g: "find (\<lambda>g. g_ID g = ai_GroupID input) (sd_groups (ss_db st)) = Some grp" "IsSubscriptionType grp"
    using assms(3) by (auto simp: sub_group_def)
  define sub where "sub = new_sub env input"
  have sel: "us_UserID sub = ai_UserID input" "us_GroupID sub = ai_GroupID input" "us_StartsAt sub = se_now env"
    "us_AssignedAt sub = se_now env" "us_CreatedAt sub = se_now env" "us_UpdatedAt sub = se_now env"
    "us_Status sub = SubscriptionStatusActive" "us_Notes sub = ai_Notes input"
    "us_ExpiresAt sub = min MaxExpiresAt (se_now env + normalizeAssignValidityDays (ai_ValidityDays input) * (24 * Hour))"
    by (simp_all add: sub_def new_sub_def Let_def f cap_expiry_min)
  have none: "sub_row (us_UserID sub) (us_GroupID sub) (ss_db st) = None" using assms(4) by (simp add: sel)
  let ?db = "snd (sql_sub_create (se_now env) sub (ss_db st))"
  let ?row = "sub\<lparr>us_ID := sd_next_id (ss_db st)\<rparr>"
  have row: "sub_row (ai_UserID input) (ai_GroupID input) ?db = Some ?row"
    using sub_row_create [OF none, of "se_now env"] sel by (simp add: SubscriptionStatusActive_def)
  have inv: "sub_inv ?db" by (rule sql_sub_create_inv [OF assms(2)])
  have id: "sub_by_id (sd_next_id (ss_db st)) ?db = Some ?row" using sub_row_by_id [OF inv row] by simp
  have "fst (sql_sub_create (se_now env) sub (ss_db st)) = Inr (sub\<lparr>us_ID := sd_next_id (ss_db st)\<rparr>)"
    using none sel by (simp add: sql_sub_create_def Let_def)
  then have c: "sql_sub_create (se_now env) sub (ss_db st) = (Inr (sub\<lparr>us_ID := sd_next_id (ss_db st)\<rparr>), ?db)"
    by (metis prod.collapse)
  have cr: "createSubscription env input (ss_db st) = (Inr ?row, ?db)"
    unfolding createSubscription_def sub_Create_def f option.case sub_def [symmetric] with_fault_err_NoFault
    using id by (subst c) (simp add: sub_GetByID_def)
  have grps: "sd_groups ?db = sd_groups (ss_db st)" by (simp add: sql_sub_create_def Let_def)
  have "\<not> list_ex (sub_of (ai_UserID input) (ai_GroupID input)) (sd_rows (ss_db st))"
    using assms(4) by (auto simp: sub_row_def find_None_iff list_ex_iff)
  then show ?thesis
    using g cr row inv grps
    by (auto simp: assignSubscriptionWithReuse_def group_GetByID_def ExistsByUserIDAndGroupID_def f sel)
qed

text \<open>
  Assigning a subscription again is idempotent. After an assignment to a user without one, the
  same assignment repeated at any later time returns that subscription, marked as reused, and
  leaves the table unchanged; an assignment with other days or another note is refused as a
  conflict.
\<close>

theorem assign_idempotent:
  assumes "calm env" "sub_inv (ss_db st)" "sub_group input (ss_db st)"
    "sub_row (ai_UserID input) (ai_GroupID input) (ss_db st) = None" "calm env2"
    "assignSubscriptionWithReuse env input st = (res, st1)"
    "ai_UserID input2 = ai_UserID input" "ai_GroupID input2 = ai_GroupID input"
  shows "\<exists>s. res = Inr (s, False) \<and>
    assignSubscriptionWithReuse env2 input st1 = (Inr (s, True), st1) \<and>
    (trim_space (ai_Notes input2) \<noteq> trim_space (ai_Notes input) \<longrightarrow>
       isl (fst (assignSubscriptionWithReuse env2 input2 st1)) \<and> snd (assignSubscriptionWithReuse env2 input2 st1) = st1)"
proof -
  note f = calm_sel [OF assms(5)]
  obtain s where s: "res = Inr (s, False)" "sub_row (ai_UserID input) (ai_GroupID input) (ss_db st1) = Some s"
      "us_StartsAt s = se_now env" "us_Notes s = ai_Notes input" "sd_groups (ss_db st1) = sd_groups (ss_db st)"
      "us_ExpiresAt s = min MaxExpiresAt (se_now env + normalizeAssignValidityDays (ai_ValidityDays input) * (24 * Hour))"
    using assign_new [OF assms(1-4)] assms(6) by auto
  obtain grp where g: "find (\<lambda>g. g_ID g = ai_GroupID input) (sd_groups (ss_db st1)) = Some grp" "IsSubscriptionType grp"
    using assms(3) s(5) by (auto simp: sub_group_def)
  have "list_ex (sub_of (ai_UserID input) (ai_GroupID input)) (sd_rows (ss_db st1))"
    using find_SomeD [of _ _ s] s(2) by (auto simp: sub_row_def list_ex_iff)
  then show ?thesis
    using g s assms(7,8)
    by (auto simp: assignSubscriptionWithReuse_def group_GetByID_def ExistsByUserIDAndGroupID_def
        GetByUserIDAndGroupID_def detectAssignSemanticConflict_def f cap_expiry_min Let_def)
qed

lemma demo_subs_facts:
  "sub_inv (ss_db demo_subs)" "sub_group demo_input (ss_db demo_subs)" "sub_row 5 3 (ss_db demo_subs) = None"
  by (simp_all add: demo_subs_def sub_inv_def sub_group_def demo_input_def demo_group_def IsSubscriptionType_def sub_row_def)

theorem assign_idempotent_witness:
  "case assignSubscriptionWithReuse (calm_env 0) demo_input demo_subs of (res, st1) \<Rightarrow>
     assignSubscriptionWithReuse (calm_env 9) demo_input st1 = (Inr (fst (projr res), True), st1)"
proof -
  obtain res st1 where r: "assignSubscriptionWithReuse (calm_env 0) demo_input demo_subs = (res, st1)" by fastforce
  have n: "sub_row (ai_UserID demo_input) (ai_GroupID demo_input) (ss_db demo_subs) = None"
    using demo_subs_facts(3) demo_subs1_facts(4,5) by simp
  from assign_idempotent [OF calm_env_calm demo_subs_facts(1,2) n calm_env_calm [of 9] r refl refl] show ?thesis
    by (auto simp: r)
qed

subsection \<open>Bulk assignment\<close>

lemma bulk_counts_step:
  assumes "br_CreatedCount res + br_ReusedCount res = br_SuccessCount res"
    "length (br_Subscriptions res) = br_SuccessCount res" "length (br_Errors res) = br_FailedCount res"
    "BulkAssignSubscription env us input res st = (res', st')"
  shows "br_SuccessCount res' + br_FailedCount res' = br_SuccessCount res + br_FailedCount res + length us
    \<and> br_CreatedCount res' + br_ReusedCount res' = br_SuccessCount res'
    \<and> length (br_Subscriptions res') = br_SuccessCount res' \<and> length (br_Errors res') = br_FailedCount res'
    \<and> dom (br_Statuses res') = dom (br_Statuses res) \<union> set us"
  using assms
proof (induction us arbitrary: res st)
  case (Cons u us)
  obtain x st1 where a: "assignSubscriptionWithReuse (env u) (input\<lparr>ai_UserID := u\<rparr>) st = (x, st1)" by fastforce
  show ?case
  proof (cases x)
    case (Inl e)
    from Cons.IH [of "res\<lparr>br_FailedCount := br_FailedCount res + 1, br_Errors := br_Errors res @ [(u, e)],
        br_Statuses := (br_Statuses res)(u \<mapsto> ''failed'')\<rparr>" st1] Cons.prems a Inl show ?thesis by auto
  next
    case (Inr p)
    obtain sub reused where p: "p = (sub, reused)" by fastforce
    let ?r = "res\<lparr>br_SuccessCount := br_SuccessCount res + 1, br_Subscriptions := br_Subscriptions res @ [sub]\<rparr>"
    let ?r' = "if reused
        then ?r\<lparr>br_ReusedCount := br_ReusedCount res + 1, br_Statuses := (br_Statuses res)(u \<mapsto> ''reused'')\<rparr>
        else ?r\<lparr>br_CreatedCount := br_CreatedCount res + 1, br_Statuses := (br_Statuses res)(u \<mapsto> ''created'')\<rparr>"
    have "BulkAssignSubscription env us input ?r' st1 = (res', st')"
      using Cons.prems(4) a Inr p by (cases reused) (simp_all add: Let_def)
    from Cons.IH [OF _ _ _ this] Cons.prems show ?thesis by (cases reused) auto
  qed
qed auto

text \<open>
  The counts of a bulk assignment add up: every user is counted once as a success or a failure,
  every success once as created or reused and listed once, every failure is reported, and every
  user of the request has a status.
\<close>

theorem bulk_counts_add_up:
  "case BulkAssignSubscription env us input bulk_empty st of (res, st') \<Rightarrow>
     br_SuccessCount res + br_FailedCount res = length us
     \<and> br_CreatedCount res + br_ReusedCount res = br_SuccessCount res
     \<and> length (br_Subscriptions res) = br_SuccessCount res \<and> length (br_Errors res) = br_FailedCount res
     \<and> dom (br_Statuses res) = set us"
proof -
  obtain res st' where r: "BulkAssignSubscription env us input bulk_empty st = (res, st')" by fastforce
  show ?thesis unfolding r prod.case using bulk_counts_step [OF _ _ _ r] by (simp add: bulk_empty_def)
qed

subsection \<open>Limits and maintenance\<close>

lemma fle_zero_limit: "flt (Fin 0) l \<Longrightarrow> fle (Fin 0) l"
  by (rule flt_fle)

text \<open>
  C25: what the request path accepts. A subscription passes exactly when it is neither expired nor
  suspended, its time has not run out, and for every limit the group sets, the usage in a
  window that is still running is at most the limit.
\<close>

theorem limit_check_spec:
  assumes "f64_ok (us_DailyUsageUSD sub)" "f64_ok (us_WeeklyUsageUSD sub)" "f64_ok (us_MonthlyUsageUSD sub)"
  shows "fst (snd (ValidateAndCheckLimits now sub g)) = Inr () \<longleftrightarrow>
    us_Status sub \<noteq> SubscriptionStatusExpired \<and> us_Status sub \<noteq> SubscriptionStatusSuspended
    \<and> now \<le> us_ExpiresAt sub
    \<and> (HasDailyLimit g \<longrightarrow> NeedsDailyReset now sub \<or> fle (us_DailyUsageUSD sub) (the (g_DailyLimitUSD g)))
    \<and> (HasWeeklyLimit g \<longrightarrow> NeedsWeeklyReset now sub \<or> fle (us_WeeklyUsageUSD sub) (the (g_WeeklyLimitUSD g)))
    \<and> (HasMonthlyLimit g \<longrightarrow> NeedsMonthlyReset now sub \<or> fle (us_MonthlyUsageUSD sub) (the (g_MonthlyLimitUSD g)))"
proof -
  have z: "HasDailyLimit g \<Longrightarrow> fle (Fin 0) (the (g_DailyLimitUSD g))"
    "HasWeeklyLimit g \<Longrightarrow> fle (Fin 0) (the (g_WeeklyLimitUSD g))"
    "HasMonthlyLimit g \<Longrightarrow> fle (Fin 0) (the (g_MonthlyLimitUSD g))"
    by (auto simp: has_limit_defs intro: flt_fle split: option.splits)
  have k: "CheckDailyLimit s' g (Fin 0) \<longleftrightarrow> (HasDailyLimit g \<longrightarrow> fle (us_DailyUsageUSD s') (the (g_DailyLimitUSD g)))"
    if "us_DailyUsageUSD s' = Fin 0 \<or> us_DailyUsageUSD s' = us_DailyUsageUSD sub" for s'
    using that assms(1) by (auto simp: CheckDailyLimit_def)
  have k2: "CheckWeeklyLimit s' g (Fin 0) \<longleftrightarrow> (HasWeeklyLimit g \<longrightarrow> fle (us_WeeklyUsageUSD s') (the (g_WeeklyLimitUSD g)))"
    if "us_WeeklyUsageUSD s' = Fin 0 \<or> us_WeeklyUsageUSD s' = us_WeeklyUsageUSD sub" for s'
    using that assms(2) by (auto simp: CheckWeeklyLimit_def)
  have k3: "CheckMonthlyLimit s' g (Fin 0) \<longleftrightarrow> (HasMonthlyLimit g \<longrightarrow> fle (us_MonthlyUsageUSD s') (the (g_MonthlyLimitUSD g)))"
    if "us_MonthlyUsageUSD s' = Fin 0 \<or> us_MonthlyUsageUSD s' = us_MonthlyUsageUSD sub" for s'
    using that assms(3) by (auto simp: CheckMonthlyLimit_def)
  show ?thesis
    using z by (auto simp: ValidateAndCheckLimits_def Let_def IsExpired_def k k2 k3)
qed

theorem limit_check_spec_witness:
  "fst (snd (ValidateAndCheckLimits 0 demo_sub demo_group)) \<noteq> Inr () \<and>
   fst (snd (ValidateAndCheckLimits (25 * Hour) demo_sub demo_group)) = Inr ()"
proof -
  have ok: "f64_ok (us_DailyUsageUSD demo_sub)" "f64_ok (us_WeeklyUsageUSD demo_sub)" "f64_ok (us_MonthlyUsageUSD demo_sub)"
    using f64_of_int_small [of 12] f64_of_int_ok [of 12] by (simp_all add: demo_sub_def)
  show ?thesis
    using limit_check_spec [OF ok, of 0 demo_group] limit_check_spec [OF ok, of "25 * Hour" demo_group]
    by (simp add: demo_sub_def demo_group_def has_limit_defs sub_status_defs reset_defs Sub_def duration_defs
        max_int64_def min_int64_def)
qed

text \<open>One reset step of the maintenance, without a fault, at the row of the subscription.\<close>

lemma reset_step_row:
  assumes "sub_inv db" "sub_row u g db = Some r" "us_ID r = i" "keeps_key upd"
    "reset = with_fault_err NoFault (sub_update now i upd)"
  shows "\<exists>s' n' db'. reset_step needed reset f (s, n, db) = (Inr (), (s', n', db')) \<and> sub_inv db'
    \<and> sub_row u g db' = Some (if needed then (upd r)\<lparr>us_UpdatedAt := now\<rparr> else r)"
  using sub_update_row [OF assms(1,2,4), of now] assms(1-3,5) by (auto simp: reset_step_def)

lemma reset_windows_row:
  assumes "calm env" "sub_inv (ss_db st)" "sub_row u g (ss_db st) = Some r" "us_ID r = us_ID sub"
  shows "\<exists>r'. sub_row u g (ss_db (snd (CheckAndResetWindows env sub st))) = Some r'
    \<and> us_DailyUsageUSD r' = (if NeedsDailyReset (se_now env) sub then Fin 0 else us_DailyUsageUSD r)
    \<and> us_WeeklyUsageUSD r' = (if NeedsWeeklyReset (se_now env) sub then Fin 0 else us_WeeklyUsageUSD r)
    \<and> us_MonthlyUsageUSD r' = (if NeedsMonthlyReset (se_now env) sub then Fin 0 else us_MonthlyUsageUSD r)
    \<and> us_DailyWindowStart r' = (if NeedsDailyReset (se_now env) sub then Some (startOfDay env) else us_DailyWindowStart r)
    \<and> us_WeeklyWindowStart r' = (if NeedsWeeklyReset (se_now env) sub then Some (startOfDay env) else us_WeeklyWindowStart r)
    \<and> us_MonthlyWindowStart r' = (if NeedsMonthlyReset (se_now env) sub then Some (startOfDay env) else us_MonthlyWindowStart r)"
proof -
  note f = calm_sel [OF assms(1)]
  let ?now = "se_now env" and ?w = "startOfDay env"
  let ?b1 = "NeedsDailyReset ?now sub" and ?b2 = "NeedsWeeklyReset ?now sub" and ?b3 = "NeedsMonthlyReset ?now sub"
  let ?u1 = "\<lambda>s. s\<lparr>us_DailyUsageUSD := Fin 0, us_DailyWindowStart := Some ?w\<rparr>"
  let ?u2 = "\<lambda>s. s\<lparr>us_WeeklyUsageUSD := Fin 0, us_WeeklyWindowStart := Some ?w\<rparr>"
  let ?u3 = "\<lambda>s. s\<lparr>us_MonthlyUsageUSD := Fin 0, us_MonthlyWindowStart := Some ?w\<rparr>"
  let ?f1 = "\<lambda>s. s\<lparr>us_DailyWindowStart := Some ?w, us_DailyUsageUSD := Fin 0\<rparr>"
  let ?f2 = "\<lambda>s. s\<lparr>us_WeeklyWindowStart := Some ?w, us_WeeklyUsageUSD := Fin 0\<rparr>"
  let ?f3 = "\<lambda>s. s\<lparr>us_MonthlyWindowStart := Some ?w, us_MonthlyUsageUSD := Fin 0\<rparr>"
  have k: "keeps_key ?u1" "keeps_key ?u2" "keeps_key ?u3" by (simp_all add: keeps_key_def)
  define r1 where "r1 = (if ?b1 then (?u1 r)\<lparr>us_UpdatedAt := ?now\<rparr> else r)"
  define r2 where "r2 = (if ?b2 then (?u2 r1)\<lparr>us_UpdatedAt := ?now\<rparr> else r1)"
  define r3 where "r3 = (if ?b3 then (?u3 r2)\<lparr>us_UpdatedAt := ?now\<rparr> else r2)"
  have ids: "us_ID r1 = us_ID sub" "us_ID r2 = us_ID sub" using assms(4) by (auto simp: r1_def r2_def)
  obtain s1 n1 d1 where s1: "reset_step ?b1 (ResetDailyUsage NoFault ?now (us_ID sub) ?w) ?f1 (sub, False, ss_db st) =
      (Inr (), (s1, n1, d1))" "sub_inv d1" "sub_row u g d1 = Some r1"
    using reset_step_row [where now = ?now and needed = ?b1 and f = ?f1 and s = sub and n = False,
        OF assms(2,3,4) k(1) ResetDailyUsage_def] by (auto simp: r1_def)
  obtain s2 n2 d2 where s2: "reset_step ?b2 (ResetWeeklyUsage NoFault ?now (us_ID sub) ?w) ?f2 (s1, n1, d1) =
      (Inr (), (s2, n2, d2))" "sub_inv d2" "sub_row u g d2 = Some r2"
    using reset_step_row [where now = ?now and needed = ?b2 and f = ?f2 and s = s1 and n = n1,
        OF s1(2,3) ids(1) k(2) ResetWeeklyUsage_def] by (auto simp: r2_def)
  obtain s3 n3 d3 where s3: "reset_step ?b3 (ResetMonthlyUsage NoFault ?now (us_ID sub) ?w) ?f3 (s2, n2, d2) =
      (Inr (), (s3, n3, d3))" "sub_row u g d3 = Some r3"
    using reset_step_row [where now = ?now and needed = ?b3 and f = ?f3 and s = s2 and n = n2,
        OF s2(2,3) ids(2) k(3) ResetMonthlyUsage_def] by (auto simp: r3_def)
  have "ss_db (snd (CheckAndResetWindows env sub st)) = d3"
    by (simp add: CheckAndResetWindows_def Let_def f s1(1) s2(1) s3(1))
  then show ?thesis using s3(2) by (auto simp: r1_def r2_def r3_def)
qed

text \<open>Windows that start at midnight of today are not over.\<close>

lemma window_today: "calm env \<Longrightarrow> 24 * Hour \<le> len \<Longrightarrow> \<not> window_over len (se_now env) (Some (startOfDay env))"
  using calm_sel(5,6) [of env] by (auto simp: window_over_def Sub_def duration_defs max_int64_def min_int64_def)

text \<open>
  The request path and the background maintenance agree. For a subscription that is not expired or
  suspended, the usage that \<open>ValidateAndCheckLimits\<close> compares with the limits is the usage that
  the table holds after the maintenance it asks for, and after the maintenance no window is over
  and the windows are active.
\<close>

theorem maintenance_matches_check:
  assumes "calm env" "sub_inv (ss_db st)" "sub_row u g (ss_db st) = Some sub"
    "us_Status sub = SubscriptionStatusActive" "se_now env \<le> us_ExpiresAt sub"
    "(needed, res, checked) = ValidateAndCheckLimits (se_now env) sub grp"
  shows "\<exists>row. sub_row u g (ss_db (doWindowMaintenance env checked st)) = Some row
    \<and> us_DailyUsageUSD row = us_DailyUsageUSD checked \<and> us_WeeklyUsageUSD row = us_WeeklyUsageUSD checked
    \<and> us_MonthlyUsageUSD row = us_MonthlyUsageUSD checked
    \<and> \<not> NeedsDailyReset (se_now env) row \<and> \<not> NeedsWeeklyReset (se_now env) row \<and> \<not> NeedsMonthlyReset (se_now env) row
    \<and> IsWindowActivated row"
proof -
  note f = calm_sel [OF assms(1)]
  let ?now = "se_now env"
  have c: "us_ID checked = us_ID sub" "IsWindowActivated checked = IsWindowActivated sub"
    "NeedsDailyReset ?now checked = NeedsDailyReset ?now sub" "NeedsWeeklyReset ?now checked = NeedsWeeklyReset ?now sub"
    "NeedsMonthlyReset ?now checked = NeedsMonthlyReset ?now sub"
    "us_DailyUsageUSD checked = (if NeedsDailyReset ?now sub then Fin 0 else us_DailyUsageUSD sub)"
    "us_WeeklyUsageUSD checked = (if NeedsWeeklyReset ?now sub then Fin 0 else us_WeeklyUsageUSD sub)"
    "us_MonthlyUsageUSD checked = (if NeedsMonthlyReset ?now sub then Fin 0 else us_MonthlyUsageUSD sub)"
    using assms(4-6)
    by (auto simp: ValidateAndCheckLimits_def Let_def sub_status_defs IsExpired_def IsWindowActivated_def
        NeedsDailyReset_def NeedsWeeklyReset_def NeedsMonthlyReset_def split: if_splits)
  have nt: "\<not> window_over (24 * Hour) ?now (Some (startOfDay env))" "\<not> window_over (7 * 24 * Hour) ?now (Some (startOfDay env))"
    "\<not> window_over (30 * 24 * Hour) ?now (Some (startOfDay env))"
    using window_today [OF assms(1)] by (auto simp: duration_defs)
  show ?thesis
  proof (cases "IsWindowActivated sub")
    case True
    have "\<exists>r'. sub_row u g (ss_db (snd (CheckAndResetWindows env checked st))) = Some r'
      \<and> us_DailyUsageUSD r' = us_DailyUsageUSD checked \<and> us_WeeklyUsageUSD r' = us_WeeklyUsageUSD checked
      \<and> us_MonthlyUsageUSD r' = us_MonthlyUsageUSD checked
      \<and> \<not> NeedsDailyReset ?now r' \<and> \<not> NeedsWeeklyReset ?now r' \<and> \<not> NeedsMonthlyReset ?now r' \<and> IsWindowActivated r'"
      using reset_windows_row [OF assms(1-3), of checked] c True nt
      by (auto simp: NeedsDailyReset_def NeedsWeeklyReset_def NeedsMonthlyReset_def IsWindowActivated_def)
    then show ?thesis using True c(2) by (simp add: doWindowMaintenance_def Let_def)
  next
    case False
    then have none: "us_DailyWindowStart sub = None" "us_WeeklyWindowStart sub = None" "us_MonthlyWindowStart sub = None"
      by (auto simp: IsWindowActivated_def)
    let ?u = "\<lambda>s. s\<lparr>us_DailyWindowStart := Some (startOfDay env), us_WeeklyWindowStart := Some (startOfDay env),
        us_MonthlyWindowStart := Some (startOfDay env)\<rparr>"
    obtain d1 where d1: "sub_update ?now (us_ID sub) ?u (ss_db st) = (Inr (), d1)" "sub_inv d1"
        "sub_row u g d1 = Some ((?u sub)\<lparr>us_UpdatedAt := ?now\<rparr>)"
      using sub_update_row [OF assms(2,3), of ?u ?now] by (auto simp: keeps_key_def)
    have a: "CheckAndActivateWindow env checked (ss_db st) = (Inr (), d1)"
      using False d1(1) c(1,2) by (simp add: CheckAndActivateWindow_def ActivateWindows_def f)
    have "\<exists>r'. sub_row u g (ss_db (snd (CheckAndResetWindows env checked (st\<lparr>ss_db := d1\<rparr>)))) = Some r'
      \<and> us_DailyUsageUSD r' = us_DailyUsageUSD checked \<and> us_WeeklyUsageUSD r' = us_WeeklyUsageUSD checked
      \<and> us_MonthlyUsageUSD r' = us_MonthlyUsageUSD checked
      \<and> \<not> NeedsDailyReset ?now r' \<and> \<not> NeedsWeeklyReset ?now r' \<and> \<not> NeedsMonthlyReset ?now r' \<and> IsWindowActivated r'"
      using reset_windows_row [OF assms(1), of "st\<lparr>ss_db := d1\<rparr>" u g _ checked] d1(2,3) c nt none
      by (auto simp: NeedsDailyReset_def NeedsWeeklyReset_def NeedsMonthlyReset_def IsWindowActivated_def window_over_def)
    then show ?thesis using False c(2) by (simp add: doWindowMaintenance_def Let_def a)
  qed
qed

theorem maintenance_matches_check_witness:
  "case ValidateAndCheckLimits (25 * Hour) demo_sub demo_group of (needed, res, checked) \<Rightarrow>
     \<exists>row. sub_row 5 3 (ss_db (doWindowMaintenance (calm_env (25 * Hour)) checked demo_subs1)) = Some row
       \<and> us_DailyUsageUSD row = us_DailyUsageUSD checked"
proof -
  obtain needed res checked where v: "ValidateAndCheckLimits (25 * Hour) demo_sub demo_group = (needed, res, checked)"
    by (cases "ValidateAndCheckLimits (25 * Hour) demo_sub demo_group") blast
  have "us_Status demo_sub = SubscriptionStatusActive" "se_now (calm_env (25 * Hour)) \<le> us_ExpiresAt demo_sub"
    by (simp_all add: demo_sub_def duration_defs)
  from maintenance_matches_check [OF calm_env_calm demo_subs1_facts(1,3) this, of needed res checked demo_group] v
  show ?thesis by auto
qed

subsection \<open>Changes show through the cache\<close>

lemma append_sep_inj:
  assumes "c \<notin> set a" "c \<notin> set a'" "a @ [c] @ b = a' @ [c] @ b'" shows "a = a' \<and> b = b'"
  using assms(3) assms(1,2) by (induction a arbitrary: a') (auto simp: Cons_eq_append_conv append_eq_Cons_conv)

lemma colon_notin_itoa: "CHR '':'' \<notin> set (itoa n)"
  using dec_of_nat_digits by (force simp: itoa_def is_digit_def split: if_splits)

lemma subCacheKey_inj:
  assumes "in_int64 u" "in_int64 g" "in_int64 u'" "in_int64 g'"
  shows "subCacheKey u g = subCacheKey u' g' \<longleftrightarrow> u = u' \<and> g = g'"
  using append_sep_inj [OF colon_notin_itoa colon_notin_itoa, of u "itoa g" u' "itoa g'"] itoa_inj assms
  by (auto simp: subCacheKey_def)

text \<open>Reading the subscription of \<open>u\<close> and \<open>g\<close> through the cache gives what the table says.\<close>

definition reads_table :: "sub_env \<Rightarrow> int64 \<Rightarrow> int64 \<Rightarrow> sub_state \<Rightarrow> bool" where
  "reads_table env u g st \<longleftrightarrow> fst (GetActiveSubscription env u g st) =
     GetActiveByUserIDAndGroupID (se_fault env SGet) (se_now env) u g (ss_db st)"

lemma reads_table_invalidated: "se_l1 env' = b \<Longrightarrow> reads_table env' u g (InvalidateSubCache b u g st)"
  by (auto simp: reads_table_def GetActiveSubscription_def InvalidateSubCache_def Let_def split: sum.split)

lemma sub_GetByID_Inr: "sub_GetByID f i db = Inr s \<Longrightarrow> sub_by_id i db = Some s"
  by (auto simp: sub_GetByID_def found_def dest!: read_fault_Inr split: option.splits)

text \<open>Invalidating one user's entry leaves the entries of all others in place.\<close>

lemma InvalidateSubCache_other:
  "in_int64 u \<Longrightarrow> in_int64 g \<Longrightarrow> in_int64 u' \<Longrightarrow> in_int64 g' \<Longrightarrow> (u', g') \<noteq> (u, g) \<Longrightarrow> ss_l1 (InvalidateSubCache b u g st) (subCacheKey u' g') = ss_l1 st (subCacheKey u' g')"
  by (auto simp: InvalidateSubCache_def subCacheKey_inj)

text \<open>
  A renewal, an adjustment or a revocation is visible at once. After each of them succeeds, the next
  read of that subscription through the first-level cache is the read of the table, with the
  cache configured or not, and whatever the cache held before.
\<close>

theorem changes_bypass_cache:
  assumes "se_l1 env' = se_l1 env"
  shows "(\<not> isl (fst (AssignOrExtendSubscription env input st)) \<longrightarrow>
      reads_table env' (ai_UserID input) (ai_GroupID input) (snd (AssignOrExtendSubscription env input st)))
    \<and> (sub_by_id i (ss_db st) = Some s \<and> \<not> isl (fst (ExtendSubscription env i days st)) \<longrightarrow>
      reads_table env' (us_UserID s) (us_GroupID s) (snd (ExtendSubscription env i days st)))
    \<and> (sub_by_id i (ss_db st) = Some s \<and> \<not> isl (fst (RevokeSubscription env i st)) \<longrightarrow>
      reads_table env' (us_UserID s) (us_GroupID s) (snd (RevokeSubscription env i st)))"
proof (intro conjI impI)
  note r = reads_table_invalidated [OF assms]
  show "\<not> isl (fst (AssignOrExtendSubscription env input st)) \<Longrightarrow>
      reads_table env' (ai_UserID input) (ai_GroupID input) (snd (AssignOrExtendSubscription env input st))"
    by (auto simp: AssignOrExtendSubscription_def Let_def r split: sum.splits prod.splits if_splits)
  show "sub_by_id i (ss_db st) = Some s \<and> \<not> isl (fst (ExtendSubscription env i days st)) \<Longrightarrow>
      reads_table env' (us_UserID s) (us_GroupID s) (snd (ExtendSubscription env i days st))"
    by (cases "sub_GetByID (se_fault env SGet) i (ss_db st)")
      (auto simp: ExtendSubscription_def r dest!: sub_GetByID_Inr split: sum.splits prod.splits if_splits)
  show "sub_by_id i (ss_db st) = Some s \<and> \<not> isl (fst (RevokeSubscription env i st)) \<Longrightarrow>
      reads_table env' (us_UserID s) (us_GroupID s) (snd (RevokeSubscription env i st))"
    by (cases "sub_GetByID (se_fault env SGet) i (ss_db st)")
      (auto simp: RevokeSubscription_def r dest!: sub_GetByID_Inr split: sum.splits prod.splits)
qed

theorem changes_bypass_cache_witness:
  "reads_table (calm_env 7) 5 3 (snd (AssignOrExtendSubscription (calm_env 0) demo_input
     (demo_subs1\<lparr>ss_l1 := [subCacheKey 5 3 \<mapsto> demo_sub]\<rparr>)))"
proof -
  let ?st = "demo_subs1\<lparr>ss_l1 := [subCacheKey 5 3 \<mapsto> demo_sub]\<rparr>"
  have "\<not> isl (fst (AssignOrExtendSubscription (calm_env 0) demo_input ?st))"
    using AssignOrExtend_existing [OF calm_env_calm, of ?st demo_input demo_sub 0] demo_subs1_facts by auto
  then show ?thesis
    using changes_bypass_cache [of "calm_env 7" "calm_env 0" demo_input ?st] demo_subs1_facts(4,5) by simp
qed

end
