(* ===== verification/Redeem.thy ===== *)
theory Redeem
  imports SubscriptionLaws
begin

text \<open>
  Redeem codes and user accounts: \<open>internal/service/redeem_code.go\<close>,
  \<open>internal/service/redeem_service.go\<close>, the statements of
  \<open>internal/repository/redeem_code_repo.go\<close> and the balance and concurrency updates of
  \<open>internal/repository/user_repo.go\<close>. \<open>redeem_env\<close> is what one call sees of its surroundings.
  The redis cache keeps a counter of failed attempts and a lock per code; the expiry of either is a
  change between two calls. \<open>rd_rebates\<close> lists the calls made to the affiliate service, which is
  outside the model. Sums in a numeric column are a parameter, as for subscriptions.
\<close>

definition StatusUnused :: gostring where "StatusUnused = ''unused''"
definition StatusUsed :: gostring where "StatusUsed = ''used''"

definition RedeemTypeBalance :: gostring where "RedeemTypeBalance = ''balance''"
definition RedeemTypeConcurrency :: gostring where "RedeemTypeConcurrency = ''concurrency''"
definition RedeemTypeSubscription :: gostring where "RedeemTypeSubscription = ''subscription''"
definition RedeemTypeInvitation :: gostring where "RedeemTypeInvitation = ''invitation''"

lemmas redeem_const_defs = StatusUnused_def StatusUsed_def RedeemTypeBalance_def RedeemTypeConcurrency_def
  RedeemTypeSubscription_def RedeemTypeInvitation_def

definition ErrRedeemCodeNotFound :: app_error where
  "ErrRedeemCodeNotFound = NotFound ''REDEEM_CODE_NOT_FOUND'' ''redeem code not found''"
definition ErrRedeemCodeUsed :: app_error where
  "ErrRedeemCodeUsed = Conflict ''REDEEM_CODE_USED'' ''redeem code already used''"
definition ErrRedeemRateLimited :: app_error where
  "ErrRedeemRateLimited = TooManyRequests ''REDEEM_RATE_LIMITED''
     ''too many failed attempts, please try again later''"
definition ErrRedeemCodeLocked :: app_error where
  "ErrRedeemCodeLocked = Conflict ''REDEEM_CODE_LOCKED'' ''redeem code is being processed, please try again''"
definition ErrUserNotFound :: app_error where
  "ErrUserNotFound = NotFound ''USER_NOT_FOUND'' ''user not found''"

definition redeemMaxErrorsPerHour :: int where "redeemMaxErrorsPerHour = 20"

record redeem_code =
  rc_ID :: int64
  rc_Code :: gostring
  rc_Type :: gostring
  rc_Value :: f64
  rc_Status :: gostring
  rc_UsedBy :: "int64 option"
  rc_UsedAt :: "time option"
  rc_Notes :: gostring
  rc_CreatedAt :: time
  rc_GroupID :: "int64 option"
  rc_ValidityDays :: int

definition IsUsed :: "redeem_code \<Rightarrow> bool" where "IsUsed r \<longleftrightarrow> rc_Status r = StatusUsed"
definition CanUse :: "redeem_code \<Rightarrow> bool" where "CanUse r \<longleftrightarrow> rc_Status r = StatusUnused"

text \<open>The columns of a user account the modelled code reads or writes.\<close>

record user_acct =
  ua_ID :: int64
  ua_Balance :: f64
  ua_TotalRecharged :: f64
  ua_Concurrency :: int

record redeem_db =
  rd_codes :: "redeem_code list"
  rd_next :: int64
  rd_users :: "user_acct list"
  rd_subs :: sub_state
  rd_attempts :: "int64 \<Rightarrow> int"
  rd_locks :: "gostring list"
  rd_rebates :: "(int64 \<times> f64) list"

datatype redeem_call = RCount | RLock | RUnlock | RGetCode | RUser | RBegin | RUse | RBenefit | RCommit
  | RReload | RIncr | RCreate | RStatus | RExpiry | RNotes | RDelete

record redeem_env =
  re_now :: time
  re_fault :: "redeem_call \<Rightarrow> fault"
  re_others :: "redeem_db \<Rightarrow> redeem_db"
  re_sub :: sub_env
  re_cache :: bool
  re_affiliate :: bool
  re_skip_affiliate :: bool

subsection \<open>The tables\<close>

definition code_by_code :: "gostring \<Rightarrow> redeem_db \<Rightarrow> redeem_code option" where
  "code_by_code c d = find (\<lambda>r. rc_Code r = c) (rd_codes d)"
definition code_by_id :: "int64 \<Rightarrow> redeem_db \<Rightarrow> redeem_code option" where
  "code_by_id i d = find (\<lambda>r. rc_ID r = i) (rd_codes d)"

definition code_found :: "redeem_code option \<Rightarrow> redeem_code result" where
  "code_found x = (case x of None \<Rightarrow> Inl (EApp ErrRedeemCodeNotFound) | Some r \<Rightarrow> Inr r)"

definition code_GetByCode :: "fault \<Rightarrow> gostring \<Rightarrow> redeem_db \<Rightarrow> redeem_code result" where
  "code_GetByCode f c d = read_fault f (code_found (code_by_code c d))"
definition code_GetByID :: "fault \<Rightarrow> int64 \<Rightarrow> redeem_db \<Rightarrow> redeem_code result" where
  "code_GetByID f i d = read_fault f (code_found (code_by_id i d))"

text \<open>The column \<open>code\<close> is unique.\<close>

definition code_Create :: "fault \<Rightarrow> time \<Rightarrow> redeem_code \<Rightarrow> redeem_db \<Rightarrow> redeem_code result \<times> redeem_db" where
  "code_Create f now code = with_fault_err f (\<lambda>d.
     if code_by_code (rc_Code code) d \<noteq> None then (Inl unique_violation, d)
     else let row = code\<lparr>rc_ID := rd_next d, rc_CreatedAt := now\<rparr>
          in (Inr row, d\<lparr>rd_codes := rd_codes d @ [row], rd_next := rd_next d + 1\<rparr>))"

definition usable :: "int64 \<Rightarrow> redeem_code \<Rightarrow> bool" where
  "usable i r \<longleftrightarrow> rc_ID r = i \<and> rc_Status r = StatusUnused"
definition used_row :: "time \<Rightarrow> int64 \<Rightarrow> redeem_code \<Rightarrow> redeem_code" where
  "used_row now userID r = r\<lparr>rc_Status := StatusUsed, rc_UsedBy := Some userID, rc_UsedAt := Some now\<rparr>"

definition code_Use :: "fault \<Rightarrow> time \<Rightarrow> int64 \<Rightarrow> int64 \<Rightarrow> redeem_db \<Rightarrow> unit result \<times> redeem_db" where
  "code_Use f now i userID = with_fault_err f (\<lambda>d.
     if affected (usable i) (rd_codes d) = 0 then (Inl (EApp ErrRedeemCodeUsed), d)
     else (Inr (), d\<lparr>rd_codes := update_where (usable i) (used_row now userID) (rd_codes d)\<rparr>))"

definition code_Delete :: "fault \<Rightarrow> int64 \<Rightarrow> redeem_db \<Rightarrow> unit result \<times> redeem_db" where
  "code_Delete f i = with_fault f (\<lambda>d. ((), d\<lparr>rd_codes := filter (\<lambda>r. rc_ID r \<noteq> i) (rd_codes d)\<rparr>))"

definition user_by_id :: "int64 \<Rightarrow> redeem_db \<Rightarrow> user_acct option" where
  "user_by_id u d = find (\<lambda>r. ua_ID r = u) (rd_users d)"

definition user_GetByID :: "fault \<Rightarrow> int64 \<Rightarrow> redeem_db \<Rightarrow> user_acct result" where
  "user_GetByID f u d = read_fault f (found ErrUserNotFound (user_by_id u d))"

definition user_update :: "int64 \<Rightarrow> (user_acct \<Rightarrow> user_acct) \<Rightarrow> redeem_db \<Rightarrow> unit result \<times> redeem_db" where
  "user_update u upd d = (case sql_update_one (EApp ErrUserNotFound) (\<lambda>r. ua_ID r = u) upd (rd_users d) of
     (res, rows) \<Rightarrow> (res, d\<lparr>rd_users := rows\<rparr>))"

definition add_balance :: "(f64 \<Rightarrow> f64 \<Rightarrow> f64) \<Rightarrow> f64 \<Rightarrow> user_acct \<Rightarrow> user_acct" where
  "add_balance num_add amount r =
     (let r' = r\<lparr>ua_Balance := num_add (ua_Balance r) amount\<rparr>
      in if flt (Fin 0) amount then r'\<lparr>ua_TotalRecharged := num_add (ua_TotalRecharged r) amount\<rparr> else r')"

definition UpdateBalance :: "fault \<Rightarrow> (f64 \<Rightarrow> f64 \<Rightarrow> f64) \<Rightarrow> int64 \<Rightarrow> f64 \<Rightarrow> redeem_db \<Rightarrow> unit result \<times> redeem_db" where
  "UpdateBalance f num_add u amount = with_fault_err f (user_update u (add_balance num_add amount))"
definition DeductBalance :: "fault \<Rightarrow> (f64 \<Rightarrow> f64 \<Rightarrow> f64) \<Rightarrow> int64 \<Rightarrow> f64 \<Rightarrow> redeem_db \<Rightarrow> unit result \<times> redeem_db" where
  "DeductBalance f num_add u amount =
     with_fault_err f (user_update u (\<lambda>r. r\<lparr>ua_Balance := num_add (ua_Balance r) (fneg amount)\<rparr>))"
definition UpdateConcurrency :: "fault \<Rightarrow> int64 \<Rightarrow> int \<Rightarrow> redeem_db \<Rightarrow> unit result \<times> redeem_db" where
  "UpdateConcurrency f u amount =
     with_fault_err f (user_update u (\<lambda>r. r\<lparr>ua_Concurrency := ua_Concurrency r + amount\<rparr>))"

subsection \<open>Creating and deleting codes\<close>

definition CreateCode :: "redeem_env \<Rightarrow> redeem_code option \<Rightarrow> redeem_db \<Rightarrow> redeem_code result \<times> redeem_db" where
  "CreateCode env code d = (case code of
     None \<Rightarrow> (Inl (EPlain ''redeem code is required''), d)
   | Some c0 \<Rightarrow>
      (let c1 = c0\<lparr>rc_Code := trim_space (rc_Code c0)\<rparr> in
       if rc_Code c1 = [] then (Inl (EPlain ''code is required''), d)
       else let c2 = (if rc_Type c1 = [] then c1\<lparr>rc_Type := RedeemTypeBalance\<rparr> else c1) in
         if rc_Type c2 \<noteq> RedeemTypeInvitation \<and> feq (rc_Value c2) (Fin 0)
         then (Inl (EPlain ''value must not be zero''), d)
         else let c3 = (if rc_Status c2 = [] then c2\<lparr>rc_Status := StatusUnused\<rparr> else c2)
              in wrap_err ''create redeem code'' (code_Create (re_fault env RCreate) (re_now env) c3 d)))"

definition GetByCode :: "redeem_env \<Rightarrow> gostring \<Rightarrow> redeem_db \<Rightarrow> redeem_code result" where
  "GetByCode env c d = (case code_GetByCode (re_fault env RGetCode) c d of
     Inl e \<Rightarrow> Inl (EWrap ''get redeem code'' e) | Inr r \<Rightarrow> Inr r)"

definition redeem_Delete :: "redeem_env \<Rightarrow> int64 \<Rightarrow> redeem_db \<Rightarrow> unit result \<times> redeem_db" where
  "redeem_Delete env i d = (case code_GetByID (re_fault env RGetCode) i d of
     Inl e \<Rightarrow> (Inl (EWrap ''get redeem code'' e), d)
   | Inr code \<Rightarrow>
       if IsUsed code then (Inl (EApp (Conflict ''REDEEM_CODE_DELETE_USED'' ''cannot delete used redeem code'')), d)
       else wrap_err ''delete redeem code'' (code_Delete (re_fault env RDelete) i d))"

subsection \<open>The attempt counter and the lock\<close>

definition checkRedeemRateLimit :: "redeem_env \<Rightarrow> int64 \<Rightarrow> redeem_db \<Rightarrow> unit result" where
  "checkRedeemRateLimit env u d =
     (if \<not> re_cache env then Inr ()
      else case read_fault (re_fault env RCount) (Inr (rd_attempts d u)) of
             Inl _ \<Rightarrow> Inr ()
           | Inr count \<Rightarrow> if redeemMaxErrorsPerHour \<le> count then Inl (EApp ErrRedeemRateLimited) else Inr ())"

definition incrementRedeemErrorCount :: "redeem_env \<Rightarrow> int64 \<Rightarrow> redeem_db \<Rightarrow> redeem_db" where
  "incrementRedeemErrorCount env u d =
     (if \<not> re_cache env then d
      else snd (with_fault (re_fault env RIncr)
                 (\<lambda>d. ((), d\<lparr>rd_attempts := (rd_attempts d)(u := rd_attempts d u + 1)\<rparr>)) d))"

definition acquireRedeemLock :: "redeem_env \<Rightarrow> gostring \<Rightarrow> redeem_db \<Rightarrow> bool \<times> redeem_db" where
  "acquireRedeemLock env c d =
     (if \<not> re_cache env then (True, d)
      else case with_fault (re_fault env RLock)
                  (\<lambda>d. if c \<in> set (rd_locks d) then (False, d) else (True, d\<lparr>rd_locks := c # rd_locks d\<rparr>)) d of
             (Inl _, d') \<Rightarrow> (True, d')
           | (Inr ok, d') \<Rightarrow> (ok, d'))"

definition releaseRedeemLock :: "redeem_env \<Rightarrow> gostring \<Rightarrow> redeem_db \<Rightarrow> redeem_db" where
  "releaseRedeemLock env c d =
     (if \<not> re_cache env then d
      else snd (with_fault (re_fault env RUnlock) (\<lambda>d. ((), d\<lparr>rd_locks := filter (\<lambda>l. l \<noteq> c) (rd_locks d)\<rparr>)) d))"

subsection \<open>Redeeming\<close>

definition redeem_note :: "gostring \<Rightarrow> gostring" where
  "redeem_note c = [CHR 0xE9, CHR 0x80, CHR 0x9A, CHR 0xE8, CHR 0xBF, CHR 0x87, CHR 0xE5, CHR 0x85, CHR 0x91, CHR 0xE6,
      CHR 0x8D, CHR 0xA2, CHR 0xE7, CHR 0xA0, CHR 0x81, CHR 0x20]
     @ c @ [CHR 0x20, CHR 0xE5, CHR 0x85, CHR 0x91, CHR 0xE6, CHR 0x8D, CHR 0xA2]"
definition reduce_note :: "gostring \<Rightarrow> int \<Rightarrow> gostring" where
  "reduce_note c days = [CHR 0xE9, CHR 0x80, CHR 0x9A, CHR 0xE8, CHR 0xBF, CHR 0x87, CHR 0xE5, CHR 0x85, CHR 0x91, CHR 0xE6,
      CHR 0x8D, CHR 0xA2, CHR 0xE7, CHR 0xA0, CHR 0x81, CHR 0x20]
     @ c @ [CHR 0x20, CHR 0xE9, CHR 0x80, CHR 0x80, CHR 0xE6, CHR 0xAC, CHR 0xBE, CHR 0xE6, CHR 0x89, CHR 0xA3,
      CHR 0xE5, CHR 0x87, CHR 0x8F, CHR 0x20] @ itoa days @ [CHR 0x20, CHR 0xE5, CHR 0xA4, CHR 0xA9]"

definition with_subs :: "(sub_db \<Rightarrow> 'a result \<times> sub_db) \<Rightarrow> redeem_db \<Rightarrow> 'a result \<times> redeem_db" where
  "with_subs stmt d = (case stmt (ss_db (rd_subs d)) of
     (res, db) \<Rightarrow> (res, d\<lparr>rd_subs := (rd_subs d)\<lparr>ss_db := db\<rparr>\<rparr>))"

definition reduceOrCancelSubscription ::
    "redeem_env \<Rightarrow> int64 \<Rightarrow> int64 \<Rightarrow> int \<Rightarrow> gostring \<Rightarrow> redeem_db \<Rightarrow> unit result \<times> redeem_db" where
  "reduceOrCancelSubscription env userID groupID reduceDays c d =
     (case GetByUserIDAndGroupID (re_fault env RBenefit) userID groupID (ss_db (rd_subs d)) of
        Inl _ \<Rightarrow> (Inl (EApp ErrSubscriptionNotFound), d)
      | Inr sub \<Rightarrow>
         (let now = re_now env; sid = us_ID sub;
              remaining = max 0 (days_of (Sub (us_ExpiresAt sub) now))
          in and_then
               (if remaining \<le> reduceDays
                then and_then (wrap_err ''cancel subscription''
                       (with_subs (UpdateStatus (re_fault env RStatus) now sid SubscriptionStatusExpired) d))
                       (\<lambda>_ d1. wrap_err ''set subscription expiry''
                         (with_subs (ExtendExpiry (re_fault env RExpiry) now sid now) d1))
                else wrap_err ''reduce subscription''
                       (with_subs (ExtendExpiry (re_fault env RExpiry) now sid
                          (AddDays (se_dbloc (re_sub env)) (us_ExpiresAt sub) (- reduceDays))) d))
               (\<lambda>_ d2. and_then (wrap_err ''update subscription notes''
                   (with_subs (UpdateNotes (re_fault env RNotes) now sid
                      (append_notes (us_Notes sub) (reduce_note c reduceDays))) d2))
                 (\<lambda>_ d3. (Inr (), d3\<lparr>rd_subs := InvalidateSubCache (se_l1 (re_sub env)) userID groupID (rd_subs d3)\<rparr>)))))"

definition redeem_input :: "int64 \<Rightarrow> redeem_code \<Rightarrow> assign_input" where
  "redeem_input userID code =
     \<lparr>ai_UserID = userID, ai_GroupID = the (rc_GroupID code),
      ai_ValidityDays = (if rc_ValidityDays code = 0 then 30 else rc_ValidityDays code),
      ai_AssignedBy = 0, ai_Notes = redeem_note (rc_Code code)\<rparr>"

definition redeem_amount :: "user_acct \<Rightarrow> f64 \<Rightarrow> f64" where
  "redeem_amount user value =
     (if flt value (Fin 0) \<and> flt (fadd (ua_Balance user) value) (Fin 0) then fneg (ua_Balance user) else value)"

definition redeem_delta :: "user_acct \<Rightarrow> f64 \<Rightarrow> int" where
  "redeem_delta user value =
     (let delta = f64_to_int min_int64 value
      in if delta < 0 \<and> ua_Concurrency user + delta < 0 then - ua_Concurrency user else delta)"

text \<open>What the code grants, inside the transaction that marks it used.\<close>

definition redeem_benefit ::
    "redeem_env \<Rightarrow> int64 \<Rightarrow> user_acct \<Rightarrow> redeem_code \<Rightarrow> redeem_db \<Rightarrow> unit result \<times> redeem_db" where
  "redeem_benefit env userID user code d =
     (if rc_Type code = RedeemTypeBalance then
        wrap_err ''update user balance''
          (UpdateBalance (re_fault env RBenefit) (se_num_add (re_sub env)) userID (redeem_amount user (rc_Value code)) d)
      else if rc_Type code = RedeemTypeConcurrency then
        wrap_err ''update user concurrency''
          (UpdateConcurrency (re_fault env RBenefit) userID (redeem_delta user (rc_Value code)) d)
      else if rc_Type code = RedeemTypeSubscription then
        (if rc_ValidityDays code < 0
         then wrap_err ''reduce or cancel subscription''
                (reduceOrCancelSubscription env userID (the (rc_GroupID code)) (- rc_ValidityDays code) (rc_Code code) d)
         else (case AssignOrExtendSubscription (re_sub env) (redeem_input userID code) (rd_subs d) of
                 (Inl e, st) \<Rightarrow> (Inl (EWrap ''assign or extend subscription'' e), d\<lparr>rd_subs := st\<rparr>)
               | (Inr _, st) \<Rightarrow> (Inr (), d\<lparr>rd_subs := st\<rparr>)))
      else (Inl (EWrap ''unsupported redeem type'' (EPlain (rc_Type code))), d))"

text \<open>
  \<open>AssignOrExtendSubscription\<close> renews an existing subscription in a transaction of its own
  (\<open>s.entClient.Tx\<close>), on another connection than the one of the code, and commits it before the
  code's transaction ends; a new subscription is created through the code's transaction.
\<close>

definition renews_in_own_tx :: "redeem_env \<Rightarrow> int64 \<Rightarrow> redeem_code \<Rightarrow> redeem_db \<Rightarrow> bool" where
  "renews_in_own_tx env userID code d \<longleftrightarrow>
     rc_Type code = RedeemTypeSubscription \<and> 0 \<le> rc_ValidityDays code \<and>
     (case group_GetByID (se_fault (re_sub env) SGroup) (the (rc_GroupID code)) (ss_db (rd_subs d)) of
        Inl _ \<Rightarrow> False
      | Inr grp \<Rightarrow> IsSubscriptionType grp \<and>
          (case GetByUserIDAndGroupID (se_fault (re_sub env) SGet) userID (the (rc_GroupID code)) (ss_db (rd_subs d)) of
             Inl _ \<Rightarrow> False | Inr _ \<Rightarrow> True))"

text \<open>A rollback restores the tables; the process's own cache and a renewal already committed stay.\<close>

definition redeem_rollback :: "bool \<Rightarrow> redeem_db \<Rightarrow> redeem_db \<Rightarrow> redeem_db" where
  "redeem_rollback own d d' = d\<lparr>rd_subs := (if own then rd_subs d' else (rd_subs d')\<lparr>ss_db := ss_db (rd_subs d)\<rparr>)\<rparr>"

definition redeem_tx ::
    "redeem_env \<Rightarrow> int64 \<Rightarrow> user_acct \<Rightarrow> redeem_code \<Rightarrow> redeem_db \<Rightarrow> unit result \<times> redeem_db" where
  "redeem_tx env userID user code d = (case re_fault env RBegin of
     NoFault \<Rightarrow>
       (case code_Use (re_fault env RUse) (re_now env) (rc_ID code) userID d of
          (Inl e, _) \<Rightarrow>
            (Inl (if errors_is e (EApp ErrRedeemCodeNotFound) \<or> errors_is e (EApp ErrRedeemCodeUsed)
                  then EApp ErrRedeemCodeUsed else EWrap ''mark code as used'' e), d)
        | (Inr _, d1) \<Rightarrow>
            (let own = renews_in_own_tx env userID code d1 in
             case redeem_benefit env userID user code d1 of
               (Inl e, d2) \<Rightarrow> (Inl e, redeem_rollback own d d2)
             | (Inr _, d2) \<Rightarrow>
                 (case re_fault env RCommit of
                    NoFault \<Rightarrow> (Inr (), d2)
                  | Lost e \<Rightarrow> (Inl (EWrap ''commit transaction'' e), redeem_rollback own d d2)
                  | Unacked e \<Rightarrow> (Inl (EWrap ''commit transaction'' e), d2))))
   | Lost e \<Rightarrow> (Inl (EWrap ''begin transaction'' e), d)
   | Unacked e \<Rightarrow> (Inl (EWrap ''begin transaction'' e), d))"

definition tryAccrueAffiliateRebateForRedeem :: "redeem_env \<Rightarrow> int64 \<Rightarrow> f64 \<Rightarrow> redeem_db \<Rightarrow> redeem_db" where
  "tryAccrueAffiliateRebateForRedeem env userID amount d =
     (if re_skip_affiliate env then d
      else if \<not> re_affiliate env then d
      else d\<lparr>rd_rebates := rd_rebates d @ [(userID, amount)]\<rparr>)"

definition redeem_locked :: "redeem_env \<Rightarrow> int64 \<Rightarrow> gostring \<Rightarrow> redeem_db \<Rightarrow> redeem_code result \<times> redeem_db" where
  "redeem_locked env userID c d =
     (case code_GetByCode (re_fault env RGetCode) c d of
        Inl e \<Rightarrow>
          if errors_is e (EApp ErrRedeemCodeNotFound)
          then (Inl (EApp ErrRedeemCodeNotFound), incrementRedeemErrorCount env userID d)
          else (Inl (EWrap ''get redeem code'' e), d)
      | Inr code \<Rightarrow>
          if \<not> CanUse code then (Inl (EApp ErrRedeemCodeUsed), incrementRedeemErrorCount env userID d)
          else if rc_Type code = RedeemTypeSubscription \<and> rc_GroupID code = None then
            (Inl (EApp (BadRequest ''REDEEM_CODE_INVALID'' ''invalid subscription redeem code: missing group_id'')), d)
          else (case user_GetByID (re_fault env RUser) userID d of
             Inl e \<Rightarrow> (Inl (EWrap ''get user'' e), d)
           | Inr user \<Rightarrow>
               (case redeem_tx env userID user code (re_others env d) of
                  (Inl e, d') \<Rightarrow> (Inl e, d')
                | (Inr _, d') \<Rightarrow>
                    (let d'' = (if rc_Type code = RedeemTypeBalance \<and> flt (Fin 0) (rc_Value code)
                                then tryAccrueAffiliateRebateForRedeem env userID (rc_Value code) d' else d')
                     in case code_GetByID (re_fault env RReload) (rc_ID code) d'' of
                          Inl e \<Rightarrow> (Inl (EWrap ''get updated redeem code'' e), d'')
                        | Inr code' \<Rightarrow> (Inr code', d'')))))"

definition RedeemCode :: "redeem_env \<Rightarrow> int64 \<Rightarrow> gostring \<Rightarrow> redeem_db \<Rightarrow> redeem_code result \<times> redeem_db" where
  "RedeemCode env userID c d =
     (case checkRedeemRateLimit env userID d of
        Inl e \<Rightarrow> (Inl e, d)
      | Inr _ \<Rightarrow>
          (case acquireRedeemLock env c d of
             (False, d1) \<Rightarrow> (Inl (EApp ErrRedeemCodeLocked), d1)
           | (True, d1) \<Rightarrow>
               (case redeem_locked env userID c d1 of (res, d2) \<Rightarrow> (res, releaseRedeemLock env c d2))))"

subsection \<open>What a call leaves alone\<close>

lemma incrementRedeemErrorCount_frame [simp]:
  "rd_codes (incrementRedeemErrorCount env u d) = rd_codes d"
  "rd_users (incrementRedeemErrorCount env u d) = rd_users d"
  "rd_subs (incrementRedeemErrorCount env u d) = rd_subs d"
  "rd_rebates (incrementRedeemErrorCount env u d) = rd_rebates d"
  by (auto simp: incrementRedeemErrorCount_def with_fault_def split: fault.split)

lemma acquireRedeemLock_frame:
  assumes "acquireRedeemLock env c d = (ok, d1)"
  shows "rd_codes d1 = rd_codes d" "rd_users d1 = rd_users d" "rd_subs d1 = rd_subs d"
    "rd_rebates d1 = rd_rebates d"
  using assms by (auto simp: acquireRedeemLock_def with_fault_def split: fault.splits if_splits)

lemma releaseRedeemLock_frame [simp]:
  "rd_codes (releaseRedeemLock env c d) = rd_codes d"
  "rd_users (releaseRedeemLock env c d) = rd_users d"
  "rd_subs (releaseRedeemLock env c d) = rd_subs d"
  "rd_rebates (releaseRedeemLock env c d) = rd_rebates d"
  by (auto simp: releaseRedeemLock_def with_fault_def split: fault.split)

lemma tryAccrue_frame [simp]:
  "rd_codes (tryAccrueAffiliateRebateForRedeem env u a d) = rd_codes d"
  "rd_users (tryAccrueAffiliateRebateForRedeem env u a d) = rd_users d"
  by (auto simp: tryAccrueAffiliateRebateForRedeem_def)

lemma redeem_rollback_frame [simp]:
  "rd_codes (redeem_rollback own d d') = rd_codes d" "rd_users (redeem_rollback own d d') = rd_users d"
  "rd_rebates (redeem_rollback own d d') = rd_rebates d"
  by (simp_all add: redeem_rollback_def)

lemma code_by_code_cong: "rd_codes d = rd_codes d' \<Longrightarrow> code_by_code c d = code_by_code c d'"
  by (simp add: code_by_code_def)
lemma user_by_id_cong: "rd_users d = rd_users d' \<Longrightarrow> user_by_id u d = user_by_id u d'"
  by (simp add: user_by_id_def)

definition codes_ok :: "redeem_db \<Rightarrow> bool" where
  "codes_ok d \<longleftrightarrow> distinct (map rc_ID (rd_codes d)) \<and> distinct (map rc_Code (rd_codes d))"

definition use_code :: "time \<Rightarrow> int64 \<Rightarrow> redeem_code \<Rightarrow> redeem_db \<Rightarrow> redeem_code list" where
  "use_code now u r d = update_where (usable (rc_ID r)) (used_row now u) (rd_codes d)"

definition credit_user ::
    "(f64 \<Rightarrow> f64 \<Rightarrow> f64) \<Rightarrow> int64 \<Rightarrow> f64 \<Rightarrow> user_acct list \<Rightarrow> user_acct list" where
  "credit_user num_add u amount users = update_where (\<lambda>r. ua_ID r = u) (add_balance num_add amount) users"

lemma code_Use_cases:
  "code_Use f now i u d = (res, d') \<Longrightarrow>
     (\<exists>e. res = Inl e) \<or>
     (res = Inr () \<and> affected (usable i) (rd_codes d) \<noteq> 0 \<and>
      d' = d\<lparr>rd_codes := update_where (usable i) (used_row now u) (rd_codes d)\<rparr>)"
  by (auto simp: code_Use_def with_fault_err_def split: fault.splits if_splits)

lemma UpdateBalance_Inr:
  "UpdateBalance f na u amount d = (Inr x, d') \<Longrightarrow> d' = d\<lparr>rd_users := credit_user na u amount (rd_users d)\<rparr>"
  by (auto simp: UpdateBalance_def with_fault_err_def user_update_def sql_update_one_def credit_user_def
      split: fault.splits if_splits)

text \<open>
  The transaction of a balance code either changes nothing, or marks the unused code as used and
  credits the user, both together.
\<close>

lemma redeem_tx_balance:
  assumes "rc_Type code = RedeemTypeBalance" "redeem_tx env u user code d = (res, d')"
  shows "(rd_codes d' = rd_codes d \<and> rd_users d' = rd_users d \<and> (\<exists>e. res = Inl e)) \<or>
    (affected (usable (rc_ID code)) (rd_codes d) \<noteq> 0 \<and> rd_codes d' = use_code (re_now env) u code d \<and>
     rd_users d' = credit_user (se_num_add (re_sub env)) u (redeem_amount user (rc_Value code)) (rd_users d))"
proof -
  obtain r1 d1 where use: "code_Use (re_fault env RUse) (re_now env) (rc_ID code) u d = (r1, d1)"
    by (cases "code_Use (re_fault env RUse) (re_now env) (rc_ID code) u d")
  from code_Use_cases [OF use] assms(2) show ?thesis
  proof (elim disjE exE conjE)
    fix e assume "r1 = Inl e"
    with assms(2) use show ?thesis by (auto simp: redeem_tx_def split: fault.splits if_splits)
  next
    assume r1: "r1 = Inr ()" and aff: "affected (usable (rc_ID code)) (rd_codes d) \<noteq> 0"
      and d1: "d1 = d\<lparr>rd_codes := update_where (usable (rc_ID code)) (used_row (re_now env) u) (rd_codes d)\<rparr>"
    let ?am = "redeem_amount user (rc_Value code)" and ?na = "se_num_add (re_sub env)"
    obtain r2 d2 where upd: "UpdateBalance (re_fault env RBenefit) ?na u ?am d1 = (r2, d2)"
      by (cases "UpdateBalance (re_fault env RBenefit) ?na u ?am d1")
    show ?thesis
    proof (cases r2)
      case (Inl e)
      with assms use r1 upd show ?thesis
        by (auto simp: redeem_tx_def redeem_benefit_def Let_def split: fault.splits)
    next
      case (Inr x)
      with UpdateBalance_Inr upd have "d2 = d1\<lparr>rd_users := credit_user ?na u ?am (rd_users d1)\<rparr>" by blast
      with assms use r1 upd Inr d1 aff show ?thesis
        by (auto simp: redeem_tx_def redeem_benefit_def Let_def use_code_def split: fault.splits)
    qed
  qed
qed

lemma usable_of_unused:
  assumes "codes_ok d" "code_by_code c d = Some r"
  shows "affected (usable (rc_ID r)) (rd_codes d) \<noteq> 0 \<longleftrightarrow> CanUse r"
proof -
  have r: "r \<in> set (rd_codes d)" using assms(2) by (auto simp: code_by_code_def dest: find_SomeD)
  have "\<And>r'. r' \<in> set (rd_codes d) \<Longrightarrow> rc_ID r' = rc_ID r \<Longrightarrow> r' = r"
    using assms(1) r by (auto simp: codes_ok_def distinct_map inj_on_def)
  with r show ?thesis by (auto simp: affected_0_iff usable_def CanUse_def)
qed

lemma code_by_code_use:
  assumes "codes_ok d" "code_by_code c d = Some r" "rd_codes d' = use_code now u r d"
  shows "code_by_code c d' = Some (if CanUse r then used_row now u r else r)" "codes_ok d'"
proof -
  have "find (\<lambda>r. rc_Code r = c) (rd_codes d') =
      map_option (\<lambda>x. if usable (rc_ID r) x then used_row now u x else x) (code_by_code c d)"
    unfolding assms(3) use_code_def code_by_code_def
    by (rule find_update_where_same) (simp add: used_row_def)
  then show "code_by_code c d' = Some (if CanUse r then used_row now u r else r)"
    using assms(2) by (simp add: code_by_code_def [of c d'] usable_def CanUse_def)
  show "codes_ok d'"
    using assms(1) unfolding codes_ok_def assms(3) use_code_def
    by (simp add: map_update_where used_row_def)
qed

definition quiet_redeem :: "redeem_env \<Rightarrow> bool" where
  "quiet_redeem env \<longleftrightarrow> re_others env = (\<lambda>d. d)"

lemma redeem_locked_balance:
  assumes "codes_ok d" "code_by_code c d = Some r" "rc_Type r = RedeemTypeBalance" "quiet_redeem env"
    "redeem_locked env u c d = (res, d')"
  shows "(rd_codes d' = rd_codes d \<and> rd_users d' = rd_users d \<and> (\<exists>e. res = Inl e)) \<or>
    (CanUse r \<and> rd_codes d' = use_code (re_now env) u r d \<and>
     (\<exists>user. user_by_id u d = Some user \<and>
       rd_users d' = credit_user (se_num_add (re_sub env)) u (redeem_amount user (rc_Value r)) (rd_users d)))"
proof (cases "code_GetByCode (re_fault env RGetCode) c d")
  case (Inl e)
  with assms(5) show ?thesis by (auto simp: redeem_locked_def split: if_splits)
next
  case (Inr code)
  then have code: "code = r"
    using assms(2) by (auto simp: code_GetByCode_def code_found_def dest!: read_fault_Inr)
  show ?thesis
  proof (cases "\<not> CanUse r \<or> (\<exists>e. user_GetByID (re_fault env RUser) u d = Inl e)")
    case True
    with assms(3,5) Inr code show ?thesis
      by (auto simp: redeem_locked_def redeem_const_defs split: if_splits sum.splits)
  next
    case False
    then obtain user where user: "user_GetByID (re_fault env RUser) u d = Inr user" and can: "CanUse r"
      by (cases "user_GetByID (re_fault env RUser) u d") auto
    from user have user': "user_by_id u d = Some user"
      by (auto simp: user_GetByID_def found_def dest!: read_fault_Inr split: option.splits)
    obtain r1 d1 where tx: "redeem_tx env u user r d = (r1, d1)" by (cases "redeem_tx env u user r d")
    have frame: "rd_codes d' = rd_codes d1" "rd_users d' = rd_users d1" "\<And>e. r1 = Inl e \<Longrightarrow> \<exists>e. res = Inl e"
      using assms(3-5) Inr code user can tx
      by (auto simp: redeem_locked_def quiet_redeem_def redeem_const_defs Let_def split: if_splits sum.splits)
    from redeem_tx_balance [OF assms(3) tx] show ?thesis
      using can user' frame by auto
  qed
qed

text \<open>Redeeming one balance code, with any faults: nothing, or the code is used and the user credited.\<close>

lemma RedeemCode_balance:
  assumes "codes_ok d" "code_by_code c d = Some r" "rc_Type r = RedeemTypeBalance" "quiet_redeem env"
    "RedeemCode env u c d = (res, d')"
  shows "(rd_codes d' = rd_codes d \<and> rd_users d' = rd_users d \<and> (\<exists>e. res = Inl e)) \<or>
    (CanUse r \<and> rd_codes d' = use_code (re_now env) u r d \<and>
     (\<exists>user. user_by_id u d = Some user \<and>
       rd_users d' = credit_user (se_num_add (re_sub env)) u (redeem_amount user (rc_Value r)) (rd_users d)))"
proof (cases "checkRedeemRateLimit env u d")
  case (Inl e)
  with assms(5) show ?thesis by (auto simp: RedeemCode_def)
next
  case (Inr x)
  obtain ok d1 where lock: "acquireRedeemLock env c d = (ok, d1)" by (cases "acquireRedeemLock env c d")
  note fr = acquireRedeemLock_frame [OF lock]
  show ?thesis
  proof (cases ok)
    case False
    with assms(5) Inr lock fr show ?thesis by (auto simp: RedeemCode_def)
  next
    case True
    obtain r2 d2 where rl: "redeem_locked env u c d1 = (r2, d2)" by (cases "redeem_locked env u c d1")
    have "codes_ok d1" "code_by_code c d1 = Some r"
      using assms(1,2) fr code_by_code_cong [of d d1] by (auto simp: codes_ok_def)
    from redeem_locked_balance [OF this assms(3,4) rl]
    show ?thesis
      using assms(5) Inr lock True rl fr user_by_id_cong [of d d1]
      by (auto simp: RedeemCode_def use_code_def)
  qed
qed

subsection \<open>A code is good for one use\<close>

text \<open>Calls of \<open>Redeem\<close> for one code, by any users, one after the other, with their results.\<close>

primrec redeem_run ::
    "(redeem_env \<times> int64) list \<Rightarrow> gostring \<Rightarrow> redeem_db \<Rightarrow> redeem_code result list \<times> redeem_db" where
  "redeem_run [] c d = ([], d)"
| "redeem_run (call # calls) c d =
     (case RedeemCode (fst call) (snd call) c d of
        (res, d1) \<Rightarrow> (case redeem_run calls c d1 of (rs, d2) \<Rightarrow> (res # rs, d2)))"

definition succeeded :: "'a result list \<Rightarrow> nat" where
  "succeeded rs = length (filter (\<lambda>r. \<not> isl r) rs)"

lemma succeeded_simps [simp]:
  "succeeded [] = 0" "succeeded (Inl e # rs) = succeeded rs" "succeeded (Inr x # rs) = Suc (succeeded rs)"
  by (simp_all add: succeeded_def)

lemma redeem_run_used:
  assumes "codes_ok d" "code_by_code c d = Some r" "rc_Type r = RedeemTypeBalance" "\<not> CanUse r"
    "\<forall>call \<in> set calls. quiet_redeem (fst call)" "redeem_run calls c d = (rs, d')"
  shows "rd_codes d' = rd_codes d \<and> rd_users d' = rd_users d \<and> succeeded rs = 0"
  using assms
proof (induction calls arbitrary: d rs)
  case (Cons call calls)
  obtain res d1 where r1: "RedeemCode (fst call) (snd call) c d = (res, d1)"
    by (cases "RedeemCode (fst call) (snd call) c d")
  from Cons.prems r1 obtain rs2 where r2: "redeem_run calls c d1 = (rs2, d')" by (auto split: prod.splits)
  from Cons.prems(4,5) RedeemCode_balance [OF Cons.prems(1-3) _ r1]
  have fr: "rd_codes d1 = rd_codes d" "rd_users d1 = rd_users d" "\<exists>e. res = Inl e" by auto
  then have "codes_ok d1" "code_by_code c d1 = Some r"
    using Cons.prems(1,2) code_by_code_cong [of d d1] by (auto simp: codes_ok_def)
  from Cons.IH [OF this Cons.prems(3,4) _ r2] Cons.prems(5,6) r1 r2 fr show ?case by auto
qed simp

lemma redeem_run_balance:
  assumes "codes_ok d" "code_by_code c d = Some r" "rc_Type r = RedeemTypeBalance"
    "\<forall>call \<in> set calls. quiet_redeem (fst call)" "redeem_run calls c d = (rs, d')"
  shows "succeeded rs \<le> 1 \<and>
    ((rd_users d' = rd_users d \<and> rd_codes d' = rd_codes d \<and> succeeded rs = 0) \<or>
     (CanUse r \<and> (\<exists>call \<in> set calls. \<exists>user. user_by_id (snd call) d = Some user \<and>
        rd_codes d' = use_code (re_now (fst call)) (snd call) r d \<and>
        rd_users d' = credit_user (se_num_add (re_sub (fst call))) (snd call)
                        (redeem_amount user (rc_Value r)) (rd_users d))))"
  using assms
proof (induction calls arbitrary: d rs)
  case (Cons call calls)
  obtain res d1 where r1: "RedeemCode (fst call) (snd call) c d = (res, d1)"
    by (cases "RedeemCode (fst call) (snd call) c d")
  from Cons.prems r1 obtain rs2 where r2: "redeem_run calls c d1 = (rs2, d')" by (auto split: prod.splits)
  from Cons.prems(4) RedeemCode_balance [OF Cons.prems(1-3) _ r1]
  consider (none) "rd_codes d1 = rd_codes d" "rd_users d1 = rd_users d" "\<exists>e. res = Inl e"
    | (used) user where "CanUse r" "rd_codes d1 = use_code (re_now (fst call)) (snd call) r d"
        "user_by_id (snd call) d = Some user"
        "rd_users d1 = credit_user (se_num_add (re_sub (fst call))) (snd call)
           (redeem_amount user (rc_Value r)) (rd_users d)"
    by auto
  then show ?case
  proof cases
    case none
    then have "codes_ok d1" "code_by_code c d1 = Some r"
      using Cons.prems(1,2) code_by_code_cong [of d d1] by (auto simp: codes_ok_def)
    from Cons.IH [OF this Cons.prems(3) _ r2] Cons.prems(4,5) r1 r2 none show ?thesis
      by (auto simp: use_code_def user_by_id_cong [of d1 d])
  next
    case used
    from code_by_code_use [OF Cons.prems(1,2) used(2)] used(1)
    have "codes_ok d1" "code_by_code c d1 = Some (used_row (re_now (fst call)) (snd call) r)" by auto
    from redeem_run_used [OF this _ _ _ r2] Cons.prems(3-5) r1 r2 used show ?thesis
      by (cases res) (auto simp: used_row_def CanUse_def redeem_const_defs)
  qed
qed simp


definition calm_redeem :: "time \<Rightarrow> redeem_env" where
  "calm_redeem now = \<lparr>re_now = now, re_fault = (\<lambda>_. NoFault), re_others = (\<lambda>d. d), re_sub = calm_env now,
     re_cache = True, re_affiliate = False, re_skip_affiliate = False\<rparr>"

definition demo_code :: redeem_code where
  "demo_code = \<lparr>rc_ID = 1, rc_Code = ''PAY-1'', rc_Type = RedeemTypeBalance, rc_Value = Fin 10,
     rc_Status = StatusUnused, rc_UsedBy = None, rc_UsedAt = None, rc_Notes = [], rc_CreatedAt = 0,
     rc_GroupID = None, rc_ValidityDays = 0\<rparr>"

definition demo_users :: "user_acct list" where
  "demo_users = [\<lparr>ua_ID = 5, ua_Balance = Fin 3, ua_TotalRecharged = Fin 0, ua_Concurrency = 2\<rparr>,
     \<lparr>ua_ID = 6, ua_Balance = Fin 0, ua_TotalRecharged = Fin 0, ua_Concurrency = 2\<rparr>]"

definition demo_redeem :: redeem_db where
  "demo_redeem = \<lparr>rd_codes = [demo_code], rd_next = 2, rd_users = demo_users, rd_subs = demo_subs,
     rd_attempts = (\<lambda>_. 0), rd_locks = [], rd_rebates = []\<rparr>"

definition lost_ack_redeem :: "time \<Rightarrow> redeem_env" where
  "lost_ack_redeem now =
     (calm_redeem now)\<lparr>re_fault := (\<lambda>k. if k = RCommit then Unacked (EPlain ''timeout'') else NoFault)\<rparr>"


subsection \<open>Redeeming works, and refunds by code stop at zero\<close>

definition redeem_ready :: "redeem_env \<Rightarrow> int64 \<Rightarrow> gostring \<Rightarrow> redeem_db \<Rightarrow> bool" where
  "redeem_ready env u c d \<longleftrightarrow> re_fault env = (\<lambda>_. NoFault) \<and> quiet_redeem env \<and>
     rd_attempts d u < redeemMaxErrorsPerHour \<and> c \<notin> set (rd_locks d)"

lemma UpdateBalance_ok:
  "user_by_id u d = Some user \<Longrightarrow>
   UpdateBalance NoFault na u amount d = (Inr (), d\<lparr>rd_users := credit_user na u amount (rd_users d)\<rparr>)"
  by (auto simp: UpdateBalance_def user_update_def sql_update_one_def credit_user_def user_by_id_def
      affected_0_iff dest!: find_SomeD)

lemma redeem_tx_balance_ok:
  assumes "re_fault env = (\<lambda>_. NoFault)" "codes_ok d" "code_by_code c d = Some r" "CanUse r"
    "rc_Type r = RedeemTypeBalance" "user_by_id u d = Some user"
  shows "redeem_tx env u usr r d = (Inr (), d\<lparr>rd_codes := use_code (re_now env) u r d,
     rd_users := credit_user (se_num_add (re_sub env)) u (redeem_amount usr (rc_Value r)) (rd_users d)\<rparr>)"
proof -
  have "affected (usable (rc_ID r)) (rd_codes d) \<noteq> 0" using usable_of_unused [OF assms(2,3)] assms(4) by simp
  moreover have "user_by_id u (d\<lparr>rd_codes := x\<rparr>) = Some user" for x
    using assms(6) by (simp add: user_by_id_def)
  ultimately show ?thesis
    using assms(1,5) by (simp add: redeem_tx_def code_Use_def redeem_benefit_def UpdateBalance_ok use_code_def)
qed

lemma code_by_id_use:
  assumes "codes_ok d" "code_by_code c d = Some r" "CanUse r" "rd_codes d' = use_code now u r d"
  shows "code_by_id (rc_ID r) d' = Some (used_row now u r)"
proof -
  have "r \<in> set (rd_codes d)" using assms(2) by (auto simp: code_by_code_def dest: find_SomeD)
  then have r: "code_by_id (rc_ID r) d = Some r"
    using assms(1) unfolding code_by_id_def codes_ok_def by (auto intro: find_distinct_key)
  have "find (\<lambda>x. rc_ID x = rc_ID r) (rd_codes d') =
      map_option (\<lambda>x. if usable (rc_ID r) x then used_row now u x else x) (code_by_id (rc_ID r) d)"
    unfolding assms(4) use_code_def code_by_id_def
    by (rule find_update_where_same) (simp add: used_row_def)
  with r assms(3) show ?thesis by (simp add: code_by_id_def [of _ d'] usable_def CanUse_def)
qed

lemma redeem_locked_balance_ok:
  assumes "re_fault env = (\<lambda>_. NoFault)" "quiet_redeem env" "codes_ok d" "code_by_code c d = Some r" "CanUse r"
    "rc_Type r = RedeemTypeBalance" "user_by_id u d = Some user"
  shows "fst (redeem_locked env u c d) = Inr (used_row (re_now env) u r) \<and>
    rd_users (snd (redeem_locked env u c d)) =
       credit_user (se_num_add (re_sub env)) u (redeem_amount user (rc_Value r)) (rd_users d)"
proof -
  define d1 where "d1 = d\<lparr>rd_codes := use_code (re_now env) u r d,
     rd_users := credit_user (se_num_add (re_sub env)) u (redeem_amount user (rc_Value r)) (rd_users d)\<rparr>"
  define d2 where "d2 = (if flt (Fin 0) (rc_Value r) then tryAccrueAffiliateRebateForRedeem env u (rc_Value r) d1 else d1)"
  have "rd_codes d2 = use_code (re_now env) u r d" by (simp add: d2_def d1_def)
  from code_by_id_use [OF assms(3,4,5) this]
  have by_id: "code_by_id (rc_ID r) d2 = Some (used_row (re_now env) u r)" .
  have tx: "redeem_tx env u user r d = (Inr (), d1)"
    unfolding d1_def by (rule redeem_tx_balance_ok [OF assms(1,3,4,5,6,7)])
  have "redeem_locked env u c d = (Inr (used_row (re_now env) u r), d2)"
    using tx by_id assms
    by (cases "flt (Fin 0) (rc_Value r)")
      (simp_all add: redeem_locked_def code_GetByCode_def code_found_def user_GetByID_def quiet_redeem_def
        redeem_const_defs code_GetByID_def d2_def Let_def)
  then show ?thesis by (simp add: d2_def d1_def)
qed

lemma releaseRedeemLock_frees:
  "re_fault env RUnlock = NoFault \<Longrightarrow> re_cache env \<Longrightarrow> c \<notin> set (rd_locks (releaseRedeemLock env c d))"
  by (simp add: releaseRedeemLock_def)

lemma RedeemCode_balance_ok:
  assumes "redeem_ready env u c d" "codes_ok d" "code_by_code c d = Some r"
    "rc_Type r = RedeemTypeBalance" "CanUse r" "user_by_id u d = Some user"
  shows "fst (RedeemCode env u c d) = Inr (used_row (re_now env) u r)"
    "rd_users (snd (RedeemCode env u c d)) =
       credit_user (se_num_add (re_sub env)) u (redeem_amount user (rc_Value r)) (rd_users d)"
    "re_cache env \<Longrightarrow> c \<notin> set (rd_locks (snd (RedeemCode env u c d)))"
proof -
  have nf: "re_fault env = (\<lambda>_. NoFault)" "quiet_redeem env" using assms(1) by (auto simp: redeem_ready_def)
  obtain d1 where lock: "acquireRedeemLock env c d = (True, d1)"
    using assms(1) by (cases "re_cache env") (auto simp: acquireRedeemLock_def redeem_ready_def)
  note fr = acquireRedeemLock_frame [OF lock]
  have rate: "checkRedeemRateLimit env u d = Inr ()"
    using assms(1) by (simp add: checkRedeemRateLimit_def redeem_ready_def)
  have "codes_ok d1" "code_by_code c d1 = Some r" "user_by_id u d1 = Some user"
    using assms(2,3,6) fr code_by_code_cong [of d d1] user_by_id_cong [of d d1] by (auto simp: codes_ok_def)
  from redeem_locked_balance_ok [OF nf this(1,2) assms(5,4) this(3)]
  show "fst (RedeemCode env u c d) = Inr (used_row (re_now env) u r)"
    "rd_users (snd (RedeemCode env u c d)) =
       credit_user (se_num_add (re_sub env)) u (redeem_amount user (rc_Value r)) (rd_users d)"
    "re_cache env \<Longrightarrow> c \<notin> set (rd_locks (snd (RedeemCode env u c d)))"
    using rate lock fr nf by (auto simp: RedeemCode_def releaseRedeemLock_frees split: prod.splits)
qed

text \<open>
  Without faults, redeeming an unused balance code credits the user and returns the code as used; a
  negative code takes what it can without pushing the balance below zero (as float arithmetic on the
  balance that was read sees it); and the lock is free again afterwards.
\<close>

theorem redeem_balance_succeeds:
  assumes "redeem_ready env u c d" "codes_ok d" "code_by_code c d = Some r"
    "rc_Type r = RedeemTypeBalance" "CanUse r" "user_by_id u d = Some user"
  shows "fst (RedeemCode env u c d) = Inr (used_row (re_now env) u r) \<and>
    rd_users (snd (RedeemCode env u c d)) =
       credit_user (se_num_add (re_sub env)) u (redeem_amount user (rc_Value r)) (rd_users d) \<and>
    (re_cache env \<longrightarrow> c \<notin> set (rd_locks (snd (RedeemCode env u c d)))) \<and>
    (ua_Balance user = Fin b \<and> 0 \<le> b \<and> flt (rc_Value r) (Fin 0) \<longrightarrow>
       fle (Fin 0) (fadd (ua_Balance user) (redeem_amount user (rc_Value r))))"
proof -
  have "ua_Balance user = Fin b \<and> 0 \<le> b \<and> flt (rc_Value r) (Fin 0) \<Longrightarrow>
       fle (Fin 0) (fadd (ua_Balance user) (redeem_amount user (rc_Value r)))"
    by (cases "rc_Value r") (auto simp: redeem_amount_def f64_of_rat_nonneg not_flt)
  then show ?thesis using RedeemCode_balance_ok [OF assms] by blast
qed

theorem redeem_balance_succeeds_witness:
  "fst (RedeemCode (calm_redeem 9) 5 ''PAY-1'' demo_redeem) = Inr (used_row 9 5 demo_code)"
proof -
  have "redeem_ready (calm_redeem 9) 5 ''PAY-1'' demo_redeem" "codes_ok demo_redeem"
    "code_by_code ''PAY-1'' demo_redeem = Some demo_code" "CanUse demo_code"
    "user_by_id 5 demo_redeem = Some (hd demo_users)"
    by (simp_all add: redeem_ready_def calm_redeem_def quiet_redeem_def demo_redeem_def redeemMaxErrorsPerHour_def
        codes_ok_def code_by_code_def demo_code_def CanUse_def user_by_id_def demo_users_def)
  then show ?thesis
    using redeem_balance_succeeds [of "calm_redeem 9" 5 "''PAY-1''" demo_redeem demo_code "hd demo_users" 0]
    by (simp add: demo_code_def calm_redeem_def)
qed

subsection \<open>Subscription codes\<close>

definition renewable ::
    "redeem_env \<Rightarrow> int64 \<Rightarrow> gostring \<Rightarrow> redeem_code \<Rightarrow> user_sub \<Rightarrow> redeem_db \<Rightarrow> bool" where
  "renewable env u c r s d \<longleftrightarrow> calm (re_sub env) \<and> quiet_redeem env \<and>
     codes_ok d \<and> code_by_code c d = Some r \<and> CanUse r \<and> rc_Type r = RedeemTypeSubscription \<and> rc_GroupID r \<noteq> None \<and>
     0 \<le> rc_ValidityDays r \<and> user_by_id u d \<noteq> None \<and> sub_inv (ss_db (rd_subs d)) \<and>
     sub_group (redeem_input u r) (ss_db (rd_subs d)) \<and>
     sub_row u (the (rc_GroupID r)) (ss_db (rd_subs d)) = Some s"

lemma redeem_input_sel [simp]:
  "ai_UserID (redeem_input u r) = u" "ai_GroupID (redeem_input u r) = the (rc_GroupID r)"
  by (simp_all add: redeem_input_def)

lemma redeem_sub_own_tx:
  assumes "renewable env u c r s d" "rd_subs d' = rd_subs d"
  shows "renews_in_own_tx env u r d'"
  using assms
  by (auto simp: renewable_def renews_in_own_tx_def group_GetByID_def GetByUserIDAndGroupID_def
      sub_group_def calm_sel)

text \<open>
  The transaction of a code that renews a subscription, when only its commit can fail: the renewal is
  there either way, the code is used only when the commit went through.
\<close>

lemma redeem_tx_renewal:
  assumes init: "renewable env u c r s d" and fc: "f = NoFault \<or> f = Lost e"
    and fault: "re_fault env = (\<lambda>k. if k = RCommit then f else NoFault)"
  obtains st res where "redeem_tx env u usr r d =
      (res, d\<lparr>rd_codes := (if f = NoFault then use_code (re_now env) u r d else rd_codes d), rd_subs := st\<rparr>)"
    "isl res \<longleftrightarrow> f \<noteq> NoFault" "sub_inv (ss_db st)" "sd_groups (ss_db st) = sd_groups (ss_db (rd_subs d))"
    "sub_row u (the (rc_GroupID r)) (ss_db st) = Some (extended (se_now (re_sub env)) (redeem_input u r) s)"
proof -
  let ?i = "redeem_input u r"
  define d1 where "d1 = d\<lparr>rd_codes := use_code (re_now env) u r d\<rparr>"
  obtain st where a: "AssignOrExtendSubscription (re_sub env) ?i (rd_subs d) =
        (Inr (extended (se_now (re_sub env)) ?i s, True), st)"
      "sub_inv (ss_db st)" "sd_groups (ss_db st) = sd_groups (ss_db (rd_subs d))"
      "sub_row u (the (rc_GroupID r)) (ss_db st) = Some (extended (se_now (re_sub env)) ?i s)"
    using AssignOrExtend_existing [of "re_sub env" "rd_subs d" ?i s] init
    by (auto simp: renewable_def)
  have "affected (usable (rc_ID r)) (rd_codes d) \<noteq> 0"
    using usable_of_unused [of d c r] init by (auto simp: renewable_def)
  then have use: "code_Use NoFault (re_now env) (rc_ID r) u d = (Inr (), d1)"
    by (simp add: code_Use_def d1_def use_code_def)
  have own: "renews_in_own_tx env u r d1" using redeem_sub_own_tx [OF init] by (simp add: d1_def)
  have ben: "redeem_benefit env u usr r d1 = (Inr (), d1\<lparr>rd_subs := st\<rparr>)"
    using init a(1) by (auto simp: redeem_benefit_def renewable_def redeem_const_defs d1_def)
  show ?thesis
    using that [OF _ _ a(2-4)] use own ben fault fc
    by (cases f) (auto simp: redeem_tx_def redeem_rollback_def d1_def)
qed

lemma redeem_locked_tx:
  assumes "code_GetByCode (re_fault env RGetCode) c d = Inr r" "user_GetByID (re_fault env RUser) u d = Inr user"
    "CanUse r" "rc_Type r = RedeemTypeSubscription" "rc_GroupID r \<noteq> None"
    "redeem_tx env u user r (re_others env d) = (res, d')"
  shows "redeem_locked env u c d = (case res of Inl e \<Rightarrow> (Inl e, d')
     | Inr _ \<Rightarrow> (case code_GetByID (re_fault env RReload) (rc_ID r) d' of
          Inl e \<Rightarrow> (Inl (EWrap ''get updated redeem code'' e), d') | Inr code' \<Rightarrow> (Inr code', d')))"
  using assms by (auto simp: redeem_locked_def redeem_const_defs Let_def split: sum.split)

lemma RedeemCode_renewal:
  assumes init: "renewable env u c r s d" and fc: "f = NoFault \<or> f = Lost e"
    and fault: "re_fault env = (\<lambda>k. if k = RCommit then f else NoFault)" 
    and below: "rd_attempts d u < redeemMaxErrorsPerHour" and free: "c \<notin> set (rd_locks d)"
    and d': "d' = snd (RedeemCode env u c d)"
  shows "f \<noteq> NoFault \<longrightarrow> isl (fst (RedeemCode env u c d))"
    "rd_codes d' = (if f = NoFault then use_code (re_now env) u r d else rd_codes d)"
    "rd_users d' = rd_users d" "rd_attempts d' = rd_attempts d" "c \<notin> set (rd_locks d')"
    "sub_inv (ss_db (rd_subs d'))" "sd_groups (ss_db (rd_subs d')) = sd_groups (ss_db (rd_subs d))"
    "sub_row u (the (rc_GroupID r)) (ss_db (rd_subs d')) = Some (extended (se_now (re_sub env)) (redeem_input u r) s)"
proof -
  define d1 where "d1 = (if re_cache env then d\<lparr>rd_locks := c # rd_locks d\<rparr> else d)"
  have lock: "acquireRedeemLock env c d = (True, d1)"
    using free fault by (auto simp: acquireRedeemLock_def renewable_def d1_def)
  have rate: "checkRedeemRateLimit env u d = Inr ()"
    using below fault by (auto simp: checkRedeemRateLimit_def renewable_def)
  have init1: "renewable env u c r s d1"
    using init by (auto simp: renewable_def d1_def codes_ok_def code_by_code_def user_by_id_def)
  have get: "code_GetByCode NoFault c d1 = Inr r" "CanUse r" "rc_Type r = RedeemTypeSubscription"
    "rc_GroupID r \<noteq> None" "re_others env = (\<lambda>d. d)"
    using init1 by (auto simp: renewable_def code_GetByCode_def code_found_def quiet_redeem_def)
  obtain user where user: "user_GetByID NoFault u d1 = Inr user"
    using init1 by (auto simp: renewable_def user_GetByID_def)
  obtain st res where tx: "redeem_tx env u user r d1 =
      (res, d1\<lparr>rd_codes := (if f = NoFault then use_code (re_now env) u r d1 else rd_codes d1), rd_subs := st\<rparr>)"
    "isl res \<longleftrightarrow> f \<noteq> NoFault" "sub_inv (ss_db st)" "sd_groups (ss_db st) = sd_groups (ss_db (rd_subs d1))"
    "sub_row u (the (rc_GroupID r)) (ss_db st) = Some (extended (se_now (re_sub env)) (redeem_input u r) s)"
    using redeem_tx_renewal [OF init1 fc fault] by metis
  define d2 where "d2 = d1\<lparr>rd_codes := (if f = NoFault then use_code (re_now env) u r d1 else rd_codes d1), rd_subs := st\<rparr>"
  have "redeem_tx env u user r (re_others env d1) = (res, d2)" using tx(1) get(5) by (simp add: d2_def)
  from redeem_locked_tx [OF _ _ get(2-4) this] get(1) user fault tx(2)
  have "snd (redeem_locked env u c d1) = d2 \<and> (f \<noteq> NoFault \<longrightarrow> isl (fst (redeem_locked env u c d1)))"
    by (auto split: sum.splits)
  then obtain res' where locked: "redeem_locked env u c d1 = (res', d2)" "f \<noteq> NoFault \<longrightarrow> isl res'"
    by (cases "redeem_locked env u c d1") auto
  have run: "RedeemCode env u c d = (res', releaseRedeemLock env c d2)"
    using rate lock locked(1) by (simp add: RedeemCode_def)
  have "c \<notin> set (rd_locks (releaseRedeemLock env c d2))" "rd_attempts (releaseRedeemLock env c d2) = rd_attempts d2"
    using free fault by (auto simp: releaseRedeemLock_def d2_def d1_def)
  with run locked(2) tx(3-5) d'
  show "f \<noteq> NoFault \<longrightarrow> isl (fst (RedeemCode env u c d))"
    "rd_codes d' = (if f = NoFault then use_code (re_now env) u r d else rd_codes d)"
    "rd_users d' = rd_users d" "rd_attempts d' = rd_attempts d" "c \<notin> set (rd_locks d')"
    "sub_inv (ss_db (rd_subs d'))" "sd_groups (ss_db (rd_subs d')) = sd_groups (ss_db (rd_subs d))"
    "sub_row u (the (rc_GroupID r)) (ss_db (rd_subs d')) = Some (extended (se_now (re_sub env)) (redeem_input u r) s)"
    by (auto simp: d2_def d1_def use_code_def)
qed

text \<open>
  A renewal is not undone with its code. When the commit of the redeem transaction is lost, the
  call fails and the code stays unused, but the renewal of an existing subscription, which runs in a
  transaction of its own, is kept; redeeming the same code again succeeds and renews a second time.
\<close>

theorem renewal_outlives_lost_redeem:
  assumes "renewable env u c r s d" "rd_attempts d u < redeemMaxErrorsPerHour" "c \<notin> set (rd_locks d)"
    "re_fault env = (\<lambda>k. if k = RCommit then Lost e else NoFault)"
    "calm (re_sub env2)" "quiet_redeem env2" "re_fault env2 = (\<lambda>_. NoFault)"
    "d1 = snd (RedeemCode env u c d)" "d2 = snd (RedeemCode env2 u c d1)"
  shows "isl (fst (RedeemCode env u c d)) \<and> code_by_code c d1 = Some r
    \<and> code_by_code c d2 = Some (used_row (re_now env2) u r)
    \<and> sub_row u (the (rc_GroupID r)) (ss_db (rd_subs d2)) =
        Some (extended (se_now (re_sub env2)) (redeem_input u r)
               (extended (se_now (re_sub env)) (redeem_input u r) s))"
proof -
  note ren = assms(1) [unfolded renewable_def]
  note one = RedeemCode_renewal [OF assms(1) _ assms(4,2,3) assms(8)]
  have c1: "code_by_code c d1 = Some r" "codes_ok d1"
    using one(2) ren code_by_code_cong [of d1 d] by (auto simp: codes_ok_def)
  have "renewable env2 u c r (extended (se_now (re_sub env)) (redeem_input u r) s) d1"
    using ren c1 one(3,6-8) assms(5,6) user_by_id_cong [of d1 d] by (simp add: renewable_def sub_group_def)
  note two = RedeemCode_renewal [OF this, of NoFault, OF _ _ _ _ assms(9)]
  have "rd_codes d2 = use_code (re_now env2) u r d1"
    using two(2) assms(2,7) one(4,5) by simp
  from code_by_code_use(1) [OF c1(2,1) this] ren
  show ?thesis using one(1) c1 two(8) assms(2,7) one(4,5) by auto
qed

definition demo_sub_code :: redeem_code where
  "demo_sub_code = demo_code\<lparr>rc_Code := ''SUB-1'', rc_Type := RedeemTypeSubscription, rc_GroupID := Some 3,
     rc_ValidityDays := 30\<rparr>"

definition demo_redeem_sub :: redeem_db where
  "demo_redeem_sub = demo_redeem\<lparr>rd_codes := [demo_sub_code], rd_subs := demo_subs1\<rparr>"

definition lost_commit_redeem :: redeem_env where
  "lost_commit_redeem =
     (calm_redeem 0)\<lparr>re_fault := (\<lambda>k. if k = RCommit then Lost (EPlain ''connection reset'') else NoFault)\<rparr>"

theorem renewal_outlives_lost_redeem_witness:
  "map_option us_ExpiresAt (sub_row 5 3 (ss_db (rd_subs
     (snd (RedeemCode (calm_redeem 0) 5 ''SUB-1'' (snd (RedeemCode lost_commit_redeem 5 ''SUB-1'' demo_redeem_sub))))))) =
   Some (70 * (24 * Hour))"
proof -
  have "renewable lost_commit_redeem 5 ''SUB-1'' demo_sub_code demo_sub demo_redeem_sub"
    using demo_subs1_facts(1-3)
    by (simp add: renewable_def lost_commit_redeem_def calm_redeem_def quiet_redeem_def codes_ok_def
        demo_redeem_sub_def code_by_code_def demo_sub_code_def demo_code_def CanUse_def demo_redeem_def
        user_by_id_def demo_users_def sub_group_def demo_input_def)
  from renewal_outlives_lost_redeem [OF this, of "EPlain ''connection reset''" "calm_redeem 0", OF _ _ _ _ _ _ refl refl]
  show ?thesis
    by (simp add: lost_commit_redeem_def calm_redeem_def quiet_redeem_def demo_redeem_sub_def demo_redeem_def
        demo_sub_code_def redeemMaxErrorsPerHour_def extended_def redeem_input_def demo_sub_def
        normalizeAssignValidityDays_def MaxValidityDays_def MaxExpiresAt_def duration_defs Let_def)
qed

end
