(* ===== verification/PaymentTypes.thy ===== *)
theory PaymentTypes
  imports Redeem
begin

text \<open>
  The vocabulary of payments: \<open>internal/payment/types.go\<close>, \<open>currency.go\<close>, \<open>fee.go\<close>,
  \<open>registry.go\<close>, the type matching of \<open>load_balancer.go\<close>, the amounts of
  \<open>internal/service/payment_amounts.go\<close> and the binding of an order to the provider instance it was
  paid through (\<open>payment_order_provider_snapshot.go\<close>, the first part of \<open>payment_refund.go\<close>). The
  records of orders and provider instances follow \<open>ent/schema\<close>. Package \<open>decimal\<close> is a parameter,
  the record \<open>decimal_lib\<close>. \<open>strings.EqualFold\<close> folds the ASCII letters and the two other code
  points that fold to one of them, U+017F and U+212A; other letters are compared byte by byte, since the
  provider keys and merchant identifiers compared with it are ASCII.
\<close>

subsection \<open>Strings\<close>

definition lower_char :: "char \<Rightarrow> char" where
  "lower_char c = (if 65 \<le> (of_char c :: nat) \<and> (of_char c :: nat) \<le> 90 then char_of ((of_char c :: nat) + 32) else c)"
definition upper_char :: "char \<Rightarrow> char" where
  "upper_char c = (if 97 \<le> (of_char c :: nat) \<and> (of_char c :: nat) \<le> 122 then char_of ((of_char c :: nat) - 32) else c)"

fun fold_key :: "gostring \<Rightarrow> gostring" where
  "fold_key [] = []"
| "fold_key (c # cs) =
     (if prefix [CHR 0xC5, CHR 0xBF] (c # cs) then CHR ''s'' # fold_key (drop 1 cs)
      else if prefix [CHR 0xE2, CHR 0x84, CHR 0xAA] (c # cs) then CHR ''k'' # fold_key (drop 2 cs)
      else lower_char c # fold_key cs)"

definition EqualFold :: "gostring \<Rightarrow> gostring \<Rightarrow> bool" where
  "EqualFold s t \<longleftrightarrow> fold_key s = fold_key t"

lemma EqualFold_refl [simp]: "EqualFold s s"
  by (simp add: EqualFold_def)

text \<open>
  \<open>strings.ToUpper\<close>: outside ASCII only the code points whose upper case is an ASCII letter, U+0131
  and U+017F, are converted, which is all that the checks below can tell apart.
\<close>

fun to_upper :: "gostring \<Rightarrow> gostring" where
  "to_upper [] = []"
| "to_upper (c # cs) =
     (if prefix [CHR 0xC4, CHR 0xB1] (c # cs) then CHR ''I'' # to_upper (drop 1 cs)
      else if prefix [CHR 0xC5, CHR 0xBF] (c # cs) then CHR ''S'' # to_upper (drop 1 cs)
      else upper_char c # to_upper cs)"

fun split_on :: "char \<Rightarrow> gostring \<Rightarrow> gostring list" where
  "split_on sep [] = [[]]"
| "split_on sep (c # cs) =
     (if c = sep then [] # split_on sep cs
      else case split_on sep cs of [] \<Rightarrow> [[c]] | w # ws \<Rightarrow> (c # w) # ws)"

subsection \<open>Constants\<close>

definition TypeAlipay :: gostring where "TypeAlipay = ''alipay''"
definition TypeWxpay :: gostring where "TypeWxpay = ''wxpay''"
definition TypeAlipayDirect :: gostring where "TypeAlipayDirect = ''alipay_direct''"
definition TypeWxpayDirect :: gostring where "TypeWxpayDirect = ''wxpay_direct''"
definition TypeStripe :: gostring where "TypeStripe = ''stripe''"
definition TypeCard :: gostring where "TypeCard = ''card''"
definition TypeLink :: gostring where "TypeLink = ''link''"
definition TypeEasyPay :: gostring where "TypeEasyPay = ''easypay''"
definition TypeAirwallex :: gostring where "TypeAirwallex = ''airwallex''"

lemmas pay_type_defs = TypeAlipay_def TypeWxpay_def TypeAlipayDirect_def TypeWxpayDirect_def TypeStripe_def
  TypeCard_def TypeLink_def TypeEasyPay_def TypeAirwallex_def

definition OrderStatusPending :: gostring where "OrderStatusPending = ''PENDING''"
definition OrderStatusPaid :: gostring where "OrderStatusPaid = ''PAID''"
definition OrderStatusRecharging :: gostring where "OrderStatusRecharging = ''RECHARGING''"
definition OrderStatusCompleted :: gostring where "OrderStatusCompleted = ''COMPLETED''"
definition OrderStatusExpired :: gostring where "OrderStatusExpired = ''EXPIRED''"
definition OrderStatusCancelled :: gostring where "OrderStatusCancelled = ''CANCELLED''"
definition OrderStatusFailed :: gostring where "OrderStatusFailed = ''FAILED''"
definition OrderStatusRefundRequested :: gostring where "OrderStatusRefundRequested = ''REFUND_REQUESTED''"
definition OrderStatusRefunding :: gostring where "OrderStatusRefunding = ''REFUNDING''"
definition OrderStatusPartiallyRefunded :: gostring where "OrderStatusPartiallyRefunded = ''PARTIALLY_REFUNDED''"
definition OrderStatusRefunded :: gostring where "OrderStatusRefunded = ''REFUNDED''"
definition OrderStatusRefundFailed :: gostring where "OrderStatusRefundFailed = ''REFUND_FAILED''"

lemmas order_status_defs = OrderStatusPending_def OrderStatusPaid_def OrderStatusRecharging_def
  OrderStatusCompleted_def OrderStatusExpired_def OrderStatusCancelled_def OrderStatusFailed_def
  OrderStatusRefundRequested_def OrderStatusRefunding_def OrderStatusPartiallyRefunded_def
  OrderStatusRefunded_def OrderStatusRefundFailed_def

definition OrderTypeBalance :: gostring where "OrderTypeBalance = ''balance''"
definition OrderTypeSubscription :: gostring where "OrderTypeSubscription = ''subscription''"
definition EntityStatusActive :: gostring where "EntityStatusActive = ''active''"
definition DeductionTypeBalance :: gostring where "DeductionTypeBalance = ''balance''"
definition DeductionTypeSubscription :: gostring where "DeductionTypeSubscription = ''subscription''"
definition DeductionTypeNone :: gostring where "DeductionTypeNone = ''none''"
definition NotificationStatusSuccess :: gostring where "NotificationStatusSuccess = ''success''"
definition ProviderStatusPending :: gostring where "ProviderStatusPending = ''pending''"
definition ProviderStatusPaid :: gostring where "ProviderStatusPaid = ''paid''"
definition ProviderStatusSuccess :: gostring where "ProviderStatusSuccess = ''success''"
definition ProviderStatusFailed :: gostring where "ProviderStatusFailed = ''failed''"
definition ProviderStatusRefunded :: gostring where "ProviderStatusRefunded = ''refunded''"

lemmas pay_const_defs = OrderTypeBalance_def OrderTypeSubscription_def EntityStatusActive_def
  DeductionTypeBalance_def DeductionTypeSubscription_def DeductionTypeNone_def
  NotificationStatusSuccess_def ProviderStatusPending_def ProviderStatusPaid_def ProviderStatusSuccess_def
  ProviderStatusFailed_def ProviderStatusRefunded_def

definition psIsRefundStatus :: "gostring \<Rightarrow> bool" where
  "psIsRefundStatus s \<longleftrightarrow> s \<in> {OrderStatusRefundRequested, OrderStatusRefunding, OrderStatusPartiallyRefunded,
     OrderStatusRefunded, OrderStatusRefundFailed}"

definition GetBasePaymentType :: "gostring \<Rightarrow> gostring" where
  "GetBasePaymentType t =
     (if t = TypeEasyPay then TypeEasyPay
      else if t = TypeAirwallex then TypeAirwallex
      else if t = TypeStripe \<or> t = TypeCard \<or> t = TypeLink then TypeStripe
      else if length TypeAlipay \<le> length t \<and> take (length TypeAlipay) t = TypeAlipay then TypeAlipay
      else if length TypeWxpay \<le> length t \<and> take (length TypeWxpay) t = TypeWxpay then TypeWxpay
      else t)"

definition normalizeVisibleMethodSupportType :: "gostring \<Rightarrow> gostring" where
  "normalizeVisibleMethodSupportType paymentType =
     (let t = trim_space paymentType in
      if t = TypeAlipay \<or> t = TypeAlipayDirect then TypeAlipay
      else if t = TypeWxpay \<or> t = TypeWxpayDirect then TypeWxpay
      else t)"

definition InstanceSupportsType :: "gostring \<Rightarrow> gostring \<Rightarrow> bool" where
  "InstanceSupportsType supportedTypes target =
     (if supportedTypes = [] then True
      else list_ex (\<lambda>t. trim_space t = target \<or>
             normalizeVisibleMethodSupportType (trim_space t) = normalizeVisibleMethodSupportType target)
           (split_on CHR '','' supportedTypes))"

definition psComputeValidityDays :: "int \<Rightarrow> gostring \<Rightarrow> int" where
  "psComputeValidityDays days unit =
     (if unit = ''week'' then days * 7 else if unit = ''month'' then days * 30 else days)"

subsection \<open>Orders and provider instances\<close>

datatype snap_value = SString gostring | SInt int | SFloat f64 | SOther

record pay_order =
  po_ID :: int64
  po_UserID :: int64
  po_UserEmail :: gostring
  po_UserName :: gostring
  po_UserNotes :: "gostring option"
  po_Amount :: f64
  po_PayAmount :: f64
  po_FeeRate :: f64
  po_RechargeCode :: gostring
  po_OutTradeNo :: gostring
  po_PaymentType :: gostring
  po_PaymentTradeNo :: gostring
  po_PayURL :: "gostring option"
  po_QRCode :: "gostring option"
  po_QRCodeImg :: "gostring option"
  po_OrderType :: gostring
  po_PlanID :: "int64 option"
  po_SubscriptionGroupID :: "int64 option"
  po_SubscriptionDays :: "int option"
  po_ProviderInstanceID :: "gostring option"
  po_ProviderKey :: "gostring option"
  po_ProviderSnapshot :: "(gostring \<times> snap_value) list"
  po_Status :: gostring
  po_RefundAmount :: f64
  po_RefundReason :: "gostring option"
  po_RefundAt :: "time option"
  po_ForceRefund :: bool
  po_RefundRequestedAt :: "time option"
  po_RefundRequestReason :: "gostring option"
  po_RefundRequestedBy :: "gostring option"
  po_ExpiresAt :: time
  po_PaidAt :: "time option"
  po_CompletedAt :: "time option"
  po_FailedAt :: "time option"
  po_FailedReason :: "gostring option"
  po_ClientIP :: gostring
  po_SrcHost :: gostring
  po_SrcURL :: "gostring option"
  po_CreatedAt :: time
  po_UpdatedAt :: time

record pay_instance =
  pi_ID :: int64
  pi_ProviderKey :: gostring
  pi_Name :: gostring
  pi_Config :: gostring
  pi_SupportedTypes :: gostring
  pi_Enabled :: bool
  pi_PaymentMode :: gostring
  pi_SortOrder :: int
  pi_Limits :: gostring
  pi_RefundEnabled :: bool
  pi_AllowUserRefund :: bool
  pi_CreatedAt :: time
  pi_UpdatedAt :: time

definition psStringValue :: "gostring option \<Rightarrow> gostring" where
  "psStringValue v = (case v of None \<Rightarrow> [] | Some s \<Rightarrow> s)"

subsection \<open>The provider snapshot of an order\<close>

record pay_snapshot =
  sn_SchemaVersion :: int
  sn_ProviderInstanceID :: gostring
  sn_ProviderKey :: gostring
  sn_PaymentMode :: gostring
  sn_MerchantAppID :: gostring
  sn_MerchantID :: gostring
  sn_Currency :: gostring

definition psSnapshotStringValue :: "snap_value option \<Rightarrow> gostring" where
  "psSnapshotStringValue v = (case v of Some (SString s) \<Rightarrow> trim_space s | _ \<Rightarrow> [])"

definition psSnapshotIntValue :: "snap_value option \<Rightarrow> int" where
  "psSnapshotIntValue v = (case v of
     Some (SInt n) \<Rightarrow> n
   | Some (SFloat x) \<Rightarrow> f64_to_int min_int64 x
   | Some (SString s) \<Rightarrow> (case parse_int64 (trim_space s) of Some n \<Rightarrow> n | None \<Rightarrow> 0)
   | _ \<Rightarrow> 0)"

definition psOrderProviderSnapshot :: "pay_order \<Rightarrow> pay_snapshot option" where
  "psOrderProviderSnapshot ord =
     (if po_ProviderSnapshot ord = [] then None
      else let m = map_of (po_ProviderSnapshot ord);
               sn = \<lparr>sn_SchemaVersion = psSnapshotIntValue (m ''schema_version''),
                     sn_ProviderInstanceID = psSnapshotStringValue (m ''provider_instance_id''),
                     sn_ProviderKey = psSnapshotStringValue (m ''provider_key''),
                     sn_PaymentMode = psSnapshotStringValue (m ''payment_mode''),
                     sn_MerchantAppID = psSnapshotStringValue (m ''merchant_app_id''),
                     sn_MerchantID = psSnapshotStringValue (m ''merchant_id''),
                     sn_Currency = psSnapshotStringValue (m ''currency'')\<rparr>
           in if sn_SchemaVersion sn = 0 \<and> sn_ProviderInstanceID sn = [] \<and> sn_ProviderKey sn = []
                 \<and> sn_PaymentMode sn = [] \<and> sn_MerchantAppID sn = [] \<and> sn_MerchantID sn = [] \<and> sn_Currency sn = []
              then None else Some sn)"

definition instance_by_id :: "int64 \<Rightarrow> pay_instance list \<Rightarrow> pay_instance result" where
  "instance_by_id i insts = (case find (\<lambda>p. pi_ID p = i) insts of None \<Rightarrow> Inl ent_not_found | Some p \<Rightarrow> Inr p)"

definition resolveSnapshotOrderProviderInstance ::
    "fault \<Rightarrow> pay_instance list \<Rightarrow> pay_order \<Rightarrow> pay_snapshot \<Rightarrow> pay_instance option result" where
  "resolveSnapshotOrderProviderInstance f insts ord sn =
     (let columnInstanceID = trim_space (psStringValue (po_ProviderInstanceID ord));
          snapshotInstanceID = (if trim_space (sn_ProviderInstanceID sn) = [] then columnInstanceID
                                else trim_space (sn_ProviderInstanceID sn))
      in if snapshotInstanceID = [] then Inl (EPlain ''provider snapshot is missing provider_instance_id'')
         else if columnInstanceID \<noteq> [] \<and> sn_ProviderInstanceID sn \<noteq> []
                 \<and> \<not> EqualFold columnInstanceID (sn_ProviderInstanceID sn)
              then Inl (EPlain ''provider snapshot instance mismatch'')
         else case parse_int64 snapshotInstanceID of
           None \<Rightarrow> Inl (EPlain ''provider snapshot instance id is invalid'')
         | Some instID \<Rightarrow>
             (case read_fault f (instance_by_id instID insts) of
                Inl e \<Rightarrow> Inl (if errors_is e ent_not_found then EPlain ''provider snapshot instance is missing'' else e)
              | Inr inst \<Rightarrow>
                  if sn_ProviderKey sn \<noteq> [] \<and> \<not> EqualFold (trim_space (pi_ProviderKey inst)) (sn_ProviderKey sn)
                  then Inl (EPlain ''provider snapshot key mismatch'')
                  else Inr (Some inst)))"

definition psLegacyOrderMatchesInstance :: "gostring \<Rightarrow> pay_instance \<Rightarrow> bool" where
  "psLegacyOrderMatchesInstance orderPaymentType inst =
     (let baseType = GetBasePaymentType (trim_space orderPaymentType);
          instanceProviderKey = trim_space (pi_ProviderKey inst)
      in if baseType = [] then False
         else if baseType = TypeStripe then instanceProviderKey = TypeStripe
         else if instanceProviderKey = TypeStripe then False
         else if instanceProviderKey = baseType then True
         else InstanceSupportsType (pi_SupportedTypes inst) baseType)"

definition psFilterLegacyOrderProviderInstances :: "gostring \<Rightarrow> pay_instance list \<Rightarrow> pay_instance list" where
  "psFilterLegacyOrderProviderInstances orderPaymentType insts =
     (if insts = [] then []
      else if trim_space orderPaymentType = [] then insts
      else filter (psLegacyOrderMatchesInstance orderPaymentType) insts)"

definition the_only :: "'a list \<Rightarrow> 'a option" where
  "the_only xs = (case xs of [x] \<Rightarrow> Some x | _ \<Rightarrow> None)"

definition resolveUniqueLegacyOrderProviderInstance ::
    "fault \<Rightarrow> pay_instance list \<Rightarrow> pay_order \<Rightarrow> pay_instance option result" where
  "resolveUniqueLegacyOrderProviderInstance f insts ord =
     (let paymentType = GetBasePaymentType (trim_space (po_PaymentType ord));
          providerKey = trim_space (psStringValue (po_ProviderKey ord))
      in if providerKey \<noteq> [] then
           (case read_fault f (Inr (filter (\<lambda>p. pi_ProviderKey p = providerKey) insts)) of
              Inl e \<Rightarrow> Inl e
            | Inr ps \<Rightarrow> Inr (the_only (psFilterLegacyOrderProviderInstances paymentType ps)))
         else if paymentType = [] then Inr None
         else (case read_fault f (Inr insts) of
              Inl e \<Rightarrow> Inl e
            | Inr ps \<Rightarrow> Inr (the_only (psFilterLegacyOrderProviderInstances paymentType ps))))"

definition getOrderProviderInstance ::
    "fault \<Rightarrow> pay_instance list \<Rightarrow> pay_order \<Rightarrow> pay_instance option result" where
  "getOrderProviderInstance f insts ord = (case psOrderProviderSnapshot ord of
     Some sn \<Rightarrow> resolveSnapshotOrderProviderInstance f insts ord sn
   | None \<Rightarrow>
       (let instIDStr = trim_space (psStringValue (po_ProviderInstanceID ord))
        in if instIDStr = [] then resolveUniqueLegacyOrderProviderInstance f insts ord
           else case parse_int64 instIDStr of
                  None \<Rightarrow> Inr None
                | Some instID \<Rightarrow>
                    (case read_fault f (instance_by_id instID insts) of Inl e \<Rightarrow> Inl e | Inr p \<Rightarrow> Inr (Some p))))"

definition getRefundOrderProviderInstance ::
    "fault \<Rightarrow> pay_instance list \<Rightarrow> pay_order \<Rightarrow> pay_instance option result" where
  "getRefundOrderProviderInstance f insts ord = (case psOrderProviderSnapshot ord of
     Some sn \<Rightarrow> resolveSnapshotOrderProviderInstance f insts ord sn
   | None \<Rightarrow>
       (let instIDStr = trim_space (psStringValue (po_ProviderInstanceID ord))
        in if instIDStr = [] then Inr None
           else case parse_int64 instIDStr of
                  None \<Rightarrow> Inl (EPlain ''refund provider instance id is invalid'')
                | Some instID \<Rightarrow>
                    (case read_fault f (instance_by_id instID insts) of
                       Inl e \<Rightarrow> Inl (if errors_is e ent_not_found
                                     then EPlain ''refund provider instance is missing'' else e)
                     | Inr p \<Rightarrow> Inr (Some p))))"

subsection \<open>The registry\<close>

text \<open>
  The registry maps a payment type to the provider registered last for it; a provider is represented by
  its key and the types it supports.
\<close>

record pay_provider =
  pp_Key :: gostring
  pp_Types :: "gostring list"

type_synonym registry = "gostring \<rightharpoonup> pay_provider"

definition ErrProviderNotFound :: app_error where
  "ErrProviderNotFound = NotFound ''PROVIDER_NOT_FOUND'' ''payment provider not registered''"

definition NewRegistry :: registry where "NewRegistry = Map.empty"
definition Register :: "pay_provider \<Rightarrow> registry \<Rightarrow> registry" where
  "Register p r = fold (\<lambda>t m. m(t \<mapsto> p)) (pp_Types p) r"
definition GetProvider :: "gostring \<Rightarrow> registry \<Rightarrow> pay_provider result" where
  "GetProvider t r = (case r t of None \<Rightarrow> Inl (EApp ErrProviderNotFound) | Some p \<Rightarrow> Inr p)"
definition GetProviderKey :: "gostring \<Rightarrow> registry \<Rightarrow> gostring" where
  "GetProviderKey t r = (case r t of None \<Rightarrow> [] | Some p \<Rightarrow> pp_Key p)"

definition expectedNotificationProviderKey ::
    "registry option \<Rightarrow> gostring \<Rightarrow> gostring \<Rightarrow> gostring \<Rightarrow> gostring" where
  "expectedNotificationProviderKey reg orderPaymentType orderProviderKey instanceProviderKey =
     (if trim_space instanceProviderKey \<noteq> [] then trim_space instanceProviderKey
      else if trim_space orderProviderKey \<noteq> [] then trim_space orderProviderKey
      else case reg of
        Some r \<Rightarrow> if trim_space (GetProviderKey orderPaymentType r) \<noteq> []
                   then trim_space (GetProviderKey orderPaymentType r) else trim_space orderPaymentType
      | None \<Rightarrow> trim_space orderPaymentType)"

definition expectedNotificationProviderKeyForOrder :: "registry option \<Rightarrow> pay_order \<Rightarrow> gostring \<Rightarrow> gostring" where
  "expectedNotificationProviderKeyForOrder reg ord instanceProviderKey =
     (let orderProviderKey = (case psOrderProviderSnapshot ord of
            Some sn \<Rightarrow> if sn_ProviderKey sn \<noteq> [] then sn_ProviderKey sn else psStringValue (po_ProviderKey ord)
          | None \<Rightarrow> psStringValue (po_ProviderKey ord))
      in expectedNotificationProviderKey reg (po_PaymentType ord) orderProviderKey instanceProviderKey)"

subsection \<open>Metadata of a notification against the snapshot\<close>

type_synonym metadata = "(gostring \<times> gostring) list"

definition meta :: "metadata \<Rightarrow> gostring \<Rightarrow> gostring" where
  "meta md k = (case map_of md k of None \<Rightarrow> [] | Some v \<Rightarrow> v)"

text \<open>One check of \<open>validateProviderSnapshotMetadata\<close>: a value pinned in the snapshot must be reported and equal.\<close>

definition check_pinned :: "gostring \<Rightarrow> gostring \<Rightarrow> gostring \<Rightarrow> unit result" where
  "check_pinned what expected actual =
     (if expected = [] then Inr ()
      else if actual = [] then Inl (EPlain (what @ '' missing''))
      else if \<not> EqualFold expected actual then Inl (EPlain (what @ '' mismatch''))
      else Inr ())"

definition check_state :: "gostring \<Rightarrow> gostring \<Rightarrow> gostring \<Rightarrow> unit result" where
  "check_state what wanted actual =
     (if actual \<noteq> [] \<and> \<not> EqualFold actual wanted then Inl (EPlain (what @ '' mismatch'')) else Inr ())"

definition both :: "unit result \<Rightarrow> unit result \<Rightarrow> unit result" where
  "both a b = (case a of Inl e \<Rightarrow> Inl e | Inr _ \<Rightarrow> b)"

lemma both_Inr [simp]: "both a b = Inr () \<longleftrightarrow> a = Inr () \<and> b = Inr ()"
  by (simp add: both_def split: sum.split)

definition validateProviderSnapshotMetadata :: "pay_order \<Rightarrow> gostring \<Rightarrow> metadata \<Rightarrow> unit result" where
  "validateProviderSnapshotMetadata ord providerKey md =
     (if md = [] then Inr ()
      else case psOrderProviderSnapshot ord of
        None \<Rightarrow> Inr ()
      | Some sn \<Rightarrow>
         (let key = trim_space providerKey;
              appID = trim_space (sn_MerchantAppID sn); mchID = trim_space (sn_MerchantID sn);
              cur = trim_space (sn_Currency sn); cur' = to_upper (trim_space (meta md ''currency''))
          in if key = TypeWxpay then
               both (check_pinned ''wxpay appid'' appID (trim_space (meta md ''appid'')))
                (both (check_pinned ''wxpay mchid'' mchID (trim_space (meta md ''mchid'')))
                 (both (check_pinned ''wxpay currency'' cur cur')
                  (check_state ''wxpay trade_state'' ''SUCCESS'' (trim_space (meta md ''trade_state'')))))
             else if key = TypeAlipay then
               check_pinned ''alipay app_id'' appID (trim_space (meta md ''app_id''))
             else if key = TypeEasyPay then
               check_pinned ''easypay pid'' mchID (trim_space (meta md ''pid''))
             else if key = TypeStripe then check_pinned ''stripe currency'' cur cur'
             else if key = TypeAirwallex then
               both (check_pinned ''airwallex account_id'' mchID (trim_space (meta md ''account_id'')))
                (both (check_pinned ''airwallex currency'' cur cur')
                 (check_state ''airwallex status'' ''SUCCEEDED'' (trim_space (meta md ''status''))))
             else Inr ()))"

subsection \<open>Currencies\<close>

definition DefaultPaymentCurrency :: gostring where "DefaultPaymentCurrency = ''CNY''"

definition is_upper :: "char \<Rightarrow> bool" where
  "is_upper c \<longleftrightarrow> 65 \<le> (of_char c :: nat) \<and> (of_char c :: nat) \<le> 90"

definition NormalizePaymentCurrency :: "gostring \<Rightarrow> gostring result" where
  "NormalizePaymentCurrency raw =
     (let currency = to_upper (trim_space raw)
      in if currency = [] then Inr DefaultPaymentCurrency
         else if length currency \<noteq> 3 then Inl (EPlain ''payment currency must be a 3-letter ISO currency code'')
         else if list_ex (\<lambda>c. \<not> is_upper c) currency
              then Inl (EPlain ''payment currency must be a 3-letter ISO currency code'')
         else Inr currency)"

record currency_unit =
  cu_apiMinorUnit :: nat
  cu_maxFractionDigits :: nat

definition zeroDecimalAmountUnit :: currency_unit where
  "zeroDecimalAmountUnit = \<lparr>cu_apiMinorUnit = 0, cu_maxFractionDigits = 0\<rparr>"
definition twoDecimalAmountUnit :: currency_unit where
  "twoDecimalAmountUnit = \<lparr>cu_apiMinorUnit = 2, cu_maxFractionDigits = 2\<rparr>"
definition threeDecimalAmountUnit :: currency_unit where
  "threeDecimalAmountUnit = \<lparr>cu_apiMinorUnit = 3, cu_maxFractionDigits = 3\<rparr>"
definition stripeLegacyZeroAmount :: currency_unit where
  "stripeLegacyZeroAmount = \<lparr>cu_apiMinorUnit = 2, cu_maxFractionDigits = 0\<rparr>"

lemmas currency_unit_defs = zeroDecimalAmountUnit_def twoDecimalAmountUnit_def threeDecimalAmountUnit_def
  stripeLegacyZeroAmount_def

definition paymentCurrencyAmountUnits :: "gostring \<rightharpoonup> currency_unit" where
  "paymentCurrencyAmountUnits =
     map_of (map (\<lambda>c. (c, zeroDecimalAmountUnit))
               [''BIF'', ''CLP'', ''DJF'', ''GNF'', ''JPY'', ''KMF'', ''KRW'', ''MGA'', ''PYG'', ''RWF'', ''VND'',
                ''VUV'', ''XAF'', ''XOF'', ''XPF'']
           @ map (\<lambda>c. (c, stripeLegacyZeroAmount)) [''ISK'', ''UGX'']
           @ map (\<lambda>c. (c, threeDecimalAmountUnit)) [''BHD'', ''IQD'', ''JOD'', ''KWD'', ''LYD'', ''OMR'', ''TND''])"

definition paymentCurrencyAmountUnitFor :: "gostring \<Rightarrow> currency_unit" where
  "paymentCurrencyAmountUnitFor currency = (case NormalizePaymentCurrency currency of
     Inl _ \<Rightarrow> twoDecimalAmountUnit
   | Inr normalized \<Rightarrow> (case paymentCurrencyAmountUnits normalized of
       Some u \<Rightarrow> u | None \<Rightarrow> twoDecimalAmountUnit))"

definition CurrencyMinorUnit :: "gostring \<Rightarrow> nat" where
  "CurrencyMinorUnit currency = cu_apiMinorUnit (paymentCurrencyAmountUnitFor currency)"
definition CurrencyMaxFractionDigits :: "gostring \<Rightarrow> nat" where
  "CurrencyMaxFractionDigits currency = cu_maxFractionDigits (paymentCurrencyAmountUnitFor currency)"

definition PaymentOrderCurrency :: "pay_order \<Rightarrow> gostring" where
  "PaymentOrderCurrency ord = (case psOrderProviderSnapshot ord of
     Some sn \<Rightarrow> (case NormalizePaymentCurrency (sn_Currency sn) of Inr c \<Rightarrow> c | Inl _ \<Rightarrow> DefaultPaymentCurrency)
   | None \<Rightarrow> DefaultPaymentCurrency)"

definition paymentProviderConfigCurrency :: "gostring \<Rightarrow> metadata \<Rightarrow> gostring" where
  "paymentProviderConfigCurrency providerKey cfg =
     (if trim_space providerKey = TypeStripe \<or> trim_space providerKey = TypeAirwallex
      then (case NormalizePaymentCurrency (meta cfg ''currency'') of Inr c \<Rightarrow> c | Inl _ \<Rightarrow> DefaultPaymentCurrency)
      else DefaultPaymentCurrency)"

definition amountToleranceCNY :: f64 where "amountToleranceCNY = f64_of_rat (1 / 100)"

definition paymentAmountToleranceForCurrency :: "gostring \<Rightarrow> f64" where
  "paymentAmountToleranceForCurrency currency =
     (let minorUnit = CurrencyMinorUnit currency
      in if minorUnit \<le> 2 then amountToleranceCNY
         else fdiv (f64_of_rat (1 / 10 ^ minorUnit)) (Fin 2))"

definition isValidProviderAmount :: "f64 \<Rightarrow> bool" where
  "isValidProviderAmount amount \<longleftrightarrow> flt (Fin 0) amount \<and> \<not> is_nan amount \<and> \<not> is_inf amount"

subsection \<open>Laws\<close>

lemma upper_upper_char [simp]: "is_upper c \<Longrightarrow> upper_char c = c"
  by (simp add: is_upper_def upper_char_def)

lemma to_upper_uppers: "\<forall>c \<in> set s. is_upper c \<Longrightarrow> to_upper s = s"
  by (induction s) (auto simp: is_upper_def)

lemma is_upper_printable: "is_upper c \<Longrightarrow> printable c"
  by (simp add: is_upper_def printable_def)

lemma NormalizePaymentCurrency_Inr:
  assumes "NormalizePaymentCurrency raw = Inr c"
  shows "length c = 3 \<and> (\<forall>x \<in> set c. is_upper x)"
  using assms
  by (auto simp: NormalizePaymentCurrency_def Let_def list_ex_iff DefaultPaymentCurrency_def is_upper_def
      split: if_splits)

lemma NormalizePaymentCurrency_fixed:
  assumes "length c = 3" "\<forall>x \<in> set c. is_upper x"
  shows "NormalizePaymentCurrency c = Inr c"
proof -
  have "trim_space c = c" using assms(2) is_upper_printable by (intro trim_space_printable) blast
  with assms to_upper_uppers [OF assms(2)] show ?thesis
    by (auto simp: NormalizePaymentCurrency_def Let_def list_ex_iff)
qed

lemma NormalizePaymentCurrency_idem:
  "NormalizePaymentCurrency raw = Inr c \<Longrightarrow> NormalizePaymentCurrency c = Inr c"
  using NormalizePaymentCurrency_Inr NormalizePaymentCurrency_fixed by blast

lemma PaymentOrderCurrency_normal: "NormalizePaymentCurrency (PaymentOrderCurrency ord) = Inr (PaymentOrderCurrency ord)"
proof -
  have "NormalizePaymentCurrency DefaultPaymentCurrency = Inr DefaultPaymentCurrency"
    by (rule NormalizePaymentCurrency_fixed) (auto simp: DefaultPaymentCurrency_def is_upper_def)
  then show ?thesis
    by (auto simp: PaymentOrderCurrency_def NormalizePaymentCurrency_idem split: option.split sum.split)
qed

lemma fraction_digits_le_minor: "CurrencyMaxFractionDigits c \<le> CurrencyMinorUnit c"
  by (auto simp: CurrencyMaxFractionDigits_def CurrencyMinorUnit_def paymentCurrencyAmountUnitFor_def
      paymentCurrencyAmountUnits_def currency_unit_defs split: sum.split option.split)

lemma minor_unit_le_3: "CurrencyMinorUnit c \<le> 3"
  by (auto simp: CurrencyMinorUnit_def paymentCurrencyAmountUnitFor_def paymentCurrencyAmountUnits_def
      currency_unit_defs split: sum.split option.split)

lemma the_only_Some: "the_only xs = Some x \<longleftrightarrow> xs = [x]"
  by (auto simp: the_only_def split: list.split)

text \<open>
  An order that is not pinned to a provider instance is only ever attributed to an instance when no
  other instance could have taken it: among the instances with the order's provider key (all instances
  when it has none), the one found is the only one that serves the order's payment type.
\<close>

lemma legacy_instance_is_unique:
  assumes "psOrderProviderSnapshot ord = None" "trim_space (psStringValue (po_ProviderInstanceID ord)) = []"
    "getOrderProviderInstance f insts ord = Inr (Some p)"
    "q \<in> set insts" "psStringValue (po_ProviderKey ord) = trim_space (psStringValue (po_ProviderKey ord))"
    "psStringValue (po_ProviderKey ord) \<noteq> [] \<Longrightarrow> pi_ProviderKey q = psStringValue (po_ProviderKey ord)"
    "psLegacyOrderMatchesInstance (GetBasePaymentType (trim_space (po_PaymentType ord))) q"
  shows "q = p"
proof -
  let ?t = "GetBasePaymentType (trim_space (po_PaymentType ord))" and ?k = "psStringValue (po_ProviderKey ord)"
  let ?ps = "if ?k = [] then insts else filter (\<lambda>p. pi_ProviderKey p = ?k) insts"
  have only: "psFilterLegacyOrderProviderInstances ?t ?ps = [p]"
    using assms(1,2,3,5)
    by (auto simp: getOrderProviderInstance_def resolveUniqueLegacyOrderProviderInstance_def Let_def
        the_only_Some dest!: read_fault_Inr split: if_splits sum.splits)
  have q: "q \<in> set ?ps" using assms(4,6) by auto
  then have "q \<in> set (psFilterLegacyOrderProviderInstances ?t ?ps)"
    using assms(7) by (auto simp: psFilterLegacyOrderProviderInstances_def)
  with only show ?thesis by simp
qed

end
