(* ===== verification/PaymentFulfillment.thy ===== *)
theory PaymentFulfillment
  imports PaymentTypes
begin

text \<open>
  From a provider's notification to the credited order: \<open>internal/service/payment_fulfillment.go\<close> and
  the audit log of \<open>payment_stats.go\<close>. \<open>pay_world\<close> holds the orders, the audit log (unique per order
  and action), the provider instances, the redeem codes, accounts and subscriptions behind
  \<open>RedeemService\<close> and \<open>SubscriptionService\<close>, and the rebates accrued by the affiliate service, which
  is a parameter. Every database call has a fault of its own, so that a crash after a call is the run in
  which all later calls are lost. Audit details and log lines are left out; the text of an error is a
  parameter.
\<close>

record audit_log =
  al_OrderID :: gostring
  al_Action :: gostring
  al_Operator :: gostring
  al_CreatedAt :: time

record pay_world =
  pw_orders :: "pay_order list"
  pw_audit :: "audit_log list"
  pw_instances :: "pay_instance list"
  pw_redeem :: redeem_db
  pw_accrued :: "(int64 \<times> f64) list"

datatype pay_call = PFind | PGetConfirm | PInstance | PPaid | PGetCurrent | PGetExec | PGetFulfil | PLockOrder
  | PComplete | PFail | PAudit gostring | PHasAudit | PGroup | PCode | PRebateBegin | PRebateClaim
  | PRebateAccrue | PRebateUpdate | PRebateCommit | PGetRetry | PRetry

record pay_env =
  pe_now :: time
  pe_fault :: "pay_call \<Rightarrow> fault"
  pe_redeem :: redeem_env
  pe_registry :: "registry option"
  pe_affiliate :: bool
  pe_rebate :: "int64 \<Rightarrow> f64 \<Rightarrow> f64"
  pe_text :: "go_error \<Rightarrow> gostring"

subsection \<open>Orders and audit log\<close>

definition order_by_id :: "int64 \<Rightarrow> pay_world \<Rightarrow> pay_order option" where
  "order_by_id oid w = find (\<lambda>r. po_ID r = oid) (pw_orders w)"

definition order_Get :: "fault \<Rightarrow> int64 \<Rightarrow> pay_world \<Rightarrow> pay_order result" where
  "order_Get f oid w = read_fault f (case order_by_id oid w of None \<Rightarrow> Inl ent_not_found | Some r \<Rightarrow> Inr r)"

text \<open>\<open>Query().Where(OutTradeNo(...)).Only\<close>: more than one row is an error other than not found.\<close>

definition order_by_trade_no :: "fault \<Rightarrow> gostring \<Rightarrow> pay_world \<Rightarrow> pay_order result" where
  "order_by_trade_no f tradeNo w = read_fault f
     (case filter (\<lambda>r. po_OutTradeNo r = tradeNo) (pw_orders w) of
        [] \<Rightarrow> Inl ent_not_found | [r] \<Rightarrow> Inr r | _ \<Rightarrow> Inl (EPlain ''ent: payment_order not singular''))"

text \<open>\<open>Update().Where(P).Set...\<close> with ent's automatic \<open>updated_at\<close>; the result is the number of rows.\<close>

definition order_Update ::
    "fault \<Rightarrow> time \<Rightarrow> (pay_order \<Rightarrow> bool) \<Rightarrow> (pay_order \<Rightarrow> pay_order) \<Rightarrow> pay_world \<Rightarrow> nat result \<times> pay_world" where
  "order_Update f now P upd = with_fault f (\<lambda>w. (affected P (pw_orders w),
     w\<lparr>pw_orders := update_where P (\<lambda>r. (upd r)\<lparr>po_UpdatedAt := now\<rparr>) (pw_orders w)\<rparr>))"

definition has_audit :: "int64 \<Rightarrow> gostring \<Rightarrow> pay_world \<Rightarrow> bool" where
  "has_audit oid action w \<longleftrightarrow> list_ex (\<lambda>l. al_OrderID l = itoa oid \<and> al_Action l = action) (pw_audit w)"

definition writeAuditLog :: "pay_env \<Rightarrow> int64 \<Rightarrow> gostring \<Rightarrow> gostring \<Rightarrow> pay_world \<Rightarrow> pay_world" where
  "writeAuditLog env oid action op w = snd (with_fault_err (pe_fault env (PAudit action)) (\<lambda>w.
     if has_audit oid action w then (Inl unique_violation, w)
     else (Inr (), w\<lparr>pw_audit := pw_audit w @ [\<lparr>al_OrderID = itoa oid, al_Action = action, al_Operator = op,
                        al_CreatedAt = pe_now env\<rparr>]\<rparr>)) w)"

definition hasAuditLog :: "pay_env \<Rightarrow> int64 \<Rightarrow> gostring \<Rightarrow> pay_world \<Rightarrow> bool" where
  "hasAuditLog env oid action w =
     (case read_fault (pe_fault env PHasAudit) (Inr (has_audit oid action w)) of Inl _ \<Rightarrow> False | Inr b \<Rightarrow> b)"

subsection \<open>The affiliate rebate of an order\<close>

definition tryClaimAffiliateRebateAudit :: "pay_env \<Rightarrow> int64 \<Rightarrow> pay_world \<Rightarrow> bool result \<times> pay_world" where
  "tryClaimAffiliateRebateAudit env oid = with_fault (pe_fault env PRebateClaim) (\<lambda>w.
     if has_audit oid ''AFFILIATE_REBATE_APPLIED'' w \<or> has_audit oid ''AFFILIATE_REBATE_SKIPPED'' w then (False, w)
     else (True, w\<lparr>pw_audit := pw_audit w @ [\<lparr>al_OrderID = itoa oid, al_Action = ''AFFILIATE_REBATE_APPLIED'',
                       al_Operator = ''system'', al_CreatedAt = pe_now env\<rparr>]\<rparr>))"

definition updateClaimedAffiliateRebateAudit ::
    "pay_env \<Rightarrow> int64 \<Rightarrow> gostring \<Rightarrow> pay_world \<Rightarrow> unit result \<times> pay_world" where
  "updateClaimedAffiliateRebateAudit env oid action w =
     (let P = (\<lambda>l. al_OrderID l = itoa oid \<and> al_Action l = ''AFFILIATE_REBATE_APPLIED'') in
      case with_fault (pe_fault env PRebateUpdate) (\<lambda>w. (affected P (pw_audit w), w\<lparr>pw_audit :=
             update_where P (\<lambda>l. l\<lparr>al_Action := action, al_Operator := ''system''\<rparr>) (pw_audit w)\<rparr>)) w of
        (Inl e, w') \<Rightarrow> (Inl e, w')
      | (Inr n, w') \<Rightarrow> if n = 0 then (Inl (EPlain ''affiliate rebate claim log not found''), w') else (Inr (), w'))"

text \<open>\<open>AccrueInviteRebateForOrder\<close> of the affiliate service, inside the transaction.\<close>

definition accrue_for_order :: "pay_env \<Rightarrow> pay_order \<Rightarrow> pay_world \<Rightarrow> f64 result \<times> pay_world" where
  "accrue_for_order env ord = with_fault (pe_fault env PRebateAccrue) (\<lambda>w.
     let rebate = pe_rebate env (po_UserID ord) (po_Amount ord)
     in (rebate, if flt (Fin 0) rebate then w\<lparr>pw_accrued := pw_accrued w @ [(po_ID ord, rebate)]\<rparr> else w))"

definition rebate_tx_body :: "pay_env \<Rightarrow> pay_order \<Rightarrow> pay_world \<Rightarrow> unit result \<times> pay_world" where
  "rebate_tx_body env ord w =
     and_then (wrap_err ''accrue affiliate rebate'' (accrue_for_order env ord w)) (\<lambda>rebateAmount w1.
       if fle rebateAmount (Fin 0)
       then wrap_err ''update affiliate rebate skipped audit''
              (updateClaimedAffiliateRebateAudit env (po_ID ord) ''AFFILIATE_REBATE_SKIPPED'' w1)
       else wrap_err ''update affiliate rebate applied audit''
              (updateClaimedAffiliateRebateAudit env (po_ID ord) ''AFFILIATE_REBATE_APPLIED'' w1))"

text \<open>
  The transaction of the rebate: claim, accrue, settle the claim, commit. When the claim is taken already
  it is rolled back, with nothing done. The failure is logged outside it.
\<close>

definition rebate_tx :: "pay_env \<Rightarrow> pay_order \<Rightarrow> pay_world \<Rightarrow> unit result \<times> pay_world" where
  "rebate_tx env ord w = (case pe_fault env PRebateBegin of
     NoFault \<Rightarrow>
       (case tryClaimAffiliateRebateAudit env (po_ID ord) w of
          (Inl e, _) \<Rightarrow> (Inl (EWrap ''claim affiliate rebate audit'' e), w)
        | (Inr False, _) \<Rightarrow> (Inr (), w)
        | (Inr True, w1) \<Rightarrow> run_tx NoFault (pe_fault env PRebateCommit) (\<lambda>_. rebate_tx_body env ord w1) w)
   | Lost e \<Rightarrow> (Inl (EWrap ''begin affiliate rebate tx'' e), w)
   | Unacked e \<Rightarrow> (Inl (EWrap ''begin affiliate rebate tx'' e), w))"

definition applyAffiliateRebateForOrder :: "pay_env \<Rightarrow> pay_order \<Rightarrow> pay_world \<Rightarrow> unit result \<times> pay_world" where
  "applyAffiliateRebateForOrder env ord w =
     (if po_OrderType ord \<noteq> OrderTypeBalance \<or> fle (po_Amount ord) (Fin 0) then (Inr (), w)
      else if \<not> pe_affiliate env then (Inr (), w)
      else case rebate_tx env ord w of
             (Inl e, w') \<Rightarrow> (Inl e, writeAuditLog env (po_ID ord) ''AFFILIATE_REBATE_FAILED'' ''system'' w')
           | (Inr _, w') \<Rightarrow> (Inr (), w'))"

subsection \<open>Fulfilling a paid order\<close>

definition markCompleted :: "pay_env \<Rightarrow> pay_order \<Rightarrow> gostring \<Rightarrow> pay_world \<Rightarrow> unit result \<times> pay_world" where
  "markCompleted env ord auditAction w =
     (case order_Update (pe_fault env PComplete) (pe_now env)
             (\<lambda>r. po_ID r = po_ID ord \<and> po_Status r = OrderStatusRecharging)
             (\<lambda>r. r\<lparr>po_Status := OrderStatusCompleted, po_CompletedAt := Some (pe_now env)\<rparr>) w of
        (Inl e, w1) \<Rightarrow> (Inl (EWrap ''mark completed'' e), w1)
      | (Inr _, w1) \<Rightarrow> (Inr (), writeAuditLog env (po_ID ord) auditAction ''system'' w1))"

definition markFailed :: "pay_env \<Rightarrow> int64 \<Rightarrow> go_error \<Rightarrow> pay_world \<Rightarrow> pay_world" where
  "markFailed env oid cause w =
     (case order_Update (pe_fault env PFail) (pe_now env)
             (\<lambda>r. po_ID r = oid \<and> po_Status r = OrderStatusRecharging)
             (\<lambda>r. r\<lparr>po_Status := OrderStatusFailed, po_FailedAt := Some (pe_now env),
                    po_FailedReason := Some (pe_text env cause)\<rparr>) w of
        (Inl _, w1) \<Rightarrow> w1
      | (Inr c, w1) \<Rightarrow> if 0 < c then writeAuditLog env oid ''FULFILLMENT_FAILED'' ''system'' w1 else w1)"

datatype redeem_action = RedeemActionCreate | RedeemActionRedeem | RedeemActionSkipCompleted

definition resolveRedeemAction :: "redeem_code result \<Rightarrow> redeem_action" where
  "resolveRedeemAction existing = (case existing of
     Inl _ \<Rightarrow> RedeemActionCreate
   | Inr code \<Rightarrow> if IsUsed code then RedeemActionSkipCompleted else RedeemActionRedeem)"

definition with_redeem :: "(redeem_db \<Rightarrow> 'a result \<times> redeem_db) \<Rightarrow> pay_world \<Rightarrow> 'a result \<times> pay_world" where
  "with_redeem k w = (case k (pw_redeem w) of (res, d) \<Rightarrow> (res, w\<lparr>pw_redeem := d\<rparr>))"

definition order_code :: "pay_order \<Rightarrow> redeem_code" where
  "order_code ord = \<lparr>rc_ID = 0, rc_Code = po_RechargeCode ord, rc_Type = RedeemTypeBalance, rc_Value = po_Amount ord,
     rc_Status = StatusUnused, rc_UsedBy = None, rc_UsedAt = None, rc_Notes = [], rc_CreatedAt = zero_time,
     rc_GroupID = None, rc_ValidityDays = 0\<rparr>"

definition finish_balance :: "pay_env \<Rightarrow> pay_order \<Rightarrow> pay_world \<Rightarrow> unit result \<times> pay_world" where
  "finish_balance env ord w =
     and_then (applyAffiliateRebateForOrder env ord w) (\<lambda>_. markCompleted env ord ''RECHARGE_SUCCESS'')"

definition redeem_and_finish :: "pay_env \<Rightarrow> pay_order \<Rightarrow> pay_world \<Rightarrow> unit result \<times> pay_world" where
  "redeem_and_finish env ord w =
     and_then (wrap_err ''redeem balance''
         (with_redeem (RedeemCode ((pe_redeem env)\<lparr>re_skip_affiliate := True\<rparr>) (po_UserID ord) (po_RechargeCode ord)) w))
       (\<lambda>_. finish_balance env ord)"

definition doBalance :: "pay_env \<Rightarrow> pay_order \<Rightarrow> pay_world \<Rightarrow> unit result \<times> pay_world" where
  "doBalance env ord w =
     (case resolveRedeemAction (GetByCode ((pe_redeem env)\<lparr>re_fault := \<lambda>_. pe_fault env PCode\<rparr>)
             (po_RechargeCode ord) (pw_redeem w)) of
        RedeemActionSkipCompleted \<Rightarrow> finish_balance env ord w
      | RedeemActionCreate \<Rightarrow>
          and_then (wrap_err ''create redeem code'' (with_redeem (CreateCode (pe_redeem env) (Some (order_code ord))) w))
            (\<lambda>_. redeem_and_finish env ord)
      | RedeemActionRedeem \<Rightarrow> redeem_and_finish env ord w)"

definition order_note :: "pay_order \<Rightarrow> gostring" where
  "order_note ord = ''payment order '' @ itoa (po_ID ord)"

definition order_input :: "pay_order \<Rightarrow> assign_input" where
  "order_input ord = \<lparr>ai_UserID = po_UserID ord, ai_GroupID = the (po_SubscriptionGroupID ord),
     ai_ValidityDays = the (po_SubscriptionDays ord), ai_AssignedBy = 0, ai_Notes = order_note ord\<rparr>"

definition with_sub_state :: "(sub_state \<Rightarrow> 'a result \<times> sub_state) \<Rightarrow> pay_world \<Rightarrow> 'a result \<times> pay_world" where
  "with_sub_state k w = (case k (rd_subs (pw_redeem w)) of
     (res, st) \<Rightarrow> (res, w\<lparr>pw_redeem := (pw_redeem w)\<lparr>rd_subs := st\<rparr>\<rparr>))"

definition doSub :: "pay_env \<Rightarrow> pay_order \<Rightarrow> pay_world \<Rightarrow> unit result \<times> pay_world" where
  "doSub env ord w =
     (let gid = the (po_SubscriptionGroupID ord) in
      case group_GetByID (pe_fault env PGroup) gid (ss_db (rd_subs (pw_redeem w))) of
        Inl _ \<Rightarrow> (Inl (EPlain ''group no longer exists or inactive''), w)
      | Inr g \<Rightarrow>
          if g_Status g \<noteq> EntityStatusActive then (Inl (EPlain ''group no longer exists or inactive''), w)
          else if hasAuditLog env (po_ID ord) ''SUBSCRIPTION_SUCCESS'' w
          then markCompleted env ord ''SUBSCRIPTION_SUCCESS'' w
          else and_then (wrap_err ''assign subscription''
                 (with_sub_state (AssignOrExtendSubscription (re_sub (pe_redeem env)) (order_input ord)) w))
               (\<lambda>_. markCompleted env ord ''SUBSCRIPTION_SUCCESS''))"

definition fulfillable :: "int64 \<Rightarrow> pay_order \<Rightarrow> bool" where
  "fulfillable oid r \<longleftrightarrow> po_ID r = oid \<and> po_Status r \<in> {OrderStatusPaid, OrderStatusFailed}"

text \<open>The guarded part both fulfilments share: checks, the status change that takes the order, the work.\<close>

definition fulfil_with ::
    "(pay_order \<Rightarrow> bool) \<Rightarrow> (pay_env \<Rightarrow> pay_order \<Rightarrow> pay_world \<Rightarrow> unit result \<times> pay_world) \<Rightarrow>
     pay_env \<Rightarrow> int64 \<Rightarrow> pay_world \<Rightarrow> unit result \<times> pay_world" where
  "fulfil_with info work env oid w =
     (case order_Get (pe_fault env PGetFulfil) oid w of
        Inl _ \<Rightarrow> (Inl (EApp (NotFound ''NOT_FOUND'' ''order not found'')), w)
      | Inr ord \<Rightarrow>
          if po_Status ord = OrderStatusCompleted then (Inr (), w)
          else if psIsRefundStatus (po_Status ord) then
            (Inl (EApp (BadRequest ''INVALID_STATUS'' ''refund-related order cannot fulfill'')), w)
          else if po_Status ord \<noteq> OrderStatusPaid \<and> po_Status ord \<noteq> OrderStatusFailed then
            (Inl (EApp (BadRequest ''INVALID_STATUS'' (''order cannot fulfill in status '' @ po_Status ord))), w)
          else if \<not> info ord then (Inl (EApp (BadRequest ''INVALID_STATUS'' ''missing subscription info'')), w)
          else (case order_Update (pe_fault env PLockOrder) (pe_now env) (fulfillable oid)
                       (\<lambda>r. r\<lparr>po_Status := OrderStatusRecharging\<rparr>) w of
                  (Inl e, w1) \<Rightarrow> (Inl (EWrap ''lock'' e), w1)
                | (Inr c, w1) \<Rightarrow>
                    if c = 0 then (Inr (), w1)
                    else (case work env ord w1 of
                            (Inl e, w2) \<Rightarrow> (Inl e, markFailed env oid e w2)
                          | (Inr _, w2) \<Rightarrow> (Inr (), w2))))"

definition ExecuteBalanceFulfillment :: "pay_env \<Rightarrow> int64 \<Rightarrow> pay_world \<Rightarrow> unit result \<times> pay_world" where
  "ExecuteBalanceFulfillment = fulfil_with (\<lambda>_. True) doBalance"

definition ExecuteSubscriptionFulfillment :: "pay_env \<Rightarrow> int64 \<Rightarrow> pay_world \<Rightarrow> unit result \<times> pay_world" where
  "ExecuteSubscriptionFulfillment =
     fulfil_with (\<lambda>ord. po_SubscriptionGroupID ord \<noteq> None \<and> po_SubscriptionDays ord \<noteq> None) doSub"

definition executeFulfillment :: "pay_env \<Rightarrow> int64 \<Rightarrow> pay_world \<Rightarrow> unit result \<times> pay_world" where
  "executeFulfillment env oid w =
     (case order_Get (pe_fault env PGetExec) oid w of
        Inl e \<Rightarrow> (Inl (EWrap ''get order'' e), w)
      | Inr ord \<Rightarrow> if po_OrderType ord = OrderTypeSubscription then ExecuteSubscriptionFulfillment env oid w
                   else ExecuteBalanceFulfillment env oid w)"

subsection \<open>Confirming a payment\<close>

definition alreadyProcessed :: "pay_env \<Rightarrow> pay_order \<Rightarrow> pay_world \<Rightarrow> unit result \<times> pay_world" where
  "alreadyProcessed env ord w =
     (case order_Get (pe_fault env PGetCurrent) (po_ID ord) w of
        Inl _ \<Rightarrow> (Inr (), w)
      | Inr cur \<Rightarrow>
          if po_Status cur = OrderStatusCompleted \<or> po_Status cur = OrderStatusRefunded then (Inr (), w)
          else if po_Status cur = OrderStatusFailed then executeFulfillment env (po_ID ord) w
          else if po_Status cur = OrderStatusPaid \<or> po_Status cur = OrderStatusRecharging
          then (Inl (EPlain ''order is being processed''), w)
          else if po_Status cur = OrderStatusExpired
          then (Inr (), writeAuditLog env (po_ID ord) ''PAYMENT_AFTER_EXPIRY'' ''system'' w)
          else (Inr (), w))"

definition paymentGraceMinutes :: int where "paymentGraceMinutes = 5"

definition payable :: "time \<Rightarrow> int64 \<Rightarrow> pay_order \<Rightarrow> bool" where
  "payable grace oid r \<longleftrightarrow> po_ID r = oid \<and>
     (po_Status r = OrderStatusPending \<or> po_Status r = OrderStatusCancelled
      \<or> po_Status r = OrderStatusExpired \<and> grace \<le> po_UpdatedAt r)"

definition toPaid :: "pay_env \<Rightarrow> pay_order \<Rightarrow> gostring \<Rightarrow> f64 \<Rightarrow> gostring \<Rightarrow> pay_world \<Rightarrow> unit result \<times> pay_world" where
  "toPaid env ord tradeNo paid pk w =
     (let previousStatus = po_Status ord; now = pe_now env; grace = Add now (- paymentGraceMinutes * Minute) in
      case order_Update (pe_fault env PPaid) now (payable grace (po_ID ord))
             (\<lambda>r. r\<lparr>po_Status := OrderStatusPaid, po_PayAmount := paid, po_PaymentTradeNo := tradeNo,
                    po_PaidAt := Some now, po_FailedAt := None, po_FailedReason := None\<rparr>) w of
        (Inl e, w1) \<Rightarrow> (Inl (EWrap ''update to PAID'' e), w1)
      | (Inr c, w1) \<Rightarrow>
          if c = 0 then alreadyProcessed env ord w1
          else (let w2 = (if previousStatus = OrderStatusCancelled \<or> previousStatus = OrderStatusExpired
                          then writeAuditLog env (po_ID ord) ''ORDER_RECOVERED'' pk w1 else w1);
                    w3 = writeAuditLog env (po_ID ord) ''ORDER_PAID'' pk w2
                in executeFulfillment env (po_ID ord) w3))"

definition confirmPayment ::
    "pay_env \<Rightarrow> int64 \<Rightarrow> gostring \<Rightarrow> f64 \<Rightarrow> gostring \<Rightarrow> metadata \<Rightarrow> pay_world \<Rightarrow> unit result \<times> pay_world" where
  "confirmPayment env oid tradeNo paid pk md w =
     (case order_Get (pe_fault env PGetConfirm) oid w of
        Inl _ \<Rightarrow> (Inr (), w)
      | Inr ord \<Rightarrow>
         (let instanceProviderKey = (case getOrderProviderInstance (pe_fault env PInstance) (pw_instances w) ord of
                Inr (Some inst) \<Rightarrow> pi_ProviderKey inst | _ \<Rightarrow> []);
              expected = expectedNotificationProviderKeyForOrder (pe_registry env) ord instanceProviderKey
          in if expected \<noteq> [] \<and> trim_space pk \<noteq> [] \<and> \<not> EqualFold expected (trim_space pk) then
               (Inl (EPlain ''provider mismatch''), writeAuditLog env (po_ID ord) ''PAYMENT_PROVIDER_MISMATCH'' pk w)
             else (case validateProviderSnapshotMetadata ord pk md of
               Inl e \<Rightarrow> (Inl e, writeAuditLog env (po_ID ord) ''PAYMENT_PROVIDER_METADATA_MISMATCH'' pk w)
             | Inr _ \<Rightarrow>
                 if \<not> isValidProviderAmount paid then
                   (Inl (EPlain ''invalid paid amount from provider''),
                    writeAuditLog env (po_ID ord) ''PAYMENT_INVALID_AMOUNT'' pk w)
                 else if flt (paymentAmountToleranceForCurrency (PaymentOrderCurrency ord))
                             (fabs (fsub paid (po_PayAmount ord))) then
                   (Inl (EPlain ''amount mismatch''), writeAuditLog env (po_ID ord) ''PAYMENT_AMOUNT_MISMATCH'' pk w)
                 else toPaid env ord tradeNo paid pk w)))"

definition orderIDPrefix :: gostring where "orderIDPrefix = ''sub2_''"

definition parseLegacyPaymentOrderID :: "gostring \<Rightarrow> go_error \<Rightarrow> int64 option" where
  "parseLegacyPaymentOrderID orderID lookupErr =
     (if \<not> errors_is lookupErr ent_not_found then None
      else let oid = trim_space orderID in
        if \<not> prefix orderIDPrefix oid then None
        else let trimmed = drop (length orderIDPrefix) oid in
          if trimmed = [] \<or> trimmed = oid then None
          else case parse_int64 trimmed of None \<Rightarrow> None | Some n \<Rightarrow> if n \<le> 0 then None else Some n)"

record notification =
  nt_TradeNo :: gostring
  nt_OrderID :: gostring
  nt_Amount :: f64
  nt_Status :: gostring
  nt_Metadata :: metadata

definition ErrOrderNotFound :: go_error where "ErrOrderNotFound = EPlain ''payment order not found''"

definition HandlePaymentNotification ::
    "pay_env \<Rightarrow> notification \<Rightarrow> gostring \<Rightarrow> pay_world \<Rightarrow> unit result \<times> pay_world" where
  "HandlePaymentNotification env n pk w =
     (if nt_Status n \<noteq> NotificationStatusSuccess then (Inr (), w)
      else case order_by_trade_no (pe_fault env PFind) (nt_OrderID n) w of
        Inl e \<Rightarrow>
          (case parseLegacyPaymentOrderID (nt_OrderID n) e of
             Some oid \<Rightarrow> confirmPayment env oid (nt_TradeNo n) (nt_Amount n) pk (nt_Metadata n) w
           | None \<Rightarrow> if errors_is e ent_not_found then (Inl (EWrap ''out_trade_no'' ErrOrderNotFound), w)
                      else (Inl (EWrap ''lookup order failed'' e), w))
      | Inr ord \<Rightarrow> confirmPayment env (po_ID ord) (nt_TradeNo n) (nt_Amount n) pk (nt_Metadata n) w)"

definition RetryFulfillment :: "pay_env \<Rightarrow> int64 \<Rightarrow> pay_world \<Rightarrow> unit result \<times> pay_world" where
  "RetryFulfillment env oid w =
     (case order_Get (pe_fault env PGetRetry) oid w of
        Inl _ \<Rightarrow> (Inl (EApp (NotFound ''NOT_FOUND'' ''order not found'')), w)
      | Inr ord \<Rightarrow>
          if po_PaidAt ord = None then (Inl (EApp (BadRequest ''INVALID_STATUS'' ''order is not paid'')), w)
          else if psIsRefundStatus (po_Status ord) then
            (Inl (EApp (BadRequest ''INVALID_STATUS'' ''refund-related order cannot retry'')), w)
          else if po_Status ord = OrderStatusRecharging then
            (Inl (EApp (Conflict ''CONFLICT'' ''order is being processed'')), w)
          else if po_Status ord = OrderStatusCompleted then
            (Inl (EApp (BadRequest ''INVALID_STATUS'' ''order already completed'')), w)
          else if po_Status ord \<noteq> OrderStatusFailed \<and> po_Status ord \<noteq> OrderStatusPaid then
            (Inl (EApp (BadRequest ''INVALID_STATUS'' ''only paid and failed orders can retry'')), w)
          else (case order_Update (pe_fault env PRetry) (pe_now env) (fulfillable oid)
                       (\<lambda>r. r\<lparr>po_Status := OrderStatusPaid, po_FailedAt := None, po_FailedReason := None\<rparr>) w of
                  (Inl e, w1) \<Rightarrow> (Inl (EWrap ''reset for retry'' e), w1)
                | (Inr _, w1) \<Rightarrow> executeFulfillment env oid (writeAuditLog env oid ''RECHARGE_RETRY'' ''admin'' w1)))"

end
