(* ===== verification/PaymentLifecycle.thy ===== *)
theory PaymentLifecycle
  imports PaymentFulfillment
begin

text \<open>
  Orders that are not paid in time or no longer wanted: \<open>internal/service/payment_order_lifecycle.go\<close>
  (cancelling, expiring, asking the provider whether an order was paid after all), the choice of the
  provider that may speak about an order there and in \<open>payment_webhook_provider.go\<close>, and the registry
  the two fall back to (\<open>loadProviders\<close>, \<open>EnsureProviders\<close> and \<open>RefreshProviders\<close> of
  \<open>payment_service.go\<close>). A provider is its key, its types and its answers to \<open>QueryOrder\<close>; decrypting an
  instance's configuration and building a provider from it are parameters. Cancelling a payment upstream
  has no effect here. A nil registry counts as an empty one.
\<close>

record query_response =
  qr_TradeNo :: gostring
  qr_Status :: gostring
  qr_Amount :: f64
  qr_Metadata :: metadata

record live_provider = pay_provider +
  lp_Query :: "gostring \<Rightarrow> query_response result"
  lp_Requery :: "gostring \<Rightarrow> query_response option result"

datatype life_call = LGet | LInstance | LCount | LLoad | LTrade | LCancel | LReload | LLookup | LWebhook

record life_env =
  lf_pay :: pay_env
  lf_fault :: "life_call \<Rightarrow> fault"
  lf_config :: "int64 \<Rightarrow> metadata result"
  lf_make :: "gostring \<Rightarrow> gostring \<Rightarrow> metadata \<Rightarrow> live_provider result"
  lf_live :: "pay_provider \<Rightarrow> live_provider"
  lf_loaded :: bool
  lf_map_order :: "gostring list"

abbreviation lf_now :: "life_env \<Rightarrow> time" where "lf_now env \<equiv> pe_now (lf_pay env)"

definition lf_registry :: "life_env \<Rightarrow> registry" where
  "lf_registry env = (case pe_registry (lf_pay env) of None \<Rightarrow> NewRegistry | Some r \<Rightarrow> r)"

subsection \<open>Providers\<close>

definition set_meta :: "gostring \<Rightarrow> gostring \<Rightarrow> metadata \<Rightarrow> metadata" where
  "set_meta k v md = (k, v) # filter (\<lambda>e. fst e \<noteq> k) md"

definition createProviderFromInstance :: "life_env \<Rightarrow> pay_instance \<Rightarrow> live_provider result" where
  "createProviderFromInstance env inst =
     (case lf_config env (pi_ID inst) of
        Inl e \<Rightarrow> Inl (EWrap ''load provider instance config'' e)
      | Inr cfg \<Rightarrow>
          (let cfg' = (if pi_PaymentMode inst \<noteq> [] then set_meta ''paymentMode'' (pi_PaymentMode inst) cfg else cfg)
           in case lf_make env (pi_ProviderKey inst) (itoa (pi_ID inst)) cfg' of
                Inl e \<Rightarrow> Inl (EWrap ''create provider from instance'' e)
              | Inr p \<Rightarrow> Inr p))"

definition load_step :: "life_env \<Rightarrow> pay_instance \<Rightarrow> registry \<Rightarrow> registry" where
  "load_step env inst r = (case createProviderFromInstance env inst of
     Inl _ \<Rightarrow> r | Inr p \<Rightarrow> Register (pay_provider.truncate p) r)"

definition loadProviders :: "life_env \<Rightarrow> pay_instance list \<Rightarrow> registry \<Rightarrow> registry" where
  "loadProviders env insts r = (case read_fault (lf_fault env LLoad) (Inr (filter pi_Enabled insts)) of
     Inl _ \<Rightarrow> r | Inr enabled \<Rightarrow> fold (load_step env) enabled r)"

text \<open>The flag \<open>providersLoaded\<close> with the registry, before and after.\<close>

definition EnsureProviders :: "life_env \<Rightarrow> pay_instance list \<Rightarrow> bool \<times> registry \<Rightarrow> bool \<times> registry" where
  "EnsureProviders env insts s = (case s of (loaded, r) \<Rightarrow>
     if loaded then (loaded, r) else (True, loadProviders env insts r))"

definition RefreshProviders :: "life_env \<Rightarrow> pay_instance list \<Rightarrow> bool \<times> registry \<Rightarrow> bool \<times> registry" where
  "RefreshProviders env insts s = (True, loadProviders env insts NewRegistry)"

definition ensured :: "life_env \<Rightarrow> pay_world \<Rightarrow> registry" where
  "ensured env w = snd (EnsureProviders env (pw_instances w) (lf_loaded env, lf_registry env))"

text \<open>Ranging over a Go map has no fixed order: \<open>order\<close> is the order of this run.\<close>

definition GetProviderByKey :: "gostring list \<Rightarrow> gostring \<Rightarrow> registry \<Rightarrow> pay_provider result" where
  "GetProviderByKey order key r =
     (case find (\<lambda>p. pp_Key p = key) (List.map_filter r order) of
        None \<Rightarrow> Inl (EApp ErrProviderNotFound) | Some p \<Rightarrow> Inr p)"

definition webhookRegistryFallbackAllowed :: "life_env \<Rightarrow> gostring \<Rightarrow> pay_world \<Rightarrow> bool" where
  "webhookRegistryFallbackAllowed env providerKey w =
     (let key = trim_space providerKey in
      if key = [] then False
      else case read_fault (lf_fault env LCount) (Inr (affected (\<lambda>p. pi_ProviderKey p = key \<and> pi_Enabled p) (pw_instances w))) of
        Inl _ \<Rightarrow> False | Inr c \<Rightarrow> c \<le> 1)"

definition paymentOrderAllowsRegistryFallback :: "pay_order \<Rightarrow> bool" where
  "paymentOrderAllowsRegistryFallback ord \<longleftrightarrow>
     psOrderProviderSnapshot ord = None \<and> trim_space (psStringValue (po_ProviderInstanceID ord)) = []
     \<and> trim_space (psStringValue (po_ProviderKey ord)) = []"

definition paymentOrderFallbackProviderKey :: "registry option \<Rightarrow> pay_order \<Rightarrow> gostring" where
  "paymentOrderFallbackProviderKey reg ord =
     (let fallback = trim_space (GetBasePaymentType (trim_space (po_PaymentType ord))) in
      case reg of
        None \<Rightarrow> fallback
      | Some r \<Rightarrow> if trim_space (GetProviderKey (po_PaymentType ord) r) \<noteq> []
                   then trim_space (GetProviderKey (po_PaymentType ord) r) else fallback)"

definition getOrderProvider :: "life_env \<Rightarrow> pay_order \<Rightarrow> pay_world \<Rightarrow> live_provider result" where
  "getOrderProvider env ord w =
     (case getOrderProviderInstance (lf_fault env LInstance) (pw_instances w) ord of
        Inl e \<Rightarrow> Inl (EWrap ''load order provider instance'' e)
      | Inr (Some inst) \<Rightarrow> createProviderFromInstance env inst
      | Inr None \<Rightarrow>
          if \<not> paymentOrderAllowsRegistryFallback ord
          then Inl (EPlain (''order '' @ itoa (po_ID ord) @ '' provider instance is unresolved''))
          else (let providerKey = paymentOrderFallbackProviderKey (pe_registry (lf_pay env)) ord in
            if providerKey = [] then Inl (EPlain (''order '' @ itoa (po_ID ord) @ '' provider fallback key is missing''))
            else if \<not> webhookRegistryFallbackAllowed env providerKey w
            then Inl (EPlain (''order '' @ itoa (po_ID ord) @ '' provider fallback is ambiguous for '' @ providerKey))
            else map_sum id (lf_live env) (GetProvider (po_PaymentType ord) (ensured env w))))"

subsection \<open>Who may verify a webhook\<close>

definition psHasPinnedProviderInstance :: "pay_order \<Rightarrow> bool" where
  "psHasPinnedProviderInstance ord \<longleftrightarrow> psOrderProviderSnapshot ord \<noteq> None \<or>
     (case po_ProviderInstanceID ord of None \<Rightarrow> False | Some s \<Rightarrow> trim_space s \<noteq> [])"

definition getPinnedOrderProvider :: "life_env \<Rightarrow> pay_order \<Rightarrow> pay_world \<Rightarrow> live_provider result" where
  "getPinnedOrderProvider env ord w =
     (case getOrderProviderInstance (lf_fault env LInstance) (pw_instances w) ord of
        Inl e \<Rightarrow> Inl (EWrap ''load order provider instance'' e)
      | Inr None \<Rightarrow> Inl (EPlain (''order '' @ itoa (po_ID ord) @ '' provider instance is missing''))
      | Inr (Some inst) \<Rightarrow> createProviderFromInstance env inst)"

definition created_providers :: "life_env \<Rightarrow> pay_instance list \<Rightarrow> live_provider list" where
  "created_providers env insts =
     List.map_filter (\<lambda>inst. case createProviderFromInstance env inst of Inl _ \<Rightarrow> None | Inr p \<Rightarrow> Some p) insts"

definition getEnabledWebhookProvidersByKey :: "life_env \<Rightarrow> gostring \<Rightarrow> pay_world \<Rightarrow> live_provider list result" where
  "getEnabledWebhookProvidersByKey env providerKey w =
     (case read_fault (lf_fault env LWebhook)
             (Inr (sort_key pi_SortOrder
                (filter (\<lambda>p. pi_ProviderKey p = trim_space providerKey \<and> pi_Enabled p) (pw_instances w)))) of
        Inl e \<Rightarrow> Inl (EWrap ''query webhook provider instances'' e)
      | Inr insts \<Rightarrow>
          if insts = [] then Inl (EApp ErrProviderNotFound)
          else if created_providers env insts = [] then Inl (EApp ErrProviderNotFound)
          else Inr (created_providers env insts))"

definition webhook_fallback :: "life_env \<Rightarrow> gostring \<Rightarrow> pay_world \<Rightarrow> live_provider list result" where
  "webhook_fallback env providerKey w =
     (if trim_space providerKey = TypeWxpay then getEnabledWebhookProvidersByKey env providerKey w
      else if \<not> webhookRegistryFallbackAllowed env providerKey w
      then Inl (EPlain (''webhook provider fallback is ambiguous for '' @ providerKey))
      else map_sum id (\<lambda>p. [lf_live env p]) (GetProviderByKey (lf_map_order env) providerKey (ensured env w)))"

definition GetWebhookProviders :: "life_env \<Rightarrow> gostring \<Rightarrow> gostring \<Rightarrow> pay_world \<Rightarrow> live_provider list result" where
  "GetWebhookProviders env providerKey outTradeNo w =
     (if outTradeNo = [] then webhook_fallback env providerKey w
      else case order_by_trade_no (lf_fault env LLookup) outTradeNo w of
        Inl _ \<Rightarrow> webhook_fallback env providerKey w
      | Inr ord \<Rightarrow>
          if psHasPinnedProviderInstance ord then map_sum id (\<lambda>p. [p]) (getPinnedOrderProvider env ord w)
          else (case getOrderProviderInstance (lf_fault env LInstance) (pw_instances w) ord of
                  Inl e \<Rightarrow> Inl (EWrap ''load order provider instance'' e)
                | Inr (Some inst) \<Rightarrow> map_sum id (\<lambda>p. [p]) (createProviderFromInstance env inst)
                | Inr None \<Rightarrow> webhook_fallback env providerKey w))"

definition GetWebhookProvider :: "life_env \<Rightarrow> gostring \<Rightarrow> gostring \<Rightarrow> pay_world \<Rightarrow> live_provider result" where
  "GetWebhookProvider env providerKey outTradeNo w =
     (case GetWebhookProviders env providerKey outTradeNo w of
        Inl e \<Rightarrow> Inl e
      | Inr [] \<Rightarrow> Inl (EApp ErrProviderNotFound)
      | Inr (p # _) \<Rightarrow> Inr p)"

subsection \<open>Asking the provider\<close>

definition checkPaidResultAlreadyPaid :: gostring where "checkPaidResultAlreadyPaid = ''already_paid''"
definition checkPaidResultCancelled :: gostring where "checkPaidResultCancelled = ''cancelled''"

lemma checkPaid_results [simp]:
  "checkPaidResultAlreadyPaid \<noteq> checkPaidResultCancelled" "checkPaidResultCancelled \<noteq> checkPaidResultAlreadyPaid"
  "checkPaidResultAlreadyPaid \<noteq> []" "checkPaidResultCancelled \<noteq> []"
  by (simp_all add: checkPaidResultAlreadyPaid_def checkPaidResultCancelled_def)

definition paymentOrderQueryReference :: "pay_order \<Rightarrow> gostring \<Rightarrow> gostring" where
  "paymentOrderQueryReference ord provKey =
     (let k1 = trim_space provKey;
          k2 = (if k1 \<noteq> [] then k1 else case psOrderProviderSnapshot ord of
                  None \<Rightarrow> [] | Some sn \<Rightarrow> trim_space (sn_ProviderKey sn));
          k3 = (if k2 \<noteq> [] then k2 else trim_space (psStringValue (po_ProviderKey ord)));
          k4 = (if k3 \<noteq> [] then k3 else trim_space (po_PaymentType ord))
      in if GetBasePaymentType k4 \<in> {TypeAlipay, TypeEasyPay, TypeWxpay} then trim_space (po_OutTradeNo ord)
         else if trim_space (po_PaymentTradeNo ord) \<noteq> [] then trim_space (po_PaymentTradeNo ord)
         else trim_space (po_OutTradeNo ord))"

definition paymentOrderShouldPersistUpstreamTradeNo :: "gostring \<Rightarrow> gostring \<Rightarrow> gostring \<Rightarrow> bool" where
  "paymentOrderShouldPersistUpstreamTradeNo queryRef upstreamTradeNo currentTradeNo =
     (let up = trim_space upstreamTradeNo in
      if up = [] then False
      else if EqualFold up (trim_space currentTradeNo) then False
      else if EqualFold up (trim_space queryRef) then False
      else True)"

definition requeryPaidOrderOnce :: "live_provider \<Rightarrow> gostring \<Rightarrow> query_response option" where
  "requeryPaidOrderOnce prov queryRef =
     (if trim_space queryRef = [] then None
      else case lp_Requery prov queryRef of
        Inl _ \<Rightarrow> None
      | Inr None \<Rightarrow> None
      | Inr (Some resp) \<Rightarrow>
          if qr_Status resp \<noteq> ProviderStatusPaid \<or> \<not> isValidProviderAmount (qr_Amount resp) then None else Some resp)"

definition settle_paid :: "life_env \<Rightarrow> pay_order \<Rightarrow> live_provider \<Rightarrow> gostring \<Rightarrow> query_response \<Rightarrow> pay_world \<Rightarrow> pay_world" where
  "settle_paid env ord prov queryRef resp w =
     (let upstream = trim_space (qr_TradeNo resp);
          persist = paymentOrderShouldPersistUpstreamTradeNo queryRef upstream (po_PaymentTradeNo ord);
          w1 = (if persist then snd (order_Update (lf_fault env LTrade) (lf_now env) (\<lambda>r. po_ID r = po_ID ord)
                  (\<lambda>r. r\<lparr>po_PaymentTradeNo := upstream\<rparr>) w) else w);
          tradeNo = (if persist then upstream else po_PaymentTradeNo ord)
      in snd (HandlePaymentNotification (lf_pay env)
           \<lparr>nt_TradeNo = tradeNo, nt_OrderID = po_OutTradeNo ord, nt_Amount = qr_Amount resp,
            nt_Status = ProviderStatusSuccess, nt_Metadata = qr_Metadata resp\<rparr> (pp_Key prov) w1))"

definition checkPaid :: "life_env \<Rightarrow> pay_order \<Rightarrow> pay_world \<Rightarrow> gostring \<times> pay_world" where
  "checkPaid env ord w =
     (case getOrderProvider env ord w of
        Inl _ \<Rightarrow> ([], w)
      | Inr prov \<Rightarrow>
         (let queryRef = paymentOrderQueryReference ord (pp_Key prov) in
          if queryRef = [] then ([], w)
          else case lp_Query prov queryRef of
            Inl _ \<Rightarrow> ([], w)
          | Inr resp \<Rightarrow>
              if qr_Status resp \<noteq> ProviderStatusPaid then ([], w)
              else if isValidProviderAmount (qr_Amount resp)
              then (checkPaidResultAlreadyPaid, settle_paid env ord prov queryRef resp w)
              else (let w1 = writeAuditLog (lf_pay env) (po_ID ord) ''PAYMENT_INVALID_AMOUNT'' (pp_Key prov) w in
                case requeryPaidOrderOnce prov queryRef of
                  None \<Rightarrow> ([], w1)
                | Some resp' \<Rightarrow> (checkPaidResultAlreadyPaid, settle_paid env ord prov queryRef resp' w1))))"

subsection \<open>Cancelling and expiring\<close>

definition pending :: "int64 \<Rightarrow> pay_order \<Rightarrow> bool" where
  "pending oid r \<longleftrightarrow> po_ID r = oid \<and> po_Status r = OrderStatusPending"

definition close_pending :: "life_env \<Rightarrow> pay_order \<Rightarrow> gostring \<Rightarrow> gostring \<Rightarrow> pay_world \<Rightarrow> gostring result \<times> pay_world" where
  "close_pending env ord fs op w =
     (case order_Update (lf_fault env LCancel) (lf_now env) (pending (po_ID ord)) (\<lambda>r. r\<lparr>po_Status := fs\<rparr>) w of
        (Inl e, w1) \<Rightarrow> (Inl (EWrap ''update order status'' e), w1)
      | (Inr c, w1) \<Rightarrow>
          (Inr checkPaidResultCancelled,
           if 0 < c then writeAuditLog (lf_pay env) (po_ID ord)
             (if fs = OrderStatusExpired then ''ORDER_EXPIRED'' else ''ORDER_CANCELLED'') op w1 else w1))"

definition cancelCore :: "life_env \<Rightarrow> pay_order \<Rightarrow> gostring \<Rightarrow> gostring \<Rightarrow> pay_world \<Rightarrow> gostring result \<times> pay_world" where
  "cancelCore env ord fs op w =
     (if po_PaymentTradeNo ord \<noteq> [] \<or> po_PaymentType ord \<noteq> [] then
        (case checkPaid env ord w of (result, w1) \<Rightarrow>
           if result = checkPaidResultAlreadyPaid then (Inr checkPaidResultAlreadyPaid, w1)
           else close_pending env ord fs op w1)
      else close_pending env ord fs op w)"

definition CancelOrder :: "life_env \<Rightarrow> int64 \<Rightarrow> int64 \<Rightarrow> pay_world \<Rightarrow> gostring result \<times> pay_world" where
  "CancelOrder env orderID userID w =
     (case order_Get (lf_fault env LGet) orderID w of
        Inl _ \<Rightarrow> (Inl (EApp (NotFound ''NOT_FOUND'' ''order not found'')), w)
      | Inr ord \<Rightarrow>
          if po_UserID ord \<noteq> userID then (Inl (EApp (Forbidden ''FORBIDDEN'' ''no permission for this order'')), w)
          else if po_Status ord \<noteq> OrderStatusPending
          then (Inl (EApp (BadRequest ''INVALID_STATUS'' ''order cannot be cancelled in current status'')), w)
          else cancelCore env ord OrderStatusCancelled (''user:'' @ itoa userID) w)"

definition AdminCancelOrder :: "life_env \<Rightarrow> int64 \<Rightarrow> pay_world \<Rightarrow> gostring result \<times> pay_world" where
  "AdminCancelOrder env orderID w =
     (case order_Get (lf_fault env LGet) orderID w of
        Inl _ \<Rightarrow> (Inl (EApp (NotFound ''NOT_FOUND'' ''order not found'')), w)
      | Inr ord \<Rightarrow>
          if po_Status ord \<noteq> OrderStatusPending
          then (Inl (EApp (BadRequest ''INVALID_STATUS'' ''order cannot be cancelled in current status'')), w)
          else cancelCore env ord OrderStatusCancelled ''admin'' w)"

text \<open>
  One run of the expiry job. \<open>envs\<close> gives each order the surroundings of its own calls; the list of
  orders is read before the first of them.
\<close>

fun expire_each :: "(pay_order \<Rightarrow> life_env) \<Rightarrow> pay_order list \<Rightarrow> nat \<Rightarrow> pay_world \<Rightarrow> nat \<times> pay_world" where
  "expire_each envs [] n w = (n, w)"
| "expire_each envs (ord # ords) n w =
     (case cancelCore (envs ord) ord OrderStatusExpired ''system'' w of
        (Inl _, w1) \<Rightarrow> expire_each envs ords n w1
      | (Inr outcome, w1) \<Rightarrow>
          if outcome = checkPaidResultAlreadyPaid then expire_each envs ords n w1
          else if outcome \<noteq> [] then expire_each envs ords (n + 1) w1
          else expire_each envs ords n w1)"

definition timed_out :: "time \<Rightarrow> pay_order \<Rightarrow> bool" where
  "timed_out now r \<longleftrightarrow> po_Status r = OrderStatusPending \<and> po_ExpiresAt r \<le> now"

definition ExpireTimedOutOrders ::
    "fault \<Rightarrow> time \<Rightarrow> (pay_order \<Rightarrow> life_env) \<Rightarrow> pay_world \<Rightarrow> nat result \<times> pay_world" where
  "ExpireTimedOutOrders f now envs w =
     (case read_fault f (Inr (filter (timed_out now) (pw_orders w))) of
        Inl e \<Rightarrow> (Inl (EWrap ''query expired'' e), w)
      | Inr orders \<Rightarrow> (case expire_each envs orders 0 w of (n, w') \<Rightarrow> (Inr n, w')))"

subsection \<open>Looking an order up\<close>

definition trade_no_char :: "char \<Rightarrow> bool" where
  "trade_no_char c \<longleftrightarrow>
     (let n = of_char c :: nat in 97 \<le> n \<and> n \<le> 122 \<or> 65 \<le> n \<and> n \<le> 90 \<or> 48 \<le> n \<and> n \<le> 57 \<or> n = 95 \<or> n = 45)"

definition normalizeOrderLookupOutTradeNo :: "gostring \<Rightarrow> gostring result" where
  "normalizeOrderLookupOutTradeNo raw =
     (let outTradeNo = trim_space raw in
      if outTradeNo = [] then Inl (EApp (BadRequest ''INVALID_OUT_TRADE_NO'' ''out_trade_no is required''))
      else if 64 < length outTradeNo then Inl (EApp (BadRequest ''INVALID_OUT_TRADE_NO'' ''out_trade_no is invalid''))
      else if list_all trade_no_char outTradeNo then Inr outTradeNo
      else Inl (EApp (BadRequest ''INVALID_OUT_TRADE_NO'' ''out_trade_no is invalid'')))"

definition VerifyOrderByOutTradeNo ::
    "life_env \<Rightarrow> gostring \<Rightarrow> int64 \<Rightarrow> pay_world \<Rightarrow> pay_order result \<times> pay_world" where
  "VerifyOrderByOutTradeNo env raw userID w =
     (case normalizeOrderLookupOutTradeNo raw of
        Inl e \<Rightarrow> (Inl e, w)
      | Inr outTradeNo \<Rightarrow>
         (case order_by_trade_no (lf_fault env LLookup) outTradeNo w of
            Inl _ \<Rightarrow> (Inl (EApp (NotFound ''NOT_FOUND'' ''order not found'')), w)
          | Inr ord \<Rightarrow>
              if po_UserID ord \<noteq> userID then (Inl (EApp (Forbidden ''FORBIDDEN'' ''no permission for this order'')), w)
              else if po_Status ord = OrderStatusPending \<or> po_Status ord = OrderStatusExpired then
                (case checkPaid env ord w of (result, w1) \<Rightarrow>
                   if result = checkPaidResultAlreadyPaid
                   then (case order_Get (lf_fault env LReload) (po_ID ord) w1 of
                           Inl e \<Rightarrow> (Inl (EWrap ''reload order'' e), w1)
                         | Inr ord' \<Rightarrow> (Inr ord', w1))
                   else (Inr ord, w1))
              else (Inr ord, w)))"

definition VerifyOrderPublic :: "life_env \<Rightarrow> gostring \<Rightarrow> pay_world \<Rightarrow> pay_order result" where
  "VerifyOrderPublic env raw w =
     (case normalizeOrderLookupOutTradeNo raw of
        Inl e \<Rightarrow> Inl e
      | Inr outTradeNo \<Rightarrow>
         (case order_by_trade_no (lf_fault env LLookup) outTradeNo w of
            Inl _ \<Rightarrow> Inl (EApp (NotFound ''NOT_FOUND'' ''order not found'')) | Inr ord \<Rightarrow> Inr ord))"

definition GetOrder :: "life_env \<Rightarrow> int64 \<Rightarrow> int64 \<Rightarrow> pay_world \<Rightarrow> pay_order result" where
  "GetOrder env orderID userID w =
     (case order_Get (lf_fault env LGet) orderID w of
        Inl _ \<Rightarrow> Inl (EApp (NotFound ''NOT_FOUND'' ''order not found''))
      | Inr ord \<Rightarrow> if po_UserID ord \<noteq> userID then Inl (EApp (Forbidden ''FORBIDDEN'' ''no permission for this order''))
                   else Inr ord)"

definition GetOrderByID :: "life_env \<Rightarrow> int64 \<Rightarrow> pay_world \<Rightarrow> pay_order result" where
  "GetOrderByID env orderID w =
     (case order_Get (lf_fault env LGet) orderID w of
        Inl _ \<Rightarrow> Inl (EApp (NotFound ''NOT_FOUND'' ''order not found'')) | Inr ord \<Rightarrow> Inr ord)"

subsection \<open>How often a user may cancel\<close>

record cancel_config =
  cc_Enabled :: bool
  cc_Max :: int
  cc_Window :: int
  cc_Unit :: gostring
  cc_Mode :: gostring

definition rateLimitUnitDay :: gostring where "rateLimitUnitDay = ''day''"
definition rateLimitUnitMinute :: gostring where "rateLimitUnitMinute = ''minute''"
definition rateLimitModeFixed :: gostring where "rateLimitModeFixed = ''fixed''"

text \<open>\<open>time.Duration(n) * unit\<close> wraps around at 64 bits.\<close>

definition cancelRateLimitWindowStart :: "location \<Rightarrow> time \<Rightarrow> cancel_config \<Rightarrow> time" where
  "cancelRateLimitWindowStart loc now cfg =
     (let w = (if cc_Window cfg \<le> 0 then 1 else cc_Window cfg);
          unit = (if cc_Unit cfg = [] then rateLimitUnitDay else cc_Unit cfg)
      in if cc_Mode cfg = rateLimitModeFixed then
           (if unit = rateLimitUnitMinute then Add (now - now mod Minute) (wrap64 (- (w - 1) * Minute))
            else if unit = rateLimitUnitDay then AddDays loc (startOfDay_in loc now) (- (w - 1))
            else Add (now - now mod Hour) (wrap64 (- (w - 1) * Hour)))
         else
           (if unit = rateLimitUnitMinute then Add now (wrap64 (- w * Minute))
            else if unit = rateLimitUnitDay then AddDays loc now (- w)
            else Add now (wrap64 (- w * Hour))))"

definition checkCancelRateLimit ::
    "fault \<Rightarrow> location \<Rightarrow> time \<Rightarrow> int64 \<Rightarrow> cancel_config \<Rightarrow> pay_world \<Rightarrow> unit result" where
  "checkCancelRateLimit f loc now userID cfg w =
     (if \<not> cc_Enabled cfg \<or> cc_Max cfg \<le> 0 then Inr ()
      else case read_fault f (Inr (affected (\<lambda>l. al_Action l = ''ORDER_CANCELLED'' \<and> al_Operator l = ''user:'' @ itoa userID
                  \<and> cancelRateLimitWindowStart loc now cfg \<le> al_CreatedAt l) (pw_audit w))) of
        Inl _ \<Rightarrow> Inr ()
      | Inr count \<Rightarrow>
          if cc_Max cfg \<le> int count
          then Inl (EApp (WithMetadata (TooManyRequests ''CANCEL_RATE_LIMITED'' ''cancel rate limited'')
                 (Some [''max'' \<mapsto> itoa (cc_Max cfg), ''window'' \<mapsto> itoa (cc_Window cfg), ''unit'' \<mapsto> cc_Unit cfg])))
          else Inr ())"

end
