(* ===== verification/PaymentLaws.thy ===== *)
theory PaymentLaws
  imports PaymentFulfillment
begin

text \<open>
  What fulfilment guarantees: an order is credited at most once, whatever fails and however often it is
  confirmed or retried; a failed order whose credit went through is completed without another one; the
  statuses an order can move through; and where a lost update leaves money or an order behind.
\<close>

subsection \<open>What the parts leave alone\<close>

lemma writeAuditLog_frame [simp]:
  "pw_orders (writeAuditLog env oid a op w) = pw_orders w"
  "pw_redeem (writeAuditLog env oid a op w) = pw_redeem w"
  "pw_instances (writeAuditLog env oid a op w) = pw_instances w"
  "pw_accrued (writeAuditLog env oid a op w) = pw_accrued w"
  by (auto simp: writeAuditLog_def with_fault_err_def split: fault.split)

lemma order_Update_frame:
  assumes "order_Update f now P upd w = (res, w')"
  shows "pw_redeem w' = pw_redeem w" "pw_audit w' = pw_audit w" "pw_accrued w' = pw_accrued w"
    "pw_instances w' = pw_instances w"
    "pw_orders w' = pw_orders w \<or>
     pw_orders w' = update_where P (\<lambda>r. (upd r)\<lparr>po_UpdatedAt := now\<rparr>) (pw_orders w)"
  using assms by (auto simp: order_Update_def with_fault_def split: fault.splits)

lemma order_Update_Inr:
  assumes "order_Update f now P upd w = (Inr c, w')"
  shows "c = affected P (pw_orders w)"
    "w' = w\<lparr>pw_orders := update_where P (\<lambda>r. (upd r)\<lparr>po_UpdatedAt := now\<rparr>) (pw_orders w)\<rparr>"
  using assms by (auto simp: order_Update_def with_fault_def split: fault.splits)

lemma tryClaim_frame:
  assumes "tryClaimAffiliateRebateAudit env oid w = (res, w')"
  shows "pw_orders w' = pw_orders w" "pw_redeem w' = pw_redeem w" "pw_accrued w' = pw_accrued w"
  using assms by (auto simp: tryClaimAffiliateRebateAudit_def with_fault_def split: fault.splits if_splits)

lemma rebate_tx_body_frame:
  "pw_orders (snd (rebate_tx_body env ord w)) = pw_orders w \<and> pw_redeem (snd (rebate_tx_body env ord w)) = pw_redeem w"
proof -
  have u: "pw_orders (snd (updateClaimedAffiliateRebateAudit env oid a w)) = pw_orders w \<and>
     pw_redeem (snd (updateClaimedAffiliateRebateAudit env oid a w)) = pw_redeem w" for oid a w
    by (auto simp: updateClaimedAffiliateRebateAudit_def with_fault_def Let_def split: fault.splits)
  have a: "pw_orders (snd (accrue_for_order env ord w)) = pw_orders w \<and>
     pw_redeem (snd (accrue_for_order env ord w)) = pw_redeem w"
    by (auto simp: accrue_for_order_def with_fault_def Let_def split: fault.splits)
  show ?thesis
    unfolding rebate_tx_body_def
    by (rule and_then_keeps [where P = "\<lambda>w'. pw_orders w' = pw_orders w \<and> pw_redeem w' = pw_redeem w"])
      (use u a in auto)
qed

lemma applyAffiliateRebate_frame:
  assumes "applyAffiliateRebateForOrder env ord w = (res, w')"
  shows "pw_orders w' = pw_orders w" "pw_redeem w' = pw_redeem w"
proof -
  let ?P = "\<lambda>w'. pw_orders w' = pw_orders w \<and> pw_redeem w' = pw_redeem w"
  have "?P (snd (rebate_tx env ord w))"
  proof (cases "tryClaimAffiliateRebateAudit env (po_ID ord) w")
    case (Pair c w1)
    note fr = tryClaim_frame [OF Pair]
    have "?P (snd (run_tx NoFault f (\<lambda>_. rebate_tx_body env ord w1) w))" for f
      using rebate_tx_body_frame [of env ord w1] fr by (intro run_tx_keeps [where P = ?P]) auto
    then show ?thesis using Pair by (auto simp: rebate_tx_def split: fault.split sum.split bool.split)
  qed
  then show "pw_orders w' = pw_orders w" "pw_redeem w' = pw_redeem w"
    using assms by (auto simp: applyAffiliateRebateForOrder_def split: if_splits prod.splits sum.splits)
qed

subsection \<open>The identity of an order\<close>

text \<open>The columns that fulfilment reads to decide whom to credit with what are never updated by it.\<close>

definition order_key :: "pay_order \<Rightarrow> int64 \<times> f64 \<times> gostring \<times> gostring" where
  "order_key r = (po_UserID r, po_Amount r, po_RechargeCode r, po_OrderType r)"

definition keyed :: "int64 \<Rightarrow> int64 \<times> f64 \<times> gostring \<times> gostring \<Rightarrow> pay_world \<Rightarrow> bool" where
  "keyed oid k w \<longleftrightarrow> (\<forall>r \<in> set (pw_orders w). po_ID r = oid \<longrightarrow> order_key r = k)"

definition keeps_order_key :: "(pay_order \<Rightarrow> pay_order) \<Rightarrow> bool" where
  "keeps_order_key upd \<longleftrightarrow> (\<forall>r. po_ID (upd r) = po_ID r \<and> order_key (upd r) = order_key r)"

lemma keyed_orders: "pw_orders w' = pw_orders w \<Longrightarrow> keyed oid k w' = keyed oid k w"
  by (simp add: keyed_def)

lemma order_Update_keyed:
  assumes "order_Update f now P upd w = (res, w')" "keeps_order_key upd" "keyed oid k w"
  shows "keyed oid k w'"
  using order_Update_frame(5) [OF assms(1)] assms(2,3)
  by (auto simp: keyed_def set_update_where keeps_order_key_def order_key_def)

lemma order_Get_keyed:
  assumes "order_Get f oid w = Inr ord" "keyed oid k w"
  shows "po_ID ord = oid \<and> order_key ord = k"
  using assms by (auto simp: order_Get_def order_by_id_def keyed_def dest!: read_fault_Inr find_SomeD split: option.splits)

subsection \<open>One credit per order\<close>

text \<open>
  The accounts and codes as an order with code \<open>c\<close> finds them: not yet credited, with no code or an
  unused one of the order's amount; or credited once, with the code used.
\<close>

definition codes_fresh :: "redeem_db \<Rightarrow> bool" where
  "codes_fresh d \<longleftrightarrow> codes_ok d \<and> (\<forall>r \<in> set (rd_codes d). rc_ID r < rd_next d)"

definition uncredited :: "gostring \<Rightarrow> f64 \<Rightarrow> user_acct list \<Rightarrow> redeem_db \<Rightarrow> bool" where
  "uncredited c a users d \<longleftrightarrow> rd_users d = users \<and>
     (\<forall>r. code_by_code c d = Some r \<longrightarrow> rc_Type r = RedeemTypeBalance \<and> rc_Value r = a \<and> CanUse r)"

definition credited ::
    "(f64 \<Rightarrow> f64 \<Rightarrow> f64) \<Rightarrow> gostring \<Rightarrow> int64 \<Rightarrow> f64 \<Rightarrow> user_acct list \<Rightarrow> redeem_db \<Rightarrow> bool" where
  "credited na c u a users d \<longleftrightarrow>
     (\<exists>user. find (\<lambda>x. ua_ID x = u) users = Some user \<and>
        rd_users d = credit_user na u (redeem_amount user a) users) \<and>
     (\<exists>r. code_by_code c d = Some r \<and> rc_Type r = RedeemTypeBalance \<and> IsUsed r)"

definition ledger ::
    "(f64 \<Rightarrow> f64 \<Rightarrow> f64) \<Rightarrow> gostring \<Rightarrow> int64 \<Rightarrow> f64 \<Rightarrow> user_acct list \<Rightarrow> redeem_db \<Rightarrow> bool" where
  "ledger na c u a users d \<longleftrightarrow> codes_fresh d \<and> (uncredited c a users d \<or> credited na c u a users d)"

text \<open>Redeeming never hands out a code id.\<close>

lemma with_subs_next [simp]: "rd_next (snd (with_subs k d)) = rd_next d"
  by (simp add: with_subs_def split: prod.split)

lemma reduceOrCancel_next: "rd_next (snd (reduceOrCancelSubscription env u g n c d)) = rd_next d"
proof -
  let ?P = "\<lambda>d'. rd_next d' = rd_next d"
  have w: "?P d' \<Longrightarrow> ?P (snd (with_subs k d'))" for k :: "sub_db \<Rightarrow> unit result \<times> sub_db" and d' by simp
  show ?thesis
    unfolding reduceOrCancelSubscription_def Let_def
    by (auto split: sum.split intro!: and_then_keeps [where P = ?P] w)
qed

lemma redeem_benefit_next: "rd_next (snd (redeem_benefit env u user code d)) = rd_next d"
  by (auto simp: redeem_benefit_def reduceOrCancel_next UpdateBalance_def UpdateConcurrency_def
      with_fault_err_def user_update_def sql_update_one_def split: fault.split prod.split sum.split)

lemma redeem_tx_next: "rd_next (snd (redeem_tx env u user code d)) = rd_next d"
proof -
  obtain r1 d1 where use: "code_Use (re_fault env RUse) (re_now env) (rc_ID code) u d = (r1, d1)"
    by (cases "code_Use (re_fault env RUse) (re_now env) (rc_ID code) u d")
  then have "rd_next d1 = rd_next d"
    by (auto simp: code_Use_def with_fault_err_def split: fault.splits if_splits)
  moreover obtain r2 d2 where ben: "redeem_benefit env u user code d1 = (r2, d2)"
    by (cases "redeem_benefit env u user code d1")
  ultimately show ?thesis
    using use redeem_benefit_next [of env u user code d1]
    by (cases r1; cases r2) (auto simp: redeem_tx_def Let_def redeem_rollback_def split: fault.split)
qed

lemma redeem_locked_next: "quiet_redeem env \<Longrightarrow> rd_next (snd (redeem_locked env u c d)) = rd_next d"
proof -
  assume q: "quiet_redeem env"
  have i: "rd_next (incrementRedeemErrorCount env u d) = rd_next d" for u d
    by (auto simp: incrementRedeemErrorCount_def with_fault_def split: fault.split)
  have t: "rd_next (tryAccrueAffiliateRebateForRedeem env u a d') = rd_next d'" for a d'
    by (simp add: tryAccrueAffiliateRebateForRedeem_def)
  show ?thesis
    using q redeem_tx_next [of env u _ _ d] i t
    by (auto simp: redeem_locked_def quiet_redeem_def Let_def split: sum.split prod.split)
      (metis snd_conv)+
qed

lemma RedeemCode_next: "quiet_redeem env \<Longrightarrow> rd_next (snd (RedeemCode env u c d)) = rd_next d"
proof -
  assume q: "quiet_redeem env"
  have "rd_next (snd (acquireRedeemLock env c d)) = rd_next d"
    by (auto simp: acquireRedeemLock_def with_fault_def split: fault.split)
  moreover have "rd_next (releaseRedeemLock env c d') = rd_next d'" for d'
    by (auto simp: releaseRedeemLock_def with_fault_def split: fault.split)
  ultimately show ?thesis
    using redeem_locked_next [OF q]
    by (auto simp: RedeemCode_def split: sum.split prod.split bool.split) (metis snd_conv)+
qed

lemma RedeemCode_no_code:
  assumes "code_by_code c d = None" "RedeemCode env u c d = (res, d')"
  shows "rd_codes d' = rd_codes d \<and> rd_users d' = rd_users d \<and> (\<exists>e. res = Inl e)"
proof -
  obtain ok d1 where lock: "acquireRedeemLock env c d = (ok, d1)" by (cases "acquireRedeemLock env c d")
  note fr = acquireRedeemLock_frame [OF lock]
  have "code_GetByCode f c d1 \<noteq> Inr r" for f r
    using assms(1) code_by_code_cong [OF fr(1)]
    by (auto simp: code_GetByCode_def code_found_def dest!: read_fault_Inr)
  then obtain e where "code_GetByCode (re_fault env RGetCode) c d1 = Inl e"
    by (cases "code_GetByCode (re_fault env RGetCode) c d1") auto
  then show ?thesis
    using assms(2) lock fr
    by (auto simp: RedeemCode_def redeem_locked_def split: sum.splits bool.splits if_splits)
qed

lemma codes_fresh_cong:
  "codes_fresh d \<Longrightarrow> rd_codes d' = rd_codes d \<Longrightarrow> rd_next d' = rd_next d \<Longrightarrow> codes_fresh d'"
  by (simp add: codes_fresh_def codes_ok_def)

lemma ledger_cong:
  assumes "ledger na c u a users d" "rd_codes d' = rd_codes d" "rd_users d' = rd_users d" "rd_next d' = rd_next d"
  shows "ledger na c u a users d'"
  using assms codes_fresh_cong [of d d'] code_by_code_cong [of d' d]
  by (auto simp: ledger_def uncredited_def credited_def)

lemma ledger_redeem:
  assumes L: "ledger na c u a users d" and env: "quiet_redeem env" "se_num_add (re_sub env) = na"
    and run: "RedeemCode env u c d = (res, d')"
  shows "ledger na c u a users d' \<and> (\<not> isl res \<longrightarrow> credited na c u a users d')"
proof (cases "code_by_code c d")
  case None
  with RedeemCode_no_code [OF None run] RedeemCode_next [OF env(1), of u c d] run L show ?thesis
    by (auto intro: ledger_cong)
next
  case (Some r)
  have n: "rd_next d' = rd_next d" using RedeemCode_next [OF env(1), of u c d] run by simp
  have ok: "codes_ok d" "rc_Type r = RedeemTypeBalance"
    using L Some by (auto simp: ledger_def codes_fresh_def uncredited_def credited_def)
  from RedeemCode_balance [OF ok(1) Some ok(2) env(1) run] show ?thesis
  proof (elim disjE conjE exE)
    fix e assume "rd_codes d' = rd_codes d" "rd_users d' = rd_users d" "res = Inl e"
    with n L show ?thesis by (auto intro: ledger_cong)
  next
    fix user
    assume can: "CanUse r" and codes: "rd_codes d' = use_code (re_now env) u r d"
      and user: "user_by_id u d = Some user"
      and users': "rd_users d' = credit_user (se_num_add (re_sub env)) u (redeem_amount user (rc_Value r)) (rd_users d)"
    from can Some have "\<not> credited na c u a users d"
      by (auto simp: credited_def CanUse_def IsUsed_def redeem_const_defs)
    with L Some have un: "rd_users d = users" "rc_Value r = a" by (auto simp: ledger_def uncredited_def)
    note new = code_by_code_use [OF ok(1) Some codes]
    have "\<forall>x \<in> set (rd_codes d'). rc_ID x < rd_next d'"
      using L n unfolding codes use_code_def ledger_def codes_fresh_def
      by (auto simp: set_update_where used_row_def)
    with new(2) have "codes_fresh d'" by (simp add: codes_fresh_def)
    moreover have "credited na c u a users d'"
      using new(1) can user users' un env(2) ok(2)
      by (auto simp: credited_def user_by_id_def used_row_def IsUsed_def)
    ultimately show ?thesis by (simp add: ledger_def)
  qed
qed

lemma ledger_create:
  assumes L: "ledger na c u a users d" and c: "trim_space c = c" and ord: "po_RechargeCode ord = c" "po_Amount ord = a"
  shows "ledger na c u a users (snd (CreateCode env (Some (order_code ord)) d))"
proof -
  define row where "row = (order_code ord)\<lparr>rc_ID := rd_next d, rc_CreatedAt := re_now env\<rparr>"
  have row: "rc_Code row = c" "rc_ID row = rd_next d" "rc_Value row = a" "CanUse row" "rc_Type row = RedeemTypeBalance"
    using ord by (simp_all add: row_def order_code_def CanUse_def)
  have cases: "snd (CreateCode env (Some (order_code ord)) d) = d \<or>
     (code_by_code c d = None \<and>
      snd (CreateCode env (Some (order_code ord)) d) = d\<lparr>rd_codes := rd_codes d @ [row], rd_next := rd_next d + 1\<rparr>)"
    using ord c
    by (auto simp: CreateCode_def order_code_def row_def Let_def code_Create_def with_fault_err_def redeem_const_defs
        split: fault.split)
  show ?thesis
  proof (cases "snd (CreateCode env (Some (order_code ord)) d) = d")
    case True
    with L show ?thesis by simp
  next
    case False
    with cases have none: "code_by_code c d = None"
      and d': "snd (CreateCode env (Some (order_code ord)) d) = d\<lparr>rd_codes := rd_codes d @ [row], rd_next := rd_next d + 1\<rparr>"
      by auto
    let ?d = "d\<lparr>rd_codes := rd_codes d @ [row], rd_next := rd_next d + 1\<rparr>"
    have "codes_fresh ?d"
      using L none row by (fastforce simp: ledger_def codes_fresh_def codes_ok_def code_by_code_def find_None_iff)
    moreover have "code_by_code c ?d = Some row"
      using none row by (simp add: code_by_code_def find_append)
    moreover have "rd_users d = users" using L none by (auto simp: ledger_def uncredited_def credited_def)
    ultimately show ?thesis using d' row by (auto simp: ledger_def uncredited_def)
  qed
qed

definition pay_inv ::
    "(f64 \<Rightarrow> f64 \<Rightarrow> f64) \<Rightarrow> int64 \<Rightarrow> int64 \<times> f64 \<times> gostring \<times> gostring \<Rightarrow> user_acct list \<Rightarrow> pay_world \<Rightarrow> bool" where
  "pay_inv na oid k users w \<longleftrightarrow> keyed oid k w \<and>
     (case k of (u, a, c, t) \<Rightarrow> ledger na c u a users (pw_redeem w))"

definition pay_env_ok :: "(f64 \<Rightarrow> f64 \<Rightarrow> f64) \<Rightarrow> pay_env \<Rightarrow> bool" where
  "pay_env_ok na env \<longleftrightarrow> quiet_redeem (pe_redeem env) \<and> se_num_add (re_sub (pe_redeem env)) = na"

definition balance_key :: "int64 \<times> f64 \<times> gostring \<times> gostring \<Rightarrow> bool" where
  "balance_key k \<longleftrightarrow> (case k of (u, a, c, t) \<Rightarrow> trim_space c = c \<and> t \<noteq> OrderTypeSubscription)"

lemma pay_inv_frame:
  "pay_inv na oid k users w \<Longrightarrow> pw_orders w' = pw_orders w \<Longrightarrow> pw_redeem w' = pw_redeem w \<Longrightarrow> pay_inv na oid k users w'"
  by (simp add: pay_inv_def keyed_def)

lemma pay_inv_audit [simp]:
  "pay_inv na oid k users (writeAuditLog env oid' a op w) = pay_inv na oid k users w"
  by (simp add: pay_inv_def keyed_def)

lemma pay_inv_order_Update:
  "pay_inv na oid k users w \<Longrightarrow> keeps_order_key upd \<Longrightarrow> pay_inv na oid k users (snd (order_Update f now P upd w))"
proof (cases "order_Update f now P upd w")
  case (Pair res w')
  assume "pay_inv na oid k users w" "keeps_order_key upd"
  with order_Update_keyed [OF Pair] order_Update_frame(1) [OF Pair] Pair show ?thesis
    by (simp add: pay_inv_def)
qed

lemma pay_inv_markCompleted:
  "pay_inv na oid k users w \<Longrightarrow> pay_inv na oid k users (snd (markCompleted env ord a w))"
  using pay_inv_order_Update [of na oid k users w
      "\<lambda>r. r\<lparr>po_Status := OrderStatusCompleted, po_CompletedAt := Some (pe_now env)\<rparr>" "pe_fault env PComplete"
      "pe_now env" "\<lambda>r. po_ID r = po_ID ord \<and> po_Status r = OrderStatusRecharging"]
  by (auto simp: markCompleted_def keeps_order_key_def order_key_def split: prod.split sum.split)

lemma pay_inv_markFailed:
  "pay_inv na oid k users w \<Longrightarrow> pay_inv na oid k users (markFailed env oid' e w)"
  using pay_inv_order_Update [of na oid k users w
      "\<lambda>r. r\<lparr>po_Status := OrderStatusFailed, po_FailedAt := Some (pe_now env), po_FailedReason := Some (pe_text env e)\<rparr>"
      "pe_fault env PFail" "pe_now env" "\<lambda>r. po_ID r = oid' \<and> po_Status r = OrderStatusRecharging"]
  by (auto simp: markFailed_def keeps_order_key_def order_key_def split: prod.split sum.split)

lemma pay_inv_finish:
  assumes "pay_inv na oid k users w" shows "pay_inv na oid k users (snd (finish_balance env ord w))"
proof -
  have "pay_inv na oid k users (snd (applyAffiliateRebateForOrder env ord w))"
    by (rule pay_inv_frame [OF assms]; cases "applyAffiliateRebateForOrder env ord w")
      (simp_all add: applyAffiliateRebate_frame)
  then show ?thesis
    unfolding finish_balance_def
    by (rule and_then_keeps [where P = "pay_inv na oid k users"]) (rule pay_inv_markCompleted)
qed

lemma pay_inv_redeem:
  assumes "pay_inv na oid k users w" "pay_env_ok na env" "order_key ord = k"
  shows "pay_inv na oid k users (snd (redeem_and_finish env ord w))"
proof -
  obtain u a c t where k: "k = (u, a, c, t)" by (cases k)
  let ?renv = "(pe_redeem env)\<lparr>re_skip_affiliate := True\<rparr>"
  have ord: "po_UserID ord = u" "po_RechargeCode ord = c" using assms(3) k by (auto simp: order_key_def)
  have "quiet_redeem ?renv" "se_num_add (re_sub ?renv) = na" using assms(2) by (auto simp: pay_env_ok_def quiet_redeem_def)
  then have "pay_inv na oid k users (snd (with_redeem (RedeemCode ?renv u c) w))"
    using ledger_redeem [of na c u a users "pw_redeem w" ?renv] assms(1) k
    by (cases "RedeemCode ?renv u c (pw_redeem w)") (auto simp: with_redeem_def pay_inv_def keyed_def)
  with ord show ?thesis
    unfolding redeem_and_finish_def
    by (intro and_then_keeps [where P = "pay_inv na oid k users"] pay_inv_finish) simp_all
qed

lemma pay_inv_doBalance:
  assumes "pay_inv na oid k users w" "pay_env_ok na env" "order_key ord = k" "balance_key k"
  shows "pay_inv na oid k users (snd (doBalance env ord w))"
proof -
  obtain u a c t where k: "k = (u, a, c, t)" by (cases k)
  have ord: "po_RechargeCode ord = c" "po_Amount ord = a" and c: "trim_space c = c"
    using assms(3,4) k by (auto simp: order_key_def balance_key_def)
  have "pay_inv na oid k users (snd (with_redeem (CreateCode (pe_redeem env) (Some (order_code ord))) w))"
    using ledger_create [OF _ c ord, of na u users "pw_redeem w" "pe_redeem env"] assms(1) k
    by (cases "CreateCode (pe_redeem env) (Some (order_code ord)) (pw_redeem w)")
      (auto simp: with_redeem_def pay_inv_def keyed_def)
  then have "pay_inv na oid k users (snd (and_then (wrap_err ''create redeem code''
      (with_redeem (CreateCode (pe_redeem env) (Some (order_code ord))) w)) (\<lambda>_. redeem_and_finish env ord)))"
    by (intro and_then_keeps [where P = "pay_inv na oid k users"] pay_inv_redeem [OF _ assms(2,3)]) simp_all
  then show ?thesis
    using pay_inv_finish [OF assms(1)] pay_inv_redeem [OF assms(1-3)]
    by (simp add: doBalance_def split: redeem_action.split)
qed

lemma pay_inv_fulfil:
  assumes "pay_inv na oid k users w"
    "\<And>ord w. order_key ord = k \<Longrightarrow> pay_inv na oid k users w \<Longrightarrow> pay_inv na oid k users (snd (work env ord w))"
  shows "pay_inv na oid k users (snd (fulfil_with info work env oid w))"
proof (cases "order_Get (pe_fault env PGetFulfil) oid w")
  case (Inl e)
  then show ?thesis using assms(1) by (simp add: fulfil_with_def)
next
  case (Inr ord)
  have key: "order_key ord = k" using order_Get_keyed [OF Inr] assms(1) by (simp add: pay_inv_def)
  obtain c w1 where lock: "order_Update (pe_fault env PLockOrder) (pe_now env) (fulfillable oid)
      (\<lambda>r. r\<lparr>po_Status := OrderStatusRecharging\<rparr>) w = (c, w1)"
    by (cases "order_Update (pe_fault env PLockOrder) (pe_now env) (fulfillable oid)
      (\<lambda>r. r\<lparr>po_Status := OrderStatusRecharging\<rparr>) w")
  have "keeps_order_key (\<lambda>r. r\<lparr>po_Status := OrderStatusRecharging\<rparr>)"
    by (simp add: keeps_order_key_def order_key_def)
  from pay_inv_order_Update [OF assms(1) this, of "pe_fault env PLockOrder" "pe_now env" "fulfillable oid"]
  have w1: "pay_inv na oid k users w1" unfolding lock by simp
  obtain r2 w2 where work: "work env ord w1 = (r2, w2)" by (cases "work env ord w1")
  have "pay_inv na oid k users w2" using assms(2) [OF key w1] work by simp
  with Inr lock work w1 assms(1) show ?thesis
    by (auto simp: fulfil_with_def pay_inv_markFailed split: sum.split)
qed

lemma pay_inv_execute:
  assumes "pay_inv na oid k users w" "pay_env_ok na env" "balance_key k"
  shows "pay_inv na oid k users (snd (executeFulfillment env oid w))"
proof (cases "order_Get (pe_fault env PGetExec) oid w")
  case (Inl e)
  then show ?thesis using assms(1) by (simp add: executeFulfillment_def)
next
  case (Inr ord)
  have "order_key ord = k" using order_Get_keyed [OF Inr] assms(1) by (simp add: pay_inv_def)
  with assms(3) have "po_OrderType ord \<noteq> OrderTypeSubscription" by (auto simp: balance_key_def order_key_def)
  moreover have "pay_inv na oid k users (snd (ExecuteBalanceFulfillment env oid w))"
    unfolding ExecuteBalanceFulfillment_def
    by (rule pay_inv_fulfil [OF assms(1)]) (rule pay_inv_doBalance [OF _ assms(2) _ assms(3)])
  ultimately show ?thesis using Inr by (simp add: executeFulfillment_def)
qed

lemma pay_inv_alreadyProcessed:
  assumes "pay_inv na oid k users w" "pay_env_ok na env" "balance_key k" "po_ID ord = oid"
  shows "pay_inv na oid k users (snd (alreadyProcessed env ord w))"
  using assms(1,4) pay_inv_execute [OF assms(1-3)] by (simp add: alreadyProcessed_def split: sum.split)

lemma pay_inv_toPaid:
  assumes "pay_inv na oid k users w" "pay_env_ok na env" "balance_key k" "po_ID ord = oid"
  shows "pay_inv na oid k users (snd (toPaid env ord tradeNo paid pk w))"
proof -
  let ?upd = "\<lambda>r. r\<lparr>po_Status := OrderStatusPaid, po_PayAmount := paid, po_PaymentTradeNo := tradeNo,
                    po_PaidAt := Some (pe_now env), po_FailedAt := None, po_FailedReason := None\<rparr>"
  let ?P = "payable (Add (pe_now env) (- paymentGraceMinutes * Minute)) (po_ID ord)"
  obtain c w1 where upd: "order_Update (pe_fault env PPaid) (pe_now env) ?P ?upd w = (c, w1)"
    by (cases "order_Update (pe_fault env PPaid) (pe_now env) ?P ?upd w")
  have "keeps_order_key ?upd" by (simp add: keeps_order_key_def order_key_def)
  from pay_inv_order_Update [OF assms(1) this, of "pe_fault env PPaid" "pe_now env" ?P] upd
  have w1: "pay_inv na oid k users w1" by simp
  then show ?thesis
    using upd assms(4) pay_inv_alreadyProcessed [OF w1 assms(2-4)] pay_inv_execute [OF _ assms(2,3)]
    by (simp add: toPaid_def Let_def split: sum.split del: Add_def)
qed

lemma pay_inv_confirm:
  assumes "pay_inv na oid k users w" "pay_env_ok na env" "balance_key k"
  shows "pay_inv na oid k users (snd (confirmPayment env oid tradeNo paid pk md w))"
proof (cases "order_Get (pe_fault env PGetConfirm) oid w")
  case (Inl e)
  then show ?thesis using assms(1) by (simp add: confirmPayment_def)
next
  case (Inr ord)
  have "po_ID ord = oid" using order_Get_keyed [OF Inr, of k] assms(1) by (simp add: pay_inv_def)
  from pay_inv_toPaid [OF assms this] Inr assms(1) show ?thesis
    by (simp add: confirmPayment_def Let_def split: sum.split)
qed

lemma pay_inv_retry:
  assumes "pay_inv na oid k users w" "pay_env_ok na env" "balance_key k"
  shows "pay_inv na oid k users (snd (RetryFulfillment env oid w))"
proof -
  let ?upd = "\<lambda>r. r\<lparr>po_Status := OrderStatusPaid, po_FailedAt := None, po_FailedReason := None\<rparr>"
  obtain c w1 where upd: "order_Update (pe_fault env PRetry) (pe_now env) (fulfillable oid) ?upd w = (c, w1)"
    by (cases "order_Update (pe_fault env PRetry) (pe_now env) (fulfillable oid) ?upd w")
  have "keeps_order_key ?upd" by (simp add: keeps_order_key_def order_key_def)
  from pay_inv_order_Update [OF assms(1) this, of "pe_fault env PRetry" "pe_now env" "fulfillable oid"] upd
  have "pay_inv na oid k users w1" by simp
  then show ?thesis
    using upd assms(1) pay_inv_execute [OF _ assms(2,3)]
    by (simp add: RetryFulfillment_def split: sum.split)
qed

text \<open>What can happen to one order: a confirmation by a provider, an administrator's retry, a fulfilment.\<close>

datatype pay_op = Confirm gostring f64 gostring metadata | Retry | Fulfil

fun pay_exec :: "int64 \<Rightarrow> pay_env \<times> pay_op \<Rightarrow> pay_world \<Rightarrow> pay_world" where
  "pay_exec oid (env, Confirm tradeNo paid pk md) w = snd (confirmPayment env oid tradeNo paid pk md w)"
| "pay_exec oid (env, Retry) w = snd (RetryFulfillment env oid w)"
| "pay_exec oid (env, Fulfil) w = snd (executeFulfillment env oid w)"

definition pay_run :: "int64 \<Rightarrow> (pay_env \<times> pay_op) list \<Rightarrow> pay_world \<Rightarrow> pay_world" where
  "pay_run oid ops w = fold (pay_exec oid) ops w"

lemma pay_inv_exec:
  "pay_inv na oid k users w \<Longrightarrow> pay_env_ok na (fst op) \<Longrightarrow> balance_key k \<Longrightarrow> pay_inv na oid k users (pay_exec oid op w)"
  by (cases "(oid, op, w)" rule: pay_exec.cases) (auto intro: pay_inv_confirm pay_inv_retry pay_inv_execute)

lemma pay_inv_run:
  "pay_inv na oid k users w \<Longrightarrow> \<forall>op \<in> set ops. pay_env_ok na (fst op) \<Longrightarrow> balance_key k
   \<Longrightarrow> pay_inv na oid k users (pay_run oid ops w)"
  unfolding pay_run_def by (induction ops arbitrary: w) (auto intro: pay_inv_exec)

text \<open>
  C2: a paid order is credited at most once. Take a balance order for which no redeem code exists yet and
  run any sequence of confirmations (webhooks, repeated or not), retries and fulfilments of it, in which
  any database call may fail or lose its acknowledgement. Afterwards the accounts are as before, or the
  order's user has been credited with the order's amount exactly once and the order's code is used.
\<close>

theorem order_credited_at_most_once:
  assumes "order_by_id oid w = Some ord" "distinct (map po_ID (pw_orders w))"
    "po_OrderType ord = OrderTypeBalance" "trim_space (po_RechargeCode ord) = po_RechargeCode ord"
    "flt (Fin 0) (po_Amount ord)" "codes_fresh (pw_redeem w)"
    "code_by_code (po_RechargeCode ord) (pw_redeem w) = None"
    "\<forall>op \<in> set ops. pay_env_ok na (fst op)"
  shows "rd_users (pw_redeem (pay_run oid ops w)) = rd_users (pw_redeem w) \<or>
    (rd_users (pw_redeem (pay_run oid ops w)) =
       credit_user na (po_UserID ord) (po_Amount ord) (rd_users (pw_redeem w)) \<and>
     (\<exists>r. code_by_code (po_RechargeCode ord) (pw_redeem (pay_run oid ops w)) = Some r \<and> IsUsed r))"
proof -
  let ?k = "order_key ord" and ?users = "rd_users (pw_redeem w)"
  have "keyed oid ?k w"
    using assms(1,2) by (auto simp: keyed_def order_by_id_def distinct_map inj_on_def dest!: find_SomeD)
  then have "pay_inv na oid ?k ?users w"
    using assms(6,7) by (simp add: pay_inv_def order_key_def ledger_def uncredited_def)
  moreover have "balance_key ?k"
    using assms(3,4) by (simp add: balance_key_def order_key_def pay_const_defs)
  ultimately have "pay_inv na oid ?k ?users (pay_run oid ops w)"
    using assms(8) by (intro pay_inv_run)
  moreover have "redeem_amount user (po_Amount ord) = po_Amount ord" for user
    using assms(5) by (cases "po_Amount ord") (auto simp: redeem_amount_def)
  ultimately show ?thesis
    by (auto simp: pay_inv_def order_key_def ledger_def uncredited_def credited_def)
qed

subsection \<open>A confirmed order completes\<close>

definition no_faults :: "pay_env \<Rightarrow> bool" where
  "no_faults env \<longleftrightarrow> pe_fault env = (\<lambda>_. NoFault)"

lemma order_by_id_update:
  assumes "\<And>r. P r \<Longrightarrow> po_ID (upd r) = po_ID r"
  shows "order_by_id oid (w\<lparr>pw_orders := update_where P upd (pw_orders w)\<rparr>) =
    map_option (\<lambda>r. if P r then upd r else r) (order_by_id oid w)"
  unfolding order_by_id_def by (simp, rule find_update_where_same) (simp add: assms)

text \<open>A guarded update without faults that the order at hand satisfies: at least one row, and what it reads then.\<close>

lemma order_Update_ok:
  assumes "order_by_id oid w = Some r" "P r" "\<And>r. P r \<Longrightarrow> po_ID (upd r) = po_ID r"
  shows "\<exists>c. order_Update NoFault now P upd w = (Inr (Suc c),
      w\<lparr>pw_orders := update_where P (\<lambda>r. (upd r)\<lparr>po_UpdatedAt := now\<rparr>) (pw_orders w)\<rparr>)"
    "order_by_id oid (w\<lparr>pw_orders := update_where P (\<lambda>r. (upd r)\<lparr>po_UpdatedAt := now\<rparr>) (pw_orders w)\<rparr>) =
       Some ((upd r)\<lparr>po_UpdatedAt := now\<rparr>)"
proof -
  have "r \<in> set (pw_orders w)" using assms(1) by (auto simp: order_by_id_def dest: find_SomeD)
  with assms(2) have "affected P (pw_orders w) \<noteq> 0" by (auto simp: affected_0_iff)
  then obtain c where "affected P (pw_orders w) = Suc c" by (cases "affected P (pw_orders w)") auto
  then show "\<exists>c. order_Update NoFault now P upd w = (Inr (Suc c),
      w\<lparr>pw_orders := update_where P (\<lambda>r. (upd r)\<lparr>po_UpdatedAt := now\<rparr>) (pw_orders w)\<rparr>)"
    by (simp add: order_Update_def)
  show "order_by_id oid (w\<lparr>pw_orders := update_where P (\<lambda>r. (upd r)\<lparr>po_UpdatedAt := now\<rparr>) (pw_orders w)\<rparr>) =
       Some ((upd r)\<lparr>po_UpdatedAt := now\<rparr>)"
    using assms by (subst order_by_id_update) simp_all
qed

lemma order_by_id_audit [simp]: "order_by_id oid (writeAuditLog env oid' a op w) = order_by_id oid w"
  by (simp add: order_by_id_def)

lemma order_by_id_redeem [simp]: "order_by_id oid (w\<lparr>pw_redeem := d\<rparr>) = order_by_id oid w"
  by (simp add: order_by_id_def)

lemma order_Get_NoFault [simp]: "order_by_id oid w = Some r \<Longrightarrow> order_Get NoFault oid w = Inr r"
  by (simp add: order_Get_def)

lemma order_by_id_ID: "order_by_id oid w = Some r \<Longrightarrow> po_ID r = oid"
  by (auto simp: order_by_id_def dest: find_SomeD)

lemma markCompleted_ok:
  assumes "no_faults env" "order_by_id (po_ID ord) w = Some r" "po_Status r = OrderStatusRecharging"
  shows "\<exists>w'. markCompleted env ord a w = (Inr (), w') \<and> pw_redeem w' = pw_redeem w \<and>
    order_by_id (po_ID ord) w' = Some (r\<lparr>po_Status := OrderStatusCompleted, po_CompletedAt := Some (pe_now env),
      po_UpdatedAt := pe_now env\<rparr>)"
proof -
  have "po_ID r = po_ID ord" using order_by_id_ID [OF assms(2)] .
  with order_Update_ok [of "po_ID ord" w r "\<lambda>r. po_ID r = po_ID ord \<and> po_Status r = OrderStatusRecharging"
      "\<lambda>r. r\<lparr>po_Status := OrderStatusCompleted, po_CompletedAt := Some (pe_now env)\<rparr>" "pe_now env"] assms
  show ?thesis by (auto simp: markCompleted_def no_faults_def)
qed

lemma rebate_ok:
  assumes "no_faults env" shows "fst (applyAffiliateRebateForOrder env ord w) = Inr ()"
proof -
  have aff: "affected P (xs @ [x]) = (if P x then Suc (affected P xs) else affected P xs)" for P :: "'a \<Rightarrow> bool" and xs x
    by (simp add: affected_def)
  have "fst (rebate_tx env ord w) = Inr ()"
    using assms
    by (auto simp: rebate_tx_def no_faults_def tryClaimAffiliateRebateAudit_def rebate_tx_body_def
        accrue_for_order_def updateClaimedAffiliateRebateAudit_def Let_def run_tx_def aff split: bool.split)
  then show ?thesis
    by (auto simp: applyAffiliateRebateForOrder_def split: prod.split sum.split)
qed

lemma finish_balance_ok:
  assumes "no_faults env" "order_by_id (po_ID ord) w = Some r" "po_Status r = OrderStatusRecharging"
  shows "\<exists>w'. finish_balance env ord w = (Inr (), w') \<and> pw_redeem w' = pw_redeem w \<and>
    order_by_id (po_ID ord) w' = Some (r\<lparr>po_Status := OrderStatusCompleted, po_CompletedAt := Some (pe_now env),
      po_UpdatedAt := pe_now env\<rparr>)"
proof -
  obtain w1 where w1: "applyAffiliateRebateForOrder env ord w = (Inr (), w1)"
    using rebate_ok [OF assms(1)] by (metis prod.collapse)
  note fr = applyAffiliateRebate_frame [OF w1]
  have "order_by_id (po_ID ord) w1 = Some r" using assms(2) fr(1) by (simp add: order_by_id_def)
  from markCompleted_ok [OF assms(1) this assms(3), of "''RECHARGE_SUCCESS''"] w1 fr(2)
  show ?thesis by (simp add: finish_balance_def)
qed

text \<open>The taking of an order and its work, when the order is paid or failed and nothing fails.\<close>

lemma fulfil_with_ok:
  assumes "no_faults env" "order_by_id oid w = Some r" "po_Status r \<in> {OrderStatusPaid, OrderStatusFailed}" "info r"
    and work: "\<And>w1. pw_redeem w1 = pw_redeem w \<Longrightarrow> pw_audit w1 = pw_audit w \<Longrightarrow>
      order_by_id oid w1 = Some (r\<lparr>po_Status := OrderStatusRecharging, po_UpdatedAt := pe_now env\<rparr>) \<Longrightarrow>
      \<exists>w2. work env r w1 = (Inr (), w2) \<and> Q w2"
  shows "\<exists>w2. fulfil_with info work env oid w = (Inr (), w2) \<and> Q w2"
proof -
  have id: "po_ID r = oid" using order_by_id_ID [OF assms(2)] .
  let ?w1 = "w\<lparr>pw_orders := update_where (fulfillable oid)
      (\<lambda>r. (r\<lparr>po_Status := OrderStatusRecharging\<rparr>)\<lparr>po_UpdatedAt := pe_now env\<rparr>) (pw_orders w)\<rparr>"
  have f: "fulfillable oid r" using id assms(3) by (simp add: fulfillable_def)
  note upd = order_Update_ok [OF assms(2), of "fulfillable oid", OF f, of "\<lambda>r. r\<lparr>po_Status := OrderStatusRecharging\<rparr>" "pe_now env", simplified]
  obtain w2 where "work env r ?w1 = (Inr (), w2)" "Q w2"
    using work [of ?w1] upd(2) by auto
  with upd(1) assms(1-4) show ?thesis
    by (auto simp: fulfil_with_def no_faults_def psIsRefundStatus_def order_status_defs)
qed

definition redeem_ready_for :: "pay_env \<Rightarrow> pay_order \<Rightarrow> pay_world \<Rightarrow> bool" where
  "redeem_ready_for env ord w \<longleftrightarrow>
     redeem_ready (pe_redeem env) (po_UserID ord) (po_RechargeCode ord) (pw_redeem w) \<and> codes_fresh (pw_redeem w)
     \<and> trim_space (po_RechargeCode ord) = po_RechargeCode ord \<and> po_RechargeCode ord \<noteq> []
     \<and> flt (Fin 0) (po_Amount ord) \<and> user_by_id (po_UserID ord) (pw_redeem w) \<noteq> None"

lemma redeem_amount_pos: "flt (Fin 0) a \<Longrightarrow> redeem_amount user a = a"
  by (cases a) (auto simp: redeem_amount_def)

lemma CreateCode_ok:
  assumes "re_fault env RCreate = NoFault" "trim_space (po_RechargeCode ord) = po_RechargeCode ord"
    "po_RechargeCode ord \<noteq> []" "flt (Fin 0) (po_Amount ord)" "code_by_code (po_RechargeCode ord) d = None"
  shows "CreateCode env (Some (order_code ord)) d =
    (let row = (order_code ord)\<lparr>rc_ID := rd_next d, rc_CreatedAt := re_now env\<rparr>
     in (Inr row, d\<lparr>rd_codes := rd_codes d @ [row], rd_next := rd_next d + 1\<rparr>))"
  using assms
  by (cases "po_Amount ord")
    (auto simp: CreateCode_def order_code_def code_Create_def redeem_const_defs Let_def)

lemma doBalance_ok:
  assumes "no_faults env" "redeem_ready_for env ord w" "code_by_code (po_RechargeCode ord) (pw_redeem w) = None"
    "order_by_id (po_ID ord) w = Some r" "po_Status r = OrderStatusRecharging"
  shows "\<exists>w'. doBalance env ord w = (Inr (), w') \<and>
    order_by_id (po_ID ord) w' = Some (r\<lparr>po_Status := OrderStatusCompleted, po_CompletedAt := Some (pe_now env),
      po_UpdatedAt := pe_now env\<rparr>) \<and>
    rd_users (pw_redeem w') = credit_user (se_num_add (re_sub (pe_redeem env))) (po_UserID ord) (po_Amount ord)
      (rd_users (pw_redeem w))"
proof -
  let ?c = "po_RechargeCode ord" and ?u = "po_UserID ord" and ?d = "pw_redeem w"
  let ?renv = "(pe_redeem env)\<lparr>re_skip_affiliate := True\<rparr>"
  define row where "row = (order_code ord)\<lparr>rc_ID := rd_next ?d, rc_CreatedAt := re_now (pe_redeem env)\<rparr>"
  define d1 where "d1 = ?d\<lparr>rd_codes := rd_codes ?d @ [row], rd_next := rd_next ?d + 1\<rparr>"
  note rr = assms(2) [unfolded redeem_ready_for_def]
  have nf: "re_fault (pe_redeem env) = (\<lambda>_. NoFault)" using rr by (simp add: redeem_ready_def)
  have create: "CreateCode (pe_redeem env) (Some (order_code ord)) ?d = (Inr row, d1)"
    using CreateCode_ok [of "pe_redeem env" ord ?d] nf rr assms(3) by (simp add: row_def d1_def Let_def)
  have row: "rc_Code row = ?c" "rc_Type row = RedeemTypeBalance" "CanUse row" "rc_Value row = po_Amount ord"
      "rc_ID row = rd_next ?d"
    by (simp_all add: row_def order_code_def CanUse_def)
  have get: "GetByCode ((pe_redeem env)\<lparr>re_fault := \<lambda>_. pe_fault env PCode\<rparr>) ?c ?d =
      Inl (EWrap ''get redeem code'' (EApp ErrRedeemCodeNotFound))"
    using assms(1,3) by (simp add: GetByCode_def code_GetByCode_def code_found_def no_faults_def)
  obtain user where user: "user_by_id ?u d1 = Some user" using rr by (auto simp: d1_def user_by_id_def)
  have ready: "redeem_ready ?renv ?u ?c d1"
    using rr by (simp add: redeem_ready_def d1_def quiet_redeem_def)
  have ok: "codes_ok d1"
    using rr assms(3) row by (fastforce simp: codes_fresh_def codes_ok_def d1_def code_by_code_def find_None_iff)
  have by_code: "code_by_code ?c d1 = Some row"
    using assms(3) row by (simp add: code_by_code_def d1_def find_append)
  note red = RedeemCode_balance_ok [OF ready ok by_code row(2,3) user]
  obtain d2 where d2: "RedeemCode ?renv ?u ?c d1 = (Inr (used_row (re_now ?renv) ?u row), d2)"
      "rd_users d2 = credit_user (se_num_add (re_sub (pe_redeem env))) ?u (po_Amount ord) (rd_users ?d)"
    using red(1,2) rr row(4) by (cases "RedeemCode ?renv ?u ?c d1") (auto simp: d1_def redeem_amount_pos)
  have "order_by_id (po_ID ord) (w\<lparr>pw_redeem := d2\<rparr>) = Some r" using assms(4) by simp
  from finish_balance_ok [OF assms(1) this assms(5)]
  obtain w' where w': "finish_balance env ord (w\<lparr>pw_redeem := d2\<rparr>) = (Inr (), w')" "pw_redeem w' = d2"
    "order_by_id (po_ID ord) w' = Some (r\<lparr>po_Status := OrderStatusCompleted, po_CompletedAt := Some (pe_now env),
      po_UpdatedAt := pe_now env\<rparr>)" by auto
  have "doBalance env ord w = (Inr (), w')"
    using create get d2(1) w'(1)
    by (simp add: doBalance_def resolveRedeemAction_def with_redeem_def redeem_and_finish_def)
  with w' d2(2) show ?thesis by auto
qed

lemma executeFulfillment_ok:
  assumes "no_faults env" "order_by_id oid w = Some r" "po_Status r \<in> {OrderStatusPaid, OrderStatusFailed}"
    "po_OrderType r = OrderTypeBalance" "redeem_ready_for env r w"
    "code_by_code (po_RechargeCode r) (pw_redeem w) = None"
  shows "\<exists>w'. executeFulfillment env oid w = (Inr (), w') \<and>
    order_by_id oid w' = Some (r\<lparr>po_Status := OrderStatusCompleted, po_CompletedAt := Some (pe_now env),
      po_UpdatedAt := pe_now env\<rparr>) \<and>
    rd_users (pw_redeem w') = credit_user (se_num_add (re_sub (pe_redeem env))) (po_UserID r) (po_Amount r)
      (rd_users (pw_redeem w))"
proof -
  have id: "po_ID r = oid" using order_by_id_ID [OF assms(2)] .
  let ?Q = "\<lambda>w'. order_by_id oid w' = Some (r\<lparr>po_Status := OrderStatusCompleted,
        po_CompletedAt := Some (pe_now env), po_UpdatedAt := pe_now env\<rparr>) \<and>
      rd_users (pw_redeem w') = credit_user (se_num_add (re_sub (pe_redeem env))) (po_UserID r) (po_Amount r)
      (rd_users (pw_redeem w))"
  have "\<exists>w'. fulfil_with (\<lambda>_. True) doBalance env oid w = (Inr (), w') \<and> ?Q w'"
  proof (rule fulfil_with_ok [OF assms(1-3) TrueI])
    fix w1
    assume w1: "pw_redeem w1 = pw_redeem w"
      "order_by_id oid w1 = Some (r\<lparr>po_Status := OrderStatusRecharging, po_UpdatedAt := pe_now env\<rparr>)"
    then have "redeem_ready_for env r w1" "code_by_code (po_RechargeCode r) (pw_redeem w1) = None"
      using assms(5,6) by (simp_all add: redeem_ready_for_def)
    from doBalance_ok [OF assms(1) this, of "r\<lparr>po_Status := OrderStatusRecharging, po_UpdatedAt := pe_now env\<rparr>"] w1 id
    show "\<exists>w2. doBalance env r w1 = (Inr (), w2) \<and> ?Q w2" by auto
  qed
  with assms(1,2,4) show ?thesis
    by (simp add: executeFulfillment_def ExecuteBalanceFulfillment_def no_faults_def pay_const_defs)
qed

definition accepts_payment :: "pay_env \<Rightarrow> pay_order \<Rightarrow> f64 \<Rightarrow> gostring \<Rightarrow> metadata \<Rightarrow> pay_world \<Rightarrow> bool" where
  "accepts_payment env ord paid pk md w \<longleftrightarrow>
     (let instanceProviderKey = (case getOrderProviderInstance (pe_fault env PInstance) (pw_instances w) ord of
            Inr (Some inst) \<Rightarrow> pi_ProviderKey inst | _ \<Rightarrow> []);
          expected = expectedNotificationProviderKeyForOrder (pe_registry env) ord instanceProviderKey
      in (expected = [] \<or> trim_space pk = [] \<or> EqualFold expected (trim_space pk))
         \<and> validateProviderSnapshotMetadata ord pk md = Inr () \<and> isValidProviderAmount paid
         \<and> \<not> flt (paymentAmountToleranceForCurrency (PaymentOrderCurrency ord)) (fabs (fsub paid (po_PayAmount ord))))"

lemma confirmPayment_accepts:
  assumes "order_Get (pe_fault env PGetConfirm) oid w = Inr ord" "accepts_payment env ord paid pk md w"
  shows "confirmPayment env oid tradeNo paid pk md w = toPaid env ord tradeNo paid pk w"
  using assms by (auto simp: confirmPayment_def accepts_payment_def Let_def)


lemma tolerance_nonneg: "fle (Fin 0) (paymentAmountToleranceForCurrency c)"
proof -
  have half: "fle (Fin 0) x \<Longrightarrow> fle (Fin 0) (fdiv x (Fin 2))" for x
    by (cases x) (auto intro!: f64_of_rat_nonneg)
  show ?thesis
    by (auto simp: paymentAmountToleranceForCurrency_def Let_def amountToleranceCNY_def
        intro!: half f64_of_rat_nonneg)
qed

lemma exact_amount_accepted: "\<not> flt (paymentAmountToleranceForCurrency c) (fabs (fsub (Fin x) (Fin x)))"
  using tolerance_nonneg [of c] by (cases "paymentAmountToleranceForCurrency c") (auto simp: fsub_def)

definition demo_order :: pay_order where
  "demo_order = \<lparr>po_ID = 7, po_UserID = 5, po_UserEmail = [], po_UserName = [], po_UserNotes = None,
     po_Amount = Fin 10, po_PayAmount = Fin 10, po_FeeRate = Fin 0, po_RechargeCode = ''PAY-7'',
     po_OutTradeNo = ''sub2_x'', po_PaymentType = ''stripe'', po_PaymentTradeNo = [], po_PayURL = None,
     po_QRCode = None, po_QRCodeImg = None, po_OrderType = OrderTypeBalance, po_PlanID = None,
     po_SubscriptionGroupID = None, po_SubscriptionDays = None, po_ProviderInstanceID = None, po_ProviderKey = None,
     po_ProviderSnapshot = [], po_Status = OrderStatusPending, po_RefundAmount = Fin 0, po_RefundReason = None,
     po_RefundAt = None, po_ForceRefund = False, po_RefundRequestedAt = None, po_RefundRequestReason = None,
     po_RefundRequestedBy = None, po_ExpiresAt = 1000, po_PaidAt = None, po_CompletedAt = None, po_FailedAt = None,
     po_FailedReason = None, po_ClientIP = [], po_SrcHost = [], po_SrcURL = None, po_CreatedAt = 0, po_UpdatedAt = 0\<rparr>"

definition demo_world :: pay_world where
  "demo_world = \<lparr>pw_orders = [demo_order], pw_audit = [], pw_instances = [], pw_redeem = demo_redeem, pw_accrued = []\<rparr>"

definition calm_pay :: "time \<Rightarrow> pay_env" where
  "calm_pay now = \<lparr>pe_now = now, pe_fault = (\<lambda>_. NoFault), pe_redeem = calm_redeem now, pe_registry = None,
     pe_affiliate = False, pe_rebate = (\<lambda>_ _. Fin 0), pe_text = (\<lambda>_. [])\<rparr>"

lemma calm_pay_ok [simp]: "no_faults (calm_pay now)" "pay_env_ok fadd (calm_pay now)"
  by (simp_all add: no_faults_def calm_pay_def pay_env_ok_def quiet_redeem_def calm_redeem_def calm_env_def)

lemma demo_trims: "trim_space ''PAY-7'' = ''PAY-7''" "trim_space ''stripe'' = ''stripe''"
  by code_simp+

lemma demo_world_facts:
  "order_by_id 7 demo_world = Some demo_order" "codes_fresh (pw_redeem demo_world)"
  "code_by_code (po_RechargeCode demo_order) (pw_redeem demo_world) = None"
  "trim_space (po_RechargeCode demo_order) = po_RechargeCode demo_order"
  by (simp_all add: order_by_id_def demo_world_def demo_order_def codes_fresh_def codes_ok_def demo_redeem_def
      demo_code_def code_by_code_def demo_trims)

lemma demo_accepts: "accepts_payment (calm_pay 9) demo_order (Fin 10) ''stripe'' [] demo_world"
proof -
  have "getOrderProviderInstance NoFault [] demo_order = Inr None"
    by (simp add: getOrderProviderInstance_def psOrderProviderSnapshot_def demo_order_def psStringValue_def
        resolveUniqueLegacyOrderProviderInstance_def psFilterLegacyOrderProviderInstances_def the_only_def Let_def)
  then show ?thesis
    using exact_amount_accepted [of "PaymentOrderCurrency demo_order" 10]
    by (simp add: accepts_payment_def calm_pay_def demo_world_def expectedNotificationProviderKeyForOrder_def
        expectedNotificationProviderKey_def psOrderProviderSnapshot_def demo_order_def psStringValue_def demo_trims
        validateProviderSnapshotMetadata_def isValidProviderAmount_def Let_def)
qed

lemma demo_ready: "redeem_ready_for (calm_pay 9) demo_order demo_world"
  using demo_world_facts(2)
  by (simp add: redeem_ready_for_def redeem_ready_def calm_pay_def calm_redeem_def quiet_redeem_def demo_world_def
      demo_redeem_def demo_order_def redeemMaxErrorsPerHour_def demo_trims user_by_id_def demo_users_def)


definition lossy_pay :: "time \<Rightarrow> pay_env" where
  "lossy_pay now = (calm_pay now)\<lparr>pe_fault := (\<lambda>c. if c = PComplete then Lost (EPlain ''timeout'') else NoFault)\<rparr>"

theorem order_credited_at_most_once_witness:
  "let w = pay_run 7 [(lossy_pay 9, Confirm ''tr1'' (Fin 10) ''stripe'' []), (calm_pay 10, Retry),
             (calm_pay 11, Confirm ''tr1'' (Fin 10) ''stripe'' [])] demo_world
   in rd_users (pw_redeem w) = demo_users \<or> rd_users (pw_redeem w) = credit_user fadd 5 (Fin 10) demo_users"
proof -
  have "pay_env_ok fadd (lossy_pay 9)"
    by (simp add: lossy_pay_def pay_env_ok_def calm_pay_def quiet_redeem_def calm_redeem_def calm_env_def)
  then show ?thesis
    using order_credited_at_most_once [OF demo_world_facts(1) _ _ demo_world_facts(4) _ demo_world_facts(2,3),
        of "[(lossy_pay 9, Confirm ''tr1'' (Fin 10) ''stripe'' []), (calm_pay 10, Retry),
             (calm_pay 11, Confirm ''tr1'' (Fin 10) ''stripe'' [])]" fadd]
    by (auto simp: Let_def demo_world_def demo_redeem_def demo_order_def)
qed

subsection \<open>Retrying a failed order\<close>

lemma doBalance_used:
  assumes "no_faults env" "code_by_code (po_RechargeCode ord) (pw_redeem w) = Some code" "IsUsed code"
    "order_by_id (po_ID ord) w = Some r" "po_Status r = OrderStatusRecharging"
  shows "\<exists>w'. doBalance env ord w = (Inr (), w') \<and> pw_redeem w' = pw_redeem w \<and>
    order_by_id (po_ID ord) w' = Some (r\<lparr>po_Status := OrderStatusCompleted, po_CompletedAt := Some (pe_now env),
      po_UpdatedAt := pe_now env\<rparr>)"
  using finish_balance_ok [OF assms(1,4,5)] assms(1-3)
  by (simp add: doBalance_def resolveRedeemAction_def GetByCode_def code_GetByCode_def code_found_def no_faults_def)

text \<open>
  Retrying an order whose credit went through does not credit again. When a balance order failed after
  its code was used (a rebate or a status update was lost), an administrator's retry without faults
  completes it and leaves accounts and codes exactly as they are.
\<close>

theorem retry_completes_credited_order:
  assumes "no_faults env" "order_by_id oid w = Some ord" "po_Status ord = OrderStatusFailed"
    "po_PaidAt ord \<noteq> None" "po_OrderType ord = OrderTypeBalance"
    "code_by_code (po_RechargeCode ord) (pw_redeem w) = Some code" "IsUsed code"
  shows "fst (RetryFulfillment env oid w) = Inr () \<and> pw_redeem (snd (RetryFulfillment env oid w)) = pw_redeem w \<and>
    order_by_id oid (snd (RetryFulfillment env oid w)) =
      Some (ord\<lparr>po_Status := OrderStatusCompleted, po_FailedAt := None, po_FailedReason := None,
        po_CompletedAt := Some (pe_now env), po_UpdatedAt := pe_now env\<rparr>)"
proof -
  have id: "po_ID ord = oid" using order_by_id_ID [OF assms(2)] .
  let ?now = "pe_now env"
  let ?upd = "\<lambda>r. r\<lparr>po_Status := OrderStatusPaid, po_FailedAt := None, po_FailedReason := None\<rparr>"
  let ?w1 = "w\<lparr>pw_orders := update_where (fulfillable oid) (\<lambda>r. (?upd r)\<lparr>po_UpdatedAt := ?now\<rparr>) (pw_orders w)\<rparr>"
  have P: "fulfillable oid ord" using id assms(3) by (simp add: fulfillable_def)
  note upd = order_Update_ok [OF assms(2), of "fulfillable oid", OF P, of ?upd ?now]
  define w2 where "w2 = writeAuditLog env oid ''RECHARGE_RETRY'' ''admin'' ?w1"
  let ?r = "(?upd ord)\<lparr>po_UpdatedAt := ?now\<rparr>"
  have w2: "order_by_id oid w2 = Some ?r" "pw_redeem w2 = pw_redeem w" using upd(2) by (simp_all add: w2_def)
  let ?Q = "\<lambda>w'. pw_redeem w' = pw_redeem w \<and> order_by_id oid w' = Some (?r\<lparr>po_Status := OrderStatusCompleted,
        po_CompletedAt := Some ?now, po_UpdatedAt := ?now\<rparr>)"
  have "\<exists>w'. fulfil_with (\<lambda>_. True) doBalance env oid w2 = (Inr (), w') \<and> ?Q w'"
  proof (rule fulfil_with_ok [OF assms(1) w2(1) _ TrueI])
    fix w1
    assume w1: "pw_redeem w1 = pw_redeem w2"
      "order_by_id oid w1 = Some (?r\<lparr>po_Status := OrderStatusRecharging, po_UpdatedAt := ?now\<rparr>)"
    from doBalance_used [OF assms(1) _ assms(7), of ?r w1 "?r\<lparr>po_Status := OrderStatusRecharging, po_UpdatedAt := ?now\<rparr>"]
      w1 w2(2) id assms(6)
    show "\<exists>w3. doBalance env ?r w1 = (Inr (), w3) \<and> ?Q w3" by auto
  qed simp
  then obtain w' where w': "fulfil_with (\<lambda>_. True) doBalance env oid w2 = (Inr (), w')" "?Q w'" by blast
  have "RetryFulfillment env oid w = executeFulfillment env oid w2"
    using assms(1-4) upd(1)
    by (auto simp: RetryFulfillment_def no_faults_def psIsRefundStatus_def order_status_defs w2_def)
  also have "\<dots> = (Inr (), w')"
    using w'(1) w2(1) assms(1,5)
    by (simp add: executeFulfillment_def no_faults_def pay_const_defs ExecuteBalanceFulfillment_def)
  finally show ?thesis using w'(2) by simp
qed

definition demo_failed :: pay_world where
  "demo_failed = demo_world\<lparr>pw_orders := [demo_order\<lparr>po_Status := OrderStatusFailed, po_PaidAt := Some 3\<rparr>],
     pw_redeem := demo_redeem\<lparr>rd_codes := [demo_code\<lparr>rc_Code := ''PAY-7'', rc_Status := StatusUsed\<rparr>]\<rparr>\<rparr>"

theorem retry_completes_credited_order_witness:
  "rd_users (pw_redeem (snd (RetryFulfillment (calm_pay 9) 7 demo_failed))) = demo_users"
  using retry_completes_credited_order [OF calm_pay_ok(1), of 7 demo_failed
      "demo_order\<lparr>po_Status := OrderStatusFailed, po_PaidAt := Some 3\<rparr>"
      "demo_code\<lparr>rc_Code := ''PAY-7'', rc_Status := StatusUsed\<rparr>" 9]
  by (simp add: demo_failed_def demo_world_def demo_redeem_def order_by_id_def demo_order_def code_by_code_def
      demo_code_def IsUsed_def)

subsection \<open>Where a lost update leaves an order\<close>

text \<open>An order that is not payable, not failed and not paid is left alone by every operation.\<close>

lemma order_Update_none:
  assumes "\<And>r. r \<in> set (pw_orders w) \<Longrightarrow> \<not> P r"
  shows "\<exists>res. order_Update f now P upd w = (res, w) \<and> (\<forall>c. res = Inr c \<longrightarrow> c = 0)"
proof -
  have a: "affected P (pw_orders w) = 0" using assms by (simp add: affected_0_iff)
  then have "w\<lparr>pw_orders := update_where P g (pw_orders w)\<rparr> = w" for g by (simp add: update_where_id)
  with a show ?thesis by (cases f) (simp_all add: order_Update_def with_fault_def)
qed

definition recharging :: "int64 \<Rightarrow> pay_world \<Rightarrow> bool" where
  "recharging oid w \<longleftrightarrow> (\<forall>r \<in> set (pw_orders w). po_ID r = oid \<longrightarrow> po_Status r = OrderStatusRecharging)"

lemma recharging_Get: "recharging oid w \<Longrightarrow> order_Get f oid w = Inr r \<Longrightarrow> po_Status r = OrderStatusRecharging \<and> po_ID r = oid"
  by (auto simp: recharging_def order_Get_def order_by_id_def dest!: read_fault_Inr find_SomeD split: option.splits)

lemma recharging_execute:
  assumes "recharging oid w" shows "snd (executeFulfillment env oid w) = w"
proof -
  have "snd (fulfil_with info work env oid w) = w" for info work
  proof (cases "order_Get (pe_fault env PGetFulfil) oid w")
    case (Inr r)
    with recharging_Get [OF assms Inr] show ?thesis
      by (simp add: fulfil_with_def order_status_defs psIsRefundStatus_def)
  qed (simp add: fulfil_with_def)
  then show ?thesis
    by (simp add: executeFulfillment_def ExecuteBalanceFulfillment_def ExecuteSubscriptionFulfillment_def split: sum.split)
qed

lemma recharging_toPaid:
  assumes "recharging oid w" "po_ID ord = oid"
  shows "snd (toPaid env ord tradeNo paid pk w) = w"
proof -
  let ?P = "payable (Add (pe_now env) (- paymentGraceMinutes * Minute)) oid"
  have "\<not> ?P r" if "r \<in> set (pw_orders w)" for r
    using assms that by (auto simp: recharging_def payable_def order_status_defs)
  then obtain res where upd: "\<And>upd. \<exists>res. order_Update (pe_fault env PPaid) (pe_now env) ?P upd w = (res, w)
      \<and> (\<forall>c. res = Inr c \<longrightarrow> c = 0)"
    using order_Update_none [of w ?P] by blast
  have "snd (alreadyProcessed env ord w) = w"
    using assms recharging_Get [OF assms(1)] recharging_execute [OF assms(1)]
    by (auto simp: alreadyProcessed_def order_status_defs split: sum.split)
  then show ?thesis
    using upd [of "\<lambda>r. r\<lparr>po_Status := OrderStatusPaid, po_PayAmount := paid, po_PaymentTradeNo := tradeNo,
                    po_PaidAt := Some (pe_now env), po_FailedAt := None, po_FailedReason := None\<rparr>"] assms(2)
    by (auto simp: toPaid_def Let_def simp del: Add_def split: sum.splits)
qed

lemma recharging_step:
  assumes "recharging oid w"
  shows "pw_orders (pay_exec oid op w) = pw_orders w \<and> pw_redeem (pay_exec oid op w) = pw_redeem w"
proof (cases "(oid, op, w)" rule: pay_exec.cases)
  case (1 oid' env tradeNo paid pk md w')
  then have eq: "oid' = oid" "w' = w" "op = (env, Confirm tradeNo paid pk md)" by auto
  have t: "snd (toPaid env ord tradeNo paid pk w) = w" if "po_ID ord = oid" for ord
    by (rule recharging_toPaid [OF assms that])
  show ?thesis
  proof (cases "order_Get (pe_fault env PGetConfirm) oid w")
    case (Inr ord)
    with recharging_Get [OF assms Inr] t show ?thesis
      by (simp add: eq confirmPayment_def Let_def split: sum.split)
  qed (simp add: eq confirmPayment_def)
next
  case (2 oid' env w')
  then have eq: "oid' = oid" "w' = w" "op = (env, Retry)" by auto
  show ?thesis
  proof (cases "order_Get (pe_fault env PGetRetry) oid w")
    case (Inr ord)
    with recharging_Get [OF assms Inr] show ?thesis
      by (auto simp: eq RetryFulfillment_def order_status_defs psIsRefundStatus_def)
  qed (simp add: eq RetryFulfillment_def)
next
  case (3 oid' env w')
  then show ?thesis using recharging_execute [OF assms] by auto
qed

text \<open>
  An order left in RECHARGING stays there. If the process stops, or loses its updates, between taking
  an order and marking it completed or failed, then no confirmation, retry or fulfilment of that order
  ever changes it, the accounts, the codes or the subscriptions again.
\<close>

theorem recharging_order_is_stuck:
  assumes "recharging oid w"
  shows "pw_orders (pay_run oid ops w) = pw_orders w \<and> pw_redeem (pay_run oid ops w) = pw_redeem w"
  unfolding pay_run_def using assms
proof (induction ops arbitrary: w)
  case (Cons op ops)
  note s = recharging_step [OF Cons.prems, of op]
  then have "recharging oid (pay_exec oid op w)" using Cons.prems by (simp add: recharging_def)
  from Cons.IH [OF this] s show ?case by simp
qed simp

definition crash_pay :: "time \<Rightarrow> pay_env" where
  "crash_pay now = (calm_pay now)\<lparr>pe_fault := (\<lambda>c. if c = PCode \<or> c = PFail then Lost (EPlain ''shutdown'') else NoFault),
     pe_redeem := (calm_redeem now)\<lparr>re_fault := (\<lambda>_. Lost (EPlain ''shutdown''))\<rparr>\<rparr>"

definition demo_paid :: pay_world where
  "demo_paid = demo_world\<lparr>pw_orders := [demo_order\<lparr>po_Status := OrderStatusPaid, po_PaidAt := Some 3\<rparr>]\<rparr>"

theorem recharging_order_is_stuck_witness:
  "let w = snd (executeFulfillment (crash_pay 9) 7 demo_paid)
   in map po_Status (pw_orders (pay_run 7 [(calm_pay 10, Retry), (calm_pay 11, Fulfil)] w)) = [OrderStatusRecharging]"
proof -
  define w where "w = snd (executeFulfillment (crash_pay 9) 7 demo_paid)"
  have w: "map po_Status (pw_orders w) = [OrderStatusRecharging]"
    by (simp add: w_def executeFulfillment_def ExecuteBalanceFulfillment_def fulfil_with_def order_Get_def order_by_id_def
        demo_paid_def demo_world_def demo_order_def crash_pay_def calm_pay_def psIsRefundStatus_def order_status_defs
        order_Update_def fulfillable_def doBalance_def GetByCode_def code_GetByCode_def read_fault_def
        resolveRedeemAction_def with_redeem_def CreateCode_def code_Create_def with_fault_err_def with_fault_def
        order_code_def redeem_const_defs demo_trims Let_def markFailed_def pay_const_defs)
  then have "recharging 7 w" by (auto simp: recharging_def)
  from recharging_order_is_stuck [OF this, of "[(calm_pay 10, Retry), (calm_pay 11, Fulfil)]"] w
  show ?thesis by (simp add: w_def Let_def)
qed

subsection \<open>Subscription orders\<close>

lemma has_audit_write: "a \<noteq> b \<Longrightarrow> has_audit oid a (writeAuditLog env oid' b op w) = has_audit oid a w"
  by (auto simp: has_audit_def writeAuditLog_def with_fault_err_def split: fault.split)

lemma has_audit_orders [simp]: "has_audit oid a (w\<lparr>pw_orders := xs\<rparr>) = has_audit oid a w"
  "has_audit oid a (w\<lparr>pw_redeem := d\<rparr>) = has_audit oid a w"
  by (simp_all add: has_audit_def)

abbreviation subs_of :: "pay_world \<Rightarrow> sub_db" where "subs_of w \<equiv> ss_db (rd_subs (pw_redeem w))"

text \<open>A paid subscription order of a user who has a subscription of the group already.\<close>

definition renewal_order :: "pay_order \<Rightarrow> user_sub \<Rightarrow> pay_world \<Rightarrow> bool" where
  "renewal_order r s w \<longleftrightarrow> po_OrderType r = OrderTypeSubscription \<and> po_PaidAt r \<noteq> None
     \<and> po_SubscriptionDays r \<noteq> None \<and> sub_inv (subs_of w)
     \<and> (\<exists>gid grp. po_SubscriptionGroupID r = Some gid \<and> find (\<lambda>g. g_ID g = gid) (sd_groups (subs_of w)) = Some grp
          \<and> IsSubscriptionType grp \<and> g_Status grp = EntityStatusActive)
     \<and> sub_row (po_UserID r) (the (po_SubscriptionGroupID r)) (subs_of w) = Some s
     \<and> \<not> has_audit (po_ID r) ''SUBSCRIPTION_SUCCESS'' w"

lemma doSub_renews:
  assumes "renewal_order ord s w" "calm (re_sub (pe_redeem env))" "pe_fault env PGroup = NoFault"
  shows "\<exists>st. doSub env ord w = markCompleted env ord ''SUBSCRIPTION_SUCCESS''
        (w\<lparr>pw_redeem := (pw_redeem w)\<lparr>rd_subs := st\<rparr>\<rparr>)
    \<and> sub_inv (ss_db st) \<and> sd_groups (ss_db st) = sd_groups (subs_of w)
    \<and> sub_row (po_UserID ord) (the (po_SubscriptionGroupID ord)) (ss_db st) =
        Some (extended (se_now (re_sub (pe_redeem env))) (order_input ord) s)"
proof -
  obtain gid grp where g: "po_SubscriptionGroupID ord = Some gid" "find (\<lambda>g. g_ID g = gid) (sd_groups (subs_of w)) = Some grp"
      "IsSubscriptionType grp" "g_Status grp = EntityStatusActive"
    using assms(1) by (auto simp: renewal_order_def)
  have "sub_group (order_input ord) (subs_of w)" using g by (auto simp: sub_group_def order_input_def)
  moreover have "sub_row (ai_UserID (order_input ord)) (ai_GroupID (order_input ord)) (subs_of w) = Some s"
    using assms(1) by (simp add: renewal_order_def order_input_def)
  moreover have "sub_inv (subs_of w)" using assms(1) by (simp add: renewal_order_def)
  ultimately obtain st where st: "AssignOrExtendSubscription (re_sub (pe_redeem env)) (order_input ord) (rd_subs (pw_redeem w)) =
        (Inr (extended (se_now (re_sub (pe_redeem env))) (order_input ord) s, True), st)"
      "sub_inv (ss_db st)" "sd_groups (ss_db st) = sd_groups (subs_of w)"
      "sub_row (ai_UserID (order_input ord)) (ai_GroupID (order_input ord)) (ss_db st) =
         Some (extended (se_now (re_sub (pe_redeem env))) (order_input ord) s)"
    using AssignOrExtend_existing [OF assms(2)] by blast
  have "\<not> hasAuditLog env (po_ID ord) ''SUBSCRIPTION_SUCCESS'' w"
    using assms(1) by (auto simp: hasAuditLog_def renewal_order_def read_fault_def split: fault.split)
  then have "doSub env ord w = markCompleted env ord ''SUBSCRIPTION_SUCCESS'' (w\<lparr>pw_redeem := (pw_redeem w)\<lparr>rd_subs := st\<rparr>\<rparr>)"
    using g st(1) assms(3) by (simp add: doSub_def group_GetByID_def with_sub_state_def)
  with st(2-4) show ?thesis by (auto simp: order_input_def)
qed

lemma renewal_order_cong:
  assumes "renewal_order r s w" "po_OrderType r' = po_OrderType r" "po_PaidAt r' = po_PaidAt r" "po_ID r' = po_ID r"
    "po_SubscriptionDays r' = po_SubscriptionDays r" "po_SubscriptionGroupID r' = po_SubscriptionGroupID r"
    "po_UserID r' = po_UserID r" "sub_inv (subs_of w')" "sd_groups (subs_of w') = sd_groups (subs_of w)"
    "sub_row (po_UserID r) (the (po_SubscriptionGroupID r)) (subs_of w') = Some s'"
    "\<not> has_audit (po_ID r) ''SUBSCRIPTION_SUCCESS'' w'"
  shows "renewal_order r' s' w'"
  using assms by (auto simp: renewal_order_def)

text \<open>Fulfilling such an order when the update that completes it is lost: renewed, but marked as failed.\<close>

lemma fulfil_renewal_lost:
  assumes "order_by_id oid w = Some r" "po_Status r = OrderStatusPaid" "renewal_order r s w"
    "pe_fault env = (\<lambda>c. if c = PComplete then Lost e else NoFault)" "calm (re_sub (pe_redeem env))"
  shows "\<exists>w'. executeFulfillment env oid w = (Inl (EWrap ''mark completed'' e), w') \<and>
    (\<exists>r'. order_by_id oid w' = Some r' \<and> po_Status r' = OrderStatusFailed \<and> order_input r' = order_input r \<and>
      renewal_order r' (extended (se_now (re_sub (pe_redeem env))) (order_input r) s) w')"
proof -
  have id: "po_ID r = oid" using order_by_id_ID [OF assms(1)] .
  let ?now = "pe_now env" and ?lock = "\<lambda>r. r\<lparr>po_Status := OrderStatusRecharging\<rparr>"
  let ?w1 = "w\<lparr>pw_orders := update_where (fulfillable oid) (\<lambda>r. (?lock r)\<lparr>po_UpdatedAt := ?now\<rparr>) (pw_orders w)\<rparr>"
  have P: "fulfillable oid r" using id assms(2) by (simp add: fulfillable_def)
  note lock = order_Update_ok [OF assms(1), of "fulfillable oid", OF P, of ?lock ?now]
  have "renewal_order r s ?w1" using assms(3) by (simp add: renewal_order_def)
  from doSub_renews [OF this assms(5)] assms(4) obtain st where st:
      "doSub env r ?w1 = markCompleted env r ''SUBSCRIPTION_SUCCESS'' (?w1\<lparr>pw_redeem := (pw_redeem w)\<lparr>rd_subs := st\<rparr>\<rparr>)"
      "sub_inv (ss_db st)" "sd_groups (ss_db st) = sd_groups (subs_of w)"
      "sub_row (po_UserID r) (the (po_SubscriptionGroupID r)) (ss_db st) =
         Some (extended (se_now (re_sub (pe_redeem env))) (order_input r) s)" by auto
  let ?w2 = "?w1\<lparr>pw_redeem := (pw_redeem w)\<lparr>rd_subs := st\<rparr>\<rparr>"
  have lost: "doSub env r ?w1 = (Inl (EWrap ''mark completed'' e), ?w2)"
    using st(1) assms(4) by (simp add: markCompleted_def order_Update_def with_fault_def)
  let ?err = "EWrap ''mark completed'' e"
  let ?fail = "\<lambda>r. r\<lparr>po_Status := OrderStatusFailed, po_FailedAt := Some ?now, po_FailedReason := Some (pe_text env ?err)\<rparr>"
  let ?PF = "\<lambda>r. po_ID r = oid \<and> po_Status r = OrderStatusRecharging"
  let ?r1 = "(?lock r)\<lparr>po_UpdatedAt := ?now\<rparr>"
  have r1: "order_by_id oid ?w2 = Some ?r1" using lock(2) by (simp add: order_by_id_def)
  note fail = order_Update_ok [OF r1, of ?PF ?fail ?now]
  let ?w3 = "?w2\<lparr>pw_orders := update_where ?PF (\<lambda>r. (?fail r)\<lparr>po_UpdatedAt := ?now\<rparr>) (pw_orders ?w2)\<rparr>"
  define w' where "w' = writeAuditLog env oid ''FULFILLMENT_FAILED'' ''system'' ?w3"
  have mf: "markFailed env oid ?err ?w2 = w'"
    using fail(1) id assms(4) by (auto simp: markFailed_def w'_def)
  have run: "executeFulfillment env oid w = (Inl ?err, w')"
    using assms(1-4) lock(1) lost mf
    by (auto simp: executeFulfillment_def ExecuteSubscriptionFulfillment_def fulfil_with_def renewal_order_def
        order_status_defs psIsRefundStatus_def)
  have r': "order_by_id oid w' = Some ((?fail ?r1)\<lparr>po_UpdatedAt := ?now\<rparr>)"
    using fail(2) id by (simp add: w'_def)
  have "renewal_order ((?fail ?r1)\<lparr>po_UpdatedAt := ?now\<rparr>)
      (extended (se_now (re_sub (pe_redeem env))) (order_input r) s) w'"
    by (rule renewal_order_cong [OF assms(3)])
      (use st(2-4) assms(3) in \<open>auto simp: w'_def has_audit_write renewal_order_def\<close>)
  with run r' show ?thesis by (auto simp: order_input_def order_note_def)
qed

lemma retry_renewal:
  assumes "no_faults env" "order_by_id oid w = Some r" "po_Status r = OrderStatusFailed" "renewal_order r s w"
    "calm (re_sub (pe_redeem env))"
  shows "\<exists>w'. RetryFulfillment env oid w = (Inr (), w') \<and>
    map_option po_Status (order_by_id oid w') = Some OrderStatusCompleted \<and>
    sub_row (po_UserID r) (the (po_SubscriptionGroupID r)) (subs_of w') =
      Some (extended (se_now (re_sub (pe_redeem env))) (order_input r) s)"
proof -
  have id: "po_ID r = oid" using order_by_id_ID [OF assms(2)] .
  let ?now = "pe_now env"
  let ?upd = "\<lambda>r. r\<lparr>po_Status := OrderStatusPaid, po_FailedAt := None, po_FailedReason := None\<rparr>"
  let ?w1 = "w\<lparr>pw_orders := update_where (fulfillable oid) (\<lambda>r. (?upd r)\<lparr>po_UpdatedAt := ?now\<rparr>) (pw_orders w)\<rparr>"
  have P: "fulfillable oid r" using id assms(3) by (simp add: fulfillable_def)
  note upd = order_Update_ok [OF assms(2), of "fulfillable oid", OF P, of ?upd ?now]
  define w2 where "w2 = writeAuditLog env oid ''RECHARGE_RETRY'' ''admin'' ?w1"
  let ?r = "(?upd r)\<lparr>po_UpdatedAt := ?now\<rparr>"
  have w2: "order_by_id oid w2 = Some ?r" "pw_redeem w2 = pw_redeem w" using upd(2) by (simp_all add: w2_def)
  have ren2: "renewal_order ?r s w2"
    by (rule renewal_order_cong [OF assms(4)])
      (use assms(4) in \<open>auto simp: w2_def has_audit_write renewal_order_def\<close>)
  let ?info = "\<lambda>ord. po_SubscriptionGroupID ord \<noteq> None \<and> po_SubscriptionDays ord \<noteq> None"
  let ?Q = "\<lambda>w'. map_option po_Status (order_by_id oid w') = Some OrderStatusCompleted \<and>
    sub_row (po_UserID r) (the (po_SubscriptionGroupID r)) (subs_of w') =
      Some (extended (se_now (re_sub (pe_redeem env))) (order_input r) s)"
  have "\<exists>w'. fulfil_with ?info doSub env oid w2 = (Inr (), w') \<and> ?Q w'"
  proof (rule fulfil_with_ok [OF assms(1) w2(1)])
    show "?info ?r" using ren2 by (auto simp: renewal_order_def)
    fix w1
    assume w1: "pw_redeem w1 = pw_redeem w2" "pw_audit w1 = pw_audit w2"
      "order_by_id oid w1 = Some (?r\<lparr>po_Status := OrderStatusRecharging, po_UpdatedAt := ?now\<rparr>)"
    have "renewal_order ?r s w1" using ren2 w1(1,2) by (simp add: renewal_order_def has_audit_def)
    from doSub_renews [OF this assms(5)] assms(1) obtain st where st:
      "doSub env ?r w1 = markCompleted env ?r ''SUBSCRIPTION_SUCCESS'' (w1\<lparr>pw_redeem := (pw_redeem w1)\<lparr>rd_subs := st\<rparr>\<rparr>)"
      "sub_row (po_UserID r) (the (po_SubscriptionGroupID r)) (ss_db st) =
         Some (extended (se_now (re_sub (pe_redeem env))) (order_input ?r) s)"
      by (auto simp: no_faults_def)
    from markCompleted_ok [OF assms(1), of ?r "w1\<lparr>pw_redeem := (pw_redeem w1)\<lparr>rd_subs := st\<rparr>\<rparr>"
        "?r\<lparr>po_Status := OrderStatusRecharging, po_UpdatedAt := ?now\<rparr>" "''SUBSCRIPTION_SUCCESS''"] st w1(3) id
    show "\<exists>w3. doSub env ?r w1 = (Inr (), w3) \<and> ?Q w3"
      by (auto simp: order_input_def order_note_def)
  qed simp
  then obtain w' where w': "fulfil_with ?info doSub env oid w2 = (Inr (), w')" "?Q w'" by blast
  have "RetryFulfillment env oid w = executeFulfillment env oid w2"
    using assms(1-4) upd(1)
    by (auto simp: RetryFulfillment_def no_faults_def psIsRefundStatus_def order_status_defs w2_def renewal_order_def)
  also have "\<dots> = (Inr (), w')"
    using w'(1) w2(1) assms(1,4)
    by (simp add: executeFulfillment_def no_faults_def renewal_order_def ExecuteSubscriptionFulfillment_def)
  finally show ?thesis using w'(2) by simp
qed

text \<open>
  A subscription order can be granted twice. If the update that marks the order completed is lost after
  the renewal, the order is marked failed without the audit entry that fulfilment consults to skip a
  renewal, since that entry is only written after the update. A retry then renews the subscription again.
\<close>

theorem lost_completion_renews_twice:
  assumes "order_by_id oid w = Some r" "po_Status r = OrderStatusPaid" "renewal_order r s w"
    "pe_fault env = (\<lambda>c. if c = PComplete then Lost e else NoFault)" "calm (re_sub (pe_redeem env))"
    "no_faults env2" "calm (re_sub (pe_redeem env2))"
  shows "map_option po_Status (order_by_id oid (snd (executeFulfillment env oid w))) = Some OrderStatusFailed \<and>
    fst (RetryFulfillment env2 oid (snd (executeFulfillment env oid w))) = Inr () \<and>
    sub_row (po_UserID r) (the (po_SubscriptionGroupID r))
        (subs_of (snd (RetryFulfillment env2 oid (snd (executeFulfillment env oid w))))) =
      Some (extended (se_now (re_sub (pe_redeem env2))) (order_input r)
             (extended (se_now (re_sub (pe_redeem env))) (order_input r) s))"
proof -
  obtain w1 r1 where w1: "executeFulfillment env oid w = (Inl (EWrap ''mark completed'' e), w1)"
      "order_by_id oid w1 = Some r1" "po_Status r1 = OrderStatusFailed" "order_input r1 = order_input r"
      "renewal_order r1 (extended (se_now (re_sub (pe_redeem env))) (order_input r) s) w1"
    using fulfil_renewal_lost [OF assms(1-5)] by blast
  have "po_UserID r1 = po_UserID r" "the (po_SubscriptionGroupID r1) = the (po_SubscriptionGroupID r)"
    using w1(4) by (auto simp: order_input_def)
  with retry_renewal [OF assms(6) w1(2,3,5) assms(7)] w1 show ?thesis by auto
qed

definition demo_sub_order :: pay_order where
  "demo_sub_order = demo_order\<lparr>po_OrderType := OrderTypeSubscription, po_SubscriptionGroupID := Some 3,
     po_SubscriptionDays := Some 30, po_Status := OrderStatusPaid, po_PaidAt := Some 0\<rparr>"

definition demo_sub_world :: pay_world where
  "demo_sub_world = demo_world\<lparr>pw_orders := [demo_sub_order], pw_redeem := demo_redeem_sub\<rparr>"

theorem lost_completion_renews_twice_witness:
  "map_option us_ExpiresAt (sub_row 5 3 (subs_of
      (snd (RetryFulfillment (calm_pay 0) 7 (snd (executeFulfillment (lossy_pay 0) 7 demo_sub_world)))))) =
   Some (70 * (24 * Hour))"
proof -
  have "renewal_order demo_sub_order demo_sub demo_sub_world"
    using demo_subs1_facts(1,3)
    by (simp add: renewal_order_def demo_sub_order_def demo_sub_world_def demo_redeem_sub_def demo_redeem_def
        demo_order_def demo_world_def has_audit_def)
      (simp add: demo_subs1_def demo_group_def IsSubscriptionType_def StatusActive_def EntityStatusActive_def)
  from lost_completion_renews_twice [OF _ _ this, of 7 "lossy_pay 0" "EPlain ''timeout''" "calm_pay 0"]
  show ?thesis
    by (simp add: demo_sub_world_def demo_world_def order_by_id_def demo_sub_order_def demo_order_def lossy_pay_def
        calm_pay_def calm_redeem_def no_faults_def extended_def order_input_def demo_sub_def
        normalizeAssignValidityDays_def MaxValidityDays_def MaxExpiresAt_def duration_defs Let_def)
qed

end
