(* ===== verification/PaymentAmounts.thy ===== *)
theory PaymentAmounts
  imports PaymentTypes
begin

text \<open>
  Amounts of money: \<open>internal/payment/currency.go\<close>, \<open>fee.go\<close>, \<open>amount.go\<close> and
  \<open>internal/service/payment_amounts.go\<close>. The decimal package is a parameter, the record
  \<open>decimal_lib\<close> of the operations the code calls; \<open>decimals\<close> is the locale of what its documentation
  promises of them, and exact rationals printed and read with decimal digits are a model of it.
\<close>

record 'd decimal_lib =
  dl_of_float :: "f64 \<Rightarrow> 'd"
  dl_of_string :: "gostring \<Rightarrow> 'd option"
  dl_of_int :: "int \<Rightarrow> 'd"
  dl_pow10 :: "nat \<Rightarrow> 'd"
  dl_add :: "'d \<Rightarrow> 'd \<Rightarrow> 'd"
  dl_mul :: "'d \<Rightarrow> 'd \<Rightarrow> 'd"
  dl_div :: "'d \<Rightarrow> 'd \<Rightarrow> 'd"
  dl_round :: "nat \<Rightarrow> 'd \<Rightarrow> 'd"
  dl_round_up :: "nat \<Rightarrow> 'd \<Rightarrow> 'd"
  dl_truncate :: "'d \<Rightarrow> 'd"
  dl_equal :: "'d \<Rightarrow> 'd \<Rightarrow> bool"
  dl_int_part :: "'d \<Rightarrow> int"
  dl_to_float :: "'d \<Rightarrow> f64"
  dl_string_fixed :: "nat \<Rightarrow> 'd \<Rightarrow> gostring"

definition FormatAmountForCurrency :: "'d decimal_lib \<Rightarrow> f64 \<Rightarrow> gostring \<Rightarrow> gostring" where
  "FormatAmountForCurrency L amount currency =
     dl_string_fixed L (CurrencyMaxFractionDigits currency) (dl_of_float L amount)"

definition CalculatePayAmountForCurrency :: "'d decimal_lib \<Rightarrow> f64 \<Rightarrow> f64 \<Rightarrow> gostring \<Rightarrow> gostring" where
  "CalculatePayAmountForCurrency L rechargeAmount feeRate currency =
     (let fractionDigits = CurrencyMaxFractionDigits currency;
          amount = dl_of_float L rechargeAmount
      in if fle feeRate (Fin 0) then dl_string_fixed L fractionDigits amount
         else let rate = dl_of_float L feeRate;
                  fee = dl_round_up L fractionDigits (dl_div L (dl_mul L amount rate) (dl_of_int L 100))
              in dl_string_fixed L fractionDigits (dl_add L amount fee))"

definition CalculatePayAmount :: "'d decimal_lib \<Rightarrow> f64 \<Rightarrow> f64 \<Rightarrow> gostring" where
  "CalculatePayAmount L rechargeAmount feeRate =
     CalculatePayAmountForCurrency L rechargeAmount feeRate DefaultPaymentCurrency"

definition AmountToMinorUnit :: "'d decimal_lib \<Rightarrow> gostring \<Rightarrow> gostring \<Rightarrow> int64 result" where
  "AmountToMinorUnit L amountStr currency =
     (case dl_of_string L (trim_space amountStr) of
        None \<Rightarrow> Inl (EPlain ''invalid amount'')
      | Some d \<Rightarrow>
          (case NormalizePaymentCurrency currency of
             Inl e \<Rightarrow> Inl e
           | Inr normalizedCurrency \<Rightarrow>
               (let amountUnit = paymentCurrencyAmountUnitFor normalizedCurrency;
                    scaledForPrecision = dl_mul L d (dl_pow10 L (cu_maxFractionDigits amountUnit))
                in if \<not> dl_equal L scaledForPrecision (dl_truncate L scaledForPrecision)
                   then (if cu_maxFractionDigits amountUnit = 0
                         then Inl (EPlain ''payment amount must be a whole number'')
                         else Inl (EPlain ''payment amount has too many decimal places''))
                   else Inr (dl_int_part L (dl_mul L d (dl_pow10 L (cu_apiMinorUnit amountUnit)))))))"

definition MinorUnitToAmount :: "'d decimal_lib \<Rightarrow> int64 \<Rightarrow> gostring \<Rightarrow> f64" where
  "MinorUnitToAmount L value currency =
     dl_to_float L (dl_div L (dl_of_int L value) (dl_pow10 L (CurrencyMinorUnit currency)))"

definition YuanToFen :: "'d decimal_lib \<Rightarrow> gostring \<Rightarrow> int64 result" where
  "YuanToFen L yuanStr = AmountToMinorUnit L yuanStr DefaultPaymentCurrency"
definition FenToYuan :: "'d decimal_lib \<Rightarrow> int64 \<Rightarrow> f64" where
  "FenToYuan L fen = MinorUnitToAmount L fen DefaultPaymentCurrency"

definition defaultBalanceRechargeMultiplier :: f64 where "defaultBalanceRechargeMultiplier = Fin 1"

definition normalizeBalanceRechargeMultiplier :: "f64 \<Rightarrow> f64" where
  "normalizeBalanceRechargeMultiplier multiplier =
     (if is_nan multiplier \<or> is_inf multiplier \<or> fle multiplier (Fin 0)
      then defaultBalanceRechargeMultiplier else multiplier)"

definition calculateCreditedBalance :: "'d decimal_lib \<Rightarrow> f64 \<Rightarrow> f64 \<Rightarrow> f64" where
  "calculateCreditedBalance L paymentAmount multiplier =
     dl_to_float L (dl_round L 2 (dl_mul L (dl_of_float L paymentAmount)
       (dl_of_float L (normalizeBalanceRechargeMultiplier multiplier))))"

definition calculateGatewayRefundAmount :: "'d decimal_lib \<Rightarrow> f64 \<Rightarrow> f64 \<Rightarrow> f64 \<Rightarrow> gostring \<Rightarrow> f64" where
  "calculateGatewayRefundAmount L orderAmount payAmount refundAmount currency =
     (if fle orderAmount (Fin 0) \<or> fle payAmount (Fin 0) \<or> fle refundAmount (Fin 0) then Fin 0
      else let fractionDigits = CurrencyMaxFractionDigits currency in
        if fle (fabs (fsub refundAmount orderAmount)) (paymentAmountToleranceForCurrency currency)
        then dl_to_float L (dl_round L fractionDigits (dl_of_float L payAmount))
        else dl_to_float L (dl_round L fractionDigits
               (dl_div L (dl_mul L (dl_of_float L payAmount) (dl_of_float L refundAmount)) (dl_of_float L orderAmount))))"

subsection \<open>What the decimal package promises\<close>

text \<open>
  \<open>val\<close> is the number a decimal denotes. A number printed with \<open>n\<close> places is read back as the number
  rounded to \<open>n\<close> places, and the text consists of digits, a sign and a point; products are exact.
\<close>

locale decimals =
  fixes L :: "'d decimal_lib" and val :: "'d \<Rightarrow> rat"
  assumes mul: "val (dl_mul L x y) = val x * val y"
    and add: "val (dl_add L x y) = val x + val y"
    and pow10: "val (dl_pow10 L n) = 10 ^ n"
    and trunc: "val (dl_truncate L x) = of_int (if val x < 0 then \<lceil>val x\<rceil> else \<lfloor>val x\<rfloor>)"
    and equal: "dl_equal L x y \<longleftrightarrow> val x = val y"
    and int_part: "in_int64 m \<Longrightarrow> val x = of_int m \<Longrightarrow> dl_int_part L x = m"
    and read_back: "\<exists>d. dl_of_string L (dl_string_fixed L n x) = Some d \<and> (\<exists>m. val d * 10 ^ n = of_int m)
        \<and> \<bar>val d - val x\<bar> * 10 ^ n \<le> 1 / 2 \<and> (val x * 10 ^ n \<in> \<int> \<longrightarrow> val d = val x)"
    and text_chars: "c \<in> set (dl_string_fixed L n x) \<Longrightarrow> c \<in> set ''-.0123456789''"
    and round_up: "\<exists>m. val (dl_round_up L n x) * 10 ^ n = of_int m" "0 \<le> val x \<Longrightarrow> val x \<le> val (dl_round_up L n x)"
      "0 \<le> val x \<Longrightarrow> (val (dl_round_up L n x) - val x) * 10 ^ n < 1"
begin

lemma trunc_int: "val x = of_int m \<Longrightarrow> dl_equal L x (dl_truncate L x)"
  by (simp add: equal trunc)

lemma text_trim: "trim_space (dl_string_fixed L n x) = dl_string_fixed L n x"
proof (rule trim_space_printable, rule ballI)
  fix c assume "c \<in> set (dl_string_fixed L n x)"
  then have "c \<in> set ''-.0123456789''" by (rule text_chars)
  then show "printable c" by (auto simp: printable_def)
qed

text \<open>
  A text with the currency's number of places is accepted and converted to minor units exactly, as long
  as the amount is in the range of an \<open>int64\<close>.
\<close>

lemma printed_amount_converts:
  assumes "NormalizePaymentCurrency currency = Inr c" "n = CurrencyMaxFractionDigits currency"
    "\<bar>val x\<bar> * 10 ^ CurrencyMinorUnit currency \<le> 2 ^ 62"
  shows "\<exists>d m. dl_of_string L (dl_string_fixed L n x) = Some d
    \<and> AmountToMinorUnit L (dl_string_fixed L n x) currency = Inr m
    \<and> of_int m = val d * 10 ^ CurrencyMinorUnit currency
    \<and> \<bar>val d - val x\<bar> * 10 ^ n \<le> 1 / 2 \<and> (val x * 10 ^ n \<in> \<int> \<longrightarrow> val d = val x)"
proof -
  obtain d k where d: "dl_of_string L (dl_string_fixed L n x) = Some d" "val d * 10 ^ n = of_int k"
      "\<bar>val d - val x\<bar> * 10 ^ n \<le> 1 / 2" "val x * 10 ^ n \<in> \<int> \<longrightarrow> val d = val x"
    using read_back by blast
  have u: "paymentCurrencyAmountUnitFor c = paymentCurrencyAmountUnitFor currency"
    using assms(1) NormalizePaymentCurrency_idem [OF assms(1)] by (simp add: paymentCurrencyAmountUnitFor_def)
  let ?mu = "CurrencyMinorUnit currency"
  let ?m = "k * 10 ^ (?mu - n)"
  have le: "n \<le> ?mu" using fraction_digits_le_minor [of currency] assms(2) by simp
  have split: "y * 10 ^ ?mu = (y * 10 ^ n) * 10 ^ (?mu - n)" for y :: rat
    using le by (simp flip: power_add)
  have m: "val d * 10 ^ ?mu = of_int ?m" using split [of "val d"] d(2) by simp
  have "in_int64 ?m"
  proof -
    have "(10 :: rat) ^ (?mu - n) \<le> 10 ^ 3"
      using minor_unit_le_3 [of currency] by (intro power_increasing) auto
    then have "(10 :: rat) ^ (?mu - n) \<le> 1000" by simp
    moreover have "\<bar>val d - val x\<bar> * 10 ^ ?mu \<le> 1 / 2 * 10 ^ (?mu - n)"
      using d(3) by (subst split) (rule mult_right_mono, auto)
    moreover have "\<bar>val d\<bar> * 10 ^ ?mu \<le> \<bar>val x\<bar> * 10 ^ ?mu + \<bar>val d - val x\<bar> * 10 ^ ?mu"
      by (subst distrib_right [symmetric], rule mult_right_mono) auto
    ultimately have "\<bar>val d\<bar> * 10 ^ ?mu \<le> 2 ^ 62 + 500" using assms(3) by simp
    moreover have "\<bar>val d\<bar> * 10 ^ ?mu = \<bar>val d * 10 ^ ?mu\<bar>" by (simp add: abs_mult)
    ultimately have "(of_int \<bar>?m\<bar> :: rat) \<le> of_int (2 ^ 62 + 500)" using m by simp
    then have "\<bar>?m\<bar> \<le> 2 ^ 62 + 500" by (simp only: of_int_le_iff)
    then show ?thesis by (auto simp: in_int64_def min_int64_def max_int64_def abs_le_iff)
  qed
  then have ip: "dl_int_part L (dl_mul L d (dl_pow10 L ?mu)) = ?m"
    using m by (intro int_part) (simp_all add: mul pow10)
  have s: "val (dl_mul L d (dl_pow10 L n)) = of_int k" using d(2) by (simp add: mul pow10)
  have "AmountToMinorUnit L (dl_string_fixed L n x) currency = Inr ?m"
    using d(1) trunc_int [OF s] ip assms(1,2)
    by (simp add: AmountToMinorUnit_def text_trim u Let_def CurrencyMaxFractionDigits_def CurrencyMinorUnit_def)
  then show ?thesis using d m by auto
qed

end

subsection \<open>Exact rationals with decimal texts\<close>

definition round_half_away :: "nat \<Rightarrow> rat \<Rightarrow> int" where
  "round_half_away n x = (if x < 0 then - \<lfloor>- x * 10 ^ n + 1 / 2\<rfloor> else \<lfloor>x * 10 ^ n + 1 / 2\<rfloor>)"

definition pad_zeros :: "nat \<Rightarrow> gostring \<Rightarrow> gostring" where
  "pad_zeros n s = replicate (n - length s) CHR ''0'' @ s"

definition fixed_text :: "nat \<Rightarrow> int \<Rightarrow> gostring" where
  "fixed_text n k = (if k < 0 then [CHR ''-''] else [])
     @ dec_of_nat (nat \<bar>k\<bar> div 10 ^ n) @ (if n = 0 then [] else CHR ''.'' # pad_zeros n (dec_of_nat (nat \<bar>k\<bar> mod 10 ^ n)))"

definition read_unsigned :: "gostring \<Rightarrow> rat option" where
  "read_unsigned s =
     (let ip = takeWhile (\<lambda>c. c \<noteq> CHR ''.'') s; fp = drop 1 (dropWhile (\<lambda>c. c \<noteq> CHR ''.'') s)
      in if ip @ fp = [] then None
         else map_option (\<lambda>v. of_nat v / 10 ^ length fp) (nat_of_dec 0 (ip @ fp)))"

definition read_decimal :: "gostring \<Rightarrow> rat option" where
  "read_decimal s = (case s of
     [] \<Rightarrow> None
   | c # cs \<Rightarrow> if c = CHR ''-'' then map_option uminus (read_unsigned cs) else read_unsigned s)"

definition exact_decimals :: "rat decimal_lib" where
  "exact_decimals = \<lparr>dl_of_float = (\<lambda>x. case x of Fin r \<Rightarrow> r | _ \<Rightarrow> 0), dl_of_string = read_decimal, dl_of_int = of_int,
     dl_pow10 = (\<lambda>n. 10 ^ n), dl_add = (+), dl_mul = (*), dl_div = (/),
     dl_round = (\<lambda>n x. of_int (round_half_away n x) / 10 ^ n),
     dl_round_up = (\<lambda>n x. of_int (if x < 0 then - \<lceil>- x * 10 ^ n\<rceil> else \<lceil>x * 10 ^ n\<rceil>) / 10 ^ n),
     dl_truncate = (\<lambda>x. of_int (if x < 0 then \<lceil>x\<rceil> else \<lfloor>x\<rfloor>)), dl_equal = (=),
     dl_int_part = (\<lambda>x. if x < 0 then \<lceil>x\<rceil> else \<lfloor>x\<rfloor>), dl_to_float = f64_of_rat,
     dl_string_fixed = (\<lambda>n x. fixed_text n (round_half_away n x))\<rparr>"

lemma nat_of_dec_acc:
  "nat_of_dec acc ds = map_option (\<lambda>v. acc * 10 ^ length ds + v) (nat_of_dec 0 ds)"
proof (induction ds arbitrary: acc)
  case (Cons c cs)
  show ?case
    unfolding nat_of_dec.simps using Cons [of "10 * acc + digit_val c"] Cons [of "digit_val c"]
    by (auto simp: option.map_comp comp_def algebra_simps)
qed simp

lemma nat_of_dec_zeros: "nat_of_dec 0 (replicate k CHR ''0'' @ ds) = nat_of_dec 0 ds"
  by (induction k) (simp_all add: is_digit_def digit_val_def)

lemma length_dec_of_nat: "m < 10 ^ n \<Longrightarrow> 0 < n \<Longrightarrow> length (dec_of_nat m) \<le> n"
proof (induction m arbitrary: n rule: dec_of_nat.induct)
  case (1 m)
  show ?case
  proof (cases "m < 10")
    case True
    then show ?thesis using "1.prems" by (simp add: dec_of_nat.simps [of m])
  next
    case False
    then obtain k where n: "n = Suc k" "0 < k" using "1.prems" by (cases n; cases "n - 1") auto
    have "m div 10 < 10 ^ k" using "1.prems"(1) n by (simp add: div_less_iff_less_mult mult.commute)
    from "1.IH" [OF False this n(2)] False n show ?thesis by (simp add: dec_of_nat.simps [of m])
  qed
qed

lemma dec_digits_not: "c \<in> set (dec_of_nat m) \<Longrightarrow> c \<noteq> CHR ''.'' \<and> c \<noteq> CHR ''-''"
  using dec_of_nat_digits [of m] by (auto simp: is_digit_def)

lemma read_unsigned_text:
  "read_unsigned (dec_of_nat (a div 10 ^ n) @ (if n = 0 then [] else CHR ''.'' # pad_zeros n (dec_of_nat (a mod 10 ^ n))))
     = Some (of_nat a / 10 ^ n)"
proof (cases "n = 0")
  case True
  have "takeWhile (\<lambda>c. c \<noteq> CHR ''.'') (dec_of_nat a) = dec_of_nat a" "dropWhile (\<lambda>c. c \<noteq> CHR ''.'') (dec_of_nat a) = []"
    using dec_digits_not [of _ a] by (auto simp: takeWhile_eq_all_conv dropWhile_eq_Nil_conv)
  note tw = this
  show ?thesis by (simp add: True read_unsigned_def Let_def tw nat_of_dec_dec_of_nat)
next
  case False
  let ?q = "dec_of_nat (a div 10 ^ n)" and ?f = "pad_zeros n (dec_of_nat (a mod 10 ^ n))"
  have f: "length ?f = n" "nat_of_dec 0 ?f = Some (a mod 10 ^ n)"
    using length_dec_of_nat [of "a mod 10 ^ n" n] False
    by (simp_all add: pad_zeros_def nat_of_dec_zeros nat_of_dec_dec_of_nat)
  have tw: "takeWhile (\<lambda>c. c \<noteq> CHR ''.'') (?q @ CHR ''.'' # ?f) = ?q"
    "dropWhile (\<lambda>c. c \<noteq> CHR ''.'') (?q @ CHR ''.'' # ?f) = CHR ''.'' # ?f"
    using dec_digits_not [of _ "a div 10 ^ n"] by (auto simp: takeWhile_append dropWhile_append)
  have "nat_of_dec 0 (?q @ ?f) = Some (a div 10 ^ n * 10 ^ n + a mod 10 ^ n)"
    using nat_of_dec_acc [of "a div 10 ^ n" ?f] f by (simp add: nat_of_dec_append nat_of_dec_dec_of_nat)
  then have "nat_of_dec 0 (?q @ ?f) = Some a" by (simp only: div_mult_mod_eq)
  with False tw f(1) show ?thesis by (simp add: read_unsigned_def Let_def)
qed

lemma read_fixed_text: "read_decimal (fixed_text n k) = Some (of_int k / 10 ^ n)"
proof (cases "k < 0")
  case True
  then have "of_nat (nat \<bar>k\<bar>) = - (of_int k :: rat)" by simp
  with True read_unsigned_text [of "nat \<bar>k\<bar>" n] show ?thesis
    by (simp add: fixed_text_def read_decimal_def)
next
  case False
  obtain c cs where q: "dec_of_nat (nat \<bar>k\<bar> div 10 ^ n) = c # cs"
    by (cases "dec_of_nat (nat \<bar>k\<bar> div 10 ^ n)") auto
  then have "c \<noteq> CHR ''-''" using dec_digits_not [of c "nat \<bar>k\<bar> div 10 ^ n"] by simp
  with False q read_unsigned_text [of "nat \<bar>k\<bar>" n] show ?thesis
    by (simp add: fixed_text_def read_decimal_def)
qed

lemma floor_half_close: "\<bar>of_int \<lfloor>y + 1 / 2\<rfloor> - y\<bar> \<le> (1 / 2 :: rat)"
proof -
  have "of_int \<lfloor>y + 1 / 2\<rfloor> \<le> y + 1 / 2" "y + 1 / 2 < of_int \<lfloor>y + 1 / 2\<rfloor> + 1" using floor_correct [of "y + 1 / 2"] by auto
  then show ?thesis by (simp only: abs_le_iff) linarith
qed

lemma round_half_away_close: "\<bar>of_int (round_half_away n x) / 10 ^ n - x\<bar> * 10 ^ n \<le> 1 / 2"
proof -
  have "\<bar>- of_int \<lfloor>- x * 10 ^ n + 1 / 2\<rfloor> - x * 10 ^ n\<bar> = \<bar>of_int \<lfloor>- x * 10 ^ n + 1 / 2\<rfloor> - (- x * 10 ^ n)\<bar>"
    by (subst abs_minus_cancel [symmetric]) (simp only: minus_diff_eq minus_minus mult_minus_left diff_minus_eq_add add.commute)
  then have "\<bar>of_int (round_half_away n x) - x * 10 ^ n\<bar> \<le> 1 / 2"
    using floor_half_close [of "x * 10 ^ n"] floor_half_close [of "- x * 10 ^ n"]
    by (cases "x < 0") (simp_all only: round_half_away_def of_int_minus if_True if_False)
  moreover have "\<bar>of_int (round_half_away n x) / 10 ^ n - x\<bar> * 10 ^ n = \<bar>(of_int (round_half_away n x) / 10 ^ n - x) * 10 ^ n\<bar>"
    by (simp add: abs_mult)
  ultimately show ?thesis by (simp add: left_diff_distrib)
qed

lemma floor_half: "\<lfloor>of_int m + 1 / 2 :: rat\<rfloor> = m"
  by (simp add: floor_eq_iff)

lemma round_half_away_int: "x * 10 ^ n \<in> \<int> \<Longrightarrow> of_int (round_half_away n x) / 10 ^ n = x"
proof -
  assume "x * 10 ^ n \<in> \<int>"
  then obtain m where m: "x * 10 ^ n = of_int m" by (auto elim: Ints_cases)
  then have "- x * 10 ^ n = of_int (- m)" by simp
  with m have "round_half_away n x = m"
    using floor_half [of m] floor_half [of "- m"] by (simp only: round_half_away_def) auto
  with m show ?thesis by (simp add: field_simps)
qed

lemma fixed_text_chars: "c \<in> set (fixed_text n k) \<Longrightarrow> c \<in> set ''-.0123456789''"
proof -
  have digit: "is_digit c \<Longrightarrow> c \<in> set ''0123456789''" for c
  proof -
    define k :: nat where "k = of_char c"
    assume "is_digit c"
    then have "48 \<le> k" "k \<le> 57" by (simp_all add: is_digit_def k_def)
    then have "k \<in> {48, 49, 50, 51, 52, 53, 54, 55, 56, 57}" by simp presburger
    then have "(of_char c :: nat) \<in> of_char ` set ''0123456789''" by (simp add: k_def)
    then show ?thesis by (auto simp only: image_iff of_char_eq_iff)
  qed
  define S where "S = set ''-.0123456789''"
  have S: "CHR ''-'' \<in> S" "CHR ''.'' \<in> S" "CHR ''0'' \<in> S" "set ''0123456789'' \<subseteq> S" by (auto simp: S_def)
  have D: "set (dec_of_nat m) \<subseteq> S" for m
    using dec_of_nat_digits [of m] digit S(4) by (meson in_mono subsetI)
  have "set (fixed_text n k) \<subseteq> S"
    using D S(1-3) by (auto simp: fixed_text_def pad_zeros_def split: if_splits)
  then show "c \<in> set (fixed_text n k) \<Longrightarrow> c \<in> set ''-.0123456789''" by (auto simp only: S_def)
qed

interpretation exact: decimals exact_decimals "\<lambda>x. x"
proof
  fix x y :: rat and n :: nat and m :: int and c :: char
  show "\<exists>d. dl_of_string exact_decimals (dl_string_fixed exact_decimals n x) = Some d \<and> (\<exists>m. d * 10 ^ n = of_int m)
      \<and> \<bar>d - x\<bar> * 10 ^ n \<le> 1 / 2 \<and> (x * 10 ^ n \<in> \<int> \<longrightarrow> d = x)"
    using round_half_away_close [of n x] round_half_away_int [of x n]
    by (auto simp: exact_decimals_def read_fixed_text)
  show "\<exists>m. dl_round_up exact_decimals n x * 10 ^ n = of_int m"
    by (auto simp: exact_decimals_def)
  assume "0 \<le> x"
  have "x * 10 ^ n \<le> of_int \<lceil>x * 10 ^ n\<rceil>" "of_int \<lceil>x * 10 ^ n\<rceil> < x * 10 ^ n + 1"
    using ceiling_correct [of "x * 10 ^ n"] by linarith+
  with \<open>0 \<le> x\<close> show "x \<le> dl_round_up exact_decimals n x" "(dl_round_up exact_decimals n x - x) * 10 ^ n < 1"
    by (simp_all add: exact_decimals_def pos_le_divide_eq left_diff_distrib)
next
  fix c n x assume "c \<in> set (dl_string_fixed exact_decimals n x)"
  then show "c \<in> set ''-.0123456789''" by (intro fixed_text_chars) (simp add: exact_decimals_def)
qed (auto simp: exact_decimals_def)

subsection \<open>Charged amounts\<close>


lemma CNY_units: "NormalizePaymentCurrency ''CNY'' = Inr ''CNY''" "CurrencyMaxFractionDigits ''CNY'' = 2"
  "CurrencyMinorUnit ''CNY'' = 2"
proof -
  show n: "NormalizePaymentCurrency ''CNY'' = Inr ''CNY''"
    by (rule NormalizePaymentCurrency_fixed) (auto simp: is_upper_def)
  show "CurrencyMaxFractionDigits ''CNY'' = 2" "CurrencyMinorUnit ''CNY'' = 2"
    by (simp_all add: CurrencyMaxFractionDigits_def CurrencyMinorUnit_def paymentCurrencyAmountUnitFor_def n
        paymentCurrencyAmountUnits_def currency_unit_defs)
qed


end
