(* ===== verification/PaymentRefund.thy ===== *)
theory PaymentRefund
  imports PaymentLaws PaymentAmounts
begin

text \<open>
  Refunds, \<open>internal/service/payment_refund.go\<close>: a user's request, an administrator's plan, and its
  execution (take the order, deduct what was granted, refund through the provider that was paid, and undo
  the deduction if that fails). \<open>refund_env\<close> adds to the surroundings of a fulfilment the provider made
  from an instance's configuration, the decimal package, a fault per further database call, and the
  surroundings of each call to the subscription service.
\<close>

datatype refund_call = FGetOrder | FInstance | FUser | FRequest | FLock | FDeduct | FProvider | FReturn | FRestore
  | FMarkFailed | FMarkOk

record refund_provider =
  rv_Key :: gostring
  rv_Merchant :: metadata
  rv_Refund :: "gostring \<Rightarrow> gostring \<Rightarrow> gostring \<Rightarrow> gostring \<Rightarrow> gostring option result"

record 'd refund_env =
  rf_pay :: pay_env
  rf_fault :: "refund_call \<Rightarrow> fault"
  rf_decimal :: "'d decimal_lib"
  rf_create :: "pay_instance \<Rightarrow> refund_provider result"
  rf_lookup_sub :: sub_env
  rf_deduct_sub :: sub_env
  rf_revoke_sub :: sub_env
  rf_return_sub :: sub_env

abbreviation rf_now :: "'d refund_env \<Rightarrow> time" where "rf_now env \<equiv> pe_now (rf_pay env)"
abbreviation rf_num_add :: "'d refund_env \<Rightarrow> f64 \<Rightarrow> f64 \<Rightarrow> f64" where
  "rf_num_add env \<equiv> se_num_add (re_sub (pe_redeem (rf_pay env)))"

record refund_plan =
  rp_OrderID :: int64
  rp_Order :: pay_order
  rp_RefundAmount :: f64
  rp_GatewayAmount :: f64
  rp_Reason :: gostring
  rp_Force :: bool
  rp_DeductBalance :: bool
  rp_DeductionType :: gostring
  rp_BalanceToDeduct :: f64
  rp_SubDaysToDeduct :: int
  rp_SubscriptionID :: int64

record refund_result =
  rr_Success :: bool
  rr_Warning :: gostring
  rr_RequireForce :: bool
  rr_BalanceDeducted :: f64
  rr_SubDaysDeducted :: int

definition need_force :: "gostring \<Rightarrow> refund_result" where
  "need_force warning = \<lparr>rr_Success = False, rr_Warning = warning, rr_RequireForce = True,
     rr_BalanceDeducted = Fin 0, rr_SubDaysDeducted = 0\<rparr>"

subsection \<open>Requesting a refund\<close>

definition validateRefundRequest :: "'d refund_env \<Rightarrow> int64 \<Rightarrow> int64 \<Rightarrow> pay_world \<Rightarrow> pay_order result" where
  "validateRefundRequest env oid uid w =
     (case order_Get (rf_fault env FGetOrder) oid w of
        Inl _ \<Rightarrow> Inl (EApp (NotFound ''NOT_FOUND'' ''order not found''))
      | Inr ord \<Rightarrow>
          if po_UserID ord \<noteq> uid then Inl (EApp (Forbidden ''FORBIDDEN'' ''no permission''))
          else if po_OrderType ord \<noteq> OrderTypeBalance
          then Inl (EApp (BadRequest ''INVALID_ORDER_TYPE'' ''only balance orders can request refund''))
          else if po_Status ord \<noteq> OrderStatusCompleted
          then Inl (EApp (BadRequest ''INVALID_STATUS'' ''only completed orders can request refund''))
          else (case getRefundOrderProviderInstance (rf_fault env FInstance) (pw_instances w) ord of
                  Inr (Some inst) \<Rightarrow>
                    if \<not> pi_AllowUserRefund inst
                    then Inl (EApp (Forbidden ''USER_REFUND_DISABLED'' ''user refund is not enabled for this provider''))
                    else Inr ord
                | _ \<Rightarrow> Inl (EApp (Forbidden ''USER_REFUND_DISABLED'' ''refund is not available for this order''))))"

definition RequestRefund ::
    "'d refund_env \<Rightarrow> int64 \<Rightarrow> int64 \<Rightarrow> gostring \<Rightarrow> pay_world \<Rightarrow> unit result \<times> pay_world" where
  "RequestRefund env oid uid reason w =
     (case validateRefundRequest env oid uid w of
        Inl e \<Rightarrow> (Inl e, w)
      | Inr ord \<Rightarrow>
         (case user_GetByID (rf_fault env FUser) (po_UserID ord) (pw_redeem w) of
            Inl e \<Rightarrow> (Inl (EWrap ''get user'' e), w)
          | Inr u \<Rightarrow>
              if flt (ua_Balance u) (po_Amount ord)
              then (Inl (EApp (BadRequest ''BALANCE_NOT_ENOUGH'' ''refund amount exceeds balance'')), w)
              else (case order_Update (rf_fault env FRequest) (rf_now env)
                      (\<lambda>r. po_ID r = oid \<and> po_UserID r = uid \<and> po_Status r = OrderStatusCompleted
                           \<and> po_OrderType r = OrderTypeBalance)
                      (\<lambda>r. r\<lparr>po_Status := OrderStatusRefundRequested, po_RefundRequestedAt := Some (rf_now env),
                             po_RefundRequestReason := Some (trim_space reason),
                             po_RefundRequestedBy := Some (itoa uid), po_RefundAmount := po_Amount ord\<rparr>) w of
                      (Inl e, w1) \<Rightarrow> (Inl (EWrap ''update'' e), w1)
                    | (Inr c, w1) \<Rightarrow>
                        if c = 0 then (Inl (EApp (Conflict ''CONFLICT'' ''order status changed'')), w1)
                        else (Inr (), writeAuditLog (rf_pay env) oid ''REFUND_REQUESTED'' (''user:'' @ itoa uid) w1))))"

subsection \<open>Planning a refund\<close>

datatype prepared = PrepError go_error | PrepAsk refund_result | PrepPlan refund_plan

definition prepDeduct ::
    "'d refund_env \<Rightarrow> pay_order \<Rightarrow> refund_plan \<Rightarrow> bool \<Rightarrow> pay_world \<Rightarrow> prepared \<times> pay_world" where
  "prepDeduct env ord p force w =
     (if po_OrderType ord = OrderTypeSubscription then
        (let p1 = p\<lparr>rp_DeductionType := DeductionTypeSubscription\<rparr> in
         case (po_SubscriptionGroupID ord, po_SubscriptionDays ord) of
           (Some gid, Some days) \<Rightarrow>
             (let p2 = p1\<lparr>rp_SubDaysToDeduct := days\<rparr> in
              case with_sub_state (GetActiveSubscription (rf_lookup_sub env) (po_UserID ord) gid) w of
                (Inr sub, w1) \<Rightarrow> (PrepPlan (p2\<lparr>rp_SubscriptionID := us_ID sub\<rparr>), w1)
              | (Inl _, w1) \<Rightarrow>
                  if \<not> force then (PrepAsk (need_force ''cannot find active subscription for deduction, use force''), w1)
                  else (PrepPlan p2, w1))
         | _ \<Rightarrow> (PrepPlan p1, w))
      else case user_GetByID (rf_fault env FUser) (po_UserID ord) (pw_redeem w) of
        Inl _ \<Rightarrow> if \<not> force then (PrepAsk (need_force ''cannot fetch user balance, use force''), w) else (PrepPlan p, w)
      | Inr u \<Rightarrow> (PrepPlan (p\<lparr>rp_DeductionType := DeductionTypeBalance,
                              rp_BalanceToDeduct := fmin (rp_RefundAmount p) (ua_Balance u)\<rparr>), w))"

definition refund_reason :: "pay_order \<Rightarrow> gostring \<Rightarrow> gostring" where
  "refund_reason ord reason =
     (let rr = trim_space reason;
          rr' = (if rr = [] then psStringValue (po_RefundRequestReason ord) else rr)
      in if rr' = [] then ''refund order:'' @ itoa (po_ID ord) else rr')"

definition refundable_status :: "gostring \<Rightarrow> bool" where
  "refundable_status s \<longleftrightarrow> s \<in> {OrderStatusCompleted, OrderStatusRefundRequested, OrderStatusRefundFailed}"

definition PrepareRefund ::
    "'d refund_env \<Rightarrow> int64 \<Rightarrow> f64 \<Rightarrow> gostring \<Rightarrow> bool \<Rightarrow> bool \<Rightarrow> pay_world \<Rightarrow> prepared \<times> pay_world" where
  "PrepareRefund env oid amt reason force deduct w =
     (case order_Get (rf_fault env FGetOrder) oid w of
        Inl _ \<Rightarrow> (PrepError (EApp (NotFound ''NOT_FOUND'' ''order not found'')), w)
      | Inr ord \<Rightarrow>
          if \<not> refundable_status (po_Status ord)
          then (PrepError (EApp (BadRequest ''INVALID_STATUS'' ''order status does not allow refund'')), w)
          else (case getRefundOrderProviderInstance (rf_fault env FInstance) (pw_instances w) ord of
            Inl _ \<Rightarrow> (PrepError (EApp (InternalServer ''PROVIDER_LOOKUP_FAILED''
                       ''failed to look up payment provider for this order'')), w)
          | Inr None \<Rightarrow> (PrepError (EApp (Forbidden ''REFUND_DISABLED'' ''refund is not available for this order'')), w)
          | Inr (Some inst) \<Rightarrow>
              if \<not> pi_RefundEnabled inst
              then (PrepError (EApp (Forbidden ''REFUND_DISABLED'' ''refund is not enabled for this provider'')), w)
              else if is_nan amt \<or> is_inf amt
              then (PrepError (EApp (BadRequest ''INVALID_AMOUNT'' ''invalid refund amount'')), w)
              else
                (let amt = (if fle amt (Fin 0) then po_Amount ord else amt); cur = PaymentOrderCurrency ord in
                 if flt (paymentAmountToleranceForCurrency cur) (fsub amt (po_Amount ord))
                 then (PrepError (EApp (BadRequest ''REFUND_AMOUNT_EXCEEDED'' ''refund amount exceeds recharge'')), w)
                 else
                   (let p = \<lparr>rp_OrderID = oid, rp_Order = ord, rp_RefundAmount = amt,
                             rp_GatewayAmount = calculateGatewayRefundAmount (rf_decimal env) (po_Amount ord) (po_PayAmount ord) amt cur,
                             rp_Reason = refund_reason ord reason, rp_Force = force, rp_DeductBalance = deduct,
                             rp_DeductionType = DeductionTypeNone, rp_BalanceToDeduct = Fin 0, rp_SubDaysToDeduct = 0,
                             rp_SubscriptionID = 0\<rparr>
                    in if deduct then prepDeduct env ord p force w else (PrepPlan p, w)))))"

subsection \<open>Carrying it out\<close>

definition order_UpdateOne ::
    "fault \<Rightarrow> time \<Rightarrow> int64 \<Rightarrow> (pay_order \<Rightarrow> pay_order) \<Rightarrow> pay_world \<Rightarrow> unit result \<times> pay_world" where
  "order_UpdateOne f now oid upd = with_fault_err f (\<lambda>w.
     case sql_update_one ent_not_found (\<lambda>r. po_ID r = oid) (\<lambda>r. (upd r)\<lparr>po_UpdatedAt := now\<rparr>) (pw_orders w) of
       (res, rows) \<Rightarrow> (res, w\<lparr>pw_orders := rows\<rparr>))"

definition restoreStatus :: "'d refund_env \<Rightarrow> refund_plan \<Rightarrow> pay_world \<Rightarrow> pay_world" where
  "restoreStatus env p w =
     snd (order_UpdateOne (rf_fault env FRestore) (rf_now env) (rp_OrderID p)
       (\<lambda>r. r\<lparr>po_Status := (if po_Status (rp_Order p) = OrderStatusRefundRequested
                             then OrderStatusRefundRequested else OrderStatusCompleted)\<rparr>) w)"

definition validateRefundProviderResponse :: "gostring option \<Rightarrow> unit result" where
  "validateRefundProviderResponse resp = (case resp of
     None \<Rightarrow> Inl (EPlain ''payment refund response missing'')
   | Some st \<Rightarrow>
       (let status = trim_space st in
        if status \<in> {ProviderStatusSuccess, ProviderStatusRefunded, ProviderStatusPending} then Inr ()
        else if status = ProviderStatusFailed then Inl (EPlain (''payment refund failed: status '' @ status))
        else Inl (EPlain (''payment refund returned unknown status: '' @ status))))"

definition getRefundProvider :: "'d refund_env \<Rightarrow> pay_order \<Rightarrow> pay_world \<Rightarrow> refund_provider result" where
  "getRefundProvider env ord w =
     (case getRefundOrderProviderInstance (rf_fault env FProvider) (pw_instances w) ord of
        Inl e \<Rightarrow> Inl e
      | Inr None \<Rightarrow> Inl (EPlain (''refund provider instance is unavailable for order '' @ itoa (po_ID ord)))
      | Inr (Some inst) \<Rightarrow> rf_create env inst)"

definition formatGatewayRefundAmount :: "'d decimal_lib \<Rightarrow> f64 \<Rightarrow> pay_order \<Rightarrow> gostring" where
  "formatGatewayRefundAmount L amount ord = FormatAmountForCurrency L amount (PaymentOrderCurrency ord)"

definition gwRefund :: "'d refund_env \<Rightarrow> refund_plan \<Rightarrow> pay_world \<Rightarrow> unit result \<times> pay_world" where
  "gwRefund env p w =
     (let ord = rp_Order p in
      if po_PaymentTradeNo ord = []
      then (Inr (), writeAuditLog (rf_pay env) (po_ID ord) ''REFUND_NO_TRADE_NO'' ''admin'' w)
      else case getRefundProvider env ord w of
        Inl e \<Rightarrow> (Inl (EWrap ''get refund provider'' e), w)
      | Inr prov \<Rightarrow>
          (case validateProviderSnapshotMetadata ord (rv_Key prov) (rv_Merchant prov) of
             Inl e \<Rightarrow> (Inl e, writeAuditLog (rf_pay env) (po_ID ord) ''REFUND_PROVIDER_METADATA_MISMATCH'' ''admin'' w)
           | Inr _ \<Rightarrow>
               (case rv_Refund prov (po_PaymentTradeNo ord) (po_OutTradeNo ord)
                       (formatGatewayRefundAmount (rf_decimal env) (rp_GatewayAmount p) ord) (rp_Reason p) of
                  Inl e \<Rightarrow> (Inl e, w)
                | Inr resp \<Rightarrow> (validateRefundProviderResponse resp, w))))"

definition deducts_balance :: "refund_plan \<Rightarrow> bool" where
  "deducts_balance p \<longleftrightarrow> rp_DeductionType p = DeductionTypeBalance \<and> flt (Fin 0) (rp_BalanceToDeduct p)"
definition deducts_days :: "refund_plan \<Rightarrow> bool" where
  "deducts_days p \<longleftrightarrow> rp_DeductionType p = DeductionTypeSubscription \<and> 0 < rp_SubDaysToDeduct p \<and> 0 < rp_SubscriptionID p"

definition RollbackRefund :: "'d refund_env \<Rightarrow> refund_plan \<Rightarrow> pay_world \<Rightarrow> bool \<times> pay_world" where
  "RollbackRefund env p w =
     (case (if deducts_balance p
            then with_redeem (UpdateBalance (rf_fault env FReturn) (rf_num_add env) (po_UserID (rp_Order p)) (rp_BalanceToDeduct p)) w
            else (Inr (), w)) of
        (Inl _, w1) \<Rightarrow> (False, writeAuditLog (rf_pay env) (rp_OrderID p) ''REFUND_ROLLBACK_FAILED'' ''admin'' w1)
      | (Inr _, w1) \<Rightarrow>
          if deducts_days p
          then (case with_sub_state (ExtendSubscription (rf_return_sub env) (rp_SubscriptionID p) (rp_SubDaysToDeduct p)) w1 of
                  (Inl _, w2) \<Rightarrow> (False, writeAuditLog (rf_pay env) (rp_OrderID p) ''REFUND_ROLLBACK_FAILED'' ''admin'' w2)
                | (Inr _, w2) \<Rightarrow> (True, w2))
          else (True, w1))"

definition handleGwFail ::
    "'d refund_env \<Rightarrow> refund_plan \<Rightarrow> go_error \<Rightarrow> pay_world \<Rightarrow> refund_result result \<times> pay_world" where
  "handleGwFail env p gErr w =
     (case RollbackRefund env p w of
        (True, w1) \<Rightarrow>
          (Inr \<lparr>rr_Success = False, rr_Warning = ''gateway failed: '' @ pe_text (rf_pay env) gErr @ '', rolled back'',
                rr_RequireForce = False, rr_BalanceDeducted = Fin 0, rr_SubDaysDeducted = 0\<rparr>,
           writeAuditLog (rf_pay env) (rp_OrderID p) ''REFUND_GATEWAY_FAILED'' ''admin'' (restoreStatus env p w1))
      | (False, w1) \<Rightarrow>
          (let w2 = snd (order_UpdateOne (rf_fault env FMarkFailed) (rf_now env) (rp_OrderID p)
                 (\<lambda>r. r\<lparr>po_Status := OrderStatusRefundFailed, po_FailedAt := Some (rf_now env),
                        po_FailedReason := Some (pe_text (rf_pay env) gErr)\<rparr>) w1)
           in (Inl (EApp (InternalServer ''REFUND_FAILED'' (pe_text (rf_pay env) gErr))),
               writeAuditLog (rf_pay env) (rp_OrderID p) ''REFUND_FAILED'' ''admin'' w2)))"

definition markRefundOk :: "'d refund_env \<Rightarrow> refund_plan \<Rightarrow> pay_world \<Rightarrow> refund_result result \<times> pay_world" where
  "markRefundOk env p w =
     (case order_UpdateOne (rf_fault env FMarkOk) (rf_now env) (rp_OrderID p)
             (\<lambda>r. r\<lparr>po_Status := (if flt (rp_RefundAmount p) (po_Amount (rp_Order p))
                                   then OrderStatusPartiallyRefunded else OrderStatusRefunded),
                    po_RefundAmount := rp_RefundAmount p, po_RefundReason := Some (rp_Reason p),
                    po_RefundAt := Some (rf_now env), po_ForceRefund := rp_Force p\<rparr>) w of
        (Inl e, w1) \<Rightarrow> (Inl (EWrap ''mark refund'' e), w1)
      | (Inr _, w1) \<Rightarrow>
          (Inr \<lparr>rr_Success = True, rr_Warning = [], rr_RequireForce = False, rr_BalanceDeducted = rp_BalanceToDeduct p,
                rr_SubDaysDeducted = rp_SubDaysToDeduct p\<rparr>,
           writeAuditLog (rf_pay env) (rp_OrderID p) ''REFUND_SUCCESS'' ''admin'' w1))"

text \<open>
  The deduction before the gateway is called. It is skipped when an earlier attempt deducted and failed to
  give back; the plan then no longer has anything to undo.
\<close>

definition deduct :: "'d refund_env \<Rightarrow> refund_plan \<Rightarrow> pay_world \<Rightarrow> refund_plan result \<times> pay_world" where
  "deduct env p w =
     (if deducts_balance p then
        (if \<not> hasAuditLog (rf_pay env) (rp_OrderID p) ''REFUND_ROLLBACK_FAILED'' w
         then (case with_redeem (DeductBalance (rf_fault env FDeduct) (rf_num_add env)
                       (po_UserID (rp_Order p)) (rp_BalanceToDeduct p)) w of
                 (Inl e, w1) \<Rightarrow> (Inl (EWrap ''deduction'' e), restoreStatus env p w1)
               | (Inr _, w1) \<Rightarrow> (Inr p, w1))
         else (Inr (p\<lparr>rp_BalanceToDeduct := Fin 0\<rparr>), w))
      else if deducts_days p then
        (if \<not> hasAuditLog (rf_pay env) (rp_OrderID p) ''REFUND_ROLLBACK_FAILED'' w
         then (case with_sub_state (ExtendSubscription (rf_deduct_sub env) (rp_SubscriptionID p) (- rp_SubDaysToDeduct p)) w of
                 (Inr _, w1) \<Rightarrow> (Inr p, w1)
               | (Inl e, w1) \<Rightarrow>
                   if errors_is e (EApp ErrAdjustWouldExpire)
                   then (case with_sub_state (RevokeSubscription (rf_revoke_sub env) (rp_SubscriptionID p)) w1 of
                           (Inl e2, w2) \<Rightarrow> (Inl (EWrap ''revoke subscription'' e2), restoreStatus env p w2)
                         | (Inr _, w2) \<Rightarrow> (Inr p, w2))
                   else (Inl (EWrap ''deduct subscription days'' e), restoreStatus env p w1))
         else (Inr (p\<lparr>rp_SubDaysToDeduct := 0\<rparr>), w))
      else (Inr p, w))"

definition refundable :: "int64 \<Rightarrow> pay_order \<Rightarrow> bool" where
  "refundable oid r \<longleftrightarrow> po_ID r = oid \<and> refundable_status (po_Status r)"

definition ExecuteRefund :: "'d refund_env \<Rightarrow> refund_plan \<Rightarrow> pay_world \<Rightarrow> refund_result result \<times> pay_world" where
  "ExecuteRefund env p w =
     (case order_Update (rf_fault env FLock) (rf_now env) (refundable (rp_OrderID p))
             (\<lambda>r. r\<lparr>po_Status := OrderStatusRefunding\<rparr>) w of
        (Inl e, w1) \<Rightarrow> (Inl (EWrap ''lock'' e), w1)
      | (Inr c, w1) \<Rightarrow>
          if c = 0 then (Inl (EApp (Conflict ''CONFLICT'' ''order status changed'')), w1)
          else (case deduct env p w1 of
                  (Inl e, w2) \<Rightarrow> (Inl e, w2)
                | (Inr p', w2) \<Rightarrow>
                    (case gwRefund env p' w2 of
                       (Inl e, w3) \<Rightarrow> handleGwFail env p' e w3
                     | (Inr _, w3) \<Rightarrow> markRefundOk env p' w3)))"

end
