(* ===== verification/PaymentStates.thy ===== *)
theory PaymentStates
  imports PaymentLifecycle PaymentRefund
begin

text \<open>
  The life of an order as a state machine. \<open>fulfil_step\<close> and \<open>refund_step\<close> are the moves of the status
  that the payment and the refund side may make; the operations of fulfilment, cancellation, expiry and
  refund are shown to make no other. The interface \<open>fulfil_closed\<close> is a property of the order table that
  survives every update along \<open>fulfil_step\<close>; it is proved once to survive every payment operation, and
  interpreted for following the machine, for an order under refund and for a closed one.
\<close>

subsection \<open>The machine\<close>

inductive fulfil_step :: "gostring \<Rightarrow> gostring \<Rightarrow> bool" where
  pay: "s \<in> {OrderStatusPending, OrderStatusCancelled, OrderStatusExpired, OrderStatusFailed} \<Longrightarrow> fulfil_step s OrderStatusPaid"
| take: "s \<in> {OrderStatusPaid, OrderStatusFailed} \<Longrightarrow> fulfil_step s OrderStatusRecharging"
| complete: "fulfil_step OrderStatusRecharging OrderStatusCompleted"
| fail: "fulfil_step OrderStatusRecharging OrderStatusFailed"
| close: "s \<in> {OrderStatusCancelled, OrderStatusExpired} \<Longrightarrow> fulfil_step OrderStatusPending s"

inductive refund_step :: "gostring \<Rightarrow> gostring \<Rightarrow> bool" where
  request: "refund_step OrderStatusCompleted OrderStatusRefundRequested"
| lock: "refundable_status s \<Longrightarrow> refund_step s OrderStatusRefunding"
| restore: "refundable_status s \<Longrightarrow> refund_step OrderStatusRefunding s"
| settle: "s \<in> {OrderStatusRefunded, OrderStatusPartiallyRefunded} \<Longrightarrow> refund_step OrderStatusRefunding s"

definition order_step :: "gostring \<Rightarrow> gostring \<Rightarrow> bool" where
  "order_step s t \<longleftrightarrow> fulfil_step s t \<or> refund_step s t"

inductive_cases fulfil_stepE: "fulfil_step s t"
inductive_cases refund_stepE: "refund_step s t"

lemma fulfil_step_none:
  "s \<in> {OrderStatusCompleted, OrderStatusRefundRequested, OrderStatusRefunding, OrderStatusRefunded,
        OrderStatusPartiallyRefunded, OrderStatusRefundFailed} \<Longrightarrow> \<not> fulfil_step s t"
  by (auto elim!: fulfil_stepE simp: order_status_defs)

lemma final_status:
  "s \<in> {OrderStatusRefunded, OrderStatusPartiallyRefunded} \<Longrightarrow> \<not> order_step s t"
  using fulfil_step_none [of s t]
  by (auto simp: order_step_def refundable_status_def elim!: refund_stepE) (auto simp: order_status_defs)

definition follows :: "(gostring \<Rightarrow> gostring \<Rightarrow> bool) \<Rightarrow> pay_order \<Rightarrow> pay_order \<Rightarrow> bool" where
  "follows R r r' \<longleftrightarrow> po_ID r' = po_ID r \<and> R\<^sup>*\<^sup>* (po_Status r) (po_Status r')"

lemma follows_refl [simp]: "follows R r r"
  by (simp add: follows_def)

lemma follows_step:
  "follows R r r' \<Longrightarrow> po_ID r'' = po_ID r' \<Longrightarrow> po_Status r'' = po_Status r' \<or> R (po_Status r') (po_Status r'')
   \<Longrightarrow> follows R r r''"
  by (auto simp: follows_def)

lemma follows_update:
  assumes "list_all2 (follows R) rows0 rows"
    "\<And>r. r \<in> set rows \<Longrightarrow> P r \<Longrightarrow> po_ID (upd r) = po_ID r \<and> (po_Status (upd r) = po_Status r \<or> R (po_Status r) (po_Status (upd r)))"
  shows "list_all2 (follows R) rows0 (update_where P upd rows)"
proof -
  have "follows R (rows0 ! i) (update_where P upd rows ! i)" if i: "i < length rows" for i
  proof -
    have "follows R (rows0 ! i) (rows ! i)" using assms(1) i by (simp add: list_all2_conv_all_nth)
    then show ?thesis using assms(2) [of "rows ! i"] i by (auto simp: update_where_def intro: follows_step)
  qed
  then show ?thesis using assms(1) by (simp add: list_all2_conv_all_nth)
qed

lemma follows_trans: "list_all2 (follows R) a b \<Longrightarrow> list_all2 (follows R) b c \<Longrightarrow> list_all2 (follows R) a c"
  by (rule list_all2_trans [where ?P1.0 = "follows R" and ?P2.0 = "follows R" and bs = b]) (auto simp: follows_def)

lemma follows_mono:
  assumes "list_all2 (follows R) a b" "\<And>s t. R s t \<Longrightarrow> S s t" shows "list_all2 (follows S) a b"
  using assms(1) by (rule list_all2_mono) (auto simp: follows_def intro: rtranclp_mono [THEN predicate2D, rotated] assms(2))

lemma follows_ids: "list_all2 (follows R) a b \<Longrightarrow> map po_ID b = map po_ID a"
  by (auto simp: list_all2_conv_all_nth follows_def intro: nth_equalityI)

subsection \<open>Properties of the order table that the payment side keeps\<close>

text \<open>A status change of the payment side: guarded rows, same identity, one move of the machine.\<close>

definition fulfil_change :: "(pay_order \<Rightarrow> bool) \<Rightarrow> (pay_order \<Rightarrow> pay_order) \<Rightarrow> bool" where
  "fulfil_change P upd \<longleftrightarrow> (\<forall>r. P r \<longrightarrow> po_ID (upd r) = po_ID r \<and>
     (po_Status (upd r) = po_Status r \<or> fulfil_step (po_Status r) (po_Status (upd r))))"

lemma fulfil_change_dated: "fulfil_change P upd \<Longrightarrow> fulfil_change P (\<lambda>r. (upd r)\<lparr>po_UpdatedAt := now\<rparr>)"
  by (simp add: fulfil_change_def)

locale fulfil_closed =
  fixes J :: "pay_order list \<Rightarrow> bool"
  assumes closed: "J rows \<Longrightarrow> fulfil_change P upd \<Longrightarrow> J (update_where P upd rows)"
begin

abbreviation K :: "pay_world \<Rightarrow> bool" where "K w \<equiv> J (pw_orders w)"

lemma K_Update: "K w \<Longrightarrow> fulfil_change P upd \<Longrightarrow> K (snd (order_Update f now P upd w))"
  by (auto simp: order_Update_def with_fault_def intro: closed fulfil_change_dated split: fault.split)

lemma K_markCompleted: assumes "K w" shows "K (snd (markCompleted env ord a w))"
proof -
  have "fulfil_change (\<lambda>r. po_ID r = po_ID ord \<and> po_Status r = OrderStatusRecharging)
      (\<lambda>r. r\<lparr>po_Status := OrderStatusCompleted, po_CompletedAt := Some (pe_now env)\<rparr>)"
    by (simp add: fulfil_change_def fulfil_step.complete)
  from K_Update [OF assms this, of "pe_fault env PComplete" "pe_now env"] show ?thesis
    by (auto simp: markCompleted_def split: prod.split sum.split)
qed

lemma K_markFailed: assumes "K w" shows "K (markFailed env oid e w)"
proof -
  have "fulfil_change (\<lambda>r. po_ID r = oid \<and> po_Status r = OrderStatusRecharging)
      (\<lambda>r. r\<lparr>po_Status := OrderStatusFailed, po_FailedAt := Some (pe_now env), po_FailedReason := Some (pe_text env e)\<rparr>)"
    by (simp add: fulfil_change_def fulfil_step.fail)
  from K_Update [OF assms this, of "pe_fault env PFail" "pe_now env"] show ?thesis
    by (auto simp: markFailed_def split: prod.split sum.split)
qed

lemma K_with_redeem: "K w \<Longrightarrow> K (snd (with_redeem k w))"
  by (auto simp: with_redeem_def split: prod.split)

lemma K_with_sub_state: "K w \<Longrightarrow> K (snd (with_sub_state k w))"
  by (auto simp: with_sub_state_def split: prod.split)

lemma K_finish: assumes "K w" shows "K (snd (finish_balance env ord w))"
proof -
  have "pw_orders (snd (applyAffiliateRebateForOrder env ord w)) = pw_orders w"
    by (rule applyAffiliateRebate_frame(1) [OF surjective_pairing])
  with assms have "K (snd (applyAffiliateRebateForOrder env ord w))" by simp
  then show ?thesis unfolding finish_balance_def by (rule and_then_keeps [where P = K]) (rule K_markCompleted)
qed

lemma K_redeem: "K w \<Longrightarrow> K (snd (redeem_and_finish env ord w))"
  unfolding redeem_and_finish_def
  by (intro and_then_keeps [where P = K] K_finish) (simp_all add: K_with_redeem)

lemma K_create: "K w \<Longrightarrow> K (snd (and_then (wrap_err m (with_redeem k w)) (\<lambda>_. redeem_and_finish env ord)))"
  by (rule and_then_keeps [where P = K]) (simp_all add: K_with_redeem K_redeem)

lemma K_doBalance: "K w \<Longrightarrow> K (snd (doBalance env ord w))"
  unfolding doBalance_def by (simp add: K_finish K_redeem K_create split: redeem_action.split)

lemma K_assign: "K w \<Longrightarrow> K (snd (and_then (wrap_err m (with_sub_state k w)) (\<lambda>_. markCompleted env ord a)))"
  by (rule and_then_keeps [where P = K]) (simp_all add: K_with_sub_state K_markCompleted)

lemma K_doSub: "K w \<Longrightarrow> K (snd (doSub env ord w))"
  unfolding doSub_def Let_def by (simp add: K_assign K_markCompleted split: sum.split)

lemma K_fulfil:
  assumes "K w" "\<And>ord w. K w \<Longrightarrow> K (snd (work env ord w))"
  shows "K (snd (fulfil_with info work env oid w))"
proof -
  have "fulfil_change (fulfillable oid) (\<lambda>r. r\<lparr>po_Status := OrderStatusRecharging\<rparr>)"
    by (simp add: fulfil_change_def fulfillable_def fulfil_step.take)
  note lock = K_Update [OF assms(1) this, of "pe_fault env PLockOrder" "pe_now env"]
  have "K w2" if "work env ord w1 = (res, w2)" "K w1" for ord w1 res w2 using assms(2) [OF that(2)] that(1) by (metis snd_conv)
  with lock assms(1) show ?thesis
    unfolding fulfil_with_def by (fastforce simp: K_markFailed split: sum.split prod.split)
qed

lemma K_execute: "K w \<Longrightarrow> K (snd (executeFulfillment env oid w))"
  by (simp add: executeFulfillment_def ExecuteBalanceFulfillment_def ExecuteSubscriptionFulfillment_def
      K_fulfil K_doBalance K_doSub split: sum.split)

lemma K_alreadyProcessed: "K w \<Longrightarrow> K (snd (alreadyProcessed env ord w))"
  by (simp add: alreadyProcessed_def K_execute split: sum.split)

lemma K_toPaid: assumes "K w" shows "K (snd (toPaid env ord tradeNo paid pk w))"
proof -
  let ?upd = "\<lambda>r. r\<lparr>po_Status := OrderStatusPaid, po_PayAmount := paid, po_PaymentTradeNo := tradeNo,
                    po_PaidAt := Some (pe_now env), po_FailedAt := None, po_FailedReason := None\<rparr>"
  have "fulfil_change (payable (Add (pe_now env) (- paymentGraceMinutes * Minute)) (po_ID ord)) ?upd"
    by (auto simp: fulfil_change_def payable_def intro: fulfil_step.pay)
  from K_Update [OF assms this, of "pe_fault env PPaid" "pe_now env"] show ?thesis
    by (auto simp: toPaid_def Let_def K_alreadyProcessed K_execute split: prod.split sum.split del: Add_def)
qed

lemma K_confirm: "K w \<Longrightarrow> K (snd (confirmPayment env oid tradeNo paid pk md w))"
  by (simp add: confirmPayment_def Let_def K_toPaid split: sum.split)

lemma K_notification: "K w \<Longrightarrow> K (snd (HandlePaymentNotification env n pk w))"
  by (simp add: HandlePaymentNotification_def K_confirm split: sum.split option.split)

lemma K_retry: assumes "K w" shows "K (snd (RetryFulfillment env oid w))"
proof -
  have "fulfil_change (fulfillable oid) (\<lambda>r. r\<lparr>po_Status := OrderStatusPaid, po_FailedAt := None, po_FailedReason := None\<rparr>)"
    by (auto simp: fulfil_change_def fulfillable_def intro: fulfil_step.pay)
  from K_Update [OF assms this, of "pe_fault env PRetry" "pe_now env"] assms show ?thesis
    by (auto simp: RetryFulfillment_def K_execute split: prod.split sum.split)
qed

lemma K_settle: assumes "K w" shows "K (settle_paid env ord prov ref resp w)"
proof -
  have "fulfil_change (\<lambda>r. po_ID r = po_ID ord) (\<lambda>r. r\<lparr>po_PaymentTradeNo := t\<rparr>)" for t by (simp add: fulfil_change_def)
  from K_Update [OF assms this] assms show ?thesis by (simp add: settle_paid_def Let_def K_notification)
qed

lemma K_checkPaid: "K w \<Longrightarrow> K (snd (checkPaid env ord w))"
  by (simp add: checkPaid_def Let_def K_settle split: sum.split option.split)

lemma K_close:
  assumes "K w" "fs \<in> {OrderStatusCancelled, OrderStatusExpired}" shows "K (snd (close_pending env ord fs op w))"
proof -
  have "fulfil_change (pending (po_ID ord)) (\<lambda>r. r\<lparr>po_Status := fs\<rparr>)"
    using assms(2) by (auto simp: fulfil_change_def pending_def intro: fulfil_step.close)
  from K_Update [OF assms(1) this, of "lf_fault env LCancel" "lf_now env"] show ?thesis
    by (cases "order_Update (lf_fault env LCancel) (lf_now env) (pending (po_ID ord)) (\<lambda>r. r\<lparr>po_Status := fs\<rparr>) w")
      (simp add: close_pending_def split: sum.split)
qed

lemma K_cancelCore:
  assumes "K w" "fs \<in> {OrderStatusCancelled, OrderStatusExpired}" shows "K (snd (cancelCore env ord fs op w))"
  using K_checkPaid [OF assms(1), of env ord] assms
  by (auto simp: cancelCore_def K_close split: prod.split)

lemma K_CancelOrder: "K w \<Longrightarrow> K (snd (CancelOrder env oid uid w))"
  by (simp add: CancelOrder_def K_cancelCore split: sum.split)

lemma K_AdminCancelOrder: "K w \<Longrightarrow> K (snd (AdminCancelOrder env oid w))"
  by (simp add: AdminCancelOrder_def K_cancelCore split: sum.split)

lemma K_expire_each: "K w \<Longrightarrow> K (snd (expire_each envs ords n w))"
proof (induction envs ords n w rule: expire_each.induct)
  case (2 envs ord ords n w)
  have "K (snd (cancelCore (envs ord) ord OrderStatusExpired ''system'' w))" using 2 by (intro K_cancelCore) simp_all
  with 2 show ?case by (auto split: prod.split sum.split)
qed simp

lemma K_Expire: "K w \<Longrightarrow> K (snd (ExpireTimedOutOrders f now envs w))"
  using K_expire_each [of w envs _ 0] by (auto simp: ExpireTimedOutOrders_def split: sum.split prod.split) (metis snd_conv)

lemma K_Verify: "K w \<Longrightarrow> K (snd (VerifyOrderByOutTradeNo env raw uid w))"
  using K_checkPaid [of w env]
  by (auto simp: VerifyOrderByOutTradeNo_def split: sum.split prod.split) (metis snd_conv)+

end

subsection \<open>Following the machine\<close>

interpretation path: fulfil_closed "list_all2 (follows order_step) rows0" for rows0
  by unfold_locales (rule follows_update, auto simp: fulfil_change_def order_step_def)

text \<open>An order whose status the payment side has no move from keeps it: under refund, or closed by one.\<close>

definition all_in :: "int64 \<Rightarrow> gostring set \<Rightarrow> pay_order list \<Rightarrow> bool" where
  "all_in oid S rows \<longleftrightarrow> (\<forall>r \<in> set rows. po_ID r = oid \<longrightarrow> po_Status r \<in> S)"

definition refund_closed :: "gostring set" where
  "refund_closed = {OrderStatusRefunding, OrderStatusRefunded, OrderStatusPartiallyRefunded}"

interpretation held: fulfil_closed "all_in oid refund_closed" for oid
proof
  fix rows P upd assume J: "all_in oid refund_closed rows" and c: "fulfil_change P upd"
  have "po_Status (upd r) \<in> refund_closed" if "r \<in> set rows" "P r" "po_ID (upd r) = oid" for r
  proof -
    have "po_Status r \<in> refund_closed" using J c that by (auto simp: all_in_def fulfil_change_def)
    then show ?thesis using c that fulfil_step_none [of "po_Status r" "po_Status (upd r)"]
      by (auto simp: fulfil_change_def refund_closed_def)
  qed
  with J show "all_in oid refund_closed (update_where P upd rows)"
    by (auto simp: all_in_def set_update_where)
qed

subsection \<open>The refund side\<close>

lemma order_Update_rows:
  "pw_orders (snd (order_Update f now P upd w)) = pw_orders w \<or>
   pw_orders (snd (order_Update f now P upd w)) = update_where P (\<lambda>r. (upd r)\<lparr>po_UpdatedAt := now\<rparr>) (pw_orders w)"
  by (auto simp: order_Update_def with_fault_def split: fault.split)

lemma order_UpdateOne_rows:
  "pw_orders (snd (order_UpdateOne f now oid upd w)) = pw_orders w \<or>
   pw_orders (snd (order_UpdateOne f now oid upd w)) =
     update_where (\<lambda>r. po_ID r = oid) (\<lambda>r. (upd r)\<lparr>po_UpdatedAt := now\<rparr>) (pw_orders w)"
  by (auto simp: order_UpdateOne_def with_fault_err_def sql_update_one_def split: fault.split prod.split)

lemma order_UpdateOne_follows:
  assumes "list_all2 (follows order_step) rows0 (pw_orders w)" "all_in oid {OrderStatusRefunding} (pw_orders w)"
    "\<And>r. po_ID (upd r) = po_ID r \<and> refund_step OrderStatusRefunding (po_Status (upd r))"
  shows "list_all2 (follows order_step) rows0 (pw_orders (snd (order_UpdateOne f now oid upd w)))"
proof -
  have "list_all2 (follows order_step) rows0
      (update_where (\<lambda>r. po_ID r = oid) (\<lambda>r. (upd r)\<lparr>po_UpdatedAt := now\<rparr>) (pw_orders w))"
    by (rule follows_update [OF assms(1)]) (use assms(2,3) in \<open>auto simp: all_in_def order_step_def\<close>)
  with assms(1) order_UpdateOne_rows [of f now oid upd w] show ?thesis by metis
qed

text \<open>What is done to an order between taking it for a refund and settling it touches no status.\<close>

lemma refund_frames:
  "pw_orders (snd (with_redeem k w)) = pw_orders w"
  "pw_orders (snd (with_sub_state l w)) = pw_orders w"
  "pw_orders (snd (gwRefund env p w)) = pw_orders w"
  "pw_orders (snd (RollbackRefund env p w)) = pw_orders w"
proof -
  show *: "pw_orders (snd (with_redeem k w)) = pw_orders w" "pw_orders (snd (with_sub_state l w)) = pw_orders w" for k l w
    by (simp_all add: with_redeem_def with_sub_state_def split: prod.split)
  show "pw_orders (snd (gwRefund env p w)) = pw_orders w"
    by (simp add: gwRefund_def Let_def split: sum.split)
  have "pw_orders w1 = pw_orders w" if "with_redeem k w = (res, w1)" for k res w1 using *(1) [of k w] that by simp
  moreover have "pw_orders w1 = pw_orders w'" if "with_sub_state k w' = (res, w1)" for k and res :: "user_sub result" and w1 w'
    using *(2) [of k w'] that by simp
  ultimately show "pw_orders (snd (RollbackRefund env p w)) = pw_orders w"
    by (auto simp: RollbackRefund_def split: prod.split sum.split)
qed

lemma refund_steps [simp]:
  "refund_step OrderStatusRefunding OrderStatusRefundRequested" "refund_step OrderStatusRefunding OrderStatusCompleted"
  "refund_step OrderStatusRefunding OrderStatusRefundFailed" "refund_step OrderStatusRefunding OrderStatusRefunded"
  "refund_step OrderStatusRefunding OrderStatusPartiallyRefunded"
  by (auto simp: refundable_status_def intro: refund_step.intros)

abbreviation on_path :: "int64 \<Rightarrow> pay_order list \<Rightarrow> pay_world \<Rightarrow> bool" where
  "on_path oid rows0 w \<equiv> list_all2 (follows order_step) rows0 (pw_orders w) \<and> all_in oid {OrderStatusRefunding} (pw_orders w)"

lemma restoreStatus_follows:
  "on_path (rp_OrderID p) rows0 w \<Longrightarrow> list_all2 (follows order_step) rows0 (pw_orders (restoreStatus env p w))"
  unfolding restoreStatus_def by (rule order_UpdateOne_follows) simp_all

lemma deduct_follows:
  assumes "on_path (rp_OrderID p) rows0 w" "deduct env p w = (res, w')"
  shows "list_all2 (follows order_step) rows0 (pw_orders w')" "\<not> isl res \<Longrightarrow> pw_orders w' = pw_orders w"
proof -
  have sub: "pw_orders w1 = pw_orders w0" if "with_sub_state k w0 = (r, w1)" for k :: "sub_state \<Rightarrow> 'x result \<times> sub_state" and r w0 w1
    using refund_frames(2) [of k w0] that by simp
  have red: "pw_orders w1 = pw_orders w" if "with_redeem k w = (r, w1)" for k :: "redeem_db \<Rightarrow> unit result \<times> redeem_db" and r w1
    using refund_frames(1) [of k w] that by simp
  have rest: "list_all2 (follows order_step) rows0 (pw_orders (restoreStatus env p w1))" if "pw_orders w1 = pw_orders w" for w1
    using restoreStatus_follows [where p = p and ?rows0.0 = rows0 and w = w1 and env = env] assms(1) that by simp
  show "list_all2 (follows order_step) rows0 (pw_orders w')"
    using assms unfolding deduct_def by (auto dest!: sub red intro: rest split: if_splits prod.splits sum.splits)
  show "\<not> isl res \<Longrightarrow> pw_orders w' = pw_orders w"
    using assms(2) unfolding deduct_def by (auto dest!: sub red split: if_splits prod.splits sum.splits)
qed

lemma deduct_order_id: "deduct env p w = (Inr p', w') \<Longrightarrow> rp_OrderID p' = rp_OrderID p \<and> rp_Order p' = rp_Order p"
  by (auto simp: deduct_def split: if_splits prod.splits sum.splits)

lemma handleGwFail_follows:
  assumes "on_path (rp_OrderID p) rows0 w"
  shows "list_all2 (follows order_step) rows0 (pw_orders (snd (handleGwFail env p e w)))"
proof (cases "RollbackRefund env p w")
  case (Pair ok w1)
  have fr: "pw_orders w1 = pw_orders w" using refund_frames(4) [of env p w] Pair by simp
  have "list_all2 (follows order_step) rows0 (pw_orders (snd (order_UpdateOne f now (rp_OrderID p)
      (\<lambda>r. r\<lparr>po_Status := OrderStatusRefundFailed, po_FailedAt := a, po_FailedReason := b\<rparr>) w1)))" for f now a b
    by (rule order_UpdateOne_follows) (use assms fr in simp_all)
  then show ?thesis using restoreStatus_follows [where p = p and ?rows0.0 = rows0 and w = w1 and env = env] assms fr Pair
    by (simp add: handleGwFail_def Let_def split: bool.split)
qed

lemma markRefundOk_follows:
  assumes "on_path (rp_OrderID p) rows0 w"
  shows "list_all2 (follows order_step) rows0 (pw_orders (snd (markRefundOk env p w)))"
proof -
  let ?upd = "\<lambda>r. r\<lparr>po_Status := (if flt (rp_RefundAmount p) (po_Amount (rp_Order p))
                                   then OrderStatusPartiallyRefunded else OrderStatusRefunded),
                    po_RefundAmount := rp_RefundAmount p, po_RefundReason := Some (rp_Reason p),
                    po_RefundAt := Some (rf_now env), po_ForceRefund := rp_Force p\<rparr>"
  have "list_all2 (follows order_step) rows0
      (pw_orders (snd (order_UpdateOne (rf_fault env FMarkOk) (rf_now env) (rp_OrderID p) ?upd w)))"
    by (rule order_UpdateOne_follows) (use assms in simp_all)
  then show ?thesis unfolding markRefundOk_def
    by (cases "order_UpdateOne (rf_fault env FMarkOk) (rf_now env) (rp_OrderID p) ?upd w") (simp split: sum.split)
qed

lemma refund_lock:
  assumes "order_Update f now (refundable oid) (\<lambda>r. r\<lparr>po_Status := OrderStatusRefunding\<rparr>) w = (Inr c, w1)"
    "c \<noteq> 0" "distinct (map po_ID (pw_orders w))"
  shows "all_in oid {OrderStatusRefunding} (pw_orders w1)"
proof -
  note u = order_Update_Inr [OF assms(1)]
  obtain r where r: "r \<in> set (pw_orders w)" "refundable oid r"
    using assms(2) u(1) by (auto simp: affected_def filter_empty_conv)
  then have "r' = r" if "r' \<in> set (pw_orders w)" "po_ID r' = oid" for r'
    using assms(3) that by (auto simp: distinct_map refundable_def dest: inj_onD)
  with r u(2) show ?thesis by (auto simp: all_in_def set_update_where refundable_def)
qed

lemma lock_follows:
  "list_all2 (follows order_step) (pw_orders w)
     (pw_orders (snd (order_Update f now (refundable oid) (\<lambda>r. r\<lparr>po_Status := OrderStatusRefunding\<rparr>) w)))"
proof -
  have "list_all2 (follows order_step) (pw_orders w) (update_where (refundable oid)
      (\<lambda>r. r\<lparr>po_Status := OrderStatusRefunding, po_UpdatedAt := now\<rparr>) (pw_orders w))"
    by (rule follows_update) (auto simp: list_all2_same order_step_def refundable_def intro: refund_step.lock)
  then show ?thesis
    using order_Update_rows [of f now "refundable oid" "\<lambda>r. r\<lparr>po_Status := OrderStatusRefunding\<rparr>" w]
    by (auto simp: list_all2_same)
qed

lemma ExecuteRefund_follows:
  assumes "distinct (map po_ID (pw_orders w))"
  shows "list_all2 (follows order_step) (pw_orders w) (pw_orders (snd (ExecuteRefund env p w)))"
proof (cases "order_Update (rf_fault env FLock) (rf_now env) (refundable (rp_OrderID p))
    (\<lambda>r. r\<lparr>po_Status := OrderStatusRefunding\<rparr>) w")
  case (Pair c w1)
  have l: "list_all2 (follows order_step) (pw_orders w) (pw_orders w1)"
    using lock_follows [of w "rf_fault env FLock" "rf_now env" "rp_OrderID p"] Pair by simp
  show ?thesis
  proof (cases "isl c \<or> c = Inr 0")
    case True
    then show ?thesis using l Pair by (auto simp: ExecuteRefund_def split: sum.split)
  next
    case False
    then obtain n where n: "c = Inr n" "n \<noteq> 0" by (cases c) auto
    then have on: "on_path (rp_OrderID p) (pw_orders w) w1"
      using l refund_lock [OF _ n(2) assms] Pair by auto
    obtain d w2 where d: "deduct env p w1 = (d, w2)" by (cases "deduct env p w1")
    note df = deduct_follows [OF on d]
    show ?thesis
    proof (cases d)
      case (Inl e)
      then show ?thesis using df(1) Pair n d by (simp add: ExecuteRefund_def)
    next
      case (Inr p')
      have ids: "rp_OrderID p' = rp_OrderID p" using deduct_order_id [of env p w1 p' w2] d Inr by simp
      obtain g w3 where g: "gwRefund env p' w2 = (g, w3)" by (cases "gwRefund env p' w2")
      have "pw_orders w3 = pw_orders w1" using refund_frames(3) [of env p' w2] g df(2) Inr by simp
      then have "on_path (rp_OrderID p') (pw_orders w) w3" using on ids by simp
      note last = handleGwFail_follows [OF this] markRefundOk_follows [OF this]
      show ?thesis using Pair n d Inr g by (simp add: ExecuteRefund_def last split: sum.split)
    qed
  qed
qed

lemma RequestRefund_follows:
  "list_all2 (follows order_step) (pw_orders w) (pw_orders (snd (RequestRefund env oid uid reason w)))"
proof -
  let ?P = "\<lambda>r. po_ID r = oid \<and> po_UserID r = uid \<and> po_Status r = OrderStatusCompleted \<and> po_OrderType r = OrderTypeBalance"
  have "list_all2 (follows order_step) (pw_orders w) (update_where ?P
      (\<lambda>r. r\<lparr>po_Status := OrderStatusRefundRequested, po_RefundRequestedAt := a, po_RefundRequestReason := b,
             po_RefundRequestedBy := c, po_RefundAmount := d, po_UpdatedAt := now\<rparr>) (pw_orders w))" for a b c d now
    by (rule follows_update) (auto simp: list_all2_same order_step_def intro: refund_step.request)
  then have "list_all2 (follows order_step) (pw_orders w) (pw_orders (snd (order_Update f now ?P
      (\<lambda>r. r\<lparr>po_Status := OrderStatusRefundRequested, po_RefundRequestedAt := a, po_RefundRequestReason := b,
             po_RefundRequestedBy := c, po_RefundAmount := d\<rparr>) w)))" for f now a b c d
    using order_Update_rows [of f now ?P "\<lambda>r. r\<lparr>po_Status := OrderStatusRefundRequested, po_RefundRequestedAt := a,
        po_RefundRequestReason := b, po_RefundRequestedBy := c, po_RefundAmount := d\<rparr>" w]
    by (auto simp: list_all2_same)
  then show ?thesis
    unfolding RequestRefund_def by (simp add: list_all2_same split_beta split: sum.split)
qed

subsection \<open>At most one refund is paid out\<close>

text \<open>Whether this run of \<open>ExecuteRefund\<close> gets past the gateway: the money goes back to the payer.\<close>

definition gateway_accepted :: "'d refund_env \<Rightarrow> refund_plan \<Rightarrow> pay_world \<Rightarrow> bool" where
  "gateway_accepted env p w =
     (case order_Update (rf_fault env FLock) (rf_now env) (refundable (rp_OrderID p))
             (\<lambda>r. r\<lparr>po_Status := OrderStatusRefunding\<rparr>) w of
        (Inl _, _) \<Rightarrow> False
      | (Inr c, w1) \<Rightarrow> c \<noteq> 0 \<and> (case deduct env p w1 of
            (Inl _, _) \<Rightarrow> False
          | (Inr p', w2) \<Rightarrow> (case gwRefund env p' w2 of (Inl _, _) \<Rightarrow> False | (Inr _, _) \<Rightarrow> True)))"

lemma accepted_closes:
  assumes "gateway_accepted env p w" "distinct (map po_ID (pw_orders w))"
  shows "all_in (rp_OrderID p) refund_closed (pw_orders (snd (ExecuteRefund env p w)))"
proof -
  obtain c w1 where a: "order_Update (rf_fault env FLock) (rf_now env) (refundable (rp_OrderID p))
        (\<lambda>r. r\<lparr>po_Status := OrderStatusRefunding\<rparr>) w = (c, w1)" by fastforce
  obtain d w2 where b: "deduct env p w1 = (d, w2)" by fastforce
  from assms(1) a b obtain n p' where n: "c = Inr n" "n \<noteq> 0" "d = Inr p'"
    by (auto simp: gateway_accepted_def split: sum.splits)
  obtain g w3 where "gwRefund env p' w2 = (g, w3)" by fastforce
  with assms(1) a b n have l: "order_Update (rf_fault env FLock) (rf_now env) (refundable (rp_OrderID p))
        (\<lambda>r. r\<lparr>po_Status := OrderStatusRefunding\<rparr>) w = (Inr n, w1)" "n \<noteq> 0"
      "deduct env p w1 = (Inr p', w2)" "gwRefund env p' w2 = (Inr (), w3)"
    by (auto simp: gateway_accepted_def split: sum.splits)
  have "on_path (rp_OrderID p) (pw_orders w1) w1"
    using refund_lock [OF l(1,2) assms(2)] by (simp add: list_all2_same)
  from deduct_follows(2) [OF this l(3)] refund_frames(3) [of env p' w2] l(4) refund_lock [OF l(1,2) assms(2)]
  have w3: "all_in (rp_OrderID p) {OrderStatusRefunding} (pw_orders w3)" by simp
  have ids: "rp_OrderID p' = rp_OrderID p" using deduct_order_id [OF l(3)] by simp
  let ?upd = "\<lambda>r. r\<lparr>po_Status := (if flt (rp_RefundAmount p') (po_Amount (rp_Order p'))
                                   then OrderStatusPartiallyRefunded else OrderStatusRefunded),
                    po_RefundAmount := rp_RefundAmount p', po_RefundReason := Some (rp_Reason p'),
                    po_RefundAt := Some (rf_now env), po_ForceRefund := rp_Force p'\<rparr>"
  have "all_in (rp_OrderID p) refund_closed
      (pw_orders (snd (order_UpdateOne (rf_fault env FMarkOk) (rf_now env) (rp_OrderID p') ?upd w3)))"
    using order_UpdateOne_rows [of "rf_fault env FMarkOk" "rf_now env" "rp_OrderID p'" ?upd w3] w3 ids
    by (auto simp: all_in_def refund_closed_def set_update_where)
  then have "all_in (rp_OrderID p) refund_closed (pw_orders (snd (markRefundOk env p' w3)))"
    unfolding markRefundOk_def
    by (cases "order_UpdateOne (rf_fault env FMarkOk) (rf_now env) (rp_OrderID p') ?upd w3") (simp split: sum.split)
  then show ?thesis using l by (simp add: ExecuteRefund_def)
qed

lemma refundable_not_closed: "refundable_status s \<Longrightarrow> s \<notin> refund_closed"
  by (auto simp: refundable_status_def refund_closed_def order_status_defs)

lemma Update_nothing:
  assumes "\<And>r. r \<in> set (pw_orders w) \<Longrightarrow> \<not> P r"
  shows "order_Update f now P upd w = (case f of NoFault \<Rightarrow> Inr 0 | Lost e \<Rightarrow> Inl e | Unacked e \<Rightarrow> Inl e, w)"
proof -
  have "update_where P g (pw_orders w) = pw_orders w" for g
    using assms by (auto simp: update_where_def intro: map_idI)
  moreover have "affected P (pw_orders w) = 0" using assms by (simp add: affected_def filter_empty_conv)
  ultimately show ?thesis by (simp add: order_Update_def with_fault_def split: fault.split)
qed

text \<open>A refund of an order that is under refund, or refunded, has no effect at all.\<close>

lemma ExecuteRefund_closed:
  assumes "all_in (rp_OrderID p) refund_closed (pw_orders w)"
  shows "isl (fst (ExecuteRefund env p w))" "snd (ExecuteRefund env p w) = w" "\<not> gateway_accepted env p w"
proof -
  have "\<not> refundable (rp_OrderID p) r" if "r \<in> set (pw_orders w)" for r
    using assms that refundable_not_closed by (auto simp: all_in_def refundable_def)
  note u = Update_nothing [OF this, of w]
  show "isl (fst (ExecuteRefund env p w))" "snd (ExecuteRefund env p w) = w" "\<not> gateway_accepted env p w"
    by (simp_all add: ExecuteRefund_def gateway_accepted_def u split: fault.split)
qed

definition rows_of :: "int64 \<Rightarrow> pay_world \<Rightarrow> pay_order list" where
  "rows_of oid w = filter (\<lambda>r. po_ID r = oid) (pw_orders w)"

lemma all_in_rows: "all_in oid S (pw_orders w) \<longleftrightarrow> (\<forall>r \<in> set (rows_of oid w). po_Status r \<in> S)"
  by (auto simp: all_in_def rows_of_def)

lemma filter_update_other:
  assumes "\<And>r. P r \<Longrightarrow> \<not> Q r \<and> \<not> Q (f r)" shows "filter Q (update_where P f rows) = filter Q rows"
  using assms by (induction rows) (auto simp: update_where_def)

lemma rows_of_orders: "pw_orders w' = pw_orders w \<Longrightarrow> rows_of oid w' = rows_of oid w"
  by (simp add: rows_of_def)

lemma rows_of_UpdateOne:
  assumes "oid' \<noteq> oid" "\<And>r. po_ID (upd r) = po_ID r"
  shows "rows_of oid (snd (order_UpdateOne f now oid' upd w)) = rows_of oid w"
  using order_UpdateOne_rows [of f now oid' upd w] assms
  by (auto simp: rows_of_def intro!: filter_update_other)

lemma rows_of_restore: "rp_OrderID p \<noteq> oid \<Longrightarrow> rows_of oid (restoreStatus env p w) = rows_of oid w"
  unfolding restoreStatus_def by (rule rows_of_UpdateOne) simp_all

lemma rows_of_deduct:
  assumes "rp_OrderID p \<noteq> oid" shows "rows_of oid (snd (deduct env p w)) = rows_of oid w"
proof -
  have sub: "rows_of oid w1 = rows_of oid w0" if "with_sub_state k w0 = (r, w1)" for k :: "sub_state \<Rightarrow> 'x result \<times> sub_state" and r w0 w1
    using refund_frames(2) [of k w0] that by (simp add: rows_of_def)
  have red: "rows_of oid w1 = rows_of oid w" if "with_redeem k w = (r, w1)" for k :: "redeem_db \<Rightarrow> unit result \<times> redeem_db" and r w1
    using refund_frames(1) [of k w] that by (simp add: rows_of_def)
  show ?thesis
    unfolding deduct_def by (auto dest!: sub red simp: rows_of_restore assms split: prod.split sum.split)
qed

lemma rows_of_ExecuteRefund:
  assumes "rp_OrderID p \<noteq> oid" shows "rows_of oid (snd (ExecuteRefund env p w)) = rows_of oid w"
proof -
  have lock: "rows_of oid w1 = rows_of oid w" if "order_Update (rf_fault env FLock) (rf_now env) (refundable (rp_OrderID p))
      (\<lambda>r. r\<lparr>po_Status := OrderStatusRefunding\<rparr>) w = (c, w1)" for c w1
    using order_Update_frame(5) [OF that] assms
    by (auto simp: rows_of_def refundable_def intro!: filter_update_other)
  have ded: "rows_of oid w2 = rows_of oid w1" if "deduct env p w1 = (d, w2)" for w1 d w2
    using rows_of_deduct [OF assms, of env w1] that by simp
  have gw: "rows_of oid w2 = rows_of oid w1" if "gwRefund env p' w1 = (g, w2)" for p' w1 g w2
    using refund_frames(3) [of env p' w1] that by (simp add: rows_of_def)
  have roll: "rows_of oid w2 = rows_of oid w1" if "RollbackRefund env p' w1 = (g, w2)" for p' w1 g w2
    using refund_frames(4) [of env p' w1] that by (simp add: rows_of_def)
  have audit: "rows_of oid (writeAuditLog e i a u w1) = rows_of oid w1" for e i a u w1 by (simp add: rows_of_def)
  have fail: "rows_of oid (snd (handleGwFail env p' e w1)) = rows_of oid w1" if "rp_OrderID p' = rp_OrderID p" for p' e w1
    unfolding handleGwFail_def using assms that
    by (auto simp: Let_def audit rows_of_restore rows_of_UpdateOne dest!: roll split: prod.split bool.split)
  have ok: "rows_of oid (snd (markRefundOk env p' w1)) = rows_of oid w1" if "rp_OrderID p' = rp_OrderID p" for p' w1
  proof -
    have "rows_of oid w2 = rows_of oid w1" if "order_UpdateOne f now (rp_OrderID p) upd w1 = (res, w2)" "\<And>r. po_ID (upd r) = po_ID r"
      for f now upd res w2
      using rows_of_UpdateOne [OF assms that(2), of f now w1] that(1) by simp
    then show ?thesis unfolding markRefundOk_def that
      by (auto simp: audit split: prod.split sum.split)
  qed
  show ?thesis unfolding ExecuteRefund_def
    by (auto dest!: lock simp: fail ok deduct_order_id split: prod.split sum.split) (auto dest!: ded gw simp: fail ok dest: deduct_order_id)
qed

lemma all_in_update:
  assumes "all_in oid S rows" "\<And>r. P r \<Longrightarrow> po_ID (upd r) = po_ID r \<and> po_Status r \<notin> S"
  shows "all_in oid S (update_where P upd rows)"
  using assms by (auto simp: all_in_def set_update_where)

lemma RequestRefund_closed:
  assumes "all_in oid refund_closed (pw_orders w)"
  shows "all_in oid refund_closed (pw_orders (snd (RequestRefund env oid' uid reason w)))"
proof -
  let ?P = "\<lambda>r. po_ID r = oid' \<and> po_UserID r = uid \<and> po_Status r = OrderStatusCompleted \<and> po_OrderType r = OrderTypeBalance"
  have "OrderStatusCompleted \<notin> refund_closed" by (simp add: refund_closed_def order_status_defs)
  then have "all_in oid refund_closed (update_where ?P upd (pw_orders w))" if "\<And>r. po_ID (upd r) = po_ID r" for upd
    using that by (intro all_in_update [OF assms]) auto
  then have "all_in oid refund_closed (pw_orders w1)"
    if "order_Update f now ?P upd w = (c, w1)" "\<And>r. po_ID (upd r) = po_ID r" for f now upd c w1
    using order_Update_frame(5) [OF that(1)] assms that(2) by auto
  then show ?thesis using assms unfolding RequestRefund_def by (auto split: sum.split prod.split)
qed

subsection \<open>Any sequence of operations\<close>

datatype 'd order_op =
    Notify pay_env notification gostring
  | RetryOp pay_env int64
  | FulfilOp pay_env int64
  | CancelOp life_env int64 int64
  | AdminCancelOp life_env int64
  | ExpireOp fault time "pay_order \<Rightarrow> life_env"
  | VerifyOp life_env gostring int64
  | RequestOp "'d refund_env" int64 int64 gostring
  | RefundOp "'d refund_env" refund_plan

fun order_exec :: "'d order_op \<Rightarrow> pay_world \<Rightarrow> pay_world" where
  "order_exec (Notify env n pk) w = snd (HandlePaymentNotification env n pk w)"
| "order_exec (RetryOp env oid) w = snd (RetryFulfillment env oid w)"
| "order_exec (FulfilOp env oid) w = snd (executeFulfillment env oid w)"
| "order_exec (CancelOp env oid uid) w = snd (CancelOrder env oid uid w)"
| "order_exec (AdminCancelOp env oid) w = snd (AdminCancelOrder env oid w)"
| "order_exec (ExpireOp f now envs) w = snd (ExpireTimedOutOrders f now envs w)"
| "order_exec (VerifyOp env raw uid) w = snd (VerifyOrderByOutTradeNo env raw uid w)"
| "order_exec (RequestOp env oid uid reason) w = snd (RequestRefund env oid uid reason w)"
| "order_exec (RefundOp env p) w = snd (ExecuteRefund env p w)"

lemmas path_ops = path.K_notification path.K_retry path.K_execute path.K_CancelOrder path.K_AdminCancelOrder
  path.K_Expire path.K_Verify
lemmas held_ops = held.K_notification held.K_retry held.K_execute held.K_CancelOrder held.K_AdminCancelOrder
  held.K_Expire held.K_Verify

lemma order_exec_follows:
  assumes "distinct (map po_ID (pw_orders w))"
  shows "list_all2 (follows order_step) (pw_orders w) (pw_orders (order_exec op w))"
proof -
  have "list_all2 (follows order_step) (pw_orders w) (pw_orders w)" by (simp add: list_all2_same)
  then show ?thesis
    by (cases op) (simp_all only: order_exec.simps path_ops RequestRefund_follows ExecuteRefund_follows [OF assms])
qed

lemma order_exec_ids: "distinct (map po_ID (pw_orders w)) \<Longrightarrow> map po_ID (pw_orders (order_exec op w)) = map po_ID (pw_orders w)"
  by (rule follows_ids [OF order_exec_follows])

lemma order_run_follows:
  "distinct (map po_ID (pw_orders w)) \<Longrightarrow>
   list_all2 (follows order_step) (pw_orders w) (pw_orders (fold order_exec ops w))"
proof (induction ops arbitrary: w)
  case Nil
  then show ?case by (simp add: list_all2_same)
next
  case (Cons op ops)
  have "distinct (map po_ID (pw_orders (order_exec op w)))" using order_exec_ids [OF Cons.prems, of op] Cons.prems by simp
  from Cons.IH [OF this] follows_trans [OF order_exec_follows [OF Cons.prems]] show ?case by simp
qed

lemma find_follows:
  "list_all2 (follows R) rows rows' \<Longrightarrow> find (\<lambda>r. po_ID r = oid) rows = Some r \<Longrightarrow>
   \<exists>r'. find (\<lambda>r. po_ID r = oid) rows' = Some r' \<and> follows R r r'"
  by (induction rule: list_all2_induct) (auto simp: follows_def split: if_splits)

lemma final_rtranclp: "order_step\<^sup>*\<^sup>* s t \<Longrightarrow> s \<in> {OrderStatusRefunded, OrderStatusPartiallyRefunded} \<Longrightarrow> t = s"
  by (induction rule: converse_rtranclp_induct) (use final_status in blast)+



fun paid_out :: "int64 \<Rightarrow> 'd order_op \<Rightarrow> pay_world \<Rightarrow> bool" where
  "paid_out oid (RefundOp env p) w \<longleftrightarrow> rp_OrderID p = oid \<and> gateway_accepted env p w"
| "paid_out oid _ w \<longleftrightarrow> False"

fun payouts :: "int64 \<Rightarrow> 'd order_op list \<Rightarrow> pay_world \<Rightarrow> nat" where
  "payouts oid [] w = 0"
| "payouts oid (op # ops) w = (if paid_out oid op w then 1 else 0) + payouts oid ops (order_exec op w)"

lemma order_exec_closed:
  assumes "all_in oid refund_closed (pw_orders w)"
  shows "all_in oid refund_closed (pw_orders (order_exec op w))"
proof (cases op)
  case (RefundOp env p)
  show ?thesis
  proof (cases "rp_OrderID p = oid")
    case True
    with assms have "all_in (rp_OrderID p) refund_closed (pw_orders w)" by simp
    then show ?thesis using assms RefundOp by (simp add: ExecuteRefund_closed(2))
  next
    case False
    then show ?thesis using assms RefundOp rows_of_ExecuteRefund [OF False, of env w]
      by (simp add: all_in_rows)
  qed
qed (simp_all only: order_exec.simps RequestRefund_closed [OF assms] held_ops [OF assms])

lemma payouts_closed: "all_in oid refund_closed (pw_orders w) \<Longrightarrow> payouts oid ops w = 0"
proof (induction ops arbitrary: w)
  case (Cons op ops)
  have "\<not> paid_out oid op w" using Cons.prems ExecuteRefund_closed(3) by (cases op) auto
  with Cons show ?case by (simp add: order_exec_closed)
qed simp


definition demo_refund :: "time \<Rightarrow> rat refund_env" where
  "demo_refund now = \<lparr>rf_pay = calm_pay now, rf_fault = (\<lambda>_. NoFault), rf_decimal = exact_decimals,
     rf_create = (\<lambda>_. Inl (EPlain ''no provider'')), rf_lookup_sub = calm_env now, rf_deduct_sub = calm_env now,
     rf_revoke_sub = calm_env now, rf_return_sub = calm_env now\<rparr>"

definition demo_completed :: pay_world where
  "demo_completed = demo_world\<lparr>pw_orders := [demo_order\<lparr>po_Status := OrderStatusCompleted, po_PaidAt := Some 3\<rparr>]\<rparr>"

definition demo_plan :: refund_plan where
  "demo_plan = \<lparr>rp_OrderID = 7, rp_Order = demo_order\<lparr>po_Status := OrderStatusCompleted, po_PaidAt := Some 3\<rparr>,
     rp_RefundAmount = Fin 10, rp_GatewayAmount = Fin 10, rp_Reason = [], rp_Force = False, rp_DeductBalance = True,
     rp_DeductionType = DeductionTypeBalance, rp_BalanceToDeduct = Fin 3, rp_SubDaysToDeduct = 0, rp_SubscriptionID = 0\<rparr>"


end
