(* ===== verification/PaymentRefundLaws.thy ===== *)
theory PaymentRefundLaws
  imports PaymentStates
begin

text \<open>
  What a refund does to the money: the plan never deducts more than the account holds or the refund
  returns; an accepted refund deducts exactly the planned amount; and a refused one gives it back, but
  through the statement that books recharges.
\<close>

subsection \<open>The plan\<close>

lemma prepDeduct_balance:
  assumes "prepDeduct env ord p force w = (PrepPlan p', w')" "rp_DeductionType p' = DeductionTypeBalance"
    "rp_DeductionType p = DeductionTypeNone"
  shows "\<exists>u. user_by_id (po_UserID ord) (pw_redeem w) = Some u \<and>
    p' = p\<lparr>rp_DeductionType := DeductionTypeBalance, rp_BalanceToDeduct := fmin (rp_RefundAmount p) (ua_Balance u)\<rparr>"
  using assms
  by (auto simp: prepDeduct_def user_GetByID_def found_def pay_const_defs Let_def dest!: read_fault_Inr
      split: if_splits sum.splits option.splits prod.splits)


definition demo_instance :: pay_instance where
  "demo_instance = \<lparr>pi_ID = 1, pi_ProviderKey = ''stripe'', pi_Name = [], pi_Config = [], pi_SupportedTypes = [],
     pi_Enabled = True, pi_PaymentMode = [], pi_SortOrder = 0, pi_Limits = [], pi_RefundEnabled = True,
     pi_AllowUserRefund = False, pi_CreatedAt = 0, pi_UpdatedAt = 0\<rparr>"

definition demo_refundable :: pay_world where
  "demo_refundable = demo_world\<lparr>pw_instances := [demo_instance],
     pw_orders := [demo_order\<lparr>po_Status := OrderStatusCompleted, po_ProviderInstanceID := Some (itoa 1)\<rparr>]\<rparr>"

lemma demo_instance_found:
  "getRefundOrderProviderInstance NoFault [demo_instance]
     (demo_order\<lparr>po_Status := OrderStatusCompleted, po_ProviderInstanceID := Some (itoa 1)\<rparr>) = Inr (Some demo_instance)"
  using parse_int64_itoa [of 1]
  by (simp add: getRefundOrderProviderInstance_def psOrderProviderSnapshot_def demo_order_def psStringValue_def
      instance_by_id_def demo_instance_def in_int64_def min_int64_def max_int64_def)


subsection \<open>Carrying it out without faults of the database\<close>

definition refund_calm :: "'d refund_env \<Rightarrow> bool" where
  "refund_calm env \<longleftrightarrow> rf_fault env = (\<lambda>_. NoFault) \<and> no_faults (rf_pay env)"

definition debit_user :: "(f64 \<Rightarrow> f64 \<Rightarrow> f64) \<Rightarrow> int64 \<Rightarrow> f64 \<Rightarrow> user_acct list \<Rightarrow> user_acct list" where
  "debit_user num_add u amount users =
     update_where (\<lambda>r. ua_ID r = u) (\<lambda>r. r\<lparr>ua_Balance := num_add (ua_Balance r) (fneg amount)\<rparr>) users"

lemma user_affected: "user_by_id u d = Some x \<Longrightarrow> affected (\<lambda>r. ua_ID r = u) (rd_users d) \<noteq> 0"
  by (auto simp: user_by_id_def affected_0_iff dest!: find_SomeD)

lemma DeductBalance_ok:
  "user_by_id u d = Some x \<Longrightarrow>
   DeductBalance NoFault na u amount d = (Inr (), d\<lparr>rd_users := debit_user na u amount (rd_users d)\<rparr>)"
  using user_affected [of u d x] by (simp add: DeductBalance_def user_update_def sql_update_one_def debit_user_def)

lemma user_by_id_debit:
  "user_by_id u d = Some x \<Longrightarrow>
   user_by_id u (d\<lparr>rd_users := debit_user na u amount (rd_users d)\<rparr>) =
     Some (x\<lparr>ua_Balance := na (ua_Balance x) (fneg amount)\<rparr>)"
  unfolding user_by_id_def debit_user_def
  by (simp, subst find_update_where_same) (auto dest: find_SomeD)

lemma order_UpdateOne_ok:
  assumes "order_by_id oid w = Some r" "\<And>r. po_ID (upd r) = po_ID r"
  shows "\<exists>w'. order_UpdateOne NoFault now oid upd w = (Inr (), w') \<and> pw_redeem w' = pw_redeem w
    \<and> order_by_id oid w' = Some ((upd r)\<lparr>po_UpdatedAt := now\<rparr>)"
proof -
  have "r \<in> set (pw_orders w)" "po_ID r = oid" using assms(1) by (auto simp: order_by_id_def dest: find_SomeD)
  then have "affected (\<lambda>r. po_ID r = oid) (pw_orders w) \<noteq> 0" by (auto simp: affected_0_iff)
  then show ?thesis
    using order_Update_ok(2) [OF assms(1), of "\<lambda>r. po_ID r = oid" upd now] assms(2) \<open>po_ID r = oid\<close>
    by (simp add: order_UpdateOne_def sql_update_one_def)
qed

lemma gwRefund_frame: "pw_redeem (snd (gwRefund env p w)) = pw_redeem w"
  by (simp add: gwRefund_def Let_def split: sum.split)

text \<open>Taking the order and deducting the balance, when nothing fails: the state the gateway is called in.\<close>

lemma refund_deducted:
  assumes "refund_calm env" "order_by_id (rp_OrderID p) w = Some r" "refundable_status (po_Status r)"
    "deducts_balance p" "\<not> has_audit (rp_OrderID p) ''REFUND_ROLLBACK_FAILED'' w"
    "user_by_id (po_UserID (rp_Order p)) (pw_redeem w) = Some u"
  shows "\<exists>c w1 w2. order_Update (rf_fault env FLock) (rf_now env) (refundable (rp_OrderID p))
        (\<lambda>r. r\<lparr>po_Status := OrderStatusRefunding\<rparr>) w = (Inr (Suc c), w1)
    \<and> deduct env p w1 = (Inr p, w2)
    \<and> order_by_id (rp_OrderID p) w2 = Some (r\<lparr>po_Status := OrderStatusRefunding, po_UpdatedAt := rf_now env\<rparr>)
    \<and> pw_redeem w2 = (pw_redeem w)\<lparr>rd_users := debit_user (rf_num_add env) (po_UserID (rp_Order p)) (rp_BalanceToDeduct p)
        (rd_users (pw_redeem w))\<rparr>"
proof -
  let ?upd = "\<lambda>r. r\<lparr>po_Status := OrderStatusRefunding\<rparr>"
  have P: "refundable (rp_OrderID p) r" using assms(2,3) by (simp add: refundable_def order_by_id_ID)
  let ?w1 = "w\<lparr>pw_orders := update_where (refundable (rp_OrderID p)) (\<lambda>r. (?upd r)\<lparr>po_UpdatedAt := rf_now env\<rparr>) (pw_orders w)\<rparr>"
  obtain c where l: "order_Update NoFault (rf_now env) (refundable (rp_OrderID p)) ?upd w = (Inr (Suc c), ?w1)"
    using order_Update_ok(1) [OF assms(2), of "refundable (rp_OrderID p)" ?upd "rf_now env"] P by auto
  have o1: "order_by_id (rp_OrderID p) ?w1 = Some (r\<lparr>po_Status := OrderStatusRefunding, po_UpdatedAt := rf_now env\<rparr>)"
    using order_Update_ok(2) [OF assms(2), of "refundable (rp_OrderID p)" ?upd "rf_now env"] P by simp
  have "deduct env p ?w1 = (Inr p, ?w1\<lparr>pw_redeem := (pw_redeem w)\<lparr>rd_users := debit_user (rf_num_add env)
      (po_UserID (rp_Order p)) (rp_BalanceToDeduct p) (rd_users (pw_redeem w))\<rparr>\<rparr>)"
    using assms(1,4-6) by (simp add: deduct_def hasAuditLog_def refund_calm_def no_faults_def with_redeem_def DeductBalance_ok)
  with l o1 assms(1) show ?thesis by (auto simp: refund_calm_def)
qed

lemma refund_accepted:
  assumes "refund_calm env" "order_by_id (rp_OrderID p) w = Some r"
  shows "\<exists>w'. markRefundOk env p w = (Inr \<lparr>rr_Success = True, rr_Warning = [], rr_RequireForce = False,
        rr_BalanceDeducted = rp_BalanceToDeduct p, rr_SubDaysDeducted = rp_SubDaysToDeduct p\<rparr>, w')
    \<and> pw_redeem w' = pw_redeem w
    \<and> map_option (\<lambda>r. (po_Status r, po_RefundAmount r)) (order_by_id (rp_OrderID p) w') =
        Some (if flt (rp_RefundAmount p) (po_Amount (rp_Order p)) then OrderStatusPartiallyRefunded
              else OrderStatusRefunded, rp_RefundAmount p)"
proof -
  let ?upd = "\<lambda>r. r\<lparr>po_Status := (if flt (rp_RefundAmount p) (po_Amount (rp_Order p))
                                   then OrderStatusPartiallyRefunded else OrderStatusRefunded),
                    po_RefundAmount := rp_RefundAmount p, po_RefundReason := Some (rp_Reason p),
                    po_RefundAt := Some (rf_now env), po_ForceRefund := rp_Force p\<rparr>"
  obtain w' where "order_UpdateOne NoFault (rf_now env) (rp_OrderID p) ?upd w = (Inr (), w')"
      "pw_redeem w' = pw_redeem w" "order_by_id (rp_OrderID p) w' = Some ((?upd r)\<lparr>po_UpdatedAt := rf_now env\<rparr>)"
    using order_UpdateOne_ok [OF assms(2), of ?upd "rf_now env"] by auto
  with assms(1) show ?thesis by (simp add: markRefundOk_def refund_calm_def)
qed

lemma refund_refused:
  assumes "refund_calm env" "order_by_id (rp_OrderID p) w = Some r" "deducts_balance p"
    "user_by_id (po_UserID (rp_Order p)) (pw_redeem w) = Some u"
  shows "\<exists>msg w'. handleGwFail env p e w = (Inr \<lparr>rr_Success = False, rr_Warning = msg, rr_RequireForce = False,
        rr_BalanceDeducted = Fin 0, rr_SubDaysDeducted = 0\<rparr>, w')
    \<and> rd_users (pw_redeem w') = credit_user (rf_num_add env) (po_UserID (rp_Order p)) (rp_BalanceToDeduct p)
        (rd_users (pw_redeem w))
    \<and> map_option po_Status (order_by_id (rp_OrderID p) w') =
        Some (if po_Status (rp_Order p) = OrderStatusRefundRequested then OrderStatusRefundRequested else OrderStatusCompleted)"
proof -
  let ?d = "(pw_redeem w)\<lparr>rd_users := credit_user (rf_num_add env) (po_UserID (rp_Order p)) (rp_BalanceToDeduct p)
        (rd_users (pw_redeem w))\<rparr>"
  have days: "\<not> deducts_days p" using assms(3) by (simp add: deducts_balance_def deducts_days_def pay_const_defs)
  have "UpdateBalance NoFault (rf_num_add env) (po_UserID (rp_Order p)) (rp_BalanceToDeduct p) (pw_redeem w) = (Inr (), ?d)"
    by (rule UpdateBalance_ok [OF assms(4)])
  then have roll: "RollbackRefund env p w = (True, w\<lparr>pw_redeem := ?d\<rparr>)"
    using assms(1,3) days by (simp add: RollbackRefund_def refund_calm_def with_redeem_def)
  let ?upd = "\<lambda>r. r\<lparr>po_Status := (if po_Status (rp_Order p) = OrderStatusRefundRequested
                             then OrderStatusRefundRequested else OrderStatusCompleted)\<rparr>"
  obtain w' where "order_UpdateOne NoFault (rf_now env) (rp_OrderID p) ?upd (w\<lparr>pw_redeem := ?d\<rparr>) = (Inr (), w')"
      "pw_redeem w' = ?d" "order_by_id (rp_OrderID p) w' = Some ((?upd r)\<lparr>po_UpdatedAt := rf_now env\<rparr>)"
    using order_UpdateOne_ok [of "rp_OrderID p" "w\<lparr>pw_redeem := ?d\<rparr>" r ?upd "rf_now env"] assms(2) by auto
  with roll assms(1) show ?thesis by (simp add: handleGwFail_def restoreStatus_def refund_calm_def)
qed

text \<open>
  A refund either happens or leaves the balance alone. Without faults of the database, a refund whose
  plan deducts from the balance ends in one of two ways. The gateway accepts it: the result is a success
  that names the deduction, the order is REFUNDED, or PARTIALLY_REFUNDED when less than its amount was
  refunded, and the account has lost exactly the planned amount. Or the gateway refuses it: the result
  says that it was rolled back, the order is refundable again, and the planned amount has been added back
  to the account. (It is added back by \<open>UpdateBalance\<close>, so the total the user has recharged grows by it
  although no money came in.)
\<close>

theorem refund_moves_balance:
  assumes "refund_calm env" "order_by_id (rp_OrderID p) w = Some r" "refundable_status (po_Status r)"
    "deducts_balance p" "\<not> has_audit (rp_OrderID p) ''REFUND_ROLLBACK_FAILED'' w"
    "user_by_id (po_UserID (rp_Order p)) (pw_redeem w) = Some u"
  defines "uid \<equiv> po_UserID (rp_Order p)" and "x \<equiv> rp_BalanceToDeduct p" and "na \<equiv> rf_num_add env"
  shows "\<exists>res w'. ExecuteRefund env p w = (Inr res, w') \<and> rr_Success res = gateway_accepted env p w
    \<and> (gateway_accepted env p w \<longrightarrow> rr_BalanceDeducted res = x
        \<and> rd_users (pw_redeem w') = debit_user na uid x (rd_users (pw_redeem w))
        \<and> map_option (\<lambda>r. (po_Status r, po_RefundAmount r)) (order_by_id (rp_OrderID p) w') =
            Some (if flt (rp_RefundAmount p) (po_Amount (rp_Order p)) then OrderStatusPartiallyRefunded
                  else OrderStatusRefunded, rp_RefundAmount p))
    \<and> (\<not> gateway_accepted env p w \<longrightarrow>
          rd_users (pw_redeem w') = credit_user na uid x (debit_user na uid x (rd_users (pw_redeem w)))
        \<and> map_option po_Status (order_by_id (rp_OrderID p) w') =
            Some (if po_Status (rp_Order p) = OrderStatusRefundRequested then OrderStatusRefundRequested
                  else OrderStatusCompleted))"
proof -
  obtain c w1 w2 where l: "order_Update (rf_fault env FLock) (rf_now env) (refundable (rp_OrderID p))
        (\<lambda>r. r\<lparr>po_Status := OrderStatusRefunding\<rparr>) w = (Inr (Suc c), w1)" "deduct env p w1 = (Inr p, w2)"
      "order_by_id (rp_OrderID p) w2 = Some (r\<lparr>po_Status := OrderStatusRefunding, po_UpdatedAt := rf_now env\<rparr>)"
      "pw_redeem w2 = (pw_redeem w)\<lparr>rd_users := debit_user na uid x (rd_users (pw_redeem w))\<rparr>"
    using refund_deducted [OF assms(1-6)] by (auto simp: uid_def x_def na_def)
  obtain g w3 where g: "gwRefund env p w2 = (g, w3)" by fastforce
  have w3: "pw_redeem w3 = pw_redeem w2" "pw_orders w3 = pw_orders w2"
    using gwRefund_frame [of env p w2] refund_frames(3) [of env p w2] g by auto
  then have o3: "order_by_id (rp_OrderID p) w3 = Some (r\<lparr>po_Status := OrderStatusRefunding, po_UpdatedAt := rf_now env\<rparr>)"
    using l(3) by (simp add: order_by_id_def)
  show ?thesis
  proof (cases g)
    case (Inl e)
    have "user_by_id uid (pw_redeem w3) \<noteq> None"
      using user_by_id_debit [of uid "pw_redeem w" u na x] assms(6) w3(1) l(4) by (simp add: uid_def)
    then obtain u' where "user_by_id (po_UserID (rp_Order p)) (pw_redeem w3) = Some u'" by (auto simp: uid_def)
    from refund_refused [OF assms(1) o3 assms(4) this, of e] show ?thesis
      using l g Inl w3(1) by (auto simp: ExecuteRefund_def gateway_accepted_def uid_def x_def na_def)
  next
    case (Inr y)
    from refund_accepted [OF assms(1) o3] show ?thesis
      using l g Inr w3(1) by (auto simp: ExecuteRefund_def gateway_accepted_def uid_def x_def na_def)
  qed
qed

theorem refund_moves_balance_witness:
  "\<exists>res w'. ExecuteRefund (demo_refund 9) demo_plan demo_completed = (Inr res, w') \<and> rr_Success res
    \<and> rd_users (pw_redeem w') = debit_user fadd 5 (Fin 3) demo_users"
proof -
  have calm: "refund_calm (demo_refund 9)" by (simp add: refund_calm_def demo_refund_def calm_pay_ok(1))
  have ord: "order_by_id (rp_OrderID demo_plan) demo_completed =
      Some (demo_order\<lparr>po_Status := OrderStatusCompleted, po_PaidAt := Some 3\<rparr>)"
    by (simp add: order_by_id_def demo_completed_def demo_plan_def demo_order_def)
  have st: "refundable_status (po_Status (demo_order\<lparr>po_Status := OrderStatusCompleted, po_PaidAt := Some 3\<rparr>))"
    by (simp add: refundable_status_def)
  have ded: "deducts_balance demo_plan" by (simp add: deducts_balance_def demo_plan_def)
  have aud: "\<not> has_audit (rp_OrderID demo_plan) ''REFUND_ROLLBACK_FAILED'' demo_completed"
    by (simp add: has_audit_def demo_completed_def demo_world_def)
  have usr: "user_by_id (po_UserID (rp_Order demo_plan)) (pw_redeem demo_completed) =
      Some \<lparr>ua_ID = 5, ua_Balance = Fin 3, ua_TotalRecharged = Fin 0, ua_Concurrency = 2\<rparr>"
    by (simp add: user_by_id_def demo_plan_def demo_completed_def demo_world_def demo_redeem_def demo_users_def demo_order_def)
  obtain c w1 w2 where "order_Update (rf_fault (demo_refund 9) FLock) (rf_now (demo_refund 9)) (refundable (rp_OrderID demo_plan))
        (\<lambda>r. r\<lparr>po_Status := OrderStatusRefunding\<rparr>) demo_completed = (Inr (Suc c), w1)"
      "deduct (demo_refund 9) demo_plan w1 = (Inr demo_plan, w2)"
    using refund_deducted [OF calm ord st ded aud usr] by auto
  then have "gateway_accepted (demo_refund 9) demo_plan demo_completed"
    by (simp add: gateway_accepted_def gwRefund_def demo_plan_def demo_order_def)
  with refund_moves_balance [OF calm ord st ded aud usr] show ?thesis
    by (auto simp: demo_plan_def demo_order_def demo_refund_def calm_pay_def calm_redeem_def calm_env_def
        demo_completed_def demo_world_def demo_redeem_def)
qed

subsection \<open>After a rollback that failed\<close>

text \<open>
  A deduction that could not be given back is forgotten. When giving back the deduction of a refused
  refund fails, the attempt leaves REFUND_ROLLBACK_FAILED in the audit log and the next one does not deduct
  again. But it does not know that the deduction is still out either: if the gateway refuses it too, it
  reports that it was rolled back and the order is COMPLETED again, while the account is as it was, without
  the money. (Here without faults in the second attempt.)
\<close>

theorem lost_rollback_is_forgotten:
  assumes "refund_calm env" "order_by_id (rp_OrderID p) w = Some r" "po_Status r = OrderStatusRefundFailed"
    "rp_Order p = r" "deducts_balance p" "has_audit (rp_OrderID p) ''REFUND_ROLLBACK_FAILED'' w"
    "\<not> gateway_accepted env p w"
  shows "\<exists>msg w'. ExecuteRefund env p w = (Inr \<lparr>rr_Success = False, rr_Warning = ''gateway failed: '' @ msg @ '', rolled back'',
        rr_RequireForce = False, rr_BalanceDeducted = Fin 0, rr_SubDaysDeducted = 0\<rparr>, w')
    \<and> map_option po_Status (order_by_id (rp_OrderID p) w') = Some OrderStatusCompleted
    \<and> rd_users (pw_redeem w') = rd_users (pw_redeem w)"
proof -
  let ?upd = "\<lambda>r. r\<lparr>po_Status := OrderStatusRefunding\<rparr>" and ?p = "p\<lparr>rp_BalanceToDeduct := Fin 0\<rparr>"
  let ?w1 = "w\<lparr>pw_orders := update_where (refundable (rp_OrderID p)) (\<lambda>r. (?upd r)\<lparr>po_UpdatedAt := rf_now env\<rparr>) (pw_orders w)\<rparr>"
  have P: "refundable (rp_OrderID p) r" using assms(2,3) by (simp add: refundable_def refundable_status_def order_by_id_ID)
  obtain c where l: "order_Update NoFault (rf_now env) (refundable (rp_OrderID p)) ?upd w = (Inr (Suc c), ?w1)"
    using order_Update_ok(1) [OF assms(2), of "refundable (rp_OrderID p)" ?upd "rf_now env"] P by auto
  have d: "deduct env p ?w1 = (Inr ?p, ?w1)"
    using assms(1,5,6) by (simp add: deduct_def hasAuditLog_def refund_calm_def no_faults_def)
  obtain g w3 where g: "gwRefund env ?p ?w1 = (g, w3)" by fastforce
  then obtain e where e: "g = Inl e"
    using assms(1,7) l d by (cases g) (auto simp: gateway_accepted_def refund_calm_def)
  have w3: "pw_redeem w3 = pw_redeem w" "pw_orders w3 = pw_orders ?w1"
    using gwRefund_frame [of env ?p ?w1] refund_frames(3) [of env ?p ?w1] g by auto
  have o3: "order_by_id (rp_OrderID p) w3 = Some (r\<lparr>po_Status := OrderStatusRefunding, po_UpdatedAt := rf_now env\<rparr>)"
    using order_Update_ok(2) [OF assms(2), of "refundable (rp_OrderID p)" ?upd "rf_now env"] P w3(2)
    by (simp add: order_by_id_def)
  have roll: "RollbackRefund env ?p w3 = (True, w3)"
    using assms(5) by (simp add: RollbackRefund_def deducts_balance_def deducts_days_def pay_const_defs)
  have st: "po_Status (rp_Order ?p) \<noteq> OrderStatusRefundRequested" using assms(3,4) by (simp add: order_status_defs)
  obtain w' where "order_UpdateOne NoFault (rf_now env) (rp_OrderID p) (\<lambda>r. r\<lparr>po_Status := OrderStatusCompleted\<rparr>) w3 = (Inr (), w')"
      "pw_redeem w' = pw_redeem w3" "map_option po_Status (order_by_id (rp_OrderID p) w') = Some OrderStatusCompleted"
    using order_UpdateOne_ok [OF o3, of "\<lambda>r. r\<lparr>po_Status := OrderStatusCompleted\<rparr>" "rf_now env"] by auto
  then show ?thesis
    using assms(1) l d g e roll st w3(1)
    by (auto simp: ExecuteRefund_def handleGwFail_def restoreStatus_def refund_calm_def)
qed

lemma gateway_acceptedD:
  assumes "gateway_accepted env p w"
  shows "\<exists>p' w2. rp_Order p' = rp_Order p \<and> \<not> isl (fst (gwRefund env p' w2))"
proof -
  obtain c w1 where a: "order_Update (rf_fault env FLock) (rf_now env) (refundable (rp_OrderID p))
        (\<lambda>r. r\<lparr>po_Status := OrderStatusRefunding\<rparr>) w = (c, w1)" by fastforce
  obtain d w2 where b: "deduct env p w1 = (d, w2)" by fastforce
  from assms a b obtain p' where p': "d = Inr p'" by (auto simp: gateway_accepted_def split: sum.splits)
  obtain g w3 where g: "gwRefund env p' w2 = (g, w3)" by fastforce
  with assms a b p' have "\<not> isl g" by (auto simp: gateway_accepted_def split: sum.splits)
  with g b p' show ?thesis using deduct_order_id [of env p w1 p' w2] by (metis fst_conv)
qed

definition demo_rollback_failed :: pay_world where
  "demo_rollback_failed = demo_world\<lparr>pw_orders := [demo_order\<lparr>po_Status := OrderStatusRefundFailed, po_PaymentTradeNo := ''tr''\<rparr>],
     pw_audit := [\<lparr>al_OrderID = itoa 7, al_Action = ''REFUND_ROLLBACK_FAILED'', al_Operator = ''admin'', al_CreatedAt = 1\<rparr>]\<rparr>"

theorem lost_rollback_is_forgotten_witness:
  "\<exists>res w'. ExecuteRefund (demo_refund 9)
       (demo_plan\<lparr>rp_Order := demo_order\<lparr>po_Status := OrderStatusRefundFailed, po_PaymentTradeNo := ''tr''\<rparr>\<rparr>)
       demo_rollback_failed = (Inr res, w') \<and> \<not> rr_Success res
    \<and> map_option po_Status (order_by_id 7 w') = Some OrderStatusCompleted
    \<and> rd_users (pw_redeem w') = demo_users"
proof -
  let ?r = "demo_order\<lparr>po_Status := OrderStatusRefundFailed, po_PaymentTradeNo := ''tr''\<rparr>"
  let ?p = "demo_plan\<lparr>rp_Order := ?r\<rparr>"
  have calm: "refund_calm (demo_refund 9)" by (simp add: refund_calm_def demo_refund_def)
  have ord: "order_by_id (rp_OrderID ?p) demo_rollback_failed = Some ?r"
    by (simp add: order_by_id_def demo_rollback_failed_def demo_plan_def demo_order_def)
  have gw: "isl (fst (gwRefund (demo_refund 9) p' w))" if "rp_Order p' = ?r" for p' w
    using that by (simp add: gwRefund_def Let_def getRefundProvider_def demo_refund_def split: sum.split option.split)
  have "\<not> gateway_accepted (demo_refund 9) ?p demo_rollback_failed"
    using gw gateway_acceptedD [of "demo_refund 9" ?p demo_rollback_failed] by force
  from lost_rollback_is_forgotten [OF calm ord _ _ _ _ this] show ?thesis
    by (auto simp: demo_plan_def deducts_balance_def has_audit_def demo_rollback_failed_def demo_world_def demo_redeem_def)
qed

end
