(* ===== verification/SchedHeap.thy ===== *)
theory SchedHeap
  imports GoPrelude "HOL-Library.Multiset"
begin

text \<open>
  Choosing the best few of many: Go's \<open>container/heap\<close> as the scheduler uses it, on the array that holds
  the heap, and the selection of the top \<open>k\<close> candidates of
  \<open>selectTopKOpenAICandidates\<close> (\<open>internal/service/openai_account_scheduler.go\<close>) over it, for any \<open>better\<close>.
  The interface \<open>keyed_better\<close> says that \<open>better\<close> is the order of a key; in it the heap of size \<open>k\<close> with the
  worst candidate at its root is shown to give exactly the first \<open>k\<close> candidates of the sorted list.
\<close>

subsection \<open>The heap operations\<close>

definition swap_at :: "nat \<Rightarrow> nat \<Rightarrow> 'a list \<Rightarrow> 'a list" where
  "swap_at i j xs = xs[i := xs ! j, j := xs ! i]"

function heap_up :: "('a \<Rightarrow> 'a \<Rightarrow> bool) \<Rightarrow> nat \<Rightarrow> 'a list \<Rightarrow> 'a list" where
  "heap_up lt j xs =
     (let i = (j - 1) div 2
      in if i = j \<or> \<not> lt (xs ! j) (xs ! i) then xs else heap_up lt i (swap_at i j xs))"
  by auto
termination
  by (relation "measure (\<lambda>(_, j, _). j)") auto

declare heap_up.simps [simp del]

function heap_down :: "('a \<Rightarrow> 'a \<Rightarrow> bool) \<Rightarrow> nat \<Rightarrow> nat \<Rightarrow> 'a list \<Rightarrow> nat \<times> 'a list" where
  "heap_down lt i n xs =
     (if n \<le> 2 * i + 1 then (i, xs)
      else let j = (if 2 * i + 2 < n \<and> lt (xs ! (2 * i + 2)) (xs ! (2 * i + 1)) then 2 * i + 2 else 2 * i + 1)
           in if \<not> lt (xs ! j) (xs ! i) then (i, xs) else heap_down lt j n (swap_at i j xs))"
  by auto
termination
  by (relation "measure (\<lambda>(_, i, n, _). n - i)") auto

declare heap_down.simps [simp del]

definition heap_Push :: "('a \<Rightarrow> 'a \<Rightarrow> bool) \<Rightarrow> 'a \<Rightarrow> 'a list \<Rightarrow> 'a list" where
  "heap_Push lt x h = heap_up lt (length h) (h @ [x])"

definition heap_Fix :: "('a \<Rightarrow> 'a \<Rightarrow> bool) \<Rightarrow> nat \<Rightarrow> 'a list \<Rightarrow> 'a list" where
  "heap_Fix lt i h = (case heap_down lt i (length h) h of (i', h') \<Rightarrow> if i < i' then h' else heap_up lt i h')"

text \<open>
  \<open>sort.Slice\<close>. The algorithm is not stable; under an order that tells any two elements of the list apart
  every sorting algorithm gives the same result (\<open>sort_slice_unique\<close> below).
\<close>

fun insert_by :: "('a \<Rightarrow> 'a \<Rightarrow> bool) \<Rightarrow> 'a \<Rightarrow> 'a list \<Rightarrow> 'a list" where
  "insert_by lt x [] = [x]"
| "insert_by lt x (y # ys) = (if lt y x then y # insert_by lt x ys else x # y # ys)"

definition sort_slice :: "('a \<Rightarrow> 'a \<Rightarrow> bool) \<Rightarrow> 'a list \<Rightarrow> 'a list" where
  "sort_slice lt xs = foldr (insert_by lt) xs []"

definition topk_step :: "('a \<Rightarrow> 'a \<Rightarrow> bool) \<Rightarrow> nat \<Rightarrow> 'a \<Rightarrow> 'a list \<Rightarrow> 'a list" where
  "topk_step better k c best =
     (if length best < k then heap_Push (\<lambda>x y. better y x) c best
      else if better c (best ! 0) then heap_Fix (\<lambda>x y. better y x) 0 (best[0 := c])
      else best)"

definition select_topk :: "('a \<Rightarrow> 'a \<Rightarrow> bool) \<Rightarrow> 'a list \<Rightarrow> int \<Rightarrow> 'a list" where
  "select_topk better candidates topK =
     (if candidates = [] then []
      else let k = (if topK \<le> 0 then 1 else topK)
           in if int (length candidates) \<le> k then sort_slice better candidates
              else sort_slice better (fold (topk_step better (nat k)) candidates []))"

subsection \<open>The heap keeps its elements\<close>

lemma swap_at_basic [simp]: "length (swap_at i j xs) = length xs"
  by (simp add: swap_at_def)

lemma mset_swap_at [simp]: "i < length xs \<Longrightarrow> j < length xs \<Longrightarrow> mset (swap_at i j xs) = mset xs"
  by (simp add: swap_at_def mset_swap)

lemma nth_swap_at:
  "i < length xs \<Longrightarrow> j < length xs \<Longrightarrow> c < length xs \<Longrightarrow>
   swap_at i j xs ! c = (if c = j then xs ! i else if c = i then xs ! j else xs ! c)"
  by (simp add: swap_at_def nth_list_update)

lemma heap_up_mset: "j < length xs \<Longrightarrow> mset (heap_up lt j xs) = mset xs"
proof (induction lt j xs rule: heap_up.induct)
  case (1 lt j xs)
  let ?i = "(j - 1) div 2"
  have "?i < length xs" using 1(2) by linarith
  with 1 show ?case by (subst heap_up.simps) (simp add: Let_def)
qed

lemma heap_down_mset: "n = length xs \<Longrightarrow> i < n \<Longrightarrow> mset (snd (heap_down lt i n xs)) = mset xs"
proof (induction lt i n xs rule: heap_down.induct)
  case (1 lt i n xs)
  show ?case
    by (subst heap_down.simps) (use 1 in \<open>simp add: Let_def\<close>)
qed

lemma heap_Push_mset [simp]: "mset (heap_Push lt x h) = add_mset x (mset h)"
  by (simp add: heap_Push_def heap_up_mset)

lemma heap_Fix_mset: "i < length h \<Longrightarrow> mset (heap_Fix lt i h) = mset h"
proof -
  assume i: "i < length h"
  obtain i' h' where d: "heap_down lt i (length h) h = (i', h')" by fastforce
  have "mset h' = mset h" using heap_down_mset [of "length h" h i lt] i d by simp
  moreover have "length h' = length h" using \<open>mset h' = mset h\<close> by (rule mset_eq_length)
  ultimately show ?thesis using i d by (simp add: heap_Fix_def heap_up_mset)
qed

subsection \<open>Better is the order of a key\<close>

definition heap_ok :: "('a \<Rightarrow> 'k::linorder) \<Rightarrow> 'a list \<Rightarrow> bool" where
  "heap_ok key xs \<longleftrightarrow> (\<forall>c. 0 < c \<longrightarrow> c < length xs \<longrightarrow> key (xs ! c) \<le> key (xs ! ((c - 1) div 2)))"

text \<open>The heap but for the edge above \<open>j\<close>, and but for the edges below \<open>i\<close>.\<close>

definition up_ok :: "('a \<Rightarrow> 'k::linorder) \<Rightarrow> nat \<Rightarrow> 'a list \<Rightarrow> bool" where
  "up_ok key j xs \<longleftrightarrow>
     (\<forall>c. 0 < c \<longrightarrow> c < length xs \<longrightarrow> c \<noteq> j \<longrightarrow> key (xs ! c) \<le> key (xs ! ((c - 1) div 2))) \<and>
     (\<forall>c. 0 < c \<longrightarrow> c < length xs \<longrightarrow> (c - 1) div 2 = j \<longrightarrow> 0 < j \<longrightarrow> key (xs ! c) \<le> key (xs ! ((j - 1) div 2)))"

definition down_ok :: "('a \<Rightarrow> 'k::linorder) \<Rightarrow> nat \<Rightarrow> 'a list \<Rightarrow> bool" where
  "down_ok key i xs \<longleftrightarrow>
     (\<forall>c. 0 < c \<longrightarrow> c < length xs \<longrightarrow> (c - 1) div 2 \<noteq> i \<longrightarrow> key (xs ! c) \<le> key (xs ! ((c - 1) div 2))) \<and>
     (\<forall>c. 0 < c \<longrightarrow> c < length xs \<longrightarrow> (c - 1) div 2 = i \<longrightarrow> 0 < i \<longrightarrow> key (xs ! c) \<le> key (xs ! ((i - 1) div 2)))"

lemma child_of: "0 < c \<Longrightarrow> (c - 1) div 2 = i \<longleftrightarrow> c = 2 * i + 1 \<or> c = 2 * i + 2" for c i :: nat
  by linarith

lemma up_ok_step:
  assumes "up_ok key j xs" "j < length xs" "0 < j" "i = (j - 1) div 2" "key (xs ! i) < key (xs ! j)"
  shows "up_ok key i (swap_at i j xs)"
proof -
  have ij: "i < j" "i < length xs" using assms(2,3,4) by linarith+
  note nth = nth_swap_at [OF ij(2) assms(2)]
  have "key (swap_at i j xs ! c) \<le> key (swap_at i j xs ! ((c - 1) div 2))"
    if c: "0 < c" "c < length xs" "c \<noteq> i" for c
  proof -
    have p: "(c - 1) div 2 < length xs" "(c - 1) div 2 < c" using c by linarith+
    consider "c = j" | "c \<noteq> j" "(c - 1) div 2 = j" | "c \<noteq> j" "(c - 1) div 2 = i" | "c \<noteq> j" "(c - 1) div 2 \<noteq> j" "(c - 1) div 2 \<noteq> i"
      by blast
    then show ?thesis
    proof cases
      case 1
      then show ?thesis using assms(4,5) ij p c nth [of c] nth [of i] by simp
    next
      case 2
      then show ?thesis using assms(1,3,4) c p ij nth [of c] nth [of j] by (auto simp: up_ok_def)
    next
      case 3
      then have "key (xs ! c) \<le> key (xs ! i)" using assms(1) c by (metis up_ok_def)
      then show ?thesis using 3 assms(5) c p ij nth [of c] nth [of i] by auto
    next
      case 4
      then show ?thesis using assms(1) c p nth [of c] nth [of "(c - 1) div 2"] by (auto simp: up_ok_def)
    qed
  qed
  moreover have "key (swap_at i j xs ! c) \<le> key (swap_at i j xs ! ((i - 1) div 2))"
    if c: "0 < c" "c < length xs" "(c - 1) div 2 = i" "0 < i" for c
  proof -
    have p: "(i - 1) div 2 < i" "(i - 1) div 2 < length xs" using c ij by linarith+
    have i: "key (xs ! i) \<le> key (xs ! ((i - 1) div 2))" using assms(1) c(4) ij by (auto simp: up_ok_def)
    have "key (xs ! c) \<le> key (xs ! i)" if "c \<noteq> j" using assms(1) c that by (metis up_ok_def)
    with i c p ij nth [of c] nth [of "(i - 1) div 2"] show ?thesis by (cases "c = j") auto
  qed
  ultimately show ?thesis by (simp add: up_ok_def)
qed

lemma down_ok_step:
  assumes "down_ok key i xs" "j < length xs" "j = 2 * i + 1 \<or> j = 2 * i + 2"
    "key (xs ! i) < key (xs ! j)"
    "\<And>c. c < length xs \<Longrightarrow> c = 2 * i + 1 \<or> c = 2 * i + 2 \<Longrightarrow> key (xs ! c) \<le> key (xs ! j)"
  shows "down_ok key j (swap_at i j xs)"
proof -
  have ij: "i < j" "i < length xs" and pj: "(j - 1) div 2 = i" using assms(2,3) by auto
  note nth = nth_swap_at [OF ij(2) assms(2)]
  have "key (swap_at i j xs ! c) \<le> key (swap_at i j xs ! ((c - 1) div 2))"
    if c: "0 < c" "c < length xs" "(c - 1) div 2 \<noteq> j" for c
  proof -
    have p: "(c - 1) div 2 < length xs" "(c - 1) div 2 < c" using c by linarith+
    consider "c = j" | "c \<noteq> j" "(c - 1) div 2 = i" | "c = i" | "c \<noteq> j" "c \<noteq> i" "(c - 1) div 2 \<noteq> i" by blast
    then show ?thesis
    proof cases
      case 1
      then show ?thesis using assms(4) pj ij p c nth [of c] nth [of i] by simp
    next
      case 2
      then have "key (xs ! c) \<le> key (xs ! j)" using assms(5) c child_of [OF c(1), of i] by blast
      then show ?thesis using 2 c p ij nth [of c] nth [of i] by auto
    next
      case 3
      then have "key (xs ! j) \<le> key (xs ! ((i - 1) div 2))"
        using assms(1,2) pj ij c by (auto simp: down_ok_def)
      then show ?thesis using 3 c p ij nth [of i] nth [of "(i - 1) div 2"] by auto
    next
      case 4
      then show ?thesis using assms(1) c p ij nth [of c] nth [of "(c - 1) div 2"] by (auto simp: down_ok_def)
    qed
  qed
  moreover have "key (swap_at i j xs ! c) \<le> key (swap_at i j xs ! ((j - 1) div 2))"
    if c: "0 < c" "c < length xs" "(c - 1) div 2 = j" for c
  proof -
    have "c \<noteq> i" "c \<noteq> j" using c ij by linarith+
    moreover have "key (xs ! c) \<le> key (xs ! j)" using assms(1) c ij by (auto simp: down_ok_def)
    ultimately show ?thesis using pj c ij nth [of c] nth [of i] by simp
  qed
  ultimately show ?thesis by (simp add: down_ok_def)
qed

lemma heap_ok_root: "heap_ok key xs \<Longrightarrow> c < length xs \<Longrightarrow> key (xs ! c) \<le> key (xs ! 0)"
proof (induction c rule: less_induct)
  case (less c)
  show ?case
  proof (cases "c = 0")
    case False
    then have "(c - 1) div 2 < c" by linarith
    with less have "key (xs ! ((c - 1) div 2)) \<le> key (xs ! 0)" by simp
    moreover have "key (xs ! c) \<le> key (xs ! ((c - 1) div 2))" using less.prems False by (simp add: heap_ok_def)
    ultimately show ?thesis by (rule order_trans [rotated])
  qed simp
qed

locale keyed_better =
  fixes better :: "'a \<Rightarrow> 'a \<Rightarrow> bool" and key :: "'a \<Rightarrow> 'k::linorder" and S :: "'a set"
  assumes better_key: "x \<in> S \<Longrightarrow> y \<in> S \<Longrightarrow> better x y \<longleftrightarrow> key x < key y"
begin

abbreviation worse :: "'a \<Rightarrow> 'a \<Rightarrow> bool" where "worse \<equiv> \<lambda>x y. better y x"

lemma worse_key: "set xs \<subseteq> S \<Longrightarrow> i < length xs \<Longrightarrow> j < length xs \<Longrightarrow> worse (xs ! i) (xs ! j) \<longleftrightarrow> key (xs ! j) < key (xs ! i)"
  by (meson better_key nth_mem subsetD)

lemma swap_in: "set xs \<subseteq> S \<Longrightarrow> i < length xs \<Longrightarrow> j < length xs \<Longrightarrow> set (swap_at i j xs) \<subseteq> S"
  by (metis mset_swap_at set_mset_mset)

lemma heap_up_ok: "set xs \<subseteq> S \<Longrightarrow> j < length xs \<Longrightarrow> up_ok key j xs \<Longrightarrow> heap_ok key (heap_up worse j xs)"
proof (induction j arbitrary: xs rule: less_induct)
  case (less j)
  let ?i = "(j - 1) div 2"
  have i: "?i < length xs" using less.prems(2) by linarith
  show ?case
  proof (cases "?i = j \<or> \<not> worse (xs ! j) (xs ! ?i)")
    case True
    have "j = 0 \<or> key (xs ! j) \<le> key (xs ! ?i)"
    proof (cases "j = 0")
      case False
      then have "\<not> worse (xs ! j) (xs ! ?i)" using True by linarith
      then show ?thesis using worse_key [OF less.prems(1) less.prems(2) i] by (simp add: not_less)
    qed simp
    then have "heap_ok key xs" using less.prems(3) unfolding heap_ok_def up_ok_def by (metis less_not_refl)
    moreover have "heap_up worse j xs = xs" using True by (subst heap_up.simps) (simp add: Let_def)
    ultimately show ?thesis by simp
  next
    case False
    then have "0 < j" "?i < j" by auto
    moreover have "key (xs ! ?i) < key (xs ! j)" using False worse_key [OF less.prems(1) less.prems(2) i] by simp
    ultimately have "heap_ok key (heap_up worse ?i (swap_at ?i j xs))"
      using less.prems i by (intro less.IH up_ok_step swap_in) auto
    with False show ?thesis by (subst heap_up.simps) (simp add: Let_def)
  qed
qed

lemma heap_down_ok:
  "set xs \<subseteq> S \<Longrightarrow> n = length xs \<Longrightarrow> i < n \<Longrightarrow> down_ok key i xs \<Longrightarrow> heap_ok key (snd (heap_down worse i n xs))"
proof (induction "n - i" arbitrary: i xs rule: less_induct)
  case less
  let ?j = "if 2 * i + 2 < n \<and> worse (xs ! (2 * i + 2)) (xs ! (2 * i + 1)) then 2 * i + 2 else 2 * i + 1"
  show ?case
  proof (cases "n \<le> 2 * i + 1")
    case True
    then have "(c - 1) div 2 \<noteq> i" if "0 < c" "c < length xs" for c using that less.prems(2) by linarith
    then have "heap_ok key xs" using less.prems(4) by (simp add: heap_ok_def down_ok_def)
    then show ?thesis using True by (subst heap_down.simps) simp
  next
    case False
    have j: "?j < length xs" "?j = 2 * i + 1 \<or> ?j = 2 * i + 2" "i < ?j" using False less.prems(2) by auto
    have big: "key (xs ! c) \<le> key (xs ! ?j)" if "c < length xs" "c = 2 * i + 1 \<or> c = 2 * i + 2" for c
      using that worse_key [OF less.prems(1), of "2 * i + 2" "2 * i + 1"] less.prems(2) by (auto split: if_splits)
    show ?thesis
    proof (cases "worse (xs ! ?j) (xs ! i)")
      case True
      then have lt: "key (xs ! i) < key (xs ! ?j)" using worse_key [OF less.prems(1) j(1)] less.prems(2,3) by simp
      have "heap_ok key (snd (heap_down worse ?j n (swap_at i ?j xs)))"
        using less.prems j lt big by (intro less.hyps down_ok_step swap_in) auto
      then show ?thesis using False True by (subst heap_down.simps) (simp add: Let_def)
    next
      case nw: False
      then have le: "key (xs ! ?j) \<le> key (xs ! i)" using worse_key [OF less.prems(1) j(1)] less.prems(2,3) by simp
      have "key (xs ! c) \<le> key (xs ! ((c - 1) div 2))" if c: "0 < c" "c < length xs" for c
      proof (cases "(c - 1) div 2 = i")
        case True
        then show ?thesis using big [OF c(2)] child_of [OF c(1), of i] le by auto
      next
        case False
        then show ?thesis using less.prems(4) c by (simp add: down_ok_def)
      qed
      then have "heap_ok key xs" by (simp add: heap_ok_def)
      then show ?thesis using False nw by (subst heap_down.simps) (simp add: Let_def)
    qed
  qed
qed

lemma heap_Push_ok:
  assumes "set h \<subseteq> S" "x \<in> S" "heap_ok key h" shows "heap_ok key (heap_Push worse x h)"
proof -
  have "(c - 1) div 2 < length h" if "0 < c" "c < length h" for c using that by linarith
  moreover have "(c - 1) div 2 \<noteq> length h" if "0 < c" "c < Suc (length h)" for c using that by linarith
  ultimately have "up_ok key (length h) (h @ [x])" using assms(3)
    by (auto simp: up_ok_def heap_ok_def nth_append less_Suc_eq)
  then show ?thesis unfolding heap_Push_def using assms by (intro heap_up_ok) auto
qed

lemma heap_up_root [simp]: "heap_up worse 0 h = h"
  by (subst heap_up.simps) simp

lemma heap_Fix_root_ok:
  assumes "set h \<subseteq> S" "c \<in> S" "heap_ok key h" "h \<noteq> []" shows "heap_ok key (heap_Fix worse 0 (h[0 := c]))"
proof -
  have "set (h[0 := c]) \<subseteq> S" using assms(1,2) set_update_subset_insert [of h 0 c] by blast
  moreover have "down_ok key 0 (h[0 := c])"
    using assms(3) by (auto simp: down_ok_def heap_ok_def nth_list_update)
  ultimately have "heap_ok key (snd (heap_down worse 0 (length h) (h[0 := c])))"
    using assms(4) by (intro heap_down_ok) auto
  then show ?thesis by (simp add: heap_Fix_def split_beta)
qed

subsubsection \<open>Sorting\<close>

lemma mset_insert_by: "mset (insert_by lt x ys) = add_mset x (mset ys)"
  by (induction ys) auto

lemma mset_sort_slice [simp]: "mset (sort_slice lt xs) = mset xs"
  unfolding sort_slice_def by (induction xs) (auto simp: mset_insert_by)

lemma set_sort_slice [simp]: "set (sort_slice lt xs) = set xs"
  by (metis mset_sort_slice set_mset_mset)

lemma insert_by_sorted:
  assumes "x \<in> S" "set ys \<subseteq> S" "sorted (map key ys)" shows "sorted (map key (insert_by better x ys))"
  using assms
proof (induction ys)
  case (Cons y ys)
  have "set (insert_by better x ys) = insert x (set ys)"
    by (metis mset_insert_by set_mset_mset set_mset_add_mset_insert)
  with Cons show ?case by (auto simp: better_key not_less)
qed simp

lemma sort_slice_sorted: "set xs \<subseteq> S \<Longrightarrow> sorted (map key (sort_slice better xs))"
proof (induction xs)
  case (Cons x xs)
  have "set (foldr (insert_by better) xs []) = set xs" using set_sort_slice [of better xs] by (simp add: sort_slice_def)
  with Cons show ?case by (simp add: sort_slice_def insert_by_sorted)
qed (simp add: sort_slice_def)

text \<open>When the key tells the elements apart, there is only one sorted arrangement of them.\<close>

lemma sort_slice_unique:
  assumes "set xs \<subseteq> S" "inj_on key (set xs)" "mset ys = mset xs" "sorted (map key ys)"
  shows "sort_slice better xs = ys"
proof -
  have "sort_key key xs = sort_slice better xs"
    by (rule sort_key_inj_key_eq) (simp_all add: assms(1,2) sort_slice_sorted)
  moreover have "sort_key key xs = ys" by (rule sort_key_inj_key_eq) (simp_all add: assms)
  ultimately show ?thesis by simp
qed

lemma sort_slice_sort_key: "set xs \<subseteq> S \<Longrightarrow> inj_on key (set xs) \<Longrightarrow> sort_slice better xs = sort_key key xs"
  by (rule sort_slice_unique) simp_all

subsubsection \<open>The best \<open>k\<close>\<close>

text \<open>The heap holds the best \<open>k\<close> of the candidates seen so far, the worst of them at its root.\<close>

definition best_of :: "nat \<Rightarrow> 'a list \<Rightarrow> 'a list \<Rightarrow> bool" where
  "best_of k seen h \<longleftrightarrow> heap_ok key h \<and> length h = min k (length seen) \<and>
     (\<exists>rest. mset seen = mset h + mset rest \<and> (\<forall>r \<in> set rest. \<forall>x \<in> set h. key x \<le> key r))"

lemma best_of_set: "best_of k seen h \<Longrightarrow> set h \<subseteq> set seen"
  by (metis best_of_def set_mset_mset set_mset_union Un_upper1)

lemma best_of_step:
  assumes "best_of k seen h" "set seen \<subseteq> S" "c \<in> S" "0 < k"
  shows "best_of k (seen @ [c]) (topk_step better k c h)"
proof -
  obtain rest where r: "mset seen = mset h + mset rest" "\<forall>r \<in> set rest. \<forall>x \<in> set h. key x \<le> key r"
    and ok: "heap_ok key h" "length h = min k (length seen)" using assms(1) by (auto simp: best_of_def)
  have hS: "set h \<subseteq> S" using best_of_set [OF assms(1)] assms(2) by blast
  show ?thesis
  proof (cases "length h < k")
    case True
    then have "rest = []" using ok(2) r(1) by (metis add_cancel_right_right length_0_conv min_def nat_less_le size_mset size_union)
    then show ?thesis using True r(1) ok heap_Push_ok [OF hS assms(3) ok(1)]
      mset_eq_length [of "heap_Push worse c h" "c # h"]
      by (auto simp: best_of_def topk_step_def intro!: exI [of _ "[]"])
  next
    case False
    then have ne: "h \<noteq> []" using assms(4) by auto
    have root: "key x \<le> key (h ! 0)" if "x \<in> set h" for x
      using heap_ok_root [OF ok(1)] that by (auto simp: in_set_conv_nth)
    have len: "length h = min k (Suc (length seen))" using False ok(2) by simp
    show ?thesis
    proof (cases "better c (h ! 0)")
      case True
      then have lt: "key c < key (h ! 0)" using better_key [of c "h ! 0"] assms(3) hS ne by (metis length_greater_0_conv nth_mem subsetD)
      let ?h = "heap_Fix worse 0 (h[0 := c])"
      have m: "mset ?h = mset (h[0 := c])" using ne by (intro heap_Fix_mset) simp
      have split: "mset h = add_mset (h ! 0) (mset (tl h))" "mset (h[0 := c]) = add_mset c (mset (tl h))"
        using ne by (cases h; simp)+
      have "key x \<le> key r" if "r \<in> set (h ! 0 # rest)" "x \<in> set ?h" for r x
      proof -
        have "x = c \<or> x \<in> set h" using that(2) m split by (metis insertE set_mset_add_mset_insert set_mset_mset insertI2)
        then have "key x \<le> key (h ! 0)" using root lt by auto
        moreover have "key (h ! 0) \<le> key r" using that(1) r(2) ne by auto
        ultimately show ?thesis by (rule order_trans)
      qed
      moreover have "mset (seen @ [c]) = mset ?h + mset (h ! 0 # rest)" using r(1) m split by simp
      moreover have "length ?h = length h" using m by (metis length_list_update mset_eq_length)
      ultimately show ?thesis
        using False True heap_Fix_root_ok [OF hS assms(3) ok(1) ne] len
        unfolding best_of_def topk_step_def by (auto intro!: exI [of _ "h ! 0 # rest"])
    next
      case nb: False
      then have "key (h ! 0) \<le> key c" using better_key [of c "h ! 0"] assms(3) hS ne
        by (metis length_greater_0_conv not_less nth_mem subsetD)
      then have "\<forall>r \<in> set (c # rest). \<forall>x \<in> set h. key x \<le> key r" using root r(2) by (auto intro: order_trans)
      then show ?thesis using False nb ok(1) len r(1)
        unfolding best_of_def topk_step_def by (auto intro!: exI [of _ "c # rest"])
    qed
  qed
qed

lemma best_of_fold:
  assumes "0 < k" "set cs \<subseteq> S" shows "best_of k cs (fold (topk_step better k) cs [])"
  using assms(2)
proof (induction cs rule: rev_induct)
  case Nil
  then show ?case by (simp add: best_of_def heap_ok_def)
next
  case (snoc c cs)
  then show ?case using assms(1) by (simp add: best_of_step)
qed

lemma select_topk_sorted:
  assumes "set cs \<subseteq> S" "inj_on key (set cs)"
  shows "select_topk better cs topK = take (nat (max 1 topK)) (sort_key key cs)"
proof (cases "cs = []")
  case False
  let ?k = "nat (max 1 topK)"
  have k: "nat (if topK \<le> 0 then 1 else topK) = ?k" "0 < ?k" by auto
  show ?thesis
  proof (cases "length cs \<le> ?k")
    case True
    then have "int (length cs) \<le> (if topK \<le> 0 then 1 else topK)" by (auto split: if_splits)
    with True False show ?thesis using sort_slice_sort_key [OF assms] by (simp add: select_topk_def Let_def)
  next
    case gt: False
    let ?h = "fold (topk_step better ?k) cs []"
    obtain rest where r: "mset cs = mset ?h + mset rest" "\<forall>r \<in> set rest. \<forall>x \<in> set ?h. key x \<le> key r"
      and len: "length ?h = ?k" using best_of_fold [OF k(2) assms(1)] gt by (auto simp: best_of_def)
    have sub: "set ?h \<subseteq> set cs" by (rule best_of_set [OF best_of_fold [OF k(2) assms(1)]])
    have "sort_key key cs = sort_key key ?h @ sort_key key rest"
      by (rule sort_key_inj_key_eq) (use r assms(2) in \<open>auto simp: sorted_append\<close>)
    then have "take ?k (sort_key key cs) = sort_key key ?h" using len by simp
    moreover have "sort_slice better ?h = sort_key key ?h"
      using sub assms by (intro sort_slice_sort_key) (auto intro: inj_on_subset)
    moreover have "\<not> int (length cs) \<le> (if topK \<le> 0 then 1 else topK)" using gt by (auto split: if_splits)
    ultimately show ?thesis using False k(1) by (simp add: select_topk_def Let_def)
  qed
qed (simp add: select_topk_def)

end

end
