(* ===== verification/GatewayAccount.thy ===== *)
theory GatewayAccount
  imports SchedHeap GatewayGroup
    "HOL-Library.Word" "HOL-Library.Char_ord" "HOL-Library.List_Lexorder" "HOL-Library.Product_Lexorder"
begin

text \<open>
  An upstream account, \<open>internal/service/account.go\<close>: the free-form values of its \<open>credentials\<close> and \<open>extra\<close>
  columns, the kind of account it is, the models it serves and under which name, its feature switches. A Go
  map is the list of its entries in the order of one iteration, a nil map is \<open>None\<close>; \<open>lookup\<close> reads either.
  \<open>int\<close> and \<open>int64\<close> values are \<open>JInt\<close> (64-bit platform), \<open>json.Number\<close> is \<open>JNum\<close>. Float parsing, time parsing and
  formatting, the time-zone database and Unicode lower-casing are the fields of \<open>acct_lib\<close>; the address of a
  map, which the cache of the parsed mapping compares, is an argument.
\<close>

datatype jany = JNull | JBool bool | JStr gostring | JInt int | JFloat f64 | JNum gostring
  | JArr "jany list" | JStrs "gostring list" | JObj "(gostring \<times> jany) list" | JStrMap "(gostring \<times> gostring) list"

type_synonym string_map = "(gostring \<times> gostring) list"
type_synonym any_map = "(gostring \<times> jany) list"

record acct_lib =
  al_ParseFloat :: "gostring \<Rightarrow> f64 option"
  al_ParseTime :: "gostring \<Rightarrow> gostring \<Rightarrow> time option"
  al_FormatTime :: "gostring \<Rightarrow> time \<Rightarrow> gostring"
  al_LoadLocation :: "gostring \<Rightarrow> location option"
  al_ToLower :: "gostring \<Rightarrow> gostring"

definition RFC3339 :: gostring where "RFC3339 = ''2006-01-02T15:04:05Z07:00''"
definition RFC3339Nano :: gostring where "RFC3339Nano = ''2006-01-02T15:04:05.999999999Z07:00''"

definition PlatformAnthropic :: gostring where "PlatformAnthropic = ''anthropic''"
definition PlatformOpenAI :: gostring where "PlatformOpenAI = ''openai''"
definition PlatformGemini :: gostring where "PlatformGemini = ''gemini''"
definition PlatformAntigravity :: gostring where "PlatformAntigravity = ''antigravity''"
definition AccountTypeOAuth :: gostring where "AccountTypeOAuth = ''oauth''"
definition AccountTypeSetupToken :: gostring where "AccountTypeSetupToken = ''setup-token''"
definition AccountTypeAPIKey :: gostring where "AccountTypeAPIKey = ''apikey''"
definition AccountTypeBedrock :: gostring where "AccountTypeBedrock = ''bedrock''"
definition PrivacyModeTrainingOff :: gostring where "PrivacyModeTrainingOff = ''training_off''"
definition AntigravityPrivacySet :: gostring where "AntigravityPrivacySet = ''privacy_set''"

lemmas account_const_defs = PlatformAnthropic_def PlatformOpenAI_def PlatformGemini_def PlatformAntigravity_def
  AccountTypeOAuth_def AccountTypeSetupToken_def AccountTypeAPIKey_def AccountTypeBedrock_def

definition DefaultAntigravityModelMapping :: string_map where
  "DefaultAntigravityModelMapping =
    [(''claude-opus-4-7'', ''claude-opus-4-7''),
     (''claude-opus-4-6-thinking'', ''claude-opus-4-6-thinking''),
     (''claude-opus-4-6'', ''claude-opus-4-6-thinking''),
     (''claude-opus-4-5-thinking'', ''claude-opus-4-6-thinking''),
     (''claude-sonnet-4-6'', ''claude-sonnet-4-6''),
     (''claude-sonnet-4-5'', ''claude-sonnet-4-5''),
     (''claude-sonnet-4-5-thinking'', ''claude-sonnet-4-5-thinking''),
     (''claude-opus-4-5-20251101'', ''claude-opus-4-6-thinking''),
     (''claude-sonnet-4-5-20250929'', ''claude-sonnet-4-5''),
     (''claude-haiku-4-5'', ''claude-sonnet-4-6''),
     (''claude-haiku-4-5-20251001'', ''claude-sonnet-4-6''),
     (''gemini-2.5-flash'', ''gemini-2.5-flash''),
     (''gemini-2.5-flash-image'', ''gemini-2.5-flash-image''),
     (''gemini-2.5-flash-image-preview'', ''gemini-2.5-flash-image''),
     (''gemini-2.5-flash-lite'', ''gemini-2.5-flash-lite''),
     (''gemini-2.5-flash-thinking'', ''gemini-2.5-flash-thinking''),
     (''gemini-2.5-pro'', ''gemini-2.5-pro''),
     (''gemini-3-flash'', ''gemini-3-flash''),
     (''gemini-3-pro-high'', ''gemini-3-pro-high''),
     (''gemini-3-pro-low'', ''gemini-3-pro-low''),
     (''gemini-3-flash-preview'', ''gemini-3-flash''),
     (''gemini-3-pro-preview'', ''gemini-3-pro-high''),
     (''gemini-3.1-pro-high'', ''gemini-3.1-pro-high''),
     (''gemini-3.1-pro-low'', ''gemini-3.1-pro-low''),
     (''gemini-3.1-pro-preview'', ''gemini-3.1-pro-high''),
     (''gemini-3.1-flash-image'', ''gemini-3.1-flash-image''),
     (''gemini-3.1-flash-image-preview'', ''gemini-3.1-flash-image''),
     (''gemini-3-pro-image'', ''gemini-3.1-flash-image''),
     (''gemini-3-pro-image-preview'', ''gemini-3.1-flash-image''),
     (''gpt-oss-120b-medium'', ''gpt-oss-120b-medium''),
     (''tab_flash_lite_preview'', ''tab_flash_lite_preview'')]"

record account =
  ac_ID :: int64
  ac_Name :: gostring
  ac_Notes :: "gostring option"
  ac_Platform :: gostring
  ac_Type :: gostring
  ac_Credentials :: "any_map option"
  ac_Extra :: "any_map option"
  ac_ProxyID :: "int64 option"
  ac_Concurrency :: int
  ac_Priority :: int
  ac_RateMultiplier :: "f64 option"
  ac_LoadFactor :: "int option"
  ac_Status :: gostring
  ac_ErrorMessage :: gostring
  ac_LastUsedAt :: "time option"
  ac_ExpiresAt :: "time option"
  ac_AutoPauseOnExpired :: bool
  ac_CreatedAt :: time
  ac_UpdatedAt :: time
  ac_Schedulable :: bool
  ac_RateLimitedAt :: "time option"
  ac_RateLimitResetAt :: "time option"
  ac_OverloadUntil :: "time option"
  ac_TempUnschedulableUntil :: "time option"
  ac_TempUnschedulableReason :: gostring
  ac_SessionWindowStart :: "time option"
  ac_SessionWindowEnd :: "time option"
  ac_SessionWindowStatus :: gostring

subsection \<open>Values of free-form columns\<close>

definition lookup :: "(gostring \<times> 'v) list option \<Rightarrow> gostring \<Rightarrow> 'v option" where
  "lookup m k = (case m of None \<Rightarrow> None | Some kvs \<Rightarrow> map_of kvs k)"

definition parseExtraFloat64 :: "acct_lib \<Rightarrow> jany \<Rightarrow> f64" where
  "parseExtraFloat64 lib v = (case v of
     JFloat f \<Rightarrow> f
   | JInt n \<Rightarrow> f64_of_int n
   | JNum s \<Rightarrow> (case al_ParseFloat lib s of Some f \<Rightarrow> f | None \<Rightarrow> Fin 0)
   | JStr s \<Rightarrow> (case al_ParseFloat lib (trim_space s) of Some f \<Rightarrow> f | None \<Rightarrow> Fin 0)
   | _ \<Rightarrow> Fin 0)"

text \<open>\<open>parseExtraInt\<close>, \<open>parseTempUnschedInt\<close> and \<open>parsePoolModeRetryCount\<close> differ in the default only.\<close>

definition parse_any_int :: "int \<Rightarrow> jany \<Rightarrow> int" where
  "parse_any_int dflt v = (case v of
     JInt n \<Rightarrow> n
   | JFloat f \<Rightarrow> f64_to_int min_int64 f
   | JNum s \<Rightarrow> (case parse_int64 s of Some n \<Rightarrow> n | None \<Rightarrow> dflt)
   | JStr s \<Rightarrow> (case parse_int64 (trim_space s) of Some n \<Rightarrow> n | None \<Rightarrow> dflt)
   | _ \<Rightarrow> dflt)"

definition defaultPoolModeRetryCount :: int where "defaultPoolModeRetryCount = 3"
definition maxPoolModeRetryCount :: int where "maxPoolModeRetryCount = 10"

definition parseExtraInt :: "jany \<Rightarrow> int" where "parseExtraInt = parse_any_int 0"
definition parseTempUnschedInt :: "jany \<Rightarrow> int" where "parseTempUnschedInt = parse_any_int 0"
definition parsePoolModeRetryCount :: "jany \<Rightarrow> int" where
  "parsePoolModeRetryCount = parse_any_int defaultPoolModeRetryCount"

definition getExtraFloat64 :: "acct_lib \<Rightarrow> account \<Rightarrow> gostring \<Rightarrow> f64" where
  "getExtraFloat64 lib a k = (case lookup (ac_Extra a) k of Some v \<Rightarrow> parseExtraFloat64 lib v | None \<Rightarrow> Fin 0)"

definition zero_time :: time where "zero_time = - 62135596800 * Second"

definition getExtraTime :: "acct_lib \<Rightarrow> account \<Rightarrow> gostring \<Rightarrow> time" where
  "getExtraTime lib a k = (case lookup (ac_Extra a) k of
     Some (JStr s) \<Rightarrow>
       (case al_ParseTime lib RFC3339Nano s of
          Some t \<Rightarrow> t
        | None \<Rightarrow> (case al_ParseTime lib RFC3339 s of Some t \<Rightarrow> t | None \<Rightarrow> zero_time))
   | _ \<Rightarrow> zero_time)"

definition getExtraBool :: "account \<Rightarrow> gostring \<Rightarrow> bool" where
  "getExtraBool a k = (case lookup (ac_Extra a) k of Some (JBool b) \<Rightarrow> b | _ \<Rightarrow> False)"

definition getExtraString :: "account \<Rightarrow> gostring \<Rightarrow> gostring" where
  "getExtraString a k = (case lookup (ac_Extra a) k of Some (JStr s) \<Rightarrow> s | _ \<Rightarrow> [])"

definition getExtraStringDefault :: "account \<Rightarrow> gostring \<Rightarrow> gostring \<Rightarrow> gostring" where
  "getExtraStringDefault a k defaultVal = (if getExtraString a k \<noteq> [] then getExtraString a k else defaultVal)"

definition getExtraInt :: "acct_lib \<Rightarrow> account \<Rightarrow> gostring \<Rightarrow> int" where
  "getExtraInt lib a k =
     (case lookup (ac_Extra a) k of Some v \<Rightarrow> f64_to_int min_int64 (parseExtraFloat64 lib v) | None \<Rightarrow> 0)"

definition GetCredential :: "account \<Rightarrow> gostring \<Rightarrow> gostring" where
  "GetCredential a k = (case lookup (ac_Credentials a) k of
     Some (JStr s) \<Rightarrow> s
   | Some (JNum s) \<Rightarrow> s
   | Some (JFloat f) \<Rightarrow> itoa (f64_to_int min_int64 f)
   | Some (JInt n) \<Rightarrow> itoa n
   | _ \<Rightarrow> [])"

definition GetCredentialAsInt64 :: "account \<Rightarrow> gostring \<Rightarrow> int64" where
  "GetCredentialAsInt64 a k = (case lookup (ac_Credentials a) k of Some v \<Rightarrow> parse_any_int 0 v | None \<Rightarrow> 0)"

definition GetCredentialAsTime :: "acct_lib \<Rightarrow> account \<Rightarrow> gostring \<Rightarrow> time option" where
  "GetCredentialAsTime lib a k =
     (let s = GetCredential a k in
      if s = [] then None
      else case al_ParseTime lib RFC3339 s of
        Some t \<Rightarrow> Some t
      | None \<Rightarrow> (case parse_int64 s of Some ts \<Rightarrow> Some (ts * Second) | None \<Rightarrow> None))"

definition credential_flag :: "account \<Rightarrow> gostring \<Rightarrow> bool" where
  "credential_flag a k = (case lookup (ac_Credentials a) k of Some (JBool b) \<Rightarrow> b | _ \<Rightarrow> False)"

subsection \<open>Kinds of account\<close>

definition acct_IsActive :: "account \<Rightarrow> bool" where "acct_IsActive a \<longleftrightarrow> ac_Status a = StatusActive"
definition IsOAuth :: "account \<Rightarrow> bool" where
  "IsOAuth a \<longleftrightarrow> ac_Type a = AccountTypeOAuth \<or> ac_Type a = AccountTypeSetupToken"
definition IsGemini :: "account \<Rightarrow> bool" where "IsGemini a \<longleftrightarrow> ac_Platform a = PlatformGemini"
definition IsOpenAI :: "account \<Rightarrow> bool" where "IsOpenAI a \<longleftrightarrow> ac_Platform a = PlatformOpenAI"
definition IsAnthropic :: "account \<Rightarrow> bool" where "IsAnthropic a \<longleftrightarrow> ac_Platform a = PlatformAnthropic"
definition IsOpenAIOAuth :: "account \<Rightarrow> bool" where "IsOpenAIOAuth a \<longleftrightarrow> IsOpenAI a \<and> ac_Type a = AccountTypeOAuth"
definition IsOpenAIApiKey :: "account \<Rightarrow> bool" where "IsOpenAIApiKey a \<longleftrightarrow> IsOpenAI a \<and> ac_Type a = AccountTypeAPIKey"
definition IsBedrock :: "account \<Rightarrow> bool" where
  "IsBedrock a \<longleftrightarrow> ac_Platform a = PlatformAnthropic \<and> ac_Type a = AccountTypeBedrock"
definition IsBedrockAPIKey :: "account \<Rightarrow> bool" where
  "IsBedrockAPIKey a \<longleftrightarrow> IsBedrock a \<and> GetCredential a ''auth_mode'' = ''apikey''"
definition IsAPIKeyOrBedrock :: "account \<Rightarrow> bool" where
  "IsAPIKeyOrBedrock a \<longleftrightarrow> ac_Type a = AccountTypeAPIKey \<or> ac_Type a = AccountTypeBedrock"
definition IsAnthropicOAuthOrSetupToken :: "account \<Rightarrow> bool" where
  "IsAnthropicOAuthOrSetupToken a \<longleftrightarrow>
     ac_Platform a = PlatformAnthropic \<and> (ac_Type a = AccountTypeOAuth \<or> ac_Type a = AccountTypeSetupToken)"
definition CanGetUsage :: "account \<Rightarrow> bool" where "CanGetUsage a \<longleftrightarrow> ac_Type a = AccountTypeOAuth"

definition IsPrivacySet :: "account \<Rightarrow> bool" where
  "IsPrivacySet a =
     (if ac_Platform a = PlatformOpenAI then getExtraString a ''privacy_mode'' = PrivacyModeTrainingOff
      else if ac_Platform a = PlatformAntigravity then getExtraString a ''privacy_mode'' = AntigravityPrivacySet
      else True)"

definition GeminiOAuthType :: "account \<Rightarrow> gostring" where
  "GeminiOAuthType a =
     (if ac_Platform a \<noteq> PlatformGemini \<or> ac_Type a \<noteq> AccountTypeOAuth then []
      else let oauthType = trim_space (GetCredential a ''oauth_type'') in
        if oauthType = [] \<and> trim_space (GetCredential a ''project_id'') \<noteq> [] then ''code_assist'' else oauthType)"

definition IsGeminiCodeAssist :: "account \<Rightarrow> bool" where
  "IsGeminiCodeAssist a =
     (if ac_Platform a \<noteq> PlatformGemini \<or> ac_Type a \<noteq> AccountTypeOAuth then False
      else if GeminiOAuthType a = [] then trim_space (GetCredential a ''project_id'') \<noteq> []
      else GeminiOAuthType a = ''code_assist'')"

definition BillingRateMultiplier :: "account option \<Rightarrow> f64" where
  "BillingRateMultiplier a = (case a of
     None \<Rightarrow> Fin 1
   | Some a \<Rightarrow> (case ac_RateMultiplier a of None \<Rightarrow> Fin 1 | Some m \<Rightarrow> if flt m (Fin 0) then Fin 1 else m))"

definition EffectiveLoadFactor :: "account option \<Rightarrow> int" where
  "EffectiveLoadFactor a = (case a of
     None \<Rightarrow> 1
   | Some a \<Rightarrow>
       (case ac_LoadFactor a of
          Some n \<Rightarrow> if 0 < n then n else if 0 < ac_Concurrency a then ac_Concurrency a else 1
        | None \<Rightarrow> if 0 < ac_Concurrency a then ac_Concurrency a else 1))"

definition OpenAIImagesCapabilityBasic :: gostring where "OpenAIImagesCapabilityBasic = ''images-basic''"
definition OpenAIImagesCapabilityNative :: gostring where "OpenAIImagesCapabilityNative = ''images-native''"

definition SupportsOpenAIImageCapability :: "account \<Rightarrow> gostring \<Rightarrow> bool" where
  "SupportsOpenAIImageCapability a capability =
     (if \<not> IsOpenAI a then False
      else if capability \<in> {OpenAIImagesCapabilityBasic, OpenAIImagesCapabilityNative}
      then ac_Type a = AccountTypeOAuth \<or> ac_Type a = AccountTypeAPIKey
      else True)"

definition GeminiTierID :: "account \<Rightarrow> gostring" where
  "GeminiTierID a = trim_space (GetCredential a ''tier_id'')"

definition normalizeAccountNotes :: "gostring option \<Rightarrow> gostring option" where
  "normalizeAccountNotes v = (case v of
     None \<Rightarrow> None
   | Some s \<Rightarrow> if trim_space s = [] then None else Some (trim_space s))"

subsection \<open>Rules that take an account out of rotation\<close>

record temp_rule =
  tr_ErrorCode :: int
  tr_Keywords :: "gostring list"
  tr_DurationMinutes :: int
  tr_Description :: gostring

definition IsTempUnschedulableEnabled :: "account \<Rightarrow> bool" where
  "IsTempUnschedulableEnabled a = credential_flag a ''temp_unschedulable_enabled''"

definition parseTempUnschedString :: "jany \<Rightarrow> gostring" where
  "parseTempUnschedString v = (case v of JStr s \<Rightarrow> trim_space s | _ \<Rightarrow> [])"

definition parseTempUnschedStrings :: "jany \<Rightarrow> gostring list" where
  "parseTempUnschedStrings v =
     (let raw = (case v of
                   JStrs ss \<Rightarrow> ss
                 | JArr vs \<Rightarrow> List.map_filter (\<lambda>x. case x of JStr s \<Rightarrow> Some s | _ \<Rightarrow> None) vs
                 | _ \<Rightarrow> [])
      in filter (\<lambda>s. s \<noteq> []) (map trim_space raw))"

text \<open>Indexing a Go map with an absent key gives the zero value, here nil.\<close>

definition index_any :: "any_map \<Rightarrow> gostring \<Rightarrow> jany" where
  "index_any m k = (case map_of m k of Some v \<Rightarrow> v | None \<Rightarrow> JNull)"

definition temp_rule_of :: "any_map \<Rightarrow> temp_rule" where
  "temp_rule_of entry =
     \<lparr>tr_ErrorCode = parseTempUnschedInt (index_any entry ''error_code''),
      tr_Keywords = parseTempUnschedStrings (index_any entry ''keywords''),
      tr_DurationMinutes = parseTempUnschedInt (index_any entry ''duration_minutes''),
      tr_Description = parseTempUnschedString (index_any entry ''description'')\<rparr>"

definition GetTempUnschedulableRules :: "account \<Rightarrow> temp_rule list" where
  "GetTempUnschedulableRules a =
     (case lookup (ac_Credentials a) ''temp_unschedulable_rules'' of
        Some (JArr arr) \<Rightarrow>
          List.map_filter (\<lambda>item. case item of
             JObj entry \<Rightarrow>
               (let r = temp_rule_of entry in
                if tr_ErrorCode r \<le> 0 \<or> tr_DurationMinutes r \<le> 0 \<or> tr_Keywords r = [] then None else Some r)
           | _ \<Rightarrow> None) arr
      | _ \<Rightarrow> [])"

subsection \<open>Model names\<close>

definition matchAntigravityWildcard :: "gostring \<Rightarrow> gostring \<Rightarrow> bool" where
  "matchAntigravityWildcard pattern str =
     (if suffix ''*'' pattern then prefix (take (length pattern - 1) pattern) str else pattern = str)"

definition matchWildcard :: "gostring \<Rightarrow> gostring \<Rightarrow> bool" where
  "matchWildcard pattern str = matchAntigravityWildcard pattern str"

definition pattern_before :: "gostring \<times> gostring \<Rightarrow> gostring \<times> gostring \<Rightarrow> bool" where
  "pattern_before m n =
     (if length (fst m) \<noteq> length (fst n) then length (fst n) < length (fst m) else fst m < fst n)"

definition matchWildcardMappingResult :: "string_map \<Rightarrow> gostring \<Rightarrow> gostring \<times> bool" where
  "matchWildcardMappingResult mapping requestedModel =
     (let matches = filter (\<lambda>(pattern, _). matchWildcard pattern requestedModel) mapping
      in if matches = [] then (requestedModel, False)
         else (snd (sort_slice pattern_before matches ! 0), True))"

definition ensureAntigravityDefaultPassthrough :: "gostring \<Rightarrow> string_map \<Rightarrow> string_map" where
  "ensureAntigravityDefaultPassthrough model mapping =
     (if model = [] then mapping
      else if model \<in> fst ` set mapping then mapping
      else if \<exists>(pattern, _) \<in> set mapping. matchWildcard pattern model then mapping
      else mapping @ [(model, model)])"

definition ensureAntigravityDefaultPassthroughs :: "gostring list \<Rightarrow> string_map \<Rightarrow> string_map" where
  "ensureAntigravityDefaultPassthroughs models mapping = fold ensureAntigravityDefaultPassthrough models mapping"

definition string_entries :: "any_map \<Rightarrow> string_map" where
  "string_entries m = List.map_filter (\<lambda>(k, v). case v of JStr s \<Rightarrow> Some (k, s) | _ \<Rightarrow> None) m"

definition stringMappingFromRaw :: "jany \<Rightarrow> string_map" where
  "stringMappingFromRaw raw = (case raw of JObj m \<Rightarrow> string_entries m | JStrMap m \<Rightarrow> m | _ \<Rightarrow> [])"

text \<open>The raw mapping of the credentials: empty when there is none or it is not an object.\<close>

definition raw_model_mapping :: "account \<Rightarrow> any_map" where
  "raw_model_mapping a = (case lookup (ac_Credentials a) ''model_mapping'' of Some (JObj m) \<Rightarrow> m | _ \<Rightarrow> [])"

definition resolveModelMapping :: "account \<Rightarrow> any_map \<Rightarrow> string_map" where
  "resolveModelMapping a rawMapping =
     (let dflt = (if ac_Platform a = PlatformAntigravity then DefaultAntigravityModelMapping else [])
      in if ac_Credentials a = None then dflt
         else if rawMapping = [] then dflt
         else let result = string_entries rawMapping
              in if result \<noteq> [] then
                   if ac_Platform a = PlatformAntigravity
                   then ensureAntigravityDefaultPassthroughs
                          [''gemini-3-flash'', ''gemini-3.1-pro-high'', ''gemini-3.1-pro-low''] result
                   else result
                 else dflt)"

text \<open>The 64-bit FNV-1a hash, \<open>hash/fnv\<close>.\<close>

definition fnv_offset64 :: "64 word" where "fnv_offset64 = 14695981039346656037"
definition fnv_prime64 :: "64 word" where "fnv_prime64 = 1099511628211"

definition fnv1a_byte :: "char \<Rightarrow> 64 word \<Rightarrow> 64 word" where
  "fnv1a_byte c h = xor h (of_nat (of_char c)) * fnv_prime64"

definition fnv1a_write :: "gostring \<Rightarrow> 64 word \<Rightarrow> 64 word" where
  "fnv1a_write s h = fold fnv1a_byte s h"

definition modelMappingSignature :: "any_map \<Rightarrow> 64 word" where
  "modelMappingSignature rawMapping =
     (if rawMapping = [] then 0
      else fold (\<lambda>k h.
             let h = fnv1a_write [CHR 0x00] (fnv1a_write k h);
                 h = (case index_any rawMapping k of JStr v \<Rightarrow> fnv1a_write v h | _ \<Rightarrow> fnv1a_write [CHR 0x01] h)
             in fnv1a_write [CHR 0xFF] h)
           (sort (map fst rawMapping)) fnv_offset64)"

record mm_cache =
  mm_mapping :: string_map
  mm_ready :: bool
  mm_credentialsPtr :: nat
  mm_rawPtr :: nat
  mm_rawLen :: nat
  mm_rawSig :: "64 word"

definition GetModelMapping_cached :: "nat \<Rightarrow> nat \<Rightarrow> account \<Rightarrow> mm_cache \<Rightarrow> string_map \<times> mm_cache" where
  "GetModelMapping_cached credentialsPtr rawPtr a c =
     (let rawMapping = raw_model_mapping a;
          rawSig = modelMappingSignature rawMapping
      in if mm_ready c \<and> mm_credentialsPtr c = credentialsPtr \<and> mm_rawPtr c = rawPtr
            \<and> mm_rawLen c = length rawMapping \<and> mm_rawSig c = rawSig
         then (mm_mapping c, c)
         else let mapping = resolveModelMapping a rawMapping
              in (mapping, \<lparr>mm_mapping = mapping, mm_ready = True, mm_credentialsPtr = credentialsPtr,
                            mm_rawPtr = rawPtr, mm_rawLen = length rawMapping, mm_rawSig = rawSig\<rparr>))"

text \<open>What the cache holds when it is fresh; the operations below read the mapping through it.\<close>

definition GetModelMapping :: "account \<Rightarrow> string_map" where
  "GetModelMapping a = resolveModelMapping a (raw_model_mapping a)"

definition normalizeRequestedModelForLookup :: "gostring \<Rightarrow> gostring \<Rightarrow> gostring" where
  "normalizeRequestedModelForLookup platform requestedModel =
     (let trimmed = trim_space requestedModel in
      if trimmed = [] then []
      else if platform \<noteq> PlatformGemini \<and> platform \<noteq> PlatformAntigravity then trimmed
      else if trimmed = ''gemini-3.1-pro-preview-customtools'' then ''gemini-3.1-pro-preview''
      else trimmed)"

definition mappingSupportsRequestedModel :: "string_map \<Rightarrow> gostring \<Rightarrow> bool" where
  "mappingSupportsRequestedModel mapping requestedModel =
     (if requestedModel = [] then False
      else if requestedModel \<in> fst ` set mapping then True
      else list_ex (\<lambda>(pattern, _). matchWildcard pattern requestedModel) mapping)"

definition resolveRequestedModelInMapping :: "string_map \<Rightarrow> gostring \<Rightarrow> gostring \<times> bool" where
  "resolveRequestedModelInMapping mapping requestedModel =
     (if requestedModel = [] then ([], False)
      else case map_of mapping requestedModel of
        Some mappedModel \<Rightarrow> (mappedModel, True)
      | None \<Rightarrow> matchWildcardMappingResult mapping requestedModel)"

definition IsModelSupported :: "account \<Rightarrow> gostring \<Rightarrow> bool" where
  "IsModelSupported a requestedModel =
     (let mapping = GetModelMapping a in
      if mapping = [] then True
      else if mappingSupportsRequestedModel mapping requestedModel then True
      else let normalized = normalizeRequestedModelForLookup (ac_Platform a) requestedModel
           in normalized \<noteq> requestedModel \<and> mappingSupportsRequestedModel mapping normalized)"

definition ResolveMappedModel :: "account \<Rightarrow> gostring \<Rightarrow> gostring \<times> bool" where
  "ResolveMappedModel a requestedModel =
     (let mapping = GetModelMapping a in
      if mapping = [] then (requestedModel, False)
      else case resolveRequestedModelInMapping mapping requestedModel of
        (mappedModel, True) \<Rightarrow> (mappedModel, True)
      | (_, False) \<Rightarrow>
          (let normalized = normalizeRequestedModelForLookup (ac_Platform a) requestedModel in
           if normalized \<noteq> requestedModel then
             (case resolveRequestedModelInMapping mapping normalized of
                (mappedModel, True) \<Rightarrow> (mappedModel, True)
              | (_, False) \<Rightarrow> (requestedModel, False))
           else (requestedModel, False)))"

definition GetMappedModel :: "account \<Rightarrow> gostring \<Rightarrow> gostring" where
  "GetMappedModel a requestedModel = fst (ResolveMappedModel a requestedModel)"

definition GetCompactModelMapping :: "account \<Rightarrow> string_map" where
  "GetCompactModelMapping a =
     (case lookup (ac_Credentials a) ''compact_model_mapping'' of Some v \<Rightarrow> stringMappingFromRaw v | None \<Rightarrow> [])"

definition ResolveCompactMappedModel :: "account \<Rightarrow> gostring \<Rightarrow> gostring \<times> bool" where
  "ResolveCompactMappedModel a requestedModel =
     (let mapping = GetCompactModelMapping a in
      if mapping = [] then (requestedModel, False)
      else case resolveRequestedModelInMapping mapping requestedModel of
        (mappedModel, True) \<Rightarrow> (mappedModel, True)
      | (_, False) \<Rightarrow> (requestedModel, False))"

end
