(* ===== verification/AccountFeatures.thy ===== *)
theory AccountFeatures
  imports GatewayAccount
begin

text \<open>
  The switches of an account read from its free-form columns (\<open>internal/service/account.go\<close>): compact
  routing, web-socket ingress mode, passthrough, pool mode and custom error codes, the endpoints and tokens
  of the platforms. The lemmas settle the range of each mode whatever the stored value is, and which field
  wins when several are stored.
\<close>

subsection \<open>Compact requests\<close>

definition OpenAICompactModeAuto :: gostring where "OpenAICompactModeAuto = ''auto''"
definition OpenAICompactModeForceOn :: gostring where "OpenAICompactModeForceOn = ''force_on''"
definition OpenAICompactModeForceOff :: gostring where "OpenAICompactModeForceOff = ''force_off''"

lemmas compact_mode_defs = OpenAICompactModeAuto_def OpenAICompactModeForceOn_def OpenAICompactModeForceOff_def

definition normalizeOpenAICompactMode :: "acct_lib \<Rightarrow> gostring \<Rightarrow> gostring" where
  "normalizeOpenAICompactMode lib mode =
     (let m = al_ToLower lib (trim_space mode) in
      if m = OpenAICompactModeForceOn then OpenAICompactModeForceOn
      else if m = OpenAICompactModeForceOff then OpenAICompactModeForceOff
      else OpenAICompactModeAuto)"

definition GetOpenAICompactMode :: "acct_lib \<Rightarrow> account option \<Rightarrow> gostring" where
  "GetOpenAICompactMode lib a = (case a of
     None \<Rightarrow> OpenAICompactModeAuto
   | Some a \<Rightarrow>
       if \<not> IsOpenAI a \<or> ac_Extra a = None then OpenAICompactModeAuto
       else normalizeOpenAICompactMode lib (getExtraString a ''openai_compact_mode''))"

text \<open>The pair is \<open>(supported, known)\<close>.\<close>

definition extra_bool :: "account \<Rightarrow> gostring \<Rightarrow> bool option" where
  "extra_bool a k = (case lookup (ac_Extra a) k of Some (JBool b) \<Rightarrow> Some b | _ \<Rightarrow> None)"

definition OpenAICompactSupportKnown :: "acct_lib \<Rightarrow> account option \<Rightarrow> bool \<times> bool" where
  "OpenAICompactSupportKnown lib acc = (case acc of
     None \<Rightarrow> (False, False)
   | Some a \<Rightarrow>
       if \<not> IsOpenAI a then (False, False)
       else if GetOpenAICompactMode lib acc = OpenAICompactModeForceOn then (True, True)
       else if GetOpenAICompactMode lib acc = OpenAICompactModeForceOff then (False, True)
       else case extra_bool a ''openai_compact_supported'' of
         Some supported \<Rightarrow> (supported, True)
       | None \<Rightarrow> (False, False))"

definition AllowsOpenAICompact :: "acct_lib \<Rightarrow> account option \<Rightarrow> bool" where
  "AllowsOpenAICompact lib acc = (case acc of
     None \<Rightarrow> False
   | Some a \<Rightarrow>
       if \<not> IsOpenAI a then False
       else case OpenAICompactSupportKnown lib acc of (supported, known) \<Rightarrow> if \<not> known then True else supported)"

subsection \<open>Endpoints and tokens\<close>

text \<open>\<open>strings.TrimRight(s, "/")\<close>.\<close>

definition trim_slashes :: "gostring \<Rightarrow> gostring" where
  "trim_slashes s = rev (dropWhile (\<lambda>c. c = CHR ''/'') (rev s))"

definition GetBaseURL :: "account \<Rightarrow> gostring" where
  "GetBaseURL a =
     (if ac_Type a \<noteq> AccountTypeAPIKey then []
      else let baseURL = GetCredential a ''base_url'' in
        if baseURL = [] then ''https://api.anthropic.com''
        else if ac_Platform a = PlatformAntigravity then trim_slashes baseURL @ ''/antigravity''
        else baseURL)"

definition GetGeminiBaseURL :: "account \<Rightarrow> gostring \<Rightarrow> gostring" where
  "GetGeminiBaseURL a defaultBaseURL =
     (let baseURL = trim_space (GetCredential a ''base_url'') in
      if baseURL = [] then defaultBaseURL
      else if ac_Platform a = PlatformAntigravity \<and> ac_Type a = AccountTypeAPIKey
      then trim_slashes baseURL @ ''/antigravity''
      else baseURL)"

definition GetExtraString :: "account \<Rightarrow> gostring \<Rightarrow> gostring" where
  "GetExtraString a k = (case lookup (ac_Extra a) k of Some (JStr s) \<Rightarrow> s | _ \<Rightarrow> [])"

definition GetClaudeUserID :: "account \<Rightarrow> gostring" where
  "GetClaudeUserID a =
     (let v1 = trim_space (GetExtraString a ''claude_user_id'');
          v2 = trim_space (GetExtraString a ''anthropic_user_id'');
          v3 = trim_space (GetCredential a ''claude_user_id'');
          v4 = trim_space (GetCredential a ''anthropic_user_id'')
      in if v1 \<noteq> [] then v1 else if v2 \<noteq> [] then v2 else if v3 \<noteq> [] then v3 else if v4 \<noteq> [] then v4 else [])"

definition GetOpenAIBaseURL :: "account \<Rightarrow> gostring" where
  "GetOpenAIBaseURL a =
     (if \<not> IsOpenAI a then []
      else if ac_Type a = AccountTypeAPIKey \<and> GetCredential a ''base_url'' \<noteq> [] then GetCredential a ''base_url''
      else ''https://api.openai.com'')"

definition GetOpenAIAccessToken :: "account \<Rightarrow> gostring" where
  "GetOpenAIAccessToken a = (if \<not> IsOpenAI a then [] else GetCredential a ''access_token'')"
definition GetOpenAIRefreshToken :: "account \<Rightarrow> gostring" where
  "GetOpenAIRefreshToken a = (if \<not> IsOpenAIOAuth a then [] else GetCredential a ''refresh_token'')"
definition GetOpenAIIDToken :: "account \<Rightarrow> gostring" where
  "GetOpenAIIDToken a = (if \<not> IsOpenAIOAuth a then [] else GetCredential a ''id_token'')"
definition GetOpenAIApiKey :: "account \<Rightarrow> gostring" where
  "GetOpenAIApiKey a = (if \<not> IsOpenAIApiKey a then [] else GetCredential a ''api_key'')"
definition GetOpenAIUserAgent :: "account \<Rightarrow> gostring" where
  "GetOpenAIUserAgent a = (if \<not> IsOpenAI a then [] else GetCredential a ''user_agent'')"
definition GetChatGPTAccountID :: "account \<Rightarrow> gostring" where
  "GetChatGPTAccountID a = (if \<not> IsOpenAIOAuth a then [] else GetCredential a ''chatgpt_account_id'')"
definition GetOpenAIDeviceID :: "account \<Rightarrow> gostring" where
  "GetOpenAIDeviceID a = (if \<not> IsOpenAIOAuth a then [] else trim_space (GetExtraString a ''openai_device_id''))"
definition GetOpenAISessionID :: "account \<Rightarrow> gostring" where
  "GetOpenAISessionID a = (if \<not> IsOpenAIOAuth a then [] else trim_space (GetExtraString a ''openai_session_id''))"
definition GetChatGPTUserID :: "account \<Rightarrow> gostring" where
  "GetChatGPTUserID a = (if \<not> IsOpenAIOAuth a then [] else GetCredential a ''chatgpt_user_id'')"
definition GetOpenAIOrganizationID :: "account \<Rightarrow> gostring" where
  "GetOpenAIOrganizationID a = (if \<not> IsOpenAIOAuth a then [] else GetCredential a ''organization_id'')"
definition GetOpenAITokenExpiresAt :: "acct_lib \<Rightarrow> account \<Rightarrow> time option" where
  "GetOpenAITokenExpiresAt lib a = (if \<not> IsOpenAIOAuth a then None else GetCredentialAsTime lib a ''expires_at'')"

definition IsOpenAITokenExpired :: "acct_lib \<Rightarrow> time \<Rightarrow> account \<Rightarrow> bool" where
  "IsOpenAITokenExpired lib now a = (case GetOpenAITokenExpiresAt lib a of
     None \<Rightarrow> False
   | Some expiresAt \<Rightarrow> After (Add now (60 * Second)) expiresAt)"

subsection \<open>Switches\<close>

definition IsCustomErrorCodesEnabled :: "account \<Rightarrow> bool" where
  "IsCustomErrorCodesEnabled a = (if ac_Type a \<noteq> AccountTypeAPIKey then False else credential_flag a ''custom_error_codes_enabled'')"

definition IsPoolMode :: "account \<Rightarrow> bool" where
  "IsPoolMode a = (if \<not> IsAPIKeyOrBedrock a then False else credential_flag a ''pool_mode'')"

definition GetPoolModeRetryCount :: "account option \<Rightarrow> int" where
  "GetPoolModeRetryCount acc = (case acc of
     None \<Rightarrow> defaultPoolModeRetryCount
   | Some a \<Rightarrow>
       if \<not> IsPoolMode a then defaultPoolModeRetryCount
       else case lookup (ac_Credentials a) ''pool_mode_retry_count'' of
         None \<Rightarrow> defaultPoolModeRetryCount
       | Some JNull \<Rightarrow> defaultPoolModeRetryCount
       | Some raw \<Rightarrow>
           (let count = parsePoolModeRetryCount raw in
            if count < 0 then 0
            else if maxPoolModeRetryCount < count then maxPoolModeRetryCount
            else count))"

definition isPoolModeRetryableStatus :: "int \<Rightarrow> bool" where
  "isPoolModeRetryableStatus statusCode \<longleftrightarrow> statusCode \<in> {401, 403, 429}"

definition GetCustomErrorCodes :: "account \<Rightarrow> int list" where
  "GetCustomErrorCodes a = (case lookup (ac_Credentials a) ''custom_error_codes'' of
     Some (JArr arr) \<Rightarrow> List.map_filter (\<lambda>v. case v of JFloat f \<Rightarrow> Some (f64_to_int min_int64 f) | _ \<Rightarrow> None) arr
   | _ \<Rightarrow> [])"

definition ShouldHandleErrorCode :: "account \<Rightarrow> int \<Rightarrow> bool" where
  "ShouldHandleErrorCode a statusCode =
     (if \<not> IsCustomErrorCodesEnabled a then True
      else let codes = GetCustomErrorCodes a in
        if codes = [] then True else statusCode \<in> set codes)"

definition IsInterceptWarmupEnabled :: "account \<Rightarrow> bool" where
  "IsInterceptWarmupEnabled a = credential_flag a ''intercept_warmup_requests''"

definition IsMixedSchedulingEnabled :: "account \<Rightarrow> bool" where
  "IsMixedSchedulingEnabled a = (if ac_Platform a \<noteq> PlatformAntigravity then False else getExtraBool a ''mixed_scheduling'')"
definition IsOveragesEnabled :: "account \<Rightarrow> bool" where
  "IsOveragesEnabled a = (if ac_Platform a \<noteq> PlatformAntigravity then False else getExtraBool a ''allow_overages'')"

definition IsOpenAIPassthroughEnabled :: "account option \<Rightarrow> bool" where
  "IsOpenAIPassthroughEnabled acc = (case acc of
     None \<Rightarrow> False
   | Some a \<Rightarrow>
       if \<not> IsOpenAI a then False
       else case extra_bool a ''openai_passthrough'' of
         Some enabled \<Rightarrow> enabled
       | None \<Rightarrow> (case extra_bool a ''openai_oauth_passthrough'' of Some enabled \<Rightarrow> enabled | None \<Rightarrow> False))"

definition IsOpenAIOAuthPassthroughEnabled :: "account option \<Rightarrow> bool" where
  "IsOpenAIOAuthPassthroughEnabled acc =
     (case acc of None \<Rightarrow> False | Some a \<Rightarrow> IsOpenAIOAuth a \<and> IsOpenAIPassthroughEnabled acc)"

definition IsAnthropicAPIKeyPassthroughEnabled :: "account option \<Rightarrow> bool" where
  "IsAnthropicAPIKeyPassthroughEnabled acc = (case acc of
     None \<Rightarrow> False
   | Some a \<Rightarrow>
       if ac_Platform a \<noteq> PlatformAnthropic \<or> ac_Type a \<noteq> AccountTypeAPIKey then False
       else getExtraBool a ''anthropic_passthrough'')"

definition IsOpenAIWSForceHTTPEnabled :: "account option \<Rightarrow> bool" where
  "IsOpenAIWSForceHTTPEnabled acc =
     (case acc of None \<Rightarrow> False | Some a \<Rightarrow> if \<not> IsOpenAI a then False else getExtraBool a ''openai_ws_force_http'')"
definition IsOpenAIWSAllowStoreRecoveryEnabled :: "account option \<Rightarrow> bool" where
  "IsOpenAIWSAllowStoreRecoveryEnabled acc =
     (case acc of None \<Rightarrow> False
      | Some a \<Rightarrow> if \<not> IsOpenAI a then False else getExtraBool a ''openai_ws_allow_store_recovery'')"
definition IsCodexCLIOnlyEnabled :: "account option \<Rightarrow> bool" where
  "IsCodexCLIOnlyEnabled acc =
     (case acc of None \<Rightarrow> False | Some a \<Rightarrow> if \<not> IsOpenAIOAuth a then False else getExtraBool a ''codex_cli_only'')"

definition IsTLSFingerprintEnabled :: "account \<Rightarrow> bool" where
  "IsTLSFingerprintEnabled a = (if \<not> IsAnthropicOAuthOrSetupToken a then False else getExtraBool a ''enable_tls_fingerprint'')"
definition GetTLSFingerprintProfileID :: "account \<Rightarrow> int64" where
  "GetTLSFingerprintProfileID a = (case lookup (ac_Extra a) ''tls_fingerprint_profile_id'' of
     Some (JFloat f) \<Rightarrow> f64_to_int min_int64 f
   | Some (JInt n) \<Rightarrow> n
   | Some (JNum s) \<Rightarrow> (case parse_int64 s of Some n \<Rightarrow> n | None \<Rightarrow> 0)
   | _ \<Rightarrow> 0)"
definition IsSessionIDMaskingEnabled :: "account \<Rightarrow> bool" where
  "IsSessionIDMaskingEnabled a =
     (if \<not> IsAnthropicOAuthOrSetupToken a then False else getExtraBool a ''session_id_masking_enabled'')"
definition IsCustomBaseURLEnabled :: "account \<Rightarrow> bool" where
  "IsCustomBaseURLEnabled a =
     (if \<not> IsAnthropicOAuthOrSetupToken a then False else getExtraBool a ''custom_base_url_enabled'')"
definition GetCustomBaseURL :: "account \<Rightarrow> gostring" where
  "GetCustomBaseURL a = GetExtraString a ''custom_base_url''"
definition IsCacheTTLOverrideEnabled :: "account \<Rightarrow> bool" where
  "IsCacheTTLOverrideEnabled a =
     (if \<not> IsAnthropicOAuthOrSetupToken a then False else getExtraBool a ''cache_ttl_override_enabled'')"
definition GetCacheTTLOverrideTarget :: "account \<Rightarrow> gostring" where
  "GetCacheTTLOverrideTarget a = (case lookup (ac_Extra a) ''cache_ttl_override_target'' of
     Some (JStr target) \<Rightarrow> if target = ''5m'' \<or> target = ''1h'' then target else ''5m''
   | _ \<Rightarrow> ''5m'')"

definition UMQModeSerialize :: gostring where "UMQModeSerialize = ''serialize''"
definition UMQModeThrottle :: gostring where "UMQModeThrottle = ''throttle''"

definition GetUserMsgQueueMode :: "account \<Rightarrow> gostring" where
  "GetUserMsgQueueMode a =
     (let mode = getExtraString a ''user_msg_queue_mode'' in
      if mode \<noteq> [] then (if mode = UMQModeSerialize \<or> mode = UMQModeThrottle then mode else [])
      else if getExtraBool a ''user_msg_queue_enabled'' then UMQModeSerialize
      else [])"

definition WebSearchModeDefault :: gostring where "WebSearchModeDefault = ''default''"
definition WebSearchModeEnabled :: gostring where "WebSearchModeEnabled = ''enabled''"
definition WebSearchModeDisabled :: gostring where "WebSearchModeDisabled = ''disabled''"
definition featureKeyWebSearchEmulation :: gostring where "featureKeyWebSearchEmulation = ''web_search_emulation''"

definition GetWebSearchEmulationMode :: "account option \<Rightarrow> gostring" where
  "GetWebSearchEmulationMode acc = (case acc of
     None \<Rightarrow> WebSearchModeDefault
   | Some a \<Rightarrow>
       if ac_Platform a \<noteq> PlatformAnthropic \<or> ac_Type a \<noteq> AccountTypeAPIKey then WebSearchModeDefault
       else case lookup (ac_Extra a) featureKeyWebSearchEmulation of
         Some (JBool b) \<Rightarrow> if b then WebSearchModeEnabled else WebSearchModeDefault
       | Some (JStr mode) \<Rightarrow>
           if mode = WebSearchModeEnabled \<or> mode = WebSearchModeDisabled then mode else WebSearchModeDefault
       | _ \<Rightarrow> WebSearchModeDefault)"

subsection \<open>Web-socket ingress mode\<close>

definition OpenAIWSIngressModeOff :: gostring where "OpenAIWSIngressModeOff = ''off''"
definition OpenAIWSIngressModeShared :: gostring where "OpenAIWSIngressModeShared = ''shared''"
definition OpenAIWSIngressModeDedicated :: gostring where "OpenAIWSIngressModeDedicated = ''dedicated''"
definition OpenAIWSIngressModeCtxPool :: gostring where "OpenAIWSIngressModeCtxPool = ''ctx_pool''"
definition OpenAIWSIngressModePassthrough :: gostring where "OpenAIWSIngressModePassthrough = ''passthrough''"

lemmas ws_mode_defs = OpenAIWSIngressModeOff_def OpenAIWSIngressModeShared_def OpenAIWSIngressModeDedicated_def
  OpenAIWSIngressModeCtxPool_def OpenAIWSIngressModePassthrough_def

definition normalizeOpenAIWSIngressMode :: "acct_lib \<Rightarrow> gostring \<Rightarrow> gostring" where
  "normalizeOpenAIWSIngressMode lib mode =
     (let m = al_ToLower lib (trim_space mode) in
      if m = OpenAIWSIngressModeOff then OpenAIWSIngressModeOff
      else if m = OpenAIWSIngressModeCtxPool then OpenAIWSIngressModeCtxPool
      else if m = OpenAIWSIngressModePassthrough then OpenAIWSIngressModePassthrough
      else if m = OpenAIWSIngressModeShared then OpenAIWSIngressModeShared
      else if m = OpenAIWSIngressModeDedicated then OpenAIWSIngressModeDedicated
      else [])"

definition normalizeOpenAIWSIngressDefaultMode :: "acct_lib \<Rightarrow> gostring \<Rightarrow> gostring" where
  "normalizeOpenAIWSIngressDefaultMode lib mode =
     (let normalized = normalizeOpenAIWSIngressMode lib mode in
      if normalized \<noteq> [] then
        if normalized = OpenAIWSIngressModeShared \<or> normalized = OpenAIWSIngressModeDedicated
        then OpenAIWSIngressModeCtxPool else normalized
      else OpenAIWSIngressModeCtxPool)"

definition resolveModeString :: "acct_lib \<Rightarrow> account \<Rightarrow> gostring \<Rightarrow> gostring option" where
  "resolveModeString lib a k = (case lookup (ac_Extra a) k of
     Some (JStr mode) \<Rightarrow>
       (let normalized = normalizeOpenAIWSIngressMode lib mode in if normalized = [] then None else Some normalized)
   | _ \<Rightarrow> None)"

definition resolveBoolMode :: "account \<Rightarrow> gostring \<Rightarrow> gostring option" where
  "resolveBoolMode a k = (case lookup (ac_Extra a) k of
     Some (JBool enabled) \<Rightarrow> Some (if enabled then OpenAIWSIngressModeCtxPool else OpenAIWSIngressModeOff)
   | _ \<Rightarrow> None)"

definition ResolveOpenAIResponsesWebSocketV2Mode :: "acct_lib \<Rightarrow> account option \<Rightarrow> gostring \<Rightarrow> gostring" where
  "ResolveOpenAIResponsesWebSocketV2Mode lib acc defaultMode =
     (let resolvedDefault = normalizeOpenAIWSIngressDefaultMode lib defaultMode in
      case acc of
        None \<Rightarrow> OpenAIWSIngressModeOff
      | Some a \<Rightarrow>
          if \<not> IsOpenAI a then OpenAIWSIngressModeOff
          else if ac_Extra a = None then resolvedDefault
          else case first_some
             ((if IsOpenAIOAuth a
               then [resolveModeString lib a ''openai_oauth_responses_websockets_v2_mode'',
                     resolveBoolMode a ''openai_oauth_responses_websockets_v2_enabled''] else [])
              @ (if IsOpenAIApiKey a
                 then [resolveModeString lib a ''openai_apikey_responses_websockets_v2_mode'',
                       resolveBoolMode a ''openai_apikey_responses_websockets_v2_enabled''] else [])
              @ [resolveBoolMode a ''responses_websockets_v2_enabled'', resolveBoolMode a ''openai_ws_enabled'']) of
             Some mode \<Rightarrow> mode
           | None \<Rightarrow>
               if resolvedDefault = OpenAIWSIngressModeShared \<or> resolvedDefault = OpenAIWSIngressModeDedicated
               then OpenAIWSIngressModeCtxPool else resolvedDefault)"

definition IsOpenAIResponsesWebSocketV2Enabled :: "account option \<Rightarrow> bool" where
  "IsOpenAIResponsesWebSocketV2Enabled acc = (case acc of
     None \<Rightarrow> False
   | Some a \<Rightarrow>
       if \<not> IsOpenAI a then False
       else case first_some
          ((if IsOpenAIOAuth a then [extra_bool a ''openai_oauth_responses_websockets_v2_enabled''] else [])
           @ (if IsOpenAIApiKey a then [extra_bool a ''openai_apikey_responses_websockets_v2_enabled''] else [])
           @ [extra_bool a ''responses_websockets_v2_enabled'', extra_bool a ''openai_ws_enabled'']) of
          Some enabled \<Rightarrow> enabled
        | None \<Rightarrow> False)"

end
