(* ===== verification/AccountQuota.thy ===== *)
theory AccountQuota
  imports AccountFeatures "HOL-Library.AList"
begin

text \<open>
  Quotas of an account (\<open>internal/service/account.go\<close>): total, daily and weekly limits with rolling or fixed
  periods, the validation and derived fields of the fixed-reset configuration, the request-rate and window-cost
  zones, and the test whether the account may be scheduled. Every operation takes the current time as \<open>now\<close>.
  Calendar arithmetic on hours and days is taken without the 64-bit wrap-around \<open>time.Date\<close> has for years
  beyond its range.
\<close>

subsection \<open>Configuration\<close>

definition GetQuotaLimit :: "acct_lib \<Rightarrow> account \<Rightarrow> f64" where
  "GetQuotaLimit lib a = getExtraFloat64 lib a ''quota_limit''"
definition GetQuotaUsed :: "acct_lib \<Rightarrow> account \<Rightarrow> f64" where
  "GetQuotaUsed lib a = getExtraFloat64 lib a ''quota_used''"
definition GetQuotaDailyLimit :: "acct_lib \<Rightarrow> account \<Rightarrow> f64" where
  "GetQuotaDailyLimit lib a = getExtraFloat64 lib a ''quota_daily_limit''"
definition GetQuotaDailyUsed :: "acct_lib \<Rightarrow> account \<Rightarrow> f64" where
  "GetQuotaDailyUsed lib a = getExtraFloat64 lib a ''quota_daily_used''"
definition GetQuotaWeeklyLimit :: "acct_lib \<Rightarrow> account \<Rightarrow> f64" where
  "GetQuotaWeeklyLimit lib a = getExtraFloat64 lib a ''quota_weekly_limit''"
definition GetQuotaWeeklyUsed :: "acct_lib \<Rightarrow> account \<Rightarrow> f64" where
  "GetQuotaWeeklyUsed lib a = getExtraFloat64 lib a ''quota_weekly_used''"

definition GetQuotaDailyResetMode :: "account \<Rightarrow> gostring" where
  "GetQuotaDailyResetMode a =
     (if getExtraString a ''quota_daily_reset_mode'' = ''fixed'' then ''fixed'' else ''rolling'')"
definition GetQuotaDailyResetHour :: "acct_lib \<Rightarrow> account \<Rightarrow> int" where
  "GetQuotaDailyResetHour lib a = getExtraInt lib a ''quota_daily_reset_hour''"
definition GetQuotaWeeklyResetMode :: "account \<Rightarrow> gostring" where
  "GetQuotaWeeklyResetMode a =
     (if getExtraString a ''quota_weekly_reset_mode'' = ''fixed'' then ''fixed'' else ''rolling'')"
definition GetQuotaWeeklyResetDay :: "acct_lib \<Rightarrow> account \<Rightarrow> int" where
  "GetQuotaWeeklyResetDay lib a =
     (if lookup (ac_Extra a) ''quota_weekly_reset_day'' = None then 1 else getExtraInt lib a ''quota_weekly_reset_day'')"
definition GetQuotaWeeklyResetHour :: "acct_lib \<Rightarrow> account \<Rightarrow> int" where
  "GetQuotaWeeklyResetHour lib a = getExtraInt lib a ''quota_weekly_reset_hour''"
definition GetQuotaResetTimezone :: "account \<Rightarrow> gostring" where
  "GetQuotaResetTimezone a =
     (let tz = getExtraString a ''quota_reset_timezone'' in if tz \<noteq> [] then tz else ''UTC'')"

definition quotaDimDaily :: gostring where "quotaDimDaily = ''daily''"
definition quotaDimWeekly :: gostring where "quotaDimWeekly = ''weekly''"
definition quotaDimTotal :: gostring where "quotaDimTotal = ''total''"
definition thresholdTypeFixed :: gostring where "thresholdTypeFixed = ''fixed''"

definition QuotaNotifyConfig :: "acct_lib \<Rightarrow> account \<Rightarrow> gostring \<Rightarrow> bool \<times> f64 \<times> gostring" where
  "QuotaNotifyConfig lib a dimension =
     (getExtraBool a (''quota_notify_'' @ dimension @ ''_enabled''),
      getExtraFloat64 lib a (''quota_notify_'' @ dimension @ ''_threshold''),
      getExtraStringDefault a (''quota_notify_'' @ dimension @ ''_threshold_type'') thresholdTypeFixed)"

definition GetQuotaNotifyDailyEnabled :: "acct_lib \<Rightarrow> account \<Rightarrow> bool" where
  "GetQuotaNotifyDailyEnabled lib a = (case QuotaNotifyConfig lib a quotaDimDaily of (e, _, _) \<Rightarrow> e)"
definition GetQuotaNotifyDailyThreshold :: "acct_lib \<Rightarrow> account \<Rightarrow> f64" where
  "GetQuotaNotifyDailyThreshold lib a = (case QuotaNotifyConfig lib a quotaDimDaily of (_, t, _) \<Rightarrow> t)"
definition GetQuotaNotifyDailyThresholdType :: "acct_lib \<Rightarrow> account \<Rightarrow> gostring" where
  "GetQuotaNotifyDailyThresholdType lib a = (case QuotaNotifyConfig lib a quotaDimDaily of (_, _, tt) \<Rightarrow> tt)"
definition GetQuotaNotifyWeeklyEnabled :: "acct_lib \<Rightarrow> account \<Rightarrow> bool" where
  "GetQuotaNotifyWeeklyEnabled lib a = (case QuotaNotifyConfig lib a quotaDimWeekly of (e, _, _) \<Rightarrow> e)"
definition GetQuotaNotifyWeeklyThreshold :: "acct_lib \<Rightarrow> account \<Rightarrow> f64" where
  "GetQuotaNotifyWeeklyThreshold lib a = (case QuotaNotifyConfig lib a quotaDimWeekly of (_, t, _) \<Rightarrow> t)"
definition GetQuotaNotifyWeeklyThresholdType :: "acct_lib \<Rightarrow> account \<Rightarrow> gostring" where
  "GetQuotaNotifyWeeklyThresholdType lib a = (case QuotaNotifyConfig lib a quotaDimWeekly of (_, _, tt) \<Rightarrow> tt)"
definition GetQuotaNotifyTotalEnabled :: "acct_lib \<Rightarrow> account \<Rightarrow> bool" where
  "GetQuotaNotifyTotalEnabled lib a = (case QuotaNotifyConfig lib a quotaDimTotal of (e, _, _) \<Rightarrow> e)"
definition GetQuotaNotifyTotalThreshold :: "acct_lib \<Rightarrow> account \<Rightarrow> f64" where
  "GetQuotaNotifyTotalThreshold lib a = (case QuotaNotifyConfig lib a quotaDimTotal of (_, t, _) \<Rightarrow> t)"
definition GetQuotaNotifyTotalThresholdType :: "acct_lib \<Rightarrow> account \<Rightarrow> gostring" where
  "GetQuotaNotifyTotalThresholdType lib a = (case QuotaNotifyConfig lib a quotaDimTotal of (_, _, tt) \<Rightarrow> tt)"

subsection \<open>Fixed reset times\<close>

text \<open>\<open>time.Date(t.Year(), t.Month(), t.Day(), hour, 0, 0, 0, tz)\<close> for \<open>t\<close> in \<open>tz\<close>, and the weekday of a time.\<close>

definition today_at :: "int \<Rightarrow> location \<Rightarrow> time \<Rightarrow> time" where
  "today_at hour tz t =
     (let l = local_sec tz t in date_unix tz (l - l mod 86400 + hour * 3600) * Second)"

definition Weekday :: "location \<Rightarrow> time \<Rightarrow> int" where
  "Weekday tz t = (local_sec tz t div 86400 + 4) mod 7"

definition nextFixedDailyReset :: "int \<Rightarrow> location \<Rightarrow> time \<Rightarrow> time" where
  "nextFixedDailyReset hour tz after =
     (let today = today_at hour tz after
      in if \<not> Before after today then AddDays tz today 1 else today)"

definition lastFixedDailyReset :: "int \<Rightarrow> location \<Rightarrow> time \<Rightarrow> time" where
  "lastFixedDailyReset hour tz now =
     (let today = today_at hour tz now
      in if Before now today then AddDays tz today (- 1) else today)"

definition nextFixedWeeklyReset :: "int \<Rightarrow> int \<Rightarrow> location \<Rightarrow> time \<Rightarrow> time" where
  "nextFixedWeeklyReset day hour tz after =
     (let todayReset = today_at hour tz after;
          currentDay = Weekday tz todayReset;
          daysForward = rem (day - currentDay + 7) 7;
          daysForward = (if daysForward = 0 \<and> \<not> Before after todayReset then 7 else daysForward)
      in AddDays tz todayReset daysForward)"

definition lastFixedWeeklyReset :: "int \<Rightarrow> int \<Rightarrow> location \<Rightarrow> time \<Rightarrow> time" where
  "lastFixedWeeklyReset day hour tz now =
     (let todayReset = today_at hour tz now;
          currentDay = Weekday tz todayReset;
          daysBack = rem (currentDay - day + 7) 7;
          daysBack = (if daysBack = 0 \<and> Before now todayReset then 7 else daysBack)
      in AddDays tz todayReset (- daysBack))"

definition location_or_UTC :: "acct_lib \<Rightarrow> gostring \<Rightarrow> location" where
  "location_or_UTC lib name = (case al_LoadLocation lib name of Some tz \<Rightarrow> tz | None \<Rightarrow> UTC)"

definition isFixedDailyPeriodExpired :: "acct_lib \<Rightarrow> time \<Rightarrow> account \<Rightarrow> time \<Rightarrow> bool" where
  "isFixedDailyPeriodExpired lib now a periodStart =
     (if periodStart = zero_time then True
      else let tz = location_or_UTC lib (GetQuotaResetTimezone a);
               lastReset = lastFixedDailyReset (GetQuotaDailyResetHour lib a) tz now
           in Before periodStart lastReset)"

definition isFixedWeeklyPeriodExpired :: "acct_lib \<Rightarrow> time \<Rightarrow> account \<Rightarrow> time \<Rightarrow> bool" where
  "isFixedWeeklyPeriodExpired lib now a periodStart =
     (if periodStart = zero_time then True
      else let tz = location_or_UTC lib (GetQuotaResetTimezone a);
               lastReset = lastFixedWeeklyReset (GetQuotaWeeklyResetDay lib a) (GetQuotaWeeklyResetHour lib a) tz now
           in Before periodStart lastReset)"

definition isPeriodExpired :: "time \<Rightarrow> time \<Rightarrow> duration \<Rightarrow> bool" where
  "isPeriodExpired now periodStart dur =
     (if periodStart = zero_time then True else dur \<le> Sub now periodStart)"

definition IsDailyQuotaPeriodExpired :: "acct_lib \<Rightarrow> time \<Rightarrow> account \<Rightarrow> bool" where
  "IsDailyQuotaPeriodExpired lib now a =
     (let start = getExtraTime lib a ''quota_daily_start'' in
      if GetQuotaDailyResetMode a = ''fixed'' then isFixedDailyPeriodExpired lib now a start
      else isPeriodExpired now start (24 * Hour))"

definition IsWeeklyQuotaPeriodExpired :: "acct_lib \<Rightarrow> time \<Rightarrow> account \<Rightarrow> bool" where
  "IsWeeklyQuotaPeriodExpired lib now a =
     (let start = getExtraTime lib a ''quota_weekly_start'' in
      if GetQuotaWeeklyResetMode a = ''fixed'' then isFixedWeeklyPeriodExpired lib now a start
      else isPeriodExpired now start (7 * 24 * Hour))"

definition HasAnyQuotaLimit :: "acct_lib \<Rightarrow> account \<Rightarrow> bool" where
  "HasAnyQuotaLimit lib a \<longleftrightarrow> flt (Fin 0) (GetQuotaLimit lib a) \<or> flt (Fin 0) (GetQuotaDailyLimit lib a)
     \<or> flt (Fin 0) (GetQuotaWeeklyLimit lib a)"

definition IsQuotaExceeded :: "acct_lib \<Rightarrow> time \<Rightarrow> account \<Rightarrow> bool" where
  "IsQuotaExceeded lib now a =
     (if flt (Fin 0) (GetQuotaLimit lib a) \<and> fle (GetQuotaLimit lib a) (GetQuotaUsed lib a) then True
      else if flt (Fin 0) (GetQuotaDailyLimit lib a)
         \<and> \<not> (let start = getExtraTime lib a ''quota_daily_start'' in
               if GetQuotaDailyResetMode a = ''fixed'' then isFixedDailyPeriodExpired lib now a start
               else isPeriodExpired now start (24 * Hour))
         \<and> fle (GetQuotaDailyLimit lib a) (GetQuotaDailyUsed lib a) then True
      else if flt (Fin 0) (GetQuotaWeeklyLimit lib a)
         \<and> \<not> (let start = getExtraTime lib a ''quota_weekly_start'' in
               if GetQuotaWeeklyResetMode a = ''fixed'' then isFixedWeeklyPeriodExpired lib now a start
               else isPeriodExpired now start (7 * 24 * Hour))
         \<and> fle (GetQuotaWeeklyLimit lib a) (GetQuotaWeeklyUsed lib a) then True
      else False)"

subsection \<open>Saving the configuration\<close>

definition str_of :: "any_map \<Rightarrow> gostring \<Rightarrow> gostring" where
  "str_of extra k = (case map_of extra k of Some (JStr s) \<Rightarrow> s | _ \<Rightarrow> [])"

definition map_set :: "gostring \<Rightarrow> 'v \<Rightarrow> (gostring \<times> 'v) list \<Rightarrow> (gostring \<times> 'v) list" where
  "map_set k v m = AList.update k v m"

definition map_delete :: "gostring \<Rightarrow> (gostring \<times> 'v) list \<Rightarrow> (gostring \<times> 'v) list" where
  "map_delete k m = AList.delete k m"

definition extra_int :: "acct_lib \<Rightarrow> any_map \<Rightarrow> gostring \<Rightarrow> int" where
  "extra_int lib extra k = f64_to_int min_int64 (parseExtraFloat64 lib (index_any extra k))"

definition ComputeQuotaResetAt :: "acct_lib \<Rightarrow> time \<Rightarrow> any_map \<Rightarrow> any_map" where
  "ComputeQuotaResetAt lib now extra =
     (let tzName = str_of extra ''quota_reset_timezone'';
          tzName = (if tzName = [] then ''UTC'' else tzName);
          tz = location_or_UTC lib tzName;
          extra1 =
            (if str_of extra ''quota_daily_reset_mode'' = ''fixed'' then
               let hour = extra_int lib extra ''quota_daily_reset_hour'';
                   hour = (if hour < 0 \<or> 23 < hour then 0 else hour);
                   resetAt = nextFixedDailyReset hour tz now
               in map_set ''quota_daily_reset_at'' (JStr (al_FormatTime lib RFC3339 resetAt)) extra
             else map_delete ''quota_daily_reset_at'' extra)
      in if str_of extra1 ''quota_weekly_reset_mode'' = ''fixed'' then
           let day = (case map_of extra1 ''quota_weekly_reset_day'' of
                        Some d \<Rightarrow> f64_to_int min_int64 (parseExtraFloat64 lib d) | None \<Rightarrow> 1);
               day = (if day < 0 \<or> 6 < day then 1 else day);
               hour = extra_int lib extra1 ''quota_weekly_reset_hour'';
               hour = (if hour < 0 \<or> 23 < hour then 0 else hour);
               resetAt = nextFixedWeeklyReset day hour tz now
           in map_set ''quota_weekly_reset_at'' (JStr (al_FormatTime lib RFC3339 resetAt)) extra1
         else map_delete ''quota_weekly_reset_at'' extra1)"

definition str_opt :: "any_map \<Rightarrow> gostring \<Rightarrow> gostring option" where
  "str_opt extra k = (case map_of extra k of Some (JStr s) \<Rightarrow> Some s | _ \<Rightarrow> None)"

definition bad_mode :: "any_map \<Rightarrow> gostring \<Rightarrow> bool" where
  "bad_mode extra k = (case str_opt extra k of Some mode \<Rightarrow> mode \<noteq> ''rolling'' \<and> mode \<noteq> ''fixed'' | None \<Rightarrow> False)"

definition bad_int :: "acct_lib \<Rightarrow> any_map \<Rightarrow> gostring \<Rightarrow> int \<Rightarrow> bool" where
  "bad_int lib extra k hi = (case map_of extra k of
     Some v \<Rightarrow> (let n = f64_to_int min_int64 (parseExtraFloat64 lib v) in n < 0 \<or> hi < n)
   | None \<Rightarrow> False)"

definition ValidateQuotaResetConfig :: "acct_lib \<Rightarrow> any_map option \<Rightarrow> gostring option" where
  "ValidateQuotaResetConfig lib extra = (case extra of
     None \<Rightarrow> None
   | Some extra \<Rightarrow>
       if (case str_opt extra ''quota_reset_timezone'' of
             Some tz \<Rightarrow> tz \<noteq> [] \<and> al_LoadLocation lib tz = None | None \<Rightarrow> False)
       then Some ''invalid quota_reset_timezone: must be a valid IANA timezone name''
       else if bad_mode extra ''quota_daily_reset_mode''
       then Some (''quota_daily_reset_mode must be '' @ [CHR 0x27] @ ''rolling'' @ [CHR 0x27] @ '' or ''
                  @ [CHR 0x27] @ ''fixed'' @ [CHR 0x27])
       else if bad_int lib extra ''quota_daily_reset_hour'' 23
       then Some ''quota_daily_reset_hour must be between 0 and 23''
       else if bad_mode extra ''quota_weekly_reset_mode''
       then Some (''quota_weekly_reset_mode must be '' @ [CHR 0x27] @ ''rolling'' @ [CHR 0x27] @ '' or ''
                  @ [CHR 0x27] @ ''fixed'' @ [CHR 0x27])
       else if bad_int lib extra ''quota_weekly_reset_day'' 6
       then Some ''quota_weekly_reset_day must be between 0 (Sunday) and 6 (Saturday)''
       else if bad_int lib extra ''quota_weekly_reset_hour'' 23
       then Some ''quota_weekly_reset_hour must be between 0 and 23''
       else None)"

subsection \<open>Cost and request-rate zones\<close>

datatype WindowCostSchedulability = WindowCostSchedulable | WindowCostStickyOnly | WindowCostNotSchedulable

definition GetWindowCostLimit :: "acct_lib \<Rightarrow> account \<Rightarrow> f64" where
  "GetWindowCostLimit lib a =
     (case lookup (ac_Extra a) ''window_cost_limit'' of Some v \<Rightarrow> parseExtraFloat64 lib v | None \<Rightarrow> Fin 0)"

definition GetWindowCostStickyReserve :: "acct_lib \<Rightarrow> account \<Rightarrow> f64" where
  "GetWindowCostStickyReserve lib a =
     (case lookup (ac_Extra a) ''window_cost_sticky_reserve'' of
        Some v \<Rightarrow> if flt (Fin 0) (parseExtraFloat64 lib v) then parseExtraFloat64 lib v else Fin 10
      | None \<Rightarrow> Fin 10)"

definition GetMaxSessions :: "account \<Rightarrow> int" where
  "GetMaxSessions a = (case lookup (ac_Extra a) ''max_sessions'' of Some v \<Rightarrow> parseExtraInt v | None \<Rightarrow> 0)"

definition GetSessionIdleTimeoutMinutes :: "account \<Rightarrow> int" where
  "GetSessionIdleTimeoutMinutes a = (case lookup (ac_Extra a) ''session_idle_timeout_minutes'' of
     Some v \<Rightarrow> if 0 < parseExtraInt v then parseExtraInt v else 5
   | None \<Rightarrow> 5)"

definition GetBaseRPM :: "account \<Rightarrow> int" where
  "GetBaseRPM a = (case lookup (ac_Extra a) ''base_rpm'' of
     Some v \<Rightarrow> if 0 < parseExtraInt v then parseExtraInt v else 0
   | None \<Rightarrow> 0)"

definition GetRPMStrategy :: "account \<Rightarrow> gostring" where
  "GetRPMStrategy a = (case lookup (ac_Extra a) ''rpm_strategy'' of
     Some (JStr s) \<Rightarrow> if s = ''sticky_exempt'' then ''sticky_exempt'' else ''tiered''
   | _ \<Rightarrow> ''tiered'')"

definition rpm_override :: "account \<Rightarrow> int option" where
  "rpm_override a = (case lookup (ac_Extra a) ''rpm_sticky_buffer'' of
     Some v \<Rightarrow> if 0 < parseExtraInt v then Some (parseExtraInt v) else None
   | None \<Rightarrow> None)"

definition GetRPMStickyBuffer :: "account \<Rightarrow> int" where
  "GetRPMStickyBuffer a =
     (if ac_Extra a = None then 0
      else case rpm_override a of
        Some v \<Rightarrow> v
      | None \<Rightarrow>
          (let base = GetBaseRPM a in
           if base \<le> 0 then 0
           else let conc = (if ac_Concurrency a < 0 then 0 else ac_Concurrency a);
                    sess = (if GetMaxSessions a < 0 then 0 else GetMaxSessions a);
                    buffer = wrap64 (conc + sess);
                    floor = quot base 5;
                    floor = (if floor < 1 then 1 else floor)
                in if buffer < floor then floor else buffer))"

definition CheckRPMSchedulability :: "account \<Rightarrow> int \<Rightarrow> WindowCostSchedulability" where
  "CheckRPMSchedulability a currentRPM =
     (let baseRPM = GetBaseRPM a in
      if baseRPM \<le> 0 then WindowCostSchedulable
      else if currentRPM < baseRPM then WindowCostSchedulable
      else if GetRPMStrategy a = ''sticky_exempt'' then WindowCostStickyOnly
      else let buffer = GetRPMStickyBuffer a in
        if currentRPM < wrap64 (baseRPM + buffer) then WindowCostStickyOnly else WindowCostNotSchedulable)"

definition CheckWindowCostSchedulability :: "acct_lib \<Rightarrow> account \<Rightarrow> f64 \<Rightarrow> WindowCostSchedulability" where
  "CheckWindowCostSchedulability lib a currentWindowCost =
     (let limit = GetWindowCostLimit lib a in
      if fle limit (Fin 0) then WindowCostSchedulable
      else if flt currentWindowCost limit then WindowCostSchedulable
      else if flt currentWindowCost (fadd limit (GetWindowCostStickyReserve lib a)) then WindowCostStickyOnly
      else WindowCostNotSchedulable)"

text \<open>\<open>loc\<close> is the location of the current time, \<open>time.Local\<close>.\<close>

definition GetCurrentWindowStartTime :: "location \<Rightarrow> time \<Rightarrow> account \<Rightarrow> time" where
  "GetCurrentWindowStartTime loc now a =
     (case (ac_SessionWindowStart a, ac_SessionWindowEnd a) of
        (Some start, Some en) \<Rightarrow>
          if Before now en then start
          else today_at (local_sec loc now mod 86400 div 3600) loc now
      | _ \<Rightarrow> today_at (local_sec loc now mod 86400 div 3600) loc now)"

subsection \<open>May the account be scheduled\<close>

definition IsSchedulable :: "acct_lib \<Rightarrow> time \<Rightarrow> account \<Rightarrow> bool" where
  "IsSchedulable lib now a =
     (if \<not> acct_IsActive a \<or> \<not> ac_Schedulable a then False
      else if ac_AutoPauseOnExpired a \<and> (case ac_ExpiresAt a of Some t \<Rightarrow> \<not> Before now t | None \<Rightarrow> False) then False
      else if (case ac_OverloadUntil a of Some t \<Rightarrow> Before now t | None \<Rightarrow> False) then False
      else if (case ac_RateLimitResetAt a of Some t \<Rightarrow> Before now t | None \<Rightarrow> False) then False
      else if (case ac_TempUnschedulableUntil a of Some t \<Rightarrow> Before now t | None \<Rightarrow> False) then False
      else if IsAPIKeyOrBedrock a \<and> IsQuotaExceeded lib now a then False
      else True)"

definition IsRateLimited :: "time \<Rightarrow> account \<Rightarrow> bool" where
  "IsRateLimited now a = (case ac_RateLimitResetAt a of None \<Rightarrow> False | Some t \<Rightarrow> Before now t)"

definition IsOverloaded :: "time \<Rightarrow> account \<Rightarrow> bool" where
  "IsOverloaded now a = (case ac_OverloadUntil a of None \<Rightarrow> False | Some t \<Rightarrow> Before now t)"

end
