(* ===== verification/OpenAIScheduler.thy ===== *)
theory OpenAIScheduler
  imports AccountQuota
begin

text \<open>
  The scheduler of OpenAI accounts, \<open>internal/service/openai_account_scheduler.go\<close>, without its stores: the
  runtime statistics of accounts, the score of a candidate, the choice of the best \<open>k\<close>, the weighted random
  order of them with its generator and seed, and the metrics. A compare-and-swap loop is the atomic update it
  performs; \<open>math.Sqrt\<close> is an argument. The selection itself, with its stores, is in \<open>OpenAISelect\<close>.
\<close>

subsection \<open>Metrics\<close>

definition openAIAccountScheduleLayerPreviousResponse :: gostring where
  "openAIAccountScheduleLayerPreviousResponse = ''previous_response_id''"
definition openAIAccountScheduleLayerSessionSticky :: gostring where
  "openAIAccountScheduleLayerSessionSticky = ''session_hash''"
definition openAIAccountScheduleLayerLoadBalance :: gostring where
  "openAIAccountScheduleLayerLoadBalance = ''load_balance''"

record schedule_request =
  sr_GroupID :: "int64 option"
  sr_SessionHash :: gostring
  sr_StickyAccountID :: int64
  sr_PreviousResponseID :: gostring
  sr_RequestedModel :: gostring
  sr_RequiredTransport :: gostring
  sr_RequiredImageCapability :: gostring
  sr_RequireCompact :: bool
  sr_ExcludedIDs :: "int64 list"

record schedule_decision =
  sd_Layer :: gostring
  sd_StickyPreviousHit :: bool
  sd_StickySessionHit :: bool
  sd_CandidateCount :: int
  sd_TopK :: int
  sd_LatencyMs :: int64
  sd_LoadSkew :: f64
  sd_SelectedAccountID :: int64
  sd_SelectedAccountType :: gostring

definition no_decision :: schedule_decision where
  "no_decision = \<lparr>sd_Layer = [], sd_StickyPreviousHit = False, sd_StickySessionHit = False, sd_CandidateCount = 0,
     sd_TopK = 0, sd_LatencyMs = 0, sd_LoadSkew = Fin 0, sd_SelectedAccountID = 0, sd_SelectedAccountType = []\<rparr>"

record sched_metrics =
  sm_selectTotal :: int64
  sm_stickyPreviousHitTotal :: int64
  sm_stickySessionHitTotal :: int64
  sm_loadBalanceSelectTotal :: int64
  sm_accountSwitchTotal :: int64
  sm_latencyMsTotal :: int64
  sm_loadSkewMilliTotal :: int64

text \<open>\<open>math.Round\<close>: half away from zero.\<close>

definition fround :: "f64 \<Rightarrow> f64" where
  "fround x = (case x of Fin r \<Rightarrow> f64_of_int (if 0 \<le> r then \<lfloor>r + 1 / 2\<rfloor> else \<lceil>r - 1 / 2\<rceil>) | _ \<Rightarrow> x)"

definition recordSelect :: "schedule_decision \<Rightarrow> sched_metrics \<Rightarrow> sched_metrics" where
  "recordSelect d m =
     (let m = m\<lparr>sm_selectTotal := wrap64 (sm_selectTotal m + 1),
                sm_latencyMsTotal := wrap64 (sm_latencyMsTotal m + sd_LatencyMs d),
                sm_loadSkewMilliTotal := wrap64 (sm_loadSkewMilliTotal m
                   + f64_to_int min_int64 (fround (fmul (sd_LoadSkew d) (Fin 1000))))\<rparr>;
          m = (if sd_StickyPreviousHit d
               then m\<lparr>sm_stickyPreviousHitTotal := wrap64 (sm_stickyPreviousHitTotal m + 1)\<rparr> else m);
          m = (if sd_StickySessionHit d
               then m\<lparr>sm_stickySessionHitTotal := wrap64 (sm_stickySessionHitTotal m + 1)\<rparr> else m)
      in if sd_Layer d = openAIAccountScheduleLayerLoadBalance
         then m\<lparr>sm_loadBalanceSelectTotal := wrap64 (sm_loadBalanceSelectTotal m + 1)\<rparr> else m)"

definition recordSwitch :: "sched_metrics \<Rightarrow> sched_metrics" where
  "recordSwitch m = m\<lparr>sm_accountSwitchTotal := wrap64 (sm_accountSwitchTotal m + 1)\<rparr>"

subsection \<open>Runtime statistics\<close>

record runtime_stat =
  rs_errorRate :: f64
  rs_ttft :: f64

record runtime_stats =
  rt_accounts :: "int64 \<rightharpoonup> runtime_stat"
  rt_accountCount :: int64

definition newOpenAIAccountRuntimeStats :: runtime_stats where
  "newOpenAIAccountRuntimeStats = \<lparr>rt_accounts = Map.empty, rt_accountCount = 0\<rparr>"

definition loadOrCreate :: "int64 \<Rightarrow> runtime_stats \<Rightarrow> runtime_stat \<times> runtime_stats" where
  "loadOrCreate accountID s = (case rt_accounts s accountID of
     Some stat \<Rightarrow> (stat, s)
   | None \<Rightarrow>
       (let stat = \<lparr>rs_errorRate = Fin 0, rs_ttft = NaN\<rparr>
        in (stat, s\<lparr>rt_accounts := (rt_accounts s)(accountID \<mapsto> stat), rt_accountCount := wrap64 (rt_accountCount s + 1)\<rparr>)))"

definition updateEWMA :: "f64 \<Rightarrow> f64 \<Rightarrow> f64 \<Rightarrow> f64" where
  "updateEWMA oldValue sample alpha = fadd (fmul alpha sample) (fmul (fsub (Fin 1) alpha) oldValue)"

definition report :: "int64 \<Rightarrow> bool \<Rightarrow> int option \<Rightarrow> runtime_stats \<Rightarrow> runtime_stats" where
  "report accountID success firstTokenMs s =
     (if accountID \<le> 0 then s
      else case loadOrCreate accountID s of
        (stat, s) \<Rightarrow>
          (let errorSample = (if success then Fin 0 else Fin 1);
               stat = stat\<lparr>rs_errorRate := updateEWMA (rs_errorRate stat) errorSample (f64_of_rat (1 / 5))\<rparr>;
               stat = (case firstTokenMs of
                         Some n \<Rightarrow>
                           if 0 < n then
                             (let ttft = f64_of_int n in
                              if is_nan (rs_ttft stat) then stat\<lparr>rs_ttft := ttft\<rparr>
                              else stat\<lparr>rs_ttft := fadd (fmul (f64_of_rat (1 / 5)) ttft)
                                                    (fmul (f64_of_rat (4 / 5)) (rs_ttft stat))\<rparr>)
                           else stat
                       | None \<Rightarrow> stat)
           in s\<lparr>rt_accounts := (rt_accounts s)(accountID \<mapsto> stat)\<rparr>))"

definition clamp01 :: "f64 \<Rightarrow> f64" where
  "clamp01 v = (if flt v (Fin 0) then Fin 0 else if flt (Fin 1) v then Fin 1 else v)"

definition snapshot :: "int64 \<Rightarrow> runtime_stats \<Rightarrow> f64 \<times> f64 \<times> bool" where
  "snapshot accountID s =
     (if accountID \<le> 0 then (Fin 0, Fin 0, False)
      else case rt_accounts s accountID of
        None \<Rightarrow> (Fin 0, Fin 0, False)
      | Some stat \<Rightarrow>
          (let errorRate = clamp01 (rs_errorRate stat) in
           if is_nan (rs_ttft stat) then (errorRate, Fin 0, False) else (errorRate, rs_ttft stat, True)))"

definition runtime_size :: "runtime_stats \<Rightarrow> int" where "runtime_size s = rt_accountCount s"

record metrics_snapshot =
  mn_SelectTotal :: int64
  mn_StickyPreviousHitTotal :: int64
  mn_StickySessionHitTotal :: int64
  mn_LoadBalanceSelectTotal :: int64
  mn_AccountSwitchTotal :: int64
  mn_SchedulerLatencyMsTotal :: int64
  mn_SchedulerLatencyMsAvg :: f64
  mn_StickyHitRatio :: f64
  mn_AccountSwitchRate :: f64
  mn_LoadSkewAvg :: f64
  mn_RuntimeStatsAccountCount :: int

definition SnapshotMetrics :: "sched_metrics \<Rightarrow> runtime_stats \<Rightarrow> metrics_snapshot" where
  "SnapshotMetrics m s =
     (let n = sm_selectTotal m;
          avg = (\<lambda>x. if 0 < n then fdiv x (f64_of_int n) else Fin 0)
      in \<lparr>mn_SelectTotal = n,
          mn_StickyPreviousHitTotal = sm_stickyPreviousHitTotal m,
          mn_StickySessionHitTotal = sm_stickySessionHitTotal m,
          mn_LoadBalanceSelectTotal = sm_loadBalanceSelectTotal m,
          mn_AccountSwitchTotal = sm_accountSwitchTotal m,
          mn_SchedulerLatencyMsTotal = sm_latencyMsTotal m,
          mn_SchedulerLatencyMsAvg = avg (f64_of_int (sm_latencyMsTotal m)),
          mn_StickyHitRatio = avg (f64_of_int (wrap64 (sm_stickyPreviousHitTotal m + sm_stickySessionHitTotal m))),
          mn_AccountSwitchRate = avg (f64_of_int (sm_accountSwitchTotal m)),
          mn_LoadSkewAvg = avg (fdiv (f64_of_int (sm_loadSkewMilliTotal m)) (Fin 1000)),
          mn_RuntimeStatsAccountCount = runtime_size s\<rparr>)"

subsection \<open>Candidates and their scores\<close>

record load_info =
  li_AccountID :: int64
  li_CurrentConcurrency :: int
  li_WaitingCount :: int
  li_LoadRate :: int

record cand =
  ca_account :: account
  ca_loadInfo :: load_info
  ca_score :: f64
  ca_errorRate :: f64
  ca_ttft :: f64
  ca_hasTTFT :: bool

record score_weights =
  sw_Priority :: f64
  sw_Load :: f64
  sw_Queue :: f64
  sw_ErrorRate :: f64
  sw_TTFT :: f64

definition default_score_weights :: score_weights where
  "default_score_weights = \<lparr>sw_Priority = Fin 1, sw_Load = Fin 1, sw_Queue = f64_of_rat (7 / 10),
     sw_ErrorRate = f64_of_rat (8 / 10), sw_TTFT = f64_of_rat (1 / 2)\<rparr>"

text \<open>The weights and \<open>topK\<close> of the configuration, or the defaults without one.\<close>

definition openAIWSSchedulerWeights :: "score_weights option \<Rightarrow> score_weights" where
  "openAIWSSchedulerWeights cfg = (case cfg of Some w \<Rightarrow> w | None \<Rightarrow> default_score_weights)"

definition openAIWSLBTopK :: "int option \<Rightarrow> int" where
  "openAIWSLBTopK cfg = (case cfg of Some k \<Rightarrow> if 0 < k then k else 7 | None \<Rightarrow> 7)"

definition calcLoadSkewByMoments :: "(f64 \<Rightarrow> f64) \<Rightarrow> f64 \<Rightarrow> f64 \<Rightarrow> int \<Rightarrow> f64" where
  "calcLoadSkewByMoments fsqrt sumRates sumSquares n =
     (if n \<le> 1 then Fin 0
      else let mean = fdiv sumRates (f64_of_int n);
               variance = fsub (fdiv sumSquares (f64_of_int n)) (fmul mean mean);
               variance = (if flt variance (Fin 0) then Fin 0 else variance)
           in fsqrt variance)"

record pool_stats =
  ps_minPriority :: int
  ps_maxPriority :: int
  ps_maxWaiting :: int
  ps_loadRateSum :: f64
  ps_loadRateSumSquares :: f64
  ps_minTTFT :: f64
  ps_maxTTFT :: f64
  ps_hasTTFTSample :: bool

definition pool_step :: "cand \<Rightarrow> pool_stats \<Rightarrow> pool_stats" where
  "pool_step c p =
     (let pr = ac_Priority (ca_account c); w = li_WaitingCount (ca_loadInfo c);
          loadRate = f64_of_int (li_LoadRate (ca_loadInfo c));
          p = p\<lparr>ps_minPriority := (if pr < ps_minPriority p then pr else ps_minPriority p),
                ps_maxPriority := (if ps_maxPriority p < pr then pr else ps_maxPriority p),
                ps_maxWaiting := (if ps_maxWaiting p < w then w else ps_maxWaiting p)\<rparr>;
          p = (if ca_hasTTFT c \<and> flt (Fin 0) (ca_ttft c) then
                 if \<not> ps_hasTTFTSample p
                 then p\<lparr>ps_minTTFT := ca_ttft c, ps_maxTTFT := ca_ttft c, ps_hasTTFTSample := True\<rparr>
                 else p\<lparr>ps_minTTFT := (if flt (ca_ttft c) (ps_minTTFT p) then ca_ttft c else ps_minTTFT p),
                        ps_maxTTFT := (if flt (ps_maxTTFT p) (ca_ttft c) then ca_ttft c else ps_maxTTFT p)\<rparr>
               else p)
      in p\<lparr>ps_loadRateSum := fadd (ps_loadRateSum p) loadRate,
           ps_loadRateSumSquares := fadd (ps_loadRateSumSquares p) (fmul loadRate loadRate)\<rparr>)"

definition pool_init :: "cand \<Rightarrow> pool_stats" where
  "pool_init c =
     \<lparr>ps_minPriority = ac_Priority (ca_account c), ps_maxPriority = ac_Priority (ca_account c), ps_maxWaiting = 1,
      ps_loadRateSum = Fin 0, ps_loadRateSumSquares = Fin 0, ps_minTTFT = Fin 0, ps_maxTTFT = Fin 0,
      ps_hasTTFTSample = False\<rparr>"

definition pool_of :: "cand list \<Rightarrow> pool_stats" where
  "pool_of cs = fold pool_step cs (pool_init (hd cs))"

definition priorityFactor :: "pool_stats \<Rightarrow> cand \<Rightarrow> f64" where
  "priorityFactor p c =
     (if ps_minPriority p < ps_maxPriority p
      then fsub (Fin 1) (fdiv (f64_of_int (wrap64 (ac_Priority (ca_account c) - ps_minPriority p)))
                              (f64_of_int (wrap64 (ps_maxPriority p - ps_minPriority p))))
      else Fin 1)"

definition loadFactor :: "cand \<Rightarrow> f64" where
  "loadFactor c = fsub (Fin 1) (clamp01 (fdiv (f64_of_int (li_LoadRate (ca_loadInfo c))) (Fin 100)))"

definition queueFactor :: "pool_stats \<Rightarrow> cand \<Rightarrow> f64" where
  "queueFactor p c =
     fsub (Fin 1) (clamp01 (fdiv (f64_of_int (li_WaitingCount (ca_loadInfo c))) (f64_of_int (ps_maxWaiting p))))"

definition errorFactor :: "cand \<Rightarrow> f64" where
  "errorFactor c = fsub (Fin 1) (clamp01 (ca_errorRate c))"

definition ttftFactor :: "pool_stats \<Rightarrow> cand \<Rightarrow> f64" where
  "ttftFactor p c =
     (if ca_hasTTFT c \<and> ps_hasTTFTSample p \<and> flt (ps_minTTFT p) (ps_maxTTFT p)
      then fsub (Fin 1) (clamp01 (fdiv (fsub (ca_ttft c) (ps_minTTFT p)) (fsub (ps_maxTTFT p) (ps_minTTFT p))))
      else Fin (1 / 2))"

definition score_of :: "score_weights \<Rightarrow> pool_stats \<Rightarrow> cand \<Rightarrow> f64" where
  "score_of w p c =
     fadd (fadd (fadd (fadd (fmul (sw_Priority w) (priorityFactor p c)) (fmul (sw_Load w) (loadFactor c)))
                      (fmul (sw_Queue w) (queueFactor p c)))
                (fmul (sw_ErrorRate w) (errorFactor c)))
          (fmul (sw_TTFT w) (ttftFactor p c))"

definition score_candidates :: "score_weights \<Rightarrow> cand list \<Rightarrow> cand list" where
  "score_candidates w cs = (let p = pool_of cs in map (\<lambda>c. c\<lparr>ca_score := score_of w p c\<rparr>) cs)"

definition load_skew :: "(f64 \<Rightarrow> f64) \<Rightarrow> cand list \<Rightarrow> f64" where
  "load_skew fsqrt cs =
     (let p = pool_of cs
      in calcLoadSkewByMoments fsqrt (ps_loadRateSum p) (ps_loadRateSumSquares p) (int (length cs)))"

definition isOpenAIAccountCandidateBetter :: "cand \<Rightarrow> cand \<Rightarrow> bool" where
  "isOpenAIAccountCandidateBetter left right =
     (if \<not> feq (ca_score left) (ca_score right) then flt (ca_score right) (ca_score left)
      else if ac_Priority (ca_account left) \<noteq> ac_Priority (ca_account right)
      then ac_Priority (ca_account left) < ac_Priority (ca_account right)
      else if li_LoadRate (ca_loadInfo left) \<noteq> li_LoadRate (ca_loadInfo right)
      then li_LoadRate (ca_loadInfo left) < li_LoadRate (ca_loadInfo right)
      else if li_WaitingCount (ca_loadInfo left) \<noteq> li_WaitingCount (ca_loadInfo right)
      then li_WaitingCount (ca_loadInfo left) < li_WaitingCount (ca_loadInfo right)
      else ac_ID (ca_account left) < ac_ID (ca_account right))"

definition selectTopKOpenAICandidates :: "cand list \<Rightarrow> int \<Rightarrow> cand list" where
  "selectTopKOpenAICandidates candidates topK = select_topk isOpenAIAccountCandidateBetter candidates topK"

subsection \<open>The weighted order\<close>

type_synonym rng = "64 word"

definition newOpenAISelectionRNG :: "64 word \<Rightarrow> rng" where
  "newOpenAISelectionRNG seed = (if seed = 0 then 0x9e3779b97f4a7c15 else seed)"

definition nextUint64 :: "rng \<Rightarrow> 64 word \<times> rng" where
  "nextUint64 r =
     (let x = r;
          x = xor x (drop_bit 12 x);
          x = xor x (push_bit 25 x);
          x = xor x (drop_bit 27 x)
      in (x * 2685821657736338717, x))"

definition nextFloat64 :: "rng \<Rightarrow> f64 \<times> rng" where
  "nextFloat64 r = (case nextUint64 r of (x, r') \<Rightarrow> (fdiv (f64_of_int (uint (drop_bit 11 x))) (f64_of_int (2 ^ 53)), r'))"

definition seed_value :: "gostring \<Rightarrow> 64 word \<Rightarrow> 64 word" where
  "seed_value v h = (let t = trim_space v in if t = [] then h else fnv1a_write [CHR 0x00] (fnv1a_write t h))"

text \<open>\<open>t1\<close> and \<open>t2\<close> are the two readings of the clock, in nanoseconds.\<close>

definition deriveOpenAISelectionSeed :: "time \<Rightarrow> time \<Rightarrow> schedule_request \<Rightarrow> 64 word" where
  "deriveOpenAISelectionSeed t1 t2 req =
     (let h = seed_value (sr_RequestedModel req)
                (seed_value (sr_PreviousResponseID req) (seed_value (sr_SessionHash req) fnv_offset64));
          h = (case sr_GroupID req of Some g \<Rightarrow> fnv1a_write (itoa g) h | None \<Rightarrow> h);
          seed = (if trim_space (sr_SessionHash req) = [] \<and> trim_space (sr_PreviousResponseID req) = []
                  then xor h (word_of_int t1) else h)
      in if seed = 0 then xor (word_of_int t2) 0x9e3779b97f4a7c15 else seed)"

definition min_score :: "cand list \<Rightarrow> f64" where
  "min_score pool = fold (\<lambda>c m. if flt (ca_score c) m then ca_score c else m) (tl pool) (ca_score (hd pool))"

definition selection_weight :: "f64 \<Rightarrow> cand \<Rightarrow> f64" where
  "selection_weight minScore c =
     (let weight = fadd (fsub (ca_score c) minScore) (Fin 1)
      in if is_nan weight \<or> is_inf weight \<or> fle weight (Fin 0) then Fin 1 else weight)"

text \<open>The index of the first weight at which the running sum reaches \<open>r\<close>; 0 when it never does.\<close>

fun pick_index :: "f64 \<Rightarrow> f64 \<Rightarrow> nat \<Rightarrow> f64 list \<Rightarrow> nat" where
  "pick_index r acc i [] = 0"
| "pick_index r acc i (w # ws) = (let acc = fadd acc w in if fle r acc then i else pick_index r acc (i + 1) ws)"

definition pick :: "rng \<Rightarrow> (cand \<times> f64) list \<Rightarrow> nat \<times> rng" where
  "pick rng pool =
     (let total = fold (\<lambda>(_, w) t. fadd t w) pool (Fin 0) in
      if flt (Fin 0) total then
        (case nextFloat64 rng of (f, rng') \<Rightarrow> (pick_index (fmul f total) (Fin 0) 0 (map snd pool), rng'))
      else (case nextUint64 rng of (x, rng') \<Rightarrow> (unat x mod length pool, rng')))"

lemma pick_index_less: "i + length ws \<le> n \<Longrightarrow> 0 < n \<Longrightarrow> pick_index r acc i ws < n"
  by (induction ws arbitrary: acc i) (auto simp: Let_def)

lemma pick_less: "pool \<noteq> [] \<Longrightarrow> fst (pick rng pool) < length pool"
  by (auto simp: pick_def Let_def pick_index_less split: prod.splits)

function weighted_loop :: "rng \<Rightarrow> (cand \<times> f64) list \<Rightarrow> cand list" where
  "weighted_loop rng pool =
     (if pool = [] then []
      else case pick rng pool of
        (i, rng') \<Rightarrow> fst (pool ! i) # weighted_loop rng' (take i pool @ drop (i + 1) pool))"
  by auto
termination
proof (relation "measure (\<lambda>(_, pool). length pool)")
  fix rng pool i rng'
  assume "pool \<noteq> []" and "(i, rng') = pick rng pool"
  then have "i < length pool" using pick_less [of pool rng] by (metis fst_conv)
  then show "((rng', take i pool @ drop (i + 1) pool), rng, pool) \<in> measure (\<lambda>(_, pool). length pool)" by simp
qed simp

declare weighted_loop.simps [simp del]

definition buildOpenAIWeightedSelectionOrder :: "time \<Rightarrow> time \<Rightarrow> cand list \<Rightarrow> schedule_request \<Rightarrow> cand list" where
  "buildOpenAIWeightedSelectionOrder t1 t2 candidates req =
     (if length candidates \<le> 1 then candidates
      else let minScore = min_score candidates
           in weighted_loop (newOpenAISelectionRNG (deriveOpenAISelectionSeed t1 t2 req))
                (map (\<lambda>c. (c, selection_weight minScore c)) candidates))"

end
