(* ===== verification/AccountLaws.thy ===== *)
theory AccountLaws
  imports AccountQuota
begin

text \<open>
  Laws of the account component: fixed quota periods end exactly at the next reset, the model mapping does not
  depend on the order Go visits a map, the request-rate zones are ordered, and the web-socket mode stays in
  its range.
\<close>

subsection \<open>Fixed reset times in a zone of constant offset\<close>

definition reset_grid :: "int \<Rightarrow> int \<Rightarrow> int \<Rightarrow> time" where
  "reset_grid off hour k = (k * 86400 + hour * 3600 - off) * Second"

lemma reset_grid_add: "reset_grid off hour k + n * (24 * Hour) = reset_grid off hour (k + n)"
  by (simp add: reset_grid_def duration_defs algebra_simps)

lemma reset_grid_diff: "reset_grid off hour k - n * (24 * Hour) = reset_grid off hour (k - n)"
  by (simp add: reset_grid_def duration_defs algebra_simps)

lemma reset_grid_mono: "reset_grid off hour j \<le> reset_grid off hour k \<longleftrightarrow> j \<le> k"
  by (simp add: reset_grid_def duration_defs)

lemma reset_grid_less: "reset_grid off hour j < reset_grid off hour k \<longleftrightarrow> j < k"
  by (simp add: reset_grid_def duration_defs)

definition local_day :: "int \<Rightarrow> time \<Rightarrow> int" where
  "local_day off t = (t div Second + off) div 86400"

lemma today_at_fixed: "today_at hour (fixed_zone off) t = reset_grid off hour (local_day off t)"
  by (simp add: today_at_def Let_def local_sec_def reset_grid_def local_day_def minus_mod_eq_div_mult)

lemma today_at_bounds:
  assumes "0 \<le> hour" "hour \<le> 23"
  shows "reset_grid off hour (local_day off t - 1) \<le> t" and "t < reset_grid off hour (local_day off t + 1)"
proof -
  define s where "s = t div Second"
  have t: "s * Second \<le> t" "t < (s + 1) * Second" by (auto simp: s_def duration_defs)
  have l: "local_day off t * 86400 \<le> s + off" "s + off < (local_day off t + 1) * 86400"
    by (auto simp: local_day_def s_def)
  have "(local_day off t - 1) * 86400 + hour * 3600 - off \<le> s" using l assms by (simp add: left_diff_distrib)
  then show "reset_grid off hour (local_day off t - 1) \<le> t"
    using t by (simp add: reset_grid_def duration_defs)
  have "s + 1 \<le> (local_day off t + 1) * 86400 + hour * 3600 - off" using l assms by (simp add: distrib_right)
  then show "t < reset_grid off hour (local_day off t + 1)"
    using t by (simp add: reset_grid_def duration_defs)
qed

text \<open>\<open>last_k\<close>: the index of the last reset on the grid of step one day.\<close>

definition last_k :: "int \<Rightarrow> int \<Rightarrow> time \<Rightarrow> int" where
  "last_k off hour t = (if t < reset_grid off hour (local_day off t) then local_day off t - 1 else local_day off t)"

lemma last_k_bounds:
  "0 \<le> hour \<Longrightarrow> hour \<le> 23 \<Longrightarrow>
   reset_grid off hour (last_k off hour t) \<le> t \<and> t < reset_grid off hour (last_k off hour t + 1)"
  using today_at_bounds(1) [of hour off t] today_at_bounds(2) [of hour t off] by (auto simp: last_k_def)

lemma last_k_unique:
  assumes "0 \<le> hour" "hour \<le> 23"
  shows "k \<le> last_k off hour t \<longleftrightarrow> reset_grid off hour k \<le> t"
proof -
  note b = last_k_bounds [OF assms, of off t]
  have "reset_grid off hour k \<le> t" if "k \<le> last_k off hour t"
    using b that by (meson reset_grid_mono order_trans)
  moreover have "t < reset_grid off hour k" if "last_k off hour t < k"
    using b that by (meson reset_grid_mono order.strict_trans2 zless_imp_add1_zle)
  ultimately show ?thesis by force
qed

lemma lastFixedDailyReset_grid:
  "lastFixedDailyReset hour (fixed_zone off) t = reset_grid off hour (last_k off hour t)"
  using reset_grid_add [of off hour _ "- 1"]
  by (auto simp: lastFixedDailyReset_def Let_def today_at_fixed AddDays_fixed last_k_def)

lemma nextFixedDailyReset_grid:
  "nextFixedDailyReset hour (fixed_zone off) t = reset_grid off hour (last_k off hour t + 1)"
  using reset_grid_add [of off hour _ 1]
  by (auto simp: nextFixedDailyReset_def Let_def today_at_fixed AddDays_fixed last_k_def)

subsection \<open>Weeks\<close>

lemma Weekday_grid:
  "0 \<le> hour \<Longrightarrow> hour \<le> 23 \<Longrightarrow> Weekday (fixed_zone off) (reset_grid off hour k) = (k + 4) mod 7"
  by (simp add: Weekday_def local_sec_def reset_grid_def duration_defs)

lemma mod7_pred: "(x - 1) mod 7 = (if x mod 7 = 0 then 6 else x mod 7 - 1)" for x :: int
proof (cases "x mod 7 = 0")
  case True
  then have "x - 1 = 7 * (x div 7 - 1) + 6" by auto
  then show ?thesis
    using True int_mod_pos_eq [of "x - 1" 7 "x div 7 - 1" 6] by simp
next
  case False
  then show ?thesis
    using int_mod_pos_eq [of "x - 1" 7 "x div 7" "x mod 7 - 1"] pos_mod_bound [of 7 x] pos_mod_sign [of 7 x]
    by simp
qed

lemma mod7_neg: "(- x) mod 7 = 6 - (x - 1) mod 7" for x :: int
  using int_mod_pos_eq [of "- x" 7 "- ((x - 1) div 7) - 1" "6 - (x - 1) mod 7"]
    pos_mod_bound [of 7 "x - 1"] pos_mod_sign [of 7 "x - 1"] mult_div_mod_eq [of 7 "x - 1"]
  by (simp add: algebra_simps)

lemma mod7_neg': "(if (- x) mod 7 = 0 then 7 else (- x) mod 7) = 7 - x mod 7" for x :: int
  using pos_mod_bound [of 7 x] by (auto simp: mod7_neg mod7_pred)

definition last_w :: "int \<Rightarrow> int \<Rightarrow> int \<Rightarrow> time \<Rightarrow> int" where
  "last_w off day hour t = last_k off hour t - (last_k off hour t + 4 - day) mod 7"

lemma lastFixedWeeklyReset_grid:
  assumes h: "0 \<le> hour" "hour \<le> 23" and d: "0 \<le> day" "day \<le> 6"
  shows "lastFixedWeeklyReset day hour (fixed_zone off) t = reset_grid off hour (last_w off day hour t)"
proof -
  define k where "k = local_day off t"
  let ?b = "rem ((k + 4) mod 7 - day + 7) 7"
  have b: "?b = (k + 4 - day) mod 7"
    using d by (subst rem_nonneg) (auto simp: mod_simps intro: order_trans [of _ "0 - 6 + 7"])
  have "(if ?b = 0 \<and> t < reset_grid off hour k then 7 else ?b) = k - last_w off day hour t"
  proof (cases "t < reset_grid off hour k")
    case True
    then have "last_k off hour t = k - 1" by (simp add: last_k_def k_def)
    moreover have "(k - 1 + 4 - day) mod 7 = (if (k + 4 - day) mod 7 = 0 then 6 else (k + 4 - day) mod 7 - 1)"
      using mod7_pred [of "k + 4 - day"] by (simp add: algebra_simps)
    ultimately show ?thesis using True b by (simp add: last_w_def)
  next
    case False
    then show ?thesis using b by (simp add: last_w_def last_k_def k_def)
  qed
  then show ?thesis
    using reset_grid_diff [of off hour k "k - last_w off day hour t"]
    by (simp add: lastFixedWeeklyReset_def Let_def today_at_fixed AddDays_fixed Weekday_grid [OF h]
        flip: k_def cong: if_cong split del: if_split)
qed

lemma nextFixedWeeklyReset_grid:
  assumes h: "0 \<le> hour" "hour \<le> 23" and d: "0 \<le> day" "day \<le> 6"
  shows "nextFixedWeeklyReset day hour (fixed_zone off) t = reset_grid off hour (last_w off day hour t + 7)"
proof -
  define k where "k = local_day off t"
  let ?f = "rem (day - (k + 4) mod 7 + 7) 7"
  have f: "?f = (day - (k + 4)) mod 7"
    using d by (subst rem_nonneg) (auto simp: mod_simps intro: order_trans [of _ "0 - 6 + 7"])
  have "(if ?f = 0 \<and> \<not> t < reset_grid off hour k then 7 else ?f) = last_w off day hour t + 7 - k"
  proof (cases "t < reset_grid off hour k")
    case True
    then have "last_k off hour t = k - 1" by (simp add: last_k_def k_def)
    moreover have "(day - (k + 4)) mod 7 = 6 - (k - 1 + 4 - day) mod 7"
      using mod7_neg [of "k + 4 - day"] by (simp add: algebra_simps)
    ultimately show ?thesis using True f by (simp add: last_w_def)
  next
    case False
    moreover have "(if (day - (k + 4)) mod 7 = 0 then 7 else (day - (k + 4)) mod 7) = 7 - (k + 4 - day) mod 7"
      using mod7_neg' [of "k + 4 - day"] by (simp only: minus_diff_eq)
    moreover have "last_k off hour t = k" using False by (simp add: last_k_def k_def)
    ultimately show ?thesis using f by (simp add: last_w_def cong: if_cong split del: if_split)
  qed
  then show ?thesis
    using reset_grid_add [of off hour k "last_w off day hour t + 7 - k"]
    by (simp add: nextFixedWeeklyReset_def Let_def today_at_fixed AddDays_fixed Weekday_grid [OF h]
        flip: k_def cong: if_cong split del: if_split)
qed

lemma last_w_le: "last_w off day hour t \<le> last_k off hour t \<and> last_k off hour t < last_w off day hour t + 7"
  by (auto simp: last_w_def add.commute less_diff_eq algebra_simps intro: pos_mod_bound)

lemma last_w_Weekday:
  assumes "0 \<le> hour" "hour \<le> 23" "0 \<le> day" "day \<le> 6"
  shows "Weekday (fixed_zone off) (reset_grid off hour (last_w off day hour t)) = day"
proof -
  let ?k = "last_k off hour t"
  have "(last_w off day hour t + 4) mod 7 = ((?k + 4) - (?k + 4 - day) mod 7) mod 7"
    by (simp add: last_w_def algebra_simps)
  also have "\<dots> = ((?k + 4) - (?k + 4 - day)) mod 7" by (simp only: mod_diff_right_eq)
  also have "\<dots> = day" using assms by simp
  finally show ?thesis using assms by (simp add: Weekday_grid)
qed

text \<open>The grid points of one week before and after: a reset of that weekday between two of them is one of them.\<close>

lemma last_w_mod: "(last_w off day hour t + 4 - day) mod 7 = 0"
proof -
  have "(last_w off day hour t + 4 - day) mod 7 =
      ((last_k off hour t + 4 - day) - (last_k off hour t + 4 - day) mod 7) mod 7"
    by (simp add: last_w_def algebra_simps)
  also have "\<dots> = 0" by (simp add: mod_diff_right_eq)
  finally show ?thesis .
qed

lemma week_grid_gap:
  fixes j k day :: int
  assumes "(j + 4 - day) mod 7 = 0" "(k + 4 - day) mod 7 = 0"
  shows "j < k \<longleftrightarrow> j + 7 \<le> k"
proof -
  from assms have "7 dvd (k + 4 - day) - (j + 4 - day)" by (simp only: mod_eq_0_iff_dvd dvd_diff)
  then have "7 dvd k - j" by (simp add: algebra_simps)
  then obtain n where "k - j = 7 * n" by (elim dvdE)
  then have "j < k \<longleftrightarrow> 1 \<le> n" "j + 7 \<le> k \<longleftrightarrow> 1 \<le> n" by arith+
  then show ?thesis by simp
qed

subsection \<open>Claims on fixed periods\<close>

text \<open>
  In a time zone of constant offset and for a valid configuration the fixed reset times bracket the
  current time: the last one is not after it, the next one is after it, they are one day (one week) apart,
  and the weekly one falls on the configured weekday.
\<close>

theorem fixed_resets_bracket_now:
  assumes "0 \<le> hour" "hour \<le> 23" "0 \<le> day" "day \<le> 6" and tz_def: "tz = fixed_zone off"
  shows "lastFixedDailyReset hour tz now \<le> now \<and> now < nextFixedDailyReset hour tz now
    \<and> nextFixedDailyReset hour tz now = lastFixedDailyReset hour tz now + 24 * Hour
    \<and> lastFixedWeeklyReset day hour tz now \<le> now \<and> now < nextFixedWeeklyReset day hour tz now
    \<and> nextFixedWeeklyReset day hour tz now = lastFixedWeeklyReset day hour tz now + 7 * (24 * Hour)
    \<and> Weekday tz (lastFixedWeeklyReset day hour tz now) = day"
proof -
  note h = assms(1,2)
  have "reset_grid off hour (last_w off day hour now) \<le> now"
    using last_w_le [of off day hour now] by (simp flip: last_k_unique [OF h])
  moreover have "now < reset_grid off hour (last_w off day hour now + 7)"
    using last_w_le [of off day hour now] last_k_unique [OF h, of "last_w off day hour now + 7" off now]
    by (simp add: not_le)
  ultimately show ?thesis
    using last_k_bounds [OF h, of off now] reset_grid_add [of off hour "last_k off hour now" 1]
      reset_grid_add [of off hour "last_w off day hour now" 7]
    by (simp add: tz_def assms(1-4) lastFixedDailyReset_grid nextFixedDailyReset_grid
        lastFixedWeeklyReset_grid nextFixedWeeklyReset_grid last_w_Weekday)
qed

theorem fixed_resets_bracket_now_witness:
  "\<exists>now tz. lastFixedDailyReset 9 tz now \<le> now \<and> Weekday tz (lastFixedWeeklyReset 1 9 tz now) = 1"
  using fixed_resets_bracket_now [of 9 1 "fixed_zone 28800" 28800 1700000000000000000] by auto


definition demo_lib :: acct_lib where
  "demo_lib = \<lparr>al_ParseFloat = (\<lambda>s. map_option f64_of_int (parse_int64 s)), al_ParseTime = (\<lambda>_ _. None),
     al_FormatTime = (\<lambda>_ _. []), al_LoadLocation = (\<lambda>n. if n = ''UTC'' then Some UTC else None), al_ToLower = id\<rparr>"

definition demo_account :: "any_map \<Rightarrow> any_map \<Rightarrow> account" where
  "demo_account credentials extra =
     \<lparr>ac_ID = 1, ac_Name = ''a'', ac_Notes = None, ac_Platform = PlatformOpenAI, ac_Type = AccountTypeOAuth,
      ac_Credentials = Some credentials, ac_Extra = Some extra, ac_ProxyID = None, ac_Concurrency = 3, ac_Priority = 1,
      ac_RateMultiplier = None, ac_LoadFactor = None, ac_Status = StatusActive, ac_ErrorMessage = [],
      ac_LastUsedAt = None, ac_ExpiresAt = None, ac_AutoPauseOnExpired = False, ac_CreatedAt = 0, ac_UpdatedAt = 0,
      ac_Schedulable = True, ac_RateLimitedAt = None, ac_RateLimitResetAt = None, ac_OverloadUntil = None,
      ac_TempUnschedulableUntil = None, ac_TempUnschedulableReason = [], ac_SessionWindowStart = None,
      ac_SessionWindowEnd = None, ac_SessionWindowStatus = []\<rparr>"

lemmas quota_getter_defs = GetQuotaDailyResetHour_def GetQuotaWeeklyResetHour_def GetQuotaWeeklyResetDay_def
  GetQuotaResetTimezone_def getExtraInt_def getExtraString_def lookup_def


subsection \<open>The model mapping\<close>

definition pattern_key :: "gostring \<times> gostring \<Rightarrow> int \<times> gostring" where
  "pattern_key m = (- int (length (fst m)), fst m)"

interpretation longest: keyed_better pattern_before pattern_key UNIV
  by unfold_locales (auto simp: pattern_before_def pattern_key_def less_prod_def)

lemma pattern_key_inj: "distinct (map fst mapping) \<Longrightarrow> inj_on pattern_key (set mapping)"
  by (auto simp: distinct_map pattern_key_def inj_on_def)

lemma matchWildcard_refl [simp]: "matchWildcard m m"
  by (auto simp: matchWildcard_def matchAntigravityWildcard_def take_is_prefix)

text \<open>The entry a wildcard lookup picks: the least one in the order of the comparison.\<close>

lemma matchWildcardMappingResult_least:
  assumes "distinct (map fst mapping)" and r: "matchWildcardMappingResult mapping m = (t, True)"
  shows "\<exists>p. (p, t) \<in> set mapping \<and> matchWildcard p m
    \<and> (\<forall>(q, u) \<in> set mapping. matchWildcard q m \<longrightarrow> pattern_key (p, t) \<le> pattern_key (q, u))"
proof -
  let ?ms = "filter (\<lambda>(pattern, _). matchWildcard pattern m) mapping"
  let ?s = "sort_slice pattern_before ?ms"
  have ne: "?ms \<noteq> []" and t: "t = snd (?s ! 0)"
    using r by (auto simp: matchWildcardMappingResult_def Let_def split: if_splits)
  have set_s: "set ?s = set ?ms" by simp
  then have "?s \<noteq> []" using ne by (metis set_empty)
  then obtain p rest where s: "?s = (p, t) # rest" using t by (cases ?s) auto
  have "sorted (map pattern_key ?s)" by (rule longest.sort_slice_sorted) simp
  then have "\<forall>e \<in> set ?s. pattern_key (p, t) \<le> pattern_key e" by (auto simp: s)
  moreover have "(p, t) \<in> set ?ms" using s set_s by (metis list.set_intros(1))
  ultimately show ?thesis unfolding set_s by auto
qed

lemma matchWildcardMappingResult_True:
  "snd (matchWildcardMappingResult mapping m) \<longleftrightarrow> (\<exists>(p, t) \<in> set mapping. matchWildcard p m)"
  by (auto simp: matchWildcardMappingResult_def Let_def filter_empty_conv)

lemma resolve_iff_supported:
  "snd (resolveRequestedModelInMapping mapping m) \<longleftrightarrow> mappingSupportsRequestedModel mapping m"
  by (auto simp: resolveRequestedModelInMapping_def mappingSupportsRequestedModel_def matchWildcardMappingResult_True
      list_ex_iff simp flip: map_of_eq_None_iff split: option.splits) (use matchWildcard_refl in \<open>blast dest: map_of_SomeD\<close>)+

lemma mapping_order_irrelevant:
  assumes d: "distinct (map fst m1)" and p: "mset m1 = mset m2"
  shows "resolveRequestedModelInMapping m1 m = resolveRequestedModelInMapping m2 m"
proof -
  let ?P = "\<lambda>(pattern, _). matchWildcard pattern m"
  have d2: "distinct (map fst m2)" using d p by (metis mset_map mset_eq_imp_distinct_iff)
  have "map_of m1 = map_of m2" using d d2 p by (metis map_of_inject_set set_mset_mset)
  moreover have "sort_slice pattern_before (filter ?P m1) = sort_slice pattern_before (filter ?P m2)"
    by (rule longest.sort_slice_unique)
       (use p d in \<open>auto simp: mset_filter longest.sort_slice_sorted intro: inj_on_subset [OF pattern_key_inj [OF d]]\<close>)
  moreover have "filter ?P m1 = [] \<longleftrightarrow> filter ?P m2 = []"
    using p by (metis mset_eq_setD filter_empty_conv)
  ultimately have "matchWildcardMappingResult m1 m = matchWildcardMappingResult m2 m"
    by (simp add: matchWildcardMappingResult_def Let_def)
  then show ?thesis using \<open>map_of m1 = map_of m2\<close> by (simp add: resolveRequestedModelInMapping_def split: option.split)
qed

lemma distinct_string_entries: "distinct (map fst m) \<Longrightarrow> distinct (map fst (string_entries m))"
proof (induction m)
  case (Cons e m)
  moreover have "fst ` set (string_entries m) \<subseteq> fst ` set m"
    by (force simp: string_entries_def map_filter_def split: jany.splits)
  ultimately show ?case
    by (cases e; cases "snd e") (auto simp: string_entries_def map_filter_simps)
qed (simp add: string_entries_def map_filter_simps)

lemma mset_string_entries: "mset m1 = mset m2 \<Longrightarrow> mset (string_entries m1) = mset (string_entries m2)"
  by (simp add: string_entries_def map_filter_def)

lemma passthrough_distinct: "distinct (map fst m) \<Longrightarrow> distinct (map fst (ensureAntigravityDefaultPassthroughs ms m))"
  unfolding ensureAntigravityDefaultPassthroughs_def
  by (induction ms arbitrary: m) (auto simp: ensureAntigravityDefaultPassthrough_def)

lemma passthrough_mset1:
  assumes "mset m1 = mset m2"
  shows "mset (ensureAntigravityDefaultPassthrough x m1) = mset (ensureAntigravityDefaultPassthrough x m2)"
  using assms mset_eq_setD [OF assms] by (simp add: ensureAntigravityDefaultPassthrough_def)

lemma passthrough_mset:
  "mset m1 = mset m2 \<Longrightarrow>
   mset (ensureAntigravityDefaultPassthroughs ms m1) = mset (ensureAntigravityDefaultPassthroughs ms m2)"
  unfolding ensureAntigravityDefaultPassthroughs_def
proof (induction ms arbitrary: m1 m2)
  case (Cons x ms)
  show ?case using Cons.IH [OF passthrough_mset1 [OF Cons.prems]] by simp
qed simp

lemma distinct_default_mapping: "distinct (map fst DefaultAntigravityModelMapping)"
  by (simp add: DefaultAntigravityModelMapping_def)

lemma GetModelMapping_distinct:
  "distinct (map fst (raw_model_mapping a)) \<Longrightarrow> distinct (map fst (GetModelMapping a))"
  by (simp add: GetModelMapping_def resolveModelMapping_def Let_def distinct_default_mapping
      distinct_string_entries passthrough_distinct)

lemma GetModelMapping_mset:
  assumes "ac_Platform b = ac_Platform a" "ac_Credentials b = None \<longleftrightarrow> ac_Credentials a = None"
    "mset (raw_model_mapping b) = mset (raw_model_mapping a)"
  shows "mset (GetModelMapping b) = mset (GetModelMapping a)"
proof -
  have "mset (string_entries (raw_model_mapping b)) = mset (string_entries (raw_model_mapping a))"
    using assms(3) by (rule mset_string_entries)
  moreover from this have "string_entries (raw_model_mapping b) = [] \<longleftrightarrow> string_entries (raw_model_mapping a) = []"
    by (metis mset_zero_iff)
  moreover have "raw_model_mapping b = [] \<longleftrightarrow> raw_model_mapping a = []" using assms(3) by (metis mset_zero_iff)
  ultimately show ?thesis
    using assms(1,2) passthrough_mset [OF mset_string_entries [OF assms(3)]]
    by (simp add: GetModelMapping_def resolveModelMapping_def Let_def)
qed

lemma resolve_picks:
  assumes d: "distinct (map fst mapping)" and r: "resolveRequestedModelInMapping mapping n = (t, True)"
  shows "\<exists>p. (p, t) \<in> set mapping \<and> matchWildcard p n \<and> (n \<in> fst ` set mapping \<longrightarrow> p = n)
    \<and> (\<forall>(q, _) \<in> set mapping. matchWildcard q n \<longrightarrow> p = n \<or> length q \<le> length p)"
proof (cases "map_of mapping n")
  case None
  then have "matchWildcardMappingResult mapping n = (t, True)"
    using r by (simp add: resolveRequestedModelInMapping_def split: if_splits)
  from matchWildcardMappingResult_least [OF d this] None show ?thesis
    by (fastforce simp: pattern_key_def less_eq_prod_def map_of_eq_None_iff)
next
  case (Some u)
  then have "(n, t) \<in> set mapping"
    using r by (auto simp: resolveRequestedModelInMapping_def split: if_splits dest: map_of_SomeD)
  then show ?thesis by auto
qed



subsection \<open>Request-rate zones\<close>

definition zone_rank :: "WindowCostSchedulability \<Rightarrow> nat" where
  "zone_rank z = (case z of WindowCostSchedulable \<Rightarrow> 0 | WindowCostStickyOnly \<Rightarrow> 1 | WindowCostNotSchedulable \<Rightarrow> 2)"

lemma GetRPMStickyBuffer_pos: "0 < GetBaseRPM a \<Longrightarrow> 1 \<le> GetRPMStickyBuffer a"
  by (auto simp: GetRPMStickyBuffer_def GetBaseRPM_def rpm_override_def lookup_def Let_def split: option.splits if_splits)

text \<open>
  The request-rate zones of an account with a base rate and a tiered strategy, when base plus buffer fits
  in an \<open>int\<close>: below the base rate it is free, then follows a non-empty zone for sticky sessions only, beyond it
  nothing is scheduled; more requests never lead to a freer zone.
\<close>

theorem rpm_zones:
  assumes b: "0 < GetBaseRPM a" and t: "GetRPMStrategy a = ''tiered''" and fit: "in_int64 (GetBaseRPM a + GetRPMStickyBuffer a)"
  shows "(CheckRPMSchedulability a n = WindowCostSchedulable \<longleftrightarrow> n < GetBaseRPM a)
    \<and> (CheckRPMSchedulability a n = WindowCostNotSchedulable \<longleftrightarrow> GetBaseRPM a + GetRPMStickyBuffer a \<le> n)
    \<and> CheckRPMSchedulability a (GetBaseRPM a) = WindowCostStickyOnly
    \<and> (m \<le> n \<longrightarrow> zone_rank (CheckRPMSchedulability a m) \<le> zone_rank (CheckRPMSchedulability a n))"
  using b GetRPMStickyBuffer_pos [OF b]
  by (auto simp: CheckRPMSchedulability_def Let_def t wrap64_id [OF fit] zone_rank_def)

theorem rpm_zones_witness:
  "CheckRPMSchedulability (demo_account [] [(''base_rpm'', JInt 10), (''max_sessions'', JInt 4)]) 16 = WindowCostStickyOnly
   \<and> CheckRPMSchedulability (demo_account [] [(''base_rpm'', JInt 10), (''max_sessions'', JInt 4)]) 17 = WindowCostNotSchedulable"
proof -
  let ?a = "demo_account [] [(''base_rpm'', JInt 10), (''max_sessions'', JInt 4)]"
  have b: "GetBaseRPM ?a = 10"
    by (simp add: GetBaseRPM_def demo_account_def lookup_def parseExtraInt_def parse_any_int_def)
  have c: "GetRPMStickyBuffer ?a = 7"
    by (simp add: GetRPMStickyBuffer_def GetBaseRPM_def rpm_override_def Let_def GetMaxSessions_def demo_account_def lookup_def
        parseExtraInt_def parse_any_int_def quot_def wrap64_def)
  have t: "GetRPMStrategy ?a = ''tiered''" by (simp add: GetRPMStrategy_def demo_account_def lookup_def)
  have "in_int64 (GetBaseRPM ?a + GetRPMStickyBuffer ?a)" by (simp add: b c in_int64_def min_int64_def max_int64_def)
  from rpm_zones [OF _ t this, of 17] rpm_zones [OF _ t this, of 16] show ?thesis
    by (cases "CheckRPMSchedulability ?a 16") (simp_all add: b c)
qed

subsection \<open>Web-socket mode\<close>

lemma normalizeOpenAIWSIngressMode_range:
  "normalizeOpenAIWSIngressMode lib m \<in> {[], OpenAIWSIngressModeOff, OpenAIWSIngressModeCtxPool,
     OpenAIWSIngressModePassthrough, OpenAIWSIngressModeShared, OpenAIWSIngressModeDedicated}"
  by (simp add: normalizeOpenAIWSIngressMode_def Let_def)

lemma resolveBoolMode_range: "resolveBoolMode a k = Some m \<Longrightarrow> m \<in> {OpenAIWSIngressModeOff, OpenAIWSIngressModeCtxPool}"
  by (auto simp: resolveBoolMode_def split: option.splits jany.splits)

lemma resolveModeString_range:
  "resolveModeString lib a k = Some m \<Longrightarrow> m \<in> {OpenAIWSIngressModeOff, OpenAIWSIngressModeCtxPool,
     OpenAIWSIngressModePassthrough, OpenAIWSIngressModeShared, OpenAIWSIngressModeDedicated}"
  using normalizeOpenAIWSIngressMode_range [of lib]
  by (force simp: resolveModeString_def Let_def split: option.splits jany.splits if_splits)

lemma first_some_in: "first_some xs = Some x \<Longrightarrow> Some x \<in> set xs"
  by (induction xs rule: first_some.induct) (auto split: option.splits)

lemma default_mode_range:
  "normalizeOpenAIWSIngressDefaultMode lib m \<in> {OpenAIWSIngressModeOff, OpenAIWSIngressModeCtxPool, OpenAIWSIngressModePassthrough}"
  using normalizeOpenAIWSIngressMode_range [of lib m]
  by (auto simp: normalizeOpenAIWSIngressDefaultMode_def Let_def)

definition typed_mode_key :: "account \<Rightarrow> gostring" where
  "typed_mode_key a = (if IsOpenAIOAuth a then ''openai_oauth_responses_websockets_v2_mode''
                       else ''openai_apikey_responses_websockets_v2_mode'')"

text \<open>The values the mode is taken from, in the order the code tries them.\<close>

definition ws_candidates :: "acct_lib \<Rightarrow> account \<Rightarrow> gostring option list" where
  "ws_candidates lib a =
     (if IsOpenAIOAuth a
      then [resolveModeString lib a ''openai_oauth_responses_websockets_v2_mode'',
            resolveBoolMode a ''openai_oauth_responses_websockets_v2_enabled''] else [])
     @ (if IsOpenAIApiKey a
        then [resolveModeString lib a ''openai_apikey_responses_websockets_v2_mode'',
              resolveBoolMode a ''openai_apikey_responses_websockets_v2_enabled''] else [])
     @ [resolveBoolMode a ''responses_websockets_v2_enabled'', resolveBoolMode a ''openai_ws_enabled'']"

lemma ws_one_kind: "\<not> (IsOpenAIOAuth a \<and> IsOpenAIApiKey a)"
  by (simp add: IsOpenAIOAuth_def IsOpenAIApiKey_def account_const_defs)

lemma ws_mode_first:
  assumes "IsOpenAI a" "ac_Extra a \<noteq> None"
  shows "ResolveOpenAIResponsesWebSocketV2Mode lib (Some a) dflt =
    (case first_some (ws_candidates lib a) of Some m \<Rightarrow> m | None \<Rightarrow> normalizeOpenAIWSIngressDefaultMode lib dflt)"
  using assms default_mode_range [of lib dflt]
  by (auto simp: ResolveOpenAIResponsesWebSocketV2Mode_def Let_def ws_mode_defs simp flip: ws_candidates_def
      split: option.splits)

lemma ws_mode_picked:
  assumes "first_some (ws_candidates lib a) = Some m"
  shows "m \<in> {OpenAIWSIngressModeOff, OpenAIWSIngressModeCtxPool} \<or> resolveModeString lib a (typed_mode_key a) = Some m"
proof -
  have "set (ws_candidates lib a) \<subseteq> insert (resolveModeString lib a (typed_mode_key a)) (range (resolveBoolMode a))"
    using ws_one_kind [of a] by (auto simp: ws_candidates_def typed_mode_key_def)
  then show ?thesis
    using first_some_in [OF assms] resolveBoolMode_range [of a _ m] by (metis image_iff insert_iff subsetD)
qed

lemma ws_typed_first:
  "IsOpenAIOAuth a \<or> IsOpenAIApiKey a \<Longrightarrow> resolveModeString lib a (typed_mode_key a) = Some m
   \<Longrightarrow> first_some (ws_candidates lib a) = Some m"
  using ws_one_kind [of a] by (auto simp: ws_candidates_def typed_mode_key_def)

text \<open>
  C32: the effective web-socket mode is off, context pool or passthrough, for every stored value and every
  default; the legacy modes shared and dedicated come out only when the field for the account's own type
  stores them, and then they come out unfolded. Accounts of another platform are off.
\<close>

theorem ws_mode_range:
  "let mode = ResolveOpenAIResponsesWebSocketV2Mode lib acc dflt in
   (mode \<in> {OpenAIWSIngressModeOff, OpenAIWSIngressModeCtxPool, OpenAIWSIngressModePassthrough}
     \<or> (\<exists>a. acc = Some a \<and> mode \<in> {OpenAIWSIngressModeShared, OpenAIWSIngressModeDedicated}
            \<and> resolveModeString lib a (typed_mode_key a) = Some mode))
   \<and> (\<forall>a. acc = Some a \<and> (IsOpenAIOAuth a \<or> IsOpenAIApiKey a)
        \<and> resolveModeString lib a (typed_mode_key a) = Some OpenAIWSIngressModeShared \<longrightarrow> mode = OpenAIWSIngressModeShared)
   \<and> (\<forall>a. acc = Some a \<and> \<not> IsOpenAI a \<longrightarrow> mode = OpenAIWSIngressModeOff)"
proof (cases acc)
  case None
  then show ?thesis by (simp add: ResolveOpenAIResponsesWebSocketV2Mode_def Let_def)
next
  case (Some a)
  show ?thesis
  proof (cases "IsOpenAI a \<and> ac_Extra a \<noteq> None")
    case False
    then show ?thesis
      using default_mode_range [of lib dflt]
      by (auto simp: Some ResolveOpenAIResponsesWebSocketV2Mode_def Let_def resolveModeString_def lookup_def
          IsOpenAIOAuth_def IsOpenAIApiKey_def)
  next
    case True
    let ?mode = "ResolveOpenAIResponsesWebSocketV2Mode lib acc dflt"
    have mode: "?mode = (case first_some (ws_candidates lib a) of Some m \<Rightarrow> m | None \<Rightarrow> normalizeOpenAIWSIngressDefaultMode lib dflt)"
      unfolding Some using True by (intro ws_mode_first) simp_all
    have "?mode \<in> {OpenAIWSIngressModeOff, OpenAIWSIngressModeCtxPool, OpenAIWSIngressModePassthrough}
        \<or> ?mode \<in> {OpenAIWSIngressModeShared, OpenAIWSIngressModeDedicated}
          \<and> resolveModeString lib a (typed_mode_key a) = Some ?mode"
    proof (cases "first_some (ws_candidates lib a)")
      case None
      then show ?thesis using mode default_mode_range [of lib dflt] by simp
    next
      case (Some m)
      with ws_mode_picked [OF this] resolveModeString_range [of lib a "typed_mode_key a" m] show ?thesis
        unfolding mode by auto
    qed
    then show ?thesis using True ws_typed_first [of a lib] mode by (auto simp: Some Let_def)
  qed
qed

theorem ws_mode_range_witness:
  "let mode = ResolveOpenAIResponsesWebSocketV2Mode demo_lib
       (Some (demo_account [] [(''openai_oauth_responses_websockets_v2_mode'', JStr ''shared'')])) ''off''
   in mode = ''shared''"
proof -
  let ?a = "demo_account [] [(''openai_oauth_responses_websockets_v2_mode'', JStr ''shared'')]"
  have o: "IsOpenAIOAuth ?a" by (simp add: IsOpenAIOAuth_def IsOpenAI_def demo_account_def)
  have "trim_space ''shared'' = ''shared''"
    by (rule trim_space_printable) (simp_all add: printable_def)
  then have "resolveModeString demo_lib ?a (typed_mode_key ?a) = Some OpenAIWSIngressModeShared"
    using o by (simp add: resolveModeString_def typed_mode_key_def demo_account_def lookup_def demo_lib_def
        normalizeOpenAIWSIngressMode_def ws_mode_defs)
  with o show ?thesis using ws_mode_range [of demo_lib "Some ?a" "''off''"]
    by (simp add: Let_def OpenAIWSIngressModeShared_def)
qed

end
