(* ===== verification/OpenAISchedulerLaws.thy ===== *)
theory OpenAISchedulerLaws
  imports OpenAIScheduler AccountLaws
begin

text \<open>
  Laws of the scheduler: the weighted order is a rearrangement of the candidates and, for an anchored session,
  a function of the request; the generator stays in its range and never dies; the statistics stay within their
  bounds; scores are never NaN, so the order of candidates is total and the selected ones are the best \<open>k\<close>.
\<close>

subsection \<open>The weighted order\<close>

lemma weighted_loop_mset: "mset (weighted_loop rng pool) = mset (map fst pool)"
proof (induction rng pool rule: weighted_loop.induct)
  case (1 rng pool)
  show ?case
  proof (cases "pool = []")
    case True
    then show ?thesis by (simp add: weighted_loop.simps)
  next
    case False
    obtain i rng' where p: "pick rng pool = (i, rng')" by fastforce
    then have i: "i < length pool" using pick_less [OF False, of rng] by simp
    have "pool = take i pool @ pool ! i # drop (Suc i) pool" using i by (rule id_take_nth_drop)
    then have "mset (map fst pool) = add_mset (fst (pool ! i)) (mset (map fst (take i pool @ drop (i + 1) pool)))"
      by (metis (no_types, lifting) Suc_eq_plus1 list.simps(9) map_append mset.simps(2) mset_append union_mset_add_mset_right)
    then show ?thesis using 1 [OF False p [symmetric]] False p by (subst weighted_loop.simps) simp
  qed
qed

definition request_hash :: "schedule_request \<Rightarrow> 64 word" where
  "request_hash req =
     (let h = seed_value (sr_RequestedModel req)
                (seed_value (sr_PreviousResponseID req) (seed_value (sr_SessionHash req) fnv_offset64))
      in case sr_GroupID req of Some g \<Rightarrow> fnv1a_write (itoa g) h | None \<Rightarrow> h)"

lemma seed_anchored:
  "trim_space (sr_SessionHash req) \<noteq> [] \<or> trim_space (sr_PreviousResponseID req) \<noteq> [] \<Longrightarrow> request_hash req \<noteq> 0 \<Longrightarrow>
   deriveOpenAISelectionSeed t1 t2 req = request_hash req"
  by (auto simp: deriveOpenAISelectionSeed_def request_hash_def Let_def split: option.splits)

text \<open>
  The weighted random order of the candidates contains each of them exactly as often as the input, and
  for a request with a session or a previous response, whose hash is not zero, it does not depend on the
  clock: repeating the request gives the same order.
\<close>

theorem weighted_order_permutes:
  "mset (buildOpenAIWeightedSelectionOrder t1 t2 cs req) = mset cs
   \<and> ((trim_space (sr_SessionHash req) \<noteq> [] \<or> trim_space (sr_PreviousResponseID req) \<noteq> []) \<and> request_hash req \<noteq> 0 \<longrightarrow>
      buildOpenAIWeightedSelectionOrder t1 t2 cs req = buildOpenAIWeightedSelectionOrder t1' t2' cs req)"
  by (simp add: buildOpenAIWeightedSelectionOrder_def Let_def weighted_loop_mset comp_def seed_anchored)

subsection \<open>Numbers of the unit interval\<close>

definition unit01 :: "f64 \<Rightarrow> bool" where
  "unit01 x \<longleftrightarrow> (\<exists>r. x = Fin r \<and> 0 \<le> r \<and> r \<le> 1)"

lemma f64_of_rat_unit:
  assumes "0 \<le> q" "q \<le> 1" shows "f64_of_rat q = Fin (rnd q) \<and> 0 \<le> rnd q \<and> rnd q \<le> 1"
proof -
  have r: "0 \<le> rnd q" "rnd q \<le> 1"
    using rnd_nonneg [OF assms(1)] rnd_mono [OF assms(2)] rnd_of_int [of 1] by simp_all
  have "(1 :: rat) < 2 powi 1024" using powi2_less_iff [of 0 1024] by (simp only: power_int_0_right)
  then have "\<not> 2 powi 1024 \<le> rnd q" "\<not> rnd q \<le> - (2 powi 1024)" using r by linarith+
  then show ?thesis using r unfolding f64_of_rat_def Let_def by simp
qed

lemma unit01_of_rat: "0 \<le> q \<Longrightarrow> q \<le> 1 \<Longrightarrow> unit01 (f64_of_rat q)"
  using f64_of_rat_unit [of q] by (auto simp: unit01_def)

lemma unit01_compl: "unit01 x \<Longrightarrow> unit01 (fsub (Fin 1) x)"
  by (auto simp: fsub_def unit01_def intro!: unit01_of_rat [unfolded unit01_def])

lemma unit01_clamp: "x \<noteq> NaN \<Longrightarrow> unit01 (clamp01 x)"
  by (cases x) (auto simp: clamp01_def unit01_def)

lemma unit01_simps [simp]: "unit01 (Fin 0)" "unit01 (Fin 1)" "unit01 (Fin (1 / 2))" "\<not> unit01 NaN"
  unfolding unit01_def by (simp_all add: exI [of _ "1 / 2"])

lemma clamp01_unit: "unit01 x \<Longrightarrow> clamp01 x = x"
  by (auto simp: clamp01_def unit01_def)

subsection \<open>The generator\<close>

lemma xor_0D: "xor x y = 0 \<Longrightarrow> y = x" for x y :: "64 word"
proof (rule bit_eqI)
  fix n assume "xor x y = 0"
  then have "\<not> bit (xor x y) n" by simp
  then show "bit y n \<longleftrightarrow> bit x n" by (simp add: bit_xor_iff)
qed

lemma xorshift_right:
  fixes x :: "64 word" assumes "xor x (drop_bit k x) = 0" "11 \<le> k" shows "x = 0"
proof -
  from assms(1) have s: "drop_bit k x = x" by (rule xor_0D)
  have "x = drop_bit k (drop_bit k (drop_bit k (drop_bit k (drop_bit k (drop_bit k x)))))" by (simp only: s)
  also have "\<dots> = drop_bit (k + (k + (k + (k + (k + k))))) x" by (simp only: drop_bit_drop_bit)
  also have "\<dots> = 0"
    by (rule bit_eqI) (use assms(2) in \<open>auto simp: bit_drop_bit_eq dest!: bit_imp_le_length\<close>)
  finally show ?thesis .
qed

lemma xorshift_left:
  fixes x :: "64 word" assumes "xor x (push_bit k x) = 0" "22 \<le> k" shows "x = 0"
proof -
  from assms(1) have s: "push_bit k x = x" by (rule xor_0D)
  have "x = push_bit k (push_bit k (push_bit k x))" by (simp only: s)
  also have "\<dots> = push_bit (k + (k + k)) x" by (simp only: push_bit_push_bit)
  also have "\<dots> = 0"
    by (rule bit_eqI) (use assms(2) in \<open>auto simp: bit_push_bit_iff dest!: bit_imp_le_length\<close>)
  finally show ?thesis .
qed

lemma nextUint64_alive:
  assumes "r \<noteq> 0" shows "snd (nextUint64 r) \<noteq> 0"
proof -
  define a where "a = xor r (drop_bit 12 r)"
  define b where "b = xor a (push_bit 25 a)"
  define c where "c = xor b (drop_bit 27 b)"
  have "a \<noteq> 0" using assms xorshift_right [of r 12] unfolding a_def by linarith
  then have "b \<noteq> 0" using xorshift_left [of a 25] unfolding b_def by linarith
  then have "c \<noteq> 0" using xorshift_right [of b 27] unfolding c_def by linarith
  then show ?thesis unfolding nextUint64_def Let_def snd_conv a_def [symmetric] b_def [symmetric] c_def [symmetric] .
qed

lemma newRNG_alive: "newOpenAISelectionRNG seed \<noteq> 0"
  by (simp add: newOpenAISelectionRNG_def)

lemma drop_bit_11_bound: "uint (drop_bit 11 x) < 2 ^ 53" for x :: "64 word"
  using uint_bounded [of x] by (simp add: drop_bit_eq_div uint_div_distrib)

lemma representable_53:
  assumes "0 \<le> x" "x < 2 ^ 53" shows "representable (of_int x / of_int (2 ^ 53))"
  unfolding representable_def
proof (intro exI conjI)
  show "of_int x / of_int (2 ^ 53) = of_int x * (2 :: rat) powi (- 53)"
    by (simp only: power_int_minus power_int_numeral divide_inverse of_int_power of_int_numeral)
  show "\<bar>x\<bar> \<le> 2 ^ 53" using assms by simp
  show "- 1074 \<le> (- 53 :: int)" by simp
qed

text \<open>
  The generator of the weighted order yields numbers in the half-open unit interval, whatever its state,
  and its state is never the fixed point zero, from the first seed on.
\<close>

theorem rng_in_unit_interval:
  "(\<exists>q. fst (nextFloat64 r) = Fin q \<and> 0 \<le> q \<and> q < 1)
   \<and> newOpenAISelectionRNG seed \<noteq> 0 \<and> (r \<noteq> 0 \<longrightarrow> snd (nextFloat64 r) \<noteq> 0 \<and> snd (nextUint64 r) \<noteq> 0)"
proof -
  define x where "x = uint (drop_bit 11 (fst (nextUint64 r)))"
  have x: "0 \<le> x" "x < 2 ^ 53" using drop_bit_11_bound by (auto simp: x_def)
  let ?q = "of_int x / of_int (2 ^ 53) :: rat"
  have rep: "representable ?q" using x by (rule representable_53)
  have q: "0 \<le> ?q" "?q < 1" using x by (simp_all add: divide_less_eq)
  have "f64_of_int x = Fin (of_int x)" "f64_of_int (2 ^ 53) = Fin (of_int (2 ^ 53))"
    using x by (simp_all only: f64_of_int_small abs_of_nonneg less_imp_le zero_le_power order_refl)
  then have "fst (nextFloat64 r) = f64_of_rat ?q"
    by (cases "nextUint64 r") (simp add: nextFloat64_def x_def)
  also have "\<dots> = Fin ?q"
    using f64_of_rat_unit [of ?q] q rnd_representable [OF rep] by simp
  finally have "\<exists>q. fst (nextFloat64 r) = Fin q \<and> 0 \<le> q \<and> q < 1" using q by blast
  then show ?thesis
    using nextUint64_alive [of r] newRNG_alive [of seed] by (auto simp: nextFloat64_def split: prod.splits)
qed

subsection \<open>Runtime statistics\<close>

definition stats_ok :: "runtime_stats \<Rightarrow> bool" where
  "stats_ok s \<longleftrightarrow> finite (dom (rt_accounts s)) \<and> rt_accountCount s = wrap64 (int (card (dom (rt_accounts s))))
     \<and> (\<forall>st \<in> ran (rt_accounts s). unit01 (rs_errorRate st)) \<and> (\<forall>i \<in> dom (rt_accounts s). 0 < i)"

lemma ewma_rounded:
  "rnd (1 / 5) = 3602879701896397 / 18014398509481984"
  "rnd (14411518807585587 / 18014398509481984) = 3602879701896397 / 4503599627370496"
  by code_simp+

lemma ewma_four_fifths: "rnd (4 / 5) = 3602879701896397 / 4503599627370496"
  by code_simp

lemma ewma_weights:
  "f64_of_rat (1 / 5) = Fin (3602879701896397 / 18014398509481984)"
  "fsub (Fin 1) (Fin (3602879701896397 / 18014398509481984)) = Fin (3602879701896397 / 4503599627370496)"
  using f64_of_rat_unit [of "1 / 5"] f64_of_rat_unit [of "14411518807585587 / 18014398509481984"]
  by (simp_all add: fsub_def ewma_rounded)

lemma ewma_top: "rnd (3602879701896397 / 18014398509481984 + 3602879701896397 / 4503599627370496) \<le> 1"
  by code_simp

lemma updateEWMA_unit:
  assumes "unit01 x" "y = Fin 0 \<or> y = Fin 1"
  shows "unit01 (updateEWMA x y (f64_of_rat (1 / 5)))"
proof -
  let ?a = "3602879701896397 / 18014398509481984 :: rat" and ?b = "3602879701896397 / 4503599627370496 :: rat"
  have ab: "rnd ?a = ?a" "rnd ?b = ?b" by code_simp+
  obtain r where r: "x = Fin r" "0 \<le> r" "r \<le> 1" using assms(1) by (auto simp: unit01_def)
  have br: "0 \<le> ?b * r" "?b * r \<le> ?b" using r by (simp_all add: mult_left_le)
  have b: "f64_of_rat (?b * r) = Fin (rnd (?b * r))" "0 \<le> rnd (?b * r)" "rnd (?b * r) \<le> ?b"
    using f64_of_rat_unit [of "?b * r"] br rnd_mono [OF br(2)] ab(2) by auto
  obtain p where p: "fmul (Fin ?a) y = Fin p" "0 \<le> p" "p \<le> ?a"
    using assms(2) f64_of_rat_unit [of ?a] ab(1) by auto
  have "updateEWMA x y (f64_of_rat (1 / 5)) = f64_of_rat (p + rnd (?b * r))"
    by (simp only: updateEWMA_def ewma_weights p(1) r(1) fmul.simps b(1) fadd.simps)
  moreover have s: "0 \<le> p + rnd (?b * r)" "p + rnd (?b * r) \<le> ?a + ?b" using p b by linarith+
  have "rnd (p + rnd (?b * r)) \<le> 1" using rnd_mono [OF s(2)] ewma_top by linarith
  moreover have "unit01 (f64_of_rat q)" if "0 \<le> q" "rnd q \<le> 1" for q
  proof -
    have "0 \<le> rnd q" using that by (simp add: rnd_nonneg)
    moreover have "(1 :: rat) < 2 powi 1024" using powi2_less_iff [of 0 1024] by (simp only: power_int_0_right)
    ultimately have "\<not> 2 powi 1024 \<le> rnd q" "\<not> rnd q \<le> - (2 powi 1024)" using that by linarith+
    then show ?thesis using that \<open>0 \<le> rnd q\<close> unfolding f64_of_rat_def Let_def unit01_def by auto
  qed
  ultimately show ?thesis using s(1) by simp
qed

lemma stats_ok_new: "stats_ok newOpenAIAccountRuntimeStats"
  by (simp add: stats_ok_def newOpenAIAccountRuntimeStats_def wrap64_def)

lemma wrap64_add1: "wrap64 (wrap64 n + 1) = wrap64 (1 + n)"
  by (simp add: wrap64_def mod_simps algebra_simps)

lemma loadOrCreate_ok:
  assumes "stats_ok s" "0 < i"
  shows "stats_ok (snd (loadOrCreate i s)) \<and> unit01 (rs_errorRate (fst (loadOrCreate i s)))
    \<and> rt_accounts (snd (loadOrCreate i s)) i = Some (fst (loadOrCreate i s))"
proof (cases "rt_accounts s i")
  case None
  then have "card (insert i (dom (rt_accounts s))) = card (dom (rt_accounts s)) + 1"
    using assms by (subst card_insert_disjoint) (auto simp: stats_ok_def)
  with None assms show ?thesis
    by (auto simp: loadOrCreate_def stats_ok_def Let_def wrap64_add1 ran_def split: if_splits)
next
  case (Some stat)
  then show ?thesis using assms by (auto simp: loadOrCreate_def stats_ok_def ran_def)
qed

lemma stats_ok_update:
  assumes "stats_ok s" "rt_accounts s i = Some old" "unit01 (rs_errorRate st)"
  shows "stats_ok (s\<lparr>rt_accounts := (rt_accounts s)(i \<mapsto> st)\<rparr>)"
proof -
  have "insert i (dom (rt_accounts s)) = dom (rt_accounts s)" using assms(2) by auto
  then show ?thesis using assms by (auto simp: stats_ok_def ran_def split: if_splits)
qed

lemma report_ok: "stats_ok s \<Longrightarrow> stats_ok (report i success ms s)"
proof -
  assume ok: "stats_ok s"
  show ?thesis
  proof (cases "i \<le> 0")
    case False
    obtain stat s' where l: "loadOrCreate i s = (stat, s')" by fastforce
    then have "stats_ok s'" "unit01 (rs_errorRate stat)" "rt_accounts s' i = Some stat"
      using loadOrCreate_ok [OF ok, of i] False by auto
    then show ?thesis
      using False updateEWMA_unit
      by (auto simp: report_def l Let_def split: option.split intro!: stats_ok_update)
  qed (simp add: report_def ok)
qed

text \<open>
  C33: after any sequence of reported results the error rate of an account is a number between 0 and 1, the
  snapshot returns it unclamped, and the account counter is the number of accounts that were reported.
\<close>

theorem runtime_stats_bounded:
  fixes rs :: "(int64 \<times> bool \<times> int option) list"
  defines "s \<equiv> fold (\<lambda>(i, success, ms). report i success ms) rs newOpenAIAccountRuntimeStats"
  shows "unit01 (fst (snapshot i s))
    \<and> (\<forall>st. rt_accounts s i = Some st \<longrightarrow> 0 < i \<and> unit01 (rs_errorRate st) \<and> fst (snapshot i s) = rs_errorRate st)
    \<and> runtime_size s = wrap64 (int (card {i. \<exists>success ms. (i, success, ms) \<in> set rs \<and> 0 < i}))"
proof -
  have gen: "stats_ok s0 \<Longrightarrow> stats_ok (fold (\<lambda>(i, success, ms). report i success ms) rs s0)
      \<and> dom (rt_accounts (fold (\<lambda>(i, success, ms). report i success ms) rs s0))
          = dom (rt_accounts s0) \<union> {i. \<exists>success ms. (i, success, ms) \<in> set rs \<and> 0 < i}" for s0
  proof (induction rs arbitrary: s0)
    case (Cons e rs)
    obtain i success ms where e: "e = (i, success, ms)" by (cases e) auto
    have "dom (rt_accounts (report i success ms s0)) = dom (rt_accounts s0) \<union> (if 0 < i then {i} else {})"
      by (auto simp: report_def loadOrCreate_def Let_def split: option.splits if_splits)
    with Cons.IH [OF report_ok [OF Cons.prems]] show ?case by (auto simp: e)
  qed simp
  have ok: "stats_ok s" and d: "dom (rt_accounts s) = {i. \<exists>success ms. (i, success, ms) \<in> set rs \<and> 0 < i}"
    using gen [OF stats_ok_new] by (auto simp: s_def newOpenAIAccountRuntimeStats_def)
  have each: "0 < i \<and> unit01 (rs_errorRate st) \<and> fst (snapshot i s) = rs_errorRate st"
    if "rt_accounts s i = Some st" for st
    using ok that by (force simp: stats_ok_def ran_def dom_def snapshot_def Let_def clamp01_unit)
  moreover have "unit01 (fst (snapshot i s))"
    using each by (cases "rt_accounts s i") (auto simp: snapshot_def)
  moreover have "runtime_size s = wrap64 (int (card {i. \<exists>success ms. (i, success, ms) \<in> set rs \<and> 0 < i}))"
    using ok by (simp add: stats_ok_def runtime_size_def d)
  ultimately show ?thesis by blast
qed

theorem runtime_stats_bounded_witness:
  "unit01 (fst (snapshot 7 (fold (\<lambda>(i, success, ms). report i success ms) [(7, False, Some 120), (7, True, None)]
      newOpenAIAccountRuntimeStats)))"
  using runtime_stats_bounded [of 7 "[(7, False, Some 120), (7, True, None)]"] by blast

text \<open>The smoothed time to the first token stays a number of the range of the samples.\<close>

definition ttft_ok :: "f64 \<Rightarrow> bool" where
  "ttft_ok x \<longleftrightarrow> x = NaN \<or> (\<exists>t. x = Fin t \<and> 0 \<le> t \<and> t \<le> 2 ^ 63 \<and> representable t)"

lemma ttft_ok_NaN: "ttft_ok NaN"
  by (simp add: ttft_ok_def)

lemma rnd_power_63: "rnd (2 ^ 63) = 2 ^ 63"
  by (rule rnd_representable, unfold representable_def, intro exI [of _ 1] exI [of _ 63]) (simp add: power_int_def)

lemma f64_of_rat_fin_bound:
  assumes "\<bar>rnd q\<bar> \<le> 2 ^ 63" shows "f64_of_rat q = Fin (rnd q)"
proof -
  have "(2 :: rat) ^ 63 < 2 powi 1024" using powi2_less_iff [of 63 1024] by (simp only: power_int_numeral)
  then have "\<not> 2 powi 1024 \<le> rnd q" "\<not> rnd q \<le> - (2 powi 1024)" using assms by linarith+
  then show ?thesis unfolding f64_of_rat_def Let_def by simp
qed

lemma rnd_bound_63: "\<bar>q\<bar> \<le> 2 ^ 63 \<Longrightarrow> \<bar>rnd q\<bar> \<le> 2 ^ 63"
  using rnd_mono [of q "2 ^ 63"] rnd_mono [of "- (2 ^ 63)" q] rnd_power_63 rnd_minus [of "2 ^ 63"] by linarith

lemma f64_of_int_ttft: "in_int64 n \<Longrightarrow> 0 \<le> n \<Longrightarrow> ttft_ok (f64_of_int n)"
proof -
  assume n: "in_int64 n" "0 \<le> n"
  then have "n \<le> 2 ^ 63" by (simp add: in_int64_def max_int64_def)
  then have "of_int n \<le> (of_int (2 ^ 63) :: rat)" by (simp only: of_int_le_iff)
  then have q: "\<bar>of_int n :: rat\<bar> \<le> 2 ^ 63" using n(2) by simp
  show ?thesis
    unfolding ttft_ok_def f64_of_int_def f64_of_rat_fin_bound [OF rnd_bound_63 [OF q]]
    using rnd_bound_63 [OF q] n representable_rnd rnd_nonneg [of "of_int n"] by auto
qed

lemma ewma_ttft:
  assumes "ttft_ok x" "ttft_ok y" "x \<noteq> NaN" "y \<noteq> NaN"
  shows "ttft_ok (fadd (fmul (f64_of_rat (1 / 5)) x) (fmul (f64_of_rat (4 / 5)) y))"
proof -
  let ?a = "3602879701896397 / 18014398509481984 :: rat" and ?b = "3602879701896397 / 4503599627370496 :: rat"
  have top: "rnd (?a * 2 ^ 63) = ?a * 2 ^ 63" "rnd (?b * 2 ^ 63) = ?b * 2 ^ 63" "rnd (?a * 2 ^ 63 + ?b * 2 ^ 63) \<le> 2 ^ 63"
    by code_simp+
  have w: "f64_of_rat (4 / 5) = Fin ?b"
    using f64_of_rat_unit [of "4 / 5"] by (simp add: ewma_four_fifths)
  obtain p q where xy: "x = Fin p" "y = Fin q" "0 \<le> p" "p \<le> 2 ^ 63" "0 \<le> q" "q \<le> 2 ^ 63"
    using assms by (auto simp: ttft_ok_def)
  have p: "0 \<le> rnd (?a * p)" "rnd (?a * p) \<le> ?a * 2 ^ 63"
    using rnd_mono [of "?a * p" "?a * 2 ^ 63"] top(1) xy by (auto intro!: rnd_nonneg)
  have q: "0 \<le> rnd (?b * q)" "rnd (?b * q) \<le> ?b * 2 ^ 63"
    using rnd_mono [of "?b * q" "?b * 2 ^ 63"] top(2) xy by (auto intro!: rnd_nonneg)
  let ?s = "rnd (?a * p) + rnd (?b * q)"
  have s: "0 \<le> rnd ?s" "rnd ?s \<le> 2 ^ 63"
    using p q rnd_mono [of ?s "?a * 2 ^ 63 + ?b * 2 ^ 63"] top(3) by (auto intro!: rnd_nonneg)
  have "f64_of_rat (?a * p) = Fin (rnd (?a * p))" "f64_of_rat (?b * q) = Fin (rnd (?b * q))" "f64_of_rat ?s = Fin (rnd ?s)"
    using p q s by (auto intro!: f64_of_rat_fin_bound)
  then have "fadd (fmul (f64_of_rat (1 / 5)) x) (fmul (f64_of_rat (4 / 5)) y) = Fin (rnd ?s)"
    by (simp only: ewma_weights(1) w xy(1,2) fmul.simps fadd.simps)
  then show ?thesis using s representable_rnd by (auto simp: ttft_ok_def)
qed

subsection \<open>Scores\<close>

text \<open>What the scheduler feeds into a score: statistics from a snapshot, priorities far from overflow.\<close>

definition cand_ok :: "cand \<Rightarrow> bool" where
  "cand_ok c \<longleftrightarrow> unit01 (ca_errorRate c) \<and> \<bar>ac_Priority (ca_account c)\<bar> < 2 ^ 62
     \<and> (\<exists>t. ca_ttft c = Fin t \<and> 0 \<le> t \<and> t \<le> 2 ^ 63 \<and> representable t)"

definition weights_ok :: "score_weights \<Rightarrow> bool" where
  "weights_ok w \<longleftrightarrow> (\<forall>x \<in> {sw_Priority w, sw_Load w, sw_Queue w, sw_ErrorRate w, sw_TTFT w}. \<exists>r. x = Fin r \<and> 0 \<le> r)"

definition pool_ok :: "pool_stats \<Rightarrow> bool" where
  "pool_ok p \<longleftrightarrow> 1 \<le> ps_maxWaiting p \<and> - (2 ^ 62) < ps_minPriority p \<and> ps_maxPriority p < 2 ^ 62
     \<and> (\<exists>a b. ps_minTTFT p = Fin a \<and> ps_maxTTFT p = Fin b \<and> 0 \<le> a \<and> a \<le> b \<and> b \<le> 2 ^ 63
          \<and> representable a \<and> representable b)"

lemma representable_0 [simp]: "representable 0"
  using representable_of_int [of 0] by simp

lemma pool_step_range:
  "ps_minPriority (pool_step c p) = min (ac_Priority (ca_account c)) (ps_minPriority p)"
  "ps_maxPriority (pool_step c p) = max (ac_Priority (ca_account c)) (ps_maxPriority p)"
  "ps_maxWaiting (pool_step c p) = max (li_WaitingCount (ca_loadInfo c)) (ps_maxWaiting p)"
  by (simp_all add: pool_step_def Let_def min_def max_def)

lemma pool_step_ttft:
  "ps_minTTFT (pool_step c p) =
     (if ca_hasTTFT c \<and> flt (Fin 0) (ca_ttft c) \<and> (\<not> ps_hasTTFTSample p \<or> flt (ca_ttft c) (ps_minTTFT p))
      then ca_ttft c else ps_minTTFT p)"
  "ps_maxTTFT (pool_step c p) =
     (if ca_hasTTFT c \<and> flt (Fin 0) (ca_ttft c) \<and> (\<not> ps_hasTTFTSample p \<or> flt (ps_maxTTFT p) (ca_ttft c))
      then ca_ttft c else ps_maxTTFT p)"
  by (simp_all add: pool_step_def Let_def)

lemma pool_step_ok: "cand_ok c \<Longrightarrow> pool_ok p \<Longrightarrow> pool_ok (pool_step c p)"
  by (auto simp: cand_ok_def pool_ok_def pool_step_range pool_step_ttft)

lemma pool_fold_widens:
  "ps_minPriority (fold pool_step cs p) \<le> ps_minPriority p" "ps_maxPriority p \<le> ps_maxPriority (fold pool_step cs p)"
proof (induction cs arbitrary: p)
  case (Cons c cs)
  { case 1 show ?case using Cons(1) [of "pool_step c p"] by (simp add: pool_step_range) }
  { case 2 show ?case using Cons(2) [of "pool_step c p"] by (simp add: pool_step_range) }
qed simp_all

lemma pool_fold_range:
  assumes "c \<in> set cs"
  shows "ps_minPriority (fold pool_step cs p) \<le> ac_Priority (ca_account c)
    \<and> ac_Priority (ca_account c) \<le> ps_maxPriority (fold pool_step cs p)"
proof -
  obtain xs ys where cs: "cs = xs @ c # ys" using assms by (meson split_list)
  let ?q = "pool_step c (fold pool_step xs p)"
  have "ps_minPriority ?q \<le> ac_Priority (ca_account c)" "ac_Priority (ca_account c) \<le> ps_maxPriority ?q"
    by (simp_all add: pool_step_range)
  with pool_fold_widens(1) [of ys ?q] pool_fold_widens(2) [of ?q ys] show ?thesis by (auto simp: cs)
qed

lemma pool_of_ok:
  assumes "cs \<noteq> []" "\<forall>c \<in> set cs. cand_ok c" shows "pool_ok (pool_of cs)"
proof -
  have init: "pool_ok (pool_init (hd cs))"
    using assms by (cases cs) (auto simp: pool_init_def pool_ok_def cand_ok_def)
  have "pool_ok p \<Longrightarrow> \<forall>c \<in> set cs. cand_ok c \<Longrightarrow> pool_ok (fold pool_step cs p)" for p cs
    by (induction cs arbitrary: p) (auto simp: pool_step_ok)
  from this [OF init assms(2)] show ?thesis by (simp add: pool_of_def)
qed

lemma f64_of_int_fin: "in_int64 n \<Longrightarrow> \<exists>r. f64_of_int n = Fin r \<and> (0 \<le> n \<longrightarrow> 0 \<le> r) \<and> (1 \<le> n \<longrightarrow> 1 \<le> r)"
proof -
  assume n: "in_int64 n"
  have a: "\<bar>of_int n :: rat\<bar> \<le> of_int (2 ^ 63)"
    using n by (simp only: of_int_abs [symmetric] of_int_le_iff) (auto simp: in_int64_def min_int64_def max_int64_def)
  have "representable (of_int (2 ^ 63))"
    unfolding representable_def by (intro exI [of _ 1] exI [of _ 63]) (simp add: power_int_def)
  then have r63: "rnd (of_int (2 ^ 63)) = of_int (2 ^ 63)" by (rule rnd_representable)
  have b: "- of_int (2 ^ 63) \<le> rnd (of_int n)" "rnd (of_int n) \<le> of_int (2 ^ 63)"
    using rnd_mono [of "of_int n" "of_int (2 ^ 63)"] rnd_mono [of "- of_int (2 ^ 63)" "of_int n"] a r63
      rnd_minus [of "of_int (2 ^ 63)"] by linarith+
  have big: "of_int (2 ^ 63) < (2 :: rat) powi 1024"
    using powi2_less_iff [of 63 1024] by (simp only: power_int_numeral of_int_power of_int_numeral)
  have f: "f64_of_int n = Fin (rnd (of_int n))"
  proof -
    have "\<not> 2 powi 1024 \<le> rnd (of_int n)" "\<not> rnd (of_int n) \<le> - (2 powi 1024)"
      using b big by linarith+
    then show ?thesis unfolding f64_of_int_def f64_of_rat_def Let_def by simp
  qed
  have "0 \<le> n \<Longrightarrow> 0 \<le> rnd (of_int n)" by (simp add: rnd_nonneg)
  moreover have "1 \<le> n \<Longrightarrow> 1 \<le> rnd (of_int n)" using rnd_mono [of 1 "of_int n"] rnd_of_int [of 1] by simp
  ultimately show ?thesis using f by blast
qed

lemma fdiv_not_nan: "b \<noteq> 0 \<Longrightarrow> fdiv (Fin a) (Fin b) \<noteq> NaN"
  by simp

lemma rnd_pos_of_representable:
  assumes "representable a" "representable b" "a < b" shows "0 < rnd (b - a)"
proof -
  have grid: "\<exists>n. x = of_int n * 2 powi (- 1074)" if "representable x" for x
  proof -
    from that obtain m e where x: "x = of_int m * 2 powi e" "- 1074 \<le> e" by (auto simp: representable_def)
    have "e = (e + 1074) + (- 1074)" by simp
    then have "2 powi e = 2 powi (e + 1074) * (2 powi (- 1074) :: rat)" by (metis powi2_add)
    also have "2 powi (e + 1074) = (of_int (2 ^ nat (e + 1074)) :: rat)" using x(2) by (intro powi2_is_int) simp
    finally show ?thesis using x(1) by (intro exI [of _ "m * 2 ^ nat (e + 1074)"]) simp
  qed
  obtain m n where mn: "a = of_int m * 2 powi (- 1074)" "b = of_int n * 2 powi (- 1074)"
    using grid [OF assms(1)] grid [OF assms(2)] by blast
  have "m < n" using assms(3) powi2_pos [of "- 1074"] unfolding mn by (simp only: mult_less_cancel_right of_int_less_iff)
  then have "2 powi (- 1074) \<le> b - a"
    using mult_right_mono [of 1 "of_int (n - m)" "2 powi (- 1074) :: rat"]
    by (simp only: mn left_diff_distrib [symmetric] of_int_diff [symmetric] mult_1 powi2_pos less_imp_le
        of_int_1_le_iff zle_diff1_eq)
  moreover have "rnd (2 powi (- 1074)) = 2 powi (- 1074)"
    by (rule rnd_representable, unfold representable_def, intro exI [of _ 1] exI [of _ "- 1074"]) simp
  ultimately show ?thesis using rnd_mono [of "2 powi (- 1074)" "b - a"] powi2_pos [of "- 1074"] by linarith
qed

lemma priorityFactor_unit:
  assumes "pool_ok p" "ps_minPriority p \<le> ac_Priority (ca_account c)" "ac_Priority (ca_account c) \<le> ps_maxPriority p"
  shows "unit01 (priorityFactor p c)"
proof (cases "ps_minPriority p < ps_maxPriority p")
  case True
  let ?n = "ac_Priority (ca_account c) - ps_minPriority p" and ?d = "ps_maxPriority p - ps_minPriority p"
  have i: "in_int64 ?n" "in_int64 ?d" and d: "1 \<le> ?d" and n: "0 \<le> ?n" "?n \<le> ?d"
    using assms True by (auto simp: pool_ok_def in_int64_def min_int64_def max_int64_def)
  obtain x where x: "f64_of_int ?n = Fin x" "0 \<le> x" using f64_of_int_fin [OF i(1)] n(1) by blast
  obtain y where y: "f64_of_int ?d = Fin y" "1 \<le> y" using f64_of_int_fin [OF i(2)] d by blast
  have "fle (f64_of_int ?n) (f64_of_int ?d)" unfolding f64_of_int_def using n(2) by (intro f64_of_rat_mono) simp
  then have "x \<le> y" by (simp add: x y)
  then have "unit01 (fdiv (Fin x) (Fin y))" using x y by (auto intro!: unit01_of_rat)
  then show ?thesis using True by (simp add: priorityFactor_def wrap64_id i x y unit01_compl)
qed (simp add: priorityFactor_def)

lemma loadFactor_unit: "in_int64 (li_LoadRate (ca_loadInfo c)) \<Longrightarrow> unit01 (loadFactor c)"
  using f64_of_int_fin [of "li_LoadRate (ca_loadInfo c)"]
  by (auto simp: loadFactor_def intro!: unit01_compl unit01_clamp)

lemma queueFactor_unit:
  assumes "in_int64 (li_WaitingCount (ca_loadInfo c))" "in_int64 (ps_maxWaiting p)" "1 \<le> ps_maxWaiting p"
  shows "unit01 (queueFactor p c)"
proof -
  obtain x where x: "f64_of_int (li_WaitingCount (ca_loadInfo c)) = Fin x" using f64_of_int_fin [OF assms(1)] by blast
  obtain y where y: "f64_of_int (ps_maxWaiting p) = Fin y" "1 \<le> y"
    using f64_of_int_fin [OF assms(2)] assms(3) by blast
  have "fdiv (Fin x) (Fin y) \<noteq> NaN" using y(2) by (intro fdiv_not_nan) simp
  then show ?thesis unfolding queueFactor_def x y(1) by (intro unit01_compl unit01_clamp)
qed

lemma ttftFactor_unit: "cand_ok c \<Longrightarrow> pool_ok p \<Longrightarrow> unit01 (ttftFactor p c)"
proof -
  assume c: "cand_ok c" and p: "pool_ok p"
  obtain a b where ab: "ps_minTTFT p = Fin a" "ps_maxTTFT p = Fin b" "0 \<le> a" "a \<le> b" "b \<le> 2 ^ 63"
      "representable a" "representable b"
    using p by (auto simp: pool_ok_def)
  obtain t where t: "ca_ttft c = Fin t" "0 \<le> t" "t \<le> 2 ^ 63" using c by (auto simp: cand_ok_def)
  show ?thesis
  proof (cases "a < b")
    case True
    have d: "\<bar>t - a\<bar> \<le> 2 ^ 63" "\<bar>b - a\<bar> \<le> 2 ^ 63" using ab t by linarith+
    have "fsub (Fin t) (Fin a) = Fin (rnd (t - a))" "fsub (Fin b) (Fin a) = Fin (rnd (b - a))"
      using f64_of_rat_fin_bound [OF rnd_bound_63 [OF d(1)]] f64_of_rat_fin_bound [OF rnd_bound_63 [OF d(2)]]
      by (simp_all add: fsub_def)
    moreover have "rnd (b - a) \<noteq> 0" using rnd_pos_of_representable [OF ab(6,7) True] by simp
    ultimately have "fdiv (fsub (ca_ttft c) (ps_minTTFT p)) (fsub (ps_maxTTFT p) (ps_minTTFT p)) \<noteq> NaN"
      unfolding ab(1,2) t(1) by (simp only: fdiv_not_nan not_False_eq_True)
    then show ?thesis by (simp add: ttftFactor_def unit01_compl unit01_clamp)
  next
    case False
    then show ?thesis using ab by (simp add: ttftFactor_def)
  qed
qed

definition nonneg :: "f64 \<Rightarrow> bool" where "nonneg x \<longleftrightarrow> fle (Fin 0) x"

lemma nonneg_fadd: "nonneg x \<Longrightarrow> nonneg y \<Longrightarrow> nonneg (fadd x y)"
  by (simp add: nonneg_def fadd_nonneg)

lemma nonneg_fmul: "0 \<le> w \<Longrightarrow> unit01 x \<Longrightarrow> nonneg (fmul (Fin w) x)"
  by (auto simp: nonneg_def unit01_def intro: fmul_Fin_nonneg [simplified])

lemma nonneg_not_NaN: "nonneg x \<Longrightarrow> x \<noteq> NaN"
  by (auto simp: nonneg_def fle_def)

definition load_ok :: "cand \<Rightarrow> bool" where
  "load_ok c \<longleftrightarrow> in_int64 (li_LoadRate (ca_loadInfo c)) \<and> in_int64 (li_WaitingCount (ca_loadInfo c))"

lemma maxWaiting_int64:
  assumes "\<forall>c \<in> set cs. load_ok c" shows "in_int64 (ps_maxWaiting (pool_of cs))"
proof -
  have "in_int64 (ps_maxWaiting p) \<Longrightarrow> \<forall>c \<in> set cs. load_ok c \<Longrightarrow> in_int64 (ps_maxWaiting (fold pool_step cs p))" for p
    by (induction cs arbitrary: p) (auto simp: pool_step_range load_ok_def max_def)
  moreover have "in_int64 1" by (simp add: in_int64_def min_int64_def max_int64_def)
  ultimately show ?thesis using assms by (simp add: pool_of_def pool_init_def)
qed

lemma score_nonneg:
  assumes w: "weights_ok w" and cs: "\<forall>c \<in> set cs. cand_ok c \<and> load_ok c" and c: "c \<in> set cs"
  shows "nonneg (score_of w (pool_of cs) c)"
proof -
  have p: "pool_ok (pool_of cs)" using cs c by (intro pool_of_ok) auto
  have "unit01 (priorityFactor (pool_of cs) c)"
    using pool_fold_range [OF c, of "pool_init (hd cs)"] by (intro priorityFactor_unit p) (auto simp: pool_of_def)
  moreover have "unit01 (loadFactor c)" using cs c by (intro loadFactor_unit) (simp add: load_ok_def)
  moreover have "unit01 (queueFactor (pool_of cs) c)"
    using cs c p by (intro queueFactor_unit maxWaiting_int64) (auto simp: load_ok_def pool_ok_def)
  moreover have "unit01 (errorFactor c)"
    using cs c by (auto simp: errorFactor_def cand_ok_def intro!: unit01_compl unit01_clamp)
  moreover have "unit01 (ttftFactor (pool_of cs) c)" using cs c p by (intro ttftFactor_unit) auto
  ultimately show ?thesis
    using w by (auto simp: score_of_def weights_ok_def intro!: nonneg_fadd nonneg_fmul)
qed

subsection \<open>The best \<open>k\<close>\<close>

definition score_key :: "f64 \<Rightarrow> int \<times> rat" where
  "score_key x = (case x of PInf \<Rightarrow> (- 1, 0) | Fin r \<Rightarrow> (0, - r) | NInf \<Rightarrow> (1, 0) | NaN \<Rightarrow> (2, 0))"

definition cand_key :: "cand \<Rightarrow> (int \<times> rat) \<times> int \<times> int \<times> int \<times> int" where
  "cand_key c = (score_key (ca_score c), ac_Priority (ca_account c), li_LoadRate (ca_loadInfo c),
     li_WaitingCount (ca_loadInfo c), ac_ID (ca_account c))"

lemma score_key_less: "x \<noteq> NaN \<Longrightarrow> y \<noteq> NaN \<Longrightarrow> score_key x < score_key y \<longleftrightarrow> flt y x"
  by (cases x; cases y) (auto simp: score_key_def less_prod_def)

lemma score_key_eq: "x \<noteq> NaN \<Longrightarrow> y \<noteq> NaN \<Longrightarrow> score_key x = score_key y \<longleftrightarrow> feq x y"
  by (cases x; cases y) (auto simp: score_key_def)

lemma pair_less: "(a, b) < (c, d) \<longleftrightarrow> a < c \<or> a = c \<and> b < d"
  for a c :: "'a::linorder" and b d :: "'b::linorder"
  by (auto simp: less_prod_simp)

interpretation cands: keyed_better isOpenAIAccountCandidateBetter cand_key "{c. ca_score c \<noteq> NaN}"
proof
  fix x y :: cand assume "x \<in> {c. ca_score c \<noteq> NaN}" "y \<in> {c. ca_score c \<noteq> NaN}"
  then have n: "ca_score x \<noteq> NaN" "ca_score y \<noteq> NaN" by auto
  show "isOpenAIAccountCandidateBetter x y \<longleftrightarrow> cand_key x < cand_key y"
    unfolding isOpenAIAccountCandidateBetter_def cand_key_def pair_less score_key_less [OF n] score_key_eq [OF n]
    using score_key_less [OF n] score_key_eq [OF n] by (auto dest: less_imp_neq)
qed

lemma cand_key_inj: "inj_on (\<lambda>c. ac_ID (ca_account c)) A \<Longrightarrow> inj_on cand_key A"
  by (auto simp: inj_on_def cand_key_def)

text \<open>
  C19: the choice of candidates. With non-negative finite weights every candidate whose statistics and load
  are well formed gets a score that is not NaN; so the order of candidates is total, and for accounts with
  distinct ids the bounded heap returns exactly the first \<open>max 1 topK\<close> of all candidates sorted by descending
  score, then priority, load, queue length and id.
\<close>

theorem topk_is_sorted_prefix:
  assumes "weights_ok w" "\<forall>c \<in> set cs. cand_ok c \<and> load_ok c" "distinct (map (\<lambda>c. ac_ID (ca_account c)) cs)"
  shows "selectTopKOpenAICandidates (score_candidates w cs) topK =
      take (nat (max 1 topK)) (sort_key cand_key (score_candidates w cs))
    \<and> (\<forall>c \<in> set (score_candidates w cs). ca_score c \<noteq> NaN)"
proof -
  let ?s = "score_candidates w cs"
  have n: "\<forall>c \<in> set ?s. ca_score c \<noteq> NaN"
    using score_nonneg [OF assms(1,2)] nonneg_not_NaN by (auto simp: score_candidates_def Let_def)
  have "inj_on (\<lambda>c. ac_ID (ca_account c)) (set cs)" using assms(3) by (simp add: distinct_map)
  then have "inj_on (\<lambda>c. ac_ID (ca_account c)) (set ?s)"
    by (auto simp: score_candidates_def Let_def inj_on_def)
  then have "inj_on cand_key (set ?s)" by (rule cand_key_inj)
  then show ?thesis
    using n cands.select_topk_sorted [of ?s topK] by (auto simp: selectTopKOpenAICandidates_def)
qed

definition demo_cand :: "int64 \<Rightarrow> int \<Rightarrow> cand" where
  "demo_cand i rate = \<lparr>ca_account = (demo_account [] [])\<lparr>ac_ID := i\<rparr>,
     ca_loadInfo = \<lparr>li_AccountID = i, li_CurrentConcurrency = 0, li_WaitingCount = 0, li_LoadRate = rate\<rparr>,
     ca_score = Fin 0, ca_errorRate = Fin 0, ca_ttft = Fin 0, ca_hasTTFT = False\<rparr>"

definition demo_weights :: score_weights where
  "demo_weights = \<lparr>sw_Priority = Fin 1, sw_Load = Fin 1, sw_Queue = Fin 1, sw_ErrorRate = Fin 1, sw_TTFT = Fin 1\<rparr>"

theorem topk_is_sorted_prefix_witness:
  "selectTopKOpenAICandidates (score_candidates demo_weights [demo_cand 1 80, demo_cand 2 10]) 1 =
     take 1 (sort_key cand_key (score_candidates demo_weights [demo_cand 1 80, demo_cand 2 10]))"
proof -
  have "weights_ok demo_weights" by (simp add: weights_ok_def demo_weights_def)
  moreover have "\<forall>c \<in> set [demo_cand 1 80, demo_cand 2 10]. cand_ok c \<and> load_ok c"
    by (simp add: cand_ok_def load_ok_def demo_cand_def demo_account_def in_int64_def min_int64_def max_int64_def)
  moreover have "distinct (map (\<lambda>c. ac_ID (ca_account c)) [demo_cand 1 80, demo_cand 2 10])"
    by (simp add: demo_cand_def)
  ultimately show ?thesis using topk_is_sorted_prefix [of demo_weights "[demo_cand 1 80, demo_cand 2 10]" 1] by simp
qed

theorem weighted_order_permutes_witness:
  "\<forall>t. mset (buildOpenAIWeightedSelectionOrder t t [demo_cand 1 80, demo_cand 2 10]
      \<lparr>sr_GroupID = None, sr_SessionHash = [], sr_StickyAccountID = 0, sr_PreviousResponseID = [], sr_RequestedModel = [],
       sr_RequiredTransport = [], sr_RequiredImageCapability = [], sr_RequireCompact = False, sr_ExcludedIDs = []\<rparr>)
    = {#demo_cand 1 80, demo_cand 2 10#}"
  using weighted_order_permutes by simp

theorem rng_in_unit_interval_witness: "snd (nextUint64 1) \<noteq> 0"
  using rng_in_unit_interval [of 1 0] by simp

text \<open>The statistics that reach a score are within the bounds assumed of a candidate.\<close>

definition stats_ttft :: "runtime_stats \<Rightarrow> bool" where
  "stats_ttft s \<longleftrightarrow> (\<forall>st \<in> ran (rt_accounts s). ttft_ok (rs_ttft st))"

lemma report_ttft:
  assumes "stats_ttft s" "\<forall>n. ms = Some n \<longrightarrow> in_int64 n" shows "stats_ttft (report i success ms s)"
proof (cases "i \<le> 0")
  case False
  obtain stat s' where l: "loadOrCreate i s = (stat, s')" by fastforce
  then have l': "ttft_ok (rs_ttft stat)" "stats_ttft s'"
    using assms(1) ttft_ok_NaN
    by (auto simp: loadOrCreate_def stats_ttft_def ran_def Let_def split: option.splits if_splits) blast
  have new: "ttft_ok (f64_of_int n)" "f64_of_int n \<noteq> NaN" if "ms = Some n" "0 < n" for n
    using assms(2) that f64_of_int_ttft [of n] by (simp_all add: f64_of_int_def)
  have upd: "stats_ttft s' \<Longrightarrow> ttft_ok (rs_ttft st) \<Longrightarrow> stats_ttft (s'\<lparr>rt_accounts := (rt_accounts s')(i \<mapsto> st)\<rparr>)" for st
    by (auto simp: stats_ttft_def ran_def split: if_splits)
  show ?thesis
    using False l' new ewma_ttft [of _ "rs_ttft stat"]
    by (cases "rs_ttft stat")
       (auto simp: report_def l Let_def split: option.split intro!: upd simp del: f64_of_rat_not_nan)
qed (simp add: report_def assms)

lemma snapshot_cand_ok:
  assumes "stats_ok s" "stats_ttft s" "snapshot i s = (e, t, h)"
  shows "unit01 e \<and> (\<exists>r. t = Fin r \<and> 0 \<le> r \<and> r \<le> 2 ^ 63 \<and> representable r)"
proof (cases "i \<le> 0 \<or> rt_accounts s i = None")
  case True
  then show ?thesis using assms(3) by (auto simp: snapshot_def split: if_splits)
next
  case False
  then obtain st where st: "rt_accounts s i = Some st" "0 < i" by auto
  then have "unit01 (rs_errorRate st)" "ttft_ok (rs_ttft st)"
    using assms(1,2) by (auto simp: stats_ok_def stats_ttft_def ran_def)
  then show ?thesis
    using assms(3) st by (auto simp: snapshot_def Let_def clamp01_unit ttft_ok_def split: if_splits)
qed

end
