(* ===== verification/OpenAISelect.thy ===== *)
theory OpenAISelect
  imports OpenAISchedulerLaws
begin

text \<open>
  Selecting an OpenAI account for a request: the layers of the advanced scheduler (previous response, sticky
  session, load balance) of \<open>internal/service/openai_account_scheduler.go\<close>, the checks of
  \<open>openai_gateway_service.go\<close> it shares with the plain selection, the sticky-session keys of
  \<open>openai_sticky_compat.go\<close>, the upstream protocol of \<open>openai_ws_protocol_resolver.go\<close> and the model rate
  limits of \<open>model_rate_limit.go\<close>.

  The state \<open>gw\<close> holds what the services write: the two Redis maps, the concurrency slots taken, the accounts
  marked with an error, and the counters. Everything read from the outside (accounts, groups, loads, channel
  restrictions, whether a slot is free, whether Redis answers) is a field of \<open>gw_env\<close> applied to the number of
  outside calls made so far, so it may differ from one call to the next. \<open>now\<close> is the clock at a call.
  \<open>gw_held\<close> lists the slots taken and not given back: a release whose Redis call fails counts as given back, the
  slot then stays in Redis until it expires.
\<close>

subsection \<open>Environment and state\<close>

datatype sel_error = NoAvailableAccounts | NoAvailableCompactAccounts | NoOpenAIAccounts gostring
  | PricingRestricted gostring | NotHydrated int64 | OutsideError gostring

record ws_config =
  ws_ForceHTTP :: bool
  ws_Enabled :: bool
  ws_OAuthEnabled :: bool
  ws_APIKeyEnabled :: bool
  ws_ModeRouterV2Enabled :: bool
  ws_IngressModeDefault :: gostring
  ws_ResponsesWebsockets :: bool
  ws_ResponsesWebsocketsV2 :: bool
  ws_StickySessionTTLSeconds :: int
  ws_SessionHashReadOldFallback :: bool
  ws_SessionHashDualWriteOld :: bool
  ws_LBTopK :: int
  ws_Weights :: score_weights

record sched_config =
  sc_StickySessionMaxWaiting :: int
  sc_StickySessionWaitTimeout :: duration
  sc_FallbackWaitTimeout :: duration
  sc_FallbackMaxWaiting :: int
  sc_LoadBatchEnabled :: bool

record gw_env =
  ge_lib :: acct_lib
  ge_sqrt :: "f64 \<Rightarrow> f64"
  ge_now :: "nat \<Rightarrow> time"
  ge_ws :: "ws_config option"
  ge_sched :: "sched_config option"
  ge_cache :: bool
  ge_cacheFault :: "nat \<Rightarrow> bool"
  ge_legacyHash :: gostring
  ge_respStore :: bool
  ge_snapshot :: bool
  ge_snapAccount :: "nat \<Rightarrow> int64 \<Rightarrow> gostring + account option"
  ge_repo :: bool
  ge_repoAccount :: "nat \<Rightarrow> int64 \<Rightarrow> gostring + account option"
  ge_list :: "nat \<Rightarrow> int64 option \<Rightarrow> gostring + account list"
  ge_group :: "nat \<Rightarrow> int64 \<Rightarrow> gw_group option"
  ge_concurrency :: bool
  ge_acquire :: "nat \<Rightarrow> int64 \<Rightarrow> int \<Rightarrow> gostring + bool"
  ge_loads :: "nat \<Rightarrow> (int64 \<times> int) list \<Rightarrow> (int64 \<rightharpoonup> load_info) option"
  ge_waiting :: "nat \<Rightarrow> int64 \<Rightarrow> int"
  ge_channel :: bool
  ge_upstreamRestricts :: "nat \<Rightarrow> int64 \<Rightarrow> bool"
  ge_restricted :: "nat \<Rightarrow> int64 \<Rightarrow> gostring \<Rightarrow> bool"
  ge_billingModel :: "nat \<Rightarrow> int64 \<Rightarrow> gostring \<Rightarrow> gostring"
  ge_rand :: "nat \<Rightarrow> nat \<Rightarrow> nat"
  ge_setting :: "nat \<Rightarrow> gostring option option"

record gw =
  gw_tick :: nat
  gw_sticky :: "int64 \<times> gostring \<rightharpoonup> int64 \<times> duration"
  gw_resp :: "int64 \<times> gostring \<rightharpoonup> int64"
  gw_held :: "int64 list"
  gw_marked :: "(int64 \<times> gostring) list"
  gw_legacy :: "int64 \<times> int64 \<times> int64"
  gw_metrics :: sched_metrics
  gw_stats :: runtime_stats
  gw_setting :: "(bool \<times> time) option"

definition tick :: "gw \<Rightarrow> gw" where "tick s = s\<lparr>gw_tick := Suc (gw_tick s)\<rparr>"

abbreviation now_at :: "gw_env \<Rightarrow> gw \<Rightarrow> time" where "now_at e s \<equiv> ge_now e (gw_tick s)"

definition derefGroupID :: "int64 option \<Rightarrow> int64" where
  "derefGroupID g = (case g of None \<Rightarrow> 0 | Some i \<Rightarrow> i)"

subsection \<open>Upstream protocol\<close>

definition OpenAIUpstreamTransportAny :: gostring where "OpenAIUpstreamTransportAny = []"
definition OpenAIUpstreamTransportHTTPSSE :: gostring where "OpenAIUpstreamTransportHTTPSSE = ''http_sse''"
definition OpenAIUpstreamTransportResponsesWebsocket :: gostring where
  "OpenAIUpstreamTransportResponsesWebsocket = ''responses_websockets''"
definition OpenAIUpstreamTransportResponsesWebsocketV2 :: gostring where
  "OpenAIUpstreamTransportResponsesWebsocketV2 = ''responses_websockets_v2''"

record ws_decision =
  wd_Transport :: gostring
  wd_Reason :: gostring

definition openAIWSHTTPDecision :: "gostring \<Rightarrow> ws_decision" where
  "openAIWSHTTPDecision reason = \<lparr>wd_Transport = OpenAIUpstreamTransportHTTPSSE, wd_Reason = reason\<rparr>"

definition ws_decide :: "ws_config \<Rightarrow> gostring \<Rightarrow> gostring \<Rightarrow> ws_decision" where
  "ws_decide c v2 v1 =
     (if ws_ResponsesWebsocketsV2 c
      then \<lparr>wd_Transport = OpenAIUpstreamTransportResponsesWebsocketV2, wd_Reason = v2\<rparr>
      else if ws_ResponsesWebsockets c
      then \<lparr>wd_Transport = OpenAIUpstreamTransportResponsesWebsocket, wd_Reason = v1\<rparr>
      else openAIWSHTTPDecision ''feature_disabled'')"

definition ws_resolve_open :: "acct_lib \<Rightarrow> ws_config \<Rightarrow> account \<Rightarrow> ws_decision" where
  "ws_resolve_open lib c a =
     (if ws_ModeRouterV2Enabled c then
        (let mode = ResolveOpenAIResponsesWebSocketV2Mode lib (Some a) (ws_IngressModeDefault c) in
         if mode = OpenAIWSIngressModeOff
            \<or> mode \<notin> {OpenAIWSIngressModeCtxPool, OpenAIWSIngressModePassthrough, OpenAIWSIngressModeShared,
                      OpenAIWSIngressModeDedicated}
         then openAIWSHTTPDecision ''account_mode_off''
         else if ac_Concurrency a \<le> 0 then openAIWSHTTPDecision ''account_concurrency_invalid''
         else let mode = (if mode = OpenAIWSIngressModeShared \<or> mode = OpenAIWSIngressModeDedicated
                          then OpenAIWSIngressModeCtxPool else mode)
              in ws_decide c (''ws_v2_mode_'' @ mode) (''ws_v1_mode_'' @ mode))
      else if \<not> IsOpenAIResponsesWebSocketV2Enabled (Some a) then openAIWSHTTPDecision ''account_disabled''
      else ws_decide c ''ws_v2_enabled'' ''ws_v1_enabled'')"

definition ws_Resolve :: "acct_lib \<Rightarrow> ws_config option \<Rightarrow> account option \<Rightarrow> ws_decision" where
  "ws_Resolve lib cfg acc = (case acc of
     None \<Rightarrow> openAIWSHTTPDecision ''account_missing''
   | Some a \<Rightarrow>
       if \<not> IsOpenAI a then openAIWSHTTPDecision ''platform_not_openai''
       else if IsOpenAIWSForceHTTPEnabled (Some a) then openAIWSHTTPDecision ''account_force_http''
       else case cfg of
         None \<Rightarrow> openAIWSHTTPDecision ''config_missing''
       | Some c \<Rightarrow>
           if ws_ForceHTTP c then openAIWSHTTPDecision ''global_force_http''
           else if \<not> ws_Enabled c then openAIWSHTTPDecision ''global_disabled''
           else if IsOpenAIOAuth a \<and> \<not> ws_OAuthEnabled c then openAIWSHTTPDecision ''oauth_disabled''
           else if \<not> IsOpenAIOAuth a \<and> IsOpenAIApiKey a \<and> \<not> ws_APIKeyEnabled c
           then openAIWSHTTPDecision ''apikey_disabled''
           else if \<not> IsOpenAIOAuth a \<and> \<not> IsOpenAIApiKey a then openAIWSHTTPDecision ''unknown_auth_type''
           else ws_resolve_open lib c a)"

definition isOpenAIAccountTransportCompatible :: "gw_env \<Rightarrow> account option \<Rightarrow> gostring \<Rightarrow> bool" where
  "isOpenAIAccountTransportCompatible e acc requiredTransport =
     (if requiredTransport = OpenAIUpstreamTransportAny \<or> requiredTransport = OpenAIUpstreamTransportHTTPSSE then True
      else if acc = None then False
      else wd_Transport (ws_Resolve (ge_lib e) (ge_ws e) acc) = requiredTransport)"

definition isAccountTransportCompatible :: "gw_env \<Rightarrow> account \<Rightarrow> gostring \<Rightarrow> bool" where
  "isAccountTransportCompatible e a requiredTransport =
     (if requiredTransport = OpenAIUpstreamTransportAny \<or> requiredTransport = OpenAIUpstreamTransportHTTPSSE then True
      else isOpenAIAccountTransportCompatible e (Some a) requiredTransport)"

subsection \<open>Model rate limits\<close>

definition modelRateLimitsKey :: gostring where "modelRateLimitsKey = ''model_rate_limits''"

definition modelRateLimitResetAt :: "acct_lib \<Rightarrow> account \<Rightarrow> gostring \<Rightarrow> time option" where
  "modelRateLimitResetAt lib a scope =
     (if scope = [] then None
      else case lookup (ac_Extra a) modelRateLimitsKey of
        Some (JObj limits) \<Rightarrow>
          (case map_of limits scope of
             Some (JObj limit) \<Rightarrow>
               (case map_of limit ''rate_limit_reset_at'' of
                  Some (JStr raw) \<Rightarrow> if trim_space raw = [] then None else al_ParseTime lib RFC3339 raw
                | _ \<Rightarrow> None)
           | _ \<Rightarrow> None)
      | _ \<Rightarrow> None)"

definition isRateLimitActiveForKey :: "acct_lib \<Rightarrow> time \<Rightarrow> account \<Rightarrow> gostring \<Rightarrow> bool" where
  "isRateLimitActiveForKey lib now a k =
     (case modelRateLimitResetAt lib a k of None \<Rightarrow> False | Some t \<Rightarrow> Before now t)"

definition getRateLimitRemainingForKey :: "acct_lib \<Rightarrow> time \<Rightarrow> account \<Rightarrow> gostring \<Rightarrow> duration" where
  "getRateLimitRemainingForKey lib now a k =
     (case modelRateLimitResetAt lib a k of
        None \<Rightarrow> 0
      | Some t \<Rightarrow> (let remaining = Sub t now in if 0 < remaining then remaining else 0))"

definition mapAntigravityModel :: "account option \<Rightarrow> gostring \<Rightarrow> gostring" where
  "mapAntigravityModel acc requestedModel = (case acc of
     None \<Rightarrow> []
   | Some a \<Rightarrow>
       if GetModelMapping a = [] then []
       else let mapped = GetMappedModel a requestedModel in
         if mapped \<noteq> requestedModel then mapped
         else if IsModelSupported a requestedModel then requestedModel
         else [])"

definition applyThinkingModelSuffix :: "gostring \<Rightarrow> bool \<Rightarrow> gostring" where
  "applyThinkingModelSuffix mappedModel thinkingEnabled =
     (if \<not> thinkingEnabled then mappedModel
      else if mappedModel = ''claude-sonnet-4-5'' then ''claude-sonnet-4-5-thinking''
      else mappedModel)"

text \<open>\<open>thinking\<close> is the flag of the request's context, if it has one.\<close>

definition resolveFinalAntigravityModelKey :: "bool option \<Rightarrow> account \<Rightarrow> gostring \<Rightarrow> gostring" where
  "resolveFinalAntigravityModelKey thinking a requestedModel =
     (let modelKey = mapAntigravityModel (Some a) requestedModel in
      if modelKey = [] then []
      else case thinking of Some enabled \<Rightarrow> applyThinkingModelSuffix modelKey enabled | None \<Rightarrow> modelKey)"

definition rate_limit_key :: "bool option \<Rightarrow> account \<Rightarrow> gostring \<Rightarrow> gostring" where
  "rate_limit_key thinking a requestedModel =
     trim_space (if ac_Platform a = PlatformAntigravity
                 then resolveFinalAntigravityModelKey thinking a requestedModel
                 else GetMappedModel a requestedModel)"

definition isModelRateLimitedWithContext :: "acct_lib \<Rightarrow> time \<Rightarrow> bool option \<Rightarrow> account \<Rightarrow> gostring \<Rightarrow> bool" where
  "isModelRateLimitedWithContext lib now thinking a requestedModel =
     (let modelKey = rate_limit_key thinking a requestedModel in
      if modelKey = [] then False else isRateLimitActiveForKey lib now a modelKey)"

definition GetModelRateLimitRemainingTimeWithContext ::
    "acct_lib \<Rightarrow> time \<Rightarrow> bool option \<Rightarrow> account \<Rightarrow> gostring \<Rightarrow> duration" where
  "GetModelRateLimitRemainingTimeWithContext lib now thinking a requestedModel =
     (let modelKey = rate_limit_key thinking a requestedModel in
      if modelKey = [] then 0 else getRateLimitRemainingForKey lib now a modelKey)"

definition shouldClearStickySession :: "acct_lib \<Rightarrow> time \<Rightarrow> account \<Rightarrow> gostring \<Rightarrow> bool" where
  "shouldClearStickySession lib now a requestedModel =
     (if \<not> IsSchedulable lib now a then True
      else 0 < GetModelRateLimitRemainingTimeWithContext lib now None a requestedModel)"

subsection \<open>Sticky sessions\<close>

definition openaiStickySessionTTL :: duration where "openaiStickySessionTTL = Hour"

definition openAISessionHashReadOldFallbackEnabled :: "gw_env \<Rightarrow> bool" where
  "openAISessionHashReadOldFallbackEnabled e = (case ge_ws e of None \<Rightarrow> True | Some c \<Rightarrow> ws_SessionHashReadOldFallback c)"
definition openAISessionHashDualWriteOldEnabled :: "gw_env \<Rightarrow> bool" where
  "openAISessionHashDualWriteOldEnabled e = (case ge_ws e of None \<Rightarrow> True | Some c \<Rightarrow> ws_SessionHashDualWriteOld c)"

definition openAISessionCacheKey :: "gostring \<Rightarrow> gostring" where
  "openAISessionCacheKey sessionHash =
     (let normalized = trim_space sessionHash in if normalized = [] then [] else ''openai:'' @ normalized)"

definition openAILegacySessionHashFromContext :: "gw_env \<Rightarrow> gostring" where
  "openAILegacySessionHashFromContext e = trim_space (ge_legacyHash e)"

definition openAILegacySessionCacheKey :: "gw_env \<Rightarrow> gostring \<Rightarrow> gostring" where
  "openAILegacySessionCacheKey e sessionHash =
     (let legacyHash = openAILegacySessionHashFromContext e in
      if legacyHash = [] then []
      else let legacyKey = ''openai:'' @ legacyHash in
        if legacyKey = openAISessionCacheKey sessionHash then [] else legacyKey)"

definition openAIStickyLegacyTTL :: "duration \<Rightarrow> duration" where
  "openAIStickyLegacyTTL ttl =
     (let legacyTTL = (if ttl \<le> 0 then openaiStickySessionTTL else ttl)
      in if 10 * Minute < legacyTTL then 10 * Minute else legacyTTL)"

text \<open>One Redis call: \<open>None\<close> when it fails; a read of an absent key fails too.\<close>

definition cache_get :: "gw_env \<Rightarrow> int64 \<Rightarrow> gostring \<Rightarrow> gw \<Rightarrow> int64 option \<times> gw" where
  "cache_get e g k s =
     (if ge_cacheFault e (gw_tick s) then None else map_option fst (gw_sticky s (g, k)), tick s)"
definition cache_set :: "gw_env \<Rightarrow> int64 \<Rightarrow> gostring \<Rightarrow> int64 \<Rightarrow> duration \<Rightarrow> gw \<Rightarrow> bool \<times> gw" where
  "cache_set e g k v ttl s =
     (if ge_cacheFault e (gw_tick s) then (False, tick s)
      else (True, tick (s\<lparr>gw_sticky := (gw_sticky s)((g, k) \<mapsto> (v, ttl))\<rparr>)))"
definition cache_refresh :: "gw_env \<Rightarrow> int64 \<Rightarrow> gostring \<Rightarrow> duration \<Rightarrow> gw \<Rightarrow> bool \<times> gw" where
  "cache_refresh e g k ttl s =
     (if ge_cacheFault e (gw_tick s) then (False, tick s)
      else (True, tick (s\<lparr>gw_sticky := (gw_sticky s)((g, k) := map_option (\<lambda>(v, _). (v, ttl)) (gw_sticky s (g, k)))\<rparr>)))"
definition cache_delete :: "gw_env \<Rightarrow> int64 \<Rightarrow> gostring \<Rightarrow> gw \<Rightarrow> bool \<times> gw" where
  "cache_delete e g k s =
     (if ge_cacheFault e (gw_tick s) then (False, tick s)
      else (True, tick (s\<lparr>gw_sticky := (gw_sticky s)((g, k) := None)\<rparr>)))"

definition getStickySessionAccountID :: "gw_env \<Rightarrow> int64 option \<Rightarrow> gostring \<Rightarrow> gw \<Rightarrow> int64 option \<times> gw" where
  "getStickySessionAccountID e groupID sessionHash s =
     (let g = derefGroupID groupID; primaryKey = openAISessionCacheKey sessionHash in
      if \<not> ge_cache e \<or> primaryKey = [] then (Some 0, s)
      else case cache_get e g primaryKey s of
        (primary, s1) \<Rightarrow>
          if (case primary of Some i \<Rightarrow> 0 < i | None \<Rightarrow> False) then (primary, s1)
          else if \<not> openAISessionHashReadOldFallbackEnabled e then (primary, s1)
          else let legacyKey = openAILegacySessionCacheKey e sessionHash in
            if legacyKey = [] then (primary, s1)
            else case gw_legacy s1 of
              (reads, hits, writes) \<Rightarrow>
                (case cache_get e g legacyKey (s1\<lparr>gw_legacy := (wrap64 (reads + 1), hits, writes)\<rparr>) of
                   (legacy, s2) \<Rightarrow>
                     if (case legacy of Some i \<Rightarrow> 0 < i | None \<Rightarrow> False)
                     then (legacy, s2\<lparr>gw_legacy := (wrap64 (reads + 1), wrap64 (hits + 1), writes)\<rparr>)
                     else (primary, s2)))"

definition setStickySessionAccountID :: "gw_env \<Rightarrow> int64 option \<Rightarrow> gostring \<Rightarrow> int64 \<Rightarrow> duration \<Rightarrow> gw \<Rightarrow> gw" where
  "setStickySessionAccountID e groupID sessionHash accountID ttl s =
     (let g = derefGroupID groupID; primaryKey = openAISessionCacheKey sessionHash in
      if \<not> ge_cache e \<or> accountID \<le> 0 \<or> primaryKey = [] then s
      else case cache_set e g primaryKey accountID ttl s of
        (ok, s1) \<Rightarrow>
          if \<not> ok \<or> \<not> openAISessionHashDualWriteOldEnabled e then s1
          else let legacyKey = openAILegacySessionCacheKey e sessionHash in
            if legacyKey = [] then s1
            else case cache_set e g legacyKey accountID (openAIStickyLegacyTTL ttl) s1 of
              (ok2, s2) \<Rightarrow>
                if \<not> ok2 then s2
                else case gw_legacy s2 of (reads, hits, writes) \<Rightarrow> s2\<lparr>gw_legacy := (reads, hits, wrap64 (writes + 1))\<rparr>)"

definition refreshStickySessionTTL :: "gw_env \<Rightarrow> int64 option \<Rightarrow> gostring \<Rightarrow> duration \<Rightarrow> gw \<Rightarrow> gw" where
  "refreshStickySessionTTL e groupID sessionHash ttl s =
     (let g = derefGroupID groupID; primaryKey = openAISessionCacheKey sessionHash in
      if \<not> ge_cache e \<or> primaryKey = [] then s
      else let s1 = snd (cache_refresh e g primaryKey ttl s) in
        if \<not> openAISessionHashReadOldFallbackEnabled e \<and> \<not> openAISessionHashDualWriteOldEnabled e then s1
        else let legacyKey = openAILegacySessionCacheKey e sessionHash in
          if legacyKey \<noteq> [] then snd (cache_refresh e g legacyKey (openAIStickyLegacyTTL ttl) s1) else s1)"

definition deleteStickySessionAccountID :: "gw_env \<Rightarrow> int64 option \<Rightarrow> gostring \<Rightarrow> gw \<Rightarrow> gw" where
  "deleteStickySessionAccountID e groupID sessionHash s =
     (let g = derefGroupID groupID; primaryKey = openAISessionCacheKey sessionHash in
      if \<not> ge_cache e \<or> primaryKey = [] then s
      else let s1 = snd (cache_delete e g primaryKey s) in
        if \<not> openAISessionHashReadOldFallbackEnabled e \<and> \<not> openAISessionHashDualWriteOldEnabled e then s1
        else let legacyKey = openAILegacySessionCacheKey e sessionHash in
          if legacyKey \<noteq> [] then snd (cache_delete e g legacyKey s1) else s1)"

definition openAIWSSessionStickyTTL :: "gw_env \<Rightarrow> duration" where
  "openAIWSSessionStickyTTL e = (case ge_ws e of
     Some c \<Rightarrow> if 0 < ws_StickySessionTTLSeconds c then wrap64 (ws_StickySessionTTLSeconds c * Second)
              else openaiStickySessionTTL
   | None \<Rightarrow> openaiStickySessionTTL)"

definition BindStickySession :: "gw_env \<Rightarrow> int64 option \<Rightarrow> gostring \<Rightarrow> int64 \<Rightarrow> gw \<Rightarrow> gw" where
  "BindStickySession e groupID sessionHash accountID s =
     (if sessionHash = [] \<or> accountID \<le> 0 then s
      else let ttl = openaiStickySessionTTL;
               ttl = (case ge_ws e of
                        Some c \<Rightarrow> if 0 < ws_StickySessionTTLSeconds c
                                  then wrap64 (ws_StickySessionTTLSeconds c * Second) else ttl
                      | None \<Rightarrow> ttl)
           in setStickySessionAccountID e groupID sessionHash accountID ttl s)"

subsection \<open>Checks on an account\<close>

definition openAICompactSupportTier :: "acct_lib \<Rightarrow> account \<Rightarrow> nat" where
  "openAICompactSupportTier lib a =
     (if \<not> IsOpenAI a then 0
      else case OpenAICompactSupportKnown lib (Some a) of
        (supported, known) \<Rightarrow> if \<not> known then 1 else if supported then 2 else 0)"

definition isOpenAIAccountEligibleForRequest :: "acct_lib \<Rightarrow> time \<Rightarrow> account \<Rightarrow> gostring \<Rightarrow> bool \<Rightarrow> bool" where
  "isOpenAIAccountEligibleForRequest lib now a requestedModel requireCompact =
     (if \<not> IsSchedulable lib now a \<or> \<not> IsOpenAI a then False
      else if requestedModel \<noteq> [] \<and> \<not> IsModelSupported a requestedModel then False
      else if requireCompact \<and> openAICompactSupportTier lib a = 0 then False
      else True)"

definition forwardModelWithoutDefault :: "account \<Rightarrow> gostring \<Rightarrow> gostring" where
  "forwardModelWithoutDefault a requestedModel = fst (ResolveMappedModel a requestedModel)"

definition resolveOpenAICompactForwardModel :: "account \<Rightarrow> gostring \<Rightarrow> gostring" where
  "resolveOpenAICompactForwardModel a model =
     (let trimmedModel = trim_space model in
      if trimmedModel = [] then trimmedModel
      else case ResolveCompactMappedModel a trimmedModel of
        (mappedModel, matched) \<Rightarrow>
          if \<not> matched then trimmedModel
          else if trim_space mappedModel \<noteq> [] then trim_space mappedModel
          else trimmedModel)"

definition resolveOpenAIAccountUpstreamModelForRequest :: "account \<Rightarrow> gostring \<Rightarrow> bool \<Rightarrow> gostring" where
  "resolveOpenAIAccountUpstreamModelForRequest a requestedModel requireCompact =
     (let upstreamModel = forwardModelWithoutDefault a requestedModel in
      if upstreamModel = [] then []
      else if requireCompact then resolveOpenAICompactForwardModel a upstreamModel
      else upstreamModel)"

definition needsUpstreamChannelRestrictionCheck :: "gw_env \<Rightarrow> int64 option \<Rightarrow> gw \<Rightarrow> bool \<times> gw" where
  "needsUpstreamChannelRestrictionCheck e groupID s = (case groupID of
     None \<Rightarrow> (False, s)
   | Some g \<Rightarrow> if \<not> ge_channel e then (False, s) else (ge_upstreamRestricts e (gw_tick s) g, tick s))"

definition isUpstreamModelRestrictedByChannel :: "gw_env \<Rightarrow> int64 \<Rightarrow> account \<Rightarrow> gostring \<Rightarrow> bool \<Rightarrow> gw \<Rightarrow> bool \<times> gw" where
  "isUpstreamModelRestrictedByChannel e g a requestedModel requireCompact s =
     (if \<not> ge_channel e then (False, s)
      else let upstreamModel = resolveOpenAIAccountUpstreamModelForRequest a requestedModel requireCompact in
        if upstreamModel = [] then (False, s)
        else (ge_restricted e (gw_tick s) g upstreamModel, tick s))"

definition checkChannelPricingRestriction :: "gw_env \<Rightarrow> int64 option \<Rightarrow> gostring \<Rightarrow> gw \<Rightarrow> bool \<times> gw" where
  "checkChannelPricingRestriction e groupID requestedModel s = (case groupID of
     None \<Rightarrow> (False, s)
   | Some g \<Rightarrow>
       if \<not> ge_channel e \<or> requestedModel = [] then (False, s)
       else let billingModel = ge_billingModel e (gw_tick s) g requestedModel; s1 = tick s in
         if billingModel = [] then (False, s1)
         else (ge_restricted e (gw_tick s1) g billingModel, tick s1))"

definition getSchedulableAccount :: "gw_env \<Rightarrow> int64 \<Rightarrow> gw \<Rightarrow> (gostring + account option) \<times> gw" where
  "getSchedulableAccount e accountID s =
     (if ge_snapshot e then ge_snapAccount e (gw_tick s) accountID else ge_repoAccount e (gw_tick s) accountID, tick s)"

definition resolveFreshSchedulableOpenAIAccount :: "gw_env \<Rightarrow> account \<Rightarrow> gostring \<Rightarrow> bool \<Rightarrow> gw \<Rightarrow> account option \<times> gw" where
  "resolveFreshSchedulableOpenAIAccount e a requestedModel requireCompact s =
     (case (if ge_snapshot e
            then (case getSchedulableAccount e (ac_ID a) s of
                    (Inr (Some current), s1) \<Rightarrow> (Some current, s1)
                  | (_, s1) \<Rightarrow> (None, s1))
            else (Some a, s)) of
        (None, s1) \<Rightarrow> (None, s1)
      | (Some fresh, s1) \<Rightarrow>
          if isOpenAIAccountEligibleForRequest (ge_lib e) (now_at e s1) fresh requestedModel requireCompact
          then (Some fresh, s1) else (None, s1))"

definition recheckSelectedOpenAIAccountFromDB :: "gw_env \<Rightarrow> account \<Rightarrow> gostring \<Rightarrow> bool \<Rightarrow> gw \<Rightarrow> account option \<times> gw" where
  "recheckSelectedOpenAIAccountFromDB e a requestedModel requireCompact s =
     (if \<not> ge_snapshot e \<or> \<not> ge_repo e then
        (if isOpenAIAccountEligibleForRequest (ge_lib e) (now_at e s) a requestedModel requireCompact
         then (Some a, s) else (None, s))
      else let s1 = tick s in
        (case ge_repoAccount e (gw_tick s) (ac_ID a) of
           Inr (Some latest) \<Rightarrow>
             if isOpenAIAccountEligibleForRequest (ge_lib e) (now_at e s1) latest requestedModel requireCompact
             then (Some latest, s1) else (None, s1)
         | _ \<Rightarrow> (None, s1)))"

definition isAccountRequestCompatible :: "gw_env \<Rightarrow> account \<Rightarrow> schedule_request \<Rightarrow> gw \<Rightarrow> bool \<times> gw" where
  "isAccountRequestCompatible e a req s =
     (if sr_RequestedModel req \<noteq> [] \<and> \<not> IsModelSupported a (sr_RequestedModel req) then (False, s)
      else case (case sr_GroupID req of
                   None \<Rightarrow> (False, s)
                 | Some g \<Rightarrow>
                     (case needsUpstreamChannelRestrictionCheck e (Some g) s of
                        (needs, s1) \<Rightarrow>
                          if needs
                          then isUpstreamModelRestrictedByChannel e g a (sr_RequestedModel req) (sr_RequireCompact req) s1
                          else (False, s1))) of
        (restricted, s1) \<Rightarrow>
          if restricted then (False, s1)
          else (SupportsOpenAIImageCapability a (sr_RequiredImageCapability req), s1))"

subsection \<open>Slots\<close>

record wait_plan =
  wp_AccountID :: int64
  wp_MaxConcurrency :: int
  wp_Timeout :: duration
  wp_MaxWaiting :: int

text \<open>\<open>sl_Release\<close>: the slot the release function gives back, if it is not a no-op.\<close>

record selection =
  sl_Account :: account
  sl_Acquired :: bool
  sl_Release :: "int64 option"
  sl_WaitPlan :: "wait_plan option"

definition AcquireAccountSlot :: "gw_env \<Rightarrow> int64 \<Rightarrow> int \<Rightarrow> gw \<Rightarrow> (gostring + bool \<times> int64 option) \<times> gw" where
  "AcquireAccountSlot e accountID maxConcurrency s =
     (if maxConcurrency \<le> 0 then (Inr (True, None), s)
      else case ge_acquire e (gw_tick s) accountID maxConcurrency of
        Inl err \<Rightarrow> (Inl err, tick s)
      | Inr True \<Rightarrow> (Inr (True, Some accountID), tick (s\<lparr>gw_held := accountID # gw_held s\<rparr>))
      | Inr False \<Rightarrow> (Inr (False, None), tick s))"

definition tryAcquireAccountSlot :: "gw_env \<Rightarrow> int64 \<Rightarrow> int \<Rightarrow> gw \<Rightarrow> (gostring + bool \<times> int64 option) \<times> gw" where
  "tryAcquireAccountSlot e accountID maxConcurrency s =
     (if \<not> ge_concurrency e then (Inr (True, None), s) else AcquireAccountSlot e accountID maxConcurrency s)"

definition ReleaseFunc :: "int64 option \<Rightarrow> gw \<Rightarrow> gw" where
  "ReleaseFunc r s = (case r of None \<Rightarrow> s | Some i \<Rightarrow> s\<lparr>gw_held := remove1 i (gw_held s)\<rparr>)"

definition default_sched_config :: sched_config where
  "default_sched_config = \<lparr>sc_StickySessionMaxWaiting = 3, sc_StickySessionWaitTimeout = 45 * Second,
     sc_FallbackWaitTimeout = 30 * Second, sc_FallbackMaxWaiting = 100, sc_LoadBatchEnabled = True\<rparr>"

definition schedulingConfig :: "gw_env \<Rightarrow> sched_config" where
  "schedulingConfig e = (case ge_sched e of Some c \<Rightarrow> c | None \<Rightarrow> default_sched_config)"

definition sticky_wait_plan :: "gw_env \<Rightarrow> int64 \<Rightarrow> account \<Rightarrow> wait_plan" where
  "sticky_wait_plan e accountID a =
     (let cfg = schedulingConfig e in
      \<lparr>wp_AccountID = accountID, wp_MaxConcurrency = ac_Concurrency a,
       wp_Timeout = sc_StickySessionWaitTimeout cfg, wp_MaxWaiting = sc_StickySessionMaxWaiting cfg\<rparr>)"

definition fallback_wait_plan :: "gw_env \<Rightarrow> account \<Rightarrow> wait_plan" where
  "fallback_wait_plan e a =
     (let cfg = schedulingConfig e in
      \<lparr>wp_AccountID = ac_ID a, wp_MaxConcurrency = ac_Concurrency a,
       wp_Timeout = sc_FallbackWaitTimeout cfg, wp_MaxWaiting = sc_FallbackMaxWaiting cfg\<rparr>)"

subsection \<open>The layers of the scheduler\<close>

text \<open>The bindings of response ids: reads fail or miss as for the session cache; writes may be lost.\<close>

definition resp_get :: "gw_env \<Rightarrow> int64 \<Rightarrow> gostring \<Rightarrow> gw \<Rightarrow> int64 option \<times> gw" where
  "resp_get e g r s = (if ge_cacheFault e (gw_tick s) then None else gw_resp s (g, r), tick s)"
definition resp_delete :: "gw_env \<Rightarrow> int64 \<Rightarrow> gostring \<Rightarrow> gw \<Rightarrow> gw" where
  "resp_delete e g r s =
     (if ge_cacheFault e (gw_tick s) then tick s else tick (s\<lparr>gw_resp := (gw_resp s)((g, r) := None)\<rparr>))"
definition resp_bind :: "gw_env \<Rightarrow> int64 \<Rightarrow> gostring \<Rightarrow> int64 \<Rightarrow> gw \<Rightarrow> gw" where
  "resp_bind e g r i s =
     (if ge_cacheFault e (gw_tick s) then tick s else tick (s\<lparr>gw_resp := (gw_resp s)((g, r) \<mapsto> i)\<rparr>))"

text \<open>The last step of the two sticky layers: take a slot, or offer to wait for one.\<close>

definition take_or_wait :: "gw_env \<Rightarrow> int64 \<Rightarrow> account \<Rightarrow> (gw \<Rightarrow> gw) \<Rightarrow> gw \<Rightarrow> selection option \<times> gw" where
  "take_or_wait e accountID a refresh s =
     (case tryAcquireAccountSlot e accountID (ac_Concurrency a) s of
        (Inr (True, rel), s1) \<Rightarrow>
          (Some \<lparr>sl_Account = a, sl_Acquired = True, sl_Release = rel, sl_WaitPlan = None\<rparr>, refresh s1)
      | (_, s1) \<Rightarrow>
          if ge_concurrency e
          then (Some \<lparr>sl_Account = a, sl_Acquired = False, sl_Release = None,
                      sl_WaitPlan = Some (sticky_wait_plan e accountID a)\<rparr>, s1)
          else (None, s1))"

definition SelectAccountByPreviousResponseID ::
    "gw_env \<Rightarrow> int64 option \<Rightarrow> gostring \<Rightarrow> gostring \<Rightarrow> int64 list \<Rightarrow> bool \<Rightarrow> gw \<Rightarrow> selection option \<times> gw" where
  "SelectAccountByPreviousResponseID e groupID previousResponseID requestedModel excludedIDs requireCompact s =
     (let responseID = trim_space previousResponseID; g = derefGroupID groupID; lib = ge_lib e in
      if responseID = [] \<or> \<not> ge_respStore e then (None, s)
      else case resp_get e g responseID s of
        (None, s1) \<Rightarrow> (None, s1)
      | (Some accountID, s1) \<Rightarrow>
          if accountID \<le> 0 \<or> accountID \<in> set excludedIDs then (None, s1)
          else case getSchedulableAccount e accountID s1 of
            (Inr (Some a), s2) \<Rightarrow>
              if wd_Transport (ws_Resolve lib (ge_ws e) (Some a)) \<noteq> OpenAIUpstreamTransportResponsesWebsocketV2
              then (None, s2)
              else if shouldClearStickySession lib (now_at e s2) a requestedModel \<or> \<not> IsOpenAI a
                   \<or> \<not> IsSchedulable lib (now_at e s2) a
              then (None, resp_delete e g responseID s2)
              else if requestedModel \<noteq> [] \<and> \<not> IsModelSupported a requestedModel then (None, s2)
              else (case recheckSelectedOpenAIAccountFromDB e a requestedModel requireCompact s2 of
                 (None, s3) \<Rightarrow> (None, resp_delete e g responseID s3)
               | (Some a', s3) \<Rightarrow>
                   if requireCompact \<and> openAICompactSupportTier lib a' = 0
                   then (None, resp_delete e g responseID s3)
                   else take_or_wait e accountID a' (resp_bind e g responseID accountID) s3)
          | (_, s2) \<Rightarrow> (None, resp_delete e g responseID s2))"

definition sticky_account_id :: "gw_env \<Rightarrow> schedule_request \<Rightarrow> gostring \<Rightarrow> gw \<Rightarrow> int64 option \<times> gw" where
  "sticky_account_id e req sessionHash s =
     (if 0 < sr_StickyAccountID req then (Some (sr_StickyAccountID req), s)
      else case getStickySessionAccountID e (sr_GroupID req) sessionHash s of
        (Some i, s1) \<Rightarrow> (if 0 < i then Some i else None, s1)
      | (None, s1) \<Rightarrow> (None, s1))"

definition selectBySessionHash :: "gw_env \<Rightarrow> schedule_request \<Rightarrow> gw \<Rightarrow> selection option \<times> gw" where
  "selectBySessionHash e req s =
     (let sessionHash = trim_space (sr_SessionHash req); g = sr_GroupID req; lib = ge_lib e;
          forget = deleteStickySessionAccountID e g sessionHash
      in if sessionHash = [] \<or> \<not> ge_cache e then (None, s)
         else case sticky_account_id e req sessionHash s of
           (None, s1) \<Rightarrow> (None, s1)
         | (Some accountID, s1) \<Rightarrow>
             if accountID \<in> set (sr_ExcludedIDs req) then (None, s1)
             else case getSchedulableAccount e accountID s1 of
               (Inr (Some a), s2) \<Rightarrow>
                 if shouldClearStickySession lib (now_at e s2) a (sr_RequestedModel req) \<or> \<not> IsOpenAI a
                    \<or> \<not> IsSchedulable lib (now_at e s2) a
                 then (None, forget s2)
                 else (case isAccountRequestCompatible e a req s2 of
                    (False, s3) \<Rightarrow> (None, s3)
                  | (True, s3) \<Rightarrow>
                      if \<not> isAccountTransportCompatible e a (sr_RequiredTransport req) then (None, forget s3)
                      else (case recheckSelectedOpenAIAccountFromDB e a (sr_RequestedModel req) (sr_RequireCompact req) s3 of
                         (None, s4) \<Rightarrow> (None, forget s4)
                       | (Some a', s4) \<Rightarrow>
                           if \<not> isAccountTransportCompatible e a' (sr_RequiredTransport req) then (None, forget s4)
                           else take_or_wait e accountID a'
                                  (refreshStickySessionTTL e g sessionHash (openAIWSSessionStickyTTL e)) s4))
             | (_, s2) \<Rightarrow> (None, forget s2))"

definition noAvailableOpenAISelectionError :: "gostring \<Rightarrow> bool \<Rightarrow> sel_error" where
  "noAvailableOpenAISelectionError requestedModel compactBlocked =
     (if compactBlocked then NoAvailableCompactAccounts else NoOpenAIAccounts requestedModel)"

text \<open>The filter of the listed accounts; an account without the privacy a group demands is marked.\<close>

fun filter_accounts :: "gw_env \<Rightarrow> schedule_request \<Rightarrow> gw_group option \<Rightarrow> account list \<Rightarrow> gw \<Rightarrow> account list \<times> gw" where
  "filter_accounts e req grp [] s = ([], s)"
| "filter_accounts e req grp (a # as) s =
     (if ac_ID a \<in> set (sr_ExcludedIDs req) then filter_accounts e req grp as s
      else if \<not> IsSchedulable (ge_lib e) (now_at e s) a \<or> \<not> IsOpenAI a then filter_accounts e req grp as s
      else if (case grp of Some g \<Rightarrow> g_RequirePrivacySet g \<and> \<not> IsPrivacySet a | None \<Rightarrow> False)
      then filter_accounts e req grp as
             (tick (s\<lparr>gw_marked := gw_marked s @ [(ac_ID a, ''Privacy not set, required by group ['' @ g_Name (the grp) @ '']'')]\<rparr>))
      else case isAccountRequestCompatible e a req s of
        (False, s1) \<Rightarrow> filter_accounts e req grp as s1
      | (True, s1) \<Rightarrow>
          if \<not> isAccountTransportCompatible e a (sr_RequiredTransport req) then filter_accounts e req grp as s1
          else (case filter_accounts e req grp as s1 of (kept, s2) \<Rightarrow> (a # kept, s2)))"

definition candidate_of :: "(int64 \<rightharpoonup> load_info) \<Rightarrow> runtime_stats \<Rightarrow> account \<Rightarrow> cand" where
  "candidate_of loadMap stats a =
     (case snapshot (ac_ID a) stats of
        (errorRate, ttft, hasTTFT) \<Rightarrow>
          \<lparr>ca_account = a,
           ca_loadInfo = (case loadMap (ac_ID a) of
                            Some l \<Rightarrow> l
                          | None \<Rightarrow> \<lparr>li_AccountID = ac_ID a, li_CurrentConcurrency = 0, li_WaitingCount = 0, li_LoadRate = 0\<rparr>),
           ca_score = Fin 0, ca_errorRate = errorRate, ca_ttft = ttft, ca_hasTTFT = hasTTFT\<rparr>)"

definition load_map :: "gw_env \<Rightarrow> account list \<Rightarrow> gw \<Rightarrow> (int64 \<rightharpoonup> load_info) \<times> gw" where
  "load_map e filtered s =
     (if \<not> ge_concurrency e then (Map.empty, s)
      else case ge_loads e (gw_tick s) (map (\<lambda>a. (ac_ID a, EffectiveLoadFactor (Some a))) filtered) of
        Some m \<Rightarrow> (m, tick s)
      | None \<Rightarrow> (Map.empty, tick s))"

definition buildSelectionOrder :: "gw_env \<Rightarrow> schedule_request \<Rightarrow> int \<Rightarrow> cand list \<Rightarrow> gw \<Rightarrow> cand list" where
  "buildSelectionOrder e req topK pool s =
     (if pool = [] \<or> topK \<le> 0 then []
      else let groupTopK = (if int (length pool) < topK then int (length pool) else topK);
               ranked = selectTopKOpenAICandidates pool groupTopK
           in buildOpenAIWeightedSelectionOrder (now_at e s) (now_at e s) ranked req)"

definition used_before :: "account \<Rightarrow> account \<Rightarrow> bool" where
  "used_before a b = (case (ac_LastUsedAt a, ac_LastUsedAt b) of
     (None, Some _) \<Rightarrow> True
   | (Some _, None) \<Rightarrow> False
   | (None, None) \<Rightarrow> False
   | (Some t, Some u) \<Rightarrow> Before t u)"

definition retry_before :: "cand \<Rightarrow> cand \<Rightarrow> bool" where
  "retry_before a b =
     (if ac_Priority (ca_account a) \<noteq> ac_Priority (ca_account b)
      then ac_Priority (ca_account a) < ac_Priority (ca_account b)
      else if li_LoadRate (ca_loadInfo a) \<noteq> li_LoadRate (ca_loadInfo b)
      then li_LoadRate (ca_loadInfo a) < li_LoadRate (ca_loadInfo b)
      else if li_WaitingCount (ca_loadInfo a) \<noteq> li_WaitingCount (ca_loadInfo b)
      then li_WaitingCount (ca_loadInfo a) < li_WaitingCount (ca_loadInfo b)
      else used_before (ca_account a) (ca_account b))"

text \<open>\<open>sort.SliceStable\<close>: an element moves before those it is strictly less than, and no further.\<close>

definition sortCompactRetryCandidates :: "cand list \<Rightarrow> cand list" where
  "sortCompactRetryCandidates pool = sort_slice retry_before pool"

definition selection_order ::
    "gw_env \<Rightarrow> schedule_request \<Rightarrow> int \<Rightarrow> cand list \<Rightarrow> cand list \<Rightarrow> gw \<Rightarrow> sel_error + cand list" where
  "selection_order e req topK candidates stale s =
     (let tier = (\<lambda>c. openAICompactSupportTier (ge_lib e) (ca_account c)) in
      if sr_RequireCompact req then
        let supported = filter (\<lambda>c. tier c = 2) candidates; unknown = filter (\<lambda>c. tier c = 1) candidates in
        if supported = [] \<and> unknown = [] \<and> \<not> ge_snapshot e then Inl NoAvailableCompactAccounts
        else Inr (buildSelectionOrder e req topK supported s @ buildSelectionOrder e req topK unknown s
                  @ (if stale \<noteq> [] \<and> ge_snapshot e then sortCompactRetryCandidates stale else []))
      else Inr (buildSelectionOrder e req topK candidates s))"

text \<open>The re-checks before a candidate is used; the flag says that only its lack of compact support excluded it.\<close>

definition fresh_candidate :: "gw_env \<Rightarrow> schedule_request \<Rightarrow> cand \<Rightarrow> gw \<Rightarrow> (account option \<times> bool) \<times> gw" where
  "fresh_candidate e req c s =
     (let T = sr_RequiredTransport req; M = sr_RequestedModel req in
      case resolveFreshSchedulableOpenAIAccount e (ca_account c) M False s of
        (None, s1) \<Rightarrow> ((None, False), s1)
      | (Some a, s1) \<Rightarrow>
          if \<not> isAccountTransportCompatible e a T then ((None, False), s1)
          else (case isAccountRequestCompatible e a req s1 of
             (False, s2) \<Rightarrow> ((None, False), s2)
           | (True, s2) \<Rightarrow>
               (case recheckSelectedOpenAIAccountFromDB e a M False s2 of
                  (None, s3) \<Rightarrow> ((None, False), s3)
                | (Some a', s3) \<Rightarrow>
                    if \<not> isAccountTransportCompatible e a' T then ((None, False), s3)
                    else (case isAccountRequestCompatible e a' req s3 of
                       (False, s4) \<Rightarrow> ((None, False), s4)
                     | (True, s4) \<Rightarrow>
                         if sr_RequireCompact req \<and> openAICompactSupportTier (ge_lib e) a' = 0
                         then ((None, True), s4) else ((Some a', False), s4)))))"

datatype pass_result = Chosen selection | Failed sel_error | Exhausted bool

fun acquire_pass :: "gw_env \<Rightarrow> schedule_request \<Rightarrow> cand list \<Rightarrow> bool \<Rightarrow> gw \<Rightarrow> pass_result \<times> gw" where
  "acquire_pass e req [] blocked s = (Exhausted blocked, s)"
| "acquire_pass e req (c # cs) blocked s =
     (case fresh_candidate e req c s of
        ((None, b), s1) \<Rightarrow> acquire_pass e req cs (blocked \<or> b) s1
      | ((Some a, _), s1) \<Rightarrow>
          (case tryAcquireAccountSlot e (ac_ID a) (ac_Concurrency a) s1 of
             (Inl err, s2) \<Rightarrow> (Failed (OutsideError err), s2)
           | (Inr (True, rel), s2) \<Rightarrow>
               (Chosen \<lparr>sl_Account = a, sl_Acquired = True, sl_Release = rel, sl_WaitPlan = None\<rparr>,
                if sr_SessionHash req \<noteq> [] then BindStickySession e (sr_GroupID req) (sr_SessionHash req) (ac_ID a) s2 else s2)
           | (Inr (False, _), s2) \<Rightarrow> acquire_pass e req cs blocked s2))"

fun wait_pass :: "gw_env \<Rightarrow> schedule_request \<Rightarrow> cand list \<Rightarrow> bool \<Rightarrow> gw \<Rightarrow> pass_result \<times> gw" where
  "wait_pass e req [] blocked s = (Exhausted blocked, s)"
| "wait_pass e req (c # cs) blocked s =
     (case fresh_candidate e req c s of
        ((None, b), s1) \<Rightarrow> wait_pass e req cs (blocked \<or> b) s1
      | ((Some a, _), s1) \<Rightarrow>
          (Chosen \<lparr>sl_Account = a, sl_Acquired = False, sl_Release = None, sl_WaitPlan = Some (fallback_wait_plan e a)\<rparr>, s1))"

record lb_result =
  lb_outcome :: "sel_error + selection"
  lb_candidateCount :: int
  lb_topK :: int
  lb_loadSkew :: f64

definition choose_in_order :: "gw_env \<Rightarrow> schedule_request \<Rightarrow> cand list \<Rightarrow> gw \<Rightarrow> (sel_error + selection) \<times> gw" where
  "choose_in_order e req order s =
     (case acquire_pass e req order False s of
        (Chosen sel, s1) \<Rightarrow> (Inr sel, s1)
      | (Failed err, s1) \<Rightarrow> (Inl err, s1)
      | (Exhausted blocked, s1) \<Rightarrow>
          (case wait_pass e req order blocked s1 of
             (Chosen sel, s2) \<Rightarrow> (Inr sel, s2)
           | (Failed err, s2) \<Rightarrow> (Inl err, s2)
           | (Exhausted blocked, s2) \<Rightarrow> (Inl (noAvailableOpenAISelectionError (sr_RequestedModel req) blocked), s2)))"

definition effective_topK :: "gw_env \<Rightarrow> cand list \<Rightarrow> int" where
  "effective_topK e candidates =
     (if candidates = [] then 0
      else let k = openAIWSLBTopK (map_option ws_LBTopK (ge_ws e));
               k = (if int (length candidates) < k then int (length candidates) else k)
           in if k \<le> 0 then 1 else k)"

definition lb_fail :: "sel_error \<Rightarrow> lb_result" where
  "lb_fail err = \<lparr>lb_outcome = Inl err, lb_candidateCount = 0, lb_topK = 0, lb_loadSkew = Fin 0\<rparr>"

definition balance_candidates :: "gw_env \<Rightarrow> schedule_request \<Rightarrow> cand list \<Rightarrow> gw \<Rightarrow> lb_result \<times> gw" where
  "balance_candidates e req allCandidates s =
     (let unsupported = (\<lambda>c. openAICompactSupportTier (ge_lib e) (ca_account c) = 0);
          stale = (if sr_RequireCompact req then filter unsupported allCandidates else []);
          candidates = (if sr_RequireCompact req then filter (\<lambda>c. \<not> unsupported c) allCandidates else allCandidates)
      in if sr_RequireCompact req \<and> candidates = [] \<and> stale = [] then (lb_fail NoAvailableCompactAccounts, s)
         else let skew = (if candidates = [] then Fin 0 else load_skew (ge_sqrt e) candidates);
                  scored = (if candidates = [] then []
                            else score_candidates (openAIWSSchedulerWeights (map_option ws_Weights (ge_ws e))) candidates);
                  topK = effective_topK e scored;
                  result = (\<lambda>r. \<lparr>lb_outcome = r, lb_candidateCount = int (length candidates), lb_topK = topK, lb_loadSkew = skew\<rparr>)
              in case selection_order e req topK scored stale s of
                   Inl err \<Rightarrow> (result (Inl err), s)
                 | Inr order \<Rightarrow>
                     if order = []
                     then (result (Inl (noAvailableOpenAISelectionError (sr_RequestedModel req)
                             (sr_RequireCompact req \<and> allCandidates \<noteq> []))), s)
                     else (case choose_in_order e req order s of (r, s1) \<Rightarrow> (result r, s1)))"

definition selectByLoadBalance :: "gw_env \<Rightarrow> schedule_request \<Rightarrow> gw \<Rightarrow> lb_result \<times> gw" where
  "selectByLoadBalance e req s =
     (let none = lb_fail (noAvailableOpenAISelectionError (sr_RequestedModel req) False) in
      case ge_list e (gw_tick s) (sr_GroupID req) of
        Inl err \<Rightarrow> (lb_fail (OutsideError err), tick s)
      | Inr accounts \<Rightarrow>
          if accounts = [] then (none, tick s)
          else case (case sr_GroupID req of
                       Some g \<Rightarrow> if ge_snapshot e then (ge_group e (gw_tick (tick s)) g, tick (tick s)) else (None, tick s)
                     | None \<Rightarrow> (None, tick s)) of
            (grp, s1) \<Rightarrow>
              (case filter_accounts e req grp accounts s1 of
                 (filtered, s2) \<Rightarrow>
                   if filtered = [] then (none, s2)
                   else (case load_map e filtered s2 of
                      (m, s3) \<Rightarrow> balance_candidates e req (map (candidate_of m (gw_stats s3)) filtered) s3)))"

definition record_decision :: "schedule_decision \<Rightarrow> time \<Rightarrow> gw_env \<Rightarrow> gw \<Rightarrow> gw" where
  "record_decision d start e s =
     s\<lparr>gw_metrics := recordSelect (d\<lparr>sd_LatencyMs := quot (Sub (now_at e s) start) 1000000\<rparr>) (gw_metrics s)\<rparr>"

text \<open>The first layer of \<open>Select\<close>: an account of the wrong transport gives its slot back.\<close>

definition previous_layer :: "gw_env \<Rightarrow> schedule_request \<Rightarrow> gw \<Rightarrow> selection option \<times> gw" where
  "previous_layer e req s =
     (let previousResponseID = trim_space (sr_PreviousResponseID req) in
      if previousResponseID = [] then (None, s)
      else case SelectAccountByPreviousResponseID e (sr_GroupID req) previousResponseID (sr_RequestedModel req)
                  (sr_ExcludedIDs req) (sr_RequireCompact req) s of
        (Some sel, s1) \<Rightarrow>
          if \<not> isAccountTransportCompatible e (sl_Account sel) (sr_RequiredTransport req)
          then (None, ReleaseFunc (sl_Release sel) s1)
          else (Some sel, if sr_SessionHash req \<noteq> []
                          then BindStickySession e (sr_GroupID req) (sr_SessionHash req) (ac_ID (sl_Account sel)) s1 else s1)
      | (None, s1) \<Rightarrow> (None, s1))"

definition Select :: "gw_env \<Rightarrow> schedule_request \<Rightarrow> gw \<Rightarrow> ((sel_error + selection) \<times> schedule_decision) \<times> gw" where
  "Select e req s =
     (let start = now_at e s in
      case previous_layer e req s of
        (Some sel, s1) \<Rightarrow>
          (let d = no_decision\<lparr>sd_Layer := openAIAccountScheduleLayerPreviousResponse, sd_StickyPreviousHit := True,
                     sd_SelectedAccountID := ac_ID (sl_Account sel), sd_SelectedAccountType := ac_Type (sl_Account sel)\<rparr>
           in ((Inr sel, d), record_decision d start e s1))
      | (None, s1) \<Rightarrow>
          (case selectBySessionHash e req s1 of
             (Some sel, s2) \<Rightarrow>
               (let d = no_decision\<lparr>sd_Layer := openAIAccountScheduleLayerSessionSticky, sd_StickySessionHit := True,
                          sd_SelectedAccountID := ac_ID (sl_Account sel), sd_SelectedAccountType := ac_Type (sl_Account sel)\<rparr>
                in ((Inr sel, d), record_decision d start e s2))
           | (None, s2) \<Rightarrow>
               (case selectByLoadBalance e req s2 of
                  (r, s3) \<Rightarrow>
                    (let d = no_decision\<lparr>sd_Layer := openAIAccountScheduleLayerLoadBalance,
                               sd_CandidateCount := lb_candidateCount r, sd_TopK := lb_topK r, sd_LoadSkew := lb_loadSkew r\<rparr>;
                         d = (case lb_outcome r of
                                Inr sel \<Rightarrow> d\<lparr>sd_SelectedAccountID := ac_ID (sl_Account sel),
                                            sd_SelectedAccountType := ac_Type (sl_Account sel)\<rparr>
                              | Inl _ \<Rightarrow> d)
                     in ((lb_outcome r, d), record_decision d start e s3)))))"

end
