(* ===== verification/OpenAISelectLaws.thy ===== *)
theory OpenAISelectLaws
  imports OpenAISelect
begin

text \<open>
  What the layers of the scheduler guarantee: which slots are held when a selection returns, and which checks the
  selected account has passed.
\<close>

subsection \<open>Operations that take no slot\<close>

named_theorems no_slot "operations that leave the slots held alone"

lemma no_slot_tick [no_slot, simp]: "gw_held (tick s) = gw_held s"
  by (simp add: tick_def)

lemma no_slot_cache [no_slot, simp]:
  "gw_held (snd (cache_get e g k s)) = gw_held s"
  "gw_held (snd (cache_set e g k v ttl s)) = gw_held s"
  "gw_held (snd (cache_refresh e g k ttl s)) = gw_held s"
  "gw_held (snd (cache_delete e g k s)) = gw_held s"
  by (auto simp: cache_get_def cache_set_def cache_refresh_def cache_delete_def)

lemma no_slot_resp [no_slot, simp]:
  "gw_held (snd (resp_get e g k s)) = gw_held s"
  "gw_held (resp_delete e g k s) = gw_held s"
  "gw_held (resp_bind e g k i s) = gw_held s"
  by (auto simp: resp_get_def resp_delete_def resp_bind_def)

lemma no_slot_getSticky [no_slot, simp]:
  "gw_held (snd (getStickySessionAccountID e g h s)) = gw_held s"
  by (auto simp: getStickySessionAccountID_def cache_get_def Let_def split: prod.splits)

lemma no_slot_sticky [no_slot, simp]:
  "gw_held (setStickySessionAccountID e g h i ttl s) = gw_held s"
  "gw_held (refreshStickySessionTTL e g h ttl s) = gw_held s"
  "gw_held (deleteStickySessionAccountID e g h s) = gw_held s"
  by (auto simp: setStickySessionAccountID_def refreshStickySessionTTL_def deleteStickySessionAccountID_def
        cache_set_def Let_def split: prod.splits)

lemma no_slot_bind [no_slot, simp]: "gw_held (BindStickySession e g h i s) = gw_held s"
  by (simp add: BindStickySession_def Let_def)

lemma no_slot_checks [no_slot, simp]:
  "gw_held (snd (needsUpstreamChannelRestrictionCheck e g s)) = gw_held s"
  "gw_held (snd (isUpstreamModelRestrictedByChannel e i a m c s)) = gw_held s"
  "gw_held (snd (getSchedulableAccount e i s)) = gw_held s"
  by (auto simp: needsUpstreamChannelRestrictionCheck_def isUpstreamModelRestrictedByChannel_def
        getSchedulableAccount_def Let_def split: option.splits)

lemma no_slot_compatible [no_slot, simp]: "gw_held (snd (isAccountRequestCompatible e a req s)) = gw_held s"
  by (cases "sr_GroupID req")
    (auto simp: isAccountRequestCompatible_def needsUpstreamChannelRestrictionCheck_def
       isUpstreamModelRestrictedByChannel_def Let_def)

lemma no_slot_fresh [no_slot, simp]:
  "gw_held (snd (resolveFreshSchedulableOpenAIAccount e a m c s)) = gw_held s"
  "gw_held (snd (recheckSelectedOpenAIAccountFromDB e a m c s)) = gw_held s"
  by (auto simp: resolveFreshSchedulableOpenAIAccount_def recheckSelectedOpenAIAccountFromDB_def getSchedulableAccount_def
        Let_def split: option.splits sum.splits prod.splits)

lemma no_slotD:
  "resp_get e g k s = (i, s') \<Longrightarrow> gw_held s' = gw_held s"
  "getStickySessionAccountID e gr h s = (i, s') \<Longrightarrow> gw_held s' = gw_held s"
  "getSchedulableAccount e j s = (r, s') \<Longrightarrow> gw_held s' = gw_held s"
  "isAccountRequestCompatible e a req s = (b, s') \<Longrightarrow> gw_held s' = gw_held s"
  "resolveFreshSchedulableOpenAIAccount e a m c s = (x, s') \<Longrightarrow> gw_held s' = gw_held s"
  "recheckSelectedOpenAIAccountFromDB e a m c s = (x, s') \<Longrightarrow> gw_held s' = gw_held s"
  by (metis no_slot snd_conv)+

lemma no_slot_sticky_id: "sticky_account_id e req h s = (i, s') \<Longrightarrow> gw_held s' = gw_held s"
  by (auto simp: sticky_account_id_def dest: no_slotD split: if_splits prod.splits option.splits)

lemma no_slot_filter: "filter_accounts e req grp as s = (kept, s') \<Longrightarrow> gw_held s' = gw_held s"
proof (induction as arbitrary: s kept)
  case (Cons a as)
  then show ?case
    by (fastforce dest: no_slotD split: if_splits prod.splits bool.splits option.splits)
qed simp

lemma no_slot_load_map: "load_map e as s = (m, s') \<Longrightarrow> gw_held s' = gw_held s"
  by (auto simp: load_map_def split: if_splits option.splits)

lemma no_slot_fresh_candidate: "fresh_candidate e req c s = (r, s') \<Longrightarrow> gw_held s' = gw_held s"
  by (auto simp: fresh_candidate_def Let_def dest!: no_slotD split: prod.splits option.splits bool.splits if_splits)

subsection \<open>Slot accounting\<close>

text \<open>The slot a selection holds is the head of the list; with no selection none was taken.\<close>

definition slots_of :: "int64 option \<Rightarrow> int64 list" where
  "slots_of r = (case r of None \<Rightarrow> [] | Some i \<Rightarrow> [i])"

lemma slots_of_simps [simp]: "slots_of None = []" "slots_of (Some i) = [i]"
  by (simp_all add: slots_of_def)

lemma ReleaseFunc_held: "gw_held (ReleaseFunc r (s\<lparr>gw_held := slots_of r @ h\<rparr>)) = h"
  by (cases r) (simp_all add: ReleaseFunc_def)

lemma ReleaseFunc_gives_back: "gw_held s = slots_of r @ h \<Longrightarrow> gw_held (ReleaseFunc r s) = h"
  by (cases r) (simp_all add: ReleaseFunc_def)

definition accounted :: "int64 list \<Rightarrow> selection \<Rightarrow> gw \<Rightarrow> bool" where
  "accounted h sel s' \<longleftrightarrow> gw_held s' = slots_of (sl_Release sel) @ h
     \<and> (sl_Acquired sel \<longleftrightarrow> sl_WaitPlan sel = None) \<and> (sl_Release sel \<noteq> None \<longrightarrow> sl_Acquired sel)"

lemma tryAcquire_accounted:
  assumes "tryAcquireAccountSlot e i n s = (r, s')"
  shows "gw_held s' = (case r of Inr (True, rel) \<Rightarrow> slots_of rel | _ \<Rightarrow> []) @ gw_held s"
    and "r = Inr (b, rel) \<Longrightarrow> rel \<noteq> None \<Longrightarrow> b \<and> rel = Some i"
  using assms by (auto simp: tryAcquireAccountSlot_def AcquireAccountSlot_def split: if_splits sum.splits bool.splits)

lemma take_or_wait_accounted:
  assumes "take_or_wait e i a refresh s = (r, s')" and "\<And>t. gw_held (refresh t) = gw_held t"
  shows "case r of None \<Rightarrow> gw_held s' = gw_held s | Some sel \<Rightarrow> accounted (gw_held s) sel s'"
  using assms
  by (auto simp: take_or_wait_def accounted_def dest!: tryAcquire_accounted(1)
        split: prod.splits sum.splits bool.splits if_splits)

lemma previous_accounted:
  assumes "SelectAccountByPreviousResponseID e g p m ex c s = (r, s')"
  shows "case r of None \<Rightarrow> gw_held s' = gw_held s | Some sel \<Rightarrow> accounted (gw_held s) sel s'"
  using assms
  by (auto simp: SelectAccountByPreviousResponseID_def Let_def dest!: no_slotD take_or_wait_accounted
        split: prod.splits sum.splits option.splits if_splits)

lemma session_accounted:
  assumes "selectBySessionHash e req s = (r, s')"
  shows "case r of None \<Rightarrow> gw_held s' = gw_held s | Some sel \<Rightarrow> accounted (gw_held s) sel s'"
  using assms
  by (auto simp: selectBySessionHash_def Let_def dest!: no_slotD no_slot_sticky_id take_or_wait_accounted
        split: prod.splits sum.splits option.splits if_splits bool.splits)

definition pass_accounted :: "int64 list \<Rightarrow> pass_result \<Rightarrow> gw \<Rightarrow> bool" where
  "pass_accounted h r s' = (case r of Chosen sel \<Rightarrow> accounted h sel s' | _ \<Rightarrow> gw_held s' = h)"

lemma pass_accounted_simps [simp]:
  "pass_accounted h (Chosen sel) s' = accounted h sel s'"
  "pass_accounted h (Failed err) s' \<longleftrightarrow> gw_held s' = h"
  "pass_accounted h (Exhausted b) s' \<longleftrightarrow> gw_held s' = h"
  by (simp_all add: pass_accounted_def)

lemma acquire_pass_accounted:
  "acquire_pass e req cs b s = (r, s') \<Longrightarrow>
   pass_accounted (gw_held s) r s'"
proof (induction cs arbitrary: b s)
  case (Cons c cs)
  obtain x b' s1 where f: "fresh_candidate e req c s = ((x, b'), s1)" by (metis surj_pair)
  note h = no_slot_fresh_candidate [OF f]
  show ?case
  proof (cases x)
    case None
    then show ?thesis using Cons.IH [of "b \<or> b'" s1] Cons.prems f h by simp
  next
    case (Some a)
    obtain q s2 where t: "tryAcquireAccountSlot e (ac_ID a) (ac_Concurrency a) s1 = (q, s2)" by (metis surj_pair)
    then show ?thesis
      using Cons.IH [of b s2] Cons.prems f h Some tryAcquire_accounted(1) [OF t]
      by (auto simp: accounted_def split: sum.splits prod.splits bool.splits if_splits)
  qed
qed auto

lemma wait_pass_accounted:
  "wait_pass e req cs b s = (r, s') \<Longrightarrow>
   pass_accounted (gw_held s) r s'"
proof (induction cs arbitrary: b s)
  case (Cons c cs)
  obtain x b' s1 where f: "fresh_candidate e req c s = ((x, b'), s1)" by (metis surj_pair)
  then show ?case
    using Cons.IH [of "b \<or> b'" s1] Cons.prems no_slot_fresh_candidate [OF f]
    by (cases x) (auto simp: accounted_def)
qed auto

lemma choose_accounted:
  assumes "choose_in_order e req cs s = (r, s')"
  shows "case r of Inl _ \<Rightarrow> gw_held s' = gw_held s | Inr sel \<Rightarrow> accounted (gw_held s) sel s'"
  using assms
  by (auto simp: choose_in_order_def dest!: acquire_pass_accounted wait_pass_accounted
        split: prod.splits pass_result.splits)

lemma load_balance_accounted:
  assumes "selectByLoadBalance e req s = (r, s')"
  shows "case lb_outcome r of Inl _ \<Rightarrow> gw_held s' = gw_held s | Inr sel \<Rightarrow> accounted (gw_held s) sel s'"
  using assms
  by (auto simp: selectByLoadBalance_def balance_candidates_def lb_fail_def Let_def
        dest!: no_slot_filter no_slot_load_map choose_accounted
        split: sum.splits prod.splits if_splits option.splits)

definition result_accounted :: "int64 list \<Rightarrow> sel_error + selection \<Rightarrow> gw \<Rightarrow> bool" where
  "result_accounted h r s' = (case r of Inl err \<Rightarrow> gw_held s' = h | Inr sel \<Rightarrow> accounted h sel s')"

lemma select_accounted:
  assumes "Select e req s = ((r, d), s')" shows "result_accounted (gw_held s) r s'"
proof -
  have prev: "case r of None \<Rightarrow> gw_held s1 = gw_held s | Some sel \<Rightarrow> accounted (gw_held s) sel s1"
    if "previous_layer e req s = (r, s1)" for r s1
    using that
    by (auto simp: previous_layer_def Let_def accounted_def dest!: previous_accounted ReleaseFunc_gives_back
          split: prod.splits option.splits if_splits)
  show ?thesis
    using assms
    by (auto simp: Select_def record_decision_def accounted_def result_accounted_def Let_def
          dest!: prev session_accounted load_balance_accounted
          split: prod.splits option.splits sum.splits)
qed


subsection \<open>Candidates of the order\<close>

lemma topk_step_set: "0 < k \<Longrightarrow> set (topk_step better k c best) \<subseteq> insert c (set best)"
proof -
  assume k: "0 < k"
  have push: "set (heap_Push lt c best) = insert c (set best)" for lt
    by (metis heap_Push_mset set_mset_add_mset_insert set_mset_mset)
  have fix_set: "set (heap_Fix lt 0 (best[0 := c])) = set (best[0 := c])" if "best \<noteq> []" for lt
    using that by (metis heap_Fix_mset length_greater_0_conv length_list_update set_mset_mset)
  show ?thesis
  proof (cases "length best < k")
    case False
    then have "best \<noteq> []" using k by auto
    then show ?thesis
      using set_update_subset_insert [of best 0 c] fix_set [of "\<lambda>x y. better y x"] by (auto simp: topk_step_def push)
  qed (simp add: topk_step_def push)
qed

lemma topk_fold_set: "0 < k \<Longrightarrow> set (fold (topk_step better k) cs best) \<subseteq> set cs \<union> set best"
proof (induction cs arbitrary: best)
  case (Cons c cs)
  then show ?case using topk_step_set [of k better c best] by fastforce
qed simp

lemma select_topk_set: "set (select_topk better cs k) \<subseteq> set cs"
  using topk_fold_set [of "nat (if k \<le> 0 then 1 else k)" better cs "[]"] by (auto simp: select_topk_def Let_def)

lemma weighted_order_set: "set (buildOpenAIWeightedSelectionOrder t1 t2 cs req) = set cs"
proof -
  have "mset (buildOpenAIWeightedSelectionOrder t1 t2 cs req) = mset cs"
    by (simp add: buildOpenAIWeightedSelectionOrder_def Let_def weighted_loop_mset comp_def)
  then show ?thesis by (rule mset_eq_setD)
qed

lemma buildSelectionOrder_set: "set (buildSelectionOrder e req k pool s) \<subseteq> set pool"
  by (auto dest: subsetD [OF select_topk_set] simp: buildSelectionOrder_def Let_def weighted_order_set selectTopKOpenAICandidates_def)

lemma selection_order_set:
  "selection_order e req k cs stale s = Inr order \<Longrightarrow> set order \<subseteq> set cs \<union> set stale"
  using buildSelectionOrder_set
  by (fastforce simp: selection_order_def Let_def sortCompactRetryCandidates_def split: if_splits)

lemma score_candidates_accounts: "ca_account ` set (score_candidates w cs) = ca_account ` set cs"
  by (simp add: score_candidates_def Let_def image_image)

lemma filter_accounts_sound:
  "filter_accounts e req grp as s = (kept, s') \<Longrightarrow> a \<in> set kept \<Longrightarrow> a \<in> set as \<and> ac_ID a \<notin> set (sr_ExcludedIDs req)"
proof (induction as arbitrary: s kept)
  case (Cons b as)
  then show ?case
    by (fastforce split: if_splits prod.splits bool.splits)
qed simp

subsection \<open>Checks passed by the account selected\<close>

text \<open>The repository and the snapshot answer a lookup with the account asked for.\<close>

definition answers_by_id :: "gw_env \<Rightarrow> bool" where
  "answers_by_id e \<longleftrightarrow> (\<forall>t i a. ge_repoAccount e t i = Inr (Some a) \<or> ge_snapAccount e t i = Inr (Some a) \<longrightarrow> ac_ID a = i)"

text \<open>\<open>eligible_at\<close>: the account passed the eligibility check at some moment of the call.\<close>

definition eligible_at :: "gw_env \<Rightarrow> account \<Rightarrow> gostring \<Rightarrow> bool" where
  "eligible_at e a m \<longleftrightarrow> IsOpenAI a \<and> (\<exists>t. IsSchedulable (ge_lib e) (ge_now e t) a) \<and> (m \<noteq> [] \<longrightarrow> IsModelSupported a m)"

lemma eligible_atI: "isOpenAIAccountEligibleForRequest (ge_lib e) (ge_now e t) a m c \<Longrightarrow> eligible_at e a m"
  by (auto simp: isOpenAIAccountEligibleForRequest_def eligible_at_def split: if_splits)

lemma recheck_passed:
  assumes "recheckSelectedOpenAIAccountFromDB e a m c s = (Some a', s')"
  shows "eligible_at e a' m" and "c \<Longrightarrow> openAICompactSupportTier (ge_lib e) a' \<noteq> 0"
    and "answers_by_id e \<Longrightarrow> ac_ID a' = ac_ID a"
proof -
  have el: "isOpenAIAccountEligibleForRequest (ge_lib e) (now_at e s') a' m c"
    using assms by (auto simp: recheckSelectedOpenAIAccountFromDB_def Let_def split: if_splits sum.splits option.splits)
  then show "eligible_at e a' m" by (rule eligible_atI)
  show "openAICompactSupportTier (ge_lib e) a' \<noteq> 0" if c
    using el that by (auto simp: isOpenAIAccountEligibleForRequest_def split: if_splits)
  show "ac_ID a' = ac_ID a" if "answers_by_id e"
    using assms that by (auto simp: recheckSelectedOpenAIAccountFromDB_def answers_by_id_def Let_def
        split: if_splits sum.splits option.splits)
qed

lemma getSchedulable_id: "getSchedulableAccount e i s = (Inr (Some a), s') \<Longrightarrow> answers_by_id e \<Longrightarrow> ac_ID a = i"
  by (auto simp: getSchedulableAccount_def answers_by_id_def split: if_splits)

lemma resolveFresh_id:
  "resolveFreshSchedulableOpenAIAccount e a m c s = (Some a', s') \<Longrightarrow> answers_by_id e \<Longrightarrow> ac_ID a' = ac_ID a"
  by (auto simp: resolveFreshSchedulableOpenAIAccount_def dest: getSchedulable_id
        split: if_splits prod.splits sum.splits option.splits)

definition fits :: "gw_env \<Rightarrow> schedule_request \<Rightarrow> selection \<Rightarrow> bool" where
  "fits e req sel \<longleftrightarrow>
     (let a = sl_Account sel in
      eligible_at e a (sr_RequestedModel req) \<and> isAccountTransportCompatible e a (sr_RequiredTransport req)
      \<and> (sr_RequireCompact req \<longrightarrow> openAICompactSupportTier (ge_lib e) a \<noteq> 0)
      \<and> (answers_by_id e \<longrightarrow> ac_ID a \<notin> set (sr_ExcludedIDs req)
           \<and> sl_Release sel \<in> {None, Some (ac_ID a)}
           \<and> (\<forall>w. sl_WaitPlan sel = Some w \<longrightarrow> wp_AccountID w = ac_ID a \<and> wp_MaxConcurrency w = ac_Concurrency a)))"

lemma take_or_wait_fields:
  assumes "take_or_wait e i a refresh s = (Some sel, s')"
  shows "sl_Account sel = a" "sl_Release sel \<in> {None, Some i}"
    "sl_WaitPlan sel = Some w \<Longrightarrow> wp_AccountID w = i \<and> wp_MaxConcurrency w = ac_Concurrency a"
  using assms
  by (auto simp: take_or_wait_def sticky_wait_plan_def Let_def dest: tryAcquire_accounted(2) [OF _ refl]
        split: prod.splits sum.splits bool.splits if_splits)

lemma previous_fits:
  assumes "SelectAccountByPreviousResponseID e (sr_GroupID req) p (sr_RequestedModel req) (sr_ExcludedIDs req)
      (sr_RequireCompact req) s = (Some sel, s')"
    and "isAccountTransportCompatible e (sl_Account sel) (sr_RequiredTransport req)"
  shows "fits e req sel"
proof -
  obtain i a s2 a' s3 s4 refresh where
    "i \<notin> set (sr_ExcludedIDs req)" "getSchedulableAccount e i s2 = (Inr (Some a), s3)"
    "recheckSelectedOpenAIAccountFromDB e a (sr_RequestedModel req) (sr_RequireCompact req) s3 = (Some a', s4)"
    "take_or_wait e i a' refresh s4 = (Some sel, s')"
    using assms(1)
    by (auto simp: SelectAccountByPreviousResponseID_def Let_def split: prod.splits sum.splits option.splits if_splits)
  then show ?thesis
    using assms(2) recheck_passed [of e a] getSchedulable_id [of e i s2 a s3] take_or_wait_fields [of e i a' refresh s4 sel s']
    by (auto simp: fits_def Let_def)
qed

lemma session_fits:
  assumes "selectBySessionHash e req s = (Some sel, s')" shows "fits e req sel"
proof -
  obtain i a s2 a' s3 s3' s4 refresh where
    "i \<notin> set (sr_ExcludedIDs req)" "getSchedulableAccount e i s2 = (Inr (Some a), s3)"
    "recheckSelectedOpenAIAccountFromDB e a (sr_RequestedModel req) (sr_RequireCompact req) s3' = (Some a', s4)"
    "isAccountTransportCompatible e a' (sr_RequiredTransport req)" "take_or_wait e i a' refresh s4 = (Some sel, s')"
    using assms
    by (auto simp: selectBySessionHash_def Let_def
          split: prod.splits sum.splits option.splits if_splits bool.splits)
  then show ?thesis
    using recheck_passed [of e a] getSchedulable_id [of e i s2 a s3] take_or_wait_fields [of e i a' refresh s4 sel s']
    by (auto simp: fits_def Let_def)
qed

text \<open>A candidate that passes the re-checks; it is the account of the candidate, as the database has it.\<close>

definition checked :: "gw_env \<Rightarrow> schedule_request \<Rightarrow> account \<Rightarrow> bool" where
  "checked e req a \<longleftrightarrow> eligible_at e a (sr_RequestedModel req) \<and> isAccountTransportCompatible e a (sr_RequiredTransport req)
     \<and> (sr_RequireCompact req \<longrightarrow> openAICompactSupportTier (ge_lib e) a \<noteq> 0)
     \<and> SupportsOpenAIImageCapability a (sr_RequiredImageCapability req)"

lemma compatible_image:
  "isAccountRequestCompatible e a req s = (True, s') \<Longrightarrow> SupportsOpenAIImageCapability a (sr_RequiredImageCapability req)"
  by (auto simp: isAccountRequestCompatible_def split: if_splits prod.splits)

lemma fresh_candidate_checked:
  assumes "fresh_candidate e req c s = ((Some a', b), s')"
  shows "checked e req a'" and "answers_by_id e \<Longrightarrow> ac_ID a' = ac_ID (ca_account c)"
proof -
  obtain a s1 s2 s3 s4 where
    r: "resolveFreshSchedulableOpenAIAccount e (ca_account c) (sr_RequestedModel req) False s = (Some a, s1)"
    "recheckSelectedOpenAIAccountFromDB e a (sr_RequestedModel req) False s2 = (Some a', s3)"
    "isAccountTransportCompatible e a' (sr_RequiredTransport req)"
    "isAccountRequestCompatible e a' req s3 = (True, s4)"
    "sr_RequireCompact req \<longrightarrow> openAICompactSupportTier (ge_lib e) a' \<noteq> 0"
    using assms by (auto simp: fresh_candidate_def Let_def split: prod.splits option.splits bool.splits if_splits)
  then show "checked e req a'" using recheck_passed(1) compatible_image by (auto simp: checked_def)
  show "ac_ID a' = ac_ID (ca_account c)" if "answers_by_id e"
    using r(1,2) that recheck_passed(3) resolveFresh_id by metis
qed

text \<open>A selection made in the order: the account of one of the candidates, with its own slot or wait plan.\<close>

definition picked :: "gw_env \<Rightarrow> schedule_request \<Rightarrow> cand list \<Rightarrow> selection \<Rightarrow> bool" where
  "picked e req cs sel \<longleftrightarrow> checked e req (sl_Account sel) \<and> sl_Release sel \<in> {None, Some (ac_ID (sl_Account sel))}
     \<and> (\<forall>w. sl_WaitPlan sel = Some w \<longrightarrow> w = fallback_wait_plan e (sl_Account sel))
     \<and> (answers_by_id e \<longrightarrow> (\<exists>c \<in> set cs. ac_ID (sl_Account sel) = ac_ID (ca_account c)))"

lemma picked_mono: "picked e req cs sel \<Longrightarrow> set cs \<subseteq> set cs' \<Longrightarrow> picked e req cs' sel"
  by (auto simp: picked_def)

lemma acquire_pass_picked: "acquire_pass e req cs b s = (Chosen sel, s') \<Longrightarrow> picked e req cs sel"
proof (induction cs arbitrary: b s)
  case (Cons c cs)
  obtain x b' s1 where f: "fresh_candidate e req c s = ((x, b'), s1)" by (metis surj_pair)
  have up: "picked e req cs sel \<Longrightarrow> picked e req (c # cs) sel" by (erule picked_mono) auto
  show ?case
  proof (cases x)
    case None
    then show ?thesis using Cons f up by auto
  next
    case (Some a)
    obtain q s2 where t: "tryAcquireAccountSlot e (ac_ID a) (ac_Concurrency a) s1 = (q, s2)" by (metis surj_pair)
    then show ?thesis
      using Cons.IH [of b s2] Cons.prems f Some up fresh_candidate_checked [of e req c s a b' s1]
        tryAcquire_accounted(2) [OF t]
      by (fastforce simp: picked_def split: sum.splits prod.splits bool.splits if_splits)
  qed
qed simp

lemma wait_pass_picked: "wait_pass e req cs b s = (Chosen sel, s') \<Longrightarrow> picked e req cs sel"
proof (induction cs arbitrary: b s)
  case (Cons c cs)
  obtain x b' s1 where f: "fresh_candidate e req c s = ((x, b'), s1)" by (metis surj_pair)
  have up: "picked e req cs sel \<Longrightarrow> picked e req (c # cs) sel" by (erule picked_mono) auto
  show ?case
  proof (cases x)
    case None
    then show ?thesis using Cons f up by auto
  next
    case (Some a)
    then show ?thesis using Cons.prems f fresh_candidate_checked [of e req c s a b' s1] by (auto simp: picked_def)
  qed
qed simp

lemma choose_picked: "choose_in_order e req cs s = (Inr sel, s') \<Longrightarrow> picked e req cs sel"
  by (auto simp: choose_in_order_def dest: acquire_pass_picked wait_pass_picked split: prod.splits pass_result.splits)

lemma balance_picked:
  assumes "balance_candidates e req cs s = (r, s')" "lb_outcome r = Inr sel"
  obtains order where "picked e req order sel" "ca_account ` set order \<subseteq> ca_account ` set cs"
proof -
  let ?u = "\<lambda>c. openAICompactSupportTier (ge_lib e) (ca_account c) = 0"
  let ?stale = "if sr_RequireCompact req then filter ?u cs else []"
  let ?cands = "if sr_RequireCompact req then filter (\<lambda>c. \<not> ?u c) cs else cs"
  let ?scored = "if ?cands = [] then [] else score_candidates (openAIWSSchedulerWeights (map_option ws_Weights (ge_ws e))) ?cands"
  obtain order s1 where o: "selection_order e req (effective_topK e ?scored) ?scored ?stale s = Inr order"
    "choose_in_order e req order s = (Inr sel, s1)"
    using assms by (auto simp: balance_candidates_def lb_fail_def Let_def split: if_splits sum.splits prod.splits)
  have "ca_account ` set ?scored \<subseteq> ca_account ` set cs"
    using score_candidates_accounts by (auto simp: image_iff)
  moreover have "set ?stale \<subseteq> set cs" by auto
  ultimately have "ca_account ` set order \<subseteq> ca_account ` set cs"
    using selection_order_set [OF o(1)] by blast
  with choose_picked [OF o(2)] show thesis by (rule that)
qed

lemma load_balance_fits:
  assumes "selectByLoadBalance e req s = (r, s')" "lb_outcome r = Inr sel"
  shows "fits e req sel" "SupportsOpenAIImageCapability (sl_Account sel) (sr_RequiredImageCapability req)"
proof -
  have failed: "(lb_fail err, t) = (r, s') \<Longrightarrow> False" for err t using assms(2) by (auto simp: lb_fail_def)
  obtain accounts where l: "ge_list e (gw_tick s) (sr_GroupID req) = Inr accounts" "accounts \<noteq> []"
  proof (cases "ge_list e (gw_tick s) (sr_GroupID req)")
    case (Inl err)
    then show thesis using assms(1) failed [of "OutsideError err"] by (simp add: selectByLoadBalance_def Let_def)
  next
    case (Inr accounts)
    moreover have "accounts \<noteq> []"
      using assms(1) failed [of "noAvailableOpenAISelectionError (sr_RequestedModel req) False"] Inr
      by (cases accounts) (simp_all add: selectByLoadBalance_def Let_def)
    ultimately show thesis by (rule that)
  qed
  define gs where "gs = (case sr_GroupID req of
      Some g \<Rightarrow> if ge_snapshot e then (ge_group e (gw_tick (tick s)) g, tick (tick s)) else (None, tick s)
    | None \<Rightarrow> (None, tick s))"
  obtain grp s1 where g: "gs = (grp, s1)" by (metis surj_pair)
  obtain filtered s2 where f: "filter_accounts e req grp accounts s1 = (filtered, s2)" by (metis surj_pair)
  obtain m s3 where m: "load_map e filtered s2 = (m, s3)" by (metis surj_pair)
  have "filtered \<noteq> []"
    using assms(1) l g f failed [of "noAvailableOpenAISelectionError (sr_RequestedModel req) False"]
    by (auto simp: selectByLoadBalance_def gs_def [symmetric] Let_def)
  then have b: "balance_candidates e req (map (candidate_of m (gw_stats s3)) filtered) s3 = (r, s')"
    using assms(1) l g f m by (simp add: selectByLoadBalance_def gs_def [symmetric] Let_def)
  have acc: "ca_account (candidate_of m st a) = a" for st a by (simp add: candidate_of_def split: prod.splits)
  obtain order where o: "picked e req order sel" "ca_account ` set order \<subseteq> set filtered"
    using balance_picked [OF b assms(2)] by (auto simp: image_image acc)
  have "ac_ID (ca_account c) \<notin> set (sr_ExcludedIDs req)" if "c \<in> set order" for c
    using filter_accounts_sound [OF f, of "ca_account c"] o(2) that by auto
  then show "fits e req sel" using o(1) by (auto simp: fits_def picked_def checked_def fallback_wait_plan_def Let_def)
  show "SupportsOpenAIImageCapability (sl_Account sel) (sr_RequiredImageCapability req)"
    using o(1) by (simp add: picked_def checked_def)
qed


definition demo_gw_env :: gw_env where
  "demo_gw_env = \<lparr>ge_lib = demo_lib, ge_sqrt = id, ge_now = (\<lambda>n. int n), ge_ws = None, ge_sched = None, ge_cache = True,
     ge_cacheFault = (\<lambda>_. False), ge_legacyHash = [], ge_respStore = False, ge_snapshot = False,
     ge_snapAccount = (\<lambda>_ _. Inr None), ge_repo = True,
     ge_repoAccount = (\<lambda>_ i. Inr (if i = 1 then Some (demo_account [] []) else None)),
     ge_list = (\<lambda>_ _. Inr [demo_account [] []]), ge_group = (\<lambda>_ _. None), ge_concurrency = True,
     ge_acquire = (\<lambda>_ _ _. Inr True), ge_loads = (\<lambda>_ _. None), ge_waiting = (\<lambda>_ _. 0), ge_channel = False,
     ge_upstreamRestricts = (\<lambda>_ _. False), ge_restricted = (\<lambda>_ _ _. False), ge_billingModel = (\<lambda>_ _ _. []), ge_rand = (\<lambda>_ _. 0),
     ge_setting = (\<lambda>_. None)\<rparr>"

definition demo_gw :: gw where
  "demo_gw = \<lparr>gw_tick = 0, gw_sticky = [(0, ''openai:h'') \<mapsto> (1, Hour)], gw_resp = Map.empty, gw_held = [9], gw_marked = [],
     gw_legacy = (0, 0, 0), gw_metrics = \<lparr>sm_selectTotal = 0, sm_stickyPreviousHitTotal = 0, sm_stickySessionHitTotal = 0,
       sm_loadBalanceSelectTotal = 0, sm_accountSwitchTotal = 0, sm_latencyMsTotal = 0, sm_loadSkewMilliTotal = 0\<rparr>, gw_stats = newOpenAIAccountRuntimeStats,
     gw_setting = None\<rparr>"

definition demo_request :: schedule_request where
  "demo_request = \<lparr>sr_GroupID = None, sr_SessionHash = ''h'', sr_StickyAccountID = 0, sr_PreviousResponseID = [],
     sr_RequestedModel = ''gpt-5'', sr_RequiredTransport = [], sr_RequiredImageCapability = [], sr_RequireCompact = False,
     sr_ExcludedIDs = [2]\<rparr>"

definition demo_selection :: selection where
  "demo_selection = \<lparr>sl_Account = demo_account [] [], sl_Acquired = True, sl_Release = Some 1, sl_WaitPlan = None\<rparr>"

lemma demo_trim: "trim_space ''h'' = ''h''" "trim_space [] = []"
  by code_simp+

lemma demo_env_simps:
  "ge_lib demo_gw_env = demo_lib" "ge_ws demo_gw_env = None" "ge_cache demo_gw_env" "\<not> ge_cacheFault demo_gw_env t"
  "\<not> ge_snapshot demo_gw_env" "ge_repo demo_gw_env" "ge_concurrency demo_gw_env" "ge_acquire demo_gw_env t i n = Inr True"
  "ge_repoAccount demo_gw_env t 1 = Inr (Some (demo_account [] []))" "ge_channel demo_gw_env = False"
  by (simp_all add: demo_gw_env_def)

lemma demo_request_simps:
  "sr_GroupID demo_request = None" "sr_SessionHash demo_request = ''h''" "sr_StickyAccountID demo_request = 0"
  "sr_PreviousResponseID demo_request = []" "sr_RequestedModel demo_request = ''gpt-5''"
  "sr_RequiredTransport demo_request = OpenAIUpstreamTransportAny" "sr_RequiredImageCapability demo_request = []"
  "sr_RequireCompact demo_request = False" "sr_ExcludedIDs demo_request = [2]"
  by (simp_all add: demo_request_def OpenAIUpstreamTransportAny_def)

lemma demo_account_static:
  "IsOpenAI (demo_account [] [])" "IsModelSupported (demo_account [] []) ''gpt-5''"
  "GetMappedModel (demo_account [] []) ''gpt-5'' = ''gpt-5''" "SupportsOpenAIImageCapability (demo_account [] []) []"
  "acct_IsActive (demo_account [] [])" "\<not> IsAPIKeyOrBedrock (demo_account [] [])"
  by code_simp+

lemma demo_account_schedulable:
  "IsSchedulable demo_lib now (demo_account [] [])"
  "\<not> shouldClearStickySession demo_lib now (demo_account [] []) ''gpt-5''"
proof -
  show s: "IsSchedulable demo_lib now (demo_account [] [])"
    by (simp add: IsSchedulable_def demo_account_static) (simp add: demo_account_def)
  have "modelRateLimitResetAt demo_lib (demo_account [] []) k = None" for k
    by (simp add: modelRateLimitResetAt_def demo_account_def lookup_def)
  then show "\<not> shouldClearStickySession demo_lib now (demo_account [] []) ''gpt-5''"
    by (simp add: s shouldClearStickySession_def GetModelRateLimitRemainingTimeWithContext_def getRateLimitRemainingForKey_def Let_def)
qed

lemmas demo_simps = demo_env_simps demo_request_simps demo_account_static demo_account_schedulable demo_trim

lemma demo_sticky:
  "sticky_account_id demo_gw_env demo_request ''h'' demo_gw = (Some 1, tick demo_gw)"
  by (simp add: sticky_account_id_def getStickySessionAccountID_def cache_get_def demo_gw_def
      openAISessionCacheKey_def derefGroupID_def demo_simps Let_def tick_def)

lemma demo_compatible:
  "isAccountRequestCompatible demo_gw_env (demo_account [] []) demo_request s = (True, s)"
  "isAccountTransportCompatible demo_gw_env a OpenAIUpstreamTransportAny"
  "recheckSelectedOpenAIAccountFromDB demo_gw_env (demo_account [] []) ''gpt-5'' False s = (Some (demo_account [] []), s)"
  "getSchedulableAccount demo_gw_env 1 s = (Inr (Some (demo_account [] [])), tick s)"
  by (simp_all add: isAccountRequestCompatible_def isAccountTransportCompatible_def getSchedulableAccount_def
      recheckSelectedOpenAIAccountFromDB_def isOpenAIAccountEligibleForRequest_def demo_simps)

lemma demo_session: "fst (selectBySessionHash demo_gw_env demo_request demo_gw) = Some demo_selection"
  by (simp add: selectBySessionHash_def demo_sticky demo_simps demo_compatible Let_def
     take_or_wait_def tryAcquireAccountSlot_def AcquireAccountSlot_def demo_selection_def)
    (simp add: demo_account_def)

lemma demo_selects: "\<exists>d s'. Select demo_gw_env demo_request demo_gw = ((Inr demo_selection, d), s')"
proof -
  obtain s' where "selectBySessionHash demo_gw_env demo_request demo_gw = (Some demo_selection, s')"
    using demo_session by (cases "selectBySessionHash demo_gw_env demo_request demo_gw") simp
  then show ?thesis by (simp add: Select_def previous_layer_def demo_simps Let_def)
qed


end
