(* ===== verification/OpenAILegacySelect.thy ===== *)
theory OpenAILegacySelect
  imports OpenAISelectLaws
begin

text \<open>
  Selecting an OpenAI account without the advanced scheduler: the load-aware selection, the plain selection by
  priority and last use, and the loops of \<open>selectAccountWithScheduler\<close> that exclude one unsuitable account after
  another (\<open>internal/service/openai_gateway_service.go\<close>, \<open>openai_account_scheduler.go\<close>), over the sort and
  shuffle helpers of \<open>gateway_service.go\<close>. \<open>ge_rand\<close> gives the draws of \<open>math/rand\<close>.
\<close>

subsection \<open>Sorting and shuffling\<close>

fun shuffle_from :: "gw_env \<Rightarrow> nat \<Rightarrow> 'a list \<Rightarrow> gw \<Rightarrow> 'a list \<times> gw" where
  "shuffle_from e 0 xs s = (xs, s)"
| "shuffle_from e (Suc i) xs s =
     shuffle_from e i (swap_at (Suc i) (ge_rand e (gw_tick s) (i + 2) mod (i + 2)) xs) (tick s)"

definition Shuffle :: "gw_env \<Rightarrow> 'a list \<Rightarrow> gw \<Rightarrow> 'a list \<times> gw" where
  "Shuffle e xs s = shuffle_from e (length xs - 1) xs s"

definition sameLastUsedAt :: "time option \<Rightarrow> time option \<Rightarrow> bool" where
  "sameLastUsedAt a b = (case (a, b) of
     (None, None) \<Rightarrow> True
   | (Some t, Some u) \<Rightarrow> t div 1000000000 = u div 1000000000
   | _ \<Rightarrow> False)"

definition sameAccountGroup :: "account \<Rightarrow> account \<Rightarrow> bool" where
  "sameAccountGroup a b = (if ac_Priority a \<noteq> ac_Priority b then False
     else sameLastUsedAt (ac_LastUsedAt a) (ac_LastUsedAt b))"

definition sameAccountWithLoadGroup :: "account \<times> load_info \<Rightarrow> account \<times> load_info \<Rightarrow> bool" where
  "sameAccountWithLoadGroup a b =
     (if ac_Priority (fst a) \<noteq> ac_Priority (fst b) then False
      else if li_LoadRate (snd a) \<noteq> li_LoadRate (snd b) then False
      else sameLastUsedAt (ac_LastUsedAt (fst a)) (ac_LastUsedAt (fst b)))"

function shuffle_groups :: "('a \<Rightarrow> 'a \<Rightarrow> bool) \<Rightarrow> ('a list \<Rightarrow> gw \<Rightarrow> 'a list \<times> gw) \<Rightarrow> 'a list \<Rightarrow> gw \<Rightarrow> 'a list \<times> gw" where
  "shuffle_groups same mix [] s = ([], s)"
| "shuffle_groups same mix (x # xs) s =
     (case mix (x # takeWhile (same x) xs) s of
        (g, s1) \<Rightarrow> (case shuffle_groups same mix (dropWhile (same x) xs) s1 of (r, s2) \<Rightarrow> (g @ r, s2)))"
  by pat_completeness auto
termination
  by (relation "measure (\<lambda>(_, _, xs, _). length xs)") (auto simp: le_imp_less_Suc length_dropWhile_le)

definition shuffleWithinSortGroups :: "gw_env \<Rightarrow> (account \<times> load_info) list \<Rightarrow> gw \<Rightarrow> (account \<times> load_info) list \<times> gw" where
  "shuffleWithinSortGroups e xs s = shuffle_groups sameAccountWithLoadGroup (Shuffle e) xs s"

definition shuffle_oauth_first :: "gw_env \<Rightarrow> account list \<Rightarrow> gw \<Rightarrow> account list \<times> gw" where
  "shuffle_oauth_first e g s =
     (case Shuffle e (filter (\<lambda>a. ac_Type a = AccountTypeOAuth) g) s of
        (oauth, s1) \<Rightarrow>
          (case Shuffle e (filter (\<lambda>a. ac_Type a \<noteq> AccountTypeOAuth) g) s1 of (others, s2) \<Rightarrow> (oauth @ others, s2)))"

definition shuffleWithinPriorityAndLastUsed :: "gw_env \<Rightarrow> bool \<Rightarrow> account list \<Rightarrow> gw \<Rightarrow> account list \<times> gw" where
  "shuffleWithinPriorityAndLastUsed e preferOAuth xs s =
     shuffle_groups sameAccountGroup (if preferOAuth then shuffle_oauth_first e else Shuffle e) xs s"

definition priority_before :: "bool \<Rightarrow> account \<Rightarrow> account \<Rightarrow> bool" where
  "priority_before preferOAuth a b =
     (if ac_Priority a \<noteq> ac_Priority b then ac_Priority a < ac_Priority b
      else case (ac_LastUsedAt a, ac_LastUsedAt b) of
        (None, Some _) \<Rightarrow> True
      | (Some _, None) \<Rightarrow> False
      | (None, None) \<Rightarrow> if preferOAuth \<and> ac_Type a \<noteq> ac_Type b then ac_Type a = AccountTypeOAuth else False
      | (Some t, Some u) \<Rightarrow> Before t u)"

definition sortAccountsByPriorityAndLastUsed :: "gw_env \<Rightarrow> bool \<Rightarrow> account list \<Rightarrow> gw \<Rightarrow> account list \<times> gw" where
  "sortAccountsByPriorityAndLastUsed e preferOAuth xs s =
     shuffleWithinPriorityAndLastUsed e preferOAuth (sort_slice (priority_before preferOAuth) xs) s"

definition prioritizeOpenAICompactAccounts :: "acct_lib \<Rightarrow> account list \<Rightarrow> account list" where
  "prioritizeOpenAICompactAccounts lib accounts =
     (let tier = openAICompactSupportTier lib in
      filter (\<lambda>a. tier a = 2) accounts @ filter (\<lambda>a. tier a = 1) accounts
      @ filter (\<lambda>a. tier a \<noteq> 2 \<and> tier a \<noteq> 1) accounts)"

definition load_before :: "account \<times> load_info \<Rightarrow> account \<times> load_info \<Rightarrow> bool" where
  "load_before a b =
     (if ac_Priority (fst a) \<noteq> ac_Priority (fst b) then ac_Priority (fst a) < ac_Priority (fst b)
      else if li_LoadRate (snd a) \<noteq> li_LoadRate (snd b) then li_LoadRate (snd a) < li_LoadRate (snd b)
      else used_before (fst a) (fst b))"

definition isBetterAccount :: "account \<Rightarrow> account \<Rightarrow> bool" where
  "isBetterAccount candidate current =
     (if ac_Priority candidate < ac_Priority current then True
      else if ac_Priority current < ac_Priority candidate then False
      else used_before candidate current)"

subsection \<open>Hydration\<close>

definition hydrateSelectedAccount :: "gw_env \<Rightarrow> account \<Rightarrow> gw \<Rightarrow> (sel_error + account) \<times> gw" where
  "hydrateSelectedAccount e a s =
     (if \<not> ge_snapshot e then (Inr a, s)
      else (case ge_snapAccount e (gw_tick s) (ac_ID a) of
              Inl err \<Rightarrow> Inl (OutsideError err)
            | Inr None \<Rightarrow> Inl (NotHydrated (ac_ID a))
            | Inr (Some hydrated) \<Rightarrow> Inr hydrated, tick s))"

definition newSelectionResult ::
    "gw_env \<Rightarrow> account \<Rightarrow> bool \<Rightarrow> int64 option \<Rightarrow> wait_plan option \<Rightarrow> gw \<Rightarrow> (sel_error + selection) \<times> gw" where
  "newSelectionResult e a acquired release waitPlan s =
     (case hydrateSelectedAccount e a s of
        (Inl err, s1) \<Rightarrow> (Inl err, s1)
      | (Inr hydrated, s1) \<Rightarrow>
          (Inr \<lparr>sl_Account = hydrated, sl_Acquired = acquired, sl_Release = release, sl_WaitPlan = waitPlan\<rparr>, s1))"

subsection \<open>Plain selection\<close>

text \<open>\<open>restricted_upstream needs\<close>: the channel restriction, asked for only when the group needs it.\<close>

definition restricted_upstream :: "gw_env \<Rightarrow> bool \<Rightarrow> int64 option \<Rightarrow> account \<Rightarrow> gostring \<Rightarrow> bool \<Rightarrow> gw \<Rightarrow> bool \<times> gw" where
  "restricted_upstream e needs groupID a requestedModel requireCompact s =
     (if needs then isUpstreamModelRestrictedByChannel e (derefGroupID groupID) a requestedModel requireCompact s
      else (False, s))"

definition tryStickySessionHit ::
    "gw_env \<Rightarrow> int64 option \<Rightarrow> gostring \<Rightarrow> gostring \<Rightarrow> int64 list \<Rightarrow> bool \<Rightarrow> int64 \<Rightarrow> gw \<Rightarrow> account option \<times> gw" where
  "tryStickySessionHit e groupID sessionHash requestedModel excludedIDs requireCompact stickyAccountID s =
     (let lib = ge_lib e; forget = deleteStickySessionAccountID e groupID sessionHash in
      if sessionHash = [] then (None, s)
      else case (if 0 < stickyAccountID then (Some stickyAccountID, s)
                 else getStickySessionAccountID e groupID sessionHash s) of
        (None, s1) \<Rightarrow> (None, s1)
      | (Some accountID, s1) \<Rightarrow>
          if accountID \<le> 0 \<or> accountID \<in> set excludedIDs then (None, s1)
          else case getSchedulableAccount e accountID s1 of
            (Inr (Some a), s2) \<Rightarrow>
              if shouldClearStickySession lib (now_at e s2) a requestedModel then (None, forget s2)
              else if \<not> isOpenAIAccountEligibleForRequest lib (now_at e s2) a requestedModel False then (None, s2)
              else (case recheckSelectedOpenAIAccountFromDB e a requestedModel requireCompact s2 of
                 (None, s3) \<Rightarrow> (None, forget s3)
               | (Some a', s3) \<Rightarrow>
                   (case needsUpstreamChannelRestrictionCheck e groupID s3 of
                      (needs, s4) \<Rightarrow>
                        (case restricted_upstream e needs groupID a' requestedModel requireCompact s4 of
                           (True, s5) \<Rightarrow> (None, forget s5)
                         | (False, s5) \<Rightarrow>
                             (Some a', refreshStickySessionTTL e groupID sessionHash openaiStickySessionTTL s5))))
          | (_, s2) \<Rightarrow> (None, s2))"

text \<open>One turn of the loop of \<open>selectBestAccount\<close>: the account chosen so far with its tier, and the compact flag.\<close>

definition best_step ::
    "gw_env \<Rightarrow> bool \<Rightarrow> int64 option \<Rightarrow> gostring \<Rightarrow> int64 list \<Rightarrow> bool \<Rightarrow> account \<Rightarrow>
     (account \<times> nat) option \<times> bool \<Rightarrow> gw \<Rightarrow> ((account \<times> nat) option \<times> bool) \<times> gw" where
  "best_step e needs groupID requestedModel excludedIDs requireCompact acc best s =
     (if ac_ID acc \<in> set excludedIDs then (best, s)
      else case resolveFreshSchedulableOpenAIAccount e acc requestedModel False s of
        (None, s1) \<Rightarrow> (best, s1)
      | (Some a, s1) \<Rightarrow>
          (case recheckSelectedOpenAIAccountFromDB e a requestedModel False s1 of
             (None, s2) \<Rightarrow> (best, s2)
           | (Some fresh, s2) \<Rightarrow>
               (case restricted_upstream e needs groupID fresh requestedModel requireCompact s2 of
                  (True, s3) \<Rightarrow> (best, s3)
                | (False, s3) \<Rightarrow>
                    let tier = (if requireCompact then openAICompactSupportTier (ge_lib e) fresh else 0) in
                    (if requireCompact \<and> tier = 0 then (fst best, True)
                     else case fst best of
                       None \<Rightarrow> (Some (fresh, tier), snd best)
                     | Some (sel, selTier) \<Rightarrow>
                         if requireCompact \<and> tier \<noteq> selTier
                         then (if selTier < tier then Some (fresh, tier) else fst best, snd best)
                         else (if isBetterAccount fresh sel then Some (fresh, tier) else fst best, snd best),
                     s3))))"

fun best_loop ::
    "gw_env \<Rightarrow> bool \<Rightarrow> int64 option \<Rightarrow> gostring \<Rightarrow> int64 list \<Rightarrow> bool \<Rightarrow> account list \<Rightarrow>
     (account \<times> nat) option \<times> bool \<Rightarrow> gw \<Rightarrow> ((account \<times> nat) option \<times> bool) \<times> gw" where
  "best_loop e needs g m ex c [] best s = (best, s)"
| "best_loop e needs g m ex c (a # as) best s =
     (case best_step e needs g m ex c a best s of (best', s1) \<Rightarrow> best_loop e needs g m ex c as best' s1)"

definition selectBestAccount ::
    "gw_env \<Rightarrow> int64 option \<Rightarrow> account list \<Rightarrow> gostring \<Rightarrow> int64 list \<Rightarrow> bool \<Rightarrow> gw \<Rightarrow> (account option \<times> bool) \<times> gw" where
  "selectBestAccount e groupID accounts requestedModel excludedIDs requireCompact s =
     (case needsUpstreamChannelRestrictionCheck e groupID s of
        (needs, s1) \<Rightarrow>
          (case best_loop e needs groupID requestedModel excludedIDs requireCompact accounts (None, False) s1 of
             ((best, blocked), s2) \<Rightarrow> ((map_option fst best, blocked), s2)))"

definition selectAccountForModelWithExclusions ::
    "gw_env \<Rightarrow> int64 option \<Rightarrow> gostring \<Rightarrow> gostring \<Rightarrow> int64 list \<Rightarrow> bool \<Rightarrow> int64 \<Rightarrow> gw \<Rightarrow> (sel_error + account) \<times> gw" where
  "selectAccountForModelWithExclusions e groupID sessionHash requestedModel excludedIDs requireCompact stickyAccountID s =
     (case checkChannelPricingRestriction e groupID requestedModel s of
        (True, s1) \<Rightarrow> (Inl (PricingRestricted requestedModel), s1)
      | (False, s1) \<Rightarrow>
          (case tryStickySessionHit e groupID sessionHash requestedModel excludedIDs requireCompact stickyAccountID s1 of
             (Some a, s2) \<Rightarrow> (Inr a, s2)
           | (None, s2) \<Rightarrow>
               (case ge_list e (gw_tick s2) groupID of
                  Inl err \<Rightarrow> (Inl (OutsideError (''query accounts failed: '' @ err)), tick s2)
                | Inr accounts \<Rightarrow>
                    (case selectBestAccount e groupID accounts requestedModel excludedIDs requireCompact (tick s2) of
                       ((None, blocked), s3) \<Rightarrow> (Inl (noAvailableOpenAISelectionError requestedModel blocked), s3)
                     | ((Some a, _), s3) \<Rightarrow>
                         hydrateSelectedAccount e a
                           (if sessionHash \<noteq> []
                            then setStickySessionAccountID e groupID sessionHash (ac_ID a) openaiStickySessionTTL s3
                            else s3)))))"

subsection \<open>Load-aware selection\<close>

definition fresh_for :: "gw_env \<Rightarrow> bool \<Rightarrow> int64 option \<Rightarrow> gostring \<Rightarrow> bool \<Rightarrow> account \<Rightarrow> gw \<Rightarrow> account option \<times> gw" where
  "fresh_for e needs groupID requestedModel requireCompact acc s =
     (case resolveFreshSchedulableOpenAIAccount e acc requestedModel False s of
        (None, s1) \<Rightarrow> (None, s1)
      | (Some a, s1) \<Rightarrow>
          (case recheckSelectedOpenAIAccountFromDB e a requestedModel requireCompact s1 of
             (None, s2) \<Rightarrow> (None, s2)
           | (Some fresh, s2) \<Rightarrow>
               (case restricted_upstream e needs groupID fresh requestedModel requireCompact s2 of
                  (True, s3) \<Rightarrow> (None, s3)
                | (False, s3) \<Rightarrow> (Some fresh, s3))))"

fun acquire_first ::
    "gw_env \<Rightarrow> bool \<Rightarrow> int64 option \<Rightarrow> gostring \<Rightarrow> gostring \<Rightarrow> bool \<Rightarrow> account list \<Rightarrow> gw \<Rightarrow> (sel_error + selection) option \<times> gw" where
  "acquire_first e needs g h m c [] s = (None, s)"
| "acquire_first e needs g h m c (acc # accs) s =
     (case fresh_for e needs g m c acc s of
        (None, s1) \<Rightarrow> acquire_first e needs g h m c accs s1
      | (Some fresh, s1) \<Rightarrow>
          (case tryAcquireAccountSlot e (ac_ID fresh) (ac_Concurrency fresh) s1 of
             (Inr (True, rel), s2) \<Rightarrow>
               (case newSelectionResult e fresh True rel None
                       (if h \<noteq> [] then setStickySessionAccountID e g h (ac_ID fresh) openaiStickySessionTTL s2 else s2) of
                  (r, s3) \<Rightarrow> (Some r, s3))
           | (_, s2) \<Rightarrow> acquire_first e needs g h m c accs s2))"

fun wait_first ::
    "gw_env \<Rightarrow> bool \<Rightarrow> int64 option \<Rightarrow> gostring \<Rightarrow> bool \<Rightarrow> account list \<Rightarrow> gw \<Rightarrow> (sel_error + selection) option \<times> gw" where
  "wait_first e needs g m c [] s = (None, s)"
| "wait_first e needs g m c (acc # accs) s =
     (case fresh_for e needs g m c acc s of
        (None, s1) \<Rightarrow> wait_first e needs g m c accs s1
      | (Some fresh, s1) \<Rightarrow>
          (case newSelectionResult e fresh False None (Some (fallback_wait_plan e fresh)) s1 of (r, s2) \<Rightarrow> (Some r, s2)))"

text \<open>The first layer: the account of the sticky session, its slot, or a place in its queue.\<close>

definition sticky_layer ::
    "gw_env \<Rightarrow> bool \<Rightarrow> int64 option \<Rightarrow> gostring \<Rightarrow> gostring \<Rightarrow> int64 list \<Rightarrow> bool \<Rightarrow> int64 \<Rightarrow> gw \<Rightarrow>
     (sel_error + selection) option \<times> gw" where
  "sticky_layer e needs groupID sessionHash requestedModel excludedIDs requireCompact accountID s =
     (let lib = ge_lib e; forget = deleteStickySessionAccountID e groupID sessionHash in
      if sessionHash = [] \<or> accountID \<le> 0 \<or> accountID \<in> set excludedIDs then (None, s)
      else case getSchedulableAccount e accountID s of
        (Inr (Some a), s1) \<Rightarrow>
          if shouldClearStickySession lib (now_at e s1) a requestedModel then (None, forget s1)
          else if \<not> isOpenAIAccountEligibleForRequest lib (now_at e s1) a requestedModel False then (None, s1)
          else (case recheckSelectedOpenAIAccountFromDB e a requestedModel requireCompact s1 of
             (None, s2) \<Rightarrow> (None, forget s2)
           | (Some a', s2) \<Rightarrow>
               (case restricted_upstream e needs groupID a' requestedModel requireCompact s2 of
                  (True, s3) \<Rightarrow> (None, forget s3)
                | (False, s3) \<Rightarrow>
                    (case tryAcquireAccountSlot e accountID (ac_Concurrency a') s3 of
                       (Inr (True, rel), s4) \<Rightarrow>
                         (case newSelectionResult e a' True rel None
                                 (refreshStickySessionTTL e groupID sessionHash openaiStickySessionTTL s4) of
                            (r, s5) \<Rightarrow> (Some r, s5))
                     | (_, s4) \<Rightarrow>
                         if ge_waiting e (gw_tick s4) accountID < sc_StickySessionMaxWaiting (schedulingConfig e)
                         then (case newSelectionResult e a' False None (Some (sticky_wait_plan e accountID a')) (tick s4) of
                                 (r, s5) \<Rightarrow> (Some r, s5))
                         else (None, tick s4))))
      | (_, s1) \<Rightarrow> (None, s1))"

fun candidates_for ::
    "gw_env \<Rightarrow> bool \<Rightarrow> int64 option \<Rightarrow> gostring \<Rightarrow> int64 list \<Rightarrow> bool \<Rightarrow> account list \<Rightarrow> gw \<Rightarrow> account list \<times> gw" where
  "candidates_for e needs g m ex c [] s = ([], s)"
| "candidates_for e needs g m ex c (a # as) s =
     (if ac_ID a \<in> set ex \<or> \<not> IsSchedulable (ge_lib e) (now_at e s) a \<or> (m \<noteq> [] \<and> \<not> IsModelSupported a m)
      then candidates_for e needs g m ex c as s
      else case restricted_upstream e needs g a m c s of
        (True, s1) \<Rightarrow> candidates_for e needs g m ex c as s1
      | (False, s1) \<Rightarrow> (case candidates_for e needs g m ex c as s1 of (kept, s2) \<Rightarrow> (a # kept, s2)))"

definition load_of :: "(int64 \<rightharpoonup> load_info) \<Rightarrow> account \<Rightarrow> load_info" where
  "load_of loadMap a = (case loadMap (ac_ID a) of
     Some l \<Rightarrow> l
   | None \<Rightarrow> \<lparr>li_AccountID = ac_ID a, li_CurrentConcurrency = 0, li_WaitingCount = 0, li_LoadRate = 0\<rparr>)"

text \<open>The order in which the accounts of the second layer are tried; \<open>None\<close>: the loads could not be read.\<close>

definition layer2_order :: "gw_env \<Rightarrow> bool \<Rightarrow> account list \<Rightarrow> (int64 \<rightharpoonup> load_info) option \<Rightarrow> gw \<Rightarrow> account list \<times> gw" where
  "layer2_order e requireCompact candidates loads s = (case loads of
     None \<Rightarrow>
       (case sortAccountsByPriorityAndLastUsed e False candidates s of
          (ordered, s1) \<Rightarrow> (if requireCompact then prioritizeOpenAICompactAccounts (ge_lib e) ordered else ordered, s1))
   | Some m \<Rightarrow>
       (let available = filter (\<lambda>(a, l). li_LoadRate l < 100) (map (\<lambda>a. (a, load_of m a)) candidates) in
        case shuffleWithinSortGroups e (sort_slice load_before available) s of
          (mixed, s1) \<Rightarrow>
            (let tier = (\<lambda>t. filter (\<lambda>(a, _). openAICompactSupportTier (ge_lib e) a = t) mixed)
             in (map fst (if requireCompact then tier 2 @ tier 1 @ tier 0 else mixed), s1))))"

definition layer3_order :: "gw_env \<Rightarrow> bool \<Rightarrow> account list \<Rightarrow> gw \<Rightarrow> account list \<times> gw" where
  "layer3_order e requireCompact candidates s =
     (case sortAccountsByPriorityAndLastUsed e False candidates s of
        (ordered, s1) \<Rightarrow> (if requireCompact then prioritizeOpenAICompactAccounts (ge_lib e) ordered else ordered, s1))"

definition load_layers ::
    "gw_env \<Rightarrow> bool \<Rightarrow> int64 option \<Rightarrow> gostring \<Rightarrow> gostring \<Rightarrow> int64 list \<Rightarrow> bool \<Rightarrow> account list \<Rightarrow> gw \<Rightarrow>
     (sel_error + selection) \<times> gw" where
  "load_layers e needs groupID sessionHash requestedModel excludedIDs requireCompact accounts s =
     (case candidates_for e needs groupID requestedModel excludedIDs requireCompact accounts s of
        (candidates, s1) \<Rightarrow>
          if candidates = [] then (Inl NoAvailableAccounts, s1)
          else let loads = ge_loads e (gw_tick s1) (map (\<lambda>a. (ac_ID a, EffectiveLoadFactor (Some a))) candidates) in
            (case layer2_order e requireCompact candidates loads (tick s1) of
               (order2, s2) \<Rightarrow>
                 (case acquire_first e needs groupID sessionHash requestedModel requireCompact order2 s2 of
                    (Some r, s3) \<Rightarrow> (r, s3)
                  | (None, s3) \<Rightarrow>
                      (case layer3_order e requireCompact candidates s3 of
                         (order3, s4) \<Rightarrow>
                           (case wait_first e needs groupID requestedModel requireCompact order3 s4 of
                              (Some r, s5) \<Rightarrow> (r, s5)
                            | (None, s5) \<Rightarrow>
                                (Inl (if requireCompact then NoAvailableCompactAccounts else NoAvailableAccounts), s5))))))"

definition plain_selection ::
    "gw_env \<Rightarrow> int64 option \<Rightarrow> gostring \<Rightarrow> gostring \<Rightarrow> int64 list \<Rightarrow> bool \<Rightarrow> int64 \<Rightarrow> gw \<Rightarrow> (sel_error + selection) \<times> gw" where
  "plain_selection e groupID sessionHash requestedModel excludedIDs requireCompact stickyAccountID s =
     (case selectAccountForModelWithExclusions e groupID sessionHash requestedModel excludedIDs requireCompact stickyAccountID s of
        (Inl err, s1) \<Rightarrow> (Inl err, s1)
      | (Inr a, s1) \<Rightarrow>
          (case tryAcquireAccountSlot e (ac_ID a) (ac_Concurrency a) s1 of
             (Inr (True, rel), s2) \<Rightarrow> newSelectionResult e a True rel None s2
           | (_, s2) \<Rightarrow>
               if 0 < stickyAccountID \<and> stickyAccountID = ac_ID a \<and> ge_concurrency e
               then (if ge_waiting e (gw_tick s2) (ac_ID a) < sc_StickySessionMaxWaiting (schedulingConfig e)
                     then newSelectionResult e a False None (Some (sticky_wait_plan e (ac_ID a) a)) (tick s2)
                     else newSelectionResult e a False None (Some (fallback_wait_plan e a)) (tick s2))
               else newSelectionResult e a False None (Some (fallback_wait_plan e a)) s2))"

definition selectAccountWithLoadAwareness ::
    "gw_env \<Rightarrow> int64 option \<Rightarrow> gostring \<Rightarrow> gostring \<Rightarrow> int64 list \<Rightarrow> bool \<Rightarrow> gw \<Rightarrow> (sel_error + selection) \<times> gw" where
  "selectAccountWithLoadAwareness e groupID sessionHash requestedModel excludedIDs requireCompact s =
     (case checkChannelPricingRestriction e groupID requestedModel s of
        (True, s1) \<Rightarrow> (Inl (PricingRestricted requestedModel), s1)
      | (False, s1) \<Rightarrow>
          (case needsUpstreamChannelRestrictionCheck e groupID s1 of
             (needs, s2) \<Rightarrow>
               (case (if sessionHash \<noteq> [] \<and> ge_cache e then getStickySessionAccountID e groupID sessionHash s2
                      else (None, s2)) of
                  (sticky, s3) \<Rightarrow>
                    let stickyAccountID = (case sticky of Some i \<Rightarrow> i | None \<Rightarrow> 0) in
                    if \<not> ge_concurrency e \<or> \<not> sc_LoadBatchEnabled (schedulingConfig e)
                    then plain_selection e groupID sessionHash requestedModel excludedIDs requireCompact stickyAccountID s3
                    else (case ge_list e (gw_tick s3) groupID of
                       Inl err \<Rightarrow> (Inl (OutsideError err), tick s3)
                     | Inr accounts \<Rightarrow>
                         if accounts = [] then (Inl NoAvailableAccounts, tick s3)
                         else (case sticky_layer e needs groupID sessionHash requestedModel excludedIDs requireCompact
                                      stickyAccountID (tick s3) of
                            (Some r, s4) \<Rightarrow> (r, s4)
                          | (None, s4) \<Rightarrow>
                              load_layers e needs groupID sessionHash requestedModel excludedIDs requireCompact accounts s4)))))"

subsection \<open>Choosing the scheduler\<close>

definition openAIAdvancedSchedulerSettingCacheTTL :: duration where
  "openAIAdvancedSchedulerSettingCacheTTL = 5 * Second"

text \<open>
  The setting is read through a cache of five seconds; a read that fails caches \<open>False\<close>. \<open>ge_setting\<close>: \<open>None\<close> when
  there is no repository or the read fails.
\<close>

definition isOpenAIAdvancedSchedulerEnabled :: "gw_env \<Rightarrow> gw \<Rightarrow> bool \<times> gw" where
  "isOpenAIAdvancedSchedulerEnabled e s =
     (let refresh = (\<lambda>s. let enabled = (case ge_setting e (gw_tick s) of
                                Some (Some v) \<Rightarrow> al_ToLower (ge_lib e) (trim_space v) = ''true''
                              | _ \<Rightarrow> False);
                            s1 = tick s
                        in (enabled, s1\<lparr>gw_setting := Some (enabled, now_at e s1 + openAIAdvancedSchedulerSettingCacheTTL)\<rparr>))
      in case gw_setting s of
           Some (enabled, expiresAt) \<Rightarrow> if now_at e s < expiresAt then (enabled, s) else refresh s
         | None \<Rightarrow> refresh s)"

text \<open>
  The loop of the two legacy branches: an account that is not \<open>suitable\<close> gives its slot back and is excluded from
  the next turn. Not ending is \<open>None\<close>.
\<close>

partial_function (option) exclude_loop ::
    "gw_env \<Rightarrow> (account \<Rightarrow> bool) \<Rightarrow> int64 option \<Rightarrow> gostring \<Rightarrow> gostring \<Rightarrow> bool \<Rightarrow> int64 list \<Rightarrow> gw \<Rightarrow>
     ((sel_error + selection) \<times> gw) option" where
  "exclude_loop e suitable groupID sessionHash requestedModel requireCompact excluded s =
     (case selectAccountWithLoadAwareness e groupID sessionHash requestedModel excluded requireCompact s of
        (Inl err, s1) \<Rightarrow> Some (Inl err, s1)
      | (Inr sel, s1) \<Rightarrow>
          if suitable (sl_Account sel) then Some (Inr sel, s1)
          else let s2 = ReleaseFunc (sl_Release sel) s1; i = ac_ID (sl_Account sel) in
            if i \<in> set excluded then Some (Inl NoAvailableAccounts, s2)
            else exclude_loop e suitable groupID sessionHash requestedModel requireCompact (i # excluded) s2)"

definition selectAccountWithScheduler ::
    "gw_env \<Rightarrow> int64 option \<Rightarrow> gostring \<Rightarrow> gostring \<Rightarrow> gostring \<Rightarrow> int64 list \<Rightarrow> gostring \<Rightarrow> gostring \<Rightarrow> bool \<Rightarrow> gw \<Rightarrow>
     (((sel_error + selection) \<times> schedule_decision) \<times> gw) option" where
  "selectAccountWithScheduler e groupID previousResponseID sessionHash requestedModel excludedIDs requiredTransport
       requiredImageCapability requireCompact s =
     (case isOpenAIAdvancedSchedulerEnabled e s of
        (False, s1) \<Rightarrow>
          (let d = no_decision\<lparr>sd_Layer := openAIAccountScheduleLayerLoadBalance\<rparr>;
               suitable = (\<lambda>a. if requiredTransport = OpenAIUpstreamTransportAny
                                 \<or> requiredTransport = OpenAIUpstreamTransportHTTPSSE
                              then SupportsOpenAIImageCapability a requiredImageCapability
                              else isOpenAIAccountTransportCompatible e (Some a) requiredTransport)
           in map_option (\<lambda>(r, s2). ((r, d), s2))
                (exclude_loop e suitable groupID sessionHash requestedModel requireCompact excludedIDs s1))
      | (True, s1) \<Rightarrow>
          (case checkChannelPricingRestriction e groupID requestedModel s1 of
             (True, s2) \<Rightarrow> Some ((Inl (PricingRestricted requestedModel), no_decision), s2)
           | (False, s2) \<Rightarrow>
               (case (if sessionHash \<noteq> [] \<and> ge_cache e then getStickySessionAccountID e groupID sessionHash s2
                      else (None, s2)) of
                  (sticky, s3) \<Rightarrow>
                    Some (Select e \<lparr>sr_GroupID = groupID, sr_SessionHash = sessionHash,
                            sr_StickyAccountID = (case sticky of Some i \<Rightarrow> if 0 < i then i else 0 | None \<Rightarrow> 0),
                            sr_PreviousResponseID = previousResponseID, sr_RequestedModel = requestedModel,
                            sr_RequiredTransport = requiredTransport, sr_RequiredImageCapability = requiredImageCapability,
                            sr_RequireCompact = requireCompact, sr_ExcludedIDs = excludedIDs\<rparr> s3))))"

definition SelectAccountWithSchedulerForImages ::
    "gw_env \<Rightarrow> int64 option \<Rightarrow> gostring \<Rightarrow> gostring \<Rightarrow> int64 list \<Rightarrow> gostring \<Rightarrow> gw \<Rightarrow>
     (((sel_error + selection) \<times> schedule_decision) \<times> gw) option" where
  "SelectAccountWithSchedulerForImages e groupID sessionHash requestedModel excludedIDs requiredCapability s =
     (case selectAccountWithScheduler e groupID [] sessionHash requestedModel excludedIDs OpenAIUpstreamTransportHTTPSSE
             requiredCapability False s of
        None \<Rightarrow> None
      | Some ((Inr sel, d), s1) \<Rightarrow> Some ((Inr sel, d), s1)
      | Some ((Inl err, d), s1) \<Rightarrow>
          if requiredCapability = OpenAIImagesCapabilityNative
          then selectAccountWithScheduler e groupID [] sessionHash requestedModel excludedIDs OpenAIUpstreamTransportHTTPSSE
                 OpenAIImagesCapabilityBasic False s1
          else Some ((Inl err, d), s1))"

definition ReportOpenAIAccountScheduleResult :: "gw_env \<Rightarrow> int64 \<Rightarrow> bool \<Rightarrow> int option \<Rightarrow> gw \<Rightarrow> gw" where
  "ReportOpenAIAccountScheduleResult e accountID success firstTokenMs s =
     (case isOpenAIAdvancedSchedulerEnabled e s of
        (False, s1) \<Rightarrow> s1
      | (True, s1) \<Rightarrow> s1\<lparr>gw_stats := report accountID success firstTokenMs (gw_stats s1)\<rparr>)"

definition RecordOpenAIAccountSwitch :: "gw_env \<Rightarrow> gw \<Rightarrow> gw" where
  "RecordOpenAIAccountSwitch e s =
     (case isOpenAIAdvancedSchedulerEnabled e s of
        (False, s1) \<Rightarrow> s1
      | (True, s1) \<Rightarrow> s1\<lparr>gw_metrics := recordSwitch (gw_metrics s1)\<rparr>)"

end
