(* ===== verification/OpenAILegacyLaws.thy ===== *)
theory OpenAILegacyLaws
  imports OpenAILegacySelect
begin

text \<open>
  What the selection without the advanced scheduler guarantees: the loop that excludes unsuitable accounts ends, the
  slots are accounted for, and the one way a slot is lost.
\<close>

subsection \<open>Operations that take no slot\<close>

lemma no_slot_channel [no_slot, simp]:
  "gw_held (snd (restricted_upstream e needs g a m c s)) = gw_held s"
  "gw_held (snd (checkChannelPricingRestriction e g m s)) = gw_held s"
  "gw_held (snd (hydrateSelectedAccount e a s)) = gw_held s"
  "gw_held (snd (isOpenAIAdvancedSchedulerEnabled e s)) = gw_held s"
  by (auto simp: restricted_upstream_def checkChannelPricingRestriction_def hydrateSelectedAccount_def
      isOpenAIAdvancedSchedulerEnabled_def Let_def split: option.splits)

lemma no_slot_channelD:
  "restricted_upstream e needs g a m c s = (b, s') \<Longrightarrow> gw_held s' = gw_held s"
  "needsUpstreamChannelRestrictionCheck e g s = (b, s') \<Longrightarrow> gw_held s' = gw_held s"
  "checkChannelPricingRestriction e g m s = (b, s') \<Longrightarrow> gw_held s' = gw_held s"
  "hydrateSelectedAccount e a s = (r, s') \<Longrightarrow> gw_held s' = gw_held s"
  by (metis no_slot snd_conv)+

lemma no_slot_shuffle_from [simp]: "gw_held (snd (shuffle_from e i xs s)) = gw_held s"
  by (induction i arbitrary: xs s) auto

lemma no_slot_Shuffle: "Shuffle e xs s = (ys, s') \<Longrightarrow> gw_held s' = gw_held s"
  by (metis Shuffle_def no_slot_shuffle_from snd_conv)

lemma no_slot_shuffle_groups:
  "(\<And>xs s ys s'. mix xs s = (ys, s') \<Longrightarrow> gw_held s' = gw_held s) \<Longrightarrow>
   shuffle_groups same mix xs s = (ys, s') \<Longrightarrow> gw_held s' = gw_held s"
proof (induction same mix xs s arbitrary: ys s' rule: shuffle_groups.induct)
  case (2 same mix x xs s)
  obtain g s1 where g: "mix (x # takeWhile (same x) xs) s = (g, s1)" by (metis surj_pair)
  obtain r s2 where r: "shuffle_groups same mix (dropWhile (same x) xs) s1 = (r, s2)" by (metis surj_pair)
  from 2(1) [OF g [symmetric] 2(2) r] 2(2) [OF g] 2(3) g r show ?case by simp
qed simp

lemma no_slot_shuffles: "shuffle_groups same (Shuffle e) xs s = (ys, s') \<Longrightarrow> gw_held s' = gw_held s"
  by (rule no_slot_shuffle_groups [of "Shuffle e"]) (auto dest: no_slot_Shuffle)

lemma no_slot_sorts:
  "shuffleWithinSortGroups e xs s = (ys, s') \<Longrightarrow> gw_held s' = gw_held s"
  "sortAccountsByPriorityAndLastUsed e False as s = (bs, s') \<Longrightarrow> gw_held s' = gw_held s"
  by (auto simp: shuffleWithinSortGroups_def sortAccountsByPriorityAndLastUsed_def shuffleWithinPriorityAndLastUsed_def
      dest: no_slot_shuffles)

lemma no_slot_orders:
  "layer2_order e c as loads s = (bs, s') \<Longrightarrow> gw_held s' = gw_held s"
  "layer3_order e c as s = (bs, s') \<Longrightarrow> gw_held s' = gw_held s"
  by (auto simp: layer2_order_def layer3_order_def Let_def dest!: no_slot_sorts split: prod.splits option.splits)

lemma no_slot_best_step: "best_step e needs g m ex c a best s = (r, s') \<Longrightarrow> gw_held s' = gw_held s"
  by (auto simp: best_step_def Let_def dest!: no_slotD no_slot_channelD split: if_splits prod.splits option.splits bool.splits)

lemma no_slot_best_loop: "best_loop e needs g m ex c as best s = (r, s') \<Longrightarrow> gw_held s' = gw_held s"
  by (induction as arbitrary: best s) (auto dest: no_slot_best_step split: prod.splits)

lemma no_slot_best: "selectBestAccount e g as m ex c s = (r, s') \<Longrightarrow> gw_held s' = gw_held s"
  by (auto simp: selectBestAccount_def dest!: no_slot_best_loop no_slot_channelD split: prod.splits)

lemma no_slot_sticky_hit: "tryStickySessionHit e g h m ex c i s = (r, s') \<Longrightarrow> gw_held s' = gw_held s"
  by (auto simp: tryStickySessionHit_def Let_def dest!: no_slotD no_slot_channelD
      split: if_splits prod.splits option.splits sum.splits bool.splits)

lemma no_slot_for_model:
  "selectAccountForModelWithExclusions e g h m ex c i s = (r, s') \<Longrightarrow> gw_held s' = gw_held s"
  by (auto simp: selectAccountForModelWithExclusions_def
      dest!: no_slot_channelD no_slot_sticky_hit no_slot_best
      split: if_splits prod.splits option.splits sum.splits bool.splits)

lemma no_slot_fresh_for: "fresh_for e needs g m c a s = (r, s') \<Longrightarrow> gw_held s' = gw_held s"
  by (auto simp: fresh_for_def dest!: no_slotD no_slot_channelD split: prod.splits option.splits bool.splits)

lemma no_slot_candidates: "candidates_for e needs g m ex c as s = (r, s') \<Longrightarrow> gw_held s' = gw_held s"
proof (induction as arbitrary: s r)
  case (Cons a as)
  then show ?case
    by (fastforce dest: no_slot_channelD split: if_splits prod.splits bool.splits)
qed simp

subsection \<open>Slot accounting\<close>

text \<open>
  A selection that fails after it took a slot for account \<open>i\<close>, when the snapshot does not return the account, keeps
  the slot: \<open>lost\<close>. Otherwise a failed selection holds what was held before.
\<close>

definition unhydrated :: "gw_env \<Rightarrow> sel_error \<Rightarrow> bool" where
  "unhydrated e err \<longleftrightarrow> ge_snapshot e \<and> (\<exists>t i. case ge_snapAccount e t i of
      Inl x \<Rightarrow> err = OutsideError x | Inr None \<Rightarrow> err = NotHydrated i | Inr (Some _) \<Rightarrow> False)"

definition outcome_accounted :: "gw_env \<Rightarrow> int64 list \<Rightarrow> sel_error + selection \<Rightarrow> gw \<Rightarrow> bool" where
  "outcome_accounted e h r s' = (case r of
     Inr sel \<Rightarrow> accounted h sel s'
   | Inl err \<Rightarrow> gw_held s' = h \<or> unhydrated e err \<and> (\<exists>i. gw_held s' = i # h))"

lemma outcome_accounted_Inl [simp]: "gw_held s' = h \<Longrightarrow> outcome_accounted e h (Inl err) s'"
  by (simp add: outcome_accounted_def)

lemma hydrate_fails: "hydrateSelectedAccount e a s = (Inl err, s') \<Longrightarrow> unhydrated e err"
  unfolding hydrateSelectedAccount_def unhydrated_def
  by (rule conjI; cases "ge_snapshot e"; simp)
    (intro exI [of _ "gw_tick s"] exI [of _ "ac_ID a"]; auto split: sum.splits option.splits)

lemma new_result_accounted:
  assumes "newSelectionResult e a b rel w s = (r, s')" "gw_held s = slots_of rel @ h"
    and "b \<longleftrightarrow> w = None" "rel \<noteq> None \<longrightarrow> b"
  shows "outcome_accounted e h r s'"
proof -
  obtain x s1 where x: "hydrateSelectedAccount e a s = (x, s1)" by (metis surj_pair)
  show ?thesis
  proof (cases x)
    case (Inl err)
    then show ?thesis
      using assms(1,2) x no_slot_channelD(4) [OF x] hydrate_fails [of e a s err s1]
      by (cases rel) (auto simp: newSelectionResult_def outcome_accounted_def)
  next
    case (Inr hyd)
    then show ?thesis
      using assms x no_slot_channelD(4) [OF x] by (auto simp: newSelectionResult_def outcome_accounted_def accounted_def)
  qed
qed

lemma slot_taken: "tryAcquireAccountSlot e i n s = (Inr (True, rel), s') \<Longrightarrow> gw_held s' = slots_of rel @ gw_held s"
  using tryAcquire_accounted(1) [of e i n s "Inr (True, rel)" s'] by simp

lemma slot_not_taken:
  "tryAcquireAccountSlot e i n s = (Inl err, s') \<Longrightarrow> gw_held s' = gw_held s"
  "tryAcquireAccountSlot e i n s = (Inr (False, rel), s') \<Longrightarrow> gw_held s' = gw_held s"
  by (auto dest: tryAcquire_accounted(1))

lemmas result_acquired = new_result_accounted [where b = True and w = None, simplified]
lemmas result_waiting = new_result_accounted [where b = False and rel = None and w = "Some w" for w, simplified]

definition option_accounted :: "gw_env \<Rightarrow> int64 list \<Rightarrow> (sel_error + selection) option \<Rightarrow> gw \<Rightarrow> bool" where
  "option_accounted e h r s' = (case r of None \<Rightarrow> gw_held s' = h | Some x \<Rightarrow> outcome_accounted e h x s')"

lemma option_accounted_simps [simp]:
  "option_accounted e h None s' \<longleftrightarrow> gw_held s' = h" "option_accounted e h (Some x) s' = outcome_accounted e h x s'"
  by (simp_all add: option_accounted_def)

lemma acquire_first_accounted:
  "acquire_first e needs g h m c as s = (r, s') \<Longrightarrow> option_accounted e (gw_held s) r s'"
proof (induction as arbitrary: s)
  case (Cons a as)
  obtain x s1 where f: "fresh_for e needs g m c a s = (x, s1)" by (metis surj_pair)
  note h = no_slot_fresh_for [OF f]
  show ?case
  proof (cases x)
    case None
    then show ?thesis using Cons.IH [of s1] Cons.prems f h by simp
  next
    case (Some fresh)
    obtain q s2 where t: "tryAcquireAccountSlot e (ac_ID fresh) (ac_Concurrency fresh) s1 = (q, s2)" by (metis surj_pair)
    consider rel where "q = Inr (True, rel)" | rel where "q = Inr (False, rel)" | err where "q = Inl err"
      by (metis (full_types) obj_sumE surj_pair)
    then show ?thesis
    proof cases
      case 1
      then show ?thesis
        using Cons.prems f Some t h slot_taken [of e "ac_ID fresh" "ac_Concurrency fresh" s1 rel s2]
        by - (auto split: prod.splits if_splits; erule result_acquired; simp)
    qed (use Cons.IH [of s2] Cons.prems f Some t h slot_not_taken [of e "ac_ID fresh" "ac_Concurrency fresh" s1 _ s2] in auto)
  qed
qed auto

lemma wait_first_accounted:
  "wait_first e needs g m c as s = (r, s') \<Longrightarrow> option_accounted e (gw_held s) r s'"
proof (induction as arbitrary: s)
  case (Cons a as)
  obtain x s1 where f: "fresh_for e needs g m c a s = (x, s1)" by (metis surj_pair)
  then show ?case
    using Cons.IH [of s1] Cons.prems no_slot_fresh_for [OF f]
    by - (cases x; auto split: prod.splits; erule result_waiting; simp)
qed auto

lemma sticky_layer_accounted:
  "sticky_layer e needs g h m ex c i s = (r, s') \<Longrightarrow> option_accounted e (gw_held s) r s'"
  by (auto simp: sticky_layer_def Let_def dest!: no_slotD no_slot_channelD(1,2,3) slot_taken slot_not_taken
      split: if_splits prod.splits option.splits sum.splits bool.splits;
      (erule result_acquired | erule result_waiting); simp)

lemma load_layers_accounted:
  "load_layers e needs g h m ex c as s = (r, s') \<Longrightarrow> outcome_accounted e (gw_held s) r s'"
  by (auto simp: load_layers_def Let_def dest!: no_slot_candidates no_slot_orders acquire_first_accounted wait_first_accounted
      split: if_splits prod.splits option.splits)

lemma plain_accounted:
  "plain_selection e g h m ex c i s = (r, s') \<Longrightarrow> outcome_accounted e (gw_held s) r s'"
  by (auto simp: plain_selection_def dest!: no_slot_for_model slot_taken slot_not_taken
      split: if_splits prod.splits sum.splits bool.splits;
      (erule result_acquired | erule result_waiting); simp)

lemma load_aware_accounted:
  "selectAccountWithLoadAwareness e g h m ex c s = (r, s') \<Longrightarrow> outcome_accounted e (gw_held s) r s'"
  by (auto simp: selectAccountWithLoadAwareness_def Let_def
      dest!: no_slotD no_slot_channelD(2,3) plain_accounted sticky_layer_accounted load_layers_accounted
      split: if_splits prod.splits sum.splits option.splits bool.splits)

subsection \<open>Which accounts can be selected\<close>

text \<open>Every account that the repository, the snapshot or the listing yields has its id in \<open>I\<close>.\<close>

definition ids_from :: "gw_env \<Rightarrow> int64 set \<Rightarrow> bool" where
  "ids_from e I \<longleftrightarrow> (\<forall>t i a. ge_repoAccount e t i = Inr (Some a) \<or> ge_snapAccount e t i = Inr (Some a) \<longrightarrow> ac_ID a \<in> I)
     \<and> (\<forall>t g as. ge_list e t g = Inr as \<longrightarrow> (\<forall>a \<in> set as. ac_ID a \<in> I))"

definition allowed :: "gw_env \<Rightarrow> int64 list \<Rightarrow> account \<Rightarrow> bool" where
  "allowed e ex a \<longleftrightarrow> (\<forall>I. ids_from e I \<longrightarrow> ac_ID a \<in> I) \<and> (answers_by_id e \<longrightarrow> ac_ID a \<notin> set ex)"

lemma allowed_listed: "ge_list e t g = Inr as \<Longrightarrow> a \<in> set as \<Longrightarrow> ac_ID a \<notin> set ex \<Longrightarrow> allowed e ex a"
  unfolding allowed_def ids_from_def by blast

lemma allowed_looked_up: "getSchedulableAccount e i s = (Inr (Some a), s') \<Longrightarrow> i \<notin> set ex \<Longrightarrow> allowed e ex a"
  unfolding allowed_def ids_from_def answers_by_id_def getSchedulableAccount_def by (auto split: if_splits)

lemma allowed_repo: "allowed e ex a \<Longrightarrow> ge_repoAccount e t (ac_ID a) = Inr (Some b) \<Longrightarrow> allowed e ex b"
  unfolding allowed_def ids_from_def answers_by_id_def by metis

lemma allowed_snap: "allowed e ex a \<Longrightarrow> ge_snapAccount e t (ac_ID a) = Inr (Some b) \<Longrightarrow> allowed e ex b"
  unfolding allowed_def ids_from_def answers_by_id_def by metis

lemma allowed_recheck: "recheckSelectedOpenAIAccountFromDB e a m c s = (Some b, s') \<Longrightarrow> allowed e ex a \<Longrightarrow> allowed e ex b"
  by (auto simp: recheckSelectedOpenAIAccountFromDB_def Let_def dest: allowed_repo split: if_splits sum.splits option.splits)

lemma allowed_resolve: "resolveFreshSchedulableOpenAIAccount e a m c s = (Some b, s') \<Longrightarrow> allowed e ex a \<Longrightarrow> allowed e ex b"
  by (auto simp: resolveFreshSchedulableOpenAIAccount_def getSchedulableAccount_def dest: allowed_snap allowed_repo
      split: if_splits prod.splits sum.splits option.splits)

lemma allowed_hydrate: "hydrateSelectedAccount e a s = (Inr b, s') \<Longrightarrow> allowed e ex a \<Longrightarrow> allowed e ex b"
  by (auto simp: hydrateSelectedAccount_def dest: allowed_snap split: if_splits sum.splits option.splits)

lemma allowed_result: "newSelectionResult e a b rel w s = (Inr sel, s') \<Longrightarrow> allowed e ex a \<Longrightarrow> allowed e ex (sl_Account sel)"
  by (auto simp: newSelectionResult_def dest: allowed_hydrate split: prod.splits sum.splits)

lemma allowed_fresh: "fresh_for e needs g m c a s = (Some b, s') \<Longrightarrow> allowed e ex a \<Longrightarrow> allowed e ex b"
  by (auto simp: fresh_for_def dest: allowed_recheck allowed_resolve split: prod.splits option.splits bool.splits)

lemma acquire_first_allowed:
  "acquire_first e needs g h m c as s = (Some (Inr sel), s') \<Longrightarrow> \<forall>a \<in> set as. allowed e ex a \<Longrightarrow> allowed e ex (sl_Account sel)"
proof (induction as arbitrary: s)
  case (Cons a as)
  then show ?case
    by (auto split: prod.splits option.splits sum.splits bool.splits if_splits dest!: allowed_fresh allowed_result)
qed simp

lemma wait_first_allowed:
  "wait_first e needs g m c as s = (Some (Inr sel), s') \<Longrightarrow> \<forall>a \<in> set as. allowed e ex a \<Longrightarrow> allowed e ex (sl_Account sel)"
proof (induction as arbitrary: s)
  case (Cons a as)
  then show ?case
    by (auto split: prod.splits option.splits dest!: allowed_fresh allowed_result)
qed simp

lemma sticky_layer_allowed:
  "sticky_layer e needs g h m ex c i s = (Some (Inr sel), s') \<Longrightarrow> allowed e ex (sl_Account sel)"
  by (auto simp: sticky_layer_def Let_def
      dest!: allowed_looked_up allowed_recheck allowed_result
      split: if_splits prod.splits option.splits sum.splits bool.splits)

lemma shuffle_from_mset: "i < length xs \<Longrightarrow> mset (fst (shuffle_from e i xs s)) = mset xs"
proof (induction i arbitrary: xs s)
  case (Suc i)
  have "ge_rand e (gw_tick s) (i + 2) mod (i + 2) < i + 2" by simp
  then have "ge_rand e (gw_tick s) (i + 2) mod (i + 2) < length xs" using Suc.prems by linarith
  then show ?case using Suc by simp
qed simp

lemma Shuffle_mset: "mset (fst (Shuffle e xs s)) = mset xs"
  by (cases "xs = []") (simp_all add: Shuffle_def shuffle_from_mset)

lemma shuffle_groups_mset:
  "(\<And>xs s. mset (fst (mix xs s)) = mset xs) \<Longrightarrow> mset (fst (shuffle_groups same mix xs s)) = mset xs"
proof (induction same mix xs s rule: shuffle_groups.induct)
  case (2 same mix x xs s)
  obtain g s1 where g: "mix (x # takeWhile (same x) xs) s = (g, s1)" by (metis surj_pair)
  have "mset g = mset (x # takeWhile (same x) xs)" using 2(2) [of "x # takeWhile (same x) xs" s] g by simp
  moreover have "mset (takeWhile (same x) xs) + mset (dropWhile (same x) xs) = mset xs"
    by (metis mset_append takeWhile_dropWhile_id)
  ultimately show ?case
    using 2(1) [OF g [symmetric] 2(2)] g by (cases "shuffle_groups same mix (dropWhile (same x) xs) s1") simp
qed simp

lemma sorts_mset:
  "mset (fst (shuffleWithinSortGroups e xs s)) = mset xs"
  "mset (fst (sortAccountsByPriorityAndLastUsed e False as s)) = mset as"
  by (simp_all add: shuffleWithinSortGroups_def sortAccountsByPriorityAndLastUsed_def shuffleWithinPriorityAndLastUsed_def
      shuffle_groups_mset Shuffle_mset)

lemma sorts_set:
  "shuffleWithinSortGroups e xs s = (ys, s') \<Longrightarrow> set ys = set xs"
  "sortAccountsByPriorityAndLastUsed e False as s = (bs, s') \<Longrightarrow> set bs = set as"
  by (metis sorts_mset fst_conv mset_eq_setD)+

lemma prioritize_set: "set (prioritizeOpenAICompactAccounts lib as) = set as"
  by (auto simp: prioritizeOpenAICompactAccounts_def Let_def)

lemma layer3_set:
  assumes "layer3_order e c as s = (bs, s')" shows "set bs = set as"
proof -
  obtain ys s1 where y: "sortAccountsByPriorityAndLastUsed e False as s = (ys, s1)" by (metis surj_pair)
  have "bs = (if c then prioritizeOpenAICompactAccounts (ge_lib e) ys else ys)"
    using assms y by (simp add: layer3_order_def)
  then have "set bs = set ys" by (simp add: prioritize_set)
  then show ?thesis using sorts_set(2) [OF y] by (rule trans)
qed

lemma layer2_set: "layer2_order e c as loads s = (bs, s') \<Longrightarrow> set bs \<subseteq> set as"
proof (cases loads)
  case None
  then show "layer2_order e c as loads s = (bs, s') \<Longrightarrow> set bs \<subseteq> set as"
    using layer3_set [of e c as s bs s'] by (simp add: layer2_order_def layer3_order_def)
next
  case (Some m)
  let ?av = "filter (\<lambda>(a, l). li_LoadRate l < 100) (map (\<lambda>a. (a, load_of m a)) as)"
  obtain ys s1 where y: "shuffleWithinSortGroups e (sort_slice load_before ?av) s = (ys, s1)" by (metis surj_pair)
  have "fst ` set ys \<subseteq> set as" using sorts_set(1) [OF y] by auto
  then show "layer2_order e c as loads s = (bs, s') \<Longrightarrow> set bs \<subseteq> set as"
    using Some y by (cases c) (force simp: layer2_order_def Let_def)+
qed

lemmas orders_set = layer2_set equalityD1 [OF layer3_set]

lemma candidates_set:
  "candidates_for e needs g m ex c as s = (bs, s') \<Longrightarrow> b \<in> set bs \<Longrightarrow> b \<in> set as \<and> ac_ID b \<notin> set ex"
proof (induction as arbitrary: s bs)
  case (Cons a as)
  then show ?case by (fastforce split: if_splits prod.splits bool.splits)
qed simp

lemma load_layers_allowed:
  assumes "load_layers e needs g h m ex c as s = (Inr sel, s')" "ge_list e t g' = Inr as"
  shows "allowed e ex (sl_Account sel)"
proof -
  obtain bs s1 where b: "candidates_for e needs g m ex c as s = (bs, s1)" by (metis surj_pair)
  have ok: "\<forall>a \<in> set bs. allowed e ex a" using candidates_set [OF b] allowed_listed [OF assms(2)] by blast
  then show ?thesis
    using assms(1) b
    by (auto simp: load_layers_def Let_def
        dest!: orders_set acquire_first_allowed [where ex = ex] wait_first_allowed [where ex = ex]
        split: if_splits prod.splits option.splits)
qed

lemma best_step_allowed:
  assumes "best_step e needs g m ex c a best s = (best', s')"
    and "ge_list e t g' = Inr as" "a \<in> set as" "\<forall>b tier. fst best = Some (b, tier) \<longrightarrow> allowed e ex b"
  shows "\<forall>b tier. fst best' = Some (b, tier) \<longrightarrow> allowed e ex b"
  using assms(1,4) allowed_listed [OF assms(2,3), of ex]
  by (auto simp: best_step_def Let_def dest!: allowed_resolve [where ex = ex] allowed_recheck [where ex = ex]
      split: if_splits prod.splits option.splits bool.splits)

lemma best_loop_allowed:
  assumes "ge_list e t g' = Inr as"
  shows "best_loop e needs g m ex c bs best s = (best', s') \<Longrightarrow> set bs \<subseteq> set as \<Longrightarrow>
    \<forall>b tier. fst best = Some (b, tier) \<longrightarrow> allowed e ex b \<Longrightarrow> \<forall>b tier. fst best' = Some (b, tier) \<longrightarrow> allowed e ex b"
proof (induction bs arbitrary: best s)
  case (Cons b bs)
  obtain mid s1 where st: "best_step e needs g m ex c b best s = (mid, s1)" by (metis surj_pair)
  have "\<forall>b tier. fst mid = Some (b, tier) \<longrightarrow> allowed e ex b"
    using best_step_allowed [OF st assms(1)] Cons.prems by simp
  then show ?case using Cons.IH [of mid s1] Cons.prems st by simp
qed simp

lemma for_model_allowed:
  assumes "selectAccountForModelWithExclusions e g h m ex c i s = (Inr a, s')"
  shows "allowed e ex a"
proof -
  have hit: "allowed e ex a" if "tryStickySessionHit e g h m ex c i s1 = (Some a, s2)" for s1 s2 a
    using that
    by (auto simp: tryStickySessionHit_def Let_def dest!: allowed_looked_up allowed_recheck [where ex = ex]
        split: if_splits prod.splits option.splits sum.splits bool.splits)
  have best: "allowed e ex a" if "selectBestAccount e g as m ex c s1 = ((Some a, b), s2)" "ge_list e t g = Inr as" for as s1 s2 a b t
    using that(1) best_loop_allowed [OF that(2), of _ g m ex c as "(None, False)"]
    by (auto simp: selectBestAccount_def split: prod.splits)
  show ?thesis
    using assms
    by (auto simp: selectAccountForModelWithExclusions_def
        dest!: hit best allowed_hydrate [where ex = ex]
        split: if_splits prod.splits option.splits sum.splits bool.splits)
qed

lemma load_aware_allowed:
  "selectAccountWithLoadAwareness e g h m ex c s = (Inr sel, s') \<Longrightarrow> allowed e ex (sl_Account sel)"
proof -
  have plain: "allowed e ex (sl_Account sel)" if "plain_selection e g h m ex c i s1 = (Inr sel, s2)" for i s1 s2
    using that
    by (auto simp: plain_selection_def dest!: for_model_allowed allowed_result [where ex = ex]
        split: if_splits prod.splits sum.splits bool.splits)
  show "selectAccountWithLoadAwareness e g h m ex c s = (Inr sel, s') \<Longrightarrow> allowed e ex (sl_Account sel)"
    by (auto simp: selectAccountWithLoadAwareness_def Let_def dest!: plain sticky_layer_allowed
        dest: load_layers_allowed
        split: if_splits prod.splits sum.splits option.splits bool.splits)
qed

subsection \<open>The excluding loop\<close>

lemma exclude_loop_unfold:
  "exclude_loop e suitable g h m c ex s =
     (case selectAccountWithLoadAwareness e g h m ex c s of
        (Inl err, s1) \<Rightarrow> Some (Inl err, s1)
      | (Inr sel, s1) \<Rightarrow>
          if suitable (sl_Account sel) then Some (Inr sel, s1)
          else if ac_ID (sl_Account sel) \<in> set ex then Some (Inl NoAvailableAccounts, ReleaseFunc (sl_Release sel) s1)
          else exclude_loop e suitable g h m c (ac_ID (sl_Account sel) # ex) (ReleaseFunc (sl_Release sel) s1))"
  by (rule exclude_loop.simps [unfolded Let_def])

lemma exclude_loop_returns:
  assumes ids: "ids_from e I" and I: "finite I"
  shows "\<exists>r s'. exclude_loop e suitable g h m c ex s = Some (r, s') \<and> outcome_accounted e (gw_held s) r s'
    \<and> (\<forall>sel. r = Inr sel \<longrightarrow> suitable (sl_Account sel) \<and> (answers_by_id e \<longrightarrow> ac_ID (sl_Account sel) \<notin> set ex))"
proof (induction "card (I - set ex)" arbitrary: ex s rule: less_induct)
  case less
  obtain r s1 where r: "selectAccountWithLoadAwareness e g h m ex c s = (r, s1)" by (metis surj_pair)
  note acc = load_aware_accounted [OF r]
  show ?case
  proof (cases r)
    case (Inl err)
    then show ?thesis using r acc by (subst exclude_loop_unfold) simp
  next
    case (Inr sel)
    let ?i = "ac_ID (sl_Account sel)" and ?s2 = "ReleaseFunc (sl_Release sel) s1"
    have ok: "allowed e ex (sl_Account sel)" using load_aware_allowed r Inr by blast
    then have "?i \<in> I" using ids by (simp add: allowed_def)
    have held: "gw_held ?s2 = gw_held s"
      using acc Inr by (intro ReleaseFunc_gives_back) (simp add: outcome_accounted_def accounted_def)
    consider "suitable (sl_Account sel)" | "\<not> suitable (sl_Account sel)" "?i \<in> set ex"
      | "\<not> suitable (sl_Account sel)" "?i \<notin> set ex" by blast
    then show ?thesis
    proof cases
      case 3
      then have "card (I - set (?i # ex)) < card (I - set ex)"
        using I \<open>?i \<in> I\<close> by (intro psubset_card_mono) auto
      from less [OF this, of ?s2] 3 r Inr held show ?thesis
        by (subst exclude_loop_unfold) auto
    qed (use r Inr acc ok held in \<open>subst exclude_loop_unfold, simp add: allowed_def\<close>)+
  qed
qed

text \<open>
  C20: Selecting an account through \<open>selectAccountWithScheduler\<close> always returns when the accounts of the system are
  finitely many: the loop that excludes unsuitable accounts cannot go on. When it returns an account without the
  advanced scheduler, the account has the required transport, or the image capability for plain HTTP. A failed selection
  holds no slot that was not held before, except when the account's snapshot entry disappears after its slot was taken.
\<close>
theorem scheduler_selection_returns:
  assumes "ids_from e I" and "finite I"
  shows "\<exists>r d s'. selectAccountWithScheduler e g p h m ex T cap c s = Some ((r, d), s')
    \<and> (\<forall>sel. r = Inr sel \<longrightarrow> accounted (gw_held s) sel s'
         \<and> (\<not> fst (isOpenAIAdvancedSchedulerEnabled e s) \<longrightarrow>
              isOpenAIAccountTransportCompatible e (Some (sl_Account sel)) T
              \<and> (T = OpenAIUpstreamTransportHTTPSSE \<longrightarrow> SupportsOpenAIImageCapability (sl_Account sel) cap)
              \<and> (answers_by_id e \<longrightarrow> ac_ID (sl_Account sel) \<notin> set ex)))
    \<and> (\<forall>err. r = Inl err \<longrightarrow> gw_held s' = gw_held s \<or> unhydrated e err \<and> (\<exists>i. gw_held s' = i # gw_held s))"
proof -
  obtain adv s1 where a: "isOpenAIAdvancedSchedulerEnabled e s = (adv, s1)" by (metis surj_pair)
  have h1: "gw_held s1 = gw_held s" using a no_slot_channel(4) [of e s] by simp
  show ?thesis
  proof (cases adv)
    case False
    let ?suitable = "\<lambda>a. if T = OpenAIUpstreamTransportAny \<or> T = OpenAIUpstreamTransportHTTPSSE
      then SupportsOpenAIImageCapability a cap else isOpenAIAccountTransportCompatible e (Some a) T"
    from exclude_loop_returns [OF assms, of ?suitable g h m c ex s1]
    obtain r s2 where "exclude_loop e ?suitable g h m c ex s1 = Some (r, s2)" "outcome_accounted e (gw_held s) r s2"
      "\<forall>sel. r = Inr sel \<longrightarrow> ?suitable (sl_Account sel) \<and> (answers_by_id e \<longrightarrow> ac_ID (sl_Account sel) \<notin> set ex)"
      unfolding h1 by blast
    then show ?thesis
      using a False
      by (auto simp: selectAccountWithScheduler_def outcome_accounted_def isOpenAIAccountTransportCompatible_def split: if_splits)
  next
    case True
    have select: "\<exists>r d s'. Select e req t = ((r, d), s') \<and> (\<forall>sel. r = Inr sel \<longrightarrow> accounted (gw_held s) sel s')
        \<and> (\<forall>err. r = Inl err \<longrightarrow> gw_held s' = gw_held s \<or> unhydrated e err \<and> (\<exists>i. gw_held s' = i # gw_held s))"
      if "gw_held t = gw_held s" for req t
      using that select_accounted [of e req t] by (cases "Select e req t") (auto simp: result_accounted_def split: sum.splits)
    show ?thesis
      using a h1 True
      by (auto simp: selectAccountWithScheduler_def intro!: select
          dest!: no_slotD(2) no_slot_channelD(3) split: prod.splits bool.splits if_splits)
  qed
qed

theorem scheduler_selection_returns_witness:
  "ids_from demo_gw_env {1} \<and> (\<exists>r d s'. selectAccountWithScheduler demo_gw_env None [] ''h'' ''gpt-5'' [2]
      OpenAIUpstreamTransportHTTPSSE OpenAIImagesCapabilityBasic False demo_gw = Some ((r, d), s'))"
proof -
  have ids: "ids_from demo_gw_env {1}" by (auto simp: ids_from_def demo_gw_env_def demo_account_def split: if_splits)
  from scheduler_selection_returns [OF ids, of None "[]" "''h''" "''gpt-5''" "[2]" OpenAIUpstreamTransportHTTPSSE
      OpenAIImagesCapabilityBasic False demo_gw]
  show ?thesis using ids by blast
qed

definition demo_vanishing_env :: gw_env where
  "demo_vanishing_env = demo_gw_env\<lparr>ge_snapshot := True,
     ge_snapAccount := (\<lambda>t i. Inr (if t < 5 then Some (demo_account [] []) else None))\<rparr>"

text \<open>
  A slot is lost when the snapshot no longer has the account at the moment it is loaded for the result: the
  selection fails with an error, returns no release function, and the slot it took stays taken.
\<close>
theorem vanished_account_keeps_slot:
  "\<exists>s'. selectAccountWithLoadAwareness demo_vanishing_env None [] ''gpt-5'' [] False demo_gw = (Inl (NotHydrated 1), s')
     \<and> gw_held s' = 1 # gw_held demo_gw"
proof -
  let ?a = "demo_account [] []" and ?e = demo_vanishing_env
  have el: "isOpenAIAccountEligibleForRequest demo_lib now ?a ''gpt-5'' False" for now
    by (simp add: isOpenAIAccountEligibleForRequest_def demo_account_static demo_account_schedulable)
  have c: "ac_ID ?a = 1" "ac_Concurrency ?a = 3" by (simp_all add: demo_account_def)
  have f: "fresh_for ?e False None ''gpt-5'' False ?a (demo_gw\<lparr>gw_tick := 2\<rparr>) = (Some ?a, demo_gw\<lparr>gw_tick := 4\<rparr>)"
    using el c by (simp add: fresh_for_def resolveFreshSchedulableOpenAIAccount_def getSchedulableAccount_def
        recheckSelectedOpenAIAccountFromDB_def restricted_upstream_def demo_vanishing_env_def demo_gw_env_def tick_def)
  have l: "layer2_order ?e False [?a] None (demo_gw\<lparr>gw_tick := 2\<rparr>) = ([?a], demo_gw\<lparr>gw_tick := 2\<rparr>)"
    by (simp add: layer2_order_def sortAccountsByPriorityAndLastUsed_def shuffleWithinPriorityAndLastUsed_def Shuffle_def
        sort_slice_def)
  have cand: "candidates_for ?e False None ''gpt-5'' [] False [?a] (demo_gw\<lparr>gw_tick := 1\<rparr>) = ([?a], demo_gw\<lparr>gw_tick := 1\<rparr>)"
    by (simp add: restricted_upstream_def demo_vanishing_env_def demo_env_simps demo_account_static demo_account_schedulable)
  have acq: "acquire_first ?e False None [] ''gpt-5'' False [?a] (demo_gw\<lparr>gw_tick := 2\<rparr>) =
      (Some (Inl (NotHydrated 1)), demo_gw\<lparr>gw_tick := 6, gw_held := 1 # gw_held demo_gw\<rparr>)"
    using f c by (simp add: tryAcquireAccountSlot_def AcquireAccountSlot_def newSelectionResult_def hydrateSelectedAccount_def
        demo_vanishing_env_def demo_gw_env_def tick_def)
  have env: "ge_concurrency ?e" "schedulingConfig ?e = default_sched_config" "ge_list ?e t g = Inr [?a]" "ge_loads ?e t xs = None"
    for t g xs by (simp_all add: demo_vanishing_env_def demo_gw_env_def schedulingConfig_def)
  have t: "tick demo_gw = demo_gw\<lparr>gw_tick := 1\<rparr>" "tick (demo_gw\<lparr>gw_tick := 1\<rparr>) = demo_gw\<lparr>gw_tick := 2\<rparr>"
    by (simp_all add: tick_def demo_gw_def)
  have "load_layers ?e False None [] ''gpt-5'' [] False [?a] (demo_gw\<lparr>gw_tick := 1\<rparr>) =
      (Inl (NotHydrated 1), demo_gw\<lparr>gw_tick := 6, gw_held := 1 # gw_held demo_gw\<rparr>)"
    by (simp add: load_layers_def cand env t l acq del: One_nat_def candidates_for.simps acquire_first.simps)
  then show ?thesis
    by (simp add: selectAccountWithLoadAwareness_def checkChannelPricingRestriction_def needsUpstreamChannelRestrictionCheck_def
        sticky_layer_def env t default_sched_config_def del: One_nat_def)
qed

end
