(* ===== verification/ApiKey.thy ===== *)
theory ApiKey
  imports Redeem
begin

text \<open>
  API keys: the data and checks of \<open>internal/service/api_key.go\<close>, the format of custom keys and the quota and
  rate-limit operations of \<open>api_key_service.go\<close> with the SQL statements of \<open>internal/repository/api_key_repo.go\<close>
  they run. A table holds the rows that are not deleted. Money columns are \<open>numeric\<close> in the database: \<open>num_add\<close> is
  the sum as the column holds it, \<open>num_add (Fin 0) x\<close> the value \<open>x\<close> as the column holds it. \<open>day_start\<close> is \<open>date_trunc('day', NOW())\<close> in the session's time zone.
\<close>

subsection \<open>Data\<close>

definition StatusAPIKeyActive :: gostring where "StatusAPIKeyActive = ''active''"
definition StatusAPIKeyDisabled :: gostring where "StatusAPIKeyDisabled = ''disabled''"
definition StatusAPIKeyQuotaExhausted :: gostring where "StatusAPIKeyQuotaExhausted = ''quota_exhausted''"
definition StatusAPIKeyExpired :: gostring where "StatusAPIKeyExpired = ''expired''"

definition RateLimitWindow5h :: duration where "RateLimitWindow5h = 5 * Hour"
definition RateLimitWindow1d :: duration where "RateLimitWindow1d = 24 * Hour"
definition RateLimitWindow7d :: duration where "RateLimitWindow7d = 7 * 24 * Hour"

definition ErrAPIKeyNotFound :: app_error where
  "ErrAPIKeyNotFound = NotFound ''API_KEY_NOT_FOUND'' ''api key not found''"
definition ErrAPIKeyTooShort :: app_error where
  "ErrAPIKeyTooShort = BadRequest ''API_KEY_TOO_SHORT'' ''api key must be at least 16 characters''"
definition ErrAPIKeyInvalidChars :: app_error where
  "ErrAPIKeyInvalidChars = BadRequest ''API_KEY_INVALID_CHARS''
     ''api key can only contain letters, numbers, underscores, and hyphens''"
definition ErrAPIKeyRateLimited :: app_error where
  "ErrAPIKeyRateLimited = TooManyRequests ''API_KEY_RATE_LIMITED'' ''too many failed attempts, please try again later''"

text \<open>The messages of the next errors are Chinese text; \<open>msg\<close> stands for it.\<close>

definition ErrAPIKeyExpired :: "gostring \<Rightarrow> app_error" where
  "ErrAPIKeyExpired msg = Forbidden ''API_KEY_EXPIRED'' msg"
definition ErrAPIKeyQuotaExhausted :: "gostring \<Rightarrow> app_error" where
  "ErrAPIKeyQuotaExhausted msg = TooManyRequests ''API_KEY_QUOTA_EXHAUSTED'' msg"
definition ErrAPIKeyRateLimit5hExceeded :: "gostring \<Rightarrow> app_error" where
  "ErrAPIKeyRateLimit5hExceeded msg = TooManyRequests ''API_KEY_RATE_5H_EXCEEDED'' msg"
definition ErrAPIKeyRateLimit1dExceeded :: "gostring \<Rightarrow> app_error" where
  "ErrAPIKeyRateLimit1dExceeded msg = TooManyRequests ''API_KEY_RATE_1D_EXCEEDED'' msg"
definition ErrAPIKeyRateLimit7dExceeded :: "gostring \<Rightarrow> app_error" where
  "ErrAPIKeyRateLimit7dExceeded msg = TooManyRequests ''API_KEY_RATE_7D_EXCEEDED'' msg"

record api_key =
  ak_ID :: int64
  ak_UserID :: int64
  ak_Key :: gostring
  ak_Name :: gostring
  ak_GroupID :: "int64 option"
  ak_Status :: gostring
  ak_IPWhitelist :: "gostring list"
  ak_IPBlacklist :: "gostring list"
  ak_LastUsedAt :: "time option"
  ak_CreatedAt :: time
  ak_UpdatedAt :: time
  ak_Quota :: f64
  ak_QuotaUsed :: f64
  ak_ExpiresAt :: "time option"
  ak_RateLimit5h :: f64
  ak_RateLimit1d :: f64
  ak_RateLimit7d :: f64
  ak_Usage5h :: f64
  ak_Usage1d :: f64
  ak_Usage7d :: f64
  ak_Window5hStart :: "time option"
  ak_Window1dStart :: "time option"
  ak_Window7dStart :: "time option"

definition IsWindowExpired :: "time \<Rightarrow> time option \<Rightarrow> duration \<Rightarrow> bool" where
  "IsWindowExpired now windowStart duration =
     (case windowStart of None \<Rightarrow> True | Some st \<Rightarrow> duration \<le> Sub now st)"

definition ak_IsActive :: "api_key \<Rightarrow> bool" where
  "ak_IsActive k \<longleftrightarrow> ak_Status k = StatusAPIKeyActive"

definition HasRateLimits :: "api_key \<Rightarrow> bool" where
  "HasRateLimits k \<longleftrightarrow> flt (Fin 0) (ak_RateLimit5h k) \<or> flt (Fin 0) (ak_RateLimit1d k) \<or> flt (Fin 0) (ak_RateLimit7d k)"

definition ak_IsExpired :: "time \<Rightarrow> api_key \<Rightarrow> bool" where
  "ak_IsExpired now k = (case ak_ExpiresAt k of None \<Rightarrow> False | Some t \<Rightarrow> After now t)"

definition IsQuotaExhausted :: "api_key \<Rightarrow> bool" where
  "IsQuotaExhausted k = (if fle (ak_Quota k) (Fin 0) then False else fle (ak_Quota k) (ak_QuotaUsed k))"

definition GetQuotaRemaining :: "api_key \<Rightarrow> f64" where
  "GetQuotaRemaining k =
     (if fle (ak_Quota k) (Fin 0) then Fin (- 1)
      else let remaining = fsub (ak_Quota k) (ak_QuotaUsed k) in if flt remaining (Fin 0) then Fin 0 else remaining)"

definition GetDaysUntilExpiry :: "time \<Rightarrow> api_key \<Rightarrow> int" where
  "GetDaysUntilExpiry now k = (case ak_ExpiresAt k of
     None \<Rightarrow> - 1
   | Some t \<Rightarrow> (let d = Sub t now in if d < 0 then 0 else days_of d))"

definition effective_usage :: "time \<Rightarrow> duration \<Rightarrow> f64 \<Rightarrow> time option \<Rightarrow> f64" where
  "effective_usage now len usage windowStart = (if IsWindowExpired now windowStart len then Fin 0 else usage)"

definition EffectiveUsage5h :: "time \<Rightarrow> api_key \<Rightarrow> f64" where
  "EffectiveUsage5h now k = effective_usage now RateLimitWindow5h (ak_Usage5h k) (ak_Window5hStart k)"
definition EffectiveUsage1d :: "time \<Rightarrow> api_key \<Rightarrow> f64" where
  "EffectiveUsage1d now k = effective_usage now RateLimitWindow1d (ak_Usage1d k) (ak_Window1dStart k)"
definition EffectiveUsage7d :: "time \<Rightarrow> api_key \<Rightarrow> f64" where
  "EffectiveUsage7d now k = effective_usage now RateLimitWindow7d (ak_Usage7d k) (ak_Window7dStart k)"

subsection \<open>Checks of the service\<close>

definition custom_key_char :: "char \<Rightarrow> bool" where
  "custom_key_char c \<longleftrightarrow> (let n = of_char c :: nat in 97 \<le> n \<and> n \<le> 122 \<or> 65 \<le> n \<and> n \<le> 90 \<or> 48 \<le> n \<and> n \<le> 57)
     \<or> c = CHR ''_'' \<or> c = CHR ''-''"

definition ValidateCustomKey :: "gostring \<Rightarrow> app_error option" where
  "ValidateCustomKey k =
     (if length k < 16 then Some ErrAPIKeyTooShort
      else if list_all custom_key_char k then None else Some ErrAPIKeyInvalidChars)"

definition hex_digit :: "nat \<Rightarrow> char" where
  "hex_digit n = (if n < 10 then char_of (48 + n) else char_of (87 + n))"

text \<open>\<open>hex.EncodeToString\<close>; \<open>bytes\<close> are the 32 random bytes.\<close>

definition hex_encode :: "nat list \<Rightarrow> gostring" where
  "hex_encode bytes = concat (map (\<lambda>b. [hex_digit (b div 16), hex_digit (b mod 16)]) bytes)"

definition GenerateKey :: "gostring \<Rightarrow> nat list result \<Rightarrow> gostring result" where
  "GenerateKey cfg_prefix random = (case random of
     Inl err \<Rightarrow> Inl (EWrap ''generate random bytes'' err)
   | Inr bytes \<Rightarrow> Inr ((if cfg_prefix = [] then ''sk-'' else cfg_prefix) @ hex_encode bytes))"

definition apiKeyMaxErrorsPerHour :: int where "apiKeyMaxErrorsPerHour = 20"

text \<open>\<open>count\<close>: \<open>None\<close> without a cache, \<open>Some (Inl _)\<close> when Redis fails; both let the user pass.\<close>

definition checkAPIKeyRateLimit :: "int result option \<Rightarrow> app_error option" where
  "checkAPIKeyRateLimit attempts = (case attempts of
     Some (Inr n) \<Rightarrow> if apiKeyMaxErrorsPerHour \<le> n then Some ErrAPIKeyRateLimited else None
   | _ \<Rightarrow> None)"

definition CheckAPIKeyQuotaAndExpiry :: "gostring \<Rightarrow> time \<Rightarrow> api_key \<Rightarrow> app_error option" where
  "CheckAPIKeyQuotaAndExpiry msg now k =
     (if ak_IsExpired now k then Some (ErrAPIKeyExpired msg)
      else if IsQuotaExhausted k then Some (ErrAPIKeyQuotaExhausted msg)
      else None)"

subsection \<open>Statements\<close>

type_synonym num_add = "f64 \<Rightarrow> f64 \<Rightarrow> f64"

definition key_update :: "int64 \<Rightarrow> (api_key \<Rightarrow> api_key) \<Rightarrow> api_key list \<Rightarrow> api_key result \<times> api_key list" where
  "key_update i upd rows = (case find (\<lambda>k. ak_ID k = i) rows of
     None \<Rightarrow> (Inl (EApp ErrAPIKeyNotFound), rows)
   | Some k \<Rightarrow> (Inr (upd k), update_where (\<lambda>k. ak_ID k = i) upd rows))"

definition repo_IncrementQuotaUsed :: "fault \<Rightarrow> num_add \<Rightarrow> int64 \<Rightarrow> f64 \<Rightarrow> api_key list \<Rightarrow> f64 result \<times> api_key list" where
  "repo_IncrementQuotaUsed f num_add i amount = with_fault_err f (\<lambda>rows.
     case key_update i (\<lambda>k. k\<lparr>ak_QuotaUsed := num_add (ak_QuotaUsed k) amount\<rparr>) rows of
       (Inl err, rows') \<Rightarrow> (Inl err, rows') | (Inr k, rows') \<Rightarrow> (Inr (ak_QuotaUsed k), rows'))"

definition quota_state_row :: "num_add \<Rightarrow> time \<Rightarrow> f64 \<Rightarrow> api_key \<Rightarrow> api_key" where
  "quota_state_row num_add now amount k =
     k\<lparr>ak_QuotaUsed := num_add (ak_QuotaUsed k) amount,
       ak_Status := (if flt (Fin 0) (ak_Quota k) \<and> fle (ak_Quota k) (num_add (ak_QuotaUsed k) amount)
                     then StatusAPIKeyQuotaExhausted else ak_Status k),
       ak_UpdatedAt := now\<rparr>"

definition IncrementQuotaUsedAndGetState ::
    "fault \<Rightarrow> num_add \<Rightarrow> time \<Rightarrow> int64 \<Rightarrow> f64 \<Rightarrow> api_key list \<Rightarrow> api_key result \<times> api_key list" where
  "IncrementQuotaUsedAndGetState f num_add now i amount =
     with_fault_err f (key_update i (quota_state_row num_add now amount))"

text \<open>
  One window of the rate limit: its usage and its start. A window that has run out starts again; the expression of the
  statement leaves a window that never started at its old usage plus the cost.
\<close>

definition key_window_over :: "duration \<Rightarrow> time \<Rightarrow> time option \<Rightarrow> bool" where
  "key_window_over len now st = (case st of None \<Rightarrow> False | Some t \<Rightarrow> t + len \<le> now)"

definition charge_window ::
    "num_add \<Rightarrow> duration \<Rightarrow> time \<Rightarrow> time \<Rightarrow> f64 \<Rightarrow> f64 \<times> time option \<Rightarrow> f64 \<times> time option" where
  "charge_window num_add len now fresh cost w = (case w of (usage, st) \<Rightarrow>
     (if key_window_over len now st then num_add (Fin 0) cost else num_add usage cost,
      if st = None \<or> key_window_over len now st then Some fresh else st))"

definition reset_window :: "duration \<Rightarrow> time \<Rightarrow> time \<Rightarrow> f64 \<times> time option \<Rightarrow> f64 \<times> time option" where
  "reset_window len now fresh w = (case w of (usage, st) \<Rightarrow>
     (if key_window_over len now st then Fin 0 else usage, if key_window_over len now st then Some fresh else st))"

definition with_windows :: "(duration \<Rightarrow> bool \<Rightarrow> f64 \<times> time option \<Rightarrow> f64 \<times> time option) \<Rightarrow> api_key \<Rightarrow> api_key" where
  "with_windows g k =
     (let w5 = g RateLimitWindow5h False (ak_Usage5h k, ak_Window5hStart k);
          w1 = g RateLimitWindow1d True (ak_Usage1d k, ak_Window1dStart k);
          w7 = g RateLimitWindow7d True (ak_Usage7d k, ak_Window7dStart k)
      in k\<lparr>ak_Usage5h := fst w5, ak_Usage1d := fst w1, ak_Usage7d := fst w7,
           ak_Window5hStart := snd w5, ak_Window1dStart := snd w1, ak_Window7dStart := snd w7\<rparr>)"

definition rate_limit_row :: "num_add \<Rightarrow> (time \<Rightarrow> time) \<Rightarrow> time \<Rightarrow> f64 \<Rightarrow> api_key \<Rightarrow> api_key" where
  "rate_limit_row num_add day_start now cost k =
     (with_windows (\<lambda>len daily. charge_window num_add len now (if daily then day_start now else now) cost) k)
       \<lparr>ak_UpdatedAt := now\<rparr>"

definition IncrementRateLimitUsage ::
    "fault \<Rightarrow> num_add \<Rightarrow> (time \<Rightarrow> time) \<Rightarrow> time \<Rightarrow> int64 \<Rightarrow> f64 \<Rightarrow> api_key list \<Rightarrow> unit result \<times> api_key list" where
  "IncrementRateLimitUsage f num_add day_start now i cost = with_fault f (\<lambda>rows.
     ((), update_where (\<lambda>k. ak_ID k = i) (rate_limit_row num_add day_start now cost) rows))"

definition ResetRateLimitWindows ::
    "fault \<Rightarrow> (time \<Rightarrow> time) \<Rightarrow> time \<Rightarrow> int64 \<Rightarrow> api_key list \<Rightarrow> unit result \<times> api_key list" where
  "ResetRateLimitWindows f day_start now i = with_fault f (\<lambda>rows.
     ((), update_where (\<lambda>k. ak_ID k = i)
            (\<lambda>k. (with_windows (\<lambda>len daily. reset_window len now (if daily then day_start now else now)) k)
                   \<lparr>ak_UpdatedAt := now\<rparr>) rows))"

definition UpdateLastUsed :: "fault \<Rightarrow> int64 \<Rightarrow> time \<Rightarrow> api_key list \<Rightarrow> unit result \<times> api_key list" where
  "UpdateLastUsed f i usedAt = with_fault_err f (\<lambda>rows.
     if affected (\<lambda>k. ak_ID k = i) rows = 0 then (Inl (EApp ErrAPIKeyNotFound), rows)
     else (Inr (), update_where (\<lambda>k. ak_ID k = i) (\<lambda>k. k\<lparr>ak_LastUsedAt := Some usedAt, ak_UpdatedAt := usedAt\<rparr>) rows))"

text \<open>The second result of \<open>UpdateQuotaUsed\<close>: the key whose cached authentication is dropped, if one is.\<close>

definition UpdateQuotaUsed ::
    "fault \<Rightarrow> num_add \<Rightarrow> time \<Rightarrow> int64 \<Rightarrow> f64 \<Rightarrow> api_key list \<Rightarrow> (unit result \<times> gostring option) \<times> api_key list" where
  "UpdateQuotaUsed f num_add now i cost rows =
     (if fle cost (Fin 0) then ((Inr (), None), rows)
      else case IncrementQuotaUsedAndGetState f num_add now i cost rows of
        (Inl err, rows') \<Rightarrow> ((Inl (EWrap ''increment quota used'' err), None), rows')
      | (Inr k, rows') \<Rightarrow>
          ((Inr (), if ak_Status k = StatusAPIKeyQuotaExhausted \<and> trim_space (ak_Key k) \<noteq> [] then Some (ak_Key k) else None),
           rows'))"

definition UpdateRateLimitUsage ::
    "fault \<Rightarrow> num_add \<Rightarrow> (time \<Rightarrow> time) \<Rightarrow> time \<Rightarrow> int64 \<Rightarrow> f64 \<Rightarrow> api_key list \<Rightarrow> unit result \<times> api_key list" where
  "UpdateRateLimitUsage f num_add day_start now i cost rows =
     (if fle cost (Fin 0) then (Inr (), rows) else IncrementRateLimitUsage f num_add day_start now i cost rows)"

subsection \<open>Charging the rate-limit windows\<close>

text \<open>A window that has not started has no usage; every write of the repository keeps this.\<close>

definition windows_ok :: "api_key \<Rightarrow> bool" where
  "windows_ok k \<longleftrightarrow> (ak_Window5hStart k = None \<longrightarrow> ak_Usage5h k = Fin 0) \<and> (ak_Window1dStart k = None \<longrightarrow> ak_Usage1d k = Fin 0)
     \<and> (ak_Window7dStart k = None \<longrightarrow> ak_Usage7d k = Fin 0)"

text \<open>Times the gateway can see: the age of a window fits a \<open>Duration\<close>.\<close>

definition ages_fit :: "time \<Rightarrow> api_key \<Rightarrow> bool" where
  "ages_fit now k \<longleftrightarrow>
     (\<forall>st \<in> {ak_Window5hStart k, ak_Window1dStart k, ak_Window7dStart k}. \<forall>t. st = Some t \<longrightarrow> in_int64 (now - t))"

lemma Sub_fits: "in_int64 (now - t) \<Longrightarrow> Sub now t = now - t"
  by (simp add: Sub_def in_int64_def min_int64_def max_int64_def)

lemma expired_iff_over:
  "\<forall>t. st = Some t \<longrightarrow> in_int64 (now - t) \<Longrightarrow> IsWindowExpired now st len \<longleftrightarrow> st = None \<or> key_window_over len now st"
  by (cases st) (auto simp: IsWindowExpired_def key_window_over_def Sub_fits)

lemma charge_window_effective:
  assumes "\<forall>t. st = Some t \<longrightarrow> in_int64 (now - t)" "st = None \<longrightarrow> usage = Fin 0"
    and "in_int64 (now - fresh)" "now < fresh + len" "0 < len"
  shows "case charge_window num_add len now fresh cost (usage, st) of (usage', st') \<Rightarrow>
    effective_usage now len usage' st' = num_add (effective_usage now len usage st) cost \<and> st' \<noteq> None"
proof -
  have fresh: "\<not> IsWindowExpired now (Some fresh) len"
    using assms(3,4) by (simp add: IsWindowExpired_def Sub_fits)
  show ?thesis
    using assms(2) fresh expired_iff_over [OF assms(1), of len]
    by (auto simp: charge_window_def effective_usage_def)
qed

lemma window_lengths [simp]: "0 < RateLimitWindow5h" "0 < RateLimitWindow1d" "0 < RateLimitWindow7d"
  "24 * Hour \<le> RateLimitWindow1d" "24 * Hour \<le> RateLimitWindow7d" "24 * Hour = 86400000000000"
  by (simp_all add: RateLimitWindow5h_def RateLimitWindow1d_def RateLimitWindow7d_def Hour_def Minute_def Second_def)

text \<open>
  Charging a request to a key's rate limits adds its cost to the usage that counts in each of the three windows: a
  window that has run out, or never started, counts as zero before and starts anew, and after the charge no window counts
  as run out. The charge keeps a window without start at zero usage, which the statement relies on.
\<close>
theorem rate_limit_charge_adds:
  fixes num_add :: num_add and cost :: f64
  assumes "windows_ok k" "ages_fit now k" "day_start now \<le> now" "now < day_start now + 24 * Hour"
  defines "k' \<equiv> rate_limit_row num_add day_start now cost k"
  shows "EffectiveUsage5h now k' = num_add (EffectiveUsage5h now k) cost
    \<and> EffectiveUsage1d now k' = num_add (EffectiveUsage1d now k) cost
    \<and> EffectiveUsage7d now k' = num_add (EffectiveUsage7d now k) cost
    \<and> windows_ok k' \<and> ak_QuotaUsed k' = ak_QuotaUsed k \<and> ak_Status k' = ak_Status k"
proof -
  have fit: "in_int64 (now - now)" "in_int64 (now - day_start now)"
    using assms(3,4) by (simp_all add: in_int64_def min_int64_def max_int64_def)
  have later: "now < day_start now + RateLimitWindow1d" "now < day_start now + RateLimitWindow7d"
    using assms(4) window_lengths(4,5) by linarith+
  note ages = assms(2) [unfolded ages_fit_def]
  note ok = assms(1) [unfolded windows_ok_def]
  let ?c = "\<lambda>len fresh. charge_window num_add len now fresh cost"
  have "case ?c RateLimitWindow5h now (ak_Usage5h k, ak_Window5hStart k) of (u, st) \<Rightarrow>
      effective_usage now RateLimitWindow5h u st = num_add (EffectiveUsage5h now k) cost \<and> st \<noteq> None"
    unfolding EffectiveUsage5h_def by (rule charge_window_effective) (use ages ok fit in auto)
  moreover have "case ?c RateLimitWindow1d (day_start now) (ak_Usage1d k, ak_Window1dStart k) of (u, st) \<Rightarrow>
      effective_usage now RateLimitWindow1d u st = num_add (EffectiveUsage1d now k) cost \<and> st \<noteq> None"
    unfolding EffectiveUsage1d_def by (rule charge_window_effective) (use ages ok fit later in auto)
  moreover have "case ?c RateLimitWindow7d (day_start now) (ak_Usage7d k, ak_Window7dStart k) of (u, st) \<Rightarrow>
      effective_usage now RateLimitWindow7d u st = num_add (EffectiveUsage7d now k) cost \<and> st \<noteq> None"
    unfolding EffectiveUsage7d_def by (rule charge_window_effective) (use ages ok fit later in auto)
  ultimately show ?thesis
    by (auto simp: k'_def rate_limit_row_def with_windows_def Let_def EffectiveUsage5h_def EffectiveUsage1d_def
        EffectiveUsage7d_def windows_ok_def split: prod.splits)
qed

definition demo_key :: api_key where
  "demo_key = \<lparr>ak_ID = 7, ak_UserID = 3, ak_Key = ''sk-0123456789abcdef'', ak_Name = ''k'', ak_GroupID = None,
     ak_Status = StatusAPIKeyActive, ak_IPWhitelist = [], ak_IPBlacklist = [], ak_LastUsedAt = None, ak_CreatedAt = 0,
     ak_UpdatedAt = 0, ak_Quota = Fin 10, ak_QuotaUsed = Fin 9, ak_ExpiresAt = None, ak_RateLimit5h = Fin 5,
     ak_RateLimit1d = Fin 0, ak_RateLimit7d = Fin 0, ak_Usage5h = Fin 4, ak_Usage1d = Fin 0, ak_Usage7d = Fin 0,
     ak_Window5hStart = Some 0, ak_Window1dStart = None, ak_Window7dStart = None\<rparr>"

theorem rate_limit_charge_adds_witness:
  "EffectiveUsage5h Hour (rate_limit_row fadd (\<lambda>_. 0) Hour (Fin 2) demo_key) = fadd (EffectiveUsage5h Hour demo_key) (Fin 2)
   \<and> EffectiveUsage5h Hour demo_key = Fin 4
   \<and> EffectiveUsage1d Hour (rate_limit_row fadd (\<lambda>_. 0) Hour (Fin 2) demo_key) = fadd (Fin 0) (Fin 2)"
proof -
  have h: "windows_ok demo_key" "ages_fit Hour demo_key" "Hour < 0 + 24 * Hour" "(0::int) \<le> Hour"
    by (simp_all add: windows_ok_def ages_fit_def demo_key_def in_int64_def min_int64_def max_int64_def Hour_def Minute_def
        Second_def)
  have "EffectiveUsage5h Hour demo_key = Fin 4" "EffectiveUsage1d Hour demo_key = Fin 0"
    by code_simp+
  with rate_limit_charge_adds [where k = demo_key and now = Hour and day_start = "\<lambda>_. 0" and num_add = fadd and cost = "Fin 2"]
  show ?thesis using h by simp
qed

end
