(* ===== verification/UsageBilling.thy ===== *)
theory UsageBilling
  imports ApiKey AccountQuota
begin

text \<open>
  Charging a request exactly once: the billing command of \<open>internal/service/usage_billing.go\<close> and
  \<open>gateway_service.go\<close>, the transaction of \<open>internal/repository/usage_billing_repo.go\<close> that applies it with its SQL
  statements, the quota expressions of \<open>account_repo.go\<close>, the outbox of \<open>scheduler_outbox_repo.go\<close> and the archiving
  of old keys of \<open>dashboard_aggregation_repo.go\<close>.

  A call of the repository is one transaction; the unique index on \<open>(request_id, api_key_id)\<close> makes a concurrent
  transaction with the same key wait for it, so transactions run one after another. \<open>be_fault\<close> gives the outcome of each
  statement of a call. The keys of an account's \<open>extra\<close> column that the quota statement reads are the fields of
  \<open>quota_row\<close>; a value that the statement cannot cast is a fault of the statement. SHA-256 and PostgreSQL's conversions
  between a time and a local clock are parameters.
\<close>

subsection \<open>The command\<close>

record billing_cmd =
  bc_RequestID :: gostring
  bc_APIKeyID :: int64
  bc_RequestFingerprint :: gostring
  bc_RequestPayloadHash :: gostring
  bc_UserID :: int64
  bc_AccountID :: int64
  bc_SubscriptionID :: "int64 option"
  bc_AccountType :: gostring
  bc_Model :: gostring
  bc_ServiceTier :: gostring
  bc_ReasoningEffort :: gostring
  bc_BillingType :: int
  bc_InputTokens :: int
  bc_OutputTokens :: int
  bc_CacheCreationTokens :: int
  bc_CacheReadTokens :: int
  bc_ImageCount :: int
  bc_MediaType :: gostring
  bc_BalanceCost :: f64
  bc_SubscriptionCost :: f64
  bc_APIKeyQuotaCost :: f64
  bc_APIKeyRateLimitCost :: f64
  bc_AccountQuotaCost :: f64

definition valueOrZero :: "int64 option \<Rightarrow> int64" where
  "valueOrZero v = (case v of None \<Rightarrow> 0 | Some i \<Rightarrow> i)"

text \<open>\<open>%0.10f\<close>: the exact value rounded to ten decimals, ties to even.\<close>

definition pad_left :: "nat \<Rightarrow> gostring \<Rightarrow> gostring" where
  "pad_left n s = replicate (n - length s) (CHR ''0'') @ s"

definition fmt_fixed :: "nat \<Rightarrow> f64 \<Rightarrow> gostring" where
  "fmt_fixed n x = (case x of
     Fin r \<Rightarrow> (let k = nat (round_half_even (\<bar>r\<bar> * 10 ^ n)) in
              (if r < 0 then ''-'' else []) @ dec_of_nat (k div 10 ^ n) @ ''.'' @ pad_left n (dec_of_nat (k mod 10 ^ n)))
   | PInf \<Rightarrow> ''+Inf'' | NInf \<Rightarrow> ''-Inf'' | NaN \<Rightarrow> ''NaN'')"

definition join_bar :: "gostring list \<Rightarrow> gostring" where
  "join_bar xs = concat (case xs of [] \<Rightarrow> [] | y # ys \<Rightarrow> y # map (\<lambda>z. ''|'' @ z) ys)"

definition fingerprint_text :: "billing_cmd \<Rightarrow> gostring" where
  "fingerprint_text c =
     join_bar [itoa (bc_UserID c), itoa (bc_AccountID c), itoa (bc_APIKeyID c), trim_space (bc_AccountType c),
       trim_space (bc_Model c), trim_space (bc_ServiceTier c), trim_space (bc_ReasoningEffort c), itoa (bc_BillingType c),
       itoa (bc_InputTokens c), itoa (bc_OutputTokens c), itoa (bc_CacheCreationTokens c), itoa (bc_CacheReadTokens c),
       itoa (bc_ImageCount c), trim_space (bc_MediaType c), itoa (valueOrZero (bc_SubscriptionID c)),
       fmt_fixed 10 (bc_BalanceCost c), fmt_fixed 10 (bc_SubscriptionCost c), fmt_fixed 10 (bc_APIKeyQuotaCost c),
       fmt_fixed 10 (bc_APIKeyRateLimitCost c), fmt_fixed 10 (bc_AccountQuotaCost c)]
     @ (let payloadHash = trim_space (bc_RequestPayloadHash c) in if payloadHash \<noteq> [] then ''|'' @ payloadHash else [])"

definition buildUsageBillingFingerprint :: "(gostring \<Rightarrow> gostring) \<Rightarrow> billing_cmd \<Rightarrow> gostring" where
  "buildUsageBillingFingerprint sha256_hex c = sha256_hex (fingerprint_text c)"

definition HashUsageRequestPayload :: "(gostring \<Rightarrow> gostring) \<Rightarrow> gostring \<Rightarrow> gostring" where
  "HashUsageRequestPayload sha256_hex payload = (if payload = [] then [] else sha256_hex payload)"

definition Normalize :: "(gostring \<Rightarrow> gostring) \<Rightarrow> billing_cmd \<Rightarrow> billing_cmd" where
  "Normalize sha256_hex c =
     (let c1 = c\<lparr>bc_RequestID := trim_space (bc_RequestID c)\<rparr> in
      if trim_space (bc_RequestFingerprint c1) = []
      then c1\<lparr>bc_RequestFingerprint := buildUsageBillingFingerprint sha256_hex c1\<rparr> else c1)"

subsection \<open>The tables\<close>

record dedup_row =
  dr_request_id :: gostring
  dr_api_key_id :: int64
  dr_fingerprint :: gostring
  dr_created_at :: time

record quota_dim =
  qd_limit :: "f64 option"
  qd_used :: "f64 option"
  qd_start :: "time option"
  qd_reset_mode :: "gostring option"
  qd_reset_at :: "time option"
  qd_reset_hour :: "int option"
  qd_reset_day :: "int option"

record quota_row =
  qr_ID :: int64
  qr_used :: "f64 option"
  qr_limit :: "f64 option"
  qr_daily :: quota_dim
  qr_weekly :: quota_dim
  qr_timezone :: "gostring option"

record outbox_row =
  ob_event :: gostring
  ob_account :: "int64 option"
  ob_group :: "int64 option"
  ob_created_at :: time

record billing_data =
  bd_users :: "user_acct list"
  bd_subs :: sub_db
  bd_keys :: "api_key list"
  bd_quotas :: "quota_row list"
  bd_outbox :: "outbox_row list"

record billing_db =
  bd_dedup :: "dedup_row list"
  bd_archive :: "dedup_row list"
  bd_data :: billing_data

record quota_state =
  qs_TotalUsed :: f64
  qs_TotalLimit :: f64
  qs_DailyUsed :: f64
  qs_DailyLimit :: f64
  qs_WeeklyUsed :: f64
  qs_WeeklyLimit :: f64

record apply_result =
  ar_Applied :: bool
  ar_APIKeyQuotaExhausted :: bool
  ar_NewBalance :: "f64 option"
  ar_QuotaState :: "quota_state option"

datatype billing_stmt = BBegin | BClaim | BExisting | BArchive | BSubscription | BBalance | BKeyQuota | BKeyRate
  | BAccountQuota | BOutbox | BCommit

record billing_env =
  be_fault :: "billing_stmt \<Rightarrow> fault"
  be_now :: time
  be_add :: num_add
  be_dayStart :: "time \<Rightarrow> time"
  be_toLocal :: "gostring \<Rightarrow> time \<Rightarrow> int"
  be_ofLocal :: "gostring \<Rightarrow> int \<Rightarrow> time"
  be_sha256 :: "gostring \<Rightarrow> gostring"

definition ErrUsageBillingRequestIDRequired :: go_error where
  "ErrUsageBillingRequestIDRequired = EPlain ''usage billing request_id is required''"
definition ErrUsageBillingRequestConflict :: go_error where
  "ErrUsageBillingRequestConflict = EPlain ''usage billing request fingerprint conflict''"
definition ErrAccountNotFound :: app_error where
  "ErrAccountNotFound = NotFound ''ACCOUNT_NOT_FOUND'' ''account not found''"

subsection \<open>Claiming the key\<close>

definition key_of :: "billing_cmd \<Rightarrow> gostring \<times> int64" where
  "key_of c = (bc_RequestID c, bc_APIKeyID c)"
definition row_key :: "dedup_row \<Rightarrow> gostring \<times> int64" where
  "row_key r = (dr_request_id r, dr_api_key_id r)"

definition same_fingerprint :: "billing_cmd \<Rightarrow> dedup_row \<Rightarrow> bool result" where
  "same_fingerprint c r = (if trim_space (dr_fingerprint r) \<noteq> trim_space (bc_RequestFingerprint c)
     then Inl ErrUsageBillingRequestConflict else Inr False)"

definition claimUsageBillingKey :: "billing_env \<Rightarrow> billing_cmd \<Rightarrow> billing_db \<Rightarrow> bool result \<times> billing_db" where
  "claimUsageBillingKey e c db =
     (let existing = find (\<lambda>r. row_key r = key_of c) (bd_dedup db);
          archived = find (\<lambda>r. row_key r = key_of c) (bd_archive db)
      in case be_fault e BClaim of
        NoFault \<Rightarrow>
          (case existing of
             Some r \<Rightarrow> (read_fault (be_fault e BExisting) (same_fingerprint c r), db)
           | None \<Rightarrow>
               (let row = \<lparr>dr_request_id = bc_RequestID c, dr_api_key_id = bc_APIKeyID c,
                           dr_fingerprint = bc_RequestFingerprint c, dr_created_at = be_now e\<rparr>
                in (read_fault (be_fault e BArchive)
                      (case archived of Some r \<Rightarrow> same_fingerprint c r | None \<Rightarrow> Inr True),
                    db\<lparr>bd_dedup := bd_dedup db @ [row]\<rparr>)))
      | Lost err \<Rightarrow> (Inl err, db)
      | Unacked err \<Rightarrow> (Inl err, db))"

subsection \<open>The effects\<close>

definition incrementUsageBillingSubscription :: "billing_env \<Rightarrow> int64 \<Rightarrow> f64 \<Rightarrow> billing_data \<Rightarrow> unit result \<times> billing_data" where
  "incrementUsageBillingSubscription e sid costUSD d =
     (case IncrementUsage (be_fault e BSubscription) (be_add e) (be_now e) sid costUSD (bd_subs d) of
        (r, subs) \<Rightarrow> (r, d\<lparr>bd_subs := subs\<rparr>))"

definition deductUsageBillingBalance :: "billing_env \<Rightarrow> int64 \<Rightarrow> f64 \<Rightarrow> billing_data \<Rightarrow> f64 result \<times> billing_data" where
  "deductUsageBillingBalance e userID amount = with_fault_err (be_fault e BBalance) (\<lambda>d.
     case find (\<lambda>u. ua_ID u = userID) (bd_users d) of
       None \<Rightarrow> (Inl (EApp ErrUserNotFound), d)
     | Some u \<Rightarrow>
         (Inr (be_add e (ua_Balance u) (fneg amount)),
          d\<lparr>bd_users := update_where (\<lambda>u. ua_ID u = userID)
              (\<lambda>u. u\<lparr>ua_Balance := be_add e (ua_Balance u) (fneg amount)\<rparr>) (bd_users d)\<rparr>))"

definition billed_key_row :: "num_add \<Rightarrow> time \<Rightarrow> f64 \<Rightarrow> api_key \<Rightarrow> api_key" where
  "billed_key_row add now amount k =
     k\<lparr>ak_QuotaUsed := add (ak_QuotaUsed k) amount,
       ak_Status := (if flt (Fin 0) (ak_Quota k) \<and> ak_Status k = StatusAPIKeyActive \<and> flt (ak_QuotaUsed k) (ak_Quota k)
                        \<and> fle (ak_Quota k) (add (ak_QuotaUsed k) amount)
                     then StatusAPIKeyQuotaExhausted else ak_Status k),
       ak_UpdatedAt := now\<rparr>"

definition key_now_exhausted :: "num_add \<Rightarrow> f64 \<Rightarrow> api_key \<Rightarrow> bool" where
  "key_now_exhausted add amount k \<longleftrightarrow> flt (Fin 0) (ak_Quota k) \<and> fle (ak_Quota k) (ak_QuotaUsed k)
     \<and> flt (add (ak_QuotaUsed k) (fneg amount)) (ak_Quota k)"

definition incrementUsageBillingAPIKeyQuota :: "billing_env \<Rightarrow> int64 \<Rightarrow> f64 \<Rightarrow> billing_data \<Rightarrow> bool result \<times> billing_data" where
  "incrementUsageBillingAPIKeyQuota e keyID amount = with_fault_err (be_fault e BKeyQuota) (\<lambda>d.
     case key_update keyID (billed_key_row (be_add e) (be_now e) amount) (bd_keys d) of
       (Inl err, _) \<Rightarrow> (Inl err, d)
     | (Inr k, rows) \<Rightarrow> (Inr (key_now_exhausted (be_add e) amount k), d\<lparr>bd_keys := rows\<rparr>))"

definition incrementUsageBillingAPIKeyRateLimit :: "billing_env \<Rightarrow> int64 \<Rightarrow> f64 \<Rightarrow> billing_data \<Rightarrow> unit result \<times> billing_data" where
  "incrementUsageBillingAPIKeyRateLimit e keyID cost = with_fault_err (be_fault e BKeyRate) (\<lambda>d.
     if affected (\<lambda>k. ak_ID k = keyID) (bd_keys d) = 0 then (Inl (EApp ErrAPIKeyNotFound), d)
     else (Inr (), d\<lparr>bd_keys := update_where (\<lambda>k. ak_ID k = keyID)
             (rate_limit_row (be_add e) (be_dayStart e) (be_now e) cost) (bd_keys d)\<rparr>))"

subsection \<open>The quota of an account\<close>

definition day_len :: int where "day_len = 24 * Hour"

definition dim_fixed :: "quota_dim \<Rightarrow> bool" where
  "dim_fixed d \<longleftrightarrow> qd_reset_mode d = Some ''fixed''"

definition dim_expired :: "duration \<Rightarrow> time \<Rightarrow> quota_dim \<Rightarrow> bool" where
  "dim_expired len now d =
     (if dim_fixed d then (case qd_reset_at d of Some t \<Rightarrow> t | None \<Rightarrow> 0) \<le> now
      else (case qd_start d of Some t \<Rightarrow> t | None \<Rightarrow> 0) + len \<le> now)"

definition coalesce :: "'a \<Rightarrow> 'a option \<Rightarrow> 'a" where
  "coalesce x v = (case v of Some y \<Rightarrow> y | None \<Rightarrow> x)"

definition local_day :: "billing_env \<Rightarrow> gostring \<Rightarrow> int" where
  "local_day e tz = (let l = be_toLocal e tz (be_now e) in l - l mod day_len)"

definition nextDailyResetAt :: "billing_env \<Rightarrow> gostring \<Rightarrow> quota_dim \<Rightarrow> time" where
  "nextDailyResetAt e tz d =
     (let point = local_day e tz + coalesce 0 (qd_reset_hour d) * Hour in
      if be_ofLocal e tz point \<le> be_now e then be_ofLocal e tz (point + day_len) else be_ofLocal e tz point)"

text \<open>\<open>EXTRACT(DOW ...)\<close>: the first of January 1970 was a Thursday; SQL's \<open>%\<close> truncates.\<close>

definition nextWeeklyResetAt :: "billing_env \<Rightarrow> gostring \<Rightarrow> quota_dim \<Rightarrow> time" where
  "nextWeeklyResetAt e tz d =
     (let day = local_day e tz; dow = (day div day_len + 4) mod 7;
          days_forward = rem (coalesce 1 (qd_reset_day d) - dow + 7) 7;
          point = day + coalesce 0 (qd_reset_hour d) * Hour
      in if days_forward = 0 \<and> be_ofLocal e tz point \<le> be_now e then be_ofLocal e tz (point + 7 * day_len)
         else be_ofLocal e tz (point + days_forward * day_len))"

definition charge_dim :: "billing_env \<Rightarrow> duration \<Rightarrow> (quota_dim \<Rightarrow> time) \<Rightarrow> f64 \<Rightarrow> quota_dim \<Rightarrow> quota_dim" where
  "charge_dim e len next_reset amount d =
     (if \<not> flt (Fin 0) (coalesce (Fin 0) (qd_limit d)) then d
      else let over = dim_expired len (be_now e) d in
        d\<lparr>qd_used := Some (if over then be_add e (Fin 0) amount else be_add e (coalesce (Fin 0) (qd_used d)) amount),
          qd_start := Some (if over then be_now e else coalesce (be_now e) (qd_start d)),
          qd_reset_at := (if over \<and> dim_fixed d then Some (next_reset d) else qd_reset_at d)\<rparr>)"

definition charge_quota :: "billing_env \<Rightarrow> f64 \<Rightarrow> quota_row \<Rightarrow> quota_row" where
  "charge_quota e amount q =
     (let tz = coalesce ''UTC'' (qr_timezone q) in
      q\<lparr>qr_used := Some (be_add e (coalesce (Fin 0) (qr_used q)) amount),
        qr_daily := charge_dim e (24 * Hour) (nextDailyResetAt e tz) amount (qr_daily q),
        qr_weekly := charge_dim e (168 * Hour) (nextWeeklyResetAt e tz) amount (qr_weekly q)\<rparr>)"

definition state_of_quota :: "quota_row \<Rightarrow> quota_state" where
  "state_of_quota q =
     \<lparr>qs_TotalUsed = coalesce (Fin 0) (qr_used q), qs_TotalLimit = coalesce (Fin 0) (qr_limit q),
      qs_DailyUsed = coalesce (Fin 0) (qd_used (qr_daily q)), qs_DailyLimit = coalesce (Fin 0) (qd_limit (qr_daily q)),
      qs_WeeklyUsed = coalesce (Fin 0) (qd_used (qr_weekly q)), qs_WeeklyLimit = coalesce (Fin 0) (qd_limit (qr_weekly q))\<rparr>"

definition crossed :: "f64 \<Rightarrow> f64 \<Rightarrow> f64 \<Rightarrow> bool" where
  "crossed amount used limit \<longleftrightarrow> flt (Fin 0) limit \<and> fle limit used \<and> flt (fsub used amount) limit"

definition SchedulerOutboxEventAccountChanged :: gostring where
  "SchedulerOutboxEventAccountChanged = ''account_changed''"
definition SchedulerOutboxEventGroupChanged :: gostring where
  "SchedulerOutboxEventGroupChanged = ''group_changed''"
definition SchedulerOutboxEventFullRebuild :: gostring where
  "SchedulerOutboxEventFullRebuild = ''full_rebuild''"
definition schedulerOutboxDedupWindow :: duration where "schedulerOutboxDedupWindow = Second"

definition schedulerOutboxEventSupportsDedup :: "gostring \<Rightarrow> bool" where
  "schedulerOutboxEventSupportsDedup ev \<longleftrightarrow>
     ev = SchedulerOutboxEventAccountChanged \<or> ev = SchedulerOutboxEventGroupChanged \<or> ev = SchedulerOutboxEventFullRebuild"

definition enqueueSchedulerOutbox ::
    "fault \<Rightarrow> time \<Rightarrow> gostring \<Rightarrow> int64 option \<Rightarrow> int64 option \<Rightarrow> outbox_row list \<Rightarrow> unit result \<times> outbox_row list" where
  "enqueueSchedulerOutbox f now ev account groupID = with_fault f (\<lambda>rows.
     if schedulerOutboxEventSupportsDedup ev
        \<and> list_ex (\<lambda>r. ob_event r = ev \<and> ob_account r = account \<and> ob_group r = groupID
                       \<and> now - schedulerOutboxDedupWindow \<le> ob_created_at r) rows
     then ((), rows)
     else ((), rows @ [\<lparr>ob_event = ev, ob_account = account, ob_group = groupID, ob_created_at = now\<rparr>]))"

definition incrementUsageBillingAccountQuota ::
    "billing_env \<Rightarrow> int64 \<Rightarrow> f64 \<Rightarrow> billing_data \<Rightarrow> quota_state result \<times> billing_data" where
  "incrementUsageBillingAccountQuota e accountID amount d =
     (case be_fault e BAccountQuota of
        Lost err \<Rightarrow> (Inl err, d)
      | Unacked err \<Rightarrow> (Inl err, d)
      | NoFault \<Rightarrow>
          (case find (\<lambda>q. qr_ID q = accountID) (bd_quotas d) of
             None \<Rightarrow> (Inl (EApp ErrAccountNotFound), d)
           | Some q \<Rightarrow>
               (let st = state_of_quota (charge_quota e amount q);
                    d1 = d\<lparr>bd_quotas := update_where (\<lambda>q. qr_ID q = accountID) (charge_quota e amount) (bd_quotas d)\<rparr>
                in if crossed amount (qs_TotalUsed st) (qs_TotalLimit st) \<or> crossed amount (qs_DailyUsed st) (qs_DailyLimit st)
                      \<or> crossed amount (qs_WeeklyUsed st) (qs_WeeklyLimit st)
                   then (case enqueueSchedulerOutbox (be_fault e BOutbox) (be_now e) SchedulerOutboxEventAccountChanged
                                (Some accountID) None (bd_outbox d1) of
                           (Inl err, _) \<Rightarrow> (Inl err, d1)
                         | (Inr _, rows) \<Rightarrow> (Inr st, d1\<lparr>bd_outbox := rows\<rparr>))
                   else (Inr st, d1))))"

subsection \<open>The transaction\<close>

text \<open>
  \<open>strings.EqualFold\<close> with an ASCII literal: letters in either case, the Kelvin sign as \<open>k\<close> and the long s as \<open>s\<close>.
\<close>

fun fold_ascii :: "gostring \<Rightarrow> gostring" where
  "fold_ascii (a # b # c # rest) =
     (if [a, b, c] = [CHR 0xE2, CHR 0x84, CHR 0xAA] then CHR ''k'' # fold_ascii rest
      else if [a, b] = [CHR 0xC5, CHR 0xBF] then CHR ''s'' # fold_ascii (c # rest)
      else (if 65 \<le> (of_char a :: nat) \<and> (of_char a :: nat) \<le> 90 then char_of ((of_char a :: nat) + 32) else a)
           # fold_ascii (b # c # rest))"
| "fold_ascii [a, b] =
     (if [a, b] = [CHR 0xC5, CHR 0xBF] then ''s''
      else map (\<lambda>x. if 65 \<le> (of_char x :: nat) \<and> (of_char x :: nat) \<le> 90 then char_of ((of_char x :: nat) + 32) else x) [a, b])"
| "fold_ascii xs = map (\<lambda>x. if 65 \<le> (of_char x :: nat) \<and> (of_char x :: nat) \<le> 90 then char_of ((of_char x :: nat) + 32) else x) xs"

definition EqualFold :: "gostring \<Rightarrow> gostring \<Rightarrow> bool" where
  "EqualFold s literal \<longleftrightarrow> fold_ascii s = fold_ascii literal"

definition not_applied :: apply_result where
  "not_applied = \<lparr>ar_Applied = False, ar_APIKeyQuotaExhausted = False, ar_NewBalance = None, ar_QuotaState = None\<rparr>"

text \<open>A step of the effects that runs only when \<open>b\<close> holds and puts its result into the result of the call.\<close>

definition when_do ::
    "bool \<Rightarrow> (billing_data \<Rightarrow> 'a result \<times> billing_data) \<Rightarrow> ('a \<Rightarrow> apply_result \<Rightarrow> apply_result) \<Rightarrow>
     apply_result \<Rightarrow> billing_data \<Rightarrow> apply_result result \<times> billing_data" where
  "when_do b stmt upd res d = (if b then and_then (stmt d) (\<lambda>x d1. (Inr (upd x res), d1)) else (Inr res, d))"

definition applyUsageBillingEffects ::
    "billing_env \<Rightarrow> billing_cmd \<Rightarrow> apply_result \<Rightarrow> billing_data \<Rightarrow> apply_result result \<times> billing_data" where
  "applyUsageBillingEffects e c res d =
     and_then (when_do (flt (Fin 0) (bc_SubscriptionCost c) \<and> bc_SubscriptionID c \<noteq> None)
                 (incrementUsageBillingSubscription e (the (bc_SubscriptionID c)) (bc_SubscriptionCost c)) (\<lambda>_ r. r) res d)
    (\<lambda>res d. and_then (when_do (flt (Fin 0) (bc_BalanceCost c))
                 (deductUsageBillingBalance e (bc_UserID c) (bc_BalanceCost c)) (\<lambda>b r. r\<lparr>ar_NewBalance := Some b\<rparr>) res d)
    (\<lambda>res d. and_then (when_do (flt (Fin 0) (bc_APIKeyQuotaCost c))
                 (incrementUsageBillingAPIKeyQuota e (bc_APIKeyID c) (bc_APIKeyQuotaCost c))
                 (\<lambda>x r. r\<lparr>ar_APIKeyQuotaExhausted := x\<rparr>) res d)
    (\<lambda>res d. and_then (when_do (flt (Fin 0) (bc_APIKeyRateLimitCost c))
                 (incrementUsageBillingAPIKeyRateLimit e (bc_APIKeyID c) (bc_APIKeyRateLimitCost c)) (\<lambda>_ r. r) res d)
    (\<lambda>res d. when_do (flt (Fin 0) (bc_AccountQuotaCost c)
                        \<and> (EqualFold (bc_AccountType c) AccountTypeAPIKey \<or> EqualFold (bc_AccountType c) AccountTypeBedrock))
                 (incrementUsageBillingAccountQuota e (bc_AccountID c) (bc_AccountQuotaCost c))
                 (\<lambda>q r. r\<lparr>ar_QuotaState := Some q\<rparr>) res d))))"

text \<open>The body of the transaction; \<open>Inr False\<close> and errors are rolled back by the deferred \<open>Rollback\<close>.\<close>

definition Apply :: "billing_env \<Rightarrow> billing_cmd option \<Rightarrow> billing_db \<Rightarrow> apply_result result \<times> billing_db" where
  "Apply e cmd db = (case cmd of
     None \<Rightarrow> (Inr not_applied, db)
   | Some c0 \<Rightarrow>
      (let c = Normalize (be_sha256 e) c0 in
       if bc_RequestID c = [] then (Inl ErrUsageBillingRequestIDRequired, db)
       else case be_fault e BBegin of
         Lost err \<Rightarrow> (Inl err, db)
       | Unacked err \<Rightarrow> (Inl err, db)
       | NoFault \<Rightarrow>
           (case claimUsageBillingKey e c db of
              (Inl err, _) \<Rightarrow> (Inl err, db)
            | (Inr False, _) \<Rightarrow> (Inr not_applied, db)
            | (Inr True, db1) \<Rightarrow>
                (case applyUsageBillingEffects e c (not_applied\<lparr>ar_Applied := True\<rparr>) (bd_data db1) of
                   (Inl err, _) \<Rightarrow> (Inl err, db)
                 | (Inr res, d) \<Rightarrow>
                     (case be_fault e BCommit of
                        NoFault \<Rightarrow> (Inr res, db1\<lparr>bd_data := d\<rparr>)
                      | Lost err \<Rightarrow> (Inl err, db)
                      | Unacked err \<Rightarrow> (Inl err, db1\<lparr>bd_data := d\<rparr>))))))"

subsection \<open>Archiving old keys\<close>

definition usageBillingDedupCleanupBatchSize :: nat where "usageBillingDedupCleanupBatchSize = 10000"

text \<open>One statement moves at most a batch of old rows; a key the archive has already stays as archived.\<close>

definition cleanup_victims :: "time \<Rightarrow> billing_db \<Rightarrow> dedup_row list" where
  "cleanup_victims cutoff db = take usageBillingDedupCleanupBatchSize (filter (\<lambda>r. dr_created_at r < cutoff) (bd_dedup db))"

definition cleanup_batch :: "time \<Rightarrow> billing_db \<Rightarrow> nat \<times> billing_db" where
  "cleanup_batch cutoff db =
     (let victims = cleanup_victims cutoff db in
      (length victims,
       db\<lparr>bd_archive := bd_archive db @ filter (\<lambda>r. row_key r \<notin> row_key ` set (bd_archive db)) victims,
          bd_dedup := filter (\<lambda>r. r \<notin> set victims) (bd_dedup db)\<rparr>))"

lemma cleanup_batch_shrinks:
  assumes "0 < length (cleanup_victims cutoff db)"
  shows "length (bd_dedup (snd (cleanup_batch cutoff db))) < length (bd_dedup db)"
proof -
  have "set (cleanup_victims cutoff db) \<subseteq> set (bd_dedup db)"
    by (auto simp: cleanup_victims_def dest: in_set_takeD)
  moreover obtain r where "r \<in> set (cleanup_victims cutoff db)" using assms by (metis last_in_set length_greater_0_conv)
  ultimately have "\<exists>r \<in> set (bd_dedup db). \<not> r \<notin> set (cleanup_victims cutoff db)" by blast
  then show ?thesis by (auto simp: cleanup_batch_def Let_def length_filter_less)
qed

text \<open>\<open>f n\<close> is the fault of the n-th statement of the loop.\<close>

function cleanup_loop :: "(nat \<Rightarrow> fault) \<Rightarrow> time \<Rightarrow> nat \<Rightarrow> billing_db \<Rightarrow> unit result \<times> billing_db" where
  "cleanup_loop f cutoff n db = (case f n of
     Lost err \<Rightarrow> (Inl err, db)
   | Unacked err \<Rightarrow> (Inl err, snd (cleanup_batch cutoff db))
   | NoFault \<Rightarrow>
       (if length (cleanup_victims cutoff db) < usageBillingDedupCleanupBatchSize
        then (Inr (), snd (cleanup_batch cutoff db))
        else cleanup_loop f cutoff (Suc n) (snd (cleanup_batch cutoff db))))"
  by auto
termination
  by (relation "measure (\<lambda>(_, _, _, db). length (bd_dedup db))")
    (auto intro!: cleanup_batch_shrinks simp: usageBillingDedupCleanupBatchSize_def)

declare cleanup_loop.simps [simp del]

definition CleanupUsageBillingDedup :: "(nat \<Rightarrow> fault) \<Rightarrow> time \<Rightarrow> billing_db \<Rightarrow> unit result \<times> billing_db" where
  "CleanupUsageBillingDedup f cutoff db = cleanup_loop f cutoff 0 db"

subsection \<open>Building the command\<close>

record cost_breakdown =
  cb_InputCost :: f64
  cb_OutputCost :: f64
  cb_ImageOutputCost :: f64
  cb_CacheCreationCost :: f64
  cb_CacheReadCost :: f64
  cb_TotalCost :: f64
  cb_ActualCost :: f64
  cb_BillingMode :: gostring

text \<open>The fields of the usage log that the command copies.\<close>

record usage_log =
  ul_Model :: gostring
  ul_BillingType :: int
  ul_InputTokens :: int
  ul_OutputTokens :: int
  ul_CacheCreationTokens :: int
  ul_CacheReadTokens :: int
  ul_ImageCount :: int
  ul_ServiceTier :: "gostring option"
  ul_ReasoningEffort :: "gostring option"
  ul_SubscriptionID :: "int64 option"

text \<open>
  A user and a subscription are known here by their ids; \<open>bp_APIKeyService\<close> says whether one was given. The callers
  set the cost, the user, the key and the account, so the checks for nil pointers are not reached.
\<close>

record billing_params =
  bp_Cost :: cost_breakdown
  bp_User :: int64
  bp_APIKey :: api_key
  bp_Account :: account
  bp_Subscription :: "int64 option"
  bp_RequestPayloadHash :: gostring
  bp_IsSubscriptionBill :: bool
  bp_AccountRateMultiplier :: f64
  bp_APIKeyService :: bool

definition shouldDeductAPIKeyQuota :: "billing_params \<Rightarrow> bool" where
  "shouldDeductAPIKeyQuota p \<longleftrightarrow>
     flt (Fin 0) (cb_ActualCost (bp_Cost p)) \<and> flt (Fin 0) (ak_Quota (bp_APIKey p)) \<and> bp_APIKeyService p"

definition shouldUpdateRateLimits :: "billing_params \<Rightarrow> bool" where
  "shouldUpdateRateLimits p \<longleftrightarrow> flt (Fin 0) (cb_ActualCost (bp_Cost p)) \<and> HasRateLimits (bp_APIKey p) \<and> bp_APIKeyService p"

definition shouldUpdateAccountQuota :: "acct_lib \<Rightarrow> billing_params \<Rightarrow> bool" where
  "shouldUpdateAccountQuota lib p \<longleftrightarrow>
     flt (Fin 0) (cb_TotalCost (bp_Cost p)) \<and> IsAPIKeyOrBedrock (bp_Account p) \<and> HasAnyQuotaLimit lib (bp_Account p)"

definition empty_cmd :: billing_cmd where
  "empty_cmd = \<lparr>bc_RequestID = [], bc_APIKeyID = 0, bc_RequestFingerprint = [], bc_RequestPayloadHash = [], bc_UserID = 0,
     bc_AccountID = 0, bc_SubscriptionID = None, bc_AccountType = [], bc_Model = [], bc_ServiceTier = [],
     bc_ReasoningEffort = [], bc_BillingType = 0, bc_InputTokens = 0, bc_OutputTokens = 0, bc_CacheCreationTokens = 0,
     bc_CacheReadTokens = 0, bc_ImageCount = 0, bc_MediaType = [], bc_BalanceCost = Fin 0, bc_SubscriptionCost = Fin 0,
     bc_APIKeyQuotaCost = Fin 0, bc_APIKeyRateLimitCost = Fin 0, bc_AccountQuotaCost = Fin 0\<rparr>"

definition cmd_from_log :: "usage_log option \<Rightarrow> billing_cmd \<Rightarrow> billing_cmd" where
  "cmd_from_log usageLog c = (case usageLog of
     None \<Rightarrow> c
   | Some l \<Rightarrow>
       c\<lparr>bc_Model := ul_Model l, bc_BillingType := ul_BillingType l, bc_InputTokens := ul_InputTokens l,
         bc_OutputTokens := ul_OutputTokens l, bc_CacheCreationTokens := ul_CacheCreationTokens l,
         bc_CacheReadTokens := ul_CacheReadTokens l, bc_ImageCount := ul_ImageCount l,
         bc_ServiceTier := (case ul_ServiceTier l of Some t \<Rightarrow> t | None \<Rightarrow> bc_ServiceTier c),
         bc_ReasoningEffort := (case ul_ReasoningEffort l of Some t \<Rightarrow> t | None \<Rightarrow> bc_ReasoningEffort c),
         bc_SubscriptionID := (case ul_SubscriptionID l of Some t \<Rightarrow> Some t | None \<Rightarrow> bc_SubscriptionID c)\<rparr>)"

definition cmd_costs :: "acct_lib \<Rightarrow> billing_params \<Rightarrow> billing_cmd \<Rightarrow> billing_cmd" where
  "cmd_costs lib p c =
     (let actual = cb_ActualCost (bp_Cost p); total = cb_TotalCost (bp_Cost p);
          c1 = (if bp_IsSubscriptionBill p \<and> bp_Subscription p \<noteq> None \<and> flt (Fin 0) total
                then c\<lparr>bc_SubscriptionID := bp_Subscription p, bc_SubscriptionCost := actual\<rparr>
                else if flt (Fin 0) actual then c\<lparr>bc_BalanceCost := actual\<rparr> else c);
          c2 = (if shouldDeductAPIKeyQuota p then c1\<lparr>bc_APIKeyQuotaCost := actual\<rparr> else c1);
          c3 = (if shouldUpdateRateLimits p then c2\<lparr>bc_APIKeyRateLimitCost := actual\<rparr> else c2)
      in if shouldUpdateAccountQuota lib p
         then c3\<lparr>bc_AccountQuotaCost := fmul total (bp_AccountRateMultiplier p)\<rparr> else c3)"

definition buildUsageBillingCommand ::
    "acct_lib \<Rightarrow> (gostring \<Rightarrow> gostring) \<Rightarrow> gostring \<Rightarrow> usage_log option \<Rightarrow> billing_params \<Rightarrow> billing_cmd" where
  "buildUsageBillingCommand lib sha256_hex requestID usageLog p =
     Normalize sha256_hex (cmd_costs lib p (cmd_from_log usageLog
       (empty_cmd\<lparr>bc_RequestID := requestID, bc_APIKeyID := ak_ID (bp_APIKey p), bc_UserID := bp_User p,
          bc_AccountID := ac_ID (bp_Account p), bc_AccountType := ac_Type (bp_Account p),
          bc_RequestPayloadHash := trim_space (bp_RequestPayloadHash p)\<rparr>)))"

text \<open>\<open>client\<close> and \<open>request\<close> are the ids of the request's context; \<open>fresh\<close> is a generated id.\<close>

definition resolveUsageBillingRequestID :: "gostring \<Rightarrow> gostring \<Rightarrow> gostring \<Rightarrow> gostring \<Rightarrow> gostring" where
  "resolveUsageBillingRequestID client request fresh upstreamRequestID =
     (if trim_space client \<noteq> [] then ''client:'' @ trim_space client
      else if trim_space request \<noteq> [] then ''local:'' @ trim_space request
      else if trim_space upstreamRequestID \<noteq> [] then trim_space upstreamRequestID
      else ''generated:'' @ fresh)"

definition resolveUsageBillingPayloadFingerprint :: "gostring \<Rightarrow> gostring \<Rightarrow> gostring \<Rightarrow> gostring" where
  "resolveUsageBillingPayloadFingerprint client request requestPayloadHash =
     (if trim_space requestPayloadHash \<noteq> [] then trim_space requestPayloadHash
      else if trim_space client \<noteq> [] then ''client:'' @ trim_space client
      else if trim_space request \<noteq> [] then ''local:'' @ trim_space request
      else [])"

subsection \<open>Charging from the gateway\<close>

text \<open>What a charge leaves to other parts: cache updates, invalidations, the last use of the account, notifications.\<close>

datatype follow_up = UseScheduled int64 | AuthInvalidated gostring | SubscriptionUsageQueued int64 int64 f64
  | BalanceDeductQueued int64 f64 | RateLimitQueued int64 f64 | BalanceChecked int64 f64 f64
  | QuotaChecked int64 f64 "quota_state option"

text \<open>\<open>snapshot_balance\<close>: the balance of the user as the request's context has it.\<close>

definition resolveOldBalance :: "f64 \<Rightarrow> billing_params \<Rightarrow> apply_result \<Rightarrow> f64" where
  "resolveOldBalance snapshot_balance p res = (case ar_NewBalance res of
     Some b \<Rightarrow> fadd b (cb_ActualCost (bp_Cost p)) | None \<Rightarrow> snapshot_balance)"

definition finalizePostUsageBilling :: "f64 \<Rightarrow> billing_params \<Rightarrow> apply_result \<Rightarrow> follow_up list" where
  "finalizePostUsageBilling snapshot_balance p res =
     (let actual = cb_ActualCost (bp_Cost p); total = cb_TotalCost (bp_Cost p); paid = flt (Fin 0) actual;
          u = bp_User p; k = bp_APIKey p; a = bp_Account p in
      (if bp_IsSubscriptionBill p
       then (case ak_GroupID k of Some g \<Rightarrow> if paid then [SubscriptionUsageQueued u g actual] else [] | None \<Rightarrow> [])
       else if paid then [BalanceDeductQueued u actual] else [])
      @ (if paid \<and> HasRateLimits k then [RateLimitQueued (ak_ID k) actual] else [])
      @ [UseScheduled (ac_ID a)]
      @ (if bp_IsSubscriptionBill p \<or> fle actual (Fin 0) then []
         else [BalanceChecked u (resolveOldBalance snapshot_balance p res) actual])
      @ (if fle total (Fin 0) \<or> \<not> IsAPIKeyOrBedrock a then []
         else [QuotaChecked (ac_ID a) (fmul total (bp_AccountRateMultiplier p)) (ar_QuotaState res)]))"

text \<open>The account repository's own increment: it looks at the total quota only, and goes on when the outbox fails.\<close>

definition acct_IncrementQuotaUsed :: "billing_env \<Rightarrow> int64 \<Rightarrow> f64 \<Rightarrow> billing_data \<Rightarrow> unit result \<times> billing_data" where
  "acct_IncrementQuotaUsed e accountID amount d = (case be_fault e BAccountQuota of
     Lost err \<Rightarrow> (Inl err, d)
   | f \<Rightarrow>
       (let d1 = d\<lparr>bd_quotas := update_where (\<lambda>q. qr_ID q = accountID) (charge_quota e amount) (bd_quotas d)\<rparr>;
            st = map_option state_of_quota (find (\<lambda>q. qr_ID q = accountID) (bd_quotas d1))
        in case f of
             Unacked err \<Rightarrow> (Inl err, d1)
           | _ \<Rightarrow>
               (case st of
                  Some q \<Rightarrow>
                    if crossed amount (qs_TotalUsed q) (qs_TotalLimit q)
                    then (Inr (), d1\<lparr>bd_outbox := snd (enqueueSchedulerOutbox (be_fault e BOutbox) (be_now e)
                            SchedulerOutboxEventAccountChanged (Some accountID) None (bd_outbox d1))\<rparr>)
                    else (Inr (), d1)
                | None \<Rightarrow> (Inr (), d1))))"

text \<open>The fallback without the billing repository: separate statements, each of whose errors is only logged.\<close>

definition postUsageBilling :: "acct_lib \<Rightarrow> billing_env \<Rightarrow> billing_params \<Rightarrow> billing_data \<Rightarrow> billing_data" where
  "postUsageBilling lib e p d =
     (let actual = cb_ActualCost (bp_Cost p); keyID = ak_ID (bp_APIKey p);
          d1 = (if \<not> flt (Fin 0) actual then d
                else if bp_IsSubscriptionBill p
                then (case bp_Subscription p of
                        Some sid \<Rightarrow> snd (incrementUsageBillingSubscription e sid actual d) | None \<Rightarrow> d)
                else snd (deductUsageBillingBalance e (bp_User p) actual d));
          d2 = (if shouldDeductAPIKeyQuota p
                then d1\<lparr>bd_keys := snd (UpdateQuotaUsed (be_fault e BKeyQuota) (be_add e) (be_now e) keyID actual (bd_keys d1))\<rparr>
                else d1);
          d3 = (if shouldUpdateRateLimits p
                then d2\<lparr>bd_keys := snd (UpdateRateLimitUsage (be_fault e BKeyRate) (be_add e) (be_dayStart e) (be_now e)
                                        keyID actual (bd_keys d2))\<rparr>
                else d2)
      in if shouldUpdateAccountQuota lib p
         then snd (acct_IncrementQuotaUsed e (ac_ID (bp_Account p))
                     (fmul (cb_TotalCost (bp_Cost p)) (bp_AccountRateMultiplier p)) d3)
         else d3)"

text \<open>
  \<open>repo\<close> says whether the billing repository is there. The result is whether the request was charged by this call.
\<close>

definition applyUsageBilling ::
    "acct_lib \<Rightarrow> billing_env \<Rightarrow> bool \<Rightarrow> f64 \<Rightarrow> gostring \<Rightarrow> usage_log option \<Rightarrow> billing_params \<Rightarrow> billing_db \<Rightarrow>
     (bool result \<times> follow_up list) \<times> billing_db" where
  "applyUsageBilling lib e repo snapshot_balance requestID usageLog p db =
     (let cmd = buildUsageBillingCommand lib (be_sha256 e) requestID usageLog p; key = ak_Key (bp_APIKey p) in
      if bc_RequestID cmd = [] \<or> \<not> repo
      then ((Inr True, []), db\<lparr>bd_data := postUsageBilling lib e p (bd_data db)\<rparr>)
      else case Apply e (Some cmd) db of
        (Inl err, db1) \<Rightarrow> ((Inl err, []), db1)
      | (Inr res, db1) \<Rightarrow>
          if \<not> ar_Applied res then ((Inr False, [UseScheduled (ac_ID (bp_Account p))]), db1)
          else ((Inr True,
                 (if ar_APIKeyQuotaExhausted res \<and> bp_APIKeyService p \<and> key \<noteq> [] then [AuthInvalidated key] else [])
                 @ finalizePostUsageBilling snapshot_balance p res), db1))"

end
