(* ===== verification/UsageBillingLaws.thy ===== *)
theory UsageBillingLaws
  imports UsageBilling AccountLaws "HOL-Library.Sublist"
begin

text \<open>
  A request is charged at most once: whatever sequence of charges, with whatever faults, and of archiving runs, the
  tables hold the effects of each request id charged exactly once, in order.
\<close>

subsection \<open>One transaction\<close>

definition seen :: "billing_db \<Rightarrow> (gostring \<times> int64) set" where
  "seen db = row_key ` set (bd_dedup db) \<union> row_key ` set (bd_archive db)"

definition cmd_of :: "billing_env \<Rightarrow> billing_cmd \<Rightarrow> billing_cmd" where
  "cmd_of e c = Normalize (be_sha256 e) c"

text \<open>The effect of a charge on the tables.\<close>

definition effect_of :: "billing_env \<times> billing_cmd \<Rightarrow> billing_data \<Rightarrow> billing_data" where
  "effect_of ec d = snd (applyUsageBillingEffects (fst ec) (snd ec) (not_applied\<lparr>ar_Applied := True\<rparr>) d)"

lemma find_key_None: "find (\<lambda>r. row_key r = k) rows = None \<longleftrightarrow> k \<notin> row_key ` set rows"
  by (auto simp: find_None_iff)

lemma claim_True:
  assumes "claimUsageBillingKey e c db = (Inr True, db1)"
  shows "key_of c \<notin> seen db \<and> seen db1 = insert (key_of c) (seen db) \<and> bd_data db1 = bd_data db"
proof -
  have f: "be_fault e BClaim = NoFault" and n: "find (\<lambda>r. row_key r = key_of c) (bd_dedup db) = None"
    using assms by (auto simp: claimUsageBillingKey_def same_fingerprint_def Let_def dest!: read_fault_Inr
        split: fault.splits option.splits if_splits)
  have a: "find (\<lambda>r. row_key r = key_of c) (bd_archive db) = None"
    using assms f n by (auto simp: claimUsageBillingKey_def same_fingerprint_def Let_def dest!: read_fault_Inr
        split: option.splits if_splits)
  have "db1 = db\<lparr>bd_dedup := bd_dedup db @ [\<lparr>dr_request_id = bc_RequestID c, dr_api_key_id = bc_APIKeyID c,
      dr_fingerprint = bc_RequestFingerprint c, dr_created_at = be_now e\<rparr>]\<rparr>"
    using assms f n by (simp add: claimUsageBillingKey_def Let_def)
  then show ?thesis
    using n a by (auto simp: find_key_None seen_def row_key_def [of "dedup_row.make _ _ _ _"] key_of_def)
      (auto simp: row_key_def)
qed

text \<open>What a call of \<open>Apply\<close> does: nothing, or it claims its key and charges. Applied is reported only when it charged.\<close>

lemma Apply_charges:
  assumes "Apply e (Some c) db = (r, db')"
  shows "db' = db \<and> (\<forall>res. r = Inr res \<longrightarrow> \<not> ar_Applied res)
    \<or> key_of (cmd_of e c) \<notin> seen db \<and> seen db' = insert (key_of (cmd_of e c)) (seen db)
      \<and> bd_data db' = effect_of (e, cmd_of e c) (bd_data db)"
proof -
  have na: "\<not> ar_Applied not_applied" by (simp add: not_applied_def)
  let ?c = "cmd_of e c"
  obtain q db1 where q: "claimUsageBillingKey e ?c db = (q, db1)" by (metis surj_pair)
  obtain x d where x: "applyUsageBillingEffects e ?c (not_applied\<lparr>ar_Applied := True\<rparr>) (bd_data db1) = (x, d)" by (metis surj_pair)
  have step: "db' = db \<and> (\<forall>res. r = Inr res \<longrightarrow> \<not> ar_Applied res) \<or> q = Inr True \<and> db' = db1\<lparr>bd_data := d\<rparr>"
    using assms q x na unfolding cmd_of_def
    by (auto simp: Apply_def Let_def split: if_splits fault.splits sum.splits bool.splits prod.splits)
  show ?thesis
  proof (cases "q = Inr True \<and> db' = db1\<lparr>bd_data := d\<rparr>")
    case True
    from claim_True [of e ?c db db1] True q have k: "key_of ?c \<notin> seen db" "seen db1 = insert (key_of ?c) (seen db)"
      "bd_data db1 = bd_data db" by simp_all
    then show ?thesis using True x by (simp add: effect_of_def seen_def)
  next
    case False
    then show ?thesis using step by blast
  qed
qed

subsection \<open>Archiving\<close>

lemma move_keeps_image:
  assumes "V \<subseteq> D"
  shows "f ` {x \<in> D. x \<notin> V} \<union> f ` (A \<union> {x \<in> V. f x \<notin> f ` A}) = f ` D \<union> f ` A"
  using assms by blast

lemma cleanup_batch_keeps:
  "seen (snd (cleanup_batch cutoff db)) = seen db \<and> bd_data (snd (cleanup_batch cutoff db)) = bd_data db"
proof -
  have "set (cleanup_victims cutoff db) \<subseteq> set (bd_dedup db)"
    by (auto simp: cleanup_victims_def dest: in_set_takeD)
  from move_keeps_image [OF this, of row_key "set (bd_archive db)"] show ?thesis
    by (simp add: cleanup_batch_def seen_def Let_def)
qed

lemma cleanup_loop_keeps:
  "seen (snd (cleanup_loop f cutoff n db)) = seen db \<and> bd_data (snd (cleanup_loop f cutoff n db)) = bd_data db"
proof (induction f cutoff n db rule: cleanup_loop.induct)
  case (1 f cutoff n db)
  then show ?case
    by (subst (1 2) cleanup_loop.simps) (auto simp: cleanup_batch_keeps split: fault.splits)
qed

subsection \<open>Sequences of charges\<close>

text \<open>The transactions that touch the keys, in the order the database runs them.\<close>

datatype billing_op = Bill billing_env billing_cmd | Archive "nat \<Rightarrow> fault" time

fun billing_step :: "billing_op \<Rightarrow> billing_db \<Rightarrow> billing_db" where
  "billing_step (Bill e c) db = snd (Apply e (Some c) db)"
| "billing_step (Archive f cutoff) db = snd (CleanupUsageBillingDedup f cutoff db)"

text \<open>The charges that took effect: those whose key the tables did not have before.\<close>

fun charges :: "billing_op list \<Rightarrow> billing_db \<Rightarrow> (billing_env \<times> billing_cmd) list" where
  "charges [] db = []"
| "charges (Archive f cutoff # ops) db = charges ops (billing_step (Archive f cutoff) db)"
| "charges (Bill e c # ops) db =
     (let db' = billing_step (Bill e c) db; k = key_of (cmd_of e c) in
      (if k \<in> seen db' - seen db then [(e, cmd_of e c)] else []) @ charges ops db')"

text \<open>The keys of the calls that answered Applied.\<close>

fun reported :: "billing_op list \<Rightarrow> billing_db \<Rightarrow> (gostring \<times> int64) list" where
  "reported [] db = []"
| "reported (Archive f cutoff # ops) db = reported ops (billing_step (Archive f cutoff) db)"
| "reported (Bill e c # ops) db =
     (case fst (Apply e (Some c) db) of
        Inr res \<Rightarrow> if ar_Applied res then [key_of (cmd_of e c)] else []
      | Inl _ \<Rightarrow> []) @ reported ops (billing_step (Bill e c) db)"

abbreviation charged_keys :: "billing_op list \<Rightarrow> billing_db \<Rightarrow> (gostring \<times> int64) list" where
  "charged_keys ops db \<equiv> map (\<lambda>ec. key_of (snd ec)) (charges ops db)"

definition charged_once :: "billing_op list \<Rightarrow> billing_db \<Rightarrow> bool" where
  "charged_once ops db \<longleftrightarrow>
     (let db' = fold billing_step ops db; ks = charged_keys ops db in
      distinct ks \<and> set ks \<inter> seen db = {} \<and> seen db' = seen db \<union> set ks
      \<and> bd_data db' = fold effect_of (charges ops db) (bd_data db) \<and> subseq (reported ops db) ks)"

lemma charged_once_bill:
  assumes "charged_once ops (billing_step (Bill e c) db)"
  shows "charged_once (Bill e c # ops) db"
proof -
  obtain r db' where a: "Apply e (Some c) db = (r, db')" by (metis surj_pair)
  then have ih: "charged_once ops db'" using assms by simp
  let ?k = "key_of (cmd_of e c)"
  show ?thesis
    using Apply_charges [OF a]
  proof (elim disjE conjE)
    assume "db' = db" "\<forall>res. r = Inr res \<longrightarrow> \<not> ar_Applied res"
    then show ?thesis using ih a by (auto simp: charged_once_def Let_def split: sum.splits)
  next
    assume k: "?k \<notin> seen db" "seen db' = insert ?k (seen db)" "bd_data db' = effect_of (e, cmd_of e c) (bd_data db)"
    then have c: "charges (Bill e c # ops) db = (e, cmd_of e c) # charges ops db'"
      and "subseq (reported (Bill e c # ops) db) (?k # reported ops db')"
      using a by (auto simp: Let_def split: sum.splits)
    moreover have "subseq (?k # reported ops db') (?k # charged_keys ops db')"
      using ih by (simp add: charged_once_def Let_def)
    ultimately have "subseq (reported (Bill e c # ops) db) (?k # charged_keys ops db')"
      by (metis subseq_order.order_trans)
    then show ?thesis using ih k c a by (auto simp: charged_once_def Let_def)
  qed
qed

lemma charged_once_archive:
  "charged_once ops (billing_step (Archive f cutoff) db) \<Longrightarrow> charged_once (Archive f cutoff # ops) db"
  using cleanup_loop_keeps [of f cutoff 0 db] by (auto simp: charged_once_def Let_def CleanupUsageBillingDedup_def)

lemma charged_once_all: "charged_once ops db"
proof (induction ops arbitrary: db)
  case Nil
  then show ?case by (simp add: charged_once_def)
next
  case (Cons op ops)
  then show ?case by (cases op) (auto intro: charged_once_bill charged_once_archive)
qed

text \<open>
  C1: Usage is charged at most once. In any sequence of billing calls and archiving runs, with any faults and retries, no
  key (request id and API key) is charged twice and none that the tables, live or archived, already have; balances,
  subscriptions, key and account quotas afterwards are the effects of the charges, one after another; every charged key
  is remembered; and the calls that answer Applied are among the charges, each at most once.
\<close>

theorem usage_charged_at_most_once:
  shows "let db' = fold billing_step ops db; cs = charges ops db; ks = map (\<lambda>ec. key_of (snd ec)) cs in
    distinct ks \<and> set ks \<inter> seen db = {} \<and> seen db' = seen db \<union> set ks
    \<and> bd_data db' = fold effect_of cs (bd_data db) \<and> subseq (reported ops db) ks"
  using charged_once_all [of ops db] by (simp add: charged_once_def Let_def)

subsection \<open>A repeated request\<close>

text \<open>The fingerprint the tables have for a key: the live row's, or else the archived one's.\<close>

definition stored_fingerprint :: "billing_db \<Rightarrow> gostring \<times> int64 \<Rightarrow> gostring option" where
  "stored_fingerprint db k = map_option dr_fingerprint
     (case find (\<lambda>r. row_key r = k) (bd_dedup db) of Some r \<Rightarrow> Some r | None \<Rightarrow> find (\<lambda>r. row_key r = k) (bd_archive db))"

lemma stored_fingerprint_data [simp]: "stored_fingerprint (db\<lparr>bd_data := d\<rparr>) k = stored_fingerprint db k"
  by (simp add: stored_fingerprint_def cong: option.case_cong)

lemma repeated_request:
  assumes "stored_fingerprint db (key_of (cmd_of e c)) = Some fp" "trim_space (bc_RequestID c) \<noteq> []"
    and "be_fault e BBegin = NoFault" "be_fault e BClaim = NoFault" "be_fault e BExisting = NoFault" "be_fault e BArchive = NoFault"
  shows "Apply e (Some c) db =
    (if trim_space fp = trim_space (bc_RequestFingerprint (cmd_of e c)) then Inr not_applied
     else Inl ErrUsageBillingRequestConflict, db)"
proof -
  have i: "bc_RequestID (Normalize (be_sha256 e) c) \<noteq> []" using assms(2) by (simp add: Normalize_def Let_def)
  have "fst (claimUsageBillingKey e (cmd_of e c) db) =
    (if trim_space fp = trim_space (bc_RequestFingerprint (cmd_of e c)) then Inr False else Inl ErrUsageBillingRequestConflict)"
    using assms by (auto simp: stored_fingerprint_def claimUsageBillingKey_def same_fingerprint_def Let_def split: option.splits)
  then show ?thesis
    using assms(3) i by (auto simp: Apply_def Let_def cmd_of_def [symmetric] split: prod.splits)
qed

text \<open>
  C34: Repeating a charged request never charges it. When the tables have the request's key, live or archived, a call
  whose statements work answers that nothing was applied if the command has the stored fingerprint, refuses it as a
  conflict if the fingerprint differs, and changes nothing in either case.
\<close>

theorem repeated_charge_refused:
  assumes "stored_fingerprint db (key_of (cmd_of e c)) = Some fp" "trim_space (bc_RequestID c) \<noteq> []"
    and "be_fault e BBegin = NoFault" "be_fault e BClaim = NoFault" "be_fault e BExisting = NoFault" "be_fault e BArchive = NoFault"
  shows "Apply e (Some c) db =
    (if trim_space fp = trim_space (bc_RequestFingerprint (cmd_of e c)) then Inr not_applied
     else Inl ErrUsageBillingRequestConflict, db)"
  using assms by (rule repeated_request)

subsection \<open>A request paid from the balance\<close>

definition succeeds :: "'a result \<times> 's \<Rightarrow> ('a \<Rightarrow> 's \<Rightarrow> bool) \<Rightarrow> bool" where
  "succeeds r P \<longleftrightarrow> (\<exists>x s. r = (Inr x, s) \<and> P x s)"

lemma succeeds_and_then:
  "succeeds r P \<Longrightarrow> (\<And>x s. P x s \<Longrightarrow> succeeds (k x s) Q) \<Longrightarrow> succeeds (and_then r k) Q"
  by (auto simp: succeeds_def and_then_def)

lemma succeeds_when_do:
  assumes "P res d" "b \<Longrightarrow> succeeds (stmt d) (\<lambda>x s. P (upd x res) s)"
  shows "succeeds (when_do b stmt upd res d) P"
  using assms by (cases b) (auto simp: when_do_def intro: succeeds_and_then simp: succeeds_def)

text \<open>The rows a charge needs, and what it leaves of the users and subscriptions.\<close>

definition charge_frame :: "billing_cmd \<Rightarrow> user_acct list \<Rightarrow> sub_db \<Rightarrow> apply_result \<Rightarrow> billing_data \<Rightarrow> bool" where
  "charge_frame c users subs res d \<longleftrightarrow> ar_Applied res \<and> bd_users d = users \<and> bd_subs d = subs
     \<and> bc_APIKeyID c \<in> ak_ID ` set (bd_keys d) \<and> bc_AccountID c \<in> qr_ID ` set (bd_quotas d)"

lemma find_by_id: "i \<in> f ` set xs \<Longrightarrow> \<exists>x. find (\<lambda>x. f x = i) xs = Some x"
  by (induction xs) auto

lemma update_where_ids: "(\<And>x. f (g x) = f x) \<Longrightarrow> f ` set (update_where P g xs) = f ` set xs"
  by (induction xs) auto

lemma charge_keeps_ids [simp]:
  "ak_ID (billed_key_row add now amount k) = ak_ID k" "ak_ID (rate_limit_row add day_start now cost k) = ak_ID k"
  "qr_ID (charge_quota e amount q) = qr_ID q"
  by (simp_all add: billed_key_row_def rate_limit_row_def with_windows_def charge_quota_def Let_def split: prod.splits)

lemma enqueue_works: "\<exists>rows'. enqueueSchedulerOutbox NoFault now ev a g rows = (Inr (), rows')"
  by (auto simp: enqueueSchedulerOutbox_def)

lemma key_quota_succeeds:
  assumes "\<forall>s. be_fault e s = NoFault" "charge_frame c users subs res d"
  shows "succeeds (incrementUsageBillingAPIKeyQuota e (bc_APIKeyID c) amount d)
    (\<lambda>x. charge_frame c users subs (res\<lparr>ar_APIKeyQuotaExhausted := x\<rparr>))"
proof -
  obtain k where "find (\<lambda>k. ak_ID k = bc_APIKeyID c) (bd_keys d) = Some k"
    using assms(2) find_by_id [of "bc_APIKeyID c" ak_ID "bd_keys d"] by (auto simp: charge_frame_def)
  then show ?thesis
    using assms by (simp add: incrementUsageBillingAPIKeyQuota_def key_update_def succeeds_def charge_frame_def
        update_where_ids)
qed

lemma key_rate_succeeds:
  assumes "\<forall>s. be_fault e s = NoFault" "charge_frame c users subs res d"
  shows "succeeds (incrementUsageBillingAPIKeyRateLimit e (bc_APIKeyID c) cost d) (\<lambda>x. charge_frame c users subs res)"
proof -
  have "affected (\<lambda>k. ak_ID k = bc_APIKeyID c) (bd_keys d) \<noteq> 0"
    using assms(2) by (auto simp: affected_0_iff charge_frame_def)
  then show ?thesis
    using assms by (simp add: incrementUsageBillingAPIKeyRateLimit_def succeeds_def charge_frame_def
        update_where_ids)
qed

lemma account_quota_succeeds:
  assumes "\<forall>s. be_fault e s = NoFault" "charge_frame c users subs res d"
  shows "succeeds (incrementUsageBillingAccountQuota e (bc_AccountID c) amount d)
    (\<lambda>x. charge_frame c users subs (res\<lparr>ar_QuotaState := Some x\<rparr>))"
proof -
  obtain k where "find (\<lambda>k. qr_ID k = bc_AccountID c) (bd_quotas d) = Some k"
    using assms(2) find_by_id [of "bc_AccountID c" qr_ID "bd_quotas d"] by (auto simp: charge_frame_def)
  moreover obtain rows where "enqueueSchedulerOutbox NoFault (be_now e) SchedulerOutboxEventAccountChanged
      (Some (bc_AccountID c)) None (bd_outbox d) = (Inr (), rows)"
    using enqueue_works by blast
  ultimately show ?thesis
    using assms by (simp add: incrementUsageBillingAccountQuota_def succeeds_def charge_frame_def Let_def update_where_ids)
qed

lemma effects_succeed:
  fixes e c res d
  defines "paid \<equiv> update_where (\<lambda>u. ua_ID u = bc_UserID c)
    (\<lambda>u. u\<lparr>ua_Balance := be_add e (ua_Balance u) (fneg (bc_BalanceCost c))\<rparr>) (bd_users d)"
  assumes "\<forall>s. be_fault e s = NoFault" "charge_frame c (bd_users d) (bd_subs d) res d"
    and "bc_UserID c \<in> ua_ID ` set (bd_users d)" "flt (Fin 0) (bc_BalanceCost c)" "\<not> flt (Fin 0) (bc_SubscriptionCost c)"
  shows "succeeds (applyUsageBillingEffects e c res d) (charge_frame c paid (bd_subs d))"
proof -
  obtain u where u: "find (\<lambda>u. ua_ID u = bc_UserID c) (bd_users d) = Some u"
    using find_by_id [OF assms(4)] by blast
  have a: "succeeds (when_do (flt (Fin 0) (bc_BalanceCost c)) (deductUsageBillingBalance e (bc_UserID c) (bc_BalanceCost c))
      (\<lambda>b r. r\<lparr>ar_NewBalance := Some b\<rparr>) res d) (charge_frame c paid (bd_subs d))"
    using assms u by (simp add: when_do_def deductUsageBillingBalance_def succeeds_def charge_frame_def)
  have s: "when_do (flt (Fin 0) (bc_SubscriptionCost c) \<and> bc_SubscriptionID c \<noteq> None) stmt upd res d = (Inr res, d)"
    for stmt :: "billing_data \<Rightarrow> unit result \<times> billing_data" and upd using assms(6) by (simp add: when_do_def)
  let ?F = "charge_frame c paid (bd_subs d)"
  note then_do = succeeds_and_then [where P = ?F, OF succeeds_when_do]
  show ?thesis
    unfolding applyUsageBillingEffects_def s and_then_simps
    apply (rule succeeds_and_then [OF a])
    apply (rule then_do, assumption, rule key_quota_succeeds [OF assms(2)], assumption)
    apply (rule then_do, assumption, rule key_rate_succeeds [OF assms(2)], assumption)
    apply (rule succeeds_when_do, assumption, rule account_quota_succeeds [OF assms(2)], assumption)
    done
qed

lemma Normalize_fields [simp]:
  "bc_UserID (Normalize sha c) = bc_UserID c" "bc_APIKeyID (Normalize sha c) = bc_APIKeyID c"
  "bc_AccountID (Normalize sha c) = bc_AccountID c" "bc_BalanceCost (Normalize sha c) = bc_BalanceCost c"
  "bc_SubscriptionCost (Normalize sha c) = bc_SubscriptionCost c"
  "bc_RequestID (Normalize sha c) = trim_space (bc_RequestID c)"
  by (simp_all add: Normalize_def Let_def)

lemma cmd_costs_fields [simp]:
  "bc_UserID (cmd_costs lib p c) = bc_UserID c" "bc_APIKeyID (cmd_costs lib p c) = bc_APIKeyID c"
  "bc_AccountID (cmd_costs lib p c) = bc_AccountID c" "bc_RequestID (cmd_costs lib p c) = bc_RequestID c"
  by (simp_all add: cmd_costs_def Let_def)

lemma cmd_from_log_fields [simp]:
  "bc_UserID (cmd_from_log l c) = bc_UserID c" "bc_APIKeyID (cmd_from_log l c) = bc_APIKeyID c"
  "bc_AccountID (cmd_from_log l c) = bc_AccountID c" "bc_RequestID (cmd_from_log l c) = bc_RequestID c"
  "bc_SubscriptionCost (cmd_from_log l c) = bc_SubscriptionCost c"
  by (simp_all add: cmd_from_log_def split: option.splits)

lemma balance_command:
  fixes lib sha requestID l p
  assumes "\<not> bp_IsSubscriptionBill p" "flt (Fin 0) (cb_ActualCost (bp_Cost p))"
  defines "c \<equiv> buildUsageBillingCommand lib sha requestID l p"
  shows "bc_UserID c = bp_User p" "bc_APIKeyID c = ak_ID (bp_APIKey p)" "bc_AccountID c = ac_ID (bp_Account p)"
    "bc_RequestID c = trim_space requestID" "bc_BalanceCost c = cb_ActualCost (bp_Cost p)" "bc_SubscriptionCost c = Fin 0"
  using assms by (simp_all add: buildUsageBillingCommand_def empty_cmd_def) (simp_all add: cmd_costs_def Let_def)

lemma fresh_claim:
  assumes "be_fault e BClaim = NoFault" "be_fault e BArchive = NoFault" "key_of c \<notin> seen db"
  shows "\<exists>db1. claimUsageBillingKey e c db = (Inr True, db1) \<and> bd_data db1 = bd_data db
    \<and> stored_fingerprint db1 (key_of c) = Some (bc_RequestFingerprint c)"
proof -
  have n: "find (\<lambda>r. row_key r = key_of c) (bd_dedup db) = None" "find (\<lambda>r. row_key r = key_of c) (bd_archive db) = None"
    using assms(3) by (simp_all add: find_key_None seen_def)
  then show ?thesis
    using assms by (auto simp: claimUsageBillingKey_def Let_def stored_fingerprint_def find_append row_key_def key_of_def)
qed

text \<open>A charge from the balance whose statements work, and its repetition.\<close>

lemma fresh_Apply:
  fixes e c db
  defines "c1 \<equiv> cmd_of e c"
  assumes nf: "\<forall>s. be_fault e s = NoFault" and i: "trim_space (bc_RequestID c) \<noteq> []" and fresh: "key_of c1 \<notin> seen db"
    and rows: "charge_frame c1 (bd_users (bd_data db)) (bd_subs (bd_data db)) (not_applied\<lparr>ar_Applied := True\<rparr>) (bd_data db)"
    and u: "bc_UserID c \<in> ua_ID ` set (bd_users (bd_data db))"
    and cost: "flt (Fin 0) (bc_BalanceCost c)" "\<not> flt (Fin 0) (bc_SubscriptionCost c)"
  shows "\<exists>res db1. Apply e (Some c) db = (Inr res, db1) \<and> ar_Applied res
    \<and> bd_users (bd_data db1) = update_where (\<lambda>u. ua_ID u = bc_UserID c)
        (\<lambda>u. u\<lparr>ua_Balance := be_add e (ua_Balance u) (fneg (bc_BalanceCost c))\<rparr>) (bd_users (bd_data db))
    \<and> bd_subs (bd_data db1) = bd_subs (bd_data db)
    \<and> stored_fingerprint db1 (key_of c1) = Some (bc_RequestFingerprint c1)"
proof -
  obtain db1 where q: "claimUsageBillingKey e c1 db = (Inr True, db1)" "bd_data db1 = bd_data db"
    "stored_fingerprint db1 (key_of c1) = Some (bc_RequestFingerprint c1)"
    using fresh_claim [of e c1 db] nf fresh by auto
  have f: "bc_UserID c1 = bc_UserID c" "bc_BalanceCost c1 = bc_BalanceCost c" "bc_SubscriptionCost c1 = bc_SubscriptionCost c"
    by (simp_all add: c1_def cmd_of_def)
  obtain res d where x: "applyUsageBillingEffects e c1 (not_applied\<lparr>ar_Applied := True\<rparr>) (bd_data db) = (Inr res, d)"
    and fr: "charge_frame c1 (update_where (\<lambda>u. ua_ID u = bc_UserID c)
        (\<lambda>u. u\<lparr>ua_Balance := be_add e (ua_Balance u) (fneg (bc_BalanceCost c))\<rparr>) (bd_users (bd_data db)))
        (bd_subs (bd_data db)) res d"
    using effects_succeed [OF nf rows] u cost unfolding f succeeds_def by blast
  have "Apply e (Some c) db = (Inr res, db1\<lparr>bd_data := d\<rparr>)"
    using nf i q x unfolding c1_def cmd_of_def by (simp add: Apply_def Let_def)
  then show ?thesis using fr q(3) by (auto simp: charge_frame_def)
qed

text \<open>
  C14: A request paid from the balance is charged, and only once. When the request's id is new, the user, the key and the
  account are there and the statements work, the gateway's charge reports the request as charged, the user's balance is
  less by the request's cost, no other user's row and no subscription changes; and the same charge made again, by any
  process and at any time, reports that nothing was charged and changes nothing.
\<close>

theorem balance_request_charged_once:
  fixes p e db
  defines "cost \<equiv> cb_ActualCost (bp_Cost p)"
  assumes "\<forall>s. be_fault e s = NoFault" "trim_space requestID \<noteq> []"
    and "(trim_space requestID, ak_ID (bp_APIKey p)) \<notin> seen db"
    and "\<not> bp_IsSubscriptionBill p" "flt (Fin 0) cost"
    and "bp_User p \<in> ua_ID ` set (bd_users (bd_data db))" "ak_ID (bp_APIKey p) \<in> ak_ID ` set (bd_keys (bd_data db))"
    and "ac_ID (bp_Account p) \<in> qr_ID ` set (bd_quotas (bd_data db))"
  shows "\<exists>after db1. applyUsageBilling lib e True snap requestID l p db = ((Inr True, after), db1)
    \<and> bd_users (bd_data db1) = update_where (\<lambda>u. ua_ID u = bp_User p)
        (\<lambda>u. u\<lparr>ua_Balance := be_add e (ua_Balance u) (fneg cost)\<rparr>) (bd_users (bd_data db))
    \<and> bd_subs (bd_data db1) = bd_subs (bd_data db)
    \<and> (\<forall>e' snap'. (\<forall>s. be_fault e' s = NoFault) \<and> be_sha256 e' = be_sha256 e \<longrightarrow>
        applyUsageBilling lib e' True snap' requestID l p db1 = ((Inr False, [UseScheduled (ac_ID (bp_Account p))]), db1))"
proof -
  let ?c = "buildUsageBillingCommand lib (be_sha256 e) requestID l p"
  note c = balance_command [OF assms(5) assms(6) [unfolded cost_def], of lib "be_sha256 e" requestID l]
  have k: "key_of (cmd_of e ?c) \<notin> seen db" "trim_space (bc_RequestID ?c) \<noteq> []" "bc_UserID ?c \<in> ua_ID ` set (bd_users (bd_data db))"
    "flt (Fin 0) (bc_BalanceCost ?c)" "\<not> flt (Fin 0) (bc_SubscriptionCost ?c)"
    using assms(3,4,6,7) c by (simp_all add: cmd_of_def key_of_def cost_def)
  have "charge_frame (cmd_of e ?c) (bd_users (bd_data db)) (bd_subs (bd_data db)) (not_applied\<lparr>ar_Applied := True\<rparr>) (bd_data db)"
    using assms(8,9) c by (simp add: charge_frame_def cmd_of_def)
  from fresh_Apply [OF assms(2) k(2,1) this k(3-5)] obtain res db1 where
    a: "Apply e (Some ?c) db = (Inr res, db1)" "ar_Applied res" "bd_subs (bd_data db1) = bd_subs (bd_data db)"
      "stored_fingerprint db1 (key_of (cmd_of e ?c)) = Some (bc_RequestFingerprint (cmd_of e ?c))"
      and us: "bd_users (bd_data db1) = update_where (\<lambda>u. ua_ID u = bp_User p)
        (\<lambda>u. u\<lparr>ua_Balance := be_add e (ua_Balance u) (fneg cost)\<rparr>) (bd_users (bd_data db))"
    unfolding c cost_def by blast
  have again: "Apply e' (Some ?c) db1 = (Inr not_applied, db1)"
    if "\<forall>s. be_fault e' s = NoFault" "be_sha256 e' = be_sha256 e" for e'
    using repeated_request [of db1 e' ?c] a(4) k(2) that by (simp add: cmd_of_def)
  show ?thesis
    using a us again c(4) assms(3) by (simp add: applyUsageBilling_def Let_def not_applied_def)
qed

subsection \<open>Instances\<close>

definition demo_bill_env :: billing_env where
  "demo_bill_env = \<lparr>be_fault = (\<lambda>_. NoFault), be_now = 0,
     be_add = (\<lambda>x y. case (x, y) of (Fin a, Fin b) \<Rightarrow> Fin (a + b) | _ \<Rightarrow> NaN), be_dayStart = (\<lambda>t. t), be_toLocal = (\<lambda>_ t. t),
     be_ofLocal = (\<lambda>_ t. t), be_sha256 = (\<lambda>s. ''h'')\<rparr>"

definition demo_quota_dim :: quota_dim where
  "demo_quota_dim = \<lparr>qd_limit = None, qd_used = None, qd_start = None, qd_reset_mode = None, qd_reset_at = None,
     qd_reset_hour = None, qd_reset_day = None\<rparr>"

definition demo_bill_db :: billing_db where
  "demo_bill_db = \<lparr>bd_dedup = [],
     bd_archive = [\<lparr>dr_request_id = ''old'', dr_api_key_id = 0, dr_fingerprint = ''f'', dr_created_at = 0\<rparr>],
     bd_data = \<lparr>bd_users = [\<lparr>ua_ID = 3, ua_Balance = Fin 10, ua_TotalRecharged = Fin 10, ua_Concurrency = 5\<rparr>],
       bd_subs = \<lparr>sd_rows = [], sd_next_id = 1, sd_groups = []\<rparr>, bd_keys = [demo_key],
       bd_quotas = [\<lparr>qr_ID = 1, qr_used = None, qr_limit = None, qr_daily = demo_quota_dim, qr_weekly = demo_quota_dim,
                     qr_timezone = None\<rparr>], bd_outbox = []\<rparr>\<rparr>"

definition demo_bill :: billing_params where
  "demo_bill = \<lparr>bp_Cost = \<lparr>cb_InputCost = Fin 1, cb_OutputCost = Fin 1, cb_ImageOutputCost = Fin 0, cb_CacheCreationCost = Fin 0,
     cb_CacheReadCost = Fin 0, cb_TotalCost = Fin 2, cb_ActualCost = Fin 2, cb_BillingMode = ''token''\<rparr>,
     bp_User = 3, bp_APIKey = demo_key, bp_Account = demo_account [] [], bp_Subscription = None, bp_RequestPayloadHash = [],
     bp_IsSubscriptionBill = False, bp_AccountRateMultiplier = Fin 1, bp_APIKeyService = True\<rparr>"

text \<open>An archived key with another fingerprint is refused.\<close>

theorem repeated_charge_refused_witness:
  "Apply demo_bill_env (Some (empty_cmd\<lparr>bc_RequestID := ''old'', bc_RequestFingerprint := ''g''\<rparr>)) demo_bill_db
    = (Inl ErrUsageBillingRequestConflict, demo_bill_db)"
proof -
  let ?c = "empty_cmd\<lparr>bc_RequestID := ''old'', bc_RequestFingerprint := ''g''\<rparr>"
  have "stored_fingerprint demo_bill_db (key_of (cmd_of demo_bill_env ?c)) = Some ''f''"
    "trim_space (bc_RequestID ?c) \<noteq> []" "trim_space ''f'' \<noteq> trim_space (bc_RequestFingerprint (cmd_of demo_bill_env ?c))"
    by code_simp+
  then show ?thesis
    using repeated_charge_refused [of demo_bill_db demo_bill_env ?c "''f''"] by (simp add: demo_bill_env_def)
qed

text \<open>The user's balance of ten is eight after a request of two, and the retry reports that nothing was charged.\<close>

theorem balance_request_charged_once_witness:
  "\<exists>after db1. applyUsageBilling demo_lib demo_bill_env True (Fin 10) ''r1'' None demo_bill demo_bill_db = ((Inr True, after), db1)
    \<and> map ua_Balance (bd_users (bd_data db1)) = [Fin 8]
    \<and> applyUsageBilling demo_lib demo_bill_env True (Fin 10) ''r1'' None demo_bill db1 = ((Inr False, [UseScheduled 1]), db1)"
proof -
  have nf: "\<forall>s. be_fault demo_bill_env s = NoFault" by (simp add: demo_bill_env_def)
  have "trim_space ''r1'' \<noteq> []" by code_simp
  then have h: "trim_space ''r1'' \<noteq> []" "(trim_space ''r1'', ak_ID (bp_APIKey demo_bill)) \<notin> seen demo_bill_db"
    "\<not> bp_IsSubscriptionBill demo_bill" "flt (Fin 0) (cb_ActualCost (bp_Cost demo_bill))"
    "bp_User demo_bill \<in> ua_ID ` set (bd_users (bd_data demo_bill_db))"
    "ak_ID (bp_APIKey demo_bill) \<in> ak_ID ` set (bd_keys (bd_data demo_bill_db))"
    "ac_ID (bp_Account demo_bill) \<in> qr_ID ` set (bd_quotas (bd_data demo_bill_db))"
    by (simp_all add: demo_bill_def demo_bill_db_def demo_key_def demo_account_def seen_def row_key_def)
  have b: "map ua_Balance (update_where (\<lambda>u. ua_ID u = bp_User demo_bill)
      (\<lambda>u. u\<lparr>ua_Balance := be_add demo_bill_env (ua_Balance u) (fneg (cb_ActualCost (bp_Cost demo_bill)))\<rparr>)
      (bd_users (bd_data demo_bill_db))) = [Fin 8]" and "ac_ID (bp_Account demo_bill) = 1"
    by (simp_all add: demo_bill_def demo_bill_db_def demo_bill_env_def demo_account_def)
  with balance_request_charged_once [OF nf h, of demo_lib "Fin 10" None] nf show ?thesis by auto
qed

end
