(* ===== verification/Channel.thy ===== *)
theory Channel
  imports GoDB GatewayAccount "HOL-Library.Sublist"
begin

text \<open>
  Pricing channels, \<open>internal/service/channel.go\<close> and \<open>channel_service.go\<close>: a channel serves groups, gives model
  patterns prices (flat, per request or by token intervals) and maps model names. This theory has the data, the checks a
  channel passes before it is stored, and the flattened cache the gateway looks prices and mappings up in.

  A Go map is the list of its entries in the order one iteration visits them; an iteration in another order is another
  list. \<open>uni\<close> is what \<open>strings.ToLower\<close> does to the non-ASCII parts of a string. An error built by \<open>fmt.Errorf\<close> inside the
  checks is its text. Row ids of prices and intervals carry no information beyond their order and are left out; \<open>Clone\<close>
  copies values, which is no operation here.
\<close>

subsection \<open>strings.ToLower\<close>

definition ascii_char :: "char \<Rightarrow> bool" where "ascii_char c \<longleftrightarrow> (of_char c :: nat) < 128"

definition lower_char :: "char \<Rightarrow> char" where
  "lower_char c = (if 65 \<le> (of_char c :: nat) \<and> (of_char c :: nat) \<le> 90 then char_of ((of_char c :: nat) + 32) else c)"

text \<open>Go maps a string rune by rune; no rune crosses the border between ASCII and other bytes.\<close>

function ToLower :: "(gostring \<Rightarrow> gostring) \<Rightarrow> gostring \<Rightarrow> gostring" where
  "ToLower uni [] = []"
| "ToLower uni (c # s) =
     (if ascii_char c then lower_char c # ToLower uni s
      else uni (c # takeWhile (\<lambda>x. \<not> ascii_char x) s) @ ToLower uni (dropWhile (\<lambda>x. \<not> ascii_char x) s))"
  by pat_completeness auto
termination
  by (relation "measure (\<lambda>(_, s). length s)") (auto simp: le_imp_less_Suc length_dropWhile_le)

definition ascii_lower :: "gostring \<Rightarrow> gostring" where "ascii_lower s = map lower_char s"

lemma ToLower_ascii: "list_all ascii_char s \<Longrightarrow> ToLower uni s = ascii_lower s"
  by (induction s) (auto simp: ascii_lower_def)

subsection \<open>The data\<close>

definition BillingModeToken :: gostring where "BillingModeToken = ''token''"
definition BillingModePerRequest :: gostring where "BillingModePerRequest = ''per_request''"
definition BillingModeImage :: gostring where "BillingModeImage = ''image''"

definition BillingMode_IsValid :: "gostring \<Rightarrow> bool" where
  "BillingMode_IsValid m \<longleftrightarrow> m \<in> {BillingModeToken, BillingModePerRequest, BillingModeImage, []}"

definition BillingModelSourceRequested :: gostring where "BillingModelSourceRequested = ''requested''"
definition BillingModelSourceUpstream :: gostring where "BillingModelSourceUpstream = ''upstream''"
definition BillingModelSourceChannelMapped :: gostring where "BillingModelSourceChannelMapped = ''channel_mapped''"

record pricing_interval =
  pi_MinTokens :: int
  pi_MaxTokens :: "int option"
  pi_TierLabel :: gostring
  pi_InputPrice :: "f64 option"
  pi_OutputPrice :: "f64 option"
  pi_CacheWritePrice :: "f64 option"
  pi_CacheReadPrice :: "f64 option"
  pi_PerRequestPrice :: "f64 option"
  pi_SortOrder :: int

record channel_pricing =
  cp_Platform :: gostring
  cp_Models :: "gostring list"
  cp_BillingMode :: gostring
  cp_InputPrice :: "f64 option"
  cp_OutputPrice :: "f64 option"
  cp_CacheWritePrice :: "f64 option"
  cp_CacheReadPrice :: "f64 option"
  cp_ImageOutputPrice :: "f64 option"
  cp_PerRequestPrice :: "f64 option"
  cp_Intervals :: "pricing_interval list"

record stats_rule =
  sr_Name :: gostring
  sr_GroupIDs :: "int64 list"
  sr_AccountIDs :: "int64 list"
  sr_SortOrder :: int
  sr_Pricing :: "channel_pricing list"

type_synonym model_mapping = "(gostring \<times> string_map) list"

record channel =
  ch_ID :: int64
  ch_Name :: gostring
  ch_Description :: gostring
  ch_Status :: gostring
  ch_BillingModelSource :: gostring
  ch_RestrictModels :: bool
  ch_Features :: gostring
  ch_FeaturesConfig :: "any_map option"
  ch_CreatedAt :: time
  ch_UpdatedAt :: time
  ch_GroupIDs :: "int64 list"
  ch_ModelPricing :: "channel_pricing list"
  ch_ModelMapping :: model_mapping
  ch_ApplyPricingToAccountStats :: bool
  ch_AccountStatsPricingRules :: "stats_rule list"

definition ch_IsActive :: "channel \<Rightarrow> bool" where "ch_IsActive c \<longleftrightarrow> ch_Status c = StatusActive"

definition normalizeBillingModelSource :: "channel \<Rightarrow> channel" where
  "normalizeBillingModelSource c =
     (if ch_BillingModelSource c = [] then c\<lparr>ch_BillingModelSource := BillingModelSourceChannelMapped\<rparr> else c)"

definition ch_GetModelPricing :: "(gostring \<Rightarrow> gostring) \<Rightarrow> channel \<Rightarrow> gostring \<Rightarrow> channel_pricing option" where
  "ch_GetModelPricing uni c model =
     find (\<lambda>p. list_ex (\<lambda>m. ToLower uni m = ToLower uni model) (cp_Models p)) (ch_ModelPricing c)"

definition GetModelPricingByPlatform ::
    "(gostring \<Rightarrow> gostring) \<Rightarrow> channel \<Rightarrow> gostring \<Rightarrow> gostring \<Rightarrow> channel_pricing option" where
  "GetModelPricingByPlatform uni c platform model =
     find (\<lambda>p. cp_Platform p = platform \<and> list_ex (\<lambda>m. ToLower uni m = ToLower uni model) (cp_Models p)) (ch_ModelPricing c)"

definition interval_matches :: "int \<Rightarrow> pricing_interval \<Rightarrow> bool" where
  "interval_matches totalTokens iv \<longleftrightarrow> pi_MinTokens iv < totalTokens
     \<and> (case pi_MaxTokens iv of None \<Rightarrow> True | Some m \<Rightarrow> totalTokens \<le> m)"

definition FindMatchingInterval :: "pricing_interval list \<Rightarrow> int \<Rightarrow> pricing_interval option" where
  "FindMatchingInterval intervals totalTokens = find (interval_matches totalTokens) intervals"

definition GetIntervalForContext :: "channel_pricing \<Rightarrow> int \<Rightarrow> pricing_interval option" where
  "GetIntervalForContext p totalTokens = FindMatchingInterval (cp_Intervals p) totalTokens"

definition GetTierByLabel :: "(gostring \<Rightarrow> gostring) \<Rightarrow> channel_pricing \<Rightarrow> gostring \<Rightarrow> pricing_interval option" where
  "GetTierByLabel uni p label = find (\<lambda>iv. ToLower uni (pi_TierLabel iv) = ToLower uni label) (cp_Intervals p)"

definition featureKeyWebSearchEmulation :: gostring where "featureKeyWebSearchEmulation = ''web_search_emulation''"

definition IsWebSearchEmulationEnabled :: "channel \<Rightarrow> gostring \<Rightarrow> bool" where
  "IsWebSearchEmulationEnabled c platform =
     (case lookup (ch_FeaturesConfig c) featureKeyWebSearchEmulation of
        Some (JObj wse) \<Rightarrow> map_of wse platform = Some (JBool True)
      | _ \<Rightarrow> False)"

subsection \<open>Checking intervals\<close>

definition infinity_sign :: gostring where "infinity_sign = [CHR 0xE2, CHR 0x88, CHR 0x9E]"

definition formatMaxTokensLabel :: "int option \<Rightarrow> gostring" where
  "formatMaxTokensLabel m = (case m of None \<Rightarrow> infinity_sign | Some n \<Rightarrow> itoa n)"

definition negative_price :: "(gostring \<times> f64 option) list \<Rightarrow> gostring option" where
  "negative_price prices =
     map_option fst (find (\<lambda>(_, v). case v of Some x \<Rightarrow> flt x (Fin 0) | None \<Rightarrow> False) prices)"

definition validateIntervalPrices :: "pricing_interval \<Rightarrow> int \<Rightarrow> gostring option" where
  "validateIntervalPrices iv idx =
     map_option (\<lambda>n. ''interval #'' @ itoa (idx + 1) @ '': '' @ n @ '' must be >= 0'')
       (negative_price [(''input_price'', pi_InputPrice iv), (''output_price'', pi_OutputPrice iv),
          (''cache_write_price'', pi_CacheWritePrice iv), (''cache_read_price'', pi_CacheReadPrice iv),
          (''per_request_price'', pi_PerRequestPrice iv)])"

definition validateSingleInterval :: "pricing_interval \<Rightarrow> int \<Rightarrow> gostring option" where
  "validateSingleInterval iv idx =
     (let pre = ''interval #'' @ itoa (idx + 1) @ '': '' in
      if pi_MinTokens iv < 0 then Some (pre @ ''min_tokens ('' @ itoa (pi_MinTokens iv) @ '') must be >= 0'')
      else case pi_MaxTokens iv of
        Some m \<Rightarrow>
          if m \<le> 0 then Some (pre @ ''max_tokens ('' @ itoa m @ '') must be > 0'')
          else if m \<le> pi_MinTokens iv
          then Some (pre @ ''max_tokens ('' @ itoa m @ '') must be > min_tokens ('' @ itoa (pi_MinTokens iv) @ '')'')
          else validateIntervalPrices iv idx
      | None \<Rightarrow> validateIntervalPrices iv idx)"

definition unbounded_not_last :: "int \<Rightarrow> gostring" where
  "unbounded_not_last i = ''interval #'' @ itoa (i + 1) @ '': unbounded interval (max_tokens=null) must be the last one''"

definition overlap_text :: "int \<Rightarrow> pricing_interval \<Rightarrow> pricing_interval \<Rightarrow> gostring" where
  "overlap_text i prev iv = ''interval #'' @ itoa i @ '' and #'' @ itoa (i + 1) @ '' overlap: prev max=''
     @ formatMaxTokensLabel (pi_MaxTokens prev) @ '' > cur min='' @ itoa (pi_MinTokens iv)"

text \<open>The loop at index \<open>i\<close>; \<open>prev\<close> is the interval before, if any.\<close>

fun overlap_from :: "int \<Rightarrow> pricing_interval option \<Rightarrow> pricing_interval list \<Rightarrow> gostring option" where
  "overlap_from i prev [] = None"
| "overlap_from i prev (iv # rest) =
     (if pi_MaxTokens iv = None \<and> rest \<noteq> [] then Some (unbounded_not_last i)
      else case prev of
        None \<Rightarrow> overlap_from (i + 1) (Some iv) rest
      | Some p \<Rightarrow>
          (case pi_MaxTokens p of
             None \<Rightarrow> Some (overlap_text i p iv)
           | Some m \<Rightarrow> if pi_MinTokens iv < m then Some (overlap_text i p iv) else overlap_from (i + 1) (Some iv) rest))"

definition validateIntervalOverlap :: "pricing_interval list \<Rightarrow> gostring option" where
  "validateIntervalOverlap srt = overlap_from 0 None srt"

text \<open>\<open>arrange\<close> is \<open>sort.Slice\<close> by \<open>MinTokens\<close>: some sorted arrangement of the same intervals.\<close>

definition sorts_by_min :: "(pricing_interval list \<Rightarrow> pricing_interval list) \<Rightarrow> bool" where
  "sorts_by_min arrange \<longleftrightarrow> (\<forall>xs. mset (arrange xs) = mset xs \<and> sorted (map pi_MinTokens (arrange xs)))"

definition ValidateIntervals ::
    "(pricing_interval list \<Rightarrow> pricing_interval list) \<Rightarrow> pricing_interval list \<Rightarrow> gostring option" where
  "ValidateIntervals arrange intervals =
     (if intervals = [] then None
      else let srt = arrange intervals in
        case first_some (map (\<lambda>(i, iv). validateSingleInterval iv i) (zip [0..int (length srt) - 1] srt)) of
          Some e \<Rightarrow> Some e
        | None \<Rightarrow> validateIntervalOverlap srt)"

subsection \<open>Model patterns\<close>

definition HasSuffixStar :: "gostring \<Rightarrow> bool" where "HasSuffixStar s \<longleftrightarrow> suffix ''*'' s"

definition splitWildcardSuffix :: "gostring \<Rightarrow> gostring \<times> bool" where
  "splitWildcardSuffix pattern = (if HasSuffixStar pattern then (butlast pattern, True) else (pattern, False))"

record model_entry =
  me_pattern :: gostring
  me_prefix :: gostring
  me_wildcard :: bool

definition conflictsBetween :: "model_entry \<Rightarrow> model_entry \<Rightarrow> bool" where
  "conflictsBetween a b =
     (if \<not> me_wildcard a \<and> \<not> me_wildcard b then me_prefix a = me_prefix b
      else if me_wildcard a \<and> \<not> me_wildcard b then prefix (me_prefix a) (me_prefix b)
      else if \<not> me_wildcard a \<and> me_wildcard b then prefix (me_prefix b) (me_prefix a)
      else prefix (me_prefix b) (me_prefix a) \<or> prefix (me_prefix a) (me_prefix b))"

definition toModelEntry :: "(gostring \<Rightarrow> gostring) \<Rightarrow> gostring \<Rightarrow> model_entry" where
  "toModelEntry uni pattern = (case splitWildcardSuffix (ToLower uni pattern) of (p, isWild) \<Rightarrow>
     \<lparr>me_pattern = pattern, me_prefix = p, me_wildcard = isWild\<rparr>)"

definition quoted :: "gostring \<Rightarrow> gostring" where "quoted s = CHR 0x27 # s @ [CHR 0x27]"

definition conflict_error :: "gostring \<Rightarrow> gostring \<Rightarrow> gostring \<Rightarrow> model_entry \<Rightarrow> model_entry \<Rightarrow> go_error" where
  "conflict_error platform errCode label a b = EApp (BadRequest errCode
     (label @ '' '' @ quoted (me_pattern a) @ '' and '' @ quoted (me_pattern b) @ '' conflict in platform '' @ quoted platform
        @ '': overlapping match range''))"

fun detectConflicts :: "model_entry list \<Rightarrow> gostring \<Rightarrow> gostring \<Rightarrow> gostring \<Rightarrow> go_error option" where
  "detectConflicts [] platform errCode label = None"
| "detectConflicts (a # rest) platform errCode label =
     (case find (conflictsBetween a) rest of
        Some b \<Rightarrow> Some (conflict_error platform errCode label a b)
      | None \<Rightarrow> detectConflicts rest platform errCode label)"

text \<open>\<open>byPlatform\<close> as the list of its entries: the platforms in the order \<open>visit\<close> gives them.\<close>

definition platform_entries :: "(gostring \<Rightarrow> gostring) \<Rightarrow> channel_pricing list \<Rightarrow> gostring \<Rightarrow> model_entry list" where
  "platform_entries uni pricingList platform =
     concat (map (\<lambda>p. map (toModelEntry uni) (cp_Models p)) (filter (\<lambda>p. cp_Platform p = platform) pricingList))"

definition validateNoConflictingModels :: "(gostring \<Rightarrow> gostring) \<Rightarrow> channel_pricing list \<Rightarrow> go_error option" where
  "validateNoConflictingModels uni pricingList =
     first_some (map (\<lambda>platform. detectConflicts (platform_entries uni pricingList platform) platform
         ''MODEL_PATTERN_CONFLICT'' ''model patterns'')
       (remdups (map cp_Platform (filter (\<lambda>p. cp_Models p \<noteq> []) pricingList))))"

definition validateNoConflictingMappings :: "(gostring \<Rightarrow> gostring) \<Rightarrow> model_mapping \<Rightarrow> go_error option" where
  "validateNoConflictingMappings uni mapping =
     first_some (map (\<lambda>(platform, m). detectConflicts (map (toModelEntry uni \<circ> fst) m) platform
         ''MAPPING_PATTERN_CONFLICT'' ''mapping source patterns'') mapping)"

definition show_strings :: "gostring list \<Rightarrow> gostring" where
  "show_strings xs = ''['' @ (case xs of [] \<Rightarrow> [] | y # ys \<Rightarrow> y @ concat (map (\<lambda>z. '' '' @ z) ys)) @ '']''"

definition validatePricingIntervals ::
    "(pricing_interval list \<Rightarrow> pricing_interval list) \<Rightarrow> channel_pricing list \<Rightarrow> go_error option" where
  "validatePricingIntervals arrange pricingList =
     first_some (map (\<lambda>p. map_option (\<lambda>e. EApp (BadRequest ''INVALID_PRICING_INTERVALS''
         (''invalid pricing intervals for platform '' @ quoted (cp_Platform p) @ '' models '' @ show_strings (cp_Models p) @ '': '' @ e)))
       (ValidateIntervals arrange (cp_Intervals p))) pricingList)"

definition checkBillingModeRequirements :: "channel_pricing \<Rightarrow> go_error option" where
  "checkBillingModeRequirements p =
     (if (cp_BillingMode p = BillingModePerRequest \<or> cp_BillingMode p = BillingModeImage)
         \<and> cp_PerRequestPrice p = None \<and> cp_Intervals p = []
      then Some (EApp (BadRequest ''BILLING_MODE_MISSING_PRICE''
             ''per-request price or intervals required for per_request/image billing mode''))
      else None)"

definition checkPricesNotNegative :: "channel_pricing \<Rightarrow> go_error option" where
  "checkPricesNotNegative p =
     map_option (\<lambda>n. EApp (BadRequest ''NEGATIVE_PRICE'' (n @ '' must be >= 0'')))
       (negative_price [(''input_price'', cp_InputPrice p), (''output_price'', cp_OutputPrice p),
          (''cache_write_price'', cp_CacheWritePrice p), (''cache_read_price'', cp_CacheReadPrice p),
          (''image_output_price'', cp_ImageOutputPrice p), (''per_request_price'', cp_PerRequestPrice p)])"

definition interval_priced :: "pricing_interval \<Rightarrow> bool" where
  "interval_priced iv \<longleftrightarrow> pi_InputPrice iv \<noteq> None \<or> pi_OutputPrice iv \<noteq> None \<or> pi_CacheWritePrice iv \<noteq> None
     \<or> pi_CacheReadPrice iv \<noteq> None \<or> pi_PerRequestPrice iv \<noteq> None"

definition checkIntervalsHavePrices :: "channel_pricing \<Rightarrow> go_error option" where
  "checkIntervalsHavePrices p =
     map_option (\<lambda>iv. EApp (BadRequest ''INTERVAL_MISSING_PRICE''
         (''interval ['' @ itoa (pi_MinTokens iv) @ '', '' @ formatMaxTokensLabel (pi_MaxTokens iv)
           @ ''] has no price fields set for model '' @ show_strings (cp_Models p))))
       (find (\<lambda>iv. \<not> interval_priced iv) (cp_Intervals p))"

definition validatePricingBillingMode :: "channel_pricing list \<Rightarrow> go_error option" where
  "validatePricingBillingMode pricing =
     first_some (map (\<lambda>p. first_some [checkBillingModeRequirements p, checkPricesNotNegative p, checkIntervalsHavePrices p]) pricing)"

definition validatePricingEntries ::
    "(gostring \<Rightarrow> gostring) \<Rightarrow> (pricing_interval list \<Rightarrow> pricing_interval list) \<Rightarrow> channel_pricing list \<Rightarrow> go_error option" where
  "validatePricingEntries uni arrange pricing =
     first_some [validateNoConflictingModels uni pricing, validatePricingIntervals arrange pricing, validatePricingBillingMode pricing]"

definition validateChannelConfig ::
    "(gostring \<Rightarrow> gostring) \<Rightarrow> (pricing_interval list \<Rightarrow> pricing_interval list) \<Rightarrow> channel_pricing list \<Rightarrow> model_mapping \<Rightarrow>
     go_error option" where
  "validateChannelConfig uni arrange pricing mapping =
     first_some [validatePricingEntries uni arrange pricing, validateNoConflictingMappings uni mapping]"

subsection \<open>The cache\<close>

record channel_cache =
  cc_pricingByGroupModel :: "int64 \<times> gostring \<times> gostring \<rightharpoonup> channel_pricing"
  cc_wildcardByGroupPlatform :: "int64 \<times> gostring \<Rightarrow> (gostring \<times> channel_pricing) list"
  cc_mappingByGroupModel :: "int64 \<times> gostring \<times> gostring \<rightharpoonup> gostring"
  cc_wildcardMappingByGP :: "int64 \<times> gostring \<Rightarrow> (gostring \<times> gostring) list"
  cc_channelByGroupID :: "int64 \<rightharpoonup> channel"
  cc_groupPlatform :: "int64 \<rightharpoonup> gostring"
  cc_byID :: "int64 \<rightharpoonup> channel"
  cc_loadedAt :: time

definition newEmptyChannelCache :: channel_cache where
  "newEmptyChannelCache = \<lparr>cc_pricingByGroupModel = Map.empty, cc_wildcardByGroupPlatform = (\<lambda>_. []),
     cc_mappingByGroupModel = Map.empty, cc_wildcardMappingByGP = (\<lambda>_. []), cc_channelByGroupID = Map.empty,
     cc_groupPlatform = Map.empty, cc_byID = Map.empty, cc_loadedAt = - 62135596800 * Second\<rparr>"

definition add_pricing :: "(gostring \<Rightarrow> gostring) \<Rightarrow> int64 \<Rightarrow> channel_pricing \<Rightarrow> gostring \<Rightarrow> channel_cache \<Rightarrow> channel_cache" where
  "add_pricing uni gid p model cache =
     (let gp = (gid, cp_Platform p) in
      if HasSuffixStar model
      then cache\<lparr>cc_wildcardByGroupPlatform := (cc_wildcardByGroupPlatform cache)
             (gp := cc_wildcardByGroupPlatform cache gp @ [(ToLower uni (butlast model), p)])\<rparr>
      else cache\<lparr>cc_pricingByGroupModel := (cc_pricingByGroupModel cache)
             ((gid, cp_Platform p, ToLower uni model) \<mapsto> p)\<rparr>)"

definition isPlatformPricingMatch :: "gostring \<Rightarrow> gostring \<Rightarrow> bool" where
  "isPlatformPricingMatch groupPlatform pricingPlatform \<longleftrightarrow> groupPlatform = pricingPlatform"

definition matchingPlatforms :: "gostring \<Rightarrow> gostring list" where
  "matchingPlatforms groupPlatform = [groupPlatform]"

definition expandPricingToCache ::
    "(gostring \<Rightarrow> gostring) \<Rightarrow> channel \<Rightarrow> int64 \<Rightarrow> gostring \<Rightarrow> channel_cache \<Rightarrow> channel_cache" where
  "expandPricingToCache uni ch gid platform =
     fold (\<lambda>p cache. if \<not> isPlatformPricingMatch platform (cp_Platform p) then cache
                     else fold (add_pricing uni gid p) (cp_Models p) cache) (ch_ModelPricing ch)"

definition add_mapping :: "(gostring \<Rightarrow> gostring) \<Rightarrow> int64 \<Rightarrow> gostring \<Rightarrow> gostring \<times> gostring \<Rightarrow> channel_cache \<Rightarrow> channel_cache" where
  "add_mapping uni gid platform e cache = (case e of (src, dst) \<Rightarrow>
     if HasSuffixStar src
     then cache\<lparr>cc_wildcardMappingByGP := (cc_wildcardMappingByGP cache)
            ((gid, platform) := cc_wildcardMappingByGP cache (gid, platform) @ [(ToLower uni (butlast src), dst)])\<rparr>
     else cache\<lparr>cc_mappingByGroupModel := (cc_mappingByGroupModel cache)((gid, platform, ToLower uni src) \<mapsto> dst)\<rparr>)"

definition expandMappingToCache ::
    "(gostring \<Rightarrow> gostring) \<Rightarrow> channel \<Rightarrow> int64 \<Rightarrow> gostring \<Rightarrow> channel_cache \<Rightarrow> channel_cache" where
  "expandMappingToCache uni ch gid platform =
     fold (\<lambda>mp cache. case map_of (ch_ModelMapping ch) mp of
             None \<Rightarrow> cache | Some m \<Rightarrow> fold (add_mapping uni gid mp) m cache) (matchingPlatforms platform)"

definition platform_of :: "(int64 \<rightharpoonup> gostring) \<Rightarrow> int64 \<Rightarrow> gostring" where
  "platform_of groupPlatforms gid = (case groupPlatforms gid of Some p \<Rightarrow> p | None \<Rightarrow> [])"

definition add_group :: "(gostring \<Rightarrow> gostring) \<Rightarrow> (int64 \<rightharpoonup> gostring) \<Rightarrow> channel \<Rightarrow> int64 \<Rightarrow> channel_cache \<Rightarrow> channel_cache" where
  "add_group uni groupPlatforms ch gid cache =
     (let c1 = cache\<lparr>cc_channelByGroupID := (cc_channelByGroupID cache)(gid \<mapsto> ch)\<rparr>;
          platform = platform_of groupPlatforms gid
      in expandMappingToCache uni ch gid platform (expandPricingToCache uni ch gid platform c1))"

definition add_channel :: "(gostring \<Rightarrow> gostring) \<Rightarrow> (int64 \<rightharpoonup> gostring) \<Rightarrow> channel \<Rightarrow> channel_cache \<Rightarrow> channel_cache" where
  "add_channel uni groupPlatforms c cache =
     (let ch = normalizeBillingModelSource c in
      fold (add_group uni groupPlatforms ch) (ch_GroupIDs ch) (cache\<lparr>cc_byID := (cc_byID cache)(ch_ID ch \<mapsto> ch)\<rparr>))"

definition populateChannelCache ::
    "(gostring \<Rightarrow> gostring) \<Rightarrow> time \<Rightarrow> channel list \<Rightarrow> (int64 \<rightharpoonup> gostring) \<Rightarrow> channel_cache" where
  "populateChannelCache uni now channels groupPlatforms =
     fold (add_channel uni groupPlatforms) channels
       (newEmptyChannelCache\<lparr>cc_groupPlatform := groupPlatforms, cc_loadedAt := now\<rparr>)"

subsection \<open>Lookups in the cache\<close>

definition matchWildcard :: "channel_cache \<Rightarrow> int64 \<Rightarrow> gostring \<Rightarrow> gostring \<Rightarrow> channel_pricing option" where
  "matchWildcard cache groupID platform modelLower =
     map_option snd (find (\<lambda>(p, _). prefix p modelLower) (cc_wildcardByGroupPlatform cache (groupID, platform)))"

definition matchWildcardMapping :: "channel_cache \<Rightarrow> int64 \<Rightarrow> gostring \<Rightarrow> gostring \<Rightarrow> gostring" where
  "matchWildcardMapping cache groupID platform modelLower =
     (case find (\<lambda>(p, _). prefix p modelLower) (cc_wildcardMappingByGP cache (groupID, platform)) of
        Some (_, target) \<Rightarrow> target | None \<Rightarrow> [])"

definition lookupPricingAcrossPlatforms ::
    "channel_cache \<Rightarrow> int64 \<Rightarrow> gostring \<Rightarrow> gostring \<Rightarrow> channel_pricing option" where
  "lookupPricingAcrossPlatforms cache groupID groupPlatform modelLower =
     (case first_some (map (\<lambda>p. cc_pricingByGroupModel cache (groupID, p, modelLower)) (matchingPlatforms groupPlatform)) of
        Some pricing \<Rightarrow> Some pricing
      | None \<Rightarrow> first_some (map (\<lambda>p. matchWildcard cache groupID p modelLower) (matchingPlatforms groupPlatform)))"

definition lookupMappingAcrossPlatforms :: "channel_cache \<Rightarrow> int64 \<Rightarrow> gostring \<Rightarrow> gostring \<Rightarrow> gostring" where
  "lookupMappingAcrossPlatforms cache groupID groupPlatform modelLower =
     (case first_some (map (\<lambda>p. cc_mappingByGroupModel cache (groupID, p, modelLower)) (matchingPlatforms groupPlatform)) of
        Some mapped \<Rightarrow> mapped
      | None \<Rightarrow>
          (case find (\<lambda>m. m \<noteq> []) (map (\<lambda>p. matchWildcardMapping cache groupID p modelLower) (matchingPlatforms groupPlatform)) of
             Some mapped \<Rightarrow> mapped | None \<Rightarrow> []))"

record channel_mapping_result =
  mr_MappedModel :: gostring
  mr_ChannelID :: int64
  mr_Mapped :: bool
  mr_BillingModelSource :: gostring

definition unmapped :: "gostring \<Rightarrow> channel_mapping_result" where
  "unmapped model = \<lparr>mr_MappedModel = model, mr_ChannelID = 0, mr_Mapped = False, mr_BillingModelSource = []\<rparr>"

definition arrow :: gostring where "arrow = [CHR 0xE2, CHR 0x86, CHR 0x92]"

definition BuildModelMappingChain :: "channel_mapping_result \<Rightarrow> gostring \<Rightarrow> gostring \<Rightarrow> gostring" where
  "BuildModelMappingChain r reqModel upstreamModel =
     (if \<not> mr_Mapped r
      then (if upstreamModel \<noteq> [] \<and> upstreamModel \<noteq> reqModel then reqModel @ arrow @ upstreamModel else [])
      else if upstreamModel \<noteq> [] \<and> upstreamModel \<noteq> mr_MappedModel r
      then reqModel @ arrow @ mr_MappedModel r @ arrow @ upstreamModel
      else reqModel @ arrow @ mr_MappedModel r)"

record channel_usage_fields =
  cu_ChannelID :: int64
  cu_OriginalModel :: gostring
  cu_ChannelMappedModel :: gostring
  cu_BillingModelSource :: gostring
  cu_ModelMappingChain :: gostring

definition ToUsageFields :: "channel_mapping_result \<Rightarrow> gostring \<Rightarrow> gostring \<Rightarrow> channel_usage_fields" where
  "ToUsageFields r reqModel upstreamModel =
     \<lparr>cu_ChannelID = mr_ChannelID r, cu_OriginalModel = reqModel,
      cu_ChannelMappedModel = (if mr_Mapped r then mr_MappedModel r else reqModel),
      cu_BillingModelSource = mr_BillingModelSource r, cu_ModelMappingChain = BuildModelMappingChain r reqModel upstreamModel\<rparr>"

record channel_lookup =
  lk_cache :: channel_cache
  lk_channel :: channel
  lk_platform :: gostring

definition find_channel :: "channel_cache \<Rightarrow> int64 \<Rightarrow> channel_lookup option" where
  "find_channel cache groupID =
     (case cc_channelByGroupID cache groupID of
        None \<Rightarrow> None
      | Some ch \<Rightarrow> if \<not> ch_IsActive ch then None
                  else Some \<lparr>lk_cache = cache, lk_channel = ch, lk_platform = platform_of (cc_groupPlatform cache) groupID\<rparr>)"

definition resolveMapping :: "(gostring \<Rightarrow> gostring) \<Rightarrow> channel_lookup \<Rightarrow> int64 \<Rightarrow> gostring \<Rightarrow> channel_mapping_result" where
  "resolveMapping uni lk groupID model =
     (let mapped = lookupMappingAcrossPlatforms (lk_cache lk) groupID (lk_platform lk) (ToLower uni model) in
      \<lparr>mr_MappedModel = (if mapped \<noteq> [] then mapped else model), mr_ChannelID = ch_ID (lk_channel lk),
       mr_Mapped = (mapped \<noteq> []), mr_BillingModelSource = ch_BillingModelSource (lk_channel lk)\<rparr>)"

definition checkRestricted :: "(gostring \<Rightarrow> gostring) \<Rightarrow> channel_lookup \<Rightarrow> int64 \<Rightarrow> gostring \<Rightarrow> bool" where
  "checkRestricted uni lk groupID model \<longleftrightarrow>
     ch_RestrictModels (lk_channel lk)
     \<and> lookupPricingAcrossPlatforms (lk_cache lk) groupID (lk_platform lk) (ToLower uni model) = None"

end
