(* ===== verification/ModelNames.thy ===== *)
theory ModelNames
  imports Channel
begin

text \<open>
  Names of models: the string functions of Go's library the pricing code uses, the spelling and families of OpenAI models
  (\<open>internal/service/openai_model_alias.go\<close>, \<open>openai_codex_transform.go\<close>) and the lookups of a name in the price list
  (\<open>pricing_service.go\<close>). The price list is a Go map, here the list of its entries in the order the call visits them.
\<close>

subsection \<open>Strings\<close>

definition Contains :: "gostring \<Rightarrow> gostring \<Rightarrow> bool" where "Contains s sub \<longleftrightarrow> sublist sub s"

definition TrimPrefix :: "gostring \<Rightarrow> gostring \<Rightarrow> gostring" where
  "TrimPrefix s p = (if prefix p s then drop (length p) s else s)"

definition TrimSuffix :: "gostring \<Rightarrow> gostring \<Rightarrow> gostring" where
  "TrimSuffix s p = (if suffix p s then take (length s - length p) s else s)"

text \<open>\<open>strings.ReplaceAll\<close> with a pattern that is not empty.\<close>

function ReplaceAll :: "gostring \<Rightarrow> gostring \<Rightarrow> gostring \<Rightarrow> gostring" where
  "ReplaceAll old new [] = []"
| "ReplaceAll old new (c # s) =
     (if old \<noteq> [] \<and> prefix old (c # s) then new @ ReplaceAll old new (drop (length old - 1) s)
      else c # ReplaceAll old new s)"
  by pat_completeness auto
termination
  by (relation "measure (\<lambda>(_, _, s). length s)") auto

fun Split :: "char \<Rightarrow> gostring \<Rightarrow> gostring list" where
  "Split sep [] = [[]]"
| "Split sep (c # s) = (if c = sep then [] # Split sep s else (case Split sep s of p # ps \<Rightarrow> (c # p) # ps | [] \<Rightarrow> [[c]]))"

fun Join :: "gostring \<Rightarrow> gostring list \<Rightarrow> gostring" where
  "Join sep [] = []"
| "Join sep [x] = x"
| "Join sep (x # y # ys) = x @ sep @ Join sep (y # ys)"

text \<open>\<open>strings.Fields\<close>: \<open>cur\<close> is the field read so far.\<close>

lemma strip_one_shorter: "list_all (\<lambda>p. p \<noteq> []) ps \<Longrightarrow> strip_one ps s = Some t \<Longrightarrow> length t < length s"
  by (induction ps) (auto simp: prefix_def split: if_splits)

lemma space_seqs_nonempty: "list_all (\<lambda>p. p \<noteq> []) space_seqs"
  by (simp add: space_seqs_def)

function fields_from :: "gostring \<Rightarrow> gostring \<Rightarrow> gostring list" where
  "fields_from cur s =
     (case strip_one space_seqs s of
        Some t \<Rightarrow> (if cur = [] then [] else [cur]) @ fields_from [] t
      | None \<Rightarrow> (case s of [] \<Rightarrow> (if cur = [] then [] else [cur]) | c # t \<Rightarrow> fields_from (cur @ [c]) t))"
  by pat_completeness auto
termination
  by (relation "measure (\<lambda>(_, s). length s)") (auto intro: strip_one_shorter [OF space_seqs_nonempty])

declare fields_from.simps [simp del]

definition Fields :: "gostring \<Rightarrow> gostring list" where "Fields s = fields_from [] s"

text \<open>What follows the last occurrence of a separator.\<close>

fun after_last :: "gostring \<Rightarrow> gostring \<Rightarrow> gostring option" where
  "after_last sep [] = None"
| "after_last sep (c # s) = (case after_last sep s of
     Some t \<Rightarrow> Some t | None \<Rightarrow> if prefix sep (c # s) then Some (drop (length sep) (c # s)) else None)"

definition isNumeric :: "gostring \<Rightarrow> bool" where "isNumeric s = list_all is_digit s"

subsection \<open>OpenAI model names\<close>

definition lastOpenAIModelSegment :: "gostring \<Rightarrow> gostring" where
  "lastOpenAIModelSegment model =
     (let m = trim_space model in
      if m = [] then [] else trim_space (if Contains m ''/'' then last (Split (CHR 0x2F) m) else m))"

lemma ReplaceAll_shrinks:
  assumes "length new < length old"
  shows "length (ReplaceAll old new s) \<le> length s \<and> (Contains s old \<longrightarrow> length (ReplaceAll old new s) < length s)"
  using assms
proof (induction old new s rule: ReplaceAll.induct)
  case (1 old new)
  then show ?case by (auto simp: Contains_def)
next
  case (2 old new c s)
  show ?case
  proof (cases "old \<noteq> [] \<and> prefix old (c # s)")
    case True
    then have "length old \<le> length (c # s)" by (auto dest: prefix_length_le)
    then have "length (ReplaceAll old new (drop (length old - 1) s)) \<le> Suc (length s) - length old"
      using 2(1) [OF True 2(3)] True by (auto simp: le_diff_conv)
    then have "length new + length (ReplaceAll old new (drop (length old - 1) s)) < Suc (length s)"
      using 2(3) \<open>length old \<le> length (c # s)\<close> by simp
    then show ?thesis using True by simp
  next
    case False
    then have "Contains (c # s) old \<longrightarrow> Contains s old" by (auto simp: Contains_def sublist_Cons_right)
    then show ?thesis using 2(2) [OF False 2(3)] False by auto
  qed
qed

text \<open>The loop that folds repeated dashes.\<close>

function fold_dashes :: "gostring \<Rightarrow> gostring" where
  "fold_dashes s = (if Contains s ''--'' then fold_dashes (ReplaceAll ''--'' ''-'' s) else s)"
  by auto
termination
  by (relation "measure length") (use ReplaceAll_shrinks [of "''-''" "''--''"] in auto)

declare fold_dashes.simps [simp del]

definition alias_replacements :: "(gostring \<times> gostring) list" where
  "alias_replacements = [(''gpt-5.4mini'', ''gpt-5.4-mini''), (''gpt-5.4nano'', ''gpt-5.4-nano''),
     (''gpt-5.3-codexspark'', ''gpt-5.3-codex-spark''), (''gpt-5.3codexspark'', ''gpt-5.3-codex-spark''),
     (''gpt-5.3codex'', ''gpt-5.3-codex'')]"

definition canonicalizeOpenAIModelAliasSpelling :: "(gostring \<Rightarrow> gostring) \<Rightarrow> gostring \<Rightarrow> gostring" where
  "canonicalizeOpenAIModelAliasSpelling uni model0 =
     (let model = ToLower uni (lastOpenAIModelSegment model0) in
      if model = [] then []
      else
        let n1 = fold_dashes (Join ''-'' (Fields (ReplaceAll ''_'' ''-'' model)));
            n2 = (if prefix ''gpt5'' n1 then ''gpt-5'' @ TrimPrefix n1 ''gpt5'' else n1)
        in if \<not> prefix ''gpt-'' n2 \<and> \<not> Contains n2 ''codex'' then []
           else fold (\<lambda>(a, b) n. ReplaceAll a b n) alias_replacements n2)"

definition codexModelMap :: "(gostring \<times> gostring) list" where
  "codexModelMap = [(''gpt-5.5'', ''gpt-5.5''), (''gpt-5.4'', ''gpt-5.4''), (''gpt-5.4-mini'', ''gpt-5.4-mini''),
     (''gpt-5.4-none'', ''gpt-5.4''), (''gpt-5.4-low'', ''gpt-5.4''), (''gpt-5.4-medium'', ''gpt-5.4''),
     (''gpt-5.4-high'', ''gpt-5.4''), (''gpt-5.4-xhigh'', ''gpt-5.4''), (''gpt-5.4-chat-latest'', ''gpt-5.4''),
     (''gpt-5.3'', ''gpt-5.3-codex''), (''gpt-5.3-none'', ''gpt-5.3-codex''), (''gpt-5.3-low'', ''gpt-5.3-codex''),
     (''gpt-5.3-medium'', ''gpt-5.3-codex''), (''gpt-5.3-high'', ''gpt-5.3-codex''), (''gpt-5.3-xhigh'', ''gpt-5.3-codex''),
     (''gpt-5.3-codex'', ''gpt-5.3-codex''), (''gpt-5.3-codex-spark'', ''gpt-5.3-codex-spark''),
     (''gpt-5.3-codex-spark-low'', ''gpt-5.3-codex-spark''), (''gpt-5.3-codex-spark-medium'', ''gpt-5.3-codex-spark''),
     (''gpt-5.3-codex-spark-high'', ''gpt-5.3-codex-spark''), (''gpt-5.3-codex-spark-xhigh'', ''gpt-5.3-codex-spark''),
     (''gpt-5.3-codex-low'', ''gpt-5.3-codex''), (''gpt-5.3-codex-medium'', ''gpt-5.3-codex''),
     (''gpt-5.3-codex-high'', ''gpt-5.3-codex''), (''gpt-5.3-codex-xhigh'', ''gpt-5.3-codex''),
     (''gpt-5.2'', ''gpt-5.2''), (''gpt-5.2-none'', ''gpt-5.2''), (''gpt-5.2-low'', ''gpt-5.2''),
     (''gpt-5.2-medium'', ''gpt-5.2''), (''gpt-5.2-high'', ''gpt-5.2''), (''gpt-5.2-xhigh'', ''gpt-5.2''),
     (''gpt-5'', ''gpt-5.4''), (''gpt-5-mini'', ''gpt-5.4''), (''gpt-5-nano'', ''gpt-5.4''), (''gpt-5.1'', ''gpt-5.4''),
     (''gpt-5.1-codex'', ''gpt-5.3-codex''), (''gpt-5.1-codex-max'', ''gpt-5.3-codex''),
     (''gpt-5.1-codex-mini'', ''gpt-5.3-codex''), (''gpt-5.2-codex'', ''gpt-5.2''), (''codex-mini-latest'', ''gpt-5.3-codex''),
     (''gpt-5-codex'', ''gpt-5.3-codex'')]"

definition codexModelLookupKey :: "(gostring \<Rightarrow> gostring) \<Rightarrow> gostring \<Rightarrow> gostring" where
  "codexModelLookupKey uni modelID =
     (let m = trim_space modelID in
      if m = [] then []
      else ToLower uni (Join ''-'' (Fields (if Contains m ''/'' then last (Split (CHR 0x2F) m) else m))))"

definition getNormalizedCodexModel :: "(gostring \<Rightarrow> gostring) \<Rightarrow> gostring \<Rightarrow> gostring" where
  "getNormalizedCodexModel uni modelID =
     (let key = codexModelLookupKey uni modelID in
      if key = [] then [] else case map_of codexModelMap key of Some mapped \<Rightarrow> mapped | None \<Rightarrow> [])"

text \<open>The families a name is put into by what it contains, in the order they are tried.\<close>

definition known_families :: "(gostring \<times> gostring) list" where
  "known_families = [(''gpt-5.5'', ''gpt-5.5''), (''gpt-5.4-mini'', ''gpt-5.4-mini''), (''gpt-5.4-nano'', ''gpt-5.4-nano''),
     (''gpt-5.4'', ''gpt-5.4''), (''gpt-5.2'', ''gpt-5.2''), (''gpt-5.3-codex-spark'', ''gpt-5.3-codex-spark''),
     (''gpt-5.3-codex'', ''gpt-5.3-codex''), (''gpt-5.3'', ''gpt-5.3-codex''), (''codex'', ''gpt-5.3-codex''), (''gpt-5'', ''gpt-5.4'')]"

definition normalizeKnownOpenAICodexModel :: "(gostring \<Rightarrow> gostring) \<Rightarrow> gostring \<Rightarrow> gostring" where
  "normalizeKnownOpenAICodexModel uni model =
     (let n = canonicalizeOpenAIModelAliasSpelling uni model in
      if n = [] then []
      else if getNormalizedCodexModel uni n \<noteq> [] then getNormalizedCodexModel uni n
      else if suffix ''-openai-compact'' n \<and> getNormalizedCodexModel uni (TrimSuffix n ''-openai-compact'') \<noteq> []
      then getNormalizedCodexModel uni (TrimSuffix n ''-openai-compact'')
      else case find (\<lambda>(sub, _). Contains n sub) known_families of Some (_, family) \<Rightarrow> family | None \<Rightarrow> [])"

definition isOpenAIGPT54Model :: "(gostring \<Rightarrow> gostring) \<Rightarrow> gostring \<Rightarrow> bool" where
  "isOpenAIGPT54Model uni model \<longleftrightarrow> normalizeKnownOpenAICodexModel uni model \<in> {''gpt-5.4'', ''gpt-5.5''}"

definition isOpenAIImageGenerationModel :: "(gostring \<Rightarrow> gostring) \<Rightarrow> gostring \<Rightarrow> bool" where
  "isOpenAIImageGenerationModel uni model \<longleftrightarrow> prefix ''gpt-image-'' (ToLower uni (trim_space model))"

definition add_candidate :: "(gostring \<Rightarrow> gostring) \<Rightarrow> gostring \<Rightarrow> gostring list \<Rightarrow> gostring list" where
  "add_candidate uni candidate0 candidates =
     (let candidate = trim_space candidate0 in
      if candidate = [] \<or> list_ex (\<lambda>c. ToLower uni c = ToLower uni candidate) candidates then candidates
      else candidates @ [candidate])"

definition appendUsageBillingModelCandidate :: "(gostring \<Rightarrow> gostring) \<Rightarrow> gostring \<Rightarrow> gostring list \<Rightarrow> gostring list" where
  "appendUsageBillingModelCandidate uni model candidates =
     (let trimmed = trim_space model in
      if trimmed = [] then candidates
      else
        let c1 = add_candidate uni trimmed candidates;
            canonical = canonicalizeOpenAIModelAliasSpelling uni trimmed;
            c2 = (if canonical \<noteq> [] then add_candidate uni canonical c1 else c1);
            normalized = normalizeKnownOpenAICodexModel uni trimmed
        in if normalized \<noteq> [] then add_candidate uni normalized c2 else c2)"

definition usageBillingModelCandidates :: "(gostring \<Rightarrow> gostring) \<Rightarrow> gostring \<Rightarrow> gostring list \<Rightarrow> gostring list" where
  "usageBillingModelCandidates uni primary alternates =
     fold (appendUsageBillingModelCandidate uni) alternates (appendUsageBillingModelCandidate uni primary [])"

definition firstUsageBillingModel :: "gostring list \<Rightarrow> gostring" where
  "firstUsageBillingModel candidates =
     (case find (\<lambda>c. trim_space c \<noteq> []) candidates of Some c \<Rightarrow> trim_space c | None \<Rightarrow> [])"

subsection \<open>The price list\<close>

record litellm =
  ll_InputCostPerToken :: f64
  ll_InputCostPerTokenPriority :: f64
  ll_OutputCostPerToken :: f64
  ll_OutputCostPerTokenPriority :: f64
  ll_CacheCreationInputTokenCost :: f64
  ll_CacheCreationInputTokenCostAbove1hr :: f64
  ll_CacheReadInputTokenCost :: f64
  ll_CacheReadInputTokenCostPriority :: f64
  ll_LongContextInputTokenThreshold :: int
  ll_LongContextInputCostMultiplier :: f64
  ll_LongContextOutputCostMultiplier :: f64
  ll_OutputCostPerImage :: f64
  ll_OutputCostPerImageToken :: f64

type_synonym price_list = "(gostring \<times> litellm) list"

definition no_price :: litellm where
  "no_price = \<lparr>ll_InputCostPerToken = Fin 0, ll_InputCostPerTokenPriority = Fin 0, ll_OutputCostPerToken = Fin 0,
     ll_OutputCostPerTokenPriority = Fin 0, ll_CacheCreationInputTokenCost = Fin 0,
     ll_CacheCreationInputTokenCostAbove1hr = Fin 0, ll_CacheReadInputTokenCost = Fin 0,
     ll_CacheReadInputTokenCostPriority = Fin 0, ll_LongContextInputTokenThreshold = 0,
     ll_LongContextInputCostMultiplier = Fin 0, ll_LongContextOutputCostMultiplier = Fin 0,
     ll_OutputCostPerImage = Fin 0, ll_OutputCostPerImageToken = Fin 0\<rparr>"

definition openAIGPT54FallbackPricing :: litellm where
  "openAIGPT54FallbackPricing = no_price\<lparr>ll_InputCostPerToken := f64_of_rat (25 / 10 ^ 7),
     ll_OutputCostPerToken := f64_of_rat (15 / 10 ^ 6), ll_CacheReadInputTokenCost := f64_of_rat (25 / 10 ^ 8),
     ll_LongContextInputTokenThreshold := 272000, ll_LongContextInputCostMultiplier := Fin 2,
     ll_LongContextOutputCostMultiplier := Fin (3 / 2)\<rparr>"

definition openAIGPT54MiniFallbackPricing :: litellm where
  "openAIGPT54MiniFallbackPricing = no_price\<lparr>ll_InputCostPerToken := f64_of_rat (75 / 10 ^ 8),
     ll_OutputCostPerToken := f64_of_rat (45 / 10 ^ 7), ll_CacheReadInputTokenCost := f64_of_rat (75 / 10 ^ 9)\<rparr>"

definition openAIGPT54NanoFallbackPricing :: litellm where
  "openAIGPT54NanoFallbackPricing = no_price\<lparr>ll_InputCostPerToken := f64_of_rat (2 / 10 ^ 7),
     ll_OutputCostPerToken := f64_of_rat (125 / 10 ^ 8), ll_CacheReadInputTokenCost := f64_of_rat (2 / 10 ^ 8)\<rparr>"

text \<open>An entry of the downloaded document, and reading the document: an entry that does not decode is None.\<close>

record litellm_raw =
  lr_InputCostPerToken :: "f64 option"
  lr_InputCostPerTokenPriority :: "f64 option"
  lr_OutputCostPerToken :: "f64 option"
  lr_OutputCostPerTokenPriority :: "f64 option"
  lr_CacheCreationInputTokenCost :: "f64 option"
  lr_CacheCreationInputTokenCostAbove1hr :: "f64 option"
  lr_CacheReadInputTokenCost :: "f64 option"
  lr_CacheReadInputTokenCostPriority :: "f64 option"
  lr_OutputCostPerImage :: "f64 option"
  lr_OutputCostPerImageToken :: "f64 option"

definition parsed_price :: "litellm_raw \<Rightarrow> litellm" where
  "parsed_price r =
     (let v = (\<lambda>x. case x of Some y \<Rightarrow> y | None \<Rightarrow> Fin 0) in
      no_price\<lparr>ll_InputCostPerToken := v (lr_InputCostPerToken r), ll_InputCostPerTokenPriority := v (lr_InputCostPerTokenPriority r),
        ll_OutputCostPerToken := v (lr_OutputCostPerToken r), ll_OutputCostPerTokenPriority := v (lr_OutputCostPerTokenPriority r),
        ll_CacheCreationInputTokenCost := v (lr_CacheCreationInputTokenCost r),
        ll_CacheCreationInputTokenCostAbove1hr := v (lr_CacheCreationInputTokenCostAbove1hr r),
        ll_CacheReadInputTokenCost := v (lr_CacheReadInputTokenCost r),
        ll_CacheReadInputTokenCostPriority := v (lr_CacheReadInputTokenCostPriority r),
        ll_OutputCostPerImage := v (lr_OutputCostPerImage r), ll_OutputCostPerImageToken := v (lr_OutputCostPerImageToken r)\<rparr>)"

definition parsePricingData :: "(gostring \<times> litellm_raw option) list option \<Rightarrow> price_list result" where
  "parsePricingData decoded =
     (case decoded of
        None \<Rightarrow> Inl (EPlain ''parse raw JSON'')
      | Some entries \<Rightarrow>
          (let kept = concat (map (\<lambda>(name, entry). case entry of
                 None \<Rightarrow> []
               | Some r \<Rightarrow> if name = ''sample_spec'' \<or> (lr_InputCostPerToken r = None \<and> lr_OutputCostPerToken r = None) then []
                          else [(name, parsed_price r)]) entries)
           in if kept = [] then Inl (EPlain ''no valid pricing entries found'') else Inr kept))"

definition normalizeModelNameForPricing :: "(gostring \<Rightarrow> gostring) \<Rightarrow> gostring \<Rightarrow> gostring" where
  "normalizeModelNameForPricing uni model =
     (let slash = (\<lambda>c. c = CHR 0x2F);
          m1 = TrimPrefix (TrimPrefix (dropWhile slash (trim_space model)) ''models/'') ''publishers/google/models/'';
          m2 = (case after_last ''/publishers/google/models/'' m1 of Some t \<Rightarrow> t | None \<Rightarrow> m1);
          m3 = (case after_last ''/models/'' m2 of Some t \<Rightarrow> t | None \<Rightarrow> m2);
          m4 = dropWhile slash m3; canonical = canonicalizeOpenAIModelAliasSpelling uni m4
      in if canonical \<noteq> [] then canonical else m4)"

definition lastSegment :: "gostring \<Rightarrow> gostring" where
  "lastSegment model = (case after_last ''/'' model of Some t \<Rightarrow> t | None \<Rightarrow> model)"

definition buildModelLookupCandidates :: "(gostring \<Rightarrow> gostring) \<Rightarrow> gostring \<Rightarrow> gostring list" where
  "buildModelLookupCandidates uni modelLower =
     (let out = rev (remdups (rev (filter (\<lambda>c. c \<noteq> []) (map trim_space
            [normalizeModelNameForPricing uni modelLower, modelLower, TrimPrefix modelLower ''models/'', lastSegment modelLower,
             lastSegment (TrimPrefix modelLower ''models/'')]))))
      in if out = [] then [modelLower] else out)"

definition extractBaseName :: "gostring \<Rightarrow> gostring" where
  "extractBaseName model = Join ''-'' (filter (\<lambda>part. \<not> (length part = 8 \<and> isNumeric part) \<and> \<not> Contains part '':'')
     (Split (CHR ''-'') model))"

text \<open>Name, patterns that put a model into the family, patterns its price is looked up by.\<close>

definition model_families :: "(gostring \<times> gostring list \<times> gostring list) list" where
  "model_families =
     [(''opus-4.7'', [''claude-opus-4-7'', ''claude-opus-4.7''], [''claude-opus-4-7'', ''claude-opus-4.7'', ''claude-opus-4-6'']),
      (''opus-4.6'', [''claude-opus-4-6'', ''claude-opus-4.6''], [''claude-opus-4-6'', ''claude-opus-4.6'']),
      (''opus-4.5'', [''claude-opus-4-5'', ''claude-opus-4.5''], [''claude-opus-4-5'', ''claude-opus-4.5'']),
      (''opus-4'', [''claude-opus-4'', ''claude-3-opus''], [''claude-opus-4'', ''claude-3-opus'']),
      (''sonnet-4.5'', [''claude-sonnet-4-5'', ''claude-sonnet-4.5''], [''claude-sonnet-4-5'', ''claude-sonnet-4.5'']),
      (''sonnet-4'', [''claude-sonnet-4'', ''claude-3-5-sonnet''], [''claude-sonnet-4'', ''claude-3-5-sonnet'']),
      (''sonnet-3.5'', [''claude-3-5-sonnet'', ''claude-3.5-sonnet''], [''claude-3-5-sonnet'', ''claude-3.5-sonnet'']),
      (''sonnet-3'', [''claude-3-sonnet''], [''claude-3-sonnet'']),
      (''haiku-3.5'', [''claude-3-5-haiku'', ''claude-3.5-haiku''], [''claude-3-5-haiku'', ''claude-3.5-haiku'']),
      (''haiku-3'', [''claude-3-haiku''], [''claude-3-haiku''])]"

definition family_by_keyword :: "gostring \<Rightarrow> gostring" where
  "family_by_keyword model =
     (let has = Contains model in
      if has ''opus'' then
        (if has ''4.7'' \<or> has ''4-7'' then ''opus-4.7'' else if has ''4.6'' \<or> has ''4-6'' then ''opus-4.6''
         else if has ''4.5'' \<or> has ''4-5'' then ''opus-4.5'' else ''opus-4'')
      else if has ''sonnet'' then
        (if has ''4.5'' \<or> has ''4-5'' then ''sonnet-4.5'' else if has ''3-5'' \<or> has ''3.5'' then ''sonnet-3.5'' else ''sonnet-4'')
      else if has ''haiku'' then (if has ''3-5'' \<or> has ''3.5'' then ''haiku-3.5'' else ''haiku-3'')
      else [])"

definition family_of :: "gostring \<Rightarrow> (gostring \<times> gostring list \<times> gostring list) option" where
  "family_of model =
     (case find (\<lambda>(_, pats, _). list_ex (\<lambda>p. Contains model p \<or> Contains model (ReplaceAll ''-'' [] p)) pats) model_families of
        Some f \<Rightarrow> Some f
      | None \<Rightarrow> find (\<lambda>(n, _, _). n = family_by_keyword model) model_families)"

definition matchByModelFamily :: "(gostring \<Rightarrow> gostring) \<Rightarrow> price_list \<Rightarrow> gostring \<Rightarrow> litellm option" where
  "matchByModelFamily uni prices model =
     (case family_of model of
        None \<Rightarrow> None
      | Some (_, _, lookups) \<Rightarrow>
          first_some (map (\<lambda>p. map_option snd (find (\<lambda>(key, _). Contains (ToLower uni key) p) prices)) lookups))"

text \<open>\<open>-\d{8}$\<close> removed; the group of \<open>^(gpt-\d+(?:\.\d+)?)(?:-|$)\<close>, which can match in one way only.\<close>

definition without_date :: "gostring \<Rightarrow> gostring" where
  "without_date model =
     (let n = length model - 9; tail = drop n model in
      if 9 \<le> length model \<and> hd tail = CHR ''-'' \<and> isNumeric (tl tail) then take n model else model)"

definition base_pattern :: "gostring \<Rightarrow> gostring option" where
  "base_pattern model =
     (if \<not> prefix ''gpt-'' model then None
      else
        let rest = drop 4 model; ds = takeWhile is_digit rest; r1 = dropWhile is_digit rest;
            fraction = (case r1 of c # t \<Rightarrow> if c = CHR ''.'' \<and> takeWhile is_digit t \<noteq> [] then CHR ''.'' # takeWhile is_digit t else []
                                 | [] \<Rightarrow> []);
            r2 = drop (length fraction) r1
        in if ds \<noteq> [] \<and> (r2 = [] \<or> hd r2 = CHR ''-'') then Some (''gpt-'' @ ds @ fraction) else None)"

definition generateOpenAIModelVariants :: "gostring \<Rightarrow> gostring list" where
  "generateOpenAIModelVariants model =
     (let w = without_date model in
      rev (remdups (rev (filter (\<lambda>v. v \<noteq> model)
        ((if w \<noteq> model then [w] else [])
         @ (case base_pattern model of Some b \<Rightarrow> [b] | None \<Rightarrow> [])
         @ (if w \<noteq> model then (case base_pattern w of Some b \<Rightarrow> [b] | None \<Rightarrow> []) else []))))))"

definition DefaultTestModel :: gostring where "DefaultTestModel = ''gpt-5.4''"

definition matchOpenAIModel :: "(gostring \<Rightarrow> gostring) \<Rightarrow> price_list \<Rightarrow> gostring \<Rightarrow> litellm option" where
  "matchOpenAIModel uni prices model =
     (let starts = (\<lambda>p. prefix p model); listed = map_of prices in
      first_some
        [if starts ''gpt-5.3-codex-spark'' then listed ''gpt-5.1-codex'' else None,
         first_some (map listed (generateOpenAIModelVariants model)),
         if starts ''gpt-5.3-codex'' then listed ''gpt-5.2-codex'' else None,
         if starts ''gpt-5.5'' then Some openAIGPT54FallbackPricing
         else if starts ''gpt-5.4-mini'' then Some openAIGPT54MiniFallbackPricing
         else if starts ''gpt-5.4-nano'' then Some openAIGPT54NanoFallbackPricing
         else if starts ''gpt-5.4'' then Some openAIGPT54FallbackPricing
         else if isOpenAIImageGenerationModel uni model
         then first_some (map listed [''gpt-image-2'', ''gpt-image-1.5'', ''gpt-image-1''])
         else listed (ToLower uni DefaultTestModel)])"

definition ps_GetModelPricing :: "(gostring \<Rightarrow> gostring) \<Rightarrow> price_list \<Rightarrow> gostring \<Rightarrow> litellm option" where
  "ps_GetModelPricing uni prices modelName =
     (if modelName = [] then None
      else
        let candidates = buildModelLookupCandidates uni (ToLower uni (trim_space modelName)); best = hd candidates in
        first_some
          [first_some (map (\<lambda>c. if c = [] then None else map_of prices c) candidates),
           first_some (map (\<lambda>c. map_of prices (ReplaceAll ''-4-5-'' ''-4.5-'' c)) candidates),
           map_option snd (find (\<lambda>(key, _). extractBaseName (ToLower uni key) = extractBaseName best) prices),
           matchByModelFamily uni prices best,
           if prefix ''gpt-'' best then matchOpenAIModel uni prices best else None])"

end
