(* ===== verification/ChannelService.thy ===== *)
theory ChannelService
  imports Channel
begin

text \<open>
  The channel store of \<open>internal/repository/channel_repo.go\<close> (with its pricing files) and the service of
  \<open>internal/service/channel_service.go\<close>: loading the cache, looking prices, mappings and restrictions up, and creating,
  updating and deleting channels.

  The tables of channels, their groups, prices, intervals and rules are one list of joined rows in id order. Its unique
  indexes (the name, and the group of \<open>channel_groups\<close>) and the reference to \<open>groups\<close> are checked by the statements.
  \<open>ce_fault\<close> gives the outcome of each call, \<open>ce_column n\<close> what a price becomes in a column of n decimals, \<open>ce_arrange\<close> is
  \<open>sort.Slice\<close>. A nil slice and an empty one differ only in whether an update rewrites the rows, which \<open>upd_sets\<close> says.
\<close>

datatype channel_call = KListAll | KPlatforms | KExistsByName | KConflicts | KCreate | KGet | KUpdate | KGroupIDs | KDelete | KGetAfter

record channel_env =
  ce_fault :: "channel_call \<Rightarrow> fault"
  ce_now :: time
  ce_uni :: "gostring \<Rightarrow> gostring"
  ce_arrange :: "pricing_interval list \<Rightarrow> pricing_interval list"
  ce_column :: "nat \<Rightarrow> f64 \<Rightarrow> f64"
  ce_authCache :: bool

record channel_db =
  cd_rows :: "channel list"
  cd_next :: int64
  cd_groups :: "(int64 \<times> gostring) list"

definition ErrChannelNotFound :: app_error where "ErrChannelNotFound = NotFound ''CHANNEL_NOT_FOUND'' ''channel not found''"
definition ErrChannelExists :: app_error where "ErrChannelExists = Conflict ''CHANNEL_EXISTS'' ''channel name already exists''"
definition ErrGroupAlreadyInChannel :: app_error where
  "ErrGroupAlreadyInChannel = Conflict ''GROUP_ALREADY_IN_CHANNEL'' ''one or more groups already belong to another channel''"

subsection \<open>The repository\<close>

text \<open>Intervals are read in the order of \<open>sort_order\<close> and id.\<close>

definition stored_interval :: "channel_env \<Rightarrow> pricing_interval \<Rightarrow> pricing_interval" where
  "stored_interval e iv =
     (let c = map_option (ce_column e 12) in
      iv\<lparr>pi_InputPrice := c (pi_InputPrice iv), pi_OutputPrice := c (pi_OutputPrice iv),
        pi_CacheWritePrice := c (pi_CacheWritePrice iv), pi_CacheReadPrice := c (pi_CacheReadPrice iv),
        pi_PerRequestPrice := c (pi_PerRequestPrice iv)\<rparr>)"

definition stored_intervals :: "channel_env \<Rightarrow> pricing_interval list \<Rightarrow> pricing_interval list" where
  "stored_intervals e ivs = sort_key pi_SortOrder (map (stored_interval e) ivs)"

definition mode_or_token :: "gostring \<Rightarrow> gostring" where
  "mode_or_token m = (if m = [] then BillingModeToken else m)"

definition createModelPricingExec :: "channel_env \<Rightarrow> channel_pricing \<Rightarrow> channel_pricing" where
  "createModelPricingExec e p =
     (let c = map_option (ce_column e 12) in
      p\<lparr>cp_Platform := (if cp_Platform p = [] then ''anthropic'' else cp_Platform p),
        cp_BillingMode := mode_or_token (cp_BillingMode p),
        cp_InputPrice := c (cp_InputPrice p), cp_OutputPrice := c (cp_OutputPrice p),
        cp_CacheWritePrice := c (cp_CacheWritePrice p), cp_CacheReadPrice := c (cp_CacheReadPrice p),
        cp_ImageOutputPrice := map_option (ce_column e 8) (cp_ImageOutputPrice p),
        cp_PerRequestPrice := map_option (ce_column e 10) (cp_PerRequestPrice p),
        cp_Intervals := stored_intervals e (cp_Intervals p)\<rparr>)"

definition createAccountStatsModelPricingTx :: "channel_env \<Rightarrow> channel_pricing \<Rightarrow> channel_pricing" where
  "createAccountStatsModelPricingTx e p =
     (let c = map_option (ce_column e 10) in
      p\<lparr>cp_BillingMode := mode_or_token (cp_BillingMode p),
        cp_InputPrice := c (cp_InputPrice p), cp_OutputPrice := c (cp_OutputPrice p),
        cp_CacheWritePrice := c (cp_CacheWritePrice p), cp_CacheReadPrice := c (cp_CacheReadPrice p),
        cp_ImageOutputPrice := c (cp_ImageOutputPrice p), cp_PerRequestPrice := c (cp_PerRequestPrice p),
        cp_Intervals := stored_intervals e (cp_Intervals p)\<rparr>)"

definition replaceAccountStatsPricingRulesTx :: "channel_env \<Rightarrow> stats_rule list \<Rightarrow> stats_rule list" where
  "replaceAccountStatsPricingRulesTx e rules =
     sort_key sr_SortOrder (map (\<lambda>r. r\<lparr>sr_Pricing := map (createAccountStatsModelPricingTx e) (sr_Pricing r)\<rparr>) rules)"

definition GetGroupsInOtherChannels :: "int64 \<Rightarrow> int64 list \<Rightarrow> channel_db \<Rightarrow> int64 list" where
  "GetGroupsInOtherChannels channelID groupIDs db =
     filter (\<lambda>g. g \<in> set groupIDs) (concat (map ch_GroupIDs (filter (\<lambda>c. ch_ID c \<noteq> channelID) (cd_rows db))))"

definition foreign_key_violation :: go_error where
  "foreign_key_violation = EPlain ''insert or update violates foreign key constraint''"

text \<open>The rows of \<open>channel_groups\<close> a channel gets, read back in the order of the group ids.\<close>

definition setGroupIDsTx :: "int64 \<Rightarrow> int64 list \<Rightarrow> channel_db \<Rightarrow> int64 list result" where
  "setGroupIDsTx channelID groupIDs db =
     (if \<not> distinct groupIDs \<or> GetGroupsInOtherChannels channelID groupIDs db \<noteq> []
      then Inl (EWrap ''insert group associations'' unique_violation)
      else if \<not> list_all (\<lambda>g. g \<in> fst ` set (cd_groups db)) groupIDs
      then Inl (EWrap ''insert group associations'' foreign_key_violation)
      else Inr (sort groupIDs))"

definition repo_Create :: "channel_env \<Rightarrow> channel \<Rightarrow> channel_db \<Rightarrow> int64 result \<times> channel_db" where
  "repo_Create e ch = with_fault_err (ce_fault e KCreate) (\<lambda>db.
     if list_ex (\<lambda>c. ch_Name c = ch_Name ch) (cd_rows db) then (Inl (EApp ErrChannelExists), db)
     else case setGroupIDsTx (cd_next db) (ch_GroupIDs ch) db of
       Inl err \<Rightarrow> (Inl err, db)
     | Inr gids \<Rightarrow>
         (Inr (cd_next db),
          db\<lparr>cd_rows := cd_rows db @ [ch\<lparr>ch_ID := cd_next db, ch_CreatedAt := ce_now e, ch_UpdatedAt := ce_now e,
               ch_GroupIDs := gids, ch_ModelPricing := map (createModelPricingExec e) (ch_ModelPricing ch),
               ch_AccountStatsPricingRules := replaceAccountStatsPricingRulesTx e (ch_AccountStatsPricingRules ch)\<rparr>],
             cd_next := cd_next db + 1\<rparr>))"

definition repo_GetByID :: "fault \<Rightarrow> int64 \<Rightarrow> channel_db \<Rightarrow> channel result" where
  "repo_GetByID f i db = read_fault f (case find (\<lambda>c. ch_ID c = i) (cd_rows db) of
     None \<Rightarrow> Inl (EApp ErrChannelNotFound) | Some c \<Rightarrow> Inr c)"

text \<open>Which of groups, prices and rules an update rewrites.\<close>

record upd_sets =
  set_groups :: bool
  set_pricing :: bool
  set_rules :: bool

definition updated_row :: "channel_env \<Rightarrow> channel \<Rightarrow> upd_sets \<Rightarrow> int64 list \<Rightarrow> channel \<Rightarrow> channel" where
  "updated_row e ch w gids old =
     ch\<lparr>ch_ID := ch_ID old, ch_CreatedAt := ch_CreatedAt old, ch_UpdatedAt := ce_now e,
        ch_GroupIDs := (if set_groups w then gids else ch_GroupIDs old),
        ch_ModelPricing := (if set_pricing w then map (createModelPricingExec e) (ch_ModelPricing ch) else ch_ModelPricing old),
        ch_AccountStatsPricingRules := (if set_rules w
          then replaceAccountStatsPricingRulesTx e (ch_AccountStatsPricingRules ch) else ch_AccountStatsPricingRules old)\<rparr>"

definition repo_Update :: "channel_env \<Rightarrow> channel \<Rightarrow> upd_sets \<Rightarrow> channel_db \<Rightarrow> unit result \<times> channel_db" where
  "repo_Update e ch w = with_fault_err (ce_fault e KUpdate) (\<lambda>db.
     if affected (\<lambda>c. ch_ID c = ch_ID ch) (cd_rows db) = 0 then (Inl (EApp ErrChannelNotFound), db)
     else if list_ex (\<lambda>c. ch_Name c = ch_Name ch \<and> ch_ID c \<noteq> ch_ID ch) (cd_rows db) then (Inl (EApp ErrChannelExists), db)
     else case (if set_groups w then setGroupIDsTx (ch_ID ch) (ch_GroupIDs ch) db else Inr []) of
       Inl err \<Rightarrow> (Inl err, db)
     | Inr gids \<Rightarrow>
         (Inr (), db\<lparr>cd_rows := update_where (\<lambda>c. ch_ID c = ch_ID ch) (updated_row e ch w gids) (cd_rows db)\<rparr>))"

definition repo_Delete :: "channel_env \<Rightarrow> int64 \<Rightarrow> channel_db \<Rightarrow> unit result \<times> channel_db" where
  "repo_Delete e i = with_fault_err (ce_fault e KDelete) (\<lambda>db.
     if affected (\<lambda>c. ch_ID c = i) (cd_rows db) = 0 then (Inl (EApp ErrChannelNotFound), db)
     else (Inr (), db\<lparr>cd_rows := filter (\<lambda>c. ch_ID c \<noteq> i) (cd_rows db)\<rparr>))"

definition repo_GetGroupIDs :: "fault \<Rightarrow> int64 \<Rightarrow> channel_db \<Rightarrow> int64 list result" where
  "repo_GetGroupIDs f i db = read_fault f (Inr (case find (\<lambda>c. ch_ID c = i) (cd_rows db) of
     None \<Rightarrow> [] | Some c \<Rightarrow> ch_GroupIDs c))"

definition GetGroupPlatforms :: "int64 list \<Rightarrow> channel_db \<Rightarrow> int64 \<rightharpoonup> gostring" where
  "GetGroupPlatforms groupIDs db = (\<lambda>g. if g \<in> set groupIDs then map_of (cd_groups db) g else None)"

subsection \<open>The cached lookups\<close>

record channel_sys =
  cy_db :: channel_db
  cy_cache :: "channel_cache option"
  cy_invalidated :: "int64 list"

definition channelCacheTTL :: duration where "channelCacheTTL = 10 * Minute"
definition channelErrorTTL :: duration where "channelErrorTTL = 5 * Second"

definition storeErrorCache :: "channel_env \<Rightarrow> channel_sys \<Rightarrow> channel_sys" where
  "storeErrorCache e s =
     s\<lparr>cy_cache := Some (newEmptyChannelCache\<lparr>cc_loadedAt := ce_now e - (channelCacheTTL - channelErrorTTL)\<rparr>)\<rparr>"

definition fetchChannelData ::
    "channel_env \<Rightarrow> channel_sys \<Rightarrow> (channel list \<times> (int64 \<rightharpoonup> gostring)) result \<times> channel_sys" where
  "fetchChannelData e s =
     (case read_fault (ce_fault e KListAll) (Inr (cd_rows (cy_db s))) of
        Inl err \<Rightarrow> (Inl (EWrap ''list all channels'' err), storeErrorCache e s)
      | Inr channels \<Rightarrow>
          (let allGroupIDs = concat (map ch_GroupIDs channels) in
           if allGroupIDs = [] then (Inr (channels, Map.empty), s)
           else case read_fault (ce_fault e KPlatforms) (Inr (GetGroupPlatforms allGroupIDs (cy_db s))) of
             Inl err \<Rightarrow> (Inl (EWrap ''get group platforms'' err), storeErrorCache e s)
           | Inr platforms \<Rightarrow> (Inr (channels, platforms), s)))"

definition buildCache :: "channel_env \<Rightarrow> channel_sys \<Rightarrow> channel_cache result \<times> channel_sys" where
  "buildCache e s = and_then (fetchChannelData e s) (\<lambda>(channels, platforms) s1.
     let cache = populateChannelCache (ce_uni e) (ce_now e) channels platforms in
     (Inr cache, s1\<lparr>cy_cache := Some cache\<rparr>))"

definition loadCache :: "channel_env \<Rightarrow> channel_sys \<Rightarrow> channel_cache result \<times> channel_sys" where
  "loadCache e s = (case cy_cache s of
     Some cached \<Rightarrow> if Sub (ce_now e) (cc_loadedAt cached) < channelCacheTTL then (Inr cached, s) else buildCache e s
   | None \<Rightarrow> buildCache e s)"

definition invalidateCache :: "channel_env \<Rightarrow> channel_sys \<Rightarrow> channel_sys" where
  "invalidateCache e s = snd (buildCache e (s\<lparr>cy_cache := None\<rparr>))"

definition lookupGroupChannel :: "channel_env \<Rightarrow> int64 \<Rightarrow> channel_sys \<Rightarrow> channel_lookup option result \<times> channel_sys" where
  "lookupGroupChannel e groupID s = and_then (loadCache e s) (\<lambda>cache s1. (Inr (find_channel cache groupID), s1))"

definition GetChannelForGroup :: "channel_env \<Rightarrow> int64 \<Rightarrow> channel_sys \<Rightarrow> channel option result \<times> channel_sys" where
  "GetChannelForGroup e groupID s =
     and_then (lookupGroupChannel e groupID s) (\<lambda>lk s1. (Inr (map_option lk_channel lk), s1))"

definition GetGroupPlatform :: "channel_env \<Rightarrow> int64 \<Rightarrow> channel_sys \<Rightarrow> gostring \<times> channel_sys" where
  "GetGroupPlatform e groupID s = (case loadCache e s of
     (Inl _, s1) \<Rightarrow> ([], s1) | (Inr cache, s1) \<Rightarrow> (platform_of (cc_groupPlatform cache) groupID, s1))"

text \<open>A lookup whose cache cannot be loaded is a lookup of a group without a channel.\<close>

definition lookup_or_none :: "channel_env \<Rightarrow> int64 \<Rightarrow> channel_sys \<Rightarrow> channel_lookup option \<times> channel_sys" where
  "lookup_or_none e groupID s = (case lookupGroupChannel e groupID s of (Inl _, s1) \<Rightarrow> (None, s1) | (Inr lk, s1) \<Rightarrow> (lk, s1))"

definition GetChannelModelPricing :: "channel_env \<Rightarrow> int64 \<Rightarrow> gostring \<Rightarrow> channel_sys \<Rightarrow> channel_pricing option \<times> channel_sys" where
  "GetChannelModelPricing e groupID model s = (case lookup_or_none e groupID s of
     (None, s1) \<Rightarrow> (None, s1)
   | (Some lk, s1) \<Rightarrow> (lookupPricingAcrossPlatforms (lk_cache lk) groupID (lk_platform lk) (ToLower (ce_uni e) model), s1))"

definition ResolveChannelMapping :: "channel_env \<Rightarrow> int64 \<Rightarrow> gostring \<Rightarrow> channel_sys \<Rightarrow> channel_mapping_result \<times> channel_sys" where
  "ResolveChannelMapping e groupID model s = (case lookup_or_none e groupID s of
     (None, s1) \<Rightarrow> (unmapped model, s1)
   | (Some lk, s1) \<Rightarrow> (resolveMapping (ce_uni e) lk groupID model, s1))"

definition IsModelRestricted :: "channel_env \<Rightarrow> int64 \<Rightarrow> gostring \<Rightarrow> channel_sys \<Rightarrow> bool \<times> channel_sys" where
  "IsModelRestricted e groupID model s = (case lookup_or_none e groupID s of
     (None, s1) \<Rightarrow> (False, s1)
   | (Some lk, s1) \<Rightarrow> (checkRestricted (ce_uni e) lk groupID model, s1))"

definition ResolveChannelMappingAndRestrict ::
    "channel_env \<Rightarrow> int64 option \<Rightarrow> gostring \<Rightarrow> channel_sys \<Rightarrow> (channel_mapping_result \<times> bool) \<times> channel_sys" where
  "ResolveChannelMappingAndRestrict e groupID model s = (case groupID of
     None \<Rightarrow> ((unmapped model, False), s)
   | Some g \<Rightarrow> (case ResolveChannelMapping e g model s of (r, s1) \<Rightarrow> ((r, False), s1)))"

subsection \<open>Administration\<close>

definition checkGroupConflicts :: "channel_env \<Rightarrow> int64 \<Rightarrow> int64 list \<Rightarrow> channel_db \<Rightarrow> unit result" where
  "checkGroupConflicts e channelID groupIDs db =
     (if groupIDs = [] then Inr ()
      else case read_fault (ce_fault e KConflicts) (Inr (GetGroupsInOtherChannels channelID groupIDs db)) of
        Inl err \<Rightarrow> Inl (EWrap ''check group conflicts'' err)
      | Inr conflicting \<Rightarrow> if conflicting \<noteq> [] then Inl (EApp ErrGroupAlreadyInChannel) else Inr ())"

text \<open>The checks on the prices, the mapping and the rules; the index of a rule counts from one.\<close>

definition check_config :: "channel_env \<Rightarrow> channel \<Rightarrow> go_error option" where
  "check_config e ch = first_some (validateChannelConfig (ce_uni e) (ce_arrange e) (ch_ModelPricing ch) (ch_ModelMapping ch)
     # map (\<lambda>(i, r). map_option (EWrap (''account stats pricing rule #'' @ itoa (i + 1)))
             (validatePricingEntries (ce_uni e) (ce_arrange e) (sr_Pricing r)))
         (zip [0..int (length (ch_AccountStatsPricingRules ch)) - 1] (ch_AccountStatsPricingRules ch)))"

definition reread :: "channel_env \<Rightarrow> int64 \<Rightarrow> channel_sys \<Rightarrow> channel result \<times> channel_sys" where
  "reread e i s = (map_sum id normalizeBillingModelSource (repo_GetByID (ce_fault e KGetAfter) i (cy_db s)), s)"

definition svc_GetByID :: "channel_env \<Rightarrow> int64 \<Rightarrow> channel_sys \<Rightarrow> channel result \<times> channel_sys" where
  "svc_GetByID e i s = (map_sum id normalizeBillingModelSource (repo_GetByID (ce_fault e KGet) i (cy_db s)), s)"

text \<open>\<open>input\<close> is the channel the request describes; its status is set here.\<close>

definition ch_Create :: "channel_env \<Rightarrow> channel \<Rightarrow> channel_sys \<Rightarrow> channel result \<times> channel_sys" where
  "ch_Create e input s =
     (case read_fault (ce_fault e KExistsByName) (Inr (list_ex (\<lambda>c. ch_Name c = ch_Name input) (cd_rows (cy_db s)))) of
        Inl err \<Rightarrow> (Inl (EWrap ''check channel exists'' err), s)
      | Inr True \<Rightarrow> (Inl (EApp ErrChannelExists), s)
      | Inr False \<Rightarrow>
          (case checkGroupConflicts e 0 (ch_GroupIDs input) (cy_db s) of
             Inl err \<Rightarrow> (Inl err, s)
           | Inr _ \<Rightarrow>
               (let ch = normalizeBillingModelSource (input\<lparr>ch_Status := StatusActive\<rparr>) in
                case check_config e ch of
                  Some err \<Rightarrow> (Inl err, s)
                | None \<Rightarrow>
                    (case repo_Create e ch (cy_db s) of
                       (Inl err, db) \<Rightarrow> (Inl (EWrap ''create channel'' err), s\<lparr>cy_db := db\<rparr>)
                     | (Inr i, db) \<Rightarrow> reread e i (invalidateCache e (s\<lparr>cy_db := db\<rparr>))))))"

record channel_update =
  up_Name :: gostring
  up_Description :: "gostring option"
  up_Status :: gostring
  up_GroupIDs :: "int64 list option"
  up_ModelPricing :: "channel_pricing list option"
  up_ModelMapping :: "model_mapping option"
  up_BillingModelSource :: gostring
  up_RestrictModels :: "bool option"
  up_Features :: "gostring option"
  up_FeaturesConfig :: "any_map option"
  up_ApplyPricingToAccountStats :: "bool option"
  up_AccountStatsPricingRules :: "stats_rule list option"

definition given :: "'a \<Rightarrow> 'a option \<Rightarrow> 'a" where
  "given old new = (case new of Some x \<Rightarrow> x | None \<Rightarrow> old)"

definition updated_fields :: "channel_update \<Rightarrow> channel \<Rightarrow> channel" where
  "updated_fields u ch =
     ch\<lparr>ch_Name := (if up_Name u \<noteq> [] then up_Name u else ch_Name ch),
        ch_Description := given (ch_Description ch) (up_Description u),
        ch_Status := (if up_Status u \<noteq> [] then up_Status u else ch_Status ch),
        ch_RestrictModels := given (ch_RestrictModels ch) (up_RestrictModels u),
        ch_Features := given (ch_Features ch) (up_Features u),
        ch_GroupIDs := given (ch_GroupIDs ch) (up_GroupIDs u),
        ch_ModelPricing := given (ch_ModelPricing ch) (up_ModelPricing u),
        ch_ModelMapping := given (ch_ModelMapping ch) (up_ModelMapping u),
        ch_BillingModelSource := (if up_BillingModelSource u \<noteq> [] then up_BillingModelSource u else ch_BillingModelSource ch),
        ch_FeaturesConfig := (if up_FeaturesConfig u \<noteq> None then up_FeaturesConfig u else ch_FeaturesConfig ch),
        ch_ApplyPricingToAccountStats := given (ch_ApplyPricingToAccountStats ch) (up_ApplyPricingToAccountStats u),
        ch_AccountStatsPricingRules := given (ch_AccountStatsPricingRules ch) (up_AccountStatsPricingRules u)\<rparr>"

definition applyUpdateInput :: "channel_env \<Rightarrow> channel_update \<Rightarrow> channel \<Rightarrow> channel_db \<Rightarrow> channel result" where
  "applyUpdateInput e u ch db =
     (case (if up_Name u \<noteq> [] \<and> up_Name u \<noteq> ch_Name ch
            then read_fault (ce_fault e KExistsByName)
                   (Inr (list_ex (\<lambda>c. ch_Name c = up_Name u \<and> ch_ID c \<noteq> ch_ID ch) (cd_rows db)))
            else Inr False) of
        Inl err \<Rightarrow> Inl (EWrap ''check channel exists'' err)
      | Inr True \<Rightarrow> Inl (EApp ErrChannelExists)
      | Inr False \<Rightarrow>
          (case (case up_GroupIDs u of Some gids \<Rightarrow> checkGroupConflicts e (ch_ID ch) gids db | None \<Rightarrow> Inr ()) of
             Inl err \<Rightarrow> Inl err
           | Inr _ \<Rightarrow> Inr (updated_fields u ch)))"

definition sets_of :: "channel_update \<Rightarrow> channel \<Rightarrow> upd_sets" where
  "sets_of u ch = \<lparr>set_groups = (up_GroupIDs u \<noteq> None \<or> ch_GroupIDs ch \<noteq> []),
     set_pricing = (up_ModelPricing u \<noteq> None \<or> ch_ModelPricing ch \<noteq> []),
     set_rules = (up_AccountStatsPricingRules u \<noteq> None \<or> ch_AccountStatsPricingRules ch \<noteq> [])\<rparr>"

definition getOldGroupIDs :: "channel_env \<Rightarrow> int64 \<Rightarrow> channel_db \<Rightarrow> int64 list" where
  "getOldGroupIDs e i db = (if \<not> ce_authCache e then [] else
     case repo_GetGroupIDs (ce_fault e KGroupIDs) i db of Inl _ \<Rightarrow> [] | Inr gids \<Rightarrow> gids)"

fun dedup_new :: "int64 set \<Rightarrow> int64 list \<Rightarrow> int64 list" where
  "dedup_new seen [] = []"
| "dedup_new seen (g # gs) = (if g \<in> seen then dedup_new seen gs else g # dedup_new (insert g seen) gs)"

definition invalidateAuthCacheForGroups :: "channel_env \<Rightarrow> int64 list list \<Rightarrow> channel_sys \<Rightarrow> channel_sys" where
  "invalidateAuthCacheForGroups e groupIDSets s = (if \<not> ce_authCache e then s else
     s\<lparr>cy_invalidated := cy_invalidated s @ dedup_new {} (concat groupIDSets)\<rparr>)"

definition ch_Update :: "channel_env \<Rightarrow> int64 \<Rightarrow> channel_update \<Rightarrow> channel_sys \<Rightarrow> channel result \<times> channel_sys" where
  "ch_Update e i u s =
     (case repo_GetByID (ce_fault e KGet) i (cy_db s) of
        Inl err \<Rightarrow> (Inl (EWrap ''get channel'' err), s)
      | Inr old \<Rightarrow>
          (case applyUpdateInput e u old (cy_db s) of
             Inl err \<Rightarrow> (Inl err, s)
           | Inr ch \<Rightarrow>
               (case check_config e ch of
                  Some err \<Rightarrow> (Inl err, s)
                | None \<Rightarrow>
                    (let oldGroupIDs = getOldGroupIDs e i (cy_db s) in
                     case repo_Update e ch (sets_of u old) (cy_db s) of
                       (Inl err, db) \<Rightarrow> (Inl (EWrap ''update channel'' err), s\<lparr>cy_db := db\<rparr>)
                     | (Inr _, db) \<Rightarrow>
                         reread e i (invalidateAuthCacheForGroups e [oldGroupIDs, ch_GroupIDs ch]
                           (invalidateCache e (s\<lparr>cy_db := db\<rparr>)))))))"

definition ch_Delete :: "channel_env \<Rightarrow> int64 \<Rightarrow> channel_sys \<Rightarrow> unit result \<times> channel_sys" where
  "ch_Delete e i s =
     (let gids = (case repo_GetGroupIDs (ce_fault e KGroupIDs) i (cy_db s) of Inl _ \<Rightarrow> [] | Inr g \<Rightarrow> g) in
      case repo_Delete e i (cy_db s) of
        (Inl err, db) \<Rightarrow> (Inl (EWrap ''delete channel'' err), s\<lparr>cy_db := db\<rparr>)
      | (Inr _, db) \<Rightarrow> (Inr (), invalidateAuthCacheForGroups e [gids] (invalidateCache e (s\<lparr>cy_db := db\<rparr>))))"

end
