(* ===== verification/BillingCost.thy ===== *)
theory BillingCost
  imports ModelNames ChannelService UsageBilling
begin

text \<open>
  What a request costs: \<open>internal/service/billing_service.go\<close> and \<open>model_pricing_resolver.go\<close>, and the cost functions
  of the two gateways. The prices of a model are read and written through pointers: a store holds every \<open>ModelPricing\<close>
  object, an address is its index, and the table of fallback prices has addresses, several models sharing one object.
  Token counts are Go \<open>int\<close>s taken as mathematical integers; a literal price is the nearest float64.
\<close>

subsection \<open>Prices\<close>

record model_pricing =
  mp_InputPricePerToken :: f64
  mp_InputPricePerTokenPriority :: f64
  mp_OutputPricePerToken :: f64
  mp_OutputPricePerTokenPriority :: f64
  mp_CacheCreationPricePerToken :: f64
  mp_CacheReadPricePerToken :: f64
  mp_CacheReadPricePerTokenPriority :: f64
  mp_CacheCreation5mPrice :: f64
  mp_CacheCreation1hPrice :: f64
  mp_SupportsCacheBreakdown :: bool
  mp_LongContextInputThreshold :: int
  mp_LongContextInputMultiplier :: f64
  mp_LongContextOutputMultiplier :: f64
  mp_ImageOutputPricePerToken :: f64

type_synonym price_store = "model_pricing list"
type_synonym addr = nat

definition zero_pricing :: model_pricing where
  "zero_pricing = \<lparr>mp_InputPricePerToken = Fin 0, mp_InputPricePerTokenPriority = Fin 0, mp_OutputPricePerToken = Fin 0,
     mp_OutputPricePerTokenPriority = Fin 0, mp_CacheCreationPricePerToken = Fin 0, mp_CacheReadPricePerToken = Fin 0,
     mp_CacheReadPricePerTokenPriority = Fin 0, mp_CacheCreation5mPrice = Fin 0, mp_CacheCreation1hPrice = Fin 0,
     mp_SupportsCacheBreakdown = False, mp_LongContextInputThreshold = 0, mp_LongContextInputMultiplier = Fin 0,
     mp_LongContextOutputMultiplier = Fin 0, mp_ImageOutputPricePerToken = Fin 0\<rparr>"

definition alloc :: "model_pricing \<Rightarrow> price_store \<Rightarrow> addr \<times> price_store" where
  "alloc p h = (length h, h @ [p])"

definition openAIGPT54LongContextInputThreshold :: int where "openAIGPT54LongContextInputThreshold = 272000"
definition openAIGPT54LongContextInputMultiplier :: f64 where "openAIGPT54LongContextInputMultiplier = Fin 2"
definition openAIGPT54LongContextOutputMultiplier :: f64 where "openAIGPT54LongContextOutputMultiplier = Fin (3 / 2)"

text \<open>A price of n US dollars per million tokens.\<close>

definition per_mtok :: "rat \<Rightarrow> f64" where "per_mtok n = f64_of_rat (n / 10 ^ 6)"

definition simple_pricing :: "rat \<Rightarrow> rat \<Rightarrow> rat \<Rightarrow> rat \<Rightarrow> model_pricing" where
  "simple_pricing inp out create read = zero_pricing\<lparr>mp_InputPricePerToken := per_mtok inp, mp_OutputPricePerToken := per_mtok out,
     mp_CacheCreationPricePerToken := per_mtok create, mp_CacheReadPricePerToken := per_mtok read\<rparr>"

definition priority_pricing :: "rat \<Rightarrow> rat \<Rightarrow> rat \<Rightarrow> rat \<Rightarrow> model_pricing" where
  "priority_pricing inp out create read = (simple_pricing inp out create read)\<lparr>mp_InputPricePerTokenPriority := per_mtok (2 * inp),
     mp_OutputPricePerTokenPriority := per_mtok (2 * out), mp_CacheReadPricePerTokenPriority := per_mtok (2 * read)\<rparr>"

text \<open>The objects \<open>initFallbackPricing\<close> creates and the models that point to them.\<close>

definition fallback_store :: price_store where
  "fallback_store =
     [simple_pricing 5 25 (625 / 100) (1 / 2), simple_pricing 3 15 (375 / 100) (3 / 10), simple_pricing 3 15 (375 / 100) (3 / 10),
      simple_pricing 1 5 (125 / 100) (1 / 10), simple_pricing 15 75 (1875 / 100) (15 / 10),
      simple_pricing (1 / 4) (125 / 100) (3 / 10) (3 / 100), simple_pricing 2 12 2 (2 / 10),
      (priority_pricing (25 / 10) 15 (25 / 10) (25 / 100))\<lparr>mp_LongContextInputThreshold := openAIGPT54LongContextInputThreshold,
        mp_LongContextInputMultiplier := openAIGPT54LongContextInputMultiplier,
        mp_LongContextOutputMultiplier := openAIGPT54LongContextOutputMultiplier\<rparr>,
      simple_pricing (75 / 100) (45 / 10) 0 (75 / 1000), simple_pricing (2 / 10) (125 / 100) 0 (2 / 100),
      priority_pricing (175 / 100) 14 (175 / 100) (175 / 1000), priority_pricing (15 / 10) 12 (15 / 10) (15 / 100)]"

definition fallback_prices :: "(gostring \<times> addr) list" where
  "fallback_prices = [(''claude-opus-4.5'', 0), (''claude-sonnet-4'', 1), (''claude-3-5-sonnet'', 2), (''claude-3-5-haiku'', 3),
     (''claude-3-opus'', 4), (''claude-3-haiku'', 5), (''claude-opus-4.6'', 0), (''claude-opus-4.7'', 0), (''gemini-3.1-pro'', 6),
     (''gpt-5.4'', 7), (''gpt-5.5'', 7), (''gpt-5.4-mini'', 8), (''gpt-5.4-nano'', 9), (''gpt-5.2'', 10), (''gpt-5.3-codex'', 11)]"

record billing_svc =
  bv_uni :: "gostring \<Rightarrow> gostring"
  bv_prices :: "price_list option"
  bv_fallback :: "(gostring \<times> addr) list"
  bv_rateMultiplier :: f64

definition NewBillingService :: "(gostring \<Rightarrow> gostring) \<Rightarrow> price_list option \<Rightarrow> f64 \<Rightarrow> billing_svc \<times> price_store" where
  "NewBillingService uni prices rate =
     (\<lparr>bv_uni = uni, bv_prices = prices, bv_fallback = fallback_prices, bv_rateMultiplier = rate\<rparr>, fallback_store)"

definition getFallbackPricing :: "billing_svc \<Rightarrow> gostring \<Rightarrow> addr option" where
  "getFallbackPricing b model =
     (let m = ToLower (bv_uni b) model; has = Contains m; price = map_of (bv_fallback b) in
      if has ''opus'' then
        (if has ''4.7'' \<or> has ''4-7'' then price ''claude-opus-4.7''
         else if has ''4.6'' \<or> has ''4-6'' then price ''claude-opus-4.6''
         else if has ''4.5'' \<or> has ''4-5'' then price ''claude-opus-4.5'' else price ''claude-3-opus'')
      else if has ''sonnet'' then
        (if has ''4'' \<and> \<not> has ''3'' then price ''claude-sonnet-4'' else price ''claude-3-5-sonnet'')
      else if has ''haiku'' then
        (if has ''3-5'' \<or> has ''3.5'' then price ''claude-3-5-haiku'' else price ''claude-3-haiku'')
      else if has ''claude'' then price ''claude-sonnet-4''
      else if has ''gemini-3.1-pro'' \<or> has ''gemini-3-1-pro'' then price ''gemini-3.1-pro''
      else
        let n = normalizeKnownOpenAICodexModel (bv_uni b) m in
        if n \<in> {''gpt-5.5'', ''gpt-5.4-mini'', ''gpt-5.4-nano'', ''gpt-5.4'', ''gpt-5.2''} then price n
        else if n = ''gpt-5.3-codex'' \<or> n = ''gpt-5.3-codex-spark'' then price ''gpt-5.3-codex''
        else None)"

definition gpt54_policy :: "model_pricing \<Rightarrow> model_pricing" where
  "gpt54_policy p =
     p\<lparr>mp_LongContextInputThreshold := (if mp_LongContextInputThreshold p \<le> 0 then openAIGPT54LongContextInputThreshold
          else mp_LongContextInputThreshold p),
       mp_LongContextInputMultiplier := (if fle (mp_LongContextInputMultiplier p) (Fin 0)
          then openAIGPT54LongContextInputMultiplier else mp_LongContextInputMultiplier p),
       mp_LongContextOutputMultiplier := (if fle (mp_LongContextOutputMultiplier p) (Fin 0)
          then openAIGPT54LongContextOutputMultiplier else mp_LongContextOutputMultiplier p)\<rparr>"

definition has_long_context :: "model_pricing \<Rightarrow> bool" where
  "has_long_context p \<longleftrightarrow> 0 < mp_LongContextInputThreshold p \<and> flt (Fin 0) (mp_LongContextInputMultiplier p)
     \<and> flt (Fin 0) (mp_LongContextOutputMultiplier p)"

definition applyModelSpecificPricingPolicy :: "billing_svc \<Rightarrow> gostring \<Rightarrow> addr \<Rightarrow> price_store \<Rightarrow> addr \<times> price_store" where
  "applyModelSpecificPricingPolicy b model a h =
     (if \<not> isOpenAIGPT54Model (bv_uni b) model then (a, h)
      else if has_long_context (h ! a) then (a, h)
      else alloc (gpt54_policy (h ! a)) h)"

definition pricing_of_litellm :: "litellm \<Rightarrow> model_pricing" where
  "pricing_of_litellm l =
     (let price5m = ll_CacheCreationInputTokenCost l; price1h = ll_CacheCreationInputTokenCostAbove1hr l in
      \<lparr>mp_InputPricePerToken = ll_InputCostPerToken l, mp_InputPricePerTokenPriority = ll_InputCostPerTokenPriority l,
       mp_OutputPricePerToken = ll_OutputCostPerToken l, mp_OutputPricePerTokenPriority = ll_OutputCostPerTokenPriority l,
       mp_CacheCreationPricePerToken = ll_CacheCreationInputTokenCost l, mp_CacheReadPricePerToken = ll_CacheReadInputTokenCost l,
       mp_CacheReadPricePerTokenPriority = ll_CacheReadInputTokenCostPriority l, mp_CacheCreation5mPrice = price5m,
       mp_CacheCreation1hPrice = price1h, mp_SupportsCacheBreakdown = (flt (Fin 0) price1h \<and> flt price5m price1h),
       mp_LongContextInputThreshold = ll_LongContextInputTokenThreshold l,
       mp_LongContextInputMultiplier = ll_LongContextInputCostMultiplier l,
       mp_LongContextOutputMultiplier = ll_LongContextOutputCostMultiplier l,
       mp_ImageOutputPricePerToken = ll_OutputCostPerImageToken l\<rparr>)"

definition ErrModelPricingUnavailable :: go_error where "ErrModelPricingUnavailable = EPlain ''pricing not found''"

text \<open>\<open>GetModelPricing\<close> gives the address of the prices, a new object's or the shared fallback object's.\<close>

definition GetModelPricing :: "billing_svc \<Rightarrow> gostring \<Rightarrow> price_store \<Rightarrow> addr result \<times> price_store" where
  "GetModelPricing b model0 h =
     (let model = ToLower (bv_uni b) model0 in
      case Option.bind (bv_prices b) (\<lambda>prices. ps_GetModelPricing (bv_uni b) prices model) of
        Some l \<Rightarrow> (case alloc (pricing_of_litellm l) h of (a, h1) \<Rightarrow>
                    (case applyModelSpecificPricingPolicy b model a h1 of (a2, h2) \<Rightarrow> (Inr a2, h2)))
      | None \<Rightarrow>
          (case getFallbackPricing b model of
             Some a \<Rightarrow> (case applyModelSpecificPricingPolicy b model a h of (a2, h2) \<Rightarrow> (Inr a2, h2))
           | None \<Rightarrow> (Inl (EWrap (''for model: '' @ model) ErrModelPricingUnavailable), h)))"

text \<open>The flat prices of a channel written over those of an object.\<close>

definition channel_prices :: "channel_pricing \<Rightarrow> model_pricing \<Rightarrow> model_pricing" where
  "channel_prices c p =
     p\<lparr>mp_InputPricePerToken := given (mp_InputPricePerToken p) (cp_InputPrice c),
       mp_InputPricePerTokenPriority := given (mp_InputPricePerTokenPriority p) (cp_InputPrice c),
       mp_OutputPricePerToken := given (mp_OutputPricePerToken p) (cp_OutputPrice c),
       mp_OutputPricePerTokenPriority := given (mp_OutputPricePerTokenPriority p) (cp_OutputPrice c),
       mp_CacheCreationPricePerToken := given (mp_CacheCreationPricePerToken p) (cp_CacheWritePrice c),
       mp_CacheCreation5mPrice := given (mp_CacheCreation5mPrice p) (cp_CacheWritePrice c),
       mp_CacheCreation1hPrice := given (mp_CacheCreation1hPrice p) (cp_CacheWritePrice c),
       mp_CacheReadPricePerToken := given (mp_CacheReadPricePerToken p) (cp_CacheReadPrice c),
       mp_CacheReadPricePerTokenPriority := given (mp_CacheReadPricePerTokenPriority p) (cp_CacheReadPrice c),
       mp_ImageOutputPricePerToken := given (mp_ImageOutputPricePerToken p) (cp_ImageOutputPrice c)\<rparr>"

definition GetModelPricingWithChannel ::
    "billing_svc \<Rightarrow> gostring \<Rightarrow> channel_pricing option \<Rightarrow> price_store \<Rightarrow> addr result \<times> price_store" where
  "GetModelPricingWithChannel b model c h = and_then (GetModelPricing b model h) (\<lambda>a h1. case c of
     None \<Rightarrow> (Inr a, h1) | Some cp \<Rightarrow> (Inr a, h1[a := channel_prices cp (h1 ! a)]))"

subsection \<open>Costs\<close>

record usage_tokens =
  ut_InputTokens :: int
  ut_OutputTokens :: int
  ut_CacheCreationTokens :: int
  ut_CacheReadTokens :: int
  ut_CacheCreation5mTokens :: int
  ut_CacheCreation1hTokens :: int
  ut_ImageOutputTokens :: int

definition normalizeBillingServiceTier :: "(gostring \<Rightarrow> gostring) \<Rightarrow> gostring \<Rightarrow> gostring" where
  "normalizeBillingServiceTier uni serviceTier = ToLower uni (trim_space serviceTier)"

definition usePriorityServiceTierPricing :: "(gostring \<Rightarrow> gostring) \<Rightarrow> gostring \<Rightarrow> model_pricing \<Rightarrow> bool" where
  "usePriorityServiceTierPricing uni serviceTier p \<longleftrightarrow> normalizeBillingServiceTier uni serviceTier = ''priority''
     \<and> (flt (Fin 0) (mp_InputPricePerTokenPriority p) \<or> flt (Fin 0) (mp_OutputPricePerTokenPriority p)
        \<or> flt (Fin 0) (mp_CacheReadPricePerTokenPriority p))"

definition serviceTierCostMultiplier :: "(gostring \<Rightarrow> gostring) \<Rightarrow> gostring \<Rightarrow> f64" where
  "serviceTierCostMultiplier uni serviceTier =
     (let t = normalizeBillingServiceTier uni serviceTier in
      if t = ''priority'' then Fin 2 else if t = ''flex'' then Fin (1 / 2) else Fin 1)"

definition zero_cost :: cost_breakdown where
  "zero_cost = \<lparr>cb_InputCost = Fin 0, cb_OutputCost = Fin 0, cb_ImageOutputCost = Fin 0, cb_CacheCreationCost = Fin 0,
     cb_CacheReadCost = Fin 0, cb_TotalCost = Fin 0, cb_ActualCost = Fin 0, cb_BillingMode = []\<rparr>"

definition computeCacheCreationCost :: "model_pricing \<Rightarrow> usage_tokens \<Rightarrow> f64" where
  "computeCacheCreationCost p t =
     (if mp_SupportsCacheBreakdown p \<and> (flt (Fin 0) (mp_CacheCreation5mPrice p) \<or> flt (Fin 0) (mp_CacheCreation1hPrice p))
      then (if ut_CacheCreation5mTokens t = 0 \<and> ut_CacheCreation1hTokens t = 0 \<and> 0 < ut_CacheCreationTokens t
            then fmul (f64_of_int (ut_CacheCreationTokens t)) (mp_CacheCreation5mPrice p)
            else fadd (fmul (f64_of_int (ut_CacheCreation5mTokens t)) (mp_CacheCreation5mPrice p))
                   (fmul (f64_of_int (ut_CacheCreation1hTokens t)) (mp_CacheCreation1hPrice p)))
      else fmul (f64_of_int (ut_CacheCreationTokens t)) (mp_CacheCreationPricePerToken p))"

definition shouldApplySessionLongContextPricing :: "usage_tokens \<Rightarrow> model_pricing \<Rightarrow> bool" where
  "shouldApplySessionLongContextPricing t p \<longleftrightarrow> 0 < mp_LongContextInputThreshold p
     \<and> \<not> (fle (mp_LongContextInputMultiplier p) (Fin 1) \<and> fle (mp_LongContextOutputMultiplier p) (Fin 1))
     \<and> mp_LongContextInputThreshold p < ut_InputTokens t + ut_CacheReadTokens t"

text \<open>The prices per token that apply: of input, output and cache reads, and the multiplier of the service tier.\<close>

definition or_positive :: "f64 \<Rightarrow> f64 \<Rightarrow> f64" where
  "or_positive prio normal = (if flt (Fin 0) prio then prio else normal)"

definition token_prices :: "(gostring \<Rightarrow> gostring) \<Rightarrow> model_pricing \<Rightarrow> usage_tokens \<Rightarrow> gostring \<Rightarrow> bool \<Rightarrow> f64 \<times> f64 \<times> f64 \<times> f64" where
  "token_prices uni p t serviceTier applyLongCtx =
     (let prio = usePriorityServiceTierPricing uni serviceTier p;
          inp = (if prio then or_positive (mp_InputPricePerTokenPriority p) (mp_InputPricePerToken p) else mp_InputPricePerToken p);
          out = (if prio then or_positive (mp_OutputPricePerTokenPriority p) (mp_OutputPricePerToken p) else mp_OutputPricePerToken p);
          read = (if prio then or_positive (mp_CacheReadPricePerTokenPriority p) (mp_CacheReadPricePerToken p)
                  else mp_CacheReadPricePerToken p);
          tier = (if prio then Fin 1 else serviceTierCostMultiplier uni serviceTier);
          long = applyLongCtx \<and> shouldApplySessionLongContextPricing t p
      in (if long then fmul inp (mp_LongContextInputMultiplier p) else inp,
          if long then fmul out (mp_LongContextOutputMultiplier p) else out, read, tier))"

definition scaled :: "f64 \<Rightarrow> f64 \<Rightarrow> f64" where
  "scaled tier x = (if feq tier (Fin 1) then x else fmul x tier)"

definition computeTokenBreakdown ::
    "(gostring \<Rightarrow> gostring) \<Rightarrow> model_pricing \<Rightarrow> usage_tokens \<Rightarrow> f64 \<Rightarrow> gostring \<Rightarrow> bool \<Rightarrow> cost_breakdown" where
  "computeTokenBreakdown uni p t rateMultiplier0 serviceTier applyLongCtx =
     (let rateMultiplier = (if flt rateMultiplier0 (Fin 0) then Fin 0 else rateMultiplier0) in
      case token_prices uni p t serviceTier applyLongCtx of (inp, out, read, tier) \<Rightarrow>
      let textOutputTokens = (if ut_OutputTokens t - ut_ImageOutputTokens t < 0 then 0
                              else ut_OutputTokens t - ut_ImageOutputTokens t);
          imgPrice = (if feq (mp_ImageOutputPricePerToken p) (Fin 0) then out else mp_ImageOutputPricePerToken p);
          ic = scaled tier (fmul (f64_of_int (ut_InputTokens t)) inp);
          oc = scaled tier (fmul (f64_of_int textOutputTokens) out);
          mc = scaled tier (if 0 < ut_ImageOutputTokens t then fmul (f64_of_int (ut_ImageOutputTokens t)) imgPrice else Fin 0);
          cc = scaled tier (computeCacheCreationCost p t);
          rc = scaled tier (fmul (f64_of_int (ut_CacheReadTokens t)) read);
          total = fadd (fadd (fadd (fadd ic oc) mc) cc) rc
      in \<lparr>cb_InputCost = ic, cb_OutputCost = oc, cb_ImageOutputCost = mc, cb_CacheCreationCost = cc, cb_CacheReadCost = rc,
          cb_TotalCost = total, cb_ActualCost = fmul total rateMultiplier, cb_BillingMode = []\<rparr>)"

definition calculateCostInternal ::
    "billing_svc \<Rightarrow> gostring \<Rightarrow> usage_tokens \<Rightarrow> f64 \<Rightarrow> gostring \<Rightarrow> channel_pricing option \<Rightarrow> price_store \<Rightarrow>
     cost_breakdown result \<times> price_store" where
  "calculateCostInternal b model t rateMultiplier serviceTier c h =
     and_then (GetModelPricingWithChannel b model c h) (\<lambda>a h1.
       (Inr (computeTokenBreakdown (bv_uni b) (h1 ! a) t rateMultiplier serviceTier True), h1))"

definition CalculateCost :: "billing_svc \<Rightarrow> gostring \<Rightarrow> usage_tokens \<Rightarrow> f64 \<Rightarrow> price_store \<Rightarrow> cost_breakdown result \<times> price_store" where
  "CalculateCost b model t rateMultiplier = calculateCostInternal b model t rateMultiplier [] None"

definition CalculateCostWithServiceTier ::
    "billing_svc \<Rightarrow> gostring \<Rightarrow> usage_tokens \<Rightarrow> f64 \<Rightarrow> gostring \<Rightarrow> price_store \<Rightarrow> cost_breakdown result \<times> price_store" where
  "CalculateCostWithServiceTier b model t rateMultiplier serviceTier = calculateCostInternal b model t rateMultiplier serviceTier None"

definition CalculateCostWithConfig :: "billing_svc \<Rightarrow> gostring \<Rightarrow> usage_tokens \<Rightarrow> price_store \<Rightarrow> cost_breakdown result \<times> price_store" where
  "CalculateCostWithConfig b model t =
     CalculateCost b model t (if fle (bv_rateMultiplier b) (Fin 0) then Fin 1 else bv_rateMultiplier b)"

definition IsModelSupported :: "(gostring \<Rightarrow> gostring) \<Rightarrow> gostring \<Rightarrow> bool" where
  "IsModelSupported uni model = list_ex (Contains (ToLower uni model)) [''claude'', ''opus'', ''sonnet'', ''haiku'']"

definition no_tokens :: usage_tokens where
  "no_tokens = \<lparr>ut_InputTokens = 0, ut_OutputTokens = 0, ut_CacheCreationTokens = 0, ut_CacheReadTokens = 0,
     ut_CacheCreation5mTokens = 0, ut_CacheCreation1hTokens = 0, ut_ImageOutputTokens = 0\<rparr>"

definition GetEstimatedCost :: "billing_svc \<Rightarrow> gostring \<Rightarrow> int \<Rightarrow> int \<Rightarrow> price_store \<Rightarrow> f64 result \<times> price_store" where
  "GetEstimatedCost b model inputTokens outputTokens h =
     and_then (CalculateCostWithConfig b model (no_tokens\<lparr>ut_InputTokens := inputTokens, ut_OutputTokens := outputTokens\<rparr>) h)
       (\<lambda>c h1. (Inr (cb_ActualCost c), h1))"

text \<open>The tokens within a threshold, and those beyond it.\<close>

definition split_tokens :: "usage_tokens \<Rightarrow> int \<Rightarrow> usage_tokens \<times> usage_tokens" where
  "split_tokens t threshold =
     (let inCache = (if threshold \<le> ut_CacheReadTokens t then threshold else ut_CacheReadTokens t);
          inInput = (if threshold \<le> ut_CacheReadTokens t then 0 else threshold - ut_CacheReadTokens t);
          outCache = (if threshold \<le> ut_CacheReadTokens t then ut_CacheReadTokens t - threshold else 0);
          outInput = (if threshold \<le> ut_CacheReadTokens t then ut_InputTokens t else ut_InputTokens t - inInput)
      in (t\<lparr>ut_InputTokens := inInput, ut_CacheReadTokens := inCache\<rparr>,
          no_tokens\<lparr>ut_InputTokens := outInput, ut_CacheReadTokens := outCache\<rparr>))"

definition merged_cost :: "cost_breakdown \<Rightarrow> cost_breakdown \<Rightarrow> cost_breakdown" where
  "merged_cost x y =
     \<lparr>cb_InputCost = fadd (cb_InputCost x) (cb_InputCost y), cb_OutputCost = cb_OutputCost x,
      cb_ImageOutputCost = cb_ImageOutputCost x, cb_CacheCreationCost = cb_CacheCreationCost x,
      cb_CacheReadCost = fadd (cb_CacheReadCost x) (cb_CacheReadCost y), cb_TotalCost = fadd (cb_TotalCost x) (cb_TotalCost y),
      cb_ActualCost = fadd (cb_ActualCost x) (cb_ActualCost y), cb_BillingMode = []\<rparr>"

text \<open>When pricing the second part fails the function returns the first part's cost beside the error; callers use the error.\<close>

definition CalculateCostWithLongContext ::
    "billing_svc \<Rightarrow> gostring \<Rightarrow> usage_tokens \<Rightarrow> f64 \<Rightarrow> int \<Rightarrow> f64 \<Rightarrow> price_store \<Rightarrow> cost_breakdown result \<times> price_store" where
  "CalculateCostWithLongContext b model t rateMultiplier threshold extraMultiplier h =
     (if threshold \<le> 0 \<or> fle extraMultiplier (Fin 1) \<or> ut_CacheReadTokens t + ut_InputTokens t \<le> threshold
      then CalculateCost b model t rateMultiplier h
      else case split_tokens t threshold of (inRange, outRange) \<Rightarrow>
        and_then (CalculateCost b model inRange rateMultiplier h) (\<lambda>x h1.
        and_then (wrap_err ''out-range cost'' (CalculateCost b model outRange (fmul rateMultiplier extraMultiplier) h1)) (\<lambda>y h2.
          (Inr (merged_cost x y), h2))))"

subsection \<open>Resolving prices\<close>

definition PricingSourceChannel :: gostring where "PricingSourceChannel = ''channel''"
definition PricingSourceLiteLLM :: gostring where "PricingSourceLiteLLM = ''litellm''"
definition PricingSourceFallback :: gostring where "PricingSourceFallback = ''fallback''"

record resolved_pricing =
  rp_Mode :: gostring
  rp_BasePricing :: "addr option"
  rp_Intervals :: "pricing_interval list"
  rp_RequestTiers :: "pricing_interval list"
  rp_DefaultPerRequestPrice :: f64
  rp_Source :: gostring
  rp_SupportsCacheBreakdown :: bool

definition filterValidIntervals :: "pricing_interval list \<Rightarrow> pricing_interval list" where
  "filterValidIntervals intervals = filter interval_priced intervals"

definition applyRequestTierOverrides :: "channel_pricing \<Rightarrow> resolved_pricing \<Rightarrow> resolved_pricing" where
  "applyRequestTierOverrides c r =
     r\<lparr>rp_RequestTiers := filterValidIntervals (cp_Intervals c),
       rp_DefaultPerRequestPrice := given (rp_DefaultPerRequestPrice r) (cp_PerRequestPrice c)\<rparr>"

definition applyTokenOverrides :: "channel_pricing \<Rightarrow> resolved_pricing \<Rightarrow> price_store \<Rightarrow> resolved_pricing \<times> price_store" where
  "applyTokenOverrides c r h =
     (if filterValidIntervals (cp_Intervals c) \<noteq> [] then (r\<lparr>rp_Intervals := filterValidIntervals (cp_Intervals c)\<rparr>, h)
      else case (case rp_BasePricing r of Some a \<Rightarrow> (a, h) | None \<Rightarrow> alloc zero_pricing h) of
        (a, h1) \<Rightarrow> (r\<lparr>rp_BasePricing := Some a\<rparr>, h1[a := channel_prices c (h1 ! a)]))"

definition resolveBasePricing :: "billing_svc \<Rightarrow> gostring \<Rightarrow> price_store \<Rightarrow> (addr option \<times> gostring) \<times> price_store" where
  "resolveBasePricing b model h = (case GetModelPricing b model h of
     (Inl _, h1) \<Rightarrow> ((None, PricingSourceFallback), h1)
   | (Inr a, h1) \<Rightarrow> ((Some a, PricingSourceLiteLLM), h1))"

definition is_request_mode :: "gostring \<Rightarrow> bool" where
  "is_request_mode m \<longleftrightarrow> m = BillingModePerRequest \<or> m = BillingModeImage"

definition empty_resolved :: resolved_pricing where
  "empty_resolved = \<lparr>rp_Mode = [], rp_BasePricing = None, rp_Intervals = [], rp_RequestTiers = [],
     rp_DefaultPerRequestPrice = Fin 0, rp_Source = [], rp_SupportsCacheBreakdown = False\<rparr>"

definition applyChannelOverrides :: "channel_pricing option \<Rightarrow> resolved_pricing \<Rightarrow> price_store \<Rightarrow> resolved_pricing \<times> price_store" where
  "applyChannelOverrides hit r h = (case hit of
     None \<Rightarrow> (r, h)
   | Some c \<Rightarrow>
       (let r1 = r\<lparr>rp_Source := PricingSourceChannel, rp_Mode := mode_or_token (cp_BillingMode c)\<rparr> in
        if rp_Mode r1 = BillingModeToken then applyTokenOverrides c r1 h
        else if is_request_mode (rp_Mode r1) then (applyRequestTierOverrides c r1, h)
        else (r1, h)))"

record price_sys =
  py_channels :: channel_sys
  py_store :: price_store

definition Resolve :: "billing_svc \<Rightarrow> channel_env \<Rightarrow> gostring \<Rightarrow> int64 option \<Rightarrow> price_sys \<Rightarrow> resolved_pricing \<times> price_sys" where
  "Resolve b e model groupID s =
     (case (case groupID of None \<Rightarrow> (None, py_channels s) | Some g \<Rightarrow> GetChannelModelPricing e g model (py_channels s)) of
        (hit, ch1) \<Rightarrow>
          (case hit of
             Some c \<Rightarrow>
               if is_request_mode (mode_or_token (cp_BillingMode c))
               then (applyRequestTierOverrides c
                       (empty_resolved\<lparr>rp_Mode := mode_or_token (cp_BillingMode c), rp_Source := PricingSourceChannel\<rparr>),
                     s\<lparr>py_channels := ch1\<rparr>)
               else (case resolveBasePricing b model (py_store s) of ((base, source), h1) \<Rightarrow>
                 let r = empty_resolved\<lparr>rp_Mode := BillingModeToken, rp_BasePricing := base, rp_Source := PricingSourceChannel,
                           rp_SupportsCacheBreakdown := (case base of Some a \<Rightarrow> mp_SupportsCacheBreakdown (h1 ! a) | None \<Rightarrow> False)\<rparr> in
                 (case applyTokenOverrides c r h1 of (r2, h2) \<Rightarrow> (r2, s\<lparr>py_channels := ch1, py_store := h2\<rparr>)))
           | None \<Rightarrow>
               (case resolveBasePricing b model (py_store s) of ((base, source), h1) \<Rightarrow>
                 let r = empty_resolved\<lparr>rp_Mode := BillingModeToken, rp_BasePricing := base, rp_Source := source,
                           rp_SupportsCacheBreakdown := (case base of Some a \<Rightarrow> mp_SupportsCacheBreakdown (h1 ! a) | None \<Rightarrow> False)\<rparr> in
                 (case groupID of
                    None \<Rightarrow> (r, s\<lparr>py_channels := ch1, py_store := h1\<rparr>)
                  | Some g \<Rightarrow>
                      (case GetChannelModelPricing e g model ch1 of (hit2, ch2) \<Rightarrow>
                        (case applyChannelOverrides hit2 r h1 of (r2, h2) \<Rightarrow> (r2, s\<lparr>py_channels := ch2, py_store := h2\<rparr>)))))))"

definition intervalToModelPricing :: "pricing_interval \<Rightarrow> bool \<Rightarrow> model_pricing" where
  "intervalToModelPricing iv supportsCacheBreakdown =
     (let z = zero_pricing in
      z\<lparr>mp_SupportsCacheBreakdown := supportsCacheBreakdown,
        mp_InputPricePerToken := given (Fin 0) (pi_InputPrice iv), mp_InputPricePerTokenPriority := given (Fin 0) (pi_InputPrice iv),
        mp_OutputPricePerToken := given (Fin 0) (pi_OutputPrice iv), mp_OutputPricePerTokenPriority := given (Fin 0) (pi_OutputPrice iv),
        mp_CacheCreationPricePerToken := given (Fin 0) (pi_CacheWritePrice iv),
        mp_CacheCreation5mPrice := given (Fin 0) (pi_CacheWritePrice iv), mp_CacheCreation1hPrice := given (Fin 0) (pi_CacheWritePrice iv),
        mp_CacheReadPricePerToken := given (Fin 0) (pi_CacheReadPrice iv),
        mp_CacheReadPricePerTokenPriority := given (Fin 0) (pi_CacheReadPrice iv)\<rparr>)"

definition GetIntervalPricing :: "resolved_pricing \<Rightarrow> int \<Rightarrow> price_store \<Rightarrow> addr option \<times> price_store" where
  "GetIntervalPricing r totalContextTokens h =
     (case FindMatchingInterval (rp_Intervals r) totalContextTokens of
        None \<Rightarrow> (rp_BasePricing r, h)
      | Some iv \<Rightarrow> (case alloc (intervalToModelPricing iv (rp_SupportsCacheBreakdown r)) h of (a, h1) \<Rightarrow> (Some a, h1)))"

definition GetRequestTierPrice :: "resolved_pricing \<Rightarrow> gostring \<Rightarrow> f64" where
  "GetRequestTierPrice r tierLabel =
     (case find (\<lambda>t. pi_TierLabel t = tierLabel \<and> pi_PerRequestPrice t \<noteq> None) (rp_RequestTiers r) of
        Some t \<Rightarrow> the (pi_PerRequestPrice t) | None \<Rightarrow> Fin 0)"

definition GetRequestTierPriceByContext :: "resolved_pricing \<Rightarrow> int \<Rightarrow> f64" where
  "GetRequestTierPriceByContext r totalContextTokens =
     (case FindMatchingInterval (rp_RequestTiers r) totalContextTokens of
        Some iv \<Rightarrow> given (Fin 0) (pi_PerRequestPrice iv) | None \<Rightarrow> Fin 0)"

subsection \<open>The unified calculation\<close>

record cost_input =
  ci_Model :: gostring
  ci_GroupID :: "int64 option"
  ci_Tokens :: usage_tokens
  ci_RequestCount :: int
  ci_SizeTier :: gostring
  ci_RateMultiplier :: f64
  ci_ServiceTier :: gostring

definition calculateTokenCost :: "billing_svc \<Rightarrow> resolved_pricing \<Rightarrow> cost_input \<Rightarrow> price_store \<Rightarrow> cost_breakdown result \<times> price_store" where
  "calculateTokenCost b r i h =
     (let t = ci_Tokens i in
      case GetIntervalPricing r (ut_InputTokens t + ut_CacheReadTokens t) h of
        (None, h1) \<Rightarrow> (Inl (EWrap (''no pricing available for model: '' @ ci_Model i) ErrModelPricingUnavailable), h1)
      | (Some a, h1) \<Rightarrow> (case applyModelSpecificPricingPolicy b (ci_Model i) a h1 of (a2, h2) \<Rightarrow>
          (Inr (computeTokenBreakdown (bv_uni b) (h2 ! a2) t (ci_RateMultiplier i) (ci_ServiceTier i) (rp_Intervals r = [])), h2)))"

definition or_nonzero :: "f64 \<Rightarrow> f64 \<Rightarrow> f64" where
  "or_nonzero x y = (if feq x (Fin 0) then y else x)"

definition calculatePerRequestCost :: "resolved_pricing \<Rightarrow> cost_input \<Rightarrow> cost_breakdown" where
  "calculatePerRequestCost r i =
     (let n = (if ci_RequestCount i \<le> 0 then 1 else ci_RequestCount i); t = ci_Tokens i;
          byTier = (if ci_SizeTier i \<noteq> [] then GetRequestTierPrice r (ci_SizeTier i) else Fin 0);
          unitPrice = or_nonzero (or_nonzero byTier
                        (GetRequestTierPriceByContext r (ut_InputTokens t + ut_CacheReadTokens t))) (rp_DefaultPerRequestPrice r);
          total = fmul unitPrice (f64_of_int n)
      in zero_cost\<lparr>cb_TotalCost := total, cb_ActualCost := fmul total (ci_RateMultiplier i)\<rparr>)"

text \<open>\<open>pre\<close> is a resolution made before.\<close>

definition CalculateCostUnified ::
    "billing_svc \<Rightarrow> channel_env \<Rightarrow> resolved_pricing option \<Rightarrow> cost_input \<Rightarrow> price_sys \<Rightarrow> cost_breakdown result \<times> price_sys" where
  "CalculateCostUnified b e pre i0 s =
     (case (case pre of Some r \<Rightarrow> (r, s) | None \<Rightarrow> Resolve b e (ci_Model i0) (ci_GroupID i0) s) of (r, s1) \<Rightarrow>
      let i = (if flt (ci_RateMultiplier i0) (Fin 0) then i0\<lparr>ci_RateMultiplier := Fin 0\<rparr> else i0);
          named = (\<lambda>c. c\<lparr>cb_BillingMode := mode_or_token (rp_Mode r)\<rparr>)
      in if is_request_mode (rp_Mode r) then (Inr (named (calculatePerRequestCost r i)), s1)
         else (case calculateTokenCost b r i (py_store s1) of
                 (Inl err, h) \<Rightarrow> (Inl err, s1\<lparr>py_store := h\<rparr>)
               | (Inr c, h) \<Rightarrow> (Inr (named c), s1\<lparr>py_store := h\<rparr>)))"

subsection \<open>Images\<close>

record image_prices =
  ip_Price1K :: "f64 option"
  ip_Price2K :: "f64 option"
  ip_Price4K :: "f64 option"

definition getDefaultImagePrice :: "billing_svc \<Rightarrow> gostring \<Rightarrow> gostring \<Rightarrow> f64" where
  "getDefaultImagePrice b model imageSize =
     (let listed = (case Option.bind (bv_prices b) (\<lambda>prices. ps_GetModelPricing (bv_uni b) prices model) of
                      Some l \<Rightarrow> if flt (Fin 0) (ll_OutputCostPerImage l) then ll_OutputCostPerImage l else Fin 0
                    | None \<Rightarrow> Fin 0);
          base = (if fle listed (Fin 0) then f64_of_rat (134 / 1000) else listed)
      in if imageSize = ''2K'' then fmul base (Fin (3 / 2)) else if imageSize = ''4K'' then fmul base (Fin 2) else base)"

definition getImageUnitPrice :: "billing_svc \<Rightarrow> gostring \<Rightarrow> gostring \<Rightarrow> image_prices option \<Rightarrow> f64" where
  "getImageUnitPrice b model imageSize groupConfig =
     (case Option.bind groupConfig (\<lambda>g. if imageSize = ''1K'' then ip_Price1K g else if imageSize = ''2K'' then ip_Price2K g
                                     else if imageSize = ''4K'' then ip_Price4K g else None) of
        Some p \<Rightarrow> p | None \<Rightarrow> getDefaultImagePrice b model imageSize)"

definition CalculateImageCost ::
    "billing_svc \<Rightarrow> gostring \<Rightarrow> gostring \<Rightarrow> int \<Rightarrow> image_prices option \<Rightarrow> f64 \<Rightarrow> cost_breakdown" where
  "CalculateImageCost b model imageSize imageCount groupConfig rateMultiplier =
     (if imageCount \<le> 0 then zero_cost
      else let total = fmul (getImageUnitPrice b model imageSize groupConfig) (f64_of_int imageCount) in
        zero_cost\<lparr>cb_TotalCost := total,
          cb_ActualCost := fmul total (if flt rateMultiplier (Fin 0) then Fin 0 else rateMultiplier),
          cb_BillingMode := BillingModeImage\<rparr>)"

subsection \<open>The gateways\<close>

text \<open>The group of the key, with its image prices.\<close>

type_synonym key_group = "(int64 \<times> image_prices) option"

definition resolveChannelPricing ::
    "billing_svc \<Rightarrow> channel_env \<Rightarrow> gostring \<Rightarrow> key_group \<Rightarrow> price_sys \<Rightarrow> resolved_pricing option \<times> price_sys" where
  "resolveChannelPricing b e model g s = (case g of
     None \<Rightarrow> (None, s)
   | Some (gid, _) \<Rightarrow> (case Resolve b e model (Some gid) s of (r, s1) \<Rightarrow>
       (if rp_Source r = PricingSourceChannel then Some r else None, s1)))"

record forward_usage =
  fw_Tokens :: usage_tokens
  fw_ImageCount :: int
  fw_ImageSize :: gostring

definition input_for :: "gostring \<Rightarrow> key_group \<Rightarrow> usage_tokens \<Rightarrow> int \<Rightarrow> gostring \<Rightarrow> f64 \<Rightarrow> gostring \<Rightarrow> cost_input" where
  "input_for model g t n sz rate tier = \<lparr>ci_Model = model, ci_GroupID = map_option fst g, ci_Tokens = t, ci_RequestCount = n,
     ci_SizeTier = sz, ci_RateMultiplier = rate, ci_ServiceTier = tier\<rparr>"

text \<open>A cost that cannot be calculated is zero; it is only logged.\<close>

definition cost_or_zero :: "cost_breakdown result \<Rightarrow> cost_breakdown" where
  "cost_or_zero r = (case r of Inr c \<Rightarrow> c | Inl _ \<Rightarrow> zero_cost)"

definition calculateImageCost ::
    "billing_svc \<Rightarrow> channel_env \<Rightarrow> forward_usage \<Rightarrow> key_group \<Rightarrow> gostring \<Rightarrow> f64 \<Rightarrow> price_sys \<Rightarrow> cost_breakdown \<times> price_sys" where
  "calculateImageCost b e w g model rate s =
     (case resolveChannelPricing b e model g s of
        (Some r, s1) \<Rightarrow>
          (let t = (fw_Tokens w)\<lparr>ut_CacheCreationTokens := 0, ut_CacheReadTokens := 0, ut_CacheCreation5mTokens := 0,
                     ut_CacheCreation1hTokens := 0\<rparr> in
           case CalculateCostUnified b e (Some r) (input_for model g t (fw_ImageCount w) (fw_ImageSize w) rate []) s1 of
             (c, s2) \<Rightarrow> (cost_or_zero c, s2))
      | (None, s1) \<Rightarrow> (CalculateImageCost b model (fw_ImageSize w) (fw_ImageCount w) (map_option snd g) rate, s1))"

definition gw_calculateTokenCost ::
    "billing_svc \<Rightarrow> channel_env \<Rightarrow> forward_usage \<Rightarrow> key_group \<Rightarrow> gostring \<Rightarrow> f64 \<Rightarrow> int \<Rightarrow> f64 \<Rightarrow> price_sys \<Rightarrow>
     cost_breakdown \<times> price_sys" where
  "gw_calculateTokenCost b e w g model rate longThreshold longMultiplier s =
     (case resolveChannelPricing b e model g s of
        (Some r, s1) \<Rightarrow>
          (case CalculateCostUnified b e (Some r) (input_for model g (fw_Tokens w) 1 [] rate []) s1 of (c, s2) \<Rightarrow> (cost_or_zero c, s2))
      | (None, s1) \<Rightarrow>
          (case (if 0 < longThreshold
                 then CalculateCostWithLongContext b model (fw_Tokens w) rate longThreshold longMultiplier (py_store s1)
                 else CalculateCost b model (fw_Tokens w) rate (py_store s1)) of
             (c, h) \<Rightarrow> (cost_or_zero c, s1\<lparr>py_store := h\<rparr>)))"

definition calculateRecordUsageCost ::
    "billing_svc \<Rightarrow> channel_env \<Rightarrow> forward_usage \<Rightarrow> key_group \<Rightarrow> gostring \<Rightarrow> f64 \<Rightarrow> f64 \<Rightarrow> int \<Rightarrow> f64 \<Rightarrow> price_sys \<Rightarrow>
     cost_breakdown \<times> price_sys" where
  "calculateRecordUsageCost b e w g model rate imageMult longThreshold longMultiplier s =
     (if 0 < fw_ImageCount w then calculateImageCost b e w g model imageMult s
      else gw_calculateTokenCost b e w g model rate longThreshold longMultiplier s)"

definition calculateOpenAIRecordUsageTokenCost ::
    "billing_svc \<Rightarrow> channel_env \<Rightarrow> key_group \<Rightarrow> gostring \<Rightarrow> f64 \<Rightarrow> usage_tokens \<Rightarrow> gostring \<Rightarrow> price_sys \<Rightarrow>
     cost_breakdown result \<times> price_sys" where
  "calculateOpenAIRecordUsageTokenCost b e g model rate t tier s =
     (if g \<noteq> None then CalculateCostUnified b e None (input_for model g t 1 [] rate tier) s
      else case CalculateCostWithServiceTier b model t rate tier (py_store s) of (c, h) \<Rightarrow> (c, s\<lparr>py_store := h\<rparr>))"

definition calculateOpenAIImageCost ::
    "billing_svc \<Rightarrow> channel_env \<Rightarrow> gostring \<Rightarrow> key_group \<Rightarrow> forward_usage \<Rightarrow> f64 \<Rightarrow> price_sys \<Rightarrow> cost_breakdown \<times> price_sys" where
  "calculateOpenAIImageCost b e model g w rate s =
     (let listed = CalculateImageCost b model (fw_ImageSize w) (fw_ImageCount w) (map_option snd g) rate
      in case resolveChannelPricing b e model g s of
           (None, s1) \<Rightarrow> (listed, s1)
         | (Some r, s1) \<Rightarrow>
             if is_request_mode (rp_Mode r)
             then (case CalculateCostUnified b e (Some r) (input_for model g no_tokens (fw_ImageCount w) (fw_ImageSize w) rate []) s1 of
                     (Inr c, s2) \<Rightarrow> (c, s2) | (Inl _, s2) \<Rightarrow> (listed, s2))
             else (listed, s1))"

text \<open>The candidates are priced in order until one has a price.\<close>

fun first_priced ::
    "billing_svc \<Rightarrow> channel_env \<Rightarrow> key_group \<Rightarrow> f64 \<Rightarrow> usage_tokens \<Rightarrow> gostring \<Rightarrow> gostring list \<Rightarrow> go_error option \<Rightarrow>
     price_sys \<Rightarrow> (cost_breakdown option \<times> go_error option) \<times> price_sys" where
  "first_priced b e g rate t tier [] lastErr s = ((None, lastErr), s)"
| "first_priced b e g rate t tier (c # cs) lastErr s =
     (if trim_space c = [] then first_priced b e g rate t tier cs lastErr s
      else case calculateOpenAIRecordUsageTokenCost b e g (trim_space c) rate t tier s of
        (Inr cost, s1) \<Rightarrow> ((Some cost, None), s1)
      | (Inl err, s1) \<Rightarrow> first_priced b e g rate t tier cs (Some err) s1)"

definition calculateOpenAIRecordUsageCost ::
    "billing_svc \<Rightarrow> channel_env \<Rightarrow> forward_usage \<Rightarrow> key_group \<Rightarrow> gostring list \<Rightarrow> f64 \<Rightarrow> f64 \<Rightarrow> usage_tokens \<Rightarrow> gostring \<Rightarrow>
     price_sys \<Rightarrow> cost_breakdown result \<times> price_sys" where
  "calculateOpenAIRecordUsageCost b e w g models rate imageMult t tier s =
     (let model = firstUsageBillingModel models in
      if 0 < fw_ImageCount w then (case calculateOpenAIImageCost b e model g w imageMult s of (c, s1) \<Rightarrow> (Inr c, s1))
      else if models = [] \<or> model = [] then (Inl (EPlain ''openai usage billing model is empty''), s)
      else case first_priced b e g rate t tier models None s of
        ((Some c, _), s1) \<Rightarrow> (Inr c, s1)
      | ((None, err), s1) \<Rightarrow>
          (Inl (EWrap (''calculate OpenAI usage cost failed for billing models '' @ Join '','' models)
                 (case err of Some x \<Rightarrow> x | None \<Rightarrow> EPlain ''no non-empty billing model candidates'')), s1))"

end
