(* ===== verification/ChannelLaws.thy ===== *)
theory ChannelLaws
  imports ChannelService
begin

text \<open>
  What the checks on a channel buy: at most one interval matches a number of tokens and at most one pattern matches a
  model, so the answers of the flattened cache do not depend on any order, and are the ones the channel's configuration
  says.
\<close>

subsection \<open>At most one match\<close>

lemma find_filter: "find P xs = (case filter P xs of [] \<Rightarrow> None | x # _ \<Rightarrow> Some x)"
  by (induction xs) auto

lemma find_single_match:
  assumes "length (filter P xs) \<le> 1" "mset ys = mset xs"
  shows "find P ys = find P xs"
proof -
  have m: "mset (filter P ys) = mset (filter P xs)" using assms(2) by (metis mset_filter)
  have "filter P xs = [] \<or> (\<exists>x. filter P xs = [x])"
    using assms(1) by (cases "filter P xs"; cases "tl (filter P xs)") auto
  then have "filter P ys = filter P xs"
  proof
    assume "filter P xs = []"
    then show ?thesis using m by (metis mset_zero_iff)
  next
    assume "\<exists>x. filter P xs = [x]"
    then obtain x where "filter P xs = [x]" by blast
    then show ?thesis using m by (metis mset_single_iff)
  qed
  then show ?thesis by (simp add: find_filter)
qed

lemma exclusive_filter: "sorted_wrt (\<lambda>a b. \<not> (P a \<and> P b)) xs \<Longrightarrow> length (filter P xs) \<le> 1"
proof (induction xs)
  case (Cons a xs)
  then show ?case by (cases "P a") (auto simp: filter_False)
qed simp

lemma find_unique:
  assumes "length (filter P xs) \<le> 1" "x \<in> set xs" "P x"
  shows "find P xs = Some x"
proof -
  have "x \<in> set (filter P xs)" using assms by simp
  then have "filter P xs = [x]" using assms(1) by (cases "filter P xs") auto
  then show ?thesis by (simp add: find_filter)
qed

subsection \<open>Intervals\<close>

definition before_interval :: "pricing_interval \<Rightarrow> pricing_interval \<Rightarrow> bool" where
  "before_interval a b \<longleftrightarrow> (\<exists>m. pi_MaxTokens a = Some m \<and> m \<le> pi_MinTokens b)"

lemma before_interval_trans: "before_interval a b \<Longrightarrow> pi_MinTokens b \<le> pi_MinTokens c \<Longrightarrow> before_interval a c"
  by (auto simp: before_interval_def)

lemma before_interval_exclusive: "before_interval a b \<Longrightarrow> \<not> (interval_matches t a \<and> interval_matches t b)"
  by (auto simp: before_interval_def interval_matches_def)

lemma no_overlap_ordered:
  assumes "overlap_from i prev xs = None" "sorted (map pi_MinTokens xs)"
  shows "sorted_wrt before_interval xs \<and> (\<forall>p x. prev = Some p \<and> x \<in> set xs \<longrightarrow> before_interval p x)"
  using assms
proof (induction xs arbitrary: i prev)
  case (Cons iv rest)
  have tail: "overlap_from (i + 1) (Some iv) rest = None"
    and p: "\<And>p. prev = Some p \<Longrightarrow> before_interval p iv"
    using Cons.prems(1) by (auto simp: before_interval_def split: if_splits option.splits)
  from Cons.IH [OF tail] Cons.prems(2) have ih: "sorted_wrt before_interval rest" "\<forall>x \<in> set rest. before_interval iv x"
    by auto
  then show ?case using p Cons.prems(2) by (auto intro: before_interval_trans)
qed simp

lemma validated_exclusive:
  assumes "sorts_by_min arrange" "ValidateIntervals arrange intervals = None"
  shows "length (filter (interval_matches t) intervals) \<le> 1"
proof (cases "intervals = []")
  case False
  have s: "mset (arrange intervals) = mset intervals" "sorted (map pi_MinTokens (arrange intervals))"
    using assms(1) by (simp_all add: sorts_by_min_def)
  have "overlap_from 0 None (arrange intervals) = None"
    using assms(2) False by (simp add: ValidateIntervals_def Let_def validateIntervalOverlap_def split: option.splits)
  from no_overlap_ordered [OF this s(2)] have "sorted_wrt before_interval (arrange intervals)" by simp
  then have "sorted_wrt (\<lambda>a b. \<not> (interval_matches t a \<and> interval_matches t b)) (arrange intervals)"
    by (rule sorted_wrt_mono_rel [rotated]) (blast dest: before_interval_exclusive)
  from exclusive_filter [OF this] show ?thesis
    using s(1) by (metis mset_filter size_mset)
qed simp

text \<open>
  Intervals that pass the check are disjoint. At most one of them matches a number of tokens, so the interval found
  is the same whatever order the intervals are stored and read in.
\<close>

theorem validated_interval_is_unique:
  assumes "sorts_by_min arrange" "ValidateIntervals arrange intervals = None" "mset stored = mset intervals"
  shows "FindMatchingInterval stored t = FindMatchingInterval intervals t
    \<and> (\<forall>iv \<in> set intervals. interval_matches t iv \<longrightarrow> FindMatchingInterval stored t = Some iv)"
proof -
  have one: "length (filter (interval_matches t) intervals) \<le> 1" by (rule validated_exclusive [OF assms(1,2)])
  then have "FindMatchingInterval stored t = FindMatchingInterval intervals t"
    using find_single_match assms(3) by (simp add: FindMatchingInterval_def)
  then show ?thesis using find_unique [OF one] by (simp add: FindMatchingInterval_def)
qed

definition demo_interval :: "int \<Rightarrow> int option \<Rightarrow> pricing_interval" where
  "demo_interval lo hi = \<lparr>pi_MinTokens = lo, pi_MaxTokens = hi, pi_TierLabel = [], pi_InputPrice = Some (Fin 1),
     pi_OutputPrice = None, pi_CacheWritePrice = None, pi_CacheReadPrice = None, pi_PerRequestPrice = None, pi_SortOrder = 0\<rparr>"

lemma sort_key_sorts_by_min: "sorts_by_min (sort_key pi_MinTokens)"
  by (simp add: sorts_by_min_def)

theorem validated_interval_is_unique_witness:
  "FindMatchingInterval [demo_interval 200 None, demo_interval 0 (Some 200)] 150 = Some (demo_interval 0 (Some 200))"
proof -
  have "ValidateIntervals (sort_key pi_MinTokens) [demo_interval 0 (Some 200), demo_interval 200 None] = None" by code_simp
  moreover have "interval_matches 150 (demo_interval 0 (Some 200))" by code_simp
  ultimately show ?thesis
    using validated_interval_is_unique [OF sort_key_sorts_by_min, of "[demo_interval 0 (Some 200), demo_interval 200 None]"
        "[demo_interval 200 None, demo_interval 0 (Some 200)]" 150] by auto
qed

subsection \<open>Patterns\<close>

text \<open>What a pattern means: a trailing star stands for any rest, letters match in either case.\<close>

definition pattern_covers :: "(gostring \<Rightarrow> gostring) \<Rightarrow> gostring \<Rightarrow> gostring \<Rightarrow> bool" where
  "pattern_covers uni pat modelLower \<longleftrightarrow>
     (if HasSuffixStar pat then prefix (ToLower uni (butlast pat)) modelLower else ToLower uni pat = modelLower)"

text \<open>No character outside ASCII has the star as its lower case.\<close>

definition keeps_stars :: "(gostring \<Rightarrow> gostring) \<Rightarrow> bool" where
  "keeps_stars uni \<longleftrightarrow> (\<forall>r. r \<noteq> [] \<and> (\<forall>c \<in> set r. \<not> ascii_char c) \<longrightarrow> uni r \<noteq> [] \<and> \<not> HasSuffixStar (uni r))"

lemma keeps_starsD:
  "keeps_stars uni \<Longrightarrow> \<not> ascii_char c \<Longrightarrow> uni (c # takeWhile (\<lambda>x. \<not> ascii_char x) s) \<noteq> []
    \<and> \<not> HasSuffixStar (uni (c # takeWhile (\<lambda>x. \<not> ascii_char x) s))"
  unfolding keeps_stars_def by (metis list.distinct(1) set_ConsD set_takeWhileD)

lemma HasSuffixStar_simps [simp]:
  "\<not> HasSuffixStar []" "HasSuffixStar (c # s) \<longleftrightarrow> (if s = [] then c = CHR ''*'' else HasSuffixStar s)"
  by (auto simp: HasSuffixStar_def suffix_Cons)

lemma HasSuffixStar_append: "HasSuffixStar (a @ b) \<longleftrightarrow> (if b = [] then HasSuffixStar a else HasSuffixStar b)"
  by (induction a) auto

lemma lower_char_star [simp]: "lower_char c = CHR ''*'' \<longleftrightarrow> c = CHR ''*''"
proof (cases "65 \<le> (of_char c :: nat) \<and> (of_char c :: nat) \<le> 90")
  case True
  then have "(of_char (lower_char c) :: nat) = of_char c + 32" by (simp add: lower_char_def)
  with True have "lower_char c \<noteq> CHR ''*''" "c \<noteq> CHR ''*''" by auto
  then show ?thesis by simp
qed (auto simp: lower_char_def)

lemma ascii_star [simp]: "ascii_char (CHR ''*'')"
  by (simp add: ascii_char_def)

lemma ToLower_append_star: "ToLower uni (s @ ''*'') = ToLower uni s @ ''*''"
proof (induction uni s rule: ToLower.induct)
  case (2 uni c s)
  have t: "takeWhile (\<lambda>x. \<not> ascii_char x) (s @ ''*'') = takeWhile (\<lambda>x. \<not> ascii_char x) s" by (induction s) auto
  have d: "dropWhile (\<lambda>x. \<not> ascii_char x) (s @ ''*'') = dropWhile (\<lambda>x. \<not> ascii_char x) s @ ''*''" by (induction s) auto
  show ?case using 2 by (cases "ascii_char c") (simp_all add: t d)
qed (simp add: lower_char_def)

lemma ToLower_no_star:
  assumes "keeps_stars uni" "\<not> HasSuffixStar s"
  shows "\<not> HasSuffixStar (ToLower uni s)"
  using assms
proof (induction uni s rule: ToLower.induct)
  case (2 uni c s)
  let ?r = "takeWhile (\<lambda>x. \<not> ascii_char x) s" and ?d = "dropWhile (\<lambda>x. \<not> ascii_char x) s"
  have u: "\<not> ascii_char c \<Longrightarrow> \<not> HasSuffixStar (uni (c # ?r))" using keeps_starsD [OF 2(3)] by blast
  have "?d \<noteq> [] \<Longrightarrow> \<not> HasSuffixStar ?d" using 2(4) by (metis HasSuffixStar_append append_Cons list.distinct(1) takeWhile_dropWhile_id)
  then have "\<not> HasSuffixStar ?d" using HasSuffixStar_simps(1) by metis
  then have "\<not> ascii_char c \<Longrightarrow> \<not> HasSuffixStar (ToLower uni ?d)" using 2(2,3) by blast
  then show ?case
  proof (cases "ascii_char c")
    case True
    have "ToLower uni s = [] \<longrightarrow> s = []" using keeps_starsD [OF 2(3)] by (cases s) auto
    then show ?thesis using 2 True by (auto split: if_splits)
  qed (use u in \<open>simp add: HasSuffixStar_append\<close>)
qed simp

lemma keeps_stars_id: "keeps_stars (\<lambda>r. r)"
  by (auto simp: keeps_stars_def HasSuffixStar_def suffix_def)

lemma star_iff: "HasSuffixStar s \<longleftrightarrow> (\<exists>t. s = t @ ''*'')"
  by (auto simp: HasSuffixStar_def suffix_def)

text \<open>Lowering a pattern first and splitting it then is splitting it first.\<close>

lemma toModelEntry_eq:
  assumes "keeps_stars uni"
  shows "toModelEntry uni pat = \<lparr>me_pattern = pat,
    me_prefix = ToLower uni (if HasSuffixStar pat then butlast pat else pat), me_wildcard = HasSuffixStar pat\<rparr>"
proof (cases "HasSuffixStar pat")
  case True
  then obtain t where "pat = t @ ''*''" by (auto simp: star_iff)
  then show ?thesis by (simp add: toModelEntry_def splitWildcardSuffix_def ToLower_append_star HasSuffixStar_append)
next
  case False
  then show ?thesis using ToLower_no_star [OF assms] by (simp add: toModelEntry_def splitWildcardSuffix_def)
qed

lemma both_cover_conflict:
  assumes "keeps_stars uni" "pattern_covers uni a m" "pattern_covers uni b m"
  shows "conflictsBetween (toModelEntry uni a) (toModelEntry uni b)"
  using assms prefix_same_cases [of "ToLower uni (butlast a)" m "ToLower uni (butlast b)"]
  by (auto simp: toModelEntry_eq conflictsBetween_def pattern_covers_def split: if_splits)

lemma detectConflicts_None:
  "detectConflicts es platform code label = None \<Longrightarrow> sorted_wrt (\<lambda>a b. \<not> conflictsBetween a b) es"
  by (induction es) (auto simp: find_None_iff split: option.splits)

text \<open>The patterns of a platform, each with what it leads to.\<close>

lemma one_pattern_covers:
  assumes "keeps_stars uni" "detectConflicts (map (toModelEntry uni \<circ> fst) es) platform code label = None"
  shows "length (filter (\<lambda>e. pattern_covers uni (fst e) m) es) \<le> 1"
proof (rule exclusive_filter)
  from detectConflicts_None [OF assms(2)]
  have "sorted_wrt (\<lambda>a b. \<not> conflictsBetween (toModelEntry uni (fst a)) (toModelEntry uni (fst b))) es"
    by (simp add: sorted_wrt_map)
  then show "sorted_wrt (\<lambda>a b. \<not> (pattern_covers uni (fst a) m \<and> pattern_covers uni (fst b) m)) es"
    by (rule sorted_wrt_mono_rel [rotated]) (use both_cover_conflict [OF assms(1)] in blast)
qed

subsection \<open>The cache of one group\<close>

text \<open>What the cache holds for one group.\<close>

definition group_view :: "channel_cache \<Rightarrow> int64 \<Rightarrow> (gostring \<Rightarrow> gostring \<rightharpoonup> channel_pricing)
    \<times> (gostring \<Rightarrow> (gostring \<times> channel_pricing) list) \<times> (gostring \<Rightarrow> gostring \<rightharpoonup> gostring)
    \<times> (gostring \<Rightarrow> (gostring \<times> gostring) list) \<times> channel option" where
  "group_view c g = (\<lambda>pl m. cc_pricingByGroupModel c (g, pl, m), \<lambda>pl. cc_wildcardByGroupPlatform c (g, pl),
     \<lambda>pl m. cc_mappingByGroupModel c (g, pl, m), \<lambda>pl. cc_wildcardMappingByGP c (g, pl), cc_channelByGroupID c g)"

lemma fold_keeps: "(\<And>x c. x \<in> set xs \<Longrightarrow> v (f x c) = v c) \<Longrightarrow> v (fold f xs c) = v c"
  by (induction xs arbitrary: c) auto

lemma add_group_other:
  assumes "g' \<noteq> g"
  shows "group_view (add_group uni plats ch g' c) g = group_view c g"
proof -
  have p: "group_view (add_pricing uni g' p m c) g = group_view c g" for p m c
    using assms by (simp add: add_pricing_def Let_def group_view_def)
  have m: "group_view (add_mapping uni g' pl e c) g = group_view c g" for pl e c
    using assms by (simp add: add_mapping_def group_view_def split: prod.splits)
  have 1: "group_view (expandPricingToCache uni ch g' pl c) g = group_view c g" for pl c
    unfolding expandPricingToCache_def
    by (rule fold_keeps [where v = "\<lambda>c. group_view c g"]) (auto intro!: fold_keeps [where v = "\<lambda>c. group_view c g"] p)
  have 2: "group_view (expandMappingToCache uni ch g' pl c) g = group_view c g" for pl c
    unfolding expandMappingToCache_def
    by (rule fold_keeps [where v = "\<lambda>c. group_view c g"])
      (auto intro!: fold_keeps [where v = "\<lambda>c. group_view c g"] m split: option.splits)
  have "group_view (c\<lparr>cc_channelByGroupID := (cc_channelByGroupID c)(g' \<mapsto> ch)\<rparr>) g = group_view c g"
    using assms by (simp add: group_view_def)
  then show ?thesis by (simp add: add_group_def Let_def 1 2)
qed

text \<open>The patterns of a channel for a platform, with their prices, in order.\<close>

definition priced_patterns :: "channel \<Rightarrow> gostring \<Rightarrow> (gostring \<times> channel_pricing) list" where
  "priced_patterns ch pl =
     concat (map (\<lambda>p. map (\<lambda>m. (m, p)) (cp_Models p)) (filter (\<lambda>p. cp_Platform p = pl) (ch_ModelPricing ch)))"

lemma expandPricing_flat:
  "expandPricingToCache uni ch g pl c = fold (\<lambda>(m, p). add_pricing uni g p m) (priced_patterns ch pl) c"
proof -
  have "fold (\<lambda>p cache. if \<not> isPlatformPricingMatch pl (cp_Platform p) then cache
          else fold (add_pricing uni g p) (cp_Models p) cache) ps c
    = fold (\<lambda>(m, p). add_pricing uni g p m)
        (concat (map (\<lambda>p. map (\<lambda>m. (m, p)) (cp_Models p)) (filter (\<lambda>p. cp_Platform p = pl) ps))) c" for ps
    by (induction ps arbitrary: c) (auto simp: isPlatformPricingMatch_def fold_map comp_def)
  then show ?thesis by (simp add: expandPricingToCache_def priced_patterns_def)
qed

text \<open>Tables filled entry by entry: the last exact one wins, wildcards stay in order.\<close>

definition exact_of :: "(gostring \<Rightarrow> gostring) \<Rightarrow> (gostring \<times> 'a) list \<Rightarrow> gostring \<rightharpoonup> 'a" where
  "exact_of uni es m = map_option snd (find (\<lambda>e. \<not> HasSuffixStar (fst e) \<and> ToLower uni (fst e) = m) (rev es))"

definition wild_of :: "(gostring \<Rightarrow> gostring) \<Rightarrow> (gostring \<times> 'a) list \<Rightarrow> (gostring \<times> 'a) list" where
  "wild_of uni es = map (\<lambda>e. (ToLower uni (butlast (fst e)), snd e)) (filter (\<lambda>e. HasSuffixStar (fst e)) es)"

lemma priced_patterns_platform: "(m, p) \<in> set (priced_patterns ch pl) \<Longrightarrow> cp_Platform p = pl"
  by (auto simp: priced_patterns_def)

lemma fold_add_pricing:
  fixes es g pl c uni
  defines "c' \<equiv> fold (\<lambda>(m, p). add_pricing uni g p m) es c"
  assumes "\<forall>e \<in> set es. cp_Platform (snd e) = pl" "\<forall>m. cc_pricingByGroupModel c (g, pl, m) = None"
  shows "cc_pricingByGroupModel c' (g, pl, m) = exact_of uni es m
    \<and> cc_wildcardByGroupPlatform c' (g, pl) = cc_wildcardByGroupPlatform c (g, pl) @ wild_of uni es"
  unfolding c'_def using assms(2,3)
proof (induction es arbitrary: m rule: rev_induct)
  case (snoc e es)
  then show ?case
    by (cases e) (auto simp: add_pricing_def Let_def exact_of_def wild_of_def)
qed (simp add: exact_of_def wild_of_def)

lemma fold_add_mapping:
  fixes es :: string_map and g pl c uni
  defines "c' \<equiv> fold (add_mapping uni g pl) es c"
  assumes "\<forall>m. cc_mappingByGroupModel c (g, pl, m) = None"
  shows "cc_mappingByGroupModel c' (g, pl, m) = exact_of uni es m
    \<and> cc_wildcardMappingByGP c' (g, pl) = cc_wildcardMappingByGP c (g, pl) @ wild_of uni es"
  unfolding c'_def using assms(2)
proof (induction es arbitrary: m rule: rev_induct)
  case (snoc e es)
  then show ?case
    by (cases e) (auto simp: add_mapping_def exact_of_def wild_of_def)
qed (simp add: exact_of_def wild_of_def)

lemma single_matchD:
  assumes "length (filter P xs) \<le> 1" "a \<in> set xs" "b \<in> set xs" "P a" "P b"
  shows "a = b"
  using find_unique [OF assms(1,2,4)] find_unique [OF assms(1,3,5)] by simp

lemma tables_answer:
  assumes one: "length (filter (\<lambda>e. pattern_covers uni (fst e) m) es) \<le> 1"
  shows "(case exact_of uni es m of Some v \<Rightarrow> Some v | None \<Rightarrow> map_option snd (find (\<lambda>(p, _). prefix p m) (wild_of uni es)))
    = map_option snd (find (\<lambda>e. pattern_covers uni (fst e) m) es)"
proof (cases "\<exists>e \<in> set es. pattern_covers uni (fst e) m")
  case False
  then have "exact_of uni es m = None" "find (\<lambda>(p, _). prefix p m) (wild_of uni es) = None"
    "find (\<lambda>e. pattern_covers uni (fst e) m) es = None"
    by (auto simp: exact_of_def wild_of_def find_None_iff pattern_covers_def)
  then show ?thesis by simp
next
  case True
  then obtain e where e: "e \<in> set es" "pattern_covers uni (fst e) m" by blast
  have u: "\<And>e'. e' \<in> set es \<Longrightarrow> pattern_covers uni (fst e') m \<Longrightarrow> e' = e" using single_matchD [OF one _ e(1) _ e(2)] by blast
  have r: "find (\<lambda>e. pattern_covers uni (fst e) m) es = Some e" by (rule find_unique [OF one e])
  show ?thesis
  proof (cases "HasSuffixStar (fst e)")
    case star: True
    have "\<not> (\<exists>e' \<in> set es. \<not> HasSuffixStar (fst e') \<and> ToLower uni (fst e') = m)"
      using u star by (auto simp: pattern_covers_def)
    then have "exact_of uni es m = None" by (auto simp: exact_of_def find_None_iff)
    moreover have "(ToLower uni (butlast (fst e)), snd e) \<in> set (wild_of uni es)" using e star by (auto simp: wild_of_def)
    then have "find (\<lambda>(p, _). prefix p m) (wild_of uni es) \<noteq> None"
      using e(2) star unfolding find_None_iff pattern_covers_def by force
    then obtain w where w: "find (\<lambda>(p, _). prefix p m) (wild_of uni es) = Some w" by blast
    moreover note w
    moreover have "snd w = snd e"
      using find_SomeD [OF w] u by (auto simp: wild_of_def pattern_covers_def)
    ultimately show ?thesis using r by simp
  next
    case exact: False
    have "\<exists>x. x \<in> set (rev es) \<and> \<not> HasSuffixStar (fst x) \<and> ToLower uni (fst x) = m"
      using e exact by (intro exI [of _ e]) (simp add: pattern_covers_def)
    then have "find (\<lambda>e. \<not> HasSuffixStar (fst e) \<and> ToLower uni (fst e) = m) (rev es) \<noteq> None"
      unfolding find_None_iff by blast
    then obtain x where x: "find (\<lambda>e. \<not> HasSuffixStar (fst e) \<and> ToLower uni (fst e) = m) (rev es) = Some x" by blast
    then have "x = e" using find_SomeD [OF x] u by (auto simp: pattern_covers_def)
    then show ?thesis using x r by (simp add: exact_of_def)
  qed
qed

text \<open>What the tables of a fresh cache hold for a group after its channel was added.\<close>

lemma add_mapping_pricing [simp]:
  "cc_pricingByGroupModel (add_mapping uni g pl e c) = cc_pricingByGroupModel c"
  "cc_wildcardByGroupPlatform (add_mapping uni g pl e c) = cc_wildcardByGroupPlatform c"
  "cc_channelByGroupID (add_mapping uni g pl e c) = cc_channelByGroupID c"
  by (simp_all add: add_mapping_def split: prod.splits)

lemma add_pricing_mapping [simp]:
  "cc_mappingByGroupModel (add_pricing uni g p m c) = cc_mappingByGroupModel c"
  "cc_wildcardMappingByGP (add_pricing uni g p m c) = cc_wildcardMappingByGP c"
  "cc_channelByGroupID (add_pricing uni g p m c) = cc_channelByGroupID c"
  by (simp_all add: add_pricing_def Let_def)

lemma fold_add_mapping_pricing [simp]:
  "cc_pricingByGroupModel (fold (add_mapping uni g pl) es c) = cc_pricingByGroupModel c"
  "cc_wildcardByGroupPlatform (fold (add_mapping uni g pl) es c) = cc_wildcardByGroupPlatform c"
  "cc_channelByGroupID (fold (add_mapping uni g pl) es c) = cc_channelByGroupID c"
  by (induction es arbitrary: c) simp_all

lemma fold_add_pricing_mapping [simp]:
  "cc_mappingByGroupModel (fold (\<lambda>(m, p). add_pricing uni g p m) es c) = cc_mappingByGroupModel c"
  "cc_wildcardMappingByGP (fold (\<lambda>(m, p). add_pricing uni g p m) es c) = cc_wildcardMappingByGP c"
  "cc_channelByGroupID (fold (\<lambda>(m, p). add_pricing uni g p m) es c) = cc_channelByGroupID c"
  by (induction es arbitrary: c) (simp_all split: prod.splits)

definition mapped_patterns :: "channel \<Rightarrow> gostring \<Rightarrow> string_map" where
  "mapped_patterns ch pl = (case map_of (ch_ModelMapping ch) pl of Some m \<Rightarrow> m | None \<Rightarrow> [])"

definition fresh_group :: "channel_cache \<Rightarrow> int64 \<Rightarrow> bool" where
  "fresh_group c g \<longleftrightarrow> group_view c g = (\<lambda>_ _. None, \<lambda>_. [], \<lambda>_ _. None, \<lambda>_. [], None)"

lemma add_group_tables:
  fixes plats g
  defines "pl \<equiv> platform_of plats g"
  assumes "fresh_group c g"
  shows "cc_pricingByGroupModel (add_group uni plats ch g c) (g, pl, m) = exact_of uni (priced_patterns ch pl) m"
    "cc_wildcardByGroupPlatform (add_group uni plats ch g c) (g, pl) = wild_of uni (priced_patterns ch pl)"
    "cc_mappingByGroupModel (add_group uni plats ch g c) (g, pl, m) = exact_of uni (mapped_patterns ch pl) m"
    "cc_wildcardMappingByGP (add_group uni plats ch g c) (g, pl) = wild_of uni (mapped_patterns ch pl)"
    "cc_channelByGroupID (add_group uni plats ch g c) g = Some ch"
proof -
  let ?c1 = "c\<lparr>cc_channelByGroupID := (cc_channelByGroupID c)(g \<mapsto> ch)\<rparr>"
  let ?c2 = "fold (\<lambda>(m, p). add_pricing uni g p m) (priced_patterns ch pl) ?c1"
  have e: "add_group uni plats ch g c = fold (add_mapping uni g pl) (mapped_patterns ch pl) ?c2"
    by (simp add: add_group_def Let_def expandPricing_flat expandMappingToCache_def matchingPlatforms_def
        mapped_patterns_def pl_def split: option.split)
  have f: "\<forall>m. cc_pricingByGroupModel ?c1 (g, pl, m) = None" "cc_wildcardByGroupPlatform ?c1 (g, pl) = []"
    "\<forall>m. cc_mappingByGroupModel ?c2 (g, pl, m) = None" "cc_wildcardMappingByGP ?c2 (g, pl) = []"
    using assms(2) by (simp_all add: fresh_group_def group_view_def fun_eq_iff)
  have a: "\<forall>e \<in> set (priced_patterns ch pl). cp_Platform (snd e) = pl" using priced_patterns_platform by fastforce
  note p = fold_add_pricing [OF a f(1), of uni] and q = fold_add_mapping [OF f(3), of uni "mapped_patterns ch pl"]
  show "cc_pricingByGroupModel (add_group uni plats ch g c) (g, pl, m) = exact_of uni (priced_patterns ch pl) m"
    "cc_wildcardByGroupPlatform (add_group uni plats ch g c) (g, pl) = wild_of uni (priced_patterns ch pl)"
    using p f(2) by (simp_all add: e)
  show "cc_mappingByGroupModel (add_group uni plats ch g c) (g, pl, m) = exact_of uni (mapped_patterns ch pl) m"
    "cc_wildcardMappingByGP (add_group uni plats ch g c) (g, pl) = wild_of uni (mapped_patterns ch pl)"
    using q f(4) by (simp_all add: e)
  show "cc_channelByGroupID (add_group uni plats ch g c) g = Some ch" by (simp add: e)
qed

subsection \<open>The whole cache\<close>

lemma group_view_cong:
  assumes "group_view c g = group_view c' g"
  shows "cc_pricingByGroupModel c (g, pl, m) = cc_pricingByGroupModel c' (g, pl, m)"
    "cc_wildcardByGroupPlatform c (g, pl) = cc_wildcardByGroupPlatform c' (g, pl)"
    "cc_mappingByGroupModel c (g, pl, m) = cc_mappingByGroupModel c' (g, pl, m)"
    "cc_wildcardMappingByGP c (g, pl) = cc_wildcardMappingByGP c' (g, pl)"
    "cc_channelByGroupID c g = cc_channelByGroupID c' g"
  using assms by (auto simp: group_view_def fun_eq_iff)

lemma fold_add_group_other:
  "g \<notin> set gs \<Longrightarrow> group_view (fold (add_group uni plats ch) gs c) g = group_view c g"
  by (rule fold_keeps [where v = "\<lambda>c. group_view c g"]) (auto intro: add_group_other)

lemma normalize_GroupIDs [simp]: "ch_GroupIDs (normalizeBillingModelSource ch) = ch_GroupIDs ch"
  by (simp add: normalizeBillingModelSource_def)

lemma group_view_byID [simp]: "group_view (c\<lparr>cc_byID := b\<rparr>) g = group_view c g"
  by (simp add: group_view_def)

lemma add_channel_other:
  "g \<notin> set (ch_GroupIDs ch) \<Longrightarrow> group_view (add_channel uni plats ch c) g = group_view c g"
  by (simp add: add_channel_def Let_def fold_add_group_other)

lemma add_channel_own:
  assumes "g \<in> set (ch_GroupIDs ch)" "distinct (ch_GroupIDs ch)" "fresh_group c g"
  shows "\<exists>c0. fresh_group c0 g
    \<and> group_view (add_channel uni plats ch c) g = group_view (add_group uni plats (normalizeBillingModelSource ch) g c0) g"
proof -
  obtain as bs where s: "ch_GroupIDs ch = as @ g # bs" "g \<notin> set as" "g \<notin> set bs"
    using assms(1,2) by (metis distinct.simps(2) distinct_append not_distinct_conv_prefix split_list_first)
  let ?n = "normalizeBillingModelSource ch"
  let ?c0 = "fold (add_group uni plats ?n) as (c\<lparr>cc_byID := (cc_byID c)(ch_ID ?n \<mapsto> ?n)\<rparr>)"
  have "group_view ?c0 g = group_view c g" using s(2) by (simp add: fold_add_group_other)
  then have "fresh_group ?c0 g" using assms(3) by (simp add: fresh_group_def)
  moreover have "ch_GroupIDs ?n = as @ g # bs" using s(1) by simp
  then have "group_view (add_channel uni plats ch c) g = group_view (add_group uni plats ?n g ?c0) g"
    using s(3) by (simp add: add_channel_def Let_def fold_add_group_other)
  ultimately show ?thesis by blast
qed

lemma populated_view:
  assumes "distinct (concat (map ch_GroupIDs channels))" "ch \<in> set channels" "g \<in> set (ch_GroupIDs ch)"
  shows "\<exists>c0. fresh_group c0 g \<and> group_view (populateChannelCache uni now channels plats) g
    = group_view (add_group uni plats (normalizeBillingModelSource ch) g c0) g"
proof -
  obtain xs ys where s: "channels = xs @ ch # ys" using assms(2) by (meson split_list)
  have o: "g \<notin> set (ch_GroupIDs c)" if "c \<in> set xs \<union> set ys" for c using that assms(1,3) s by auto
  let ?e = "newEmptyChannelCache\<lparr>cc_groupPlatform := plats, cc_loadedAt := now\<rparr>"
  let ?c = "fold (add_channel uni plats) xs ?e"
  have k: "group_view (fold (add_channel uni plats) zs c) g = group_view c g" if "set zs \<subseteq> set xs \<union> set ys" for zs c
    by (rule fold_keeps [where v = "\<lambda>c. group_view c g"]) (use that o in \<open>auto intro!: add_channel_other\<close>)
  have "group_view ?c g = group_view ?e g" by (rule k) simp
  then have "fresh_group ?c g" by (simp add: fresh_group_def group_view_def newEmptyChannelCache_def)
  moreover have "distinct (ch_GroupIDs ch)" using assms(1) s by auto
  moreover have "group_view (populateChannelCache uni now channels plats) g = group_view (add_channel uni plats ch ?c) g"
    by (simp add: populateChannelCache_def s k)
  ultimately show ?thesis using add_channel_own [OF assms(3)] by metis
qed

lemma add_group_platform:
  "cc_groupPlatform (add_group uni plats ch g c) = cc_groupPlatform c"
proof -
  have p: "cc_groupPlatform (add_pricing uni g p m c) = cc_groupPlatform c" for p m c by (simp add: add_pricing_def Let_def)
  have m: "cc_groupPlatform (add_mapping uni g pl e c) = cc_groupPlatform c" for pl e c
    by (simp add: add_mapping_def split: prod.splits)
  have 1: "cc_groupPlatform (expandPricingToCache uni ch g pl c) = cc_groupPlatform c" for pl c
    unfolding expandPricingToCache_def
    by (rule fold_keeps [where v = cc_groupPlatform]) (auto intro!: fold_keeps [where v = cc_groupPlatform] p)
  have 2: "cc_groupPlatform (expandMappingToCache uni ch g pl c) = cc_groupPlatform c" for pl c
    unfolding expandMappingToCache_def
    by (rule fold_keeps [where v = cc_groupPlatform]) (auto intro!: fold_keeps [where v = cc_groupPlatform] m split: option.splits)
  show ?thesis by (simp add: add_group_def Let_def 1 2)
qed

lemma populated_platform [simp]: "cc_groupPlatform (populateChannelCache uni now channels plats) = plats"
proof -
  have "cc_groupPlatform (add_channel uni plats ch c) = cc_groupPlatform c" for ch c
    using fold_keeps [where v = cc_groupPlatform and f = "add_group uni plats (normalizeBillingModelSource ch)"]
    by (simp add: add_channel_def Let_def add_group_platform)
  then have "cc_groupPlatform (fold (add_channel uni plats) channels c) = cc_groupPlatform c" for c
    by (rule fold_keeps [where v = cc_groupPlatform])
  then show ?thesis by (simp add: populateChannelCache_def)
qed

subsection \<open>Validated channels\<close>

lemma first_some_single [simp]: "first_some [x] = x"
  by (cases x) simp_all

lemma first_some_None: "first_some xs = None \<longleftrightarrow> (\<forall>x \<in> set xs. x = None)"
  by (induction xs) (auto split: option.splits)

lemma platform_entries_flat: "platform_entries uni (ch_ModelPricing ch) pl = map (toModelEntry uni \<circ> fst) (priced_patterns ch pl)"
  by (simp add: platform_entries_def priced_patterns_def map_concat comp_def)

lemma validated_patterns:
  assumes "keeps_stars uni"
    and v: "validateNoConflictingModels uni (ch_ModelPricing ch) = None" "validateNoConflictingMappings uni (ch_ModelMapping ch) = None"
  shows "length (filter (\<lambda>e. pattern_covers uni (fst e) m) (priced_patterns ch pl)) \<le> 1"
    "length (filter (\<lambda>e. pattern_covers uni (fst e) m) (mapped_patterns ch pl)) \<le> 1"
proof -
  show "length (filter (\<lambda>e. pattern_covers uni (fst e) m) (priced_patterns ch pl)) \<le> 1"
  proof (cases "priced_patterns ch pl = []")
    case False
    then obtain q where "q \<in> set (ch_ModelPricing ch)" "cp_Platform q = pl" "cp_Models q \<noteq> []"
      by (auto simp: priced_patterns_def)
    then have "pl \<in> set (remdups (map cp_Platform (filter (\<lambda>p. cp_Models p \<noteq> []) (ch_ModelPricing ch))))" by auto
    then have "detectConflicts (platform_entries uni (ch_ModelPricing ch) pl) pl ''MODEL_PATTERN_CONFLICT'' ''model patterns'' = None"
      using v(1) by (auto simp: validateNoConflictingModels_def first_some_None)
    then show ?thesis using one_pattern_covers [OF assms(1)] by (simp add: platform_entries_flat)
  qed simp
  show "length (filter (\<lambda>e. pattern_covers uni (fst e) m) (mapped_patterns ch pl)) \<le> 1"
  proof (cases "map_of (ch_ModelMapping ch) pl")
    case (Some mm)
    then have "(pl, mm) \<in> set (ch_ModelMapping ch)" by (rule map_of_SomeD)
    then have "detectConflicts (map (toModelEntry uni \<circ> fst) mm) pl ''MAPPING_PATTERN_CONFLICT'' ''mapping source patterns'' = None"
      using v(2) by (auto simp: validateNoConflictingMappings_def first_some_None)
    then show ?thesis using one_pattern_covers [OF assms(1)] Some by (simp add: mapped_patterns_def)
  qed (simp add: mapped_patterns_def)
qed

text \<open>The first lookup of a group's channel, in a cache built from the database.\<close>

lemma first_lookup:
  fixes e s g
  defines "db \<equiv> cy_db s"
  assumes "ce_fault e KListAll = NoFault" "ce_fault e KPlatforms = NoFault" "cy_cache s = None"
    and "ch \<in> set (cd_rows db)" "g \<in> set (ch_GroupIDs ch)"
  shows "\<exists>plats s1. platform_of plats g = platform_of (map_of (cd_groups db)) g
    \<and> lookup_or_none e g s = (find_channel (populateChannelCache (ce_uni e) (ce_now e) (cd_rows db) plats) g, s1)"
proof -
  let ?ids = "concat (map ch_GroupIDs (cd_rows db))"
  have "g \<in> set ?ids" using assms(5,6) by auto
  moreover then have "?ids \<noteq> []" by (metis list.set_cases list.distinct(1))
  ultimately show ?thesis
    using assms(2-4)
    by (intro exI [of _ "GetGroupPlatforms ?ids db"])
      (auto simp: lookup_or_none_def lookupGroupChannel_def loadCache_def buildCache_def fetchChannelData_def Let_def db_def
        GetGroupPlatforms_def platform_of_def)
qed

lemma first_nonempty:
  "(case exact of Some mapped \<Rightarrow> mapped | None \<Rightarrow>
      (case find (\<lambda>m. m \<noteq> []) [case w of Some (_, t) \<Rightarrow> t | None \<Rightarrow> []] of Some mapped \<Rightarrow> mapped | None \<Rightarrow> []))
    = (case (case exact of Some v \<Rightarrow> Some v | None \<Rightarrow> map_option snd w) of Some t \<Rightarrow> t | None \<Rightarrow> [])"
  by (auto split: option.splits)

lemma group_lookup:
  fixes uni plats g channels ch now
  defines "pl \<equiv> platform_of plats g" and "cache \<equiv> populateChannelCache uni now channels plats"
    and "n \<equiv> normalizeBillingModelSource ch"
  assumes "distinct (concat (map ch_GroupIDs channels))" "ch \<in> set channels" "g \<in> set (ch_GroupIDs ch)" "ch_IsActive ch"
    and "keeps_stars uni" "validateNoConflictingModels uni (ch_ModelPricing ch) = None"
    and "validateNoConflictingMappings uni (ch_ModelMapping ch) = None"
  shows "find_channel cache g = Some \<lparr>lk_cache = cache, lk_channel = n, lk_platform = pl\<rparr>"
    "lookupPricingAcrossPlatforms cache g pl m = map_option snd (find (\<lambda>e. pattern_covers uni (fst e) m) (priced_patterns ch pl))"
    "lookupMappingAcrossPlatforms cache g pl m =
      (case find (\<lambda>e. pattern_covers uni (fst e) m) (mapped_patterns ch pl) of Some e \<Rightarrow> snd e | None \<Rightarrow> [])"
proof -
  obtain c0 where c0: "fresh_group c0 g" "group_view cache g = group_view (add_group uni plats n g c0) g"
    using populated_view [OF assms(4-6)] unfolding cache_def n_def by blast
  note v = group_view_cong [OF c0(2)]
  note t = add_group_tables [OF c0(1), of uni plats n, folded pl_def]
  have same: "priced_patterns n pl = priced_patterns ch pl" "mapped_patterns n pl = mapped_patterns ch pl" "ch_IsActive n"
    using assms(7) by (simp_all add: n_def normalizeBillingModelSource_def priced_patterns_def mapped_patterns_def ch_IsActive_def)
  note one = validated_patterns [OF assms(8-10), of m pl]
  show "find_channel cache g = Some \<lparr>lk_cache = cache, lk_channel = n, lk_platform = pl\<rparr>"
    using v(5) t(5) same(3) by (simp add: find_channel_def cache_def pl_def)
  show "lookupPricingAcrossPlatforms cache g pl m = map_option snd (find (\<lambda>e. pattern_covers uni (fst e) m) (priced_patterns ch pl))"
    unfolding lookupPricingAcrossPlatforms_def matchingPlatforms_def matchWildcard_def list.map first_some_single v t same
    by (rule tables_answer [OF one(1)])
  show "lookupMappingAcrossPlatforms cache g pl m =
      (case find (\<lambda>e. pattern_covers uni (fst e) m) (mapped_patterns ch pl) of Some e \<Rightarrow> snd e | None \<Rightarrow> [])"
    unfolding lookupMappingAcrossPlatforms_def matchingPlatforms_def matchWildcardMapping_def list.map first_some_single v t same
      first_nonempty tables_answer [OF one(2)]
    by (simp split: option.splits)
qed

lemma covering_pattern_iff:
  "(\<exists>e \<in> set (priced_patterns ch pl). pattern_covers uni (fst e) m \<and> snd e = p) \<longleftrightarrow>
    p \<in> set (ch_ModelPricing ch) \<and> cp_Platform p = pl \<and> (\<exists>pat \<in> set (cp_Models p). pattern_covers uni pat m)"
  by (auto simp: priced_patterns_def)

lemma find_Some_unique:
  assumes "length (filter P xs) \<le> 1"
  shows "find P xs = Some x \<longleftrightarrow> x \<in> set xs \<and> P x"
  by (auto dest: find_SomeD intro: find_unique [OF assms])

text \<open>
  C9: A group's prices are the ones its channel configures. For an active channel whose patterns passed the check for
  conflicts, where no group
  is in two channels, a lookup in the cache built from the database answers: the price is an entry of the group's platform
  one of whose patterns covers the model, letters matching in either case, and there is one exactly if some pattern
  covers it; the model maps to the target of the mapping whose source covers it, and to itself without one; and a
  channel that restricts models refuses exactly the models no pattern covers. None of this depends on the order in which
  prices, patterns and mappings are stored or visited.
\<close>

theorem channel_answers_as_configured:
  fixes e s g model
  defines "db \<equiv> cy_db s" and "m \<equiv> ToLower (ce_uni e) model"
  defines "pl \<equiv> platform_of (map_of (cd_groups db)) g"
  assumes "ce_fault e KListAll = NoFault" "ce_fault e KPlatforms = NoFault" "cy_cache s = None"
    and "distinct (concat (map ch_GroupIDs (cd_rows db)))" "ch \<in> set (cd_rows db)" "g \<in> set (ch_GroupIDs ch)" "ch_IsActive ch"
    and "keeps_stars (ce_uni e)" "validateNoConflictingModels (ce_uni e) (ch_ModelPricing ch) = None"
    and "validateNoConflictingMappings (ce_uni e) (ch_ModelMapping ch) = None"
  shows "(fst (GetChannelModelPricing e g model s) = Some p \<longleftrightarrow>
      p \<in> set (ch_ModelPricing ch) \<and> cp_Platform p = pl \<and> (\<exists>pat \<in> set (cp_Models p). pattern_covers (ce_uni e) pat m))
    \<and> (\<forall>(src, dst) \<in> set (mapped_patterns ch pl). pattern_covers (ce_uni e) src m \<longrightarrow>
        mr_MappedModel (fst (ResolveChannelMapping e g model s)) = (if dst = [] then model else dst))
    \<and> ((\<forall>(src, dst) \<in> set (mapped_patterns ch pl). \<not> pattern_covers (ce_uni e) src m) \<longrightarrow>
        mr_MappedModel (fst (ResolveChannelMapping e g model s)) = model)
    \<and> (fst (IsModelRestricted e g model s) \<longleftrightarrow> ch_RestrictModels ch
        \<and> (\<forall>p \<in> set (ch_ModelPricing ch). cp_Platform p = pl \<longrightarrow> (\<forall>pat \<in> set (cp_Models p). \<not> pattern_covers (ce_uni e) pat m)))"
proof -
  obtain plats s1 where q: "platform_of plats g = pl" "lookup_or_none e g s =
      (find_channel (populateChannelCache (ce_uni e) (ce_now e) (cd_rows db) plats) g, s1)"
    using first_lookup [OF assms(4-6), of ch g] assms(8,9) unfolding db_def pl_def by blast
  note l = group_lookup [OF assms(7-13), where plats = plats, unfolded q(1)]
  note one = validated_patterns [OF assms(11-13), of m pl]
  let ?price = "find (\<lambda>e'. pattern_covers (ce_uni e) (fst e') m) (priced_patterns ch pl)"
  let ?target = "find (\<lambda>e'. pattern_covers (ce_uni e) (fst e') m) (mapped_patterns ch pl)"
  have price: "fst (GetChannelModelPricing e g model s) = map_option snd ?price"
    and mapped: "mr_MappedModel (fst (ResolveChannelMapping e g model s))
      = (let t = (case ?target of Some e' \<Rightarrow> snd e' | None \<Rightarrow> []) in if t \<noteq> [] then t else model)"
    and restricted: "fst (IsModelRestricted e g model s) \<longleftrightarrow> ch_RestrictModels ch \<and> ?price = None"
    by (simp_all add: GetChannelModelPricing_def ResolveChannelMapping_def IsModelRestricted_def q l m_def resolveMapping_def
        checkRestricted_def Let_def normalizeBillingModelSource_def)
  have "fst (GetChannelModelPricing e g model s) = Some p \<longleftrightarrow>
      p \<in> set (ch_ModelPricing ch) \<and> cp_Platform p = pl \<and> (\<exists>pat \<in> set (cp_Models p). pattern_covers (ce_uni e) pat m)"
    unfolding covering_pattern_iff [symmetric] price using find_Some_unique [OF one(1)] by force
  moreover have "\<forall>(src, dst) \<in> set (mapped_patterns ch pl). pattern_covers (ce_uni e) src m \<longrightarrow>
      mr_MappedModel (fst (ResolveChannelMapping e g model s)) = (if dst = [] then model else dst)"
    using find_unique [OF one(2)] by (auto simp: mapped Let_def)
  moreover have "(\<forall>(src, dst) \<in> set (mapped_patterns ch pl). \<not> pattern_covers (ce_uni e) src m) \<longrightarrow> ?target = None"
    by (auto simp: find_None_iff)
  moreover have "?price = None \<longleftrightarrow> (\<forall>p \<in> set (ch_ModelPricing ch). cp_Platform p = pl \<longrightarrow>
      (\<forall>pat \<in> set (cp_Models p). \<not> pattern_covers (ce_uni e) pat m))"
    by (auto simp: find_None_iff priced_patterns_def)
  ultimately show ?thesis using mapped restricted by (auto simp: Let_def)
qed

definition demo_pricing :: "gostring list \<Rightarrow> channel_pricing" where
  "demo_pricing models = \<lparr>cp_Platform = ''anthropic'', cp_Models = models, cp_BillingMode = BillingModeToken,
     cp_InputPrice = Some (Fin 2), cp_OutputPrice = None, cp_CacheWritePrice = None, cp_CacheReadPrice = None,
     cp_ImageOutputPrice = None, cp_PerRequestPrice = None, cp_Intervals = []\<rparr>"

definition demo_channel :: channel where
  "demo_channel = \<lparr>ch_ID = 1, ch_Name = ''c'', ch_Description = [], ch_Status = StatusActive, ch_BillingModelSource = [],
     ch_RestrictModels = True, ch_Features = [], ch_FeaturesConfig = None, ch_CreatedAt = 0, ch_UpdatedAt = 0, ch_GroupIDs = [5],
     ch_ModelPricing = [demo_pricing [''claude-opus-*''], demo_pricing [''claude-sonnet-4'']],
     ch_ModelMapping = [(''anthropic'', [(''Fast'', ''claude-haiku'')])], ch_ApplyPricingToAccountStats = False,
     ch_AccountStatsPricingRules = []\<rparr>"

definition demo_channel_env :: channel_env where
  "demo_channel_env = \<lparr>ce_fault = (\<lambda>_. NoFault), ce_now = 0, ce_uni = (\<lambda>r. r), ce_arrange = sort_key pi_MinTokens,
     ce_column = (\<lambda>_ x. x), ce_authCache = True\<rparr>"

definition demo_channel_sys :: channel_sys where
  "demo_channel_sys = \<lparr>cy_db = \<lparr>cd_rows = [demo_channel], cd_next = 2, cd_groups = [(5, ''anthropic'')]\<rparr>, cy_cache = None,
     cy_invalidated = []\<rparr>"

text \<open>A wildcard prices the model, the mapping ignores case, and another model is refused.\<close>

theorem channel_answers_as_configured_witness:
  "fst (GetChannelModelPricing demo_channel_env 5 ''Claude-Opus-4'' demo_channel_sys) = Some (demo_pricing [''claude-opus-*''])
   \<and> mr_MappedModel (fst (ResolveChannelMapping demo_channel_env 5 ''fast'' demo_channel_sys)) = ''claude-haiku''
   \<and> fst (IsModelRestricted demo_channel_env 5 ''gpt-5'' demo_channel_sys)"
proof -
  have h: "ce_fault demo_channel_env KListAll = NoFault" "ce_fault demo_channel_env KPlatforms = NoFault"
    "cy_cache demo_channel_sys = None" "distinct (concat (map ch_GroupIDs (cd_rows (cy_db demo_channel_sys))))"
    "demo_channel \<in> set (cd_rows (cy_db demo_channel_sys))" "5 \<in> set (ch_GroupIDs demo_channel)" "ch_IsActive demo_channel"
    "keeps_stars (ce_uni demo_channel_env)"
    by (simp_all add: demo_channel_env_def demo_channel_sys_def demo_channel_def ch_IsActive_def keeps_stars_id)
  have v: "validateNoConflictingModels (ce_uni demo_channel_env) (ch_ModelPricing demo_channel) = None"
    "validateNoConflictingMappings (ce_uni demo_channel_env) (ch_ModelMapping demo_channel) = None"
    by code_simp+
  let ?p = "demo_pricing [''claude-opus-*'']"
  have "\<exists>pat \<in> set (cp_Models ?p). pattern_covers (ce_uni demo_channel_env) pat (ToLower (ce_uni demo_channel_env) ''Claude-Opus-4'')"
    by code_simp
  moreover have "?p \<in> set (ch_ModelPricing demo_channel)"
    "cp_Platform ?p = platform_of (map_of (cd_groups (cy_db demo_channel_sys))) 5"
    by (simp_all add: demo_channel_def demo_pricing_def demo_channel_sys_def platform_of_def)
  ultimately have 1: "fst (GetChannelModelPricing demo_channel_env 5 ''Claude-Opus-4'' demo_channel_sys) = Some ?p"
    using channel_answers_as_configured [OF h v, where p = ?p and model = "''Claude-Opus-4''"] by blast
  have "(''Fast'', ''claude-haiku'') \<in> set (mapped_patterns demo_channel (platform_of (map_of (cd_groups (cy_db demo_channel_sys))) 5))"
    "pattern_covers (ce_uni demo_channel_env) ''Fast'' (ToLower (ce_uni demo_channel_env) ''fast'')"
    by code_simp+
  then have 2: "mr_MappedModel (fst (ResolveChannelMapping demo_channel_env 5 ''fast'' demo_channel_sys)) = ''claude-haiku''"
    using channel_answers_as_configured [OF h v, where p = ?p and model = "''fast''"] by fastforce
  have "ch_RestrictModels demo_channel" "\<forall>p \<in> set (ch_ModelPricing demo_channel). \<forall>pat \<in> set (cp_Models p).
      \<not> pattern_covers (ce_uni demo_channel_env) pat (ToLower (ce_uni demo_channel_env) ''gpt-5'')"
    by code_simp+
  then have "fst (IsModelRestricted demo_channel_env 5 ''gpt-5'' demo_channel_sys)"
    using channel_answers_as_configured [OF h v, where p = ?p and model = "''gpt-5''"] by blast
  with 1 2 show ?thesis by blast
qed

subsection \<open>The store stays sound\<close>

definition unambiguous :: "(gostring \<Rightarrow> gostring) \<Rightarrow> channel \<Rightarrow> bool" where
  "unambiguous uni c \<longleftrightarrow> validateNoConflictingModels uni (ch_ModelPricing c) = None
     \<and> validateNoConflictingMappings uni (ch_ModelMapping c) = None \<and> (\<forall>p \<in> set (ch_ModelPricing c). cp_Platform p \<noteq> [])"

definition channel_db_ok :: "(gostring \<Rightarrow> gostring) \<Rightarrow> channel_db \<Rightarrow> bool" where
  "channel_db_ok uni db \<longleftrightarrow> distinct (map ch_ID (cd_rows db)) \<and> (\<forall>c \<in> set (cd_rows db). ch_ID c < cd_next db \<and> unambiguous uni c)
     \<and> distinct (map ch_Name (cd_rows db)) \<and> distinct (concat (map ch_GroupIDs (cd_rows db)))"

lemma conflicts_by_patterns:
  assumes "map (\<lambda>p. (cp_Platform p, cp_Models p)) ps = map (\<lambda>p. (cp_Platform p, cp_Models p)) qs"
  shows "validateNoConflictingModels uni ps = validateNoConflictingModels uni qs"
proof -
  have n: "map cp_Platform (filter (\<lambda>p. cp_Models p \<noteq> []) ps) = map cp_Platform (filter (\<lambda>p. cp_Models p \<noteq> []) qs)"
    and e: "platform_entries uni ps = platform_entries uni qs"
    using assms unfolding platform_entries_def by (induction ps qs rule: list_induct2' ) (auto simp: fun_eq_iff)
  then show ?thesis by (simp only: validateNoConflictingModels_def)
qed

lemma stored_unambiguous:
  assumes "unambiguous uni c" "ch_ModelPricing c' = map (createModelPricingExec e) (ch_ModelPricing c)"
    "ch_ModelMapping c' = ch_ModelMapping c"
  shows "unambiguous uni c'"
proof -
  have "map (\<lambda>p. (cp_Platform p, cp_Models p)) (ch_ModelPricing c') = map (\<lambda>p. (cp_Platform p, cp_Models p)) (ch_ModelPricing c)"
    unfolding assms(2) map_map by (rule map_cong) (use assms(1) in \<open>auto simp: unambiguous_def createModelPricingExec_def Let_def\<close>)
  then have "validateNoConflictingModels uni (ch_ModelPricing c') = None"
    using assms(1) conflicts_by_patterns unfolding unambiguous_def by metis
  then show ?thesis
    using assms(1) unfolding unambiguous_def assms(2,3) by (auto simp: createModelPricingExec_def Let_def)
qed

lemma check_config_unambiguous:
  "check_config e c = None \<Longrightarrow> \<forall>p \<in> set (ch_ModelPricing c). cp_Platform p \<noteq> [] \<Longrightarrow> unambiguous (ce_uni e) c"
  by (auto simp: check_config_def validateChannelConfig_def validatePricingEntries_def unambiguous_def split: option.splits)

lemma setGroupIDsTx_Inr:
  assumes "setGroupIDsTx i gids db = Inr gs"
  shows "set gs = set gids \<and> distinct gs \<and> (\<forall>c \<in> set (cd_rows db). ch_ID c \<noteq> i \<longrightarrow> set gids \<inter> set (ch_GroupIDs c) = {})"
  using assms by (auto simp: setGroupIDsTx_def GetGroupsInOtherChannels_def filter_empty_conv split: if_splits)

lemma append_ok:
  assumes "channel_db_ok uni db" "unambiguous uni c" "ch_ID c = cd_next db"
    and "\<forall>d \<in> set (cd_rows db). ch_Name d \<noteq> ch_Name c" "distinct (ch_GroupIDs c)"
    and "\<forall>d \<in> set (cd_rows db). set (ch_GroupIDs c) \<inter> set (ch_GroupIDs d) = {}"
  shows "channel_db_ok uni (db\<lparr>cd_rows := cd_rows db @ [c], cd_next := cd_next db + 1\<rparr>)"
proof -
  have "ch_ID c \<notin> ch_ID ` set (cd_rows db)" "\<forall>d \<in> set (cd_rows db). ch_ID d < cd_next db + 1"
    using assms(1,3) by (auto simp: channel_db_ok_def)
  moreover have "ch_Name c \<notin> ch_Name ` set (cd_rows db)" using assms(4) by auto
  moreover have "set (concat (map ch_GroupIDs (cd_rows db))) \<inter> set (ch_GroupIDs c) = {}" using assms(6) by auto
  ultimately show ?thesis
    using assms(1,2,3,5) by (simp add: channel_db_ok_def)
qed

lemma repo_Create_ok:
  assumes "channel_db_ok uni db" "unambiguous uni ch"
  shows "channel_db_ok uni (snd (repo_Create e ch db))"
proof -
  have k: "channel_db_ok uni (db\<lparr>cd_rows := cd_rows db @ [c], cd_next := cd_next db + 1\<rparr>)"
    if n: "\<not> list_ex (\<lambda>d. ch_Name d = ch_Name ch) (cd_rows db)" and g: "setGroupIDsTx (cd_next db) (ch_GroupIDs ch) db = Inr gs"
      and c: "ch_ID c = cd_next db" "ch_Name c = ch_Name ch" "ch_GroupIDs c = gs" "unambiguous uni c" for c gs
  proof (rule append_ok [OF assms(1) c(4,1)])
    have "\<forall>d \<in> set (cd_rows db). ch_ID d \<noteq> cd_next db" using assms(1) by (auto simp: channel_db_ok_def)
    then show "\<forall>d \<in> set (cd_rows db). set (ch_GroupIDs c) \<inter> set (ch_GroupIDs d) = {}" "distinct (ch_GroupIDs c)"
      using setGroupIDsTx_Inr [OF g] c(3) by auto
    show "\<forall>d \<in> set (cd_rows db). ch_Name d \<noteq> ch_Name c" using n c(2) by (simp add: list_ex_iff)
  qed
  have u: "unambiguous uni (ch\<lparr>ch_ID := i, ch_CreatedAt := t, ch_UpdatedAt := t, ch_GroupIDs := gs,
      ch_ModelPricing := map (createModelPricingExec e) (ch_ModelPricing ch), ch_AccountStatsPricingRules := rs\<rparr>)" for i t gs rs
    by (rule stored_unambiguous [OF assms(2), where e = e]) simp_all
  show ?thesis
  proof (cases "setGroupIDsTx (cd_next db) (ch_GroupIDs ch) db")
    case (Inr gs)
    then show ?thesis
      using assms(1) k [OF _ Inr] u by (cases "list_ex (\<lambda>d. ch_Name d = ch_Name ch) (cd_rows db)")
        (simp_all add: repo_Create_def with_fault_err_def split: fault.split)
  qed (use assms(1) in \<open>simp add: repo_Create_def with_fault_err_def split: fault.split\<close>)
qed

lemma split_by_id:
  assumes "distinct (map f xs)" "x \<in> set xs"
  shows "\<exists>as bs. xs = as @ x # bs \<and> (\<forall>y \<in> set as \<union> set bs. f y \<noteq> f x)"
proof -
  obtain as bs where s: "xs = as @ x # bs" using assms(2) by (meson split_list)
  then have "f x \<notin> f ` set as" "f x \<notin> f ` set bs" using assms(1) by simp_all
  then have "\<forall>y \<in> set as \<union> set bs. f y \<noteq> f x" by (auto simp: image_iff)
  with s show ?thesis by blast
qed

lemma update_where_none: "\<forall>x \<in> set xs. \<not> P x \<Longrightarrow> update_where P f xs = xs"
  by (induction xs) auto

lemma replace_ok:
  assumes "channel_db_ok uni (db\<lparr>cd_rows := as @ old # bs\<rparr>)" "unambiguous uni c" "ch_ID c = ch_ID old"
    and "\<forall>d \<in> set as \<union> set bs. ch_Name d \<noteq> ch_Name c" "distinct (ch_GroupIDs c)"
    and "\<forall>d \<in> set as \<union> set bs. set (ch_GroupIDs c) \<inter> set (ch_GroupIDs d) = {}"
  shows "channel_db_ok uni (db\<lparr>cd_rows := as @ c # bs\<rparr>)"
proof -
  have "ch_Name c \<notin> ch_Name ` set as" "ch_Name c \<notin> ch_Name ` set bs" using assms(4) by auto
  moreover have "set (concat (map ch_GroupIDs as)) \<inter> set (ch_GroupIDs c) = {}"
    "set (ch_GroupIDs c) \<inter> set (concat (map ch_GroupIDs bs)) = {}" using assms(6) by auto
  ultimately show ?thesis
    using assms(1,2,3,5) unfolding channel_db_ok_def by (simp add: Int_Un_distrib Int_Un_distrib2)
qed

lemma filter_ok: "channel_db_ok uni db \<Longrightarrow> channel_db_ok uni (db\<lparr>cd_rows := filter P (cd_rows db)\<rparr>)"
proof -
  have "distinct (concat (map ch_GroupIDs xs)) \<Longrightarrow> distinct (concat (map ch_GroupIDs (filter P xs)))" for xs
    by (induction xs) auto
  then show "channel_db_ok uni db \<Longrightarrow> channel_db_ok uni (db\<lparr>cd_rows := filter P (cd_rows db)\<rparr>)"
    by (auto simp: channel_db_ok_def distinct_map_filter)
qed

lemma replace_row_ok:
  assumes ok: "channel_db_ok uni db" and old: "old \<in> set (cd_rows db)" "ch_ID old = i"
    and c: "unambiguous uni c" "ch_ID c = i" "\<forall>d \<in> set (cd_rows db). ch_ID d \<noteq> i \<longrightarrow> ch_Name d \<noteq> ch_Name c"
    and g: "distinct (ch_GroupIDs c)"
      "\<forall>d \<in> set (cd_rows db). ch_ID d \<noteq> i \<longrightarrow> set (ch_GroupIDs c) \<inter> set (ch_GroupIDs d) = {}"
    and upd: "f old = c"
  shows "channel_db_ok uni (db\<lparr>cd_rows := update_where (\<lambda>d. ch_ID d = i) f (cd_rows db)\<rparr>)"
proof -
  obtain as bs where s: "cd_rows db = as @ old # bs" and o: "\<forall>y \<in> set as \<union> set bs. ch_ID y \<noteq> i"
    using split_by_id [OF _ old(1), of ch_ID] ok old(2) by (auto simp: channel_db_ok_def)
  have "update_where (\<lambda>d. ch_ID d = i) f (cd_rows db) = as @ c # bs"
    using s o old(2) upd by (simp add: update_where_def map_idI)
  moreover have "channel_db_ok uni (db\<lparr>cd_rows := as @ c # bs\<rparr>)"
  proof (rule replace_ok)
    show "channel_db_ok uni (db\<lparr>cd_rows := as @ old # bs\<rparr>)" using ok unfolding s [symmetric] by (simp add: channel_db_ok_def)
    show "ch_ID c = ch_ID old" using c(2) old(2) by simp
    show "\<forall>d \<in> set as \<union> set bs. ch_Name d \<noteq> ch_Name c" using c(3) o s by auto
    show "\<forall>d \<in> set as \<union> set bs. set (ch_GroupIDs c) \<inter> set (ch_GroupIDs d) = {}" using g(2) o s by auto
  qed (use c(1) g(1) in auto)
  ultimately show ?thesis by simp
qed

text \<open>\<open>w\<close> says which lists the update rewrites; a list it leaves is the stored one.\<close>

lemma repo_Update_ok:
  assumes ok: "channel_db_ok uni db" and u: "unambiguous uni ch"
    and keep: "set_pricing w \<or> ch_ModelPricing ch = []"
  shows "channel_db_ok uni (snd (repo_Update e ch w db))"
proof -
  have k: "channel_db_ok uni (db\<lparr>cd_rows := update_where (\<lambda>c. ch_ID c = ch_ID ch) (updated_row e ch w gs) (cd_rows db)\<rparr>)"
    if a: "affected (\<lambda>c. ch_ID c = ch_ID ch) (cd_rows db) \<noteq> 0"
      and n: "\<not> list_ex (\<lambda>c. ch_Name c = ch_Name ch \<and> ch_ID c \<noteq> ch_ID ch) (cd_rows db)"
      and g: "(if set_groups w then setGroupIDsTx (ch_ID ch) (ch_GroupIDs ch) db else Inr []) = Inr gs" for gs
  proof -
    obtain old where old: "old \<in> set (cd_rows db)" "ch_ID old = ch_ID ch" using a by (auto simp: affected_0_iff)
    let ?c = "updated_row e ch w gs old"
    have "unambiguous uni ?c"
    proof (cases "set_pricing w")
      case True
      then show ?thesis by (intro stored_unambiguous [OF u, where e = e]) (simp_all add: updated_row_def)
    next
      case False
      then show ?thesis using ok old(1) u by (auto simp: channel_db_ok_def unambiguous_def updated_row_def)
    qed
    moreover have "\<forall>d \<in> set (cd_rows db). ch_ID d \<noteq> ch_ID ch \<longrightarrow> ch_Name d \<noteq> ch_Name ?c"
      using n by (auto simp: list_ex_iff updated_row_def)
    moreover have "distinct (ch_GroupIDs ?c) \<and>
        (\<forall>d \<in> set (cd_rows db). ch_ID d \<noteq> ch_ID ch \<longrightarrow> set (ch_GroupIDs ?c) \<inter> set (ch_GroupIDs d) = {})"
    proof (cases "set_groups w")
      case True
      then show ?thesis using setGroupIDsTx_Inr [of "ch_ID ch" "ch_GroupIDs ch" db gs] g by (auto simp: updated_row_def)
    next
      case False
      obtain as bs where s: "cd_rows db = as @ old # bs" using old(1) by (meson split_list)
      then have "distinct (ch_GroupIDs old)" "\<forall>d \<in> set as \<union> set bs. set (ch_GroupIDs old) \<inter> set (ch_GroupIDs d) = {}"
        using ok by (auto simp: channel_db_ok_def)
      then show ?thesis using False s old(2) by (auto simp: updated_row_def)
    qed
    ultimately show ?thesis
      using replace_row_ok [OF ok old, of ?c "updated_row e ch w gs"] old(2) by (simp add: updated_row_def)
  qed
  show ?thesis
    using ok k by (auto simp: repo_Update_def with_fault_err_def split: fault.split sum.split)
qed

lemma invalidate_db [simp]: "cy_db (invalidateCache e s) = cy_db s"
  by (auto simp: invalidateCache_def buildCache_def fetchChannelData_def storeErrorCache_def and_then_def Let_def
      split: sum.splits prod.splits)

lemma auth_invalidate_db [simp]: "cy_db (invalidateAuthCacheForGroups e gs s) = cy_db s"
  by (simp add: invalidateAuthCacheForGroups_def)

lemma reread_db [simp]: "snd (reread e i s) = s"
  by (simp add: reread_def)

text \<open>
  C22: The store of channels stays sound. With any faults, creating, updating and deleting channels keeps ids and names
  unique, every group in at most one channel, and every stored channel's price patterns and mapping sources free of
  overlaps, provided the prices of a request name their platform.
\<close>

theorem channel_store_stays_sound:
  assumes "channel_db_ok (ce_uni e) (cy_db s)"
    and "\<forall>p \<in> set (ch_ModelPricing input). cp_Platform p \<noteq> []"
    and "\<forall>ps p. up_ModelPricing u = Some ps \<and> p \<in> set ps \<longrightarrow> cp_Platform p \<noteq> []"
  shows "channel_db_ok (ce_uni e) (cy_db (snd (ch_Create e input s)))
    \<and> channel_db_ok (ce_uni e) (cy_db (snd (ch_Update e i u s)))
    \<and> channel_db_ok (ce_uni e) (cy_db (snd (ch_Delete e i s)))"
proof (intro conjI)
  let ?ch = "normalizeBillingModelSource (input\<lparr>ch_Status := StatusActive\<rparr>)"
  have p: "ch_ModelPricing ?ch = ch_ModelPricing input" by (simp add: normalizeBillingModelSource_def)
  have "channel_db_ok (ce_uni e) (snd (repo_Create e ?ch (cy_db s)))" if "check_config e ?ch = None"
    using repo_Create_ok [OF assms(1) check_config_unambiguous [OF that]] assms(2) p by simp
  then show "channel_db_ok (ce_uni e) (cy_db (snd (ch_Create e input s)))"
    using assms(1) by (fastforce simp: ch_Create_def Let_def split: sum.split bool.split option.split prod.split)
next
  have k: "channel_db_ok (ce_uni e) (snd (repo_Update e (updated_fields u old) (sets_of u old) (cy_db s)))"
    if o: "old \<in> set (cd_rows (cy_db s))" and c: "check_config e (updated_fields u old) = None" for old
  proof (rule repo_Update_ok [OF assms(1)])
    have "\<forall>p \<in> set (ch_ModelPricing (updated_fields u old)). cp_Platform p \<noteq> []"
      using assms(1,3) o by (auto simp: updated_fields_def given_def channel_db_ok_def unambiguous_def split: option.splits)
    then show "unambiguous (ce_uni e) (updated_fields u old)" by (rule check_config_unambiguous [OF c])
    show "set_pricing (sets_of u old) \<or> ch_ModelPricing (updated_fields u old) = []"
      by (auto simp: sets_of_def updated_fields_def given_def split: option.splits)
  qed
  show "channel_db_ok (ce_uni e) (cy_db (snd (ch_Update e i u s)))"
  proof (cases "repo_GetByID (ce_fault e KGet) i (cy_db s)")
    case (Inr old)
    then have "old \<in> set (cd_rows (cy_db s))"
      by (auto simp: repo_GetByID_def dest!: read_fault_Inr find_SomeD split: option.splits)
    moreover have "applyUpdateInput e u old (cy_db s) = Inr ch \<Longrightarrow> ch = updated_fields u old" for ch
      by (auto simp: applyUpdateInput_def split: sum.splits bool.splits option.splits if_splits)
    ultimately show ?thesis
      using k Inr assms(1) by (fastforce simp: ch_Update_def Let_def split: sum.split option.split prod.split)
  qed (use assms(1) in \<open>simp add: ch_Update_def\<close>)
next
  have "channel_db_ok (ce_uni e) (snd (repo_Delete e i (cy_db s)))"
    using assms(1) filter_ok by (auto simp: repo_Delete_def with_fault_err_def split: fault.split)
  then show "channel_db_ok (ce_uni e) (cy_db (snd (ch_Delete e i s)))"
    by (fastforce simp: ch_Delete_def Let_def split: sum.split prod.split)
qed

definition demo_update :: channel_update where
  "demo_update = \<lparr>up_Name = ''d'', up_Description = None, up_Status = [], up_GroupIDs = Some [], up_ModelPricing = None,
     up_ModelMapping = None, up_BillingModelSource = [], up_RestrictModels = None, up_Features = None, up_FeaturesConfig = None,
     up_ApplyPricingToAccountStats = None, up_AccountStatsPricingRules = None\<rparr>"

text \<open>The group of the stored channel cannot be taken by a second one; renaming the channel and freeing its group works.\<close>

theorem channel_store_stays_sound_witness:
  "fst (ch_Create demo_channel_env (demo_channel\<lparr>ch_Name := ''x''\<rparr>) demo_channel_sys) = Inl (EApp ErrGroupAlreadyInChannel)
   \<and> \<not> isl (fst (ch_Create demo_channel_env (demo_channel\<lparr>ch_Name := ''x'', ch_GroupIDs := []\<rparr>) demo_channel_sys))
   \<and> channel_db_ok (ce_uni demo_channel_env)
       (cy_db (snd (ch_Update demo_channel_env 1 demo_update demo_channel_sys)))"
proof -
  have ok: "channel_db_ok (ce_uni demo_channel_env) (cy_db demo_channel_sys)"
    and 1: "\<forall>p \<in> set (ch_ModelPricing demo_channel). cp_Platform p \<noteq> []"
    and 2: "\<forall>ps p. up_ModelPricing demo_update = Some ps \<and> p \<in> set ps \<longrightarrow> cp_Platform p \<noteq> []"
    by (code_simp, simp add: demo_channel_def demo_pricing_def, simp add: demo_update_def)
  have "fst (ch_Create demo_channel_env (demo_channel\<lparr>ch_Name := ''x''\<rparr>) demo_channel_sys) = Inl (EApp ErrGroupAlreadyInChannel)"
    by (simp add: ch_Create_def demo_channel_env_def demo_channel_sys_def demo_channel_def checkGroupConflicts_def
        GetGroupsInOtherChannels_def)
  moreover have "\<not> isl (fst (ch_Create demo_channel_env (demo_channel\<lparr>ch_Name := ''x'', ch_GroupIDs := []\<rparr>) demo_channel_sys))"
    by code_simp
  ultimately show ?thesis using channel_store_stays_sound [OF ok 1 2, where i = 1] by blast
qed

end
