(* ===== verification/BillingCostLaws.thy ===== *)
theory BillingCostLaws
  imports BillingCost ChannelLaws
begin

text \<open>
  What costs promise: with prices and multipliers in any sane range every cost is a finite number that is not negative and
  grows with the tokens. Which prices a request is charged by: the list's under the channel's when the model is listed; a
  model without a listed price shares one object with every group, and a channel's prices written there stay.
\<close>

subsection \<open>Ranges\<close>

definition upto2 :: "nat \<Rightarrow> f64 \<Rightarrow> bool" where
  "upto2 k x \<longleftrightarrow> f64_ok x \<and> (case x of Fin r \<Rightarrow> 0 \<le> r \<and> r \<le> 2 ^ k | _ \<Rightarrow> False)"

lemma upto2_E: "upto2 k x \<Longrightarrow> (\<And>r. x = Fin r \<Longrightarrow> 0 \<le> r \<Longrightarrow> r \<le> 2 ^ k \<Longrightarrow> f64_of_rat r = Fin r \<Longrightarrow> thesis) \<Longrightarrow> thesis"
  by (auto simp: upto2_def f64_of_rat_fin split: f64.splits)

lemma upto2_nonneg: "upto2 k x \<Longrightarrow> fle (Fin 0) x"
  by (erule upto2_E) simp

lemma upto2_0 [simp]: "upto2 k (Fin 0)"
  using f64_of_rat_ok [of 0] by (simp add: upto2_def del: f64_of_rat_ok)

lemma upto2_mono: "upto2 a x \<Longrightarrow> a \<le> b \<Longrightarrow> upto2 b x"
  unfolding upto2_def by (auto split: f64.splits intro: order_trans power_increasing)

lemma representable_pow2: "representable (2 ^ k)"
  unfolding representable_def by (rule exI [of _ 1], rule exI [of _ "int k"]) (simp add: power_int_def)

lemma upto2_of_rat:
  assumes "0 \<le> r" "r \<le> 2 ^ k" "k \<le> 1023"
  shows "upto2 k (f64_of_rat r)"
proof -
  have "rnd r \<le> 2 ^ k" using rnd_mono [OF assms(2)] rnd_representable [OF representable_pow2] by simp
  moreover have "(2 :: rat) ^ k < 2 powi 1024" using assms(3) powi2_less_iff [of "int k" 1024] by (simp add: power_int_def)
  moreover have "0 \<le> rnd r" by (rule rnd_nonneg [OF assms(1)])
  moreover have "- (2 powi 1024) < (0 :: rat)" by simp
  ultimately have "f64_of_rat r = Fin (rnd r) \<and> 0 \<le> rnd r \<and> rnd r \<le> 2 ^ k" by (auto simp: f64_of_rat_def Let_def)
  then show ?thesis using f64_of_rat_ok [of r] by (simp add: upto2_def)
qed

lemma upto2_exact:
  assumes "0 \<le> r" "r \<le> 2 ^ k" "k \<le> 1023" "representable r"
  shows "upto2 k (Fin r)"
  using upto2_of_rat [OF assms(1-3)] rnd_representable [OF assms(4)]
  by (auto simp: f64_of_rat_def Let_def upto2_def split: if_splits)

lemma upto2_fmul: "upto2 a x \<Longrightarrow> upto2 b y \<Longrightarrow> a + b \<le> 1023 \<Longrightarrow> upto2 (a + b) (fmul x y)"
  by (erule upto2_E, erule upto2_E) (auto intro!: upto2_of_rat mult_mono simp: power_add)

lemma upto2_fadd: "upto2 a x \<Longrightarrow> upto2 a y \<Longrightarrow> a < 1023 \<Longrightarrow> upto2 (Suc a) (fadd x y)"
  by (erule upto2_E, erule upto2_E) (auto intro!: upto2_of_rat)

lemma upto2_of_int: "0 \<le> n \<Longrightarrow> n \<le> 2 ^ k \<Longrightarrow> k \<le> 1023 \<Longrightarrow> upto2 k (f64_of_int n)"
proof -
  assume "0 \<le> n" "n \<le> 2 ^ k" "k \<le> 1023"
  moreover then have "(of_int n :: rat) \<le> of_int (2 ^ k)" by (simp only: of_int_le_iff)
  ultimately show ?thesis unfolding f64_of_int_def by (intro upto2_of_rat) simp_all
qed

lemma fmul_mono: "upto2 a x \<Longrightarrow> upto2 a' x' \<Longrightarrow> upto2 b y \<Longrightarrow> upto2 b' y' \<Longrightarrow> fle x x' \<Longrightarrow> fle y y' \<Longrightarrow> fle (fmul x y) (fmul x' y')"
  by (elim upto2_E) (auto intro!: f64_of_rat_mono mult_mono)

lemma fadd_upto_mono: "upto2 a x \<Longrightarrow> upto2 a' x' \<Longrightarrow> upto2 b y \<Longrightarrow> upto2 b' y' \<Longrightarrow> fle x x' \<Longrightarrow> fle y y' \<Longrightarrow> fle (fadd x y) (fadd x' y')"
  by (elim upto2_E) (auto intro!: f64_of_rat_mono)

lemma f64_of_int_mono: "m \<le> n \<Longrightarrow> fle (f64_of_int m) (f64_of_int n)"
  by (simp add: f64_of_int_def f64_of_rat_mono)

lemma fmul_grows: "upto2 a x \<Longrightarrow> upto2 b y \<Longrightarrow> fle (Fin 1) y \<Longrightarrow> fle x (fmul x y)"
proof (elim upto2_E)
  fix r s assume h: "fle (Fin 1) y" "x = Fin r" "y = Fin s" "0 \<le> r" "f64_of_rat r = Fin r"
  then have "r * 1 \<le> r * s" by (intro mult_left_mono) simp_all
  then have "fle (f64_of_rat r) (f64_of_rat (r * s))" by (intro f64_of_rat_mono) simp
  then show "fle x (fmul x y)" using h by simp
qed

subsection \<open>Costs stay in range and grow\<close>

definition sane_prices :: "model_pricing \<Rightarrow> bool" where
  "sane_prices p \<longleftrightarrow> list_all (upto2 100) [mp_InputPricePerToken p, mp_InputPricePerTokenPriority p, mp_OutputPricePerToken p,
     mp_OutputPricePerTokenPriority p, mp_CacheCreationPricePerToken p, mp_CacheReadPricePerToken p,
     mp_CacheReadPricePerTokenPriority p, mp_CacheCreation5mPrice p, mp_CacheCreation1hPrice p,
     mp_LongContextInputMultiplier p, mp_LongContextOutputMultiplier p, mp_ImageOutputPricePerToken p]"

text \<open>Long context is never cheaper.\<close>

definition surcharges :: "model_pricing \<Rightarrow> bool" where
  "surcharges p \<longleftrightarrow> mp_LongContextInputThreshold p \<le> 0
     \<or> fle (Fin 1) (mp_LongContextInputMultiplier p) \<and> fle (Fin 1) (mp_LongContextOutputMultiplier p)"

definition sane_tokens :: "usage_tokens \<Rightarrow> bool" where
  "sane_tokens t \<longleftrightarrow> list_all (\<lambda>n. 0 \<le> n \<and> n \<le> 2 ^ 63) [ut_InputTokens t, ut_OutputTokens t, ut_CacheCreationTokens t,
     ut_CacheReadTokens t, ut_CacheCreation5mTokens t, ut_CacheCreation1hTokens t, ut_ImageOutputTokens t]"

text \<open>At least as much text read and written, the rest the same.\<close>

definition more_text :: "usage_tokens \<Rightarrow> usage_tokens \<Rightarrow> bool" where
  "more_text t t' \<longleftrightarrow> ut_InputTokens t \<le> ut_InputTokens t' \<and> ut_OutputTokens t \<le> ut_OutputTokens t'
     \<and> ut_CacheReadTokens t \<le> ut_CacheReadTokens t'
     \<and> t' = t\<lparr>ut_InputTokens := ut_InputTokens t', ut_OutputTokens := ut_OutputTokens t', ut_CacheReadTokens := ut_CacheReadTokens t'\<rparr>"

lemma fle_refl_upto: "upto2 k x \<Longrightarrow> fle x x"
  by (erule upto2_E) simp

lemma upto2_tier: "upto2 1 (serviceTierCostMultiplier uni tier)" "upto2 1 (Fin 1)"
proof -
  have "representable (1 / 2)" unfolding representable_def by (intro exI [of _ 1] exI [of _ "- 1"]) (simp add: power_int_def)
  then have "upto2 1 (Fin 1)" "upto2 1 (Fin 2)" "upto2 1 (Fin (1 / 2))"
    using representable_of_int [of 1] representable_of_int [of 2] by (simp_all add: upto2_exact)
  then show "upto2 1 (serviceTierCostMultiplier uni tier)" "upto2 1 (Fin 1)"
    by (simp_all add: serviceTierCostMultiplier_def Let_def)
qed

lemma scaled_upto: "upto2 1 s \<Longrightarrow> upto2 a x \<Longrightarrow> a \<le> 1000 \<Longrightarrow> upto2 (Suc a) (scaled s x)"
  using upto2_fmul [of a x 1 s] upto2_mono [of a x "Suc a"] by (simp add: scaled_def)

lemma scaled_mono: "upto2 1 s \<Longrightarrow> upto2 a x \<Longrightarrow> upto2 b y \<Longrightarrow> fle x y \<Longrightarrow> fle (scaled s x) (scaled s y)"
  by (simp add: scaled_def fmul_mono fle_refl_upto)

lemma or_positive_upto: "upto2 k x \<Longrightarrow> upto2 k y \<Longrightarrow> upto2 k (or_positive x y)"
  by (simp add: or_positive_def)

lemma token_prices_upto:
  assumes "sane_prices p" "token_prices uni p t tier l = (i, u, r, s)"
  shows "upto2 200 i \<and> upto2 200 u \<and> upto2 100 r \<and> upto2 1 s"
  using assms upto2_tier upto2_mono [of 100 _ 200] upto2_fmul [of 100 _ 100] or_positive_upto [of 100]
  by (auto simp: token_prices_def sane_prices_def Let_def)

lemma token_prices_grow:
  assumes "sane_prices p" "surcharges p" "more_text t t'"
    "token_prices uni p t tier l = (i, u, r, s)" "token_prices uni p t' tier l = (i', u', r', s')"
  shows "fle i i' \<and> fle u u' \<and> r' = r \<and> s' = s"
proof -
  have long: "shouldApplySessionLongContextPricing t p \<Longrightarrow> shouldApplySessionLongContextPricing t' p"
    using assms(3) by (auto simp: shouldApplySessionLongContextPricing_def more_text_def)
  have up: "shouldApplySessionLongContextPricing t' p \<Longrightarrow> upto2 100 x \<Longrightarrow> fle x (fmul x (mp_LongContextInputMultiplier p))
      \<and> fle x (fmul x (mp_LongContextOutputMultiplier p))" for x
    using assms(1,2) fmul_grows [of 100 x 100] by (auto simp: shouldApplySessionLongContextPricing_def surcharges_def sane_prices_def)
  have same: "upto2 100 x \<Longrightarrow> upto2 100 y \<Longrightarrow> fle x x \<and> fle (fmul x y) (fmul x y)" for x y
    using upto2_fmul [of 100 x 100 y] by (auto intro: fle_refl_upto)
  show ?thesis
    using assms(1,4,5) long up same or_positive_upto [of 100]
    by (auto simp: token_prices_def sane_prices_def Let_def)
qed


lemma cache_creation_upto: "sane_prices p \<Longrightarrow> sane_tokens t \<Longrightarrow> upto2 164 (computeCacheCreationCost p t)"
  using upto2_fmul [of 63 _ 100] upto2_of_int [of _ 63] upto2_fadd [of 163] upto2_mono [of 163 _ 164]
  by (auto simp: computeCacheCreationCost_def sane_prices_def sane_tokens_def)

lemma cost_parts_upto:
  fixes p t uni rate tier l
  assumes "sane_prices p" "sane_tokens t"
  defines "c \<equiv> computeTokenBreakdown uni p t rate tier l"
  shows "list_all (upto2 264) [cb_InputCost c, cb_OutputCost c, cb_ImageOutputCost c, cb_CacheCreationCost c, cb_CacheReadCost c]"
proof -
  obtain i u r s where tp: "token_prices uni p t tier l = (i, u, r, s)" by (metis prod_cases4)
  note q = token_prices_upto [OF assms(1) tp]
  have n: "0 \<le> n \<Longrightarrow> n \<le> 2 ^ 63 \<Longrightarrow> upto2 200 x \<Longrightarrow> upto2 264 (scaled s (fmul (f64_of_int n) x))" for n x
    using upto2_fmul [of 63 "f64_of_int n" 200 x] upto2_of_int [of n 63] scaled_upto [of s 263] q by simp
  have t: "list_all (\<lambda>n. 0 \<le> n \<and> n \<le> 2 ^ 63) [ut_InputTokens t, ut_OutputTokens t, ut_CacheReadTokens t, ut_ImageOutputTokens t]"
    using assms(2) by (simp add: sane_tokens_def)
  have r: "upto2 200 r" "upto2 200 (mp_ImageOutputPricePerToken p)"
    using q assms(1) by (auto simp: sane_prices_def intro: upto2_mono)
  have "upto2 264 (scaled s (computeCacheCreationCost p t))"
    using scaled_upto [of s 164] cache_creation_upto [OF assms(1,2)] q upto2_mono [of 165 _ 264] by simp
  moreover have "upto2 264 (scaled s (Fin 0))" using scaled_upto [of s 263 "Fin 0"] q by simp
  ultimately show ?thesis
    using n t q r unfolding c_def computeTokenBreakdown_def by (simp add: tp Let_def)
qed

lemma total_of_parts:
  "cb_TotalCost (computeTokenBreakdown uni p t rate tier l) =
     (let c = computeTokenBreakdown uni p t rate tier l in
      fadd (fadd (fadd (fadd (cb_InputCost c) (cb_OutputCost c)) (cb_ImageOutputCost c)) (cb_CacheCreationCost c)) (cb_CacheReadCost c))"
  "cb_ActualCost (computeTokenBreakdown uni p t rate tier l) =
     fmul (cb_TotalCost (computeTokenBreakdown uni p t rate tier l)) (if flt rate (Fin 0) then Fin 0 else rate)"
  by (simp_all add: computeTokenBreakdown_def Let_def split: prod.split)

lemma fadd5_upto:
  assumes "list_all (upto2 264) [a, b, c, d, e]"
  shows "upto2 265 (fadd a b) \<and> upto2 266 (fadd (fadd a b) c) \<and> upto2 267 (fadd (fadd (fadd a b) c) d)
    \<and> upto2 268 (fadd (fadd (fadd (fadd a b) c) d) e)"
  using assms upto2_fadd [of 264 a b] upto2_fadd [of 265 "fadd a b" c] upto2_fadd [of 266 "fadd (fadd a b) c" d]
    upto2_fadd [of 267 "fadd (fadd (fadd a b) c) d" e] upto2_mono [of 264 _ 265] upto2_mono [of 264 _ 266] upto2_mono [of 264 _ 267]
  by simp

lemma fadd5_mono:
  assumes "list_all (upto2 264) [a, b, c, d, e]" "list_all (upto2 264) [a', b', c', d', e']"
    "list_all (\<lambda>(x, y). fle x y) [(a, a'), (b, b'), (c, c'), (d, d'), (e, e')]"
  shows "fle (fadd (fadd (fadd (fadd a b) c) d) e) (fadd (fadd (fadd (fadd a' b') c') d') e')"
  using assms fadd5_upto [OF assms(1)] fadd5_upto [OF assms(2)] by (auto intro: fadd_upto_mono)

lemma cache_creation_other [simp]:
  "computeCacheCreationCost p (t\<lparr>ut_InputTokens := a, ut_OutputTokens := b, ut_CacheReadTokens := c\<rparr>) = computeCacheCreationCost p t"
  by (simp add: computeCacheCreationCost_def cong: if_cong)

lemma cost_parts_grow:
  fixes p t t' uni rate tier l
  assumes "sane_prices p" "surcharges p" "sane_tokens t" "sane_tokens t'" "more_text t t'"
  defines "c \<equiv> computeTokenBreakdown uni p t rate tier l" and "c' \<equiv> computeTokenBreakdown uni p t' rate tier l"
  shows "list_all (\<lambda>(x, y). fle x y) [(cb_InputCost c, cb_InputCost c'), (cb_OutputCost c, cb_OutputCost c'),
     (cb_ImageOutputCost c, cb_ImageOutputCost c'), (cb_CacheCreationCost c, cb_CacheCreationCost c'),
     (cb_CacheReadCost c, cb_CacheReadCost c')]"
proof -
  obtain i u r s where tp: "token_prices uni p t tier l = (i, u, r, s)" by (metis prod_cases4)
  obtain i' u' r' s' where tp': "token_prices uni p t' tier l = (i', u', r', s')" by (metis prod_cases4)
  note q = token_prices_upto [OF assms(1) tp] and q' = token_prices_upto [OF assms(1) tp']
  note g = token_prices_grow [OF assms(1,2,5) tp tp']
  have n: "fle (scaled s (fmul (f64_of_int m) x)) (scaled s (fmul (f64_of_int n) y))"
    if "0 \<le> m" "m \<le> n" "n \<le> 2 ^ 63" "upto2 200 x" "upto2 200 y" "fle x y" for m n x y
  proof -
    have k: "upto2 63 (f64_of_int m)" "upto2 63 (f64_of_int n)" using that upto2_of_int [of _ 63] by simp_all
    show ?thesis
      using scaled_mono [of s 263 _ 263] upto2_fmul [of 63 _ 200] q k that(4,5)
        fmul_mono [OF k that(4,5) f64_of_int_mono [OF that(2)] that(6)] by simp
  qed
  have e: "t' = t\<lparr>ut_InputTokens := ut_InputTokens t', ut_OutputTokens := ut_OutputTokens t', ut_CacheReadTokens := ut_CacheReadTokens t'\<rparr>"
    using assms(5) by (simp add: more_text_def)
  have t: "ut_ImageOutputTokens t' = ut_ImageOutputTokens t" "computeCacheCreationCost p t' = computeCacheCreationCost p t"
    "ut_InputTokens t \<le> ut_InputTokens t'" "ut_OutputTokens t \<le> ut_OutputTokens t'" "ut_CacheReadTokens t \<le> ut_CacheReadTokens t'"
    using arg_cong [OF e, of ut_ImageOutputTokens] arg_cong [OF e, of "computeCacheCreationCost p"] assms(5)
    by (simp_all add: more_text_def)
  have r: "upto2 200 r" "upto2 200 (mp_ImageOutputPricePerToken p)"
    using q assms(1) by (auto simp: sane_prices_def intro: upto2_mono)
  have b: "fle (cb_CacheCreationCost c) (cb_CacheCreationCost c)" "fle (scaled s (Fin 0)) (scaled s (Fin 0))"
    using cost_parts_upto [OF assms(1,3), of uni rate tier l] scaled_upto [of s 0 "Fin 0"] q
    by (auto simp: c_def intro: fle_refl_upto)
  then have cc: "fle (scaled s (computeCacheCreationCost p t)) (scaled s (computeCacheCreationCost p t))"
    by (simp add: c_def computeTokenBreakdown_def tp Let_def)
  have refl: "upto2 200 x \<Longrightarrow> fle x x" for x by (rule fle_refl_upto)
  show ?thesis
    using n t q q' g r b(2) cc refl assms(3,4) unfolding c_def c'_def computeTokenBreakdown_def sane_tokens_def
    by (simp add: tp tp' Let_def)
qed



definition demo_prices :: model_pricing where
  "demo_prices = zero_pricing\<lparr>mp_InputPricePerToken := Fin 1, mp_OutputPricePerToken := Fin 2,
     mp_LongContextInputThreshold := 10, mp_LongContextInputMultiplier := Fin 2, mp_LongContextOutputMultiplier := Fin 2\<rparr>"


subsection \<open>Which prices are charged\<close>

definition listed_price :: "billing_svc \<Rightarrow> gostring \<Rightarrow> litellm option" where
  "listed_price b model = Option.bind (bv_prices b) (\<lambda>prices. ps_GetModelPricing (bv_uni b) prices (ToLower (bv_uni b) model))"

lemma map_of_permuted: "distinct (map fst ps) \<Longrightarrow> mset qs = mset ps \<Longrightarrow> map_of qs = map_of ps"
  by (metis map_of_inject_set mset_eq_imp_distinct_iff mset_eq_setD mset_map)

definition demo_price :: "f64 \<Rightarrow> litellm" where
  "demo_price x = no_price\<lparr>ll_InputCostPerToken := x\<rparr>"

text \<open>
  An exact price is a stable price. The price list is a Go map, visited in any order: when one of the spellings of a
  model is a name in the list the price is the same in every order, and it is one of the listed prices of its spellings.
\<close>

theorem exact_price_is_stable:
  assumes "distinct (map fst prices)" "mset visited = mset prices" "model \<noteq> []"
    and "\<exists>c \<in> set (buildModelLookupCandidates uni (ToLower uni (trim_space model))). c \<noteq> [] \<and> c \<in> fst ` set prices"
  shows "ps_GetModelPricing uni visited model = ps_GetModelPricing uni prices model
    \<and> (\<exists>c l. c \<in> set (buildModelLookupCandidates uni (ToLower uni (trim_space model))) \<and> (c, l) \<in> set prices
        \<and> ps_GetModelPricing uni visited model = Some l)"
proof -
  let ?cs = "buildModelLookupCandidates uni (ToLower uni (trim_space model))"
  let ?look = "\<lambda>c. if c = [] then None else map_of prices c"
  have m: "map_of visited = map_of prices" by (rule map_of_permuted [OF assms(1,2)])
  have "first_some (map ?look cs) \<noteq> None" if "\<exists>c \<in> set cs. c \<noteq> [] \<and> c \<in> fst ` set prices" for cs
    using that by (induction cs) (auto simp: map_of_eq_None_iff split: option.splits)
  then obtain l where l: "first_some (map ?look ?cs) = Some l" using assms(4) by blast
  have "\<exists>c \<in> set cs. (c, l) \<in> set prices" if "first_some (map ?look cs) = Some l" for cs
    using that by (induction cs) (auto split: if_splits option.splits dest: map_of_SomeD)
  with l have "\<exists>c \<in> set ?cs. (c, l) \<in> set prices" by blast
  moreover have "ps_GetModelPricing uni ps model = Some l" if "map_of ps = map_of prices" for ps
    using l assms(3) by (simp add: ps_GetModelPricing_def Let_def that cong: if_cong)
  ultimately show ?thesis using m by auto
qed

text \<open>
  A dated model whose date is not listed has the price of whichever other date is visited first; a listed date does not.
\<close>

theorem exact_price_is_stable_witness:
  "let a = demo_price (Fin 1); b = demo_price (Fin 2); names = (''gpt-9-20250101'', ''gpt-9-20250202'') in
   ps_GetModelPricing id [(snd names, b), (fst names, a)] ''gpt-9-20250101'' = ps_GetModelPricing id [(fst names, a), (snd names, b)] ''gpt-9-20250101''
   \<and> ps_GetModelPricing id [(snd names, b), (fst names, a)] ''gpt-9-20250303''
     \<noteq> ps_GetModelPricing id [(fst names, a), (snd names, b)] ''gpt-9-20250303''"
proof -
  let ?a = "(''gpt-9-20250101'', demo_price (Fin 1))" and ?b = "(''gpt-9-20250202'', demo_price (Fin 2))"
  have "\<exists>c \<in> set (buildModelLookupCandidates id (ToLower id (trim_space ''gpt-9-20250101''))). c \<noteq> [] \<and> c \<in> fst ` set [?a, ?b]"
    by code_simp
  then have "ps_GetModelPricing id [?b, ?a] ''gpt-9-20250101'' = ps_GetModelPricing id [?a, ?b] ''gpt-9-20250101''"
    using exact_price_is_stable [of "[?a, ?b]" "[?b, ?a]" "''gpt-9-20250101''" id] by simp
  moreover have "map_option ll_InputCostPerToken (ps_GetModelPricing id [?b, ?a] ''gpt-9-20250303'') = Some (Fin 2)"
    "map_option ll_InputCostPerToken (ps_GetModelPricing id [?a, ?b] ''gpt-9-20250303'') = Some (Fin 1)" by code_simp+
  ultimately show ?thesis by (auto simp: Let_def)
qed

text \<open>The prices of an object after the policy for its model.\<close>

definition with_policy :: "billing_svc \<Rightarrow> gostring \<Rightarrow> model_pricing \<Rightarrow> model_pricing" where
  "with_policy b model p = (if isOpenAIGPT54Model (bv_uni b) model \<and> \<not> has_long_context p then gpt54_policy p else p)"

lemma policy_object:
  assumes "a < length h"
  shows "\<exists>a2 g. applyModelSpecificPricingPolicy b model a h = (a2, h @ g) \<and> a2 < length (h @ g) \<and> (h @ g) ! a2 = with_policy b model (h ! a)
    \<and> (a2 = a \<or> length h \<le> a2)"
  using assms by (auto simp: applyModelSpecificPricingPolicy_def with_policy_def alloc_def nth_append)

lemma listed_object:
  assumes "listed_price b model = Some l"
  shows "\<exists>a g. GetModelPricing b model h = (Inr a, h @ g) \<and> a < length (h @ g) \<and> length h \<le> a
    \<and> (h @ g) ! a = with_policy b (ToLower (bv_uni b) model) (pricing_of_litellm l)"
proof -
  have "length h < length (h @ [pricing_of_litellm l])" by simp
  from policy_object [OF this, of b "ToLower (bv_uni b) model"] show ?thesis
    using assms by (auto simp: GetModelPricing_def listed_price_def alloc_def Let_def)
qed

lemma long_context_of_channel [simp]: "has_long_context (channel_prices c p) = has_long_context p"
  by (simp add: has_long_context_def channel_prices_def)

lemma negative_rate: "flt rate (Fin 0) \<Longrightarrow> computeTokenBreakdown uni p t (Fin 0) tier l = computeTokenBreakdown uni p t rate tier l"
  by (simp add: computeTokenBreakdown_def)

lemma token_override:
  assumes "filterValidIntervals (cp_Intervals c) = []" "rp_BasePricing r = Some a"
  shows "applyTokenOverrides c r h = (r\<lparr>rp_BasePricing := Some a\<rparr>, h[a := channel_prices c (h ! a)])"
  using assms by (simp add: applyTokenOverrides_def)

text \<open>
  C15: A listed model is charged by its channel. When a channel sets flat token prices for a model that the price list has,
  a request of one of its groups costs what the channel's prices say, with the list's price wherever the channel sets
  none; and the prices every other request may use are left as they were.
\<close>

theorem channel_price_is_charged:
  assumes "listed_price b (ci_Model i) = Some l" "ci_GroupID i = Some g"
    and "GetChannelModelPricing e g (ci_Model i) (py_channels s) = (Some c, ch)"
    and "mode_or_token (cp_BillingMode c) = BillingModeToken" "filterValidIntervals (cp_Intervals c) = []"
  defines "p \<equiv> with_policy b (ci_Model i) (channel_prices c (with_policy b (ToLower (bv_uni b) (ci_Model i)) (pricing_of_litellm l)))"
  shows "fst (CalculateCostUnified b e None i s) =
      Inr ((computeTokenBreakdown (bv_uni b) p (ci_Tokens i) (ci_RateMultiplier i) (ci_ServiceTier i) True)\<lparr>cb_BillingMode := BillingModeToken\<rparr>)
    \<and> take (length (py_store s)) (py_store (snd (CalculateCostUnified b e None i s))) = py_store s"
proof -
  let ?h = "py_store s"
  obtain a g1 where m: "GetModelPricing b (ci_Model i) ?h = (Inr a, ?h @ g1)" "a < length (?h @ g1)" "length ?h \<le> a"
    and v: "(?h @ g1) ! a = with_policy b (ToLower (bv_uni b) (ci_Model i)) (pricing_of_litellm l)"
    using listed_object [OF assms(1), of ?h] by blast
  let ?h1 = "(?h @ g1)[a := channel_prices c ((?h @ g1) ! a)]"
  obtain a2 g2 where q: "applyModelSpecificPricingPolicy b (ci_Model i) a ?h1 = (a2, ?h1 @ g2)" "(?h1 @ g2) ! a2 = p"
    using policy_object [of a ?h1 b "ci_Model i"] m(2) v by (auto simp: p_def)
  have keep: "take (length ?h) ?h1 = ?h" using m(3) by simp
  have mode: "\<not> is_request_mode BillingModeToken" "mode_or_token BillingModeToken = BillingModeToken"
    by (simp_all add: is_request_mode_def BillingModeToken_def BillingModePerRequest_def BillingModeImage_def mode_or_token_def)
  show ?thesis
    using assms(2-5) m(1) q keep mode token_override [OF assms(5)] negative_rate
    by (simp add: CalculateCostUnified_def Resolve_def resolveBasePricing_def Let_def calculateTokenCost_def GetIntervalPricing_def
        FindMatchingInterval_def empty_resolved_def)
qed


definition demo_listed :: litellm where
  "demo_listed = no_price\<lparr>ll_InputCostPerToken := Fin 7, ll_OutputCostPerToken := Fin 3\<rparr>"

definition demo_billing :: "price_list option \<Rightarrow> billing_svc" where
  "demo_billing prices = fst (NewBillingService id prices (Fin 1))"

definition demo_cost_input :: cost_input where
  "demo_cost_input = \<lparr>ci_Model = ''claude-opus-4'', ci_GroupID = Some 5, ci_Tokens = no_tokens\<lparr>ut_InputTokens := 10\<rparr>,
     ci_RequestCount = 1, ci_SizeTier = [], ci_RateMultiplier = Fin 1, ci_ServiceTier = []\<rparr>"

definition demo_price_sys :: price_sys where
  "demo_price_sys = \<lparr>py_channels = demo_channel_sys, py_store = []\<rparr>"

lemma demo_channel_found:
  "\<exists>ch. GetChannelModelPricing demo_channel_env 5 ''claude-opus-4'' demo_channel_sys = (Some (demo_pricing [''claude-opus-*'']), ch)"
proof -
  have "fst (GetChannelModelPricing demo_channel_env 5 ''claude-opus-4'' demo_channel_sys) = Some (demo_pricing [''claude-opus-*''])"
    by code_simp
  then show ?thesis by (cases "GetChannelModelPricing demo_channel_env 5 ''claude-opus-4'' demo_channel_sys") simp
qed

text \<open>The list says 7 and 3, the channel 2 for the input: the prices that apply are 2 and 3.\<close>

theorem channel_price_is_charged_witness:
  "\<exists>p. mp_InputPricePerToken p = Fin 2 \<and> mp_OutputPricePerToken p = Fin 3
    \<and> fst (CalculateCostUnified (demo_billing (Some [(''claude-opus-4'', demo_listed)])) demo_channel_env None demo_cost_input demo_price_sys)
      = Inr ((computeTokenBreakdown id p (ci_Tokens demo_cost_input) (Fin 1) [] True)\<lparr>cb_BillingMode := BillingModeToken\<rparr>)"
proof -
  let ?b = "demo_billing (Some [(''claude-opus-4'', demo_listed)])"
  obtain ch where ch: "GetChannelModelPricing demo_channel_env 5 ''claude-opus-4'' demo_channel_sys
      = (Some (demo_pricing [''claude-opus-*'']), ch)" using demo_channel_found by blast
  have "ps_GetModelPricing id [(''claude-opus-4'', demo_listed)] ''claude-opus-4'' = Some demo_listed"
    "ToLower id ''claude-opus-4'' = ''claude-opus-4''" "\<not> isOpenAIGPT54Model id ''claude-opus-4''" by code_simp+
  then have "listed_price ?b (ci_Model demo_cost_input) = Some demo_listed"
    and p: "with_policy ?b (ci_Model demo_cost_input) q = q" "ToLower (bv_uni ?b) (ci_Model demo_cost_input) = ci_Model demo_cost_input" for q
    by (simp_all add: listed_price_def demo_billing_def NewBillingService_def demo_cost_input_def with_policy_def)
  moreover have "mode_or_token (cp_BillingMode (demo_pricing [''claude-opus-*''])) = BillingModeToken"
    "filterValidIntervals (cp_Intervals (demo_pricing [''claude-opus-*''])) = []" by code_simp+
  ultimately have "fst (CalculateCostUnified ?b demo_channel_env None demo_cost_input demo_price_sys)
      = Inr ((computeTokenBreakdown id (channel_prices (demo_pricing [''claude-opus-*'']) (pricing_of_litellm demo_listed))
          (ci_Tokens demo_cost_input) (Fin 1) [] True)\<lparr>cb_BillingMode := BillingModeToken\<rparr>)"
    using channel_price_is_charged [of ?b demo_cost_input demo_listed 5 demo_channel_env demo_price_sys _ ch] ch
    by (simp add: demo_cost_input_def demo_price_sys_def demo_billing_def NewBillingService_def)
  moreover have "mp_InputPricePerToken (channel_prices (demo_pricing [''claude-opus-*'']) (pricing_of_litellm demo_listed)) = Fin 2"
    "mp_OutputPricePerToken (channel_prices (demo_pricing [''claude-opus-*'']) (pricing_of_litellm demo_listed)) = Fin 3"
    by (simp_all add: channel_prices_def demo_pricing_def pricing_of_litellm_def demo_listed_def given_def no_price_def Let_def)
  ultimately show ?thesis by blast
qed

text \<open>The model has no listed price, its fallback object is a, and the policy for its model keeps the object.\<close>

definition falls_back_to :: "billing_svc \<Rightarrow> gostring \<Rightarrow> addr \<Rightarrow> price_store \<Rightarrow> bool" where
  "falls_back_to b model a h \<longleftrightarrow> listed_price b model = None \<and> getFallbackPricing b (ToLower (bv_uni b) model) = Some a \<and> a < length h
     \<and> (isOpenAIGPT54Model (bv_uni b) (ToLower (bv_uni b) model) \<longrightarrow> has_long_context (h ! a))"

lemma fallback_object: "falls_back_to b model a h \<Longrightarrow> GetModelPricing b model h = (Inr a, h)"
  by (simp add: falls_back_to_def listed_price_def GetModelPricing_def Let_def applyModelSpecificPricingPolicy_def)

text \<open>
  C35: One group's discount is everyone's. When a model has no listed price, resolving the flat token prices of one group's
  channel writes them into the fallback object that all groups share: afterwards a request with no channel at all is
  charged by them, for that model and for every other model with the same fallback.
\<close>

theorem channel_price_leaks_to_everyone:
  assumes "falls_back_to b m a (py_store s)" "falls_back_to b m' a (py_store s)"
    and "GetChannelModelPricing e g m (py_channels s) = (Some c, ch)"
    and "mode_or_token (cp_BillingMode c) = BillingModeToken" "filterValidIntervals (cp_Intervals c) = []"
  shows "fst (CalculateCost b m' t rate (py_store (snd (Resolve b e m (Some g) s)))) =
    Inr (computeTokenBreakdown (bv_uni b) (channel_prices c (py_store s ! a)) t rate [] True)"
proof -
  have mode: "\<not> is_request_mode BillingModeToken"
    by (simp add: is_request_mode_def BillingModeToken_def BillingModePerRequest_def BillingModeImage_def)
  have h: "py_store (snd (Resolve b e m (Some g) s)) = (py_store s)[a := channel_prices c (py_store s ! a)]"
    using assms(3,4) mode fallback_object [OF assms(1)] token_override [OF assms(5)]
    by (simp add: Resolve_def resolveBasePricing_def Let_def)
  have "falls_back_to b m' a ((py_store s)[a := channel_prices c (py_store s ! a)])"
    using assms(2) by (simp add: falls_back_to_def)
  from fallback_object [OF this] show ?thesis
    using assms(1) by (simp add: CalculateCost_def calculateCostInternal_def GetModelPricingWithChannel_def and_then_def h falls_back_to_def)
qed

definition demo_unlisted :: billing_svc where
  "demo_unlisted = \<lparr>bv_uni = id, bv_prices = None, bv_fallback = fallback_prices, bv_rateMultiplier = Fin 1\<rparr>"

lemma demo_unlisted_sel: "bv_uni demo_unlisted = id" "bv_prices demo_unlisted = None" "fallback_store \<noteq> []"
  by (simp_all add: demo_unlisted_def fallback_store_def)

lemma demo_opus:
  "getFallbackPricing demo_unlisted ''claude-opus-4.6'' = Some 0" "getFallbackPricing demo_unlisted ''claude-opus-4.7'' = Some 0"
  "\<not> isOpenAIGPT54Model id ''claude-opus-4.6''" "\<not> isOpenAIGPT54Model id ''claude-opus-4.7''"
  "ToLower id ''claude-opus-4.6'' = ''claude-opus-4.6''" "ToLower id ''claude-opus-4.7'' = ''claude-opus-4.7''"
  by code_simp+

lemma demo_opus_falls_back:
  "falls_back_to demo_unlisted ''claude-opus-4.6'' 0 fallback_store" "falls_back_to demo_unlisted ''claude-opus-4.7'' 0 fallback_store"
  unfolding falls_back_to_def listed_price_def demo_unlisted_sel demo_opus by (simp_all add: demo_opus demo_unlisted_sel)

definition free_opus :: channel_pricing where
  "free_opus = (demo_pricing [''claude-opus-*''])\<lparr>cp_InputPrice := Some (Fin 0)\<rparr>"

definition free_channel_sys :: channel_sys where
  "free_channel_sys = demo_channel_sys\<lparr>cy_db := \<lparr>cd_rows = [demo_channel\<lparr>ch_ModelPricing := [free_opus]\<rparr>], cd_next = 2,
     cd_groups = [(5, ''anthropic'')]\<rparr>\<rparr>"

text \<open>
  A channel that gives its group the input of opus models for nothing makes opus 4.7 free for everyone, once one of the
  group's requests for 4.6 was priced.
\<close>

theorem channel_price_leaks_to_everyone_witness:
  "let (b, h) = NewBillingService id None (Fin 1); s = \<lparr>py_channels = free_channel_sys, py_store = h\<rparr> in
     \<exists>c. fst (CalculateCost b ''claude-opus-4.7'' (no_tokens\<lparr>ut_InputTokens := 1000000\<rparr>) (Fin 1)
              (py_store (snd (Resolve b demo_channel_env ''claude-opus-4.6'' (Some 5) s)))) = Inr c \<and> cb_InputCost c = Fin 0"
proof -
  let ?s = "\<lparr>py_channels = free_channel_sys, py_store = fallback_store\<rparr>"
  let ?t = "no_tokens\<lparr>ut_InputTokens := 1000000\<rparr>"
  have b: "NewBillingService id None (Fin 1) = (demo_unlisted, fallback_store)" by (simp add: NewBillingService_def demo_unlisted_def)
  have f: "falls_back_to demo_unlisted ''claude-opus-4.6'' 0 (py_store ?s)" "falls_back_to demo_unlisted ''claude-opus-4.7'' 0 (py_store ?s)"
    using demo_opus_falls_back by simp_all
  have "fst (GetChannelModelPricing demo_channel_env 5 ''claude-opus-4.6'' free_channel_sys) = Some free_opus" by code_simp
  then obtain ch where ch: "GetChannelModelPricing demo_channel_env 5 ''claude-opus-4.6'' (py_channels ?s) = (Some free_opus, ch)"
    by (cases "GetChannelModelPricing demo_channel_env 5 ''claude-opus-4.6'' free_channel_sys") simp
  have m: "mode_or_token (cp_BillingMode free_opus) = BillingModeToken" "filterValidIntervals (cp_Intervals free_opus) = []"
    by code_simp+
  have "normalizeBillingServiceTier id [] = []" by code_simp
  then have "cb_InputCost (computeTokenBreakdown id (channel_prices free_opus p) ?t (Fin 1) [] True) = Fin 0"
    if "mp_LongContextInputThreshold p = 0" for p
    using that f64_of_int_small [of 1000000] by (simp add: computeTokenBreakdown_def token_prices_def usePriorityServiceTierPricing_def serviceTierCostMultiplier_def
        scaled_def channel_prices_def free_opus_def given_def Let_def shouldApplySessionLongContextPricing_def)
  moreover have "mp_LongContextInputThreshold (fallback_store ! 0) = 0"
    by (simp add: fallback_store_def simple_pricing_def zero_pricing_def)
  ultimately show ?thesis
    using channel_price_leaks_to_everyone [OF f ch m, of ?t "Fin 1"] by (simp add: b demo_unlisted_sel(1))
qed

end
