(* ===== verification/Concurrency.thy ===== *)
theory Concurrency
  imports GoDB OpenAIScheduler
begin

text \<open>
  Limits on concurrent requests: the Redis cache of \<open>internal/repository/concurrency_cache.go\<close> with its scripts, the
  service of \<open>internal/service/concurrency_service.go\<close>, and the waiting of \<open>internal/handler/gateway_helper.go\<close>.

  Redis is a map from keys to sorted sets and one from keys to counters (the four key prefixes never meet), each entry with
  the time it expires; its clock \<open>now\<close> counts milliseconds and reads the same for all processes. A script is one step. A
  call can fail before or after its script ran. SCAN visits every key that exists all the while, in batches.
\<close>

subsection \<open>Redis\<close>

type_synonym rtime = int
type_synonym zset = "(gostring \<times> int) list"

record redis =
  rd_zsets :: "gostring \<Rightarrow> (zset \<times> rtime option) option"
  rd_counts :: "gostring \<Rightarrow> (int \<times> rtime option) option"

definition empty_redis :: redis where "empty_redis = \<lparr>rd_zsets = (\<lambda>_. None), rd_counts = (\<lambda>_. None)\<rparr>"

definition key_live :: "rtime \<Rightarrow> rtime option \<Rightarrow> bool" where
  "key_live now expire = (case expire of None \<Rightarrow> True | Some t \<Rightarrow> now \<le> t)"

definition zmembers :: "rtime \<Rightarrow> gostring \<Rightarrow> redis \<Rightarrow> zset" where
  "zmembers now k r = (case rd_zsets r k of Some (z, expire) \<Rightarrow> if key_live now expire then z else [] | None \<Rightarrow> [])"

text \<open>A write keeps the expiry of a live key; an empty set is no key.\<close>

definition put_zset :: "rtime \<Rightarrow> gostring \<Rightarrow> zset \<Rightarrow> redis \<Rightarrow> redis" where
  "put_zset now k z r =
     r\<lparr>rd_zsets := (rd_zsets r)(k := if z = [] then None
         else Some (z, case rd_zsets r k of Some (_, expire) \<Rightarrow> if key_live now expire then expire else None | None \<Rightarrow> None))\<rparr>"

definition ZREMRANGEBYSCORE :: "rtime \<Rightarrow> gostring \<Rightarrow> int \<Rightarrow> redis \<Rightarrow> redis" where
  "ZREMRANGEBYSCORE now k bound r = put_zset now k (filter (\<lambda>(_, score). bound < score) (zmembers now k r)) r"

definition ZSCORE :: "rtime \<Rightarrow> gostring \<Rightarrow> gostring \<Rightarrow> redis \<Rightarrow> int option" where
  "ZSCORE now k m r = map_of (zmembers now k r) m"

definition ZADD :: "rtime \<Rightarrow> gostring \<Rightarrow> int \<Rightarrow> gostring \<Rightarrow> redis \<Rightarrow> redis" where
  "ZADD now k score m r = put_zset now k (filter (\<lambda>(n, _). n \<noteq> m) (zmembers now k r) @ [(m, score)]) r"

definition ZREM :: "rtime \<Rightarrow> gostring \<Rightarrow> gostring \<Rightarrow> redis \<Rightarrow> redis" where
  "ZREM now k m r = put_zset now k (filter (\<lambda>(n, _). n \<noteq> m) (zmembers now k r)) r"

definition ZCARD :: "rtime \<Rightarrow> gostring \<Rightarrow> redis \<Rightarrow> int" where
  "ZCARD now k r = int (length (zmembers now k r))"

definition ZEXPIRE :: "rtime \<Rightarrow> gostring \<Rightarrow> int \<Rightarrow> redis \<Rightarrow> redis" where
  "ZEXPIRE now k ttl r = (case rd_zsets r k of
     None \<Rightarrow> r
   | Some (z, expire) \<Rightarrow> if key_live now expire then r\<lparr>rd_zsets := (rd_zsets r)(k \<mapsto> (z, Some (now + 1000 * ttl)))\<rparr> else r)"

definition counter :: "rtime \<Rightarrow> gostring \<Rightarrow> redis \<Rightarrow> int option" where
  "counter now k r = (case rd_counts r k of Some (n, expire) \<Rightarrow> if key_live now expire then Some n else None | None \<Rightarrow> None)"

definition add_counter :: "rtime \<Rightarrow> gostring \<Rightarrow> int \<Rightarrow> redis \<Rightarrow> redis" where
  "add_counter now k d r =
     r\<lparr>rd_counts := (rd_counts r)(k := Some (case rd_counts r k of
         Some (n, expire) \<Rightarrow> if key_live now expire then (n + d, expire) else (d, None) | None \<Rightarrow> (d, None)))\<rparr>"

definition expire_counter :: "rtime \<Rightarrow> gostring \<Rightarrow> int \<Rightarrow> redis \<Rightarrow> redis" where
  "expire_counter now k ttl r = (case counter now k r of
     None \<Rightarrow> r | Some n \<Rightarrow> r\<lparr>rd_counts := (rd_counts r)(k \<mapsto> (n, Some (now + 1000 * ttl)))\<rparr>)"

definition TIME :: "rtime \<Rightarrow> int" where "TIME now = now div 1000"

subsection \<open>The scripts\<close>

definition acquireScript :: "rtime \<Rightarrow> gostring \<Rightarrow> int \<Rightarrow> int \<Rightarrow> gostring \<Rightarrow> redis \<Rightarrow> int \<times> redis" where
  "acquireScript now key maxConcurrency ttl requestID r0 =
     (let r = ZREMRANGEBYSCORE now key (TIME now - ttl) r0;
          taken = ZEXPIRE now key ttl (ZADD now key (TIME now) requestID r)
      in if ZSCORE now key requestID r \<noteq> None then (1, taken)
         else if ZCARD now key r < maxConcurrency then (1, taken)
         else (0, r))"

definition getCountScript :: "rtime \<Rightarrow> gostring \<Rightarrow> int \<Rightarrow> redis \<Rightarrow> int \<times> redis" where
  "getCountScript now key ttl r0 = (let r = ZREMRANGEBYSCORE now key (TIME now - ttl) r0 in (ZCARD now key r, r))"

definition incrementWaitScript :: "rtime \<Rightarrow> gostring \<Rightarrow> int \<Rightarrow> int \<Rightarrow> redis \<Rightarrow> int \<times> redis" where
  "incrementWaitScript now key maxWait ttl r =
     (let current = (case counter now key r of None \<Rightarrow> 0 | Some n \<Rightarrow> n) in
      if maxWait \<le> current then (0, r) else (1, expire_counter now key ttl (add_counter now key 1 r)))"

definition decrementWaitScript :: "rtime \<Rightarrow> gostring \<Rightarrow> redis \<Rightarrow> int \<times> redis" where
  "decrementWaitScript now key r = (case counter now key r of
     Some n \<Rightarrow> (1, if 0 < n then add_counter now key (-1) r else r) | None \<Rightarrow> (1, r))"

definition cleanupExpiredSlotsScript :: "rtime \<Rightarrow> gostring \<Rightarrow> int \<Rightarrow> redis \<Rightarrow> int \<times> redis" where
  "cleanupExpiredSlotsScript now key ttl r0 =
     (let r = ZREMRANGEBYSCORE now key (TIME now - ttl) r0 in
      (1, if ZCARD now key r = 0 then r\<lparr>rd_zsets := (rd_zsets r)(key := None)\<rparr> else ZEXPIRE now key ttl r))"

definition cleanup_key :: "rtime \<Rightarrow> gostring \<Rightarrow> int \<Rightarrow> gostring \<Rightarrow> redis \<Rightarrow> redis" where
  "cleanup_key now activePrefix slotTTL key r0 =
     (let r = put_zset now key (filter (\<lambda>(m, _). take (length activePrefix) m = activePrefix) (zmembers now key r0)) r0 in
      if ZCARD now key r = 0 then r\<lparr>rd_zsets := (rd_zsets r)(key := None)\<rparr> else ZEXPIRE now key slotTTL r)"

definition startupCleanupScript :: "rtime \<Rightarrow> gostring list \<Rightarrow> gostring \<Rightarrow> int \<Rightarrow> redis \<Rightarrow> redis" where
  "startupCleanupScript now keys activePrefix slotTTL r = fold (cleanup_key now activePrefix slotTTL) keys r"

subsection \<open>The cache\<close>

record conc_cache =
  cq_slotTTLSeconds :: int
  cq_waitQueueTTLSeconds :: int

definition defaultSlotTTLMinutes :: int where "defaultSlotTTLMinutes = 15"

definition NewConcurrencyCache :: "int \<Rightarrow> int \<Rightarrow> conc_cache" where
  "NewConcurrencyCache slotTTLMinutes waitQueueTTLSeconds =
     (let m = (if slotTTLMinutes \<le> 0 then defaultSlotTTLMinutes else slotTTLMinutes) in
      \<lparr>cq_slotTTLSeconds = m * 60, cq_waitQueueTTLSeconds = (if waitQueueTTLSeconds \<le> 0 then m * 60 else waitQueueTTLSeconds)\<rparr>)"

definition accountSlotKeyPrefix :: gostring where "accountSlotKeyPrefix = ''concurrency:account:''"
definition userSlotKeyPrefix :: gostring where "userSlotKeyPrefix = ''concurrency:user:''"
definition waitQueueKeyPrefix :: gostring where "waitQueueKeyPrefix = ''concurrency:wait:''"
definition accountWaitKeyPrefix :: gostring where "accountWaitKeyPrefix = ''wait:account:''"

definition accountSlotKey :: "int64 \<Rightarrow> gostring" where "accountSlotKey i = accountSlotKeyPrefix @ itoa i"
definition userSlotKey :: "int64 \<Rightarrow> gostring" where "userSlotKey i = userSlotKeyPrefix @ itoa i"
definition waitQueueKey :: "int64 \<Rightarrow> gostring" where "waitQueueKey i = waitQueueKeyPrefix @ itoa i"
definition accountWaitKey :: "int64 \<Rightarrow> gostring" where "accountWaitKey i = accountWaitKeyPrefix @ itoa i"

text \<open>What a call meets: the cache's settings, the clock, and the outcome of the call.\<close>

record conc_call =
  cl_cache :: conc_cache
  cl_now :: rtime
  cl_fault :: fault

definition run_flag :: "fault \<Rightarrow> (redis \<Rightarrow> int \<times> redis) \<Rightarrow> redis \<Rightarrow> bool result \<times> redis" where
  "run_flag f script = with_fault f (\<lambda>r. case script r of (n, r') \<Rightarrow> (n = 1, r'))"

definition cache_AcquireAccountSlot :: "conc_call \<Rightarrow> int64 \<Rightarrow> int \<Rightarrow> gostring \<Rightarrow> redis \<Rightarrow> bool result \<times> redis" where
  "cache_AcquireAccountSlot c accountID maxConcurrency requestID =
     run_flag (cl_fault c)
       (acquireScript (cl_now c) (accountSlotKey accountID) maxConcurrency (cq_slotTTLSeconds (cl_cache c)) requestID)"

definition cache_ReleaseAccountSlot :: "conc_call \<Rightarrow> int64 \<Rightarrow> gostring \<Rightarrow> redis \<Rightarrow> unit result \<times> redis" where
  "cache_ReleaseAccountSlot c accountID requestID =
     with_fault (cl_fault c) (\<lambda>r. ((), ZREM (cl_now c) (accountSlotKey accountID) requestID r))"

definition cache_GetAccountConcurrency :: "conc_call \<Rightarrow> int64 \<Rightarrow> redis \<Rightarrow> int result \<times> redis" where
  "cache_GetAccountConcurrency c accountID =
     with_fault (cl_fault c) (getCountScript (cl_now c) (accountSlotKey accountID) (cq_slotTTLSeconds (cl_cache c)))"

definition purge :: "conc_call \<Rightarrow> gostring \<Rightarrow> redis \<Rightarrow> redis" where
  "purge c key = ZREMRANGEBYSCORE (cl_now c) key (TIME (cl_now c) - cq_slotTTLSeconds (cl_cache c))"

definition cache_GetAccountConcurrencyBatch :: "conc_call \<Rightarrow> int64 list \<Rightarrow> redis \<Rightarrow> (int64 \<rightharpoonup> int) result \<times> redis" where
  "cache_GetAccountConcurrencyBatch c accountIDs r0 =
     (if accountIDs = [] then (Inr Map.empty, r0)
      else with_fault (cl_fault c) (\<lambda>r. fold (\<lambda>i (m, r1). let r2 = purge c (accountSlotKey i) r1 in
             (m(i \<mapsto> ZCARD (cl_now c) (accountSlotKey i) r2), r2)) accountIDs (Map.empty, r)) r0)"

definition cache_AcquireUserSlot :: "conc_call \<Rightarrow> int64 \<Rightarrow> int \<Rightarrow> gostring \<Rightarrow> redis \<Rightarrow> bool result \<times> redis" where
  "cache_AcquireUserSlot c userID maxConcurrency requestID =
     run_flag (cl_fault c)
       (acquireScript (cl_now c) (userSlotKey userID) maxConcurrency (cq_slotTTLSeconds (cl_cache c)) requestID)"

definition cache_ReleaseUserSlot :: "conc_call \<Rightarrow> int64 \<Rightarrow> gostring \<Rightarrow> redis \<Rightarrow> unit result \<times> redis" where
  "cache_ReleaseUserSlot c userID requestID =
     with_fault (cl_fault c) (\<lambda>r. ((), ZREM (cl_now c) (userSlotKey userID) requestID r))"

definition cache_GetUserConcurrency :: "conc_call \<Rightarrow> int64 \<Rightarrow> redis \<Rightarrow> int result \<times> redis" where
  "cache_GetUserConcurrency c userID =
     with_fault (cl_fault c) (getCountScript (cl_now c) (userSlotKey userID) (cq_slotTTLSeconds (cl_cache c)))"

definition cache_IncrementWaitCount :: "conc_call \<Rightarrow> int64 \<Rightarrow> int \<Rightarrow> redis \<Rightarrow> bool result \<times> redis" where
  "cache_IncrementWaitCount c userID maxWait =
     run_flag (cl_fault c) (incrementWaitScript (cl_now c) (waitQueueKey userID) maxWait (cq_waitQueueTTLSeconds (cl_cache c)))"

definition cache_DecrementWaitCount :: "conc_call \<Rightarrow> int64 \<Rightarrow> redis \<Rightarrow> unit result \<times> redis" where
  "cache_DecrementWaitCount c userID =
     with_fault (cl_fault c) (\<lambda>r. ((), snd (decrementWaitScript (cl_now c) (waitQueueKey userID) r)))"

definition cache_IncrementAccountWaitCount :: "conc_call \<Rightarrow> int64 \<Rightarrow> int \<Rightarrow> redis \<Rightarrow> bool result \<times> redis" where
  "cache_IncrementAccountWaitCount c accountID maxWait =
     run_flag (cl_fault c) (incrementWaitScript (cl_now c) (accountWaitKey accountID) maxWait (cq_waitQueueTTLSeconds (cl_cache c)))"

definition cache_DecrementAccountWaitCount :: "conc_call \<Rightarrow> int64 \<Rightarrow> redis \<Rightarrow> unit result \<times> redis" where
  "cache_DecrementAccountWaitCount c accountID =
     with_fault (cl_fault c) (\<lambda>r. ((), snd (decrementWaitScript (cl_now c) (accountWaitKey accountID) r)))"

definition waiting :: "rtime \<Rightarrow> gostring \<Rightarrow> redis \<Rightarrow> int" where
  "waiting now key r = (case counter now key r of None \<Rightarrow> 0 | Some n \<Rightarrow> n)"

definition cache_GetAccountWaitingCount :: "conc_call \<Rightarrow> int64 \<Rightarrow> redis \<Rightarrow> int result" where
  "cache_GetAccountWaitingCount c accountID r = read_fault (cl_fault c) (Inr (waiting (cl_now c) (accountWaitKey accountID) r))"

text \<open>\<open>slotKey\<close> and \<open>waitKey\<close> are those of accounts or of users; counts are not negative, so \<open>div\<close> is Go's division.\<close>

definition load_batch ::
    "(int64 \<Rightarrow> gostring) \<Rightarrow> (int64 \<Rightarrow> gostring) \<Rightarrow> conc_call \<Rightarrow> (int64 \<times> int) list \<Rightarrow> redis \<Rightarrow> (int64 \<rightharpoonup> load_info) result \<times> redis" where
  "load_batch slotKey waitKey c items r0 =
     (if items = [] then (Inr Map.empty, r0)
      else with_fault (cl_fault c) (\<lambda>r. fold (\<lambda>(i, maxConcurrency) (m, r1).
             let r2 = purge c (slotKey i) r1; n = ZCARD (cl_now c) (slotKey i) r2; w = waiting (cl_now c) (waitKey i) r2 in
             (m(i \<mapsto> \<lparr>li_AccountID = i, li_CurrentConcurrency = n, li_WaitingCount = w,
                 li_LoadRate = (if 0 < maxConcurrency then (n + w) * 100 div maxConcurrency else 0)\<rparr>), r2)) items (Map.empty, r)) r0)"

definition cache_GetAccountsLoadBatch :: "conc_call \<Rightarrow> (int64 \<times> int) list \<Rightarrow> redis \<Rightarrow> (int64 \<rightharpoonup> load_info) result \<times> redis" where
  "cache_GetAccountsLoadBatch = load_batch accountSlotKey accountWaitKey"

definition cache_GetUsersLoadBatch :: "conc_call \<Rightarrow> (int64 \<times> int) list \<Rightarrow> redis \<Rightarrow> (int64 \<rightharpoonup> load_info) result \<times> redis" where
  "cache_GetUsersLoadBatch = load_batch userSlotKey waitQueueKey"

definition cache_CleanupExpiredAccountSlots :: "conc_call \<Rightarrow> int64 \<Rightarrow> redis \<Rightarrow> unit result \<times> redis" where
  "cache_CleanupExpiredAccountSlots c accountID =
     with_fault (cl_fault c) (\<lambda>r. ((), snd (cleanupExpiredSlotsScript (cl_now c) (accountSlotKey accountID)
       (cq_slotTTLSeconds (cl_cache c)) r)))"

text \<open>A scan of the keys with a prefix: the batches it returned, or the error that ended it after some.\<close>

record key_scan =
  ks_batches :: "gostring list list"
  ks_error :: "go_error option"

definition cleanupSlotsByPattern :: "conc_call \<Rightarrow> key_scan \<Rightarrow> gostring \<Rightarrow> redis \<Rightarrow> unit result \<times> redis" where
  "cleanupSlotsByPattern c ks activePrefix r =
     (case ks_error ks of None \<Rightarrow> Inr () | Some err \<Rightarrow> Inl err,
      fold (\<lambda>keys. startupCleanupScript (cl_now c) keys activePrefix (cq_slotTTLSeconds (cl_cache c))) (ks_batches ks) r)"

definition deleteKeysByPattern :: "key_scan \<Rightarrow> redis \<Rightarrow> unit result \<times> redis" where
  "deleteKeysByPattern ks r =
     (case ks_error ks of None \<Rightarrow> Inr () | Some err \<Rightarrow> Inl err,
      r\<lparr>rd_counts := (\<lambda>k. if k \<in> set (concat (ks_batches ks)) then None else rd_counts r k)\<rparr>)"

text \<open>\<open>scan\<close> gives the scan of a prefix in the state it starts in.\<close>

definition cache_CleanupStaleProcessSlots ::
    "conc_call \<Rightarrow> (gostring \<Rightarrow> redis \<Rightarrow> key_scan) \<Rightarrow> gostring \<Rightarrow> redis \<Rightarrow> unit result \<times> redis" where
  "cache_CleanupStaleProcessSlots c scan activeRequestPrefix r0 =
     (if activeRequestPrefix = [] then (Inr (), r0)
      else and_then (cleanupSlotsByPattern c (scan accountSlotKeyPrefix r0) activeRequestPrefix r0) (\<lambda>_ r1.
           and_then (cleanupSlotsByPattern c (scan userSlotKeyPrefix r1) activeRequestPrefix r1) (\<lambda>_ r2.
           and_then (deleteKeysByPattern (scan accountWaitKeyPrefix r2) r2) (\<lambda>_ r3.
           deleteKeysByPattern (scan waitQueueKeyPrefix r3) r3))))"

subsection \<open>The service\<close>

text \<open>A process: the prefix it drew when it started, and its counter.\<close>

record conc_sys =
  cs_redis :: redis
  cs_counter :: nat

definition digits36 :: gostring where "digits36 = ''0123456789abcdefghijklmnopqrstuvwxyz''"

fun base36 :: "nat \<Rightarrow> gostring" where
  "base36 n = (if n < 36 then [] else base36 (n div 36)) @ [digits36 ! (n mod 36)]"

declare base36.simps [simp del]

definition initRequestIDPrefix :: "nat \<Rightarrow> gostring" where
  "initRequestIDPrefix random = ''r'' @ base36 random"

definition generateRequestID :: "gostring \<Rightarrow> conc_sys \<Rightarrow> gostring \<times> conc_sys" where
  "generateRequestID requestIDPrefix s =
     (let seq = (cs_counter s + 1) mod 2 ^ 64 in (requestIDPrefix @ ''-'' @ base36 seq, s\<lparr>cs_counter := seq\<rparr>))"

text \<open>\<open>ar_Release\<close>: the slot the release function gives back; None is a function that does nothing, or nil when not acquired.\<close>

datatype slot = AccountSlot int64 gostring | UserSlot int64 gostring

record acquire_result =
  ar_Acquired :: bool
  ar_Release :: "slot option"

definition on_redis :: "(redis \<Rightarrow> 'a \<times> redis) \<Rightarrow> conc_sys \<Rightarrow> 'a \<times> conc_sys" where
  "on_redis f s = (case f (cs_redis s) of (x, r) \<Rightarrow> (x, s\<lparr>cs_redis := r\<rparr>))"

definition cs_AcquireAccountSlot ::
    "gostring \<Rightarrow> conc_call \<Rightarrow> int64 \<Rightarrow> int \<Rightarrow> conc_sys \<Rightarrow> acquire_result result \<times> conc_sys" where
  "cs_AcquireAccountSlot requestIDPrefix c accountID maxConcurrency s =
     (if maxConcurrency \<le> 0 then (Inr \<lparr>ar_Acquired = True, ar_Release = None\<rparr>, s)
      else case generateRequestID requestIDPrefix s of (requestID, s1) \<Rightarrow>
        and_then (on_redis (cache_AcquireAccountSlot c accountID maxConcurrency requestID) s1) (\<lambda>acquired s2.
          (Inr (if acquired then \<lparr>ar_Acquired = True, ar_Release = Some (AccountSlot accountID requestID)\<rparr>
                else \<lparr>ar_Acquired = False, ar_Release = None\<rparr>), s2)))"

definition cs_AcquireUserSlot ::
    "gostring \<Rightarrow> conc_call \<Rightarrow> int64 \<Rightarrow> int \<Rightarrow> conc_sys \<Rightarrow> acquire_result result \<times> conc_sys" where
  "cs_AcquireUserSlot requestIDPrefix c userID maxConcurrency s =
     (if maxConcurrency \<le> 0 then (Inr \<lparr>ar_Acquired = True, ar_Release = None\<rparr>, s)
      else case generateRequestID requestIDPrefix s of (requestID, s1) \<Rightarrow>
        and_then (on_redis (cache_AcquireUserSlot c userID maxConcurrency requestID) s1) (\<lambda>acquired s2.
          (Inr (if acquired then \<lparr>ar_Acquired = True, ar_Release = Some (UserSlot userID requestID)\<rparr>
                else \<lparr>ar_Acquired = False, ar_Release = None\<rparr>), s2)))"

text \<open>Calling the release function; an error is only logged.\<close>

definition cs_release :: "conc_call \<Rightarrow> slot option \<Rightarrow> conc_sys \<Rightarrow> conc_sys" where
  "cs_release c rel s = (case rel of
     None \<Rightarrow> s
   | Some (AccountSlot i req) \<Rightarrow> snd (on_redis (cache_ReleaseAccountSlot c i req) s)
   | Some (UserSlot i req) \<Rightarrow> snd (on_redis (cache_ReleaseUserSlot c i req) s))"

text \<open>Counting a waiter fails open.\<close>

definition allow_on_error :: "bool result \<Rightarrow> bool" where
  "allow_on_error r = (case r of Inl _ \<Rightarrow> True | Inr b \<Rightarrow> b)"

definition cs_IncrementWaitCount :: "conc_call \<Rightarrow> int64 \<Rightarrow> int \<Rightarrow> conc_sys \<Rightarrow> bool \<times> conc_sys" where
  "cs_IncrementWaitCount c userID maxWait s =
     (case on_redis (cache_IncrementWaitCount c userID maxWait) s of (r, s1) \<Rightarrow> (allow_on_error r, s1))"

definition cs_DecrementWaitCount :: "conc_call \<Rightarrow> int64 \<Rightarrow> conc_sys \<Rightarrow> conc_sys" where
  "cs_DecrementWaitCount c userID s = snd (on_redis (cache_DecrementWaitCount c userID) s)"

definition cs_IncrementAccountWaitCount :: "conc_call \<Rightarrow> int64 \<Rightarrow> int \<Rightarrow> conc_sys \<Rightarrow> bool \<times> conc_sys" where
  "cs_IncrementAccountWaitCount c accountID maxWait s =
     (case on_redis (cache_IncrementAccountWaitCount c accountID maxWait) s of (r, s1) \<Rightarrow> (allow_on_error r, s1))"

definition cs_DecrementAccountWaitCount :: "conc_call \<Rightarrow> int64 \<Rightarrow> conc_sys \<Rightarrow> conc_sys" where
  "cs_DecrementAccountWaitCount c accountID s = snd (on_redis (cache_DecrementAccountWaitCount c accountID) s)"

definition defaultExtraWaitSlots :: int where "defaultExtraWaitSlots = 20"

definition CalculateMaxWait :: "int \<Rightarrow> int" where
  "CalculateMaxWait userConcurrency = (if userConcurrency \<le> 0 then 1 else userConcurrency) + defaultExtraWaitSlots"

text \<open>One round of the background worker: the accounts in order, each call with its own outcome.\<close>

definition runCleanup :: "conc_cache \<Rightarrow> rtime \<Rightarrow> (int64 \<times> fault) list result \<Rightarrow> redis \<Rightarrow> redis" where
  "runCleanup q now listed r = (case listed of
     Inl _ \<Rightarrow> r
   | Inr accounts \<Rightarrow> fold (\<lambda>(i, f) r1. snd (cache_CleanupExpiredAccountSlots \<lparr>cl_cache = q, cl_now = now, cl_fault = f\<rparr> i r1)) accounts r)"

subsection \<open>Waiting for a slot\<close>

definition initialBackoff :: duration where "initialBackoff = Second div 10"
definition maxBackoff :: duration where "maxBackoff = 2 * Second"
definition backoffMultiplier :: f64 where "backoffMultiplier = Fin (3 / 2)"
definition maxConcurrencyWait :: duration where "maxConcurrencyWait = 30 * Second"

text \<open>\<open>random\<close> is what \<open>rand.Float64\<close> gives; converting a float outside int64 gives \<open>min_int64\<close> on amd64.\<close>

definition nextBackoff :: "f64 \<Rightarrow> duration \<Rightarrow> duration" where
  "nextBackoff random current =
     (let n = f64_to_int min_int64 (fmul (f64_of_int current) backoffMultiplier);
          capped = (if maxBackoff < n then maxBackoff else n);
          jitter = fadd (f64_of_rat (8 / 10)) (fmul random (f64_of_rat (4 / 10)));
          jittered = f64_to_int min_int64 (fmul (f64_of_int capped) jitter)
      in if jittered < initialBackoff then initialBackoff else if maxBackoff < jittered then maxBackoff else jittered)"

text \<open>What wakes the waiter: its context, the ping ticker (and what writing a ping gives), its timer.\<close>

datatype wakeup = WDone | WPing "go_error option" | WTimer conc_call f64

definition concurrency_error :: "gostring \<Rightarrow> bool \<Rightarrow> go_error" where
  "concurrency_error slotType isTimeout =
     EPlain (if isTimeout then ''timeout waiting for '' @ slotType @ '' concurrency slot'' else slotType @ '' concurrency limit reached'')"

definition acquire_of_type ::
    "gostring \<Rightarrow> gostring \<Rightarrow> conc_call \<Rightarrow> int64 \<Rightarrow> int \<Rightarrow> conc_sys \<Rightarrow> acquire_result result \<times> conc_sys" where
  "acquire_of_type slotType pre c i maxConcurrency =
     (if slotType = ''user'' then cs_AcquireUserSlot pre c i maxConcurrency else cs_AcquireAccountSlot pre c i maxConcurrency)"

text \<open>
  The loop over the wake-ups: its result and the timers it set, None while it still waits. Pings only come when they are
  enabled; \<open>started\<close> says that the response headers were sent.
\<close>

fun wait_loop ::
    "gostring \<Rightarrow> gostring \<Rightarrow> int64 \<Rightarrow> int \<Rightarrow> duration \<Rightarrow> wakeup list \<Rightarrow> bool \<Rightarrow> conc_sys \<Rightarrow>
     (slot option result option \<times> bool \<times> duration list) \<times> conc_sys" where
  "wait_loop slotType pre i maxC backoff [] started s = ((None, started, [backoff]), s)"
| "wait_loop slotType pre i maxC backoff (WDone # ws) started s =
     ((Some (Inl (concurrency_error slotType True)), started, [backoff]), s)"
| "wait_loop slotType pre i maxC backoff (WPing (Some err) # ws) started s = ((Some (Inl err), True, [backoff]), s)"
| "wait_loop slotType pre i maxC backoff (WPing None # ws) started s = wait_loop slotType pre i maxC backoff ws True s"
| "wait_loop slotType pre i maxC backoff (WTimer c random # ws) started s =
     (case acquire_of_type slotType pre c i maxC s of
        (Inl err, s1) \<Rightarrow> ((Some (Inl err), started, [backoff]), s1)
      | (Inr a, s1) \<Rightarrow>
          if ar_Acquired a then ((Some (Inr (ar_Release a)), started, [backoff]), s1)
          else (case wait_loop slotType pre i maxC (nextBackoff random backoff) ws started s1 of
                  ((r, st, bs), s2) \<Rightarrow> ((r, st, backoff # bs), s2)))"

definition waitForSlotWithPingTimeout ::
    "gostring \<Rightarrow> gostring \<Rightarrow> int64 \<Rightarrow> int \<Rightarrow> conc_call option \<Rightarrow> bool \<Rightarrow> wakeup list \<Rightarrow> bool \<Rightarrow> conc_sys \<Rightarrow>
     (slot option result option \<times> bool \<times> duration list) \<times> conc_sys" where
  "waitForSlotWithPingTimeout slotType pre i maxC tryImmediate noFlusher ws started s =
     (case (case tryImmediate of None \<Rightarrow> (Inr \<lparr>ar_Acquired = False, ar_Release = None\<rparr>, s)
            | Some c \<Rightarrow> acquire_of_type slotType pre c i maxC s) of
        (Inl err, s1) \<Rightarrow> ((Some (Inl err), started, []), s1)
      | (Inr a, s1) \<Rightarrow>
          if ar_Acquired a then ((Some (Inr (ar_Release a)), started, []), s1)
          else if noFlusher then ((Some (Inl (EPlain ''streaming not supported'')), started, []), s1)
          else wait_loop slotType pre i maxC initialBackoff ws started s1)"

definition AcquireUserSlotWithWait ::
    "gostring \<Rightarrow> conc_call \<Rightarrow> int64 \<Rightarrow> int \<Rightarrow> bool \<Rightarrow> wakeup list \<Rightarrow> bool \<Rightarrow> conc_sys \<Rightarrow>
     (slot option result option \<times> bool \<times> duration list) \<times> conc_sys" where
  "AcquireUserSlotWithWait pre c i maxC = waitForSlotWithPingTimeout ''user'' pre i maxC (Some c)"

definition AcquireAccountSlotWithWait ::
    "gostring \<Rightarrow> conc_call \<Rightarrow> int64 \<Rightarrow> int \<Rightarrow> bool \<Rightarrow> wakeup list \<Rightarrow> bool \<Rightarrow> conc_sys \<Rightarrow>
     (slot option result option \<times> bool \<times> duration list) \<times> conc_sys" where
  "AcquireAccountSlotWithWait pre c i maxC = waitForSlotWithPingTimeout ''account'' pre i maxC (Some c)"

end
