(* ===== verification/ConcurrencyLaws.thy ===== *)
theory ConcurrencyLaws
  imports Concurrency
begin

text \<open>
  What the concurrency limits promise: any number of processes acquire and release slots of the same accounts and users
  through one Redis whose calls may fail before or after they take effect. \<open>slot_pool\<close> is the contract of the cache; the
  lemmas on the requests in flight rest on it alone, and the scripts are shown to keep it.
\<close>

subsection \<open>Request ids\<close>

lemma digits36: "length digits36 = 36" "distinct digits36" "CHR ''-'' \<notin> set digits36"
  by code_simp+

lemma base36_nonempty [simp]: "base36 n \<noteq> []"
  by (subst base36.simps) simp

lemma base36_inj: "base36 m = base36 n \<Longrightarrow> m = n"
proof (induction m arbitrary: n rule: base36.induct)
  case (1 m)
  from 1(2) have "(if m < 36 then [] else base36 (m div 36)) @ [digits36 ! (m mod 36)]
      = (if n < 36 then [] else base36 (n div 36)) @ [digits36 ! (n mod 36)]"
    unfolding base36.simps [of m] base36.simps [of n] .
  then have h: "(if m < 36 then [] else base36 (m div 36)) = (if n < 36 then [] else base36 (n div 36))" "digits36 ! (m mod 36) = digits36 ! (n mod 36)"
    by simp_all
  have r: "m mod 36 = n mod 36" using h(2) nth_eq_iff_index_eq [OF digits36(2)] digits36(1) by simp
  consider "m < 36" "n < 36" | "\<not> m < 36" "\<not> n < 36"
    using h(1) base36_nonempty [of "n div 36"] base36_nonempty [of "m div 36"] by (metis (full_types))
  then show ?case
  proof cases
    case 2
    then have "m div 36 = n div 36" using 1(1) [OF 2(1)] h(1) by simp
    then show ?thesis using r by (metis div_mult_mod_eq)
  qed (use r in simp)
qed

lemma base36_no_dash: "CHR ''-'' \<notin> set (base36 n)"
proof (induction n rule: base36.induct)
  case (1 n)
  have "digits36 ! (n mod 36) \<in> set digits36" using digits36(1) by simp
  then have "digits36 ! (n mod 36) \<noteq> CHR ''-''" using digits36(3) by metis
  then show ?case using 1 by (subst base36.simps) simp
qed

definition request_id :: "nat \<Rightarrow> nat \<Rightarrow> gostring" where
  "request_id random n = initRequestIDPrefix random @ ''-'' @ base36 n"

lemma request_id_inj: "request_id a m = request_id b n \<Longrightarrow> a = b \<and> m = n"
proof -
  assume e: "request_id a m = request_id b n"
  have n: "CHR ''-'' \<notin> set (initRequestIDPrefix x)" for x using base36_no_dash by (simp add: initRequestIDPrefix_def)
  have t: "takeWhile (\<lambda>c. c \<noteq> CHR ''-'') (request_id x k) = initRequestIDPrefix x
      \<and> dropWhile (\<lambda>c. c \<noteq> CHR ''-'') (request_id x k) = ''-'' @ base36 k" for x k
  proof -
    have "\<forall>c \<in> set (initRequestIDPrefix x). c \<noteq> CHR ''-''" using n by metis
    then show ?thesis by (simp add: request_id_def takeWhile_append2 dropWhile_append2)
  qed
  have "initRequestIDPrefix a = initRequestIDPrefix b" "''-'' @ base36 m = ''-'' @ base36 n" using t e by metis+
  then show "a = b \<and> m = n" using base36_inj by (simp add: initRequestIDPrefix_def)
qed

lemma generated_id:
  "cs_counter s + 1 < 2 ^ 64 \<Longrightarrow> generateRequestID (initRequestIDPrefix random) s
    = (request_id random (cs_counter s + 1), s\<lparr>cs_counter := cs_counter s + 1\<rparr>)"
  by (simp add: generateRequestID_def request_id_def Let_def)

subsection \<open>The contract of the cache\<close>

text \<open>A request in flight: the key of its slot, its id, and the second it was let in.\<close>

type_synonym flight = "gostring \<times> gostring \<times> int"

fun flight_id :: "flight \<Rightarrow> gostring \<times> gostring" where
  "flight_id (k, req, t) = (k, req)"

locale slot_pool =
  fixes ttl :: int and inv :: "rtime \<Rightarrow> 's \<Rightarrow> bool" and live :: "rtime \<Rightarrow> gostring \<Rightarrow> 's \<Rightarrow> (gostring \<times> int) list"
    and acquire :: "rtime \<Rightarrow> gostring \<Rightarrow> int \<Rightarrow> gostring \<Rightarrow> 's \<Rightarrow> bool \<times> 's"
    and release :: "rtime \<Rightarrow> gostring \<Rightarrow> gostring \<Rightarrow> 's \<Rightarrow> 's"
  assumes inv_later: "inv now s \<Longrightarrow> now \<le> now' \<Longrightarrow> inv now' s"
    and live_later: "inv now s \<Longrightarrow> now \<le> now' \<Longrightarrow> live now' k s = filter (\<lambda>(_, t). TIME now' - ttl < t) (live now k s)"
    and live_distinct: "inv now s \<Longrightarrow> distinct (map fst (live now k s))"
    and acquire_inv: "inv now s \<Longrightarrow> inv now (snd (acquire now k m req s))"
    and acquire_iff: "inv now s \<Longrightarrow> fst (acquire now k m req s) \<longleftrightarrow>
      req \<in> fst ` set (live now k s) \<or> int (length (live now k s)) < m"
    and acquire_live: "inv now s \<Longrightarrow> live now k' (snd (acquire now k m req s)) =
      (if fst (acquire now k m req s) \<and> k' = k then filter (\<lambda>(n, _). n \<noteq> req) (live now k s) @ [(req, TIME now)] else live now k' s)"
    and release_inv: "inv now s \<Longrightarrow> inv now (release now k req s)"
    and release_live: "inv now s \<Longrightarrow> live now k' (release now k req s) =
      (if k' = k then filter (\<lambda>(n, _). n \<noteq> req) (live now k s) else live now k' s)"
    and ttl_pos: "0 < ttl"
begin

definition in_order :: "(gostring \<Rightarrow> int) \<Rightarrow> rtime \<Rightarrow> flight list \<Rightarrow> 's \<Rightarrow> bool" where
  "in_order limit now fl s \<longleftrightarrow> inv now s \<and> (\<forall>k. int (length (live now k s)) \<le> max 0 (limit k))
     \<and> distinct (map flight_id fl)
     \<and> (\<forall>k req t. (k, req, t) \<in> set fl \<longrightarrow> TIME now - ttl < t \<longrightarrow> (req, t) \<in> set (live now k s))"

lemma in_order_later: "in_order limit now fl s \<Longrightarrow> now \<le> now' \<Longrightarrow> in_order limit now' fl s"
proof -
  assume o: "in_order limit now fl s" and l: "now \<le> now'"
  have "TIME now \<le> TIME now'" using l by (simp add: TIME_def zdiv_mono1)
  moreover have "live now' k s = filter (\<lambda>(_, t). TIME now' - ttl < t) (live now k s)" for k
    using live_later o l by (simp add: in_order_def)
  moreover have "int (length (live now' k s)) \<le> max 0 (limit k)" for k
    using o length_filter_le [of "\<lambda>(_, t). TIME now' - ttl < t" "live now k s"] calculation(2) [of k]
    unfolding in_order_def by (metis of_nat_mono order_trans)
  moreover have "inv now' s" using o l inv_later by (auto simp: in_order_def)
  ultimately show ?thesis using o unfolding in_order_def by fastforce
qed

text \<open>A step that keeps the live slots, as reads and purges do.\<close>

lemma in_order_same: "in_order limit now fl s \<Longrightarrow> inv now s' \<Longrightarrow> (\<And>k. live now k s' = live now k s) \<Longrightarrow> in_order limit now fl s'"
  by (simp add: in_order_def)

lemma length_filter_other:
  assumes "distinct (map fst z)"
  shows "int (length (filter (\<lambda>(n, _). n \<noteq> req) z)) = int (length z) - (if req \<in> fst ` set z then 1 else 0)"
  using assms
proof (induction z)
  case (Cons x z)
  have "filter (\<lambda>(n, _). n \<noteq> req) z = z" if "req \<notin> fst ` set z" using that by (induction z) auto
  then show ?case using Cons by (cases "fst x = req") (auto split: if_splits)
qed simp

lemma in_order_acquire:
  assumes o: "in_order limit now fl s" and f: "(k, req) \<notin> flight_id ` set fl"
  shows "in_order limit now fl (snd (acquire now k (limit k) req s))"
    and "fst (acquire now k (limit k) req s) \<Longrightarrow> in_order limit now ((k, req, TIME now) # fl) (snd (acquire now k (limit k) req s))"
proof -
  let ?s = "snd (acquire now k (limit k) req s)" and ?g = "fst (acquire now k (limit k) req s)"
  have i: "inv now s" and i': "inv now ?s" using o acquire_inv by (auto simp: in_order_def)
  have n: "int (length (live now k' ?s)) \<le> max 0 (limit k')" for k'
  proof (cases "?g \<and> k' = k")
    case True
    have "int (length (live now k s)) \<le> max 0 (limit k)" using o by (simp add: in_order_def)
    then show ?thesis
      using True acquire_iff [OF i, of k "limit k" req] length_filter_other [OF live_distinct [OF i], of req k]
      by (auto simp: acquire_live [OF i] split: if_splits)
  qed (use o in \<open>auto simp: acquire_live [OF i] in_order_def\<close>)
  have m: "(r, t) \<in> set (live now k' ?s)" if "(k', r, t) \<in> set fl" "TIME now - ttl < t" for k' r t
    using o f that by (force simp: acquire_live [OF i] in_order_def)
  show "in_order limit now fl ?s" using o i' n m by (auto simp: in_order_def)
  assume ?g
  then have "(req, TIME now) \<in> set (live now k ?s)" by (simp add: acquire_live [OF i])
  then show "in_order limit now ((k, req, TIME now) # fl) ?s" using o i' n m f by (auto simp: in_order_def)
qed

lemma in_order_release:
  assumes o: "in_order limit now fl s" and r: "(k, req, t) \<in> set fl"
  shows "in_order limit now (remove1 (k, req, t) fl) (release now k req s)"
    and "in_order limit now (remove1 (k, req, t) fl) s"
proof -
  have i: "inv now s" and i': "inv now (release now k req s)" using o release_inv by (auto simp: in_order_def)
  have n: "int (length (live now k' (release now k req s))) \<le> max 0 (limit k')" for k'
  proof -
    have "int (length (live now k' (release now k req s))) \<le> int (length (live now k' s))"
      by (simp add: release_live [OF i])
    then show ?thesis using o unfolding in_order_def by (meson order_trans)
  qed
  obtain as bs where s: "fl = as @ (k, req, t) # bs" "(k, req, t) \<notin> set as" using r by (metis split_list_first)
  then have rest: "remove1 (k, req, t) fl = as @ bs" by (simp add: remove1_append)
  have "distinct (map flight_id (as @ (k, req, t) # bs))" using o s(1) by (simp add: in_order_def)
  then have d: "distinct (map flight_id (as @ bs))"
    and o1: "(k, req) \<notin> flight_id ` set (as @ bs)" by auto
  have other: "(k', r) \<noteq> (k, req)" if "(k', r, u) \<in> set (as @ bs)" for k' r u
    using o1 image_eqI [of "(k', r)" flight_id "(k', r, u)"] that by auto
  have m: "(r', u) \<in> set (live now k' (release now k req s))"
    if "(k', r', u) \<in> set (as @ bs)" "TIME now - ttl < u" for k' r' u
  proof -
    have "(r', u) \<in> set (live now k' s)" using o that s(1) by (auto simp: in_order_def)
    then show ?thesis using other [OF that(1)] by (auto simp: release_live [OF i])
  qed
  show "in_order limit now (remove1 (k, req, t) fl) (release now k req s)" unfolding rest using i' n m d by (simp add: in_order_def)
  show "in_order limit now (remove1 (k, req, t) fl) s" unfolding rest using o d s(1) by (auto simp: in_order_def)
qed

text \<open>The requests in flight that were let in within the time a slot lives stay within the limit.\<close>

lemma in_order_limited:
  assumes o: "in_order limit now fl s"
  shows "int (length (filter (\<lambda>(k', _, t). k' = k \<and> TIME now - ttl < t) fl)) \<le> max 0 (limit k)"
proof -
  let ?F = "filter (\<lambda>(k', _, t). k' = k \<and> TIME now - ttl < t) fl"
  have "distinct (map flight_id ?F)" using o by (auto simp: in_order_def distinct_map_filter)
  moreover have "map flight_id ?F = map (Pair k) (map (\<lambda>(_, req, _). req) ?F)" by (induction fl) auto
  ultimately have d: "distinct (map (\<lambda>(_, req, _). req) ?F)"
    using distinct_map [of "Pair k" "map (\<lambda>(_, req, _). req) ?F"] by metis
  have "set (map (\<lambda>(_, req, _). req) ?F) \<subseteq> fst ` set (live now k s)" using o by (force simp: in_order_def)
  then have "card (set (map (\<lambda>(_, req, _). req) ?F)) \<le> card (fst ` set (live now k s))" by (rule card_mono [rotated]) simp
  also have "\<dots> \<le> length (live now k s)" by (metis card_length length_map list.set_map)
  finally have "length ?F \<le> length (live now k s)" using distinct_card [OF d] by simp
  then show ?thesis using o unfolding in_order_def by (meson of_nat_mono order_trans)
qed

end

subsection \<open>The scripts keep the contract\<close>

text \<open>A slot that is not yet too old is on a key that has not expired.\<close>

definition redis_ok :: "int \<Rightarrow> rtime \<Rightarrow> redis \<Rightarrow> bool" where
  "redis_ok ttl now r \<longleftrightarrow> (\<forall>k z expire. rd_zsets r k = Some (z, expire) \<longrightarrow> distinct (map fst z)
     \<and> (\<forall>m score. (m, score) \<in> set z \<longrightarrow> score \<le> TIME now \<and> (\<forall>x. TIME x - ttl < score \<longrightarrow> key_live x expire)))"

definition live_slots :: "int \<Rightarrow> rtime \<Rightarrow> gostring \<Rightarrow> redis \<Rightarrow> zset" where
  "live_slots ttl now k r = filter (\<lambda>(_, t). TIME now - ttl < t) (zmembers now k r)"

definition raw_slots :: "gostring \<Rightarrow> redis \<Rightarrow> zset" where
  "raw_slots k r = (case rd_zsets r k of Some (z, _) \<Rightarrow> z | None \<Rightarrow> [])"

lemma redis_ok_later: "redis_ok ttl now r \<Longrightarrow> now \<le> now' \<Longrightarrow> redis_ok ttl now' r"
  unfolding redis_ok_def TIME_def by (meson order_trans zdiv_mono1 zero_less_numeral)

lemma live_raw: "redis_ok ttl now0 r \<Longrightarrow> live_slots ttl now k r = filter (\<lambda>(_, t). TIME now - ttl < t) (raw_slots k r)"
proof (cases "rd_zsets r k")
  case (Some a)
  assume ok: "redis_ok ttl now0 r"
  obtain z e where a: "a = (z, e)" by (cases a)
  have "filter (\<lambda>(_, t). TIME now - ttl < t) z = []" if "\<not> key_live now e"
    using ok Some that unfolding redis_ok_def a filter_empty_conv by fast
  then show ?thesis by (simp add: live_slots_def raw_slots_def zmembers_def Some a)
qed (simp add: live_slots_def raw_slots_def zmembers_def)

lemma zmembers_put [simp]: "zmembers now k' (put_zset now k z r) = (if k' = k then z else zmembers now k' r)"
  by (auto simp: zmembers_def put_zset_def key_live_def split: option.splits)

lemma zmembers_expire [simp]: "0 \<le> ttl \<Longrightarrow> zmembers now k' (ZEXPIRE now k ttl r) = zmembers now k' r"
  by (auto simp: zmembers_def ZEXPIRE_def key_live_def split: option.splits)

lemma zmembers_ok:
  "redis_ok ttl now r \<Longrightarrow> distinct (map fst (zmembers now k r)) \<and> (\<forall>m score. (m, score) \<in> set (zmembers now k r) \<longrightarrow> score \<le> TIME now)"
  by (auto simp: redis_ok_def zmembers_def split: option.splits)

lemma redis_ok_put:
  assumes "redis_ok ttl now r" "set z \<subseteq> set (zmembers now k r)" "distinct (map fst z)"
  shows "redis_ok ttl now (put_zset now k z r)"
proof (cases "rd_zsets r k")
  case (Some a)
  then show ?thesis using assms by (cases a) (force simp: redis_ok_def put_zset_def zmembers_def split: if_splits)
qed (use assms in \<open>auto simp: redis_ok_def put_zset_def zmembers_def\<close>)

text \<open>Writing any slots of the present and setting the key's life to that of a new slot.\<close>

lemma redis_ok_renewed:
  assumes ok: "redis_ok ttl now r" and z: "distinct (map fst z)" "\<forall>m score. (m, score) \<in> set z \<longrightarrow> score \<le> TIME now"
  shows "redis_ok ttl now (ZEXPIRE now k ttl (put_zset now k z r))"
proof -
  have fresh: "key_live x (Some (now + 1000 * ttl))" if "TIME x - ttl < score" "score \<le> TIME now" for x score
    using that by (simp add: key_live_def TIME_def)
  have live: "case rd_zsets (put_zset now k z r) k of Some (_, e) \<Rightarrow> key_live now e | None \<Rightarrow> z = []"
    by (auto simp: put_zset_def key_live_def split: option.splits)
  show ?thesis
    using ok z fresh live unfolding redis_ok_def ZEXPIRE_def
    by (auto simp: put_zset_def split: option.splits if_splits)
qed

lemma live_put: "live_slots ttl now k' (put_zset now k z r) = (if k' = k then filter (\<lambda>(_, t). TIME now - ttl < t) z else live_slots ttl now k' r)"
  by (simp add: live_slots_def)

text \<open>Purging leaves exactly the live slots.\<close>

lemma purged:
  defines "p \<equiv> \<lambda>ttl now k r. ZREMRANGEBYSCORE now k (TIME now - ttl) r"
  shows "zmembers now k (p ttl now k r) = live_slots ttl now k r"
    and "live_slots ttl now k' (p ttl now k r) = live_slots ttl now k' r"
    and "redis_ok ttl now r \<Longrightarrow> redis_ok ttl now (p ttl now k r)"
proof -
  show "zmembers now k (p ttl now k r) = live_slots ttl now k r" by (simp add: p_def ZREMRANGEBYSCORE_def live_slots_def)
  show "live_slots ttl now k' (p ttl now k r) = live_slots ttl now k' r"
    by (simp add: p_def ZREMRANGEBYSCORE_def live_put) (simp add: live_slots_def)
  show "redis_ok ttl now (p ttl now k r)" if "redis_ok ttl now r"
    unfolding p_def ZREMRANGEBYSCORE_def
    by (rule redis_ok_put [OF that]) (use zmembers_ok [OF that, of k] in \<open>auto simp: distinct_map_filter\<close>)
qed

lemma acquire_granted:
  "fst (acquireScript now k m ttl req r) = 1 \<longleftrightarrow> req \<in> fst ` set (live_slots ttl now k r) \<or> int (length (live_slots ttl now k r)) < m"
  by (simp add: acquireScript_def Let_def ZSCORE_def ZCARD_def purged(1) map_of_eq_None_iff)

lemma acquire_keeps:
  assumes ok: "redis_ok ttl now r" and ttl: "0 < ttl"
  shows "redis_ok ttl now (snd (acquireScript now k m ttl req r))"
    and "live_slots ttl now k' (snd (acquireScript now k m ttl req r)) =
      (if fst (acquireScript now k m ttl req r) = 1 \<and> k' = k then filter (\<lambda>(n, _). n \<noteq> req) (live_slots ttl now k r) @ [(req, TIME now)]
       else live_slots ttl now k' r)"
proof -
  let ?r = "ZREMRANGEBYSCORE now k (TIME now - ttl) r"
  let ?z = "filter (\<lambda>(n, _). n \<noteq> req) (live_slots ttl now k r) @ [(req, TIME now)]"
  have ok': "redis_ok ttl now ?r" by (rule purged(3) [OF ok])
  have z: "distinct (map fst ?z)" "\<forall>m score. (m, score) \<in> set ?z \<longrightarrow> score \<le> TIME now"
    using zmembers_ok [OF ok, of k] by (auto simp: live_slots_def distinct_map_filter)
  have t: "ZEXPIRE now k ttl (ZADD now k (TIME now) req ?r) = ZEXPIRE now k ttl (put_zset now k ?z ?r)"
    by (simp add: ZADD_def purged(1))
  have e: "snd (acquireScript now k m ttl req r) =
      (if fst (acquireScript now k m ttl req r) = 1 then ZEXPIRE now k ttl (put_zset now k ?z ?r) else ?r)"
    by (simp add: acquireScript_def Let_def t)
  show "redis_ok ttl now (snd (acquireScript now k m ttl req r))"
    unfolding e using redis_ok_renewed [OF ok' z] ok' by simp
  have l: "live_slots ttl now k' (ZEXPIRE now k ttl (put_zset now k ?z ?r)) = (if k' = k then ?z else live_slots ttl now k' r)"
  proof -
    have "live_slots ttl now k' (ZEXPIRE now k ttl (put_zset now k ?z ?r)) = live_slots ttl now k' (put_zset now k ?z ?r)"
      using ttl by (simp add: live_slots_def)
    moreover have "filter (\<lambda>(_, t). TIME now - ttl < t) ?z = ?z"
      by (rule filter_True) (use ttl in \<open>auto simp: live_slots_def\<close>)
    ultimately show ?thesis by (simp only: live_put purged(2))
  qed
  show "live_slots ttl now k' (snd (acquireScript now k m ttl req r)) =
      (if fst (acquireScript now k m ttl req r) = 1 \<and> k' = k then ?z else live_slots ttl now k' r)"
    unfolding e using l by (cases "k' = k") (simp_all add: purged(2))
qed

lemma release_keeps:
  assumes ok: "redis_ok ttl now r"
  shows "redis_ok ttl now (ZREM now k req r)"
    and "live_slots ttl now k' (ZREM now k req r) = (if k' = k then filter (\<lambda>(n, _). n \<noteq> req) (live_slots ttl now k r) else live_slots ttl now k' r)"
proof -
  show "redis_ok ttl now (ZREM now k req r)"
    unfolding ZREM_def by (rule redis_ok_put [OF ok]) (use zmembers_ok [OF ok, of k] in \<open>auto simp: distinct_map_filter\<close>)
  show "live_slots ttl now k' (ZREM now k req r) = (if k' = k then filter (\<lambda>(n, _). n \<noteq> req) (live_slots ttl now k r) else live_slots ttl now k' r)"
    by (simp add: ZREM_def live_put) (simp add: live_slots_def conj_commute case_prod_unfold)
qed

lemma live_slots_distinct: "redis_ok ttl now r \<Longrightarrow> distinct (map fst (live_slots ttl now k r))"
  by (simp add: live_slots_def distinct_map_filter zmembers_ok)

text \<open>For any life of a slot of at least a second.\<close>

interpretation slots: slot_pool "1 + int n" "redis_ok (1 + int n)" "live_slots (1 + int n)"
    "\<lambda>now k m req r. map_prod (\<lambda>g. g = 1) id (acquireScript now k m (1 + int n) req r)" ZREM for n
proof
  show "live_slots (1 + int n) now' k s = filter (\<lambda>(_, t). TIME now' - (1 + int n) < t) (live_slots (1 + int n) now k s)"
    if "redis_ok (1 + int n) now s" "now \<le> now'" for now s now' k
  proof -
    have "TIME now \<le> TIME now'" using that(2) by (simp add: TIME_def zdiv_mono1)
    then show ?thesis by (auto simp: live_raw [OF that(1)] intro!: filter_cong)
  qed
qed (auto simp: redis_ok_later acquire_granted acquire_keeps release_keeps live_slots_distinct)

subsection \<open>Requests in flight\<close>

fun slot_key :: "slot \<Rightarrow> gostring" where
  "slot_key (AccountSlot i _) = accountSlotKey i"
| "slot_key (UserSlot i _) = userSlotKey i"

fun slot_req :: "slot \<Rightarrow> gostring" where
  "slot_req (AccountSlot _ req) = req"
| "slot_req (UserSlot _ req) = req"

definition type_key :: "gostring \<Rightarrow> int64 \<Rightarrow> gostring" where
  "type_key slotType i = (if slotType = ''user'' then userSlotKey i else accountSlotKey i)"

definition slot_of :: "gostring \<Rightarrow> int64 \<Rightarrow> gostring \<Rightarrow> slot" where
  "slot_of slotType i req = (if slotType = ''user'' then UserSlot i req else AccountSlot i req)"

lemma slot_of_sel [simp]: "slot_key (slot_of slotType i req) = type_key slotType i" "slot_req (slot_of slotType i req) = req"
  by (simp_all add: slot_of_def type_key_def)

text \<open>The processes, each with the number it drew for its prefix, share one Redis; the slots of requests in flight.\<close>

record world =
  w_now :: rtime
  w_redis :: redis
  w_ids :: "nat \<Rightarrow> nat"
  w_flight :: "(slot \<times> int) list"

text \<open>The calls that count, clean up and keep the waiting counters.\<close>

inductive housekeeping :: "conc_call \<Rightarrow> redis \<Rightarrow> redis \<Rightarrow> bool" where
  "housekeeping c r (snd (cache_GetAccountConcurrency c i r))"
| "housekeeping c r (snd (cache_GetUserConcurrency c i r))"
| "housekeeping c r (snd (cache_GetAccountConcurrencyBatch c ids r))"
| "housekeeping c r (snd (cache_GetAccountsLoadBatch c items r))"
| "housekeeping c r (snd (cache_GetUsersLoadBatch c items r))"
| "housekeeping c r (snd (cache_CleanupExpiredAccountSlots c i r))"
| "housekeeping c r (snd (cache_IncrementWaitCount c i m r))"
| "housekeeping c r (snd (cache_DecrementWaitCount c i r))"
| "housekeeping c r (snd (cache_IncrementAccountWaitCount c i m r))"
| "housekeeping c r (snd (cache_DecrementAccountWaitCount c i r))"

inductive conc_step :: "conc_cache \<Rightarrow> (gostring \<Rightarrow> int) \<Rightarrow> world \<Rightarrow> world \<Rightarrow> bool" for q limit where
  tick: "w_now w \<le> t \<Longrightarrow> conc_step q limit w (w\<lparr>w_now := t\<rparr>)"
| enter: "cl_cache c = q \<Longrightarrow> cl_now c = w_now w \<Longrightarrow> w_ids w random + 1 < 2 ^ 64 \<Longrightarrow>
    acquire_of_type slotType (initRequestIDPrefix random) c i
      (limit (type_key slotType i)) \<lparr>cs_redis = w_redis w, cs_counter = w_ids w random\<rparr>
      = (res, s) \<Longrightarrow>
    conc_step q limit w (w\<lparr>w_redis := cs_redis s, w_ids := (w_ids w)(random := cs_counter s),
      w_flight := (case res of Inl _ \<Rightarrow> [] | Inr a \<Rightarrow> (case ar_Release a of None \<Rightarrow> [] | Some sl \<Rightarrow> [(sl, TIME (w_now w))])) @ w_flight w\<rparr>)"
| leave: "cl_cache c = q \<Longrightarrow> cl_now c = w_now w \<Longrightarrow> (sl, t) \<in> set (w_flight w) \<Longrightarrow>
    conc_step q limit w (w\<lparr>w_redis := cs_redis (cs_release c (Some sl) \<lparr>cs_redis = w_redis w, cs_counter = 0\<rparr>),
      w_flight := remove1 (sl, t) (w_flight w)\<rparr>)"
| other: "cl_cache c = q \<Longrightarrow> cl_now c = w_now w \<Longrightarrow> housekeeping c (w_redis w) r \<Longrightarrow> conc_step q limit w (w\<lparr>w_redis := r\<rparr>)"

definition flights :: "world \<Rightarrow> flight list" where
  "flights w = map (\<lambda>(sl, t). (slot_key sl, slot_req sl, t)) (w_flight w)"

text \<open>The ids of requests in flight were drawn before.\<close>

definition ids_ok :: "(nat \<Rightarrow> nat) \<Rightarrow> (slot \<times> int) list \<Rightarrow> bool" where
  "ids_ok ids fl \<longleftrightarrow> (\<forall>sl t. (sl, t) \<in> set fl \<longrightarrow> (\<exists>random m. slot_req sl = request_id random m \<and> m \<le> ids random))"

lemma ids_ok_mono: "ids_ok ids fl \<Longrightarrow> (\<And>random. ids random \<le> ids' random) \<Longrightarrow> set fl' \<subseteq> set fl \<Longrightarrow> ids_ok ids' fl'"
  unfolding ids_ok_def by (meson order_trans subsetD)

lemma ids_ok_Cons:
  "ids_ok ids ((sl, t) # fl) \<longleftrightarrow> (\<exists>random m. slot_req sl = request_id random m \<and> m \<le> ids random) \<and> ids_ok ids fl"
  by (auto simp: ids_ok_def)

lemma map_remove1_distinct: "distinct (map f xs) \<Longrightarrow> x \<in> set xs \<Longrightarrow> map f (remove1 x xs) = remove1 (f x) (map f xs)"
  by (induction xs) (auto, metis imageI)

definition world_ok :: "nat \<Rightarrow> (gostring \<Rightarrow> int) \<Rightarrow> world \<Rightarrow> bool" where
  "world_ok n limit w \<longleftrightarrow> slots.in_order n limit (w_now w) (flights w) (w_redis w) \<and> ids_ok (w_ids w) (w_flight w)"

text \<open>Keeping the slots: sound as before, and every key has the live slots it had.\<close>

definition same_slots :: "int \<Rightarrow> rtime \<Rightarrow> redis \<Rightarrow> redis \<Rightarrow> bool" where
  "same_slots ttl now r r' \<longleftrightarrow> (redis_ok ttl now r \<longrightarrow> redis_ok ttl now r' \<and> (\<forall>k. live_slots ttl now k r' = live_slots ttl now k r))"

lemma same_slots_refl [simp]: "same_slots ttl now r r"
  by (simp add: same_slots_def)

lemma same_slots_trans: "same_slots ttl now r r1 \<Longrightarrow> same_slots ttl now r1 r2 \<Longrightarrow> same_slots ttl now r r2"
  by (simp add: same_slots_def)

lemma same_slots_purge: "cq_slotTTLSeconds (cl_cache c) = ttl \<Longrightarrow> same_slots ttl (cl_now c) r (purge c k r)"
  by (auto simp: same_slots_def purge_def purged(2,3))

lemma same_slots_counts: "rd_zsets r' = rd_zsets r \<Longrightarrow> same_slots ttl now r r'"
  by (simp add: same_slots_def redis_ok_def live_slots_def zmembers_def)

lemma counter_zsets [simp]:
  "rd_zsets (add_counter now k d r) = rd_zsets r" "rd_zsets (expire_counter now k ttl r) = rd_zsets r"
  by (simp_all add: add_counter_def expire_counter_def split: option.split)

lemma same_slots_fault: "(\<And>r. same_slots ttl now r (snd (f r))) \<Longrightarrow> same_slots ttl now r (snd (with_fault fo f r))"
  by (cases fo) (simp_all add: with_fault_def case_prod_beta)

lemma same_slots_fold:
  "(\<And>x m r. same_slots ttl now r (snd (f x (m, r)))) \<Longrightarrow> same_slots ttl now r (snd (fold f xs (m, r)))"
proof (induction xs arbitrary: m r)
  case (Cons x xs)
  obtain m' r' where f: "f x (m, r) = (m', r')" by (cases "f x (m, r)")
  then show ?case using Cons.prems [of r x m] Cons.IH [OF Cons.prems, of r' m'] by (auto intro: same_slots_trans)
qed simp

lemma same_slots_cleanup:
  assumes "0 < ttl"
  shows "same_slots ttl now r (snd (cleanupExpiredSlotsScript now k ttl r))"
proof -
  let ?z = "live_slots ttl now k r" and ?r = "ZREMRANGEBYSCORE now k (TIME now - ttl) r"
  have r: "?r = put_zset now k ?z r" by (simp add: ZREMRANGEBYSCORE_def live_slots_def)
  have gone: "redis_ok ttl now (?r\<lparr>rd_zsets := (rd_zsets ?r)(k := None)\<rparr>)" if "redis_ok ttl now r"
    using purged(3) [OF that, of k] by (simp add: redis_ok_def)
  have empty: "live_slots ttl now k' (?r\<lparr>rd_zsets := (rd_zsets ?r)(k := None)\<rparr>) = live_slots ttl now k' r"
    if "zmembers now k ?r = []" for k'
  proof (cases "k' = k")
    case True
    then show ?thesis using that purged(1) [of now k ttl r] by (simp add: live_slots_def zmembers_def)
  next
    case False
    then show ?thesis using purged(2) [of ttl now k' k r] by (simp add: live_slots_def zmembers_def)
  qed
  have renew: "redis_ok ttl now (ZEXPIRE now k ttl ?r)" if "redis_ok ttl now r"
    unfolding r by (rule redis_ok_renewed [OF that])
      (use zmembers_ok [OF that, of k] in \<open>auto simp: live_slots_def distinct_map_filter\<close>)
  have "live_slots ttl now k' (ZEXPIRE now k ttl ?r) = live_slots ttl now k' r" for k'
    using purged(2) [of ttl now k' k r] assms by (simp add: live_slots_def)
  then show ?thesis using gone empty renew by (simp add: same_slots_def cleanupExpiredSlotsScript_def Let_def ZCARD_def)
qed

lemma housekeeping_same:
  assumes "housekeeping c r r'" "cq_slotTTLSeconds (cl_cache c) = ttl" "0 < ttl"
  shows "same_slots ttl (cl_now c) r r'"
proof -
  have wait: "same_slots ttl (cl_now c) r (snd (incrementWaitScript (cl_now c) k m n r))"
    "same_slots ttl (cl_now c) r (snd (decrementWaitScript (cl_now c) k r))" for r k m n
    by (auto intro!: same_slots_counts simp: incrementWaitScript_def decrementWaitScript_def Let_def split: option.split)
  have n: "same_slots ttl (cl_now c) r (snd (getCountScript (cl_now c) k ttl r))" for r k
    by (auto simp: getCountScript_def Let_def same_slots_def purged(2,3))
  have clean: "same_slots ttl (cl_now c) r (snd (cleanupExpiredSlotsScript (cl_now c) k ttl r))" for r k
    by (rule same_slots_cleanup [OF assms(3)])
  have batch: "same_slots ttl (cl_now c) r (snd (load_batch sk wk c items r))" for sk wk items r
    by (auto simp: load_batch_def Let_def intro!: same_slots_fault same_slots_fold same_slots_purge [OF assms(2)] split: prod.split)
  have flag: "same_slots ttl (cl_now c) r (snd (run_flag fo script r))" if "\<And>r. same_slots ttl (cl_now c) r (snd (script r))" for fo script r
    unfolding run_flag_def by (rule same_slots_fault) (use that in \<open>auto split: prod.split simp: prod.case_eq_if\<close>)
  from assms(1) show ?thesis
    by cases (auto simp: cache_GetAccountConcurrency_def cache_GetUserConcurrency_def cache_GetAccountConcurrencyBatch_def
        cache_GetAccountsLoadBatch_def cache_GetUsersLoadBatch_def cache_CleanupExpiredAccountSlots_def cache_IncrementWaitCount_def
        cache_DecrementWaitCount_def cache_IncrementAccountWaitCount_def cache_DecrementAccountWaitCount_def assms(2) Let_def
      intro!: same_slots_fault same_slots_fold same_slots_purge flag wait n clean batch)
qed

subsection \<open>The limit holds\<close>

text \<open>Acquiring for an account and for a user are the same but for the key and the release function.\<close>

lemma acquire_of_type_eq:
  "acquire_of_type slotType pre c i m s =
     (if m \<le> 0 then (Inr \<lparr>ar_Acquired = True, ar_Release = None\<rparr>, s)
      else case generateRequestID pre s of (req, s1) \<Rightarrow>
        and_then (on_redis (run_flag (cl_fault c) (acquireScript (cl_now c) (type_key slotType i) m
            (cq_slotTTLSeconds (cl_cache c)) req)) s1) (\<lambda>acquired s2.
          (Inr (if acquired then \<lparr>ar_Acquired = True, ar_Release = Some (slot_of slotType i req)\<rparr>
                else \<lparr>ar_Acquired = False, ar_Release = None\<rparr>), s2)))"
  by (cases "slotType = ''user''") (simp_all add: acquire_of_type_def type_key_def slot_of_def cs_AcquireUserSlot_def cs_AcquireAccountSlot_def
      cache_AcquireUserSlot_def cache_AcquireAccountSlot_def split: prod.split cong: if_cong)

lemma acquire_of_type_cases:
  assumes a: "acquire_of_type slotType (initRequestIDPrefix random) c i m s = (res, s')" and w: "cs_counter s + 1 < 2 ^ 64"
  defines "k \<equiv> (type_key slotType i)" and "req \<equiv> request_id random (cs_counter s + 1)"
  defines "q \<equiv> acquireScript (cl_now c) k m (cq_slotTTLSeconds (cl_cache c)) req (cs_redis s)"
  shows "(s' = s \<and> (\<exists>a. res = Inr a \<and> ar_Release a = None))
    \<or> cs_counter s' = cs_counter s + 1 \<and> (cs_redis s' = cs_redis s \<or> cs_redis s' = snd q)
      \<and> (\<forall>a sl. res = Inr a \<and> ar_Release a = Some sl \<longrightarrow> slot_key sl = k \<and> slot_req sl = req \<and> fst q = 1 \<and> cs_redis s' = snd q)"
proof (cases "m \<le> 0")
  case True
  then show ?thesis using a by (auto simp: acquire_of_type_eq)
next
  case False
  obtain n r where q: "q = (n, r)" by (cases q)
  have "(res, s') = and_then (on_redis (run_flag (cl_fault c) (acquireScript (cl_now c) k m (cq_slotTTLSeconds (cl_cache c)) req))
        (s\<lparr>cs_counter := cs_counter s + 1\<rparr>)) (\<lambda>acquired s2.
          (Inr (if acquired then \<lparr>ar_Acquired = True, ar_Release = Some (slot_of slotType i req)\<rparr>
                else \<lparr>ar_Acquired = False, ar_Release = None\<rparr>), s2))"
    using a False unfolding acquire_of_type_eq generated_id [OF w] k_def req_def by (simp only: if_False prod.case)
  then show ?thesis
    using q unfolding q_def k_def
    by (cases "cl_fault c"; cases "n = 1") (simp_all add: and_then_def on_redis_def run_flag_def with_fault_def)
qed

lemma enter_ok:
  assumes ok: "world_ok n limit w" and c: "cq_slotTTLSeconds (cl_cache c) = 1 + int n" "cl_now c = w_now w" and wrap: "w_ids w random + 1 < 2 ^ 64"
    and acq: "acquire_of_type slotType (initRequestIDPrefix random) c i
      (limit (type_key slotType i)) \<lparr>cs_redis = w_redis w, cs_counter = w_ids w random\<rparr> = (res, s)"
  shows "world_ok n limit (w\<lparr>w_redis := cs_redis s, w_ids := (w_ids w)(random := cs_counter s),
      w_flight := (case res of Inl _ \<Rightarrow> [] | Inr a \<Rightarrow> (case ar_Release a of None \<Rightarrow> [] | Some sl \<Rightarrow> [(sl, TIME (w_now w))])) @ w_flight w\<rparr>)"
proof -
  define k where "k = (type_key slotType i)"
  define req where "req = request_id random (w_ids w random + 1)"
  define new where "new = (case res of Inl _ \<Rightarrow> [] | Inr a \<Rightarrow> (case ar_Release a of None \<Rightarrow> [] | Some sl \<Rightarrow> [(sl, TIME (w_now w))]))"
  let ?a = "acquireScript (w_now w) k (limit k) (1 + int n) req (w_redis w)"
  have "s = \<lparr>cs_redis = w_redis w, cs_counter = w_ids w random\<rparr> \<and> new = []
    \<or> cs_counter s = w_ids w random + 1 \<and> (cs_redis s = w_redis w \<and> new = [] \<or> cs_redis s = snd ?a \<and> new = []
      \<or> (\<exists>sl. new = [(sl, TIME (w_now w))] \<and> slot_key sl = k \<and> slot_req sl = req \<and> fst ?a = 1 \<and> cs_redis s = snd ?a))"
    using acquire_of_type_cases [OF acq] wrap c by (auto simp: k_def req_def new_def split: sum.split option.split)
  then consider "s = \<lparr>cs_redis = w_redis w, cs_counter = w_ids w random\<rparr>" "new = []"
    | "cs_counter s = w_ids w random + 1" "cs_redis s = w_redis w \<or> cs_redis s = snd ?a" "new = []"
    | sl where "cs_counter s = w_ids w random + 1" "new = [(sl, TIME (w_now w))]" "slot_key sl = k" "slot_req sl = req" "fst ?a = 1" "cs_redis s = snd ?a"
    by blast
  note cases = this
  have o: "slots.in_order n limit (w_now w) (flights w) (w_redis w)" using ok by (simp add: world_ok_def)
  have fresh: "(k, req) \<notin> flight_id ` set (flights w)"
  proof
    assume "(k, req) \<in> flight_id ` set (flights w)"
    then obtain sl t where "(sl, t) \<in> set (w_flight w)" "slot_req sl = req" by (force simp: flights_def)
    then obtain random' m where "req = request_id random' m" "m \<le> w_ids w random'" using ok unfolding world_ok_def ids_ok_def by metis
    then show False using request_id_inj by (fastforce simp: req_def)
  qed
  note a = slots.in_order_acquire [OF o fresh]
  have ids: "ids_ok ((w_ids w)(random := cs_counter s)) (w_flight w)" if "w_ids w random \<le> cs_counter s"
    using ok that by (auto simp: world_ok_def intro: ids_ok_mono)
  have "world_ok n limit (w\<lparr>w_redis := cs_redis s, w_ids := (w_ids w)(random := cs_counter s), w_flight := new @ w_flight w\<rparr>)"
    using cases
  proof cases
    case 1
    then show ?thesis using ok by simp
  next
    case 2
    then show ?thesis using o a(1) ids by (auto simp: world_ok_def flights_def)
  next
    case 3
    then have "slots.in_order n limit (w_now w) ((k, req, TIME (w_now w)) # flights w) (cs_redis s)" using a(2) by simp
    moreover have "ids_ok ((w_ids w)(random := cs_counter s)) ((sl, TIME (w_now w)) # w_flight w)"
      unfolding ids_ok_Cons using ids 3(1,4)
      by (intro conjI exI [where x = random] exI [where x = "w_ids w random + 1"]) (simp_all add: req_def)
    ultimately show ?thesis using 3 by (simp add: world_ok_def flights_def)
  qed
  then show ?thesis by (simp add: new_def)
qed

lemma leave_ok:
  assumes ok: "world_ok n limit w" and c: "cl_now c = w_now w" and m: "(sl, t) \<in> set (w_flight w)"
  shows "world_ok n limit (w\<lparr>w_redis := cs_redis (cs_release c (Some sl) \<lparr>cs_redis = w_redis w, cs_counter = 0\<rparr>),
      w_flight := remove1 (sl, t) (w_flight w)\<rparr>)"
proof -
  let ?f = "\<lambda>(sl, t). (slot_key sl, slot_req sl, t)"
  have o: "slots.in_order n limit (w_now w) (flights w) (w_redis w)" using ok by (simp add: world_ok_def)
  have "distinct (map ?f (w_flight w))"
    using o distinct_map [of flight_id "map ?f (w_flight w)"] by (simp only: slots.in_order_def flights_def)
  then have "map ?f (remove1 (sl, t) (w_flight w)) = remove1 (?f (sl, t)) (map ?f (w_flight w))"
    using m by (rule map_remove1_distinct)
  then have rest: "flights (w\<lparr>w_redis := r, w_flight := remove1 (sl, t) (w_flight w)\<rparr>) = remove1 (slot_key sl, slot_req sl, t) (flights w)" for r
    by (simp add: flights_def)
  have "(slot_key sl, slot_req sl, t) \<in> set (flights w)" using m by (force simp: flights_def)
  note r = slots.in_order_release [OF o this]
  define r' where "r' = cs_redis (cs_release c (Some sl) \<lparr>cs_redis = w_redis w, cs_counter = 0\<rparr>)"
  have "r' \<in> {w_redis w, ZREM (w_now w) (slot_key sl) (slot_req sl) (w_redis w)}"
    using c by (cases sl; cases "cl_fault c")
      (simp_all add: r'_def cs_release_def on_redis_def cache_ReleaseAccountSlot_def cache_ReleaseUserSlot_def with_fault_def)
  then have "slots.in_order n limit (w_now w) (remove1 (slot_key sl, slot_req sl, t) (flights w)) r'" using r by blast
  moreover have "ids_ok (w_ids w) (remove1 (sl, t) (w_flight w))"
    using ok set_remove1_subset [of "(sl, t)" "w_flight w"] unfolding world_ok_def by (blast intro: ids_ok_mono)
  ultimately show ?thesis unfolding r'_def [symmetric] by (simp add: world_ok_def rest)
qed

lemma step_ok:
  assumes "world_ok n limit w" "conc_step q limit w w'" "cq_slotTTLSeconds q = 1 + int n"
  shows "world_ok n limit w'"
  using assms(2,1)
proof cases
  case (tick t)
  then show ?thesis using assms(1) by (auto simp: world_ok_def flights_def intro: slots.in_order_later)
next
  case (enter c random slotType i res s)
  then show ?thesis using enter_ok [OF assms(1), of c random slotType i res s] assms(3) by simp
next
  case (leave c sl t)
  then show ?thesis using leave_ok [OF assms(1), of c sl t] by simp
next
  case (other c r)
  then have "same_slots (1 + int n) (w_now w) (w_redis w) r" using housekeeping_same [of c "w_redis w" r "1 + int n"] assms(3) by simp
  then have "redis_ok (1 + int n) (w_now w) r" "\<And>k. live_slots (1 + int n) (w_now w) k r = live_slots (1 + int n) (w_now w) k (w_redis w)"
    using assms(1) by (auto simp: world_ok_def same_slots_def slots.in_order_def)
  then have "slots.in_order n limit (w_now w) (flights w) r"
    using assms(1) slots.in_order_same [of n limit "w_now w" "flights w" "w_redis w" r] unfolding world_ok_def by metis
  then show ?thesis using assms(1) other by (simp add: world_ok_def flights_def)
qed

definition idle_world :: "rtime \<Rightarrow> world" where
  "idle_world t = \<lparr>w_now = t, w_redis = empty_redis, w_ids = (\<lambda>_. 0), w_flight = []\<rparr>"

lemma idle_ok: "world_ok n limit (idle_world t)"
  by (simp add: world_ok_def idle_world_def flights_def ids_ok_def slots.in_order_def redis_ok_def empty_redis_def live_slots_def
      zmembers_def)


text \<open>Two processes want account 7, whose limit is one, and only the first enters.\<close>

definition demo_cache :: conc_cache where "demo_cache = NewConcurrencyCache 15 0"

definition demo_call :: "rtime \<Rightarrow> conc_call" where
  "demo_call t = \<lparr>cl_cache = demo_cache, cl_now = t, cl_fault = NoFault\<rparr>"

definition demo_enter :: "nat \<Rightarrow> world \<Rightarrow> world" where
  "demo_enter random w =
     (case acquire_of_type ''account'' (initRequestIDPrefix random) (demo_call (w_now w)) 7 1
             \<lparr>cs_redis = w_redis w, cs_counter = w_ids w random\<rparr> of
        (res, s) \<Rightarrow> w\<lparr>w_redis := cs_redis s, w_ids := (w_ids w)(random := cs_counter s),
          w_flight := (case res of Inl _ \<Rightarrow> [] | Inr a \<Rightarrow> (case ar_Release a of None \<Rightarrow> [] | Some sl \<Rightarrow> [(sl, TIME (w_now w))])) @ w_flight w\<rparr>)"

lemma demo_enter_step:
  assumes "w_ids w random + 1 < 2 ^ 64"
  shows "conc_step demo_cache (\<lambda>_. 1) w (demo_enter random w)"
proof -
  obtain res s where a: "acquire_of_type ''account'' (initRequestIDPrefix random) (demo_call (w_now w)) 7 1
      \<lparr>cs_redis = w_redis w, cs_counter = w_ids w random\<rparr> = (res, s)" by (meson surj_pair)
  show ?thesis
    using conc_step.enter [where c = "demo_call (w_now w)" and q = demo_cache and limit = "\<lambda>_. 1" and slotType = "''account''" and i = 7, OF _ _ assms a]
    unfolding demo_enter_def a by (simp add: demo_call_def)
qed

lemma demo_cache_ttl [simp]: "cq_slotTTLSeconds demo_cache = 900"
  by (simp add: demo_cache_def NewConcurrencyCache_def defaultSlotTTLMinutes_def Let_def)

definition one_slot :: "gostring \<Rightarrow> redis" where
  "one_slot req = empty_redis\<lparr>rd_zsets := (\<lambda>_. None)(accountSlotKey 7 \<mapsto> ([(req, 5)], Some 905000))\<rparr>"

lemmas script_defs = acquireScript_def Let_def ZREMRANGEBYSCORE_def put_zset_def zmembers_def ZSCORE_def ZADD_def ZEXPIRE_def ZCARD_def
  key_live_def TIME_def empty_redis_def one_slot_def

lemma demo_scripts:
  "acquireScript 5000 (accountSlotKey 7) 1 900 req empty_redis = (1, one_slot req)"
  "req' \<noteq> req \<Longrightarrow> acquireScript 5000 (accountSlotKey 7) 1 900 req' (one_slot req) = (0, one_slot req)"
  by (simp_all add: script_defs)

lemma demo_first:
  "demo_enter 35 (idle_world 5000) = \<lparr>w_now = 5000, w_redis = one_slot (request_id 35 1), w_ids = (\<lambda>_. 0)(35 := 1),
     w_flight = [(AccountSlot 7 (request_id 35 1), 5)]\<rparr>"
  by (simp add: demo_enter_def acquire_of_type_eq generated_id demo_call_def and_then_def on_redis_def run_flag_def demo_scripts
      type_key_def slot_of_def idle_world_def TIME_def)

lemma demo_second: "w_flight (demo_enter 36 (demo_enter 35 (idle_world 5000))) = [(AccountSlot 7 (request_id 35 1), 5)]"
proof -
  have "request_id 36 1 \<noteq> request_id 35 1" using request_id_inj by fastforce
  from demo_scripts(2) [OF this] show ?thesis
    unfolding demo_first by (simp add: demo_enter_def acquire_of_type_eq generated_id demo_call_def and_then_def on_redis_def run_flag_def
        type_key_def)
qed


subsection \<open>Starting another process\<close>

lemma cleanup_key_members:
  assumes "0 < ttl"
  shows "zmembers now k' (cleanup_key now p ttl k r) =
    (if k' = k then filter (\<lambda>(m, _). take (length p) m = p) (zmembers now k r) else zmembers now k' r)"
  using assms by (auto simp: cleanup_key_def Let_def ZCARD_def zmembers_def [of now k' "_\<lparr>rd_zsets := _\<rparr>"] split: option.split)
    (auto simp: zmembers_def put_zset_def split: option.splits)

definition only_of :: "gostring \<Rightarrow> zset \<Rightarrow> bool" where
  "only_of p z \<longleftrightarrow> (\<forall>m score. (m, score) \<in> set z \<longrightarrow> take (length p) m = p)"

lemma fold_members:
  assumes "\<And>x r. set (zmembers now k (f x r)) \<subseteq> set (zmembers now k r)"
    and "\<And>x r. P x \<Longrightarrow> only_of p (zmembers now k (f x r))"
  shows "set (zmembers now k (fold f xs r)) \<subseteq> set (zmembers now k r)
    \<and> ((\<exists>x \<in> set xs. P x) \<or> only_of p (zmembers now k r) \<longrightarrow> only_of p (zmembers now k (fold f xs r)))"
proof (induction xs arbitrary: r)
  case (Cons x xs)
  have "only_of p (zmembers now k r) \<Longrightarrow> only_of p (zmembers now k (f x r))" using assms(1) unfolding only_of_def by blast
  then show ?case using Cons [of "f x r"] assms by simp blast
qed simp

lemma startup_members:
  assumes "0 < ttl"
  shows "set (zmembers now k (startupCleanupScript now keys p ttl r)) \<subseteq> set (zmembers now k r)
    \<and> (k \<in> set keys \<longrightarrow> only_of p (zmembers now k (startupCleanupScript now keys p ttl r)))"
proof -
  have "set (zmembers now k (cleanup_key now p ttl a r)) \<subseteq> set (zmembers now k r)"
    "a = k \<Longrightarrow> only_of p (zmembers now k (cleanup_key now p ttl a r))" for a r
    using assms by (auto simp: cleanup_key_members only_of_def)
  from fold_members [where P = "\<lambda>a. a = k", OF this, where xs = keys and r = r] show ?thesis
    by (simp add: startupCleanupScript_def)
qed

lemma scan_members:
  assumes "0 < cq_slotTTLSeconds (cl_cache c)"
  shows "set (zmembers (cl_now c) k (snd (cleanupSlotsByPattern c ks p r))) \<subseteq> set (zmembers (cl_now c) k r)
    \<and> (k \<in> set (concat (ks_batches ks)) \<longrightarrow> only_of p (zmembers (cl_now c) k (snd (cleanupSlotsByPattern c ks p r))))"
proof -
  let ?f = "\<lambda>keys. startupCleanupScript (cl_now c) keys p (cq_slotTTLSeconds (cl_cache c))"
  have "set (zmembers (cl_now c) k (?f b r)) \<subseteq> set (zmembers (cl_now c) k r)" "k \<in> set b \<Longrightarrow> only_of p (zmembers (cl_now c) k (?f b r))" for b r
    using startup_members [OF assms] by blast+
  from fold_members [where P = "\<lambda>b. k \<in> set b", OF this, where xs = "ks_batches ks" and r = r] show ?thesis
    by (simp add: cleanupSlotsByPattern_def)
qed

text \<open>
  C36: A new process forgets the running ones. Cleaning up with the prefix of a process that starts removes every slot other
  processes hold: however many of their requests run on an account, the next one is let in, for any limit that lets one in.
\<close>

theorem startup_cleanup_drops_running_slots:
  assumes "NewConcurrencyCache minutes waitSeconds = cl_cache c" "own \<noteq> []" "\<And>p r. ks_error (scan p r) = None"
    and "accountSlotKey i \<in> set (concat (ks_batches (scan accountSlotKeyPrefix r)))"
    and "\<forall>m score. (m, score) \<in> set (zmembers (cl_now c) (accountSlotKey i) r) \<longrightarrow> take (length own) m \<noteq> own"
    and "cl_fault c = NoFault" "0 < limit"
  shows "\<exists>r'. cache_CleanupStaleProcessSlots c scan own r = (Inr (), r')
    \<and> fst (cache_AcquireAccountSlot c i limit req r') = Inr True"
proof -
  let ?k = "accountSlotKey i" and ?now = "cl_now c" and ?ttl = "cq_slotTTLSeconds (cl_cache c)"
  have ttl: "0 < ?ttl" unfolding assms(1) [symmetric] by (simp add: NewConcurrencyCache_def defaultSlotTTLMinutes_def Let_def)
  define r1 where "r1 = snd (cleanupSlotsByPattern c (scan accountSlotKeyPrefix r) own r)"
  define r2 where "r2 = snd (cleanupSlotsByPattern c (scan userSlotKeyPrefix r1) own r1)"
  define r3 where "r3 = snd (deleteKeysByPattern (scan accountWaitKeyPrefix r2) r2)"
  define r4 where "r4 = snd (deleteKeysByPattern (scan waitQueueKeyPrefix r3) r3)"
  have ok: "fst (cleanupSlotsByPattern c (scan p r') q r'') = Inr ()" "fst (deleteKeysByPattern (scan p r') r'') = Inr ()" for p q r' r''
    using assms(3) by (simp_all add: cleanupSlotsByPattern_def deleteKeysByPattern_def)
  have pair: "fst x = Inr () \<Longrightarrow> and_then x g = g () (snd x)" for x :: "unit result \<times> redis" and g :: "unit \<Rightarrow> redis \<Rightarrow> unit result \<times> redis"
    by (cases x) (simp add: and_then_def)
  have run: "cache_CleanupStaleProcessSlots c scan own r = (Inr (), r4)"
    using assms(2) by (simp add: cache_CleanupStaleProcessSlots_def pair ok r1_def r2_def r3_def r4_def prod_eq_iff)
  have "set (zmembers ?now ?k r1) \<subseteq> set (zmembers ?now ?k r)" "only_of own (zmembers ?now ?k r1)"
    using scan_members [OF ttl, of ?k "scan accountSlotKeyPrefix r" own r] assms(4) by (simp_all add: r1_def)
  then have "set (zmembers ?now ?k r1) = {}" using assms(5) unfolding only_of_def
    by (metis equals0I subsetD surj_pair)
  then have "set (zmembers ?now ?k r2) = {}"
    using scan_members [OF ttl, of ?k "scan userSlotKeyPrefix r1" own r1] by (simp add: r2_def)
  moreover have "zmembers ?now ?k r4 = zmembers ?now ?k r2" by (simp add: r3_def r4_def deleteKeysByPattern_def zmembers_def)
  ultimately have "fst (acquireScript ?now ?k limit ?ttl req r4) = 1"
    using assms(7) by (simp add: acquire_granted live_slots_def)
  then show ?thesis
    using run assms(6) by (auto simp: cache_AcquireAccountSlot_def run_flag_def split: prod.split)
qed

text \<open>Process 35 has account 7, whose limit is one, when process 36 starts and gets it too.\<close>

theorem startup_cleanup_drops_running_slots_witness:
  "\<exists>r'. cache_CleanupStaleProcessSlots (demo_call 5000) (\<lambda>p r. \<lparr>ks_batches = if p = accountSlotKeyPrefix then [[accountSlotKey 7]] else [], ks_error = None\<rparr>)
       (initRequestIDPrefix 36) (one_slot (request_id 35 1)) = (Inr (), r')
     \<and> fst (cache_AcquireAccountSlot (demo_call 5000) 7 1 (request_id 36 1) r') = Inr True"
proof (rule startup_cleanup_drops_running_slots)
  have p: "initRequestIDPrefix 36 = ''r10''" "request_id 35 1 = ''rz-1''"
    by (simp_all add: initRequestIDPrefix_def request_id_def base36.simps digits36_def)
  have "take (length (initRequestIDPrefix 36)) (request_id 35 1) \<noteq> initRequestIDPrefix 36" by (simp only: p) simp
  then show "\<forall>m score. (m, score) \<in> set (zmembers (cl_now (demo_call 5000)) (accountSlotKey 7) (one_slot (request_id 35 1)))
      \<longrightarrow> take (length (initRequestIDPrefix 36)) m \<noteq> initRequestIDPrefix 36"
    by (simp add: zmembers_def one_slot_def key_live_def demo_call_def)
qed (simp_all add: demo_call_def demo_cache_def initRequestIDPrefix_def)

subsection \<open>Waiting\<close>

lemma nextBackoff_bounds: "initialBackoff \<le> nextBackoff random b \<and> nextBackoff random b \<le> maxBackoff"
  by (simp add: nextBackoff_def Let_def initialBackoff_def maxBackoff_def Second_def)

lemma wait_loop_ends:
  "WDone \<in> set ws \<Longrightarrow> initialBackoff \<le> b \<Longrightarrow> b \<le> maxBackoff \<Longrightarrow>
    (\<exists>res. fst (fst (wait_loop slotType pre i m b ws started s)) = Some res
      \<and> (res = Inl (concurrency_error slotType True) \<or> (\<exists>w \<in> set ws. w \<noteq> WDone)))
    \<and> (\<forall>d \<in> set (snd (snd (fst (wait_loop slotType pre i m b ws started s)))). initialBackoff \<le> d \<and> d \<le> maxBackoff)
    \<and> length (snd (snd (fst (wait_loop slotType pre i m b ws started s)))) \<le> 1 + length (filter (\<lambda>w. \<exists>c x. w = WTimer c x) ws)"
proof (induction slotType pre i m b ws started s rule: wait_loop.induct)
  case (5 slotType pre i m b c x ws started s)
  obtain res s1 where a: "acquire_of_type slotType pre c i m s = (res, s1)" by (cases "acquire_of_type slotType pre c i m s")
  show ?case
  proof (cases res)
    case (Inr q)
    obtain r st bs s2 where l: "wait_loop slotType pre i m (nextBackoff x b) ws started s1 = ((r, st, bs), s2)"
      by (metis surj_pair)
    show ?thesis using 5 a Inr nextBackoff_bounds [of x b] l by (cases "ar_Acquired q") fastforce+
  qed (use 5 a in auto)
qed auto

end
