(* ===== verification/BillingGate.thy ===== *)
theory BillingGate
  imports UsageBilling Concurrency
begin

text \<open>
  The check every request passes before it is forwarded: \<open>internal/service/billing_cache_service.go\<close> with the Redis cache of
  \<open>internal/repository/billing_cache.go\<close>, the counters of \<open>internal/repository/user_rpm_cache.go\<close> and the reads of
  \<open>api_key_repo.go\<close> and \<open>user_group_rate_repo.go\<close> it falls back on.

  Writes to the cache are tasks in a queue, taken by ten workers, so a task may take effect before one queued earlier.
  A read of the database is a function of its tables. Logging is left out, and so is the merging of concurrent reads of one
  balance. \<open>gl_hinc\<close> is Redis' sum of two decimal texts, \<open>gl_tostring\<close> a number after Lua's \<open>tostring\<close> printed it.
\<close>

subsection \<open>The Redis cache\<close>

record sub_cache =
  sc_Status :: gostring
  sc_ExpiresAt :: time
  sc_DailyUsage :: f64
  sc_WeeklyUsage :: f64
  sc_MonthlyUsage :: f64
  sc_Version :: int

record rate_cache =
  rt_Usage5h :: f64
  rt_Usage1d :: f64
  rt_Usage7d :: f64
  rt_Window5h :: int
  rt_Window1d :: int
  rt_Window7d :: int

record gate_cache =
  gc_balance :: "int64 \<Rightarrow> (f64 \<times> time) option"
  gc_sub :: "int64 \<times> int64 \<Rightarrow> (sub_cache \<times> time) option"
  gc_rate :: "int64 \<Rightarrow> (rate_cache \<times> time) option"
  gc_rpm :: redis

record gate_lib =
  gl_hinc :: "f64 \<Rightarrow> f64 \<Rightarrow> f64"
  gl_tostring :: "f64 \<Rightarrow> f64"

definition billingCacheTTL :: duration where "billingCacheTTL = 5 * Minute"
definition billingCacheJitter :: duration where "billingCacheJitter = 30 * Second"
definition rateLimitCacheTTL :: duration where "rateLimitCacheTTL = 7 * 24 * Hour"

definition jitteredTTL :: "duration \<Rightarrow> duration" where
  "jitteredTTL jitter = (if billingCacheJitter \<le> 0 then billingCacheTTL else billingCacheTTL - jitter)"

text \<open>An entry with the time it expires; Redis takes whole seconds for \<open>EXPIRE\<close> and milliseconds for \<open>SET\<close>.\<close>

definition live_entry :: "time \<Rightarrow> ('a \<times> time) option \<Rightarrow> 'a option" where
  "live_entry now x = (case x of Some (v, expire) \<Rightarrow> if now \<le> expire then Some v else None | None \<Rightarrow> None)"

definition whole_seconds :: "time \<Rightarrow> time" where "whole_seconds t = t div Second * Second"
definition whole_millis :: "time \<Rightarrow> time" where "whole_millis t = t div 1000000 * 1000000"

definition redis_nil :: go_error where "redis_nil = EPlain ''redis: nil''"

definition entry_found :: "'a option \<Rightarrow> 'a result" where
  "entry_found x = (case x of Some v \<Rightarrow> Inr v | None \<Rightarrow> Inl redis_nil)"

definition cache_GetUserBalance :: "fault \<Rightarrow> time \<Rightarrow> int64 \<Rightarrow> gate_cache \<Rightarrow> f64 result" where
  "cache_GetUserBalance f now u c = read_fault f (entry_found (live_entry now (gc_balance c u)))"

definition cache_SetUserBalance ::
    "fault \<Rightarrow> time \<Rightarrow> duration \<Rightarrow> int64 \<Rightarrow> f64 \<Rightarrow> gate_cache \<Rightarrow> unit result \<times> gate_cache" where
  "cache_SetUserBalance f now jitter u balance = with_fault f (\<lambda>c.
     ((), c\<lparr>gc_balance := (gc_balance c)(u \<mapsto> (balance, now + whole_millis (jitteredTTL jitter)))\<rparr>))"

definition deductBalanceScript :: "time \<Rightarrow> duration \<Rightarrow> int64 \<Rightarrow> f64 \<Rightarrow> gate_cache \<Rightarrow> int \<times> gate_cache" where
  "deductBalanceScript now ttl u amount c = (case live_entry now (gc_balance c u) of
     None \<Rightarrow> (0, c)
   | Some current \<Rightarrow> (1, c\<lparr>gc_balance := (gc_balance c)(u \<mapsto> (fsub current amount, now + ttl))\<rparr>))"

definition cache_DeductUserBalance ::
    "fault \<Rightarrow> time \<Rightarrow> duration \<Rightarrow> int64 \<Rightarrow> f64 \<Rightarrow> gate_cache \<Rightarrow> unit result \<times> gate_cache" where
  "cache_DeductUserBalance f now jitter u amount = with_fault f (\<lambda>c.
     ((), snd (deductBalanceScript now (whole_seconds (jitteredTTL jitter)) u amount c)))"

definition cache_InvalidateUserBalance :: "fault \<Rightarrow> int64 \<Rightarrow> gate_cache \<Rightarrow> unit result \<times> gate_cache" where
  "cache_InvalidateUserBalance f u = with_fault f (\<lambda>c. ((), c\<lparr>gc_balance := (gc_balance c)(u := None)\<rparr>))"

definition parseSubscriptionCache :: "sub_cache \<Rightarrow> sub_cache result" where
  "parseSubscriptionCache d = (if sc_Status d = [] then Inl (EPlain ''invalid cache: missing status'') else Inr d)"

definition cache_GetSubscriptionCache :: "fault \<Rightarrow> time \<Rightarrow> int64 \<Rightarrow> int64 \<Rightarrow> gate_cache \<Rightarrow> sub_cache result" where
  "cache_GetSubscriptionCache f now u g c = read_fault f (case live_entry now (gc_sub c (u, g)) of
     None \<Rightarrow> Inl redis_nil | Some d \<Rightarrow> parseSubscriptionCache d)"

text \<open>The expiry of a subscription is kept in whole seconds.\<close>

definition cache_SetSubscriptionCache ::
    "fault \<Rightarrow> time \<Rightarrow> duration \<Rightarrow> int64 \<Rightarrow> int64 \<Rightarrow> sub_cache option \<Rightarrow> gate_cache \<Rightarrow> unit result \<times> gate_cache" where
  "cache_SetSubscriptionCache f now jitter u g data c = (case data of
     None \<Rightarrow> (Inr (), c)
   | Some d \<Rightarrow> with_fault f (\<lambda>c. ((), c\<lparr>gc_sub := (gc_sub c)((u, g) \<mapsto>
       (d\<lparr>sc_ExpiresAt := whole_seconds (sc_ExpiresAt d)\<rparr>, now + whole_seconds (jitteredTTL jitter)))\<rparr>)) c)"

definition updateSubUsageScript :: "gate_lib \<Rightarrow> time \<Rightarrow> duration \<Rightarrow> int64 \<Rightarrow> int64 \<Rightarrow> f64 \<Rightarrow> gate_cache \<Rightarrow> int \<times> gate_cache" where
  "updateSubUsageScript lib now ttl u g cost c = (case live_entry now (gc_sub c (u, g)) of
     None \<Rightarrow> (0, c)
   | Some d \<Rightarrow> (1, c\<lparr>gc_sub := (gc_sub c)((u, g) \<mapsto>
       (d\<lparr>sc_DailyUsage := gl_hinc lib (sc_DailyUsage d) cost, sc_WeeklyUsage := gl_hinc lib (sc_WeeklyUsage d) cost,
          sc_MonthlyUsage := gl_hinc lib (sc_MonthlyUsage d) cost\<rparr>, now + ttl))\<rparr>))"

definition cache_UpdateSubscriptionUsage ::
    "gate_lib \<Rightarrow> fault \<Rightarrow> time \<Rightarrow> duration \<Rightarrow> int64 \<Rightarrow> int64 \<Rightarrow> f64 \<Rightarrow> gate_cache \<Rightarrow> unit result \<times> gate_cache" where
  "cache_UpdateSubscriptionUsage lib f now jitter u g cost = with_fault f (\<lambda>c.
     ((), snd (updateSubUsageScript lib now (whole_seconds (jitteredTTL jitter)) u g cost c)))"

definition cache_InvalidateSubscriptionCache :: "fault \<Rightarrow> int64 \<Rightarrow> int64 \<Rightarrow> gate_cache \<Rightarrow> unit result \<times> gate_cache" where
  "cache_InvalidateSubscriptionCache f u g = with_fault f (\<lambda>c. ((), c\<lparr>gc_sub := (gc_sub c)((u, g) := None)\<rparr>))"

definition cache_GetAPIKeyRateLimit :: "fault \<Rightarrow> time \<Rightarrow> int64 \<Rightarrow> gate_cache \<Rightarrow> rate_cache result" where
  "cache_GetAPIKeyRateLimit f now k c = read_fault f (entry_found (live_entry now (gc_rate c k)))"

definition cache_SetAPIKeyRateLimit ::
    "fault \<Rightarrow> time \<Rightarrow> int64 \<Rightarrow> rate_cache option \<Rightarrow> gate_cache \<Rightarrow> unit result \<times> gate_cache" where
  "cache_SetAPIKeyRateLimit f now k data c = (case data of
     None \<Rightarrow> (Inr (), c)
   | Some d \<Rightarrow> with_fault f (\<lambda>c. ((), c\<lparr>gc_rate := (gc_rate c)(k \<mapsto> (d, now + rateLimitCacheTTL))\<rparr>)) c)"

definition update_window :: "gate_lib \<Rightarrow> int \<Rightarrow> int \<Rightarrow> f64 \<Rightarrow> f64 \<Rightarrow> int \<Rightarrow> f64 \<times> int" where
  "update_window lib now window_duration cost usage w =
     (if w = 0 \<or> window_duration \<le> now - w then (gl_tostring lib cost, now) else (gl_hinc lib usage cost, w))"

definition updateRateLimitUsageScript :: "gate_lib \<Rightarrow> time \<Rightarrow> int64 \<Rightarrow> f64 \<Rightarrow> gate_cache \<Rightarrow> int \<times> gate_cache" where
  "updateRateLimitUsageScript lib now k cost c = (case live_entry now (gc_rate c k) of
     None \<Rightarrow> (0, c)
   | Some d \<Rightarrow>
      (let sec = now div Second;
           w5 = update_window lib sec (RateLimitWindow5h div Second) cost (rt_Usage5h d) (rt_Window5h d);
           w1 = update_window lib sec (RateLimitWindow1d div Second) cost (rt_Usage1d d) (rt_Window1d d);
           w7 = update_window lib sec (RateLimitWindow7d div Second) cost (rt_Usage7d d) (rt_Window7d d)
       in (1, c\<lparr>gc_rate := (gc_rate c)(k \<mapsto>
            (\<lparr>rt_Usage5h = fst w5, rt_Usage1d = fst w1, rt_Usage7d = fst w7,
              rt_Window5h = snd w5, rt_Window1d = snd w1, rt_Window7d = snd w7\<rparr>, now + rateLimitCacheTTL))\<rparr>)))"

definition cache_UpdateAPIKeyRateLimitUsage ::
    "gate_lib \<Rightarrow> fault \<Rightarrow> time \<Rightarrow> int64 \<Rightarrow> f64 \<Rightarrow> gate_cache \<Rightarrow> unit result \<times> gate_cache" where
  "cache_UpdateAPIKeyRateLimitUsage lib f now k cost = with_fault f (\<lambda>c. ((), snd (updateRateLimitUsageScript lib now k cost c)))"

definition cache_InvalidateAPIKeyRateLimit :: "fault \<Rightarrow> int64 \<Rightarrow> gate_cache \<Rightarrow> unit result \<times> gate_cache" where
  "cache_InvalidateAPIKeyRateLimit f k = with_fault f (\<lambda>c. ((), c\<lparr>gc_rate := (gc_rate c)(k := None)\<rparr>))"

subsection \<open>Requests per minute\<close>

definition userGroupRPMKeyPrefix :: gostring where "userGroupRPMKeyPrefix = ''rpm:ug:''"
definition userRPMKeyPrefix :: gostring where "userRPMKeyPrefix = ''rpm:u:''"
definition userRPMKeyTTL :: int where "userRPMKeyTTL = 120"

definition minuteTS :: "rtime \<Rightarrow> int" where "minuteTS now = quot (TIME now) 60"

definition atomicIncr :: "rtime \<Rightarrow> gostring \<Rightarrow> redis \<Rightarrow> int \<times> redis" where
  "atomicIncr now key r =
     (let r1 = add_counter now key 1 r
      in (case counter now key r1 of Some n \<Rightarrow> n | None \<Rightarrow> 0, expire_counter now key userRPMKeyTTL r1))"

definition userGroupRPMKey :: "int64 \<Rightarrow> int64 \<Rightarrow> int \<Rightarrow> gostring" where
  "userGroupRPMKey u g minute = userGroupRPMKeyPrefix @ itoa u @ '':'' @ itoa g @ '':'' @ itoa minute"
definition userRPMKey :: "int64 \<Rightarrow> int \<Rightarrow> gostring" where
  "userRPMKey u minute = userRPMKeyPrefix @ itoa u @ '':'' @ itoa minute"

definition IncrementUserGroupRPM :: "fault \<Rightarrow> rtime \<Rightarrow> int64 \<Rightarrow> int64 \<Rightarrow> redis \<Rightarrow> int result \<times> redis" where
  "IncrementUserGroupRPM f now u g = with_fault f (atomicIncr now (userGroupRPMKey u g (minuteTS now)))"

definition IncrementUserRPM :: "fault \<Rightarrow> rtime \<Rightarrow> int64 \<Rightarrow> redis \<Rightarrow> int result \<times> redis" where
  "IncrementUserRPM f now u = with_fault f (atomicIncr now (userRPMKey u (minuteTS now)))"

definition GetUserGroupRPM :: "fault \<Rightarrow> rtime \<Rightarrow> int64 \<Rightarrow> int64 \<Rightarrow> redis \<Rightarrow> int result" where
  "GetUserGroupRPM f now u g r =
     read_fault f (Inr (case counter now (userGroupRPMKey u g (minuteTS now)) r of Some n \<Rightarrow> n | None \<Rightarrow> 0))"
definition GetUserRPM :: "fault \<Rightarrow> rtime \<Rightarrow> int64 \<Rightarrow> redis \<Rightarrow> int result" where
  "GetUserRPM f now u r = read_fault f (Inr (case counter now (userRPMKey u (minuteTS now)) r of Some n \<Rightarrow> n | None \<Rightarrow> 0))"

subsection \<open>The circuit breaker\<close>

datatype breaker_mode = BreakerClosed | BreakerOpen | BreakerHalfOpen

record breaker =
  br_state :: breaker_mode
  br_failures :: int
  br_openedAt :: time
  br_failureThreshold :: int
  br_resetTimeout :: duration
  br_halfOpenRequests :: int
  br_halfOpenRemaining :: int

record breaker_cfg =
  bk_Enabled :: bool
  bk_FailureThreshold :: int
  bk_ResetTimeoutSeconds :: int
  bk_HalfOpenRequests :: int

definition newBillingCircuitBreaker :: "breaker_cfg \<Rightarrow> breaker option" where
  "newBillingCircuitBreaker cfg =
     (if \<not> bk_Enabled cfg then None
      else let timeout = wrap64 (bk_ResetTimeoutSeconds cfg * Second) in
        Some \<lparr>br_state = BreakerClosed, br_failures = 0, br_openedAt = zero_time,
              br_failureThreshold = (if bk_FailureThreshold cfg \<le> 0 then 5 else bk_FailureThreshold cfg),
              br_resetTimeout = (if timeout \<le> 0 then 30 * Second else timeout),
              br_halfOpenRequests = (if bk_HalfOpenRequests cfg \<le> 0 then 1 else bk_HalfOpenRequests cfg),
              br_halfOpenRemaining = 0\<rparr>)"

definition half_open_turn :: "breaker \<Rightarrow> bool \<times> breaker" where
  "half_open_turn b = (if br_halfOpenRemaining b \<le> 0 then (False, b)
     else (True, b\<lparr>br_halfOpenRemaining := br_halfOpenRemaining b - 1\<rparr>))"

definition Allow :: "time \<Rightarrow> breaker \<Rightarrow> bool \<times> breaker" where
  "Allow now b = (case br_state b of
     BreakerClosed \<Rightarrow> (True, b)
   | BreakerOpen \<Rightarrow>
       if Sub now (br_openedAt b) < br_resetTimeout b then (False, b)
       else half_open_turn (b\<lparr>br_state := BreakerHalfOpen, br_halfOpenRemaining := br_halfOpenRequests b\<rparr>)
   | BreakerHalfOpen \<Rightarrow> half_open_turn b)"

definition open_breaker :: "time \<Rightarrow> breaker \<Rightarrow> breaker" where
  "open_breaker now b = b\<lparr>br_state := BreakerOpen, br_openedAt := now, br_halfOpenRemaining := 0\<rparr>"

definition OnFailure :: "time \<Rightarrow> breaker \<Rightarrow> breaker" where
  "OnFailure now b = (case br_state b of
     BreakerOpen \<Rightarrow> b
   | BreakerHalfOpen \<Rightarrow> open_breaker now b
   | BreakerClosed \<Rightarrow>
       (let b1 = b\<lparr>br_failures := br_failures b + 1\<rparr>
        in if br_failureThreshold b \<le> br_failures b1 then open_breaker now b1 else b1))"

definition OnSuccess :: "breaker \<Rightarrow> breaker" where
  "OnSuccess b = b\<lparr>br_state := BreakerClosed, br_failures := 0, br_halfOpenRemaining := 0\<rparr>"

subsection \<open>The service's state and the queue of cache writes\<close>

datatype cache_task = TSetBalance int64 f64 | TSetSubscription int64 int64 sub_cache
  | TUpdateSubscriptionUsage int64 int64 f64 | TDeductBalance int64 f64 | TUpdateRateLimitUsage int64 f64

record gate_state =
  ga_cache :: gate_cache
  ga_queue :: "cache_task list"
  ga_running :: "cache_task list"
  ga_stopped :: bool
  ga_breaker :: "breaker option"
  ga_resets :: "int64 list"

record gate_db =
  gd_main :: redeem_db
  gd_keys :: "api_key list"
  gd_overrides :: "int64 \<times> int64 \<Rightarrow> int option"

datatype gate_call = GBalance | GUser | GSub | GSubDB | GRate | GRateDB | GRateFill | GOverride | GGroupRPM | GUserRPM
  | GWrite | GReset | GInvalidate

record gate_env =
  ge_now :: time
  ge_fault :: "gate_call \<Rightarrow> fault"
  ge_simple :: bool
  ge_cache :: bool
  ge_rpm :: bool
  ge_rates :: bool
  ge_loader :: bool
  ge_jitter :: duration
  ge_msg :: gostring
  ge_lib :: gate_lib

definition cacheWriteWorkerCount :: nat where "cacheWriteWorkerCount = 10"
definition cacheWriteBufferSize :: nat where "cacheWriteBufferSize = 1000"

definition NewBillingCacheService :: "breaker_cfg \<Rightarrow> gate_cache \<Rightarrow> gate_state" where
  "NewBillingCacheService cfg c =
     \<lparr>ga_cache = c, ga_queue = [], ga_running = [], ga_stopped = False, ga_breaker = newBillingCircuitBreaker cfg, ga_resets = []\<rparr>"

definition enqueueCacheWrite :: "cache_task \<Rightarrow> gate_state \<Rightarrow> bool \<times> gate_state" where
  "enqueueCacheWrite task st =
     (if ga_stopped st then (False, st)
      else if cacheWriteBufferSize \<le> length (ga_queue st) then (False, st)
      else (True, st\<lparr>ga_queue := ga_queue st @ [task]\<rparr>))"

definition on_cache :: "(gate_cache \<Rightarrow> 'a result \<times> gate_cache) \<Rightarrow> gate_state \<Rightarrow> 'a result \<times> gate_state" where
  "on_cache call st = (case call (ga_cache st) of (res, c) \<Rightarrow> (res, st\<lparr>ga_cache := c\<rparr>))"

definition setBalanceCache :: "gate_env \<Rightarrow> int64 \<Rightarrow> f64 \<Rightarrow> gate_state \<Rightarrow> gate_state" where
  "setBalanceCache env u balance st = (if \<not> ge_cache env then st
     else snd (on_cache (cache_SetUserBalance (ge_fault env GWrite) (ge_now env) (ge_jitter env) u balance) st))"

definition setSubscriptionCache :: "gate_env \<Rightarrow> int64 \<Rightarrow> int64 \<Rightarrow> sub_cache \<Rightarrow> gate_state \<Rightarrow> gate_state" where
  "setSubscriptionCache env u g d st = (if \<not> ge_cache env then st
     else snd (on_cache (cache_SetSubscriptionCache (ge_fault env GWrite) (ge_now env) (ge_jitter env) u g (Some d)) st))"

definition DeductBalanceCache :: "gate_env \<Rightarrow> int64 \<Rightarrow> f64 \<Rightarrow> gate_state \<Rightarrow> unit result \<times> gate_state" where
  "DeductBalanceCache env u amount st = (if \<not> ge_cache env then (Inr (), st)
     else on_cache (cache_DeductUserBalance (ge_fault env GWrite) (ge_now env) (ge_jitter env) u amount) st)"

definition UpdateSubscriptionUsage :: "gate_env \<Rightarrow> int64 \<Rightarrow> int64 \<Rightarrow> f64 \<Rightarrow> gate_state \<Rightarrow> unit result \<times> gate_state" where
  "UpdateSubscriptionUsage env u g cost st = (if \<not> ge_cache env then (Inr (), st)
     else on_cache (cache_UpdateSubscriptionUsage (ge_lib env) (ge_fault env GWrite) (ge_now env) (ge_jitter env) u g cost) st)"

definition run_task :: "gate_env \<Rightarrow> cache_task \<Rightarrow> gate_state \<Rightarrow> gate_state" where
  "run_task env task st = (case task of
     TSetBalance u b \<Rightarrow> setBalanceCache env u b st
   | TSetSubscription u g d \<Rightarrow> setSubscriptionCache env u g d st
   | TUpdateSubscriptionUsage u g a \<Rightarrow> snd (UpdateSubscriptionUsage env u g a st)
   | TDeductBalance u a \<Rightarrow> snd (DeductBalanceCache env u a st)
   | TUpdateRateLimitUsage k a \<Rightarrow> if \<not> ge_cache env then st
       else snd (on_cache (cache_UpdateAPIKeyRateLimitUsage (ge_lib env) (ge_fault env GWrite) (ge_now env) k a) st))"

text \<open>A worker takes the first task of the queue; the tasks the ten workers hold finish in any order.\<close>

definition worker_takes :: "gate_state \<Rightarrow> gate_state" where
  "worker_takes st = (case ga_queue st of
     [] \<Rightarrow> st
   | task # rest \<Rightarrow> if length (ga_running st) < cacheWriteWorkerCount
       then st\<lparr>ga_queue := rest, ga_running := ga_running st @ [task]\<rparr> else st)"

definition worker_finishes :: "gate_env \<Rightarrow> nat \<Rightarrow> gate_state \<Rightarrow> gate_state" where
  "worker_finishes env i st =
     (if i < length (ga_running st)
      then run_task env (ga_running st ! i) (st\<lparr>ga_running := take i (ga_running st) @ drop (Suc i) (ga_running st)\<rparr>)
      else st)"

text \<open>The workers finish every task before \<open>Stop\<close> returns.\<close>

definition Stop :: "gate_env \<Rightarrow> gate_state \<Rightarrow> gate_state" where
  "Stop env st = (if ga_stopped st then st
     else fold (run_task env) (ga_running st @ ga_queue st) (st\<lparr>ga_stopped := True, ga_queue := [], ga_running := []\<rparr>))"

definition QueueDeductBalance :: "gate_env \<Rightarrow> int64 \<Rightarrow> f64 \<Rightarrow> gate_state \<Rightarrow> gate_state" where
  "QueueDeductBalance env u amount st = (if \<not> ge_cache env then st
     else case enqueueCacheWrite (TDeductBalance u amount) st of
       (True, st') \<Rightarrow> st' | (False, st') \<Rightarrow> snd (DeductBalanceCache env u amount st'))"

definition QueueUpdateSubscriptionUsage :: "gate_env \<Rightarrow> int64 \<Rightarrow> int64 \<Rightarrow> f64 \<Rightarrow> gate_state \<Rightarrow> gate_state" where
  "QueueUpdateSubscriptionUsage env u g cost st = (if \<not> ge_cache env then st
     else case enqueueCacheWrite (TUpdateSubscriptionUsage u g cost) st of
       (True, st') \<Rightarrow> st' | (False, st') \<Rightarrow> snd (UpdateSubscriptionUsage env u g cost st'))"

definition QueueUpdateAPIKeyRateLimitUsage :: "gate_env \<Rightarrow> int64 \<Rightarrow> f64 \<Rightarrow> gate_state \<Rightarrow> gate_state" where
  "QueueUpdateAPIKeyRateLimitUsage env k cost st = (if \<not> ge_cache env then st
     else snd (enqueueCacheWrite (TUpdateRateLimitUsage k cost) st))"

definition InvalidateUserBalance :: "gate_env \<Rightarrow> int64 \<Rightarrow> gate_state \<Rightarrow> unit result \<times> gate_state" where
  "InvalidateUserBalance env u st = (if \<not> ge_cache env then (Inr (), st)
     else on_cache (cache_InvalidateUserBalance (ge_fault env GInvalidate) u) st)"

definition InvalidateSubscription :: "gate_env \<Rightarrow> int64 \<Rightarrow> int64 \<Rightarrow> gate_state \<Rightarrow> unit result \<times> gate_state" where
  "InvalidateSubscription env u g st = (if \<not> ge_cache env then (Inr (), st)
     else on_cache (cache_InvalidateSubscriptionCache (ge_fault env GInvalidate) u g) st)"

definition InvalidateAPIKeyRateLimit :: "gate_env \<Rightarrow> int64 \<Rightarrow> gate_state \<Rightarrow> unit result \<times> gate_state" where
  "InvalidateAPIKeyRateLimit env k st = (if \<not> ge_cache env then (Inr (), st)
     else on_cache (cache_InvalidateAPIKeyRateLimit (ge_fault env GInvalidate) k) st)"

text \<open>What the settlement of a request leaves for the cache (\<open>finalizePostUsageBilling\<close>).\<close>

definition queue_follow_up :: "gate_env \<Rightarrow> follow_up \<Rightarrow> gate_state \<Rightarrow> gate_state" where
  "queue_follow_up env fu st = (case fu of
     SubscriptionUsageQueued u g cost \<Rightarrow> QueueUpdateSubscriptionUsage env u g cost st
   | BalanceDeductQueued u cost \<Rightarrow> QueueDeductBalance env u cost st
   | RateLimitQueued k cost \<Rightarrow> QueueUpdateAPIKeyRateLimitUsage env k cost st
   | _ \<Rightarrow> st)"

subsection \<open>Reading balance, subscription and rate limits\<close>

definition getUserBalanceFromDB :: "gate_env \<Rightarrow> int64 \<Rightarrow> gate_db \<Rightarrow> f64 result" where
  "getUserBalanceFromDB env u db = (case user_GetByID (ge_fault env GUser) u (gd_main db) of
     Inl err \<Rightarrow> Inl (EWrap ''get user balance'' err) | Inr user \<Rightarrow> Inr (ua_Balance user))"

definition GetUserBalance :: "gate_env \<Rightarrow> int64 \<Rightarrow> gate_db \<Rightarrow> gate_state \<Rightarrow> f64 result \<times> gate_state" where
  "GetUserBalance env u db st =
     (if \<not> ge_cache env then (getUserBalanceFromDB env u db, st)
      else case cache_GetUserBalance (ge_fault env GBalance) (ge_now env) u (ga_cache st) of
        Inr balance \<Rightarrow> (Inr balance, st)
      | Inl _ \<Rightarrow> (case getUserBalanceFromDB env u db of
          Inl err \<Rightarrow> (Inl err, st)
        | Inr balance \<Rightarrow> (Inr balance, snd (enqueueCacheWrite (TSetBalance u balance) st))))"

definition getSubscriptionFromDB :: "gate_env \<Rightarrow> int64 \<Rightarrow> int64 \<Rightarrow> gate_db \<Rightarrow> sub_cache result" where
  "getSubscriptionFromDB env u g db =
     (case GetActiveByUserIDAndGroupID (ge_fault env GSubDB) (ge_now env) u g (ss_db (rd_subs (gd_main db))) of
        Inl err \<Rightarrow> Inl (EWrap ''get subscription'' err)
      | Inr s \<Rightarrow> Inr \<lparr>sc_Status = us_Status s, sc_ExpiresAt = us_ExpiresAt s, sc_DailyUsage = us_DailyUsageUSD s,
          sc_WeeklyUsage = us_WeeklyUsageUSD s, sc_MonthlyUsage = us_MonthlyUsageUSD s,
          sc_Version = us_UpdatedAt s div Second\<rparr>)"

definition GetSubscriptionStatus :: "gate_env \<Rightarrow> int64 \<Rightarrow> int64 \<Rightarrow> gate_db \<Rightarrow> gate_state \<Rightarrow> sub_cache result \<times> gate_state" where
  "GetSubscriptionStatus env u g db st =
     (if \<not> ge_cache env then (getSubscriptionFromDB env u g db, st)
      else case cache_GetSubscriptionCache (ge_fault env GSub) (ge_now env) u g (ga_cache st) of
        Inr d \<Rightarrow> (Inr d, st)
      | Inl _ \<Rightarrow> (case getSubscriptionFromDB env u g db of
          Inl err \<Rightarrow> (Inl err, st)
        | Inr d \<Rightarrow> (Inr d, snd (enqueueCacheWrite (TSetSubscription u g d) st))))"

record rate_data =
  rl_Usage5h :: f64
  rl_Usage1d :: f64
  rl_Usage7d :: f64
  rl_Window5hStart :: "time option"
  rl_Window1dStart :: "time option"
  rl_Window7dStart :: "time option"

definition GetRateLimitData :: "fault \<Rightarrow> int64 \<Rightarrow> api_key list \<Rightarrow> rate_data result" where
  "GetRateLimitData f k rows = read_fault f (case find (\<lambda>r. ak_ID r = k) rows of
     None \<Rightarrow> Inl (EApp ErrAPIKeyNotFound)
   | Some r \<Rightarrow> Inr \<lparr>rl_Usage5h = ak_Usage5h r, rl_Usage1d = ak_Usage1d r, rl_Usage7d = ak_Usage7d r,
       rl_Window5hStart = ak_Window5hStart r, rl_Window1dStart = ak_Window1dStart r, rl_Window7dStart = ak_Window7dStart r\<rparr>)"

definition rl_EffectiveUsage5h :: "time \<Rightarrow> rate_data \<Rightarrow> f64" where
  "rl_EffectiveUsage5h now d = effective_usage now RateLimitWindow5h (rl_Usage5h d) (rl_Window5hStart d)"
definition rl_EffectiveUsage1d :: "time \<Rightarrow> rate_data \<Rightarrow> f64" where
  "rl_EffectiveUsage1d now d = effective_usage now RateLimitWindow1d (rl_Usage1d d) (rl_Window1dStart d)"
definition rl_EffectiveUsage7d :: "time \<Rightarrow> rate_data \<Rightarrow> f64" where
  "rl_EffectiveUsage7d now d = effective_usage now RateLimitWindow7d (rl_Usage7d d) (rl_Window7dStart d)"

lemmas rl_usage_defs = rl_EffectiveUsage5h_def rl_EffectiveUsage1d_def rl_EffectiveUsage7d_def

text \<open>A window that has run out counts as zero, and its reset is left to a goroutine: \<open>ga_resets\<close>.\<close>

definition evaluateRateLimits :: "gate_env \<Rightarrow> api_key \<Rightarrow> rate_data \<Rightarrow> gate_state \<Rightarrow> unit result \<times> gate_state" where
  "evaluateRateLimits env k d st =
     (let now = ge_now env;
          u5 = (if IsWindowExpired now (rl_Window5hStart d) RateLimitWindow5h then Fin 0 else rl_Usage5h d);
          u1 = (if IsWindowExpired now (rl_Window1dStart d) RateLimitWindow1d then Fin 0 else rl_Usage1d d);
          u7 = (if IsWindowExpired now (rl_Window7dStart d) RateLimitWindow7d then Fin 0 else rl_Usage7d d);
          needsReset = (IsWindowExpired now (rl_Window5hStart d) RateLimitWindow5h
            \<or> IsWindowExpired now (rl_Window1dStart d) RateLimitWindow1d \<or> IsWindowExpired now (rl_Window7dStart d) RateLimitWindow7d);
          st' = (if needsReset then st\<lparr>ga_resets := ga_resets st @ [ak_ID k]\<rparr> else st)
      in if flt (Fin 0) (ak_RateLimit5h k) \<and> fle (ak_RateLimit5h k) u5 then (Inl (EApp (ErrAPIKeyRateLimit5hExceeded (ge_msg env))), st')
         else if flt (Fin 0) (ak_RateLimit1d k) \<and> fle (ak_RateLimit1d k) u1 then (Inl (EApp (ErrAPIKeyRateLimit1dExceeded (ge_msg env))), st')
         else if flt (Fin 0) (ak_RateLimit7d k) \<and> fle (ak_RateLimit7d k) u7 then (Inl (EApp (ErrAPIKeyRateLimit7dExceeded (ge_msg env))), st')
         else (Inr (), st'))"

text \<open>The goroutine: the windows are reset in the database, then the cached usage is dropped.\<close>

definition reset_windows :: "gate_env \<Rightarrow> (time \<Rightarrow> time) \<Rightarrow> int64 \<Rightarrow> gate_db \<Rightarrow> gate_state \<Rightarrow> gate_db \<times> gate_state" where
  "reset_windows env day_start k db st =
     (if ge_loader env then db\<lparr>gd_keys := snd (ResetRateLimitWindows (ge_fault env GReset) day_start (ge_now env) k (gd_keys db))\<rparr> else db,
      snd (InvalidateAPIKeyRateLimit env k (st\<lparr>ga_resets := remove1 k (ga_resets st)\<rparr>)))"

definition unix_or_zero :: "time option \<Rightarrow> int" where
  "unix_or_zero t = (case t of None \<Rightarrow> 0 | Some x \<Rightarrow> x div Second)"
definition start_of_unix :: "int \<Rightarrow> time option" where
  "start_of_unix w = (if 0 < w then Some (w * Second) else None)"

definition cache_of_data :: "rate_data \<Rightarrow> rate_cache" where
  "cache_of_data d = \<lparr>rt_Usage5h = rl_Usage5h d, rt_Usage1d = rl_Usage1d d, rt_Usage7d = rl_Usage7d d,
     rt_Window5h = unix_or_zero (rl_Window5hStart d), rt_Window1d = unix_or_zero (rl_Window1dStart d),
     rt_Window7d = unix_or_zero (rl_Window7dStart d)\<rparr>"
definition data_of_cache :: "rate_cache \<Rightarrow> rate_data" where
  "data_of_cache c = \<lparr>rl_Usage5h = rt_Usage5h c, rl_Usage1d = rt_Usage1d c, rl_Usage7d = rt_Usage7d c,
     rl_Window5hStart = start_of_unix (rt_Window5h c), rl_Window1dStart = start_of_unix (rt_Window1d c),
     rl_Window7dStart = start_of_unix (rt_Window7d c)\<rparr>"

definition checkAPIKeyRateLimits :: "gate_env \<Rightarrow> api_key \<Rightarrow> gate_db \<Rightarrow> gate_state \<Rightarrow> unit result \<times> gate_state" where
  "checkAPIKeyRateLimits env k db st =
     (if \<not> ge_cache env then
        (if \<not> ge_loader env then (Inr (), st)
         else case GetRateLimitData (ge_fault env GRateDB) (ak_ID k) (gd_keys db) of
           Inl _ \<Rightarrow> (Inr (), st) | Inr d \<Rightarrow> evaluateRateLimits env k d st)
      else case cache_GetAPIKeyRateLimit (ge_fault env GRate) (ge_now env) (ak_ID k) (ga_cache st) of
        Inr c \<Rightarrow> evaluateRateLimits env k (data_of_cache c) st
      | Inl _ \<Rightarrow>
          (if \<not> ge_loader env then (Inr (), st)
           else case GetRateLimitData (ge_fault env GRateDB) (ak_ID k) (gd_keys db) of
             Inl _ \<Rightarrow> (Inr (), st)
           | Inr d \<Rightarrow> evaluateRateLimits env k (data_of_cache (cache_of_data d))
               (snd (on_cache (cache_SetAPIKeyRateLimit (ge_fault env GRateFill) (ge_now env) (ak_ID k) (Some (cache_of_data d))) st))))"

subsection \<open>The check\<close>

definition ErrSubscriptionInvalid :: app_error where
  "ErrSubscriptionInvalid = Forbidden ''SUBSCRIPTION_INVALID'' ''subscription is invalid or expired''"
definition ErrBillingServiceUnavailable :: app_error where
  "ErrBillingServiceUnavailable = ServiceUnavailable ''BILLING_SERVICE_ERROR''
     ''Billing service temporarily unavailable. Please retry later.''"
definition ErrGroupRPMExceeded :: app_error where
  "ErrGroupRPMExceeded = TooManyRequests ''GROUP_RPM_EXCEEDED'' ''group requests-per-minute limit exceeded''"
definition ErrUserRPMExceeded :: app_error where
  "ErrUserRPMExceeded = TooManyRequests ''USER_RPM_EXCEEDED'' ''user requests-per-minute limit exceeded''"
definition ErrInsufficientBalance :: app_error where
  "ErrInsufficientBalance = BadRequest ''INSUFFICIENT_BALANCE'' ''insufficient balance''"

record gate_user =
  gu_ID :: int64
  gu_RPMLimit :: int
  gu_UserGroupRPMOverride :: "int option"

definition with_breaker :: "(breaker \<Rightarrow> breaker) \<Rightarrow> gate_state \<Rightarrow> gate_state" where
  "with_breaker g st = st\<lparr>ga_breaker := map_option g (ga_breaker st)\<rparr>"

text \<open>The answer when a lookup failed: the failure is reported to the breaker.\<close>

definition lookup_failed :: "gate_env \<Rightarrow> go_error \<Rightarrow> gate_state \<Rightarrow> unit result \<times> gate_state" where
  "lookup_failed env err st =
     (Inl (EApp (WithCause ErrBillingServiceUnavailable (Some err))), with_breaker (OnFailure (ge_now env)) st)"

definition checkBalanceEligibility :: "gate_env \<Rightarrow> int64 \<Rightarrow> gate_db \<Rightarrow> gate_state \<Rightarrow> unit result \<times> gate_state" where
  "checkBalanceEligibility env u db st = (case GetUserBalance env u db st of
     (Inl err, st1) \<Rightarrow> lookup_failed env err st1
   | (Inr balance, st1) \<Rightarrow>
       (if fle balance (Fin 0) then Inl (EApp ErrInsufficientBalance) else Inr (), with_breaker OnSuccess st1))"

definition subscription_verdict :: "time \<Rightarrow> gw_group \<Rightarrow> sub_cache \<Rightarrow> app_error option" where
  "subscription_verdict now g d =
     (if sc_Status d \<noteq> SubscriptionStatusActive then Some ErrSubscriptionInvalid
      else if After now (sc_ExpiresAt d) then Some ErrSubscriptionInvalid
      else if HasDailyLimit g \<and> fle (the (g_DailyLimitUSD g)) (sc_DailyUsage d) then Some ErrDailyLimitExceeded
      else if HasWeeklyLimit g \<and> fle (the (g_WeeklyLimitUSD g)) (sc_WeeklyUsage d) then Some ErrWeeklyLimitExceeded
      else if HasMonthlyLimit g \<and> fle (the (g_MonthlyLimitUSD g)) (sc_MonthlyUsage d) then Some ErrMonthlyLimitExceeded
      else None)"

definition checkSubscriptionEligibility ::
    "gate_env \<Rightarrow> int64 \<Rightarrow> gw_group \<Rightarrow> gate_db \<Rightarrow> gate_state \<Rightarrow> unit result \<times> gate_state" where
  "checkSubscriptionEligibility env u g db st = (case GetSubscriptionStatus env u (g_ID g) db st of
     (Inl err, st1) \<Rightarrow> lookup_failed env err st1
   | (Inr d, st1) \<Rightarrow>
       (case subscription_verdict (ge_now env) g d of Some err \<Rightarrow> Inl (EApp err) | None \<Rightarrow> Inr (),
        with_breaker OnSuccess st1))"

definition GetRPMOverrideByUserAndGroup :: "fault \<Rightarrow> int64 \<Rightarrow> int64 \<Rightarrow> gate_db \<Rightarrow> int option result" where
  "GetRPMOverrideByUserAndGroup f u g db = read_fault f (Inr (gd_overrides db (u, g)))"

definition rpm_override :: "gate_env \<Rightarrow> gate_user \<Rightarrow> gw_group \<Rightarrow> gate_db \<Rightarrow> int option" where
  "rpm_override env user g db = (case gu_UserGroupRPMOverride user of
     Some n \<Rightarrow> Some n
   | None \<Rightarrow> if \<not> ge_rates env then None
       else (case GetRPMOverrideByUserAndGroup (ge_fault env GOverride) (gu_ID user) (g_ID g) db of Inl _ \<Rightarrow> None | Inr x \<Rightarrow> x))"

definition redis_clock :: "gate_env \<Rightarrow> rtime" where "redis_clock env = ge_now env div 1000000"

definition on_rpm :: "(redis \<Rightarrow> 'a result \<times> redis) \<Rightarrow> gate_state \<Rightarrow> 'a result \<times> gate_state" where
  "on_rpm call st = (case call (gc_rpm (ga_cache st)) of (res, r) \<Rightarrow> (res, st\<lparr>ga_cache := (ga_cache st)\<lparr>gc_rpm := r\<rparr>\<rparr>))"

text \<open>The count of one more request is compared with the limit; a failing Redis lets the request pass.\<close>

definition count_against :: "app_error \<Rightarrow> int \<Rightarrow> int result \<times> gate_state \<Rightarrow> unit result \<times> gate_state" where
  "count_against exceeded limit r = (case r of
     (Inl _, st) \<Rightarrow> (Inr (), st)
   | (Inr n, st) \<Rightarrow> (if limit < n then Inl (EApp exceeded) else Inr (), st))"

definition checkGroupRPM :: "gate_env \<Rightarrow> gate_user \<Rightarrow> gw_group option \<Rightarrow> gate_db \<Rightarrow> gate_state \<Rightarrow> unit result \<times> gate_state" where
  "checkGroupRPM env user grp db st = (case grp of
     None \<Rightarrow> (Inr (), st)
   | Some g \<Rightarrow>
       (let incr = on_rpm (IncrementUserGroupRPM (ge_fault env GGroupRPM) (redis_clock env) (gu_ID user) (g_ID g))
        in case rpm_override env user g db of
             Some n \<Rightarrow> if 0 < n then count_against ErrGroupRPMExceeded n (incr st) else (Inr (), st)
           | None \<Rightarrow> if 0 < g_RPMLimit g then count_against ErrGroupRPMExceeded (g_RPMLimit g) (incr st) else (Inr (), st)))"

definition checkRPM :: "gate_env \<Rightarrow> gate_user option \<Rightarrow> gw_group option \<Rightarrow> gate_db \<Rightarrow> gate_state \<Rightarrow> unit result \<times> gate_state" where
  "checkRPM env user grp db st =
     (if \<not> ge_rpm env then (Inr (), st)
      else case user of
        None \<Rightarrow> (Inr (), st)
      | Some u \<Rightarrow> and_then (checkGroupRPM env u grp db st) (\<lambda>_ st1.
          if 0 < gu_RPMLimit u
          then count_against ErrUserRPMExceeded (gu_RPMLimit u)
                 (on_rpm (IncrementUserRPM (ge_fault env GUserRPM) (redis_clock env) (gu_ID u)) st1)
          else (Inr (), st1)))"

definition ask_breaker :: "gate_env \<Rightarrow> gate_state \<Rightarrow> bool \<times> gate_state" where
  "ask_breaker env st = (case ga_breaker st of
     None \<Rightarrow> (True, st)
   | Some b \<Rightarrow> (case Allow (ge_now env) b of (ok, b') \<Rightarrow> (ok, st\<lparr>ga_breaker := Some b'\<rparr>)))"

definition CheckBillingEligibility ::
    "gate_env \<Rightarrow> gate_user \<Rightarrow> api_key option \<Rightarrow> gw_group option \<Rightarrow> user_sub option \<Rightarrow> gate_db \<Rightarrow> gate_state
     \<Rightarrow> unit result \<times> gate_state" where
  "CheckBillingEligibility env user key grp subscription db st =
     (if ge_simple env then (Inr (), st)
      else case ask_breaker env st of
        (False, st1) \<Rightarrow> (Inl (EApp ErrBillingServiceUnavailable), st1)
      | (True, st1) \<Rightarrow>
          and_then
            (case grp of
               Some g \<Rightarrow> if IsSubscriptionType g \<and> subscription \<noteq> None
                 then checkSubscriptionEligibility env (gu_ID user) g db st1
                 else checkBalanceEligibility env (gu_ID user) db st1
             | None \<Rightarrow> checkBalanceEligibility env (gu_ID user) db st1)
            (\<lambda>_ st2. and_then
              (case key of
                 Some k \<Rightarrow> if HasRateLimits k then checkAPIKeyRateLimits env k db st2 else (Inr (), st2)
               | None \<Rightarrow> (Inr (), st2))
              (\<lambda>_ st3. checkRPM env (Some user) grp db st3)))"

end
