(* ===== verification/BillingGateLaws.thy ===== *)
theory BillingGateLaws
  imports BillingGate
begin

text \<open>
  What the check before a request promises. The breaker is followed through requests that overlap in any order; the whole
  check through runs of requests, one after the other, of any users.
\<close>

subsection \<open>The breaker under overlapping requests\<close>

text \<open>Requests ask the breaker and report later, in any order; \<open>n\<close> counts those let through that have not reported.\<close>

inductive breaker_run :: "breaker \<Rightarrow> time \<Rightarrow> breaker \<Rightarrow> nat \<Rightarrow> bool" for b0 :: breaker where
  start: "breaker_run b0 now b0 0"
| ask: "breaker_run b0 now b n \<Longrightarrow> now \<le> t \<Longrightarrow> Allow t b = (ok, b') \<Longrightarrow> breaker_run b0 t b' (if ok then Suc n else n)"
| failure: "breaker_run b0 now b (Suc n) \<Longrightarrow> now \<le> t \<Longrightarrow> breaker_run b0 t (OnFailure t b) n"
| success: "breaker_run b0 now b (Suc n) \<Longrightarrow> now \<le> t \<Longrightarrow> breaker_run b0 t (OnSuccess b) n"

definition same_settings :: "breaker \<Rightarrow> breaker \<Rightarrow> bool" where
  "same_settings b0 b \<longleftrightarrow> br_failureThreshold b = br_failureThreshold b0 \<and> br_resetTimeout b = br_resetTimeout b0
     \<and> br_halfOpenRequests b = br_halfOpenRequests b0"

definition fresh_breaker :: "breaker \<Rightarrow> bool" where
  "fresh_breaker b \<longleftrightarrow> br_state b = BreakerClosed \<and> br_failures b = 0 \<and> 0 < br_failureThreshold b
     \<and> 0 < br_resetTimeout b \<and> br_resetTimeout b \<le> max_int64 \<and> 0 < br_halfOpenRequests b"

definition breaker_sound :: "breaker \<Rightarrow> time \<Rightarrow> breaker \<Rightarrow> nat \<Rightarrow> bool" where
  "breaker_sound b0 now b n \<longleftrightarrow> same_settings b0 b \<and> 0 \<le> br_failures b
     \<and> (br_state b = BreakerClosed \<longrightarrow> br_failures b < br_failureThreshold b)
     \<and> (br_state b = BreakerOpen \<longrightarrow> br_openedAt b \<le> now)
     \<and> (br_state b = BreakerHalfOpen \<longrightarrow> 0 \<le> br_halfOpenRemaining b \<and> br_halfOpenRemaining b < br_halfOpenRequests b
          \<and> br_halfOpenRequests b - br_halfOpenRemaining b \<le> int n)"

lemma fresh_newBillingCircuitBreaker: "newBillingCircuitBreaker cfg = Some b \<Longrightarrow> fresh_breaker b"
  using in_int64_wrap64 [of "bk_ResetTimeoutSeconds cfg * Second"]
  by (auto simp: newBillingCircuitBreaker_def fresh_breaker_def Let_def in_int64_def Second_def max_int64_def split: if_splits)

lemma breaker_sound_later: "breaker_sound b0 now b n \<Longrightarrow> now \<le> t \<Longrightarrow> breaker_sound b0 t b n"
  by (auto simp: breaker_sound_def)

lemma breaker_sound_ask:
  assumes "breaker_sound b0 now b n" "fresh_breaker b0" "Allow now b = (ok, b')"
  shows "breaker_sound b0 now b' (if ok then Suc n else n)"
  using assms
  by (auto simp: breaker_sound_def same_settings_def fresh_breaker_def Allow_def half_open_turn_def
      split: breaker_mode.splits if_splits)

lemma breaker_sound_report:
  assumes "breaker_sound b0 now b (Suc n)" "fresh_breaker b0"
  shows "breaker_sound b0 now (OnFailure now b) n" "breaker_sound b0 now (OnSuccess b) n"
  using assms
  by (auto simp: breaker_sound_def same_settings_def fresh_breaker_def OnFailure_def OnSuccess_def open_breaker_def Let_def
      split: breaker_mode.splits)

lemma breaker_run_sound: "breaker_run b0 now b n \<Longrightarrow> fresh_breaker b0 \<Longrightarrow> breaker_sound b0 now b n"
proof (induction rule: breaker_run.induct)
  case (start now)
  then show ?case by (auto simp: breaker_sound_def same_settings_def fresh_breaker_def)
qed (metis breaker_sound_later breaker_sound_ask breaker_sound_report)+

lemma Allow_refuses: "\<not> fst (Allow t b) \<longleftrightarrow>
    (br_state b = BreakerOpen \<and> (Sub t (br_openedAt b) < br_resetTimeout b \<or> br_halfOpenRequests b \<le> 0))
    \<or> (br_state b = BreakerHalfOpen \<and> br_halfOpenRemaining b \<le> 0)"
  by (auto simp: Allow_def half_open_turn_def split: breaker_mode.split)


definition demo_breaker_cfg :: breaker_cfg where
  "demo_breaker_cfg = \<lparr>bk_Enabled = True, bk_FailureThreshold = 2, bk_ResetTimeoutSeconds = 30, bk_HalfOpenRequests = 1\<rparr>"

definition demo_breaker :: breaker where
  "demo_breaker = the (newBillingCircuitBreaker demo_breaker_cfg)"

lemma demo_breaker: "newBillingCircuitBreaker demo_breaker_cfg = Some demo_breaker"
  by (simp add: demo_breaker_def newBillingCircuitBreaker_def demo_breaker_cfg_def Let_def)

text \<open>Two requests let through fail; thirty seconds later one is let through to try and the next is refused.\<close>

lemma demo_breaker_run:
  "\<exists>b. breaker_run demo_breaker (40 * Second) b 1 \<and> br_state b = BreakerHalfOpen \<and> br_halfOpenRemaining b = 0"
proof -
  let ?b = "OnFailure 0 (OnFailure 0 demo_breaker)"
  have a: "Allow 0 demo_breaker = (True, demo_breaker)" by code_simp
  have "breaker_run demo_breaker 0 demo_breaker (Suc (Suc 0))"
    using ask [OF ask [OF start [of demo_breaker 0] _ a] _ a] by simp
  from failure [OF failure [OF this order_refl] order_refl] have "breaker_run demo_breaker 0 ?b 0" .
  moreover obtain ok b where t: "Allow (40 * Second) ?b = (ok, b)" by (cases "Allow (40 * Second) ?b")
  moreover have "fst (Allow (40 * Second) ?b)" "br_state (snd (Allow (40 * Second) ?b)) = BreakerHalfOpen"
    "br_halfOpenRemaining (snd (Allow (40 * Second) ?b)) = 0" "(0::int) \<le> 40 * Second"
    by code_simp+
  ultimately show ?thesis using ask [of demo_breaker 0 ?b 0 "40 * Second" ok b] by (auto simp: t)
qed



subsection \<open>Runs of requests\<close>

text \<open>A request, with what workers, invalidations and other calls did to the service's state since the one before.\<close>

record gate_req =
  gr_env :: gate_env
  gr_user :: gate_user
  gr_key :: "api_key option"
  gr_group :: "gw_group option"
  gr_sub :: "user_sub option"
  gr_db :: gate_db
  gr_before :: "gate_state \<Rightarrow> gate_state"

definition check_req :: "gate_req \<Rightarrow> gate_state \<Rightarrow> unit result \<times> gate_state" where
  "check_req r st = CheckBillingEligibility (gr_env r) (gr_user r) (gr_key r) (gr_group r) (gr_sub r) (gr_db r) (gr_before r st)"

fun check_all :: "gate_req list \<Rightarrow> gate_state \<Rightarrow> (gate_req \<times> unit result) list \<times> gate_state" where
  "check_all [] st = ([], st)"
| "check_all (r # rs) st = (case check_req r st of (res, st1) \<Rightarrow>
     (case check_all rs st1 of (answers, st2) \<Rightarrow> ((r, res) # answers, st2)))"

definition passes :: "(gate_req \<Rightarrow> bool) \<Rightarrow> (gate_req \<times> unit result) list \<Rightarrow> int" where
  "passes P answers = int (length (filter (\<lambda>(r, res). P r \<and> res = Inr ()) answers))"

lemma passes_simps [simp]: "passes P [] = 0"
  "passes P ((r, res) # xs) = passes P xs + (if P r \<and> res = Inr () then 1 else 0)"
  by (simp_all add: passes_def)

subsection \<open>Requests per minute\<close>

definition in_minute :: "int \<Rightarrow> rtime \<Rightarrow> bool" where "in_minute m now \<longleftrightarrow> 0 \<le> now \<and> minuteTS now = m"

lemma in_minute_near: "in_minute m now \<Longrightarrow> in_minute m t \<Longrightarrow> now \<le> t + 1000 * userRPMKeyTTL"
  by (auto simp: in_minute_def minuteTS_def TIME_def quot_nonneg userRPMKeyTTL_def)

definition rpm_count :: "gostring \<Rightarrow> redis \<Rightarrow> int" where
  "rpm_count k r = (case rd_counts r k of Some (n, _) \<Rightarrow> n | None \<Rightarrow> 0)"
definition rpm_live :: "int \<Rightarrow> gostring \<Rightarrow> redis \<Rightarrow> bool" where
  "rpm_live m k r \<longleftrightarrow> (\<forall>n expire now. rd_counts r k = Some (n, expire) \<longrightarrow> in_minute m now \<longrightarrow> key_live now expire)"

lemma key_live_None [simp]: "key_live now None"
  by (simp add: key_live_def)

lemma atomicIncr_counts:
  assumes "rpm_live m k r" "in_minute m now"
  shows "rpm_live m k (snd (atomicIncr now k' r))"
    and "rpm_count k (snd (atomicIncr now k' r)) = rpm_count k r + (if k' = k then 1 else 0)"
    and "fst (atomicIncr now k r) = rpm_count k r + 1"
proof -
  have live: "key_live x (Some (now + 1000 * userRPMKeyTTL))" if "in_minute m x" for x
    using in_minute_near [OF that assms(2)] by (simp add: key_live_def)
  have now: "key_live now e" if "rd_counts r k = Some (n, e)" for n e using assms that by (auto simp: rpm_live_def)
  show "rpm_live m k (snd (atomicIncr now k' r))"
    using assms(1) live
    by (auto simp: rpm_live_def atomicIncr_def Let_def expire_counter_def add_counter_def counter_def split: option.splits)
  show "rpm_count k (snd (atomicIncr now k' r)) = rpm_count k r + (if k' = k then 1 else 0)"
    using now
    by (auto simp: rpm_count_def atomicIncr_def Let_def expire_counter_def add_counter_def counter_def split: option.splits)
  show "fst (atomicIncr now k r) = rpm_count k r + 1"
    using now by (auto simp: rpm_count_def atomicIncr_def Let_def add_counter_def counter_def key_live_def split: option.splits)
qed

text \<open>One more request counted on some key, under any fault: no count falls, and the key that is asked rises.\<close>

definition rpm_of :: "gate_state \<Rightarrow> redis" where "rpm_of st = gc_rpm (ga_cache st)"

definition counted :: "int \<Rightarrow> gostring \<Rightarrow> gate_state \<Rightarrow> gate_state \<Rightarrow> bool" where
  "counted m k st st' \<longleftrightarrow> (rpm_live m k (rpm_of st) \<longrightarrow> rpm_live m k (rpm_of st') \<and> rpm_count k (rpm_of st) \<le> rpm_count k (rpm_of st'))"

lemma counted_same: "rpm_of st' = rpm_of st \<Longrightarrow> counted m k st st'"
  by (simp add: counted_def)
lemma counted_trans: "counted m k st st1 \<Longrightarrow> counted m k st1 st2 \<Longrightarrow> counted m k st st2"
  by (auto simp: counted_def)

lemma count_against_incr:
  assumes now: "in_minute m now"
    and r: "count_against e L (on_rpm (with_fault f (atomicIncr now k')) st) = (res, st')"
  shows "counted m k st st'"
    and "f = NoFault \<Longrightarrow> k' = k \<Longrightarrow> rpm_live m k (rpm_of st) \<Longrightarrow> res = Inr () \<Longrightarrow>
      rpm_count k (rpm_of st) + 1 \<le> L \<and> rpm_count k (rpm_of st') = rpm_count k (rpm_of st) + 1"
proof -
  obtain n r1 where a: "atomicIncr now k' (rpm_of st) = (n, r1)" by (cases "atomicIncr now k' (rpm_of st)")
  have s: "rpm_of st' = rpm_of st \<or> rpm_of st' = r1"
    using r a by (auto simp: count_against_def on_rpm_def with_fault_def rpm_of_def split: fault.splits if_splits)
  show "counted m k st st'"
    using s atomicIncr_counts(1,2) [OF _ now, of k "rpm_of st" k'] a by (auto simp: counted_def)
  assume h: "f = NoFault" "k' = k" "rpm_live m k (rpm_of st)" "res = Inr ()"
  then have "n \<le> L" "rpm_of st' = r1"
    using r a by (auto simp: count_against_def on_rpm_def rpm_of_def split: if_splits)
  then show "rpm_count k (rpm_of st) + 1 \<le> L \<and> rpm_count k (rpm_of st') = rpm_count k (rpm_of st) + 1"
    using atomicIncr_counts(2,3) [OF h(3) now] a h(2) by (metis fst_conv snd_conv)
qed

text \<open>The lookups before the counters leave them alone.\<close>

lemma enqueue_rpm [simp]: "rpm_of (snd (enqueueCacheWrite task st)) = rpm_of st"
  by (simp add: enqueueCacheWrite_def rpm_of_def)

lemma checkBalance_rpm: "checkBalanceEligibility env u db st = (res, st') \<Longrightarrow> rpm_of st' = rpm_of st"
  using enqueue_rpm
  by (auto simp: checkBalanceEligibility_def GetUserBalance_def lookup_failed_def with_breaker_def rpm_of_def
      split: sum.splits if_splits)

lemma checkSubscription_rpm: "checkSubscriptionEligibility env u g db st = (res, st') \<Longrightarrow> rpm_of st' = rpm_of st"
  using enqueue_rpm
  by (auto simp: checkSubscriptionEligibility_def GetSubscriptionStatus_def lookup_failed_def with_breaker_def rpm_of_def
      split: sum.splits if_splits)

lemma on_cache_rate_rpm [simp]: "rpm_of (snd (on_cache (cache_SetAPIKeyRateLimit f now k d) st)) = rpm_of st"
  by (auto simp: on_cache_def cache_SetAPIKeyRateLimit_def with_fault_def rpm_of_def split: option.split fault.split)

lemma evaluateRateLimits_rpm [simp]: "rpm_of (snd (evaluateRateLimits env k d st)) = rpm_of st"
  by (simp add: evaluateRateLimits_def Let_def rpm_of_def)

lemma checkAPIKeyRateLimits_rpm [simp]: "rpm_of (snd (checkAPIKeyRateLimits env k db st)) = rpm_of st"
  by (auto simp: checkAPIKeyRateLimits_def split: sum.split)

lemma ask_breaker_rpm: "ask_breaker env st = (ok, st') \<Longrightarrow> rpm_of st' = rpm_of st"
  by (auto simp: ask_breaker_def rpm_of_def split: option.splits prod.splits)

text \<open>A request that is let through came to the counters; one that is not left them alone or was counted.\<close>

lemma check_reaches_rpm:
  assumes "CheckBillingEligibility env user key grp s db st = (res, st')" "\<not> ge_simple env"
  shows "(\<exists>e. res = Inl e \<and> rpm_of st' = rpm_of st)
    \<or> (\<exists>st1. rpm_of st1 = rpm_of st \<and> checkRPM env (Some user) grp db st1 = (res, st'))"
proof -
  obtain ok st1 where a: "ask_breaker env st = (ok, st1)" by (cases "ask_breaker env st")
  note r1 = ask_breaker_rpm [OF a]
  let ?elig = "case grp of Some g \<Rightarrow> if IsSubscriptionType g \<and> s \<noteq> None then checkSubscriptionEligibility env (gu_ID user) g db st1
       else checkBalanceEligibility env (gu_ID user) db st1 | None \<Rightarrow> checkBalanceEligibility env (gu_ID user) db st1"
  obtain res2 st2 where e: "?elig = (res2, st2)" by (cases ?elig)
  have r2: "rpm_of st2 = rpm_of st1"
    using e checkBalance_rpm checkSubscription_rpm by (auto split: option.splits if_splits)
  let ?rate = "case key of Some k \<Rightarrow> if HasRateLimits k then checkAPIKeyRateLimits env k db st2 else (Inr (), st2) | None \<Rightarrow> (Inr (), st2)"
  obtain res3 st3 where t: "?rate = (res3, st3)" by (cases ?rate)
  have r3: "rpm_of st3 = rpm_of st2"
    using t by (auto split: option.splits if_splits) (metis checkAPIKeyRateLimits_rpm snd_conv)
  show ?thesis
    using assms a e t r1 r2 r3
    by (cases ok; cases res2; cases res3) (auto simp: CheckBillingEligibility_def)
qed


lemma checkGroupRPM_counted:
  assumes "in_minute m (redis_clock env)" "checkGroupRPM env user grp db st = (res, st')"
  shows "counted m k st st'"
  using assms count_against_incr(1) [OF assms(1)]
  by (auto simp: checkGroupRPM_def IncrementUserGroupRPM_def counted_same Let_def split: option.splits if_splits)

lemma checkRPM_counted:
  assumes "in_minute m (redis_clock env)" "checkRPM env (Some user) grp db st = (res, st')"
  shows "counted m k st st'"
proof (cases "ge_rpm env")
  case True
  obtain res1 st1 where g: "checkGroupRPM env user grp db st = (res1, st1)" by (cases "checkGroupRPM env user grp db st")
  have c: "counted m k st st1" using checkGroupRPM_counted [OF assms(1) g] .
  have "counted m k st1 st'" if "res1 = Inr ()"
    using that assms(2) True g count_against_incr(1) [OF assms(1), of _ _ "ge_fault env GUserRPM" "userRPMKey (gu_ID user) (minuteTS (redis_clock env))" st1]
    by (auto simp: checkRPM_def IncrementUserRPM_def counted_same split: if_splits)
  then show ?thesis using c assms(2) True g counted_trans by (cases res1) (auto simp: checkRPM_def)
qed (use assms in \<open>simp add: checkRPM_def counted_same\<close>)

lemma check_req_counted:
  assumes "in_minute m (redis_clock (gr_env r))" "rpm_of (gr_before r st) = rpm_of st" "check_req r st = (res, st')"
  shows "counted m k st st'"
proof (cases "ge_simple (gr_env r)")
  case False
  from check_reaches_rpm [OF assms(3) [unfolded check_req_def] False] show ?thesis
  proof (elim disjE exE conjE)
    fix st1 assume "rpm_of st1 = rpm_of (gr_before r st)" "checkRPM (gr_env r) (Some (gr_user r)) (gr_group r) (gr_db r) st1 = (res, st')"
    then show ?thesis using checkRPM_counted [OF assms(1), of _ _ _ st1 res st' k] assms(2) by (simp add: counted_def)
  qed (use assms(2) in \<open>simp add: counted_same\<close>)
qed (use assms in \<open>simp add: check_req_def CheckBillingEligibility_def counted_same\<close>)

text \<open>Which limit a request is counted against, for its user and for its group.\<close>

definition user_limited :: "int64 \<Rightarrow> int \<Rightarrow> gate_req \<Rightarrow> bool" where
  "user_limited u L r \<longleftrightarrow> gu_ID (gr_user r) = u \<longrightarrow> \<not> ge_simple (gr_env r) \<and> ge_rpm (gr_env r)
     \<and> ge_fault (gr_env r) GUserRPM = NoFault \<and> gu_RPMLimit (gr_user r) = L"

definition group_limit :: "gate_req \<Rightarrow> gw_group \<Rightarrow> int" where
  "group_limit r g = (case rpm_override (gr_env r) (gr_user r) g (gr_db r) of Some n \<Rightarrow> n | None \<Rightarrow> g_RPMLimit g)"

definition in_group :: "int64 \<Rightarrow> int64 \<Rightarrow> gate_req \<Rightarrow> bool" where
  "in_group u g r \<longleftrightarrow> gu_ID (gr_user r) = u \<and> (\<exists>grp. gr_group r = Some grp \<and> g_ID grp = g)"

definition group_limited :: "int64 \<Rightarrow> int64 \<Rightarrow> int \<Rightarrow> gate_req \<Rightarrow> bool" where
  "group_limited u g L r \<longleftrightarrow> in_group u g r \<longrightarrow> \<not> ge_simple (gr_env r) \<and> ge_rpm (gr_env r)
     \<and> ge_fault (gr_env r) GGroupRPM = NoFault \<and> group_limit r (the (gr_group r)) = L"

lemma passed_user_counted:
  assumes "in_minute m (redis_clock (gr_env r))" "rpm_of (gr_before r st) = rpm_of st" "check_req r st = (Inr (), st')"
    and "user_limited u L r" "gu_ID (gr_user r) = u" "0 < L" "rpm_live m (userRPMKey u m) (rpm_of st)"
  shows "rpm_count (userRPMKey u m) (rpm_of st) + 1 \<le> L
    \<and> rpm_count (userRPMKey u m) (rpm_of st) + 1 \<le> rpm_count (userRPMKey u m) (rpm_of st')"
proof -
  let ?env = "gr_env r" and ?k = "userRPMKey u m"
  have u: "\<not> ge_simple ?env" "ge_rpm ?env" "ge_fault ?env GUserRPM = NoFault" "gu_RPMLimit (gr_user r) = L"
    using assms(4,5) by (auto simp: user_limited_def)
  obtain st1 where st1: "rpm_of st1 = rpm_of st" and c: "checkRPM ?env (Some (gr_user r)) (gr_group r) (gr_db r) st1 = (Inr (), st')"
    using check_reaches_rpm [OF assms(3) [unfolded check_req_def] u(1)] assms(2) by auto
  obtain st2 where g: "checkGroupRPM ?env (gr_user r) (gr_group r) (gr_db r) st1 = (Inr (), st2)"
    and i: "count_against ErrUserRPMExceeded L (on_rpm (with_fault (ge_fault ?env GUserRPM) (atomicIncr (redis_clock ?env) ?k)) st2) = (Inr (), st')"
    using c u assms(1,5,6) by (auto simp: checkRPM_def and_then_Inr IncrementUserRPM_def in_minute_def)
  have "rpm_live m ?k (rpm_of st2)" "rpm_count ?k (rpm_of st) \<le> rpm_count ?k (rpm_of st2)"
    using checkGroupRPM_counted [OF assms(1) g, of ?k] assms(7) st1 by (auto simp: counted_def)
  with count_against_incr(2) [OF assms(1) i u(3) refl] show ?thesis by auto
qed

lemma passed_group_counted:
  assumes "in_minute m (redis_clock (gr_env r))" "rpm_of (gr_before r st) = rpm_of st" "check_req r st = (Inr (), st')"
    and "group_limited u g L r" "in_group u g r" "0 < L" "rpm_live m (userGroupRPMKey u g m) (rpm_of st)"
  shows "rpm_count (userGroupRPMKey u g m) (rpm_of st) + 1 \<le> L
    \<and> rpm_count (userGroupRPMKey u g m) (rpm_of st) + 1 \<le> rpm_count (userGroupRPMKey u g m) (rpm_of st')"
proof -
  let ?env = "gr_env r" and ?k = "userGroupRPMKey u g m"
  obtain grp where grp: "gr_group r = Some grp" "g_ID grp = g" and u: "gu_ID (gr_user r) = u" using assms(5) by (auto simp: in_group_def)
  have l: "\<not> ge_simple ?env" "ge_rpm ?env" "ge_fault ?env GGroupRPM = NoFault" "group_limit r grp = L"
    using assms(4,5) grp by (auto simp: group_limited_def)
  obtain st1 where st1: "rpm_of st1 = rpm_of st" and c: "checkRPM ?env (Some (gr_user r)) (gr_group r) (gr_db r) st1 = (Inr (), st')"
    using check_reaches_rpm [OF assms(3) [unfolded check_req_def] l(1)] assms(2) by auto
  have i: "checkGroupRPM ?env (gr_user r) (gr_group r) (gr_db r) st1 = count_against ErrGroupRPMExceeded L
      (on_rpm (with_fault (ge_fault ?env GGroupRPM) (atomicIncr (redis_clock ?env) ?k)) st1)"
    using l(4) assms(1,6) grp u
    by (auto simp: checkGroupRPM_def group_limit_def IncrementUserGroupRPM_def in_minute_def split: option.splits)
  obtain st2 where g: "count_against ErrGroupRPMExceeded L (on_rpm (with_fault (ge_fault ?env GGroupRPM) (atomicIncr (redis_clock ?env) ?k)) st1) = (Inr (), st2)"
    and rest: "st' = st2 \<or> (\<exists>L'. count_against ErrUserRPMExceeded L' (on_rpm (with_fault (ge_fault ?env GUserRPM) (atomicIncr (redis_clock ?env) (userRPMKey u m))) st2) = (Inr (), st'))"
    using c l u assms(1) by (auto simp: checkRPM_def and_then_Inr IncrementUserRPM_def in_minute_def i split: if_splits)
  have "counted m ?k st2 st'" using rest count_against_incr(1) [OF assms(1)] by (auto simp: counted_same)
  moreover have "counted m ?k st1 st2" using count_against_incr(1) [OF assms(1) g] .
  ultimately show ?thesis
    using count_against_incr(2) [OF assms(1) g l(3) refl] assms(7) st1 by (auto simp: counted_def)
qed

text \<open>Counting: every pass takes one of the numbers up to the limit.\<close>

lemma passes_within:
  assumes "\<And>r st st' res. r \<in> set rs \<Longrightarrow> check_req r st = (res, st') \<Longrightarrow> live st \<Longrightarrow> live st' \<and> (c st :: int) \<le> c st'"
    and "\<And>r st st'. r \<in> set rs \<Longrightarrow> check_req r st = (Inr (), st') \<Longrightarrow> P r \<Longrightarrow> live st \<Longrightarrow> c st + 1 \<le> L \<and> c st + 1 \<le> c st'"
    and "live st" "passed \<le> c st" "passed \<le> L"
  shows "passed + passes P (fst (check_all rs st)) \<le> L"
  using assms
proof (induction rs arbitrary: st passed)
  case (Cons r rs)
  obtain res st1 where r: "check_req r st = (res, st1)" by (cases "check_req r st")
  have l: "live st1" "c st \<le> c st1" using Cons.prems(1) [OF _ r Cons.prems(3)] by auto
  let ?d = "if P r \<and> res = Inr () then 1 else 0 :: int"
  have d: "passed + ?d \<le> c st1" "passed + ?d \<le> L"
    using Cons.prems(2) [of r st st1] r l Cons.prems(3-5) by auto
  have s1: "live st' \<and> c st0 \<le> c st'" if "x \<in> set rs" "check_req x st0 = (res', st')" "live st0" for x st0 st' res'
    using Cons.prems(1) [OF _ that(2,3)] that(1) by simp
  have s2: "c st0 + 1 \<le> L \<and> c st0 + 1 \<le> c st'" if "x \<in> set rs" "check_req x st0 = (Inr (), st')" "P x" "live st0" for x st0 st'
    using Cons.prems(2) [OF _ that(2,3,4)] that(1) by simp
  have "(passed + ?d) + passes P (fst (check_all rs st1)) \<le> L"
    by (rule Cons.IH [OF s1 s2 l(1) d])
  moreover have "fst (check_all (r # rs) st) = (r, res) # fst (check_all rs st1)" using r by (simp split: prod.split)
  ultimately show ?case by (simp add: algebra_simps)
qed simp




definition demo_gate_env :: gate_env where
  "demo_gate_env = \<lparr>ge_now = 60 * Second, ge_fault = (\<lambda>_. NoFault), ge_simple = False, ge_cache = True, ge_rpm = True,
     ge_rates = True, ge_loader = True, ge_jitter = 0, ge_msg = [], ge_lib = \<lparr>gl_hinc = fadd, gl_tostring = id\<rparr>\<rparr>"

definition demo_gate_db :: gate_db where
  "demo_gate_db = \<lparr>gd_main = demo_redeem, gd_keys = [demo_key], gd_overrides = (\<lambda>_. None)\<rparr>"

definition empty_gate_cache :: gate_cache where
  "empty_gate_cache = \<lparr>gc_balance = (\<lambda>_. None), gc_sub = (\<lambda>_. None), gc_rate = (\<lambda>_. None), gc_rpm = empty_redis\<rparr>"

definition demo_gate :: gate_state where
  "demo_gate = NewBillingCacheService demo_breaker_cfg (empty_gate_cache\<lparr>gc_balance := (\<lambda>_. None)(5 \<mapsto> (Fin 9, 300 * Second))\<rparr>)"

definition demo_gate_req :: "int \<Rightarrow> gate_req" where
  "demo_gate_req limit = \<lparr>gr_env = demo_gate_env, gr_user = \<lparr>gu_ID = 5, gu_RPMLimit = limit, gu_UserGroupRPMOverride = None\<rparr>,
     gr_key = None, gr_group = Some (demo_group\<lparr>g_SubscriptionType := [], g_RPMLimit := 5\<rparr>), gr_sub = None,
     gr_db = demo_gate_db, gr_before = id\<rparr>"

lemmas demo_gate_defs = demo_gate_env_def demo_gate_db_def demo_gate_def demo_gate_req_def demo_group_def

lemma cached_balance_check:
  assumes "ge_cache env" "ge_fault env GBalance = NoFault" "live_entry (ge_now env) (gc_balance (ga_cache st) u) = Some b"
  shows "checkBalanceEligibility env u db st =
    (if fle b (Fin 0) then Inl (EApp ErrInsufficientBalance) else Inr (), with_breaker OnSuccess st)"
  using assms by (simp add: checkBalanceEligibility_def GetUserBalance_def cache_GetUserBalance_def entry_found_def)

lemma closed_breaker_asked: "ga_breaker st = Some b \<Longrightarrow> br_state b = BreakerClosed \<Longrightarrow> ask_breaker env st = (True, st)"
  by (simp add: ask_breaker_def Allow_def)

lemma count_against_answer:
  assumes "rpm_live m k (rpm_of st)" "in_minute m now"
  shows "fst (count_against e L (on_rpm (with_fault NoFault (atomicIncr now k)) st)) =
    (if L < rpm_count k (rpm_of st) + 1 then Inl (EApp e) else Inr ())"
  using atomicIncr_counts(3) [OF assms]
  by (auto simp: count_against_def on_rpm_def rpm_of_def split: prod.split)

lemma demo_gate_passes: "fst (check_req (demo_gate_req 2) demo_gate) = Inr ()"
proof -
  let ?env = demo_gate_env and ?u = "gr_user (demo_gate_req 2)" and ?g = "the (gr_group (demo_gate_req 2))"
  let ?st = "with_breaker OnSuccess demo_gate"
  have m: "in_minute 1 (redis_clock ?env)"
    by (simp add: demo_gate_defs in_minute_def redis_clock_def minuteTS_def TIME_def Second_def quot_def)
  have none: "rd_counts (rpm_of ?st) k = None" for k
    by (simp add: rpm_of_def demo_gate_def NewBillingCacheService_def empty_gate_cache_def empty_redis_def with_breaker_def)
  then have live: "rpm_live 1 k (rpm_of ?st)" "rpm_count k (rpm_of ?st) = 0" for k by (simp_all add: rpm_live_def rpm_count_def)
  have f: "ge_fault ?env c = NoFault" "ge_rpm ?env" "\<not> ge_simple ?env" "ge_cache ?env" "ge_now ?env = 60 * Second" for c
    by (simp_all add: demo_gate_env_def)
  have a: "ask_breaker ?env demo_gate = (True, demo_gate)"
    by (rule closed_breaker_asked [of _ demo_breaker]; code_simp)
  have "\<not> fle (Fin 9) (Fin 0)" by code_simp
  moreover have "live_entry (60 * Second) (gc_balance (ga_cache demo_gate) 5) = Some (Fin 9)"
    by (simp add: live_entry_def demo_gate_def NewBillingCacheService_def empty_gate_cache_def Second_def)
  ultimately have b: "checkBalanceEligibility ?env 5 db demo_gate = (Inr (), ?st)" for db
    using cached_balance_check [of ?env demo_gate 5 "Fin 9" db] f by simp
  have g: "checkGroupRPM ?env ?u (Some ?g) demo_gate_db ?st = count_against ErrGroupRPMExceeded 5
      (on_rpm (with_fault NoFault (atomicIncr (redis_clock ?env) (userGroupRPMKey 5 3 1))) ?st)"
    using m f(1) by (simp add: checkGroupRPM_def rpm_override_def GetRPMOverrideByUserAndGroup_def demo_gate_db_def
        demo_gate_req_def demo_group_def IncrementUserGroupRPM_def in_minute_def f)
  obtain st1 where g1: "checkGroupRPM ?env ?u (Some ?g) demo_gate_db ?st = (Inr (), st1)"
    using count_against_answer [OF live(1) m, of ErrGroupRPMExceeded 5 "userGroupRPMKey 5 3 1"] live(2) g
    by (metis (no_types, lifting) add_0 not_numeral_less_one prod.collapse)
  have "counted 1 (userRPMKey 5 1) ?st st1" using checkGroupRPM_counted [OF m g1] .
  then have live1: "rpm_live 1 (userRPMKey 5 1) (rpm_of st1)" using live by (simp add: counted_def)
  have "rpm_count (userRPMKey 5 1) (rpm_of st1) \<le> 1"
    using g1 g atomicIncr_counts(2) [OF live(1) m, of "userRPMKey 5 1" "userGroupRPMKey 5 3 1"] live(2)
    by (auto simp: count_against_def on_rpm_def rpm_of_def split: prod.splits if_splits)
  then have "fst (checkRPM ?env (Some ?u) (Some ?g) demo_gate_db ?st) = Inr ()"
    using count_against_answer [OF live1 m, of ErrUserRPMExceeded 2] m f g1
    by (simp add: checkRPM_def IncrementUserRPM_def demo_gate_req_def in_minute_def)
  then show ?thesis
    using a b f by (simp add: check_req_def CheckBillingEligibility_def demo_gate_req_def IsSubscriptionType_def)
qed



subsection \<open>The check decides as the tables say\<close>

text \<open>
  The reference: what the tables say of a request. The cache keeps the start of a rate-limit window in whole seconds, so
  with Redis the age of a window is taken from there.
\<close>

definition subscription_mode :: "gw_group option \<Rightarrow> user_sub option \<Rightarrow> bool" where
  "subscription_mode grp s \<longleftrightarrow> s \<noteq> None \<and> (case grp of Some g \<Rightarrow> IsSubscriptionType g | None \<Rightarrow> False)"

definition under_limits :: "gw_group \<Rightarrow> user_sub \<Rightarrow> bool" where
  "under_limits g s \<longleftrightarrow> \<not> (HasDailyLimit g \<and> fle (the (g_DailyLimitUSD g)) (us_DailyUsageUSD s))
     \<and> \<not> (HasWeeklyLimit g \<and> fle (the (g_WeeklyLimitUSD g)) (us_WeeklyUsageUSD s))
     \<and> \<not> (HasMonthlyLimit g \<and> fle (the (g_MonthlyLimitUSD g)) (us_MonthlyUsageUSD s))"

definition funds_cover :: "gate_env \<Rightarrow> int64 \<Rightarrow> gw_group option \<Rightarrow> user_sub option \<Rightarrow> gate_db \<Rightarrow> bool" where
  "funds_cover env u grp s db =
     (if subscription_mode grp s
      then case find (\<lambda>r. sub_of u (g_ID (the grp)) r \<and> us_Status r = SubscriptionStatusActive \<and> After (us_ExpiresAt r) (ge_now env))
             (sd_rows (ss_db (rd_subs (gd_main db)))) of None \<Rightarrow> False | Some r \<Rightarrow> under_limits (the grp) r
      else case user_by_id u (gd_main db) of None \<Rightarrow> False | Some a \<Rightarrow> \<not> fle (ua_Balance a) (Fin 0))"

definition seen_usage :: "gate_env \<Rightarrow> duration \<Rightarrow> f64 \<Rightarrow> time option \<Rightarrow> f64" where
  "seen_usage env len usage st =
     effective_usage (ge_now env) len usage (if ge_cache env then start_of_unix (unix_or_zero st) else st)"

definition rates_allow :: "gate_env \<Rightarrow> api_key option \<Rightarrow> gate_db \<Rightarrow> bool" where
  "rates_allow env key db = (case key of None \<Rightarrow> True | Some k \<Rightarrow>
     (case find (\<lambda>r. ak_ID r = ak_ID k) (gd_keys db) of None \<Rightarrow> True | Some r \<Rightarrow>
        \<not> (flt (Fin 0) (ak_RateLimit5h k) \<and> fle (ak_RateLimit5h k) (seen_usage env RateLimitWindow5h (ak_Usage5h r) (ak_Window5hStart r)))
        \<and> \<not> (flt (Fin 0) (ak_RateLimit1d k) \<and> fle (ak_RateLimit1d k) (seen_usage env RateLimitWindow1d (ak_Usage1d r) (ak_Window1dStart r)))
        \<and> \<not> (flt (Fin 0) (ak_RateLimit7d k) \<and> fle (ak_RateLimit7d k) (seen_usage env RateLimitWindow7d (ak_Usage7d r) (ak_Window7dStart r)))))"

text \<open>Nothing of the user, the group or the key is cached, or there is no Redis.\<close>

definition cold :: "gate_env \<Rightarrow> int64 \<Rightarrow> api_key option \<Rightarrow> gw_group option \<Rightarrow> gate_state \<Rightarrow> bool" where
  "cold env u key grp st \<longleftrightarrow> ge_cache env \<longrightarrow>
     live_entry (ge_now env) (gc_balance (ga_cache st) u) = None
     \<and> (\<forall>g. grp = Some g \<longrightarrow> live_entry (ge_now env) (gc_sub (ga_cache st) (u, g_ID g)) = None)
     \<and> (\<forall>k. key = Some k \<longrightarrow> live_entry (ge_now env) (gc_rate (ga_cache st) (ak_ID k)) = None)"

lemma evaluateRateLimits_ok: "fst (evaluateRateLimits env k d st) = Inr () \<longleftrightarrow>
    \<not> (flt (Fin 0) (ak_RateLimit5h k) \<and> fle (ak_RateLimit5h k) (rl_EffectiveUsage5h (ge_now env) d))
    \<and> \<not> (flt (Fin 0) (ak_RateLimit1d k) \<and> fle (ak_RateLimit1d k) (rl_EffectiveUsage1d (ge_now env) d))
    \<and> \<not> (flt (Fin 0) (ak_RateLimit7d k) \<and> fle (ak_RateLimit7d k) (rl_EffectiveUsage7d (ge_now env) d))"
  by (simp add: evaluateRateLimits_def rl_usage_defs effective_usage_def Let_def)

lemma checkAPIKeyRateLimits_cold:
  assumes "cold env u (Some k) grp st" "ge_fault env GRate = NoFault" "ge_fault env GRateDB = NoFault" "ge_loader env"
  shows "fst (checkAPIKeyRateLimits env k db st) = Inr () \<longleftrightarrow> rates_allow env (Some k) db"
  using assms
  by (auto simp: checkAPIKeyRateLimits_def cold_def rates_allow_def GetRateLimitData_def cache_GetAPIKeyRateLimit_def
      entry_found_def evaluateRateLimits_ok rl_usage_defs seen_usage_def data_of_cache_def cache_of_data_def split: option.splits)

lemma no_limits_allow: "\<not> HasRateLimits k \<Longrightarrow> rates_allow env (Some k) db"
  by (auto simp: HasRateLimits_def rates_allow_def split: option.splits)

lemma checkBalance_cold:
  assumes "cold env u key grp st" "ge_fault env GBalance = NoFault" "ge_fault env GUser = NoFault"
  shows "fst (checkBalanceEligibility env u db st) = Inr () \<longleftrightarrow>
    (case user_by_id u (gd_main db) of None \<Rightarrow> False | Some a \<Rightarrow> \<not> fle (ua_Balance a) (Fin 0))"
  using assms
  by (auto simp: checkBalanceEligibility_def GetUserBalance_def cold_def cache_GetUserBalance_def entry_found_def
      getUserBalanceFromDB_def user_GetByID_def found_def lookup_failed_def split: option.splits sum.splits)

lemma checkSubscription_answer: "fst (checkSubscriptionEligibility env u g db st) = (case fst (GetSubscriptionStatus env u (g_ID g) db st) of
    Inl err \<Rightarrow> Inl (EApp (WithCause ErrBillingServiceUnavailable (Some err)))
  | Inr d \<Rightarrow> (case subscription_verdict (ge_now env) g d of Some err \<Rightarrow> Inl (EApp err) | None \<Rightarrow> Inr ()))"
  by (simp add: checkSubscriptionEligibility_def lookup_failed_def split: prod.split sum.split option.split)

lemma checkSubscription_cold:
  assumes "cold env u key (Some g) st" "ge_fault env GSub = NoFault" "ge_fault env GSubDB = NoFault"
  shows "fst (checkSubscriptionEligibility env u g db st) = Inr () \<longleftrightarrow>
    (case find (\<lambda>r. sub_of u (g_ID g) r \<and> us_Status r = SubscriptionStatusActive \<and> After (us_ExpiresAt r) (ge_now env))
       (sd_rows (ss_db (rd_subs (gd_main db)))) of None \<Rightarrow> False | Some r \<Rightarrow> under_limits g r)"
proof (cases "find (\<lambda>r. sub_of u (g_ID g) r \<and> us_Status r = SubscriptionStatusActive \<and> After (us_ExpiresAt r) (ge_now env))
       (sd_rows (ss_db (rd_subs (gd_main db))))")
  case None
  then have "fst (GetSubscriptionStatus env u (g_ID g) db st) = Inl (EWrap ''get subscription'' (translate_not_found ErrSubscriptionNotFound))"
    using assms by (simp add: GetSubscriptionStatus_def cold_def cache_GetSubscriptionCache_def getSubscriptionFromDB_def
        GetActiveByUserIDAndGroupID_def found_def)
  then show ?thesis using None by (simp add: checkSubscription_answer)
next
  case (Some r)
  then have r: "us_Status r = SubscriptionStatusActive" "ge_now env < us_ExpiresAt r" by (auto dest: find_SomeD)
  have "fst (GetSubscriptionStatus env u (g_ID g) db st) = Inr \<lparr>sc_Status = us_Status r, sc_ExpiresAt = us_ExpiresAt r,
      sc_DailyUsage = us_DailyUsageUSD r, sc_WeeklyUsage = us_WeeklyUsageUSD r, sc_MonthlyUsage = us_MonthlyUsageUSD r,
      sc_Version = us_UpdatedAt r div Second\<rparr>"
    using assms Some by (simp add: GetSubscriptionStatus_def cold_def cache_GetSubscriptionCache_def getSubscriptionFromDB_def
        GetActiveByUserIDAndGroupID_def)
  then show ?thesis
    using Some r by (auto simp: checkSubscription_answer subscription_verdict_def under_limits_def)
qed


text \<open>What the earlier steps leave for the later ones.\<close>

lemma cold_later: "cold env u key grp st \<Longrightarrow> gc_balance (ga_cache st') = gc_balance (ga_cache st) \<Longrightarrow>
    gc_sub (ga_cache st') = gc_sub (ga_cache st) \<Longrightarrow> gc_rate (ga_cache st') = gc_rate (ga_cache st) \<Longrightarrow> cold env u key grp st'"
  by (simp add: cold_def)

lemma enqueue_cache [simp]: "ga_cache (snd (enqueueCacheWrite task st)) = ga_cache st"
  by (simp add: enqueueCacheWrite_def)

lemma checkBalance_cache: "ga_cache (snd (checkBalanceEligibility env u db st)) = ga_cache st"
  by (auto simp: checkBalanceEligibility_def GetUserBalance_def lookup_failed_def with_breaker_def split: sum.split)

lemma checkSubscription_cache: "ga_cache (snd (checkSubscriptionEligibility env u g db st)) = ga_cache st"
  by (auto simp: checkSubscriptionEligibility_def GetSubscriptionStatus_def lookup_failed_def with_breaker_def split: sum.split)

lemma ask_breaker_cache: "ask_breaker env st = (ok, st') \<Longrightarrow> ga_cache st' = ga_cache st"
  by (auto simp: ask_breaker_def split: option.splits prod.splits)

definition funds_check ::
    "gate_env \<Rightarrow> int64 \<Rightarrow> gw_group option \<Rightarrow> user_sub option \<Rightarrow> gate_db \<Rightarrow> gate_state \<Rightarrow> unit result \<times> gate_state" where
  "funds_check env u grp s db st = (if subscription_mode grp s then checkSubscriptionEligibility env u (the grp) db st
     else checkBalanceEligibility env u db st)"

definition rates_check :: "gate_env \<Rightarrow> api_key option \<Rightarrow> gate_db \<Rightarrow> gate_state \<Rightarrow> unit result \<times> gate_state" where
  "rates_check env key db st = (case key of
     Some k \<Rightarrow> if HasRateLimits k then checkAPIKeyRateLimits env k db st else (Inr (), st) | None \<Rightarrow> (Inr (), st))"

lemma check_steps: "\<not> ge_simple env \<Longrightarrow> CheckBillingEligibility env user key grp s db st =
    (case ask_breaker env st of
       (False, st1) \<Rightarrow> (Inl (EApp ErrBillingServiceUnavailable), st1)
     | (True, st1) \<Rightarrow> and_then (funds_check env (gu_ID user) grp s db st1)
         (\<lambda>_ st2. and_then (rates_check env key db st2) (\<lambda>_ st3. checkRPM env (Some user) grp db st3)))"
  by (cases "ask_breaker env st"; cases "fst (ask_breaker env st)"; cases grp; cases s)
    (simp_all add: CheckBillingEligibility_def funds_check_def rates_check_def subscription_mode_def)

lemma funds_check_cold:
  assumes "cold env u key grp st" "\<forall>c. ge_fault env c = NoFault"
  shows "fst (funds_check env u grp s db st) = Inr () \<longleftrightarrow> funds_cover env u grp s db"
proof (cases "subscription_mode grp s")
  case True
  then obtain g where g: "grp = Some g" by (cases grp) (auto simp: subscription_mode_def)
  show ?thesis using checkSubscription_cold [of env u key g st db] assms True g
    by (simp add: funds_check_def funds_cover_def split: option.split)
next
  case False
  show ?thesis using checkBalance_cold [of env u key grp st db] assms False by (simp add: funds_check_def funds_cover_def)
qed

lemma funds_check_cache: "ga_cache (snd (funds_check env u grp s db st)) = ga_cache st"
  by (simp add: funds_check_def checkBalance_cache checkSubscription_cache)

lemma rates_check_cold:
  assumes "cold env u key grp st" "\<forall>c. ge_fault env c = NoFault" "ge_loader env"
  shows "fst (rates_check env key db st) = Inr () \<longleftrightarrow> rates_allow env key db"
proof (cases key)
  case (Some k)
  then show ?thesis
    using checkAPIKeyRateLimits_cold [of env u k grp st db] no_limits_allow [of k env db] assms by (simp add: rates_check_def)
qed (simp add: rates_check_def rates_allow_def)

lemma and_then_fst_Inr: "fst (and_then r k) = Inr y \<longleftrightarrow> (\<exists>x. fst r = Inr x \<and> fst (k x (snd r)) = Inr y)"
  by (auto simp: and_then_def split: sum.split prod.split)


definition cold_gate_env :: gate_env where "cold_gate_env = demo_gate_env\<lparr>ge_rpm := False\<rparr>"



subsection \<open>A cached balance that misses a charge\<close>

text \<open>Charges that reach the cache one after the other, each before the entry the one before renewed has expired.\<close>

definition settle :: "int64 \<Rightarrow> gate_env \<times> f64 \<Rightarrow> gate_state \<Rightarrow> gate_state" where
  "settle u charge st = run_task (fst charge) (TDeductBalance u (snd charge)) st"

fun settled_in_time :: "time \<Rightarrow> (gate_env \<times> f64) list \<Rightarrow> bool" where
  "settled_in_time expire [] = True"
| "settled_in_time expire ((env, amount) # cs) \<longleftrightarrow> ge_cache env \<and> ge_fault env GWrite = NoFault \<and> ge_now env \<le> expire
     \<and> settled_in_time (ge_now env + whole_seconds (jitteredTTL (ge_jitter env))) cs"

fun entry_expires :: "time \<Rightarrow> (gate_env \<times> f64) list \<Rightarrow> time" where
  "entry_expires expire [] = expire"
| "entry_expires expire ((env, amount) # cs) = entry_expires (ge_now env + whole_seconds (jitteredTTL (ge_jitter env))) cs"

lemma settled_balance:
  assumes "gc_balance (ga_cache st) u = Some (b, expire)" "settled_in_time expire cs"
  shows "gc_balance (ga_cache (fold (settle u) cs st)) u = Some (foldl fsub b (map snd cs), entry_expires expire cs)"
  using assms
proof (induction cs arbitrary: st b expire)
  case (Cons c cs)
  obtain env amount where c: "c = (env, amount)" by (cases c)
  let ?e = "ge_now env + whole_seconds (jitteredTTL (ge_jitter env))"
  have "gc_balance (ga_cache (settle u c st)) u = Some (fsub b amount, ?e)"
    using Cons.prems by (simp add: c settle_def run_task_def DeductBalanceCache_def on_cache_def cache_DeductUserBalance_def
        deductBalanceScript_def live_entry_def)
  then show ?case using Cons.IH [of "settle u c st" "fsub b amount" ?e] Cons.prems(2) by (simp add: c)
qed simp

text \<open>
  A request reads the balance and leaves it to a worker to cache it; its own charge goes to another worker, which finishes
  first and finds nothing cached.
\<close>

definition overtaken :: "gate_env \<Rightarrow> gate_env \<Rightarrow> int64 \<Rightarrow> f64 \<Rightarrow> gate_db \<Rightarrow> gate_state \<Rightarrow> gate_state" where
  "overtaken env later u cost db st =
     (let st1 = snd (GetUserBalance env u db st);
          st2 = QueueDeductBalance env u cost st1;
          st3 = worker_takes (worker_takes st2)
      in worker_finishes later 0 (worker_finishes env 1 st3))"

lemma overtaken_balance:
  assumes "ge_cache env" "\<forall>c. ge_fault env c = NoFault" "ge_cache later" "ge_fault later GWrite = NoFault"
    and "gc_balance (ga_cache st) u = None" "ga_queue st = []" "ga_running st = []" "\<not> ga_stopped st"
    and "user_by_id u (gd_main db) = Some a"
  shows "gc_balance (ga_cache (overtaken env later u cost db st)) u
    = Some (ua_Balance a, ge_now later + whole_millis (jitteredTTL (ge_jitter later)))"
  using assms
  by (simp add: overtaken_def Let_def GetUserBalance_def cache_GetUserBalance_def live_entry_def entry_found_def
      getUserBalanceFromDB_def user_GetByID_def enqueueCacheWrite_def cacheWriteBufferSize_def QueueDeductBalance_def
      worker_takes_def cacheWriteWorkerCount_def worker_finishes_def run_task_def setBalanceCache_def on_cache_def
      cache_SetUserBalance_def DeductBalanceCache_def cache_DeductUserBalance_def deductBalanceScript_def)

text \<open>
  C37: A charge can be lost to the cached balance for good. When the worker that caches a balance a request has read is
  overtaken by the one that subtracts the request's cost, the cached balance does not show that cost. Every later charge
  renews the entry's life, so as long as the user's charges come before the entry expires, the check goes by the old balance
  less the later costs, and never reads the balance in the database again, whatever it is.
\<close>
theorem overtaken_charge_never_shows:
  assumes "ge_cache env" "\<forall>c. ge_fault env c = NoFault" "ge_cache later" "ge_fault later GWrite = NoFault"
    and "gc_balance (ga_cache st) u = None" "ga_queue st = []" "ga_running st = []" "\<not> ga_stopped st"
    and "user_by_id u (gd_main db) = Some a"
    and "settled_in_time (ge_now later + whole_millis (jitteredTTL (ge_jitter later))) cs"
    and "ge_cache now_env" "ge_fault now_env GBalance = NoFault"
    and "ge_now now_env \<le> entry_expires (ge_now later + whole_millis (jitteredTTL (ge_jitter later))) cs"
  shows "fst (GetUserBalance now_env u db' (fold (settle u) cs (overtaken env later u cost db st))) = Inr (foldl fsub (ua_Balance a) (map snd cs))
    \<and> (fst (checkBalanceEligibility now_env u db' (fold (settle u) cs (overtaken env later u cost db st))) = Inr ()
         \<longleftrightarrow> \<not> fle (foldl fsub (ua_Balance a) (map snd cs)) (Fin 0))"
proof -
  let ?st = "fold (settle u) cs (overtaken env later u cost db st)"
  have "live_entry (ge_now now_env) (gc_balance (ga_cache ?st) u) = Some (foldl fsub (ua_Balance a) (map snd cs))"
    using settled_balance [OF overtaken_balance [OF assms(1-9)] assms(10), of cost] assms(13)
    by (simp add: live_entry_def)
  then show ?thesis
    using assms(11,12) cached_balance_check [of now_env ?st u _ db']
    by (simp_all add: GetUserBalance_def cache_GetUserBalance_def entry_found_def)
qed

text \<open>A balance of 3 and a first charge of 3: with the account at zero, the check still lets requests worth 2 more through.\<close>

theorem overtaken_charge_never_shows_witness:
  "fst (checkBalanceEligibility demo_gate_env 5 demo_gate_db
     (fold (settle 5) [(demo_gate_env, Fin 1), (demo_gate_env, Fin 1)]
       (overtaken demo_gate_env demo_gate_env 5 (Fin 3) demo_gate_db (NewBillingCacheService demo_breaker_cfg empty_gate_cache)))) = Inr ()"
proof -
  let ?st = "NewBillingCacheService demo_breaker_cfg empty_gate_cache" and ?cs = "[(demo_gate_env, Fin 1), (demo_gate_env, Fin 1)]"
  have e: "ge_cache demo_gate_env" "\<forall>c. ge_fault demo_gate_env c = NoFault" by (simp_all add: demo_gate_env_def)
  have s: "gc_balance (ga_cache ?st) 5 = None" "ga_queue ?st = []" "ga_running ?st = []" "\<not> ga_stopped ?st"
    by (simp_all add: NewBillingCacheService_def empty_gate_cache_def)
  have u: "user_by_id 5 (gd_main demo_gate_db) = Some (demo_users ! 0)"
    by (simp add: demo_gate_db_def demo_redeem_def demo_users_def user_by_id_def)
  have t: "settled_in_time (ge_now demo_gate_env + whole_millis (jitteredTTL (ge_jitter demo_gate_env))) ?cs"
    "ge_now demo_gate_env \<le> entry_expires (ge_now demo_gate_env + whole_millis (jitteredTTL (ge_jitter demo_gate_env))) ?cs"
    by (simp_all add: demo_gate_env_def jitteredTTL_def billingCacheTTL_def billingCacheJitter_def whole_millis_def
        whole_seconds_def duration_defs)
  have "fsub (Fin 3) (Fin 1) = Fin 2" "fsub (Fin 2) (Fin 1) = Fin 1"
    using f64_of_int_small [of 2] f64_of_int_small [of 1] by (simp_all add: fsub_def f64_of_int_def)
  then have p: "\<not> fle (foldl fsub (ua_Balance (demo_users ! 0)) (map snd ?cs)) (Fin 0)" by (simp add: demo_users_def)
  note never = overtaken_charge_never_shows [OF e(1,2) e(1) e(2) [THEN spec] s u t(1) e(1) e(2) [THEN spec] t(2)]
  show ?thesis by (rule iffD2 [OF never [THEN conjunct2] p])
qed


subsection \<open>Missing rows and the breaker\<close>

text \<open>A request whose user, or whose subscription, is not in the tables; every store works.\<close>

definition row_missing :: "gate_req \<Rightarrow> bool" where
  "row_missing r \<longleftrightarrow> \<not> ge_simple (gr_env r) \<and> (\<forall>c. ge_fault (gr_env r) c = NoFault) \<and> gr_before r = id
     \<and> (if subscription_mode (gr_group r) (gr_sub r)
        then find (\<lambda>s. sub_of (gu_ID (gr_user r)) (g_ID (the (gr_group r))) s \<and> us_Status s = SubscriptionStatusActive
               \<and> After (us_ExpiresAt s) (ge_now (gr_env r))) (sd_rows (ss_db (rd_subs (gd_main (gr_db r))))) = None
        else user_by_id (gu_ID (gr_user r)) (gd_main (gr_db r)) = None)"

definition nothing_cached :: "gate_state \<Rightarrow> bool" where
  "nothing_cached st \<longleftrightarrow> (\<forall>u. gc_balance (ga_cache st) u = None) \<and> (\<forall>k. gc_sub (ga_cache st) k = None)"

lemma missing_row_reported:
  assumes "row_missing r" "nothing_cached st"
  shows "funds_check (gr_env r) (gu_ID (gr_user r)) (gr_group r) (gr_sub r) (gr_db r) st
    = (Inl (EApp (WithCause ErrBillingServiceUnavailable (Some
         (if subscription_mode (gr_group r) (gr_sub r) then EWrap ''get subscription'' (translate_not_found ErrSubscriptionNotFound)
          else EWrap ''get user balance'' (translate_not_found ErrUserNotFound))))),
       with_breaker (OnFailure (ge_now (gr_env r))) st)"
  using assms
  by (cases "subscription_mode (gr_group r) (gr_sub r)"; cases "ge_cache (gr_env r)")
    (simp_all add: row_missing_def nothing_cached_def funds_check_def checkSubscriptionEligibility_def GetSubscriptionStatus_def
      cache_GetSubscriptionCache_def live_entry_def getSubscriptionFromDB_def GetActiveByUserIDAndGroupID_def found_def
      checkBalanceEligibility_def GetUserBalance_def cache_GetUserBalance_def entry_found_def getUserBalanceFromDB_def
      user_GetByID_def lookup_failed_def)

text \<open>Closed with so many failures, or open since a time not before \<open>t0\<close>.\<close>

definition counting :: "breaker \<Rightarrow> time \<Rightarrow> int \<Rightarrow> gate_state \<Rightarrow> bool" where
  "counting b0 t0 n st \<longleftrightarrow> (\<exists>b. ga_breaker st = Some b \<and> same_settings b0 b
     \<and> (br_state b = BreakerClosed \<and> n \<le> br_failures b \<and> br_failures b < br_failureThreshold b
        \<or> br_state b = BreakerOpen \<and> t0 \<le> br_openedAt b))"

lemma Sub_before: "t0 \<le> opened \<Longrightarrow> t - t0 < d \<Longrightarrow> 0 < d \<Longrightarrow> d \<le> max_int64 \<Longrightarrow> Sub t opened < d"
  by (auto simp: Sub_def min_int64_def max_int64_def)

lemma open_breaker_refuses:
  assumes "ga_breaker st = Some b" "br_state b = BreakerOpen" "same_settings b0 b" "fresh_breaker b0" "t0 \<le> br_openedAt b"
    and "ge_now env - t0 < br_resetTimeout b0"
  shows "ask_breaker env st = (False, st)"
  using assms Sub_before [OF assms(5,6)]
  by (simp add: ask_breaker_def Allow_def same_settings_def fresh_breaker_def)

lemma missing_row_counted:
  assumes "row_missing r" "nothing_cached st" "counting b0 t0 n st" "fresh_breaker b0"
    and "t0 \<le> ge_now (gr_env r)" "ge_now (gr_env r) - t0 < br_resetTimeout b0"
  shows "nothing_cached (snd (check_req r st)) \<and> counting b0 t0 (n + 1) (snd (check_req r st)) \<and> fst (check_req r st) \<noteq> Inr ()"
proof -
  let ?now = "ge_now (gr_env r)"
  have r: "\<not> ge_simple (gr_env r)" "gr_before r = id" using assms(1) by (auto simp: row_missing_def)
  from assms(3) obtain b where b: "ga_breaker st = Some b" "same_settings b0 b"
    and or: "br_state b = BreakerClosed \<and> n \<le> br_failures b \<and> br_failures b < br_failureThreshold b
      \<or> br_state b = BreakerOpen \<and> t0 \<le> br_openedAt b" by (auto simp: counting_def)
  show ?thesis
    using or
  proof
    assume o: "br_state b = BreakerOpen \<and> t0 \<le> br_openedAt b"
    then have "ask_breaker (gr_env r) st = (False, st)" using open_breaker_refuses [OF b(1) _ b(2) assms(4) _ assms(6)] by simp
    then show ?thesis using r o b assms(2) by (auto simp: check_req_def check_steps counting_def)
  next
    assume c: "br_state b = BreakerClosed \<and> n \<le> br_failures b \<and> br_failures b < br_failureThreshold b"
    then have a: "ask_breaker (gr_env r) st = (True, st)" using closed_breaker_asked [OF b(1)] by simp
    have s: "snd (check_req r st) = with_breaker (OnFailure ?now) st" "fst (check_req r st) \<noteq> Inr ()"
      using r a missing_row_reported [OF assms(1,2)] by (simp_all add: check_req_def check_steps)
    have "counting b0 t0 (n + 1) (with_breaker (OnFailure ?now) st)"
      using c b assms(5) by (auto simp: counting_def with_breaker_def OnFailure_def open_breaker_def Let_def same_settings_def)
    then show ?thesis using s assms(2) by (simp add: nothing_cached_def with_breaker_def)
  qed
qed

lemma missing_rows_counted:
  assumes "\<forall>r \<in> set rs. row_missing r \<and> t0 \<le> ge_now (gr_env r) \<and> ge_now (gr_env r) - t0 < br_resetTimeout b0"
    and "nothing_cached st" "counting b0 t0 n st" "fresh_breaker b0"
  shows "counting b0 t0 (n + int (length rs)) (snd (check_all rs st))"
  using assms
proof (induction rs arbitrary: st n)
  case (Cons r rs)
  obtain res st1 where r: "check_req r st = (res, st1)" by (cases "check_req r st")
  have s: "nothing_cached st1" "counting b0 t0 (n + 1) st1"
    using missing_row_counted [of r st b0 t0 n] Cons.prems r by auto
  have "counting b0 t0 ((n + 1) + int (length rs)) (snd (check_all rs st1))"
    using Cons.IH [OF _ s Cons.prems(4)] Cons.prems(1) by simp
  moreover have "snd (check_all (r # rs) st) = snd (check_all rs st1)" using r by (simp split: prod.split)
  ultimately show ?case by (simp add: algebra_simps)
qed simp

text \<open>
  C38: A row that is missing counts as a failure of the billing service. When as many requests as the breaker's threshold
  come from users or for subscriptions that are not in the tables, with every store working, then every request of anybody
  else is refused until the reset timeout has passed, however good its balance or subscription.
\<close>
theorem missing_rows_shut_out_everybody:
  assumes "newBillingCircuitBreaker cfg = Some b0" "ga_breaker st = Some b0" "nothing_cached st"
    and "\<forall>r \<in> set rs. row_missing r \<and> t0 \<le> ge_now (gr_env r) \<and> ge_now (gr_env r) - t0 < br_resetTimeout b0"
    and "br_failureThreshold b0 \<le> int (length rs)"
    and "\<not> ge_simple env" "ge_now env - t0 < br_resetTimeout b0"
  shows "fst (CheckBillingEligibility env user key grp s db (snd (check_all rs st))) = Inl (EApp ErrBillingServiceUnavailable)"
proof -
  have f: "fresh_breaker b0" using assms(1) by (rule fresh_newBillingCircuitBreaker)
  have "counting b0 t0 0 st" using f assms(2) by (simp add: counting_def fresh_breaker_def same_settings_def)
  from missing_rows_counted [OF assms(4,3) this f] obtain b where "ga_breaker (snd (check_all rs st)) = Some b"
      "same_settings b0 b" "br_state b = BreakerOpen" "t0 \<le> br_openedAt b"
    using assms(5) by (auto simp: counting_def same_settings_def)
  then have "ask_breaker env (snd (check_all rs st)) = (False, snd (check_all rs st))"
    using open_breaker_refuses [OF _ _ _ f _ assms(7)] by simp
  then show ?thesis using assms(6) by (simp add: check_steps)
qed

definition gone_req :: gate_req where
  "gone_req = (demo_gate_req 2)\<lparr>gr_user := \<lparr>gu_ID = 99, gu_RPMLimit = 0, gu_UserGroupRPMOverride = None\<rparr>\<rparr>"

theorem missing_rows_shut_out_everybody_witness:
  "fst (CheckBillingEligibility cold_gate_env (gr_user (demo_gate_req 2)) (Some demo_key) None None demo_gate_db
      (snd (check_all [gone_req, gone_req] (NewBillingCacheService demo_breaker_cfg empty_gate_cache))))
    = Inl (EApp ErrBillingServiceUnavailable)"
proof -
  let ?st = "NewBillingCacheService demo_breaker_cfg empty_gate_cache"
  have st: "ga_breaker ?st = Some demo_breaker" "nothing_cached ?st"
    by (simp_all add: NewBillingCacheService_def demo_breaker nothing_cached_def empty_gate_cache_def)
  have b: "br_failureThreshold demo_breaker = 2" "br_resetTimeout demo_breaker = 30 * Second" by code_simp+
  have "row_missing gone_req"
    by (simp add: row_missing_def gone_req_def demo_gate_defs subscription_mode_def demo_redeem_def demo_users_def user_by_id_def)
  moreover have "ge_now (gr_env gone_req) = 60 * Second" "ge_now cold_gate_env = 60 * Second" "\<not> ge_simple cold_gate_env"
    by (simp_all add: gone_req_def demo_gate_req_def cold_gate_env_def demo_gate_env_def)
  ultimately show ?thesis
    using missing_rows_shut_out_everybody [OF demo_breaker st, of "[gone_req, gone_req]" "60 * Second" cold_gate_env] b
    by (simp add: Second_def)
qed

end
