(* ===== verification/Promo.thy ===== *)
theory Promo
  imports ApiKey Channel
begin

text \<open>
  Promo codes: \<open>internal/service/promo_code.go\<close>, \<open>internal/service/promo_service.go\<close> and the statements of
  \<open>internal/repository/promo_code_repo.go\<close>. A code matches by \<open>CodeEqualFold\<close>, the database's comparison without case:
  \<open>pe_fold\<close>. \<open>ApplyPromoCode\<close> works in a transaction that locks the code's row, so calls on one code run one after the
  other; \<open>pe_others\<close> is what other transactions committed while a call waited for the lock, or between the read and the write
  of an edit. One call reads the clock once. The listings are left out.
\<close>

subsection \<open>Data\<close>

definition PromoCodeStatusActive :: gostring where "PromoCodeStatusActive = ''active''"
definition PromoCodeStatusDisabled :: gostring where "PromoCodeStatusDisabled = ''disabled''"

definition ErrPromoCodeNotFound :: app_error where
  "ErrPromoCodeNotFound = NotFound ''PROMO_CODE_NOT_FOUND'' ''promo code not found''"
definition ErrPromoCodeExpired :: app_error where
  "ErrPromoCodeExpired = BadRequest ''PROMO_CODE_EXPIRED'' ''promo code has expired''"
definition ErrPromoCodeDisabled :: app_error where
  "ErrPromoCodeDisabled = BadRequest ''PROMO_CODE_DISABLED'' ''promo code is disabled''"
definition ErrPromoCodeMaxUsed :: app_error where
  "ErrPromoCodeMaxUsed = BadRequest ''PROMO_CODE_MAX_USED'' ''promo code has reached maximum uses''"
definition ErrPromoCodeAlreadyUsed :: app_error where
  "ErrPromoCodeAlreadyUsed = Conflict ''PROMO_CODE_ALREADY_USED'' ''you have already used this promo code''"
definition ErrPromoCodeInvalid :: app_error where
  "ErrPromoCodeInvalid = BadRequest ''PROMO_CODE_INVALID'' ''invalid promo code''"

record promo_code =
  pc_ID :: int64
  pc_Code :: gostring
  pc_BonusAmount :: f64
  pc_MaxUses :: int
  pc_UsedCount :: int
  pc_Status :: gostring
  pc_ExpiresAt :: "time option"
  pc_Notes :: gostring
  pc_CreatedAt :: time
  pc_UpdatedAt :: time

record promo_usage =
  pu_ID :: int64
  pu_PromoCodeID :: int64
  pu_UserID :: int64
  pu_BonusAmount :: f64
  pu_UsedAt :: time

record create_promo =
  cp_Code' :: gostring
  cp_BonusAmount :: f64
  cp_MaxUses :: int
  cp_ExpiresAt :: "time option"
  cp_Notes :: gostring

record update_promo =
  up_Code :: "gostring option"
  up_BonusAmount :: "f64 option"
  up_MaxUses :: "int option"
  up_Status :: "gostring option"
  up_ExpiresAt :: "time option"
  up_Notes :: "gostring option"

record promo_db =
  pd_main :: redeem_db
  pd_codes :: "promo_code list"
  pd_usages :: "promo_usage list"
  pd_next :: int64
  pd_next_usage :: int64
  pd_auth_dropped :: "int64 list"
  pd_balance_dropped :: "int64 list"

datatype promo_call = PBegin | PGet | PUsage | PBalance | PCreateUsage | PIncrement | PCommit | PWrite

record promo_env =
  pe_now :: time
  pe_fault :: "promo_call \<Rightarrow> fault"
  pe_others :: "promo_db \<Rightarrow> promo_db"
  pe_fold :: "gostring \<Rightarrow> gostring \<Rightarrow> bool"
  pe_uni :: "gostring \<Rightarrow> gostring"
  pe_num_add :: "f64 \<Rightarrow> f64 \<Rightarrow> f64"
  pe_random :: "nat list result"
  pe_invalidator :: bool
  pe_billing :: bool

definition promo_IsExpired :: "time \<Rightarrow> promo_code \<Rightarrow> bool" where
  "promo_IsExpired now p = (case pc_ExpiresAt p of None \<Rightarrow> False | Some t \<Rightarrow> After now t)"

definition promo_CanUse :: "time \<Rightarrow> promo_code \<Rightarrow> bool" where
  "promo_CanUse now p =
     (if pc_Status p \<noteq> PromoCodeStatusActive then False
      else if (case pc_ExpiresAt p of None \<Rightarrow> False | Some t \<Rightarrow> After now t) then False
      else if 0 < pc_MaxUses p \<and> pc_MaxUses p \<le> pc_UsedCount p then False
      else True)"

definition validatePromoCodeStatus :: "time \<Rightarrow> promo_code \<Rightarrow> app_error option" where
  "validatePromoCodeStatus now p =
     (if \<not> promo_CanUse now p then
        (if promo_IsExpired now p then Some ErrPromoCodeExpired
         else if pc_Status p = PromoCodeStatusDisabled then Some ErrPromoCodeDisabled
         else if 0 < pc_MaxUses p \<and> pc_MaxUses p \<le> pc_UsedCount p then Some ErrPromoCodeMaxUsed
         else Some ErrPromoCodeInvalid)
      else None)"

subsection \<open>Statements\<close>

text \<open>ent's \<open>Only\<close>: exactly one row.\<close>

definition only_row :: "('r \<Rightarrow> bool) \<Rightarrow> 'r list \<Rightarrow> 'r option result" where
  "only_row P rows = (case filter P rows of
     [] \<Rightarrow> Inr None | [r] \<Rightarrow> Inr (Some r) | _ \<Rightarrow> Inl (EPlain ''ent: not singular''))"

definition promo_found :: "promo_code option result \<Rightarrow> promo_code result" where
  "promo_found x = (case x of
     Inl err \<Rightarrow> Inl err | Inr None \<Rightarrow> Inl (EApp ErrPromoCodeNotFound) | Inr (Some p) \<Rightarrow> Inr p)"

definition promo_GetByID :: "fault \<Rightarrow> int64 \<Rightarrow> promo_db \<Rightarrow> promo_code result" where
  "promo_GetByID f i d = read_fault f (promo_found (only_row (\<lambda>p. pc_ID p = i) (pd_codes d)))"

definition promo_GetByCode :: "fault \<Rightarrow> (gostring \<Rightarrow> gostring \<Rightarrow> bool) \<Rightarrow> gostring \<Rightarrow> promo_db \<Rightarrow> promo_code result" where
  "promo_GetByCode f eqf c d = read_fault f (promo_found (only_row (\<lambda>p. eqf (pc_Code p) c) (pd_codes d)))"

text \<open>The same query with \<open>FOR UPDATE\<close>.\<close>

definition GetByCodeForUpdate :: "fault \<Rightarrow> (gostring \<Rightarrow> gostring \<Rightarrow> bool) \<Rightarrow> gostring \<Rightarrow> promo_db \<Rightarrow> promo_code result" where
  "GetByCodeForUpdate f eqf c d = promo_GetByCode f eqf c d"

text \<open>The validators ent runs before it writes, and the unique index on the code.\<close>

definition promo_writable :: "promo_code \<Rightarrow> bool" where
  "promo_writable p \<longleftrightarrow> pc_Code p \<noteq> [] \<and> length (pc_Code p) \<le> 32 \<and> length (pc_Status p) \<le> 20"

definition promo_Create :: "fault \<Rightarrow> time \<Rightarrow> promo_code \<Rightarrow> promo_db \<Rightarrow> promo_code result \<times> promo_db" where
  "promo_Create f now p d =
     (if \<not> promo_writable p then (Inl (EPlain ''ent: validator failed''), d)
      else with_fault_err f (\<lambda>d.
        if \<exists>q \<in> set (pd_codes d). pc_Code q = pc_Code p then (Inl unique_violation, d)
        else let row = p\<lparr>pc_ID := pd_next d, pc_CreatedAt := now, pc_UpdatedAt := now\<rparr>
             in (Inr row, d\<lparr>pd_codes := pd_codes d @ [row], pd_next := pd_next d + 1\<rparr>)) d)"

text \<open>Every column but the id and the time of creation is written from the caller's record.\<close>

definition promo_row :: "time \<Rightarrow> promo_code \<Rightarrow> promo_code \<Rightarrow> promo_code" where
  "promo_row now p q = p\<lparr>pc_ID := pc_ID q, pc_CreatedAt := pc_CreatedAt q, pc_UpdatedAt := now\<rparr>"

definition promo_Update :: "fault \<Rightarrow> time \<Rightarrow> promo_code \<Rightarrow> promo_db \<Rightarrow> promo_code result \<times> promo_db" where
  "promo_Update f now p d =
     (if \<not> promo_writable p then (Inl (EPlain ''ent: validator failed''), d)
      else with_fault_err f (\<lambda>d.
        if \<exists>q \<in> set (pd_codes d). pc_Code q = pc_Code p \<and> pc_ID q \<noteq> pc_ID p then (Inl unique_violation, d)
        else case sql_update_one (EApp ErrPromoCodeNotFound) (\<lambda>q. pc_ID q = pc_ID p) (promo_row now p) (pd_codes d) of
          (Inl err, rows) \<Rightarrow> (Inl err, d\<lparr>pd_codes := rows\<rparr>)
        | (Inr _, rows) \<Rightarrow> (Inr (p\<lparr>pc_UpdatedAt := now\<rparr>), d\<lparr>pd_codes := rows\<rparr>)) d)"

text \<open>The usages of a code go with it (\<open>ON DELETE CASCADE\<close>).\<close>

definition promo_Delete :: "fault \<Rightarrow> int64 \<Rightarrow> promo_db \<Rightarrow> unit result \<times> promo_db" where
  "promo_Delete f i = with_fault f (\<lambda>d.
     ((), d\<lparr>pd_codes := filter (\<lambda>p. pc_ID p \<noteq> i) (pd_codes d),
            pd_usages := filter (\<lambda>x. pu_PromoCodeID x \<noteq> i) (pd_usages d)\<rparr>))"

definition usage_of :: "int64 \<Rightarrow> int64 \<Rightarrow> promo_usage \<Rightarrow> bool" where
  "usage_of i u x \<longleftrightarrow> pu_PromoCodeID x = i \<and> pu_UserID x = u"

text \<open>The pair of code and user is unique, and both have to exist.\<close>

definition CreateUsage :: "fault \<Rightarrow> promo_usage \<Rightarrow> promo_db \<Rightarrow> unit result \<times> promo_db" where
  "CreateUsage f x = with_fault_err f (\<lambda>d.
     if \<exists>y \<in> set (pd_usages d). usage_of (pu_PromoCodeID x) (pu_UserID x) y then (Inl unique_violation, d)
     else if user_by_id (pu_UserID x) (pd_main d) = None \<or> \<not> (\<exists>p \<in> set (pd_codes d). pc_ID p = pu_PromoCodeID x)
     then (Inl (EPlain ''violates foreign key constraint''), d)
     else (Inr (), d\<lparr>pd_usages := pd_usages d @ [x\<lparr>pu_ID := pd_next_usage d\<rparr>], pd_next_usage := pd_next_usage d + 1\<rparr>))"

definition GetUsageByPromoCodeAndUser :: "fault \<Rightarrow> int64 \<Rightarrow> int64 \<Rightarrow> promo_db \<Rightarrow> promo_usage option result" where
  "GetUsageByPromoCodeAndUser f i u d = read_fault f (only_row (usage_of i u) (pd_usages d))"

definition IncrementUsedCount :: "fault \<Rightarrow> time \<Rightarrow> int64 \<Rightarrow> promo_db \<Rightarrow> unit result \<times> promo_db" where
  "IncrementUsedCount f now i = with_fault_err f (\<lambda>d.
     case sql_update_one ent_not_found (\<lambda>p. pc_ID p = i) (\<lambda>p. p\<lparr>pc_UsedCount := pc_UsedCount p + 1, pc_UpdatedAt := now\<rparr>) (pd_codes d) of
       (res, rows) \<Rightarrow> (res, d\<lparr>pd_codes := rows\<rparr>))"

definition on_main :: "(redeem_db \<Rightarrow> 'a result \<times> redeem_db) \<Rightarrow> promo_db \<Rightarrow> 'a result \<times> promo_db" where
  "on_main stmt d = (case stmt (pd_main d) of (res, m) \<Rightarrow> (res, d\<lparr>pd_main := m\<rparr>))"

subsection \<open>The service\<close>

definition ValidatePromoCode :: "promo_env \<Rightarrow> gostring \<Rightarrow> promo_db \<Rightarrow> promo_code option result" where
  "ValidatePromoCode env code d =
     (let c = trim_space code in
      if c = [] then Inr None
      else case promo_GetByCode (pe_fault env PGet) (pe_fold env) c d of
        Inl err \<Rightarrow> Inl err
      | Inr p \<Rightarrow> (case validatePromoCodeStatus (pe_now env) p of Some err \<Rightarrow> Inl (EApp err) | None \<Rightarrow> Inr (Some p)))"

definition grant_promo :: "promo_env \<Rightarrow> int64 \<Rightarrow> promo_code \<Rightarrow> promo_db \<Rightarrow> f64 result \<times> promo_db" where
  "grant_promo env u p d =
     and_then (wrap_err ''update user balance'' (on_main (UpdateBalance (pe_fault env PBalance) (pe_num_add env) u (pc_BonusAmount p)) d))
       (\<lambda>_ d1. and_then (wrap_err ''create usage record'' (CreateUsage (pe_fault env PCreateUsage)
            \<lparr>pu_ID = 0, pu_PromoCodeID = pc_ID p, pu_UserID = u, pu_BonusAmount = pc_BonusAmount p, pu_UsedAt = pe_now env\<rparr> d1))
         (\<lambda>_ d2. and_then (wrap_err ''increment used count'' (IncrementUsedCount (pe_fault env PIncrement) (pe_now env) (pc_ID p) d2))
           (\<lambda>_ d3. (Inr (pc_BonusAmount p), d3))))"

definition apply_body :: "promo_env \<Rightarrow> int64 \<Rightarrow> gostring \<Rightarrow> promo_db \<Rightarrow> f64 result \<times> promo_db" where
  "apply_body env u c d = (case GetByCodeForUpdate (pe_fault env PGet) (pe_fold env) c d of
     Inl err \<Rightarrow> (Inl err, d)
   | Inr p \<Rightarrow> (case validatePromoCodeStatus (pe_now env) p of
       Some err \<Rightarrow> (Inl (EApp err), d)
     | None \<Rightarrow> (case GetUsageByPromoCodeAndUser (pe_fault env PUsage) (pc_ID p) u d of
         Inl err \<Rightarrow> (Inl (EWrap ''check existing usage'' err), d)
       | Inr (Some _) \<Rightarrow> (Inl (EApp ErrPromoCodeAlreadyUsed), d)
       | Inr None \<Rightarrow> grant_promo env u p d)))"

definition invalidatePromoCaches :: "promo_env \<Rightarrow> int64 \<Rightarrow> f64 \<Rightarrow> promo_db \<Rightarrow> promo_db" where
  "invalidatePromoCaches env u bonusAmount d =
     (if feq bonusAmount (Fin 0) \<or> \<not> pe_invalidator env then d else d\<lparr>pd_auth_dropped := pd_auth_dropped d @ [u]\<rparr>)"

definition ApplyPromoCode :: "promo_env \<Rightarrow> int64 \<Rightarrow> gostring \<Rightarrow> promo_db \<Rightarrow> unit result \<times> promo_db" where
  "ApplyPromoCode env u code d =
     (let c = trim_space code in
      if c = [] then (Inr (), d)
      else case run_tx (pe_fault env PBegin) (pe_fault env PCommit) (apply_body env u c) (pe_others env d) of
        (Inl err, d1) \<Rightarrow> (Inl err, d1)
      | (Inr bonus, d1) \<Rightarrow>
          (let d2 = invalidatePromoCaches env u bonus d1
           in (Inr (), if pe_billing env then d2\<lparr>pd_balance_dropped := pd_balance_dropped d2 @ [u]\<rparr> else d2)))"

subsection \<open>Administration\<close>

definition upper_char :: "char \<Rightarrow> char" where
  "upper_char c = (let n = of_char c :: nat in if 97 \<le> n \<and> n \<le> 122 then char_of (n - 32) else c)"

function ToUpper :: "(gostring \<Rightarrow> gostring) \<Rightarrow> gostring \<Rightarrow> gostring" where
  "ToUpper uni [] = []"
| "ToUpper uni (c # s) =
     (if ascii_char c then upper_char c # ToUpper uni s
      else uni (c # takeWhile (\<lambda>x. \<not> ascii_char x) s) @ ToUpper uni (dropWhile (\<lambda>x. \<not> ascii_char x) s))"
  by pat_completeness auto
termination
  by (relation "measure (\<lambda>(_, s). length s)") (auto simp: le_imp_less_Suc length_dropWhile_le)

declare ToUpper.simps [simp del]

definition GenerateRandomCode :: "promo_env \<Rightarrow> gostring result" where
  "GenerateRandomCode env = (case pe_random env of
     Inl err \<Rightarrow> Inl (EWrap ''generate random bytes'' err) | Inr bytes \<Rightarrow> Inr (ToUpper (pe_uni env) (hex_encode bytes)))"

definition CreatePromo :: "promo_env \<Rightarrow> create_promo \<Rightarrow> promo_db \<Rightarrow> promo_code result \<times> promo_db" where
  "CreatePromo env input d =
     (case (let code = trim_space (cp_Code' input) in if code = [] then GenerateRandomCode env else Inr code) of
        Inl err \<Rightarrow> (Inl err, d)
      | Inr code \<Rightarrow> wrap_err ''create promo code'' (promo_Create (pe_fault env PWrite) (pe_now env)
          \<lparr>pc_ID = 0, pc_Code = ToUpper (pe_uni env) code, pc_BonusAmount = cp_BonusAmount input, pc_MaxUses = cp_MaxUses input,
            pc_UsedCount = 0, pc_Status = PromoCodeStatusActive, pc_ExpiresAt = cp_ExpiresAt input, pc_Notes = cp_Notes input,
            pc_CreatedAt = zero_time, pc_UpdatedAt = zero_time\<rparr> d))"

definition edited_promo :: "promo_env \<Rightarrow> update_promo \<Rightarrow> promo_code \<Rightarrow> promo_code" where
  "edited_promo env input p =
     p\<lparr>pc_Code := (case up_Code input of Some c \<Rightarrow> ToUpper (pe_uni env) (trim_space c) | None \<Rightarrow> pc_Code p),
       pc_BonusAmount := (case up_BonusAmount input of Some b \<Rightarrow> b | None \<Rightarrow> pc_BonusAmount p),
       pc_MaxUses := (case up_MaxUses input of Some m \<Rightarrow> m | None \<Rightarrow> pc_MaxUses p),
       pc_Status := (case up_Status input of Some x \<Rightarrow> x | None \<Rightarrow> pc_Status p),
       pc_ExpiresAt := (case up_ExpiresAt input of Some t \<Rightarrow> Some t | None \<Rightarrow> pc_ExpiresAt p),
       pc_Notes := (case up_Notes input of Some n \<Rightarrow> n | None \<Rightarrow> pc_Notes p)\<rparr>"

definition UpdatePromo :: "promo_env \<Rightarrow> int64 \<Rightarrow> update_promo \<Rightarrow> promo_db \<Rightarrow> promo_code result \<times> promo_db" where
  "UpdatePromo env i input d = (case promo_GetByID (pe_fault env PGet) i d of
     Inl err \<Rightarrow> (Inl err, d)
   | Inr p \<Rightarrow> wrap_err ''update promo code''
       (promo_Update (pe_fault env PWrite) (pe_now env) (edited_promo env input p) (pe_others env d)))"

definition DeletePromo :: "promo_env \<Rightarrow> int64 \<Rightarrow> promo_db \<Rightarrow> unit result \<times> promo_db" where
  "DeletePromo env i d = wrap_err ''delete promo code'' (promo_Delete (pe_fault env PWrite) i d)"

end
