(* ===== verification/PromoLaws.thy ===== *)
theory PromoLaws
  imports Promo
begin

text \<open>
  What promo codes promise: every bonus paid has its row, a user gets one code's bonus once, and a code is not used more often
  than it allows. The last part fails when an administrator's edit overlaps with a use.
\<close>

subsection \<open>One call\<close>

definition new_usage :: "promo_env \<Rightarrow> int64 \<Rightarrow> promo_code \<Rightarrow> promo_db \<Rightarrow> promo_usage" where
  "new_usage env u p d = \<lparr>pu_ID = pd_next_usage d, pu_PromoCodeID = pc_ID p, pu_UserID = u,
     pu_BonusAmount = pc_BonusAmount p, pu_UsedAt = pe_now env\<rparr>"

definition used_once_more :: "time \<Rightarrow> int64 \<Rightarrow> promo_code list \<Rightarrow> promo_code list" where
  "used_once_more now i = update_where (\<lambda>p. pc_ID p = i) (\<lambda>p. p\<lparr>pc_UsedCount := pc_UsedCount p + 1, pc_UpdatedAt := now\<rparr>)"

text \<open>The tables after a grant.\<close>

definition granted :: "promo_env \<Rightarrow> int64 \<Rightarrow> promo_code \<Rightarrow> promo_db \<Rightarrow> promo_db \<Rightarrow> bool" where
  "granted env u p d d' \<longleftrightarrow> pd_usages d' = pd_usages d @ [new_usage env u p d]
     \<and> rd_users (pd_main d') = credit_user (pe_num_add env) u (pc_BonusAmount p) (rd_users (pd_main d))
     \<and> pd_codes d' = used_once_more (pe_now env) (pc_ID p) (pd_codes d)"

definition same_tables :: "promo_db \<Rightarrow> promo_db \<Rightarrow> bool" where
  "same_tables d d' \<longleftrightarrow> pd_usages d' = pd_usages d \<and> rd_users (pd_main d') = rd_users (pd_main d) \<and> pd_codes d' = pd_codes d"

lemma only_row_Some: "only_row P rows = Inr (Some r) \<Longrightarrow> r \<in> set rows \<and> P r"
proof -
  assume "only_row P rows = Inr (Some r)"
  then have "filter P rows = [r]" by (auto simp: only_row_def split: list.splits)
  then have "r \<in> set (filter P rows)" by simp
  then show ?thesis by simp
qed

lemma only_row_None: "only_row P rows = Inr None \<longleftrightarrow> (\<forall>r \<in> set rows. \<not> P r)"
proof -
  have "only_row P rows = Inr None \<longleftrightarrow> filter P rows = []" by (auto simp: only_row_def split: list.splits)
  then show ?thesis by (simp add: filter_empty_conv)
qed

lemma CreateUsage_Inr: "CreateUsage f x d = (Inr y, d') \<Longrightarrow>
    d' = d\<lparr>pd_usages := pd_usages d @ [x\<lparr>pu_ID := pd_next_usage d\<rparr>], pd_next_usage := pd_next_usage d + 1\<rparr>"
  by (auto simp: CreateUsage_def with_fault_err_def split: fault.splits if_splits)

lemma IncrementUsedCount_Inr: "IncrementUsedCount f now i d = (Inr y, d') \<Longrightarrow> d' = d\<lparr>pd_codes := used_once_more now i (pd_codes d)\<rparr>"
  by (auto simp: IncrementUsedCount_def with_fault_err_def sql_update_one_def used_once_more_def split: fault.splits if_splits)

lemma wrap_err_Inr: "wrap_err m r = (Inr y, s) \<longleftrightarrow> r = (Inr y, s)"
  by (auto simp: wrap_err_def split: sum.split prod.split)

lemma grant_promo_Inr:
  assumes "grant_promo env u p d = (Inr b, d')"
  shows "granted env u p d d'" "b = pc_BonusAmount p"
proof -
  obtain x m where m: "UpdateBalance (pe_fault env PBalance) (pe_num_add env) u (pc_BonusAmount p) (pd_main d) = (Inr x, m)"
    and rest: "and_then (wrap_err ''create usage record'' (CreateUsage (pe_fault env PCreateUsage)
            \<lparr>pu_ID = 0, pu_PromoCodeID = pc_ID p, pu_UserID = u, pu_BonusAmount = pc_BonusAmount p, pu_UsedAt = pe_now env\<rparr> (d\<lparr>pd_main := m\<rparr>)))
         (\<lambda>_ d2. and_then (wrap_err ''increment used count'' (IncrementUsedCount (pe_fault env PIncrement) (pe_now env) (pc_ID p) d2))
           (\<lambda>_ d3. (Inr (pc_BonusAmount p), d3))) = (Inr b, d')"
    using assms by (auto simp: grant_promo_def and_then_Inr wrap_err_Inr on_main_def split: prod.splits)
  from rest CreateUsage_Inr IncrementUsedCount_Inr UpdateBalance_Inr [OF m]
  show "granted env u p d d'" "b = pc_BonusAmount p"
    by (auto simp: and_then_Inr wrap_err_Inr granted_def new_usage_def dest!: CreateUsage_Inr IncrementUsedCount_Inr)
qed

lemma apply_body_Inr:
  assumes "apply_body env u c d = (Inr b, d')"
  obtains p where "p \<in> set (pd_codes d)" "pe_fold env (pc_Code p) c" "validatePromoCodeStatus (pe_now env) p = None"
    "\<forall>x \<in> set (pd_usages d). \<not> usage_of (pc_ID p) u x" "granted env u p d d'"
proof -
  obtain p where g: "GetByCodeForUpdate (pe_fault env PGet) (pe_fold env) c d = Inr p"
    using assms by (cases "GetByCodeForUpdate (pe_fault env PGet) (pe_fold env) c d") (auto simp: apply_body_def)
  have v: "validatePromoCodeStatus (pe_now env) p = None"
    using assms g by (cases "validatePromoCodeStatus (pe_now env) p") (auto simp: apply_body_def)
  have n: "GetUsageByPromoCodeAndUser (pe_fault env PUsage) (pc_ID p) u d = Inr None"
    using assms g v by (auto simp: apply_body_def split: sum.splits option.splits)
  have p: "only_row (\<lambda>p. pe_fold env (pc_Code p) c) (pd_codes d) = Inr (Some p)"
    using read_fault_Inr [OF g [unfolded GetByCodeForUpdate_def promo_GetByCode_def]]
    by (cases "only_row (\<lambda>p. pe_fold env (pc_Code p) c) (pd_codes d)") (simp_all add: promo_found_def split: option.splits)
  have gr: "grant_promo env u p d = (Inr b, d')" using assms g v n by (simp add: apply_body_def)
  have "only_row (usage_of (pc_ID p) u) (pd_usages d) = Inr None"
    by (rule read_fault_Inr [OF n [unfolded GetUsageByPromoCodeAndUser_def]])
  then show ?thesis using that [of p] only_row_Some [OF p] v grant_promo_Inr(1) [OF gr] by (simp add: only_row_None)
qed

lemma invalidatePromoCaches_tables [simp]:
  "pd_usages (invalidatePromoCaches env u b d) = pd_usages d" "pd_main (invalidatePromoCaches env u b d) = pd_main d"
  "pd_codes (invalidatePromoCaches env u b d) = pd_codes d"
  by (simp_all add: invalidatePromoCaches_def)

text \<open>A call leaves the tables alone or grants the bonus with its row and its count, under any fault.\<close>

lemma ApplyPromoCode_cases:
  assumes "ApplyPromoCode env u code d = (res, d')"
  obtains "trim_space code = []" "d' = d"
    | "same_tables (pe_others env d) d'" "\<not> (\<exists>x. res = Inr x)"
    | p where "p \<in> set (pd_codes (pe_others env d))" "pe_fold env (pc_Code p) (trim_space code)"
      "validatePromoCodeStatus (pe_now env) p = None" "\<forall>x \<in> set (pd_usages (pe_others env d)). \<not> usage_of (pc_ID p) u x"
      "granted env u p (pe_others env d) d'"
proof (cases "trim_space code = []")
  case True
  then show ?thesis using that(1) assms by (simp add: ApplyPromoCode_def)
next
  case False
  let ?d = "pe_others env d"
  obtain res1 d1 where tx: "run_tx (pe_fault env PBegin) (pe_fault env PCommit) (apply_body env u (trim_space code)) ?d = (res1, d1)"
    by (cases "run_tx (pe_fault env PBegin) (pe_fault env PCommit) (apply_body env u (trim_space code)) ?d")
  have t: "same_tables d1 d'" "(\<exists>x. res = Inr x) \<longleftrightarrow> (\<exists>x. res1 = Inr x)"
    using assms False tx by (auto simp: ApplyPromoCode_def same_tables_def Let_def split: sum.splits if_splits)
  show ?thesis
  proof (cases "\<exists>b. apply_body env u (trim_space code) ?d = (Inr b, d1)")
    case True
    then obtain b where "apply_body env u (trim_space code) ?d = (Inr b, d1)" ..
    then show ?thesis
      by (rule apply_body_Inr) (use that(3) t(1) in \<open>auto simp: granted_def same_tables_def\<close>)
  next
    case False
    then have "d1 = ?d" "\<not> (\<exists>x. res1 = Inr x)"
      using run_tx_atomic [of "pe_fault env PBegin" "pe_fault env PCommit" "apply_body env u (trim_space code)" ?d]
        run_tx_Inr [of "pe_fault env PBegin" "pe_fault env PCommit" "apply_body env u (trim_space code)" ?d] tx by auto
    then show ?thesis using that(2) t by (simp add: same_tables_def)
  qed
qed

subsection \<open>The books\<close>

fun apply_all :: "(promo_env \<times> int64 \<times> gostring) list \<Rightarrow> promo_db \<Rightarrow> promo_db" where
  "apply_all [] d = d"
| "apply_all ((env, u, code) # calls) d = apply_all calls (snd (ApplyPromoCode env u code d))"

definition paid_out :: "(f64 \<Rightarrow> f64 \<Rightarrow> f64) \<Rightarrow> promo_usage list \<Rightarrow> user_acct list \<Rightarrow> user_acct list" where
  "paid_out na xs users = foldl (\<lambda>us x. credit_user na (pu_UserID x) (pu_BonusAmount x) us) users xs"

definition uses :: "int64 \<Rightarrow> promo_usage list \<Rightarrow> int" where
  "uses i xs = int (length (filter (\<lambda>x. pu_PromoCodeID x = i) xs))"

text \<open>A code's row before and after the uses \<open>xs\<close>.\<close>

definition used_by :: "promo_usage list \<Rightarrow> promo_code \<Rightarrow> promo_code \<Rightarrow> bool" where
  "used_by xs p q \<longleftrightarrow> pc_ID q = pc_ID p \<and> pc_Code q = pc_Code p \<and> pc_BonusAmount q = pc_BonusAmount p
     \<and> pc_MaxUses q = pc_MaxUses p \<and> pc_Status q = pc_Status p \<and> pc_ExpiresAt q = pc_ExpiresAt p
     \<and> pc_UsedCount q = pc_UsedCount p + uses (pc_ID p) xs
     \<and> (0 < pc_MaxUses p \<and> pc_UsedCount p \<le> pc_MaxUses p \<longrightarrow> pc_UsedCount q \<le> pc_MaxUses p)"

definition pair_of :: "promo_usage \<Rightarrow> int64 \<times> int64" where "pair_of x = (pu_PromoCodeID x, pu_UserID x)"

definition balanced :: "(f64 \<Rightarrow> f64 \<Rightarrow> f64) \<Rightarrow> promo_db \<Rightarrow> promo_usage list \<Rightarrow> promo_db \<Rightarrow> bool" where
  "balanced na d0 xs d \<longleftrightarrow> pd_usages d = pd_usages d0 @ xs \<and> distinct (map pair_of xs)
     \<and> set (map pair_of xs) \<inter> set (map pair_of (pd_usages d0)) = {}
     \<and> rd_users (pd_main d) = paid_out na xs (rd_users (pd_main d0))
     \<and> list_all2 (used_by xs) (pd_codes d0) (pd_codes d)
     \<and> (\<forall>x \<in> set xs. \<exists>p \<in> set (pd_codes d0). pc_ID p = pu_PromoCodeID x \<and> pc_BonusAmount p = pu_BonusAmount x)"

lemma used_by_Nil: "used_by [] p p"
  by (simp add: used_by_def uses_def)

lemma balanced_start: "balanced na d [] d"
  by (simp add: balanced_def paid_out_def list_all2_same used_by_Nil)

lemma used_by_ids: "list_all2 (used_by xs) ps qs \<Longrightarrow> map pc_ID qs = map pc_ID ps"
  by (induction rule: list_all2_induct) (auto simp: used_by_def)

lemma used_by_partner: "list_all2 (used_by xs) ps qs \<Longrightarrow> q \<in> set qs \<Longrightarrow> \<exists>p \<in> set ps. used_by xs p q"
  by (metis in_set_conv_nth list_all2_conv_all_nth)

text \<open>One more use of a code whose uses are not spent.\<close>

lemma used_by_once_more:
  assumes "list_all2 (used_by xs) ps qs" "distinct (map pc_ID ps)" "r \<in> set qs" "pc_ID r = pu_PromoCodeID x"
    and "0 < pc_MaxUses r \<longrightarrow> pc_UsedCount r < pc_MaxUses r"
  shows "list_all2 (used_by (xs @ [x])) ps (used_once_more now (pc_ID r) qs)"
proof -
  have d: "distinct (map pc_ID qs)" using assms(2) used_by_ids [OF assms(1)] by simp
  have "used_by (xs @ [x]) p (if pc_ID q = pc_ID r then q\<lparr>pc_UsedCount := pc_UsedCount q + 1, pc_UpdatedAt := now\<rparr> else q)"
    if u: "used_by xs p q" and q: "q \<in> set qs" for p q
  proof (cases "pc_ID q = pc_ID r")
    case True
    then have "q = r" using d q assms(3) by (auto simp: distinct_map inj_on_def)
    then show ?thesis using u assms(4,5) by (auto simp: used_by_def uses_def)
  qed (use u assms(4) in \<open>auto simp: used_by_def uses_def\<close>)
  then show ?thesis
    using assms(1) by (auto simp: list_all2_conv_all_nth used_once_more_def update_where_def)
qed

lemma validated_unspent: "validatePromoCodeStatus now p = None \<Longrightarrow> 0 < pc_MaxUses p \<longrightarrow> pc_UsedCount p < pc_MaxUses p"
  by (auto simp: validatePromoCodeStatus_def promo_CanUse_def split: if_splits)

lemma balanced_apply:
  assumes "balanced na d0 xs d" "distinct (map pc_ID (pd_codes d0))" "pe_others env = id" "pe_num_add env = na"
  obtains ys where "balanced na d0 ys (snd (ApplyPromoCode env u code d))"
proof -
  obtain res d' where a: "ApplyPromoCode env u code d = (res, d')" by (cases "ApplyPromoCode env u code d")
  from a show ?thesis
  proof (cases rule: ApplyPromoCode_cases)
    case 1
    then show ?thesis using that assms(1) a by simp
  next
    case 2
    then show ?thesis using that [of xs] assms(1,3) a by (simp add: balanced_def same_tables_def)
  next
    case (3 p)
    let ?x = "new_usage env u p d"
    have p: "p \<in> set (pd_codes d)" "granted env u p d d'" using 3 assms(3) by simp_all
    obtain p0 where p0: "p0 \<in> set (pd_codes d0)" "used_by xs p0 p"
      using used_by_partner [of xs "pd_codes d0" "pd_codes d" p] assms(1) p(1) by (auto simp: balanced_def)
    have "pair_of ?x \<notin> set (map pair_of (pd_usages d))"
      using 3(4) assms(3) by (auto simp: pair_of_def new_usage_def usage_of_def)
    moreover have "list_all2 (used_by (xs @ [?x])) (pd_codes d0) (pd_codes d')"
      using used_by_once_more [of xs "pd_codes d0" "pd_codes d" p ?x "pe_now env"] assms(1,2) p validated_unspent [OF 3(3)]
      by (simp add: balanced_def granted_def new_usage_def)
    ultimately have "balanced na d0 (xs @ [?x]) d'"
      using assms(1,4) p p0
      by (auto simp: balanced_def granted_def paid_out_def used_by_def new_usage_def)
    then show ?thesis using that a by simp
  qed
qed

text \<open>
  C18: However often and by whomever promo codes are applied, with any call of the database failing before or after it took
  effect, the books balance: the uses recorded since the start are all different pairs of a code and a user, also from those
  recorded before; every user's balance has changed by exactly the bonuses recorded for that user, each the amount of its
  code; every code's count has risen by its recorded uses, and not beyond its maximum.
\<close>
theorem promo_books_balance:
  assumes "distinct (map pc_ID (pd_codes d))" "\<forall>(env, u, code) \<in> set calls. pe_others env = id \<and> pe_num_add env = na"
  shows "\<exists>xs. balanced na d xs (apply_all calls d)"
proof -
  have "\<exists>ys. balanced na d ys (apply_all calls d1)" if "balanced na d xs d1" for xs d1
    using that assms(2)
  proof (induction calls arbitrary: xs d1)
    case (Cons call calls)
    obtain env u code where c: "call = (env, u, code)" by (cases call)
    have e: "pe_others env = id" "pe_num_add env = na" using Cons.prems(2) c by auto
    obtain ys where "balanced na d ys (snd (ApplyPromoCode env u code d1))"
      by (rule balanced_apply [OF Cons.prems(1) assms(1) e])
    then show ?case using Cons.IH Cons.prems(2) by (simp add: c)
  qed auto
  then show ?thesis using balanced_start by blast
qed


subsection \<open>An edit that overlaps with a use\<close>

definition calm_promo :: "promo_env \<Rightarrow> bool" where "calm_promo env \<longleftrightarrow> (\<forall>c. pe_fault env c = NoFault)"

text \<open>A code that can be used by a user who has not used it.\<close>

definition usable_by :: "promo_env \<Rightarrow> int64 \<Rightarrow> gostring \<Rightarrow> promo_code \<Rightarrow> promo_db \<Rightarrow> bool" where
  "usable_by env u c p d \<longleftrightarrow> only_row (\<lambda>q. pe_fold env (pc_Code q) c) (pd_codes d) = Inr (Some p)
     \<and> validatePromoCodeStatus (pe_now env) p = None \<and> user_by_id u (pd_main d) \<noteq> None
     \<and> (\<forall>x \<in> set (pd_usages d). \<not> usage_of (pc_ID p) u x)"

lemma user_update_ok: "user_by_id u d \<noteq> None \<Longrightarrow> \<exists>d'. user_update u (add_balance na b) d = (Inr (), d')"
proof -
  assume "user_by_id u d \<noteq> None"
  then have "affected (\<lambda>r. ua_ID r = u) (rd_users d) \<noteq> 0" by (auto simp: affected_0_iff user_by_id_def find_None_iff)
  then show ?thesis by (simp add: user_update_def sql_update_one_def)
qed

lemma user_by_id_None: "user_by_id v m = None \<longleftrightarrow> v \<notin> set (map ua_ID (rd_users m))"
  by (auto simp: user_by_id_def find_None_iff)

lemma credit_user_exists: "rd_users m' = credit_user na u b (rd_users m) \<Longrightarrow> user_by_id v m' = None \<longleftrightarrow> user_by_id v m = None"
proof -
  assume "rd_users m' = credit_user na u b (rd_users m)"
  then have "map ua_ID (rd_users m') = map ua_ID (rd_users m)"
    by (simp add: credit_user_def map_update_where add_balance_def Let_def)
  then show ?thesis by (simp add: user_by_id_None del: set_map)
qed

lemma promo_UpdateBalance_ok:
  assumes "user_by_id u m \<noteq> None"
  obtains m' where "UpdateBalance NoFault na u b m = (Inr (), m')" "user_by_id u m' \<noteq> None"
proof -
  obtain m' where "user_update u (add_balance na b) m = (Inr (), m')" using user_update_ok [OF assms] by blast
  then have m: "UpdateBalance NoFault na u b m = (Inr (), m')" by (simp add: UpdateBalance_def)
  have "rd_users m' = credit_user na u b (rd_users m)" using UpdateBalance_Inr [OF m] by simp
  then show ?thesis using that m assms credit_user_exists by metis
qed

lemma ApplyPromoCode_grants:
  assumes "usable_by env u c p d" "calm_promo env" "pe_others env = id" "trim_space c = c" "c \<noteq> []"
  shows "fst (ApplyPromoCode env u c d) = Inr () \<and> granted env u p d (snd (ApplyPromoCode env u c d))"
proof -
  have us: "only_row (\<lambda>q. pe_fold env (pc_Code q) c) (pd_codes d) = Inr (Some p)" "validatePromoCodeStatus (pe_now env) p = None"
    "user_by_id u (pd_main d) \<noteq> None" "\<forall>x \<in> set (pd_usages d). \<not> usage_of (pc_ID p) u x"
    using assms(1) by (simp_all add: usable_by_def)
  have p: "p \<in> set (pd_codes d)" using only_row_Some [OF us(1)] by simp
  have f: "pe_fault env x = NoFault" for x using assms(2) by (simp add: calm_promo_def)
  obtain m where m: "UpdateBalance NoFault (pe_num_add env) u (pc_BonusAmount p) (pd_main d) = (Inr (), m)" "user_by_id u m \<noteq> None"
    by (rule promo_UpdateBalance_ok [OF us(3)])
  have i: "affected (\<lambda>q. pc_ID q = pc_ID p) (pd_codes d) \<noteq> 0" using p by (auto simp: affected_0_iff)
  let ?x = "\<lparr>pu_ID = 0, pu_PromoCodeID = pc_ID p, pu_UserID = u, pu_BonusAmount = pc_BonusAmount p, pu_UsedAt = pe_now env\<rparr>"
  define d2 where "d2 = d\<lparr>pd_main := m, pd_usages := pd_usages d @ [?x\<lparr>pu_ID := pd_next_usage d\<rparr>], pd_next_usage := pd_next_usage d + 1\<rparr>"
  have c: "CreateUsage NoFault ?x (d\<lparr>pd_main := m\<rparr>) = (Inr (), d2)"
    using m(2) us(4) p by (auto simp: CreateUsage_def d2_def)
  obtain d' where n: "IncrementUsedCount NoFault (pe_now env) (pc_ID p) d2 = (Inr (), d')"
    using i by (simp add: IncrementUsedCount_def sql_update_one_def d2_def)
  have g: "grant_promo env u p d = (Inr (pc_BonusAmount p), d')"
    using m(1) c n by (simp add: grant_promo_def f on_main_def)
  have "apply_body env u c d = (Inr (pc_BonusAmount p), d')"
    using us(1,2,4) g
    by (simp add: apply_body_def f GetByCodeForUpdate_def promo_GetByCode_def promo_found_def GetUsageByPromoCodeAndUser_def
        only_row_None [THEN iffD2])
  then show ?thesis
    using assms(3-5) grant_promo_Inr(1) [OF g]
    by (auto simp: ApplyPromoCode_def run_tx_def f granted_def Let_def)
qed


lemma filter_update_where:
  "(\<And>r. r \<in> set rows \<Longrightarrow> Q r \<Longrightarrow> P (f r) = P r) \<Longrightarrow> filter P (update_where Q f rows) = update_where Q f (filter P rows)"
  by (induction rows) auto

lemma only_row_update:
  assumes "only_row P rows = Inr (Some r)" "\<And>x. x \<in> set rows \<Longrightarrow> Q x \<Longrightarrow> P (f x) = P x"
  shows "only_row P (update_where Q f rows) = Inr (Some (if Q r then f r else r))"
proof -
  have "filter P rows = [r]" using assms(1) by (auto simp: only_row_def split: list.splits)
  then show ?thesis using filter_update_where [of rows Q P f] assms(2) by (simp add: only_row_def)
qed

lemma used_once_more_in:
  "q \<in> set rows \<Longrightarrow> q\<lparr>pc_UsedCount := pc_UsedCount q + 1, pc_UpdatedAt := now\<rparr> \<in> set (used_once_more now (pc_ID q) rows)"
  by (auto simp: used_once_more_def set_update_where)

lemma filter_key: "distinct (map g rows) \<Longrightarrow> r \<in> set rows \<Longrightarrow> filter (\<lambda>x. g x = g r) rows = [r]"
proof (induction rows)
  case (Cons y rows)
  then show ?case by (cases "y = r") (auto simp: filter_empty_conv image_iff)
qed simp

definition note_edit :: "gostring \<Rightarrow> update_promo" where
  "note_edit n = \<lparr>up_Code = None, up_BonusAmount = None, up_MaxUses = None, up_Status = None, up_ExpiresAt = None, up_Notes = Some n\<rparr>"

lemma edited_note: "edited_promo env (note_edit n) p = p\<lparr>pc_Notes := n\<rparr>"
  by (simp add: edited_promo_def note_edit_def)

lemma validate_note: "validatePromoCodeStatus now (p\<lparr>pc_Notes := n, pc_UpdatedAt := t\<rparr>) = validatePromoCodeStatus now p"
  by (simp add: validatePromoCodeStatus_def promo_CanUse_def promo_IsExpired_def)

text \<open>The edit writes back the count it read, whatever was counted since.\<close>

lemma note_edit_writes:
  assumes "distinct (map pc_ID (pd_codes d))" "p \<in> set (pd_codes d)" "promo_writable p" "calm_promo edit"
    and "distinct (map pc_Code (pd_codes d))" "pd_codes (pe_others edit d) = used_once_more now (pc_ID p) (pd_codes d)"
  shows "snd (UpdatePromo edit (pc_ID p) (note_edit n) d) = (pe_others edit d)\<lparr>pd_codes :=
      update_where (\<lambda>q. pc_ID q = pc_ID p) (\<lambda>q. p\<lparr>pc_Notes := n, pc_UpdatedAt := pe_now edit\<rparr>) (pd_codes d)\<rparr>"
proof -
  have same: "q = p" if "q \<in> set (pd_codes d)" "pc_ID q = pc_ID p" for q
    using assms(1,2) that by (auto simp: distinct_map inj_on_def)
  have f: "filter (\<lambda>q. pc_ID q = pc_ID p) (pd_codes d) = [p]" using filter_key [OF assms(1,2)] .
  have read: "promo_GetByID (pe_fault edit PGet) (pc_ID p) d = Inr p"
    using assms(4) f by (simp add: calm_promo_def promo_GetByID_def only_row_def promo_found_def)
  have w: "promo_writable (p\<lparr>pc_Notes := n\<rparr>)" using assms(3) by (simp add: promo_writable_def)
  have ids: "set (pd_codes (pe_others edit d)) =
      {q \<in> set (pd_codes d). pc_ID q \<noteq> pc_ID p} \<union> {p\<lparr>pc_UsedCount := pc_UsedCount p + 1, pc_UpdatedAt := now\<rparr>}"
    using assms(2,6) same by (auto simp: used_once_more_def set_update_where)
  have "\<not> (\<exists>q \<in> set (pd_codes (pe_others edit d)). pc_Code q = pc_Code p \<and> pc_ID q \<noteq> pc_ID p)"
    using ids assms(2,5) by (auto simp: distinct_map inj_on_def)
  moreover have "affected (\<lambda>q. pc_ID q = pc_ID p) (pd_codes (pe_others edit d)) \<noteq> 0" using ids by (auto simp: affected_0_iff)
  moreover have "update_where (\<lambda>q. pc_ID q = pc_ID p) (promo_row (pe_now edit) (p\<lparr>pc_Notes := n\<rparr>)) (pd_codes (pe_others edit d))
      = update_where (\<lambda>q. pc_ID q = pc_ID p) (\<lambda>q. p\<lparr>pc_Notes := n, pc_UpdatedAt := pe_now edit\<rparr>) (pd_codes d)"
  proof -
    have "promo_row (pe_now edit) (p\<lparr>pc_Notes := n\<rparr>) (q\<lparr>pc_UsedCount := k, pc_UpdatedAt := now\<rparr>)
        = p\<lparr>pc_Notes := n, pc_UpdatedAt := pe_now edit\<rparr>" if "q \<in> set (pd_codes d)" "pc_ID q = pc_ID p" for q k
      using same [OF that] by (simp add: promo_row_def)
    then show ?thesis unfolding assms(6) used_once_more_def by (auto simp: update_where_def)
  qed
  ultimately show ?thesis
    using assms(4) read w
    by (auto simp: UpdatePromo_def edited_note promo_Update_def calm_promo_def sql_update_one_def)
qed

text \<open>
  An edit of a promo code that overlaps with a use forgets the use. An administrator who changes nothing but the notes
  writes back the count of uses the edit read; a use granted in between then does not count, and a code with one use left
  pays its bonus to two users.
\<close>
theorem overlapping_edit_forgets_a_use:
  assumes "distinct (map pc_ID (pd_codes d))" "distinct (map pc_Code (pd_codes d))" "promo_writable p"
    and "usable_by env1 u1 c p d" "usable_by env2 u2 c p d" "u1 \<noteq> u2" "pe_fold env2 = pe_fold env1" "trim_space c = c" "c \<noteq> []"
    and "calm_promo env1" "calm_promo env2" "calm_promo edit" "pe_others env1 = id" "pe_others env2 = id"
    and "pe_others edit = (\<lambda>d. snd (ApplyPromoCode env1 u1 c d))" "pc_MaxUses p = pc_UsedCount p + 1"
  shows "\<exists>d'. ApplyPromoCode env2 u2 c (snd (UpdatePromo edit (pc_ID p) (note_edit n) d)) = (Inr (), d')
    \<and> uses (pc_ID p) (pd_usages d') = uses (pc_ID p) (pd_usages d) + 2
    \<and> (\<exists>q \<in> set (pd_codes d'). pc_ID q = pc_ID p \<and> pc_MaxUses q = pc_MaxUses p \<and> pc_UsedCount q = pc_UsedCount p + 1)"
proof -
  let ?d1 = "snd (ApplyPromoCode env1 u1 c d)" and ?d2 = "snd (UpdatePromo edit (pc_ID p) (note_edit n) d)"
  let ?p = "p\<lparr>pc_Notes := n, pc_UpdatedAt := pe_now edit\<rparr>"
  have row: "only_row (\<lambda>q. pe_fold env1 (pc_Code q) c) (pd_codes d) = Inr (Some p)" using assms(4) by (simp add: usable_by_def)
  have p: "p \<in> set (pd_codes d)" "pe_fold env1 (pc_Code p) c" using only_row_Some [OF row] by simp_all
  have g1: "granted env1 u1 p d ?d1" using ApplyPromoCode_grants [OF assms(4,10,13,8,9)] by simp
  have d2: "?d2 = ?d1\<lparr>pd_codes := update_where (\<lambda>q. pc_ID q = pc_ID p) (\<lambda>q. ?p) (pd_codes d)\<rparr>"
    using note_edit_writes [OF assms(1) p(1) assms(3,12,2)] g1 by (simp add: granted_def assms(15))
  have same: "q = p" if "q \<in> set (pd_codes d)" "pc_ID q = pc_ID p" for q
    using assms(1) p(1) that by (auto simp: distinct_map inj_on_def)
  have "pe_fold env1 (pc_Code ?p) c = pe_fold env1 (pc_Code q) c" if "q \<in> set (pd_codes d)" "pc_ID q = pc_ID p" for q
    using same [OF that] by simp
  then have "only_row (\<lambda>q. pe_fold env2 (pc_Code q) c) (pd_codes ?d2) = Inr (Some ?p)"
    using only_row_update [OF row, of "\<lambda>q. pc_ID q = pc_ID p" "\<lambda>q. ?p"] p(2) by (simp add: d2 assms(7))
  moreover have "validatePromoCodeStatus (pe_now env2) ?p = None"
    using assms(5) by (simp add: usable_by_def validate_note)
  moreover have "user_by_id u2 (pd_main ?d2) \<noteq> None"
    using assms(5) g1 credit_user_exists [of "pd_main ?d1" "pe_num_add env1" u1 "pc_BonusAmount p" "pd_main d" u2]
    by (simp add: d2 usable_by_def granted_def)
  moreover have "\<forall>x \<in> set (pd_usages ?d2). \<not> usage_of (pc_ID ?p) u2 x"
    using assms(5,6) g1 by (auto simp: d2 usable_by_def granted_def new_usage_def usage_of_def)
  ultimately have "usable_by env2 u2 c ?p ?d2" by (simp add: usable_by_def)
  from ApplyPromoCode_grants [OF this assms(11,14,8,9)] obtain d' where a: "ApplyPromoCode env2 u2 c ?d2 = (Inr (), d')"
      "granted env2 u2 ?p ?d2 d'" by (cases "ApplyPromoCode env2 u2 c ?d2") auto
  have "?p \<in> set (pd_codes ?d2)" using p(1) by (auto simp: d2 set_update_where)
  then have "?p\<lparr>pc_UsedCount := pc_UsedCount ?p + 1, pc_UpdatedAt := pe_now env2\<rparr> \<in> set (pd_codes d')"
    using a(2) used_once_more_in [of ?p "pd_codes ?d2" "pe_now env2"] by (simp add: granted_def)
  then show ?thesis
    using a g1 by (intro exI [of _ d'] conjI bexI) (auto simp: d2 granted_def uses_def new_usage_def)
qed

subsection \<open>Concrete runs\<close>

definition demo_promo :: promo_code where
  "demo_promo = \<lparr>pc_ID = 4, pc_Code = ''WELCOME'', pc_BonusAmount = Fin 5, pc_MaxUses = 1, pc_UsedCount = 0,
     pc_Status = PromoCodeStatusActive, pc_ExpiresAt = None, pc_Notes = [], pc_CreatedAt = 0, pc_UpdatedAt = 0\<rparr>"

definition demo_promo_db :: promo_db where
  "demo_promo_db = \<lparr>pd_main = demo_redeem, pd_codes = [demo_promo], pd_usages = [], pd_next = 5, pd_next_usage = 1,
     pd_auth_dropped = [], pd_balance_dropped = []\<rparr>"

definition demo_promo_env :: promo_env where
  "demo_promo_env = \<lparr>pe_now = 9, pe_fault = (\<lambda>_. NoFault), pe_others = id, pe_fold = (\<lambda>a b. ToUpper id a = ToUpper id b),
     pe_uni = id, pe_num_add = fadd, pe_random = Inr [], pe_invalidator = True, pe_billing = True\<rparr>"

lemmas demo_promo_defs = demo_promo_def demo_promo_db_def demo_promo_env_def demo_redeem_def demo_users_def

lemma demo_fold: "ToUpper id ''WELCOME'' = ''WELCOME''" "ToUpper id ''welcome'' = ''WELCOME''" by code_simp+

lemma demo_usable: "u \<in> {5, 6} \<Longrightarrow> usable_by demo_promo_env u ''welcome'' demo_promo demo_promo_db"
  by (auto simp: usable_by_def only_row_def demo_promo_defs demo_fold validatePromoCodeStatus_def promo_CanUse_def user_by_id_def)

theorem promo_books_balance_witness:
  "\<exists>xs. balanced fadd demo_promo_db xs (apply_all
     [(demo_promo_env\<lparr>pe_fault := (\<lambda>c. if c = PCommit then Unacked (EPlain ''timeout'') else NoFault)\<rparr>, 5, ''welcome''),
      (demo_promo_env, 5, ''welcome''), (demo_promo_env, 6, ''WELCOME'')] demo_promo_db)"
  by (rule promo_books_balance) (simp_all add: demo_promo_defs)

theorem overlapping_edit_forgets_a_use_witness:
  "\<exists>d'. ApplyPromoCode demo_promo_env 6 ''welcome'' (snd (UpdatePromo
        (demo_promo_env\<lparr>pe_others := (\<lambda>d. snd (ApplyPromoCode demo_promo_env 5 ''welcome'' d))\<rparr>) (pc_ID demo_promo) (note_edit ''x'') demo_promo_db)) = (Inr (), d')
    \<and> uses (pc_ID demo_promo) (pd_usages d') = uses (pc_ID demo_promo) (pd_usages demo_promo_db) + 2
    \<and> (\<exists>q \<in> set (pd_codes d'). pc_ID q = pc_ID demo_promo \<and> pc_MaxUses q = pc_MaxUses demo_promo \<and> pc_UsedCount q = pc_UsedCount demo_promo + 1)"
proof (rule overlapping_edit_forgets_a_use [where ?env1.0 = demo_promo_env and ?u1.0 = 5])
  show "trim_space ''welcome'' = ''welcome''" by code_simp
  show "usable_by demo_promo_env 5 ''welcome'' demo_promo demo_promo_db" "usable_by demo_promo_env 6 ''welcome'' demo_promo demo_promo_db"
    by (simp_all add: demo_usable)
qed (simp_all add: demo_promo_defs promo_writable_def PromoCodeStatusActive_def calm_promo_def)

end
