(* ===== verification/ApiKeyService.thy ===== *)
theory ApiKeyService
  imports ApiKey
begin

text \<open>
  What the service of API keys works on: the address rules of \<open>internal/pkg/ip/ip.go\<close>, the records of
  \<open>internal/service/api_key_service.go\<close> and \<open>api_key_auth_cache.go\<close>, the state of the service, and the statements of
  \<open>internal/repository/api_key_repo.go\<close> that create, read, edit and delete the row of a key. The operations are in the
  next theory.

  The first level of the cache is the process's own (ristretto), which may decline an entry or drop it at any time; the
  second is Redis. Package \<open>net\<close> and the hash of a key are parameters. \<open>kv_between\<close> is what other requests did between the
  two steps of an operation that reads and later writes. A user's columns that no code here reads, a group's dispatch
  configuration and the paged listings are left out. The text \<open>%v\<close> prints after a wrapped error is written in front of it.
\<close>

subsection \<open>Addresses\<close>

type_synonym ip = "nat list"

record ip_net =
  in_IP :: ip
  in_Mask :: ip

record ip_lib =
  pl_ParseIP :: "gostring \<Rightarrow> ip option"
  pl_ParseCIDR :: "gostring \<Rightarrow> ip_net option"
  pl_Contains :: "ip_net \<Rightarrow> ip \<Rightarrow> bool"
  pl_Equal :: "ip \<Rightarrow> ip \<Rightarrow> bool"
  pl_SplitHostPort :: "gostring \<Rightarrow> gostring option"

record ip_rules =
  ir_CIDRs :: "ip_net list"
  ir_IPs :: "ip list"
  ir_PatternCount :: nat

definition has_slash :: "gostring \<Rightarrow> bool" where "has_slash s \<longleftrightarrow> CHR ''/'' \<in> set s"

definition normalizeIP :: "ip_lib \<Rightarrow> gostring \<Rightarrow> gostring" where
  "normalizeIP lib s0 = (let s = trim_space s0 in case pl_SplitHostPort lib s of Some host \<Rightarrow> host | None \<Rightarrow> s)"

definition compile_pattern :: "ip_lib \<Rightarrow> gostring \<Rightarrow> ip_rules \<Rightarrow> ip_rules" where
  "compile_pattern lib pattern c =
     (let normalized = trim_space pattern in
      if normalized = [] then c
      else if has_slash normalized then
        (case pl_ParseCIDR lib normalized of None \<Rightarrow> c | Some cidr \<Rightarrow> c\<lparr>ir_CIDRs := ir_CIDRs c @ [cidr]\<rparr>)
      else (case pl_ParseIP lib normalized of None \<Rightarrow> c | Some x \<Rightarrow> c\<lparr>ir_IPs := ir_IPs c @ [x]\<rparr>))"

definition CompileIPRules :: "ip_lib \<Rightarrow> gostring list \<Rightarrow> ip_rules" where
  "CompileIPRules lib patterns =
     fold (compile_pattern lib) patterns \<lparr>ir_CIDRs = [], ir_IPs = [], ir_PatternCount = length patterns\<rparr>"

definition matchesCompiledRules :: "ip_lib \<Rightarrow> ip \<Rightarrow> ip_rules \<Rightarrow> bool" where
  "matchesCompiledRules lib x rules \<longleftrightarrow>
     list_ex (\<lambda>cidr. pl_Contains lib cidr x) (ir_CIDRs rules) \<or> list_ex (\<lambda>y. pl_Equal lib x y) (ir_IPs rules)"

definition MatchesPattern :: "ip_lib \<Rightarrow> gostring \<Rightarrow> gostring \<Rightarrow> bool" where
  "MatchesPattern lib clientIP pattern = (case pl_ParseIP lib clientIP of
     None \<Rightarrow> False
   | Some x \<Rightarrow>
       if has_slash pattern then (case pl_ParseCIDR lib pattern of None \<Rightarrow> False | Some cidr \<Rightarrow> pl_Contains lib cidr x)
       else (case pl_ParseIP lib pattern of None \<Rightarrow> False | Some y \<Rightarrow> pl_Equal lib x y))"

definition MatchesAnyPattern :: "ip_lib \<Rightarrow> gostring \<Rightarrow> gostring list \<Rightarrow> bool" where
  "MatchesAnyPattern lib clientIP patterns = list_ex (MatchesPattern lib clientIP) patterns"

definition CheckIPRestrictionWithCompiledRules :: "ip_lib \<Rightarrow> gostring \<Rightarrow> ip_rules \<Rightarrow> ip_rules \<Rightarrow> bool" where
  "CheckIPRestrictionWithCompiledRules lib clientIP0 whitelist blacklist =
     (let clientIP = normalizeIP lib clientIP0 in
      if clientIP = [] then False
      else case pl_ParseIP lib clientIP of
        None \<Rightarrow> False
      | Some x \<Rightarrow>
          if 0 < ir_PatternCount blacklist \<and> matchesCompiledRules lib x blacklist then False
          else if 0 < ir_PatternCount whitelist \<and> \<not> matchesCompiledRules lib x whitelist then False
          else True)"

definition CheckIPRestriction :: "ip_lib \<Rightarrow> gostring \<Rightarrow> gostring list \<Rightarrow> gostring list \<Rightarrow> bool" where
  "CheckIPRestriction lib clientIP whitelist blacklist =
     CheckIPRestrictionWithCompiledRules lib clientIP (CompileIPRules lib whitelist) (CompileIPRules lib blacklist)"

definition ValidateIPPattern :: "ip_lib \<Rightarrow> gostring \<Rightarrow> bool" where
  "ValidateIPPattern lib pattern \<longleftrightarrow>
     (if has_slash pattern then pl_ParseCIDR lib pattern \<noteq> None else pl_ParseIP lib pattern \<noteq> None)"

definition ValidateIPPatterns :: "ip_lib \<Rightarrow> gostring list \<Rightarrow> gostring list" where
  "ValidateIPPatterns lib patterns = filter (\<lambda>p. \<not> ValidateIPPattern lib p) patterns"

subsection \<open>Data\<close>

record notify_email =
  ne_Email :: gostring
  ne_Disabled :: bool
  ne_Verified :: bool

record key_user =
  ku_ID :: int64
  ku_Email :: gostring
  ku_Username :: gostring
  ku_Role :: gostring
  ku_Balance :: f64
  ku_Concurrency :: int
  ku_Status :: gostring
  ku_AllowedGroups :: "int64 list"
  ku_SignupSource :: gostring
  ku_LastLoginAt :: "time option"
  ku_LastActiveAt :: "time option"
  ku_BalanceNotifyEnabled :: bool
  ku_BalanceNotifyThresholdType :: gostring
  ku_BalanceNotifyThreshold :: "f64 option"
  ku_BalanceNotifyExtraEmails :: "notify_email list"
  ku_TotalRecharged :: f64
  ku_RPMLimit :: int
  ku_UserGroupRPMOverride :: "int option"

definition ku_IsActive :: "key_user \<Rightarrow> bool" where "ku_IsActive u \<longleftrightarrow> ku_Status u = StatusActive"

definition CanBindGroup :: "key_user \<Rightarrow> int64 \<Rightarrow> bool \<Rightarrow> bool" where
  "CanBindGroup u groupID isExclusive \<longleftrightarrow> \<not> isExclusive \<or> groupID \<in> set (ku_AllowedGroups u)"

text \<open>A key with its user and group loaded.\<close>

record loaded_key =
  lk_Row :: api_key
  lk_User :: "key_user option"
  lk_Group :: "gw_group option"
  lk_CompiledIPWhitelist :: ip_rules
  lk_CompiledIPBlacklist :: ip_rules

record auth_user_snapshot =
  sn_ID :: int64
  sn_Status :: gostring
  sn_Role :: gostring
  sn_Balance :: f64
  sn_Concurrency :: int
  sn_Email :: gostring
  sn_Username :: gostring
  sn_BalanceNotifyEnabled :: bool
  sn_BalanceNotifyThresholdType :: gostring
  sn_BalanceNotifyThreshold :: "f64 option"
  sn_BalanceNotifyExtraEmails :: "notify_email list"
  sn_TotalRecharged :: f64
  sn_RPMLimit :: int
  sn_UserGroupRPMOverride :: "int option"

record auth_group_snapshot =
  sg_ID :: int64
  sg_Name :: gostring
  sg_Platform :: gostring
  sg_Status :: gostring
  sg_SubscriptionType :: gostring
  sg_RateMultiplier :: f64
  sg_DailyLimitUSD :: "f64 option"
  sg_WeeklyLimitUSD :: "f64 option"
  sg_MonthlyLimitUSD :: "f64 option"
  sg_AllowImageGeneration :: bool
  sg_ImageRateIndependent :: bool
  sg_ImageRateMultiplier :: f64
  sg_ImagePrice1K :: "f64 option"
  sg_ImagePrice2K :: "f64 option"
  sg_ImagePrice4K :: "f64 option"
  sg_ClaudeCodeOnly :: bool
  sg_FallbackGroupID :: "int64 option"
  sg_FallbackGroupIDOnInvalidRequest :: "int64 option"
  sg_ModelRouting :: "(gostring \<times> int64 list) list"
  sg_ModelRoutingEnabled :: bool
  sg_MCPXMLInject :: bool
  sg_SupportedModelScopes :: "gostring list"
  sg_AllowMessagesDispatch :: bool
  sg_DefaultMappedModel :: gostring
  sg_RPMLimit :: int

record auth_snapshot =
  as_Version :: int
  as_APIKeyID :: int64
  as_UserID :: int64
  as_GroupID :: "int64 option"
  as_Name :: gostring
  as_Status :: gostring
  as_IPWhitelist :: "gostring list"
  as_IPBlacklist :: "gostring list"
  as_User :: auth_user_snapshot
  as_Group :: "auth_group_snapshot option"
  as_Quota :: f64
  as_QuotaUsed :: f64
  as_ExpiresAt :: "time option"
  as_RateLimit5h :: f64
  as_RateLimit1d :: f64
  as_RateLimit7d :: f64

record auth_entry =
  ae_NotFound :: bool
  ae_Snapshot :: "auth_snapshot option"

definition apiKeyAuthSnapshotVersion :: int where "apiKeyAuthSnapshotVersion = 9"
definition apiKeyLastUsedMinTouch :: duration where "apiKeyLastUsedMinTouch = 30 * Second"
definition apiKeyLastUsedFailBackoff :: duration where "apiKeyLastUsedFailBackoff = 5 * Second"

definition ErrGroupNotAllowed :: app_error where
  "ErrGroupNotAllowed = Forbidden ''GROUP_NOT_ALLOWED'' ''user is not allowed to bind this group''"
definition ErrAPIKeyExists :: app_error where
  "ErrAPIKeyExists = Conflict ''API_KEY_EXISTS'' ''api key already exists''"
definition ErrInvalidIPPattern :: app_error where
  "ErrInvalidIPPattern = BadRequest ''INVALID_IP_PATTERN'' ''invalid IP or CIDR pattern''"
definition ErrInsufficientPerms :: app_error where
  "ErrInsufficientPerms = Forbidden ''INSUFFICIENT_PERMISSIONS'' ''insufficient permissions''"
definition ErrUserNotActive :: app_error where
  "ErrUserNotActive = Forbidden ''USER_NOT_ACTIVE'' ''user is not active''"

record create_key =
  ck_Name :: gostring
  ck_GroupID :: "int64 option"
  ck_CustomKey :: "gostring option"
  ck_IPWhitelist :: "gostring list"
  ck_IPBlacklist :: "gostring list"
  ck_Quota :: f64
  ck_ExpiresInDays :: "int option"
  ck_RateLimit5h :: f64
  ck_RateLimit1d :: f64
  ck_RateLimit7d :: f64

record update_key =
  uk_Name :: "gostring option"
  uk_GroupID :: "int64 option"
  uk_Status :: "gostring option"
  uk_IPWhitelist :: "gostring list"
  uk_IPBlacklist :: "gostring list"
  uk_Quota :: "f64 option"
  uk_ExpiresAt :: "time option"
  uk_ClearExpiration :: bool
  uk_ResetQuota :: "bool option"
  uk_RateLimit5h :: "f64 option"
  uk_RateLimit1d :: "f64 option"
  uk_RateLimit7d :: "f64 option"
  uk_ResetRateLimitUsage :: "bool option"

record auth_cfg =
  ac_l1Size :: int
  ac_l1TTL :: duration
  ac_l2TTL :: duration
  ac_negativeTTL :: duration
  ac_jitterPercent :: int
  ac_singleflight :: bool

text \<open>
  \<open>kz_keys\<close> are the rows that are not deleted and \<open>kz_deleted\<close> the others with the key text each still holds; groups and
  subscriptions are in \<open>kz_subs\<close>. \<open>kz_l1\<close> and \<open>kz_l2\<close> are the two levels of the cache with the time an entry expires,
  \<open>kz_published\<close> the messages to the other processes, \<open>kz_rate_dropped\<close> the keys whose cached rate limits were
  dropped, \<open>kz_touch\<close> the next time a key's last use may be written, and \<open>kz_daily\<close> the counters of requests by key and
  day with the time they expire.
\<close>

record key_sys =
  kz_keys :: "api_key list"
  kz_deleted :: "(int64 \<times> gostring) list"
  kz_next :: int64
  kz_users :: "key_user list"
  kz_subs :: sub_db
  kz_overrides :: "int64 \<times> int64 \<Rightarrow> int option"
  kz_l1 :: "gostring \<Rightarrow> (auth_entry \<times> time option) option"
  kz_l2 :: "gostring \<Rightarrow> (auth_entry \<times> time option) option"
  kz_attempts :: "int64 \<Rightarrow> int"
  kz_published :: "gostring list"
  kz_rate_dropped :: "int64 list"
  kz_touch :: "int64 \<Rightarrow> time option"
  kz_daily :: "int64 \<times> int \<Rightarrow> (int \<times> time option) option"

datatype key_call = KUser | KGroup | KGroups | KSub | KSubs | KExists | KGet | KAuth | KAuthAgain | KCreate | KUpdate | KOwner
  | KDelete | KL2Get | KL2Set | KL2Del | KPublish | KAttempts | KAttemptsDel | KOverride | KTouch | KList | KQuota | KDaily | KDailyTTL

text \<open>
  \<open>kv_redis\<close> and \<open>kv_rates\<close>: the cache and the repository of overrides are there; \<open>kv_admit\<close>: the first level takes a
  new entry; \<open>kv_num\<close>: sums as a money column holds them.
\<close>

record key_env =
  kv_now :: time
  kv_fault :: "key_call \<Rightarrow> fault"
  kv_between :: "key_call \<Rightarrow> key_sys \<Rightarrow> key_sys"
  kv_cfg :: auth_cfg
  kv_redis :: bool
  kv_admit :: bool
  kv_rates :: bool
  kv_rate_cache :: bool
  kv_rand :: f64
  kv_sha :: "gostring \<Rightarrow> gostring"
  kv_ip :: ip_lib
  kv_random :: "nat list result"
  kv_prefix :: gostring
  kv_loc :: location
  kv_num :: num_add

definition col :: "key_env \<Rightarrow> f64 \<Rightarrow> f64" where "col env x = kv_num env (Fin 0) x"

subsection \<open>Statements\<close>

definition key_row :: "gostring \<Rightarrow> key_sys \<Rightarrow> api_key option" where
  "key_row key s = find (\<lambda>k. ak_Key k = key) (kz_keys s)"

definition key_by_id :: "int64 \<Rightarrow> key_sys \<Rightarrow> api_key option" where
  "key_by_id i s = find (\<lambda>k. ak_ID k = i) (kz_keys s)"

definition user_of :: "int64 \<Rightarrow> key_sys \<Rightarrow> key_user option" where
  "user_of u s = find (\<lambda>x. ku_ID x = u) (kz_users s)"

definition group_of_key :: "int64 option \<Rightarrow> key_sys \<Rightarrow> gw_group option" where
  "group_of_key gid s = (case gid of None \<Rightarrow> None | Some g \<Rightarrow> find (\<lambda>x. g_ID x = g) (sd_groups (kz_subs s)))"

definition no_rules :: ip_rules where "no_rules = \<lparr>ir_CIDRs = [], ir_IPs = [], ir_PatternCount = 0\<rparr>"

text \<open>A user read with its key has no allowed groups loaded; the query for authentication selects fewer columns.\<close>

definition edge_user :: "key_user \<Rightarrow> key_user" where
  "edge_user u = u\<lparr>ku_AllowedGroups := [], ku_UserGroupRPMOverride := None\<rparr>"

definition auth_columns :: "api_key \<Rightarrow> api_key" where
  "auth_columns k = k\<lparr>ak_Key := [], ak_LastUsedAt := None, ak_CreatedAt := zero_time, ak_UpdatedAt := zero_time,
     ak_Usage5h := Fin 0, ak_Usage1d := Fin 0, ak_Usage7d := Fin 0, ak_Window5hStart := None, ak_Window1dStart := None,
     ak_Window7dStart := None\<rparr>"

definition auth_group_columns :: "gw_group \<Rightarrow> gw_group" where
  "auth_group_columns g = g\<lparr>g_Description := [], g_IsExclusive := False, g_Hydrated := True, g_DefaultValidityDays := 0,
     g_SortOrder := 0, g_RequireOAuthOnly := False, g_RequirePrivacySet := False, g_CreatedAt := zero_time,
     g_UpdatedAt := zero_time\<rparr>"

definition key_GetByID :: "fault \<Rightarrow> int64 \<Rightarrow> key_sys \<Rightarrow> loaded_key result" where
  "key_GetByID f i s = read_fault f (case key_by_id i s of
     None \<Rightarrow> Inl (EApp ErrAPIKeyNotFound)
   | Some k \<Rightarrow> Inr \<lparr>lk_Row = k, lk_User = map_option edge_user (user_of (ak_UserID k) s), lk_Group = group_of_key (ak_GroupID k) s,
       lk_CompiledIPWhitelist = no_rules, lk_CompiledIPBlacklist = no_rules\<rparr>)"

definition GetKeyAndOwnerID :: "fault \<Rightarrow> int64 \<Rightarrow> key_sys \<Rightarrow> (gostring \<times> int64) result" where
  "GetKeyAndOwnerID f i s = read_fault f (case key_by_id i s of
     None \<Rightarrow> Inl (EApp ErrAPIKeyNotFound) | Some k \<Rightarrow> Inr (ak_Key k, ak_UserID k))"

definition GetByKeyForAuth :: "fault \<Rightarrow> gostring \<Rightarrow> key_sys \<Rightarrow> loaded_key result" where
  "GetByKeyForAuth f key s = read_fault f (case key_row key s of
     None \<Rightarrow> Inl (EApp ErrAPIKeyNotFound)
   | Some k \<Rightarrow> Inr \<lparr>lk_Row = auth_columns k, lk_User = map_option edge_user (user_of (ak_UserID k) s),
       lk_Group = map_option auth_group_columns (group_of_key (ak_GroupID k) s),
       lk_CompiledIPWhitelist = no_rules, lk_CompiledIPBlacklist = no_rules\<rparr>)"

definition ExistsByKey :: "fault \<Rightarrow> gostring \<Rightarrow> key_sys \<Rightarrow> bool result" where
  "ExistsByKey f key s = read_fault f (Inr (key_row key s \<noteq> None))"

text \<open>The unique index is on the text of every row, deleted or not.\<close>

definition key_taken :: "gostring \<Rightarrow> key_sys \<Rightarrow> bool" where
  "key_taken key s \<longleftrightarrow> key \<in> set (map ak_Key (kz_keys s)) \<or> key \<in> set (map snd (kz_deleted s))"

definition insert_key :: "key_env \<Rightarrow> api_key \<Rightarrow> key_sys \<Rightarrow> api_key result \<times> key_sys" where
  "insert_key env k s =
     (if key_taken (ak_Key k) s then (Inl (translate_conflict ErrAPIKeyExists), s)
      else let row = k\<lparr>ak_ID := kz_next s, ak_CreatedAt := kv_now env, ak_UpdatedAt := kv_now env\<rparr> in
        (Inr row, s\<lparr>kz_keys := kz_keys s @ [row\<lparr>ak_Quota := col env (ak_Quota k), ak_QuotaUsed := col env (ak_QuotaUsed k),
            ak_RateLimit5h := col env (ak_RateLimit5h k), ak_RateLimit1d := col env (ak_RateLimit1d k),
            ak_RateLimit7d := col env (ak_RateLimit7d k), ak_Usage5h := Fin 0, ak_Usage1d := Fin 0, ak_Usage7d := Fin 0,
            ak_Window5hStart := None, ak_Window1dStart := None, ak_Window7dStart := None\<rparr>],
          kz_next := kz_next s + 1\<rparr>))"

definition key_Create :: "key_env \<Rightarrow> api_key \<Rightarrow> key_sys \<Rightarrow> api_key result \<times> key_sys" where
  "key_Create env k = with_fault_err (kv_fault env KCreate) (insert_key env k)"

text \<open>Every column but the key's text, owner, last use and creation time is written from the object in hand.\<close>

definition written_row :: "key_env \<Rightarrow> api_key \<Rightarrow> api_key \<Rightarrow> api_key" where
  "written_row env k row = row\<lparr>ak_Name := ak_Name k, ak_Status := ak_Status k, ak_Quota := col env (ak_Quota k),
     ak_QuotaUsed := col env (ak_QuotaUsed k), ak_RateLimit5h := col env (ak_RateLimit5h k),
     ak_RateLimit1d := col env (ak_RateLimit1d k), ak_RateLimit7d := col env (ak_RateLimit7d k),
     ak_Usage5h := col env (ak_Usage5h k), ak_Usage1d := col env (ak_Usage1d k), ak_Usage7d := col env (ak_Usage7d k),
     ak_UpdatedAt := kv_now env, ak_GroupID := ak_GroupID k, ak_ExpiresAt := ak_ExpiresAt k,
     ak_Window5hStart := ak_Window5hStart k, ak_Window1dStart := ak_Window1dStart k, ak_Window7dStart := ak_Window7dStart k,
     ak_IPWhitelist := ak_IPWhitelist k, ak_IPBlacklist := ak_IPBlacklist k\<rparr>"

definition update_key_row :: "key_env \<Rightarrow> api_key \<Rightarrow> key_sys \<Rightarrow> api_key result \<times> key_sys" where
  "update_key_row env k s =
     (if affected (\<lambda>r. ak_ID r = ak_ID k) (kz_keys s) = 0 then (Inl (EApp ErrAPIKeyNotFound), s)
      else (Inr (k\<lparr>ak_UpdatedAt := kv_now env\<rparr>),
            s\<lparr>kz_keys := update_where (\<lambda>r. ak_ID r = ak_ID k) (written_row env k) (kz_keys s)\<rparr>))"

definition key_Update :: "key_env \<Rightarrow> api_key \<Rightarrow> key_sys \<Rightarrow> api_key result \<times> key_sys" where
  "key_Update env k = with_fault_err (kv_fault env KUpdate) (update_key_row env k)"

definition tombstone :: "time \<Rightarrow> int64 \<Rightarrow> gostring" where
  "tombstone now i = ''__deleted__'' @ itoa i @ ''__'' @ itoa now"

text \<open>A second deletion of a row is no error. A tombstone is as unique as the time it holds.\<close>

definition delete_key_row :: "key_env \<Rightarrow> int64 \<Rightarrow> key_sys \<Rightarrow> unit result \<times> key_sys" where
  "delete_key_row env i s =
     (if affected (\<lambda>r. ak_ID r = i) (kz_keys s) = 0
      then (if i \<in> set (map fst (kz_deleted s)) then (Inr (), s) else (Inl (EApp ErrAPIKeyNotFound), s))
      else if key_taken (tombstone (kv_now env) i) s then (Inl unique_violation, s)
      else (Inr (), s\<lparr>kz_keys := filter (\<lambda>r. ak_ID r \<noteq> i) (kz_keys s),
              kz_deleted := (i, tombstone (kv_now env) i) # kz_deleted s\<rparr>))"

definition key_Delete :: "key_env \<Rightarrow> int64 \<Rightarrow> key_sys \<Rightarrow> unit result \<times> key_sys" where
  "key_Delete env i = with_fault_err (kv_fault env KDelete) (delete_key_row env i)"

definition ListKeysByUserID :: "fault \<Rightarrow> int64 \<Rightarrow> key_sys \<Rightarrow> gostring list result" where
  "ListKeysByUserID f u s = read_fault f (Inr (map ak_Key (filter (\<lambda>k. ak_UserID k = u) (kz_keys s))))"
definition ListKeysByGroupID :: "fault \<Rightarrow> int64 \<Rightarrow> key_sys \<Rightarrow> gostring list result" where
  "ListKeysByGroupID f g s = read_fault f (Inr (map ak_Key (filter (\<lambda>k. ak_GroupID k = Some g) (kz_keys s))))"

definition repo_VerifyOwnership :: "fault \<Rightarrow> int64 \<Rightarrow> int64 list \<Rightarrow> key_sys \<Rightarrow> int64 list result" where
  "repo_VerifyOwnership f u ids s = (if ids = [] then Inr []
     else read_fault f (Inr (map ak_ID (filter (\<lambda>k. ak_UserID k = u \<and> ak_ID k \<in> set ids) (kz_keys s)))))"

definition CountByUserID :: "fault \<Rightarrow> int64 \<Rightarrow> key_sys \<Rightarrow> int result" where
  "CountByUserID f u s = read_fault f (Inr (int (length (filter (\<lambda>k. ak_UserID k = u) (kz_keys s)))))"
definition CountByGroupID :: "fault \<Rightarrow> int64 \<Rightarrow> key_sys \<Rightarrow> int result" where
  "CountByGroupID f g s = read_fault f (Inr (int (length (filter (\<lambda>k. ak_GroupID k = Some g) (kz_keys s)))))"

definition ClearGroupIDByGroupID :: "fault \<Rightarrow> time \<Rightarrow> int64 \<Rightarrow> key_sys \<Rightarrow> int result \<times> key_sys" where
  "ClearGroupIDByGroupID f now g = with_fault f (\<lambda>s.
     (int (affected (\<lambda>k. ak_GroupID k = Some g) (kz_keys s)),
      s\<lparr>kz_keys := update_where (\<lambda>k. ak_GroupID k = Some g) (\<lambda>k. k\<lparr>ak_GroupID := None, ak_UpdatedAt := now\<rparr>) (kz_keys s)\<rparr>))"

definition UpdateGroupIDByUserAndGroup :: "fault \<Rightarrow> time \<Rightarrow> int64 \<Rightarrow> int64 \<Rightarrow> int64 \<Rightarrow> key_sys \<Rightarrow> int result \<times> key_sys" where
  "UpdateGroupIDByUserAndGroup f now u old new = with_fault f (\<lambda>s.
     (int (affected (\<lambda>k. ak_UserID k = u \<and> ak_GroupID k = Some old) (kz_keys s)),
      s\<lparr>kz_keys := update_where (\<lambda>k. ak_UserID k = u \<and> ak_GroupID k = Some old)
          (\<lambda>k. k\<lparr>ak_GroupID := Some new, ak_UpdatedAt := now\<rparr>) (kz_keys s)\<rparr>))"

end
