(* ===== verification/ApiKeyCache.thy ===== *)
theory ApiKeyCache
  imports ApiKeyService
begin

text \<open>
  The cache of authenticated keys (\<open>internal/service/api_key_auth_cache*.go\<close>, \<open>internal/repository/api_key_cache.go\<close>) and
  the operations of \<open>internal/service/api_key_service.go\<close> over it: look a key up, create, edit and delete one, drop what
  is cached of it, note its use. A call is one function of the environment and the state.
\<close>

subsection \<open>Configuration\<close>

definition l1Enabled :: "auth_cfg \<Rightarrow> bool" where "l1Enabled c \<longleftrightarrow> 0 < ac_l1Size c \<and> 0 < ac_l1TTL c"
definition l2Enabled :: "auth_cfg \<Rightarrow> bool" where "l2Enabled c \<longleftrightarrow> 0 < ac_l2TTL c"
definition negativeEnabled :: "auth_cfg \<Rightarrow> bool" where "negativeEnabled c \<longleftrightarrow> 0 < ac_negativeTTL c"

definition newAPIKeyAuthCacheConfig :: "int \<Rightarrow> int \<Rightarrow> int \<Rightarrow> int \<Rightarrow> int \<Rightarrow> bool \<Rightarrow> auth_cfg" where
  "newAPIKeyAuthCacheConfig l1_size l1_secs l2_secs negative_secs jitter single =
     \<lparr>ac_l1Size = l1_size, ac_l1TTL = wrap64 (l1_secs * Second), ac_l2TTL = wrap64 (l2_secs * Second),
      ac_negativeTTL = wrap64 (negative_secs * Second), ac_jitterPercent = jitter, ac_singleflight = single\<rparr>"

definition auth_jitterTTL :: "key_env \<Rightarrow> duration \<Rightarrow> duration" where
  "auth_jitterTTL env ttl =
     (if ttl \<le> 0 then ttl
      else if ac_jitterPercent (kv_cfg env) \<le> 0 then ttl
      else let percent = min 100 (ac_jitterPercent (kv_cfg env));
               delta = fdiv (f64_of_int percent) (Fin 100);
               factor = fadd (fsub (Fin 1) delta) (fmul (kv_rand env) (fmul (Fin 2) delta))
           in if fle factor (Fin 0) then ttl else f64_to_int min_int64 (fmul (f64_of_int ttl) factor))"

subsection \<open>The two levels\<close>

definition fresh_until :: "time \<Rightarrow> duration \<Rightarrow> time option" where
  "fresh_until now ttl = (if ttl = 0 then None else Some (now + ttl))"

definition l1_get :: "key_env \<Rightarrow> gostring \<Rightarrow> key_sys \<Rightarrow> auth_entry option" where
  "l1_get env ck s = (case kz_l1 s ck of
     None \<Rightarrow> None
   | Some (entry, expiry) \<Rightarrow> (case expiry of None \<Rightarrow> Some entry | Some t \<Rightarrow> if kv_now env \<le> t then Some entry else None))"

definition setAuthCacheL1 :: "key_env \<Rightarrow> gostring \<Rightarrow> auth_entry \<Rightarrow> key_sys \<Rightarrow> key_sys" where
  "setAuthCacheL1 env ck entry s =
     (if \<not> l1Enabled (kv_cfg env) then s
      else let negative = ac_negativeTTL (kv_cfg env); ttl0 = ac_l1TTL (kv_cfg env);
               ttl1 = (if ae_NotFound entry \<and> 0 < negative \<and> negative < ttl0 then negative else ttl0);
               ttl = auth_jitterTTL env ttl1
           in if 0 \<le> ttl \<and> (kv_admit env \<or> kz_l1 s ck \<noteq> None)
              then s\<lparr>kz_l1 := (kz_l1 s)(ck := Some (entry, fresh_until (kv_now env) ttl))\<rparr> else s)"

text \<open>JSON has no text for an infinity or a NaN; every other value of an entry is read back as it was written.\<close>

definition is_finite :: "f64 \<Rightarrow> bool" where "is_finite x = (case x of Fin _ \<Rightarrow> True | _ \<Rightarrow> False)"

definition opt_finite :: "f64 option \<Rightarrow> bool" where
  "opt_finite x = (case x of None \<Rightarrow> True | Some y \<Rightarrow> is_finite y)"

definition snapshot_encodes :: "auth_snapshot \<Rightarrow> bool" where
  "snapshot_encodes sn \<longleftrightarrow>
     list_all is_finite [as_Quota sn, as_QuotaUsed sn, as_RateLimit5h sn, as_RateLimit1d sn, as_RateLimit7d sn,
       sn_Balance (as_User sn), sn_TotalRecharged (as_User sn)]
     \<and> opt_finite (sn_BalanceNotifyThreshold (as_User sn))
     \<and> (case as_Group sn of None \<Rightarrow> True | Some g \<Rightarrow> is_finite (sg_RateMultiplier g) \<and> is_finite (sg_ImageRateMultiplier g)
          \<and> list_all opt_finite [sg_DailyLimitUSD g, sg_WeeklyLimitUSD g, sg_MonthlyLimitUSD g, sg_ImagePrice1K g,
              sg_ImagePrice2K g, sg_ImagePrice4K g])"

definition entry_encodes :: "auth_entry \<Rightarrow> bool" where
  "entry_encodes entry = (case ae_Snapshot entry of None \<Rightarrow> True | Some sn \<Rightarrow> snapshot_encodes sn)"

definition redis_nil :: go_error where "redis_nil = EPlain ''redis: nil''"

definition GetAuthCache :: "key_env \<Rightarrow> gostring \<Rightarrow> key_sys \<Rightarrow> auth_entry result" where
  "GetAuthCache env ck s = read_fault (kv_fault env KL2Get) (case kz_l2 s ck of
     None \<Rightarrow> Inl redis_nil
   | Some (entry, expiry) \<Rightarrow>
       (case expiry of None \<Rightarrow> Inr entry | Some t \<Rightarrow> if kv_now env < t then Inr entry else Inl redis_nil))"

definition SetAuthCache :: "key_env \<Rightarrow> gostring \<Rightarrow> auth_entry \<Rightarrow> duration \<Rightarrow> key_sys \<Rightarrow> unit result \<times> key_sys" where
  "SetAuthCache env ck entry ttl s =
     (if \<not> entry_encodes entry then (Inl (EPlain ''json: unsupported value''), s)
      else with_fault (kv_fault env KL2Set) (\<lambda>s.
        ((), s\<lparr>kz_l2 := (kz_l2 s)(ck := Some (entry, if 0 < ttl then Some (kv_now env + ttl) else None))\<rparr>)) s)"

definition DeleteAuthCache :: "key_env \<Rightarrow> gostring \<Rightarrow> key_sys \<Rightarrow> unit result \<times> key_sys" where
  "DeleteAuthCache env ck = with_fault (kv_fault env KL2Del) (\<lambda>s. ((), s\<lparr>kz_l2 := (kz_l2 s)(ck := None)\<rparr>))"

definition PublishAuthCacheInvalidation :: "key_env \<Rightarrow> gostring \<Rightarrow> key_sys \<Rightarrow> unit result \<times> key_sys" where
  "PublishAuthCacheInvalidation env ck =
     with_fault (kv_fault env KPublish) (\<lambda>s. ((), s\<lparr>kz_published := kz_published s @ [ck]\<rparr>))"

text \<open>What the subscriber does with a message of another process.\<close>

definition on_invalidation :: "gostring \<Rightarrow> key_sys \<Rightarrow> key_sys" where
  "on_invalidation ck s = s\<lparr>kz_l1 := (kz_l1 s)(ck := None)\<rparr>"

definition getAuthCacheEntry :: "key_env \<Rightarrow> gostring \<Rightarrow> key_sys \<Rightarrow> auth_entry option \<times> key_sys" where
  "getAuthCacheEntry env ck s =
     (case (if l1Enabled (kv_cfg env) then l1_get env ck s else None) of
        Some entry \<Rightarrow> (Some entry, s)
      | None \<Rightarrow>
          if \<not> kv_redis env \<or> \<not> l2Enabled (kv_cfg env) then (None, s)
          else (case GetAuthCache env ck s of
                  Inl _ \<Rightarrow> (None, s) | Inr entry \<Rightarrow> (Some entry, setAuthCacheL1 env ck entry s)))"

definition setAuthCacheEntry :: "key_env \<Rightarrow> gostring \<Rightarrow> auth_entry \<Rightarrow> duration \<Rightarrow> key_sys \<Rightarrow> key_sys" where
  "setAuthCacheEntry env ck entry ttl s =
     (let s1 = setAuthCacheL1 env ck entry s in
      if \<not> kv_redis env \<or> \<not> l2Enabled (kv_cfg env) then s1
      else snd (SetAuthCache env ck entry (auth_jitterTTL env ttl) s1))"

definition deleteAuthCache :: "key_env \<Rightarrow> gostring \<Rightarrow> key_sys \<Rightarrow> key_sys" where
  "deleteAuthCache env ck s =
     (let s1 = (if l1Enabled (kv_cfg env) then s\<lparr>kz_l1 := (kz_l1 s)(ck := None)\<rparr> else s) in
      if \<not> kv_redis env then s1
      else snd (PublishAuthCacheInvalidation env ck (snd (DeleteAuthCache env ck s1))))"

subsection \<open>Dropping what is cached\<close>

definition InvalidateAuthCacheByKey :: "key_env \<Rightarrow> gostring \<Rightarrow> key_sys \<Rightarrow> key_sys" where
  "InvalidateAuthCacheByKey env key s = (if key = [] then s else deleteAuthCache env (kv_sha env key) s)"

definition deleteAuthCacheByKeys :: "key_env \<Rightarrow> gostring list \<Rightarrow> key_sys \<Rightarrow> key_sys" where
  "deleteAuthCacheByKeys env keys s =
     fold (\<lambda>key s. if key = [] then s else deleteAuthCache env (kv_sha env key) s) keys s"

definition InvalidateAuthCacheByUserID :: "key_env \<Rightarrow> int64 \<Rightarrow> key_sys \<Rightarrow> key_sys" where
  "InvalidateAuthCacheByUserID env u s =
     (if u \<le> 0 then s
      else case ListKeysByUserID (kv_fault env KList) u s of Inl _ \<Rightarrow> s | Inr keys \<Rightarrow> deleteAuthCacheByKeys env keys s)"

definition InvalidateAuthCacheByGroupID :: "key_env \<Rightarrow> int64 \<Rightarrow> key_sys \<Rightarrow> key_sys" where
  "InvalidateAuthCacheByGroupID env g s =
     (if g \<le> 0 then s
      else case ListKeysByGroupID (kv_fault env KList) g s of Inl _ \<Rightarrow> s | Inr keys \<Rightarrow> deleteAuthCacheByKeys env keys s)"

subsection \<open>Snapshots\<close>

definition user_snapshot :: "key_user \<Rightarrow> auth_user_snapshot" where
  "user_snapshot u = \<lparr>
     sn_ID = ku_ID u, sn_Status = ku_Status u, sn_Role = ku_Role u, sn_Balance = ku_Balance u,
     sn_Concurrency = ku_Concurrency u, sn_Email = ku_Email u, sn_Username = ku_Username u,
     sn_BalanceNotifyEnabled = ku_BalanceNotifyEnabled u,
     sn_BalanceNotifyThresholdType = ku_BalanceNotifyThresholdType u,
     sn_BalanceNotifyThreshold = ku_BalanceNotifyThreshold u,
     sn_BalanceNotifyExtraEmails = ku_BalanceNotifyExtraEmails u, sn_TotalRecharged = ku_TotalRecharged u,
     sn_RPMLimit = ku_RPMLimit u, sn_UserGroupRPMOverride = None\<rparr>"

definition group_snapshot :: "gw_group \<Rightarrow> auth_group_snapshot" where
  "group_snapshot g = \<lparr>
     sg_ID = g_ID g, sg_Name = g_Name g, sg_Platform = g_Platform g, sg_Status = g_Status g,
     sg_SubscriptionType = g_SubscriptionType g, sg_RateMultiplier = g_RateMultiplier g,
     sg_DailyLimitUSD = g_DailyLimitUSD g, sg_WeeklyLimitUSD = g_WeeklyLimitUSD g,
     sg_MonthlyLimitUSD = g_MonthlyLimitUSD g, sg_AllowImageGeneration = g_AllowImageGeneration g,
     sg_ImageRateIndependent = g_ImageRateIndependent g, sg_ImageRateMultiplier = g_ImageRateMultiplier g,
     sg_ImagePrice1K = g_ImagePrice1K g, sg_ImagePrice2K = g_ImagePrice2K g, sg_ImagePrice4K = g_ImagePrice4K g,
     sg_ClaudeCodeOnly = g_ClaudeCodeOnly g, sg_FallbackGroupID = g_FallbackGroupID g,
     sg_FallbackGroupIDOnInvalidRequest = g_FallbackGroupIDOnInvalidRequest g, sg_ModelRouting = g_ModelRouting g,
     sg_ModelRoutingEnabled = g_ModelRoutingEnabled g, sg_MCPXMLInject = g_MCPXMLInject g,
     sg_SupportedModelScopes = g_SupportedModelScopes g, sg_AllowMessagesDispatch = g_AllowMessagesDispatch g,
     sg_DefaultMappedModel = g_DefaultMappedModel g, sg_RPMLimit = g_RPMLimit g\<rparr>"

definition read_override :: "key_env \<Rightarrow> int64 \<Rightarrow> int64 option \<Rightarrow> key_sys \<Rightarrow> int option" where
  "read_override env u gid s = (case gid of
     None \<Rightarrow> None
   | Some g \<Rightarrow> if 0 < g \<and> kv_rates env
       then (case read_fault (kv_fault env KOverride) (Inr (kz_overrides s (u, g))) of Inl _ \<Rightarrow> None | Inr x \<Rightarrow> x)
       else None)"

definition snapshotFromAPIKey :: "key_env \<Rightarrow> loaded_key \<Rightarrow> key_sys \<Rightarrow> auth_snapshot option" where
  "snapshotFromAPIKey env k s = (case lk_User k of
     None \<Rightarrow> None
   | Some u \<Rightarrow> let row = lk_Row k in Some \<lparr>as_Version = apiKeyAuthSnapshotVersion, as_APIKeyID = ak_ID row,
       as_UserID = ak_UserID row, as_GroupID = ak_GroupID row, as_Name = ak_Name row, as_Status = ak_Status row,
       as_IPWhitelist = ak_IPWhitelist row, as_IPBlacklist = ak_IPBlacklist row,
       as_User = (user_snapshot u)\<lparr>sn_UserGroupRPMOverride := read_override env (ak_UserID row) (ak_GroupID row) s\<rparr>,
       as_Group = map_option group_snapshot (lk_Group k),
       as_Quota = ak_Quota row, as_QuotaUsed = ak_QuotaUsed row, as_ExpiresAt = ak_ExpiresAt row,
       as_RateLimit5h = ak_RateLimit5h row, as_RateLimit1d = ak_RateLimit1d row, as_RateLimit7d = ak_RateLimit7d row\<rparr>)"

definition compileAPIKeyIPRules :: "ip_lib \<Rightarrow> loaded_key \<Rightarrow> loaded_key" where
  "compileAPIKeyIPRules lib k = k\<lparr>lk_CompiledIPWhitelist := CompileIPRules lib (ak_IPWhitelist (lk_Row k)),
     lk_CompiledIPBlacklist := CompileIPRules lib (ak_IPBlacklist (lk_Row k))\<rparr>"

definition user_of_snapshot :: "auth_user_snapshot \<Rightarrow> key_user" where
  "user_of_snapshot n = \<lparr>
     ku_ID = sn_ID n, ku_Email = sn_Email n, ku_Username = sn_Username n, ku_Role = sn_Role n,
     ku_Balance = sn_Balance n, ku_Concurrency = sn_Concurrency n, ku_Status = sn_Status n, ku_AllowedGroups = [],
     ku_SignupSource = [], ku_LastLoginAt = None, ku_LastActiveAt = None,
     ku_BalanceNotifyEnabled = sn_BalanceNotifyEnabled n,
     ku_BalanceNotifyThresholdType = sn_BalanceNotifyThresholdType n,
     ku_BalanceNotifyThreshold = sn_BalanceNotifyThreshold n,
     ku_BalanceNotifyExtraEmails = sn_BalanceNotifyExtraEmails n, ku_TotalRecharged = sn_TotalRecharged n,
     ku_RPMLimit = sn_RPMLimit n, ku_UserGroupRPMOverride = sn_UserGroupRPMOverride n\<rparr>"

definition group_of_snapshot :: "auth_group_snapshot \<Rightarrow> gw_group" where
  "group_of_snapshot n = \<lparr>
     g_ID = sg_ID n, g_Name = sg_Name n, g_Description = [], g_Platform = sg_Platform n,
     g_RateMultiplier = sg_RateMultiplier n, g_IsExclusive = False, g_Status = sg_Status n, g_Hydrated = True,
     g_SubscriptionType = sg_SubscriptionType n, g_DailyLimitUSD = sg_DailyLimitUSD n,
     g_WeeklyLimitUSD = sg_WeeklyLimitUSD n, g_MonthlyLimitUSD = sg_MonthlyLimitUSD n, g_DefaultValidityDays = 0,
     g_AllowImageGeneration = sg_AllowImageGeneration n, g_ImageRateIndependent = sg_ImageRateIndependent n,
     g_ImageRateMultiplier = sg_ImageRateMultiplier n, g_ImagePrice1K = sg_ImagePrice1K n,
     g_ImagePrice2K = sg_ImagePrice2K n, g_ImagePrice4K = sg_ImagePrice4K n, g_ClaudeCodeOnly = sg_ClaudeCodeOnly n,
     g_FallbackGroupID = sg_FallbackGroupID n,
     g_FallbackGroupIDOnInvalidRequest = sg_FallbackGroupIDOnInvalidRequest n, g_ModelRouting = sg_ModelRouting n,
     g_ModelRoutingEnabled = sg_ModelRoutingEnabled n, g_MCPXMLInject = sg_MCPXMLInject n,
     g_SupportedModelScopes = sg_SupportedModelScopes n, g_SortOrder = 0,
     g_AllowMessagesDispatch = sg_AllowMessagesDispatch n, g_RequireOAuthOnly = False, g_RequirePrivacySet = False,
     g_DefaultMappedModel = sg_DefaultMappedModel n, g_RPMLimit = sg_RPMLimit n, g_CreatedAt = zero_time,
     g_UpdatedAt = zero_time\<rparr>"

definition snapshotToAPIKey :: "ip_lib \<Rightarrow> gostring \<Rightarrow> auth_snapshot \<Rightarrow> loaded_key" where
  "snapshotToAPIKey lib key n = compileAPIKeyIPRules lib \<lparr>lk_Row = \<lparr>
       ak_ID = as_APIKeyID n, ak_UserID = as_UserID n, ak_Key = key, ak_Name = as_Name n, ak_GroupID = as_GroupID n,
       ak_Status = as_Status n, ak_IPWhitelist = as_IPWhitelist n, ak_IPBlacklist = as_IPBlacklist n,
       ak_LastUsedAt = None, ak_CreatedAt = zero_time, ak_UpdatedAt = zero_time, ak_Quota = as_Quota n,
       ak_QuotaUsed = as_QuotaUsed n, ak_ExpiresAt = as_ExpiresAt n, ak_RateLimit5h = as_RateLimit5h n,
       ak_RateLimit1d = as_RateLimit1d n, ak_RateLimit7d = as_RateLimit7d n, ak_Usage5h = Fin 0, ak_Usage1d = Fin 0,
       ak_Usage7d = Fin 0, ak_Window5hStart = None, ak_Window1dStart = None, ak_Window7dStart = None\<rparr>,
     lk_User = Some (user_of_snapshot (as_User n)), lk_Group = map_option group_of_snapshot (as_Group n),
     lk_CompiledIPWhitelist = no_rules, lk_CompiledIPBlacklist = no_rules\<rparr>"

subsection \<open>Looking a key up\<close>

text \<open>Between the read of the row and the writes of the cache other requests run: \<open>kv_between env KAuth\<close>.\<close>

definition loadAuthCacheEntry :: "key_env \<Rightarrow> gostring \<Rightarrow> gostring \<Rightarrow> key_sys \<Rightarrow> auth_entry result \<times> key_sys" where
  "loadAuthCacheEntry env key ck s =
     (let read = GetByKeyForAuth (kv_fault env KAuth) key s;
          loaded = (case read of Inl _ \<Rightarrow> None
            | Inr k \<Rightarrow> snapshotFromAPIKey env (k\<lparr>lk_Row := (lk_Row k)\<lparr>ak_Key := key\<rparr>\<rparr>) s);
          s1 = kv_between env KAuth s
      in case read of
           Inl err \<Rightarrow>
             if errors_is err (EApp ErrAPIKeyNotFound) then
               (let entry = \<lparr>ae_NotFound = True, ae_Snapshot = None\<rparr> in
                (Inr entry, if negativeEnabled (kv_cfg env)
                            then setAuthCacheEntry env ck entry (ac_negativeTTL (kv_cfg env)) s1 else s1))
             else (Inl (EWrap ''get api key'' err), s1)
         | Inr k \<Rightarrow> (case loaded of
             None \<Rightarrow> (Inl (EWrap ''get api key'' (EApp ErrAPIKeyNotFound)), s1)
           | Some snapshot \<Rightarrow>
               (let entry = \<lparr>ae_NotFound = False, ae_Snapshot = Some snapshot\<rparr> in
                (Inr entry, setAuthCacheEntry env ck entry (ac_l2TTL (kv_cfg env)) s1))))"

text \<open>The entry's answer, if the entry can be used.\<close>

definition applyAuthCacheEntry :: "ip_lib \<Rightarrow> gostring \<Rightarrow> auth_entry \<Rightarrow> loaded_key result option" where
  "applyAuthCacheEntry lib key entry =
     (if ae_NotFound entry then Some (Inl (EApp ErrAPIKeyNotFound))
      else case ae_Snapshot entry of
        None \<Rightarrow> None
      | Some n \<Rightarrow> if as_Version n \<noteq> apiKeyAuthSnapshotVersion then None else Some (Inr (snapshotToAPIKey lib key n)))"

definition found_key :: "ip_lib \<Rightarrow> loaded_key result \<Rightarrow> loaded_key result" where
  "found_key lib res = (case res of Inl err \<Rightarrow> Inl (EWrap ''get api key'' err) | Inr k \<Rightarrow> Inr (compileAPIKeyIPRules lib k))"

text \<open>The branches with and without single flight do the same: a caller that joins another's flight gets its result.\<close>

definition key_GetByKey :: "key_env \<Rightarrow> gostring \<Rightarrow> key_sys \<Rightarrow> loaded_key result \<times> key_sys" where
  "key_GetByKey env key s =
     (let ck = kv_sha env key; lib = kv_ip env in
      case getAuthCacheEntry env ck s of (hit, s1) \<Rightarrow>
        (case Option.bind hit (applyAuthCacheEntry lib key) of
           Some res \<Rightarrow> (found_key lib res, s1)
         | None \<Rightarrow> (case loadAuthCacheEntry env key ck s1 of
             (Inl err, s2) \<Rightarrow> (Inl err, s2)
           | (Inr entry, s2) \<Rightarrow> (case applyAuthCacheEntry lib key entry of
               Some res \<Rightarrow> (found_key lib res, s2)
             | None \<Rightarrow> (found_key lib (map_sum id (\<lambda>k. k\<lparr>lk_Row := (lk_Row k)\<lparr>ak_Key := key\<rparr>\<rparr>)
                  (GetByKeyForAuth (kv_fault env KAuthAgain) key s2)), s2)))))"

subsection \<open>Creating and editing\<close>

fun join_words :: "gostring list \<Rightarrow> gostring" where
  "join_words [] = []"
| "join_words [x] = x"
| "join_words (x # y # ys) = x @ '' '' @ join_words (y # ys)"

definition bad_patterns :: "ip_lib \<Rightarrow> gostring list \<Rightarrow> go_error option" where
  "bad_patterns lib patterns = (case ValidateIPPatterns lib patterns of
     [] \<Rightarrow> None | invalid \<Rightarrow> Some (EWrap (''['' @ join_words invalid @ '']'') (EApp ErrInvalidIPPattern)))"

definition canUserBindGroup :: "key_env \<Rightarrow> key_user \<Rightarrow> gw_group \<Rightarrow> key_sys \<Rightarrow> bool" where
  "canUserBindGroup env u g s =
     (if IsSubscriptionType g
      then \<not> isl (GetActiveByUserIDAndGroupID (kv_fault env KSub) (kv_now env) (ku_ID u) (g_ID g) (kz_subs s))
      else CanBindGroup u (g_ID g) (g_IsExclusive g))"

definition key_user_GetByID :: "fault \<Rightarrow> int64 \<Rightarrow> key_sys \<Rightarrow> key_user result" where
  "key_user_GetByID f u s = read_fault f (found ErrUserNotFound (user_of u s))"

text \<open>The check of a group a key is bound to, and of the address patterns.\<close>

definition bind_refused :: "key_env \<Rightarrow> key_user result \<Rightarrow> int64 \<Rightarrow> key_sys \<Rightarrow> go_error option" where
  "bind_refused env user g s = (case user of
     Inl err \<Rightarrow> Some (EWrap ''get user'' err)
   | Inr u \<Rightarrow> (case group_GetByID (kv_fault env KGroup) g (kz_subs s) of
       Inl err \<Rightarrow> Some (EWrap ''get group'' err)
     | Inr x \<Rightarrow> if canUserBindGroup env u x s then None else Some (EApp ErrGroupNotAllowed)))"

definition patterns_refused :: "ip_lib \<Rightarrow> gostring list \<Rightarrow> gostring list \<Rightarrow> go_error option" where
  "patterns_refused lib white black = (case bad_patterns lib white of Some err \<Rightarrow> Some err | None \<Rightarrow> bad_patterns lib black)"

definition incrementAPIKeyErrorCount :: "key_env \<Rightarrow> int64 \<Rightarrow> key_sys \<Rightarrow> key_sys" where
  "incrementAPIKeyErrorCount env u s = (if \<not> kv_redis env then s
     else snd (with_fault (kv_fault env KAttempts) (\<lambda>s. ((), s\<lparr>kz_attempts := (kz_attempts s)(u := kz_attempts s u + 1)\<rparr>)) s))"

definition delete_attempts :: "key_env \<Rightarrow> int64 \<Rightarrow> key_sys \<Rightarrow> key_sys" where
  "delete_attempts env u s = (if \<not> kv_redis env then s
     else snd (with_fault (kv_fault env KAttemptsDel) (\<lambda>s. ((), s\<lparr>kz_attempts := (kz_attempts s)(u := 0)\<rparr>)) s))"

text \<open>The text of the new key: the user's own, checked, or a random one.\<close>

definition choose_key :: "key_env \<Rightarrow> int64 \<Rightarrow> create_key \<Rightarrow> key_sys \<Rightarrow> gostring result \<times> key_sys" where
  "choose_key env u req s = (case ck_CustomKey req of
     Some custom \<Rightarrow>
       if custom = [] then (map_sum (EWrap ''generate key'') id (GenerateKey (kv_prefix env) (kv_random env)), s)
       else (case checkAPIKeyRateLimit (if kv_redis env then Some (read_fault (kv_fault env KAttempts) (Inr (kz_attempts s u))) else None) of
          Some err \<Rightarrow> (Inl (EApp err), s)
        | None \<Rightarrow> (case ValidateCustomKey custom of
            Some err \<Rightarrow> (Inl (EApp err), s)
          | None \<Rightarrow> (case ExistsByKey (kv_fault env KExists) custom s of
              Inl err \<Rightarrow> (Inl (EWrap ''check key exists'' err), s)
            | Inr exists \<Rightarrow> if exists then (Inl (EApp ErrAPIKeyExists), incrementAPIKeyErrorCount env u s)
                            else (Inr custom, s))))
   | None \<Rightarrow> (map_sum (EWrap ''generate key'') id (GenerateKey (kv_prefix env) (kv_random env)), s))"

definition new_key :: "key_env \<Rightarrow> int64 \<Rightarrow> gostring \<Rightarrow> create_key \<Rightarrow> api_key" where
  "new_key env u key req = \<lparr>ak_ID = 0, ak_UserID = u, ak_Key = key, ak_Name = ck_Name req, ak_GroupID = ck_GroupID req,
     ak_Status = StatusActive, ak_IPWhitelist = ck_IPWhitelist req, ak_IPBlacklist = ck_IPBlacklist req, ak_LastUsedAt = None,
     ak_CreatedAt = zero_time, ak_UpdatedAt = zero_time, ak_Quota = ck_Quota req, ak_QuotaUsed = Fin 0,
     ak_ExpiresAt = (case ck_ExpiresInDays req of
        Some days \<Rightarrow> if 0 < days then Some (AddDays (kv_loc env) (kv_now env) days) else None | None \<Rightarrow> None),
     ak_RateLimit5h = ck_RateLimit5h req, ak_RateLimit1d = ck_RateLimit1d req, ak_RateLimit7d = ck_RateLimit7d req,
     ak_Usage5h = Fin 0, ak_Usage1d = Fin 0, ak_Usage7d = Fin 0, ak_Window5hStart = None, ak_Window1dStart = None,
     ak_Window7dStart = None\<rparr>"

definition returned_key :: "ip_lib \<Rightarrow> api_key \<Rightarrow> loaded_key" where
  "returned_key lib k = compileAPIKeyIPRules lib \<lparr>lk_Row = k, lk_User = None, lk_Group = None,
     lk_CompiledIPWhitelist = no_rules, lk_CompiledIPBlacklist = no_rules\<rparr>"

definition create_checks :: "key_env \<Rightarrow> int64 \<Rightarrow> create_key \<Rightarrow> key_sys \<Rightarrow> go_error option" where
  "create_checks env u req s = (case key_user_GetByID (kv_fault env KUser) u s of
     Inl err \<Rightarrow> Some (EWrap ''get user'' err)
   | Inr user \<Rightarrow> (case patterns_refused (kv_ip env) (ck_IPWhitelist req) (ck_IPBlacklist req) of
       Some err \<Rightarrow> Some err
     | None \<Rightarrow> (case ck_GroupID req of None \<Rightarrow> None | Some g \<Rightarrow> bind_refused env (Inr user) g s)))"

definition key_service_Create :: "key_env \<Rightarrow> int64 \<Rightarrow> create_key \<Rightarrow> key_sys \<Rightarrow> loaded_key result \<times> key_sys" where
  "key_service_Create env u req s = (case create_checks env u req s of
     Some err \<Rightarrow> (Inl err, s)
   | None \<Rightarrow> and_then (choose_key env u req s) (\<lambda>key s1.
       and_then (wrap_err ''create api key'' (key_Create env (new_key env u key req) (kv_between env KCreate s1))) (\<lambda>k s2.
         (Inr (returned_key (kv_ip env) k), InvalidateAuthCacheByKey env (ak_Key k) s2))))"

text \<open>The edits of a row, in the order of the code; \<open>set_opt\<close> writes a field the request gives.\<close>

definition set_opt :: "'a option \<Rightarrow> ('a \<Rightarrow> api_key \<Rightarrow> api_key) \<Rightarrow> api_key \<Rightarrow> api_key" where
  "set_opt x f k = (case x of None \<Rightarrow> k | Some v \<Rightarrow> f v k)"

definition reactivate :: "bool \<Rightarrow> gostring \<Rightarrow> api_key \<Rightarrow> api_key" where
  "reactivate c st k = (if ak_Status k = st \<and> c then k\<lparr>ak_Status := StatusActive\<rparr> else k)"

definition edit_quota :: "update_key \<Rightarrow> api_key \<Rightarrow> api_key" where
  "edit_quota req k =
     (let k1 = set_opt (uk_Quota req)
                 (\<lambda>q k. reactivate (flt (ak_QuotaUsed k) q) StatusAPIKeyQuotaExhausted (k\<lparr>ak_Quota := q\<rparr>)) k
      in if uk_ResetQuota req = Some True then reactivate True StatusAPIKeyQuotaExhausted (k1\<lparr>ak_QuotaUsed := Fin 0\<rparr>) else k1)"

definition edit_expiry :: "time \<Rightarrow> update_key \<Rightarrow> api_key \<Rightarrow> api_key" where
  "edit_expiry now req k =
     (if uk_ClearExpiration req then reactivate True StatusAPIKeyExpired (k\<lparr>ak_ExpiresAt := None\<rparr>)
      else set_opt (uk_ExpiresAt req) (\<lambda>t k. reactivate (Before now t) StatusAPIKeyExpired (k\<lparr>ak_ExpiresAt := Some t\<rparr>)) k)"

definition edit_limits :: "update_key \<Rightarrow> api_key \<Rightarrow> api_key" where
  "edit_limits req k =
     (let k1 = set_opt (uk_RateLimit5h req) (\<lambda>x k. k\<lparr>ak_RateLimit5h := x\<rparr>) k;
          k2 = set_opt (uk_RateLimit1d req) (\<lambda>x k. k\<lparr>ak_RateLimit1d := x\<rparr>) k1;
          k3 = set_opt (uk_RateLimit7d req) (\<lambda>x k. k\<lparr>ak_RateLimit7d := x\<rparr>) k2
      in if uk_ResetRateLimitUsage req = Some True
         then k3\<lparr>ak_Usage5h := Fin 0, ak_Usage1d := Fin 0, ak_Usage7d := Fin 0, ak_Window5hStart := None,
                 ak_Window1dStart := None, ak_Window7dStart := None\<rparr>
         else k3)"

definition edited_key :: "time \<Rightarrow> update_key \<Rightarrow> api_key \<Rightarrow> api_key" where
  "edited_key now req k =
     (let k1 = set_opt (uk_Name req) (\<lambda>x k. k\<lparr>ak_Name := x\<rparr>) k;
          k2 = set_opt (uk_GroupID req) (\<lambda>g k. k\<lparr>ak_GroupID := Some g\<rparr>) k1;
          k3 = set_opt (uk_Status req) (\<lambda>x k. k\<lparr>ak_Status := x\<rparr>) k2;
          k4 = edit_expiry now req (edit_quota req k3)
      in edit_limits req (k4\<lparr>ak_IPWhitelist := uk_IPWhitelist req, ak_IPBlacklist := uk_IPBlacklist req\<rparr>))"

definition update_checks :: "key_env \<Rightarrow> int64 \<Rightarrow> update_key \<Rightarrow> api_key \<Rightarrow> key_sys \<Rightarrow> go_error option" where
  "update_checks env u req k s =
     (if ak_UserID k \<noteq> u then Some (EApp ErrInsufficientPerms)
      else case patterns_refused (kv_ip env) (uk_IPWhitelist req) (uk_IPBlacklist req) of
        Some err \<Rightarrow> Some err
      | None \<Rightarrow> (case uk_GroupID req of
          None \<Rightarrow> None | Some g \<Rightarrow> bind_refused env (key_user_GetByID (kv_fault env KUser) u s) g s))"

definition key_service_Update :: "key_env \<Rightarrow> int64 \<Rightarrow> int64 \<Rightarrow> update_key \<Rightarrow> key_sys \<Rightarrow> loaded_key result \<times> key_sys" where
  "key_service_Update env i u req s = (case key_GetByID (kv_fault env KGet) i s of
     Inl err \<Rightarrow> (Inl (EWrap ''get api key'' err), s)
   | Inr k \<Rightarrow> (case update_checks env u req (lk_Row k) s of
       Some err \<Rightarrow> (Inl err, s)
     | None \<Rightarrow>
         (let s1 = (if uk_Status req \<noteq> None then delete_attempts env (ak_UserID (lk_Row k)) s else s) in
          and_then (wrap_err ''update api key''
              (key_Update env (edited_key (kv_now env) req (lk_Row k)) (kv_between env KUpdate s1))) (\<lambda>row s2.
            (let s3 = InvalidateAuthCacheByKey env (ak_Key row) s2 in
             (Inr (compileAPIKeyIPRules (kv_ip env) (k\<lparr>lk_Row := row\<rparr>)),
              if uk_ResetRateLimitUsage req = Some True \<and> kv_rate_cache env
              then s3\<lparr>kz_rate_dropped := kz_rate_dropped s3 @ [ak_ID row]\<rparr> else s3))))))"

definition key_service_Delete :: "key_env \<Rightarrow> int64 \<Rightarrow> int64 \<Rightarrow> key_sys \<Rightarrow> unit result \<times> key_sys" where
  "key_service_Delete env i u s = (case GetKeyAndOwnerID (kv_fault env KOwner) i s of
     Inl err \<Rightarrow> (Inl (EWrap ''get api key'' err), s)
   | Inr (key, owner) \<Rightarrow>
       if owner \<noteq> u then (Inl (EApp ErrInsufficientPerms), s)
       else (let s1 = InvalidateAuthCacheByKey env key (delete_attempts env u s) in
         and_then (wrap_err ''delete api key'' (key_Delete env i (kv_between env KDelete s1))) (\<lambda>_ s2.
           (Inr (), s2\<lparr>kz_touch := (kz_touch s2)(i := None)\<rparr>))))"

subsection \<open>Reads and counters\<close>

definition key_service_GetByID :: "key_env \<Rightarrow> int64 \<Rightarrow> key_sys \<Rightarrow> loaded_key result" where
  "key_service_GetByID env i s = (case key_GetByID (kv_fault env KGet) i s of
     Inl err \<Rightarrow> Inl (EWrap ''get api key'' err) | Inr k \<Rightarrow> Inr (compileAPIKeyIPRules (kv_ip env) k))"

definition VerifyOwnership :: "key_env \<Rightarrow> int64 \<Rightarrow> int64 list \<Rightarrow> key_sys \<Rightarrow> int64 list result" where
  "VerifyOwnership env u ids s = (if ids = [] then Inr []
     else map_sum (EWrap ''verify api key ownership'') id (repo_VerifyOwnership (kv_fault env KList) u ids s))"

definition ValidateKey :: "key_env \<Rightarrow> gostring \<Rightarrow> key_sys \<Rightarrow> (loaded_key \<times> key_user) result \<times> key_sys" where
  "ValidateKey env key s = and_then (key_GetByKey env key s) (\<lambda>k s1.
     if \<not> ak_IsActive (lk_Row k) then (Inl (EApp (Unauthorized ''API_KEY_INACTIVE'' ''api key is not active'')), s1)
     else (case key_user_GetByID (kv_fault env KUser) (ak_UserID (lk_Row k)) s1 of
       Inl err \<Rightarrow> (Inl (EWrap ''get user'' err), s1)
     | Inr user \<Rightarrow> if \<not> ku_IsActive user then (Inl (EApp ErrUserNotActive), s1) else (Inr (k, user), s1)))"

text \<open>Both readings of the clock in \<open>TouchLastUsed\<close> are \<open>kv_now\<close>, so the second look at the map repeats the first.\<close>

definition TouchLastUsed :: "key_env \<Rightarrow> int64 \<Rightarrow> key_sys \<Rightarrow> unit result \<times> key_sys" where
  "TouchLastUsed env i s =
     (if i \<le> 0 then (Inr (), s)
      else if (case kz_touch s i of None \<Rightarrow> False | Some t \<Rightarrow> Before (kv_now env) t) then (Inr (), s)
      else case UpdateLastUsed (kv_fault env KTouch) i (kv_now env) (kz_keys s) of
        (Inl err, rows) \<Rightarrow> (Inl (EWrap ''touch api key last used'' err),
           s\<lparr>kz_keys := rows, kz_touch := (kz_touch s)(i := Some (kv_now env + apiKeyLastUsedFailBackoff))\<rparr>)
      | (Inr _, rows) \<Rightarrow>
          (Inr (), s\<lparr>kz_keys := rows, kz_touch := (kz_touch s)(i := Some (kv_now env + apiKeyLastUsedMinTouch))\<rparr>))"

text \<open>\<open>UpdateQuotaUsed\<close> with the invalidation it ends with.\<close>

definition key_UpdateQuotaUsed :: "key_env \<Rightarrow> int64 \<Rightarrow> f64 \<Rightarrow> key_sys \<Rightarrow> unit result \<times> key_sys" where
  "key_UpdateQuotaUsed env i cost s = (case UpdateQuotaUsed (kv_fault env KQuota) (kv_num env) (kv_now env) i cost (kz_keys s) of
     ((res, stale), rows) \<Rightarrow>
       (res, case stale of None \<Rightarrow> s\<lparr>kz_keys := rows\<rparr> | Some key \<Rightarrow> InvalidateAuthCacheByKey env key (s\<lparr>kz_keys := rows\<rparr>)))"

text \<open>The name of the day's counter is \<open>apikey:usage:<id>:<date>\<close>; here it is the key and the number of the day.\<close>

definition IncrementDailyUsage :: "time \<Rightarrow> int64 \<times> int \<Rightarrow> key_sys \<Rightarrow> key_sys" where
  "IncrementDailyUsage now c s = s\<lparr>kz_daily := (kz_daily s)(c := Some (case kz_daily s c of
     None \<Rightarrow> (1, None)
   | Some (n, expiry) \<Rightarrow> if (case expiry of None \<Rightarrow> True | Some t \<Rightarrow> now < t) then (n + 1, expiry) else (1, None)))\<rparr>"

definition SetDailyUsageExpiry :: "time \<Rightarrow> int64 \<times> int \<Rightarrow> duration \<Rightarrow> key_sys \<Rightarrow> key_sys" where
  "SetDailyUsageExpiry now c ttl s = s\<lparr>kz_daily := (kz_daily s)(c := (case kz_daily s c of
     None \<Rightarrow> None
   | Some (n, expiry) \<Rightarrow> if (case expiry of None \<Rightarrow> True | Some t \<Rightarrow> now < t) then Some (n, Some (now + ttl)) else None))\<rparr>"

definition key_IncrementUsage :: "key_env \<Rightarrow> int64 \<Rightarrow> key_sys \<Rightarrow> unit result \<times> key_sys" where
  "key_IncrementUsage env i s =
     (if \<not> kv_redis env then (Inr (), s)
      else let c = (i, local_sec (kv_loc env) (kv_now env) div 86400); now = kv_now env in
        and_then (wrap_err ''increment usage'' (with_fault (kv_fault env KDaily) (\<lambda>s. ((), IncrementDailyUsage now c s)) s))
          (\<lambda>_ s1. (Inr (), snd (with_fault (kv_fault env KDailyTTL) (\<lambda>s. ((), SetDailyUsageExpiry now c (24 * Hour) s)) s1))))"

definition canUserBindGroupInternal :: "key_user \<Rightarrow> gw_group \<Rightarrow> int64 list \<Rightarrow> bool" where
  "canUserBindGroupInternal u g subscribed =
     (if IsSubscriptionType g then g_ID g \<in> set subscribed else CanBindGroup u (g_ID g) (g_IsExclusive g))"

definition group_ListActive :: "fault \<Rightarrow> sub_db \<Rightarrow> gw_group list result" where
  "group_ListActive f db =
     read_fault f (Inr (sort_key g_SortOrder (sort_key g_ID (filter group_IsActive (sd_groups db)))))"

definition sub_ListActiveByUserID :: "fault \<Rightarrow> time \<Rightarrow> int64 \<Rightarrow> sub_db \<Rightarrow> user_sub list result" where
  "sub_ListActiveByUserID f now u db = read_fault f (Inr (rev (sort_key us_CreatedAt (rev (filter
     (\<lambda>x. us_UserID x = u \<and> us_Status x = SubscriptionStatusActive \<and> After (us_ExpiresAt x) now) (sd_rows db))))))"

definition GetAvailableGroups :: "key_env \<Rightarrow> int64 \<Rightarrow> key_sys \<Rightarrow> gw_group list result" where
  "GetAvailableGroups env u s = (case key_user_GetByID (kv_fault env KUser) u s of
     Inl err \<Rightarrow> Inl (EWrap ''get user'' err)
   | Inr user \<Rightarrow> (case group_ListActive (kv_fault env KGroups) (kz_subs s) of
       Inl err \<Rightarrow> Inl (EWrap ''list active groups'' err)
     | Inr groups \<Rightarrow> (case sub_ListActiveByUserID (kv_fault env KSubs) (kv_now env) u (kz_subs s) of
         Inl err \<Rightarrow> Inl (EWrap ''list active subscriptions'' err)
       | Inr subs \<Rightarrow> Inr (filter (\<lambda>g. canUserBindGroupInternal user g (map us_GroupID subs)) groups))))"

end
