(* ===== verification/ApiKeyLaws.thy ===== *)
theory ApiKeyLaws
  imports ApiKeyCache
begin

text \<open>
  What the cache of authenticated keys guarantees: as long as requests do not overlap and Redis carries out the deletions,
  a cached answer is the one a read of the database would give, but for the quota used so far. Two overlaps where it
  fails: a lookup during a deletion, and a charge during an edit.
\<close>

subsection \<open>The answer an entry stands for\<close>

definition forget_used :: "auth_entry \<Rightarrow> auth_entry" where
  "forget_used e = e\<lparr>ae_Snapshot := map_option (\<lambda>n. n\<lparr>as_QuotaUsed := Fin 0\<rparr>) (ae_Snapshot e)\<rparr>"

definition override_now :: "bool \<Rightarrow> int64 \<Rightarrow> int64 option \<Rightarrow> key_sys \<Rightarrow> int option" where
  "override_now rates u gid s = (case gid of None \<Rightarrow> None | Some g \<Rightarrow> if 0 < g \<and> rates then kz_overrides s (u, g) else None)"

definition row_entry :: "bool \<Rightarrow> api_key \<Rightarrow> key_sys \<Rightarrow> auth_entry option" where
  "row_entry rates k s = (case user_of (ak_UserID k) s of
     None \<Rightarrow> None
   | Some u \<Rightarrow> Some \<lparr>ae_NotFound = False, ae_Snapshot = Some \<lparr>as_Version = apiKeyAuthSnapshotVersion, as_APIKeyID = ak_ID k,
       as_UserID = ak_UserID k, as_GroupID = ak_GroupID k, as_Name = ak_Name k, as_Status = ak_Status k,
       as_IPWhitelist = ak_IPWhitelist k, as_IPBlacklist = ak_IPBlacklist k,
       as_User = (user_snapshot (edge_user u))\<lparr>sn_UserGroupRPMOverride := override_now rates (ak_UserID k) (ak_GroupID k) s\<rparr>,
       as_Group = map_option group_snapshot (map_option auth_group_columns (group_of_key (ak_GroupID k) s)),
       as_Quota = ak_Quota k, as_QuotaUsed = ak_QuotaUsed k, as_ExpiresAt = ak_ExpiresAt k,
       as_RateLimit5h = ak_RateLimit5h k, as_RateLimit1d = ak_RateLimit1d k, as_RateLimit7d = ak_RateLimit7d k\<rparr>\<rparr>)"

definition missing_entry :: auth_entry where "missing_entry = \<lparr>ae_NotFound = True, ae_Snapshot = None\<rparr>"

definition entry_now :: "bool \<Rightarrow> gostring \<Rightarrow> key_sys \<Rightarrow> auth_entry option" where
  "entry_now rates key s = (case key_row key s of None \<Rightarrow> Some missing_entry | Some k \<Rightarrow> row_entry rates k s)"

lemma read_override_calm:
  "kv_fault env KOverride = NoFault \<Longrightarrow> read_override env u gid s = override_now (kv_rates env) u gid s"
  by (simp add: read_override_def override_now_def split: option.split)

lemma errors_is_self [simp]: "errors_is (EApp ErrAPIKeyNotFound) (EApp ErrAPIKeyNotFound)"
  by (rule errors_is_App) (simp add: app_is_def)

lemma loaded_from_database:
  assumes "kv_fault env KAuth = NoFault" "kv_fault env KOverride = NoFault" "kv_between env = (\<lambda>_ s. s)"
  shows "loadAuthCacheEntry env key ck s = (case entry_now (kv_rates env) key s of
     None \<Rightarrow> (Inl (EWrap ''get api key'' (EApp ErrAPIKeyNotFound)), s)
   | Some e \<Rightarrow> (Inr e,
       if ae_NotFound e then (if negativeEnabled (kv_cfg env) then setAuthCacheEntry env ck e (ac_negativeTTL (kv_cfg env)) s else s)
       else setAuthCacheEntry env ck e (ac_l2TTL (kv_cfg env)) s))"
  using assms
  by (auto simp: loadAuthCacheEntry_def GetByKeyForAuth_def entry_now_def row_entry_def missing_entry_def Let_def
      snapshotFromAPIKey_def read_override_calm auth_columns_def split: option.split)

subsection \<open>Requests one after another\<close>

datatype key_op = OCreate int64 create_key | OUpdate int64 int64 update_key | ODelete int64 int64 | OLookup gostring
  | OTouch int64 | OCount int64 | OCharge int64 f64 | OForgetKey gostring | OForgetUser int64 | OForgetGroup int64 | OEvict gostring

definition key_step :: "key_env \<times> key_op \<Rightarrow> key_sys \<Rightarrow> key_sys" where
  "key_step step s = (case step of (env, op) \<Rightarrow> (case op of
     OCreate u req \<Rightarrow> snd (key_service_Create env u req s)
   | OUpdate i u req \<Rightarrow> snd (key_service_Update env i u req s)
   | ODelete i u \<Rightarrow> snd (key_service_Delete env i u s)
   | OLookup key \<Rightarrow> snd (key_GetByKey env key s)
   | OTouch i \<Rightarrow> snd (TouchLastUsed env i s)
   | OCount i \<Rightarrow> snd (key_IncrementUsage env i s)
   | OCharge i cost \<Rightarrow> snd (key_UpdateQuotaUsed env i cost s)
   | OForgetKey key \<Rightarrow> InvalidateAuthCacheByKey env key s
   | OForgetUser u \<Rightarrow> InvalidateAuthCacheByUserID env u s
   | OForgetGroup g \<Rightarrow> InvalidateAuthCacheByGroupID env g s
   | OEvict ck \<Rightarrow> on_invalidation ck s))"

definition key_run :: "(key_env \<times> key_op) list \<Rightarrow> key_sys \<Rightarrow> key_sys" where
  "key_run steps s = fold key_step steps s"

text \<open>Nothing overlaps, Redis deletes what it is told to, and a write that reports an error has not happened.\<close>

definition calm :: "key_env \<Rightarrow> bool" where
  "calm env \<longleftrightarrow> kv_between env = (\<lambda>_ s. s) \<and> kv_fault env KL2Del = NoFault \<and> kv_fault env KOverride = NoFault
     \<and> (\<forall>err. kv_fault env KCreate \<noteq> Unacked err) \<and> (\<forall>err. kv_fault env KUpdate \<noteq> Unacked err)
     \<and> (\<forall>err. kv_fault env KQuota \<noteq> Unacked err)
     \<and> (case kv_fault env KAuth of NoFault \<Rightarrow> True | Lost err \<Rightarrow> \<not> errors_is err (EApp ErrAPIKeyNotFound)
          | Unacked err \<Rightarrow> \<not> errors_is err (EApp ErrAPIKeyNotFound))"

definition same_deployment :: "key_env \<Rightarrow> key_env \<Rightarrow> bool" where
  "same_deployment env0 env \<longleftrightarrow> kv_cfg env = kv_cfg env0 \<and> kv_redis env = kv_redis env0 \<and> kv_rates env = kv_rates env0
     \<and> kv_sha env = kv_sha env0"

text \<open>No other key presented has the hash of \<open>key\<close>.\<close>

definition no_clash :: "(gostring \<Rightarrow> gostring) \<Rightarrow> gostring \<Rightarrow> key_op \<Rightarrow> bool" where
  "no_clash sha key op = (case op of OLookup k \<Rightarrow> sha k = sha key \<longrightarrow> k = key | _ \<Rightarrow> True)"

definition ids_ok :: "key_sys \<Rightarrow> bool" where
  "ids_ok s \<longleftrightarrow> distinct (map ak_ID (kz_keys s)) \<and> list_all (\<lambda>i. i < kz_next s) (map ak_ID (kz_keys s))"

definition level_ok :: "bool \<Rightarrow> gostring \<Rightarrow> key_sys \<Rightarrow> (auth_entry \<times> time option) option \<Rightarrow> bool" where
  "level_ok rates key s c = (case c of None \<Rightarrow> True
     | Some (e, _) \<Rightarrow> map_option forget_used (entry_now rates key s) = Some (forget_used e))"

definition coherent :: "key_env \<Rightarrow> gostring \<Rightarrow> key_sys \<Rightarrow> bool" where
  "coherent env key s \<longleftrightarrow>
     (l1Enabled (kv_cfg env) \<longrightarrow> level_ok (kv_rates env) key s (kz_l1 s (kv_sha env key)))
     \<and> (kv_redis env \<longrightarrow> level_ok (kv_rates env) key s (kz_l2 s (kv_sha env key)))"

text \<open>Two states with the same answer for a key; a state in which nothing is cached for it.\<close>

definition same_answer :: "bool \<Rightarrow> gostring \<Rightarrow> key_sys \<Rightarrow> key_sys \<Rightarrow> bool" where
  "same_answer rates key s s' \<longleftrightarrow>
     map_option forget_used (entry_now rates key s') = map_option forget_used (entry_now rates key s)"

definition uncached_at :: "key_env \<Rightarrow> gostring \<Rightarrow> key_sys \<Rightarrow> bool" where
  "uncached_at env ck s \<longleftrightarrow> (l1Enabled (kv_cfg env) \<longrightarrow> kz_l1 s ck = None) \<and> (kv_redis env \<longrightarrow> kz_l2 s ck = None)"

definition caches_shrink :: "gostring \<Rightarrow> key_sys \<Rightarrow> key_sys \<Rightarrow> bool" where
  "caches_shrink ck s s' \<longleftrightarrow> kz_l1 s' ck \<in> {None, kz_l1 s ck} \<and> kz_l2 s' ck \<in> {None, kz_l2 s ck}"

lemma coherent_uncached: "uncached_at env (kv_sha env key) s \<Longrightarrow> coherent env key s"
  by (simp add: coherent_def uncached_at_def level_ok_def)

lemma coherent_shrink:
  "coherent env key s \<Longrightarrow> same_answer (kv_rates env) key s s' \<Longrightarrow> caches_shrink (kv_sha env key) s s' \<Longrightarrow> coherent env key s'"
  by (auto simp: coherent_def same_answer_def caches_shrink_def level_ok_def split: option.splits)

text \<open>What a lookup reads of the database; the caches are none of it.\<close>

definition same_tables :: "key_sys \<Rightarrow> key_sys \<Rightarrow> bool" where
  "same_tables s s' \<longleftrightarrow> kz_keys s' = kz_keys s \<and> kz_users s' = kz_users s \<and> kz_subs s' = kz_subs s
     \<and> kz_overrides s' = kz_overrides s \<and> kz_next s' = kz_next s \<and> kz_deleted s' = kz_deleted s"

lemma entry_now_tables:
  assumes "same_tables s s'"
  shows "entry_now rates key s' = entry_now rates key s"
proof -
  have "row_entry rates k s' = row_entry rates k s" for k
    using assms by (simp add: row_entry_def user_of_def group_of_key_def override_now_def same_tables_def
        split: option.split)
  then show ?thesis
    using assms by (simp add: entry_now_def key_row_def same_tables_def split: option.split)
qed

lemma same_answer_tables: "same_tables s s' \<Longrightarrow> same_answer rates key s s'"
  by (simp add: same_answer_def entry_now_tables)

lemma ids_ok_tables: "same_tables s s' \<Longrightarrow> ids_ok s' = ids_ok s"
  by (simp add: ids_ok_def same_tables_def)

lemma same_tables_refl [simp]: "same_tables s s"
  by (simp add: same_tables_def)
lemma same_tables_trans: "same_tables s s' \<Longrightarrow> same_tables s' s'' \<Longrightarrow> same_tables s s''"
  by (simp add: same_tables_def)

subsection \<open>What the cache operations touch\<close>

lemma redis_calls_tables:
  "same_tables s (snd (SetAuthCache env ck e ttl s))" "same_tables s (snd (DeleteAuthCache env ck s))"
  "same_tables s (snd (PublishAuthCacheInvalidation env ck s))"
  by (simp_all add: SetAuthCache_def DeleteAuthCache_def PublishAuthCacheInvalidation_def with_fault_def same_tables_def
      split: fault.split)

lemma deleteAuthCache_tables: "same_tables s (deleteAuthCache env ck s)"
proof -
  let ?s1 = "if l1Enabled (kv_cfg env) then s\<lparr>kz_l1 := (kz_l1 s)(ck := None)\<rparr> else s"
  have "same_tables s ?s1" by (simp add: same_tables_def)
  with redis_calls_tables(2,3) have "same_tables s (snd (PublishAuthCacheInvalidation env ck (snd (DeleteAuthCache env ck ?s1))))"
    by (meson same_tables_trans)
  with \<open>same_tables s ?s1\<close> show ?thesis by (simp add: deleteAuthCache_def Let_def)
qed

lemma touches_cache_only [simp]:
  "same_tables s (setAuthCacheL1 env ck e s)" "same_tables s (snd (SetAuthCache env ck e ttl s))"
  "same_tables s (deleteAuthCache env ck s)" "same_tables s (InvalidateAuthCacheByKey env key s)"
  "same_tables s (delete_attempts env u s)" "same_tables s (incrementAPIKeyErrorCount env u s)"
  "same_tables s (on_invalidation ck s)"
  by (simp add: setAuthCacheL1_def Let_def same_tables_def, rule redis_calls_tables, rule deleteAuthCache_tables,
      simp add: InvalidateAuthCacheByKey_def deleteAuthCache_tables,
      simp add: delete_attempts_def with_fault_def same_tables_def split: fault.split,
      simp add: incrementAPIKeyErrorCount_def with_fault_def same_tables_def split: fault.split,
      simp add: on_invalidation_def same_tables_def)

lemma setAuthCacheEntry_tables [simp]: "same_tables s (setAuthCacheEntry env ck e ttl s)"
  using same_tables_trans [OF touches_cache_only(1,2)] by (simp add: setAuthCacheEntry_def Let_def)

lemma deleteAuthCacheByKeys_tables [simp]: "same_tables s (deleteAuthCacheByKeys env keys s)"
  unfolding deleteAuthCacheByKeys_def
  by (induction keys arbitrary: s) (auto intro: same_tables_trans [OF touches_cache_only(3)])

lemma invalidate_tables [simp]:
  "same_tables s (InvalidateAuthCacheByUserID env u s)" "same_tables s (InvalidateAuthCacheByGroupID env g s)"
  by (simp_all add: InvalidateAuthCacheByUserID_def InvalidateAuthCacheByGroupID_def split: sum.split)

lemma getAuthCacheEntry_tables [simp]: "same_tables s (snd (getAuthCacheEntry env ck s))"
  by (simp add: getAuthCacheEntry_def split: option.split sum.split)

lemma lookup_states:
  "snd (key_GetByKey env key s) = snd (getAuthCacheEntry env (kv_sha env key) s)
   \<or> snd (key_GetByKey env key s)
       = snd (loadAuthCacheEntry env key (kv_sha env key) (snd (getAuthCacheEntry env (kv_sha env key) s)))"
  by (auto simp: key_GetByKey_def Let_def split: prod.split option.split sum.split)

lemma lookup_tables:
  assumes "kv_between env = (\<lambda>_ s. s)"
  shows "same_tables s (snd (key_GetByKey env key s))"
proof -
  have "same_tables s' (snd (loadAuthCacheEntry env key ck s'))" for ck s'
    by (simp add: loadAuthCacheEntry_def Let_def assms split: sum.split option.split)
  then show ?thesis
    using lookup_states [of env key s] getAuthCacheEntry_tables same_tables_trans by metis
qed

text \<open>Deletions only shrink what is cached.\<close>

lemma caches_shrink_refl [simp]: "caches_shrink ck s s"
  by (simp add: caches_shrink_def)
lemma caches_shrink_trans: "caches_shrink ck s s' \<Longrightarrow> caches_shrink ck s' s'' \<Longrightarrow> caches_shrink ck s s''"
  by (auto simp: caches_shrink_def)

lemma deletions_shrink [simp]:
  "caches_shrink ck s (deleteAuthCache env ck' s)" "caches_shrink ck s (InvalidateAuthCacheByKey env key s)"
  "caches_shrink ck s (delete_attempts env u s)" "caches_shrink ck s (incrementAPIKeyErrorCount env u s)"
  "caches_shrink ck s (on_invalidation ck' s)"
  by (auto simp: deleteAuthCache_def DeleteAuthCache_def PublishAuthCacheInvalidation_def InvalidateAuthCacheByKey_def
      delete_attempts_def incrementAPIKeyErrorCount_def on_invalidation_def with_fault_def Let_def caches_shrink_def
      split: fault.split)

lemma many_deletions_shrink [simp]: "caches_shrink ck s (deleteAuthCacheByKeys env keys s)"
  unfolding deleteAuthCacheByKeys_def
  by (induction keys arbitrary: s) (auto intro: caches_shrink_trans [OF deletions_shrink(1)])

lemma invalidations_shrink [simp]:
  "caches_shrink ck s (InvalidateAuthCacheByUserID env u s)" "caches_shrink ck s (InvalidateAuthCacheByGroupID env g s)"
  by (simp_all add: InvalidateAuthCacheByUserID_def InvalidateAuthCacheByGroupID_def split: sum.split)

lemma deletion_empties:
  "kv_fault env KL2Del = NoFault \<Longrightarrow> key \<noteq> [] \<Longrightarrow> uncached_at env (kv_sha env key) (InvalidateAuthCacheByKey env key s)"
  by (auto simp: InvalidateAuthCacheByKey_def deleteAuthCache_def DeleteAuthCache_def PublishAuthCacheInvalidation_def
      with_fault_def Let_def uncached_at_def split: fault.split)

lemma uncached_shrink: "uncached_at env ck s \<Longrightarrow> caches_shrink ck s s' \<Longrightarrow> uncached_at env ck s'"
  by (auto simp: uncached_at_def caches_shrink_def)

text \<open>An operation that only touches the caches, and only shrinks them, keeps them coherent.\<close>

lemma coherent_deletion:
  "coherent env key s \<Longrightarrow> same_tables s s' \<Longrightarrow> caches_shrink (kv_sha env key) s s' \<Longrightarrow> coherent env key s'"
  by (blast intro: coherent_shrink same_answer_tables)

lemma coherent_deployment: "same_deployment env0 env \<Longrightarrow> coherent env key s = coherent env0 key s"
  by (simp add: same_deployment_def coherent_def)

text \<open>Writing an entry that is right, or one for another hash, keeps them coherent.\<close>

lemma setL1_writes:
  "kz_l2 (setAuthCacheL1 env ck e s) = kz_l2 s"
  "kz_l1 (setAuthCacheL1 env ck e s) ck' = kz_l1 s ck'
   \<or> ck' = ck \<and> (\<exists>t. kz_l1 (setAuthCacheL1 env ck e s) ck' = Some (e, t))"
  by (auto simp: setAuthCacheL1_def Let_def)

lemma setL2_writes:
  "kz_l1 (snd (SetAuthCache env ck e ttl s)) = kz_l1 s"
  "kz_l2 (snd (SetAuthCache env ck e ttl s)) ck' = kz_l2 s ck'
   \<or> ck' = ck \<and> (\<exists>t. kz_l2 (snd (SetAuthCache env ck e ttl s)) ck' = Some (e, t))"
  by (auto simp: SetAuthCache_def with_fault_def split: fault.split)

lemma level_ok_simps [simp]:
  "level_ok rates key s None" "level_ok rates key s (Some (e, t)) = (map_option forget_used (entry_now rates key s) = Some (forget_used e))"
  by (simp_all add: level_ok_def)

lemma level_ok_tables: "same_tables s s' \<Longrightarrow> level_ok rates key s' c = level_ok rates key s c"
  by (cases c) (auto simp: entry_now_tables)

lemma coherent_writes:
  assumes "coherent env key s" "same_tables s s'"
    and "ck = kv_sha env key \<longrightarrow> map_option forget_used (entry_now (kv_rates env) key s) = Some (forget_used e)"
    and "\<And>ck'. kz_l1 s' ck' = kz_l1 s ck' \<or> ck' = ck \<and> (\<exists>t. kz_l1 s' ck' = Some (e, t))"
    and "\<And>ck'. kz_l2 s' ck' = kz_l2 s ck' \<or> ck' = ck \<and> (\<exists>t. kz_l2 s' ck' = Some (e, t))"
  shows "coherent env key s'"
  using assms(1,3) assms(4) [of "kv_sha env key"] assms(5) [of "kv_sha env key"]
  by (auto simp: coherent_def level_ok_tables [OF assms(2)])

lemma coherent_setL1:
  assumes "coherent env key s"
    and "ck = kv_sha env key \<longrightarrow> map_option forget_used (entry_now (kv_rates env) key s) = Some (forget_used e)"
  shows "coherent env key (setAuthCacheL1 env ck e s)"
  using setL1_writes by (intro coherent_writes [OF assms(1) _ assms(2)]) auto

lemma coherent_setL2:
  assumes "coherent env key s"
    and "ck = kv_sha env key \<longrightarrow> map_option forget_used (entry_now (kv_rates env) key s) = Some (forget_used e)"
  shows "coherent env key (snd (SetAuthCache env ck e ttl s))"
  by (rule coherent_writes [OF assms(1) _ assms(2)]) (simp_all add: setL2_writes)

lemma coherent_setEntry:
  assumes "coherent env key s"
    and "ck = kv_sha env key \<longrightarrow> map_option forget_used (entry_now (kv_rates env) key s) = Some (forget_used e)"
  shows "coherent env key (setAuthCacheEntry env ck e ttl s)"
proof -
  have t: "entry_now (kv_rates env) key (setAuthCacheL1 env ck e s) = entry_now (kv_rates env) key s"
    by (rule entry_now_tables) simp
  have "coherent env key (snd (SetAuthCache env ck e ttl' (setAuthCacheL1 env ck e s)))" for ttl'
    by (rule coherent_setL2 [OF coherent_setL1 [OF assms]]) (unfold t, rule assms(2))
  with coherent_setL1 [OF assms] show ?thesis by (simp add: setAuthCacheEntry_def Let_def)
qed

lemma coherent_entry:
  assumes "coherent env key s" "getAuthCacheEntry env (kv_sha env key) s = (Some e, s1)"
  shows "map_option forget_used (entry_now (kv_rates env) key s) = Some (forget_used e)"
  using assms
  by (fastforce simp: coherent_def getAuthCacheEntry_def l1_get_def GetAuthCache_def read_fault_def level_ok_def
      split: option.splits if_splits sum.splits fault.splits)

text \<open>Looking any key up keeps what is cached for this one right.\<close>

lemma coherent_get:
  assumes "coherent env key s" "kv_sha env key' = kv_sha env key \<longrightarrow> key' = key"
  shows "coherent env key (snd (getAuthCacheEntry env (kv_sha env key') s))"
proof (cases "getAuthCacheEntry env (kv_sha env key') s")
  case (Pair hit s1)
  consider "s1 = s" | e where "hit = Some e" "s1 = setAuthCacheL1 env (kv_sha env key') e s"
    using Pair by (auto simp: getAuthCacheEntry_def split: option.splits if_splits sum.splits)
  then show ?thesis
  proof cases
    case 2
    then have "kv_sha env key' = kv_sha env key \<longrightarrow>
        map_option forget_used (entry_now (kv_rates env) key s) = Some (forget_used e)"
      using coherent_entry [OF assms(1), of e s1] assms(2) Pair by auto
    then show ?thesis using Pair 2 coherent_setL1 [OF assms(1)] by simp
  qed (use assms(1) Pair in simp)
qed

lemma load_fault:
  assumes "calm env" "kv_fault env KAuth \<noteq> NoFault"
  shows "snd (loadAuthCacheEntry env key ck s) = s"
  using assms by (auto simp: calm_def loadAuthCacheEntry_def GetByKeyForAuth_def read_fault_def Let_def split: fault.splits)

lemma coherent_lookup:
  assumes "coherent env key s" "calm env" "kv_sha env key' = kv_sha env key \<longrightarrow> key' = key"
  shows "coherent env key (snd (key_GetByKey env key' s))"
proof -
  define s1 where "s1 = snd (getAuthCacheEntry env (kv_sha env key') s)"
  have s1: "coherent env key s1" unfolding s1_def by (rule coherent_get [OF assms(1,3)])
  have "coherent env key (snd (loadAuthCacheEntry env key' (kv_sha env key') s1))"
  proof (cases "kv_fault env KAuth = NoFault")
    case True
    have e: "kv_sha env key' = kv_sha env key \<longrightarrow>
        map_option forget_used (entry_now (kv_rates env) key s1) = Some (forget_used e)"
      if "entry_now (kv_rates env) key' s1 = Some e" for e
      using that assms(3) by auto
    show ?thesis
      using True assms(2) s1 coherent_setEntry [OF s1 e]
      by (auto simp: calm_def loaded_from_database split: option.split)
  qed (use load_fault assms(2) s1 in simp)
  then show ?thesis
    using lookup_states [of env key' s] s1 unfolding s1_def by metis
qed

subsection \<open>Writes of rows\<close>

text \<open>A change of rows other than the key's leaves its answer alone, and so does one of columns no entry holds.\<close>

definition same_columns :: "api_key \<Rightarrow> api_key \<Rightarrow> bool" where
  "same_columns k k' \<longleftrightarrow> auth_columns (k'\<lparr>ak_QuotaUsed := Fin 0\<rparr>) = auth_columns (k\<lparr>ak_QuotaUsed := Fin 0\<rparr>)"

definition same_rest :: "key_sys \<Rightarrow> key_sys \<Rightarrow> bool" where
  "same_rest s s' \<longleftrightarrow> kz_users s' = kz_users s \<and> kz_subs s' = kz_subs s \<and> kz_overrides s' = kz_overrides s"

lemma same_columns_entry:
  assumes "same_columns k k'" "same_rest s s'"
  shows "map_option forget_used (row_entry rates k' s') = map_option forget_used (row_entry rates k s)"
proof -
  note c = assms(1) [unfolded same_columns_def auth_columns_def]
  have "ak_ID k' = ak_ID k" "ak_UserID k' = ak_UserID k" "ak_GroupID k' = ak_GroupID k" "ak_Name k' = ak_Name k"
    "ak_Status k' = ak_Status k" "ak_IPWhitelist k' = ak_IPWhitelist k" "ak_IPBlacklist k' = ak_IPBlacklist k"
    "ak_Quota k' = ak_Quota k" "ak_ExpiresAt k' = ak_ExpiresAt k" "ak_RateLimit5h k' = ak_RateLimit5h k"
    "ak_RateLimit1d k' = ak_RateLimit1d k" "ak_RateLimit7d k' = ak_RateLimit7d k"
    using c by (auto dest: arg_cong [where f = ak_ID] arg_cong [where f = ak_UserID] arg_cong [where f = ak_GroupID]
        arg_cong [where f = ak_Name] arg_cong [where f = ak_Status] arg_cong [where f = ak_IPWhitelist]
        arg_cong [where f = ak_IPBlacklist] arg_cong [where f = ak_Quota] arg_cong [where f = ak_ExpiresAt]
        arg_cong [where f = ak_RateLimit5h] arg_cong [where f = ak_RateLimit1d] arg_cong [where f = ak_RateLimit7d])
  then show ?thesis
    using assms(2)
    by (simp add: row_entry_def same_rest_def user_of_def group_of_key_def override_now_def forget_used_def
        split: option.split)
qed

lemma same_answer_rows:
  assumes "same_rest s s'"
    and "rel_option same_columns (key_row key s) (key_row key s')"
  shows "same_answer rates key s s'"
  using assms(2) same_columns_entry [OF _ assms(1)]
  by (auto simp: same_answer_def entry_now_def elim!: option.rel_cases)

lemma rel_same_refl [simp]: "rel_option same_columns x x"
  by (cases x) (simp_all add: same_columns_def)

lemma find_update_where:
  assumes "\<And>k. ak_Key (f k) = ak_Key k"
  shows "find (\<lambda>k. ak_Key k = key) (update_where P f rows)
    = map_option (\<lambda>k. if P k then f k else k) (find (\<lambda>k. ak_Key k = key) rows)"
  by (induction rows) (auto simp: update_where_def assms)

lemma key_rowD: "key_row key s = Some k \<Longrightarrow> k \<in> set (kz_keys s) \<and> ak_Key k = key"
  by (auto simp: key_row_def find_Some_iff)

lemma row_update_answer:
  assumes "same_rest s s'" "kz_keys s' = update_where P f (kz_keys s)" "\<And>k. ak_Key (f k) = ak_Key k"
    and "\<And>k. k \<in> set (kz_keys s) \<Longrightarrow> ak_Key k = key \<Longrightarrow> P k \<Longrightarrow> same_columns k (f k)"
  shows "same_answer rates key s s'"
proof (rule same_answer_rows [OF assms(1)])
  have "key_row key s' = map_option (\<lambda>k. if P k then f k else k) (key_row key s)"
    by (simp add: key_row_def assms(2) find_update_where [OF assms(3)])
  then show "rel_option same_columns (key_row key s) (key_row key s')"
    using assms(4) key_rowD [of key s] by (cases "key_row key s") (auto simp: same_columns_def)
qed

lemma one_row:
  "ids_ok s \<Longrightarrow> k \<in> set (kz_keys s) \<Longrightarrow> k' \<in> set (kz_keys s) \<Longrightarrow> ak_ID k = ak_ID k' \<Longrightarrow> k = k'"
  by (auto simp: ids_ok_def distinct_map inj_on_def)

lemma key_by_idD: "key_by_id i s = Some k \<Longrightarrow> k \<in> set (kz_keys s) \<and> ak_ID k = i"
  by (auto simp: key_by_id_def find_Some_iff)

lemma key_by_id_member:
  assumes "ids_ok s" "k \<in> set (kz_keys s)"
  shows "key_by_id (ak_ID k) s = Some k"
proof -
  obtain k' where k': "key_by_id (ak_ID k) s = Some k'"
    using assms(2) by (cases "key_by_id (ak_ID k) s") (auto simp: key_by_id_def find_None_iff)
  with key_by_idD [OF k'] one_row [OF assms(1) _ assms(2)] show ?thesis by simp
qed

lemma ids_ok_update:
  assumes "ids_ok s" "kz_keys s' = update_where P f (kz_keys s)" "kz_next s' = kz_next s" "\<And>k. ak_ID (f k) = ak_ID k"
  shows "ids_ok s'"
proof -
  have "map ak_ID (update_where P f rows) = map ak_ID rows" for rows
    by (induction rows) (auto simp: update_where_def assms(4))
  then show ?thesis using assms(1-3) by (simp add: ids_ok_def del: list.pred_map)
qed

definition key_good :: "key_env \<Rightarrow> gostring \<Rightarrow> key_sys \<Rightarrow> bool" where
  "key_good env key s \<longleftrightarrow> ids_ok s \<and> coherent env key s"

lemma key_good_deletion:
  "key_good env key s \<Longrightarrow> same_tables s s' \<Longrightarrow> caches_shrink (kv_sha env key) s s' \<Longrightarrow> key_good env key s'"
  unfolding key_good_def using ids_ok_tables coherent_deletion by blast

text \<open>A write of rows followed by the deletion of what is cached for one key.\<close>

lemma key_good_written:
  assumes "key_good env key s" "calm env" "key \<noteq> []" "ids_ok s'"
    and "kz_l1 s' = kz_l1 s" "kz_l2 s' = kz_l2 s"
    and "changed = key \<or> same_answer (kv_rates env) key s s'"
  shows "key_good env key (InvalidateAuthCacheByKey env changed s')"
proof -
  have "coherent env key (InvalidateAuthCacheByKey env changed s')"
  proof (cases "changed = key")
    case True
    then show ?thesis using assms(2,3) by (simp add: coherent_uncached deletion_empties calm_def)
  next
    case False
    have "coherent env key s" using assms(1) by (simp add: key_good_def)
    moreover have "same_answer (kv_rates env) key s s'" using False assms(7) by simp
    moreover have "caches_shrink (kv_sha env key) s s'" using assms(5,6) by (simp add: caches_shrink_def)
    ultimately have "coherent env key s'" by (rule coherent_shrink)
    then show ?thesis by (rule coherent_deletion) simp_all
  qed
  moreover have "ids_ok (InvalidateAuthCacheByKey env changed s')"
    by (rule iffD2 [OF ids_ok_tables assms(4)]) simp
  ultimately show ?thesis by (simp add: key_good_def)
qed

lemma insert_key_good:
  assumes "key_good env key s" "calm env" "key \<noteq> []" "insert_key env k s = (Inr row, s')"
  shows "key_good env key (InvalidateAuthCacheByKey env (ak_Key row) s')"
proof (rule key_good_written [OF assms(1-3)])
  note new = assms(4) [unfolded insert_key_def Let_def]
  show "ids_ok s'" "kz_l1 s' = kz_l1 s" "kz_l2 s' = kz_l2 s"
    using new assms(1) by (force simp: key_good_def ids_ok_def list_all_iff split: if_splits)+
  have "key_row key s' = key_row key s" if "ak_Key row \<noteq> key"
    using that new by (auto simp: key_row_def find_append split: if_splits option.splits)
  moreover have "same_rest s s'" using new by (auto simp: same_rest_def split: if_splits)
  ultimately show "ak_Key row = key \<or> same_answer (kv_rates env) key s s'"
    using same_answer_rows [of s s' key] by fastforce
qed

lemma create_good:
  assumes "key_good env key s" "calm env" "key \<noteq> []"
  shows "key_good env key (snd (key_service_Create env u req s))"
proof -
  have between: "kv_between env c = (\<lambda>s. s)" for c using assms(2) by (simp add: calm_def fun_eq_iff)
  have choose: "key_good env key (snd (choose_key env u req s))"
    using assms(1) by (auto simp: choose_key_def split: option.splits sum.splits intro: key_good_deletion)
  have create: "snd (key_Create env k s1) = s1 \<or> key_Create env k s1 = insert_key env k s1" for k s1
    using assms(2) by (auto simp: key_Create_def with_fault_err_def calm_def split: fault.splits)
  have refused: "insert_key env k s1 = (Inl err, s2) \<Longrightarrow> s2 = s1" for k s1 err s2
    by (auto simp: insert_key_def Let_def split: if_splits)
  have written: "key_good env key (snd (and_then (wrap_err m (key_Create env k s1))
      (\<lambda>k s2. (Inr (returned_key (kv_ip env) k), InvalidateAuthCacheByKey env (ak_Key k) s2))))"
    if "key_good env key s1" for m k s1
  proof (cases "key_Create env k s1")
    case (Pair res s2)
    show ?thesis
    proof (cases res)
      case (Inl err)
      then show ?thesis using Pair create [of k s1] refused [of k s1 err s2] that by auto
    next
      case (Inr row)
      then show ?thesis
        using Pair create [of k s1] insert_key_good [OF that assms(2,3), of k row s2] that
        by (auto intro: key_good_deletion)
    qed
  qed
  have "key_good env key (snd (and_then (choose_key env u req s) f))"
    if "\<And>k s1. key_good env key s1 \<Longrightarrow> key_good env key (snd (f k s1))" for f :: "gostring \<Rightarrow> key_sys \<Rightarrow> loaded_key result \<times> key_sys"
    by (rule and_then_keeps [of "key_good env key"]) (use choose that in auto)
  then show ?thesis
    using assms(1) written by (simp add: key_service_Create_def between split: option.split)
qed

text \<open>The edits of a request keep the key's identity.\<close>

lemma set_opt_keeps: "(\<And>v k. g (f v k) = g k) \<Longrightarrow> g (set_opt x f k) = g k"
  by (simp add: set_opt_def split: option.split)

lemma reactivate_identity [simp]:
  "ak_ID (reactivate c st k) = ak_ID k" "ak_Key (reactivate c st k) = ak_Key k" "ak_UserID (reactivate c st k) = ak_UserID k"
  "ak_QuotaUsed (reactivate c st k) = ak_QuotaUsed k"
  by (simp_all add: reactivate_def)

lemma edit_identity [simp]:
  "ak_ID (edit_quota req k) = ak_ID k" "ak_Key (edit_quota req k) = ak_Key k"
  "ak_ID (edit_expiry now req k) = ak_ID k" "ak_Key (edit_expiry now req k) = ak_Key k"
  "ak_ID (edit_limits req k) = ak_ID k" "ak_Key (edit_limits req k) = ak_Key k"
  by (simp_all add: edit_quota_def edit_expiry_def edit_limits_def Let_def set_opt_keeps)

lemma edited_identity [simp]: "ak_ID (edited_key now req k) = ak_ID k" "ak_Key (edited_key now req k) = ak_Key k"
  by (simp_all add: edited_key_def Let_def set_opt_keeps)

lemma written_identity [simp]: "ak_ID (written_row env k row) = ak_ID row" "ak_Key (written_row env k row) = ak_Key row"
  by (simp_all add: written_row_def)

lemma update_row_good:
  assumes "key_good env key s" "calm env" "key \<noteq> []" "k \<in> set (kz_keys s)" "ak_ID k' = ak_ID k" "ak_Key k' = ak_Key k"
    and "update_key_row env k' s = (Inr row, s')"
  shows "key_good env key (InvalidateAuthCacheByKey env (ak_Key row) s')"
proof (rule key_good_written [OF assms(1-3)])
  have s': "s' = s\<lparr>kz_keys := update_where (\<lambda>r. ak_ID r = ak_ID k) (written_row env k') (kz_keys s)\<rparr>"
    and row: "ak_Key row = ak_Key k"
    using assms(5-7) by (auto simp: update_key_row_def split: if_splits)
  show "kz_l1 s' = kz_l1 s" "kz_l2 s' = kz_l2 s" by (simp_all add: s')
  have ids: "ids_ok s" using assms(1) by (simp add: key_good_def)
  show "ids_ok s'" 
    by (rule ids_ok_update [OF ids, where P = "\<lambda>r. ak_ID r = ak_ID k" and f = "written_row env k'"]) (simp_all add: s')
  have "same_answer (kv_rates env) key s s'" if "ak_Key k \<noteq> key"
    by (rule row_update_answer [where P = "\<lambda>r. ak_ID r = ak_ID k" and f = "written_row env k'"])
       (use that one_row [OF ids _ assms(4)] in \<open>auto simp: s' same_rest_def\<close>)
  then show "ak_Key row = key \<or> same_answer (kv_rates env) key s s'" using row by auto
qed

lemma update_good:
  assumes "key_good env key s" "calm env" "key \<noteq> []"
  shows "key_good env key (snd (key_service_Update env i u req s))"
proof (cases "key_GetByID (kv_fault env KGet) i s")
  case (Inr lk)
  have between: "kv_between env c = (\<lambda>s. s)" for c using assms(2) by (simp add: calm_def fun_eq_iff)
  let ?k = "lk_Row lk" and ?k' = "edited_key (kv_now env) req (lk_Row lk)"
  define s1 where "s1 = (if uk_Status req \<noteq> None then delete_attempts env (ak_UserID ?k) s else s)"
  have same: "same_tables s s1" by (simp add: s1_def)
  have good: "key_good env key s1"
    by (rule key_good_deletion [OF assms(1) same]) (simp add: s1_def)
  have member: "?k \<in> set (kz_keys s1)"
    using Inr same key_by_idD [of i s] by (auto simp: key_GetByID_def read_fault_def same_tables_def split: fault.splits option.splits)
  have fault: "snd (key_Update env ?k' s1) = s1 \<or> key_Update env ?k' s1 = update_key_row env ?k' s1"
    using assms(2) by (auto simp: key_Update_def with_fault_err_def calm_def split: fault.splits)
  have "key_good env key (snd (and_then (wrap_err ''update api key'' (key_Update env ?k' s1)) (\<lambda>row s2.
      (let s3 = InvalidateAuthCacheByKey env (ak_Key row) s2 in
       (Inr (compileAPIKeyIPRules (kv_ip env) (lk\<lparr>lk_Row := row\<rparr>)),
        if uk_ResetRateLimitUsage req = Some True \<and> kv_rate_cache env
        then s3\<lparr>kz_rate_dropped := kz_rate_dropped s3 @ [ak_ID row]\<rparr> else s3))))) "
  proof (cases "key_Update env ?k' s1")
    case (Pair res s2)
    have drop: "key_good env key s3 \<Longrightarrow> key_good env key (s3\<lparr>kz_rate_dropped := x\<rparr>)" for s3 x
      by (erule key_good_deletion) (simp_all add: same_tables_def caches_shrink_def)
    show ?thesis
    proof (cases res)
      case (Inl err)
      then have "s2 = s1" using Pair fault by (auto simp: update_key_row_def split: if_splits)
      then show ?thesis using Pair Inl good by simp
    next
      case (Inr row)
      then have "s2 = s1 \<or> update_key_row env ?k' s1 = (Inr row, s2)" using Pair fault by auto
      then have "key_good env key (InvalidateAuthCacheByKey env (ak_Key row) s2)"
        using update_row_good [OF good assms(2,3) member, of ?k' row s2] key_good_deletion [OF good] by fastforce
      then show ?thesis using Pair Inr drop by (simp add: Let_def)
    qed
  qed
  then show ?thesis
    using Inr assms(1) between unfolding s1_def
    by (cases "uk_Status req"; cases "update_checks env u req (lk_Row lk) s") (simp_all add: key_service_Update_def Let_def)
qed (use assms(1) in \<open>simp add: key_service_Update_def\<close>)

text \<open>A deletion finds the caches of the key already empty.\<close>

lemma delete_row_answer:
  assumes "ids_ok s" "k \<in> set (kz_keys s)" "ak_ID k = i" "ak_Key k \<noteq> key"
  shows "same_answer rates key s (snd (delete_key_row env i s))"
proof (rule same_answer_rows)
  have "find (\<lambda>r. ak_Key r = key) (filter (\<lambda>r. ak_ID r \<noteq> i) rows) = find (\<lambda>r. ak_Key r = key) rows"
    if "set rows \<subseteq> set (kz_keys s)" for rows
    using that one_row [OF assms(1) _ assms(2)] assms(3,4) by (induction rows) auto
  then show "rel_option same_columns (key_row key s) (key_row key (snd (delete_key_row env i s)))"
    by (simp add: delete_key_row_def key_row_def)
  show "same_rest s (snd (delete_key_row env i s))" by (simp add: delete_key_row_def same_rest_def)
qed

lemma delete_row_ids: "ids_ok s \<Longrightarrow> ids_ok (snd (delete_key_row env i s))"
  by (auto simp: ids_ok_def delete_key_row_def list_all_iff distinct_map_filter)

lemma delete_good:
  assumes "key_good env key s" "calm env" "key \<noteq> []"
  shows "key_good env key (snd (key_service_Delete env i u s))"
proof (cases "GetKeyAndOwnerID (kv_fault env KOwner) i s")
  case (Inr res)
  obtain kt owner where res: "res = (kt, owner)" by (cases res)
  obtain k where k: "k \<in> set (kz_keys s)" "ak_ID k = i" "ak_Key k = kt"
    using Inr res key_by_idD [of i s]
    by (auto simp: GetKeyAndOwnerID_def read_fault_def split: fault.splits option.splits)
  have between: "kv_between env c = (\<lambda>s. s)" for c using assms(2) by (simp add: calm_def fun_eq_iff)
  define s1 where "s1 = InvalidateAuthCacheByKey env kt (delete_attempts env u s)"
  have same: "same_tables s s1"
    unfolding s1_def by (rule same_tables_trans [OF touches_cache_only(5) touches_cache_only(4)])
  have shrink: "caches_shrink (kv_sha env key) s s1"
    unfolding s1_def by (rule caches_shrink_trans [OF deletions_shrink(3) deletions_shrink(2)])
  have good: "key_good env key s1" by (rule key_good_deletion [OF assms(1) same shrink])
  have caches: "kz_l1 (snd (delete_key_row env i s1)) = kz_l1 s1" "kz_l2 (snd (delete_key_row env i s1)) = kz_l2 s1"
    by (simp_all add: delete_key_row_def)
  have "coherent env key (snd (delete_key_row env i s1))"
  proof (cases "kt = key")
    case True
    have "uncached_at env (kv_sha env key) s1"
      unfolding s1_def True by (rule deletion_empties) (use assms(2,3) in \<open>simp_all add: calm_def\<close>)
    then show ?thesis using caches by (intro coherent_uncached) (simp add: uncached_at_def)
  next
    case False
    have "same_answer (kv_rates env) key s1 (snd (delete_key_row env i s1))"
      by (rule delete_row_answer [where k = k])
         (use good k same False in \<open>auto simp: key_good_def same_tables_def\<close>)
    with good show ?thesis using caches
      by (auto simp: key_good_def caches_shrink_def intro: coherent_shrink)
  qed
  then have deleted: "key_good env key (snd (delete_key_row env i s1))"
    using good delete_row_ids by (simp add: key_good_def)
  have "key_good env key (snd (wrap_err ''delete api key'' (key_Delete env i s1)))"
    using good deleted by (simp add: key_Delete_def with_fault_err_def split: fault.split)
  moreover have "key_good env key (s2\<lparr>kz_touch := x\<rparr>)" if "key_good env key s2" for s2 x
    using that by (rule key_good_deletion) (simp_all add: same_tables_def caches_shrink_def)
  ultimately have "key_good env key (snd (and_then (wrap_err ''delete api key'' (key_Delete env i s1))
      (\<lambda>_ s2. (Inr (), s2\<lparr>kz_touch := (kz_touch s2)(i := None)\<rparr>))))"
    by (intro and_then_keeps [of "key_good env key"]) simp_all
  then show ?thesis
    using Inr res assms(1) between by (simp add: key_service_Delete_def Let_def s1_def)
qed (use assms(1) in \<open>simp add: key_service_Delete_def\<close>)

text \<open>Charges and touches write columns no entry holds, but for the status a charge can set.\<close>

lemma touch_good:
  assumes "key_good env key s"
  shows "key_good env key (snd (TouchLastUsed env i s))"
proof -
  define f :: "api_key \<Rightarrow> api_key" where "f = (\<lambda>k. k\<lparr>ak_LastUsedAt := Some (kv_now env), ak_UpdatedAt := kv_now env\<rparr>)"
  have touched: "key_good env key (s\<lparr>kz_keys := update_where (\<lambda>k. ak_ID k = i) f (kz_keys s), kz_touch := x\<rparr>)" for x
  proof -
    let ?s = "s\<lparr>kz_keys := update_where (\<lambda>k. ak_ID k = i) f (kz_keys s), kz_touch := x\<rparr>"
    have "same_answer (kv_rates env) key s ?s"
      by (rule row_update_answer [where P = "\<lambda>k. ak_ID k = i" and f = f])
         (simp_all add: same_rest_def f_def same_columns_def auth_columns_def)
    moreover have "ids_ok ?s"
      by (rule ids_ok_update [of s, where P = "\<lambda>k. ak_ID k = i" and f = f]) (use assms in \<open>simp_all add: key_good_def f_def\<close>)
    ultimately show ?thesis
      using assms coherent_shrink [of env key s ?s] by (simp add: key_good_def caches_shrink_def)
  qed
  have idle: "key_good env key (s\<lparr>kz_touch := x\<rparr>)" for x
    using assms by (rule key_good_deletion) (simp_all add: same_tables_def caches_shrink_def)
  obtain res rows where u: "UpdateLastUsed (kv_fault env KTouch) i (kv_now env) (kz_keys s) = (res, rows)" by fastforce
  then have "rows = kz_keys s \<or> rows = update_where (\<lambda>k. ak_ID k = i) f (kz_keys s)"
    by (cases "kv_fault env KTouch") (auto simp: UpdateLastUsed_def with_fault_err_def f_def split: if_splits)
  then show ?thesis
    using assms touched idle u by (auto simp: TouchLastUsed_def split: prod.split sum.split)
qed

lemma charge_row_good:
  fixes num_add :: num_add and now :: time and cost :: f64 and s :: key_sys and i :: int64
  assumes "key_good env key s" "key_by_id i s = Some k"
  defines "f \<equiv> quota_state_row num_add now cost"
  defines "s' \<equiv> s\<lparr>kz_keys := update_where (\<lambda>k. ak_ID k = i) f (kz_keys s)\<rparr>"
  shows "ids_ok s' \<and> (ak_Key k = key \<and> ak_Status (f k) = StatusAPIKeyQuotaExhausted \<or> same_answer (kv_rates env) key s s')"
proof
  have ids: "ids_ok s" using assms(1) by (simp add: key_good_def)
  show "ids_ok s'"
    by (rule ids_ok_update [OF ids, where P = "\<lambda>k. ak_ID k = i" and f = f]) (simp_all add: s'_def f_def quota_state_row_def)
  note k = key_by_idD [OF assms(2)]
  have "same_answer (kv_rates env) key s s'" if other: "\<not> (ak_Key k = key \<and> ak_Status (f k) = StatusAPIKeyQuotaExhausted)"
  proof (rule row_update_answer [where P = "\<lambda>k. ak_ID k = i" and f = f])
    fix r assume r: "r \<in> set (kz_keys s)" "ak_Key r = key" "ak_ID r = i"
    then have "r = k" using one_row [OF ids] k by simp
    then show "same_columns r (f r)"
      using other r(2) by (auto simp: same_columns_def f_def quota_state_row_def auth_columns_def split: if_splits)
  qed (simp_all add: s'_def same_rest_def f_def quota_state_row_def)
  then show "ak_Key k = key \<and> ak_Status (f k) = StatusAPIKeyQuotaExhausted \<or> same_answer (kv_rates env) key s s'" by blast
qed

lemma charge_good:
  assumes "key_good env key s" "calm env" "trim_space key \<noteq> []"
  shows "key_good env key (snd (key_UpdateQuotaUsed env i cost s))"
proof -
  let ?f = "quota_state_row (kv_num env) (kv_now env) cost"
  let ?s' = "\<lambda>rows. s\<lparr>kz_keys := rows\<rparr>"
  have ne: "key \<noteq> []" using assms(3) by auto
  have same: "?s' (kz_keys s) = s" by simp
  show ?thesis
  proof (cases "fle cost (Fin 0) \<or> kv_fault env KQuota \<noteq> NoFault \<or> key_by_id i s = None")
    case True
    then have "snd (UpdateQuotaUsed (kv_fault env KQuota) (kv_num env) (kv_now env) i cost (kz_keys s)) = kz_keys s
      \<and> snd (fst (UpdateQuotaUsed (kv_fault env KQuota) (kv_num env) (kv_now env) i cost (kz_keys s))) = None"
      using assms(2)
      by (auto simp: UpdateQuotaUsed_def IncrementQuotaUsedAndGetState_def with_fault_err_def key_update_def key_by_id_def
          calm_def split: fault.splits)
    then show ?thesis using assms(1)
      by (cases "UpdateQuotaUsed (kv_fault env KQuota) (kv_num env) (kv_now env) i cost (kz_keys s)")
         (auto simp: key_UpdateQuotaUsed_def)
  next
    case False
    then obtain k where k: "key_by_id i s = Some k" by blast
    define s1 where "s1 = s\<lparr>kz_keys := update_where (\<lambda>k. ak_ID k = i) ?f (kz_keys s)\<rparr>"
    have key: "ak_Key (?f k) = ak_Key k" by (simp add: quota_state_row_def)
    have result: "snd (key_UpdateQuotaUsed env i cost s) =
      (if ak_Status (?f k) = StatusAPIKeyQuotaExhausted \<and> trim_space (ak_Key k) \<noteq> []
       then InvalidateAuthCacheByKey env (ak_Key k) s1 else s1)"
      using False k key
      by (auto simp: key_UpdateQuotaUsed_def UpdateQuotaUsed_def IncrementQuotaUsedAndGetState_def key_update_def
          key_by_id_def s1_def)
    note row = charge_row_good [OF assms(1) k, where num_add = "kv_num env" and now = "kv_now env" and cost = cost,
        folded s1_def]
    show ?thesis
    proof (cases "ak_Status (?f k) = StatusAPIKeyQuotaExhausted \<and> trim_space (ak_Key k) \<noteq> []")
      case True
      have "key_good env key (InvalidateAuthCacheByKey env (ak_Key k) s1)"
        by (rule key_good_written [OF assms(1,2) ne]) (use row in \<open>auto simp: s1_def\<close>)
      then show ?thesis using True result by simp
    next
      case False
      then have "same_answer (kv_rates env) key s s1" using row assms(3) by auto
      then have "coherent env key s1"
        using assms(1) by (auto simp: key_good_def caches_shrink_def s1_def intro: coherent_shrink)
      then have "key_good env key s1" using row by (simp add: key_good_def)
      then show ?thesis unfolding result if_not_P [OF False] .
    qed
  qed
qed

lemma count_good: "key_good env key s \<Longrightarrow> key_good env key (snd (key_IncrementUsage env i s))"
  by (erule key_good_deletion)
     (auto simp: key_IncrementUsage_def and_then_def wrap_err_def with_fault_def Let_def IncrementDailyUsage_def
        SetDailyUsageExpiry_def same_tables_def caches_shrink_def split: fault.splits)

lemma step_good:
  assumes "key_good env key s" "calm env" "trim_space key \<noteq> []" "no_clash (kv_sha env) key op"
  shows "key_good env key (key_step (env, op) s)"
proof (cases op)
  have ne: "key \<noteq> []" using assms(3) by auto
  note h = assms(1,2) ne
  {
    case (OCreate u req) then show ?thesis using create_good [OF h] by (simp add: key_step_def)
  next
    case (OUpdate i u req) then show ?thesis using update_good [OF h] by (simp add: key_step_def)
  next
    case (ODelete i u) then show ?thesis using delete_good [OF h] by (simp add: key_step_def)
  next
    case (OLookup key')
    have "coherent env key (snd (key_GetByKey env key' s))"
      using assms OLookup by (intro coherent_lookup) (auto simp: key_good_def no_clash_def)
    moreover have "ids_ok (snd (key_GetByKey env key' s))"
      by (rule iffD2 [OF ids_ok_tables [OF lookup_tables]]) (use assms(1,2) in \<open>simp_all add: calm_def key_good_def\<close>)
    ultimately show ?thesis using OLookup by (simp add: key_step_def key_good_def)
  next
    case (OTouch i) then show ?thesis using touch_good [OF assms(1)] by (simp add: key_step_def)
  next
    case (OCount i) then show ?thesis using count_good [OF assms(1)] by (simp add: key_step_def)
  next
    case (OCharge i cost) then show ?thesis using charge_good [OF assms(1-3)] by (simp add: key_step_def)
  }
qed (auto simp: key_step_def intro: key_good_deletion [OF assms(1)])

subsection \<open>The answer from the cache\<close>

text \<open>An answer without the quota used so far.\<close>

definition forget_found :: "loaded_key result \<Rightarrow> loaded_key result" where
  "forget_found res = map_sum id (\<lambda>k. k\<lparr>lk_Row := (lk_Row k)\<lparr>ak_QuotaUsed := Fin 0\<rparr>\<rparr>) res"

definition no_cache :: "key_sys \<Rightarrow> key_sys" where
  "no_cache s = s\<lparr>kz_l1 := (\<lambda>_. None), kz_l2 := (\<lambda>_. None)\<rparr>"

definition entry_answer :: "ip_lib \<Rightarrow> gostring \<Rightarrow> auth_entry \<Rightarrow> loaded_key result" where
  "entry_answer lib key e = forget_found (found_key lib (the (applyAuthCacheEntry lib key e)))"

lemma entry_answer_forget: "applyAuthCacheEntry lib key e \<noteq> None \<Longrightarrow> entry_answer lib key e = entry_answer lib key (forget_used e)"
  by (auto simp: entry_answer_def forget_found_def found_key_def applyAuthCacheEntry_def forget_used_def snapshotToAPIKey_def
      compileAPIKeyIPRules_def split: option.splits if_splits)

lemma usable_forget: "applyAuthCacheEntry lib key (forget_used e) \<noteq> None \<longleftrightarrow> applyAuthCacheEntry lib key e \<noteq> None"
  by (simp add: applyAuthCacheEntry_def forget_used_def split: option.split)

lemma entry_now_usable: "entry_now rates key s = Some e \<Longrightarrow> applyAuthCacheEntry lib key e \<noteq> None"
  by (auto simp: entry_now_def missing_entry_def row_entry_def applyAuthCacheEntry_def split: option.splits)

lemma lookup_answer:
  assumes "coherent env key s" "kv_fault env KAuth = NoFault" "kv_fault env KOverride = NoFault"
    "kv_between env = (\<lambda>_ s. s)"
  shows "forget_found (fst (key_GetByKey env key s)) = (case map_option forget_used (entry_now (kv_rates env) key s) of
     None \<Rightarrow> Inl (EWrap ''get api key'' (EApp ErrAPIKeyNotFound)) | Some e \<Rightarrow> entry_answer (kv_ip env) key e)"
proof -
  obtain hit s1 where get: "getAuthCacheEntry env (kv_sha env key) s = (hit, s1)" by fastforce
  have now: "entry_now (kv_rates env) key s1 = entry_now (kv_rates env) key s"
    using getAuthCacheEntry_tables [of s env "kv_sha env key"] get by (auto intro: entry_now_tables)
  show ?thesis
  proof (cases hit)
    case None
    show ?thesis
    proof (cases "entry_now (kv_rates env) key s")
      case (Some e)
      then have "applyAuthCacheEntry (kv_ip env) key e \<noteq> None" by (rule entry_now_usable)
      then show ?thesis
        using None Some get now entry_answer_forget [of "kv_ip env" key e]
        by (auto simp: key_GetByKey_def loaded_from_database [OF assms(2-4)] entry_answer_def Let_def)
    qed (use None get now in \<open>simp add: key_GetByKey_def loaded_from_database [OF assms(2-4)] forget_found_def Let_def\<close>)
  next
    case (Some e)
    then obtain e' where e': "entry_now (kv_rates env) key s = Some e'" "forget_used e' = forget_used e"
      using coherent_entry [OF assms(1)] get by auto
    then have "applyAuthCacheEntry (kv_ip env) key e \<noteq> None"
      using entry_now_usable usable_forget by metis
    then show ?thesis
      using Some get e' entry_answer_forget [of "kv_ip env" key e]
      by (auto simp: key_GetByKey_def entry_answer_def Let_def)
  qed
qed


definition demo_key_user :: key_user where
  "demo_key_user = \<lparr>ku_ID = 3, ku_Email = ''a'', ku_Username = ''b'', ku_Role = ''user'', ku_Balance = Fin 1, ku_Concurrency = 1,
     ku_Status = StatusActive, ku_AllowedGroups = [], ku_SignupSource = [], ku_LastLoginAt = None, ku_LastActiveAt = None,
     ku_BalanceNotifyEnabled = False, ku_BalanceNotifyThresholdType = [], ku_BalanceNotifyThreshold = None,
     ku_BalanceNotifyExtraEmails = [], ku_TotalRecharged = Fin 0, ku_RPMLimit = 0, ku_UserGroupRPMOverride = None\<rparr>"

definition demo_keys :: key_sys where
  "demo_keys = \<lparr>kz_keys = [demo_key], kz_deleted = [], kz_next = 8, kz_users = [demo_key_user],
     kz_subs = \<lparr>sd_rows = [], sd_next_id = 1, sd_groups = []\<rparr>, kz_overrides = (\<lambda>_. None), kz_l1 = (\<lambda>_. None), kz_l2 = (\<lambda>_. None),
     kz_attempts = (\<lambda>_. 0), kz_published = [], kz_rate_dropped = [], kz_touch = (\<lambda>_. None),
     kz_daily = (\<lambda>_. None)\<rparr>"

definition demo_key_env :: "(key_call \<Rightarrow> key_sys \<Rightarrow> key_sys) \<Rightarrow> time \<Rightarrow> key_env" where
  "demo_key_env between now = \<lparr>kv_now = now, kv_fault = (\<lambda>_. NoFault), kv_between = between,
     kv_cfg = \<lparr>ac_l1Size = 65535, ac_l1TTL = 15 * Second, ac_l2TTL = 300 * Second, ac_negativeTTL = 30 * Second,
       ac_jitterPercent = 0, ac_singleflight = True\<rparr>,
     kv_redis = True, kv_admit = True, kv_rates = True, kv_rate_cache = True, kv_rand = Fin 0, kv_sha = (\<lambda>x. x),
     kv_ip = \<lparr>pl_ParseIP = (\<lambda>_. None), pl_ParseCIDR = (\<lambda>_. None), pl_Contains = (\<lambda>_ _. False), pl_Equal = (\<lambda>_ _. False),
       pl_SplitHostPort = (\<lambda>_. None)\<rparr>,
     kv_random = Inr [], kv_prefix = [], kv_loc = UTC, kv_num = fadd\<rparr>"

definition quiet :: "key_call \<Rightarrow> key_sys \<Rightarrow> key_sys" where "quiet = (\<lambda>_ s. s)"

lemma demo_calm [simp]: "calm (demo_key_env quiet now)" "same_deployment (demo_key_env b t) (demo_key_env b' t')"
  by (simp_all add: calm_def quiet_def demo_key_env_def same_deployment_def)

lemma demo_text [simp]: "trim_space (ak_Key demo_key) \<noteq> []" "ak_Key demo_key \<noteq> []"
  by code_simp+


subsection \<open>Requests that overlap\<close>

text \<open>What a lookup with empty caches leaves in them.\<close>

lemma fresh_lookup:
  assumes "uncached_at env (kv_sha env key) s" "kv_redis env" "l2Enabled (kv_cfg env)" "kv_fault env KAuth = NoFault"
    and "kv_fault env KOverride = NoFault" "kv_between env = (\<lambda>_ s. s)" "kv_fault env KL2Set = NoFault"
    and "entry_now (kv_rates env) key s = Some e" "\<not> ae_NotFound e" "entry_encodes e"
  defines "d \<equiv> auth_jitterTTL env (ac_l2TTL (kv_cfg env))"
  defines "s' \<equiv> snd (key_GetByKey env key s)"
  shows "kz_l2 s' (kv_sha env key) = Some (e, if 0 < d then Some (kv_now env + d) else None)
    \<and> (l1Enabled (kv_cfg env) \<longrightarrow> kz_l1 s' (kv_sha env key) = None \<or> (\<exists>t. kz_l1 s' (kv_sha env key) = Some (e, t)))"
proof -
  let ?ck = "kv_sha env key"
  have get: "getAuthCacheEntry env ?ck s = (None, s)"
    using assms(1,2) by (auto simp: getAuthCacheEntry_def l1_get_def GetAuthCache_def uncached_at_def read_fault_def
        split: fault.split)
  have "s' = setAuthCacheEntry env ?ck e (ac_l2TTL (kv_cfg env)) s"
    using get assms(8,9) entry_now_usable [OF assms(8), of "kv_ip env"]
    by (auto split: option.split simp: s'_def key_GetByKey_def Let_def loaded_from_database [OF assms(4-6)])
  then have s': "s' = snd (SetAuthCache env ?ck e d (setAuthCacheL1 env ?ck e s))"
    using assms(2,3) by (simp add: setAuthCacheEntry_def Let_def d_def)
  then have "kz_l1 s' = kz_l1 (setAuthCacheL1 env ?ck e s)"
    "kz_l2 s' ?ck = Some (e, if 0 < d then Some (kv_now env + d) else None)"
    using assms(7,10) by (simp_all add: SetAuthCache_def)
  then show ?thesis
    using setL1_writes(2) [of env ?ck e s ?ck] assms(1) by (auto simp: uncached_at_def)
qed

lemma cached_lookup:
  assumes "kz_l2 s (kv_sha env key) = Some (e, expiry)" "case expiry of None \<Rightarrow> True | Some t \<Rightarrow> kv_now env < t"
    and "l1Enabled (kv_cfg env) \<longrightarrow> kz_l1 s (kv_sha env key) = None \<or> (\<exists>t. kz_l1 s (kv_sha env key) = Some (e, t))"
    and "kv_redis env" "l2Enabled (kv_cfg env)" "kv_fault env KL2Get = NoFault" "applyAuthCacheEntry (kv_ip env) key e = Some res"
  shows "fst (key_GetByKey env key s) = found_key (kv_ip env) res"
proof -
  have "GetAuthCache env (kv_sha env key) s = Inr e"
    using assms(1,2,6) by (simp add: GetAuthCache_def split: option.splits)
  then have "fst (getAuthCacheEntry env (kv_sha env key) s) = Some e"
    using assms(3-5) by (auto simp: getAuthCacheEntry_def l1_get_def split: option.split)
  then obtain s1 where "getAuthCacheEntry env (kv_sha env key) s = (Some e, s1)"
    by (cases "getAuthCacheEntry env (kv_sha env key) s") auto
  then show ?thesis using assms(7) by (simp add: key_GetByKey_def Let_def)
qed

lemma deleted_row_is_gone:
  assumes "distinct (map ak_Key (kz_keys s))" "key_row key s = Some k" "ids_ok s"
    and "\<not> key_taken (tombstone (kv_now env) (ak_ID k)) s"
  shows "fst (delete_key_row env (ak_ID k) s) = Inr () \<and> key_row key (snd (delete_key_row env (ak_ID k) s)) = None"
proof -
  note k = key_rowD [OF assms(2)]
  have "r = k" if "r \<in> set (kz_keys s)" "ak_Key r = key" for r
    using that k assms(1) by (auto simp: distinct_map inj_on_def)
  moreover have "affected (\<lambda>r. ak_ID r = ak_ID k) (kz_keys s) \<noteq> 0"
    using k by (auto simp: affected_def filter_empty_conv)
  ultimately show ?thesis
    using assms(4) by (auto simp: delete_key_row_def key_row_def find_None_iff)
qed

lemma delete_result:
  assumes "GetKeyAndOwnerID (kv_fault env KOwner) i s = Inr (key, u)" "kv_fault env KDelete = NoFault"
    and "kv_between env KDelete (InvalidateAuthCacheByKey env key (delete_attempts env u s)) = s2"
    and "fst (delete_key_row env i s2) = Inr ()"
  shows "key_service_Delete env i u s
    = (Inr (), (snd (delete_key_row env i s2))\<lparr>kz_touch := (kz_touch (snd (delete_key_row env i s2)))(i := None)\<rparr>)"
  using assms by (cases "delete_key_row env i s2") (simp add: key_service_Delete_def Let_def key_Delete_def)

lemma delete_row_keeps [simp]:
  "kz_l1 (snd (delete_key_row env i s)) = kz_l1 s" "kz_l2 (snd (delete_key_row env i s)) = kz_l2 s"
  by (simp_all add: delete_key_row_def)

lemma row_entry_answer:
  assumes "row_entry rates k s = Some e"
  shows "\<not> ae_NotFound e \<and> (\<exists>found. applyAuthCacheEntry lib key e = Some (Inr found) \<and> ak_ID (lk_Row found) = ak_ID k
    \<and> ak_UserID (lk_Row found) = ak_UserID k \<and> ak_Status (lk_Row found) = ak_Status k)"
  using assms
  by (auto simp: row_entry_def applyAuthCacheEntry_def snapshotToAPIKey_def compileAPIKeyIPRules_def split: option.splits)

text \<open>The state in which a deletion leaves the caches when it empties them, a lookup fills them again, and the row goes.\<close>

lemma emptied_then_cached:
  fixes key :: gostring and env env1 :: key_env and s :: key_sys and u :: int64
  assumes "key \<noteq> []" "kv_fault env KL2Del = NoFault" "same_deployment env env1" "kv_between env1 = (\<lambda>_ s. s)"
    and "kv_fault env1 = (\<lambda>_. NoFault)" "kv_redis env" "l2Enabled (kv_cfg env)" "key_row key s = Some k"
    and "row_entry (kv_rates env) k s = Some e" "entry_encodes e"
  defines "s1 \<equiv> InvalidateAuthCacheByKey env key (delete_attempts env u s)"
  defines "s2 \<equiv> snd (key_GetByKey env1 key s1)"
  defines "d \<equiv> auth_jitterTTL env1 (ac_l2TTL (kv_cfg env))"
  shows "same_tables s s2 \<and> kz_l2 s2 (kv_sha env key) = Some (e, if 0 < d then Some (kv_now env1 + d) else None)
    \<and> (l1Enabled (kv_cfg env) \<longrightarrow> kz_l1 s2 (kv_sha env key) = None \<or> (\<exists>t. kz_l1 s2 (kv_sha env key) = Some (e, t)))"
proof -
  have same1: "same_tables s s1"
    unfolding s1_def by (rule same_tables_trans [OF touches_cache_only(5) touches_cache_only(4)])
  have same2: "same_tables s s2"
    unfolding s2_def by (rule same_tables_trans [OF same1 lookup_tables]) (fact assms(4))
  have empty: "uncached_at env1 (kv_sha env key) s1"
    using deletion_empties [OF assms(2,1), of "delete_attempts env u s"] assms(3)
    by (simp add: s1_def uncached_at_def same_deployment_def)
  have e: "entry_now (kv_rates env1) key s1 = Some e" "\<not> ae_NotFound e"
    using assms(3,8,9) entry_now_tables [OF same1] row_entry_answer [OF assms(9)]
    by (simp_all add: entry_now_def same_deployment_def)
  show ?thesis
    using fresh_lookup [of env1 key s1 e] same2 empty e assms(3-7,10)
    by (simp add: same_deployment_def s2_def d_def)
qed

text \<open>C39: Deleting a key drops its cached authentication first and the row afterwards. A lookup that falls between the two caches
  the key again, and nothing drops that entry: after the deletion has succeeded and the row is gone, the key still
  authenticates, with the status it had, until the entry expires.\<close>

theorem deleted_key_still_authenticates:
  assumes "key_row key s = Some k" "key \<noteq> []" "ak_UserID k = u" "distinct (map ak_Key (kz_keys s))" "ids_ok s"
    and "kv_fault env = (\<lambda>_. NoFault)" "kv_between env KDelete = (\<lambda>s. snd (key_GetByKey env1 key s))"
    and "kv_fault env1 = (\<lambda>_. NoFault)" "kv_between env1 = (\<lambda>_ s. s)" "kv_fault env2 = (\<lambda>_. NoFault)"
    and "same_deployment env env1" "same_deployment env env2" "kv_redis env" "l2Enabled (kv_cfg env)"
    and "row_entry (kv_rates env) k s = Some e" "entry_encodes e" "\<not> key_taken (tombstone (kv_now env) (ak_ID k)) s"
    and "0 < auth_jitterTTL env1 (ac_l2TTL (kv_cfg env)) \<longrightarrow> kv_now env2 < kv_now env1 + auth_jitterTTL env1 (ac_l2TTL (kv_cfg env))"
  defines "s' \<equiv> snd (key_service_Delete env (ak_ID k) u s)"
  shows "fst (key_service_Delete env (ak_ID k) u s) = Inr () \<and> key_row key s' = None
    \<and> (\<exists>found. fst (key_GetByKey env2 key s') = Inr found \<and> ak_ID (lk_Row found) = ak_ID k
         \<and> ak_UserID (lk_Row found) = u \<and> ak_Status (lk_Row found) = ak_Status k)"
proof -
  note k = key_rowD [OF assms(1)]
  then have owner: "GetKeyAndOwnerID (kv_fault env KOwner) (ak_ID k) s = Inr (key, u)"
    using assms(3,6) key_by_id_member [OF assms(5)] by (simp add: GetKeyAndOwnerID_def)
  let ?ck = "kv_sha env key"
  define s1 where "s1 = InvalidateAuthCacheByKey env key (delete_attempts env u s)"
  define s2 where "s2 = snd (key_GetByKey env1 key s1)"
  have state: "same_tables s s2"
    "kz_l2 s2 ?ck = Some (e, if 0 < auth_jitterTTL env1 (ac_l2TTL (kv_cfg env))
      then Some (kv_now env1 + auth_jitterTTL env1 (ac_l2TTL (kv_cfg env))) else None)"
    "l1Enabled (kv_cfg env) \<longrightarrow> kz_l1 s2 ?ck = None \<or> (\<exists>t. kz_l1 s2 ?ck = Some (e, t))"
    using emptied_then_cached [of key env env1 s k e u] assms(1,2,6,8,9,11,13-16) unfolding s1_def s2_def by simp_all
  have gone: "fst (delete_key_row env (ak_ID k) s2) = Inr ()" "key_row key (snd (delete_key_row env (ak_ID k) s2)) = None"
    using deleted_row_is_gone [of s2 key k env] assms(1,4,5,17) state(1)
    by (simp_all add: same_tables_def key_row_def ids_ok_def key_taken_def)
  have "kv_between env KDelete s1 = s2" by (simp add: assms(7) s2_def)
  then have result: "key_service_Delete env (ak_ID k) u s = (Inr (), (snd (delete_key_row env (ak_ID k) s2))
      \<lparr>kz_touch := (kz_touch (snd (delete_key_row env (ak_ID k) s2)))(ak_ID k := None)\<rparr>)"
    using owner gone(1) assms(6) unfolding s1_def by (intro delete_result) simp_all
  then have s': "kz_l2 s' = kz_l2 s2" "kz_l1 s' = kz_l1 s2" "key_row key s' = None"
    using gone(2) by (simp_all add: s'_def key_row_def)
  obtain found where found: "applyAuthCacheEntry (kv_ip env2) key e = Some (Inr found)"
      "ak_ID (lk_Row found) = ak_ID k" "ak_UserID (lk_Row found) = u" "ak_Status (lk_Row found) = ak_Status k"
    using row_entry_answer [OF assms(15)] assms(3) by metis
  have "fst (key_GetByKey env2 key s') = found_key (kv_ip env2) (Inr found)"
  proof (rule cached_lookup)
    show "kz_l2 s' (kv_sha env2 key) = Some (e, if 0 < auth_jitterTTL env1 (ac_l2TTL (kv_cfg env))
        then Some (kv_now env1 + auth_jitterTTL env1 (ac_l2TTL (kv_cfg env))) else None)"
      using state(2) s'(1) assms(12) by (simp add: same_deployment_def)
    show "l1Enabled (kv_cfg env2) \<longrightarrow> kz_l1 s' (kv_sha env2 key) = None \<or> (\<exists>t. kz_l1 s' (kv_sha env2 key) = Some (e, t))"
      using state(3) s'(2) assms(12) by (simp add: same_deployment_def)
  qed (use found(1) assms(10,12-14,18) in \<open>simp_all add: same_deployment_def\<close>)
  then show ?thesis
    using result s'(3) found by (simp add: found_key_def compileAPIKeyIPRules_def)
qed

definition looked_up_meanwhile :: "key_call \<Rightarrow> key_sys \<Rightarrow> key_sys" where
  "looked_up_meanwhile c s = (if c = KDelete then snd (key_GetByKey (demo_key_env quiet 0) (ak_Key demo_key) s) else s)"

lemma demo_entry:
  obtains e where "row_entry True demo_key demo_keys = Some e" "entry_encodes e"
proof -
  have "row_entry True demo_key demo_keys \<noteq> None \<and> entry_encodes (the (row_entry True demo_key demo_keys))"
    by (simp add: row_entry_def user_of_def demo_keys_def demo_key_def demo_key_user_def entry_encodes_def snapshot_encodes_def
        user_snapshot_def edge_user_def is_finite_def opt_finite_def group_of_key_def)
  then show ?thesis using that by auto
qed

lemma demo_jitter [simp]: "auth_jitterTTL (demo_key_env b t) ttl = ttl"
  by (simp add: auth_jitterTTL_def demo_key_env_def)

lemma demo_key_env_simps [simp]:
  "kv_fault (demo_key_env b t) = (\<lambda>_. NoFault)" "kv_between (demo_key_env b t) = b" "kv_now (demo_key_env b t) = t"
  "kv_redis (demo_key_env b t)" "kv_rates (demo_key_env b t)" "l2Enabled (kv_cfg (demo_key_env b t))"
  "ac_l2TTL (kv_cfg (demo_key_env b t)) = 300 * Second" "kv_num (demo_key_env b t) = fadd"
  by (simp_all add: demo_key_env_def l2Enabled_def Second_def)

lemma demo_keys_simps [simp]:
  "key_row (ak_Key demo_key) demo_keys = Some demo_key" "key_by_id 7 demo_keys = Some demo_key" "ids_ok demo_keys"
  "distinct (map ak_Key (kz_keys demo_keys))" "ak_ID demo_key = 7" "ak_UserID demo_key = 3"
  by (simp_all add: key_row_def key_by_id_def ids_ok_def demo_keys_def demo_key_def)

theorem deleted_key_still_authenticates_witness:
  fixes s'
  defines "s' \<equiv> snd (key_service_Delete (demo_key_env looked_up_meanwhile 0) (ak_ID demo_key) 3 demo_keys)"
  shows "fst (key_service_Delete (demo_key_env looked_up_meanwhile 0) (ak_ID demo_key) 3 demo_keys) = Inr ()
    \<and> key_row (ak_Key demo_key) s' = None
    \<and> (\<exists>found. fst (key_GetByKey (demo_key_env quiet (200 * Second)) (ak_Key demo_key) s') = Inr found
         \<and> ak_ID (lk_Row found) = ak_ID demo_key \<and> ak_UserID (lk_Row found) = 3 \<and> ak_Status (lk_Row found) = ak_Status demo_key)"
proof -
  obtain e where e: "row_entry True demo_key demo_keys = Some e" "entry_encodes e" by (rule demo_entry)
  have taken: "\<not> key_taken (tombstone 0 7) demo_keys"
    by (simp add: key_taken_def demo_keys_def demo_key_def tombstone_def)
  show ?thesis
    unfolding s'_def
    by (rule deleted_key_still_authenticates [where ?env1.0 = "demo_key_env quiet 0" and e = e])
       (use e taken in \<open>simp_all add: quiet_def looked_up_meanwhile_def Second_def fun_eq_iff\<close>)
qed

lemma find_update_id:
  assumes "\<And>k. ak_ID (f k) = ak_ID k"
  shows "find (\<lambda>k. ak_ID k = i) (update_where P f rows) = map_option (\<lambda>k. if P k then f k else k) (find (\<lambda>k. ak_ID k = i) rows)"
  by (induction rows) (auto simp: update_where_def assms)

lemma key_by_id_tables: "same_tables s s' \<Longrightarrow> key_by_id i s' = key_by_id i s"
  by (simp add: same_tables_def key_by_id_def)

lemma charge_keeps_row:
  assumes "key_by_id i s = Some k" "kv_fault env KQuota = NoFault"
  shows "fst (key_UpdateQuotaUsed env i cost s) = Inr () \<and> (\<exists>r. key_by_id i (snd (key_UpdateQuotaUsed env i cost s)) = Some r)"
proof (cases "fle cost (Fin 0)")
  case True
  then show ?thesis using assms by (simp add: key_UpdateQuotaUsed_def UpdateQuotaUsed_def)
next
  case False
  let ?f = "quota_state_row (kv_num env) (kv_now env) cost"
  define s1 where "s1 = s\<lparr>kz_keys := update_where (\<lambda>k. ak_ID k = i) ?f (kz_keys s)\<rparr>"
  have "ak_ID (?f k) = ak_ID k" for k by (simp add: quota_state_row_def)
  then have row: "\<exists>r. key_by_id i s1 = Some r"
    using assms(1) find_update_id [of ?f i "\<lambda>k. ak_ID k = i" "kz_keys s"] by (simp add: key_by_id_def s1_def)
  have "fst (key_UpdateQuotaUsed env i cost s) = Inr () \<and> snd (key_UpdateQuotaUsed env i cost s) \<in>
      {s1, InvalidateAuthCacheByKey env (ak_Key (?f k)) s1}"
    using False assms
    by (auto simp: key_UpdateQuotaUsed_def UpdateQuotaUsed_def IncrementQuotaUsedAndGetState_def key_update_def
        key_by_id_def s1_def)
  then show ?thesis
    using row key_by_id_tables [of s1 "InvalidateAuthCacheByKey env (ak_Key (?f k)) s1" i] by auto
qed

text \<open>The row an edit leaves.\<close>

lemma update_result:
  assumes "key_GetByID (kv_fault env KGet) i s = Inr lk" "update_checks env u req (lk_Row lk) s = None" "ak_ID (lk_Row lk) = i"
    and "s2 = kv_between env KUpdate (if uk_Status req \<noteq> None then delete_attempts env (ak_UserID (lk_Row lk)) s else s)"
    and "key_by_id i s2 = Some r" "kv_fault env KUpdate = NoFault"
  shows "key_by_id i (snd (key_service_Update env i u req s)) = Some (written_row env (edited_key (kv_now env) req (lk_Row lk)) r)"
proof -
  let ?k' = "edited_key (kv_now env) req (lk_Row lk)"
  define s3 where "s3 = s2\<lparr>kz_keys := update_where (\<lambda>r. ak_ID r = i) (written_row env ?k') (kz_keys s2)\<rparr>"
  have "key_Update env ?k' s2 = (Inr (?k'\<lparr>ak_UpdatedAt := kv_now env\<rparr>), s3)"
    using assms(3,6) key_by_idD [OF assms(5)]
    by (auto simp: key_Update_def update_key_row_def affected_def filter_empty_conv s3_def)
  then have same: "key_by_id i (snd (key_service_Update env i u req s)) = key_by_id i (InvalidateAuthCacheByKey env (ak_Key ?k') s3)"
    using assms(1,2,4) by (auto simp: key_service_Update_def Let_def key_by_id_def)
  have "key_by_id i s3 = Some (written_row env ?k' r)"
    using assms(5) find_update_id [of "written_row env ?k'" i "\<lambda>r. ak_ID r = i" "kz_keys s2"] key_by_idD [OF assms(5)]
    by (simp add: key_by_id_def s3_def)
  with key_by_id_tables [of s3 "InvalidateAuthCacheByKey env (ak_Key ?k') s3" i] show ?thesis unfolding same by simp
qed

lemma edit_used [simp]:
  "ak_QuotaUsed (edit_expiry now req k) = ak_QuotaUsed k" "ak_QuotaUsed (edit_limits req k) = ak_QuotaUsed k"
  "uk_ResetQuota req \<noteq> Some True \<Longrightarrow> ak_QuotaUsed (edit_quota req k) = ak_QuotaUsed k"
  by (simp_all add: edit_limits_def edit_expiry_def edit_quota_def Let_def set_opt_keeps)

lemma edit_keeps_used:
  assumes "uk_ResetQuota req \<noteq> Some True"
  shows "ak_QuotaUsed (edited_key now req k) = ak_QuotaUsed k"
proof -
  have "ak_QuotaUsed (set_opt (uk_Name req) (\<lambda>x k. k\<lparr>ak_Name := x\<rparr>) k) = ak_QuotaUsed k"
    "ak_QuotaUsed (set_opt (uk_GroupID req) (\<lambda>g k. k\<lparr>ak_GroupID := Some g\<rparr>) k') = ak_QuotaUsed k'"
    "ak_QuotaUsed (set_opt (uk_Status req) (\<lambda>x k. k\<lparr>ak_Status := x\<rparr>) k') = ak_QuotaUsed k'" for k'
    by (simp_all add: set_opt_keeps)
  then show ?thesis using assms by (simp add: edited_key_def Let_def)
qed

text \<open>C40: An edit writes every column of the row from what it read at its start. A charge that another request makes in between
  is reported as done, and is gone: the row's used quota and its status are those the edit read, as if nothing had been
  charged, even when the charge had used the quota up.\<close>

theorem edit_erases_charge:
  assumes "key_by_id i s = Some k" "update_checks env u req k s = None" "uk_ResetQuota req \<noteq> Some True"
    and "kv_fault env KGet = NoFault" "kv_fault env KUpdate = NoFault" "kv_fault env1 KQuota = NoFault"
    and "kv_between env KUpdate = (\<lambda>s. snd (key_UpdateQuotaUsed env1 i cost s))"
  defines "s1 \<equiv> (if uk_Status req \<noteq> None then delete_attempts env (ak_UserID k) s else s)"
  defines "s' \<equiv> snd (key_service_Update env i u req s)"
  shows "fst (key_UpdateQuotaUsed env1 i cost s1) = Inr ()
    \<and> (\<exists>row. key_by_id i s' = Some row \<and> ak_QuotaUsed row = col env (ak_QuotaUsed k)
         \<and> ak_Status row = ak_Status (edited_key (kv_now env) req k))"
proof -
  obtain lk where lk: "key_GetByID (kv_fault env KGet) i s = Inr lk" "lk_Row lk = k"
    using assms(1,4) by (simp add: key_GetByID_def)
  have same: "same_tables s s1" by (simp add: s1_def)
  note charge = charge_keeps_row [OF trans [OF key_by_id_tables [OF same] assms(1)] assms(6), of cost]
  then obtain r where "key_by_id i (snd (key_UpdateQuotaUsed env1 i cost s1)) = Some r" by blast
  then have "key_by_id i s' = Some (written_row env (edited_key (kv_now env) req k) r)"
    using update_result [OF lk(1) _ _ refl, unfolded lk(2), of u req r] assms(2,5,7) key_by_idD [OF assms(1)]
    unfolding s'_def s1_def by simp
  then show ?thesis using charge edit_keeps_used [OF assms(3)] by (simp add: written_row_def)
qed

definition charged_meanwhile :: "key_call \<Rightarrow> key_sys \<Rightarrow> key_sys" where
  "charged_meanwhile c s = (if c = KUpdate then snd (key_UpdateQuotaUsed (demo_key_env quiet 0) 7 (Fin 5) s) else s)"

definition rename_request :: update_key where
  "rename_request = \<lparr>uk_Name = Some ''n'', uk_GroupID = None, uk_Status = None, uk_IPWhitelist = [], uk_IPBlacklist = [],
     uk_Quota = None, uk_ExpiresAt = None, uk_ClearExpiration = False, uk_ResetQuota = None, uk_RateLimit5h = None,
     uk_RateLimit1d = None, uk_RateLimit7d = None, uk_ResetRateLimitUsage = None\<rparr>"

theorem edit_erases_charge_witness:
  fixes s'
  defines "s' \<equiv> snd (key_service_Update (demo_key_env charged_meanwhile 0) 7 3 rename_request demo_keys)"
  shows "fst (key_UpdateQuotaUsed (demo_key_env quiet 0) 7 (Fin 5) demo_keys) = Inr ()
    \<and> (\<exists>row. key_by_id 7 s' = Some row \<and> ak_QuotaUsed row = fadd (Fin 0) (Fin 9) \<and> ak_Status row = StatusAPIKeyActive)"
proof -
  have "update_checks (demo_key_env charged_meanwhile 0) 3 rename_request demo_key demo_keys = None"
    by (simp add: update_checks_def rename_request_def patterns_refused_def bad_patterns_def ValidateIPPatterns_def)
  moreover have "ak_QuotaUsed demo_key = Fin 9" "ak_Status demo_key = StatusAPIKeyActive" by (simp_all add: demo_key_def)
  moreover have "ak_Status (edited_key 0 rename_request demo_key) = ak_Status demo_key"
    by (simp add: edited_key_def rename_request_def edit_quota_def edit_expiry_def edit_limits_def set_opt_def)
  ultimately show ?thesis
    using edit_erases_charge [of 7 demo_keys demo_key "demo_key_env charged_meanwhile 0" 3 rename_request "demo_key_env quiet 0" "Fin 5"]
    by (simp add: s'_def charged_meanwhile_def fun_eq_iff rename_request_def col_def)
qed

end
