(* ===== verification/Spec2Isabelle.thy ===== *)
theory Spec2Isabelle
  imports SystemOpLock PaymentRefundLaws OpenAILegacyLaws UsageBillingLaws BillingCostLaws ConcurrencyLaws BillingGateLaws
    PromoLaws ApiKeyLaws
begin

text \<open>
  A model of the backend of an API gateway for language models, \<open>src/backend/internal\<close>, and what makes it correct.

  \<^bold>\<open>The program.\<close> A request carries an API key. The gateway finds the key, its user and its group through a two-level
  cache, checks that the balance or the subscription, the key's own limits and the requests per minute allow it, takes a
  slot of the user and of an upstream account chosen by a scheduler, forwards the request, prices the tokens it used by
  the group's channel and the price list, and charges user, subscription, key and account in one transaction that a
  request id passes once. Money comes in through payment orders, redeem codes, promo codes and subscriptions. Retried
  requests of the administration go through an idempotency store, on which the lock of maintenance operations is built.

  \<^bold>\<open>Base.\<close> \<open>GoPrelude\<close> (strings, integers, lists updated by condition), \<open>GoFloat\<close> (binary64 with its rounding),
  \<open>GoTime\<close> (instants, durations, locations) and \<open>GoDB\<close> (statements under faults, transactions) are shared by every
  component; \<open>AppErrors\<close> is \<open>pkg/errors\<close>. An operation is a function of its environment (clock, faults of its calls,
  what other processes do between its steps, answers of foreign services) and of the state it reads and returns; a Go
  \<open>error\<close> is the left of a sum. A call to a database or to Redis happens, or does not happen, or happens without
  the caller learning it, as the environment's fault for it says; a crash after a call is the run in which all later calls
  are lost.

  \<^bold>\<open>Components.\<close>

  \<^item> Idempotency: \<open>IdempotencyStore\<close> (\<open>repository/idempotency_repo.go\<close>), \<open>Idempotency\<close> (\<open>service/idempotency.go\<close>),
    \<open>SystemOpLock\<close> (\<open>service/system_operation_lock_service.go\<close>, \<open>idempotency_cleanup_service.go\<close>). A keyed request runs
    once and is replayed after; the lock is exclusive while it is renewed. The locale \<open>claim_store\<close> is the contract of
    the table the two clients rest on.
  \<^item> Subscriptions: \<open>GatewayGroup\<close> (\<open>service/group.go\<close>), \<open>SubscriptionStore\<close>
    (\<open>repository/user_subscription_repo.go\<close>), \<open>Subscription\<close> and \<open>SubscriptionLaws\<close> (\<open>service/subscription_service.go\<close>):
    the table stays sound, renewals add days, the check on the request path agrees with the table after maintenance.
  \<^item> Codes: \<open>Redeem\<close> (\<open>service/redeem_service.go\<close>), \<open>Promo\<close> and \<open>PromoLaws\<close> (\<open>service/promo_service.go\<close>): a code is
    redeemed once, a promo code's books balance.
  \<^item> Payments: \<open>PaymentTypes\<close>, \<open>PaymentAmounts\<close>, \<open>PaymentFulfillment\<close>, \<open>PaymentLifecycle\<close>, \<open>PaymentRefund\<close>
    (\<open>internal/payment\<close>, \<open>service/payment_*.go\<close>), with \<open>PaymentLaws\<close>, \<open>PaymentStates\<close>, \<open>PaymentRefundLaws\<close>: credited at
    most once, the status machine every operation refines, refunded at most once. The locale \<open>fulfil_closed\<close> is proved
    once for every payment operation and interpreted for following the machine and for a closed refund.
  \<^item> Accounts: \<open>GatewayAccount\<close>, \<open>AccountFeatures\<close>, \<open>AccountQuota\<close>, \<open>AccountLaws\<close> (\<open>service/account.go\<close>): model mapping,
    switches, rolling and fixed quota periods.
  \<^item> Selection: \<open>SchedHeap\<close>, \<open>OpenAIScheduler\<close>, \<open>OpenAISelect\<close>, \<open>OpenAILegacySelect\<close> with their laws
    (\<open>service/openai_account_scheduler.go\<close>, \<open>openai_gateway_service.go\<close>): the best accounts in order, every check of
    the selected account, every slot accounted for, the excluding loops end. The locale \<open>keyed_better\<close> holds the heap.
  \<^item> Limits: \<open>Concurrency\<close> and \<open>ConcurrencyLaws\<close> (\<open>repository/concurrency_cache.go\<close>, \<open>service/concurrency_service.go\<close>):
    requests in flight stay within the limit. The locale \<open>slot_pool\<close> is the contract of the scripts.
  \<^item> Prices: \<open>Channel\<close>, \<open>ChannelService\<close>, \<open>ChannelLaws\<close> (\<open>service/channel*.go\<close>, \<open>repository/channel_repo*.go\<close>),
    \<open>ModelNames\<close> (\<open>service/pricing_service.go\<close>, \<open>openai_model_alias.go\<close>), \<open>BillingCost\<close>, \<open>BillingCostLaws\<close>
    (\<open>service/billing_service.go\<close>, \<open>model_pricing_resolver.go\<close>): lookups answer as configured, costs are sane.
  \<^item> Keys: \<open>ApiKey\<close>, \<open>ApiKeyService\<close>, \<open>ApiKeyCache\<close>, \<open>ApiKeyLaws\<close> (\<open>service/api_key*.go\<close>, \<open>repository/api_key_repo.go\<close>,
    \<open>api_key_cache.go\<close>): quota and rate-limit windows, the cached answer is the current one.
  \<^item> Charging: \<open>UsageBilling\<close>, \<open>UsageBillingLaws\<close> (\<open>repository/usage_billing_repo.go\<close>, parts of \<open>gateway_service.go\<close>): a
    request is charged at most once. \<open>BillingGate\<close>, \<open>BillingGateLaws\<close> (\<open>service/billing_cache_service.go\<close>,
    \<open>repository/billing_cache.go\<close>): the check before a request, requests per minute, the circuit breaker.

  \<^bold>\<open>Theories of laws.\<close> A theory named \<open>...Laws\<close> (and the end of those without one) has the invariants of its component,
  the lemma of each operation on it, and the properties, each a few steps over them. Several properties show where the
  code does not do what it means to: each of these is a run of the model with a statement of what is lost.

  \<^bold>\<open>Bounds.\<close> Go's \<open>int\<close> and \<open>int64\<close> are integers with \<open>wrap64\<close> written where a result can leave the range; counts of
  tokens and identifiers, which cannot reach it, are not wrapped. Loops that end on their own are structural or have a
  measure. The loop of the selection that excludes one account after another has no bound in the code; it is a partial
  function into \<open>option\<close>, and is proved to return. The renewal loop of the lock, the workers of the queues and the
  waiting for a slot are modelled one tick at a time. No definition takes fuel.

  \<^bold>\<open>Parameters.\<close> What the program does not contain: the outcome of hashing, JSON and the \<open>net\<close> package; package
  \<open>decimal\<close> by the laws of its documentation; \<open>strings.ToLower\<close> and \<open>ToUpper\<close> beyond ASCII; the rounding of a numeric
  column (\<open>num_add\<close>); the order of a Go map's iteration and of \<open>sort.Slice\<close> among equals, over all of which the laws
  quantify; the pages a Redis \<open>SCAN\<close> returns; the answers of payment providers and upstreams; random numbers. Floating
  point is that of amd64, without fused operations. A Redis script is one atomic step. Properties that rest on such
  behaviour name it as a hypothesis and come with a run where it holds.

  \<^bold>\<open>Not modelled.\<close> The forwarding itself: rewriting of requests and streaming of answers for each provider
  (\<open>openai_ws_forwarder.go\<close>, \<open>antigravity_gateway_service.go\<close>, \<open>gemini_messages_compat_service.go\<close>, \<open>pkg/apicompat\<close>, most
  of \<open>gateway_service.go\<close>), which is network I/O and conversion of JSON documents. Clients of payment providers, OAuth and
  e-mail, for the same reason. Creating an order and the payment settings, sign-in and user profiles, affiliates, settings,
  the administrator's editing of accounts and groups, the reporting queries over the usage log, monitoring, backups,
  updates and migrations: each is a component of its own that the modelled ones meet only through rows or settings, which
  are state or environment here. The reactions to upstream errors (\<open>ratelimit_service.go\<close>) and the scheduler's snapshot in
  Redis: the selection reads their result, the stored account. HTTP handlers and middleware, configuration and wiring, the
  code ent generates, the frontend. Logging and metrics of the modelled operations, and paged listings, are left out
  everywhere. Two calls that run at the same time are runs of the model in which the environment's \<open>between\<close> or the
  order of steps says what the other did; a component's theory says where that is coarser than the code.
\<close>

end
